(* ===== verification/AMR_Prelude.thy ===== *)
theory AMR_Prelude
  imports Main "HOL-Library.Word" "HOL-Library.Monad_Syntax"
begin

text \<open>
  Shared vocabulary of the development.

  C integers of a fixed width are words (\<open>u8\<close>, \<open>u16\<close>, \<open>u32\<close>, \<open>u64\<close>), so every
  \<open>+\<close>, \<open>-\<close> and \<open>*\<close> wraps as it does in the code.  A C array of a fixed length is a
  function from indices, and every access of the code goes through \<open>arr_get\<close> or
  \<open>arr_set\<close>, which are \<open>None\<close> outside the bounds.

  A piece of code that may fail to have a defined continuation (an access outside an
  array, a loop that never ends) is a function into \<open>option\<close>, sequenced with the \<open>do\<close>
  notation of the option monad and with the state passed explicitly.  \<open>None\<close> means
  "undefined behaviour or no return"; an error code of the source is an ordinary value.

  \<open>post m Q\<close> says that every defined result of \<open>m\<close> satisfies \<open>Q\<close> (partial
  correctness); \<open>okay m Q\<close> says that \<open>m\<close> is defined and its result satisfies \<open>Q\<close>
  (total correctness).  Their rules, in the collection \<open>post_rules\<close>, are the
  verification-condition rules of the component proofs; the collection \<open>frames\<close>
  gathers what an operation leaves unchanged.
\<close>

unbundle bit_operations_syntax

type_synonym u8 = "8 word"
type_synonym u16 = "16 word"
type_synonym u32 = "32 word"
type_synonym u64 = "64 word"

named_theorems post_rules \<open>introduction rules for partial correctness of option programs\<close>
named_theorems frames \<open>what an operation leaves unchanged\<close>

section \<open>Partial and total correctness of option-valued code\<close>

definition post :: "'a option \<Rightarrow> ('a \<Rightarrow> bool) \<Rightarrow> bool" where
  "post m Q \<longleftrightarrow> (case m of None \<Rightarrow> True | Some x \<Rightarrow> Q x)"

definition okay :: "'a option \<Rightarrow> ('a \<Rightarrow> bool) \<Rightarrow> bool" where
  "okay m Q \<longleftrightarrow> (case m of None \<Rightarrow> False | Some x \<Rightarrow> Q x)"

lemma post_Some [simp]: "post (Some x) Q = Q x"
  by (simp add: post_def)

lemma post_None [simp]: "post None Q"
  by (simp add: post_def)

lemma okay_Some [simp]: "okay (Some x) Q = Q x"
  by (simp add: okay_def)

lemma okay_None [simp]: "\<not> okay None Q"
  by (simp add: okay_def)

lemma postD: "post m Q \<Longrightarrow> m = Some x \<Longrightarrow> Q x"
  by simp

lemma postI: "(\<And>x. m = Some x \<Longrightarrow> Q x) \<Longrightarrow> post m Q"
  by (cases m) simp_all

lemma okay_iff: "okay m Q \<longleftrightarrow> (\<exists>x. m = Some x \<and> Q x)"
  by (cases m) simp_all

lemma okayE: "okay m Q \<Longrightarrow> (\<And>x. m = Some x \<Longrightarrow> Q x \<Longrightarrow> thesis) \<Longrightarrow> thesis"
  by (auto simp: okay_iff)

lemma okay_post: "okay m Q \<Longrightarrow> post m Q"
  by (cases m) simp_all

lemma post_bind_iff: "post (Option.bind m f) Q \<longleftrightarrow> post m (\<lambda>x. post (f x) Q)"
  by (cases m) simp_all

lemma okay_bind_iff: "okay (Option.bind m f) Q \<longleftrightarrow> okay m (\<lambda>x. okay (f x) Q)"
  by (cases m) simp_all

lemma post_weaken: "post m P \<Longrightarrow> (\<And>x. P x \<Longrightarrow> Q x) \<Longrightarrow> post m Q"
  by (cases m) simp_all

lemma okay_weaken: "okay m P \<Longrightarrow> (\<And>x. P x \<Longrightarrow> Q x) \<Longrightarrow> okay m Q"
  by (cases m) simp_all

lemma okay_conj: "okay m P \<Longrightarrow> post m Q \<Longrightarrow> okay m (\<lambda>x. P x \<and> Q x)"
  by (cases m) simp_all

lemma post_bind: "post m P \<Longrightarrow> (\<And>x. P x \<Longrightarrow> post (f x) Q) \<Longrightarrow> post (Option.bind m f) Q"
  by (cases m) simp_all

lemma okay_bind: "okay m P \<Longrightarrow> (\<And>x. P x \<Longrightarrow> okay (f x) Q) \<Longrightarrow> okay (Option.bind m f) Q"
  by (cases m) simp_all

lemma post_if [post_rules]:
  "(b \<Longrightarrow> post x Q) \<Longrightarrow> (\<not> b \<Longrightarrow> post y Q) \<Longrightarrow> post (if b then x else y) Q"
  by simp

lemma post_ret [post_rules]: "Q x \<Longrightarrow> post (Some x) Q"
  by simp

section \<open>C arrays of a fixed length\<close>

definition arr_get :: "nat \<Rightarrow> (nat \<Rightarrow> 'a) \<Rightarrow> nat \<Rightarrow> 'a option" where
  "arr_get n a i = (if i < n then Some (a i) else None)"

definition arr_set :: "nat \<Rightarrow> (nat \<Rightarrow> 'a) \<Rightarrow> nat \<Rightarrow> 'a \<Rightarrow> (nat \<Rightarrow> 'a) option" where
  "arr_set n a i v = (if i < n then Some (a(i := v)) else None)"

text \<open>\<open>memcpy\<close> of the first \<open>k\<close> elements: defined when both arrays hold them.\<close>

definition arr_copy :: "nat \<Rightarrow> (nat \<Rightarrow> 'a) \<Rightarrow> nat \<Rightarrow> (nat \<Rightarrow> 'a) \<Rightarrow> nat \<Rightarrow> (nat \<Rightarrow> 'a) option" where
  "arr_copy n dst m src k =
     (if k \<le> n \<and> k \<le> m then Some (\<lambda>i. if i < k then src i else dst i) else None)"

lemma arr_get_Some_iff [simp]: "arr_get n a i = Some v \<longleftrightarrow> i < n \<and> v = a i"
  by (auto simp: arr_get_def)

lemma arr_set_Some_iff [simp]: "arr_set n a i v = Some b \<longleftrightarrow> i < n \<and> b = a(i := v)"
  by (auto simp: arr_set_def)

lemma arr_copy_Some_iff [simp]:
  "arr_copy n d m s k = Some b \<longleftrightarrow> k \<le> n \<and> k \<le> m \<and> b = (\<lambda>i. if i < k then s i else d i)"
  by (auto simp: arr_copy_def)

section \<open>Words\<close>

lemma unat_inc: "unat (w :: 'a :: len word) + 1 < 2 ^ LENGTH('a) \<Longrightarrow> unat (w + 1) = unat w + 1"
  by (simp add: unat_word_ariths)

lemma unat_bound: "unat (w :: 'a :: len word) < 2 ^ LENGTH('a)"
  by (rule unsigned_less)

lemma unat_ucast_up [simp]:
  "LENGTH('a :: len) \<le> LENGTH('b :: len) \<Longrightarrow> unat (ucast (w :: 'a word) :: 'b word) = unat w"
  by (simp add: unsigned_ucast_eq take_bit_nat_eq_self_iff
      less_le_trans [OF unat_bound power_increasing])

lemma word_and_mask_le: "(x :: 'a :: len word) AND y \<le> y"
  by (rule word_and_le1)

section \<open>Rotated lists\<close>

lemma mod_less_double: "a < 2 * n \<Longrightarrow> a mod n = (if a < n then a else a - n)" for a n :: nat
  by (auto simp: mod_if)

text \<open>Writing one slot of a ring, seen from the read position.\<close>

lemma ring_offset_iff:
  fixes i r k n :: nat
  assumes "i < n" and "r < n" and "k < n"
  shows "(r + k) mod n = i \<longleftrightarrow> k = (i + n - r) mod n"
  using assms mod_less_double [of "r + k" n] mod_less_double [of "i + n - r" n]
  by (auto split: if_splits)

lemma rotate_update:
  assumes "i < length xs" and "r < length xs"
  shows "rotate r (xs[i := v]) = (rotate r xs)[(i + length xs - r) mod length xs := v]"
proof (rule nth_equalityI)
  show "length (rotate r (xs[i := v])) =
      length ((rotate r xs)[(i + length xs - r) mod length xs := v])"
    by simp
next
  fix k
  assume "k < length (rotate r (xs[i := v]))"
  then have k: "k < length xs" by simp
  then show "rotate r (xs[i := v]) ! k =
      (rotate r xs)[(i + length xs - r) mod length xs := v] ! k"
    using ring_offset_iff [OF assms k] assms
    by (cases "(r + k) mod length xs = i")
      (simp_all add: nth_rotate nth_list_update_neq)
qed

section \<open>Little-endian access to byte buffers\<close>

text \<open>\<open>*(uint32_t *)(p + i)\<close> on a byte buffer: the processors are little-endian.\<close>

definition le_word32 :: "u8 \<Rightarrow> u8 \<Rightarrow> u8 \<Rightarrow> u8 \<Rightarrow> u32" where
  "le_word32 b0 b1 b2 b3 =
     ucast b0 OR push_bit 8 (ucast b1) OR push_bit 16 (ucast b2) OR push_bit 24 (ucast b3)"

definition le_bytes32 :: "u32 \<Rightarrow> u8 list" where
  "le_bytes32 w = [ucast w, ucast (drop_bit 8 w), ucast (drop_bit 16 w), ucast (drop_bit 24 w)]"

definition load32 :: "u8 list \<Rightarrow> nat \<Rightarrow> u32 option" where
  "load32 buf i = (if i + 4 \<le> length buf
     then Some (le_word32 (buf ! i) (buf ! (i + 1)) (buf ! (i + 2)) (buf ! (i + 3))) else None)"

definition store32 :: "u8 list \<Rightarrow> nat \<Rightarrow> u32 \<Rightarrow> u8 list option" where
  "store32 buf i w = (if i + 4 \<le> length buf
     then Some (take i buf @ le_bytes32 w @ drop (i + 4) buf) else None)"

lemma length_le_bytes32 [simp]: "length (le_bytes32 w) = 4"
  by (simp add: le_bytes32_def)

lemma bit_out_of_range: "bit (w :: 'a :: len word) n \<Longrightarrow> n < LENGTH('a)"
  by (rule bit_imp_le_length)

lemma le_bytes32_word [simp]: "le_bytes32 (le_word32 b0 b1 b2 b3) = [b0, b1, b2, b3]"
  unfolding le_bytes32_def le_word32_def list.inject
  by (intro conjI bit_word_eqI)
    (auto simp: bit_simps dest: bit_out_of_range)

lemma le_word32_bytes:
  "le_bytes32 w = [b0, b1, b2, b3] \<Longrightarrow> le_word32 b0 b1 b2 b3 = w"
proof -
  assume "le_bytes32 w = [b0, b1, b2, b3]"
  then have b: "b0 = ucast w" "b1 = ucast (drop_bit 8 w)" "b2 = ucast (drop_bit 16 w)"
    "b3 = ucast (drop_bit 24 w)"
    by (simp_all add: le_bytes32_def)
  show ?thesis
    unfolding le_word32_def b
  proof (rule bit_word_eqI)
    fix n
    assume "n < LENGTH(32)"
    then show "bit (ucast (ucast w :: u8) OR push_bit 8 (ucast (ucast (drop_bit 8 w) :: u8))
        OR push_bit 16 (ucast (ucast (drop_bit 16 w) :: u8))
        OR push_bit 24 (ucast (ucast (drop_bit 24 w) :: u8)) :: u32) n = bit w n"
      by (cases "24 \<le> n"; cases "16 \<le> n"; cases "8 \<le> n")
        (auto simp: bit_simps not_le dest: bit_out_of_range)
  qed
qed

end
