(* ===== verification/Bounded_Fifo.thy ===== *)
theory Bounded_Fifo
  imports AMR_Prelude
begin

text \<open>
  The contract of a bounded first-in first-out queue, which the ring buffers of the
  firmware (the event buffer of the SMBus driver, the command rings of the sGCQ driver)
  promise to their clients.  A provider gives the elements it transports (\<open>ok\<close>: a command
  ring only takes payloads of one slot), a state with an invariant, the list it stands
  for, its capacity, and two operations: \<open>put\<close> reports whether the element was
  accepted, \<open>get\<close> yields the oldest element or nothing.  The client lemmas, proved once
  here, are about whole sequences of operations: every operation is defined, the outcomes
  are those of a bounded list, and no element is lost, duplicated or reordered.
\<close>

datatype 'a fifo_op = Put 'a | Get

datatype 'a fifo_out = Accepted bool | Got "'a option"

fun fifo_run ::
  "('a \<Rightarrow> 's \<Rightarrow> (bool \<times> 's) option) \<Rightarrow> ('s \<Rightarrow> ('a option \<times> 's) option) \<Rightarrow>
   'a fifo_op list \<Rightarrow> 's \<Rightarrow> ('a fifo_out list \<times> 's) option" where
  "fifo_run put get [] s = Some ([], s)"
| "fifo_run put get (Put x # ops) s =
     do { (b, s) \<leftarrow> put x s;
          (outs, s) \<leftarrow> fifo_run put get ops s;
          Some (Accepted b # outs, s) }"
| "fifo_run put get (Get # ops) s =
     do { (r, s) \<leftarrow> get s;
          (outs, s) \<leftarrow> fifo_run put get ops s;
          Some (Got r # outs, s) }"

text \<open>The same sequence on the abstract queue, a list of at most \<open>n\<close> elements.\<close>

fun spec_run :: "nat \<Rightarrow> 'a fifo_op list \<Rightarrow> 'a list \<Rightarrow> 'a fifo_out list \<times> 'a list" where
  "spec_run n [] q = ([], q)"
| "spec_run n (Put x # ops) q =
     (if length q < n
      then (let (outs, q') = spec_run n ops (q @ [x]) in (Accepted True # outs, q'))
      else (let (outs, q') = spec_run n ops q in (Accepted False # outs, q')))"
| "spec_run n (Get # ops) q =
     (case q of [] \<Rightarrow> (let (outs, q') = spec_run n ops [] in (Got None # outs, q'))
      | x # xs \<Rightarrow> (let (outs, q') = spec_run n ops xs in (Got (Some x) # outs, q')))"

text \<open>The elements a sequence of operations accepted, and those it handed out.\<close>

fun accepted :: "'a fifo_op list \<Rightarrow> 'a fifo_out list \<Rightarrow> 'a list" where
  "accepted (Put x # ops) (Accepted True # outs) = x # accepted ops outs"
| "accepted (op # ops) (out # outs) = accepted ops outs"
| "accepted _ _ = []"

fun received :: "'a fifo_out list \<Rightarrow> 'a list" where
  "received [] = []"
| "received (Got (Some x) # outs) = x # received outs"
| "received (out # outs) = received outs"

lemma spec_run_conserves:
  "spec_run n ops q = (outs, q') \<Longrightarrow> q @ accepted ops outs = received outs @ q'"
proof (induction n ops q arbitrary: outs rule: spec_run.induct)
  case (2 n x ops q)
  then show ?case by (force simp: Let_def split: if_splits prod.splits)
next
  case (3 n ops q)
  then show ?case by (cases q) (force simp: Let_def split: prod.splits)+
qed simp

lemma spec_run_bounded:
  "spec_run n ops q = (outs, q') \<Longrightarrow> length q \<le> n \<Longrightarrow> length q' \<le> n"
proof (induction n ops q arbitrary: outs rule: spec_run.induct)
  case (2 n x ops q)
  then show ?case by (force simp: Let_def split: if_splits prod.splits)
next
  case (3 n ops q)
  then show ?case by (cases q) (force simp: Let_def split: prod.splits)+
qed simp

locale bounded_fifo =
  fixes ok :: "'a \<Rightarrow> bool"
    and inv :: "'s \<Rightarrow> bool"
    and contents :: "'s \<Rightarrow> 'a list"
    and cap :: "'s \<Rightarrow> nat"
    and put :: "'a \<Rightarrow> 's \<Rightarrow> (bool \<times> 's) option"
    and get :: "'s \<Rightarrow> ('a option \<times> 's) option"
  assumes bounded: "inv s \<Longrightarrow> length (contents s) \<le> cap s"
    and put_room: "ok x \<Longrightarrow> inv s \<Longrightarrow> length (contents s) < cap s \<Longrightarrow>
      okay (put x s) (\<lambda>(b, s'). b \<and> inv s' \<and> cap s' = cap s \<and> contents s' = contents s @ [x])"
    and put_full: "ok x \<Longrightarrow> inv s \<Longrightarrow> length (contents s) = cap s \<Longrightarrow>
      okay (put x s) (\<lambda>(b, s'). \<not> b \<and> inv s' \<and> cap s' = cap s \<and> contents s' = contents s)"
    and get_front: "inv s \<Longrightarrow> contents s = y # ys \<Longrightarrow>
      okay (get s) (\<lambda>(r, s'). r = Some y \<and> inv s' \<and> cap s' = cap s \<and> contents s' = ys)"
    and get_empty: "inv s \<Longrightarrow> contents s = [] \<Longrightarrow>
      okay (get s) (\<lambda>(r, s'). r = None \<and> inv s' \<and> cap s' = cap s \<and> contents s' = [])"
begin

lemma run_refines:
  assumes "inv s" and "\<And>x. Put x \<in> set ops \<Longrightarrow> ok x"
  shows "okay (fifo_run put get ops s)
    (\<lambda>(outs, s'). inv s' \<and> cap s' = cap s \<and>
       spec_run (cap s) ops (contents s) = (outs, contents s'))"
  using assms
proof (induction ops arbitrary: s)
  case Nil
  then show ?case by simp
next
  case (Cons op ops)
  have rest: "\<And>x. Put x \<in> set ops \<Longrightarrow> ok x" using Cons.prems(2) by simp
  show ?case
  proof (cases op)
    case (Put x)
    with Cons.prems(2) have "ok x" by simp
    show ?thesis
    proof (cases "length (contents s) < cap s")
      case True
      from put_room [OF \<open>ok x\<close> Cons.prems(1) True] obtain s' where s':
        "put x s = Some (True, s')" "inv s'" "cap s' = cap s" "contents s' = contents s @ [x]"
        by (auto simp: okay_iff)
      from Cons.IH [OF s'(2) rest] show ?thesis
        using Put True s' by (auto simp: okay_iff)
    next
      case False
      with bounded [OF Cons.prems(1)] have full: "length (contents s) = cap s" by simp
      from put_full [OF \<open>ok x\<close> Cons.prems(1) full] obtain s' where s':
        "put x s = Some (False, s')" "inv s'" "cap s' = cap s" "contents s' = contents s"
        by (auto simp: okay_iff)
      from Cons.IH [OF s'(2) rest] show ?thesis
        using Put False s' by (auto simp: okay_iff)
    qed
  next
    case Get
    show ?thesis
    proof (cases "contents s")
      case Nil
      from get_empty [OF Cons.prems(1) Nil] obtain s' where s':
        "get s = Some (None, s')" "inv s'" "cap s' = cap s" "contents s' = []"
        by (auto simp: okay_iff)
      from Cons.IH [OF s'(2) rest] show ?thesis
        using Get Nil s' by (auto simp: okay_iff)
    next
      case front: (Cons y ys)
      from get_front [OF Cons.prems(1) front] obtain s' where s':
        "get s = Some (Some y, s')" "inv s'" "cap s' = cap s" "contents s' = ys"
        by (auto simp: okay_iff)
      from Cons.IH [OF s'(2) rest] show ?thesis
        using Get front s' by (auto simp: okay_iff)
    qed
  qed
qed

lemma run_conserves:
  assumes "inv s" and "\<And>x. Put x \<in> set ops \<Longrightarrow> ok x"
  shows "okay (fifo_run put get ops s)
    (\<lambda>(outs, s'). contents s @ accepted ops outs = received outs @ contents s')"
  using run_refines [OF assms(1), of ops] assms(2)
  by (auto simp: okay_iff dest: spec_run_conserves)

end

end
