(* ===== verification/GCQ_Ring.thy ===== *)
theory GCQ_Ring
  imports Bounded_Fifo
begin

text \<open>
  The command rings of the sGCQ driver, \<open>gcq_ring.h\<close>: a ring keeps free-running 32-bit
  counters of what was produced and consumed, the slot of a counter being its low bits.
  The memory and the registers are reached only through the two access functions the
  application binds in (\<open>GCQIOAccess\<close>); the world \<open>'w\<close> they act on is a parameter.
  The parent pointer of a ring, which nothing reads, is left out.
\<close>

record 'w GCQIOAccess =
  xGCQReadMem32 :: "u64 \<Rightarrow> 'w \<Rightarrow> u32 \<times> 'w"
  xGCQWriteMem32 :: "u64 \<Rightarrow> u32 \<Rightarrow> 'w \<Rightarrow> 'w"

record GCQHeader =
  ulHdrMagic :: u32
  ulHdrVersion :: u32
  ulHdrNumSlots :: u32
  ulHdrSQOffset :: u32
  ulHdrSQSlotSize :: u32
  ulHdrCQOffset :: u32
  ulHdrSQConsumed :: u32
  ulHdrCQConsumed :: u32
  ulHdrFlags :: u32
  ulHdrSQProduced :: u32
  ulHdrCQProduced :: u32

text \<open>The header as the 32-bit words it is copied by, and the offsets of its members.\<close>

definition sizeof_GCQHeader :: u32 where "sizeof_GCQHeader = 44"
definition offset_ulHdrSQConsumed :: u64 where "offset_ulHdrSQConsumed = 24"
definition offset_ulHdrCQConsumed :: u64 where "offset_ulHdrCQConsumed = 28"

definition header_words :: "GCQHeader \<Rightarrow> u32 list" where
  "header_words h = [ulHdrMagic h, ulHdrVersion h, ulHdrNumSlots h, ulHdrSQOffset h,
     ulHdrSQSlotSize h, ulHdrCQOffset h, ulHdrSQConsumed h, ulHdrCQConsumed h, ulHdrFlags h,
     ulHdrSQProduced h, ulHdrCQProduced h]"

definition header_of_words :: "u32 list \<Rightarrow> GCQHeader" where
  "header_of_words ws = \<lparr>ulHdrMagic = ws ! 0, ulHdrVersion = ws ! 1, ulHdrNumSlots = ws ! 2,
     ulHdrSQOffset = ws ! 3, ulHdrSQSlotSize = ws ! 4, ulHdrCQOffset = ws ! 5,
     ulHdrSQConsumed = ws ! 6, ulHdrCQConsumed = ws ! 7, ulHdrFlags = ws ! 8,
     ulHdrSQProduced = ws ! 9, ulHdrCQProduced = ws ! 10\<rparr>"

definition zero_header :: GCQHeader where
  "zero_header = header_of_words (replicate 11 0)"

record GCQRing =
  ulRingNumSlots :: u32
  ulRingSlotSize :: u32
  ulRingProduced :: u32
  ulRingConsumed :: u32
  ullRingProducedAddr :: u64
  ullRingConsumedAddr :: u64
  ullRingSlotAddr :: u64

definition prvvGCQInitRing :: "GCQRing \<Rightarrow> u64 \<Rightarrow> u64 \<Rightarrow> u64 \<Rightarrow> u32 \<Rightarrow> u32 \<Rightarrow> GCQRing" where
  "prvvGCQInitRing pxRing ullProducedAddr ullConsumedAddr ullSlotAddr ulNumSlots ulSlotSize =
     pxRing\<lparr>ullRingProducedAddr := ullProducedAddr, ullRingConsumedAddr := ullConsumedAddr,
       ullRingSlotAddr := ullSlotAddr, ulRingSlotSize := ulSlotSize,
       ulRingNumSlots := ulNumSlots, ulRingProduced := 0, ulRingConsumed := 0\<rparr>"

definition prvulGCQRingLen :: "u32 \<Rightarrow> u32 \<Rightarrow> u32 \<Rightarrow> u32" where
  "prvulGCQRingLen ulNumSlots ulSQSlotSize ulCQSlotSize =
     sizeof_GCQHeader + ulNumSlots * (ulSQSlotSize + ulCQSlotSize)"

text \<open>
  Copies between a buffer of words and the ring memory: \<open>ulLen div 4\<close> words, the buffer
  index and the address advancing together.
\<close>

fun copy_to_ring :: "'w GCQIOAccess \<Rightarrow> u32 list \<Rightarrow> nat \<Rightarrow> nat \<Rightarrow> u64 \<Rightarrow> 'w \<Rightarrow> 'w option" where
  "copy_to_ring io buf i 0 a w = Some w"
| "copy_to_ring io buf i (Suc n) a w =
     (if i < length buf
      then copy_to_ring io buf (Suc i) n (a + 4) (xGCQWriteMem32 io a (buf ! i) w) else None)"

fun copy_from_ring ::
  "'w GCQIOAccess \<Rightarrow> u32 list \<Rightarrow> nat \<Rightarrow> nat \<Rightarrow> u64 \<Rightarrow> 'w \<Rightarrow> (u32 list \<times> 'w) option" where
  "copy_from_ring io buf i 0 a w = Some (buf, w)"
| "copy_from_ring io buf i (Suc n) a w =
     (if i < length buf
      then (let (v, w) = xGCQReadMem32 io a w
            in copy_from_ring io (buf[i := v]) (Suc i) n (a + 4) w) else None)"

definition prvvGCQCopyToRing :: "'w GCQIOAccess \<Rightarrow> u32 list \<Rightarrow> u64 \<Rightarrow> u32 \<Rightarrow> 'w \<Rightarrow> 'w option" where
  "prvvGCQCopyToRing io buf ullDestAddr ulLen w =
     copy_to_ring io buf 0 (unat (ulLen div 4)) ullDestAddr w"

definition prvvGCQCopyFromRing ::
  "'w GCQIOAccess \<Rightarrow> u32 list \<Rightarrow> u64 \<Rightarrow> u32 \<Rightarrow> 'w \<Rightarrow> (u32 list \<times> 'w) option" where
  "prvvGCQCopyFromRing io buf ullSrcAddr ulLen w =
     copy_from_ring io buf 0 (unat (ulLen div 4)) ullSrcAddr w"

definition prvvGCQRingReadProduced :: "'w GCQIOAccess \<Rightarrow> GCQRing \<Rightarrow> 'w \<Rightarrow> GCQRing \<times> 'w" where
  "prvvGCQRingReadProduced io pxRing w =
     (let (v, w) = xGCQReadMem32 io (ullRingProducedAddr pxRing) w
      in (pxRing\<lparr>ulRingProduced := v\<rparr>, w))"

definition prvvGCQRingWriteProduced :: "'w GCQIOAccess \<Rightarrow> GCQRing \<Rightarrow> 'w \<Rightarrow> 'w" where
  "prvvGCQRingWriteProduced io pxRing w =
     xGCQWriteMem32 io (ullRingProducedAddr pxRing) (ulRingProduced pxRing) w"

definition prvvGCQRingReadConsumed :: "'w GCQIOAccess \<Rightarrow> GCQRing \<Rightarrow> 'w \<Rightarrow> GCQRing \<times> 'w" where
  "prvvGCQRingReadConsumed io pxRing w =
     (let (v, w) = xGCQReadMem32 io (ullRingConsumedAddr pxRing) w
      in (pxRing\<lparr>ulRingConsumed := v\<rparr>, w))"

definition prvvGCQRingWriteConsumed :: "'w GCQIOAccess \<Rightarrow> GCQRing \<Rightarrow> 'w \<Rightarrow> 'w" where
  "prvvGCQRingWriteConsumed io pxRing w =
     xGCQWriteMem32 io (ullRingConsumedAddr pxRing) (ulRingConsumed pxRing) w"

definition prvucGCQRingIsFull :: "GCQRing \<Rightarrow> bool" where
  "prvucGCQRingIsFull pxRing \<longleftrightarrow>
     ulRingProduced pxRing - ulRingConsumed pxRing \<ge> ulRingNumSlots pxRing"

definition prvucGCQRingIsEmpty :: "GCQRing \<Rightarrow> bool" where
  "prvucGCQRingIsEmpty pxRing \<longleftrightarrow> ulRingProduced pxRing = ulRingConsumed pxRing"

definition prvullGCQRingGetSlotPtrProduced :: "GCQRing \<Rightarrow> u64" where
  "prvullGCQRingGetSlotPtrProduced pxRing =
     ullRingSlotAddr pxRing + ucast (ulRingSlotSize pxRing) *
       ucast (ulRingProduced pxRing AND (ulRingNumSlots pxRing - 1))"

definition prvullGCQRingGetSlotPtrConsumed :: "GCQRing \<Rightarrow> u64" where
  "prvullGCQRingGetSlotPtrConsumed pxRing =
     ullRingSlotAddr pxRing + ucast (ulRingSlotSize pxRing) *
       ucast (ulRingConsumed pxRing AND (ulRingNumSlots pxRing - 1))"

end
