(* ===== verification/GCQ_Driver.thy ===== *)
theory GCQ_Driver
  imports GCQ_Ring
begin

text \<open>
  The sGCQ driver, \<open>gcq_driver.c\<close>: the instance table, initialisation, attachment of a
  consumer, and the two data operations.  A driver pointer is an index into the instance
  table (\<open>None\<close> is \<open>NULL\<close>); the pointers of an instance to its own two rings are
  \<open>ring_sel\<close>.  The driver's private data and the world are passed and returned.
\<close>

abbreviation (input) UPPER_FIREWALL :: u32 where "UPPER_FIREWALL \<equiv> 0xBABECAFE"
abbreviation (input) LOWER_FIREWALL :: u32 where "LOWER_FIREWALL \<equiv> 0xDEADFACE"
abbreviation (input) GCQ_MAX_INSTANCES :: nat where "GCQ_MAX_INSTANCES \<equiv> 4"
abbreviation (input) GCQ_ALLOC_MAGIC :: u32 where "GCQ_ALLOC_MAGIC \<equiv> 0x5847513F"
abbreviation (input) GCQ_MIN_NUM_SLOTS :: u32 where "GCQ_MIN_NUM_SLOTS \<equiv> 2"
abbreviation (input) GCQ_VER_MAJOR :: u32 where "GCQ_VER_MAJOR \<equiv> 1"
abbreviation (input) GCQ_VER_MINOR :: u32 where "GCQ_VER_MINOR \<equiv> 0"

datatype GCQ_ERRORS_TYPE =
    GCQ_ERRORS_NONE
  | GCQ_ERRORS_DRIVER_NOT_INITIALISED
  | GCQ_ERRORS_NO_FREE_INSTANCES
  | GCQ_ERRORS_INVALID_INSTANCE
  | GCQ_ERRORS_INVALID_ARG
  | GCQ_ERRORS_INVALID_SLOT_SIZE
  | GCQ_ERRORS_INVALID_VERSION
  | GCQ_ERRORS_INVALID_NUM_SLOTS
  | GCQ_ERRORS_CONSUMER_NOT_ATTACHED
  | GCQ_ERRORS_CONSUMER_NOT_AVAILABLE
  | GCQ_ERRORS_CONSUMER_NO_DATA_RECEIVED
  | GCQ_ERRORS_PRODUCER_NO_FREE_SLOTS

datatype GCQ_MODE_TYPE =
    GCQ_MODE_TYPE_CONSUMER_MODE
  | GCQ_MODE_TYPE_PRODUCER_MODE
  | MAX_GCQ_MODE_TYPE

datatype ring_sel = SQ | CQ

record 'w GCQInstance =
  inst_ulUpperFirewall :: u32
  iInitialised :: int
  ullBaseAddr :: u64
  xMode :: GCQ_MODE_TYPE
  pxGCQIOAccess :: "'w GCQIOAccess option"
  ullRingAddr :: u64
  ulConsumerSlotSize :: u32
  ulProducerSlotSize :: u32
  ullGCQHeaderAddr :: u64
  xGCQSq :: GCQRing
  xGCQCq :: GCQRing
  pxGCQProducer :: ring_sel
  pxGCQConsumer :: ring_sel
  inst_ulLowerFirewall :: u32

record 'w GCQPrivateData =
  ulUpperFirewall :: u32
  ucConsumerAttached :: u8
  ucInstancesAllocated :: u8
  xGCQInstances :: "nat \<Rightarrow> 'w GCQInstance"
  ulLowerFirewall :: u32

definition get_ring :: "ring_sel \<Rightarrow> 'w GCQInstance \<Rightarrow> GCQRing" where
  "get_ring r q = (case r of SQ \<Rightarrow> xGCQSq q | CQ \<Rightarrow> xGCQCq q)"

definition set_ring :: "ring_sel \<Rightarrow> GCQRing \<Rightarrow> 'w GCQInstance \<Rightarrow> 'w GCQInstance" where
  "set_ring r x q = (case r of SQ \<Rightarrow> q\<lparr>xGCQSq := x\<rparr> | CQ \<Rightarrow> q\<lparr>xGCQCq := x\<rparr>)"

definition gcq_firewalls_ok :: "'w GCQPrivateData \<Rightarrow> bool" where
  "gcq_firewalls_ok pxThis \<longleftrightarrow>
     UPPER_FIREWALL = ulUpperFirewall pxThis \<and> LOWER_FIREWALL = ulLowerFirewall pxThis"

section \<open>Slot allocation\<close>

text \<open>
  The loop of \<open>prvulGCQAllocNumSlots\<close>: it has no bound of its own, and need not end, so
  it is a partial function; \<open>None\<close> is a loop that runs for ever.
\<close>

partial_function (option) alloc_loop :: "u64 \<Rightarrow> u32 \<Rightarrow> u32 \<Rightarrow> u32 \<Rightarrow> u32 \<Rightarrow> u32 option" where
  "alloc_loop ullRingLen ulSQSlotSize ulCQSlotSize ulTotalLen ulNumSlots =
     (if ucast ulTotalLen \<le> ullRingLen
      then (let ulNumSlots = push_bit 1 ulNumSlots;
                ulTotalLen = prvulGCQRingLen ulNumSlots ulSQSlotSize ulCQSlotSize
            in alloc_loop ullRingLen ulSQSlotSize ulCQSlotSize ulTotalLen ulNumSlots)
      else Some (drop_bit 1 ulNumSlots))"

definition prvulGCQAllocNumSlots :: "u64 \<Rightarrow> u32 \<Rightarrow> u32 \<Rightarrow> u32 option" where
  "prvulGCQAllocNumSlots ullRingLen ulSQSlotSize ulCQSlotSize =
     alloc_loop ullRingLen ulSQSlotSize ulCQSlotSize 0 1"

section \<open>Ring state\<close>

definition prvvGCQFastForward :: "'w GCQIOAccess \<Rightarrow> GCQRing \<Rightarrow> 'w \<Rightarrow> GCQRing \<times> 'w" where
  "prvvGCQFastForward io pxRing w =
     (let (pxRing, w) = prvvGCQRingReadProduced io pxRing w
      in prvvGCQRingReadConsumed io pxRing w)"

definition prvucGCQCanProduce :: "'w GCQIOAccess \<Rightarrow> GCQRing \<Rightarrow> 'w \<Rightarrow> bool \<times> GCQRing \<times> 'w" where
  "prvucGCQCanProduce io pxRing w =
     (if \<not> prvucGCQRingIsFull pxRing then (True, pxRing, w)
      else (let (pxRing, w) = prvvGCQRingReadConsumed io pxRing w
            in (\<not> prvucGCQRingIsFull pxRing, pxRing, w)))"

definition prvucGCQCanConsume ::
  "'w GCQIOAccess \<Rightarrow> u64 \<Rightarrow> GCQRing \<Rightarrow> 'w \<Rightarrow> bool \<times> GCQRing \<times> 'w" where
  "prvucGCQCanConsume io base pxRing w =
     (let (ulSqTailPointer, w) = xGCQReadMem32 io (base + 0x0000) w;
          (ulCqTailPointer, w) = xGCQReadMem32 io (base + 0x0100) w
      in if ulSqTailPointer = -1 \<and> ulCqTailPointer = -1 then (False, pxRing, w)
         else if \<not> prvucGCQRingIsEmpty pxRing then (True, pxRing, w)
         else (let (pxRing, w) = prvvGCQRingReadProduced io pxRing w
               in (\<not> prvucGCQRingIsEmpty pxRing, pxRing, w)))"

definition prvvGCQSoftReset :: "'w GCQIOAccess \<Rightarrow> GCQRing \<Rightarrow> 'w \<Rightarrow> GCQRing \<times> 'w" where
  "prvvGCQSoftReset io pxRing w =
     (let (pxRing, w) = prvvGCQRingReadProduced io pxRing w;
          pxRing = pxRing\<lparr>ulRingConsumed := ulRingProduced pxRing\<rparr>
      in (pxRing, prvvGCQRingWriteConsumed io pxRing w))"

text \<open>
  \<open>prvxGCQProduce\<close> and \<open>prvxGCQConsume\<close> yield the slot address (unchanged, 0 at the
  callers, on an error) and the updated instance.
\<close>

definition prvxGCQProduce ::
  "'w GCQIOAccess \<Rightarrow> 'w GCQInstance \<Rightarrow> 'w \<Rightarrow> GCQ_ERRORS_TYPE \<times> u64 \<times> 'w GCQInstance \<times> 'w" where
  "prvxGCQProduce io q w =
     (let r = pxGCQProducer q;
          (can, pxRing, w) = prvucGCQCanProduce io (get_ring r q) w
      in if can
         then (GCQ_ERRORS_NONE, prvullGCQRingGetSlotPtrProduced pxRing,
               set_ring r (pxRing\<lparr>ulRingProduced := ulRingProduced pxRing + 1\<rparr>) q, w)
         else (GCQ_ERRORS_PRODUCER_NO_FREE_SLOTS, 0, set_ring r pxRing q, w))"

definition prvxGCQConsume ::
  "'w GCQIOAccess \<Rightarrow> 'w GCQInstance \<Rightarrow> 'w \<Rightarrow> GCQ_ERRORS_TYPE \<times> u64 \<times> 'w GCQInstance \<times> 'w" where
  "prvxGCQConsume io q w =
     (let r = pxGCQConsumer q;
          (can, pxRing, w) = prvucGCQCanConsume io (ullBaseAddr q) (get_ring r q) w
      in if can
         then (GCQ_ERRORS_NONE, prvullGCQRingGetSlotPtrConsumed pxRing,
               set_ring r (pxRing\<lparr>ulRingConsumed := ulRingConsumed pxRing + 1\<rparr>) q, w)
         else (GCQ_ERRORS_CONSUMER_NO_DATA_RECEIVED, 0, set_ring r pxRing q, w))"

section \<open>Instances\<close>

fun first_free :: "(nat \<Rightarrow> 'w GCQInstance) \<Rightarrow> nat \<Rightarrow> nat \<Rightarrow> nat option" where
  "first_free insts i 0 = None"
| "first_free insts i (Suc n) =
     (if iInitialised (insts i) = 0 then Some i else first_free insts (Suc i) n)"

definition prviGCQFindNextFreeInstance ::
  "'w GCQPrivateData \<Rightarrow> nat option \<Rightarrow> GCQ_ERRORS_TYPE \<times> nat option" where
  "prviGCQFindNextFreeInstance pxThis pxGCQInstance =
     (if pxGCQInstance \<noteq> None then (GCQ_ERRORS_INVALID_ARG, pxGCQInstance)
      else if GCQ_MAX_INSTANCES > unat (ucInstancesAllocated pxThis) then
        (case first_free (xGCQInstances pxThis) 0 GCQ_MAX_INSTANCES of
           Some i \<Rightarrow> (GCQ_ERRORS_NONE, Some i)
         | None \<Rightarrow> (GCQ_ERRORS_NO_FREE_INSTANCES, None))
      else (GCQ_ERRORS_NO_FREE_INSTANCES, None))"

definition xGCQHWInit ::
  "GCQ_MODE_TYPE \<Rightarrow> u64 \<Rightarrow> u64 \<Rightarrow> 'w GCQIOAccess \<Rightarrow> 'w \<Rightarrow> GCQ_ERRORS_TYPE \<times> 'w" where
  "xGCQHWInit mode base ring io w =
     (case mode of
        GCQ_MODE_TYPE_CONSUMER_MODE \<Rightarrow>
          (let w = xGCQWriteMem32 io (base + 0x0008) (ucast ring) w;
               w = xGCQWriteMem32 io (base + 0x0010) (ucast (drop_bit 32 ring)) w
           in (GCQ_ERRORS_NONE, w))
      | GCQ_MODE_TYPE_PRODUCER_MODE \<Rightarrow>
          (let w = xGCQWriteMem32 io (base + 0x0008) (ucast ring) w;
               w = xGCQWriteMem32 io (base + 0x0010) (ucast (drop_bit 32 ring)) w
           in (GCQ_ERRORS_NONE, w))
      | MAX_GCQ_MODE_TYPE \<Rightarrow> (GCQ_ERRORS_INVALID_ARG, w))"

text \<open>The guards of \<open>xGCQInit\<close>: a free instance, usable slot sizes, at least two slots.\<close>

definition gcq_init_checks ::
  "'w GCQPrivateData \<Rightarrow> nat option \<Rightarrow> u64 \<Rightarrow> u32 \<Rightarrow> u32 \<Rightarrow> (GCQ_ERRORS_TYPE \<times> nat option \<times> u32) option" where
  "gcq_init_checks pxThis pp ullRingLen ulSQSlotSize ulCQSlotSize =
     (let (xStatus, pp) =
        (if pp \<noteq> None then (GCQ_ERRORS_INVALID_ARG, pp) else prviGCQFindNextFreeInstance pxThis pp)
      in if xStatus \<noteq> GCQ_ERRORS_NONE then Some (xStatus, pp, 0)
         else if ulSQSlotSize mod 4 \<noteq> 0 \<or> ulCQSlotSize mod 4 \<noteq> 0
         then Some (GCQ_ERRORS_INVALID_SLOT_SIZE, pp, 0)
         else if ulSQSlotSize = 0 \<or> ulCQSlotSize = 0
         then Some (GCQ_ERRORS_INVALID_SLOT_SIZE, pp, 0)
         else do {
           ullNumSlots \<leftarrow> prvulGCQAllocNumSlots ullRingLen ulSQSlotSize ulCQSlotSize;
           Some (if GCQ_MIN_NUM_SLOTS > ullNumSlots then GCQ_ERRORS_INVALID_NUM_SLOTS
                 else GCQ_ERRORS_NONE, pp, ullNumSlots) })"

text \<open>The fields of the instance and of its two rings, before any handshake.\<close>

definition gcq_init_instance ::
  "'w GCQIOAccess \<Rightarrow> GCQ_MODE_TYPE \<Rightarrow> u64 \<Rightarrow> u64 \<Rightarrow> u32 \<Rightarrow> u32 \<Rightarrow> u32 \<Rightarrow> 'w GCQInstance \<Rightarrow> 'w GCQInstance" where
  "gcq_init_instance io mode base ring ullNumSlots ulSQSlotSize ulCQSlotSize q =
     (let (q, ullSQProduced, ullCQProduced) =
        (if mode = GCQ_MODE_TYPE_PRODUCER_MODE
         then (q\<lparr>ulProducerSlotSize := ulCQSlotSize, ulConsumerSlotSize := ulSQSlotSize,
                 pxGCQProducer := CQ, pxGCQConsumer := SQ\<rparr>, base + 0x0000, base + 0x0100)
         else (q\<lparr>ulProducerSlotSize := ulSQSlotSize, ulConsumerSlotSize := ulCQSlotSize,
                 pxGCQProducer := SQ, pxGCQConsumer := CQ\<rparr>, base + 0x0100, base + 0x0000));
        q = q\<lparr>xGCQSq := prvvGCQInitRing (xGCQSq q) ullSQProduced
                (ring + offset_ulHdrSQConsumed) (ring + ucast sizeof_GCQHeader)
                ullNumSlots ulSQSlotSize\<rparr>;
        q = q\<lparr>xGCQCq := prvvGCQInitRing (xGCQCq q) ullCQProduced
                (ring + offset_ulHdrCQConsumed)
                (ring + ucast sizeof_GCQHeader + ucast (ullNumSlots * ulSQSlotSize))
                ullNumSlots ulCQSlotSize\<rparr>
      in q\<lparr>iInitialised := 0, xMode := mode, ullGCQHeaderAddr := ring, ullBaseAddr := base,
           ullRingAddr := ring, pxGCQIOAccess := Some io,
           inst_ulUpperFirewall := UPPER_FIREWALL, inst_ulLowerFirewall := LOWER_FIREWALL\<rparr>)"

text \<open>
  The producer writes the header with a zero magic word, empties both rings, and publishes
  the magic word last.
\<close>

definition gcq_producer_header :: "'w GCQInstance \<Rightarrow> u64 \<Rightarrow> u32 \<Rightarrow> u32 \<Rightarrow> GCQHeader" where
  "gcq_producer_header q ring ullNumSlots ulSQSlotSize = zero_header
     \<lparr>ulHdrMagic := 0, ulHdrVersion := push_bit 16 GCQ_VER_MAJOR + GCQ_VER_MINOR,
      ulHdrNumSlots := ullNumSlots,
      ulHdrSQOffset := ucast (ullRingSlotAddr (xGCQSq q) - ring),
      ulHdrSQSlotSize := ulSQSlotSize,
      ulHdrCQOffset := ucast (ullRingSlotAddr (xGCQCq q) - ring),
      ulHdrSQConsumed := 0, ulHdrCQConsumed := 0\<rparr>"

definition gcq_init_handshake ::
  "'w GCQIOAccess \<Rightarrow> u64 \<Rightarrow> u32 \<Rightarrow> u32 \<Rightarrow> 'w GCQInstance \<Rightarrow> 'w \<Rightarrow> ('w GCQInstance \<times> 'w) option" where
  "gcq_init_handshake io ring ullNumSlots ulSQSlotSize q w = do {
     let h = gcq_producer_header q ring ullNumSlots ulSQSlotSize;
     w \<leftarrow> prvvGCQCopyToRing io (header_words h) ring sizeof_GCQHeader w;
     let (sq, w) = prvvGCQSoftReset io (xGCQSq q) w;
     let q = q\<lparr>xGCQSq := sq\<rparr>;
     let (cq, w) = prvvGCQSoftReset io (xGCQCq q) w;
     let q = q\<lparr>xGCQCq := cq\<rparr>;
     let h = h\<lparr>ulHdrMagic := GCQ_ALLOC_MAGIC\<rparr>;
     w \<leftarrow> prvvGCQCopyToRing io (header_words h) ring 4 w;
     Some (q, w) }"

definition xGCQInit ::
  "nat option \<Rightarrow> 'w GCQIOAccess \<Rightarrow> GCQ_MODE_TYPE \<Rightarrow> u64 \<Rightarrow> u64 \<Rightarrow> u64 \<Rightarrow> u32 \<Rightarrow> u32 \<Rightarrow>
   'w GCQPrivateData \<Rightarrow> 'w \<Rightarrow> (GCQ_ERRORS_TYPE \<times> nat option \<times> 'w GCQPrivateData \<times> 'w) option" where
  "xGCQInit pp io mode base ring ullRingLen ulSQSlotSize ulCQSlotSize pxThis w =
     (if \<not> gcq_firewalls_ok pxThis then Some (GCQ_ERRORS_INVALID_ARG, pp, pxThis, w)
      else do {
        (xStatus, pp, ullNumSlots) \<leftarrow> gcq_init_checks pxThis pp ullRingLen ulSQSlotSize ulCQSlotSize;
        (case (xStatus, pp) of
           (GCQ_ERRORS_NONE, Some i) \<Rightarrow> do {
             let (st, w) = xGCQHWInit mode base ring io w;
             let q = gcq_init_instance io mode base ring ullNumSlots ulSQSlotSize ulCQSlotSize
                       (xGCQInstances pxThis i);
             (q, w) \<leftarrow> (if mode = GCQ_MODE_TYPE_PRODUCER_MODE
                        then gcq_init_handshake io ring ullNumSlots ulSQSlotSize q w
                        else Some (q, w));
             let q = q\<lparr>iInitialised := 1\<rparr>;
             Some (GCQ_ERRORS_NONE, pp,
               pxThis\<lparr>xGCQInstances := (xGCQInstances pxThis)(i := q),
                      ucInstancesAllocated := ucInstancesAllocated pxThis + 1\<rparr>, w) }
         | _ \<Rightarrow> Some (xStatus, pp, pxThis, w)) })"

definition xGCQDeinit ::
  "nat option \<Rightarrow> 'w GCQPrivateData \<Rightarrow> GCQ_ERRORS_TYPE \<times> 'w GCQPrivateData" where
  "xGCQDeinit p pxThis =
     (if \<not> gcq_firewalls_ok pxThis then (GCQ_ERRORS_INVALID_ARG, pxThis)
      else (case p of None \<Rightarrow> (GCQ_ERRORS_INVALID_INSTANCE, pxThis)
        | Some i \<Rightarrow>
            (if iInitialised (xGCQInstances pxThis i) = 0 then (GCQ_ERRORS_INVALID_INSTANCE, pxThis)
             else (GCQ_ERRORS_NONE, pxThis
               \<lparr>xGCQInstances := (xGCQInstances pxThis)
                  (i := (xGCQInstances pxThis i)\<lparr>iInitialised := 0\<rparr>),
                ucInstancesAllocated := ucInstancesAllocated pxThis - 1\<rparr>))))"

section \<open>Attaching a consumer\<close>

definition xGCQAttachConsumer ::
  "nat option \<Rightarrow> 'w GCQPrivateData \<Rightarrow> 'w \<Rightarrow> (GCQ_ERRORS_TYPE \<times> 'w GCQPrivateData \<times> 'w) option" where
  "xGCQAttachConsumer p pxThis w =
     (if \<not> gcq_firewalls_ok pxThis then Some (GCQ_ERRORS_INVALID_ARG, pxThis, w)
      else (case p of None \<Rightarrow> Some (GCQ_ERRORS_INVALID_INSTANCE, pxThis, w)
        | Some i \<Rightarrow> (let q = xGCQInstances pxThis i in
            if iInitialised q = 0 then Some (GCQ_ERRORS_INVALID_INSTANCE, pxThis, w)
            else do {
              io \<leftarrow> pxGCQIOAccess q;
              (ws, w) \<leftarrow> prvvGCQCopyFromRing io (header_words zero_header) (ullRingAddr q) 4 w;
              if ulHdrMagic (header_of_words ws) \<noteq> GCQ_ALLOC_MAGIC
              then Some (GCQ_ERRORS_CONSUMER_NOT_AVAILABLE, pxThis, w)
              else do {
                (ws, w) \<leftarrow> prvvGCQCopyFromRing io ws (ullRingAddr q) sizeof_GCQHeader w;
                let h = header_of_words ws;
                if GCQ_VER_MAJOR \<noteq> drop_bit 16 (ulHdrVersion h)
                then Some (GCQ_ERRORS_INVALID_VERSION, pxThis, w)
                else if ulRingNumSlots (xGCQSq q) \<noteq> ulHdrNumSlots h
                then Some (GCQ_ERRORS_INVALID_NUM_SLOTS, pxThis, w)
                else if ulRingSlotSize (xGCQSq q) \<noteq> ulHdrSQSlotSize h
                then Some (GCQ_ERRORS_INVALID_SLOT_SIZE, pxThis, w)
                else do {
                  let (sq, w) = prvvGCQFastForward io (xGCQSq q) w;
                  let q = q\<lparr>xGCQSq := sq\<rparr>;
                  let (cq, w) = prvvGCQFastForward io (xGCQCq q) w;
                  let q = q\<lparr>xGCQCq := cq\<rparr>;
                  Some (GCQ_ERRORS_NONE,
                    pxThis\<lparr>xGCQInstances := (xGCQInstances pxThis)(i := q),
                           ucConsumerAttached := 1\<rparr>, w) } } })))"

section \<open>Producing and consuming data\<close>

text \<open>
  The word loops of the data operations; the length has been checked to be a multiple of
  four, so \<open>offset < ulDataLen\<close> holds for exactly \<open>ulDataLen div 4\<close> rounds.
\<close>

fun write_slot ::
  "'w GCQIOAccess \<Rightarrow> u64 \<Rightarrow> u8 list \<Rightarrow> nat \<Rightarrow> u32 \<Rightarrow> 'w \<Rightarrow> 'w option" where
  "write_slot io ullSlotAddr pucData 0 offset w = Some w"
| "write_slot io ullSlotAddr pucData (Suc n) offset w = do {
     v \<leftarrow> load32 pucData (unat offset);
     let w = xGCQWriteMem32 io (ullSlotAddr + ucast offset) v w;
     write_slot io ullSlotAddr pucData n (offset + 4) w }"

fun read_slot ::
  "'w GCQIOAccess \<Rightarrow> u64 \<Rightarrow> u8 list \<Rightarrow> nat \<Rightarrow> u32 \<Rightarrow> 'w \<Rightarrow> (u8 list \<times> 'w) option" where
  "read_slot io ullSlotAddr pucData 0 offset w = Some (pucData, w)"
| "read_slot io ullSlotAddr pucData (Suc n) offset w = do {
     let (v, w) = xGCQReadMem32 io (ullSlotAddr + ucast offset) w;
     pucData \<leftarrow> store32 pucData (unat offset) v;
     read_slot io ullSlotAddr pucData n (offset + 4) w }"

definition consume_checks ::
  "'w GCQPrivateData \<Rightarrow> nat option \<Rightarrow> u8 list option \<Rightarrow> u32 \<Rightarrow> GCQ_ERRORS_TYPE" where
  "consume_checks pxThis p pucData ulDataLen =
     (case p of None \<Rightarrow> GCQ_ERRORS_INVALID_INSTANCE
      | Some i \<Rightarrow> (let q = xGCQInstances pxThis i in
          if iInitialised q = 0 then GCQ_ERRORS_INVALID_INSTANCE
          else if xMode q = GCQ_MODE_TYPE_CONSUMER_MODE \<and> ucConsumerAttached pxThis = 0
          then GCQ_ERRORS_CONSUMER_NOT_ATTACHED
          else if ulDataLen > ulConsumerSlotSize q then GCQ_ERRORS_INVALID_ARG
          else if pucData = None then GCQ_ERRORS_INVALID_ARG
          else if ulDataLen AND 3 \<noteq> 0 then GCQ_ERRORS_INVALID_ARG
          else GCQ_ERRORS_NONE))"

definition xGCQConsumeData ::
  "nat option \<Rightarrow> u8 list option \<Rightarrow> u32 \<Rightarrow> 'w GCQPrivateData \<Rightarrow> 'w \<Rightarrow>
   (GCQ_ERRORS_TYPE \<times> u8 list option \<times> 'w GCQPrivateData \<times> 'w) option" where
  "xGCQConsumeData p pucData ulDataLen pxThis w =
     (if \<not> gcq_firewalls_ok pxThis then Some (GCQ_ERRORS_INVALID_ARG, pucData, pxThis, w)
      else (let xStatus = consume_checks pxThis p pucData ulDataLen in
        if xStatus \<noteq> GCQ_ERRORS_NONE then Some (xStatus, pucData, pxThis, w)
        else do {
          i \<leftarrow> p;
          buf \<leftarrow> pucData;
          io \<leftarrow> pxGCQIOAccess (xGCQInstances pxThis i);
          let (xStatus, ullSlotAddr, q, w) = prvxGCQConsume io (xGCQInstances pxThis i) w;
          let pxThis = pxThis\<lparr>xGCQInstances := (xGCQInstances pxThis)(i := q)\<rparr>;
          if xStatus \<noteq> GCQ_ERRORS_NONE then Some (xStatus, pucData, pxThis, w)
          else do {
            (buf, w) \<leftarrow> read_slot io ullSlotAddr buf (unat (ulDataLen div 4)) 0 w;
            let w = prvvGCQRingWriteConsumed io (get_ring (pxGCQConsumer q) q) w;
            Some (GCQ_ERRORS_NONE, Some buf, pxThis, w) } }))"

definition produce_checks ::
  "'w GCQPrivateData \<Rightarrow> nat option \<Rightarrow> u8 list option \<Rightarrow> u32 \<Rightarrow> GCQ_ERRORS_TYPE" where
  "produce_checks pxThis p pucData ulDataLen =
     (case p of None \<Rightarrow> GCQ_ERRORS_INVALID_INSTANCE
      | Some i \<Rightarrow> (let q = xGCQInstances pxThis i in
          if iInitialised q = 0 then GCQ_ERRORS_INVALID_INSTANCE
          else if ulDataLen > ulProducerSlotSize q then GCQ_ERRORS_INVALID_ARG
          else if pucData = None then GCQ_ERRORS_INVALID_ARG
          else if ulDataLen AND 3 \<noteq> 0 then GCQ_ERRORS_INVALID_ARG
          else GCQ_ERRORS_NONE))"

definition xGCQProduceData ::
  "nat option \<Rightarrow> u8 list option \<Rightarrow> u32 \<Rightarrow> 'w GCQPrivateData \<Rightarrow> 'w \<Rightarrow>
   (GCQ_ERRORS_TYPE \<times> 'w GCQPrivateData \<times> 'w) option" where
  "xGCQProduceData p pucData ulDataLen pxThis w =
     (if \<not> gcq_firewalls_ok pxThis then Some (GCQ_ERRORS_INVALID_ARG, pxThis, w)
      else (let xStatus = produce_checks pxThis p pucData ulDataLen in
        if xStatus \<noteq> GCQ_ERRORS_NONE then Some (xStatus, pxThis, w)
        else do {
          i \<leftarrow> p;
          buf \<leftarrow> pucData;
          io \<leftarrow> pxGCQIOAccess (xGCQInstances pxThis i);
          let (xStatus, ullSlotAddr, q, w) = prvxGCQProduce io (xGCQInstances pxThis i) w;
          let pxThis = pxThis\<lparr>xGCQInstances := (xGCQInstances pxThis)(i := q)\<rparr>;
          if xStatus \<noteq> GCQ_ERRORS_NONE then Some (xStatus, pxThis, w)
          else do {
            w \<leftarrow> write_slot io ullSlotAddr buf (unat (ulDataLen div 4)) 0 w;
            let w = prvvGCQRingWriteProduced io (get_ring (pxGCQProducer q) q) w;
            Some (GCQ_ERRORS_NONE, pxThis, w) } }))"

record GCQVersion =
  ucVerMajor :: u8
  ucVerMinor :: u8
  ucVerPatch :: u8
  ucDevCommits :: u8

definition iGCQGetVersion :: "GCQVersion option \<Rightarrow> 'w GCQPrivateData \<Rightarrow> GCQ_ERRORS_TYPE \<times> GCQVersion option" where
  "iGCQGetVersion pxVersion pxThis =
     (case pxVersion of
        Some v \<Rightarrow>
          (if gcq_firewalls_ok pxThis
           then (GCQ_ERRORS_NONE, Some \<lparr>ucVerMajor = 1, ucVerMinor = 0, ucVerPatch = 0, ucDevCommits = 0\<rparr>)
           else (GCQ_ERRORS_INVALID_ARG, pxVersion))
      | None \<Rightarrow> (GCQ_ERRORS_INVALID_ARG, None))"

section \<open>The slot allocation loop\<close>

lemma ring_len_unat:
  assumes "44 + unat n * (unat sq + unat cq) < 2 ^ 32" and "n \<noteq> 0"
  shows "unat (prvulGCQRingLen n sq cq) = 44 + unat n * (unat sq + unat cq)"
proof -
  have n: "1 \<le> unat n" using assms(2) by (simp add: Suc_leI unat_gt_0)
  then have "1 * (unat sq + unat cq) \<le> unat n * (unat sq + unat cq)"
    by (rule mult_le_mono1)
  with assms(1) have "unat sq + unat cq < 2 ^ 32" unfolding nat_mult_1 by linarith
  then have "unat (sq + cq) = unat sq + unat cq" by (simp add: unat_word_ariths)
  with assms(1) show ?thesis
    by (simp add: prvulGCQRingLen_def sizeof_GCQHeader_def unat_word_ariths)
qed

lemma push_bit_1_unat: "2 * unat (n :: u32) < 2 ^ 32 \<Longrightarrow> unat (push_bit 1 n) = 2 * unat n"
  by (simp add: push_bit_eq_mult unat_word_ariths)

lemma drop_bit_1_unat: "unat (drop_bit (Suc 0) (n :: u32)) = unat n div 2"
  by (simp add: drop_bit_eq_div unat_div)

lemma alloc_loop_ok:
  assumes "unat n = 2 ^ Suc k" and "44 + unat n * (unat sq + unat cq) < 2 ^ 32"
    and "0 < unat sq + unat cq" and "unat L < 2 ^ 31"
  shows "okay (alloc_loop L sq cq (prvulGCQRingLen n sq cq) n) (\<lambda>r.
    \<exists>j\<ge>k. unat r = 2 ^ j \<and> (k < j \<longrightarrow> 44 + 2 ^ j * (unat sq + unat cq) \<le> unat L) \<and>
      unat L < 44 + 2 ^ Suc j * (unat sq + unat cq))"
  using assms
proof (induction "unat L - unat n" arbitrary: n k rule: less_induct)
  case less
  let ?S = "unat sq + unat cq" and ?m = "push_bit 1 n" and ?t = "prvulGCQRingLen n sq cq"
  have n0: "n \<noteq> 0" using less.prems(1) by auto
  note tot = ring_len_unat [OF less.prems(2) n0]
  show ?case
  proof (cases "(ucast ?t :: u64) \<le> L")
    case True
    with tot have le: "44 + unat n * ?S \<le> unat L" by (simp add: word_le_nat_alt)
    have "unat n * 1 \<le> unat n * ?S" using less.prems(3) by (intro mult_le_mono2) linarith
    with le have nL: "unat n < unat L" unfolding mult_1_right by linarith
    with less.prems(4) have n2: "2 * unat n < 2 ^ 32" by simp
    have m: "unat ?m = 2 ^ Suc (Suc k)" using push_bit_1_unat [OF n2] less.prems(1) by simp
    have "unat ?m * ?S = 2 * (unat n * ?S)" using m less.prems(1) by simp
    moreover have "44 + 2 * (unat n * ?S) < 2 ^ 32" using le less.prems(4) by simp
    ultimately have "44 + unat ?m * ?S < 2 ^ 32" by (simp only:)
    moreover have "unat L - unat ?m < unat L - unat n"
      by (rule diff_less_mono2 [OF _ nL]) (simp only: m less.prems(1) power_Suc, simp)
    ultimately have rec: "okay (alloc_loop L sq cq (prvulGCQRingLen ?m sq cq) ?m) (\<lambda>r.
      \<exists>j\<ge>Suc k. unat r = 2 ^ j \<and> (Suc k < j \<longrightarrow> 44 + 2 ^ j * ?S \<le> unat L) \<and>
        unat L < 44 + 2 ^ Suc j * ?S)"
      using m less.prems(3,4) by (intro less.hyps)
    have "alloc_loop L sq cq ?t n = alloc_loop L sq cq (prvulGCQRingLen ?m sq cq) ?m"
      using True by (subst alloc_loop.simps) (simp add: Let_def)
    moreover have "44 + 2 ^ Suc k * ?S \<le> unat L"
      using le less.prems(1) by simp
    ultimately show ?thesis
      using rec by (auto elim!: okay_weaken intro: Suc_leD dest!: le_neq_implies_less)
  next
    case False
    with tot have "unat L < 44 + unat n * ?S" by (simp add: word_le_nat_alt)
    moreover have "alloc_loop L sq cq ?t n = Some (drop_bit 1 n)"
      using False by (subst alloc_loop.simps) simp
    ultimately show ?thesis
      using less.prems(1) by (auto simp: drop_bit_1_unat intro!: exI [of _ k])
  qed
qed

lemma alloc_num_slots_ok:
  assumes "44 + 2 * (unat sq + unat cq) < 2 ^ 32" and "0 < unat sq + unat cq" and "unat L < 2 ^ 31"
  shows "okay (prvulGCQAllocNumSlots L sq cq) (\<lambda>r. \<exists>j. unat r = 2 ^ j \<and>
    (2 \<le> unat r \<longrightarrow> 44 + unat r * (unat sq + unat cq) \<le> unat L) \<and>
    unat L < 44 + 2 * unat r * (unat sq + unat cq))"
proof -
  have "prvulGCQAllocNumSlots L sq cq = alloc_loop L sq cq (prvulGCQRingLen 2 sq cq) 2"
    unfolding prvulGCQAllocNumSlots_def by (subst alloc_loop.simps) (simp add: Let_def)
  with alloc_loop_ok [of 2 0 sq cq L] assms show ?thesis
    by (auto simp: okay_iff mult.assoc elim!: ex_forward)
qed

lemma alloc_loop_returns_imp:
  assumes "alloc_loop L sq cq t n = Some r"
  shows "\<exists>t' :: u32. L < ucast t'"
  by (rule alloc_loop.raw_induct [OF _ assms]) (auto simp: Let_def not_le split: if_splits)

lemma alloc_num_slots_diverges:
  assumes "0xFFFFFFFF \<le> L"
  shows "prvulGCQAllocNumSlots L sq cq = None"
proof (rule ccontr)
  assume "prvulGCQAllocNumSlots L sq cq \<noteq> None"
  then obtain t :: u32 where "L < ucast t"
    using alloc_loop_returns_imp by (fastforce simp: prvulGCQAllocNumSlots_def)
  moreover have "unat t < 2 ^ 32" using unat_bound [of t] by simp
  ultimately show False using assms by (simp add: word_le_nat_alt word_less_nat_alt)
qed


section \<open>Properties of slot allocation\<close>

text \<open>
  C4: For ring lengths below 2 GiB the slot computation returns, and what it returns is the
  largest power of two that fits: with at least two slots, the header and that many slots
  of both queues fit in the ring, and twice as many would not.
\<close>
theorem gcq_alloc_largest_fit:
  assumes "44 + 2 * (unat sq + unat cq) < 2 ^ 32" and "0 < unat sq + unat cq" and "unat L < 2 ^ 31"
  shows "okay (prvulGCQAllocNumSlots L sq cq) (\<lambda>r. \<exists>j. unat r = 2 ^ j \<and>
    (2 \<le> unat r \<longrightarrow> 44 + unat r * (unat sq + unat cq) \<le> unat L) \<and>
    unat L < 44 + 2 * unat r * (unat sq + unat cq))"
  using assms by (rule alloc_num_slots_ok)

lemma gcq_alloc_largest_fit_witness:
  "okay (prvulGCQAllocNumSlots 0x1000 64 16) (\<lambda>r. \<exists>j. unat r = 2 ^ j \<and>
    (2 \<le> unat r \<longrightarrow> 44 + unat r * (unat (64 :: u32) + unat (16 :: u32)) \<le> unat (0x1000 :: u64)) \<and>
    unat (0x1000 :: u64) < 44 + 2 * unat r * (unat (64 :: u32) + unat (16 :: u32)))"
  by (rule gcq_alloc_largest_fit) simp_all

text \<open>
  C5: The slot computation compares a 32-bit total with the 64-bit ring length: for every
  ring length of at least 4 GiB - 1 its loop never ends, whatever the slot sizes.
\<close>
theorem gcq_alloc_never_returns:
  assumes "0xFFFFFFFF \<le> L"
  shows "prvulGCQAllocNumSlots L sq cq = None"
  using assms by (rule alloc_num_slots_diverges)

lemma gcq_alloc_never_returns_witness: "prvulGCQAllocNumSlots 0x100000000 512 16 = None"
  by (rule gcq_alloc_never_returns) simp

lemma alloc_sample: "prvulGCQAllocNumSlots 76 4 4 = Some 4"
  unfolding prvulGCQAllocNumSlots_def
  by (subst alloc_loop.simps, simp add: Let_def prvulGCQRingLen_def sizeof_GCQHeader_def)
    (subst alloc_loop.simps, simp add: Let_def prvulGCQRingLen_def sizeof_GCQHeader_def,
     subst alloc_loop.simps, simp add: Let_def prvulGCQRingLen_def sizeof_GCQHeader_def,
     subst alloc_loop.simps, simp)

end
