(* ===== verification/GCQ_Channel.thy ===== *)
theory GCQ_Channel
  imports GCQ_Driver
begin

text \<open>
  Two driver instances joined by a shared ring: what one produces the other consumes.
  The shared memory and the tail registers are hardware, a parameter: a \<open>gcq_view\<close> reads
  the tail register, the consumed word and the slot words off the world, and \<open>produces_on\<close>
  and \<open>consumes_from\<close> say that the access functions of each side act on them as memory
  does.  The channel then provides the contract of a bounded queue of slots.
\<close>

record 'w gcq_view =
  vw_tail :: "'w \<Rightarrow> u32"
  vw_cons :: "'w \<Rightarrow> u32"
  vw_slot :: "'w \<Rightarrow> nat \<Rightarrow> nat \<Rightarrow> u32"

definition same_view :: "'w gcq_view \<Rightarrow> 'w \<Rightarrow> 'w \<Rightarrow> bool" where
  "same_view V w w' \<longleftrightarrow>
     vw_tail V w' = vw_tail V w \<and> vw_cons V w' = vw_cons V w \<and> vw_slot V w' = vw_slot V w"

text \<open>The address of word \<open>j\<close> of slot \<open>i\<close>.\<close>

definition slot_addr :: "GCQRing \<Rightarrow> nat \<Rightarrow> nat \<Rightarrow> u64" where
  "slot_addr r i j = ullRingSlotAddr r + of_nat (unat (ulRingSlotSize r) * i) + of_nat (4 * j)"

definition produces_on :: "'w gcq_view \<Rightarrow> 'w GCQIOAccess \<Rightarrow> GCQRing \<Rightarrow> bool" where
  "produces_on V io r \<longleftrightarrow>
     (\<forall>v w. let w' = xGCQWriteMem32 io (ullRingProducedAddr r) v w in
        vw_tail V w' = v \<and> vw_cons V w' = vw_cons V w \<and> vw_slot V w' = vw_slot V w) \<and>
     (\<forall>w. fst (xGCQReadMem32 io (ullRingConsumedAddr r) w) = vw_cons V w \<and>
        same_view V w (snd (xGCQReadMem32 io (ullRingConsumedAddr r) w))) \<and>
     (\<forall>i j v w. i < unat (ulRingNumSlots r) \<and> 4 * j < unat (ulRingSlotSize r) \<longrightarrow>
        (let w' = xGCQWriteMem32 io (slot_addr r i j) v w in
         vw_tail V w' = vw_tail V w \<and> vw_cons V w' = vw_cons V w \<and>
         vw_slot V w' = (vw_slot V w)(i := (vw_slot V w i)(j := v))))"

definition consumes_from :: "'w gcq_view \<Rightarrow> 'w GCQIOAccess \<Rightarrow> u64 \<Rightarrow> GCQRing \<Rightarrow> bool" where
  "consumes_from V io base r \<longleftrightarrow>
     (\<forall>v w. let w' = xGCQWriteMem32 io (ullRingConsumedAddr r) v w in
        vw_tail V w' = vw_tail V w \<and> vw_cons V w' = v \<and> vw_slot V w' = vw_slot V w) \<and>
     (\<forall>w. fst (xGCQReadMem32 io (ullRingProducedAddr r) w) = vw_tail V w \<and>
        same_view V w (snd (xGCQReadMem32 io (ullRingProducedAddr r) w))) \<and>
     (\<forall>i j w. i < unat (ulRingNumSlots r) \<and> 4 * j < unat (ulRingSlotSize r) \<longrightarrow>
        fst (xGCQReadMem32 io (slot_addr r i j) w) = vw_slot V w i j \<and>
        same_view V w (snd (xGCQReadMem32 io (slot_addr r i j) w))) \<and>
     (\<forall>w. let w1 = snd (xGCQReadMem32 io (base + 0x0000) w);
              w2 = snd (xGCQReadMem32 io (base + 0x0100) w1)
          in \<not> (fst (xGCQReadMem32 io (base + 0x0000) w) = -1 \<and>
                fst (xGCQReadMem32 io (base + 0x0100) w1) = -1) \<and> same_view V w w2)"

record 'w gcq_channel =
  ch_prod_data :: "'w GCQPrivateData"
  ch_prod_inst :: nat
  ch_cons_data :: "'w GCQPrivateData"
  ch_cons_inst :: nat
  ch_world :: 'w

definition prod_inst :: "'w gcq_channel \<Rightarrow> 'w GCQInstance" where
  "prod_inst s = xGCQInstances (ch_prod_data s) (ch_prod_inst s)"

definition cons_inst :: "'w gcq_channel \<Rightarrow> 'w GCQInstance" where
  "cons_inst s = xGCQInstances (ch_cons_data s) (ch_cons_inst s)"

definition prod_ring :: "'w gcq_channel \<Rightarrow> GCQRing" where
  "prod_ring s = get_ring (pxGCQProducer (prod_inst s)) (prod_inst s)"

definition cons_ring :: "'w gcq_channel \<Rightarrow> GCQRing" where
  "cons_ring s = get_ring (pxGCQConsumer (cons_inst s)) (cons_inst s)"

text \<open>One payload of a full slot sent, and one received into a buffer of \<open>n\<close> bytes.\<close>

definition ch_put :: "u8 list \<Rightarrow> 'w gcq_channel \<Rightarrow> (bool \<times> 'w gcq_channel) option" where
  "ch_put x s = do {
     (e, d, w) \<leftarrow> xGCQProduceData (Some (ch_prod_inst s)) (Some x) (of_nat (length x))
                    (ch_prod_data s) (ch_world s);
     Some (e = GCQ_ERRORS_NONE, s\<lparr>ch_prod_data := d, ch_world := w\<rparr>) }"

definition ch_get :: "nat \<Rightarrow> 'w gcq_channel \<Rightarrow> (u8 list option \<times> 'w gcq_channel) option" where
  "ch_get n s = do {
     (e, buf, d, w) \<leftarrow> xGCQConsumeData (Some (ch_cons_inst s)) (Some (replicate n 0)) (of_nat n)
                         (ch_cons_data s) (ch_world s);
     Some (if e = GCQ_ERRORS_NONE then buf else None, s\<lparr>ch_cons_data := d, ch_world := w\<rparr>) }"

text \<open>The slots between the two counters, as byte strings.\<close>

definition slot_bytes :: "'w gcq_view \<Rightarrow> 'w \<Rightarrow> nat \<Rightarrow> nat \<Rightarrow> u8 list" where
  "slot_bytes V w k i = concat (map (\<lambda>j. le_bytes32 (vw_slot V w i j)) [0..<k])"

definition ch_cap :: "'w gcq_channel \<Rightarrow> nat" where
  "ch_cap s = unat (ulRingNumSlots (prod_ring s))"

definition ch_count :: "'w gcq_channel \<Rightarrow> nat" where
  "ch_count s = unat (ulRingProduced (prod_ring s) - ulRingConsumed (cons_ring s))"

definition ch_contents :: "'w gcq_view \<Rightarrow> nat \<Rightarrow> 'w gcq_channel \<Rightarrow> u8 list list" where
  "ch_contents V n s = map (\<lambda>i. slot_bytes V (ch_world s) (n div 4)
     ((unat (ulRingConsumed (cons_ring s)) + i) mod ch_cap s)) [0..<ch_count s]"

definition prod_side :: "'w gcq_view \<Rightarrow> nat \<Rightarrow> 'w gcq_channel \<Rightarrow> bool" where
  "prod_side V n s \<longleftrightarrow>
     gcq_firewalls_ok (ch_prod_data s) \<and> iInitialised (prod_inst s) \<noteq> 0 \<and>
     ulProducerSlotSize (prod_inst s) = of_nat n \<and> ulRingSlotSize (prod_ring s) = of_nat n \<and>
     (\<exists>io. pxGCQIOAccess (prod_inst s) = Some io \<and> produces_on V io (prod_ring s))"

definition cons_side :: "'w gcq_view \<Rightarrow> nat \<Rightarrow> 'w gcq_channel \<Rightarrow> bool" where
  "cons_side V n s \<longleftrightarrow>
     gcq_firewalls_ok (ch_cons_data s) \<and> iInitialised (cons_inst s) \<noteq> 0 \<and>
     (xMode (cons_inst s) = GCQ_MODE_TYPE_CONSUMER_MODE \<longrightarrow> ucConsumerAttached (ch_cons_data s) \<noteq> 0) \<and>
     ulConsumerSlotSize (cons_inst s) = of_nat n \<and> ulRingSlotSize (cons_ring s) = of_nat n \<and>
     (\<exists>io. pxGCQIOAccess (cons_inst s) = Some io \<and>
        consumes_from V io (ullBaseAddr (cons_inst s)) (cons_ring s))"

text \<open>
  The counters: each side's own counter is what the world shows, and each side's cached
  copy of the other counter is out of date at most in the safe direction.
\<close>

definition counters_ok :: "u32 \<Rightarrow> u32 \<Rightarrow> u32 \<Rightarrow> u32 \<Rightarrow> nat \<Rightarrow> bool" where
  "counters_ok pp pc cp cc N \<longleftrightarrow>
     unat (pp - cc) \<le> unat (pp - pc) \<and> unat (pp - pc) \<le> N \<and> unat (cp - cc) \<le> unat (pp - cc)"

definition ch_inv :: "'w gcq_view \<Rightarrow> nat \<Rightarrow> 'w gcq_channel \<Rightarrow> bool" where
  "ch_inv V n s \<longleftrightarrow>
     prod_side V n s \<and> cons_side V n s \<and> 4 dvd n \<and> n < 2 ^ 32 \<and>
     (\<exists>m < 32. ulRingNumSlots (prod_ring s) = 2 ^ m) \<and>
     ulRingNumSlots (cons_ring s) = ulRingNumSlots (prod_ring s) \<and>
     vw_tail V (ch_world s) = ulRingProduced (prod_ring s) \<and>
     vw_cons V (ch_world s) = ulRingConsumed (cons_ring s) \<and>
     counters_ok (ulRingProduced (prod_ring s)) (ulRingConsumed (prod_ring s))
       (ulRingProduced (cons_ring s)) (ulRingConsumed (cons_ring s)) (ch_cap s)"

section \<open>The laws of the hardware, one by one\<close>

lemma read_consumed_law:
  "produces_on V io r \<Longrightarrow> xGCQReadMem32 io (ullRingConsumedAddr r) w = (v, w') \<Longrightarrow>
   v = vw_cons V w \<and> same_view V w w'"
  unfolding produces_on_def by (metis fst_conv snd_conv)

lemma read_produced_law:
  "consumes_from V io base r \<Longrightarrow> xGCQReadMem32 io (ullRingProducedAddr r) w = (v, w') \<Longrightarrow>
   v = vw_tail V w \<and> same_view V w w'"
  unfolding consumes_from_def by (metis fst_conv snd_conv)

lemma read_slot_law:
  "consumes_from V io base r \<Longrightarrow> i < unat (ulRingNumSlots r) \<Longrightarrow> 4 * j < unat (ulRingSlotSize r) \<Longrightarrow>
   xGCQReadMem32 io (slot_addr r i j) w = (v, w') \<Longrightarrow> v = vw_slot V w i j \<and> same_view V w w'"
  unfolding consumes_from_def by (metis fst_conv snd_conv)

lemma alive_law:
  "consumes_from V io base r \<Longrightarrow> xGCQReadMem32 io (base + 0x0000) w = (v1, w1) \<Longrightarrow>
   xGCQReadMem32 io (base + 0x0100) w1 = (v2, w2) \<Longrightarrow> \<not> (v1 = -1 \<and> v2 = -1) \<and> same_view V w w2"
  unfolding consumes_from_def Let_def by (metis fst_conv snd_conv)

section \<open>Counters\<close>

lemma count_inc: "unat (a - b :: u32) < 2 ^ 31 \<Longrightarrow> unat (a + 1 - b) = unat (a - b) + 1"
proof -
  have eq: "a + 1 - b = (a - b) + 1" by simp
  assume "unat (a - b) < 2 ^ 31"
  then show ?thesis unfolding eq by (intro unat_inc) simp
qed

lemma count_dec: "a \<noteq> b \<Longrightarrow> unat (a - (b + 1) :: u32) = unat (a - b) - 1"
proof -
  assume "a \<noteq> b"
  then have "a - b \<noteq> 0" by simp
  then have "unat (a - b - 1) = unat (a - b) - 1" by (rule unat_minus_one)
  then show ?thesis by (simp add: algebra_simps)
qed

lemma unat_pow2: "m < 32 \<Longrightarrow> unat (2 ^ m :: u32) = 2 ^ m"
proof -
  assume "m < 32"
  then have "(2 :: nat) ^ m < 2 ^ 32" by (intro power_strict_increasing) simp_all
  then have "unat (of_nat (2 ^ m) :: u32) = 2 ^ m"
    unfolding unat_of_nat by (intro mod_less) simp
  then show ?thesis by simp
qed

lemma and_pow2: "m < 32 \<Longrightarrow> unat (p AND (2 ^ m - 1) :: u32) = unat p mod 2 ^ m"
proof -
  assume m: "m < 32"
  have "p AND (2 ^ m - 1) = p mod 2 ^ m"
    by (simp only: mask_eq_exp_minus_1 [symmetric] take_bit_eq_mask [symmetric] take_bit_eq_mod)
  with m show ?thesis by (simp add: unat_mod unat_pow2)
qed

lemma mod_pow2_add:
  assumes "m < 32"
  shows "unat (c + of_nat i :: u32) mod 2 ^ m = (unat c + i) mod 2 ^ m"
proof -
  have "(2 :: nat) ^ m dvd 2 ^ 32" using assms by (intro le_imp_power_dvd) simp
  then show ?thesis
    by (simp add: unat_word_ariths unsigned_of_nat take_bit_eq_mod mod_mod_cancel mod_add_right_eq)
qed

lemma mod_window_inj:
  fixes c i j N :: nat
  assumes "(c + i) mod N = (c + j) mod N" and "i < N" and "j < N"
  shows "i = j"
proof -
  have "i = j" if "(c + i) mod N = (c + j) mod N" "i \<le> j" "j < N" for i j :: nat
  proof -
    from that(1,2) have "N dvd (c + j) - (c + i)"
      by (metis add_le_cancel_left mod_eq_dvd_iff_nat)
    with that(2,3) show ?thesis by (auto dest: dvd_imp_le)
  qed
  from this [of i j] this [of j i] assms show ?thesis by (cases "i \<le> j") simp_all
qed

section \<open>Slots\<close>

definition word_at :: "u8 list \<Rightarrow> nat \<Rightarrow> u32" where
  "word_at x j = le_word32 (x ! (4 * j)) (x ! (4 * j + 1)) (x ! (4 * j + 2)) (x ! (4 * j + 3))"

lemma unat_of_nat_32: "n < 2 ^ 32 \<Longrightarrow> unat (of_nat n :: u32) = n"
  unfolding unat_of_nat by (intro mod_less) simp

lemma ucast_of_nat_64: "n < 2 ^ 32 \<Longrightarrow> (ucast (of_nat n :: u32) :: u64) = of_nat n"
proof -
  assume "n < 2 ^ 32"
  then have "unat (of_nat n :: u32) = n" by (rule unat_of_nat_32)
  then show ?thesis by (metis of_nat_unat)
qed

lemma slot_ptr_eq:
  "prvullGCQRingGetSlotPtrProduced r =
     slot_addr r (unat (ulRingProduced r AND (ulRingNumSlots r - 1))) 0"
  "prvullGCQRingGetSlotPtrConsumed r =
     slot_addr r (unat (ulRingConsumed r AND (ulRingNumSlots r - 1))) 0"
  by (simp_all add: prvullGCQRingGetSlotPtrProduced_def prvullGCQRingGetSlotPtrConsumed_def
      slot_addr_def of_nat_mult of_nat_unat)

lemma slot_addr_word: "4 * j < 2 ^ 32 \<Longrightarrow> slot_addr r i 0 + ucast (of_nat (4 * j) :: u32) = slot_addr r i j"
  by (simp only: ucast_of_nat_64) (simp add: slot_addr_def)

lemma write_slot_view:
  assumes "produces_on V io r" and "i < unat (ulRingNumSlots r)"
    and "4 * (j + n) \<le> unat (ulRingSlotSize r)" and "4 * (j + n) \<le> length x" and "length x < 2 ^ 32"
  shows "okay (write_slot io (slot_addr r i 0) x n (of_nat (4 * j)) w) (\<lambda>w'.
    vw_tail V w' = vw_tail V w \<and> vw_cons V w' = vw_cons V w \<and>
    (\<forall>i' j'. vw_slot V w' i' j' =
      (if i' = i \<and> j \<le> j' \<and> j' < j + n then word_at x j' else vw_slot V w i' j')))"
  using assms
proof (induction n arbitrary: j w)
  case 0
  then show ?case by auto
next
  case (Suc n)
  let ?w = "xGCQWriteMem32 io (slot_addr r i j) (word_at x j) w"
  have j4: "4 * j < 2 ^ 32" and j32: "unat (of_nat (4 * j) :: u32) = 4 * j"
    using Suc.prems by (simp, intro unat_of_nat_32, simp)
  have l: "load32 x (4 * j) = Some (word_at x j)"
    using Suc.prems by (simp add: load32_def word_at_def)
  have v: "vw_tail V ?w = vw_tail V w \<and> vw_cons V ?w = vw_cons V w \<and>
      vw_slot V ?w = (vw_slot V w)(i := (vw_slot V w i)(j := word_at x j))"
    using Suc.prems by (simp add: produces_on_def Let_def)
  have step: "write_slot io (slot_addr r i 0) x (Suc n) (of_nat (4 * j)) w =
      write_slot io (slot_addr r i 0) x n (of_nat (4 * Suc j)) ?w"
    using l j32 slot_addr_word [OF j4] by (simp add: Let_def add.commute)
  have "okay (write_slot io (slot_addr r i 0) x n (of_nat (4 * Suc j)) ?w) (\<lambda>w'.
      vw_tail V w' = vw_tail V ?w \<and> vw_cons V w' = vw_cons V ?w \<and>
      (\<forall>i' j'. vw_slot V w' i' j' =
        (if i' = i \<and> Suc j \<le> j' \<and> j' < Suc j + n then word_at x j' else vw_slot V ?w i' j')))"
    using Suc.prems by (intro Suc.IH) simp_all
  with v show ?case
    unfolding step by (elim okay_weaken) (auto simp: Suc_le_eq)
qed

lemma length_concat_le: "length (concat (map (\<lambda>j. le_bytes32 (f j)) js)) = 4 * length js"
  by (induction js) simp_all

lemma read_slot_view:
  assumes "consumes_from V io base r" and "i < unat (ulRingNumSlots r)"
    and "4 * (j + n) \<le> unat (ulRingSlotSize r)" and "4 * (j + n) \<le> length buf" and "length buf < 2 ^ 32"
  shows "okay (read_slot io (slot_addr r i 0) buf n (of_nat (4 * j)) w) (\<lambda>(buf', w').
    same_view V w w' \<and> buf' = take (4 * j) buf @
      concat (map (\<lambda>j. le_bytes32 (vw_slot V w i j)) [j..<j + n]) @ drop (4 * (j + n)) buf)"
  using assms
proof (induction n arbitrary: j buf w)
  case 0
  then show ?case by (simp add: same_view_def)
next
  case (Suc n)
  have j4: "4 * j < 2 ^ 32" and j32: "unat (of_nat (4 * j) :: u32) = 4 * j"
    using Suc.prems by (simp, intro unat_of_nat_32, simp)
  obtain v w1 where r: "xGCQReadMem32 io (slot_addr r i j) w = (v, w1)" by fastforce
  with Suc.prems have v: "v = vw_slot V w i j" "same_view V w w1"
    using read_slot_law [of V io base r i j w v w1] by simp_all
  let ?buf = "take (4 * j) buf @ le_bytes32 v @ drop (4 * j + 4) buf"
  have st: "store32 buf (4 * j) v = Some ?buf" and len: "length ?buf = length buf"
    using Suc.prems by (simp_all add: store32_def)
  have step: "read_slot io (slot_addr r i 0) buf (Suc n) (of_nat (4 * j)) w =
      read_slot io (slot_addr r i 0) ?buf n (of_nat (4 * Suc j)) w1"
    using st j32 r slot_addr_word [OF j4] by (simp add: Let_def add.commute)
  have ih: "okay (read_slot io (slot_addr r i 0) ?buf n (of_nat (4 * Suc j)) w1) (\<lambda>(buf', w').
    same_view V w1 w' \<and> buf' = take (4 * Suc j) ?buf @
      concat (map (\<lambda>j. le_bytes32 (vw_slot V w1 i j)) [Suc j..<Suc j + n]) @ drop (4 * (Suc j + n)) ?buf)"
    using Suc.prems len by (intro Suc.IH) simp_all
  have "take (4 * Suc j) ?buf = take (4 * j) buf @ le_bytes32 v"
    "drop (4 * (Suc j + n)) ?buf = drop (4 * (j + Suc n)) buf"
    using Suc.prems by (simp_all add: algebra_simps)
  moreover have "[j..<j + Suc n] = j # [Suc j..<Suc j + n]"
    by (simp add: upt_conv_Cons del: upt_Suc)
  ultimately show ?case
    using ih v unfolding step by (elim okay_weaken) (auto simp: same_view_def simp del: upt_Suc)
qed

lemma concat_words_at:
  "length x = 4 * k \<Longrightarrow> concat (map (\<lambda>j. le_bytes32 (word_at x j)) [0..<k]) = x"
proof (induction k arbitrary: x)
  case 0
  then show ?case by simp
next
  case (Suc k)
  have "[0..<Suc k] = [0..<k] @ [k]" by simp
  have t: "length (take (4 * k) x) = 4 * k" using Suc.prems by simp
  have "concat (map (\<lambda>j. le_bytes32 (word_at x j)) [0..<k]) =
      concat (map (\<lambda>j. le_bytes32 (word_at (take (4 * k) x) j)) [0..<k])"
    by (intro arg_cong [of _ _ concat] map_cong) (auto simp: word_at_def)
  moreover have "le_bytes32 (word_at x k) = drop (4 * k) x"
    using Suc.prems
    by (intro nth_equalityI) (auto simp: word_at_def nth_Cons less_Suc_eq numeral_eq_Suc split: nat.splits)
  ultimately show ?case
    using Suc.IH [OF t] by simp
qed

section \<open>Ring and instance updates\<close>

lemma get_set_ring [simp]: "get_ring r (set_ring r x q) = x"
  by (cases r) (simp_all add: get_ring_def set_ring_def)

lemma set_ring_frame [simp]:
  "pxGCQProducer (set_ring r x q) = pxGCQProducer q"
  "pxGCQConsumer (set_ring r x q) = pxGCQConsumer q"
  "iInitialised (set_ring r x q) = iInitialised q"
  "ulProducerSlotSize (set_ring r x q) = ulProducerSlotSize q"
  "ulConsumerSlotSize (set_ring r x q) = ulConsumerSlotSize q"
  "pxGCQIOAccess (set_ring r x q) = pxGCQIOAccess q"
  "xMode (set_ring r x q) = xMode q"
  "ullBaseAddr (set_ring r x q) = ullBaseAddr q"
  by (cases r; simp add: set_ring_def)+

lemma slot_addr_counters [simp]:
  "slot_addr (r\<lparr>ulRingProduced := a\<rparr>) = slot_addr r"
  "slot_addr (r\<lparr>ulRingConsumed := a\<rparr>) = slot_addr r"
  by (simp_all add: slot_addr_def fun_eq_iff)

lemma wired_counters [simp]:
  "produces_on V io (r\<lparr>ulRingProduced := a\<rparr>) = produces_on V io r"
  "produces_on V io (r\<lparr>ulRingConsumed := a\<rparr>) = produces_on V io r"
  "consumes_from V io base (r\<lparr>ulRingProduced := a\<rparr>) = consumes_from V io base r"
  "consumes_from V io base (r\<lparr>ulRingConsumed := a\<rparr>) = consumes_from V io base r"
  by (simp_all add: produces_on_def consumes_from_def)

section \<open>Room and data, whatever the cached counters\<close>

lemma can_produce:
  assumes "produces_on V io r" and "vw_cons V w = cc"
    and "unat (ulRingProduced r - cc) \<le> unat (ulRingProduced r - ulRingConsumed r)"
  shows "\<exists>c w'. prvucGCQCanProduce io r w =
      (unat (ulRingProduced r - cc) < unat (ulRingNumSlots r), r\<lparr>ulRingConsumed := c\<rparr>, w') \<and>
    same_view V w w' \<and> (c = ulRingConsumed r \<or> c = cc) \<and>
    (unat (ulRingProduced r - cc) < unat (ulRingNumSlots r) \<longrightarrow>
      unat (ulRingProduced r - c) < unat (ulRingNumSlots r))"
proof (cases "prvucGCQRingIsFull r")
  case False
  then have nf: "unat (ulRingProduced r - ulRingConsumed r) < unat (ulRingNumSlots r)"
    by (simp add: prvucGCQRingIsFull_def word_le_nat_alt)
  with assms(3) have "unat (ulRingProduced r - cc) < unat (ulRingNumSlots r)"
    by simp
  with False nf show ?thesis
    by (intro exI [of _ "ulRingConsumed r"] exI [of _ w])
      (simp add: prvucGCQCanProduce_def same_view_def)
next
  case True
  obtain v w' where rd: "xGCQReadMem32 io (ullRingConsumedAddr r) w = (v, w')" by fastforce
  with read_consumed_law [OF assms(1) rd] assms(2) True show ?thesis
    by (intro exI [of _ cc] exI [of _ w'])
      (simp add: prvucGCQCanProduce_def prvvGCQRingReadConsumed_def prvucGCQRingIsFull_def
        word_le_nat_alt not_le)
qed

lemma can_consume:
  assumes "consumes_from V io base r" and "vw_tail V w = pp"
    and "unat (ulRingProduced r - ulRingConsumed r) \<le> unat (pp - ulRingConsumed r)"
  shows "\<exists>p w'. prvucGCQCanConsume io base r w = (pp \<noteq> ulRingConsumed r, r\<lparr>ulRingProduced := p\<rparr>, w') \<and>
    same_view V w w' \<and> (p = ulRingProduced r \<and> p \<noteq> ulRingConsumed r \<or> p = pp)"
proof -
  obtain v1 w1 where r1: "xGCQReadMem32 io (base + 0x0000) w = (v1, w1)" by fastforce
  obtain v2 w2 where r2: "xGCQReadMem32 io (base + 0x0100) w1 = (v2, w2)" by fastforce
  from alive_law [OF assms(1) r1 r2] have up: "\<not> (v1 = -1 \<and> v2 = -1)" and v12: "same_view V w w2"
    by simp_all
  show ?thesis
  proof (cases "prvucGCQRingIsEmpty r")
    case False
    with assms(3) have "pp \<noteq> ulRingConsumed r"
      by (auto simp: prvucGCQRingIsEmpty_def unat_eq_0)
    with False r1 r2 up v12 show ?thesis
      by (intro exI [of _ "ulRingProduced r"] exI [of _ w2])
        (auto simp: prvucGCQCanConsume_def prvucGCQRingIsEmpty_def)
  next
    case True
    obtain v w' where rd: "xGCQReadMem32 io (ullRingProducedAddr r) w2 = (v, w')" by fastforce
    with read_produced_law [OF assms(1) rd] assms(2) v12 True r1 r2 up show ?thesis
      by (intro exI [of _ pp] exI [of _ w'])
        (auto simp: prvucGCQCanConsume_def prvvGCQRingReadProduced_def prvucGCQRingIsEmpty_def
          same_view_def)
  qed
qed

section \<open>The two operations on the channel\<close>

definition upd_prod :: "GCQRing \<Rightarrow> 'w gcq_channel \<Rightarrow> 'w gcq_channel" where
  "upd_prod r s = s\<lparr>ch_prod_data := (ch_prod_data s)\<lparr>xGCQInstances :=
     (xGCQInstances (ch_prod_data s))(ch_prod_inst s :=
        set_ring (pxGCQProducer (prod_inst s)) r (prod_inst s))\<rparr>\<rparr>"

definition upd_cons :: "GCQRing \<Rightarrow> 'w gcq_channel \<Rightarrow> 'w gcq_channel" where
  "upd_cons r s = s\<lparr>ch_cons_data := (ch_cons_data s)\<lparr>xGCQInstances :=
     (xGCQInstances (ch_cons_data s))(ch_cons_inst s :=
        set_ring (pxGCQConsumer (cons_inst s)) r (cons_inst s))\<rparr>\<rparr>"

lemma upd_rings [simp]:
  "prod_ring (upd_prod r s) = r" "cons_ring (upd_prod r s) = cons_ring s"
  "cons_ring (upd_cons r s) = r" "prod_ring (upd_cons r s) = prod_ring s"
  "prod_ring (s\<lparr>ch_world := w\<rparr>) = prod_ring s" "cons_ring (s\<lparr>ch_world := w\<rparr>) = cons_ring s"
  "ch_world (upd_prod r s) = ch_world s" "ch_world (upd_cons r s) = ch_world s"
  by (simp_all add: upd_prod_def upd_cons_def prod_ring_def cons_ring_def prod_inst_def cons_inst_def)

lemma upd_sides [simp]:
  "cons_side V n (upd_prod r s) = cons_side V n s"
  "prod_side V n (upd_cons r s) = prod_side V n s"
  "prod_side V n (s\<lparr>ch_world := w\<rparr>) = prod_side V n s"
  "cons_side V n (s\<lparr>ch_world := w\<rparr>) = cons_side V n s"
  by (simp_all add: upd_prod_def upd_cons_def prod_side_def cons_side_def prod_ring_def cons_ring_def
      prod_inst_def cons_inst_def)

lemma upd_prod_side:
  "prod_side V n s \<Longrightarrow> prod_side V n (upd_prod ((prod_ring s)\<lparr>ulRingConsumed := c\<rparr>) s)"
  "prod_side V n s \<Longrightarrow>
   prod_side V n (upd_prod ((prod_ring s)\<lparr>ulRingConsumed := c, ulRingProduced := p\<rparr>) s)"
  unfolding prod_side_def
  by (auto simp: upd_prod_def prod_ring_def prod_inst_def gcq_firewalls_ok_def)

lemma upd_cons_side:
  "cons_side V n s \<Longrightarrow> cons_side V n (upd_cons ((cons_ring s)\<lparr>ulRingProduced := c\<rparr>) s)"
  "cons_side V n s \<Longrightarrow>
   cons_side V n (upd_cons ((cons_ring s)\<lparr>ulRingProduced := c, ulRingConsumed := p\<rparr>) s)"
  unfolding cons_side_def
  by (auto simp: upd_cons_def cons_ring_def cons_inst_def gcq_firewalls_ok_def)

lemma aligned_and_3: "4 dvd n \<Longrightarrow> n < 2 ^ 32 \<Longrightarrow> (of_nat n :: u32) AND 3 = 0"
proof -
  assume "4 dvd n" and "n < 2 ^ 32"
  then have "unat ((of_nat n :: u32) AND (2 ^ 2 - 1)) = 0"
    by (subst and_pow2) (simp_all add: unat_of_nat_32 mod_eq_0_iff_dvd)
  then show ?thesis by (simp add: unat_eq_0)
qed

lemma word_count: "n < 2 ^ 32 \<Longrightarrow> unat ((of_nat n :: u32) div 4) = n div 4"
  by (simp add: unat_div unat_of_nat_32)

lemma ch_put_eq:
  assumes "prod_side V n s" and "4 dvd n" and "n < 2 ^ 32" and "length x = n"
    and "pxGCQIOAccess (prod_inst s) = Some io"
    and "prvucGCQCanProduce io (prod_ring s) (ch_world s) = (b, (prod_ring s)\<lparr>ulRingConsumed := c\<rparr>, w)"
  shows "ch_put x s = (if b
    then do { w \<leftarrow> write_slot io (prvullGCQRingGetSlotPtrProduced (prod_ring s)) x (n div 4) 0 w;
         Some (True, upd_prod ((prod_ring s)\<lparr>ulRingConsumed := c, ulRingProduced := ulRingProduced (prod_ring s) + 1\<rparr>)
           s\<lparr>ch_world := xGCQWriteMem32 io (ullRingProducedAddr (prod_ring s)) (ulRingProduced (prod_ring s) + 1) w\<rparr>) }
    else Some (False, upd_prod ((prod_ring s)\<lparr>ulRingConsumed := c\<rparr>) s\<lparr>ch_world := w\<rparr>))"
proof -
  have ptr: "prvullGCQRingGetSlotPtrProduced ((prod_ring s)\<lparr>ulRingConsumed := c\<rparr>) =
      prvullGCQRingGetSlotPtrProduced (prod_ring s)"
    by (simp add: prvullGCQRingGetSlotPtrProduced_def)
  have chk: "produce_checks (ch_prod_data s) (Some (ch_prod_inst s)) (Some x) (of_nat n) = GCQ_ERRORS_NONE"
    using assms aligned_and_3 [of n]
    by (simp add: produce_checks_def prod_side_def prod_inst_def Let_def)
  have fw: "gcq_firewalls_ok (ch_prod_data s)" using assms(1) by (simp add: prod_side_def)
  show ?thesis
    using assms(4,5,6) word_count [OF assms(3)]
    by (simp add: ch_put_def xGCQProduceData_def chk fw Let_def prvxGCQProduce_def ptr upd_prod_def
        prod_inst_def [symmetric] prod_ring_def [symmetric] prvvGCQRingWriteProduced_def
        split: option.split)
qed

lemma ch_get_eq:
  assumes "cons_side V n s" and "4 dvd n" and "n < 2 ^ 32"
    and "pxGCQIOAccess (cons_inst s) = Some io"
    and "prvucGCQCanConsume io (ullBaseAddr (cons_inst s)) (cons_ring s) (ch_world s) =
      (b, (cons_ring s)\<lparr>ulRingProduced := p\<rparr>, w)"
  shows "ch_get n s = (if b
    then do { (buf, w) \<leftarrow> read_slot io (prvullGCQRingGetSlotPtrConsumed (cons_ring s)) (replicate n 0) (n div 4) 0 w;
         Some (Some buf, upd_cons ((cons_ring s)\<lparr>ulRingProduced := p, ulRingConsumed := ulRingConsumed (cons_ring s) + 1\<rparr>)
           s\<lparr>ch_world := xGCQWriteMem32 io (ullRingConsumedAddr (cons_ring s)) (ulRingConsumed (cons_ring s) + 1) w\<rparr>) }
    else Some (None, upd_cons ((cons_ring s)\<lparr>ulRingProduced := p\<rparr>) s\<lparr>ch_world := w\<rparr>))"
proof -
  have ptr: "prvullGCQRingGetSlotPtrConsumed ((cons_ring s)\<lparr>ulRingProduced := p\<rparr>) =
      prvullGCQRingGetSlotPtrConsumed (cons_ring s)"
    by (simp add: prvullGCQRingGetSlotPtrConsumed_def)
  have chk: "consume_checks (ch_cons_data s) (Some (ch_cons_inst s)) (Some (replicate n 0)) (of_nat n) = GCQ_ERRORS_NONE"
    using assms aligned_and_3 [of n]
    by (auto simp: consume_checks_def cons_side_def cons_inst_def Let_def)
  have fw: "gcq_firewalls_ok (ch_cons_data s)" using assms(1) by (simp add: cons_side_def)
  show ?thesis
    using assms(4,5) word_count [OF assms(3)]
    by (simp add: ch_get_def xGCQConsumeData_def chk fw Let_def prvxGCQConsume_def ptr upd_cons_def
        cons_inst_def [symmetric] cons_ring_def [symmetric] prvvGCQRingWriteConsumed_def)
      (cases "read_slot io (prvullGCQRingGetSlotPtrConsumed (cons_ring s)) (replicate n 0) (n div 4) 0 w";
       clarsimp)
qed

lemma slot_of_count:
  "m < 32 \<Longrightarrow> unat (pp :: u32) mod 2 ^ m = (unat cc + unat (pp - cc)) mod 2 ^ m"
  using mod_pow2_add [of m cc "unat (pp - cc)"] by simp

lemma ch_invD:
  assumes "ch_inv V n s"
  obtains m where "m < 32" "ulRingNumSlots (prod_ring s) = 2 ^ m" "ulRingNumSlots (cons_ring s) = 2 ^ m"
    "ch_cap s = 2 ^ m" "n < 2 ^ 32" "4 dvd n" "prod_side V n s" "cons_side V n s"
    "vw_tail V (ch_world s) = ulRingProduced (prod_ring s)"
    "vw_cons V (ch_world s) = ulRingConsumed (cons_ring s)"
    "counters_ok (ulRingProduced (prod_ring s)) (ulRingConsumed (prod_ring s))
       (ulRingProduced (cons_ring s)) (ulRingConsumed (cons_ring s)) (2 ^ m)"
  using assms unfolding ch_inv_def ch_cap_def by (metis unat_pow2)

lemma ch_count_le: "ch_inv V n s \<Longrightarrow> ch_count s \<le> ch_cap s"
  by (auto simp: ch_inv_def counters_ok_def ch_count_def)

lemma ch_put_room:
  assumes inv: "ch_inv V n s" and x: "length x = n" and room: "ch_count s < ch_cap s"
  shows "okay (ch_put x s) (\<lambda>(b, s'). b \<and> ch_inv V n s' \<and> ch_cap s' = ch_cap s \<and>
    ch_contents V n s' = ch_contents V n s @ [x])"
proof -
  let ?r = "prod_ring s" and ?pp = "ulRingProduced (prod_ring s)" and ?cc = "ulRingConsumed (cons_ring s)"
  obtain m where m: "m < 32" and nsl: "ulRingNumSlots ?r = 2 ^ m" "ulRingNumSlots (cons_ring s) = 2 ^ m"
    and cap: "ch_cap s = 2 ^ m" and n: "n < 2 ^ 32" "4 dvd n" and ps: "prod_side V n s" and cs: "cons_side V n s"
    and vw: "vw_tail V (ch_world s) = ?pp" "vw_cons V (ch_world s) = ?cc"
    and ctr: "counters_ok ?pp (ulRingConsumed ?r) (ulRingProduced (cons_ring s)) ?cc (2 ^ m)"
    by (rule ch_invD [OF inv])
  obtain io where io: "pxGCQIOAccess (prod_inst s) = Some io" "produces_on V io ?r"
    and sz: "ulRingSlotSize ?r = of_nat n"
    using ps by (auto simp: prod_side_def)
  have pow: "(2 :: nat) ^ m \<le> 2 ^ 31" using m by (intro power_increasing) simp_all
  from can_produce [OF io(2) vw(2)] ctr obtain c w where
    can: "prvucGCQCanProduce io ?r (ch_world s) = (True, ?r\<lparr>ulRingConsumed := c\<rparr>, w)"
    and w: "same_view V (ch_world s) w" and c: "c = ulRingConsumed ?r \<or> c = ?cc"
    and pc: "unat (?pp - c) < 2 ^ m"
    using room cap nsl m by (auto simp: counters_ok_def ch_count_def unat_pow2)
  let ?i = "unat ?pp mod 2 ^ m"
  have i: "?i = (unat ?cc + ch_count s) mod 2 ^ m"
    using slot_of_count [OF m] by (simp add: ch_count_def)
  have ptr: "prvullGCQRingGetSlotPtrProduced ?r = slot_addr ?r ?i 0"
    using slot_ptr_eq(1) nsl and_pow2 [OF m] by simp
  have "okay (write_slot io (slot_addr ?r ?i 0) x (n div 4) (of_nat (4 * 0)) w) (\<lambda>w'.
    vw_tail V w' = vw_tail V w \<and> vw_cons V w' = vw_cons V w \<and>
    (\<forall>i' j'. vw_slot V w' i' j' =
      (if i' = ?i \<and> 0 \<le> j' \<and> j' < 0 + n div 4 then word_at x j' else vw_slot V w i' j')))"
    using io n x sz nsl m
    by (intro write_slot_view) (simp_all add: unat_of_nat_32 unat_pow2)
  then obtain w' where wr: "write_slot io (prvullGCQRingGetSlotPtrProduced ?r) x (n div 4) 0 w = Some w'"
    and w': "vw_cons V w' = ?cc"
    "\<And>i' j'. vw_slot V w' i' j' =
      (if i' = ?i \<and> j' < n div 4 then word_at x j' else vw_slot V (ch_world s) i' j')"
    using w vw ptr by (auto simp: okay_iff same_view_def)
  let ?w = "xGCQWriteMem32 io (ullRingProducedAddr ?r) (?pp + 1) w'"
  let ?r' = "?r\<lparr>ulRingConsumed := c, ulRingProduced := ?pp + 1\<rparr>"
  let ?s = "upd_prod ?r' s\<lparr>ch_world := ?w\<rparr>"
  have put: "ch_put x s = Some (True, ?s)"
    using ch_put_eq [OF ps n(2,1) x io(1) can] wr by simp
  have tl: "vw_tail V ?w = ?pp + 1" "vw_cons V ?w = ?cc" "vw_slot V ?w = vw_slot V w'"
    using io(2) w'(1) by (auto simp: produces_on_def Let_def)
  have cnt: "ch_count ?s = ch_count s + 1"
    using count_inc [of ?pp ?cc] room cap pow by (simp add: ch_count_def)
  have pc': "unat (?pp + 1 - c) = unat (?pp - c) + 1"
    using count_inc [of ?pp c] pc pow by simp
  have "counters_ok (?pp + 1) c (ulRingProduced (cons_ring s)) ?cc (2 ^ m)"
    using ctr pc c cnt pc' by (auto simp: counters_ok_def ch_count_def)
  then have inv': "ch_inv V n ?s" and cap': "ch_cap ?s = ch_cap s"
    using m nsl n cs upd_prod_side(2) [OF ps] tl unat_pow2 [OF m]
    by (auto simp: ch_inv_def ch_cap_def)
  have "slot_bytes V ?w (n div 4) ?i = concat (map (\<lambda>j. le_bytes32 (word_at x j)) [0..<n div 4])"
    unfolding slot_bytes_def
    by (intro arg_cong [where f = concat] map_cong) (auto simp: tl w')
  then have "slot_bytes V ?w (n div 4) ?i = x"
    using concat_words_at [of x "n div 4"] x n(2) by auto
  moreover have "slot_bytes V ?w (n div 4) ((unat ?cc + k) mod 2 ^ m) =
      slot_bytes V (ch_world s) (n div 4) ((unat ?cc + k) mod 2 ^ m)" if "k < ch_count s" for k
  proof -
    have "(unat ?cc + k) mod 2 ^ m \<noteq> ?i"
      using mod_window_inj [of "unat ?cc" k "2 ^ m" "ch_count s"] that room cap i by auto
    then show ?thesis by (simp add: slot_bytes_def tl w')
  qed
  ultimately have "ch_contents V n ?s = ch_contents V n s @ [x]"
    using cnt cap cap' i by (simp add: ch_contents_def)
  with put inv' cap' show ?thesis by simp
qed

lemma same_view_contents:
  "same_view V (ch_world s) w \<Longrightarrow> prod_ring s' = (prod_ring s)\<lparr>ulRingConsumed := c\<rparr> \<or> prod_ring s' = prod_ring s \<Longrightarrow>
   cons_ring s' = (cons_ring s)\<lparr>ulRingProduced := p\<rparr> \<or> cons_ring s' = cons_ring s \<Longrightarrow> ch_world s' = w \<Longrightarrow>
   ch_contents V n s' = ch_contents V n s \<and> ch_cap s' = ch_cap s"
  by (elim disjE) (simp_all add: ch_contents_def ch_cap_def ch_count_def same_view_def slot_bytes_def)

lemma ch_put_full:
  assumes inv: "ch_inv V n s" and x: "length x = n" and full: "ch_count s = ch_cap s"
  shows "okay (ch_put x s) (\<lambda>(b, s'). \<not> b \<and> ch_inv V n s' \<and> ch_cap s' = ch_cap s \<and>
    ch_contents V n s' = ch_contents V n s)"
proof -
  let ?r = "prod_ring s" and ?pp = "ulRingProduced (prod_ring s)" and ?cc = "ulRingConsumed (cons_ring s)"
  obtain m where m: "m < 32" and nsl: "ulRingNumSlots ?r = 2 ^ m" "ulRingNumSlots (cons_ring s) = 2 ^ m"
    and cap: "ch_cap s = 2 ^ m" and n: "n < 2 ^ 32" "4 dvd n" and ps: "prod_side V n s" and cs: "cons_side V n s"
    and vw: "vw_tail V (ch_world s) = ?pp" "vw_cons V (ch_world s) = ?cc"
    and ctr: "counters_ok ?pp (ulRingConsumed ?r) (ulRingProduced (cons_ring s)) ?cc (2 ^ m)"
    by (rule ch_invD [OF inv])
  obtain io where io: "pxGCQIOAccess (prod_inst s) = Some io" "produces_on V io ?r"
    using ps by (auto simp: prod_side_def)
  from can_produce [OF io(2) vw(2)] ctr obtain c w where
    can: "prvucGCQCanProduce io ?r (ch_world s) = (False, ?r\<lparr>ulRingConsumed := c\<rparr>, w)"
    and w: "same_view V (ch_world s) w" and c: "c = ulRingConsumed ?r \<or> c = ?cc"
    using full cap nsl m by (auto simp: counters_ok_def ch_count_def unat_pow2)
  let ?s = "upd_prod (?r\<lparr>ulRingConsumed := c\<rparr>) s\<lparr>ch_world := w\<rparr>"
  have put: "ch_put x s = Some (False, ?s)"
    using ch_put_eq [OF ps n(2,1) x io(1) can] by simp
  have "counters_ok ?pp c (ulRingProduced (cons_ring s)) ?cc (2 ^ m)"
    using ctr c full cap by (auto simp: counters_ok_def ch_count_def)
  then have "ch_inv V n ?s"
    using m nsl n cs upd_prod_side(1) [OF ps] unat_pow2 [OF m] w vw
    by (auto simp: ch_inv_def ch_cap_def same_view_def)
  with put same_view_contents [OF w, of ?s c] show ?thesis by simp
qed

lemma ch_get_front:
  assumes inv: "ch_inv V n s" and front: "ch_contents V n s = y # ys"
  shows "okay (ch_get n s) (\<lambda>(r, s'). r = Some y \<and> ch_inv V n s' \<and> ch_cap s' = ch_cap s \<and>
    ch_contents V n s' = ys)"
proof -
  let ?r = "cons_ring s" and ?pp = "ulRingProduced (prod_ring s)" and ?cc = "ulRingConsumed (cons_ring s)"
  obtain m where m: "m < 32" and nsl: "ulRingNumSlots (prod_ring s) = 2 ^ m" "ulRingNumSlots ?r = 2 ^ m"
    and cap: "ch_cap s = 2 ^ m" and n: "n < 2 ^ 32" "4 dvd n" and ps: "prod_side V n s" and cs: "cons_side V n s"
    and vw: "vw_tail V (ch_world s) = ?pp" "vw_cons V (ch_world s) = ?cc"
    and ctr: "counters_ok ?pp (ulRingConsumed (prod_ring s)) (ulRingProduced ?r) ?cc (2 ^ m)"
    by (rule ch_invD [OF inv])
  obtain io where io: "pxGCQIOAccess (cons_inst s) = Some io"
      "consumes_from V io (ullBaseAddr (cons_inst s)) ?r"
    and sz: "ulRingSlotSize ?r = of_nat n"
    using cs by (auto simp: cons_side_def)
  have pos: "0 < ch_count s" using front by (cases "ch_count s") (auto simp: ch_contents_def)
  then have ne: "?pp \<noteq> ?cc" by (auto simp: ch_count_def)
  from can_consume [OF io(2) vw(1)] ctr ne obtain p w where
    can: "prvucGCQCanConsume io (ullBaseAddr (cons_inst s)) ?r (ch_world s) = (True, ?r\<lparr>ulRingProduced := p\<rparr>, w)"
    and w: "same_view V (ch_world s) w" and p: "p = ulRingProduced ?r \<and> p \<noteq> ?cc \<or> p = ?pp"
    by (auto simp: counters_ok_def)
  let ?i = "unat ?cc mod 2 ^ m"
  have ptr: "prvullGCQRingGetSlotPtrConsumed ?r = slot_addr ?r ?i 0"
    using slot_ptr_eq(2) nsl and_pow2 [OF m] by simp
  have "okay (read_slot io (slot_addr ?r ?i 0) (replicate n 0) (n div 4) (of_nat (4 * 0)) w) (\<lambda>(buf', w').
    same_view V w w' \<and> buf' = take (4 * 0) (replicate n 0) @
      concat (map (\<lambda>j. le_bytes32 (vw_slot V w ?i j)) [0..<0 + n div 4]) @ drop (4 * (0 + n div 4)) (replicate n 0))"
    using n sz nsl m
    by (intro read_slot_view [OF io(2)]) (simp_all add: unat_of_nat_32 unat_pow2)
  then obtain w' where rd: "read_slot io (prvullGCQRingGetSlotPtrConsumed ?r) (replicate n 0) (n div 4) 0 w =
      Some (slot_bytes V (ch_world s) (n div 4) ?i, w')" and w': "same_view V (ch_world s) w'"
    using w ptr n(2) by (auto simp: okay_iff same_view_def slot_bytes_def)
  have "[0..<ch_count s] = 0 # map Suc [0..<ch_count s - 1]"
    using pos by (metis Suc_pred' map_Suc_upt upt_conv_Cons)
  then have y: "slot_bytes V (ch_world s) (n div 4) ?i = y"
    and ys: "map (\<lambda>i. slot_bytes V (ch_world s) (n div 4) ((unat ?cc + Suc i) mod 2 ^ m)) [0..<ch_count s - 1] = ys"
    using front cap by (simp_all add: ch_contents_def o_def)
  let ?w = "xGCQWriteMem32 io (ullRingConsumedAddr ?r) (?cc + 1) w'"
  let ?s = "upd_cons (?r\<lparr>ulRingProduced := p, ulRingConsumed := ?cc + 1\<rparr>) s\<lparr>ch_world := ?w\<rparr>"
  have get: "ch_get n s = Some (Some y, ?s)"
    using ch_get_eq [OF cs n(2,1) io(1) can] rd y by simp
  have vw': "vw_tail V ?w = ?pp" "vw_cons V ?w = ?cc + 1" "vw_slot V ?w = vw_slot V (ch_world s)"
    using io(2) w' vw by (auto simp: consumes_from_def Let_def same_view_def)
  have cnt: "ch_count ?s = ch_count s - 1"
    using count_dec [OF ne] by (simp add: ch_count_def)
  have "unat (p - (?cc + 1)) \<le> unat (?pp - (?cc + 1))"
    using p ctr count_dec [OF ne] count_dec [of p ?cc] by (auto simp: counters_ok_def)
  then have "counters_ok ?pp (ulRingConsumed (prod_ring s)) p (?cc + 1) (2 ^ m)"
    using ctr count_dec [OF ne] unfolding counters_ok_def by linarith
  then have inv': "ch_inv V n ?s" and cap': "ch_cap ?s = ch_cap s"
    using m nsl n ps upd_cons_side(2) [OF cs] vw' unat_pow2 [OF m]
    by (auto simp: ch_inv_def ch_cap_def)
  have "(unat (?cc + 1) + k) mod 2 ^ m = (unat ?cc + Suc k) mod 2 ^ m" for k
    using mod_add_cong [OF mod_pow2_add [OF m, of ?cc 1] refl, of k] by simp
  then have "ch_contents V n ?s = ys"
    using cnt cap cap' ys vw' by (simp add: ch_contents_def slot_bytes_def)
  with get inv' cap' show ?thesis by simp
qed

lemma ch_get_empty:
  assumes inv: "ch_inv V n s" and empty: "ch_contents V n s = []"
  shows "okay (ch_get n s) (\<lambda>(r, s'). r = None \<and> ch_inv V n s' \<and> ch_cap s' = ch_cap s \<and>
    ch_contents V n s' = [])"
proof -
  let ?r = "cons_ring s" and ?pp = "ulRingProduced (prod_ring s)" and ?cc = "ulRingConsumed (cons_ring s)"
  obtain m where m: "m < 32" and nsl: "ulRingNumSlots (prod_ring s) = 2 ^ m" "ulRingNumSlots ?r = 2 ^ m"
    and n: "n < 2 ^ 32" "4 dvd n" and ps: "prod_side V n s" and cs: "cons_side V n s"
    and vw: "vw_tail V (ch_world s) = ?pp" "vw_cons V (ch_world s) = ?cc"
    and ctr: "counters_ok ?pp (ulRingConsumed (prod_ring s)) (ulRingProduced ?r) ?cc (2 ^ m)"
    by (rule ch_invD [OF inv])
  obtain io where io: "pxGCQIOAccess (cons_inst s) = Some io"
      "consumes_from V io (ullBaseAddr (cons_inst s)) ?r"
    using cs by (auto simp: cons_side_def)
  have eq: "?pp = ?cc" using empty by (simp add: ch_contents_def ch_count_def unat_eq_0)
  from can_consume [OF io(2) vw(1)] ctr eq obtain p w where
    can: "prvucGCQCanConsume io (ullBaseAddr (cons_inst s)) ?r (ch_world s) = (False, ?r\<lparr>ulRingProduced := p\<rparr>, w)"
    and w: "same_view V (ch_world s) w" and p: "p = ?pp"
    by (auto simp: counters_ok_def unat_eq_0)
  let ?s = "upd_cons (?r\<lparr>ulRingProduced := p\<rparr>) s\<lparr>ch_world := w\<rparr>"
  have get: "ch_get n s = Some (None, ?s)"
    using ch_get_eq [OF cs n(2,1) io(1) can] by simp
  have "counters_ok ?pp (ulRingConsumed (prod_ring s)) p ?cc (2 ^ m)"
    using ctr p by (simp add: counters_ok_def)
  then have "ch_inv V n ?s"
    using m nsl n ps upd_cons_side(1) [OF cs] unat_pow2 [OF m] w vw
    by (auto simp: ch_inv_def ch_cap_def same_view_def)
  with get empty same_view_contents [OF w, of ?s _ p n] show ?thesis by simp
qed

section \<open>The channel provides the queue interface\<close>

interpretation gcq: bounded_fifo "\<lambda>x. length x = n" "ch_inv V n" "ch_contents V n" ch_cap ch_put "ch_get n"
  for V n
proof unfold_locales
  fix s x y ys
  have len: "length (ch_contents V n s) = ch_count s" by (simp add: ch_contents_def)
  show "ch_inv V n s \<Longrightarrow> length (ch_contents V n s) \<le> ch_cap s"
    using ch_count_le len by simp
  show "length x = n \<Longrightarrow> ch_inv V n s \<Longrightarrow> length (ch_contents V n s) < ch_cap s \<Longrightarrow>
      okay (ch_put x s) (\<lambda>(b, s'). b \<and> ch_inv V n s' \<and> ch_cap s' = ch_cap s \<and>
        ch_contents V n s' = ch_contents V n s @ [x])"
    using ch_put_room len by simp
  show "length x = n \<Longrightarrow> ch_inv V n s \<Longrightarrow> length (ch_contents V n s) = ch_cap s \<Longrightarrow>
      okay (ch_put x s) (\<lambda>(b, s'). \<not> b \<and> ch_inv V n s' \<and> ch_cap s' = ch_cap s \<and>
        ch_contents V n s' = ch_contents V n s)"
    using ch_put_full len by simp
qed (simp_all add: ch_get_front ch_get_empty)

section \<open>Properties\<close>

text \<open>
  C2: A producer and a consumer instance joined by a shared ring of full-slot payloads
  behave, on every sequence of produce and consume calls, exactly as a bounded first-in
  first-out queue whose capacity is the number of slots: no call reads or writes outside a
  buffer, produce answers "no free slots" exactly when the queue is full and consume "no
  data" exactly when it is empty, and each payload comes out once, in order and byte for
  byte, also when the 32-bit counters wrap around and when the cached counters are stale.
\<close>
theorem gcq_channel_refines_queue:
  assumes "ch_inv V n s" and "\<And>x. Put x \<in> set ops \<Longrightarrow> length x = n"
  shows "okay (fifo_run ch_put (ch_get n) ops s) (\<lambda>(outs, s').
    ch_inv V n s' \<and> ch_cap s' = ch_cap s \<and>
    spec_run (ch_cap s) ops (ch_contents V n s) = (outs, ch_contents V n s'))"
  using assms by (rule gcq.run_refines)

text \<open>
  No payload is lost, duplicated or reordered by the channel: what the ring held followed
  by the payloads that were accepted is what was received followed by what it still holds.
\<close>
theorem gcq_channel_conserves:
  assumes "ch_inv V n s" and "\<And>x. Put x \<in> set ops \<Longrightarrow> length x = n"
  shows "okay (fifo_run ch_put (ch_get n) ops s) (\<lambda>(outs, s').
    ch_contents V n s @ accepted ops outs = received outs @ ch_contents V n s')"
  using assms by (rule gcq.run_conserves)

text \<open>A concrete link: one memory, two slots of four bytes, counters about to wrap.\<close>

definition sample_io :: "(u64 \<Rightarrow> u32) GCQIOAccess" where
  "sample_io = \<lparr>xGCQReadMem32 = (\<lambda>a w. (if a = 0x100 then 0 else w a, w)),
     xGCQWriteMem32 = (\<lambda>a v w. w(a := v))\<rparr>"

definition sample_view :: "(u64 \<Rightarrow> u32) gcq_view" where
  "sample_view = \<lparr>vw_tail = (\<lambda>w. w 0), vw_cons = (\<lambda>w. w 0x1018),
     vw_slot = (\<lambda>w i j. if i < 2 \<and> j < 1 then w (0x102C + 4 * of_nat i) else 0)\<rparr>"

definition sample_ring :: GCQRing where
  "sample_ring = \<lparr>ulRingNumSlots = 2, ulRingSlotSize = 4, ulRingProduced = 0xFFFFFFFF,
     ulRingConsumed = 0xFFFFFFFF, ullRingProducedAddr = 0, ullRingConsumedAddr = 0x1018,
     ullRingSlotAddr = 0x102C\<rparr>"

definition sample_instance :: "(u64 \<Rightarrow> u32) GCQInstance" where
  "sample_instance = \<lparr>inst_ulUpperFirewall = UPPER_FIREWALL, iInitialised = 1, ullBaseAddr = 0,
     xMode = GCQ_MODE_TYPE_PRODUCER_MODE, pxGCQIOAccess = Some sample_io, ullRingAddr = 0x1000,
     ulConsumerSlotSize = 4, ulProducerSlotSize = 4, ullGCQHeaderAddr = 0x1000,
     xGCQSq = sample_ring, xGCQCq = sample_ring, pxGCQProducer = SQ, pxGCQConsumer = SQ,
     inst_ulLowerFirewall = LOWER_FIREWALL\<rparr>"

definition sample_data :: "(u64 \<Rightarrow> u32) GCQPrivateData" where
  "sample_data = \<lparr>ulUpperFirewall = UPPER_FIREWALL, ucConsumerAttached = 1, ucInstancesAllocated = 1,
     xGCQInstances = (\<lambda>i. sample_instance\<lparr>iInitialised := if i = 0 then 1 else 0\<rparr>), ulLowerFirewall = LOWER_FIREWALL\<rparr>"

definition sample_channel :: "(u64 \<Rightarrow> u32) gcq_channel" where
  "sample_channel = \<lparr>ch_prod_data = sample_data, ch_prod_inst = 0, ch_cons_data = sample_data,
     ch_cons_inst = 0, ch_world = (\<lambda>_. 0)(0 := 0xFFFFFFFF, 0x1018 := 0xFFFFFFFF)\<rparr>"

lemma sample_slot_cases: "i < 2 \<Longrightarrow> 4 * j < (4 :: nat) \<Longrightarrow> j = 0 \<and> (i = 0 \<or> i = (1 :: nat))"
  by auto

lemma sample_produces: "produces_on sample_view sample_io sample_ring"
  by (auto simp: produces_on_def sample_view_def sample_io_def sample_ring_def same_view_def slot_addr_def
      fun_eq_iff dest!: sample_slot_cases)

lemma sample_consumes: "consumes_from sample_view sample_io 0 sample_ring"
  by (auto simp: consumes_from_def sample_view_def sample_io_def sample_ring_def same_view_def slot_addr_def
      fun_eq_iff dest!: sample_slot_cases)

lemma sample_ch_inv: "ch_inv sample_view 4 sample_channel"
proof -
  have "prod_side sample_view 4 sample_channel"
    using sample_produces
    by (simp add: prod_side_def prod_ring_def prod_inst_def get_ring_def gcq_firewalls_ok_def
        sample_channel_def sample_data_def sample_instance_def) (simp add: sample_ring_def)
  moreover have "cons_side sample_view 4 sample_channel"
    using sample_consumes
    by (simp add: cons_side_def cons_ring_def cons_inst_def get_ring_def gcq_firewalls_ok_def
        sample_channel_def sample_data_def sample_instance_def) (simp add: sample_ring_def)
  ultimately show ?thesis
    by (auto simp: ch_inv_def ch_cap_def prod_ring_def cons_ring_def prod_inst_def cons_inst_def get_ring_def
        sample_channel_def sample_data_def sample_instance_def sample_ring_def sample_view_def counters_ok_def
        intro: exI [of _ 1])
qed

lemma gcq_channel_refines_queue_witness:
  "okay (fifo_run ch_put (ch_get 4) [Put [1, 2, 3, 4], Put [5, 6, 7, 8], Put [9, 9, 9, 9], Get, Get, Get] sample_channel)
    (\<lambda>(outs, s'). ch_inv sample_view 4 s' \<and> ch_cap s' = ch_cap sample_channel \<and>
      spec_run (ch_cap sample_channel) [Put [1, 2, 3, 4], Put [5, 6, 7, 8], Put [9, 9, 9, 9], Get, Get, Get]
        (ch_contents sample_view 4 sample_channel) = (outs, ch_contents sample_view 4 s'))"
  by (rule gcq_channel_refines_queue [OF sample_ch_inv]) auto

lemma gcq_channel_conserves_witness:
  "okay (fifo_run ch_put (ch_get 4) [Put [1, 2, 3, 4], Get] sample_channel) (\<lambda>(outs, s').
    ch_contents sample_view 4 sample_channel @ accepted [Put [1, 2, 3, 4], Get] outs =
      received outs @ ch_contents sample_view 4 s')"
  by (rule gcq_channel_conserves [OF sample_ch_inv]) auto

end
