(* ===== verification/GCQ_Instances.thy ===== *)
theory GCQ_Instances
  imports GCQ_Channel
begin

text \<open>
  The instance table of the sGCQ driver and the layout of the rings in the shared memory:
  what initialisation and de-initialisation keep of the table, and where the slots lie.
\<close>

section \<open>Accounting of instances\<close>

definition in_use :: "'w GCQPrivateData \<Rightarrow> nat set" where
  "in_use d = {i. i < GCQ_MAX_INSTANCES \<and> iInitialised (xGCQInstances d i) \<noteq> 0}"

definition table_inv :: "'w GCQPrivateData \<Rightarrow> bool" where
  "table_inv d \<longleftrightarrow> unat (ucInstancesAllocated d) = card (in_use d) \<and>
     (\<forall>i \<ge> GCQ_MAX_INSTANCES. iInitialised (xGCQInstances d i) = 0)"

lemma first_free_Some:
  "first_free insts i n = Some k \<longleftrightarrow>
     i \<le> k \<and> k < i + n \<and> iInitialised (insts k) = 0 \<and> (\<forall>j. i \<le> j \<and> j < k \<longrightarrow> iInitialised (insts j) \<noteq> 0)"
proof (induction insts i n rule: first_free.induct)
  case (2 insts i n)
  then show ?case
    by (auto simp: Suc_le_eq) (metis le_neq_implies_less order_refl)+
qed simp

lemma in_use_le: "card (in_use d) \<le> GCQ_MAX_INSTANCES"
  using card_mono [of "{..<4 :: nat}" "in_use d"] by (auto simp: in_use_def)

lemma in_use_add:
  assumes "i < GCQ_MAX_INSTANCES" and "iInitialised (xGCQInstances d i) = 0" and "iInitialised q \<noteq> 0"
    and "xGCQInstances d' = (xGCQInstances d)(i := q)"
  shows "card (in_use d') = card (in_use d) + 1"
proof -
  have "in_use d' = insert i (in_use d)" and "i \<notin> in_use d"
    using assms by (auto simp: in_use_def)
  moreover have "finite (in_use d)" by (simp add: in_use_def)
  ultimately show ?thesis by simp
qed

lemma in_use_remove:
  assumes "i \<in> in_use d" and "iInitialised q = 0"
    and "xGCQInstances d' = (xGCQInstances d)(i := q)"
  shows "card (in_use d') + 1 = card (in_use d)"
proof -
  have "in_use d' = in_use d - {i}" using assms by (auto simp: in_use_def)
  moreover have "finite (in_use d)" by (simp add: in_use_def)
  ultimately show ?thesis using assms(1) by (metis Suc_eq_plus1 card_Suc_Diff1)
qed

lemma init_checks_Some:
  assumes "gcq_init_checks d pp L sq cq = Some (GCQ_ERRORS_NONE, p, N)"
  shows "pp = None" "\<exists>i. p = Some i \<and> i < GCQ_MAX_INSTANCES \<and> iInitialised (xGCQInstances d i) = 0"
    "prvulGCQAllocNumSlots L sq cq = Some N" "2 \<le> N" "sq mod 4 = 0" "cq mod 4 = 0" "sq \<noteq> 0" "cq \<noteq> 0"
    "unat (ucInstancesAllocated d) < GCQ_MAX_INSTANCES"
  using assms
  by (auto simp: gcq_init_checks_def prviGCQFindNextFreeInstance_def Let_def first_free_Some not_le
      split: if_splits option.splits prod.splits bind_splits)

text \<open>What a call of \<open>xGCQInit\<close> that returns comes to.\<close>

lemma init_cases:
  assumes "xGCQInit pp io mode base ring L sq cq d w = Some (e, pp', d', w')"
  shows "e \<noteq> GCQ_ERRORS_NONE \<and> d' = d \<and> w' = w \<and>
      (gcq_firewalls_ok d \<longrightarrow> (\<exists>p N. gcq_init_checks d pp L sq cq = Some (e, p, N))) \<or>
    (\<exists>i N q q1. e = GCQ_ERRORS_NONE \<and> pp = None \<and> pp' = Some i \<and> i < GCQ_MAX_INSTANCES \<and>
      iInitialised (xGCQInstances d i) = 0 \<and> prvulGCQAllocNumSlots L sq cq = Some N \<and> 2 \<le> N \<and>
      q1 = gcq_init_instance io mode base ring N sq cq (xGCQInstances d i) \<and>
      (mode \<noteq> GCQ_MODE_TYPE_PRODUCER_MODE \<longrightarrow> q = q1) \<and>
      (mode = GCQ_MODE_TYPE_PRODUCER_MODE \<longrightarrow> (\<exists>w1 w2. gcq_init_handshake io ring N sq q1 w1 = Some (q, w2))) \<and>
      d' = d\<lparr>xGCQInstances := (xGCQInstances d)(i := q\<lparr>iInitialised := 1\<rparr>),
             ucInstancesAllocated := ucInstancesAllocated d + 1\<rparr>)"
proof (cases "gcq_firewalls_ok d")
  case False
  with assms show ?thesis by (auto simp: xGCQInit_def)
next
  case fw: True
  with assms obtain e0 p N where chk: "gcq_init_checks d pp L sq cq = Some (e0, p, N)"
    by (auto simp: xGCQInit_def split: bind_splits)
  show ?thesis
  proof (cases "e0 = GCQ_ERRORS_NONE")
    case False
    with assms fw chk show ?thesis
      by (auto simp: xGCQInit_def split: GCQ_ERRORS_TYPE.splits)
  next
    case True
    note c = init_checks_Some [OF chk [unfolded True]]
    from c(2) obtain i where "p = Some i" by blast
    with c assms fw chk True show ?thesis
      by (auto simp: xGCQInit_def Let_def split: if_splits bind_splits prod.splits)
  qed
qed

lemma init_keeps_table:
  assumes "table_inv d" and "xGCQInit pp io mode base ring L sq cq d w = Some (e, pp', d', w')"
  shows "table_inv d'"
proof (cases "e = GCQ_ERRORS_NONE")
  case False
  with init_cases [OF assms(2)] assms(1) show ?thesis by auto
next
  case True
  with init_cases [OF assms(2)] obtain i q where
    i: "i < GCQ_MAX_INSTANCES" "iInitialised (xGCQInstances d i) = 0"
    and d': "d' = d\<lparr>xGCQInstances := (xGCQInstances d)(i := q\<lparr>iInitialised := 1\<rparr>),
             ucInstancesAllocated := ucInstancesAllocated d + 1\<rparr>"
    by blast
  have "card (in_use d') = card (in_use d) + 1"
    by (rule in_use_add [OF i]) (simp_all add: d')
  moreover have "unat (ucInstancesAllocated d + 1) = unat (ucInstancesAllocated d) + 1"
    using in_use_le [of d] assms(1) by (intro unat_inc) (simp add: table_inv_def)
  ultimately show ?thesis
    using assms(1) i(1) by (simp add: table_inv_def d')
qed

lemma deinit_keeps_table:
  assumes "table_inv d"
  shows "table_inv (snd (xGCQDeinit p d))"
proof (cases "gcq_firewalls_ok d \<and> (\<exists>i. p = Some i \<and> iInitialised (xGCQInstances d i) \<noteq> 0)")
  case False
  with assms show ?thesis by (auto simp: xGCQDeinit_def split: option.splits)
next
  case True
  then obtain i where i: "p = Some i" "iInitialised (xGCQInstances d i) \<noteq> 0" "gcq_firewalls_ok d"
    by blast
  let ?d = "snd (xGCQDeinit p d)"
  have d': "xGCQInstances ?d = (xGCQInstances d)(i := (xGCQInstances d i)\<lparr>iInitialised := 0\<rparr>)"
    "ucInstancesAllocated ?d = ucInstancesAllocated d - 1"
    using i by (simp_all add: xGCQDeinit_def)
  have "i \<in> in_use d" using i(2) assms by (auto simp: table_inv_def in_use_def intro: leI)
  from in_use_remove [OF this _ d'(1)] have card: "card (in_use ?d) + 1 = card (in_use d)" by simp
  then have "unat (ucInstancesAllocated d) \<noteq> 0" using assms by (simp add: table_inv_def)
  then have "unat (ucInstancesAllocated d - 1) = unat (ucInstancesAllocated d) - 1"
    by (intro unat_minus_one) auto
  with card assms d' show ?thesis by (simp add: table_inv_def)
qed

lemma no_free_iff:
  assumes "table_inv d" and "gcq_firewalls_ok d"
    and "xGCQInit None io mode base ring L sq cq d w = Some (e, pp', d', w')"
  shows "e = GCQ_ERRORS_NO_FREE_INSTANCES \<longleftrightarrow> in_use d = {..<GCQ_MAX_INSTANCES}"
proof (cases "first_free (xGCQInstances d) 0 GCQ_MAX_INSTANCES")
  case None
  then have none: "\<not> (i < GCQ_MAX_INSTANCES \<and> iInitialised (xGCQInstances d i) = 0)" for i
  proof (induction i rule: less_induct)
    case (less i)
    then show ?case using first_free_Some [of "xGCQInstances d" 0 4 i] None by auto
  qed
  then have all: "in_use d = {..<GCQ_MAX_INSTANCES}" by (auto simp: in_use_def)
  from None assms(2,3) have "e = GCQ_ERRORS_NO_FREE_INSTANCES"
    by (auto simp: xGCQInit_def gcq_init_checks_def prviGCQFindNextFreeInstance_def split: if_splits)
  with all show ?thesis by simp
next
  case (Some i)
  then have i: "i < GCQ_MAX_INSTANCES" "iInitialised (xGCQInstances d i) = 0"
    by (auto simp: first_free_Some)
  then have ni: "i \<notin> in_use d" by (simp add: in_use_def)
  then have "in_use d \<subset> {..<GCQ_MAX_INSTANCES}" using i by (auto simp: in_use_def)
  then have "card (in_use d) < GCQ_MAX_INSTANCES"
    using psubset_card_mono [of "{..<4 :: nat}" "in_use d"] by simp
  then have "prviGCQFindNextFreeInstance d None = (GCQ_ERRORS_NONE, Some i)"
    using Some assms(1) by (simp add: prviGCQFindNextFreeInstance_def table_inv_def)
  then have "gcq_init_checks d None L sq cq \<noteq> Some (GCQ_ERRORS_NO_FREE_INSTANCES, p, N)" for p N
    by (auto simp: gcq_init_checks_def split: bind_splits)
  with init_cases [OF assms(3)] assms(2) have "e \<noteq> GCQ_ERRORS_NO_FREE_INSTANCES" by auto
  with ni i show ?thesis by auto
qed

section \<open>Layout of the rings\<close>

lemma slot_ptr_unat:
  assumes "ulRingNumSlots r = N" and "unat N = 2 ^ j" and "unat (ullRingSlotAddr r) + unat N * unat (ulRingSlotSize r) < 2 ^ 64"
  shows "unat (prvullGCQRingGetSlotPtrProduced r) =
      unat (ullRingSlotAddr r) + unat (ulRingSlotSize r) * (unat (ulRingProduced r) mod 2 ^ j)"
    and "unat (prvullGCQRingGetSlotPtrConsumed r) =
      unat (ullRingSlotAddr r) + unat (ulRingSlotSize r) * (unat (ulRingConsumed r) mod 2 ^ j)"
proof -
  have j: "j < 32"
  proof (rule ccontr)
    assume "\<not> j < 32"
    then have "(2 :: nat) ^ 32 \<le> 2 ^ j" by (intro power_increasing) simp_all
    with assms(2) unat_bound [of N] show False by simp
  qed
  have N: "N = 2 ^ j" using assms(2) unat_pow2 [OF j] by (metis word_unat_eq_iff)
  have p: "unat (ullRingSlotAddr r + ucast (ulRingSlotSize r) * ucast (c AND (N - 1))) =
      unat (ullRingSlotAddr r) + unat (ulRingSlotSize r) * (unat c mod 2 ^ j)" for c :: u32
  proof -
    have c: "unat (c AND (N - 1)) = unat c mod 2 ^ j" using and_pow2 [OF j] N by simp
    have "unat (ulRingSlotSize r) * (unat c mod 2 ^ j) \<le> unat (ulRingSlotSize r) * 2 ^ j"
      by (intro mult_le_mono2) (simp add: less_imp_le)
    moreover have "unat (ullRingSlotAddr r) + unat (ulRingSlotSize r) * 2 ^ j < 2 ^ 64"
      using assms(2,3) by (simp add: mult.commute)
    ultimately have le: "unat (ullRingSlotAddr r) + unat (ulRingSlotSize r) * (unat c mod 2 ^ j) < 2 ^ 64"
      by linarith
    then have m: "unat (ucast (ulRingSlotSize r) * ucast (c AND (N - 1)) :: u64) =
        unat (ulRingSlotSize r) * (unat c mod 2 ^ j)"
      using c by (simp add: unat_word_ariths)
    show ?thesis unfolding unat_word_ariths(1) m using le by (intro mod_less) simp
  qed
  from p [of "ulRingProduced r"] p [of "ulRingConsumed r"] assms(1)
  show "unat (prvullGCQRingGetSlotPtrProduced r) =
      unat (ullRingSlotAddr r) + unat (ulRingSlotSize r) * (unat (ulRingProduced r) mod 2 ^ j)"
    and "unat (prvullGCQRingGetSlotPtrConsumed r) =
      unat (ullRingSlotAddr r) + unat (ulRingSlotSize r) * (unat (ulRingConsumed r) mod 2 ^ j)"
    by (simp_all add: prvullGCQRingGetSlotPtrProduced_def prvullGCQRingGetSlotPtrConsumed_def)
qed

lemma soft_reset_frame:
  "prvvGCQSoftReset io r w = (r', w') \<Longrightarrow> ulRingNumSlots r' = ulRingNumSlots r \<and>
     ulRingSlotSize r' = ulRingSlotSize r \<and> ullRingSlotAddr r' = ullRingSlotAddr r"
  by (auto simp: prvvGCQSoftReset_def prvvGCQRingReadProduced_def Let_def split: prod.splits)

lemma handshake_frame:
  "gcq_init_handshake io ring N sq q w = Some (q', w') \<Longrightarrow>
   ulRingNumSlots (xGCQSq q') = ulRingNumSlots (xGCQSq q) \<and> ulRingSlotSize (xGCQSq q') = ulRingSlotSize (xGCQSq q) \<and>
   ullRingSlotAddr (xGCQSq q') = ullRingSlotAddr (xGCQSq q) \<and>
   ulRingNumSlots (xGCQCq q') = ulRingNumSlots (xGCQCq q) \<and> ulRingSlotSize (xGCQCq q') = ulRingSlotSize (xGCQCq q) \<and>
   ullRingSlotAddr (xGCQCq q') = ullRingSlotAddr (xGCQCq q)"
  by (auto simp: gcq_init_handshake_def Let_def dest!: soft_reset_frame split: bind_splits prod.splits)

lemma init_instance_rings:
  "let q' = gcq_init_instance io mode base ring N sq cq q in
     ulRingNumSlots (xGCQSq q') = N \<and> ulRingSlotSize (xGCQSq q') = sq \<and>
     ullRingSlotAddr (xGCQSq q') = ring + 44 \<and>
     ulRingNumSlots (xGCQCq q') = N \<and> ulRingSlotSize (xGCQCq q') = cq \<and>
     ullRingSlotAddr (xGCQCq q') = ring + 44 + ucast (N * sq)"
  by (simp add: gcq_init_instance_def prvvGCQInitRing_def sizeof_GCQHeader_def Let_def)

lemma init_rings:
  assumes "xGCQInit pp io mode base ring L sq cq d w = Some (GCQ_ERRORS_NONE, pp', d', w')"
  obtains i N where "pp' = Some i" "prvulGCQAllocNumSlots L sq cq = Some N" "2 \<le> N"
    "ulRingNumSlots (xGCQSq (xGCQInstances d' i)) = N" "ulRingSlotSize (xGCQSq (xGCQInstances d' i)) = sq"
    "ullRingSlotAddr (xGCQSq (xGCQInstances d' i)) = ring + 44"
    "ulRingNumSlots (xGCQCq (xGCQInstances d' i)) = N" "ulRingSlotSize (xGCQCq (xGCQInstances d' i)) = cq"
    "ullRingSlotAddr (xGCQCq (xGCQInstances d' i)) = ring + 44 + ucast (N * sq)"
proof -
  from init_cases [OF assms] obtain i N q q1 where
    i: "pp' = Some i" "i < GCQ_MAX_INSTANCES" "prvulGCQAllocNumSlots L sq cq = Some N" "2 \<le> N"
    and q1: "q1 = gcq_init_instance io mode base ring N sq cq (xGCQInstances d i)"
    and m: "mode \<noteq> GCQ_MODE_TYPE_PRODUCER_MODE \<Longrightarrow> q = q1"
      "mode = GCQ_MODE_TYPE_PRODUCER_MODE \<Longrightarrow> \<exists>w1 w2. gcq_init_handshake io ring N sq q1 w1 = Some (q, w2)"
    and d': "d' = d\<lparr>xGCQInstances := (xGCQInstances d)(i := q\<lparr>iInitialised := 1\<rparr>),
             ucInstancesAllocated := ucInstancesAllocated d + 1\<rparr>"
    by (elim disjE exE conjE) (simp, blast)
  have "ulRingNumSlots (xGCQSq q) = ulRingNumSlots (xGCQSq q1) \<and> ulRingSlotSize (xGCQSq q) = ulRingSlotSize (xGCQSq q1) \<and>
     ullRingSlotAddr (xGCQSq q) = ullRingSlotAddr (xGCQSq q1) \<and>
     ulRingNumSlots (xGCQCq q) = ulRingNumSlots (xGCQCq q1) \<and> ulRingSlotSize (xGCQCq q) = ulRingSlotSize (xGCQCq q1) \<and>
     ullRingSlotAddr (xGCQCq q) = ullRingSlotAddr (xGCQCq q1)"
  proof (cases "mode = GCQ_MODE_TYPE_PRODUCER_MODE")
    case True
    then obtain w1 w2 where "gcq_init_handshake io ring N sq q1 w1 = Some (q, w2)" using m(2) by blast
    then show ?thesis by (rule handshake_frame)
  qed (simp add: m(1))
  then show ?thesis
    using i d' init_instance_rings [of io mode base ring N sq cq "xGCQInstances d i"]
    by (intro that [of i N]) (simp_all add: q1 Let_def)
qed

section \<open>Properties\<close>

text \<open>
  Initialisation and de-initialisation keep the instance table accurate: the counter of
  allocated instances is the number of initialised entries; a successful initialisation
  returns an entry that was not in use and marks exactly that one; a failed one changes
  neither the driver's data nor the hardware; and the answer "no free instances" comes
  exactly when all four entries are in use.
\<close>
theorem gcq_instance_accounting:
  assumes "table_inv d" and "gcq_firewalls_ok d"
    and "xGCQInit None io mode base ring L sq cq d w = Some (e, pp', d', w')"
  shows "table_inv d' \<and> table_inv (snd (xGCQDeinit p d')) \<and>
    (e = GCQ_ERRORS_NONE \<longrightarrow> (\<exists>i. pp' = Some i \<and> i \<notin> in_use d \<and> in_use d' = insert i (in_use d))) \<and>
    (e \<noteq> GCQ_ERRORS_NONE \<longrightarrow> d' = d \<and> w' = w) \<and>
    (e = GCQ_ERRORS_NO_FREE_INSTANCES \<longleftrightarrow> in_use d = {..<GCQ_MAX_INSTANCES})"
proof (intro conjI)
  show "table_inv d'" by (rule init_keeps_table [OF assms(1,3)])
  then show "table_inv (snd (xGCQDeinit p d'))" by (rule deinit_keeps_table)
  show "e = GCQ_ERRORS_NONE \<longrightarrow> (\<exists>i. pp' = Some i \<and> i \<notin> in_use d \<and> in_use d' = insert i (in_use d))"
    using init_cases [OF assms(3)] by (auto simp: in_use_def split: if_splits)
  show "e \<noteq> GCQ_ERRORS_NONE \<longrightarrow> d' = d \<and> w' = w"
    using init_cases [OF assms(3)] by auto
  show "e = GCQ_ERRORS_NO_FREE_INSTANCES \<longleftrightarrow> in_use d = {..<GCQ_MAX_INSTANCES}"
    by (rule no_free_iff [OF assms])
qed


definition fresh_data :: "(u64 \<Rightarrow> u32) GCQPrivateData" where
  "fresh_data = sample_data\<lparr>ucInstancesAllocated := 0, ucConsumerAttached := 0,
     xGCQInstances := (\<lambda>i. sample_instance\<lparr>iInitialised := 0\<rparr>)\<rparr>"

definition sample_init ::
  "(GCQ_ERRORS_TYPE \<times> nat option \<times> (u64 \<Rightarrow> u32) GCQPrivateData \<times> (u64 \<Rightarrow> u32)) option" where
  "sample_init = xGCQInit None sample_io GCQ_MODE_TYPE_CONSUMER_MODE 0 0x1000 76 4 4 fresh_data (\<lambda>_. 0)"

lemma first_free_0: "iInitialised (insts 0) = 0 \<Longrightarrow> first_free insts 0 4 = Some 0"
  by (simp add: first_free_Some)

lemma sample_init_Some: "\<exists>d w. sample_init = Some (GCQ_ERRORS_NONE, Some 0, d, w)"
  by (simp add: sample_init_def xGCQInit_def gcq_firewalls_ok_def fresh_data_def sample_data_def
      gcq_init_checks_def prviGCQFindNextFreeInstance_def alloc_sample xGCQHWInit_def first_free_0)

lemma fresh_table: "table_inv fresh_data" "gcq_firewalls_ok fresh_data"
  by (simp_all add: table_inv_def in_use_def fresh_data_def gcq_firewalls_ok_def sample_data_def)

lemma gcq_instance_accounting_witness:
  "\<exists>d w. sample_init = Some (GCQ_ERRORS_NONE, Some 0, d, w) \<and> table_inv d \<and>
     (\<exists>i. Some 0 = Some i \<and> in_use d = insert i (in_use fresh_data))"
proof -
  obtain d w where i: "sample_init = Some (GCQ_ERRORS_NONE, Some 0, d, w)" using sample_init_Some by blast
  show ?thesis
    using i gcq_instance_accounting [OF fresh_table i [unfolded sample_init_def]] by auto
qed


end
