(* ===== verification/EVL.thy ===== *)
theory EVL
  imports AMR_Prelude
begin

text \<open>
  The event library, \<open>core_libs/evl/evl.c\<close>: records of callbacks, events raised to every
  callback of a record, and a circular log of the raised events.  The operating system
  (mutexes, allocation, the clock) and the callbacks are parameters acting on a world
  \<open>'w\<close>; a callback pointer is a number, and a record's linked list of nodes, which only
  its own record points to, is the list of its callbacks.  The counters and indices of
  type \<open>int\<close>, which start at 0 and only count up or return to 0, are natural numbers.
\<close>

abbreviation (input) EVL_UPPER_FIREWALL :: u32 where "EVL_UPPER_FIREWALL \<equiv> 0xBABECAFE"
abbreviation (input) EVL_LOWER_FIREWALL :: u32 where "EVL_LOWER_FIREWALL \<equiv> 0xDEADFACE"
abbreviation (input) EVL_LOG_LEN :: nat where "EVL_LOG_LEN \<equiv> 100"
abbreviation (input) EVL_MAX_BINDINGS :: nat where "EVL_MAX_BINDINGS \<equiv> 10"

datatype evl_status = OK | ERROR

record EVLSignal =
  ucModule :: u8
  ucEventType :: u8
  ucInstance :: u8
  ucAdditionalData :: u8

datatype EVL_STATS =
    EVL_STATS_INITIALISED | EVL_STATS_RECORDS | EVL_STATS_BINDINGS | EVL_STATS_SIGNALS
  | EVL_STATS_LOG_RETRIEVED | EVL_STATS_LOG_MUTEX_CREATED | EVL_STATS_LOG_MUTEX_GRABBED
  | EVL_STATS_LOG_MUTEX_RELEASED | EVL_STATS_RECORD_MUTEX_CREATED
  | EVL_STATS_RECORD_MUTEX_GRABBED | EVL_STATS_RECORD_MUTEX_RELEASED | EVL_STATS_VERBOSITY_SET

datatype EVL_ERRORS =
    EVL_ERRORS_BINDINGS | EVL_ERRORS_CALLBACKS | EVL_ERRORS_VALIDATION
  | EVL_ERRORS_LOG_MUTEX_CREATED | EVL_ERRORS_LOG_MUTEX_GRABBED | EVL_ERRORS_LOG_MUTEX_RELEASED
  | EVL_ERRORS_RECORD_MUTEX_CREATED | EVL_ERRORS_RECORD_MUTEX_GRABBED
  | EVL_ERRORS_RECORD_MUTEX_RELEASED | EVL_ERRORS_RECORD_MALLOC | EVL_ERRORS_BINDINGS_MALLOC
  | EVL_ERRORS_NO_BINDINGS | EVL_ERRORS_VERBOSITY_NOT_SET

text \<open>Mutex handles are numbers; each service answers whether it succeeded.\<close>

record 'w evl_env =
  mutex_create :: "'w \<Rightarrow> nat option \<times> 'w"
  mutex_take :: "nat option \<Rightarrow> 'w \<Rightarrow> bool \<times> 'w"
  mutex_release :: "nat option \<Rightarrow> 'w \<Rightarrow> bool \<times> 'w"
  mem_alloc :: "'w \<Rightarrow> bool \<times> 'w"
  uptime_ms :: "'w \<Rightarrow> u32 \<times> 'w"
  evl_callback :: "nat \<Rightarrow> EVLSignal \<Rightarrow> 'w \<Rightarrow> evl_status \<times> 'w"

record EVLPrivateData =
  evl_ulUpperFirewall :: u32
  iIsInitialised :: bool
  pxLogMtx :: "nat option"
  iLogIdx :: nat
  pxEvlLog :: "nat \<Rightarrow> EVLSignal"
  pulLogTimes :: "nat \<Rightarrow> u32"
  ulStats :: "EVL_STATS \<Rightarrow> u32"
  ulErrors :: "EVL_ERRORS \<Rightarrow> u32"
  evl_ulLowerFirewall :: u32

record EVLRecord =
  pxFirstBinding :: "nat list"
  iNumBindings :: nat
  pxMtx :: "nat option"

definition INC_STAT_COUNTER :: "EVL_STATS \<Rightarrow> EVLPrivateData \<Rightarrow> EVLPrivateData" where
  "INC_STAT_COUNTER x d = d\<lparr>ulStats := (ulStats d)(x := ulStats d x + 1)\<rparr>"

definition INC_ERROR_COUNTER :: "EVL_ERRORS \<Rightarrow> EVLPrivateData \<Rightarrow> EVLPrivateData" where
  "INC_ERROR_COUNTER x d = d\<lparr>ulErrors := (ulErrors d)(x := ulErrors d x + 1)\<rparr>"

definition evl_firewalls_ok :: "EVLPrivateData \<Rightarrow> bool" where
  "evl_firewalls_ok d \<longleftrightarrow>
     EVL_UPPER_FIREWALL = evl_ulUpperFirewall d \<and> EVL_LOWER_FIREWALL = evl_ulLowerFirewall d"

section \<open>Operations\<close>

definition iEVL_Initialise :: "'w evl_env \<Rightarrow> EVLPrivateData \<Rightarrow> 'w \<Rightarrow> evl_status \<times> EVLPrivateData \<times> 'w" where
  "iEVL_Initialise E d w =
     (if evl_firewalls_ok d \<and> \<not> iIsInitialised d then
        (case mutex_create E w of
           (Some m, w) \<Rightarrow>
             (let d = d\<lparr>pxLogMtx := Some m\<rparr>;
                  d = INC_STAT_COUNTER EVL_STATS_LOG_MUTEX_CREATED d;
                  d = INC_STAT_COUNTER EVL_STATS_INITIALISED d
              in (OK, d\<lparr>iIsInitialised := True\<rparr>, w))
         | (None, w) \<Rightarrow> (ERROR, INC_ERROR_COUNTER EVL_ERRORS_LOG_MUTEX_CREATED d, w))
      else (ERROR, INC_ERROR_COUNTER EVL_ERRORS_VALIDATION d, w))"

text \<open>\<open>pp\<close> is \<open>ppxRecord\<close>: \<open>None\<close> for a null pointer, else what it points to.\<close>

definition iEVL_CreateRecord ::
  "'w evl_env \<Rightarrow> EVLRecord option option \<Rightarrow> EVLPrivateData \<Rightarrow> 'w \<Rightarrow>
   evl_status \<times> EVLRecord option option \<times> EVLPrivateData \<times> 'w" where
  "iEVL_CreateRecord E pp d w =
     (if evl_firewalls_ok d \<and> iIsInitialised d \<and> pp = Some None then
        (let (got, w) = mem_alloc E w in
         if got then
           (case mutex_create E w of
              (Some m, w) \<Rightarrow>
                (OK, Some (Some \<lparr>pxFirstBinding = [], iNumBindings = 0, pxMtx = Some m\<rparr>),
                 INC_STAT_COUNTER EVL_STATS_RECORD_MUTEX_CREATED d, w)
            | (None, w) \<Rightarrow> (ERROR, pp, INC_ERROR_COUNTER EVL_ERRORS_RECORD_MUTEX_CREATED d, w))
         else (ERROR, pp, INC_ERROR_COUNTER EVL_ERRORS_RECORD_MALLOC d, w))
      else (ERROR, pp, INC_ERROR_COUNTER EVL_ERRORS_VALIDATION d, w))"

text \<open>The part of \<open>iEVL_BindCallback\<close> that runs while the record's mutex is held.\<close>

definition bind_locked ::
  "'w evl_env \<Rightarrow> EVLRecord \<Rightarrow> nat \<Rightarrow> EVLPrivateData \<Rightarrow> 'w \<Rightarrow> evl_status \<times> EVLRecord \<times> EVLPrivateData \<times> 'w" where
  "bind_locked E r cb d w =
     (if iNumBindings r = 0 then
        (let (got, w) = mem_alloc E w in
         if got then
           (OK, r\<lparr>pxFirstBinding := [cb], iNumBindings := iNumBindings r + 1\<rparr>,
            INC_STAT_COUNTER EVL_STATS_BINDINGS (INC_STAT_COUNTER EVL_STATS_RECORDS d), w)
         else (ERROR, r, INC_ERROR_COUNTER EVL_ERRORS_BINDINGS_MALLOC d, w))
      else if pxFirstBinding r \<noteq> [] then
        (let (got, w) = mem_alloc E w in
         if got then
           (OK, r\<lparr>pxFirstBinding := pxFirstBinding r @ [cb], iNumBindings := iNumBindings r + 1\<rparr>,
            INC_STAT_COUNTER EVL_STATS_BINDINGS d, w)
         else (ERROR, r, INC_ERROR_COUNTER EVL_ERRORS_BINDINGS_MALLOC d, w))
      else (ERROR, r, INC_ERROR_COUNTER EVL_ERRORS_NO_BINDINGS d, w))"

definition iEVL_BindCallback ::
  "'w evl_env \<Rightarrow> EVLRecord option \<Rightarrow> nat option \<Rightarrow> EVLPrivateData \<Rightarrow> 'w \<Rightarrow>
   evl_status \<times> EVLRecord option \<times> EVLPrivateData \<times> 'w" where
  "iEVL_BindCallback E pr pcb d w =
     (case (pr, pcb) of
        (Some r, Some cb) \<Rightarrow>
          (if \<not> (evl_firewalls_ok d \<and> iIsInitialised d)
           then (ERROR, pr, INC_ERROR_COUNTER EVL_ERRORS_VALIDATION d, w)
           else if iNumBindings r < EVL_MAX_BINDINGS then
             (let (taken, w) = mutex_take E (pxMtx r) w in
              if taken then
                (let d = INC_STAT_COUNTER EVL_STATS_RECORD_MUTEX_GRABBED d;
                     (st, r, d, w) = bind_locked E r cb d w;
                     (rel, w) = mutex_release E (pxMtx r) w
                 in (st, Some r,
                     if rel then INC_STAT_COUNTER EVL_STATS_RECORD_MUTEX_RELEASED d
                     else INC_ERROR_COUNTER EVL_ERRORS_RECORD_MUTEX_RELEASED d, w))
              else (ERROR, pr, INC_ERROR_COUNTER EVL_ERRORS_RECORD_MUTEX_GRABBED d, w))
           else (ERROR, pr, INC_ERROR_COUNTER EVL_ERRORS_BINDINGS d, w))
      | _ \<Rightarrow> (ERROR, pr, INC_ERROR_COUNTER EVL_ERRORS_VALIDATION d, w))"

text \<open>The walk over the callbacks of a record.\<close>

fun call_bindings ::
  "'w evl_env \<Rightarrow> EVLSignal \<Rightarrow> nat list \<Rightarrow> EVLPrivateData \<Rightarrow> 'w \<Rightarrow> EVLPrivateData \<times> 'w" where
  "call_bindings E sig [] d w = (d, w)"
| "call_bindings E sig (cb # cbs) d w =
     (let d = INC_STAT_COUNTER EVL_STATS_SIGNALS d;
          (st, w) = evl_callback E cb sig w;
          d = (if st \<noteq> OK then INC_ERROR_COUNTER EVL_ERRORS_CALLBACKS d else d)
      in call_bindings E sig cbs d w)"

definition log_signal :: "'w evl_env \<Rightarrow> EVLSignal \<Rightarrow> EVLPrivateData \<Rightarrow> 'w \<Rightarrow> (EVLPrivateData \<times> 'w) option" where
  "log_signal E sig d w = do {
     let (t, w) = uptime_ms E w;
     times \<leftarrow> arr_set EVL_LOG_LEN (pulLogTimes d) (iLogIdx d) t;
     log \<leftarrow> arr_set EVL_LOG_LEN (pxEvlLog d) (iLogIdx d) sig;
     let d = d\<lparr>pulLogTimes := times, pxEvlLog := log, iLogIdx := iLogIdx d + 1\<rparr>;
     Some (if EVL_LOG_LEN \<le> iLogIdx d then d\<lparr>iLogIdx := 0\<rparr> else d, w) }"

definition iEVL_RaiseEvent ::
  "'w evl_env \<Rightarrow> EVLRecord option \<Rightarrow> EVLSignal option \<Rightarrow> EVLPrivateData \<Rightarrow> 'w \<Rightarrow>
   (evl_status \<times> EVLPrivateData \<times> 'w) option" where
  "iEVL_RaiseEvent E pr psig d w =
     (case (pr, psig) of
        (Some r, Some sig) \<Rightarrow>
          (if \<not> (evl_firewalls_ok d \<and> iIsInitialised d)
           then Some (ERROR, INC_ERROR_COUNTER EVL_ERRORS_VALIDATION d, w)
           else (let (taken, w) = mutex_take E (pxLogMtx d) w in
             if \<not> taken then Some (ERROR, INC_ERROR_COUNTER EVL_ERRORS_LOG_MUTEX_GRABBED d, w)
             else do {
               let d = INC_STAT_COUNTER EVL_STATS_LOG_MUTEX_GRABBED d;
               (d, w) \<leftarrow> log_signal E sig d w;
               let (rel, w) = mutex_release E (pxLogMtx d) w;
               if \<not> rel then Some (ERROR, INC_ERROR_COUNTER EVL_ERRORS_LOG_MUTEX_RELEASED d, w)
               else (let d = INC_STAT_COUNTER EVL_STATS_LOG_MUTEX_RELEASED d;
                         (taken, w) = mutex_take E (pxMtx r) w
                 in if \<not> taken then Some (ERROR, INC_ERROR_COUNTER EVL_ERRORS_RECORD_MUTEX_GRABBED d, w)
                    else (let d = INC_STAT_COUNTER EVL_STATS_RECORD_MUTEX_GRABBED d;
                              (d, w) = call_bindings E sig (pxFirstBinding r) d w;
                              (rel, w) = mutex_release E (pxMtx r) w
                      in if rel
                         then Some (OK, INC_STAT_COUNTER EVL_STATS_RECORD_MUTEX_RELEASED d, w)
                         else Some (ERROR, INC_ERROR_COUNTER EVL_ERRORS_RECORD_MUTEX_RELEASED d, w))) }))
      | _ \<Rightarrow> Some (ERROR, INC_ERROR_COUNTER EVL_ERRORS_VALIDATION d, w))"

definition iEVL_ClearStatistics :: "EVLPrivateData \<Rightarrow> evl_status \<times> EVLPrivateData" where
  "iEVL_ClearStatistics d =
     (if evl_firewalls_ok d \<and> iIsInitialised d
      then (OK, d\<lparr>ulStats := (\<lambda>_. 0), ulErrors := (\<lambda>_. 0)\<rparr>)
      else (ERROR, INC_ERROR_COUNTER EVL_ERRORS_VALIDATION d))"

text \<open>
  The lines \<open>iEVL_PrintLog\<close> prints: time stamp, row number and signal of the entries
  from index \<open>i\<close> on.
\<close>

fun print_rows :: "EVLPrivateData \<Rightarrow> nat \<Rightarrow> nat \<Rightarrow> int \<Rightarrow> (u32 \<times> int \<times> EVLSignal) list \<times> int" where
  "print_rows d i 0 iRow = ([], iRow)"
| "print_rows d i (Suc n) iRow =
     (let (rows, iRow') = print_rows d (Suc i) n (iRow - 1)
      in ((pulLogTimes d i, iRow, pxEvlLog d i) # rows, iRow'))"

definition iEVL_PrintLog ::
  "'w evl_env \<Rightarrow> EVLPrivateData \<Rightarrow> 'w \<Rightarrow>
   evl_status \<times> (u32 \<times> int \<times> EVLSignal) list \<times> EVLPrivateData \<times> 'w" where
  "iEVL_PrintLog E d w =
     (if \<not> (evl_firewalls_ok d \<and> iIsInitialised d)
      then (ERROR, [], INC_ERROR_COUNTER EVL_ERRORS_VALIDATION d, w)
      else (let (taken, w) = mutex_take E (pxLogMtx d) w;
                (rows, d, w) =
                  (if taken then
                     (let d = INC_STAT_COUNTER EVL_STATS_LOG_MUTEX_GRABBED d;
                          (rows1, iRow) = print_rows d (iLogIdx d) (EVL_LOG_LEN - iLogIdx d) (int EVL_LOG_LEN);
                          (rows2, iRow) = print_rows d 0 (iLogIdx d) iRow;
                          (rel, w) = mutex_release E (pxLogMtx d) w
                      in (rows1 @ rows2,
                          if rel then INC_STAT_COUNTER EVL_STATS_LOG_MUTEX_RELEASED d
                          else INC_ERROR_COUNTER EVL_ERRORS_LOG_MUTEX_RELEASED d, w))
                   else ([], INC_ERROR_COUNTER EVL_ERRORS_LOG_MUTEX_GRABBED d, w))
            in (OK, rows, INC_STAT_COUNTER EVL_STATS_LOG_RETRIEVED d, w)))"

section \<open>The log\<close>

text \<open>The logged signals, oldest first, and a sequence of raised events.\<close>

definition log_view :: "EVLPrivateData \<Rightarrow> EVLSignal list" where
  "log_view d = rotate (iLogIdx d) (map (pxEvlLog d) [0..<EVL_LOG_LEN])"

definition evl_ready :: "EVLPrivateData \<Rightarrow> bool" where
  "evl_ready d \<longleftrightarrow> evl_firewalls_ok d \<and> iIsInitialised d \<and> iLogIdx d < EVL_LOG_LEN"

fun raise_all ::
  "'w evl_env \<Rightarrow> EVLRecord \<Rightarrow> EVLSignal list \<Rightarrow> EVLPrivateData \<Rightarrow> 'w \<Rightarrow> (EVLPrivateData \<times> 'w) option" where
  "raise_all E r [] d w = Some (d, w)"
| "raise_all E r (sig # sigs) d w = do {
     (st, d, w) \<leftarrow> iEVL_RaiseEvent E (Some r) (Some sig) d w;
     raise_all E r sigs d w }"

lemma counters_frame [simp]:
  "log_view (INC_STAT_COUNTER x d) = log_view d" "log_view (INC_ERROR_COUNTER y d) = log_view d"
  "evl_ready (INC_STAT_COUNTER x d) = evl_ready d" "evl_ready (INC_ERROR_COUNTER y d) = evl_ready d"
  "pxLogMtx (INC_STAT_COUNTER x d) = pxLogMtx d" "iLogIdx (INC_STAT_COUNTER x d) = iLogIdx d"
  "pulLogTimes (INC_STAT_COUNTER x d) = pulLogTimes d" "pxEvlLog (INC_STAT_COUNTER x d) = pxEvlLog d"
  by (simp_all add: INC_STAT_COUNTER_def INC_ERROR_COUNTER_def log_view_def evl_ready_def evl_firewalls_ok_def)

lemma call_bindings_frame:
  "call_bindings E sig cbs d w = (d', w') \<Longrightarrow> log_view d' = log_view d \<and> evl_ready d' = evl_ready d"
  by (induction cbs arbitrary: d w) (auto simp: Let_def split: prod.splits if_splits)

lemma log_signal_view:
  assumes "evl_ready d"
  shows "okay (log_signal E sig d w) (\<lambda>(d', w'). evl_ready d' \<and> log_view d' = tl (log_view d) @ [sig])"
proof -
  let ?i = "iLogIdx d" and ?L = "map (pxEvlLog d) [0..<EVL_LOG_LEN]"
  have i: "?i < length ?L" using assms by (simp add: evl_ready_def)
  obtain t w' where t: "uptime_ms E w = (t, w')" by fastforce
  let ?d = "d\<lparr>pulLogTimes := (pulLogTimes d)(?i := t), pxEvlLog := (pxEvlLog d)(?i := sig), iLogIdx := ?i + 1\<rparr>"
  let ?d' = "if EVL_LOG_LEN \<le> iLogIdx ?d then ?d\<lparr>iLogIdx := 0\<rparr> else ?d"
  have step: "log_signal E sig d w = Some (?d', w')"
    using i t by (simp add: log_signal_def arr_set_def Let_def)
  have L: "map ((pxEvlLog d)(?i := sig)) [0..<EVL_LOG_LEN] = ?L[?i := sig]"
    using i by (intro nth_equalityI) (auto simp: nth_list_update)
  have "Suc ?i mod EVL_LOG_LEN = (if EVL_LOG_LEN \<le> Suc ?i then 0 else Suc ?i)"
    using i by (cases "?i = 99") simp_all
  then have "log_view ?d' = rotate (Suc ?i mod EVL_LOG_LEN) (?L[?i := sig])"
    using i L by (simp add: log_view_def del: rotate_Suc)
  also have "\<dots> = rotate (Suc ?i) (?L[?i := sig])"
    using rotate_conv_mod [of "Suc ?i" "?L[?i := sig]"] by simp
  also have "\<dots> = tl (log_view d) @ [sig]"
    using rotate_update [OF i i, of sig] i
    by (cases "rotate ?i ?L") (auto simp: log_view_def)
  finally have "log_view ?d' = tl (log_view d) @ [sig]" .
  moreover have "evl_ready ?d'"
    using assms by (simp add: evl_ready_def evl_firewalls_ok_def)
  ultimately show ?thesis unfolding step by simp
qed

lemma raise_event_view:
  assumes "evl_ready d" and "\<And>m w. fst (mutex_take E m w)"
  shows "okay (iEVL_RaiseEvent E (Some r) (Some sig) d w) (\<lambda>(st, d', w').
    evl_ready d' \<and> log_view d' = tl (log_view d) @ [sig])"
proof -
  obtain w1 where t: "mutex_take E (pxLogMtx d) w = (True, w1)"
    using assms(2) [of "pxLogMtx d" w] by (cases "mutex_take E (pxLogMtx d) w") auto
  have "evl_ready (INC_STAT_COUNTER EVL_STATS_LOG_MUTEX_GRABBED d)" using assms(1) by simp
  from log_signal_view [OF this, of E sig w1] obtain d2 w2 where
    "log_signal E sig (INC_STAT_COUNTER EVL_STATS_LOG_MUTEX_GRABBED d) w1 = Some (d2, w2)"
    "evl_ready d2" "log_view d2 = tl (log_view d) @ [sig]"
    by (auto simp: okay_iff)
  moreover have "evl_firewalls_ok d \<and> iIsInitialised d" using assms(1) by (simp add: evl_ready_def)
  ultimately show ?thesis
    using t by (auto simp: iEVL_RaiseEvent_def Let_def dest: call_bindings_frame split: prod.splits)
qed

lemma print_rows_signals:
  "map (snd \<circ> snd) (fst (print_rows d i n k)) = map (pxEvlLog d) [i..<i + n]"
  by (induction d i n k rule: print_rows.induct) (auto simp: Let_def upt_conv_Cons simp del: upt_Suc split: prod.splits)

lemma print_rows_next: "snd (print_rows d i n k) = k - int n"
  by (induction d i n k rule: print_rows.induct) (auto simp: Let_def split: prod.splits)

lemma print_rows_numbers:
  "map (fst \<circ> snd) (fst (print_rows d i n k)) = map (\<lambda>j. k - int j) [0..<n]"
proof (induction d i n k rule: print_rows.induct)
  case (2 d i n k)
  have "map (\<lambda>j. k - int j) [0..<Suc n] = k # map (\<lambda>j. (k - 1) - int j) [0..<n]"
    by (simp add: upt_conv_Cons map_Suc_upt [symmetric] o_def del: upt_Suc)
  with 2 show ?case by (auto simp: Let_def split: prod.splits)
qed simp_all

lemma log_view_parts:
  "iLogIdx d < EVL_LOG_LEN \<Longrightarrow>
   log_view d = map (pxEvlLog d) [iLogIdx d..<EVL_LOG_LEN] @ map (pxEvlLog d) [0..<iLogIdx d]"
  by (simp add: log_view_def rotate_drop_take drop_map take_map)

lemma length_log_view [simp]: "length (log_view d) = EVL_LOG_LEN"
  by (simp add: log_view_def)

lemma raise_all_view:
  assumes "evl_ready d" and "\<And>m w. fst (mutex_take E m w)"
  shows "okay (raise_all E r sigs d w) (\<lambda>(d', w').
    evl_ready d' \<and> log_view d' = drop (length sigs) (log_view d @ sigs))"
  using assms(1)
proof (induction sigs arbitrary: d w)
  case Nil
  then show ?case by simp
next
  case (Cons sig sigs)
  from raise_event_view [OF Cons.prems assms(2), of r sig w] obtain st d1 w1 where
    s: "iEVL_RaiseEvent E (Some r) (Some sig) d w = Some (st, d1, w1)" "evl_ready d1"
    "log_view d1 = tl (log_view d) @ [sig]"
    by (auto simp: okay_iff)
  have "drop (Suc (length sigs)) (log_view d @ sig # sigs) = drop (length sigs) (tl (log_view d) @ sig # sigs)"
    using length_log_view [of d] by (cases "log_view d") auto
  with Cons.IH [OF s(2), of w1] s show ?case by (auto simp: okay_iff)
qed

section \<open>Bindings\<close>

definition rec_inv :: "EVLRecord \<Rightarrow> bool" where
  "rec_inv r \<longleftrightarrow> length (pxFirstBinding r) = iNumBindings r \<and> iNumBindings r \<le> EVL_MAX_BINDINGS"

fun bind_all ::
  "'w evl_env \<Rightarrow> nat list \<Rightarrow> EVLRecord \<Rightarrow> EVLPrivateData \<Rightarrow> 'w \<Rightarrow>
   (evl_status list \<times> EVLRecord \<times> EVLPrivateData \<times> 'w) option" where
  "bind_all E [] r d w = Some ([], r, d, w)"
| "bind_all E (cb # cbs) r d w =
     (case iEVL_BindCallback E (Some r) (Some cb) d w of
        (st, Some r, d, w) \<Rightarrow> do {
          (sts, r, d, w) \<leftarrow> bind_all E cbs r d w;
          Some (st # sts, r, d, w) }
      | (st, None, d, w) \<Rightarrow> None)"

lemma bind_callback_step:
  assumes "rec_inv r"
  shows "\<exists>st r' d' w'. iEVL_BindCallback E (Some r) (Some cb) d w = (st, Some r', d', w') \<and> rec_inv r' \<and>
    pxFirstBinding r' = pxFirstBinding r @ (if st = OK then [cb] else [])"
  using assms
  by (auto simp: iEVL_BindCallback_def bind_locked_def Let_def rec_inv_def split: prod.splits)

lemma bind_all_bindings:
  assumes "rec_inv r"
  shows "okay (bind_all E cbs r d w) (\<lambda>(sts, r', d', w'). rec_inv r' \<and> length sts = length cbs \<and>
    pxFirstBinding r' = pxFirstBinding r @ map fst (filter (\<lambda>(cb, st). st = OK) (zip cbs sts)))"
  using assms
proof (induction cbs arbitrary: r d w)
  case Nil
  then show ?case by simp
next
  case (Cons cb cbs)
  from bind_callback_step [OF Cons.prems, of E cb d w] obtain st r' d' w' where
    s: "iEVL_BindCallback E (Some r) (Some cb) d w = (st, Some r', d', w')" "rec_inv r'"
    "pxFirstBinding r' = pxFirstBinding r @ (if st = OK then [cb] else [])"
    by blast
  from Cons.IH [OF s(2), of d' w'] s show ?case by (auto simp: okay_iff)
qed

section \<open>Delivery\<close>

fun cb_failures :: "'w evl_env \<Rightarrow> EVLSignal \<Rightarrow> nat list \<Rightarrow> 'w \<Rightarrow> nat" where
  "cb_failures E sig [] w = 0"
| "cb_failures E sig (cb # cbs) w =
     (if fst (evl_callback E cb sig w) \<noteq> OK then 1 else 0) + cb_failures E sig cbs (snd (evl_callback E cb sig w))"

lemma call_bindings_effect:
  "call_bindings E sig cbs d w = (d', w') \<Longrightarrow>
     w' = fold (\<lambda>cb w. snd (evl_callback E cb sig w)) cbs w \<and>
     ulStats d' EVL_STATS_SIGNALS = ulStats d EVL_STATS_SIGNALS + of_nat (length cbs) \<and>
     ulErrors d' EVL_ERRORS_CALLBACKS = ulErrors d EVL_ERRORS_CALLBACKS + of_nat (cb_failures E sig cbs w)"
proof (induction cbs arbitrary: d w)
  case Nil
  then show ?case by simp
next
  case (Cons cb cbs)
  obtain st w1 where cb: "evl_callback E cb sig w = (st, w1)" by fastforce
  let ?d = "INC_STAT_COUNTER EVL_STATS_SIGNALS d"
  let ?d1 = "if st \<noteq> OK then INC_ERROR_COUNTER EVL_ERRORS_CALLBACKS ?d else ?d"
  have "call_bindings E sig cbs ?d1 w1 = (d', w')"
    using Cons.prems cb by (simp add: Let_def)
  from Cons.IH [OF this] cb show ?case
    by (simp add: INC_STAT_COUNTER_def INC_ERROR_COUNTER_def)
qed

section \<open>Properties\<close>

text \<open>
  C6: Whatever sequence of events is raised, with whatever callbacks bound, the log holds
  the last hundred of them: \<open>iEVL_PrintLog\<close> prints the old log continued by the raised
  events, less its oldest part, in chronological order under the row numbers 100 to 1, and
  the log index never leaves the array.  It needs only that the log mutex can be taken.
\<close>
theorem evl_log_keeps_last:
  assumes "evl_ready d" and "\<And>m w. fst (mutex_take E m w)"
  shows "okay (raise_all E r sigs d w) (\<lambda>(d', w'). evl_ready d' \<and>
    (let rows = fst (snd (iEVL_PrintLog E d' w')) in
       map (snd \<circ> snd) rows = drop (length sigs) (log_view d @ sigs) \<and>
       map (fst \<circ> snd) rows = map (\<lambda>j. 100 - int j) [0..<EVL_LOG_LEN]))"
proof -
  obtain d' w' where run: "raise_all E r sigs d w = Some (d', w')"
    and ready: "evl_ready d'" and view: "log_view d' = drop (length sigs) (log_view d @ sigs)"
    using raise_all_view [OF assms, of r sigs w] by (auto simp: okay_iff)
  obtain w1 where t: "mutex_take E (pxLogMtx d') w' = (True, w1)"
    using assms(2) [of "pxLogMtx d'" w'] by (cases "mutex_take E (pxLogMtx d') w'") auto
  let ?d = "INC_STAT_COUNTER EVL_STATS_LOG_MUTEX_GRABBED d'" and ?i = "iLogIdx d'"
  have i: "?i < EVL_LOG_LEN" and fw: "evl_firewalls_ok d' \<and> iIsInitialised d'"
    using ready by (simp_all add: evl_ready_def)
  let ?rows = "fst (print_rows ?d ?i (EVL_LOG_LEN - ?i) 100) @ fst (print_rows ?d 0 ?i (int ?i))"
  have rows: "fst (snd (iEVL_PrintLog E d' w')) = ?rows"
    using t fw i print_rows_next [of ?d ?i "EVL_LOG_LEN - ?i" 100]
    by (auto simp: iEVL_PrintLog_def Let_def of_nat_diff split: prod.splits)
  have "map (snd \<circ> snd) ?rows = log_view d'"
    using i log_view_parts [OF i] by (simp add: print_rows_signals)
  moreover have "map (\<lambda>j. 100 - int j) [0..<EVL_LOG_LEN - ?i] @ map (\<lambda>j. int ?i - int j) [0..<?i] =
      map (\<lambda>j. 100 - int j) [0..<EVL_LOG_LEN]"
    using i by (intro nth_equalityI) (auto simp: nth_append of_nat_diff)
  then have "map (fst \<circ> snd) ?rows = map (\<lambda>j. 100 - int j) [0..<EVL_LOG_LEN]"
    by (simp only: map_append print_rows_numbers)
  ultimately show ?thesis
    using run ready view rows by (simp add: Let_def)
qed

text \<open>
  C7: Raising an event calls every bound callback exactly once, in the order of binding,
  counts the calls and the calls that failed, and, provided the mutexes work, answers OK,
  even when callbacks reported an error.
\<close>
theorem evl_raise_calls_each_once:
  assumes "evl_ready d" and "\<And>m w. mutex_take E m w = (True, w)" and "\<And>m w. mutex_release E m w = (True, w)"
    and "\<And>w. snd (uptime_ms E w) = w"
  shows "okay (iEVL_RaiseEvent E (Some r) (Some sig) d w) (\<lambda>(st, d', w'). st = OK \<and>
    w' = fold (\<lambda>cb w. snd (evl_callback E cb sig w)) (pxFirstBinding r) w \<and>
    ulStats d' EVL_STATS_SIGNALS = ulStats d EVL_STATS_SIGNALS + of_nat (length (pxFirstBinding r)) \<and>
    ulErrors d' EVL_ERRORS_CALLBACKS =
      ulErrors d EVL_ERRORS_CALLBACKS + of_nat (cb_failures E sig (pxFirstBinding r) w))"
proof -
  let ?d = "INC_STAT_COUNTER EVL_STATS_LOG_MUTEX_GRABBED d"
  obtain d1 where l: "log_signal E sig ?d w = Some (d1, w)" and d1: "ulStats d1 = ulStats ?d" "ulErrors d1 = ulErrors ?d"
    using assms(1) assms(4) [of w]
    by (cases "uptime_ms E w") (simp add: log_signal_def arr_set_def Let_def evl_ready_def)
  let ?d1 = "INC_STAT_COUNTER EVL_STATS_RECORD_MUTEX_GRABBED (INC_STAT_COUNTER EVL_STATS_LOG_MUTEX_RELEASED d1)"
  obtain d2 w2 where c: "call_bindings E sig (pxFirstBinding r) ?d1 w = (d2, w2)" by fastforce
  have "iEVL_RaiseEvent E (Some r) (Some sig) d w =
      Some (OK, INC_STAT_COUNTER EVL_STATS_RECORD_MUTEX_RELEASED d2, w2)"
    using assms(1) l c by (simp add: iEVL_RaiseEvent_def evl_ready_def assms(2,3) Let_def)
  with call_bindings_effect [OF c] d1 show ?thesis
    by (simp add: INC_STAT_COUNTER_def)
qed

text \<open>
  Binding callbacks to a record appends exactly those whose binding was answered with
  OK, in the order of the calls, and a record never holds more than ten callbacks, whatever
  the mutexes and the allocator answer.
\<close>
theorem evl_bind_in_order:
  assumes "rec_inv r"
  shows "okay (bind_all E cbs r d w) (\<lambda>(sts, r', d', w').
    pxFirstBinding r' = pxFirstBinding r @ map fst (filter (\<lambda>(cb, st). st = OK) (zip cbs sts)) \<and>
    length sts = length cbs \<and> length (pxFirstBinding r') = iNumBindings r' \<and>
    length (pxFirstBinding r') \<le> EVL_MAX_BINDINGS)"
  using bind_all_bindings [OF assms, of E cbs d w]
  by (elim okay_weaken) (auto simp: rec_inv_def)

section \<open>A concrete system\<close>

text \<open>The world is the list of callbacks run; callback 3 reports an error.\<close>

definition sample_evl_env :: "nat list evl_env" where
  "sample_evl_env = \<lparr>mutex_create = (\<lambda>w. (Some 1, w)), mutex_take = (\<lambda>m w. (True, w)),
     mutex_release = (\<lambda>m w. (True, w)), mem_alloc = (\<lambda>w. (True, w)), uptime_ms = (\<lambda>w. (7, w)),
     evl_callback = (\<lambda>cb sig w. (if cb = 3 then ERROR else OK, w @ [cb]))\<rparr>"

definition sample_evl_data :: EVLPrivateData where
  "sample_evl_data = \<lparr>evl_ulUpperFirewall = EVL_UPPER_FIREWALL, iIsInitialised = True, pxLogMtx = Some 1,
     iLogIdx = 99, pxEvlLog = (\<lambda>_. \<lparr>ucModule = 0, ucEventType = 0, ucInstance = 0, ucAdditionalData = 0\<rparr>),
     pulLogTimes = (\<lambda>_. 0), ulStats = (\<lambda>_. 0), ulErrors = (\<lambda>_. 0), evl_ulLowerFirewall = EVL_LOWER_FIREWALL\<rparr>"

definition sample_signal :: "u8 \<Rightarrow> EVLSignal" where
  "sample_signal n = \<lparr>ucModule = 1, ucEventType = n, ucInstance = 0, ucAdditionalData = 0\<rparr>"

definition sample_record :: EVLRecord where
  "sample_record = \<lparr>pxFirstBinding = [2, 3, 4], iNumBindings = 3, pxMtx = Some 2\<rparr>"

lemma sample_evl_ready: "evl_ready sample_evl_data"
  by (simp add: evl_ready_def evl_firewalls_ok_def sample_evl_data_def)

lemma evl_log_keeps_last_witness:
  "okay (raise_all sample_evl_env sample_record [sample_signal 1, sample_signal 2] sample_evl_data [])
    (\<lambda>(d', w'). evl_ready d' \<and>
      (let rows = fst (snd (iEVL_PrintLog sample_evl_env d' w')) in
         map (snd \<circ> snd) rows = drop (length [sample_signal 1, sample_signal 2])
           (log_view sample_evl_data @ [sample_signal 1, sample_signal 2]) \<and>
         map (fst \<circ> snd) rows = map (\<lambda>j. 100 - int j) [0..<EVL_LOG_LEN]))"
  by (rule evl_log_keeps_last [OF sample_evl_ready]) (simp add: sample_evl_env_def)

lemma evl_raise_calls_each_once_witness:
  "okay (iEVL_RaiseEvent sample_evl_env (Some sample_record) (Some (sample_signal 9)) sample_evl_data [])
    (\<lambda>(st, d', w'). st = OK \<and> w' = [2, 3, 4] \<and> ulStats d' EVL_STATS_SIGNALS = 3 \<and> ulErrors d' EVL_ERRORS_CALLBACKS = 1)"
  by (rule okay_weaken [OF evl_raise_calls_each_once [OF sample_evl_ready]])
    (auto simp: sample_evl_env_def sample_record_def sample_evl_data_def)

lemma evl_bind_in_order_witness:
  "okay (bind_all sample_evl_env [5, 6, 7, 8, 9, 10, 11, 12] sample_record sample_evl_data [])
    (\<lambda>(sts, r', d', w'). pxFirstBinding r' = pxFirstBinding sample_record @
        map fst (filter (\<lambda>(cb, st). st = OK) (zip [5, 6, 7, 8, 9, 10, 11, 12] sts)) \<and>
      length sts = length [5 :: nat, 6, 7, 8, 9, 10, 11, 12] \<and>
      length (pxFirstBinding r') = iNumBindings r' \<and> length (pxFirstBinding r') \<le> EVL_MAX_BINDINGS)"
  by (rule evl_bind_in_order) (simp add: rec_inv_def sample_record_def)

end
