(* ===== verification/SMBus_EventBuffer.thy ===== *)
theory SMBus_EventBuffer
  imports Bounded_Fifo
begin

text \<open>
  The circular event buffer of the SMBus driver, \<open>smbus_event_buffer.c\<close>: each slot
  carries an "occupied" flag, the writer stops at an occupied slot and the reader at a free
  one, so there is no element count.  The buffer the context points to is a list, its
  length being the size of the array object.
\<close>

abbreviation (input) SMBUS_TRUE :: u8 where "SMBUS_TRUE \<equiv> 1"
abbreviation (input) SMBUS_FALSE :: u8 where "SMBUS_FALSE \<equiv> 0"
abbreviation (input) SMBUS_EVENT_BUFFER_SUCCESS :: u8 where "SMBUS_EVENT_BUFFER_SUCCESS \<equiv> 0"
abbreviation (input) SMBUS_EVENT_BUFFER_FAIL :: u8 where "SMBUS_EVENT_BUFFER_FAIL \<equiv> 1"

record SMBus_EventBufElement =
  ucIsOccupied :: u8
  ucOctet :: u8

record SMBus_EventBuf =
  ulMaxElements :: u32
  ulWrite :: u32
  ulRead :: u32
  pxEventBuf :: "SMBus_EventBufElement list"

definition ulEventBufferInc :: "SMBus_EventBuf \<Rightarrow> u32 \<Rightarrow> u32" where
  "ulEventBufferInc ctx ulAnyIndex =
     (let ulResult = ulAnyIndex + 1 in if ulMaxElements ctx \<le> ulResult then 0 else ulResult)"

text \<open>
  The initialisation loop stores into the slots \<open>i, i + 1, \<dots>\<close> below \<open>ulMaxElements\<close>;
  a slot outside the array has no defined store.
\<close>

fun clear_slots :: "nat \<Rightarrow> nat \<Rightarrow> SMBus_EventBufElement list \<Rightarrow> SMBus_EventBufElement list option" where
  "clear_slots 0 i buf = Some buf"
| "clear_slots (Suc n) i buf =
     (if i < length buf
      then clear_slots n (Suc i) (buf[i := \<lparr>ucIsOccupied = SMBUS_FALSE, ucOctet = 0\<rparr>])
      else None)"

definition vEventBufferInitialize ::
  "SMBus_EventBuf \<Rightarrow> SMBus_EventBufElement list \<Rightarrow> u32 \<Rightarrow> SMBus_EventBuf option" where
  "vEventBufferInitialize ctx buf ulMax = do {
     buf \<leftarrow> clear_slots (unat ulMax) 0 buf;
     Some (ctx\<lparr>ulMaxElements := ulMax, pxEventBuf := buf, ulWrite := 0, ulRead := 0\<rparr>) }"

text \<open>
  \<open>pos\<close> is the value of the caller's \<open>*pulWrite_Position\<close> (\<open>*pulRead_Position\<close>), which
  only a successful call overwrites.
\<close>

definition ucEventBufferTryWrite ::
  "SMBus_EventBuf \<Rightarrow> u8 \<Rightarrow> u32 \<Rightarrow> (u8 \<times> u32 \<times> SMBus_EventBuf) option" where
  "ucEventBufferTryWrite ctx ch pos =
     (let w = unat (ulWrite ctx) in
      if w < length (pxEventBuf ctx) then
        (if ucIsOccupied (pxEventBuf ctx ! w) = SMBUS_FALSE
         then (let ctx' = ctx\<lparr>pxEventBuf :=
                 (pxEventBuf ctx)[w := \<lparr>ucIsOccupied = SMBUS_TRUE, ucOctet = ch\<rparr>]\<rparr>
               in Some (SMBUS_EVENT_BUFFER_SUCCESS, ulWrite ctx,
                        ctx'\<lparr>ulWrite := ulEventBufferInc ctx' (ulWrite ctx')\<rparr>))
         else Some (SMBUS_EVENT_BUFFER_FAIL, pos, ctx))
      else None)"

definition ucEventBufferTryRead ::
  "SMBus_EventBuf \<Rightarrow> u32 \<Rightarrow> (u8 \<times> u8 \<times> u32 \<times> SMBus_EventBuf) option" where
  "ucEventBufferTryRead ctx pos =
     (let r = unat (ulRead ctx) in
      if r < length (pxEventBuf ctx) then
        (if ucIsOccupied (pxEventBuf ctx ! r) = SMBUS_TRUE
         then (let ctx' = ctx\<lparr>pxEventBuf :=
                 (pxEventBuf ctx)[r := (pxEventBuf ctx ! r)\<lparr>ucIsOccupied := SMBUS_FALSE\<rparr>]\<rparr>
               in Some (SMBUS_TRUE, ucOctet (pxEventBuf ctx ! r), ulRead ctx,
                        ctx'\<lparr>ulRead := ulEventBufferInc ctx' (ulRead ctx')\<rparr>))
         else Some (SMBUS_FALSE, 0xCC, pos, ctx))
      else None)"

section \<open>The queue a buffer stands for\<close>

definition is_occ :: "SMBus_EventBufElement \<Rightarrow> bool" where
  "is_occ e \<longleftrightarrow> ucIsOccupied e = SMBUS_TRUE"

definition ring_view :: "SMBus_EventBuf \<Rightarrow> SMBus_EventBufElement list" where
  "ring_view ctx = rotate (unat (ulRead ctx)) (pxEventBuf ctx)"

definition ev_contents :: "SMBus_EventBuf \<Rightarrow> u8 list" where
  "ev_contents ctx = map ucOctet (takeWhile is_occ (ring_view ctx))"

definition ev_cap :: "SMBus_EventBuf \<Rightarrow> nat" where
  "ev_cap ctx = unat (ulMaxElements ctx)"

text \<open>
  Well-formed: the array has \<open>ulMaxElements\<close> slots, both indices are inside, and, seen
  from the read index, the occupied slots come first and the write index follows them.
\<close>

definition ev_inv :: "SMBus_EventBuf \<Rightarrow> bool" where
  "ev_inv ctx \<longleftrightarrow>
     length (pxEventBuf ctx) = unat (ulMaxElements ctx) \<and>
     ulRead ctx < ulMaxElements ctx \<and> ulWrite ctx < ulMaxElements ctx \<and>
     (\<forall>e \<in> set (dropWhile is_occ (ring_view ctx)). ucIsOccupied e = SMBUS_FALSE) \<and>
     unat (ulWrite ctx) =
       (unat (ulRead ctx) + length (takeWhile is_occ (ring_view ctx))) mod length (pxEventBuf ctx)"


lemma ev_inv_pos: "ev_inv ctx \<Longrightarrow> unat (ulRead ctx) < length (pxEventBuf ctx)"
  "ev_inv ctx \<Longrightarrow> unat (ulWrite ctx) < length (pxEventBuf ctx)"
  by (simp_all add: ev_inv_def word_less_nat_alt)

lemma inc_mod:
  "i < ulMaxElements ctx \<Longrightarrow>
   unat (ulEventBufferInc ctx i) = (unat i + 1) mod unat (ulMaxElements ctx)"
proof -
  assume "i < ulMaxElements ctx"
  then have lt: "unat i < unat (ulMaxElements ctx)" by (simp add: word_less_nat_alt)
  moreover have "unat (ulMaxElements ctx) < 2 ^ 32"
    using unat_bound [of "ulMaxElements ctx"] by simp
  ultimately have "unat (i + 1) = unat i + 1" by (intro unat_inc) simp
  with lt show ?thesis
    by (auto simp: ulEventBufferInc_def Let_def word_le_nat_alt mod_if)
qed

lemma inc_less: "i < ulMaxElements ctx \<Longrightarrow> ulEventBufferInc ctx i < ulMaxElements ctx"
proof -
  assume "i < ulMaxElements ctx"
  then have "0 < unat (ulMaxElements ctx)" by (simp add: word_less_nat_alt)
  with inc_mod [OF \<open>i < ulMaxElements ctx\<close>] show ?thesis
    by (simp add: word_less_nat_alt)
qed

text \<open>The view of a well-formed buffer: occupied slots, then free slots.\<close>

lemma ring_split:
  assumes "ev_inv ctx"
  obtains occ free where "ring_view ctx = occ @ free" "\<forall>e \<in> set occ. is_occ e"
    "\<forall>e \<in> set free. ucIsOccupied e = SMBUS_FALSE" "ev_contents ctx = map ucOctet occ"
    "unat (ulWrite ctx) = (unat (ulRead ctx) + length occ) mod length (pxEventBuf ctx)"
    "length occ + length free = length (pxEventBuf ctx)"
proof
  let ?occ = "takeWhile is_occ (ring_view ctx)" and ?free = "dropWhile is_occ (ring_view ctx)"
  show "ring_view ctx = ?occ @ ?free" by simp
  show "length ?occ + length ?free = length (pxEventBuf ctx)"
    by (metis length_append length_rotate ring_view_def takeWhile_dropWhile_id)
qed (use assms in \<open>auto simp: ev_inv_def ev_contents_def dest: set_takeWhileD\<close>)

lemma ring_inv_intro:
  assumes "ring_view ctx = occ @ free" and "\<forall>e \<in> set occ. is_occ e"
    and free: "\<forall>e \<in> set free. ucIsOccupied e = SMBUS_FALSE"
    and "length (pxEventBuf ctx) = unat (ulMaxElements ctx)"
    and "ulRead ctx < ulMaxElements ctx" and "ulWrite ctx < ulMaxElements ctx"
    and "unat (ulWrite ctx) = (unat (ulRead ctx) + length occ) mod length (pxEventBuf ctx)"
  shows "ev_inv ctx" and "ev_contents ctx = map ucOctet occ"
proof -
  have "takeWhile is_occ (occ @ free) = occ" "dropWhile is_occ (occ @ free) = free"
    using assms(2) free by (cases free; simp add: is_occ_def)+
  with assms show "ev_inv ctx" "ev_contents ctx = map ucOctet occ"
    by (simp_all add: ev_inv_def ev_contents_def)
qed

lemma nth_write_slot:
  assumes "ev_inv ctx" and "ring_view ctx = occ @ free"
    and w: "unat (ulWrite ctx) = (unat (ulRead ctx) + length occ) mod length (pxEventBuf ctx)"
    and k: "length occ < length (pxEventBuf ctx)"
  shows "pxEventBuf ctx ! unat (ulWrite ctx) = (occ @ free) ! length occ"
    and "(unat (ulWrite ctx) + length (pxEventBuf ctx) - unat (ulRead ctx)) mod length (pxEventBuf ctx) = length occ"
proof -
  have "rotate (unat (ulRead ctx)) (pxEventBuf ctx) ! length occ =
      pxEventBuf ctx ! ((unat (ulRead ctx) + length occ) mod length (pxEventBuf ctx))"
    using k by (rule nth_rotate)
  with assms(2) w show "pxEventBuf ctx ! unat (ulWrite ctx) = (occ @ free) ! length occ"
    by (simp add: ring_view_def)
  show "(unat (ulWrite ctx) + length (pxEventBuf ctx) - unat (ulRead ctx)) mod length (pxEventBuf ctx) = length occ"
    using ring_offset_iff [OF ev_inv_pos(2) [OF assms(1)] ev_inv_pos(1) [OF assms(1)] k] w by simp
qed

lemma write_room:
  assumes inv: "ev_inv ctx" and room: "length (ev_contents ctx) < ev_cap ctx"
  shows "okay (ucEventBufferTryWrite ctx ch pos) (\<lambda>(res, p, ctx').
    res = SMBUS_EVENT_BUFFER_SUCCESS \<and> p = ulWrite ctx \<and> ev_inv ctx' \<and> ev_cap ctx' = ev_cap ctx \<and>
    ev_contents ctx' = ev_contents ctx @ [ch])"
proof -
  obtain occ free where v: "ring_view ctx = occ @ free" and occ: "\<forall>e \<in> set occ. is_occ e"
    and free: "\<forall>e \<in> set free. ucIsOccupied e = SMBUS_FALSE"
    and c: "ev_contents ctx = map ucOctet occ"
    and w: "unat (ulWrite ctx) = (unat (ulRead ctx) + length occ) mod length (pxEventBuf ctx)"
    and len: "length occ + length free = length (pxEventBuf ctx)"
    by (rule ring_split [OF inv])
  have max: "length (pxEventBuf ctx) = unat (ulMaxElements ctx)"
    and rd: "ulRead ctx < ulMaxElements ctx" and wr: "ulWrite ctx < ulMaxElements ctx"
    using inv by (simp_all add: ev_inv_def)
  from room c max have k: "length occ < length (pxEventBuf ctx)" by (simp add: ev_cap_def)
  with len obtain e free' where f: "free = e # free'" by (cases free) auto
  note slot = nth_write_slot [OF inv v w k]
  let ?new = "\<lparr>ucIsOccupied = SMBUS_TRUE, ucOctet = ch\<rparr>"
  let ?ctx' = "ctx\<lparr>pxEventBuf := (pxEventBuf ctx)[unat (ulWrite ctx) := ?new],
                   ulWrite := ulEventBufferInc ctx (ulWrite ctx)\<rparr>"
  have inc: "ulEventBufferInc (ctx\<lparr>pxEventBuf := b\<rparr>) = ulEventBufferInc ctx" for b
    by (simp add: fun_eq_iff ulEventBufferInc_def)
  have "ring_view ?ctx' = (occ @ [?new]) @ free'"
    using slot(2) ev_inv_pos [OF inv] rotate_update [of "unat (ulWrite ctx)" "pxEventBuf ctx" "unat (ulRead ctx)" ?new]
      v f by (simp add: ring_view_def list_update_append)
  from ring_inv_intro [OF this] occ free f max rd wr inc_less [OF wr] inc_mod [OF wr] w
  have "ev_inv ?ctx'" and "ev_contents ?ctx' = ev_contents ctx @ [ch]"
    by (auto simp: c is_occ_def mod_simps)
  moreover have "ucIsOccupied (pxEventBuf ctx ! unat (ulWrite ctx)) = SMBUS_FALSE"
    using slot(1) f free by simp
  ultimately show ?thesis
    using ev_inv_pos(2) [OF inv]
    by (simp add: ucEventBufferTryWrite_def Let_def inc ev_cap_def)
qed


lemma write_full:
  assumes inv: "ev_inv ctx" and full: "length (ev_contents ctx) = ev_cap ctx"
  shows "ucEventBufferTryWrite ctx ch pos = Some (SMBUS_EVENT_BUFFER_FAIL, pos, ctx)"
proof -
  obtain occ free where v: "ring_view ctx = occ @ free" and occ: "\<forall>e \<in> set occ. is_occ e"
    and free: "\<forall>e \<in> set free. ucIsOccupied e = SMBUS_FALSE"
    and c: "ev_contents ctx = map ucOctet occ"
    and w: "unat (ulWrite ctx) = (unat (ulRead ctx) + length occ) mod length (pxEventBuf ctx)"
    and len: "length occ + length free = length (pxEventBuf ctx)"
    by (rule ring_split [OF inv])
  have max: "length (pxEventBuf ctx) = unat (ulMaxElements ctx)"
    using inv by (simp add: ev_inv_def)
  with full c have n: "length occ = length (pxEventBuf ctx)" by (simp add: ev_cap_def)
  with len have "free = []" by simp
  with v have "rotate (unat (ulRead ctx)) (pxEventBuf ctx) = occ" by (simp add: ring_view_def)
  then have "set (pxEventBuf ctx) = set occ" by (metis set_rotate)
  with occ ev_inv_pos(2) [OF inv] have "is_occ (pxEventBuf ctx ! unat (ulWrite ctx))"
    by (metis nth_mem)
  with ev_inv_pos(2) [OF inv] show ?thesis
    by (simp add: ucEventBufferTryWrite_def Let_def is_occ_def)
qed

lemma read_front:
  assumes inv: "ev_inv ctx" and front: "ev_contents ctx = y # ys"
  shows "okay (ucEventBufferTryRead ctx pos) (\<lambda>(res, ch, p, ctx').
    res = SMBUS_TRUE \<and> ch = y \<and> p = ulRead ctx \<and> ev_inv ctx' \<and> ev_cap ctx' = ev_cap ctx \<and>
    ev_contents ctx' = ys)"
proof -
  obtain occ free where v: "ring_view ctx = occ @ free" and occ: "\<forall>e \<in> set occ. is_occ e"
    and free: "\<forall>e \<in> set free. ucIsOccupied e = SMBUS_FALSE"
    and c: "ev_contents ctx = map ucOctet occ"
    and w: "unat (ulWrite ctx) = (unat (ulRead ctx) + length occ) mod length (pxEventBuf ctx)"
    and len: "length occ + length free = length (pxEventBuf ctx)"
    by (rule ring_split [OF inv])
  have max: "length (pxEventBuf ctx) = unat (ulMaxElements ctx)"
    and rd: "ulRead ctx < ulMaxElements ctx" and wr: "ulWrite ctx < ulMaxElements ctx"
    using inv by (simp_all add: ev_inv_def)
  from front c obtain e occ' where o: "occ = e # occ'" and y: "ucOctet e = y" and ys: "map ucOctet occ' = ys"
    by auto
  note r = ev_inv_pos(1) [OF inv]
  have "rotate (unat (ulRead ctx)) (pxEventBuf ctx) ! 0 = pxEventBuf ctx ! (unat (ulRead ctx))"
    using r by (subst nth_rotate) auto
  with v o have e: "pxEventBuf ctx ! unat (ulRead ctx) = e" by (simp add: ring_view_def)
  let ?new = "e\<lparr>ucIsOccupied := SMBUS_FALSE\<rparr>"
  let ?ctx' = "ctx\<lparr>pxEventBuf := (pxEventBuf ctx)[unat (ulRead ctx) := ?new],
                   ulRead := ulEventBufferInc ctx (ulRead ctx)\<rparr>"
  have inc: "ulEventBufferInc (ctx\<lparr>pxEventBuf := b\<rparr>) = ulEventBufferInc ctx" for b
    by (simp add: fun_eq_iff ulEventBufferInc_def)
  have "ring_view ?ctx' = rotate1 (rotate (unat (ulRead ctx)) ((pxEventBuf ctx)[unat (ulRead ctx) := ?new]))"
    using inc_mod [OF rd] max rotate_conv_mod [of "Suc (unat (ulRead ctx))"
        "(pxEventBuf ctx)[unat (ulRead ctx) := ?new]"]
    by (simp add: ring_view_def rotate_Suc)
  also have "\<dots> = occ' @ (free @ [?new])"
    using rotate_update [OF r r, of ?new] v o r by (simp add: ring_view_def)
  finally have "ring_view ?ctx' = occ' @ (free @ [?new])" .
  from ring_inv_intro [OF this] occ free o max wr rd inc_less [OF rd] inc_mod [OF rd] w
  have "ev_inv ?ctx'" and "ev_contents ?ctx' = ys"
    by (auto simp: ys mod_simps)
  with occ o y e r show ?thesis
    by (simp add: ucEventBufferTryRead_def Let_def inc ev_cap_def is_occ_def)
qed

lemma read_empty:
  assumes inv: "ev_inv ctx" and empty: "ev_contents ctx = []"
  shows "ucEventBufferTryRead ctx pos = Some (SMBUS_FALSE, 0xCC, pos, ctx)"
proof -
  obtain occ free where v: "ring_view ctx = occ @ free" and occ: "\<forall>e \<in> set occ. is_occ e"
    and free: "\<forall>e \<in> set free. ucIsOccupied e = SMBUS_FALSE"
    and c: "ev_contents ctx = map ucOctet occ"
    and w: "unat (ulWrite ctx) = (unat (ulRead ctx) + length occ) mod length (pxEventBuf ctx)"
    and len: "length occ + length free = length (pxEventBuf ctx)"
    by (rule ring_split [OF inv])
  from c empty v have "ring_view ctx = free" by simp
  then have "set (pxEventBuf ctx) = set free" by (metis ring_view_def set_rotate)
  with free ev_inv_pos(1) [OF inv]
  have "ucIsOccupied (pxEventBuf ctx ! unat (ulRead ctx)) = SMBUS_FALSE" by (metis nth_mem)
  with ev_inv_pos(1) [OF inv] show ?thesis by (simp add: ucEventBufferTryRead_def Let_def)
qed

lemma ev_contents_le: "ev_inv ctx \<Longrightarrow> length (ev_contents ctx) \<le> ev_cap ctx"
  using length_takeWhile_le [of is_occ "ring_view ctx"]
  by (simp add: ev_inv_def ev_contents_def ev_cap_def ring_view_def)

section \<open>The buffer provides the queue interface\<close>

definition ev_put :: "u8 \<Rightarrow> SMBus_EventBuf \<Rightarrow> (bool \<times> SMBus_EventBuf) option" where
  "ev_put ch ctx = do {
     (res, p, ctx) \<leftarrow> ucEventBufferTryWrite ctx ch 0;
     Some (res = SMBUS_EVENT_BUFFER_SUCCESS, ctx) }"

definition ev_get :: "SMBus_EventBuf \<Rightarrow> (u8 option \<times> SMBus_EventBuf) option" where
  "ev_get ctx = do {
     (res, ch, p, ctx) \<leftarrow> ucEventBufferTryRead ctx 0;
     Some (if res = SMBUS_TRUE then Some ch else None, ctx) }"

interpretation evq: bounded_fifo "\<lambda>_. True" ev_inv ev_contents ev_cap ev_put ev_get
proof unfold_locales
  show "ev_inv s \<Longrightarrow> length (ev_contents s) \<le> ev_cap s" for s
    by (rule ev_contents_le)
  show "ev_inv s \<Longrightarrow> length (ev_contents s) < ev_cap s \<Longrightarrow>
      okay (ev_put x s) (\<lambda>(b, s'). b \<and> ev_inv s' \<and> ev_cap s' = ev_cap s \<and>
        ev_contents s' = ev_contents s @ [x])" for x s
    using write_room [of s x 0] by (auto simp: ev_put_def okay_iff)
  show "ev_inv s \<Longrightarrow> length (ev_contents s) = ev_cap s \<Longrightarrow>
      okay (ev_put x s) (\<lambda>(b, s'). \<not> b \<and> ev_inv s' \<and> ev_cap s' = ev_cap s \<and>
        ev_contents s' = ev_contents s)" for x s
    using write_full [of s x 0] by (simp add: ev_put_def)
  show "ev_inv s \<Longrightarrow> ev_contents s = y # ys \<Longrightarrow>
      okay (ev_get s) (\<lambda>(r, s'). r = Some y \<and> ev_inv s' \<and> ev_cap s' = ev_cap s \<and>
        ev_contents s' = ys)" for s y ys
    using read_front [of s y ys 0] by (auto simp: ev_get_def okay_iff)
  show "ev_inv s \<Longrightarrow> ev_contents s = [] \<Longrightarrow>
      okay (ev_get s) (\<lambda>(r, s'). r = None \<and> ev_inv s' \<and> ev_cap s' = ev_cap s \<and>
        ev_contents s' = [])" for s
    using read_empty [of s 0] by (simp add: ev_get_def)
qed

section \<open>Initialisation\<close>

lemma clear_slots_ok:
  "i + n \<le> length buf \<Longrightarrow> clear_slots n i buf =
     Some (take i buf @ replicate n \<lparr>ucIsOccupied = SMBUS_FALSE, ucOctet = 0\<rparr> @ drop (i + n) buf)"
proof (induction n arbitrary: i buf)
  case 0
  then show ?case by simp
next
  case (Suc n)
  then show ?case
    by (simp add: take_Suc_conv_app_nth take_update_cancel drop_update_cancel)
qed

lemma initialize_ok:
  assumes "0 < ulMax" and "length buf = unat ulMax"
  shows "okay (vEventBufferInitialize ctx buf ulMax) (\<lambda>ctx'.
    ev_inv ctx' \<and> ev_contents ctx' = [] \<and> ev_cap ctx' = unat ulMax)"
  using assms clear_slots_ok [of 0 "unat ulMax" buf]
  by (simp add: vEventBufferInitialize_def ev_inv_def ev_contents_def ev_cap_def ring_view_def
      takeWhile_replicate dropWhile_replicate is_occ_def)

section \<open>Properties\<close>

text \<open>
  C1: An event buffer that has been initialised with an array of \<open>ulMax\<close> slots behaves, on
  every sequence of writes and reads, exactly as a first-in first-out queue of at most
  \<open>ulMax\<close> octets: no access leaves the array, a write fails exactly when the queue is
  full, a read fails exactly when it is empty, and the octets come out in order, whatever
  the number of times the indices have wrapped around.
\<close>
theorem event_buffer_refines_queue:
  assumes "0 < ulMax" and "length buf = unat ulMax"
  shows "okay (vEventBufferInitialize ctx buf ulMax) (\<lambda>b.
    okay (fifo_run ev_put ev_get ops b) (\<lambda>(outs, b').
      ev_inv b' \<and> spec_run (unat ulMax) ops [] = (outs, ev_contents b')))"
proof -
  from initialize_ok [OF assms, of ctx] obtain b where b: "vEventBufferInitialize ctx buf ulMax = Some b"
    "ev_inv b" "ev_contents b = []" "ev_cap b = unat ulMax"
    by (rule okayE) blast
  from evq.run_refines [OF b(2), of ops] b show ?thesis
    by (auto simp: okay_iff)
qed

definition sample_ctx :: SMBus_EventBuf where
  "sample_ctx = \<lparr>ulMaxElements = 0, ulWrite = 0, ulRead = 0, pxEventBuf = []\<rparr>"

definition sample_slots :: "SMBus_EventBufElement list" where
  "sample_slots = replicate 2 \<lparr>ucIsOccupied = 7, ucOctet = 9\<rparr>"

lemma event_buffer_refines_queue_witness:
  "okay (vEventBufferInitialize sample_ctx sample_slots 2) (\<lambda>b.
    okay (fifo_run ev_put ev_get [Put 1, Put 2, Put 3, Get, Put 4, Get, Get, Get] b) (\<lambda>(outs, b').
      ev_inv b' \<and> spec_run (unat (2 :: u32)) [Put 1, Put 2, Put 3, Get, Put 4, Get, Get, Get] [] = (outs, ev_contents b')))"
  by (rule event_buffer_refines_queue) (simp_all add: sample_slots_def)

text \<open>
  A well-formed event buffer neither loses, duplicates nor reorders an event: what it
  held followed by what the writes had accepted is what the reads handed out followed by
  what it still holds.
\<close>
theorem event_buffer_conserves:
  assumes "ev_inv b"
  shows "okay (fifo_run ev_put ev_get ops b) (\<lambda>(outs, b').
    ev_contents b @ accepted ops outs = received outs @ ev_contents b')"
  using assms by (intro evq.run_conserves) simp_all

lemma event_buffer_conserves_witness:
  "okay (fifo_run ev_put ev_get [Put 5, Get, Get]
      \<lparr>ulMaxElements = 1, ulWrite = 0, ulRead = 0, pxEventBuf = [\<lparr>ucIsOccupied = 1, ucOctet = 3\<rparr>]\<rparr>)
    (\<lambda>(outs, b'). ev_contents \<lparr>ulMaxElements = 1, ulWrite = 0, ulRead = 0,
         pxEventBuf = [\<lparr>ucIsOccupied = 1, ucOctet = 3\<rparr>]\<rparr> @ accepted [Put 5, Get, Get] outs =
       received outs @ ev_contents b')"
  by (rule event_buffer_conserves) (simp add: ev_inv_def ring_view_def is_occ_def)

end
