(* ===== verification/SMBus_Types.thy ===== *)
theory SMBus_Types
  imports SMBus_EventBuffer
begin

text \<open>
  The data of the SMBus driver: \<open>smbus.h\<close>, \<open>smbus_internal.h\<close>, \<open>i2c.h\<close> and the events of
  \<open>smbus_event.h\<close>.

  A pointer to an instance is its index in the profile's array, so the back pointer
  \<open>pxSMBusProfile\<close> of an instance is not stored: there is one profile.  The event buffer
  of an instance holds its slots itself (the code points it at the instance's array
  \<open>xCircularBuf\<close>).  Arrays of a fixed length are functions, accessed with bounds checks.
  A function pointer is a number, \<open>None\<close> being \<open>NULL\<close>; what the callbacks and the
  memory-mapped registers do is the parameter \<open>smbus_env\<close>, acting on a world \<open>'w\<close>.
\<close>

abbreviation (input) SMBUS_DATA_SIZE_MAX :: nat where "SMBUS_DATA_SIZE_MAX \<equiv> 256"
abbreviation (input) SMBUS_UDID_LENGTH :: nat where "SMBUS_UDID_LENGTH \<equiv> 16"
abbreviation (input) SMBUS_MAX_CIRCULAR_LOG_ENTRIES :: u32 where "SMBUS_MAX_CIRCULAR_LOG_ENTRIES \<equiv> 5000"
abbreviation (input) SMBUS_NUM_INSTANCES :: nat where "SMBUS_NUM_INSTANCES \<equiv> 8"
abbreviation (input) SMBUS_NUM_NON_ARP_INSTANCES :: nat where "SMBUS_NUM_NON_ARP_INSTANCES \<equiv> 7"
abbreviation (input) SMBUS_INVALID_INSTANCE :: u8 where "SMBUS_INVALID_INSTANCE \<equiv> 99"
abbreviation (input) SMBUS_MAX_EVENT_ELEMENTS :: u32 where "SMBUS_MAX_EVENT_ELEMENTS \<equiv> 300"
abbreviation (input) SMBUS_INSTANCE_UNDETERMINED :: u32 where "SMBUS_INSTANCE_UNDETERMINED \<equiv> 88"
abbreviation (input) SMBUS_ARP_INSTANCE_ID :: nat where "SMBUS_ARP_INSTANCE_ID \<equiv> 7"
abbreviation (input) SMBUS_COMMAND_INVALID :: u8 where "SMBUS_COMMAND_INVALID \<equiv> 66"
abbreviation (input) SMBUS_FIREWALL1 :: u32 where "SMBUS_FIREWALL1 \<equiv> 0xF15E2112"
abbreviation (input) SMBUS_FIREWALL2 :: u32 where "SMBUS_FIREWALL2 \<equiv> 0xAC1DBA78"
abbreviation (input) SMBUS_FIREWALL3 :: u32 where "SMBUS_FIREWALL3 \<equiv> 0x1CE1CE99"

datatype SMBUS_ERROR_TYPE = SMBUS_SUCCESS | SMBUS_ERROR

datatype SMBUS_STATE =
    SMBUS_STATE_INITIAL
  | SMBUS_STATE_AWAITING_COMMAND_BYTE
  | SMBUS_STATE_AWAITING_BLOCK_SIZE
  | SMBUS_STATE_AWAITING_DATA
  | SMBUS_STATE_AWAITING_READ
  | SMBUS_STATE_READY_TO_SEND_BYTE
  | SMBUS_STATE_CHECK_IF_PEC_REQUIRED
  | SMBUS_STATE_AWAITING_DONE
  | SMBUS_STATE_CONTROLLER_SEND_COMMAND
  | SMBUS_STATE_CONTROLLER_SEND_READ_START
  | SMBUS_STATE_CONTROLLER_READ_BLOCK_SIZE
  | SMBUS_STATE_CONTROLLER_READ_BYTE
  | SMBUS_STATE_CONTROLLER_READ_PEC
  | SMBUS_STATE_CONTROLLER_READ_DONE
  | SMBUS_STATE_CONTROLLER_WRITE_BYTE

fun state_num :: "SMBUS_STATE \<Rightarrow> u32" where
  "state_num SMBUS_STATE_INITIAL = 0"
| "state_num SMBUS_STATE_AWAITING_COMMAND_BYTE = 1"
| "state_num SMBUS_STATE_AWAITING_BLOCK_SIZE = 2"
| "state_num SMBUS_STATE_AWAITING_DATA = 3"
| "state_num SMBUS_STATE_AWAITING_READ = 4"
| "state_num SMBUS_STATE_READY_TO_SEND_BYTE = 5"
| "state_num SMBUS_STATE_CHECK_IF_PEC_REQUIRED = 6"
| "state_num SMBUS_STATE_AWAITING_DONE = 7"
| "state_num SMBUS_STATE_CONTROLLER_SEND_COMMAND = 8"
| "state_num SMBUS_STATE_CONTROLLER_SEND_READ_START = 9"
| "state_num SMBUS_STATE_CONTROLLER_READ_BLOCK_SIZE = 10"
| "state_num SMBUS_STATE_CONTROLLER_READ_BYTE = 11"
| "state_num SMBUS_STATE_CONTROLLER_READ_PEC = 12"
| "state_num SMBUS_STATE_CONTROLLER_READ_DONE = 13"
| "state_num SMBUS_STATE_CONTROLLER_WRITE_BYTE = 14"

datatype SMBUS_ARP_CAPABILITY =
    SMBUS_ARP_CAPABILITY_UNKNOWN
  | SMBUS_ARP_CAPABLE
  | SMBUS_ARP_FIXED_AND_DISCOVERABLE
  | SMBUS_ARP_FIXED_NOT_DISCOVERABLE
  | SMBUS_ARP_NON_ARP_CAPABLE

datatype SMBUS_COMMAND_PROTOCOL =
    SMBUS_PROTOCOL_QUICK_CMD_LO
  | SMBUS_PROTOCOL_QUICK_CMD_HI
  | SMBUS_PROTOCOL_SEND_BYTE
  | SMBUS_PROTOCOL_RECEIVE_BYTE
  | SMBUS_PROTOCOL_WRITE_BYTE
  | SMBUS_PROTOCOL_WRITE_WORD
  | SMBUS_PROTOCOL_READ_BYTE
  | SMBUS_PROTOCOL_READ_WORD
  | SMBUS_PROTOCOL_PROCESS_CALL
  | SMBUS_PROTOCOL_BLOCK_WRITE
  | SMBUS_PROTOCOL_BLOCK_READ
  | SMBUS_PROTOCOL_BLK_WRITE_BLK_RD_PROCESS_CALL
  | SMBUS_PROTOCOL_HOST_NOTIFY
  | SMBUS_PROTOCOL_WRITE_32
  | SMBUS_PROTOCOL_READ_32
  | SMBUS_PROTOCOL_WRITE_64
  | SMBUS_PROTOCOL_READ_64
  | SMBUS_ARP_PROTOCOL_PREPARE_TO_ARP
  | SMBUS_ARP_PROTOCOL_RESET_DEVICE
  | SMBUS_ARP_PROTOCOL_GET_UDID
  | SMBUS_ARP_PROTOCOL_ASSIGN_ADDRESS
  | SMBUS_ARP_PROTOCOL_GET_UDID_DIRECTED
  | SMBUS_ARP_PROTO_RESET_DEVICE_DIRECTED
  | SMBUS_PROTOCOL_NONE
  | I2C_PROTOCOL_WRITE
  | I2C_PROTOCOL_READ
  | I2C_PROTOCOL_WRITE_READ
  | I2C_PROTOCOL_NONE

fun protocol_num :: "SMBUS_COMMAND_PROTOCOL \<Rightarrow> u32" where
  "protocol_num SMBUS_PROTOCOL_QUICK_CMD_LO = 0"
| "protocol_num SMBUS_PROTOCOL_QUICK_CMD_HI = 1"
| "protocol_num SMBUS_PROTOCOL_SEND_BYTE = 2"
| "protocol_num SMBUS_PROTOCOL_RECEIVE_BYTE = 3"
| "protocol_num SMBUS_PROTOCOL_WRITE_BYTE = 4"
| "protocol_num SMBUS_PROTOCOL_WRITE_WORD = 5"
| "protocol_num SMBUS_PROTOCOL_READ_BYTE = 6"
| "protocol_num SMBUS_PROTOCOL_READ_WORD = 7"
| "protocol_num SMBUS_PROTOCOL_PROCESS_CALL = 8"
| "protocol_num SMBUS_PROTOCOL_BLOCK_WRITE = 9"
| "protocol_num SMBUS_PROTOCOL_BLOCK_READ = 10"
| "protocol_num SMBUS_PROTOCOL_BLK_WRITE_BLK_RD_PROCESS_CALL = 11"
| "protocol_num SMBUS_PROTOCOL_HOST_NOTIFY = 12"
| "protocol_num SMBUS_PROTOCOL_WRITE_32 = 13"
| "protocol_num SMBUS_PROTOCOL_READ_32 = 14"
| "protocol_num SMBUS_PROTOCOL_WRITE_64 = 15"
| "protocol_num SMBUS_PROTOCOL_READ_64 = 16"
| "protocol_num SMBUS_ARP_PROTOCOL_PREPARE_TO_ARP = 17"
| "protocol_num SMBUS_ARP_PROTOCOL_RESET_DEVICE = 18"
| "protocol_num SMBUS_ARP_PROTOCOL_GET_UDID = 19"
| "protocol_num SMBUS_ARP_PROTOCOL_ASSIGN_ADDRESS = 20"
| "protocol_num SMBUS_ARP_PROTOCOL_GET_UDID_DIRECTED = 21"
| "protocol_num SMBUS_ARP_PROTO_RESET_DEVICE_DIRECTED = 22"
| "protocol_num SMBUS_PROTOCOL_NONE = 23"
| "protocol_num I2C_PROTOCOL_WRITE = 24"
| "protocol_num I2C_PROTOCOL_READ = 25"
| "protocol_num I2C_PROTOCOL_WRITE_READ = 26"
| "protocol_num I2C_PROTOCOL_NONE = 27"

datatype SMBUS_LOG_EVENT =
    SMBUS_LOG_EVENT_INTERRUPT_EVENT
  | SMBUS_LOG_EVENT_FSM_EVENT
  | SMBUS_LOG_EVENT_ERROR
  | SMBUS_LOG_EVENT_HW_READ
  | SMBUS_LOG_EVENT_HW_WRITE
  | SMBUS_LOG_EVENT_PROTOCOL
  | SMBUS_LOG_EVENT_DEBUG
  | SMBUS_LOG_EVENT_TRYREAD
  | SMBUS_LOG_EVENT_TRYWRITE

text \<open>Log levels are compared, so they are kept as numbers.\<close>

type_synonym SMBUS_LOG_LEVEL = nat

abbreviation (input) SMBUS_LOG_LEVEL_NONE :: SMBUS_LOG_LEVEL where "SMBUS_LOG_LEVEL_NONE \<equiv> 0"
abbreviation (input) SMBUS_LOG_LEVEL_ERROR :: SMBUS_LOG_LEVEL where "SMBUS_LOG_LEVEL_ERROR \<equiv> 1"
abbreviation (input) SMBUS_LOG_LEVEL_WARNING :: SMBUS_LOG_LEVEL where "SMBUS_LOG_LEVEL_WARNING \<equiv> 2"
abbreviation (input) SMBUS_LOG_LEVEL_INFO :: SMBUS_LOG_LEVEL where "SMBUS_LOG_LEVEL_INFO \<equiv> 3"
abbreviation (input) SMBUS_LOG_LEVEL_DEBUG :: SMBUS_LOG_LEVEL where "SMBUS_LOG_LEVEL_DEBUG \<equiv> 4"

record SMBus_LogBufRecord =
  log_ulIsOccupied :: u32
  log_ulTicks :: u32
  ulEntry1 :: u32
  log_ulInstance :: u32
  ulEntry2 :: u32
  log_xEvent :: SMBUS_LOG_EVENT

record SMBus_LogBuf =
  log_ulWrite :: u32
  log_ulRead :: u32

record SMBus_Instance =
  ulFirewall1 :: u32
  pFnGetProtocol :: "nat option"
  pFnGetData :: "nat option"
  pFnWriteData :: "nat option"
  pFnAnnounceResult :: "nat option"
  pFnArpAddrChange :: "nat option"
  pFnBusError :: "nat option"
  pFnBusWarning :: "nat option"
  pFnI2CGetData :: "nat option"
  pFnI2CWriteData :: "nat option"
  pFnI2CAnnounceResult :: "nat option"
  ulI2CDevice :: u32
  ulI2CTransaction :: u32
  ulAction :: u32
  ulMessagesComplete :: "nat \<Rightarrow> u32"
  ulMessagesInitiated :: "nat \<Rightarrow> u32"
  usSendDataSize :: u16
  usSendIndex :: u16
  usReceiveIndex :: u16
  usDescriptorsSent :: u16
  ucSendData :: "nat \<Rightarrow> u8"
  ucReceivedData :: "nat \<Rightarrow> u8"
  ucUDID :: "nat \<Rightarrow> u8"
  ulFirewall2 :: u32
  ucInstanceInUse :: u8
  ucSMBusAddr :: u8
  ucPECRequired :: u8
  ucThisInstanceNum :: u8
  ucEvent :: u8
  ucCommand :: u8
  ucSimpleDevice :: u8
  ucExpectedByteCountPart :: u8
  usExpectedByteCount :: u16
  ucSMBusDestAddr :: u8
  ucSMBusSenderAddr :: u8
  ucPecRequiredForTransaction :: u8
  ucTriggerFSM :: u8
  ucNewDeviceSlaveAddr :: u8
  ucUDIDMatchedInstance :: u8
  ucARFlag :: u8
  ucAVFlag :: u8
  ucMatchedSMBusAddr :: u8
  ucNackSent :: u8
  ucPECSent :: u8
  ucFifoEmptyWhileInDoneCount :: u8
  xPreviousState :: SMBUS_STATE
  xState :: SMBUS_STATE
  xProtocol :: SMBUS_COMMAND_PROTOCOL
  xARPCapability :: SMBUS_ARP_CAPABILITY
  xEventSrcCircularBuf :: SMBus_EventBuf
  ulFirewall3 :: u32

record SMBusProfile =
  pFnReadTicks :: "nat option"
  pvBaseAddr :: u64
  ulTransactionID :: u32
  ulInitialize :: u32
  xLogCircularBuf :: SMBus_LogBuf
  xLogRecords :: "nat \<Rightarrow> SMBus_LogBufRecord"
  xSMBusInstance :: "nat \<Rightarrow> SMBus_Instance"
  ucInstanceInPlay :: u8
  ucActiveTargetInstance :: u8
  xLogLevel :: SMBUS_LOG_LEVEL
  ucUDIDMatch :: "nat \<Rightarrow> u8"

text \<open>
  The registers (a 32-bit access at an address) and the application's callbacks.  The
  callbacks that fill a buffer are given its content and return the new content.
\<close>

record 'w smbus_env =
  env_in32 :: "u64 \<Rightarrow> 'w \<Rightarrow> u32 \<times> 'w"
  env_out32 :: "u64 \<Rightarrow> u32 \<Rightarrow> 'w \<Rightarrow> 'w"
  env_read_ticks :: "nat \<Rightarrow> 'w \<Rightarrow> u32 \<times> 'w"
  env_get_protocol :: "nat \<Rightarrow> u8 \<Rightarrow> 'w \<Rightarrow> SMBUS_COMMAND_PROTOCOL \<times> 'w"
  env_get_data :: "nat \<Rightarrow> u8 \<Rightarrow> (nat \<Rightarrow> u8) \<Rightarrow> 'w \<Rightarrow> (nat \<Rightarrow> u8) \<times> u16 \<times> 'w"
  env_write_data :: "nat \<Rightarrow> u8 \<Rightarrow> (nat \<Rightarrow> u8) \<Rightarrow> u16 \<Rightarrow> u32 \<Rightarrow> 'w \<Rightarrow> 'w"
  env_announce :: "nat \<Rightarrow> u8 \<Rightarrow> u32 \<Rightarrow> u32 \<Rightarrow> 'w \<Rightarrow> 'w"
  env_arp_addr :: "nat \<Rightarrow> u8 \<Rightarrow> 'w \<Rightarrow> 'w"
  env_bus_error :: "nat \<Rightarrow> u8 \<Rightarrow> 'w \<Rightarrow> 'w"
  env_bus_warning :: "nat \<Rightarrow> u8 \<Rightarrow> 'w \<Rightarrow> 'w"
  env_i2c_get_data :: "nat \<Rightarrow> (nat \<Rightarrow> u8) \<Rightarrow> 'w \<Rightarrow> (nat \<Rightarrow> u8) \<times> u16 \<times> 'w"
  env_i2c_write_data :: "nat \<Rightarrow> (nat \<Rightarrow> u8) \<Rightarrow> u16 \<Rightarrow> 'w \<Rightarrow> 'w"
  env_i2c_announce :: "nat \<Rightarrow> u32 \<Rightarrow> 'w \<Rightarrow> 'w"

record 'w smbus_st =
  prof :: SMBusProfile
  world :: 'w

text \<open>Field access through an instance pointer, and the update of an instance.\<close>

definition inst :: "nat \<Rightarrow> 'w smbus_st \<Rightarrow> SMBus_Instance" where
  "inst i s = xSMBusInstance (prof s) i"

definition upd_inst :: "nat \<Rightarrow> (SMBus_Instance \<Rightarrow> SMBus_Instance) \<Rightarrow> 'w smbus_st \<Rightarrow> 'w smbus_st" where
  "upd_inst i f s = s\<lparr>prof := (prof s)\<lparr>xSMBusInstance := (xSMBusInstance (prof s))(i := f (xSMBusInstance (prof s) i))\<rparr>\<rparr>"

definition upd_prof :: "(SMBusProfile \<Rightarrow> SMBusProfile) \<Rightarrow> 'w smbus_st \<Rightarrow> 'w smbus_st" where
  "upd_prof f s = s\<lparr>prof := f (prof s)\<rparr>"

lemma inst_upd_inst [simp]: "inst j (upd_inst i f s) = (if j = i then f (inst i s) else inst j s)"
  by (simp add: inst_def upd_inst_def)

lemma world_upd_inst [simp]: "world (upd_inst i f s) = world s"
  by (simp add: upd_inst_def)


section \<open>The profile before its initialisation\<close>

text \<open>The profile is a static object, so it starts as zeros: every callback pointer is \<open>NULL\<close>.\<close>

definition zero_instance :: SMBus_Instance where
  "zero_instance = \<lparr>ulFirewall1 = 0, pFnGetProtocol = None, pFnGetData = None, pFnWriteData = None,
     pFnAnnounceResult = None, pFnArpAddrChange = None, pFnBusError = None, pFnBusWarning = None,
     pFnI2CGetData = None, pFnI2CWriteData = None, pFnI2CAnnounceResult = None, ulI2CDevice = 0,
     ulI2CTransaction = 0, ulAction = 0, ulMessagesComplete = (\<lambda>_. 0), ulMessagesInitiated = (\<lambda>_. 0),
     usSendDataSize = 0, usSendIndex = 0, usReceiveIndex = 0, usDescriptorsSent = 0, ucSendData = (\<lambda>_. 0),
     ucReceivedData = (\<lambda>_. 0), ucUDID = (\<lambda>_. 0), ulFirewall2 = 0, ucInstanceInUse = 0, ucSMBusAddr = 0,
     ucPECRequired = 0, ucThisInstanceNum = 0, ucEvent = 0, ucCommand = 0, ucSimpleDevice = 0,
     ucExpectedByteCountPart = 0, usExpectedByteCount = 0, ucSMBusDestAddr = 0, ucSMBusSenderAddr = 0,
     ucPecRequiredForTransaction = 0, ucTriggerFSM = 0, ucNewDeviceSlaveAddr = 0, ucUDIDMatchedInstance = 0,
     ucARFlag = 0, ucAVFlag = 0, ucMatchedSMBusAddr = 0, ucNackSent = 0, ucPECSent = 0,
     ucFifoEmptyWhileInDoneCount = 0, xPreviousState = SMBUS_STATE_INITIAL, xState = SMBUS_STATE_INITIAL,
     xProtocol = SMBUS_PROTOCOL_QUICK_CMD_LO, xARPCapability = SMBUS_ARP_CAPABILITY_UNKNOWN,
     xEventSrcCircularBuf = \<lparr>ulMaxElements = 0, ulWrite = 0, ulRead = 0,
       pxEventBuf = replicate 300 \<lparr>ucIsOccupied = 0, ucOctet = 0\<rparr>\<rparr>,
     ulFirewall3 = 0\<rparr>"

definition zero_profile :: SMBusProfile where
  "zero_profile = \<lparr>pFnReadTicks = None, pvBaseAddr = 0, ulTransactionID = 0, ulInitialize = 0,
     xLogCircularBuf = \<lparr>log_ulWrite = 0, log_ulRead = 0\<rparr>,
     xLogRecords = (\<lambda>_. \<lparr>log_ulIsOccupied = 0, log_ulTicks = 0, ulEntry1 = 0, log_ulInstance = 0,
       ulEntry2 = 0, log_xEvent = SMBUS_LOG_EVENT_INTERRUPT_EVENT\<rparr>),
     xSMBusInstance = (\<lambda>_. zero_instance), ucInstanceInPlay = 0, ucActiveTargetInstance = 0,
     xLogLevel = SMBUS_LOG_LEVEL_NONE, ucUDIDMatch = (\<lambda>_. 0)\<rparr>"

text \<open>Hardware whose registers are plain memory, with callbacks that do nothing.\<close>

definition memory_env :: "(u64 \<Rightarrow> u32) smbus_env" where
  "memory_env = \<lparr>env_in32 = (\<lambda>a w. (w a, w)), env_out32 = (\<lambda>a v w. w(a := v)),
     env_read_ticks = (\<lambda>f w. (0, w)), env_get_protocol = (\<lambda>f c w. (SMBUS_PROTOCOL_NONE, w)),
     env_get_data = (\<lambda>f c b w. (b, 0, w)), env_write_data = (\<lambda>f c b n t w. w),
     env_announce = (\<lambda>f c t n w. w), env_arp_addr = (\<lambda>f c w. w), env_bus_error = (\<lambda>f e w. w),
     env_bus_warning = (\<lambda>f e w. w), env_i2c_get_data = (\<lambda>f b w. (b, 0, w)),
     env_i2c_write_data = (\<lambda>f b n w. w), env_i2c_announce = (\<lambda>f n w. w)\<rparr>"

end
