(* ===== verification/SMBus_Log.thy ===== *)
theory SMBus_Log
  imports SMBus_Types
begin

text \<open>
  The debug log of the SMBus driver, \<open>smbus_circular_log.c\<close>: adding an entry, clearing the
  log, and the order in which the entries are displayed.  The text of a line is left to a
  formatting function, a parameter.
\<close>

abbreviation (input) SMBUS_LOG_IS_OCCUPIED :: u32 where "SMBUS_LOG_IS_OCCUPIED \<equiv> 0xAAABACAD"
abbreviation (input) SMBUS_LOG_IS_NOT_OCCUPIED :: u32 where "SMBUS_LOG_IS_NOT_OCCUPIED \<equiv> 0"

definition vLogInitialize :: "SMBusProfile \<Rightarrow> SMBusProfile" where
  "vLogInitialize p =
     p\<lparr>xLogRecords := (\<lambda>i. if i < unat SMBUS_MAX_CIRCULAR_LOG_ENTRIES
         then (xLogRecords p i)\<lparr>log_ulIsOccupied := SMBUS_LOG_IS_NOT_OCCUPIED, ulEntry1 := 0,
                ulEntry2 := 0, log_ulTicks := 0\<rparr>
         else xLogRecords p i),
       xLogCircularBuf := (xLogCircularBuf p)\<lparr>log_ulWrite := 0, log_ulRead := 0\<rparr>\<rparr>"

text \<open>The index after an entry was written.\<close>

definition log_next :: "u32 \<Rightarrow> u32" where
  "log_next i = (if SMBUS_MAX_CIRCULAR_LOG_ENTRIES - 1 \<le> i
     then SMBUS_MAX_CIRCULAR_LOG_ENTRIES - 1 else i + 1)"

definition vLogAddEntry ::
  "'w smbus_env \<Rightarrow> SMBUS_LOG_LEVEL \<Rightarrow> u32 \<Rightarrow> SMBUS_LOG_EVENT \<Rightarrow> u32 \<Rightarrow> u32 \<Rightarrow>
   'w smbus_st \<Rightarrow> 'w smbus_st option" where
  "vLogAddEntry E level n ev e1 e2 s =
     (if level \<le> xLogLevel (prof s) then
        (let (ulTicks, w) = (case pFnReadTicks (prof s) of None \<Rightarrow> (0, world s)
                             | Some f \<Rightarrow> env_read_ticks E f (world s));
             i = log_ulWrite (xLogCircularBuf (prof s))
         in do {
           recs \<leftarrow> arr_set (unat SMBUS_MAX_CIRCULAR_LOG_ENTRIES) (xLogRecords (prof s)) (unat i)
             \<lparr>log_ulIsOccupied = SMBUS_LOG_IS_OCCUPIED, log_ulTicks = ulTicks, ulEntry1 = e1,
              log_ulInstance = n, ulEntry2 = e2, log_xEvent = ev\<rparr>;
           Some \<lparr>prof = (prof s)\<lparr>xLogCircularBuf := (xLogCircularBuf (prof s))\<lparr>log_ulWrite := log_next i\<rparr>,
                                xLogRecords := recs\<rparr>,
                 world = w\<rparr> })
      else Some s)"

text \<open>The entries \<open>vLogDisplayLog\<close> formats, in its order: from the write index to the end, then
  from the start to the write index.\<close>

definition log_shown :: "SMBusProfile \<Rightarrow> nat list" where
  "log_shown p =
     (let slStart = unat (log_ulWrite (xLogCircularBuf p)) in
      filter (\<lambda>i. log_ulIsOccupied (xLogRecords p i) = SMBUS_LOG_IS_OCCUPIED)
        ([slStart..<unat SMBUS_MAX_CIRCULAR_LOG_ENTRIES] @ [0..<slStart]))"

definition vLogDisplayLog :: "(nat \<Rightarrow> SMBus_LogBufRecord \<Rightarrow> string) \<Rightarrow> SMBusProfile \<Rightarrow> string \<times> u32" where
  "vLogDisplayLog fmt p =
     (let txt = concat (map (\<lambda>i. fmt i (xLogRecords p i)) (log_shown p)) in (txt, of_nat (length txt)))"

section \<open>What adding an entry leaves alone\<close>

text \<open>\<open>log_only s s'\<close>: nothing but the log and the world may differ.\<close>

definition log_only :: "'w smbus_st \<Rightarrow> 'w smbus_st \<Rightarrow> bool" where
  "log_only s s' \<longleftrightarrow> 
     prof s' = (prof s)\<lparr>xLogCircularBuf := xLogCircularBuf (prof s'), xLogRecords := xLogRecords (prof s')\<rparr>"

definition log_inv :: "'w smbus_st \<Rightarrow> bool" where
  "log_inv s \<longleftrightarrow> log_ulWrite (xLogCircularBuf (prof s)) < SMBUS_MAX_CIRCULAR_LOG_ENTRIES"

lemma log_only_refl [simp, intro]: "log_only s s"
  by (simp add: log_only_def)

lemma log_only_trans: "log_only s t \<Longrightarrow> log_only t u \<Longrightarrow> log_only s u"
proof -
  assume t: "log_only s t" and u: "log_only t u"
  have "prof u = (prof t)\<lparr>xLogCircularBuf := xLogCircularBuf (prof u), xLogRecords := xLogRecords (prof u)\<rparr>"
    using u by (simp only: log_only_def)
  also have "\<dots> = (prof s)\<lparr>xLogCircularBuf := xLogCircularBuf (prof u), xLogRecords := xLogRecords (prof u)\<rparr>"
    by (subst t [unfolded log_only_def]) simp
  finally show ?thesis by (simp only: log_only_def)
qed

lemma log_onlyD:
  assumes "log_only s s'"
  shows "inst i s' = inst i s" "ucInstanceInPlay (prof s') = ucInstanceInPlay (prof s)"
    "ucActiveTargetInstance (prof s') = ucActiveTargetInstance (prof s)"
    "pvBaseAddr (prof s') = pvBaseAddr (prof s)" "ucUDIDMatch (prof s') = ucUDIDMatch (prof s)"
    "ulTransactionID (prof s') = ulTransactionID (prof s)" "xLogLevel (prof s') = xLogLevel (prof s)"
    "pFnReadTicks (prof s') = pFnReadTicks (prof s)" "xSMBusInstance (prof s') = xSMBusInstance (prof s)"
    "ulInitialize (prof s') = ulInitialize (prof s)"
  unfolding inst_def by (subst assms [unfolded log_only_def], simp)+

lemma log_only_world [simp]: "log_only s (s'\<lparr>world := w\<rparr>) = log_only s s'"
  "log_only (s\<lparr>world := w\<rparr>) s' = log_only s s'"
  by (simp_all add: log_only_def)

lemma log_inv_world [simp]: "log_inv (s\<lparr>world := w\<rparr>) = log_inv s"
  by (simp add: log_inv_def)

lemma log_next_less: "log_next i < SMBUS_MAX_CIRCULAR_LOG_ENTRIES"
  by (simp add: log_next_def not_le word_less_nat_alt word_le_nat_alt unat_word_ariths)

lemma log_add_post: "post (vLogAddEntry E l n ev e1 e2 s) (\<lambda>s'. log_only s s' \<and> (log_inv s \<longrightarrow> log_inv s'))"
  using log_next_less
  by (auto simp: vLogAddEntry_def log_only_def log_inv_def post_bind_iff Let_def intro!: postI split: prod.splits)

lemma log_add_okay:
  assumes "log_inv s"
  shows "okay (vLogAddEntry E l n ev e1 e2 s) (\<lambda>s'. log_only s s' \<and> log_inv s')"
proof -
  have "vLogAddEntry E l n ev e1 e2 s \<noteq> None"
    using assms by (auto simp: vLogAddEntry_def log_inv_def arr_set_def Let_def word_less_nat_alt split: prod.splits)
  with log_add_post [of E l n ev e1 e2 s] assms show ?thesis by (auto simp: okay_iff)
qed

section \<open>What the log shows\<close>

text \<open>A sequence of calls: the level, the instance, the event and the two values of each.\<close>

type_synonym log_call = "SMBUS_LOG_LEVEL \<times> u32 \<times> SMBUS_LOG_EVENT \<times> u32 \<times> u32"

fun log_run :: "'w smbus_env \<Rightarrow> log_call list \<Rightarrow> 'w smbus_st \<Rightarrow> 'w smbus_st option" where
  "log_run E [] s = Some s"
| "log_run E ((l, n, ev, e1, e2) # es) s = do { s \<leftarrow> vLogAddEntry E l n ev e1 e2 s; log_run E es s }"

definition log_kept :: "SMBUS_LOG_LEVEL \<Rightarrow> log_call list \<Rightarrow> (u32 \<times> SMBUS_LOG_EVENT \<times> u32 \<times> u32) list" where
  "log_kept l es = map snd (filter (\<lambda>e. fst e \<le> l) es)"

definition log_entry :: "SMBus_LogBufRecord \<Rightarrow> u32 \<times> SMBUS_LOG_EVENT \<times> u32 \<times> u32" where
  "log_entry r = (log_ulInstance r, log_xEvent r, ulEntry1 r, ulEntry2 r)"

definition log_slot :: "nat \<Rightarrow> 'a list \<Rightarrow> nat \<Rightarrow> 'a option" where
  "log_slot n ks i = (if i < n \<and> i < length ks then Some (ks ! i)
     else if i = n \<and> n < length ks then Some (last ks) else None)"

text \<open>The log records the calls \<open>ks\<close>; \<open>n\<close> is the last index.\<close>

definition log_holds :: "nat \<Rightarrow> SMBusProfile \<Rightarrow> (u32 \<times> SMBUS_LOG_EVENT \<times> u32 \<times> u32) list \<Rightarrow> bool" where
  "log_holds n p ks \<longleftrightarrow> unat (log_ulWrite (xLogCircularBuf p)) = min (length ks) n \<and>
     (\<forall>i \<le> n. (if log_ulIsOccupied (xLogRecords p i) = SMBUS_LOG_IS_OCCUPIED
        then Some (log_entry (xLogRecords p i)) else None) = log_slot n ks i)"

lemma log_slot_snoc:
  "i \<le> n \<Longrightarrow> log_slot n (ks @ [k]) i = (if i = min (length ks) n then Some k else log_slot n ks i)"
  by (auto simp: log_slot_def nth_append min_def)

lemma log_initialized_holds: "log_holds 4999 (vLogInitialize p) []"
  by (simp add: log_holds_def log_slot_def vLogInitialize_def)

lemma unat_log_next: "unat i \<le> 4999 \<Longrightarrow> unat (log_next i) = min (unat i + 1) 4999"
  by (auto simp: log_next_def word_le_nat_alt not_le unat_word_ariths)

lemma log_add_holds:
  assumes "log_holds 4999 (prof s) ks"
  shows "\<exists>s'. vLogAddEntry E l n ev e1 e2 s = Some s' \<and> xLogLevel (prof s') = xLogLevel (prof s) \<and>
    log_holds 4999 (prof s') (if l \<le> xLogLevel (prof s) then ks @ [(n, ev, e1, e2)] else ks)"
proof (cases "l \<le> xLogLevel (prof s)")
  case True
  have w: "unat (log_ulWrite (xLogCircularBuf (prof s))) = min (length ks) 4999"
    using assms by (simp add: log_holds_def)
  have step: "min (Suc (min (length ks) 4999)) 4999 = min (Suc (length ks)) 4999" by simp
  show ?thesis
    using True assms w
    by (auto simp: vLogAddEntry_def Let_def arr_set_def log_holds_def unat_log_next log_slot_snoc log_entry_def
        step split: prod.splits)
next
  case False
  with assms show ?thesis by (simp add: vLogAddEntry_def)
qed

lemma log_run_holds:
  "log_holds 4999 (prof s) ks \<Longrightarrow>
   \<exists>s'. log_run E es s = Some s' \<and> log_holds 4999 (prof s') (ks @ log_kept (xLogLevel (prof s)) es)"
proof (induction E es s arbitrary: ks rule: log_run.induct)
  case (1 E s)
  then show ?case by (simp add: log_kept_def)
next
  case (2 E l n ev e1 e2 es s)
  from log_add_holds [OF 2(2)] obtain t where t:
    "vLogAddEntry E l n ev e1 e2 s = Some t" "xLogLevel (prof t) = xLogLevel (prof s)"
    "log_holds 4999 (prof t) (if l \<le> xLogLevel (prof s) then ks @ [(n, ev, e1, e2)] else ks)"
    by blast
  from 2(1) [OF t(1,3)] t(1,2) show ?case by (auto simp: log_kept_def)
qed

lemma log_holds_shown:
  assumes h: "log_holds n p ks" and n: "n = 4999"
  shows "map (log_entry \<circ> xLogRecords p) (log_shown p) =
    (if length ks \<le> n then ks else last ks # take n ks)"
proof -
  let ?occ = "\<lambda>i. log_ulIsOccupied (xLogRecords p i) = SMBUS_LOG_IS_OCCUPIED"
  have w: "unat (log_ulWrite (xLogCircularBuf p)) = min (length ks) n"
    using h by (simp add: log_holds_def)
  have both: "(if ?occ i then Some (log_entry (xLogRecords p i)) else None) = log_slot n ks i" if "i \<le> n" for i
    using h that by (simp add: log_holds_def)
  have slot: "?occ i \<longleftrightarrow> i < n \<and> i < length ks \<or> i = n \<and> n < length ks" if "i \<le> n" for i
    using both [OF that] unfolding log_slot_def by (metis option.distinct(1))
  have entry: "log_slot n ks i = Some e \<Longrightarrow> log_entry (xLogRecords p i) = e" if "i \<le> n" for i e
    using both [OF that] by (metis option.distinct(1) option.inject)
  have hi: "filter ?occ [min (length ks) n..<Suc n] = (if length ks \<le> n then [] else [n])"
    using slot by (auto simp: filter_empty_conv)
  have lo: "filter ?occ [0..<min (length ks) n] = [0..<min (length ks) n]"
    using slot by (auto simp: filter_id_conv)
  have vals: "map (log_entry \<circ> xLogRecords p) [0..<min (length ks) n] = take n ks"
    by (rule nth_equalityI) (auto intro!: entry simp: log_slot_def)
  have N: "unat SMBUS_MAX_CIRCULAR_LOG_ENTRIES = Suc n" by (simp add: n)
  have top: "n < length ks \<Longrightarrow> log_entry (xLogRecords p n) = last ks"
    by (rule entry) (simp_all add: log_slot_def)
  show ?thesis
    unfolding log_shown_def Let_def w N filter_append hi lo using vals top by auto
qed

text \<open>
  After the log was initialised and any sequence of entries added, displaying it shows
  the entries at or below the log level: all of them, oldest first, as long as there are
  fewer than 5000, and from then on only the newest entry followed by the first 4999: the
  log does not wrap but overwrites its last slot.
\<close>

theorem log_shows_entries:
  "\<exists>s'. log_run E es (s\<lparr>prof := vLogInitialize p\<rparr>) = Some s' \<and>
    map (log_entry \<circ> xLogRecords (prof s')) (log_shown (prof s')) =
      (let ks = log_kept (xLogLevel p) es in if length ks \<le> 4999 then ks else last ks # take 4999 ks)"
proof -
  let ?s = "s\<lparr>prof := vLogInitialize p\<rparr>"
  have "xLogLevel (prof ?s) = xLogLevel p" by (simp add: vLogInitialize_def)
  then show ?thesis
    using log_run_holds [of ?s "[]" E es] log_initialized_holds [of p]
      log_holds_shown [of 4999] by (fastforce simp: Let_def)
qed

end
