(* ===== verification/SMBus_HW.thy ===== *)
theory SMBus_HW
  imports SMBus_Log
begin

text \<open>
  Register access of the SMBus driver, \<open>smbus_hw_access.c\<close>: the three primitives (read,
  write, write under a mask), each of which logs the access, the accessor of every register
  and register field, and the descriptors that are pushed into the target and the
  controller descriptor FIFO.  A register lives at the base address plus its offset (the
  base pointer points to \<open>int\<close>, and the code adds the offset divided by four).

  A function that cannot change anything but the log and the world is \<open>quiet\<close> (\<open>quietv\<close>
  when it returns a value), and it is defined whenever the log index is inside the log.
\<close>

section \<open>Offsets, masks and positions of the register map\<close>

abbreviation (input) SMBUS_REG_IP_VERSION :: u32 where "SMBUS_REG_IP_VERSION \<equiv> 0x0"
abbreviation (input) SMBUS_REG_IP_REVISION :: u32 where "SMBUS_REG_IP_REVISION \<equiv> 0x4"
abbreviation (input) SMBUS_REG_IP_MAGIC_NUM :: u32 where "SMBUS_REG_IP_MAGIC_NUM \<equiv> 0x8"
abbreviation (input) SMBUS_REG_IP_BUILD_CONFIG_0 :: u32 where "SMBUS_REG_IP_BUILD_CONFIG_0 \<equiv> 0xC"
abbreviation (input) SMBUS_REG_IP_BUILD_CONFIG_1 :: u32 where "SMBUS_REG_IP_BUILD_CONFIG_1 \<equiv> 0x10"
abbreviation (input) SMBUS_REG_IRQ_GIE :: u32 where "SMBUS_REG_IRQ_GIE \<equiv> 0x20"
abbreviation (input) SMBUS_IRQ_GIE_ENABLE_MASK :: u32 where "SMBUS_IRQ_GIE_ENABLE_MASK \<equiv> 0x1"
abbreviation (input) SMBUS_REG_IRQ_IER :: u32 where "SMBUS_REG_IRQ_IER \<equiv> 0x24"
abbreviation (input) SMBUS_REG_IRQ_ISR :: u32 where "SMBUS_REG_IRQ_ISR \<equiv> 0x28"
abbreviation (input) SMBUS_REG_ERR_IRQ_IER :: u32 where "SMBUS_REG_ERR_IRQ_IER \<equiv> 0x2C"
abbreviation (input) SMBUS_REG_ERR_IRQ_ISR :: u32 where "SMBUS_REG_ERR_IRQ_ISR \<equiv> 0x30"
abbreviation (input) SMBUS_REG_PHY_STATUS :: u32 where "SMBUS_REG_PHY_STATUS \<equiv> 0x200"
abbreviation (input) SMBUS_PHY_STATUS_SMBDAT_LOW_TIMEOUT_MASK :: u32 where "SMBUS_PHY_STATUS_SMBDAT_LOW_TIMEOUT_MASK \<equiv> 0x4"
abbreviation (input) SMBUS_PHY_STATUS_SMBDAT_LOW_TIMEOUT_FIELD_POSITION :: nat where "SMBUS_PHY_STATUS_SMBDAT_LOW_TIMEOUT_FIELD_POSITION \<equiv> 2"
abbreviation (input) SMBUS_PHY_STATUS_SMBCLK_LOW_TIMEOUT_MASK :: u32 where "SMBUS_PHY_STATUS_SMBCLK_LOW_TIMEOUT_MASK \<equiv> 0x2"
abbreviation (input) SMBUS_PHY_STATUS_SMBCLK_LOW_TIMEOUT_FIELD_POSITION :: nat where "SMBUS_PHY_STATUS_SMBCLK_LOW_TIMEOUT_FIELD_POSITION \<equiv> 1"
abbreviation (input) SMBUS_PHY_STATUS_BUS_IDLE_MASK :: u32 where "SMBUS_PHY_STATUS_BUS_IDLE_MASK \<equiv> 0x1"
abbreviation (input) SMBUS_REG_PHY_FILTER_CONTROL :: u32 where "SMBUS_REG_PHY_FILTER_CONTROL \<equiv> 0x204"
abbreviation (input) SMBUS_PHY_FILTER_CONTROL_ENABLE_MASK :: u32 where "SMBUS_PHY_FILTER_CONTROL_ENABLE_MASK \<equiv> 0x80000000"
abbreviation (input) SMBUS_PHY_FILTER_CONTROL_ENABLE_FIELD_POSITION :: nat where "SMBUS_PHY_FILTER_CONTROL_ENABLE_FIELD_POSITION \<equiv> 31"
abbreviation (input) SMBUS_PHY_FILTER_CONTROL_DURATION_MASK :: u32 where "SMBUS_PHY_FILTER_CONTROL_DURATION_MASK \<equiv> 0x1F"
abbreviation (input) SMBUS_REG_PHY_BUS_FREE_TIME :: u32 where "SMBUS_REG_PHY_BUS_FREE_TIME \<equiv> 0x208"
abbreviation (input) SMBUS_REG_PHY_IDLE_THRESHOLD :: u32 where "SMBUS_REG_PHY_IDLE_THRESHOLD \<equiv> 0x20C"
abbreviation (input) SMBUS_PHY_IDLE_THRESHOLD_IDLE_THRESHOLD_MASK :: u32 where "SMBUS_PHY_IDLE_THRESHOLD_IDLE_THRESHOLD_MASK \<equiv> 0x7FFF"
abbreviation (input) SMBUS_REG_PHY_TIMEOUT_PRESCALER :: u32 where "SMBUS_REG_PHY_TIMEOUT_PRESCALER \<equiv> 0x210"
abbreviation (input) SMBUS_REG_PHY_TIMEOUT_MIN :: u32 where "SMBUS_REG_PHY_TIMEOUT_MIN \<equiv> 0x214"
abbreviation (input) SMBUS_PHY_TIMEOUT_MIN_TIMEOUT_ENABLE_MASK :: u32 where "SMBUS_PHY_TIMEOUT_MIN_TIMEOUT_ENABLE_MASK \<equiv> 0x80000000"
abbreviation (input) SMBUS_PHY_TIMEOUT_MIN_TIMEOUT_ENABLE_FIELD_POSITION :: nat where "SMBUS_PHY_TIMEOUT_MIN_TIMEOUT_ENABLE_FIELD_POSITION \<equiv> 31"
abbreviation (input) SMBUS_PHY_TIMEOUT_MIN_TIMEOUT_MIN_MASK :: u32 where "SMBUS_PHY_TIMEOUT_MIN_TIMEOUT_MIN_MASK \<equiv> 0xFFF"
abbreviation (input) SMBUS_REG_PHY_TIMEOUT_MAX :: u32 where "SMBUS_REG_PHY_TIMEOUT_MAX \<equiv> 0x218"
abbreviation (input) SMBUS_REG_PHY_RESET_CONTROL :: u32 where "SMBUS_REG_PHY_RESET_CONTROL \<equiv> 0x21C"
abbreviation (input) SMBUS_PHY_RESET_CONTROL_SMBCLK_FORCE_LOW_MASK :: u32 where "SMBUS_PHY_RESET_CONTROL_SMBCLK_FORCE_LOW_MASK \<equiv> 0xFFF"
abbreviation (input) SMBUS_REG_PHY_TGT_DATA_SETUP :: u32 where "SMBUS_REG_PHY_TGT_DATA_SETUP \<equiv> 0x400"
abbreviation (input) SMBUS_PHY_TGT_DATA_SETUP_TGT_DATA_SETUP_MASK :: u32 where "SMBUS_PHY_TGT_DATA_SETUP_TGT_DATA_SETUP_MASK \<equiv> 0x3FF"
abbreviation (input) SMBUS_REG_PHY_TGT_TEXT_PRESCALER :: u32 where "SMBUS_REG_PHY_TGT_TEXT_PRESCALER \<equiv> 0x404"
abbreviation (input) SMBUS_PHY_TGT_TEXT_PRESCALER_TGT_TEXT_PRESCALER_MASK :: u32 where "SMBUS_PHY_TGT_TEXT_PRESCALER_TGT_TEXT_PRESCALER_MASK \<equiv> 0x1FF"
abbreviation (input) SMBUS_REG_PHY_TGT_TEXT_TIMEOUT :: u32 where "SMBUS_REG_PHY_TGT_TEXT_TIMEOUT \<equiv> 0x408"
abbreviation (input) SMBUS_PHY_TGT_TEXT_TIMEOUT_TGT_TEXT_TIMEOUT_MASK :: u32 where "SMBUS_PHY_TGT_TEXT_TIMEOUT_TGT_TEXT_TIMEOUT_MASK \<equiv> 0x7FFF"
abbreviation (input) SMBUS_REG_PHY_TGT_TEXT_MAX :: u32 where "SMBUS_REG_PHY_TGT_TEXT_MAX \<equiv> 0x40C"
abbreviation (input) SMBUS_PHY_TGT_TEXT_MAX_TGT_TEXT_MAX_MASK :: u32 where "SMBUS_PHY_TGT_TEXT_MAX_TGT_TEXT_MAX_MASK \<equiv> 0x7FFF"
abbreviation (input) SMBUS_REG_PHY_TGT_DBG_STATE :: u32 where "SMBUS_REG_PHY_TGT_DBG_STATE \<equiv> 0x410"
abbreviation (input) SMBUS_PHY_TGT_DBG_STATE_DBG_STATE_MASK :: u32 where "SMBUS_PHY_TGT_DBG_STATE_DBG_STATE_MASK \<equiv> 0xFF"
abbreviation (input) SMBUS_REG_PHY_TGT_DATA_HOLD :: u32 where "SMBUS_REG_PHY_TGT_DATA_HOLD \<equiv> 0x414"
abbreviation (input) SMBUS_PHY_TGT_DATA_HOLD_DATA_HOLD_MASK :: u32 where "SMBUS_PHY_TGT_DATA_HOLD_DATA_HOLD_MASK \<equiv> 0x3FF"
abbreviation (input) SMBUS_REG_TGT_STATUS :: u32 where "SMBUS_REG_TGT_STATUS \<equiv> 0x600"
abbreviation (input) SMBUS_TGT_STATUS_ACTIVE_MASK :: u32 where "SMBUS_TGT_STATUS_ACTIVE_MASK \<equiv> 0x100"
abbreviation (input) SMBUS_TGT_STATUS_ACTIVE_FIELD_POSITION :: nat where "SMBUS_TGT_STATUS_ACTIVE_FIELD_POSITION \<equiv> 8"
abbreviation (input) SMBUS_TGT_STATUS_ADDRESS_MASK :: u32 where "SMBUS_TGT_STATUS_ADDRESS_MASK \<equiv> 0xFE"
abbreviation (input) SMBUS_TGT_STATUS_ADDRESS_FIELD_POSITION :: nat where "SMBUS_TGT_STATUS_ADDRESS_FIELD_POSITION \<equiv> 1"
abbreviation (input) SMBUS_TGT_STATUS_RW_MASK :: u32 where "SMBUS_TGT_STATUS_RW_MASK \<equiv> 0x1"
abbreviation (input) SMBUS_REG_TGT_DESC_STATUS :: u32 where "SMBUS_REG_TGT_DESC_STATUS \<equiv> 0x608"
abbreviation (input) SMBUS_TGT_DESC_STATUS_FILL_LEVEL_MASK :: u32 where "SMBUS_TGT_DESC_STATUS_FILL_LEVEL_MASK \<equiv> 0x7F00"
abbreviation (input) SMBUS_TGT_DESC_STATUS_FILL_LEVEL_FIELD_POSITION :: nat where "SMBUS_TGT_DESC_STATUS_FILL_LEVEL_FIELD_POSITION \<equiv> 8"
abbreviation (input) SMBUS_TGT_DESC_STATUS_FULL_MASK :: u32 where "SMBUS_TGT_DESC_STATUS_FULL_MASK \<equiv> 0x20"
abbreviation (input) SMBUS_TGT_DESC_STATUS_FULL_FIELD_POSITION :: nat where "SMBUS_TGT_DESC_STATUS_FULL_FIELD_POSITION \<equiv> 5"
abbreviation (input) SMBUS_TGT_DESC_STATUS_ALMOST_FULL_MASK :: u32 where "SMBUS_TGT_DESC_STATUS_ALMOST_FULL_MASK \<equiv> 0x10"
abbreviation (input) SMBUS_TGT_DESC_STATUS_ALMOST_FULL_FIELD_POSITION :: nat where "SMBUS_TGT_DESC_STATUS_ALMOST_FULL_FIELD_POSITION \<equiv> 4"
abbreviation (input) SMBUS_TGT_DESC_STATUS_ALMOST_EMPTY_MASK :: u32 where "SMBUS_TGT_DESC_STATUS_ALMOST_EMPTY_MASK \<equiv> 0x2"
abbreviation (input) SMBUS_TGT_DESC_STATUS_ALMOST_EMPTY_FIELD_POSITION :: nat where "SMBUS_TGT_DESC_STATUS_ALMOST_EMPTY_FIELD_POSITION \<equiv> 1"
abbreviation (input) SMBUS_TGT_DESC_STATUS_EMPTY_MASK :: u32 where "SMBUS_TGT_DESC_STATUS_EMPTY_MASK \<equiv> 0x1"
abbreviation (input) SMBUS_REG_TGT_RX_FIFO :: u32 where "SMBUS_REG_TGT_RX_FIFO \<equiv> 0x60C"
abbreviation (input) SMBUS_TGT_RX_FIFO_PAYLOAD_MASK :: u32 where "SMBUS_TGT_RX_FIFO_PAYLOAD_MASK \<equiv> 0xFF"
abbreviation (input) SMBUS_TGT_RX_FIFO_PAYLOAD_FIELD_POSITION :: nat where "SMBUS_TGT_RX_FIFO_PAYLOAD_FIELD_POSITION \<equiv> 0"
abbreviation (input) SMBUS_REG_TGT_RX_FIFO_STATUS :: u32 where "SMBUS_REG_TGT_RX_FIFO_STATUS \<equiv> 0x610"
abbreviation (input) SMBUS_TGT_RX_FIFO_STATUS_FILL_LEVEL_MASK :: u32 where "SMBUS_TGT_RX_FIFO_STATUS_FILL_LEVEL_MASK \<equiv> 0x7F00"
abbreviation (input) SMBUS_TGT_RX_FIFO_STATUS_FILL_LEVEL_FIELD_POSITION :: nat where "SMBUS_TGT_RX_FIFO_STATUS_FILL_LEVEL_FIELD_POSITION \<equiv> 8"
abbreviation (input) SMBUS_TGT_RX_FIFO_STATUS_RESET_BUSY_MASK :: u32 where "SMBUS_TGT_RX_FIFO_STATUS_RESET_BUSY_MASK \<equiv> 0x40"
abbreviation (input) SMBUS_TGT_RX_FIFO_STATUS_RESET_BUSY_FIELD_POSITION :: nat where "SMBUS_TGT_RX_FIFO_STATUS_RESET_BUSY_FIELD_POSITION \<equiv> 6"
abbreviation (input) SMBUS_TGT_RX_FIFO_STATUS_FULL_MASK :: u32 where "SMBUS_TGT_RX_FIFO_STATUS_FULL_MASK \<equiv> 0x20"
abbreviation (input) SMBUS_TGT_RX_FIFO_STATUS_FULL_FIELD_POSITION :: nat where "SMBUS_TGT_RX_FIFO_STATUS_FULL_FIELD_POSITION \<equiv> 5"
abbreviation (input) SMBUS_TGT_RX_FIFO_STATUS_ALMOST_FULL_MASK :: u32 where "SMBUS_TGT_RX_FIFO_STATUS_ALMOST_FULL_MASK \<equiv> 0x10"
abbreviation (input) SMBUS_TGT_RX_FIFO_STATUS_ALMOST_FULL_FIELD_POSITION :: nat where "SMBUS_TGT_RX_FIFO_STATUS_ALMOST_FULL_FIELD_POSITION \<equiv> 4"
abbreviation (input) SMBUS_TGT_RX_FIFO_STATUS_ALMOST_EMPTY_MASK :: u32 where "SMBUS_TGT_RX_FIFO_STATUS_ALMOST_EMPTY_MASK \<equiv> 0x2"
abbreviation (input) SMBUS_TGT_RX_FIFO_STATUS_ALMOST_EMPTY_FIELD_POSITION :: nat where "SMBUS_TGT_RX_FIFO_STATUS_ALMOST_EMPTY_FIELD_POSITION \<equiv> 1"
abbreviation (input) SMBUS_TGT_RX_FIFO_STATUS_EMPTY_MASK :: u32 where "SMBUS_TGT_RX_FIFO_STATUS_EMPTY_MASK \<equiv> 0x1"
abbreviation (input) SMBUS_REG_TGT_RX_FIFO_FILL_THRESHOLD :: u32 where "SMBUS_REG_TGT_RX_FIFO_FILL_THRESHOLD \<equiv> 0x614"
abbreviation (input) SMBUS_TGT_RX_FIFO_FILL_THRESHOLD_FILL_THRESHOLD_MASK :: u32 where "SMBUS_TGT_RX_FIFO_FILL_THRESHOLD_FILL_THRESHOLD_MASK \<equiv> 0x7F"
abbreviation (input) SMBUS_REG_TGT_DBG :: u32 where "SMBUS_REG_TGT_DBG \<equiv> 0x618"
abbreviation (input) SMBUS_TGT_DBG_DBG_STATE_MASK :: u32 where "SMBUS_TGT_DBG_DBG_STATE_MASK \<equiv> 0x7F"
abbreviation (input) SMBUS_REG_TGT_CONTROL_0 :: u32 where "SMBUS_REG_TGT_CONTROL_0 \<equiv> 0x620"
abbreviation (input) SMBUS_TGT_CONTROL_0_ENABLE_MASK :: u32 where "SMBUS_TGT_CONTROL_0_ENABLE_MASK \<equiv> 0x80000000"
abbreviation (input) SMBUS_TGT_CONTROL_0_ENABLE_FIELD_POSITION :: nat where "SMBUS_TGT_CONTROL_0_ENABLE_FIELD_POSITION \<equiv> 31"
abbreviation (input) SMBUS_TGT_CONTROL_0_ADDRESS_MASK :: u32 where "SMBUS_TGT_CONTROL_0_ADDRESS_MASK \<equiv> 0xFE"
abbreviation (input) SMBUS_TGT_CONTROL_0_ADDRESS_FIELD_POSITION :: nat where "SMBUS_TGT_CONTROL_0_ADDRESS_FIELD_POSITION \<equiv> 1"
abbreviation (input) SMBUS_REG_TGT_CONTROL_1 :: u32 where "SMBUS_REG_TGT_CONTROL_1 \<equiv> 0x624"
abbreviation (input) SMBUS_TGT_CONTROL_1_ENABLE_MASK :: u32 where "SMBUS_TGT_CONTROL_1_ENABLE_MASK \<equiv> 0x80000000"
abbreviation (input) SMBUS_TGT_CONTROL_1_ENABLE_FIELD_POSITION :: nat where "SMBUS_TGT_CONTROL_1_ENABLE_FIELD_POSITION \<equiv> 31"
abbreviation (input) SMBUS_TGT_CONTROL_1_ADDRESS_MASK :: u32 where "SMBUS_TGT_CONTROL_1_ADDRESS_MASK \<equiv> 0xFE"
abbreviation (input) SMBUS_TGT_CONTROL_1_ADDRESS_FIELD_POSITION :: nat where "SMBUS_TGT_CONTROL_1_ADDRESS_FIELD_POSITION \<equiv> 1"
abbreviation (input) SMBUS_REG_TGT_CONTROL_2 :: u32 where "SMBUS_REG_TGT_CONTROL_2 \<equiv> 0x628"
abbreviation (input) SMBUS_TGT_CONTROL_2_ENABLE_MASK :: u32 where "SMBUS_TGT_CONTROL_2_ENABLE_MASK \<equiv> 0x80000000"
abbreviation (input) SMBUS_TGT_CONTROL_2_ENABLE_FIELD_POSITION :: nat where "SMBUS_TGT_CONTROL_2_ENABLE_FIELD_POSITION \<equiv> 31"
abbreviation (input) SMBUS_TGT_CONTROL_2_ADDRESS_MASK :: u32 where "SMBUS_TGT_CONTROL_2_ADDRESS_MASK \<equiv> 0xFE"
abbreviation (input) SMBUS_TGT_CONTROL_2_ADDRESS_FIELD_POSITION :: nat where "SMBUS_TGT_CONTROL_2_ADDRESS_FIELD_POSITION \<equiv> 1"
abbreviation (input) SMBUS_REG_TGT_CONTROL_3 :: u32 where "SMBUS_REG_TGT_CONTROL_3 \<equiv> 0x62C"
abbreviation (input) SMBUS_TGT_CONTROL_3_ENABLE_MASK :: u32 where "SMBUS_TGT_CONTROL_3_ENABLE_MASK \<equiv> 0x80000000"
abbreviation (input) SMBUS_TGT_CONTROL_3_ENABLE_FIELD_POSITION :: nat where "SMBUS_TGT_CONTROL_3_ENABLE_FIELD_POSITION \<equiv> 31"
abbreviation (input) SMBUS_TGT_CONTROL_3_ADDRESS_MASK :: u32 where "SMBUS_TGT_CONTROL_3_ADDRESS_MASK \<equiv> 0xFE"
abbreviation (input) SMBUS_TGT_CONTROL_3_ADDRESS_FIELD_POSITION :: nat where "SMBUS_TGT_CONTROL_3_ADDRESS_FIELD_POSITION \<equiv> 1"
abbreviation (input) SMBUS_REG_TGT_CONTROL_4 :: u32 where "SMBUS_REG_TGT_CONTROL_4 \<equiv> 0x630"
abbreviation (input) SMBUS_TGT_CONTROL_4_ENABLE_MASK :: u32 where "SMBUS_TGT_CONTROL_4_ENABLE_MASK \<equiv> 0x80000000"
abbreviation (input) SMBUS_TGT_CONTROL_4_ENABLE_FIELD_POSITION :: nat where "SMBUS_TGT_CONTROL_4_ENABLE_FIELD_POSITION \<equiv> 31"
abbreviation (input) SMBUS_TGT_CONTROL_4_ADDRESS_MASK :: u32 where "SMBUS_TGT_CONTROL_4_ADDRESS_MASK \<equiv> 0xFE"
abbreviation (input) SMBUS_TGT_CONTROL_4_ADDRESS_FIELD_POSITION :: nat where "SMBUS_TGT_CONTROL_4_ADDRESS_FIELD_POSITION \<equiv> 1"
abbreviation (input) SMBUS_REG_TGT_CONTROL_5 :: u32 where "SMBUS_REG_TGT_CONTROL_5 \<equiv> 0x634"
abbreviation (input) SMBUS_TGT_CONTROL_5_ENABLE_MASK :: u32 where "SMBUS_TGT_CONTROL_5_ENABLE_MASK \<equiv> 0x80000000"
abbreviation (input) SMBUS_TGT_CONTROL_5_ENABLE_FIELD_POSITION :: nat where "SMBUS_TGT_CONTROL_5_ENABLE_FIELD_POSITION \<equiv> 31"
abbreviation (input) SMBUS_TGT_CONTROL_5_ADDRESS_MASK :: u32 where "SMBUS_TGT_CONTROL_5_ADDRESS_MASK \<equiv> 0xFE"
abbreviation (input) SMBUS_TGT_CONTROL_5_ADDRESS_FIELD_POSITION :: nat where "SMBUS_TGT_CONTROL_5_ADDRESS_FIELD_POSITION \<equiv> 1"
abbreviation (input) SMBUS_REG_TGT_CONTROL_6 :: u32 where "SMBUS_REG_TGT_CONTROL_6 \<equiv> 0x638"
abbreviation (input) SMBUS_TGT_CONTROL_6_ENABLE_MASK :: u32 where "SMBUS_TGT_CONTROL_6_ENABLE_MASK \<equiv> 0x80000000"
abbreviation (input) SMBUS_TGT_CONTROL_6_ENABLE_FIELD_POSITION :: nat where "SMBUS_TGT_CONTROL_6_ENABLE_FIELD_POSITION \<equiv> 31"
abbreviation (input) SMBUS_TGT_CONTROL_6_ADDRESS_MASK :: u32 where "SMBUS_TGT_CONTROL_6_ADDRESS_MASK \<equiv> 0xFE"
abbreviation (input) SMBUS_TGT_CONTROL_6_ADDRESS_FIELD_POSITION :: nat where "SMBUS_TGT_CONTROL_6_ADDRESS_FIELD_POSITION \<equiv> 1"
abbreviation (input) SMBUS_REG_TGT_CONTROL_7 :: u32 where "SMBUS_REG_TGT_CONTROL_7 \<equiv> 0x63C"
abbreviation (input) SMBUS_TGT_CONTROL_7_ENABLE_MASK :: u32 where "SMBUS_TGT_CONTROL_7_ENABLE_MASK \<equiv> 0x80000000"
abbreviation (input) SMBUS_TGT_CONTROL_7_ENABLE_FIELD_POSITION :: nat where "SMBUS_TGT_CONTROL_7_ENABLE_FIELD_POSITION \<equiv> 31"
abbreviation (input) SMBUS_TGT_CONTROL_7_ADDRESS_MASK :: u32 where "SMBUS_TGT_CONTROL_7_ADDRESS_MASK \<equiv> 0xFE"
abbreviation (input) SMBUS_TGT_CONTROL_7_ADDRESS_FIELD_POSITION :: nat where "SMBUS_TGT_CONTROL_7_ADDRESS_FIELD_POSITION \<equiv> 1"
abbreviation (input) SMBUS_REG_PHY_CTLR_DATA_HOLD :: u32 where "SMBUS_REG_PHY_CTLR_DATA_HOLD \<equiv> 0x800"
abbreviation (input) SMBUS_PHY_CTLR_DATA_HOLD_CTLR_DATA_HOLD_MASK :: u32 where "SMBUS_PHY_CTLR_DATA_HOLD_CTLR_DATA_HOLD_MASK \<equiv> 0x7FFF"
abbreviation (input) SMBUS_REG_PHY_CTLR_START_HOLD :: u32 where "SMBUS_REG_PHY_CTLR_START_HOLD \<equiv> 0x804"
abbreviation (input) SMBUS_PHY_CTLR_START_HOLD_CTLR_START_HOLD_MASK :: u32 where "SMBUS_PHY_CTLR_START_HOLD_CTLR_START_HOLD_MASK \<equiv> 0x7FFF"
abbreviation (input) SMBUS_REG_PHY_CTLR_START_SETUP :: u32 where "SMBUS_REG_PHY_CTLR_START_SETUP \<equiv> 0x808"
abbreviation (input) SMBUS_PHY_CTLR_START_SETUP_CTLR_START_SETUP_MASK :: u32 where "SMBUS_PHY_CTLR_START_SETUP_CTLR_START_SETUP_MASK \<equiv> 0x7FFF"
abbreviation (input) SMBUS_REG_PHY_CTLR_STOP_SETUP :: u32 where "SMBUS_REG_PHY_CTLR_STOP_SETUP \<equiv> 0x80C"
abbreviation (input) SMBUS_PHY_CTLR_STOP_SETUP_CTLR_STOP_SETUP_MASK :: u32 where "SMBUS_PHY_CTLR_STOP_SETUP_CTLR_STOP_SETUP_MASK \<equiv> 0x7FFF"
abbreviation (input) SMBUS_REG_PHY_CTLR_CLK_TLOW :: u32 where "SMBUS_REG_PHY_CTLR_CLK_TLOW \<equiv> 0x810"
abbreviation (input) SMBUS_PHY_CTLR_CLK_TLOW_CTLR_CLK_TLOW_MASK :: u32 where "SMBUS_PHY_CTLR_CLK_TLOW_CTLR_CLK_TLOW_MASK \<equiv> 0x7FFF"
abbreviation (input) SMBUS_REG_PHY_CTLR_CLK_THIGH :: u32 where "SMBUS_REG_PHY_CTLR_CLK_THIGH \<equiv> 0x814"
abbreviation (input) SMBUS_PHY_CTLR_CLK_THIGH_CTLR_CLK_THIGH_MASK :: u32 where "SMBUS_PHY_CTLR_CLK_THIGH_CTLR_CLK_THIGH_MASK \<equiv> 0x7FFF"
abbreviation (input) SMBUS_REG_PHY_CTLR_TEXT_PRESCALER :: u32 where "SMBUS_REG_PHY_CTLR_TEXT_PRESCALER \<equiv> 0x818"
abbreviation (input) SMBUS_PHY_CTLR_TEXT_PRESCALER_CTLR_TEXT_PRESCALER_MASK :: u32 where "SMBUS_PHY_CTLR_TEXT_PRESCALER_CTLR_TEXT_PRESCALER_MASK \<equiv> 0x1FF"
abbreviation (input) SMBUS_REG_PHY_CTLR_TEXT_TIMEOUT :: u32 where "SMBUS_REG_PHY_CTLR_TEXT_TIMEOUT \<equiv> 0x81C"
abbreviation (input) SMBUS_PHY_CTLR_TEXT_TIMEOUT_CTLR_TEXT_TIMEOUT_MASK :: u32 where "SMBUS_PHY_CTLR_TEXT_TIMEOUT_CTLR_TEXT_TIMEOUT_MASK \<equiv> 0x7FFF"
abbreviation (input) SMBUS_REG_PHY_CTLR_TEXT_MAX :: u32 where "SMBUS_REG_PHY_CTLR_TEXT_MAX \<equiv> 0x820"
abbreviation (input) SMBUS_PHY_CTLR_TEXT_MAX_CTLR_TEXT_MAX_MASK :: u32 where "SMBUS_PHY_CTLR_TEXT_MAX_CTLR_TEXT_MAX_MASK \<equiv> 0x7FFF"
abbreviation (input) SMBUS_REG_PHY_CTLR_CEXT_PRESCALER :: u32 where "SMBUS_REG_PHY_CTLR_CEXT_PRESCALER \<equiv> 0x824"
abbreviation (input) SMBUS_PHY_CTLR_CEXT_PRESCALER_CTLR_CEXT_PRESCALER_MASK :: u32 where "SMBUS_PHY_CTLR_CEXT_PRESCALER_CTLR_CEXT_PRESCALER_MASK \<equiv> 0x1FF"
abbreviation (input) SMBUS_REG_PHY_CTLR_CEXT_TIMEOUT :: u32 where "SMBUS_REG_PHY_CTLR_CEXT_TIMEOUT \<equiv> 0x828"
abbreviation (input) SMBUS_PHY_CTLR_CEXT_TIMEOUT_CTLR_CEXT_TIMEOUT_MASK :: u32 where "SMBUS_PHY_CTLR_CEXT_TIMEOUT_CTLR_CEXT_TIMEOUT_MASK \<equiv> 0x3FFF"
abbreviation (input) SMBUS_REG_PHY_CTLR_CEXT_MAX :: u32 where "SMBUS_REG_PHY_CTLR_CEXT_MAX \<equiv> 0x82C"
abbreviation (input) SMBUS_PHY_CTLR_CEXT_MAX_CTLR_CEXT_MAX_MASK :: u32 where "SMBUS_PHY_CTLR_CEXT_MAX_CTLR_CEXT_MAX_MASK \<equiv> 0x3FFF"
abbreviation (input) SMBUS_REG_PHY_CTLR_DBG_STATE :: u32 where "SMBUS_REG_PHY_CTLR_DBG_STATE \<equiv> 0x830"
abbreviation (input) SMBUS_PHY_CTLR_DBG_STATE_DBG_STATE_MASK :: u32 where "SMBUS_PHY_CTLR_DBG_STATE_DBG_STATE_MASK \<equiv> 0xFF"
abbreviation (input) SMBUS_REG_CTLR_STATUS :: u32 where "SMBUS_REG_CTLR_STATUS \<equiv> 0xA04"
abbreviation (input) SMBUS_CTLR_STATUS_ENABLE_MASK :: u32 where "SMBUS_CTLR_STATUS_ENABLE_MASK \<equiv> 0x1"
abbreviation (input) SMBUS_REG_CTLR_DESC_STATUS :: u32 where "SMBUS_REG_CTLR_DESC_STATUS \<equiv> 0xA0C"
abbreviation (input) SMBUS_CTLR_DESC_STATUS_FILL_LEVEL_MASK :: u32 where "SMBUS_CTLR_DESC_STATUS_FILL_LEVEL_MASK \<equiv> 0x7F00"
abbreviation (input) SMBUS_CTLR_DESC_STATUS_FILL_LEVEL_FIELD_POSITION :: nat where "SMBUS_CTLR_DESC_STATUS_FILL_LEVEL_FIELD_POSITION \<equiv> 8"
abbreviation (input) SMBUS_CTLR_DESC_STATUS_RESET_BUSY_MASK :: u32 where "SMBUS_CTLR_DESC_STATUS_RESET_BUSY_MASK \<equiv> 0x40"
abbreviation (input) SMBUS_CTLR_DESC_STATUS_RESET_BUSY_FIELD_POSITION :: nat where "SMBUS_CTLR_DESC_STATUS_RESET_BUSY_FIELD_POSITION \<equiv> 6"
abbreviation (input) SMBUS_CTLR_DESC_STATUS_FULL_MASK :: u32 where "SMBUS_CTLR_DESC_STATUS_FULL_MASK \<equiv> 0x20"
abbreviation (input) SMBUS_CTLR_DESC_STATUS_FULL_FIELD_POSITION :: nat where "SMBUS_CTLR_DESC_STATUS_FULL_FIELD_POSITION \<equiv> 5"
abbreviation (input) SMBUS_CTLR_DESC_STATUS_ALMOST_FULL_MASK :: u32 where "SMBUS_CTLR_DESC_STATUS_ALMOST_FULL_MASK \<equiv> 0x10"
abbreviation (input) SMBUS_CTLR_DESC_STATUS_ALMOST_FULL_FIELD_POSITION :: nat where "SMBUS_CTLR_DESC_STATUS_ALMOST_FULL_FIELD_POSITION \<equiv> 4"
abbreviation (input) SMBUS_CTLR_DESC_STATUS_ALMOST_EMPTY_MASK :: u32 where "SMBUS_CTLR_DESC_STATUS_ALMOST_EMPTY_MASK \<equiv> 0x2"
abbreviation (input) SMBUS_CTLR_DESC_STATUS_ALMOST_EMPTY_FIELD_POSITION :: nat where "SMBUS_CTLR_DESC_STATUS_ALMOST_EMPTY_FIELD_POSITION \<equiv> 1"
abbreviation (input) SMBUS_CTLR_DESC_STATUS_EMPTY_MASK :: u32 where "SMBUS_CTLR_DESC_STATUS_EMPTY_MASK \<equiv> 0x1"
abbreviation (input) SMBUS_REG_CTLR_RX_FIFO :: u32 where "SMBUS_REG_CTLR_RX_FIFO \<equiv> 0xA10"
abbreviation (input) SMBUS_CTLR_RX_FIFO_PAYLOAD_MASK :: u32 where "SMBUS_CTLR_RX_FIFO_PAYLOAD_MASK \<equiv> 0xFF"
abbreviation (input) SMBUS_CTLR_RX_FIFO_PAYLOAD_FIELD_POSITION :: nat where "SMBUS_CTLR_RX_FIFO_PAYLOAD_FIELD_POSITION \<equiv> 0"
abbreviation (input) SMBUS_REG_CTLR_RX_FIFO_STATUS :: u32 where "SMBUS_REG_CTLR_RX_FIFO_STATUS \<equiv> 0xA14"
abbreviation (input) SMBUS_CTLR_RX_FIFO_STATUS_FILL_LEVEL_MASK :: u32 where "SMBUS_CTLR_RX_FIFO_STATUS_FILL_LEVEL_MASK \<equiv> 0x7F00"
abbreviation (input) SMBUS_CTLR_RX_FIFO_STATUS_FILL_LEVEL_FIELD_POSITION :: nat where "SMBUS_CTLR_RX_FIFO_STATUS_FILL_LEVEL_FIELD_POSITION \<equiv> 8"
abbreviation (input) SMBUS_CTLR_RX_FIFO_STATUS_RESET_BUSY_MASK :: u32 where "SMBUS_CTLR_RX_FIFO_STATUS_RESET_BUSY_MASK \<equiv> 0x40"
abbreviation (input) SMBUS_CTLR_RX_FIFO_STATUS_RESET_BUSY_FIELD_POSITION :: nat where "SMBUS_CTLR_RX_FIFO_STATUS_RESET_BUSY_FIELD_POSITION \<equiv> 6"
abbreviation (input) SMBUS_CTLR_RX_FIFO_STATUS_FULL_MASK :: u32 where "SMBUS_CTLR_RX_FIFO_STATUS_FULL_MASK \<equiv> 0x20"
abbreviation (input) SMBUS_CTLR_RX_FIFO_STATUS_FULL_FIELD_POSITION :: nat where "SMBUS_CTLR_RX_FIFO_STATUS_FULL_FIELD_POSITION \<equiv> 5"
abbreviation (input) SMBUS_CTLR_RX_FIFO_STATUS_ALMOST_FULL_MASK :: u32 where "SMBUS_CTLR_RX_FIFO_STATUS_ALMOST_FULL_MASK \<equiv> 0x10"
abbreviation (input) SMBUS_CTLR_RX_FIFO_STATUS_ALMOST_FULL_FIELD_POSITION :: nat where "SMBUS_CTLR_RX_FIFO_STATUS_ALMOST_FULL_FIELD_POSITION \<equiv> 4"
abbreviation (input) SMBUS_CTLR_RX_FIFO_STATUS_ALMOST_EMPTY_MASK :: u32 where "SMBUS_CTLR_RX_FIFO_STATUS_ALMOST_EMPTY_MASK \<equiv> 0x2"
abbreviation (input) SMBUS_CTLR_RX_FIFO_STATUS_ALMOST_EMPTY_FIELD_POSITION :: nat where "SMBUS_CTLR_RX_FIFO_STATUS_ALMOST_EMPTY_FIELD_POSITION \<equiv> 1"
abbreviation (input) SMBUS_CTLR_RX_FIFO_STATUS_EMPTY_MASK :: u32 where "SMBUS_CTLR_RX_FIFO_STATUS_EMPTY_MASK \<equiv> 0x1"
abbreviation (input) SMBUS_REG_CTLR_RX_FIFO_FILL_THRESHOLD :: u32 where "SMBUS_REG_CTLR_RX_FIFO_FILL_THRESHOLD \<equiv> 0xA18"
abbreviation (input) SMBUS_CTLR_RX_FIFO_FILL_THRESHOLD_FILL_THRESHOLD_MASK :: u32 where "SMBUS_CTLR_RX_FIFO_FILL_THRESHOLD_FILL_THRESHOLD_MASK \<equiv> 0x7F"
abbreviation (input) SMBUS_REG_CTLR_DBG :: u32 where "SMBUS_REG_CTLR_DBG \<equiv> 0xA1C"
abbreviation (input) SMBUS_CTLR_DBG_DBG_STATE_MASK :: u32 where "SMBUS_CTLR_DBG_DBG_STATE_MASK \<equiv> 0x7F"
abbreviation (input) SMBUS_PHY_RESET_CONTROL_SMBCLK_FORCE_TIMEOUT_MASK :: u32 where "SMBUS_PHY_RESET_CONTROL_SMBCLK_FORCE_TIMEOUT_MASK \<equiv> 0x80000000"
abbreviation (input) SMBUS_PHY_RESET_CONTROL_SMBCLK_FORCE_TIMEOUT_FIELD_POSITION :: nat where "SMBUS_PHY_RESET_CONTROL_SMBCLK_FORCE_TIMEOUT_FIELD_POSITION \<equiv> 31"
abbreviation (input) SMBUS_REG_TGT_DESC_FIFO :: u32 where "SMBUS_REG_TGT_DESC_FIFO \<equiv> 0x604"
abbreviation (input) SMBUS_TGT_DESC_FIFO_ID_MASK :: u32 where "SMBUS_TGT_DESC_FIFO_ID_MASK \<equiv> 0xF00"
abbreviation (input) SMBUS_TGT_DESC_FIFO_ID_FIELD_POSITION :: nat where "SMBUS_TGT_DESC_FIFO_ID_FIELD_POSITION \<equiv> 8"
abbreviation (input) SMBUS_TGT_DESC_FIFO_PAYLOAD_MASK :: u32 where "SMBUS_TGT_DESC_FIFO_PAYLOAD_MASK \<equiv> 0xFF"
abbreviation (input) SMBUS_TGT_RX_FIFO_RESET_FIELD_POSITION :: nat where "SMBUS_TGT_RX_FIFO_RESET_FIELD_POSITION \<equiv> 31"
abbreviation (input) SMBUS_REG_CTLR_CONTROL :: u32 where "SMBUS_REG_CTLR_CONTROL \<equiv> 0xA00"
abbreviation (input) SMBUS_REG_CTLR_DESC_FIFO :: u32 where "SMBUS_REG_CTLR_DESC_FIFO \<equiv> 0xA08"
abbreviation (input) SMBUS_CTLR_DESC_FIFO_RESET_FIELD_POSITION :: nat where "SMBUS_CTLR_DESC_FIFO_RESET_FIELD_POSITION \<equiv> 31"
abbreviation (input) SMBUS_CTLR_RX_FIFO_RESET_FIELD_POSITION :: nat where "SMBUS_CTLR_RX_FIFO_RESET_FIELD_POSITION \<equiv> 31"

section \<open>Primitives\<close>

definition hw_address :: "'w smbus_st \<Rightarrow> u32 \<Rightarrow> u64" where
  "hw_address s ulRegisterOffset = pvBaseAddr (prof s) + 4 * ucast (ulRegisterOffset div 4)"

definition prvulSMBusHardwareRead :: "'w smbus_env \<Rightarrow> u32 \<Rightarrow> 'w smbus_st \<Rightarrow> (u32 \<times> 'w smbus_st) option" where
  "prvulSMBusHardwareRead E ulRegisterOffset s =
     (let (ulReadValue, w) = env_in32 E (hw_address s ulRegisterOffset) (world s) in do {
        s \<leftarrow> vLogAddEntry E SMBUS_LOG_LEVEL_DEBUG SMBUS_INSTANCE_UNDETERMINED SMBUS_LOG_EVENT_HW_READ
               ulRegisterOffset ulReadValue (s\<lparr>world := w\<rparr>);
        Some (ulReadValue, s) })"

definition prvvSMBusHardwareWrite :: "'w smbus_env \<Rightarrow> u32 \<Rightarrow> u32 \<Rightarrow> 'w smbus_st \<Rightarrow> 'w smbus_st option" where
  "prvvSMBusHardwareWrite E ulRegisterOffset ulValue s = do {
     s \<leftarrow> vLogAddEntry E SMBUS_LOG_LEVEL_DEBUG SMBUS_INSTANCE_UNDETERMINED SMBUS_LOG_EVENT_HW_WRITE
            ulRegisterOffset ulValue s;
     Some (s\<lparr>world := env_out32 E (hw_address s ulRegisterOffset) ulValue (world s)\<rparr>) }"

definition prvvSMBusHardwareWriteWithMask ::
  "'w smbus_env \<Rightarrow> u32 \<Rightarrow> u32 \<Rightarrow> u32 \<Rightarrow> 'w smbus_st \<Rightarrow> 'w smbus_st option" where
  "prvvSMBusHardwareWriteWithMask E ulRegisterOffset ulMask ulValue s = do {
     (v, s) \<leftarrow> prvulSMBusHardwareRead E ulRegisterOffset s;
     prvvSMBusHardwareWrite E ulRegisterOffset ((v AND NOT ulMask) OR (ulValue AND ulMask)) s }"

text \<open>Reading a field: the masked register value, shifted down.\<close>

definition read_field :: "'w smbus_env \<Rightarrow> u32 \<Rightarrow> u32 \<Rightarrow> nat \<Rightarrow> 'w smbus_st \<Rightarrow> (u32 \<times> 'w smbus_st) option" where
  "read_field E ulRegisterOffset ulMask pos s = do {
     (v, s) \<leftarrow> prvulSMBusHardwareRead E ulRegisterOffset s;
     Some (drop_bit pos (v AND ulMask), s) }"

section \<open>Reading registers and fields\<close>

definition ulSMBusHWReadIPVersion :: "'w smbus_env \<Rightarrow> 'w smbus_st \<Rightarrow> (u32 \<times> 'w smbus_st) option" where
  "ulSMBusHWReadIPVersion E s = prvulSMBusHardwareRead E SMBUS_REG_IP_VERSION s"

definition ulSMBusHWReadIPRevision :: "'w smbus_env \<Rightarrow> 'w smbus_st \<Rightarrow> (u32 \<times> 'w smbus_st) option" where
  "ulSMBusHWReadIPRevision E s = prvulSMBusHardwareRead E SMBUS_REG_IP_REVISION s"

definition ulSMBusHWReadIPMagicNum :: "'w smbus_env \<Rightarrow> 'w smbus_st \<Rightarrow> (u32 \<times> 'w smbus_st) option" where
  "ulSMBusHWReadIPMagicNum E s = prvulSMBusHardwareRead E SMBUS_REG_IP_MAGIC_NUM s"

definition ulSMBusHWReadBuildConfig0 :: "'w smbus_env \<Rightarrow> 'w smbus_st \<Rightarrow> (u32 \<times> 'w smbus_st) option" where
  "ulSMBusHWReadBuildConfig0 E s = prvulSMBusHardwareRead E SMBUS_REG_IP_BUILD_CONFIG_0 s"

definition ulSMBusHWReadBuildConfig1 :: "'w smbus_env \<Rightarrow> 'w smbus_st \<Rightarrow> (u32 \<times> 'w smbus_st) option" where
  "ulSMBusHWReadBuildConfig1 E s = prvulSMBusHardwareRead E SMBUS_REG_IP_BUILD_CONFIG_1 s"

definition ulSMBusHWReadIRQGIEEnable :: "'w smbus_env \<Rightarrow> 'w smbus_st \<Rightarrow> (u32 \<times> 'w smbus_st) option" where
  "ulSMBusHWReadIRQGIEEnable E s =
     read_field E SMBUS_REG_IRQ_GIE SMBUS_IRQ_GIE_ENABLE_MASK
       0 s"

definition ulSMBusHWReadIRQIER :: "'w smbus_env \<Rightarrow> 'w smbus_st \<Rightarrow> (u32 \<times> 'w smbus_st) option" where
  "ulSMBusHWReadIRQIER E s = prvulSMBusHardwareRead E SMBUS_REG_IRQ_IER s"

definition ulSMBusHWReadIRQISR :: "'w smbus_env \<Rightarrow> 'w smbus_st \<Rightarrow> (u32 \<times> 'w smbus_st) option" where
  "ulSMBusHWReadIRQISR E s = prvulSMBusHardwareRead E SMBUS_REG_IRQ_ISR s"

definition ulSMBusHWReadErrIRQIER :: "'w smbus_env \<Rightarrow> 'w smbus_st \<Rightarrow> (u32 \<times> 'w smbus_st) option" where
  "ulSMBusHWReadErrIRQIER E s = prvulSMBusHardwareRead E SMBUS_REG_ERR_IRQ_IER s"

definition ulSMBusHWReadErrIRQISR :: "'w smbus_env \<Rightarrow> 'w smbus_st \<Rightarrow> (u32 \<times> 'w smbus_st) option" where
  "ulSMBusHWReadErrIRQISR E s = prvulSMBusHardwareRead E SMBUS_REG_ERR_IRQ_ISR s"

definition ulSMBusHWReadPHYStatus :: "'w smbus_env \<Rightarrow> 'w smbus_st \<Rightarrow> (u32 \<times> 'w smbus_st) option" where
  "ulSMBusHWReadPHYStatus E s = prvulSMBusHardwareRead E SMBUS_REG_PHY_STATUS s"

definition ulSMBusHWReadPHYStatusSMBDATLowTimeout :: "'w smbus_env \<Rightarrow> 'w smbus_st \<Rightarrow> (u32 \<times> 'w smbus_st) option" where
  "ulSMBusHWReadPHYStatusSMBDATLowTimeout E s =
     read_field E SMBUS_REG_PHY_STATUS SMBUS_PHY_STATUS_SMBDAT_LOW_TIMEOUT_MASK
       SMBUS_PHY_STATUS_SMBDAT_LOW_TIMEOUT_FIELD_POSITION s"

definition ulSMBusHWReadPHYStatusSMBClkLowTimeout :: "'w smbus_env \<Rightarrow> 'w smbus_st \<Rightarrow> (u32 \<times> 'w smbus_st) option" where
  "ulSMBusHWReadPHYStatusSMBClkLowTimeout E s =
     read_field E SMBUS_REG_PHY_STATUS SMBUS_PHY_STATUS_SMBCLK_LOW_TIMEOUT_MASK
       SMBUS_PHY_STATUS_SMBCLK_LOW_TIMEOUT_FIELD_POSITION s"

definition ulSMBusHWReadPHYStatusBusIdle :: "'w smbus_env \<Rightarrow> 'w smbus_st \<Rightarrow> (u32 \<times> 'w smbus_st) option" where
  "ulSMBusHWReadPHYStatusBusIdle E s =
     read_field E SMBUS_REG_PHY_STATUS SMBUS_PHY_STATUS_BUS_IDLE_MASK
       0 s"

definition ulSMBusHWReadPHYFilterControl :: "'w smbus_env \<Rightarrow> 'w smbus_st \<Rightarrow> (u32 \<times> 'w smbus_st) option" where
  "ulSMBusHWReadPHYFilterControl E s = prvulSMBusHardwareRead E SMBUS_REG_PHY_FILTER_CONTROL s"

definition ulSMBusHWReadPHYFilterControlEnable :: "'w smbus_env \<Rightarrow> 'w smbus_st \<Rightarrow> (u32 \<times> 'w smbus_st) option" where
  "ulSMBusHWReadPHYFilterControlEnable E s =
     read_field E SMBUS_REG_PHY_FILTER_CONTROL SMBUS_PHY_FILTER_CONTROL_ENABLE_MASK
       SMBUS_PHY_FILTER_CONTROL_ENABLE_FIELD_POSITION s"

definition ulSMBusHWReadPHYFilterControlDuration :: "'w smbus_env \<Rightarrow> 'w smbus_st \<Rightarrow> (u32 \<times> 'w smbus_st) option" where
  "ulSMBusHWReadPHYFilterControlDuration E s =
     read_field E SMBUS_REG_PHY_FILTER_CONTROL SMBUS_PHY_FILTER_CONTROL_DURATION_MASK
       0 s"

definition ulSMBusHWReadPHYBusFreetime :: "'w smbus_env \<Rightarrow> 'w smbus_st \<Rightarrow> (u32 \<times> 'w smbus_st) option" where
  "ulSMBusHWReadPHYBusFreetime E s = prvulSMBusHardwareRead E SMBUS_REG_PHY_BUS_FREE_TIME s"

definition ulSMBusHWReadPHYIdleThresholdIdleThreshold :: "'w smbus_env \<Rightarrow> 'w smbus_st \<Rightarrow> (u32 \<times> 'w smbus_st) option" where
  "ulSMBusHWReadPHYIdleThresholdIdleThreshold E s =
     read_field E SMBUS_REG_PHY_IDLE_THRESHOLD SMBUS_PHY_IDLE_THRESHOLD_IDLE_THRESHOLD_MASK
       0 s"

definition ulSMBusHWReadPHYTimeoutPrescaler :: "'w smbus_env \<Rightarrow> 'w smbus_st \<Rightarrow> (u32 \<times> 'w smbus_st) option" where
  "ulSMBusHWReadPHYTimeoutPrescaler E s = prvulSMBusHardwareRead E SMBUS_REG_PHY_TIMEOUT_PRESCALER s"

definition ulSMBusHWReadPHYTimeoutMin :: "'w smbus_env \<Rightarrow> 'w smbus_st \<Rightarrow> (u32 \<times> 'w smbus_st) option" where
  "ulSMBusHWReadPHYTimeoutMin E s = prvulSMBusHardwareRead E SMBUS_REG_PHY_TIMEOUT_MIN s"

definition ulSMBusHWReadPHYTimeoutMinTimeoutEnable :: "'w smbus_env \<Rightarrow> 'w smbus_st \<Rightarrow> (u32 \<times> 'w smbus_st) option" where
  "ulSMBusHWReadPHYTimeoutMinTimeoutEnable E s =
     read_field E SMBUS_REG_PHY_TIMEOUT_MIN SMBUS_PHY_TIMEOUT_MIN_TIMEOUT_ENABLE_MASK
       SMBUS_PHY_TIMEOUT_MIN_TIMEOUT_ENABLE_FIELD_POSITION s"

definition ulSMBusHWReadPHYTimeoutMinTimeoutMin :: "'w smbus_env \<Rightarrow> 'w smbus_st \<Rightarrow> (u32 \<times> 'w smbus_st) option" where
  "ulSMBusHWReadPHYTimeoutMinTimeoutMin E s =
     read_field E SMBUS_REG_PHY_TIMEOUT_MIN SMBUS_PHY_TIMEOUT_MIN_TIMEOUT_MIN_MASK
       0 s"

definition ulSMBusHWReadPHYTimeoutMax :: "'w smbus_env \<Rightarrow> 'w smbus_st \<Rightarrow> (u32 \<times> 'w smbus_st) option" where
  "ulSMBusHWReadPHYTimeoutMax E s = prvulSMBusHardwareRead E SMBUS_REG_PHY_TIMEOUT_MAX s"

definition ulSMBusHWReadPHYResetControlSMBClkForce :: "'w smbus_env \<Rightarrow> 'w smbus_st \<Rightarrow> (u32 \<times> 'w smbus_st) option" where
  "ulSMBusHWReadPHYResetControlSMBClkForce E s =
     read_field E SMBUS_REG_PHY_RESET_CONTROL SMBUS_PHY_RESET_CONTROL_SMBCLK_FORCE_LOW_MASK
       0 s"

definition ulSMBusHWReadPHYTgtDataSetupTgtDataSetup :: "'w smbus_env \<Rightarrow> 'w smbus_st \<Rightarrow> (u32 \<times> 'w smbus_st) option" where
  "ulSMBusHWReadPHYTgtDataSetupTgtDataSetup E s =
     read_field E SMBUS_REG_PHY_TGT_DATA_SETUP SMBUS_PHY_TGT_DATA_SETUP_TGT_DATA_SETUP_MASK
       0 s"

definition ulSMBusHWReadPHYTgtTextPrescaler :: "'w smbus_env \<Rightarrow> 'w smbus_st \<Rightarrow> (u32 \<times> 'w smbus_st) option" where
  "ulSMBusHWReadPHYTgtTextPrescaler E s =
     read_field E SMBUS_REG_PHY_TGT_TEXT_PRESCALER SMBUS_PHY_TGT_TEXT_PRESCALER_TGT_TEXT_PRESCALER_MASK
       0 s"

definition ulSMBusHWReadPHYTgtTextTimeout :: "'w smbus_env \<Rightarrow> 'w smbus_st \<Rightarrow> (u32 \<times> 'w smbus_st) option" where
  "ulSMBusHWReadPHYTgtTextTimeout E s =
     read_field E SMBUS_REG_PHY_TGT_TEXT_TIMEOUT SMBUS_PHY_TGT_TEXT_TIMEOUT_TGT_TEXT_TIMEOUT_MASK
       0 s"

definition ulSMBusHWReadPHYTgtTextMax :: "'w smbus_env \<Rightarrow> 'w smbus_st \<Rightarrow> (u32 \<times> 'w smbus_st) option" where
  "ulSMBusHWReadPHYTgtTextMax E s =
     read_field E SMBUS_REG_PHY_TGT_TEXT_MAX SMBUS_PHY_TGT_TEXT_MAX_TGT_TEXT_MAX_MASK
       0 s"

definition ulSMBusHWReadPHYTgtDbgState :: "'w smbus_env \<Rightarrow> 'w smbus_st \<Rightarrow> (u32 \<times> 'w smbus_st) option" where
  "ulSMBusHWReadPHYTgtDbgState E s =
     read_field E SMBUS_REG_PHY_TGT_DBG_STATE SMBUS_PHY_TGT_DBG_STATE_DBG_STATE_MASK
       0 s"

definition ulSMBusHWReadPHYTgtDataHold :: "'w smbus_env \<Rightarrow> 'w smbus_st \<Rightarrow> (u32 \<times> 'w smbus_st) option" where
  "ulSMBusHWReadPHYTgtDataHold E s =
     read_field E SMBUS_REG_PHY_TGT_DATA_HOLD SMBUS_PHY_TGT_DATA_HOLD_DATA_HOLD_MASK
       0 s"

definition ulSMBusHWReadTgtStatus :: "'w smbus_env \<Rightarrow> 'w smbus_st \<Rightarrow> (u32 \<times> 'w smbus_st) option" where
  "ulSMBusHWReadTgtStatus E s = prvulSMBusHardwareRead E SMBUS_REG_TGT_STATUS s"

definition ulSMBusHWReadTgtStatusActive :: "'w smbus_env \<Rightarrow> 'w smbus_st \<Rightarrow> (u32 \<times> 'w smbus_st) option" where
  "ulSMBusHWReadTgtStatusActive E s =
     read_field E SMBUS_REG_TGT_STATUS SMBUS_TGT_STATUS_ACTIVE_MASK
       SMBUS_TGT_STATUS_ACTIVE_FIELD_POSITION s"

definition ulSMBusHWReadTgtStatusAddress :: "'w smbus_env \<Rightarrow> 'w smbus_st \<Rightarrow> (u32 \<times> 'w smbus_st) option" where
  "ulSMBusHWReadTgtStatusAddress E s =
     read_field E SMBUS_REG_TGT_STATUS SMBUS_TGT_STATUS_ADDRESS_MASK
       SMBUS_TGT_STATUS_ADDRESS_FIELD_POSITION s"

definition ulSMBusHWReadTgtStatusRW :: "'w smbus_env \<Rightarrow> 'w smbus_st \<Rightarrow> (u32 \<times> 'w smbus_st) option" where
  "ulSMBusHWReadTgtStatusRW E s =
     read_field E SMBUS_REG_TGT_STATUS SMBUS_TGT_STATUS_RW_MASK
       0 s"

definition ulSMBusHWReadTgtDescStatusFillLevel :: "'w smbus_env \<Rightarrow> 'w smbus_st \<Rightarrow> (u32 \<times> 'w smbus_st) option" where
  "ulSMBusHWReadTgtDescStatusFillLevel E s =
     read_field E SMBUS_REG_TGT_DESC_STATUS SMBUS_TGT_DESC_STATUS_FILL_LEVEL_MASK
       SMBUS_TGT_DESC_STATUS_FILL_LEVEL_FIELD_POSITION s"

definition ulSMBusHWReadTgtDescStatusFull :: "'w smbus_env \<Rightarrow> 'w smbus_st \<Rightarrow> (u32 \<times> 'w smbus_st) option" where
  "ulSMBusHWReadTgtDescStatusFull E s =
     read_field E SMBUS_REG_TGT_DESC_STATUS SMBUS_TGT_DESC_STATUS_FULL_MASK
       SMBUS_TGT_DESC_STATUS_FULL_FIELD_POSITION s"

definition ulSMBusHWReadTgtDescStatusAlmostFull :: "'w smbus_env \<Rightarrow> 'w smbus_st \<Rightarrow> (u32 \<times> 'w smbus_st) option" where
  "ulSMBusHWReadTgtDescStatusAlmostFull E s =
     read_field E SMBUS_REG_TGT_DESC_STATUS SMBUS_TGT_DESC_STATUS_ALMOST_FULL_MASK
       SMBUS_TGT_DESC_STATUS_ALMOST_FULL_FIELD_POSITION s"

definition ulSMBusHWReadTgtDescStatusAlmostEmpty :: "'w smbus_env \<Rightarrow> 'w smbus_st \<Rightarrow> (u32 \<times> 'w smbus_st) option" where
  "ulSMBusHWReadTgtDescStatusAlmostEmpty E s =
     read_field E SMBUS_REG_TGT_DESC_STATUS SMBUS_TGT_DESC_STATUS_ALMOST_EMPTY_MASK
       SMBUS_TGT_DESC_STATUS_ALMOST_EMPTY_FIELD_POSITION s"

definition ulSMBusHWReadTgtDescStatusEmpty :: "'w smbus_env \<Rightarrow> 'w smbus_st \<Rightarrow> (u32 \<times> 'w smbus_st) option" where
  "ulSMBusHWReadTgtDescStatusEmpty E s =
     read_field E SMBUS_REG_TGT_DESC_STATUS SMBUS_TGT_DESC_STATUS_EMPTY_MASK
       0 s"

definition ulSMBusHWReadTgtRxFifoPayload :: "'w smbus_env \<Rightarrow> 'w smbus_st \<Rightarrow> (u32 \<times> 'w smbus_st) option" where
  "ulSMBusHWReadTgtRxFifoPayload E s =
     read_field E SMBUS_REG_TGT_RX_FIFO SMBUS_TGT_RX_FIFO_PAYLOAD_MASK
       SMBUS_TGT_RX_FIFO_PAYLOAD_FIELD_POSITION s"

definition ulSMBusHWReadTgtRxFifoStatusFillLevel :: "'w smbus_env \<Rightarrow> 'w smbus_st \<Rightarrow> (u32 \<times> 'w smbus_st) option" where
  "ulSMBusHWReadTgtRxFifoStatusFillLevel E s =
     read_field E SMBUS_REG_TGT_RX_FIFO_STATUS SMBUS_TGT_RX_FIFO_STATUS_FILL_LEVEL_MASK
       SMBUS_TGT_RX_FIFO_STATUS_FILL_LEVEL_FIELD_POSITION s"

definition ulSMBusHWReadTgtRxFifoStatusResetBusY :: "'w smbus_env \<Rightarrow> 'w smbus_st \<Rightarrow> (u32 \<times> 'w smbus_st) option" where
  "ulSMBusHWReadTgtRxFifoStatusResetBusY E s =
     read_field E SMBUS_REG_TGT_RX_FIFO_STATUS SMBUS_TGT_RX_FIFO_STATUS_RESET_BUSY_MASK
       SMBUS_TGT_RX_FIFO_STATUS_RESET_BUSY_FIELD_POSITION s"

definition ulSMBusHWReadTgtRxFifoStatusFull :: "'w smbus_env \<Rightarrow> 'w smbus_st \<Rightarrow> (u32 \<times> 'w smbus_st) option" where
  "ulSMBusHWReadTgtRxFifoStatusFull E s =
     read_field E SMBUS_REG_TGT_RX_FIFO_STATUS SMBUS_TGT_RX_FIFO_STATUS_FULL_MASK
       SMBUS_TGT_RX_FIFO_STATUS_FULL_FIELD_POSITION s"

definition ulSMBusHWReadTgtRxFifoStatusAlmostFull :: "'w smbus_env \<Rightarrow> 'w smbus_st \<Rightarrow> (u32 \<times> 'w smbus_st) option" where
  "ulSMBusHWReadTgtRxFifoStatusAlmostFull E s =
     read_field E SMBUS_REG_TGT_RX_FIFO_STATUS SMBUS_TGT_RX_FIFO_STATUS_ALMOST_FULL_MASK
       SMBUS_TGT_RX_FIFO_STATUS_ALMOST_FULL_FIELD_POSITION s"

definition ulSMBusHWReadTgtRxFifoStatusAlmostEmpty :: "'w smbus_env \<Rightarrow> 'w smbus_st \<Rightarrow> (u32 \<times> 'w smbus_st) option" where
  "ulSMBusHWReadTgtRxFifoStatusAlmostEmpty E s =
     read_field E SMBUS_REG_TGT_RX_FIFO_STATUS SMBUS_TGT_RX_FIFO_STATUS_ALMOST_EMPTY_MASK
       SMBUS_TGT_RX_FIFO_STATUS_ALMOST_EMPTY_FIELD_POSITION s"

definition ulSMBusHWReadTgtRxFifoStatusEmpty :: "'w smbus_env \<Rightarrow> 'w smbus_st \<Rightarrow> (u32 \<times> 'w smbus_st) option" where
  "ulSMBusHWReadTgtRxFifoStatusEmpty E s =
     read_field E SMBUS_REG_TGT_RX_FIFO_STATUS SMBUS_TGT_RX_FIFO_STATUS_EMPTY_MASK
       0 s"

definition ulSMBusHWReadTgtRxFifoFillThresholdFillThresh :: "'w smbus_env \<Rightarrow> 'w smbus_st \<Rightarrow> (u32 \<times> 'w smbus_st) option" where
  "ulSMBusHWReadTgtRxFifoFillThresholdFillThresh E s =
     read_field E SMBUS_REG_TGT_RX_FIFO_FILL_THRESHOLD SMBUS_TGT_RX_FIFO_FILL_THRESHOLD_FILL_THRESHOLD_MASK
       0 s"

definition ulSMBusHWReadTgtDbg :: "'w smbus_env \<Rightarrow> 'w smbus_st \<Rightarrow> (u32 \<times> 'w smbus_st) option" where
  "ulSMBusHWReadTgtDbg E s =
     read_field E SMBUS_REG_TGT_DBG SMBUS_TGT_DBG_DBG_STATE_MASK
       0 s"

definition ulSMBusHWReadTgtControl0Enable :: "'w smbus_env \<Rightarrow> 'w smbus_st \<Rightarrow> (u32 \<times> 'w smbus_st) option" where
  "ulSMBusHWReadTgtControl0Enable E s =
     read_field E SMBUS_REG_TGT_CONTROL_0 SMBUS_TGT_CONTROL_0_ENABLE_MASK
       SMBUS_TGT_CONTROL_0_ENABLE_FIELD_POSITION s"

definition ulSMBusHWReadTgtControl0Address :: "'w smbus_env \<Rightarrow> 'w smbus_st \<Rightarrow> (u32 \<times> 'w smbus_st) option" where
  "ulSMBusHWReadTgtControl0Address E s =
     read_field E SMBUS_REG_TGT_CONTROL_0 SMBUS_TGT_CONTROL_0_ADDRESS_MASK
       SMBUS_TGT_CONTROL_0_ADDRESS_FIELD_POSITION s"

definition ulSMBusHWReadTgtControl1Enable :: "'w smbus_env \<Rightarrow> 'w smbus_st \<Rightarrow> (u32 \<times> 'w smbus_st) option" where
  "ulSMBusHWReadTgtControl1Enable E s =
     read_field E SMBUS_REG_TGT_CONTROL_1 SMBUS_TGT_CONTROL_1_ENABLE_MASK
       SMBUS_TGT_CONTROL_1_ENABLE_FIELD_POSITION s"

definition ulSMBusHWReadTgtControl1Address :: "'w smbus_env \<Rightarrow> 'w smbus_st \<Rightarrow> (u32 \<times> 'w smbus_st) option" where
  "ulSMBusHWReadTgtControl1Address E s =
     read_field E SMBUS_REG_TGT_CONTROL_1 SMBUS_TGT_CONTROL_1_ADDRESS_MASK
       SMBUS_TGT_CONTROL_1_ADDRESS_FIELD_POSITION s"

definition ulSMBusHWReadTgtControl2Enable :: "'w smbus_env \<Rightarrow> 'w smbus_st \<Rightarrow> (u32 \<times> 'w smbus_st) option" where
  "ulSMBusHWReadTgtControl2Enable E s =
     read_field E SMBUS_REG_TGT_CONTROL_2 SMBUS_TGT_CONTROL_2_ENABLE_MASK
       SMBUS_TGT_CONTROL_2_ENABLE_FIELD_POSITION s"

definition ulSMBusHWReadTgtControl2Address :: "'w smbus_env \<Rightarrow> 'w smbus_st \<Rightarrow> (u32 \<times> 'w smbus_st) option" where
  "ulSMBusHWReadTgtControl2Address E s =
     read_field E SMBUS_REG_TGT_CONTROL_2 SMBUS_TGT_CONTROL_2_ADDRESS_MASK
       SMBUS_TGT_CONTROL_2_ADDRESS_FIELD_POSITION s"

definition ulSMBusHWReadTgtControl3Enable :: "'w smbus_env \<Rightarrow> 'w smbus_st \<Rightarrow> (u32 \<times> 'w smbus_st) option" where
  "ulSMBusHWReadTgtControl3Enable E s =
     read_field E SMBUS_REG_TGT_CONTROL_3 SMBUS_TGT_CONTROL_3_ENABLE_MASK
       SMBUS_TGT_CONTROL_3_ENABLE_FIELD_POSITION s"

definition ulSMBusHWReadTgtControl3Address :: "'w smbus_env \<Rightarrow> 'w smbus_st \<Rightarrow> (u32 \<times> 'w smbus_st) option" where
  "ulSMBusHWReadTgtControl3Address E s =
     read_field E SMBUS_REG_TGT_CONTROL_3 SMBUS_TGT_CONTROL_3_ADDRESS_MASK
       SMBUS_TGT_CONTROL_3_ADDRESS_FIELD_POSITION s"

definition ulSMBusHWReadTgtControl4Enable :: "'w smbus_env \<Rightarrow> 'w smbus_st \<Rightarrow> (u32 \<times> 'w smbus_st) option" where
  "ulSMBusHWReadTgtControl4Enable E s =
     read_field E SMBUS_REG_TGT_CONTROL_4 SMBUS_TGT_CONTROL_4_ENABLE_MASK
       SMBUS_TGT_CONTROL_4_ENABLE_FIELD_POSITION s"

definition ulSMBusHWReadTgtControl4Address :: "'w smbus_env \<Rightarrow> 'w smbus_st \<Rightarrow> (u32 \<times> 'w smbus_st) option" where
  "ulSMBusHWReadTgtControl4Address E s =
     read_field E SMBUS_REG_TGT_CONTROL_4 SMBUS_TGT_CONTROL_4_ADDRESS_MASK
       SMBUS_TGT_CONTROL_4_ADDRESS_FIELD_POSITION s"

definition ulSMBusHWReadTgtControl5Enable :: "'w smbus_env \<Rightarrow> 'w smbus_st \<Rightarrow> (u32 \<times> 'w smbus_st) option" where
  "ulSMBusHWReadTgtControl5Enable E s =
     read_field E SMBUS_REG_TGT_CONTROL_5 SMBUS_TGT_CONTROL_5_ENABLE_MASK
       SMBUS_TGT_CONTROL_5_ENABLE_FIELD_POSITION s"

definition ulSMBusHWReadTgtControl5Address :: "'w smbus_env \<Rightarrow> 'w smbus_st \<Rightarrow> (u32 \<times> 'w smbus_st) option" where
  "ulSMBusHWReadTgtControl5Address E s =
     read_field E SMBUS_REG_TGT_CONTROL_5 SMBUS_TGT_CONTROL_5_ADDRESS_MASK
       SMBUS_TGT_CONTROL_5_ADDRESS_FIELD_POSITION s"

definition ulSMBusHWReadTgtControl6Enable :: "'w smbus_env \<Rightarrow> 'w smbus_st \<Rightarrow> (u32 \<times> 'w smbus_st) option" where
  "ulSMBusHWReadTgtControl6Enable E s =
     read_field E SMBUS_REG_TGT_CONTROL_6 SMBUS_TGT_CONTROL_6_ENABLE_MASK
       SMBUS_TGT_CONTROL_6_ENABLE_FIELD_POSITION s"

definition ulSMBusHWReadTgtControl6Address :: "'w smbus_env \<Rightarrow> 'w smbus_st \<Rightarrow> (u32 \<times> 'w smbus_st) option" where
  "ulSMBusHWReadTgtControl6Address E s =
     read_field E SMBUS_REG_TGT_CONTROL_6 SMBUS_TGT_CONTROL_6_ADDRESS_MASK
       SMBUS_TGT_CONTROL_6_ADDRESS_FIELD_POSITION s"

definition ulSMBusHWReadTgtControl7Enable :: "'w smbus_env \<Rightarrow> 'w smbus_st \<Rightarrow> (u32 \<times> 'w smbus_st) option" where
  "ulSMBusHWReadTgtControl7Enable E s =
     read_field E SMBUS_REG_TGT_CONTROL_7 SMBUS_TGT_CONTROL_7_ENABLE_MASK
       SMBUS_TGT_CONTROL_7_ENABLE_FIELD_POSITION s"

definition ulSMBusHWReadTgtControl7Address :: "'w smbus_env \<Rightarrow> 'w smbus_st \<Rightarrow> (u32 \<times> 'w smbus_st) option" where
  "ulSMBusHWReadTgtControl7Address E s =
     read_field E SMBUS_REG_TGT_CONTROL_7 SMBUS_TGT_CONTROL_7_ADDRESS_MASK
       SMBUS_TGT_CONTROL_7_ADDRESS_FIELD_POSITION s"

definition ulSMBusHWReadPHYCtrlDataHold :: "'w smbus_env \<Rightarrow> 'w smbus_st \<Rightarrow> (u32 \<times> 'w smbus_st) option" where
  "ulSMBusHWReadPHYCtrlDataHold E s =
     read_field E SMBUS_REG_PHY_CTLR_DATA_HOLD SMBUS_PHY_CTLR_DATA_HOLD_CTLR_DATA_HOLD_MASK
       0 s"

definition ulSMBusHWReadPHYCtrlStartHold :: "'w smbus_env \<Rightarrow> 'w smbus_st \<Rightarrow> (u32 \<times> 'w smbus_st) option" where
  "ulSMBusHWReadPHYCtrlStartHold E s =
     read_field E SMBUS_REG_PHY_CTLR_START_HOLD SMBUS_PHY_CTLR_START_HOLD_CTLR_START_HOLD_MASK
       0 s"

definition ulSMBusHWReadPHYCtrlStartSetup :: "'w smbus_env \<Rightarrow> 'w smbus_st \<Rightarrow> (u32 \<times> 'w smbus_st) option" where
  "ulSMBusHWReadPHYCtrlStartSetup E s =
     read_field E SMBUS_REG_PHY_CTLR_START_SETUP SMBUS_PHY_CTLR_START_SETUP_CTLR_START_SETUP_MASK
       0 s"

definition ulSMBusHWReadPHYCtrlStopSetup :: "'w smbus_env \<Rightarrow> 'w smbus_st \<Rightarrow> (u32 \<times> 'w smbus_st) option" where
  "ulSMBusHWReadPHYCtrlStopSetup E s =
     read_field E SMBUS_REG_PHY_CTLR_STOP_SETUP SMBUS_PHY_CTLR_STOP_SETUP_CTLR_STOP_SETUP_MASK
       0 s"

definition ulSMBusHWReadPHYCtrlClkTLow :: "'w smbus_env \<Rightarrow> 'w smbus_st \<Rightarrow> (u32 \<times> 'w smbus_st) option" where
  "ulSMBusHWReadPHYCtrlClkTLow E s =
     read_field E SMBUS_REG_PHY_CTLR_CLK_TLOW SMBUS_PHY_CTLR_CLK_TLOW_CTLR_CLK_TLOW_MASK
       0 s"

definition ulSMBusHWReadPHYCtrlClkTHigh :: "'w smbus_env \<Rightarrow> 'w smbus_st \<Rightarrow> (u32 \<times> 'w smbus_st) option" where
  "ulSMBusHWReadPHYCtrlClkTHigh E s =
     read_field E SMBUS_REG_PHY_CTLR_CLK_THIGH SMBUS_PHY_CTLR_CLK_THIGH_CTLR_CLK_THIGH_MASK
       0 s"

definition ulSMBusHWReadPHYCtrlTextPrescaler :: "'w smbus_env \<Rightarrow> 'w smbus_st \<Rightarrow> (u32 \<times> 'w smbus_st) option" where
  "ulSMBusHWReadPHYCtrlTextPrescaler E s =
     read_field E SMBUS_REG_PHY_CTLR_TEXT_PRESCALER SMBUS_PHY_CTLR_TEXT_PRESCALER_CTLR_TEXT_PRESCALER_MASK
       0 s"

definition ulSMBusHWReadPHYCtrlTextTimeout :: "'w smbus_env \<Rightarrow> 'w smbus_st \<Rightarrow> (u32 \<times> 'w smbus_st) option" where
  "ulSMBusHWReadPHYCtrlTextTimeout E s =
     read_field E SMBUS_REG_PHY_CTLR_TEXT_TIMEOUT SMBUS_PHY_CTLR_TEXT_TIMEOUT_CTLR_TEXT_TIMEOUT_MASK
       0 s"

definition ulSMBusHWReadPHYCtrlTextMax :: "'w smbus_env \<Rightarrow> 'w smbus_st \<Rightarrow> (u32 \<times> 'w smbus_st) option" where
  "ulSMBusHWReadPHYCtrlTextMax E s =
     read_field E SMBUS_REG_PHY_CTLR_TEXT_MAX SMBUS_PHY_CTLR_TEXT_MAX_CTLR_TEXT_MAX_MASK
       0 s"

definition ulSMBusHWReadPHYCtrlCextPrescaler :: "'w smbus_env \<Rightarrow> 'w smbus_st \<Rightarrow> (u32 \<times> 'w smbus_st) option" where
  "ulSMBusHWReadPHYCtrlCextPrescaler E s =
     read_field E SMBUS_REG_PHY_CTLR_CEXT_PRESCALER SMBUS_PHY_CTLR_CEXT_PRESCALER_CTLR_CEXT_PRESCALER_MASK
       0 s"

definition ulSMBusHWReadPHYCtrlCextTimeout :: "'w smbus_env \<Rightarrow> 'w smbus_st \<Rightarrow> (u32 \<times> 'w smbus_st) option" where
  "ulSMBusHWReadPHYCtrlCextTimeout E s =
     read_field E SMBUS_REG_PHY_CTLR_CEXT_TIMEOUT SMBUS_PHY_CTLR_CEXT_TIMEOUT_CTLR_CEXT_TIMEOUT_MASK
       0 s"

definition ulSMBusHWReadPHYCtrlCextMax :: "'w smbus_env \<Rightarrow> 'w smbus_st \<Rightarrow> (u32 \<times> 'w smbus_st) option" where
  "ulSMBusHWReadPHYCtrlCextMax E s =
     read_field E SMBUS_REG_PHY_CTLR_CEXT_MAX SMBUS_PHY_CTLR_CEXT_MAX_CTLR_CEXT_MAX_MASK
       0 s"

definition ulSMBusHWReadPHYCtrlDbgState :: "'w smbus_env \<Rightarrow> 'w smbus_st \<Rightarrow> (u32 \<times> 'w smbus_st) option" where
  "ulSMBusHWReadPHYCtrlDbgState E s =
     read_field E SMBUS_REG_PHY_CTLR_DBG_STATE SMBUS_PHY_CTLR_DBG_STATE_DBG_STATE_MASK
       0 s"

definition ulSMBusHWReadCtrlStatusEnable :: "'w smbus_env \<Rightarrow> 'w smbus_st \<Rightarrow> (u32 \<times> 'w smbus_st) option" where
  "ulSMBusHWReadCtrlStatusEnable E s =
     read_field E SMBUS_REG_CTLR_STATUS SMBUS_CTLR_STATUS_ENABLE_MASK
       0 s"

definition ulSMBusHWReadCtrlDescStatusFillLevel :: "'w smbus_env \<Rightarrow> 'w smbus_st \<Rightarrow> (u32 \<times> 'w smbus_st) option" where
  "ulSMBusHWReadCtrlDescStatusFillLevel E s =
     read_field E SMBUS_REG_CTLR_DESC_STATUS SMBUS_CTLR_DESC_STATUS_FILL_LEVEL_MASK
       SMBUS_CTLR_DESC_STATUS_FILL_LEVEL_FIELD_POSITION s"

definition ulSMBusHWReadCtrlDescStatusResetBusy :: "'w smbus_env \<Rightarrow> 'w smbus_st \<Rightarrow> (u32 \<times> 'w smbus_st) option" where
  "ulSMBusHWReadCtrlDescStatusResetBusy E s =
     read_field E SMBUS_REG_CTLR_DESC_STATUS SMBUS_CTLR_DESC_STATUS_RESET_BUSY_MASK
       SMBUS_CTLR_DESC_STATUS_RESET_BUSY_FIELD_POSITION s"

definition ulSMBusHWReadCtrlDescStatusFull :: "'w smbus_env \<Rightarrow> 'w smbus_st \<Rightarrow> (u32 \<times> 'w smbus_st) option" where
  "ulSMBusHWReadCtrlDescStatusFull E s =
     read_field E SMBUS_REG_CTLR_DESC_STATUS SMBUS_CTLR_DESC_STATUS_FULL_MASK
       SMBUS_CTLR_DESC_STATUS_FULL_FIELD_POSITION s"

definition ulSMBusHWReadCtrlDescStatusAlmostFull :: "'w smbus_env \<Rightarrow> 'w smbus_st \<Rightarrow> (u32 \<times> 'w smbus_st) option" where
  "ulSMBusHWReadCtrlDescStatusAlmostFull E s =
     read_field E SMBUS_REG_CTLR_DESC_STATUS SMBUS_CTLR_DESC_STATUS_ALMOST_FULL_MASK
       SMBUS_CTLR_DESC_STATUS_ALMOST_FULL_FIELD_POSITION s"

definition ulSMBusHWReadCtrlDescStatusAlmostEmpty :: "'w smbus_env \<Rightarrow> 'w smbus_st \<Rightarrow> (u32 \<times> 'w smbus_st) option" where
  "ulSMBusHWReadCtrlDescStatusAlmostEmpty E s =
     read_field E SMBUS_REG_CTLR_DESC_STATUS SMBUS_CTLR_DESC_STATUS_ALMOST_EMPTY_MASK
       SMBUS_CTLR_DESC_STATUS_ALMOST_EMPTY_FIELD_POSITION s"

definition ulSMBusHWReadCtrlDescStatusEmpty :: "'w smbus_env \<Rightarrow> 'w smbus_st \<Rightarrow> (u32 \<times> 'w smbus_st) option" where
  "ulSMBusHWReadCtrlDescStatusEmpty E s =
     read_field E SMBUS_REG_CTLR_DESC_STATUS SMBUS_CTLR_DESC_STATUS_EMPTY_MASK
       0 s"

definition ulSMBusHWReadCtrlRxFifoPayload :: "'w smbus_env \<Rightarrow> 'w smbus_st \<Rightarrow> (u32 \<times> 'w smbus_st) option" where
  "ulSMBusHWReadCtrlRxFifoPayload E s =
     read_field E SMBUS_REG_CTLR_RX_FIFO SMBUS_CTLR_RX_FIFO_PAYLOAD_MASK
       SMBUS_CTLR_RX_FIFO_PAYLOAD_FIELD_POSITION s"

definition ulSMBusHWReadCtrlRxFifoStatusFillLevel :: "'w smbus_env \<Rightarrow> 'w smbus_st \<Rightarrow> (u32 \<times> 'w smbus_st) option" where
  "ulSMBusHWReadCtrlRxFifoStatusFillLevel E s =
     read_field E SMBUS_REG_CTLR_RX_FIFO_STATUS SMBUS_CTLR_RX_FIFO_STATUS_FILL_LEVEL_MASK
       SMBUS_CTLR_RX_FIFO_STATUS_FILL_LEVEL_FIELD_POSITION s"

definition ulSMBusHWReadCtrlRxFifoStatusResetBusy :: "'w smbus_env \<Rightarrow> 'w smbus_st \<Rightarrow> (u32 \<times> 'w smbus_st) option" where
  "ulSMBusHWReadCtrlRxFifoStatusResetBusy E s =
     read_field E SMBUS_REG_CTLR_RX_FIFO_STATUS SMBUS_CTLR_RX_FIFO_STATUS_RESET_BUSY_MASK
       SMBUS_CTLR_RX_FIFO_STATUS_RESET_BUSY_FIELD_POSITION s"

definition ulSMBusHWReadCtrlRxFifoStatusFull :: "'w smbus_env \<Rightarrow> 'w smbus_st \<Rightarrow> (u32 \<times> 'w smbus_st) option" where
  "ulSMBusHWReadCtrlRxFifoStatusFull E s =
     read_field E SMBUS_REG_CTLR_RX_FIFO_STATUS SMBUS_CTLR_RX_FIFO_STATUS_FULL_MASK
       SMBUS_CTLR_RX_FIFO_STATUS_FULL_FIELD_POSITION s"

definition ulSMBusHWReadCtrlRxFifoStatusAlmostFull :: "'w smbus_env \<Rightarrow> 'w smbus_st \<Rightarrow> (u32 \<times> 'w smbus_st) option" where
  "ulSMBusHWReadCtrlRxFifoStatusAlmostFull E s =
     read_field E SMBUS_REG_CTLR_RX_FIFO_STATUS SMBUS_CTLR_RX_FIFO_STATUS_ALMOST_FULL_MASK
       SMBUS_CTLR_RX_FIFO_STATUS_ALMOST_FULL_FIELD_POSITION s"

definition ulSMBusHWReadCtrlRxFifoStatusAlmostEmpty :: "'w smbus_env \<Rightarrow> 'w smbus_st \<Rightarrow> (u32 \<times> 'w smbus_st) option" where
  "ulSMBusHWReadCtrlRxFifoStatusAlmostEmpty E s =
     read_field E SMBUS_REG_CTLR_RX_FIFO_STATUS SMBUS_CTLR_RX_FIFO_STATUS_ALMOST_EMPTY_MASK
       SMBUS_CTLR_RX_FIFO_STATUS_ALMOST_EMPTY_FIELD_POSITION s"

definition ulSMBusHWReadCtrlRxFifoStatusEmpty :: "'w smbus_env \<Rightarrow> 'w smbus_st \<Rightarrow> (u32 \<times> 'w smbus_st) option" where
  "ulSMBusHWReadCtrlRxFifoStatusEmpty E s =
     read_field E SMBUS_REG_CTLR_RX_FIFO_STATUS SMBUS_CTLR_RX_FIFO_STATUS_EMPTY_MASK
       0 s"

definition ulSMBusHWReadCtrlRxFifoFillThresholdFillThresh :: "'w smbus_env \<Rightarrow> 'w smbus_st \<Rightarrow> (u32 \<times> 'w smbus_st) option" where
  "ulSMBusHWReadCtrlRxFifoFillThresholdFillThresh E s =
     read_field E SMBUS_REG_CTLR_RX_FIFO_FILL_THRESHOLD SMBUS_CTLR_RX_FIFO_FILL_THRESHOLD_FILL_THRESHOLD_MASK
       0 s"

definition ulSMBusHWReadCtrlDbgState :: "'w smbus_env \<Rightarrow> 'w smbus_st \<Rightarrow> (u32 \<times> 'w smbus_st) option" where
  "ulSMBusHWReadCtrlDbgState E s =
     read_field E SMBUS_REG_CTLR_DBG SMBUS_CTLR_DBG_DBG_STATE_MASK
       0 s"

section \<open>Writing registers and fields\<close>

definition vSMBusHWWriteIRQGIEEnable :: "'w smbus_env \<Rightarrow> u32 \<Rightarrow> 'w smbus_st \<Rightarrow> 'w smbus_st option" where
  "vSMBusHWWriteIRQGIEEnable E ulValue s =
     prvvSMBusHardwareWrite E SMBUS_REG_IRQ_GIE
       ulValue s"

definition vSMBusHWWriteIRQIER :: "'w smbus_env \<Rightarrow> u32 \<Rightarrow> 'w smbus_st \<Rightarrow> 'w smbus_st option" where
  "vSMBusHWWriteIRQIER E ulValue s =
     prvvSMBusHardwareWrite E SMBUS_REG_IRQ_IER
       ulValue s"

definition vSMBusHWWriteIRQISR :: "'w smbus_env \<Rightarrow> u32 \<Rightarrow> 'w smbus_st \<Rightarrow> 'w smbus_st option" where
  "vSMBusHWWriteIRQISR E ulValue s =
     prvvSMBusHardwareWrite E SMBUS_REG_IRQ_ISR
       ulValue s"

definition vSMBusHWWriteERRIRQIER :: "'w smbus_env \<Rightarrow> u32 \<Rightarrow> 'w smbus_st \<Rightarrow> 'w smbus_st option" where
  "vSMBusHWWriteERRIRQIER E ulValue s =
     prvvSMBusHardwareWrite E SMBUS_REG_ERR_IRQ_IER
       ulValue s"

definition vSMBusHWWriteERRIRQISR :: "'w smbus_env \<Rightarrow> u32 \<Rightarrow> 'w smbus_st \<Rightarrow> 'w smbus_st option" where
  "vSMBusHWWriteERRIRQISR E ulValue s =
     prvvSMBusHardwareWrite E SMBUS_REG_ERR_IRQ_ISR
       ulValue s"

definition vSMBusHWWritePHYFilterControlEnable :: "'w smbus_env \<Rightarrow> u32 \<Rightarrow> 'w smbus_st \<Rightarrow> 'w smbus_st option" where
  "vSMBusHWWritePHYFilterControlEnable E ulValue s =
     prvvSMBusHardwareWriteWithMask E SMBUS_REG_PHY_FILTER_CONTROL
       SMBUS_PHY_FILTER_CONTROL_ENABLE_MASK (push_bit SMBUS_PHY_FILTER_CONTROL_ENABLE_FIELD_POSITION ulValue) s"

definition vSMBusHWWritePHYFilterControlDuration :: "'w smbus_env \<Rightarrow> u32 \<Rightarrow> 'w smbus_st \<Rightarrow> 'w smbus_st option" where
  "vSMBusHWWritePHYFilterControlDuration E ulValue s =
     prvvSMBusHardwareWriteWithMask E SMBUS_REG_PHY_FILTER_CONTROL
       SMBUS_PHY_FILTER_CONTROL_DURATION_MASK ulValue s"

definition vSMBusHWWritePHYBusFreetime :: "'w smbus_env \<Rightarrow> u32 \<Rightarrow> 'w smbus_st \<Rightarrow> 'w smbus_st option" where
  "vSMBusHWWritePHYBusFreetime E ulValue s =
     prvvSMBusHardwareWrite E SMBUS_REG_PHY_BUS_FREE_TIME
       ulValue s"

definition vSMBusHWWritePHYIdleThresholdIdleThreshold :: "'w smbus_env \<Rightarrow> u32 \<Rightarrow> 'w smbus_st \<Rightarrow> 'w smbus_st option" where
  "vSMBusHWWritePHYIdleThresholdIdleThreshold E ulValue s =
     prvvSMBusHardwareWriteWithMask E SMBUS_REG_PHY_IDLE_THRESHOLD
       SMBUS_PHY_IDLE_THRESHOLD_IDLE_THRESHOLD_MASK ulValue s"

definition vSMBusHWWritePHYTimeoutPrescaler :: "'w smbus_env \<Rightarrow> u32 \<Rightarrow> 'w smbus_st \<Rightarrow> 'w smbus_st option" where
  "vSMBusHWWritePHYTimeoutPrescaler E ulValue s =
     prvvSMBusHardwareWrite E SMBUS_REG_PHY_TIMEOUT_PRESCALER
       ulValue s"

definition vSMBusHWWritePHYTimeoutMin :: "'w smbus_env \<Rightarrow> u32 \<Rightarrow> 'w smbus_st \<Rightarrow> 'w smbus_st option" where
  "vSMBusHWWritePHYTimeoutMin E ulValue s =
     prvvSMBusHardwareWrite E SMBUS_REG_PHY_TIMEOUT_MIN
       ulValue s"

definition vSMBusHWWritePHYTimeoutMinTimeoutEnable :: "'w smbus_env \<Rightarrow> u32 \<Rightarrow> 'w smbus_st \<Rightarrow> 'w smbus_st option" where
  "vSMBusHWWritePHYTimeoutMinTimeoutEnable E ulValue s =
     prvvSMBusHardwareWriteWithMask E SMBUS_REG_PHY_TIMEOUT_MIN
       SMBUS_PHY_TIMEOUT_MIN_TIMEOUT_ENABLE_MASK (push_bit SMBUS_PHY_TIMEOUT_MIN_TIMEOUT_ENABLE_FIELD_POSITION ulValue) s"

definition vSMBusHWWritePHYTimeoutMinTimeoutMin :: "'w smbus_env \<Rightarrow> u32 \<Rightarrow> 'w smbus_st \<Rightarrow> 'w smbus_st option" where
  "vSMBusHWWritePHYTimeoutMinTimeoutMin E ulValue s =
     prvvSMBusHardwareWriteWithMask E SMBUS_REG_PHY_TIMEOUT_MIN
       SMBUS_PHY_TIMEOUT_MIN_TIMEOUT_MIN_MASK ulValue s"

definition vSMBusHWWritePHYTimeoutMax :: "'w smbus_env \<Rightarrow> u32 \<Rightarrow> 'w smbus_st \<Rightarrow> 'w smbus_st option" where
  "vSMBusHWWritePHYTimeoutMax E ulValue s =
     prvvSMBusHardwareWrite E SMBUS_REG_PHY_TIMEOUT_MAX
       ulValue s"

definition vSMBusHWWritePHYResetControlSMBClkForceTimeout :: "'w smbus_env \<Rightarrow> u32 \<Rightarrow> 'w smbus_st \<Rightarrow> 'w smbus_st option" where
  "vSMBusHWWritePHYResetControlSMBClkForceTimeout E ulValue s =
     prvvSMBusHardwareWriteWithMask E SMBUS_REG_PHY_RESET_CONTROL
       SMBUS_PHY_RESET_CONTROL_SMBCLK_FORCE_TIMEOUT_MASK (push_bit SMBUS_PHY_RESET_CONTROL_SMBCLK_FORCE_TIMEOUT_FIELD_POSITION ulValue) s"

definition vSMBusHWWritePHYResetControlSMBClkForceLow :: "'w smbus_env \<Rightarrow> u32 \<Rightarrow> 'w smbus_st \<Rightarrow> 'w smbus_st option" where
  "vSMBusHWWritePHYResetControlSMBClkForceLow E ulValue s =
     prvvSMBusHardwareWriteWithMask E SMBUS_REG_PHY_RESET_CONTROL
       SMBUS_PHY_RESET_CONTROL_SMBCLK_FORCE_LOW_MASK ulValue s"

definition vSMBusHWWritePHYTgtDataSetupTgtDataSetup :: "'w smbus_env \<Rightarrow> u32 \<Rightarrow> 'w smbus_st \<Rightarrow> 'w smbus_st option" where
  "vSMBusHWWritePHYTgtDataSetupTgtDataSetup E ulValue s =
     prvvSMBusHardwareWriteWithMask E SMBUS_REG_PHY_TGT_DATA_SETUP
       SMBUS_PHY_TGT_DATA_SETUP_TGT_DATA_SETUP_MASK ulValue s"

definition vSMBusHWWritePHYTgtTextPrescaler :: "'w smbus_env \<Rightarrow> u32 \<Rightarrow> 'w smbus_st \<Rightarrow> 'w smbus_st option" where
  "vSMBusHWWritePHYTgtTextPrescaler E ulValue s =
     prvvSMBusHardwareWrite E SMBUS_REG_PHY_TGT_TEXT_PRESCALER
       ulValue s"

definition vSMBusHWWritePHYTgtTextTimeout :: "'w smbus_env \<Rightarrow> u32 \<Rightarrow> 'w smbus_st \<Rightarrow> 'w smbus_st option" where
  "vSMBusHWWritePHYTgtTextTimeout E ulValue s =
     prvvSMBusHardwareWrite E SMBUS_REG_PHY_TGT_TEXT_TIMEOUT
       ulValue s"

definition vSMBusHWWritePHYTgtTextMax :: "'w smbus_env \<Rightarrow> u32 \<Rightarrow> 'w smbus_st \<Rightarrow> 'w smbus_st option" where
  "vSMBusHWWritePHYTgtTextMax E ulValue s =
     prvvSMBusHardwareWrite E SMBUS_REG_PHY_TGT_TEXT_MAX
       ulValue s"

definition vSMBusHWWritePHYTgtDataHold :: "'w smbus_env \<Rightarrow> u32 \<Rightarrow> 'w smbus_st \<Rightarrow> 'w smbus_st option" where
  "vSMBusHWWritePHYTgtDataHold E ulValue s =
     prvvSMBusHardwareWrite E SMBUS_REG_PHY_TGT_DATA_HOLD
       ulValue s"

definition vSMBusHWWriteTgtDescFifo :: "'w smbus_env \<Rightarrow> u32 \<Rightarrow> 'w smbus_st \<Rightarrow> 'w smbus_st option" where
  "vSMBusHWWriteTgtDescFifo E ulValue s =
     prvvSMBusHardwareWrite E SMBUS_REG_TGT_DESC_FIFO
       ulValue s"

definition vSMBusHWWriteTgtDescFifoId :: "'w smbus_env \<Rightarrow> u32 \<Rightarrow> 'w smbus_st \<Rightarrow> 'w smbus_st option" where
  "vSMBusHWWriteTgtDescFifoId E ulValue s =
     prvvSMBusHardwareWriteWithMask E SMBUS_REG_TGT_DESC_FIFO
       SMBUS_TGT_DESC_FIFO_ID_MASK (push_bit SMBUS_TGT_DESC_FIFO_ID_FIELD_POSITION ulValue) s"

definition vSMBusHWWriteTgtDescFifoPayload :: "'w smbus_env \<Rightarrow> u32 \<Rightarrow> 'w smbus_st \<Rightarrow> 'w smbus_st option" where
  "vSMBusHWWriteTgtDescFifoPayload E ulValue s =
     prvvSMBusHardwareWriteWithMask E SMBUS_REG_TGT_DESC_FIFO
       SMBUS_TGT_DESC_FIFO_PAYLOAD_MASK ulValue s"

definition vSMBusHWWriteTgtRxFifoReset :: "'w smbus_env \<Rightarrow> u32 \<Rightarrow> 'w smbus_st \<Rightarrow> 'w smbus_st option" where
  "vSMBusHWWriteTgtRxFifoReset E ulValue s =
     prvvSMBusHardwareWrite E SMBUS_REG_TGT_RX_FIFO
       (push_bit SMBUS_TGT_RX_FIFO_RESET_FIELD_POSITION ulValue) s"

definition vSMBusHWWriteRxFifoFillThresholdFillThresh :: "'w smbus_env \<Rightarrow> u32 \<Rightarrow> 'w smbus_st \<Rightarrow> 'w smbus_st option" where
  "vSMBusHWWriteRxFifoFillThresholdFillThresh E ulValue s =
     prvvSMBusHardwareWrite E SMBUS_REG_TGT_RX_FIFO_FILL_THRESHOLD
       (SMBUS_TGT_RX_FIFO_FILL_THRESHOLD_FILL_THRESHOLD_MASK AND ulValue) s"

definition prvvSMBusHWWriteTgtControl0Enable :: "'w smbus_env \<Rightarrow> u32 \<Rightarrow> 'w smbus_st \<Rightarrow> 'w smbus_st option" where
  "prvvSMBusHWWriteTgtControl0Enable E ulValue s =
     prvvSMBusHardwareWriteWithMask E SMBUS_REG_TGT_CONTROL_0
       SMBUS_TGT_CONTROL_0_ENABLE_MASK (push_bit SMBUS_TGT_CONTROL_0_ENABLE_FIELD_POSITION ulValue) s"

definition prvvSMBusHWWriteTgtControl0Address :: "'w smbus_env \<Rightarrow> u32 \<Rightarrow> 'w smbus_st \<Rightarrow> 'w smbus_st option" where
  "prvvSMBusHWWriteTgtControl0Address E ulValue s =
     prvvSMBusHardwareWriteWithMask E SMBUS_REG_TGT_CONTROL_0
       SMBUS_TGT_CONTROL_0_ADDRESS_MASK (push_bit SMBUS_TGT_CONTROL_0_ADDRESS_FIELD_POSITION ulValue) s"

definition prvvSMBusHWWriteTgtControl1Enable :: "'w smbus_env \<Rightarrow> u32 \<Rightarrow> 'w smbus_st \<Rightarrow> 'w smbus_st option" where
  "prvvSMBusHWWriteTgtControl1Enable E ulValue s =
     prvvSMBusHardwareWriteWithMask E SMBUS_REG_TGT_CONTROL_1
       SMBUS_TGT_CONTROL_1_ENABLE_MASK (push_bit SMBUS_TGT_CONTROL_1_ENABLE_FIELD_POSITION ulValue) s"

definition prvvSMBusHWWriteTgtControl1Address :: "'w smbus_env \<Rightarrow> u32 \<Rightarrow> 'w smbus_st \<Rightarrow> 'w smbus_st option" where
  "prvvSMBusHWWriteTgtControl1Address E ulValue s =
     prvvSMBusHardwareWriteWithMask E SMBUS_REG_TGT_CONTROL_1
       SMBUS_TGT_CONTROL_1_ADDRESS_MASK (push_bit SMBUS_TGT_CONTROL_1_ADDRESS_FIELD_POSITION ulValue) s"

definition prvvSMBusHWWriteTgtControl2Enable :: "'w smbus_env \<Rightarrow> u32 \<Rightarrow> 'w smbus_st \<Rightarrow> 'w smbus_st option" where
  "prvvSMBusHWWriteTgtControl2Enable E ulValue s =
     prvvSMBusHardwareWriteWithMask E SMBUS_REG_TGT_CONTROL_2
       SMBUS_TGT_CONTROL_2_ENABLE_MASK (push_bit SMBUS_TGT_CONTROL_2_ENABLE_FIELD_POSITION ulValue) s"

definition prvvSMBusHWWriteTgtControl2Address :: "'w smbus_env \<Rightarrow> u32 \<Rightarrow> 'w smbus_st \<Rightarrow> 'w smbus_st option" where
  "prvvSMBusHWWriteTgtControl2Address E ulValue s =
     prvvSMBusHardwareWriteWithMask E SMBUS_REG_TGT_CONTROL_2
       SMBUS_TGT_CONTROL_2_ADDRESS_MASK (push_bit SMBUS_TGT_CONTROL_2_ADDRESS_FIELD_POSITION ulValue) s"

definition prvvSMBusHWWriteTgtControl3Enable :: "'w smbus_env \<Rightarrow> u32 \<Rightarrow> 'w smbus_st \<Rightarrow> 'w smbus_st option" where
  "prvvSMBusHWWriteTgtControl3Enable E ulValue s =
     prvvSMBusHardwareWriteWithMask E SMBUS_REG_TGT_CONTROL_3
       SMBUS_TGT_CONTROL_3_ENABLE_MASK (push_bit SMBUS_TGT_CONTROL_3_ENABLE_FIELD_POSITION ulValue) s"

definition prvvSMBusHWWriteTgtControl3Address :: "'w smbus_env \<Rightarrow> u32 \<Rightarrow> 'w smbus_st \<Rightarrow> 'w smbus_st option" where
  "prvvSMBusHWWriteTgtControl3Address E ulValue s =
     prvvSMBusHardwareWriteWithMask E SMBUS_REG_TGT_CONTROL_3
       SMBUS_TGT_CONTROL_3_ADDRESS_MASK (push_bit SMBUS_TGT_CONTROL_3_ADDRESS_FIELD_POSITION ulValue) s"

definition prvvSMBusHWWriteTgtControl4Enable :: "'w smbus_env \<Rightarrow> u32 \<Rightarrow> 'w smbus_st \<Rightarrow> 'w smbus_st option" where
  "prvvSMBusHWWriteTgtControl4Enable E ulValue s =
     prvvSMBusHardwareWriteWithMask E SMBUS_REG_TGT_CONTROL_4
       SMBUS_TGT_CONTROL_4_ENABLE_MASK (push_bit SMBUS_TGT_CONTROL_4_ENABLE_FIELD_POSITION ulValue) s"

definition prvvSMBusHWWriteTgtControl4Address :: "'w smbus_env \<Rightarrow> u32 \<Rightarrow> 'w smbus_st \<Rightarrow> 'w smbus_st option" where
  "prvvSMBusHWWriteTgtControl4Address E ulValue s =
     prvvSMBusHardwareWriteWithMask E SMBUS_REG_TGT_CONTROL_4
       SMBUS_TGT_CONTROL_4_ADDRESS_MASK (push_bit SMBUS_TGT_CONTROL_4_ADDRESS_FIELD_POSITION ulValue) s"

definition prvvSMBusHWWriteTgtControl5Enable :: "'w smbus_env \<Rightarrow> u32 \<Rightarrow> 'w smbus_st \<Rightarrow> 'w smbus_st option" where
  "prvvSMBusHWWriteTgtControl5Enable E ulValue s =
     prvvSMBusHardwareWriteWithMask E SMBUS_REG_TGT_CONTROL_5
       SMBUS_TGT_CONTROL_5_ENABLE_MASK (push_bit SMBUS_TGT_CONTROL_5_ENABLE_FIELD_POSITION ulValue) s"

definition prvvSMBusHWWriteTgtControl5Address :: "'w smbus_env \<Rightarrow> u32 \<Rightarrow> 'w smbus_st \<Rightarrow> 'w smbus_st option" where
  "prvvSMBusHWWriteTgtControl5Address E ulValue s =
     prvvSMBusHardwareWriteWithMask E SMBUS_REG_TGT_CONTROL_5
       SMBUS_TGT_CONTROL_5_ADDRESS_MASK (push_bit SMBUS_TGT_CONTROL_5_ADDRESS_FIELD_POSITION ulValue) s"

definition prvvSMBusHWWriteTgtControl6Enable :: "'w smbus_env \<Rightarrow> u32 \<Rightarrow> 'w smbus_st \<Rightarrow> 'w smbus_st option" where
  "prvvSMBusHWWriteTgtControl6Enable E ulValue s =
     prvvSMBusHardwareWriteWithMask E SMBUS_REG_TGT_CONTROL_6
       SMBUS_TGT_CONTROL_6_ENABLE_MASK (push_bit SMBUS_TGT_CONTROL_6_ENABLE_FIELD_POSITION ulValue) s"

definition prvvSMBusHWWriteTgtControl6Address :: "'w smbus_env \<Rightarrow> u32 \<Rightarrow> 'w smbus_st \<Rightarrow> 'w smbus_st option" where
  "prvvSMBusHWWriteTgtControl6Address E ulValue s =
     prvvSMBusHardwareWriteWithMask E SMBUS_REG_TGT_CONTROL_6
       SMBUS_TGT_CONTROL_6_ADDRESS_MASK (push_bit SMBUS_TGT_CONTROL_6_ADDRESS_FIELD_POSITION ulValue) s"

definition prvvSMBusHWWriteTgtControl7Enable :: "'w smbus_env \<Rightarrow> u32 \<Rightarrow> 'w smbus_st \<Rightarrow> 'w smbus_st option" where
  "prvvSMBusHWWriteTgtControl7Enable E ulValue s =
     prvvSMBusHardwareWriteWithMask E SMBUS_REG_TGT_CONTROL_7
       SMBUS_TGT_CONTROL_7_ENABLE_MASK (push_bit SMBUS_TGT_CONTROL_7_ENABLE_FIELD_POSITION ulValue) s"

definition prvvSMBusHWWriteTgtControl7Address :: "'w smbus_env \<Rightarrow> u32 \<Rightarrow> 'w smbus_st \<Rightarrow> 'w smbus_st option" where
  "prvvSMBusHWWriteTgtControl7Address E ulValue s =
     prvvSMBusHardwareWriteWithMask E SMBUS_REG_TGT_CONTROL_7
       SMBUS_TGT_CONTROL_7_ADDRESS_MASK (push_bit SMBUS_TGT_CONTROL_7_ADDRESS_FIELD_POSITION ulValue) s"

definition vSMBusHWWritePHYCtrlDataHold :: "'w smbus_env \<Rightarrow> u32 \<Rightarrow> 'w smbus_st \<Rightarrow> 'w smbus_st option" where
  "vSMBusHWWritePHYCtrlDataHold E ulValue s =
     prvvSMBusHardwareWrite E SMBUS_REG_PHY_CTLR_DATA_HOLD
       ulValue s"

definition vSMBusHWWritePHYCtrlStartHold :: "'w smbus_env \<Rightarrow> u32 \<Rightarrow> 'w smbus_st \<Rightarrow> 'w smbus_st option" where
  "vSMBusHWWritePHYCtrlStartHold E ulValue s =
     prvvSMBusHardwareWrite E SMBUS_REG_PHY_CTLR_START_HOLD
       ulValue s"

definition vSMBusHWWritePHYCtrlStartSetup :: "'w smbus_env \<Rightarrow> u32 \<Rightarrow> 'w smbus_st \<Rightarrow> 'w smbus_st option" where
  "vSMBusHWWritePHYCtrlStartSetup E ulValue s =
     prvvSMBusHardwareWrite E SMBUS_REG_PHY_CTLR_START_SETUP
       ulValue s"

definition vSMBusHWWritePHYCtrlStopSetup :: "'w smbus_env \<Rightarrow> u32 \<Rightarrow> 'w smbus_st \<Rightarrow> 'w smbus_st option" where
  "vSMBusHWWritePHYCtrlStopSetup E ulValue s =
     prvvSMBusHardwareWrite E SMBUS_REG_PHY_CTLR_STOP_SETUP
       ulValue s"

definition vSMBusHWWritePHYCtrlClkTLow :: "'w smbus_env \<Rightarrow> u32 \<Rightarrow> 'w smbus_st \<Rightarrow> 'w smbus_st option" where
  "vSMBusHWWritePHYCtrlClkTLow E ulValue s =
     prvvSMBusHardwareWrite E SMBUS_REG_PHY_CTLR_CLK_TLOW
       ulValue s"

definition vSMBusHWWritePHYCtrlClkTHigh :: "'w smbus_env \<Rightarrow> u32 \<Rightarrow> 'w smbus_st \<Rightarrow> 'w smbus_st option" where
  "vSMBusHWWritePHYCtrlClkTHigh E ulValue s =
     prvvSMBusHardwareWrite E SMBUS_REG_PHY_CTLR_CLK_THIGH
       ulValue s"

definition vSMBusHWWritePHYCtrlTextPrescaler :: "'w smbus_env \<Rightarrow> u32 \<Rightarrow> 'w smbus_st \<Rightarrow> 'w smbus_st option" where
  "vSMBusHWWritePHYCtrlTextPrescaler E ulValue s =
     prvvSMBusHardwareWrite E SMBUS_REG_PHY_CTLR_TEXT_PRESCALER
       ulValue s"

definition vSMBusHWWritePHYCtrlTextTimeout :: "'w smbus_env \<Rightarrow> u32 \<Rightarrow> 'w smbus_st \<Rightarrow> 'w smbus_st option" where
  "vSMBusHWWritePHYCtrlTextTimeout E ulValue s =
     prvvSMBusHardwareWrite E SMBUS_REG_PHY_CTLR_TEXT_TIMEOUT
       ulValue s"

definition vSMBusHWWritePHYCtrlTextMax :: "'w smbus_env \<Rightarrow> u32 \<Rightarrow> 'w smbus_st \<Rightarrow> 'w smbus_st option" where
  "vSMBusHWWritePHYCtrlTextMax E ulValue s =
     prvvSMBusHardwareWrite E SMBUS_REG_PHY_CTLR_TEXT_MAX
       ulValue s"

definition vSMBusHWWritePHYCtrlCextPrescaler :: "'w smbus_env \<Rightarrow> u32 \<Rightarrow> 'w smbus_st \<Rightarrow> 'w smbus_st option" where
  "vSMBusHWWritePHYCtrlCextPrescaler E ulValue s =
     prvvSMBusHardwareWrite E SMBUS_REG_PHY_CTLR_CEXT_PRESCALER
       ulValue s"

definition vSMBusHWWritePHYCtrlCextTimeout :: "'w smbus_env \<Rightarrow> u32 \<Rightarrow> 'w smbus_st \<Rightarrow> 'w smbus_st option" where
  "vSMBusHWWritePHYCtrlCextTimeout E ulValue s =
     prvvSMBusHardwareWrite E SMBUS_REG_PHY_CTLR_CEXT_TIMEOUT
       ulValue s"

definition vSMBusHWWritePHYCtrlCextMax :: "'w smbus_env \<Rightarrow> u32 \<Rightarrow> 'w smbus_st \<Rightarrow> 'w smbus_st option" where
  "vSMBusHWWritePHYCtrlCextMax E ulValue s =
     prvvSMBusHardwareWrite E SMBUS_REG_PHY_CTLR_CEXT_MAX
       ulValue s"

definition vSMBusHWWriteCtrlControlEnable :: "'w smbus_env \<Rightarrow> u32 \<Rightarrow> 'w smbus_st \<Rightarrow> 'w smbus_st option" where
  "vSMBusHWWriteCtrlControlEnable E ulValue s =
     prvvSMBusHardwareWrite E SMBUS_REG_CTLR_CONTROL
       ulValue s"

definition vSMBusHWWriteCtrlDescFifo :: "'w smbus_env \<Rightarrow> u32 \<Rightarrow> 'w smbus_st \<Rightarrow> 'w smbus_st option" where
  "vSMBusHWWriteCtrlDescFifo E ulValue s =
     prvvSMBusHardwareWrite E SMBUS_REG_CTLR_DESC_FIFO
       ulValue s"

definition vSMBusHWWriteCtrlDescFifoReset :: "'w smbus_env \<Rightarrow> u32 \<Rightarrow> 'w smbus_st \<Rightarrow> 'w smbus_st option" where
  "vSMBusHWWriteCtrlDescFifoReset E ulValue s =
     prvvSMBusHardwareWrite E SMBUS_REG_CTLR_DESC_FIFO
       (push_bit SMBUS_CTLR_DESC_FIFO_RESET_FIELD_POSITION ulValue) s"

definition vSMBusHWWriteCtrlRxFifoReset :: "'w smbus_env \<Rightarrow> u32 \<Rightarrow> 'w smbus_st \<Rightarrow> 'w smbus_st option" where
  "vSMBusHWWriteCtrlRxFifoReset E ulValue s =
     prvvSMBusHardwareWrite E SMBUS_REG_CTLR_RX_FIFO
       (push_bit SMBUS_CTLR_RX_FIFO_RESET_FIELD_POSITION ulValue) s"

definition vSMBusHWWriteCtrlRxFifoFillThreshold :: "'w smbus_env \<Rightarrow> u32 \<Rightarrow> 'w smbus_st \<Rightarrow> 'w smbus_st option" where
  "vSMBusHWWriteCtrlRxFifoFillThreshold E ulValue s =
     prvvSMBusHardwareWrite E SMBUS_REG_CTLR_RX_FIFO_FILL_THRESHOLD
       (SMBUS_CTLR_RX_FIFO_FILL_THRESHOLD_FILL_THRESHOLD_MASK AND ulValue) s"

definition vSMBusHWWriteTgtControlAddress :: "'w smbus_env \<Rightarrow> u8 \<Rightarrow> u32 \<Rightarrow> 'w smbus_st \<Rightarrow> 'w smbus_st option" where
  "vSMBusHWWriteTgtControlAddress E ucInstance ulValue s =
     (if ucInstance = 0 then prvvSMBusHWWriteTgtControl0Address E ulValue s
      else if ucInstance = 1 then prvvSMBusHWWriteTgtControl1Address E ulValue s
      else if ucInstance = 2 then prvvSMBusHWWriteTgtControl2Address E ulValue s
      else if ucInstance = 3 then prvvSMBusHWWriteTgtControl3Address E ulValue s
      else if ucInstance = 4 then prvvSMBusHWWriteTgtControl4Address E ulValue s
      else if ucInstance = 5 then prvvSMBusHWWriteTgtControl5Address E ulValue s
      else if ucInstance = 6 then prvvSMBusHWWriteTgtControl6Address E ulValue s
      else if ucInstance = 7 then prvvSMBusHWWriteTgtControl7Address E ulValue s
      else Some s)"

definition vSMBusHWWriteTgtControlEnable :: "'w smbus_env \<Rightarrow> u8 \<Rightarrow> u32 \<Rightarrow> 'w smbus_st \<Rightarrow> 'w smbus_st option" where
  "vSMBusHWWriteTgtControlEnable E ucInstance ulValue s =
     (if ucInstance = 0 then prvvSMBusHWWriteTgtControl0Enable E ulValue s
      else if ucInstance = 1 then prvvSMBusHWWriteTgtControl1Enable E ulValue s
      else if ucInstance = 2 then prvvSMBusHWWriteTgtControl2Enable E ulValue s
      else if ucInstance = 3 then prvvSMBusHWWriteTgtControl3Enable E ulValue s
      else if ucInstance = 4 then prvvSMBusHWWriteTgtControl4Enable E ulValue s
      else if ucInstance = 5 then prvvSMBusHWWriteTgtControl5Enable E ulValue s
      else if ucInstance = 6 then prvvSMBusHWWriteTgtControl6Enable E ulValue s
      else if ucInstance = 7 then prvvSMBusHWWriteTgtControl7Enable E ulValue s
      else Some s)"

section \<open>Descriptors\<close>

abbreviation (input) SMBUS_HW_DESCRIPTOR_WRITE_SUCCESS :: u8 where "SMBUS_HW_DESCRIPTOR_WRITE_SUCCESS \<equiv> 0"
abbreviation (input) SMBUS_HW_DESCRIPTOR_WRITE_FAIL :: u8 where "SMBUS_HW_DESCRIPTOR_WRITE_FAIL \<equiv> 1"
abbreviation (input) SMBUS_DESC_FIFO_IS_FULL :: u32 where "SMBUS_DESC_FIFO_IS_FULL \<equiv> 1"

datatype SMBUS_HW_DESCRIPTOR_TYPE =
    DESC_TARGET_READ
  | DESC_TARGET_READ_PEC
  | DESC_TARGET_WRITE_ACK
  | DESC_TARGET_WRITE_NACK
  | DESC_TARGET_WRITE_PEC
  | DESC_CONTROLLER_READ_START
  | DESC_CONTROLLER_READ_QUICK
  | DESC_CONTROLLER_READ_BYTE
  | DESC_CONTROLLER_READ_STOP
  | DESC_CONTROLLER_READ_PEC
  | DESC_CONTROLLER_WRITE_START
  | DESC_CONTROLLER_WRITE_QUICK
  | DESC_CONTROLLER_WRITE_BYTE
  | DESC_CONTROLLER_WRITE_STOP
  | DESC_CONTROLLER_WRITE_PEC

fun prvucSMBusGenericDescriptorIDLookup :: "SMBUS_HW_DESCRIPTOR_TYPE \<Rightarrow> u8" where
  "prvucSMBusGenericDescriptorIDLookup DESC_TARGET_READ = 0x8"
| "prvucSMBusGenericDescriptorIDLookup DESC_TARGET_READ_PEC = 0x9"
| "prvucSMBusGenericDescriptorIDLookup DESC_TARGET_WRITE_ACK = 0x0"
| "prvucSMBusGenericDescriptorIDLookup DESC_TARGET_WRITE_NACK = 0x1"
| "prvucSMBusGenericDescriptorIDLookup DESC_TARGET_WRITE_PEC = 0x2"
| "prvucSMBusGenericDescriptorIDLookup DESC_CONTROLLER_READ_START = 0x8"
| "prvucSMBusGenericDescriptorIDLookup DESC_CONTROLLER_READ_QUICK = 0x9"
| "prvucSMBusGenericDescriptorIDLookup DESC_CONTROLLER_READ_BYTE = 0xA"
| "prvucSMBusGenericDescriptorIDLookup DESC_CONTROLLER_READ_STOP = 0xB"
| "prvucSMBusGenericDescriptorIDLookup DESC_CONTROLLER_READ_PEC = 0xC"
| "prvucSMBusGenericDescriptorIDLookup DESC_CONTROLLER_WRITE_START = 0x0"
| "prvucSMBusGenericDescriptorIDLookup DESC_CONTROLLER_WRITE_QUICK = 0x1"
| "prvucSMBusGenericDescriptorIDLookup DESC_CONTROLLER_WRITE_BYTE = 0x2"
| "prvucSMBusGenericDescriptorIDLookup DESC_CONTROLLER_WRITE_STOP = 0x3"
| "prvucSMBusGenericDescriptorIDLookup DESC_CONTROLLER_WRITE_PEC = 0x4"

definition prvucSMBusTargetDescriptorApply ::
  "'w smbus_env \<Rightarrow> SMBUS_HW_DESCRIPTOR_TYPE \<Rightarrow> u8 \<Rightarrow> u8 \<Rightarrow> 'w smbus_st \<Rightarrow> (u8 \<times> 'w smbus_st) option" where
  "prvucSMBusTargetDescriptorApply E xDescriptor ucPayload ucNoStatusCheck s = do {
     (ucReturnCode, s) \<leftarrow>
       (if ucNoStatusCheck = SMBUS_FALSE then do {
          (full, s) \<leftarrow> ulSMBusHWReadTgtDescStatusFull E s;
          Some (if full = SMBUS_DESC_FIFO_IS_FULL then SMBUS_HW_DESCRIPTOR_WRITE_FAIL
                else SMBUS_HW_DESCRIPTOR_WRITE_SUCCESS, s) }
        else Some (SMBUS_HW_DESCRIPTOR_WRITE_SUCCESS, s));
     if ucReturnCode = SMBUS_HW_DESCRIPTOR_WRITE_SUCCESS then do {
       s \<leftarrow> vSMBusHWWriteTgtDescFifo E (push_bit 8 (ucast (prvucSMBusGenericDescriptorIDLookup xDescriptor)) OR ucast ucPayload) s;
       Some (ucReturnCode, s) }
     else Some (ucReturnCode, s) }"

definition prvucSMBusControllerDescriptorApply ::
  "'w smbus_env \<Rightarrow> SMBUS_HW_DESCRIPTOR_TYPE \<Rightarrow> u8 \<Rightarrow> u8 \<Rightarrow> 'w smbus_st \<Rightarrow> (u8 \<times> 'w smbus_st) option" where
  "prvucSMBusControllerDescriptorApply E xDescriptor ucPayload ucNoStatusCheck s = do {
     (ucReturnCode, s) \<leftarrow>
       (if ucNoStatusCheck = SMBUS_FALSE then do {
          (full, s) \<leftarrow> ulSMBusHWReadCtrlDescStatusFull E s;
          Some (if full = SMBUS_DESC_FIFO_IS_FULL then SMBUS_HW_DESCRIPTOR_WRITE_FAIL
                else SMBUS_HW_DESCRIPTOR_WRITE_SUCCESS, s) }
        else Some (SMBUS_HW_DESCRIPTOR_WRITE_SUCCESS, s));
     if ucReturnCode = SMBUS_HW_DESCRIPTOR_WRITE_SUCCESS then do {
       s \<leftarrow> vSMBusHWWriteCtrlDescFifo E (push_bit 8 (ucast (prvucSMBusGenericDescriptorIDLookup xDescriptor)) OR ucast ucPayload) s;
       Some (ucReturnCode, s) }
     else Some (ucReturnCode, s) }"

definition ucSMBusTargetReadDescriptorRead :: "'w smbus_env \<Rightarrow> u8 \<Rightarrow> 'w smbus_st \<Rightarrow> (u8 \<times> 'w smbus_st) option" where
  "ucSMBusTargetReadDescriptorRead E ucData s =
     prvucSMBusTargetDescriptorApply E DESC_TARGET_READ ucData SMBUS_FALSE s"

definition ucSMBusTargetReadDescriptorPECRead :: "'w smbus_env \<Rightarrow> 'w smbus_st \<Rightarrow> (u8 \<times> 'w smbus_st) option" where
  "ucSMBusTargetReadDescriptorPECRead E s =
     prvucSMBusTargetDescriptorApply E DESC_TARGET_READ_PEC 0 SMBUS_FALSE s"

definition ucSMBusTargetWriteDescriptorACK :: "'w smbus_env \<Rightarrow> u8 \<Rightarrow> 'w smbus_st \<Rightarrow> (u8 \<times> 'w smbus_st) option" where
  "ucSMBusTargetWriteDescriptorACK E ucNoStatusCheck s =
     prvucSMBusTargetDescriptorApply E DESC_TARGET_WRITE_ACK 0 ucNoStatusCheck s"

definition ucSMBusTargetWriteDescriptorNACK :: "'w smbus_env \<Rightarrow> 'w smbus_st \<Rightarrow> (u8 \<times> 'w smbus_st) option" where
  "ucSMBusTargetWriteDescriptorNACK E s =
     prvucSMBusTargetDescriptorApply E DESC_TARGET_WRITE_NACK 0 SMBUS_FALSE s"

definition ucSMBusTargetWriteDescriptorPEC :: "'w smbus_env \<Rightarrow> 'w smbus_st \<Rightarrow> (u8 \<times> 'w smbus_st) option" where
  "ucSMBusTargetWriteDescriptorPEC E s =
     prvucSMBusTargetDescriptorApply E DESC_TARGET_WRITE_PEC 0 SMBUS_FALSE s"

definition ucSMBusControllerWriteDescriptorStartWrite :: "'w smbus_env \<Rightarrow> u8 \<Rightarrow> 'w smbus_st \<Rightarrow> (u8 \<times> 'w smbus_st) option" where
  "ucSMBusControllerWriteDescriptorStartWrite E ucDestination s =
     prvucSMBusControllerDescriptorApply E DESC_CONTROLLER_WRITE_START (push_bit 1 ucDestination) SMBUS_FALSE s"

definition ucSMBusControllerWriteDescriptorQuickWrite :: "'w smbus_env \<Rightarrow> u8 \<Rightarrow> 'w smbus_st \<Rightarrow> (u8 \<times> 'w smbus_st) option" where
  "ucSMBusControllerWriteDescriptorQuickWrite E ucDestination s =
     prvucSMBusControllerDescriptorApply E DESC_CONTROLLER_WRITE_QUICK (push_bit 1 ucDestination) SMBUS_FALSE s"

definition ucSMBusControllerWriteDescriptorByte :: "'w smbus_env \<Rightarrow> u8 \<Rightarrow> u8 \<Rightarrow> 'w smbus_st \<Rightarrow> (u8 \<times> 'w smbus_st) option" where
  "ucSMBusControllerWriteDescriptorByte E ucData ucNoStatusCheck s =
     prvucSMBusControllerDescriptorApply E DESC_CONTROLLER_WRITE_BYTE ucData ucNoStatusCheck s"

definition ucSMBusControllerWriteDescriptorStopWrite :: "'w smbus_env \<Rightarrow> u8 \<Rightarrow> 'w smbus_st \<Rightarrow> (u8 \<times> 'w smbus_st) option" where
  "ucSMBusControllerWriteDescriptorStopWrite E ucData s =
     prvucSMBusControllerDescriptorApply E DESC_CONTROLLER_WRITE_STOP ucData SMBUS_FALSE s"

definition ucSMBusControllerWriteDescriptorPECWrite :: "'w smbus_env \<Rightarrow> 'w smbus_st \<Rightarrow> (u8 \<times> 'w smbus_st) option" where
  "ucSMBusControllerWriteDescriptorPECWrite E s =
     prvucSMBusControllerDescriptorApply E DESC_CONTROLLER_WRITE_PEC 0 SMBUS_FALSE s"

definition ucSMBusControllerReadDescriptorStart :: "'w smbus_env \<Rightarrow> u8 \<Rightarrow> 'w smbus_st \<Rightarrow> (u8 \<times> 'w smbus_st) option" where
  "ucSMBusControllerReadDescriptorStart E ucDestination s =
     prvucSMBusControllerDescriptorApply E DESC_CONTROLLER_READ_START (push_bit 1 ucDestination OR 1) SMBUS_FALSE s"

definition ucSMBusControllerReadDescriptorQuickRead :: "'w smbus_env \<Rightarrow> u8 \<Rightarrow> 'w smbus_st \<Rightarrow> (u8 \<times> 'w smbus_st) option" where
  "ucSMBusControllerReadDescriptorQuickRead E ucDestination s =
     prvucSMBusControllerDescriptorApply E DESC_CONTROLLER_READ_QUICK (push_bit 1 ucDestination OR 1) SMBUS_FALSE s"

definition ucSMBusControllerReadDescriptorByte :: "'w smbus_env \<Rightarrow> u8 \<Rightarrow> 'w smbus_st \<Rightarrow> (u8 \<times> 'w smbus_st) option" where
  "ucSMBusControllerReadDescriptorByte E ucNoStatusCheck s =
     prvucSMBusControllerDescriptorApply E DESC_CONTROLLER_READ_BYTE 0 ucNoStatusCheck s"

definition ucSMBusControllerReadDescriptorStop :: "'w smbus_env \<Rightarrow> 'w smbus_st \<Rightarrow> (u8 \<times> 'w smbus_st) option" where
  "ucSMBusControllerReadDescriptorStop E s =
     prvucSMBusControllerDescriptorApply E DESC_CONTROLLER_READ_STOP 0 SMBUS_FALSE s"

definition ucSMBusControllerReadDescriptorPEC :: "'w smbus_env \<Rightarrow> 'w smbus_st \<Rightarrow> (u8 \<times> 'w smbus_st) option" where
  "ucSMBusControllerReadDescriptorPEC E s =
     prvucSMBusControllerDescriptorApply E DESC_CONTROLLER_READ_PEC 0 SMBUS_FALSE s"

lemmas read_defs =
  ulSMBusHWReadIPVersion_def ulSMBusHWReadIPRevision_def ulSMBusHWReadIPMagicNum_def
  ulSMBusHWReadBuildConfig0_def ulSMBusHWReadBuildConfig1_def ulSMBusHWReadIRQGIEEnable_def
  ulSMBusHWReadIRQIER_def ulSMBusHWReadIRQISR_def ulSMBusHWReadErrIRQIER_def
  ulSMBusHWReadErrIRQISR_def ulSMBusHWReadPHYStatus_def
  ulSMBusHWReadPHYStatusSMBDATLowTimeout_def ulSMBusHWReadPHYStatusSMBClkLowTimeout_def
  ulSMBusHWReadPHYStatusBusIdle_def ulSMBusHWReadPHYFilterControl_def
  ulSMBusHWReadPHYFilterControlEnable_def ulSMBusHWReadPHYFilterControlDuration_def
  ulSMBusHWReadPHYBusFreetime_def ulSMBusHWReadPHYIdleThresholdIdleThreshold_def
  ulSMBusHWReadPHYTimeoutPrescaler_def ulSMBusHWReadPHYTimeoutMin_def
  ulSMBusHWReadPHYTimeoutMinTimeoutEnable_def ulSMBusHWReadPHYTimeoutMinTimeoutMin_def
  ulSMBusHWReadPHYTimeoutMax_def ulSMBusHWReadPHYResetControlSMBClkForce_def
  ulSMBusHWReadPHYTgtDataSetupTgtDataSetup_def ulSMBusHWReadPHYTgtTextPrescaler_def
  ulSMBusHWReadPHYTgtTextTimeout_def ulSMBusHWReadPHYTgtTextMax_def
  ulSMBusHWReadPHYTgtDbgState_def ulSMBusHWReadPHYTgtDataHold_def
  ulSMBusHWReadTgtStatus_def ulSMBusHWReadTgtStatusActive_def
  ulSMBusHWReadTgtStatusAddress_def ulSMBusHWReadTgtStatusRW_def
  ulSMBusHWReadTgtDescStatusFillLevel_def ulSMBusHWReadTgtDescStatusFull_def
  ulSMBusHWReadTgtDescStatusAlmostFull_def ulSMBusHWReadTgtDescStatusAlmostEmpty_def
  ulSMBusHWReadTgtDescStatusEmpty_def ulSMBusHWReadTgtRxFifoPayload_def
  ulSMBusHWReadTgtRxFifoStatusFillLevel_def ulSMBusHWReadTgtRxFifoStatusResetBusY_def
  ulSMBusHWReadTgtRxFifoStatusFull_def ulSMBusHWReadTgtRxFifoStatusAlmostFull_def
  ulSMBusHWReadTgtRxFifoStatusAlmostEmpty_def ulSMBusHWReadTgtRxFifoStatusEmpty_def
  ulSMBusHWReadTgtRxFifoFillThresholdFillThresh_def ulSMBusHWReadTgtDbg_def
  ulSMBusHWReadTgtControl0Enable_def ulSMBusHWReadTgtControl0Address_def
  ulSMBusHWReadTgtControl1Enable_def ulSMBusHWReadTgtControl1Address_def
  ulSMBusHWReadTgtControl2Enable_def ulSMBusHWReadTgtControl2Address_def
  ulSMBusHWReadTgtControl3Enable_def ulSMBusHWReadTgtControl3Address_def
  ulSMBusHWReadTgtControl4Enable_def ulSMBusHWReadTgtControl4Address_def
  ulSMBusHWReadTgtControl5Enable_def ulSMBusHWReadTgtControl5Address_def
  ulSMBusHWReadTgtControl6Enable_def ulSMBusHWReadTgtControl6Address_def
  ulSMBusHWReadTgtControl7Enable_def ulSMBusHWReadTgtControl7Address_def
  ulSMBusHWReadPHYCtrlDataHold_def ulSMBusHWReadPHYCtrlStartHold_def
  ulSMBusHWReadPHYCtrlStartSetup_def ulSMBusHWReadPHYCtrlStopSetup_def
  ulSMBusHWReadPHYCtrlClkTLow_def ulSMBusHWReadPHYCtrlClkTHigh_def
  ulSMBusHWReadPHYCtrlTextPrescaler_def ulSMBusHWReadPHYCtrlTextTimeout_def
  ulSMBusHWReadPHYCtrlTextMax_def ulSMBusHWReadPHYCtrlCextPrescaler_def
  ulSMBusHWReadPHYCtrlCextTimeout_def ulSMBusHWReadPHYCtrlCextMax_def
  ulSMBusHWReadPHYCtrlDbgState_def ulSMBusHWReadCtrlStatusEnable_def
  ulSMBusHWReadCtrlDescStatusFillLevel_def ulSMBusHWReadCtrlDescStatusResetBusy_def
  ulSMBusHWReadCtrlDescStatusFull_def ulSMBusHWReadCtrlDescStatusAlmostFull_def
  ulSMBusHWReadCtrlDescStatusAlmostEmpty_def ulSMBusHWReadCtrlDescStatusEmpty_def
  ulSMBusHWReadCtrlRxFifoPayload_def ulSMBusHWReadCtrlRxFifoStatusFillLevel_def
  ulSMBusHWReadCtrlRxFifoStatusResetBusy_def ulSMBusHWReadCtrlRxFifoStatusFull_def
  ulSMBusHWReadCtrlRxFifoStatusAlmostFull_def ulSMBusHWReadCtrlRxFifoStatusAlmostEmpty_def
  ulSMBusHWReadCtrlRxFifoStatusEmpty_def ulSMBusHWReadCtrlRxFifoFillThresholdFillThresh_def
  ulSMBusHWReadCtrlDbgState_def

lemmas write_defs =
  vSMBusHWWriteIRQGIEEnable_def vSMBusHWWriteIRQIER_def vSMBusHWWriteIRQISR_def
  vSMBusHWWriteERRIRQIER_def vSMBusHWWriteERRIRQISR_def
  vSMBusHWWritePHYFilterControlEnable_def vSMBusHWWritePHYFilterControlDuration_def
  vSMBusHWWritePHYBusFreetime_def vSMBusHWWritePHYIdleThresholdIdleThreshold_def
  vSMBusHWWritePHYTimeoutPrescaler_def vSMBusHWWritePHYTimeoutMin_def
  vSMBusHWWritePHYTimeoutMinTimeoutEnable_def vSMBusHWWritePHYTimeoutMinTimeoutMin_def
  vSMBusHWWritePHYTimeoutMax_def vSMBusHWWritePHYResetControlSMBClkForceTimeout_def
  vSMBusHWWritePHYResetControlSMBClkForceLow_def
  vSMBusHWWritePHYTgtDataSetupTgtDataSetup_def vSMBusHWWritePHYTgtTextPrescaler_def
  vSMBusHWWritePHYTgtTextTimeout_def vSMBusHWWritePHYTgtTextMax_def
  vSMBusHWWritePHYTgtDataHold_def vSMBusHWWriteTgtDescFifo_def
  vSMBusHWWriteTgtDescFifoId_def vSMBusHWWriteTgtDescFifoPayload_def
  vSMBusHWWriteTgtRxFifoReset_def vSMBusHWWriteRxFifoFillThresholdFillThresh_def
  prvvSMBusHWWriteTgtControl0Enable_def prvvSMBusHWWriteTgtControl0Address_def
  prvvSMBusHWWriteTgtControl1Enable_def prvvSMBusHWWriteTgtControl1Address_def
  prvvSMBusHWWriteTgtControl2Enable_def prvvSMBusHWWriteTgtControl2Address_def
  prvvSMBusHWWriteTgtControl3Enable_def prvvSMBusHWWriteTgtControl3Address_def
  prvvSMBusHWWriteTgtControl4Enable_def prvvSMBusHWWriteTgtControl4Address_def
  prvvSMBusHWWriteTgtControl5Enable_def prvvSMBusHWWriteTgtControl5Address_def
  prvvSMBusHWWriteTgtControl6Enable_def prvvSMBusHWWriteTgtControl6Address_def
  prvvSMBusHWWriteTgtControl7Enable_def prvvSMBusHWWriteTgtControl7Address_def
  vSMBusHWWritePHYCtrlDataHold_def vSMBusHWWritePHYCtrlStartHold_def
  vSMBusHWWritePHYCtrlStartSetup_def vSMBusHWWritePHYCtrlStopSetup_def
  vSMBusHWWritePHYCtrlClkTLow_def vSMBusHWWritePHYCtrlClkTHigh_def
  vSMBusHWWritePHYCtrlTextPrescaler_def vSMBusHWWritePHYCtrlTextTimeout_def
  vSMBusHWWritePHYCtrlTextMax_def vSMBusHWWritePHYCtrlCextPrescaler_def
  vSMBusHWWritePHYCtrlCextTimeout_def vSMBusHWWritePHYCtrlCextMax_def
  vSMBusHWWriteCtrlControlEnable_def vSMBusHWWriteCtrlDescFifo_def
  vSMBusHWWriteCtrlDescFifoReset_def vSMBusHWWriteCtrlRxFifoReset_def
  vSMBusHWWriteCtrlRxFifoFillThreshold_def

lemmas desc_defs =
  ucSMBusTargetReadDescriptorRead_def ucSMBusTargetReadDescriptorPECRead_def
  ucSMBusTargetWriteDescriptorACK_def ucSMBusTargetWriteDescriptorNACK_def
  ucSMBusTargetWriteDescriptorPEC_def ucSMBusControllerWriteDescriptorStartWrite_def
  ucSMBusControllerWriteDescriptorQuickWrite_def ucSMBusControllerWriteDescriptorByte_def
  ucSMBusControllerWriteDescriptorStopWrite_def
  ucSMBusControllerWriteDescriptorPECWrite_def ucSMBusControllerReadDescriptorStart_def
  ucSMBusControllerReadDescriptorQuickRead_def ucSMBusControllerReadDescriptorByte_def
  ucSMBusControllerReadDescriptorStop_def ucSMBusControllerReadDescriptorPEC_def

section \<open>Quiet operations\<close>

definition quiet :: "('w smbus_st \<Rightarrow> 'w smbus_st option) \<Rightarrow> bool" where
  "quiet m \<longleftrightarrow> (\<forall>s s'. m s = Some s' \<longrightarrow> log_only s s' \<and> (log_inv s \<longrightarrow> log_inv s')) \<and>
     (\<forall>s. log_inv s \<longrightarrow> (\<exists>s'. m s = Some s'))"

definition quietv :: "('w smbus_st \<Rightarrow> ('a \<times> 'w smbus_st) option) \<Rightarrow> bool" where
  "quietv m \<longleftrightarrow> (\<forall>s v s'. m s = Some (v, s') \<longrightarrow> log_only s s' \<and> (log_inv s \<longrightarrow> log_inv s')) \<and>
     (\<forall>s. log_inv s \<longrightarrow> (\<exists>v s'. m s = Some (v, s')))"

lemma quietI:
  "(\<And>s s'. m s = Some s' \<Longrightarrow> log_only s s' \<and> (log_inv s \<longrightarrow> log_inv s')) \<Longrightarrow>
   (\<And>s. log_inv s \<Longrightarrow> \<exists>s'. m s = Some s') \<Longrightarrow> quiet m"
  by (simp add: quiet_def)

lemma quietvI:
  "(\<And>s v s'. m s = Some (v, s') \<Longrightarrow> log_only s s' \<and> (log_inv s \<longrightarrow> log_inv s')) \<Longrightarrow>
   (\<And>s. log_inv s \<Longrightarrow> \<exists>v s'. m s = Some (v, s')) \<Longrightarrow> quietv m"
  by (simp add: quietv_def)

lemma quietD: "quiet m \<Longrightarrow> m s = Some s' \<Longrightarrow> log_only s s'"
  "quiet m \<Longrightarrow> m s = Some s' \<Longrightarrow> log_inv s \<Longrightarrow> log_inv s'"
  "quiet m \<Longrightarrow> log_inv s \<Longrightarrow> \<exists>s'. m s = Some s'"
  by (auto simp: quiet_def)

lemma quietvD: "quietv m \<Longrightarrow> m s = Some (v, s') \<Longrightarrow> log_only s s'"
  "quietv m \<Longrightarrow> m s = Some (v, s') \<Longrightarrow> log_inv s \<Longrightarrow> log_inv s'"
  "quietv m \<Longrightarrow> log_inv s \<Longrightarrow> \<exists>v s'. m s = Some (v, s')"
  by (auto simp: quietv_def)

lemma quiet_post: "quiet m \<Longrightarrow> (\<And>s'. log_only s s' \<Longrightarrow> Q s') \<Longrightarrow> post (m s) Q"
  by (rule postI) (blast dest: quietD)

lemma quietv_post: "quietv m \<Longrightarrow> (\<And>v s'. log_only s s' \<Longrightarrow> Q (v, s')) \<Longrightarrow> post (m s) Q"
  by (rule postI) (auto dest: quietvD)

lemma quiet_Some [simp]: "quiet Some"
  by (simp add: quiet_def)

lemma quietv_Some [simp]: "quietv (\<lambda>s. Some (v, s))"
  by (simp add: quietv_def)

lemma quiet_bind [intro]:
  assumes "quiet m" and "quiet f"
  shows "quiet (\<lambda>s. do { s \<leftarrow> m s; f s })"
proof (rule quietI)
  fix s s'
  assume "do { s \<leftarrow> m s; f s } = Some s'"
  then obtain t where "m s = Some t" "f t = Some s'" by (auto split: bind_splits)
  with assms show "log_only s s' \<and> (log_inv s \<longrightarrow> log_inv s')"
    by (meson log_only_trans quietD)
next
  fix s :: "'a smbus_st"
  assume "log_inv s"
  with assms show "\<exists>s'. do { s \<leftarrow> m s; f s } = Some s'"
    by (metis bind.bind_lunit quietD(2,3))
qed

lemma quietv_bind [intro]:
  assumes "quietv m" and "\<And>v. quietv (f v)"
  shows "quietv (\<lambda>s. do { (v, s) \<leftarrow> m s; f v s })"
proof (rule quietvI)
  fix s v s'
  assume "do { (v, s) \<leftarrow> m s; f v s } = Some (v, s')"
  then obtain u t where "m s = Some (u, t)" "f u t = Some (v, s')" by (auto split: bind_splits)
  with assms show "log_only s s' \<and> (log_inv s \<longrightarrow> log_inv s')"
    by (meson log_only_trans quietvD)
next
  fix s :: "'a smbus_st"
  assume "log_inv s"
  with assms(1) obtain u t where m: "m s = Some (u, t)" "log_inv t" by (meson quietvD)
  with assms(2) [of u] obtain v s' where "f u t = Some (v, s')" by (meson quietvD)
  with m show "\<exists>v s'. do { (v, s) \<leftarrow> m s; f v s } = Some (v, s')" by auto
qed

lemma quietv_quiet_bind [intro]:
  assumes "quietv m" and "\<And>v. quiet (f v)"
  shows "quiet (\<lambda>s. do { (v, s) \<leftarrow> m s; f v s })"
proof (rule quietI)
  fix s s'
  assume "do { (v, s) \<leftarrow> m s; f v s } = Some s'"
  then obtain u t where "m s = Some (u, t)" "f u t = Some s'" by (auto split: bind_splits)
  with assms show "log_only s s' \<and> (log_inv s \<longrightarrow> log_inv s')"
    by (meson log_only_trans quietvD quietD)
next
  fix s :: "'a smbus_st"
  assume "log_inv s"
  with assms(1) obtain u t where m: "m s = Some (u, t)" "log_inv t" by (meson quietvD)
  with assms(2) [of u] obtain s' where "f u t = Some s'" by (meson quietD)
  with m show "\<exists>s'. do { (v, s) \<leftarrow> m s; f v s } = Some s'" by auto
qed

lemma quiet_quietv_bind [intro]:
  assumes "quiet m" and "quietv f"
  shows "quietv (\<lambda>s. do { s \<leftarrow> m s; f s })"
proof (rule quietvI)
  fix s v s'
  assume "do { s \<leftarrow> m s; f s } = Some (v, s')"
  then obtain t where "m s = Some t" "f t = Some (v, s')" by (auto split: bind_splits)
  with assms show "log_only s s' \<and> (log_inv s \<longrightarrow> log_inv s')"
    by (meson log_only_trans quietvD quietD)
next
  fix s :: "'a smbus_st"
  assume "log_inv s"
  with assms(1) obtain t where m: "m s = Some t" "log_inv t" by (meson quietD)
  with assms(2) obtain v s' where "f t = Some (v, s')" by (meson quietvD)
  with m show "\<exists>v s'. do { s \<leftarrow> m s; f s } = Some (v, s')" by auto
qed

lemma quiet_if [intro]: "quiet m \<Longrightarrow> quiet f \<Longrightarrow> quiet (\<lambda>s. if b then m s else f s)"
  by (cases b) simp_all

lemma quietv_if [intro]: "quietv m \<Longrightarrow> quietv f \<Longrightarrow> quietv (\<lambda>s. if b then m s else f s)"
  by (cases b) simp_all

lemma log_add_quiet [simp]: "quiet (vLogAddEntry E l n ev e1 e2)"
proof (rule quietI)
  show "vLogAddEntry E l n ev e1 e2 s = Some s' \<Longrightarrow> log_only s s' \<and> (log_inv s \<longrightarrow> log_inv s')" for s s'
    using log_add_post [of E l n ev e1 e2 s] by simp
  show "log_inv s \<Longrightarrow> \<exists>s'. vLogAddEntry E l n ev e1 e2 s = Some s'" for s
    using log_add_okay [of s E l n ev e1 e2] by (auto simp: okay_iff)
qed

lemma hw_read_quiet [simp]: "quietv (prvulSMBusHardwareRead E off)"
proof (rule quietvI)
  fix s :: "'a smbus_st" and v s'
  assume "prvulSMBusHardwareRead E off s = Some (v, s')"
  then obtain w where "vLogAddEntry E SMBUS_LOG_LEVEL_DEBUG SMBUS_INSTANCE_UNDETERMINED SMBUS_LOG_EVENT_HW_READ
      off v (s\<lparr>world := w\<rparr>) = Some s'"
    by (auto simp: prvulSMBusHardwareRead_def split: prod.splits bind_splits)
  with log_add_quiet show "log_only s s' \<and> (log_inv s \<longrightarrow> log_inv s')"
    by (metis log_inv_world log_only_world(2) quietD(1,2))
next
  fix s :: "'a smbus_st"
  assume "log_inv s"
  obtain v w where r: "env_in32 E (hw_address s off) (world s) = (v, w)" by fastforce
  from \<open>log_inv s\<close> obtain s' where "vLogAddEntry E SMBUS_LOG_LEVEL_DEBUG SMBUS_INSTANCE_UNDETERMINED
      SMBUS_LOG_EVENT_HW_READ off v (s\<lparr>world := w\<rparr>) = Some s'"
    using quietD(3) [OF log_add_quiet, of "s\<lparr>world := w\<rparr>" E SMBUS_LOG_LEVEL_DEBUG SMBUS_INSTANCE_UNDETERMINED
      SMBUS_LOG_EVENT_HW_READ off v] by auto
  with r show "\<exists>v s'. prvulSMBusHardwareRead E off s = Some (v, s')"
    by (simp add: prvulSMBusHardwareRead_def)
qed

lemma hw_write_quiet [simp]: "quiet (prvvSMBusHardwareWrite E off v)"
proof (rule quietI)
  fix s s'
  assume "prvvSMBusHardwareWrite E off v s = Some s'"
  then obtain t where "vLogAddEntry E SMBUS_LOG_LEVEL_DEBUG SMBUS_INSTANCE_UNDETERMINED SMBUS_LOG_EVENT_HW_WRITE
      off v s = Some t" "s' = t\<lparr>world := env_out32 E (hw_address t off) v (world t)\<rparr>"
    by (auto simp: prvvSMBusHardwareWrite_def split: bind_splits)
  with log_add_quiet show "log_only s s' \<and> (log_inv s \<longrightarrow> log_inv s')"
    by (metis log_inv_world log_only_world(1) quietD(1,2))
next
  fix s :: "'a smbus_st"
  assume "log_inv s"
  then obtain s' where "vLogAddEntry E SMBUS_LOG_LEVEL_DEBUG SMBUS_INSTANCE_UNDETERMINED
      SMBUS_LOG_EVENT_HW_WRITE off v s = Some s'"
    using quietD(3) [OF log_add_quiet] by blast
  then show "\<exists>s'. prvvSMBusHardwareWrite E off v s = Some s'"
    by (simp add: prvvSMBusHardwareWrite_def)
qed

lemma hw_write_mask_quiet [simp]: "quiet (prvvSMBusHardwareWriteWithMask E off m v)"
  unfolding prvvSMBusHardwareWriteWithMask_def [abs_def] by (intro quietv_quiet_bind) simp_all

lemma read_field_quiet [simp]: "quietv (read_field E off m pos)"
  unfolding read_field_def [abs_def] by (intro quietv_bind) simp_all

lemma reads_quiet [simp]:
  "quietv (ulSMBusHWReadTgtDescStatusFull E)" "quietv (ulSMBusHWReadCtrlDescStatusFull E)"
  "quietv (ulSMBusHWReadTgtRxFifoPayload E)" "quietv (ulSMBusHWReadTgtRxFifoStatusEmpty E)"
  "quietv (ulSMBusHWReadTgtRxFifoStatusFillLevel E)" "quietv (ulSMBusHWReadCtrlRxFifoPayload E)"
  "quietv (ulSMBusHWReadCtrlRxFifoStatusEmpty E)" "quietv (ulSMBusHWReadCtrlRxFifoStatusFillLevel E)"
  "quietv (ulSMBusHWReadTgtDescStatusFillLevel E)" "quietv (ulSMBusHWReadCtrlDescStatusFillLevel E)"
  "quietv (ulSMBusHWReadTgtStatusActive E)" "quietv (ulSMBusHWReadTgtStatusAddress E)"
  "quietv (ulSMBusHWReadTgtStatusRW E)" "quietv (ulSMBusHWReadIRQISR E)" "quietv (ulSMBusHWReadErrIRQISR E)"
  "quietv (ulSMBusHWReadIRQIER E)" "quietv (ulSMBusHWReadErrIRQIER E)"
  "quietv (ulSMBusHWReadTgtDescStatusEmpty E)" "quietv (ulSMBusHWReadCtrlDescStatusEmpty E)"
  "quietv (ulSMBusHWReadPHYStatusSMBDATLowTimeout E)" "quietv (ulSMBusHWReadPHYStatusSMBClkLowTimeout E)"
  unfolding read_defs [abs_def] by simp_all

lemma writes_quiet [simp]:
  "quiet (vSMBusHWWriteTgtDescFifo E v)" "quiet (vSMBusHWWriteCtrlDescFifo E v)"
  "quiet (vSMBusHWWriteTgtRxFifoReset E v)" "quiet (vSMBusHWWriteCtrlRxFifoReset E v)"
  "quiet (vSMBusHWWriteCtrlDescFifoReset E v)" "quiet (vSMBusHWWriteRxFifoFillThresholdFillThresh E v)"
  "quiet (vSMBusHWWriteCtrlRxFifoFillThreshold E v)" "quiet (vSMBusHWWriteIRQISR E v)"
  "quiet (vSMBusHWWriteERRIRQISR E v)" "quiet (vSMBusHWWriteIRQIER E v)" "quiet (vSMBusHWWriteERRIRQIER E v)"
  "quiet (vSMBusHWWriteIRQGIEEnable E v)" "quiet (vSMBusHWWriteCtrlControlEnable E v)"
  unfolding write_defs [abs_def] by simp_all

lemma tgt_control_quiet [simp]:
  "quiet (vSMBusHWWriteTgtControlAddress E n v)" "quiet (vSMBusHWWriteTgtControlEnable E n v)"
  unfolding vSMBusHWWriteTgtControlAddress_def [abs_def] vSMBusHWWriteTgtControlEnable_def [abs_def]
    write_defs [abs_def] by (intro quiet_if; simp)+

lemma desc_apply_quiet [simp]:
  "quietv (prvucSMBusTargetDescriptorApply E d p c)" "quietv (prvucSMBusControllerDescriptorApply E d p c)"
  unfolding prvucSMBusTargetDescriptorApply_def [abs_def] prvucSMBusControllerDescriptorApply_def [abs_def]
  by (intro quietv_bind quietv_if quiet_quietv_bind; simp)+

lemma descs_quiet [simp]:
  "quietv (ucSMBusTargetReadDescriptorRead E b)" "quietv (ucSMBusTargetReadDescriptorPECRead E)"
  "quietv (ucSMBusTargetWriteDescriptorACK E c)" "quietv (ucSMBusTargetWriteDescriptorNACK E)"
  "quietv (ucSMBusTargetWriteDescriptorPEC E)" "quietv (ucSMBusControllerWriteDescriptorStartWrite E b)"
  "quietv (ucSMBusControllerWriteDescriptorQuickWrite E b)" "quietv (ucSMBusControllerWriteDescriptorByte E b c)"
  "quietv (ucSMBusControllerWriteDescriptorStopWrite E b)" "quietv (ucSMBusControllerWriteDescriptorPECWrite E)"
  "quietv (ucSMBusControllerReadDescriptorStart E b)" "quietv (ucSMBusControllerReadDescriptorQuickRead E b)"
  "quietv (ucSMBusControllerReadDescriptorByte E c)" "quietv (ucSMBusControllerReadDescriptorStop E)"
  "quietv (ucSMBusControllerReadDescriptorPEC E)"
  unfolding desc_defs [abs_def] by simp_all

end
