(* ===== verification/SMBus_Event.thy ===== *)
theory SMBus_Event
  imports SMBus_HW
begin

text \<open>
  The events of the SMBus state machine, \<open>smbus_event.h\<close> and \<open>smbus_event.c\<close>: their codes,
  raising one against an instance (a write to the instance's event buffer; a full buffer
  is logged and the event is dropped), and the names they are shown by.  The line numbers
  the code logs with \<open>__LINE__\<close> are kept.
\<close>

abbreviation (input) E_TARGET_WRITE_IRQ :: u8 where "E_TARGET_WRITE_IRQ \<equiv> 0x01"
abbreviation (input) E_TARGET_READ_IRQ :: u8 where "E_TARGET_READ_IRQ \<equiv> 0x02"
abbreviation (input) E_TARGET_DATA_IRQ :: u8 where "E_TARGET_DATA_IRQ \<equiv> 0x03"
abbreviation (input) E_TARGET_DONE_IRQ :: u8 where "E_TARGET_DONE_IRQ \<equiv> 0x04"
abbreviation (input) E_TARGET_DESC_IRQ :: u8 where "E_TARGET_DESC_IRQ \<equiv> 0x05"
abbreviation (input) E_TARGET_LOA_ERROR_IRQ :: u8 where "E_TARGET_LOA_ERROR_IRQ \<equiv> 0x06"
abbreviation (input) E_TARGET_PEC_ERROR_IRQ :: u8 where "E_TARGET_PEC_ERROR_IRQ \<equiv> 0x07"
abbreviation (input) E_TARGET_PHY_TEXT_TIMEOUT_ERROR_IRQ :: u8 where "E_TARGET_PHY_TEXT_TIMEOUT_ERROR_IRQ \<equiv> 0x08"
abbreviation (input) E_TARGET_RX_FIFO_ERROR_ERROR_IRQ :: u8 where "E_TARGET_RX_FIFO_ERROR_ERROR_IRQ \<equiv> 0x09"
abbreviation (input) E_TARGET_RX_FIFO_OVERFLOW_ERROR_IRQ :: u8 where "E_TARGET_RX_FIFO_OVERFLOW_ERROR_IRQ \<equiv> 0x0A"
abbreviation (input) E_TARGET_RX_FIFO_UNDERFLOW_ERROR_IRQ :: u8 where "E_TARGET_RX_FIFO_UNDERFLOW_ERROR_IRQ \<equiv> 0x0B"
abbreviation (input) E_TARGET_DESC_FIFO_ERROR_IRQ :: u8 where "E_TARGET_DESC_FIFO_ERROR_IRQ \<equiv> 0x0C"
abbreviation (input) E_TARGET_DESC_FIFO_OVERFLOW_ERROR_IRQ :: u8 where "E_TARGET_DESC_FIFO_OVERFLOW_ERROR_IRQ \<equiv> 0x0D"
abbreviation (input) E_TARGET_DESC_FIFO_UNDERFLOW_ERROR_IRQ :: u8 where "E_TARGET_DESC_FIFO_UNDERFLOW_ERROR_IRQ \<equiv> 0x0E"
abbreviation (input) E_TARGET_DESC_ERROR_IRQ :: u8 where "E_TARGET_DESC_ERROR_IRQ \<equiv> 0x0F"
abbreviation (input) E_TARGET_PHY_UNEXPTD_BUS_IDLE_ERROR_IRQ :: u8 where "E_TARGET_PHY_UNEXPTD_BUS_IDLE_ERROR_IRQ \<equiv> 0x10"
abbreviation (input) E_TARGET_PHY_SMBDAT_LOW_TIMEOUT_DESC_ERROR_IRQ :: u8 where "E_TARGET_PHY_SMBDAT_LOW_TIMEOUT_DESC_ERROR_IRQ \<equiv> 0x11"
abbreviation (input) E_TARGET_PHY_SMBCLK_LOW_TIMEOUT_ERROR_IRQ :: u8 where "E_TARGET_PHY_SMBCLK_LOW_TIMEOUT_ERROR_IRQ \<equiv> 0x12"
abbreviation (input) E_CONTROLLER_WRITE_IRQ :: u8 where "E_CONTROLLER_WRITE_IRQ \<equiv> 0x13"
abbreviation (input) E_CONTROLLER_READ_IRQ :: u8 where "E_CONTROLLER_READ_IRQ \<equiv> 0x14"
abbreviation (input) E_CONTROLLER_DATA_IRQ :: u8 where "E_CONTROLLER_DATA_IRQ \<equiv> 0x15"
abbreviation (input) E_CONTROLLER_DONE_IRQ :: u8 where "E_CONTROLLER_DONE_IRQ \<equiv> 0x16"
abbreviation (input) E_CONTROLLER_DESC_FIFO_ALMOST_EMPTY_IRQ :: u8 where "E_CONTROLLER_DESC_FIFO_ALMOST_EMPTY_IRQ \<equiv> 0x17"
abbreviation (input) E_CONTROLLER_LOA_ERROR_IRQ :: u8 where "E_CONTROLLER_LOA_ERROR_IRQ \<equiv> 0x18"
abbreviation (input) E_CONTROLLER_NACK_ERROR_IRQ :: u8 where "E_CONTROLLER_NACK_ERROR_IRQ \<equiv> 0x19"
abbreviation (input) E_CONTROLLER_PEC_ERROR_IRQ :: u8 where "E_CONTROLLER_PEC_ERROR_IRQ \<equiv> 0x1A"
abbreviation (input) E_CONTROLLER_PHY_CTLR_TEXT_TIMEOUT_ERROR_IRQ :: u8 where "E_CONTROLLER_PHY_CTLR_TEXT_TIMEOUT_ERROR_IRQ \<equiv> 0x1B"
abbreviation (input) E_CONTROLLER_PHY_CTLR_CEXT_TIMEOUT_ERROR_IRQ :: u8 where "E_CONTROLLER_PHY_CTLR_CEXT_TIMEOUT_ERROR_IRQ \<equiv> 0x1C"
abbreviation (input) E_CONTROLLER_RX_FIFO_ERROR_IRQ :: u8 where "E_CONTROLLER_RX_FIFO_ERROR_IRQ \<equiv> 0x1D"
abbreviation (input) E_CONTROLLER_RX_FIFO_OVERFLOW_ERROR_IRQ :: u8 where "E_CONTROLLER_RX_FIFO_OVERFLOW_ERROR_IRQ \<equiv> 0x1E"
abbreviation (input) E_CONTROLLER_RX_FIFO_UNDERFLOW_ERROR_IRQ :: u8 where "E_CONTROLLER_RX_FIFO_UNDERFLOW_ERROR_IRQ \<equiv> 0x1F"
abbreviation (input) E_CONTROLLER_DESC_FIFO_ERROR_IRQ :: u8 where "E_CONTROLLER_DESC_FIFO_ERROR_IRQ \<equiv> 0x20"
abbreviation (input) E_CONTROLLER_DESC_FIFO_OVERFLOW_ERROR_IRQ :: u8 where "E_CONTROLLER_DESC_FIFO_OVERFLOW_ERROR_IRQ \<equiv> 0x21"
abbreviation (input) E_CONTROLLER_DESC_FIFO_UNDERFLOW_ERROR_IRQ :: u8 where "E_CONTROLLER_DESC_FIFO_UNDERFLOW_ERROR_IRQ \<equiv> 0x22"
abbreviation (input) E_CONTROLLER_DESC_ERROR_IRQ :: u8 where "E_CONTROLLER_DESC_ERROR_IRQ \<equiv> 0x23"
abbreviation (input) E_SEND_NEXT_BYTE :: u8 where "E_SEND_NEXT_BYTE \<equiv> 0x24"
abbreviation (input) E_IS_PEC_REQUIRED :: u8 where "E_IS_PEC_REQUIRED \<equiv> 0x25"
abbreviation (input) E_DESC_FIFO_ALMOST_EMPTY_IRQ :: u8 where "E_DESC_FIFO_ALMOST_EMPTY_IRQ \<equiv> 0x26"

abbreviation inst_num :: "nat \<Rightarrow> 'w smbus_st \<Rightarrow> u32" where
  "inst_num i s \<equiv> ucast (ucThisInstanceNum (inst i s))"

definition vSMBusCreateEvent :: "'w smbus_env \<Rightarrow> nat \<Rightarrow> u8 \<Rightarrow> 'w smbus_st \<Rightarrow> 'w smbus_st option" where
  "vSMBusCreateEvent E i ucAnyEvent s = do {
     (res, pos, buf) \<leftarrow> ucEventBufferTryWrite (xEventSrcCircularBuf (inst i s)) ucAnyEvent 0;
     let s = upd_inst i (\<lambda>x. x\<lparr>xEventSrcCircularBuf := buf\<rparr>) s;
     if res = SMBUS_EVENT_BUFFER_FAIL
     then vLogAddEntry E SMBUS_LOG_LEVEL_ERROR (inst_num i s) SMBUS_LOG_EVENT_ERROR (ucast ucAnyEvent) 89 s
     else Some s }"

definition vSMBusGenerateEvent_E_IS_PEC_REQUIRED :: "'w smbus_env \<Rightarrow> nat \<Rightarrow> 'w smbus_st \<Rightarrow> 'w smbus_st option" where
  "vSMBusGenerateEvent_E_IS_PEC_REQUIRED E i s = do {
     s \<leftarrow> vSMBusCreateEvent E i E_IS_PEC_REQUIRED s;
     Some (upd_inst i (\<lambda>x. x\<lparr>ucTriggerFSM := SMBUS_TRUE\<rparr>) s) }"

definition vSMBusGenerateEvent_E_SEND_NEXT_BYTE :: "'w smbus_env \<Rightarrow> nat \<Rightarrow> 'w smbus_st \<Rightarrow> 'w smbus_st option" where
  "vSMBusGenerateEvent_E_SEND_NEXT_BYTE E i s = do {
     s \<leftarrow> vSMBusCreateEvent E i E_SEND_NEXT_BYTE s;
     Some (upd_inst i (\<lambda>x. x\<lparr>ucTriggerFSM := SMBUS_TRUE\<rparr>) s) }"

definition vSMBusGenerateEvent_E_TARGET_WRITE_IRQ :: "'w smbus_env \<Rightarrow> nat \<Rightarrow> 'w smbus_st \<Rightarrow> 'w smbus_st option" where
  "vSMBusGenerateEvent_E_TARGET_WRITE_IRQ E i s =
     vSMBusCreateEvent E i E_TARGET_WRITE_IRQ s"

definition vSMBusGenerateEvent_E_TARGET_DATA_IRQ :: "'w smbus_env \<Rightarrow> nat \<Rightarrow> 'w smbus_st \<Rightarrow> 'w smbus_st option" where
  "vSMBusGenerateEvent_E_TARGET_DATA_IRQ E i s =
     vSMBusCreateEvent E i E_TARGET_DATA_IRQ s"

definition vSMBusGenerateEvent_E_CONTROLLER_DATA_IRQ :: "'w smbus_env \<Rightarrow> nat \<Rightarrow> 'w smbus_st \<Rightarrow> 'w smbus_st option" where
  "vSMBusGenerateEvent_E_CONTROLLER_DATA_IRQ E i s =
     vSMBusCreateEvent E i E_CONTROLLER_DATA_IRQ s"

definition vSMBusGenerateEvent_E_TARGET_READ_IRQ :: "'w smbus_env \<Rightarrow> nat \<Rightarrow> 'w smbus_st \<Rightarrow> 'w smbus_st option" where
  "vSMBusGenerateEvent_E_TARGET_READ_IRQ E i s =
     vSMBusCreateEvent E i E_TARGET_READ_IRQ s"

definition vSMBusGenerateEvent_E_TARGET_DONE_IRQ :: "'w smbus_env \<Rightarrow> nat \<Rightarrow> 'w smbus_st \<Rightarrow> 'w smbus_st option" where
  "vSMBusGenerateEvent_E_TARGET_DONE_IRQ E i s =
     vSMBusCreateEvent E i E_TARGET_DONE_IRQ s"

definition vSMBusGenerateEvent_E_CONTROLLER_DONE_IRQ :: "'w smbus_env \<Rightarrow> nat \<Rightarrow> 'w smbus_st \<Rightarrow> 'w smbus_st option" where
  "vSMBusGenerateEvent_E_CONTROLLER_DONE_IRQ E i s =
     vSMBusCreateEvent E i E_CONTROLLER_DONE_IRQ s"

definition vSMBusGenerateEvent_E_TARGET_LOA_ERROR_IRQ :: "'w smbus_env \<Rightarrow> nat \<Rightarrow> 'w smbus_st \<Rightarrow> 'w smbus_st option" where
  "vSMBusGenerateEvent_E_TARGET_LOA_ERROR_IRQ E i s =
     vSMBusCreateEvent E i E_TARGET_LOA_ERROR_IRQ s"

definition vSMBusGenerateEvent_E_TARGET_PEC_ERROR_IRQ :: "'w smbus_env \<Rightarrow> nat \<Rightarrow> 'w smbus_st \<Rightarrow> 'w smbus_st option" where
  "vSMBusGenerateEvent_E_TARGET_PEC_ERROR_IRQ E i s =
     vSMBusCreateEvent E i E_TARGET_PEC_ERROR_IRQ s"

definition vSMBusGenerateEvent_E_TARGET_PHY_TEXT_TIMEOUT_ERROR_IRQ :: "'w smbus_env \<Rightarrow> nat \<Rightarrow> 'w smbus_st \<Rightarrow> 'w smbus_st option" where
  "vSMBusGenerateEvent_E_TARGET_PHY_TEXT_TIMEOUT_ERROR_IRQ E i s =
     vSMBusCreateEvent E i E_TARGET_PHY_TEXT_TIMEOUT_ERROR_IRQ s"

definition vSMBusGenerateEvent_E_TARGET_RX_FIFO_ERROR_ERROR_IRQ :: "'w smbus_env \<Rightarrow> nat \<Rightarrow> 'w smbus_st \<Rightarrow> 'w smbus_st option" where
  "vSMBusGenerateEvent_E_TARGET_RX_FIFO_ERROR_ERROR_IRQ E i s =
     vSMBusCreateEvent E i E_TARGET_RX_FIFO_ERROR_ERROR_IRQ s"

definition vSMBusGenerateEvent_E_TARGET_RX_FIFO_OVERFLOW_ERROR_IRQ :: "'w smbus_env \<Rightarrow> nat \<Rightarrow> 'w smbus_st \<Rightarrow> 'w smbus_st option" where
  "vSMBusGenerateEvent_E_TARGET_RX_FIFO_OVERFLOW_ERROR_IRQ E i s =
     vSMBusCreateEvent E i E_TARGET_RX_FIFO_OVERFLOW_ERROR_IRQ s"

definition vSMBusGenerateEvent_E_TARGET_RX_FIFO_UNDERFLOW_ERROR_IRQ :: "'w smbus_env \<Rightarrow> nat \<Rightarrow> 'w smbus_st \<Rightarrow> 'w smbus_st option" where
  "vSMBusGenerateEvent_E_TARGET_RX_FIFO_UNDERFLOW_ERROR_IRQ E i s =
     vSMBusCreateEvent E i E_TARGET_RX_FIFO_UNDERFLOW_ERROR_IRQ s"

definition vSMBusGenerateEvent_E_TARGET_DESC_FIFO_ERROR_IRQ :: "'w smbus_env \<Rightarrow> nat \<Rightarrow> 'w smbus_st \<Rightarrow> 'w smbus_st option" where
  "vSMBusGenerateEvent_E_TARGET_DESC_FIFO_ERROR_IRQ E i s =
     vSMBusCreateEvent E i E_TARGET_DESC_FIFO_ERROR_IRQ s"

definition vSMBusGenerateEvent_E_TARGET_DESC_FIFO_OVERFLOW_ERROR_IRQ :: "'w smbus_env \<Rightarrow> nat \<Rightarrow> 'w smbus_st \<Rightarrow> 'w smbus_st option" where
  "vSMBusGenerateEvent_E_TARGET_DESC_FIFO_OVERFLOW_ERROR_IRQ E i s =
     vSMBusCreateEvent E i E_TARGET_DESC_FIFO_OVERFLOW_ERROR_IRQ s"

definition vSMBusGenerateEvent_E_TARGET_DESC_FIFO_UNDERFLOW_ERROR_IRQ :: "'w smbus_env \<Rightarrow> nat \<Rightarrow> 'w smbus_st \<Rightarrow> 'w smbus_st option" where
  "vSMBusGenerateEvent_E_TARGET_DESC_FIFO_UNDERFLOW_ERROR_IRQ E i s =
     vSMBusCreateEvent E i E_TARGET_DESC_FIFO_UNDERFLOW_ERROR_IRQ s"

definition vSMBusGenerateEvent_E_TARGET_DESC_ERROR_IRQ :: "'w smbus_env \<Rightarrow> nat \<Rightarrow> 'w smbus_st \<Rightarrow> 'w smbus_st option" where
  "vSMBusGenerateEvent_E_TARGET_DESC_ERROR_IRQ E i s =
     vSMBusCreateEvent E i E_TARGET_DESC_ERROR_IRQ s"

definition vSMBusGenerateEvent_E_TARGET_PHY_UNEXPTD_BUS_IDLE_ERROR_IRQ :: "'w smbus_env \<Rightarrow> nat \<Rightarrow> 'w smbus_st \<Rightarrow> 'w smbus_st option" where
  "vSMBusGenerateEvent_E_TARGET_PHY_UNEXPTD_BUS_IDLE_ERROR_IRQ E i s =
     vSMBusCreateEvent E i E_TARGET_PHY_UNEXPTD_BUS_IDLE_ERROR_IRQ s"

definition vSMBusGenerateEvent_E_TARGET_PHY_SMBDAT_LOW_TIMEOUT_DESC_ERROR_IRQ :: "'w smbus_env \<Rightarrow> nat \<Rightarrow> 'w smbus_st \<Rightarrow> 'w smbus_st option" where
  "vSMBusGenerateEvent_E_TARGET_PHY_SMBDAT_LOW_TIMEOUT_DESC_ERROR_IRQ E i s =
     vSMBusCreateEvent E i E_TARGET_PHY_SMBDAT_LOW_TIMEOUT_DESC_ERROR_IRQ s"

definition vSMBusGenerateEvent_E_TARGET_PHY_SMBCLK_LOW_TIMEOUT_ERROR_IRQ :: "'w smbus_env \<Rightarrow> nat \<Rightarrow> 'w smbus_st \<Rightarrow> 'w smbus_st option" where
  "vSMBusGenerateEvent_E_TARGET_PHY_SMBCLK_LOW_TIMEOUT_ERROR_IRQ E i s =
     vSMBusCreateEvent E i E_TARGET_PHY_SMBCLK_LOW_TIMEOUT_ERROR_IRQ s"

definition vSMBusGenerateEvent_E_CONTROLLER_LOA_ERROR_IRQ :: "'w smbus_env \<Rightarrow> nat \<Rightarrow> 'w smbus_st \<Rightarrow> 'w smbus_st option" where
  "vSMBusGenerateEvent_E_CONTROLLER_LOA_ERROR_IRQ E i s =
     vSMBusCreateEvent E i E_CONTROLLER_LOA_ERROR_IRQ s"

definition vSMBusGenerateEvent_E_CONTROLLER_NACK_ERROR_IRQ :: "'w smbus_env \<Rightarrow> nat \<Rightarrow> 'w smbus_st \<Rightarrow> 'w smbus_st option" where
  "vSMBusGenerateEvent_E_CONTROLLER_NACK_ERROR_IRQ E i s =
     vSMBusCreateEvent E i E_CONTROLLER_NACK_ERROR_IRQ s"

definition vSMBusGenerateEvent_E_CONTROLLER_PEC_ERROR_IRQ :: "'w smbus_env \<Rightarrow> nat \<Rightarrow> 'w smbus_st \<Rightarrow> 'w smbus_st option" where
  "vSMBusGenerateEvent_E_CONTROLLER_PEC_ERROR_IRQ E i s =
     vSMBusCreateEvent E i E_CONTROLLER_PEC_ERROR_IRQ s"

definition vSMBusGenerateEvent_E_CONTROLLER_PHY_CTLR_TEXT_TIMEOUT_ERROR_IRQ :: "'w smbus_env \<Rightarrow> nat \<Rightarrow> 'w smbus_st \<Rightarrow> 'w smbus_st option" where
  "vSMBusGenerateEvent_E_CONTROLLER_PHY_CTLR_TEXT_TIMEOUT_ERROR_IRQ E i s =
     vSMBusCreateEvent E i E_CONTROLLER_PHY_CTLR_TEXT_TIMEOUT_ERROR_IRQ s"

definition vSMBusGenerateEvent_E_CONTROLLER_PHY_CTLR_CEXT_TIMEOUT_ERROR_IRQ :: "'w smbus_env \<Rightarrow> nat \<Rightarrow> 'w smbus_st \<Rightarrow> 'w smbus_st option" where
  "vSMBusGenerateEvent_E_CONTROLLER_PHY_CTLR_CEXT_TIMEOUT_ERROR_IRQ E i s =
     vSMBusCreateEvent E i E_CONTROLLER_PHY_CTLR_CEXT_TIMEOUT_ERROR_IRQ s"

definition vSMBusGenerateEvent_E_CONTROLLER_RX_FIFO_ERROR_IRQ :: "'w smbus_env \<Rightarrow> nat \<Rightarrow> 'w smbus_st \<Rightarrow> 'w smbus_st option" where
  "vSMBusGenerateEvent_E_CONTROLLER_RX_FIFO_ERROR_IRQ E i s =
     vSMBusCreateEvent E i E_CONTROLLER_RX_FIFO_ERROR_IRQ s"

definition vSMBusGenerateEvent_E_CONTROLLER_RX_FIFO_OVERFLOW_ERROR_IRQ :: "'w smbus_env \<Rightarrow> nat \<Rightarrow> 'w smbus_st \<Rightarrow> 'w smbus_st option" where
  "vSMBusGenerateEvent_E_CONTROLLER_RX_FIFO_OVERFLOW_ERROR_IRQ E i s =
     vSMBusCreateEvent E i E_CONTROLLER_RX_FIFO_OVERFLOW_ERROR_IRQ s"

definition vSMBusGenerateEvent_E_CONTROLLER_RX_FIFO_UNDERFLOW_ERROR_IRQ :: "'w smbus_env \<Rightarrow> nat \<Rightarrow> 'w smbus_st \<Rightarrow> 'w smbus_st option" where
  "vSMBusGenerateEvent_E_CONTROLLER_RX_FIFO_UNDERFLOW_ERROR_IRQ E i s =
     vSMBusCreateEvent E i E_CONTROLLER_RX_FIFO_UNDERFLOW_ERROR_IRQ s"

definition vSMBusGenerateEvent_E_CONTROLLER_DESC_FIFO_ERROR_IRQ :: "'w smbus_env \<Rightarrow> nat \<Rightarrow> 'w smbus_st \<Rightarrow> 'w smbus_st option" where
  "vSMBusGenerateEvent_E_CONTROLLER_DESC_FIFO_ERROR_IRQ E i s =
     vSMBusCreateEvent E i E_CONTROLLER_DESC_FIFO_ERROR_IRQ s"

definition vSMBusGenerateEvent_E_CONTROLLER_DESC_FIFO_OVERFLOW_ERROR_IRQ :: "'w smbus_env \<Rightarrow> nat \<Rightarrow> 'w smbus_st \<Rightarrow> 'w smbus_st option" where
  "vSMBusGenerateEvent_E_CONTROLLER_DESC_FIFO_OVERFLOW_ERROR_IRQ E i s =
     vSMBusCreateEvent E i E_CONTROLLER_DESC_FIFO_OVERFLOW_ERROR_IRQ s"

definition vSMBusGenerateEvent_E_CONTROLLER_DESC_FIFO_UNDERFLOW_ERROR_IRQ :: "'w smbus_env \<Rightarrow> nat \<Rightarrow> 'w smbus_st \<Rightarrow> 'w smbus_st option" where
  "vSMBusGenerateEvent_E_CONTROLLER_DESC_FIFO_UNDERFLOW_ERROR_IRQ E i s =
     vSMBusCreateEvent E i E_CONTROLLER_DESC_FIFO_UNDERFLOW_ERROR_IRQ s"

definition vSMBusGenerateEvent_E_CONTROLLER_DESC_ERROR_IRQ :: "'w smbus_env \<Rightarrow> nat \<Rightarrow> 'w smbus_st \<Rightarrow> 'w smbus_st option" where
  "vSMBusGenerateEvent_E_CONTROLLER_DESC_ERROR_IRQ E i s =
     vSMBusCreateEvent E i E_CONTROLLER_DESC_ERROR_IRQ s"

definition vSMBusGenerateEvent_E_DESC_FIFO_ALMOST_EMPTY_IRQ :: "'w smbus_env \<Rightarrow> nat \<Rightarrow> 'w smbus_st \<Rightarrow> 'w smbus_st option" where
  "vSMBusGenerateEvent_E_DESC_FIFO_ALMOST_EMPTY_IRQ E i s =
     vSMBusCreateEvent E i E_DESC_FIFO_ALMOST_EMPTY_IRQ s"

definition vSMBusGenerateEvent_E_CONTROLLER_DESC_FIFO_ALMOST_EMPTY_IRQ :: "'w smbus_env \<Rightarrow> nat \<Rightarrow> 'w smbus_st \<Rightarrow> 'w smbus_st option" where
  "vSMBusGenerateEvent_E_CONTROLLER_DESC_FIFO_ALMOST_EMPTY_IRQ E i s =
     vSMBusCreateEvent E i E_CONTROLLER_DESC_FIFO_ALMOST_EMPTY_IRQ s"

definition pcEventToString :: "u8 \<Rightarrow> string" where
  "pcEventToString ucAnyEvent =
     (if ucAnyEvent = E_TARGET_WRITE_IRQ then ''E_TARGET_WRITE_IRQ''
      else if ucAnyEvent = E_TARGET_READ_IRQ then ''E_TARGET_READ_IRQ''
      else if ucAnyEvent = E_TARGET_DATA_IRQ then ''E_TARGET_DATA_IRQ''
      else if ucAnyEvent = E_TARGET_DONE_IRQ then ''E_TARGET_DONE_IRQ''
      else if ucAnyEvent = E_TARGET_DESC_IRQ then ''E_TARGET_DESC_IRQ''
      else if ucAnyEvent = E_TARGET_LOA_ERROR_IRQ then ''E_TARGET_LOA_ERROR_IRQ''
      else if ucAnyEvent = E_TARGET_PEC_ERROR_IRQ then ''E_TARGET_PEC_ERROR_IRQ''
      else if ucAnyEvent = E_TARGET_PHY_TEXT_TIMEOUT_ERROR_IRQ then ''E_TARGET_PHY_TEXT_TIMEOUT_ERROR_IRQ''
      else if ucAnyEvent = E_TARGET_RX_FIFO_ERROR_ERROR_IRQ then ''E_TARGET_RX_FIFO_ERROR_ERROR_IRQ''
      else if ucAnyEvent = E_TARGET_RX_FIFO_OVERFLOW_ERROR_IRQ then ''E_TARGET_RX_FIFO_OVERFLOW_ERROR_IRQ''
      else if ucAnyEvent = E_TARGET_RX_FIFO_UNDERFLOW_ERROR_IRQ then ''E_TARGET_RX_FIFO_UNDERFLOW_ERROR_IRQ''
      else if ucAnyEvent = E_TARGET_DESC_FIFO_ERROR_IRQ then ''E_TARGET_DESC_FIFO_ERROR_IRQ''
      else if ucAnyEvent = E_TARGET_DESC_FIFO_OVERFLOW_ERROR_IRQ then ''E_TARGET_DESC_FIFO_OVERFLOW_ERROR_IRQ''
      else if ucAnyEvent = E_TARGET_DESC_FIFO_UNDERFLOW_ERROR_IRQ then ''E_TARGET_DESC_FIFO_UNDERFLOW_ERROR_IRQ''
      else if ucAnyEvent = E_TARGET_DESC_ERROR_IRQ then ''E_TARGET_DESC_ERROR_IRQ''
      else if ucAnyEvent = E_TARGET_PHY_UNEXPTD_BUS_IDLE_ERROR_IRQ then ''E_TARGET_PHY_UNEXPTD_BUS_IDLE_ERROR_IRQ''
      else if ucAnyEvent = E_TARGET_PHY_SMBDAT_LOW_TIMEOUT_DESC_ERROR_IRQ then ''E_TARGET_PHY_SMBDAT_LOW_TIMEOUT_DESC_ERROR_IRQ''
      else if ucAnyEvent = E_TARGET_PHY_SMBCLK_LOW_TIMEOUT_ERROR_IRQ then ''E_TARGET_PHY_SMBCLK_LOW_TIMEOUT_ERROR_IRQ''
      else if ucAnyEvent = E_CONTROLLER_WRITE_IRQ then ''E_CONTROLLER_WRITE_IRQ''
      else if ucAnyEvent = E_CONTROLLER_READ_IRQ then ''E_CONTROLLER_READ_IRQ''
      else if ucAnyEvent = E_CONTROLLER_DATA_IRQ then ''E_CONTROLLER_DATA_IRQ''
      else if ucAnyEvent = E_CONTROLLER_DONE_IRQ then ''E_CONTROLLER_DONE_IRQ''
      else if ucAnyEvent = E_CONTROLLER_DESC_FIFO_ALMOST_EMPTY_IRQ then ''E_CONTROLLER_DESC_FIFO_ALMOST_EMPTY_IRQ''
      else if ucAnyEvent = E_CONTROLLER_LOA_ERROR_IRQ then ''E_CONTROLLER_LOA_ERROR_IRQ''
      else if ucAnyEvent = E_CONTROLLER_NACK_ERROR_IRQ then ''E_CONTROLLER_NACK_ERROR_IRQ''
      else if ucAnyEvent = E_CONTROLLER_PEC_ERROR_IRQ then ''E_CONTROLLER_PEC_ERROR_IRQ''
      else if ucAnyEvent = E_CONTROLLER_PHY_CTLR_TEXT_TIMEOUT_ERROR_IRQ then ''E_CONTROLLER_PHY_CTLR_TEXT_TIMEOUT_ERROR_IRQ''
      else if ucAnyEvent = E_CONTROLLER_PHY_CTLR_CEXT_TIMEOUT_ERROR_IRQ then ''E_CONTROLLER_PHY_CTLR_CEXT_TIMEOUT_ERROR_IRQ''
      else if ucAnyEvent = E_CONTROLLER_RX_FIFO_ERROR_IRQ then ''E_CONTROLLER_RX_FIFO_ERROR_IRQ''
      else if ucAnyEvent = E_CONTROLLER_RX_FIFO_OVERFLOW_ERROR_IRQ then ''E_CONTROLLER_RX_FIFO_OVERFLOW_ERROR_IRQ''
      else if ucAnyEvent = E_CONTROLLER_RX_FIFO_UNDERFLOW_ERROR_IRQ then ''E_CONTROLLER_RX_FIFO_UNDERFLOW_ERROR_IRQ''
      else if ucAnyEvent = E_CONTROLLER_DESC_FIFO_ERROR_IRQ then ''E_CONTROLLER_DESC_FIFO_ERROR_IRQ''
      else if ucAnyEvent = E_CONTROLLER_DESC_FIFO_OVERFLOW_ERROR_IRQ then ''E_CONTROLLER_DESC_FIFO_OVERFLOW_ERROR_IRQ''
      else if ucAnyEvent = E_CONTROLLER_DESC_FIFO_UNDERFLOW_ERROR_IRQ then ''E_CONTROLLER_DESC_FIFO_UNDERFLOW_ERROR_IRQ''
      else if ucAnyEvent = E_CONTROLLER_DESC_ERROR_IRQ then ''E_CONTROLLER_DESC_ERROR_IRQ''
      else if ucAnyEvent = E_SEND_NEXT_BYTE then ''E_SEND_NEXT_BYTE''
      else if ucAnyEvent = E_IS_PEC_REQUIRED then ''E_IS_PEC_REQUIRED''
      else if ucAnyEvent = E_DESC_FIFO_ALMOST_EMPTY_IRQ then ''E_DESC_FIFO_ALMOST_EMPTY_IRQ''
      else ''UNKNOWN'')"

text \<open>The names of the event codes, in the order of the codes.\<close>

definition event_names :: "string list" where
  "event_names = map pcEventToString [1, 2, 3, 4, 5, 6, 7, 8, 9, 0xA, 0xB, 0xC, 0xD, 0xE, 0xF, 0x10, 0x11,
     0x12, 0x13, 0x14, 0x15, 0x16, 0x17, 0x18, 0x19, 0x1A, 0x1B, 0x1C, 0x1D, 0x1E, 0x1F, 0x20, 0x21, 0x22,
     0x23, 0x24, 0x25, 0x26]"

end
