(* ===== verification/SMBus_Action.thy ===== *)
theory SMBus_Action
  imports SMBus_Event
begin

text \<open>
  The actions the state machine performs, \<open>smbus_action.c\<close>: resetting an instance's
  transaction data (with the draining of the receive FIFO), fetching and delivering data
  through the application's callbacks, and reporting results, errors and warnings.
\<close>

abbreviation (input) SMBUS_RX_FIFO_IS_EMPTY :: u32 where "SMBUS_RX_FIFO_IS_EMPTY \<equiv> 1"
abbreviation (input) SMBUS_ACTION_ARP_PROTOCOL_DETERMINED :: u8 where "SMBUS_ACTION_ARP_PROTOCOL_DETERMINED \<equiv> 0"
abbreviation (input) SMBUS_ACTION_ARP_PROTOCOL_UNDETERMINED :: u8 where "SMBUS_ACTION_ARP_PROTOCOL_UNDETERMINED \<equiv> 1"
abbreviation (input) SMBUS_ARP_DIRECTED_COMMAND_MASK :: u8 where "SMBUS_ARP_DIRECTED_COMMAND_MASK \<equiv> 0x01"
abbreviation (input) SMBUS_ARP_UDID_DIRECTED_COMMAND :: u8 where "SMBUS_ARP_UDID_DIRECTED_COMMAND \<equiv> 0x01"
abbreviation (input) SMBUS_ARP_DIRECTED_COMMAND_ADDRESS_MASK :: u8 where "SMBUS_ARP_DIRECTED_COMMAND_ADDRESS_MASK \<equiv> 0xFE"

definition vSMBusClearAction :: "nat \<Rightarrow> 'w smbus_st \<Rightarrow> 'w smbus_st" where
  "vSMBusClearAction i s = upd_inst i (\<lambda>x. x\<lparr>ulAction := 0\<rparr>) s"

definition vSMBusAction :: "nat \<Rightarrow> u32 \<Rightarrow> 'w smbus_st \<Rightarrow> 'w smbus_st" where
  "vSMBusAction i ulAnyAction s = upd_inst i (\<lambda>x. x\<lparr>ulAction := ulAction x OR ulAnyAction\<rparr>) s"

text \<open>
  The draining loops end when the hardware reports an empty FIFO; nothing else bounds them,
  so they are partial functions.
\<close>

partial_function (option) drain_ctrl :: "'w smbus_env \<Rightarrow> 'w smbus_st \<Rightarrow> 'w smbus_st option" where
  "drain_ctrl E s =
     Option.bind (ulSMBusHWReadCtrlRxFifoStatusEmpty E s) (\<lambda>r.
       if fst r = 0
       then Option.bind (ulSMBusHWReadCtrlRxFifoPayload E (snd r)) (\<lambda>q. drain_ctrl E (snd q))
       else Some (snd r))"

partial_function (option) drain_tgt :: "'w smbus_env \<Rightarrow> 'w smbus_st \<Rightarrow> 'w smbus_st option" where
  "drain_tgt E s =
     Option.bind (ulSMBusHWReadTgtRxFifoStatusEmpty E s) (\<lambda>r.
       if fst r = 0
       then Option.bind (ulSMBusHWReadTgtRxFifoPayload E (snd r)) (\<lambda>q. drain_tgt E (snd q))
       else Some (snd r))"

text \<open>The fields of the instance that a reset clears.\<close>

definition reset_data :: "SMBus_Instance \<Rightarrow> SMBus_Instance" where
  "reset_data x = x\<lparr>ucCommand := SMBUS_COMMAND_INVALID, xProtocol := SMBUS_PROTOCOL_NONE,
     usSendDataSize := 0, usSendIndex := 0, usReceiveIndex := 0, usExpectedByteCount := 0,
     ucNewDeviceSlaveAddr := 0, ucNackSent := SMBUS_FALSE, usDescriptorsSent := 0,
     ucPECSent := SMBUS_FALSE, ucFifoEmptyWhileInDoneCount := 0,
     ucUDIDMatchedInstance := SMBUS_INVALID_INSTANCE\<rparr>"

definition vSMBusHandleActionResetAllData :: "'w smbus_env \<Rightarrow> nat \<Rightarrow> 'w smbus_st \<Rightarrow> 'w smbus_st option" where
  "vSMBusHandleActionResetAllData E i s = do {
     let s = upd_inst i reset_data s;
     s \<leftarrow> vLogAddEntry E SMBUS_LOG_LEVEL_DEBUG (inst_num i s) SMBUS_LOG_EVENT_DEBUG (inst_num i s) 67 s;
     if ucThisInstanceNum (inst i s) = ucInstanceInPlay (prof s) then do {
       let s = upd_prof (\<lambda>p. p\<lparr>ucInstanceInPlay := SMBUS_INVALID_INSTANCE\<rparr>) s;
       s \<leftarrow> drain_ctrl E s;
       s \<leftarrow> vSMBusHWWriteCtrlRxFifoReset E 1 s;
       vSMBusHWWriteCtrlDescFifoReset E 1 s }
     else do {
       let s = upd_prof (\<lambda>p. p\<lparr>ucActiveTargetInstance := SMBUS_INVALID_INSTANCE\<rparr>) s;
       s \<leftarrow> drain_tgt E s;
       vSMBusHWWriteTgtRxFifoReset E 1 s } }"

definition vSMBusHandleActionCreateEventIsPECRequired :: "'w smbus_env \<Rightarrow> nat \<Rightarrow> 'w smbus_st \<Rightarrow> 'w smbus_st option" where
  "vSMBusHandleActionCreateEventIsPECRequired E i s = vSMBusGenerateEvent_E_IS_PEC_REQUIRED E i s"

definition vSMBusHandleActionCreateEventSendNextByte :: "'w smbus_env \<Rightarrow> nat \<Rightarrow> 'w smbus_st \<Rightarrow> 'w smbus_st option" where
  "vSMBusHandleActionCreateEventSendNextByte E i s = vSMBusGenerateEvent_E_SEND_NEXT_BYTE E i s"

definition vSMBusHandleActionGetProtocol :: "'w smbus_env \<Rightarrow> nat \<Rightarrow> 'w smbus_st \<Rightarrow> 'w smbus_st option" where
  "vSMBusHandleActionGetProtocol E i s =
     (case pFnGetProtocol (inst i s) of
        None \<Rightarrow> Some s
      | Some f \<Rightarrow> do {
          (empty, s) \<leftarrow> ulSMBusHWReadTgtRxFifoStatusEmpty E s;
          if empty \<noteq> SMBUS_RX_FIFO_IS_EMPTY then do {
            (payload, s) \<leftarrow> ulSMBusHWReadTgtRxFifoPayload E s;
            let cmd = (ucast payload :: u8);
            let s = upd_inst i (\<lambda>x. x\<lparr>ucCommand := cmd\<rparr>) s;
            let (xTempProtocol, w) = env_get_protocol E f cmd (world s);
            let s = upd_inst i (\<lambda>x. x\<lparr>xProtocol := xTempProtocol\<rparr>) (s\<lparr>world := w\<rparr>);
            vLogAddEntry E SMBUS_LOG_LEVEL_INFO (inst_num i s) SMBUS_LOG_EVENT_PROTOCOL
              (ucast cmd) (protocol_num (xProtocol (inst i s))) s }
          else vLogAddEntry E SMBUS_LOG_LEVEL_ERROR (inst_num i s) SMBUS_LOG_EVENT_ERROR 0 143 s })"

text \<open>The ARP command byte: what it makes of the instance, and whether it determines a protocol.\<close>

definition arp_command :: "u8 \<Rightarrow> SMBus_Instance \<Rightarrow> u8 \<times> SMBus_Instance" where
  "arp_command cmd x =
     (if cmd = 0x01 then (SMBUS_ACTION_ARP_PROTOCOL_DETERMINED, x\<lparr>xProtocol := SMBUS_ARP_PROTOCOL_PREPARE_TO_ARP\<rparr>)
      else if cmd = 0x02 then (SMBUS_ACTION_ARP_PROTOCOL_DETERMINED, x\<lparr>xProtocol := SMBUS_ARP_PROTOCOL_RESET_DEVICE\<rparr>)
      else if cmd = 0x03 then (SMBUS_ACTION_ARP_PROTOCOL_DETERMINED, x\<lparr>xProtocol := SMBUS_ARP_PROTOCOL_GET_UDID\<rparr>)
      else if cmd = 0x04 then (SMBUS_ACTION_ARP_PROTOCOL_DETERMINED, x\<lparr>xProtocol := SMBUS_ARP_PROTOCOL_ASSIGN_ADDRESS\<rparr>)
      else if cmd = 0x00 \<or> 0x05 \<le> cmd \<and> cmd \<le> 0x1F then (SMBUS_ACTION_ARP_PROTOCOL_UNDETERMINED, x)
      else (SMBUS_ACTION_ARP_PROTOCOL_DETERMINED,
            x\<lparr>xProtocol := (if cmd AND SMBUS_ARP_DIRECTED_COMMAND_MASK = SMBUS_ARP_UDID_DIRECTED_COMMAND
                            then SMBUS_ARP_PROTOCOL_GET_UDID_DIRECTED
                            else SMBUS_ARP_PROTO_RESET_DEVICE_DIRECTED),
              ucMatchedSMBusAddr := drop_bit 1 (cmd AND SMBUS_ARP_DIRECTED_COMMAND_ADDRESS_MASK)\<rparr>))"

definition ucSMBusHandleActionGetARPProtocol :: "'w smbus_env \<Rightarrow> nat \<Rightarrow> 'w smbus_st \<Rightarrow> (u8 \<times> 'w smbus_st) option" where
  "ucSMBusHandleActionGetARPProtocol E i s = do {
     (empty, s) \<leftarrow> ulSMBusHWReadTgtRxFifoStatusEmpty E s;
     if empty \<noteq> SMBUS_RX_FIFO_IS_EMPTY then do {
       (payload, s) \<leftarrow> ulSMBusHWReadTgtRxFifoPayload E s;
       let cmd = (ucast payload :: u8);
       let s = upd_inst i (\<lambda>x. x\<lparr>ucCommand := cmd\<rparr>) s;
       let (ucReturnCode, x) = arp_command cmd (inst i s);
       Some (ucReturnCode, upd_inst i (\<lambda>_. x) s) }
     else do {
       s \<leftarrow> vLogAddEntry E SMBUS_LOG_LEVEL_ERROR (inst_num i s) SMBUS_LOG_EVENT_ERROR 0 234 s;
       Some (SMBUS_ACTION_ARP_PROTOCOL_UNDETERMINED, s) } }"

definition protocol_send_size :: "SMBUS_COMMAND_PROTOCOL \<Rightarrow> u16 \<Rightarrow> u16" where
  "protocol_send_size xProto n =
     (case xProto of
        SMBUS_PROTOCOL_READ_64 \<Rightarrow> 8
      | SMBUS_PROTOCOL_READ_32 \<Rightarrow> 4
      | SMBUS_PROTOCOL_READ_WORD \<Rightarrow> 2
      | SMBUS_PROTOCOL_READ_BYTE \<Rightarrow> 1
      | SMBUS_PROTOCOL_PROCESS_CALL \<Rightarrow> 2
      | SMBUS_PROTOCOL_RECEIVE_BYTE \<Rightarrow> 1
      | _ \<Rightarrow> n)"

definition vSMBusHandleActionGetDataFromApplication :: "'w smbus_env \<Rightarrow> nat \<Rightarrow> 'w smbus_st \<Rightarrow> 'w smbus_st option" where
  "vSMBusHandleActionGetDataFromApplication E i s =
     (case pFnGetData (inst i s) of
        None \<Rightarrow> Some s
      | Some f \<Rightarrow>
          (let (tmp, n, w) = env_get_data E f (ucCommand (inst i s)) (\<lambda>_. 0) (world s);
               s = s\<lparr>world := w\<rparr>
           in if 256 \<ge> n then do {
                dat \<leftarrow> arr_copy SMBUS_DATA_SIZE_MAX (ucSendData (inst i s)) SMBUS_DATA_SIZE_MAX tmp (unat n);
                Some (upd_inst i (\<lambda>x. x\<lparr>ucSendData := dat,
                        usSendDataSize := protocol_send_size (xProtocol x) n\<rparr>) s) }
              else vLogAddEntry E SMBUS_LOG_LEVEL_ERROR (inst_num i s) SMBUS_LOG_EVENT_ERROR 0 294 s))"

definition vSMBusHandleActionWriteDataToApplication :: "'w smbus_env \<Rightarrow> nat \<Rightarrow> u8 \<Rightarrow> 'w smbus_st \<Rightarrow> 'w smbus_st option" where
  "vSMBusHandleActionWriteDataToApplication E i ucTransactionID s =
     (case pFnWriteData (inst i s) of
        None \<Rightarrow> Some s
      | Some f \<Rightarrow> do {
          let x = inst i s;
          let t = (if ucThisInstanceNum x \<noteq> ucInstanceInPlay (prof s) then 0 else ucTransactionID);
          tmp \<leftarrow> arr_copy SMBUS_DATA_SIZE_MAX (\<lambda>_. 0) SMBUS_DATA_SIZE_MAX (ucReceivedData x)
                   (unat (usExpectedByteCount x));
          Some (s\<lparr>world := env_write_data E f (ucCommand x) tmp (usExpectedByteCount x) (ucast t) (world s)\<rparr>) })"

definition vSMBusHandleActionAnnounceResultToApplication ::
  "'w smbus_env \<Rightarrow> nat \<Rightarrow> u8 \<Rightarrow> u32 \<Rightarrow> 'w smbus_st \<Rightarrow> 'w smbus_st" where
  "vSMBusHandleActionAnnounceResultToApplication E i ucTransactionID ulStatus s =
     (case pFnAnnounceResult (inst i s) of
        None \<Rightarrow> s
      | Some f \<Rightarrow>
          (let x = inst i s;
               t = (if ucThisInstanceNum x \<noteq> ucInstanceInPlay (prof s) then 0 else ucTransactionID)
           in s\<lparr>world := env_announce E f (ucCommand x) (ucast t) ulStatus (world s)\<rparr>))"

definition vSMBusHandleActionNotifyAddressChangeToApplication ::
  "'w smbus_env \<Rightarrow> nat \<Rightarrow> u8 \<Rightarrow> 'w smbus_st \<Rightarrow> 'w smbus_st" where
  "vSMBusHandleActionNotifyAddressChangeToApplication E i ucTransactionID s =
     (case pFnArpAddrChange (inst i s) of
        None \<Rightarrow> s
      | Some f \<Rightarrow> s\<lparr>world := env_arp_addr E f (ucSMBusAddr (inst i s)) (world s)\<rparr>)"

definition vSMBusHandleActionBusError :: "'w smbus_env \<Rightarrow> nat \<Rightarrow> u8 \<Rightarrow> 'w smbus_st \<Rightarrow> 'w smbus_st" where
  "vSMBusHandleActionBusError E i ucError s =
     (case pFnBusError (inst i s) of
        None \<Rightarrow> s
      | Some f \<Rightarrow> s\<lparr>world := env_bus_error E f ucError (world s)\<rparr>)"

definition vSMBusHandleActionBusWarning :: "'w smbus_env \<Rightarrow> nat \<Rightarrow> u8 \<Rightarrow> 'w smbus_st \<Rightarrow> 'w smbus_st" where
  "vSMBusHandleActionBusWarning E i ucWarning s =
     (case pFnBusWarning (inst i s) of
        None \<Rightarrow> s
      | Some f \<Rightarrow> s\<lparr>world := env_bus_warning E f ucWarning (world s)\<rparr>)"

definition vSMBusHandleActionGetI2CDataFromApplication :: "'w smbus_env \<Rightarrow> nat \<Rightarrow> 'w smbus_st \<Rightarrow> 'w smbus_st option" where
  "vSMBusHandleActionGetI2CDataFromApplication E i s =
     (case pFnI2CGetData (inst i s) of
        None \<Rightarrow> Some s
      | Some f \<Rightarrow>
          (let (tmp, n, w) = env_i2c_get_data E f (\<lambda>_. 0) (world s);
               s = s\<lparr>world := w\<rparr>
           in if 256 \<ge> n then do {
                dat \<leftarrow> arr_copy SMBUS_DATA_SIZE_MAX (ucSendData (inst i s)) SMBUS_DATA_SIZE_MAX tmp (unat n);
                Some (upd_inst i (\<lambda>x. x\<lparr>ucSendData := dat, usSendDataSize := n\<rparr>) s) }
              else vLogAddEntry E SMBUS_LOG_LEVEL_ERROR (inst_num i s) SMBUS_LOG_EVENT_ERROR 0 423 s))"

definition vSMBusHandleActionWriteI2CDataToApplication :: "'w smbus_env \<Rightarrow> nat \<Rightarrow> 'w smbus_st \<Rightarrow> 'w smbus_st option" where
  "vSMBusHandleActionWriteI2CDataToApplication E i s =
     (case pFnI2CWriteData (inst i s) of
        None \<Rightarrow> Some s
      | Some f \<Rightarrow> do {
          tmp \<leftarrow> arr_copy SMBUS_DATA_SIZE_MAX (\<lambda>_. 0) SMBUS_DATA_SIZE_MAX (ucReceivedData (inst i s))
                   (unat (usReceiveIndex (inst i s)));
          Some (s\<lparr>world := env_i2c_write_data E f tmp (usReceiveIndex (inst i s)) (world s)\<rparr>) })"

definition vSMBusHandleActionAnnounceI2CResultToApplication :: "'w smbus_env \<Rightarrow> nat \<Rightarrow> u32 \<Rightarrow> 'w smbus_st \<Rightarrow> 'w smbus_st" where
  "vSMBusHandleActionAnnounceI2CResultToApplication E i ulStatus s =
     (case pFnI2CAnnounceResult (inst i s) of
        None \<Rightarrow> s
      | Some f \<Rightarrow> s\<lparr>world := env_i2c_announce E f ulStatus (world s)\<rparr>)"

end
