(* ===== verification/SMBus_Registers.thy ===== *)
theory SMBus_Registers
  imports SMBus_HW
begin

text \<open>
  What the register accessors do to the registers.  The hardware is a parameter, so the
  facts are relative to \<open>plain_regs E regs R\<close>: the addresses in \<open>R\<close> are plain storage
  registers of the hardware \<open>E\<close>, whose content in a world is \<open>regs\<close>; reading any
  address and reading the clock leave them alone, a write changes the register written
  and no other.  The eight target control registers (offsets 0x620 to 0x63C) are of this
  kind: nothing but the driver changes them.
\<close>

definition plain_regs :: "'w smbus_env \<Rightarrow> ('w \<Rightarrow> u64 \<Rightarrow> u32) \<Rightarrow> u64 set \<Rightarrow> bool" where
  "plain_regs E regs R \<longleftrightarrow>
     (\<forall>r\<in>R. \<forall>w. fst (env_in32 E r w) = regs w r) \<and>
     (\<forall>r\<in>R. \<forall>a w. regs (snd (env_in32 E a w)) r = regs w r) \<and>
     (\<forall>r\<in>R. \<forall>a v w. regs (env_out32 E a v w) r = (if r = a then v else regs w r)) \<and>
     (\<forall>r\<in>R. \<forall>f w. regs (snd (env_read_ticks E f w)) r = regs w r)"

lemma plain_regsD:
  assumes "plain_regs E regs R" and "r \<in> R"
  shows "fst (env_in32 E r w) = regs w r" "regs (snd (env_in32 E a w)) r = regs w r"
    "regs (env_out32 E a v w) r = (if r = a then v else regs w r)"
    "regs (snd (env_read_ticks E f w)) r = regs w r"
  using assms by (auto simp: plain_regs_def)

text \<open>Nothing changed but the log and registers outside \<open>R\<close>.\<close>

definition same_regs :: "('w \<Rightarrow> u64 \<Rightarrow> u32) \<Rightarrow> u64 set \<Rightarrow> 'w smbus_st \<Rightarrow> 'w smbus_st \<Rightarrow> bool" where
  "same_regs regs R s s' \<longleftrightarrow> log_only s s' \<and> (log_inv s \<longrightarrow> log_inv s') \<and> (\<forall>r\<in>R. regs (world s') r = regs (world s) r)"

lemma hw_address_log_only: "log_only s s' \<Longrightarrow> hw_address s' off = hw_address s off"
  by (simp add: hw_address_def log_onlyD)

lemma log_add_regs:
  assumes P: "plain_regs E regs R" and L: "vLogAddEntry E l n ev e1 e2 s = Some s'"
  shows "same_regs regs R s s'"
proof -
  have "log_only s s' \<and> (log_inv s \<longrightarrow> log_inv s')"
    using quietD(1,2) [OF log_add_quiet L] by blast
  moreover have "regs (world s') r = regs (world s) r" if r: "r \<in> R" for r
    using L plain_regsD(4) [OF P r]
    by (auto simp: vLogAddEntry_def Let_def split: if_splits option.splits prod.splits bind_splits) (metis snd_conv)+
  ultimately show ?thesis by (simp add: same_regs_def)
qed

lemma hw_read_regs:
  assumes P: "plain_regs E regs R" and R: "hw_address s off \<in> R" and L: "log_inv s"
  shows "okay (prvulSMBusHardwareRead E off s) (\<lambda>(v, s'). v = regs (world s) (hw_address s off) \<and> same_regs regs R s s')"
proof -
  obtain v w where r: "env_in32 E (hw_address s off) (world s) = (v, w)" by fastforce
  from L obtain s' where s': "vLogAddEntry E SMBUS_LOG_LEVEL_DEBUG SMBUS_INSTANCE_UNDETERMINED
      SMBUS_LOG_EVENT_HW_READ off v (s\<lparr>world := w\<rparr>) = Some s'"
    using log_add_okay [of "s\<lparr>world := w\<rparr>" E SMBUS_LOG_LEVEL_DEBUG SMBUS_INSTANCE_UNDETERMINED
      SMBUS_LOG_EVENT_HW_READ off v] by (auto simp: okay_iff)
  have "v = regs (world s) (hw_address s off)"
    using plain_regsD(1) [OF P R, of "world s"] r by simp
  moreover have "regs w r' = regs (world s) r'" if "r' \<in> R" for r'
    using plain_regsD(2) [OF P that, of "hw_address s off" "world s"] r by simp
  ultimately show ?thesis
    using log_add_regs [OF P s'] r s' by (simp add: prvulSMBusHardwareRead_def same_regs_def)
qed

lemma read_field_regs:
  assumes "plain_regs E regs R" and "hw_address s off \<in> R" and "log_inv s"
  shows "okay (read_field E off m pos s)
    (\<lambda>(v, s'). v = drop_bit pos (regs (world s) (hw_address s off) AND m) \<and> same_regs regs R s s')"
  using hw_read_regs [OF assms] by (auto simp: read_field_def okay_iff)

text \<open>A write under a mask replaces the masked bits of one register.\<close>

definition masked_write ::
  "('w \<Rightarrow> u64 \<Rightarrow> u32) \<Rightarrow> u64 set \<Rightarrow> u64 \<Rightarrow> u32 \<Rightarrow> u32 \<Rightarrow> 'w smbus_st \<Rightarrow> 'w smbus_st \<Rightarrow> bool" where
  "masked_write regs R a m v s s' \<longleftrightarrow> log_only s s' \<and> log_inv s' \<and>
     (\<forall>r\<in>R. regs (world s') r =
        (if r = a then (regs (world s) r AND NOT m) OR (v AND m) else regs (world s) r))"

lemma write_mask_regs:
  assumes P: "plain_regs E regs R" and R: "hw_address s off \<in> R" and L: "log_inv s"
  shows "okay (prvvSMBusHardwareWriteWithMask E off m v s) (masked_write regs R (hw_address s off) m v s)"
proof -
  let ?a = "hw_address s off"
  from hw_read_regs [OF assms] obtain t where t:
    "prvulSMBusHardwareRead E off s = Some (regs (world s) ?a, t)" "same_regs regs R s t"
    by (auto simp: okay_iff)
  let ?v = "(regs (world s) ?a AND NOT m) OR (v AND m)"
  have "log_inv t" using t(2) L by (simp add: same_regs_def)
  then obtain u where u: "vLogAddEntry E SMBUS_LOG_LEVEL_DEBUG SMBUS_INSTANCE_UNDETERMINED
      SMBUS_LOG_EVENT_HW_WRITE off ?v t = Some u" "log_inv u"
    using log_add_okay [of t E SMBUS_LOG_LEVEL_DEBUG SMBUS_INSTANCE_UNDETERMINED SMBUS_LOG_EVENT_HW_WRITE off ?v]
    by (auto simp: okay_iff)
  have su: "log_only s u" and ru: "\<And>r. r \<in> R \<Longrightarrow> regs (world u) r = regs (world s) r"
    using t(2) log_add_regs [OF P u(1)] by (auto simp: same_regs_def intro: log_only_trans)
  show ?thesis
    using t(1) u su ru plain_regsD(3) [OF P]
    by (simp add: prvvSMBusHardwareWriteWithMask_def prvvSMBusHardwareWrite_def masked_write_def
        hw_address_log_only)
qed

section \<open>The target control registers\<close>

definition tgt_ctl :: "u64 \<Rightarrow> nat \<Rightarrow> u64" where
  "tgt_ctl base n = base + 0x620 + 4 * of_nat n"

definition address_readers :: "'w smbus_env \<Rightarrow> ('w smbus_st \<Rightarrow> (u32 \<times> 'w smbus_st) option) list" where
  "address_readers E = [ulSMBusHWReadTgtControl0Address E, ulSMBusHWReadTgtControl1Address E,
     ulSMBusHWReadTgtControl2Address E, ulSMBusHWReadTgtControl3Address E,
     ulSMBusHWReadTgtControl4Address E, ulSMBusHWReadTgtControl5Address E,
     ulSMBusHWReadTgtControl6Address E, ulSMBusHWReadTgtControl7Address E]"

definition enable_readers :: "'w smbus_env \<Rightarrow> ('w smbus_st \<Rightarrow> (u32 \<times> 'w smbus_st) option) list" where
  "enable_readers E = [ulSMBusHWReadTgtControl0Enable E, ulSMBusHWReadTgtControl1Enable E,
     ulSMBusHWReadTgtControl2Enable E, ulSMBusHWReadTgtControl3Enable E,
     ulSMBusHWReadTgtControl4Enable E, ulSMBusHWReadTgtControl5Enable E,
     ulSMBusHWReadTgtControl6Enable E, ulSMBusHWReadTgtControl7Enable E]"

lemma less_8_cases: "n < 8 \<Longrightarrow> n = 0 \<or> n = 1 \<or> n = 2 \<or> n = 3 \<or> n = 4 \<or> n = 5 \<or> n = 6 \<or> n = 7" for n :: nat
  by arith

lemma tgt_address_field:
  "n < 8 \<Longrightarrow> vSMBusHWWriteTgtControlAddress E (of_nat n) v s =
     prvvSMBusHardwareWriteWithMask E (0x620 + 4 * of_nat n) 0xFE (push_bit 1 v) s"
  by (drule less_8_cases) (elim disjE; simp add: vSMBusHWWriteTgtControlAddress_def write_defs)

lemma tgt_enable_field:
  "n < 8 \<Longrightarrow> vSMBusHWWriteTgtControlEnable E (of_nat n) v s =
     prvvSMBusHardwareWriteWithMask E (0x620 + 4 * of_nat n) 0x80000000 (push_bit 31 v) s"
  by (drule less_8_cases) (elim disjE; simp add: vSMBusHWWriteTgtControlEnable_def write_defs)

lemma readers_field:
  "n < 8 \<Longrightarrow> (address_readers E ! n) s = read_field E (0x620 + 4 * of_nat n) 0xFE 1 s"
  "n < 8 \<Longrightarrow> (enable_readers E ! n) s = read_field E (0x620 + 4 * of_nat n) 0x80000000 31 s"
  by (drule less_8_cases; elim disjE; simp add: address_readers_def enable_readers_def read_defs)+

lemma hw_address_ctl: "n < 8 \<Longrightarrow> hw_address s (0x620 + 4 * of_nat n) = tgt_ctl (pvBaseAddr (prof s)) n"
  by (drule less_8_cases) (elim disjE; simp add: hw_address_def tgt_ctl_def)

lemma tgt_ctl_inj: "n < 8 \<Longrightarrow> k < 8 \<Longrightarrow> tgt_ctl b n = tgt_ctl b k \<longleftrightarrow> n = k"
  by (drule less_8_cases, drule less_8_cases) (elim disjE; simp add: tgt_ctl_def)

lemma control_masks:
  "(0xFE :: u32) = push_bit 1 (mask 7)" "(0x7F :: u32) = mask 7" "(0x80000000 :: u32) = push_bit 31 (mask 1)"
  "(1 :: u32) = mask 1"
  by (simp_all add: mask_eq_exp_minus_1)

lemma fields_address:
  "drop_bit 1 ((((w AND NOT 0xFE OR push_bit 1 a AND 0xFE) AND NOT 0x80000000) OR
      (push_bit 31 e AND 0x80000000)) AND 0xFE) = a AND 0x7F" for a e w :: u32
  unfolding control_masks(1,2,3)
  by (rule bit_word_eqI) (unfold bit_simps, auto)

lemma fields_enable:
  "drop_bit 31 ((((w AND NOT 0xFE OR push_bit 1 a AND 0xFE) AND NOT 0x80000000) OR
      (push_bit 31 e AND 0x80000000)) AND 0x80000000) = e AND 1" for a e w :: u32
  unfolding control_masks(1,3) control_masks(4)
  by (rule bit_word_eqI) (unfold bit_simps, auto)

text \<open>
  Setting the address and then the enable bit of a target control slot changes the
  two fields of that slot to the values written (the address to its low seven bits) and
  neither field of any other slot.
\<close>

theorem tgt_control_roundtrip:
  assumes "plain_regs E regs R" and "\<forall>k<8. tgt_ctl (pvBaseAddr (prof s)) k \<in> R" and "log_inv s" and "n < 8"
  shows "okay (do { s \<leftarrow> vSMBusHWWriteTgtControlAddress E (of_nat n) a s;
                    vSMBusHWWriteTgtControlEnable E (of_nat n) e s })
    (\<lambda>s'. \<forall>k<8. \<exists>u u' v v' t t' t1 t2.
       (address_readers E ! k) s = Some (u, t) \<and> (address_readers E ! k) s' = Some (u', t') \<and>
       (enable_readers E ! k) s = Some (v, t1) \<and> (enable_readers E ! k) s' = Some (v', t2) \<and>
       (if k = n then u' = a AND 0x7F \<and> v' = e AND 1 else u' = u \<and> v' = v))"
proof -
  let ?r = "\<lambda>s k. regs (world s) (tgt_ctl (pvBaseAddr (prof s)) k)"
  from write_mask_regs [OF assms(1) _ assms(3), where off = "0x620 + 4 * of_nat n" and m = "0xFE" and v = "push_bit 1 a"] assms
  obtain t where t: "vSMBusHWWriteTgtControlAddress E (of_nat n) a s = Some t"
    "masked_write regs R (tgt_ctl (pvBaseAddr (prof s)) n) 0xFE (push_bit 1 a) s t"
    by (auto simp: okay_iff tgt_address_field hw_address_ctl)
  then have b: "pvBaseAddr (prof t) = pvBaseAddr (prof s)" and "log_inv t"
    by (auto simp: masked_write_def log_onlyD)
  from write_mask_regs [OF assms(1) _ this(2), where off = "0x620 + 4 * of_nat n" and m = "0x80000000" and v = "push_bit 31 e"] assms b
  obtain u where u: "vSMBusHWWriteTgtControlEnable E (of_nat n) e t = Some u"
    "masked_write regs R (tgt_ctl (pvBaseAddr (prof s)) n) 0x80000000 (push_bit 31 e) t u"
    by (auto simp: okay_iff tgt_enable_field hw_address_ctl)
  then have b': "pvBaseAddr (prof u) = pvBaseAddr (prof s)" and Lu: "log_inv u"
    using b by (auto simp: masked_write_def log_onlyD)
  have fin: "?r u k = (if k = n then ((?r s k AND NOT 0xFE OR push_bit 1 a AND 0xFE) AND NOT 0x80000000) OR
      (push_bit 31 e AND 0x80000000) else ?r s k)" if "k < 8" for k
    using t(2) u(2) assms(2,4) that by (simp add: masked_write_def b b' tgt_ctl_inj)
  have rd: "\<exists>t'. (address_readers E ! k) x = Some (drop_bit 1 (?r x k AND 0xFE), t')"
    "\<exists>t'. (enable_readers E ! k) x = Some (drop_bit 31 (?r x k AND 0x80000000), t')"
    if "k < 8" "log_inv x" "pvBaseAddr (prof x) = pvBaseAddr (prof s)" for k x
    using read_field_regs [OF assms(1) _ that(2), where off = "0x620 + 4 * of_nat k" and m = "0xFE" and pos = 1]
      read_field_regs [OF assms(1) _ that(2), where off = "0x620 + 4 * of_nat k" and m = "0x80000000" and pos = 31] assms(2) that
    by (auto simp: okay_iff readers_field hw_address_ctl)
  have addr: "drop_bit 1 ((((w AND NOT 0xFE OR push_bit 1 a AND 0xFE) AND NOT 0x80000000) OR
      (push_bit 31 e AND 0x80000000)) AND 0xFE) = a AND 0x7F" for w :: u32
    by (rule fields_address)
  have enab: "drop_bit 31 ((((w AND NOT 0xFE OR push_bit 1 a AND 0xFE) AND NOT 0x80000000) OR
      (push_bit 31 e AND 0x80000000)) AND 0x80000000) = e AND 1" for w :: u32
    by (rule fields_enable)
  show ?thesis
    using t(1) u(1) rd(1) [OF _ assms(3) refl] rd(2) [OF _ assms(3) refl] rd(1) [OF _ Lu b'] rd(2) [OF _ Lu b'] fin addr enab by fastforce
qed

lemma tgt_control_roundtrip_witness:
  "let s = \<lparr>prof = zero_profile, world = \<lambda>_. 0xFFFFFFFF\<rparr> in
   okay (do { s \<leftarrow> vSMBusHWWriteTgtControlAddress memory_env (of_nat 3) 0x12 s;
              vSMBusHWWriteTgtControlEnable memory_env (of_nat 3) 0 s })
    (\<lambda>s'. \<forall>k<8. \<exists>u u' v v' t t' t1 t2.
       (address_readers memory_env ! k) s = Some (u, t) \<and> (address_readers memory_env ! k) s' = Some (u', t') \<and>
       (enable_readers memory_env ! k) s = Some (v, t1) \<and> (enable_readers memory_env ! k) s' = Some (v', t2) \<and>
       (if k = 3 then u' = 0x12 AND 0x7F \<and> v' = 0 AND 1 else u' = u \<and> v' = v))"
  unfolding Let_def
  by (rule tgt_control_roundtrip [where regs = "\<lambda>w. w" and R = UNIV])
    (simp_all add: plain_regs_def memory_env_def log_inv_def zero_profile_def)

end
