(* ===== verification/SMBus_State.thy ===== *)
theory SMBus_State
  imports SMBus_Action SMBus_Registers
begin

text \<open>
  What the handlers of the SMBus state machine (\<open>smbus_state.c\<close>) share: the state names, the
  next-state decoder, the logging of an unexpected event, the three groups of error events
  that every handler treats alike, the ARP helpers and the loops that move bytes and
  descriptors between the instance and the FIFOs.
\<close>

abbreviation (input) SMBUS_FIFO_DEPTH :: nat where "SMBUS_FIFO_DEPTH \<equiv> 64"
abbreviation (input) SMBUS_HALF_FIFO_DEPTH :: u16 where "SMBUS_HALF_FIFO_DEPTH \<equiv> 32"
abbreviation (input) SMBUS_FIFO_FILL_TRIGGER :: u16 where "SMBUS_FIFO_FILL_TRIGGER \<equiv> 20"
abbreviation (input) SMBUS_FIFO_SPACE_FOR_TWO_BYTES :: u32 where "SMBUS_FIFO_SPACE_FOR_TWO_BYTES \<equiv> 62"
abbreviation (input) SMBUS_MAX_FIFO_EMPTY_WHILE_IN_DONE :: u8 where "SMBUS_MAX_FIFO_EMPTY_WHILE_IN_DONE \<equiv> 10"
abbreviation (input) SMBUS_CONTROL_ENABLE :: u32 where "SMBUS_CONTROL_ENABLE \<equiv> 1"
abbreviation (input) SMBUS_DEVICE_DEFAULT_ARP_ADDRESS :: u8 where "SMBUS_DEVICE_DEFAULT_ARP_ADDRESS \<equiv> 0x61"
abbreviation (input) SMBUS_NOTIFY_ARP_MASTER_ADDRESS :: u8 where "SMBUS_NOTIFY_ARP_MASTER_ADDRESS \<equiv> 0x10"
abbreviation (input) SMBUS_UDID_ASSIGNED_ADDRESS_BYTE :: nat where "SMBUS_UDID_ASSIGNED_ADDRESS_BYTE \<equiv> 17"
abbreviation (input) SMBUS_UDID_ASSIGNED_ADDRESS_BIT0 :: u8 where "SMBUS_UDID_ASSIGNED_ADDRESS_BIT0 \<equiv> 0x01"
abbreviation (input) SMBUS_GET_UDID_DATA_LENGTH :: u8 where "SMBUS_GET_UDID_DATA_LENGTH \<equiv> 17"
abbreviation (input) SMBUS_GET_UDID_MSG_LENGTH :: u16 where "SMBUS_GET_UDID_MSG_LENGTH \<equiv> 18"
abbreviation (input) SMBUS_UDID_DEVICE_CAPABILITIES_BYTE :: nat where "SMBUS_UDID_DEVICE_CAPABILITIES_BYTE \<equiv> 15"
abbreviation (input) SMBUS_UDID_DTA_AV_FLAG_CLEAR :: u8 where "SMBUS_UDID_DTA_AV_FLAG_CLEAR \<equiv> 0xFF"
abbreviation (input) SMBUS_UDID_DTA_BIT_0_SET :: u8 where "SMBUS_UDID_DTA_BIT_0_SET \<equiv> 0x01"
abbreviation (input) SMBUS_UDID_ADDRESS_TYPE_MASK :: u8 where "SMBUS_UDID_ADDRESS_TYPE_MASK \<equiv> 0xC0"
abbreviation (input) SMBUS_UDID_FIXED_ADDRESS :: u8 where "SMBUS_UDID_FIXED_ADDRESS \<equiv> 0x00"
abbreviation (input) SMBUS_UDID_DYNAMIC_AND_PERSISTENT :: u8 where "SMBUS_UDID_DYNAMIC_AND_PERSISTENT \<equiv> 0x40"
abbreviation (input) SMBUS_UNEXPECTED_READ_DESCRIPTOR_DATA :: u8 where "SMBUS_UNEXPECTED_READ_DESCRIPTOR_DATA \<equiv> 0xFF"
abbreviation (input) RESULT_SUCCESS :: u32 where "RESULT_SUCCESS \<equiv> 0"
abbreviation (input) RESULT_ERROR :: u32 where "RESULT_ERROR \<equiv> 1"

text \<open>A debug and an error line in the log, of instance \<open>i\<close>; the last number is the source line.\<close>

abbreviation dbg :: "'w smbus_env \<Rightarrow> nat \<Rightarrow> u32 \<Rightarrow> u32 \<Rightarrow> 'w smbus_st \<Rightarrow> 'w smbus_st option" where
  "dbg E i v line s \<equiv> vLogAddEntry E SMBUS_LOG_LEVEL_DEBUG (inst_num i s) SMBUS_LOG_EVENT_DEBUG v line s"

abbreviation errlog :: "'w smbus_env \<Rightarrow> nat \<Rightarrow> u32 \<Rightarrow> u32 \<Rightarrow> 'w smbus_st \<Rightarrow> 'w smbus_st option" where
  "errlog E i v line s \<equiv> vLogAddEntry E SMBUS_LOG_LEVEL_ERROR (inst_num i s) SMBUS_LOG_EVENT_ERROR v line s"

fun arp_capability_num :: "SMBUS_ARP_CAPABILITY \<Rightarrow> u32" where
  "arp_capability_num SMBUS_ARP_CAPABILITY_UNKNOWN = 0"
| "arp_capability_num SMBUS_ARP_CAPABLE = 1"
| "arp_capability_num SMBUS_ARP_FIXED_AND_DISCOVERABLE = 2"
| "arp_capability_num SMBUS_ARP_FIXED_NOT_DISCOVERABLE = 3"
| "arp_capability_num SMBUS_ARP_NON_ARP_CAPABLE = 4"

definition pcStateToString :: "u8 \<Rightarrow> string" where
  "pcStateToString ucState =
     (if ucState = 0 then ''SMBUS_STATE_INITIAL''
      else if ucState = 1 then ''SMBUS_STATE_AWAITING_COMMAND_BYTE''
      else if ucState = 2 then ''SMBUS_STATE_AWAITING_BLOCK_SIZE''
      else if ucState = 3 then ''SMBUS_STATE_AWAITING_DATA''
      else if ucState = 4 then ''SMBUS_STATE_AWAITING_READ''
      else if ucState = 5 then ''SMBUS_STATE_READY_TO_SEND_BYTE''
      else if ucState = 6 then ''SMBUS_STATE_CHECK_IF_PEC_REQUIRED''
      else if ucState = 7 then ''SMBUS_STATE_AWAITING_DONE''
      else if ucState = 8 then ''SMBUS_STATE_CONTROLLER_SEND_COMMAND''
      else if ucState = 9 then ''SMBUS_STATE_CONTROLLER_SEND_READ_START''
      else if ucState = 10 then ''SMBUS_STATE_CONTROLLER_READ_BLOCK_SIZE''
      else if ucState = 11 then ''SMBUS_STATE_CONTROLLER_READ_BYTE''
      else if ucState = 12 then ''SMBUS_STATE_CONTROLLER_READ_PEC''
      else if ucState = 13 then ''SMBUS_STATE_CONTROLLER_READ_DONE''
      else if ucState = 14 then ''SMBUS_STATE_CONTROLLER_WRITE_BYTE''
      else ''SMBUS_STATE_UNKNOWN'')"

definition vSMBusLogUnexpected :: "'w smbus_env \<Rightarrow> nat \<Rightarrow> u8 \<Rightarrow> 'w smbus_st \<Rightarrow> 'w smbus_st option" where
  "vSMBusLogUnexpected E i ucAnyEvent s = errlog E i (state_num (xState (inst i s))) (ucast ucAnyEvent) s"

definition vSMBusNextStateDecoder :: "nat \<Rightarrow> SMBUS_STATE \<Rightarrow> 'w smbus_st \<Rightarrow> 'w smbus_st" where
  "vSMBusNextStateDecoder i xNewState s =
     upd_inst i (\<lambda>x. x\<lparr>xPreviousState := xState x, xState := xNewState\<rparr>) s"

section \<open>The events every state treats alike\<close>

definition bus_warning_event :: "u8 \<Rightarrow> bool" where
  "bus_warning_event e \<longleftrightarrow> e = E_TARGET_PHY_TEXT_TIMEOUT_ERROR_IRQ \<or>
     e = E_CONTROLLER_PHY_CTLR_TEXT_TIMEOUT_ERROR_IRQ \<or> e = E_CONTROLLER_PHY_CTLR_CEXT_TIMEOUT_ERROR_IRQ"

definition target_error_event :: "u8 \<Rightarrow> bool" where
  "target_error_event e \<longleftrightarrow> e = E_TARGET_LOA_ERROR_IRQ \<or> e = E_TARGET_PEC_ERROR_IRQ \<or>
     e = E_TARGET_RX_FIFO_ERROR_ERROR_IRQ \<or> e = E_TARGET_RX_FIFO_OVERFLOW_ERROR_IRQ \<or>
     e = E_TARGET_RX_FIFO_UNDERFLOW_ERROR_IRQ \<or> e = E_TARGET_DESC_FIFO_ERROR_IRQ \<or>
     e = E_TARGET_DESC_FIFO_OVERFLOW_ERROR_IRQ \<or> e = E_TARGET_DESC_FIFO_UNDERFLOW_ERROR_IRQ \<or>
     e = E_TARGET_DESC_ERROR_IRQ \<or> e = E_TARGET_PHY_UNEXPTD_BUS_IDLE_ERROR_IRQ \<or>
     e = E_TARGET_PHY_SMBDAT_LOW_TIMEOUT_DESC_ERROR_IRQ \<or> e = E_TARGET_PHY_SMBCLK_LOW_TIMEOUT_ERROR_IRQ"

definition controller_error_event :: "u8 \<Rightarrow> bool" where
  "controller_error_event e \<longleftrightarrow> e = E_CONTROLLER_LOA_ERROR_IRQ \<or> e = E_CONTROLLER_NACK_ERROR_IRQ \<or>
     e = E_CONTROLLER_PEC_ERROR_IRQ \<or> e = E_CONTROLLER_RX_FIFO_ERROR_IRQ \<or>
     e = E_CONTROLLER_RX_FIFO_OVERFLOW_ERROR_IRQ \<or> e = E_CONTROLLER_RX_FIFO_UNDERFLOW_ERROR_IRQ \<or>
     e = E_CONTROLLER_DESC_FIFO_ERROR_IRQ \<or> e = E_CONTROLLER_DESC_FIFO_OVERFLOW_ERROR_IRQ \<or>
     e = E_CONTROLLER_DESC_FIFO_UNDERFLOW_ERROR_IRQ \<or> e = E_CONTROLLER_DESC_ERROR_IRQ"

text \<open>Resetting the transaction and going back to the initial state.\<close>

definition to_initial :: "'w smbus_env \<Rightarrow> nat \<Rightarrow> 'w smbus_st \<Rightarrow> 'w smbus_st option" where
  "to_initial E i s = do {
     s \<leftarrow> vSMBusHandleActionResetAllData E i s;
     Some (vSMBusNextStateDecoder i SMBUS_STATE_INITIAL s) }"

definition target_error :: "'w smbus_env \<Rightarrow> nat \<Rightarrow> u8 \<Rightarrow> 'w smbus_st \<Rightarrow> 'w smbus_st option" where
  "target_error E i ucAnyEvent s = to_initial E i (vSMBusHandleActionBusError E i ucAnyEvent s)"

definition announce :: "'w smbus_env \<Rightarrow> nat \<Rightarrow> u32 \<Rightarrow> 'w smbus_st \<Rightarrow> 'w smbus_st" where
  "announce E i ulStatus s =
     vSMBusHandleActionAnnounceResultToApplication E i (ucast (ulTransactionID (prof s))) ulStatus s"

definition controller_error :: "'w smbus_env \<Rightarrow> nat \<Rightarrow> u8 \<Rightarrow> 'w smbus_st \<Rightarrow> 'w smbus_st option" where
  "controller_error E i ucAnyEvent s =
     to_initial E i (announce E i RESULT_ERROR (vSMBusHandleActionBusError E i ucAnyEvent s))"

definition unexpected_event :: "'w smbus_env \<Rightarrow> nat \<Rightarrow> u8 \<Rightarrow> 'w smbus_st \<Rightarrow> 'w smbus_st option" where
  "unexpected_event E i ucAnyEvent s = do {
     s \<leftarrow> vSMBusLogUnexpected E i ucAnyEvent s;
     to_initial E i s }"

text \<open>The first cases of a handler's switch; \<open>rest\<close> is what it does for the other events.\<close>

definition error_cases ::
  "'w smbus_env \<Rightarrow> nat \<Rightarrow> u8 \<Rightarrow> 'w smbus_st \<Rightarrow> 'w smbus_st option \<Rightarrow> 'w smbus_st option" where
  "error_cases E i ucAnyEvent s rest =
     (if bus_warning_event ucAnyEvent then Some (vSMBusHandleActionBusWarning E i ucAnyEvent s)
      else if target_error_event ucAnyEvent then target_error E i ucAnyEvent s
      else if controller_error_event ucAnyEvent then controller_error E i ucAnyEvent s
      else rest)"

section \<open>ARP helpers\<close>

definition vSMBusARPPrepareToARP :: "'w smbus_env \<Rightarrow> nat \<Rightarrow> 'w smbus_st \<Rightarrow> 'w smbus_st option" where
  "vSMBusARPPrepareToARP E i s = do {
     let s = upd_inst i (\<lambda>x. x\<lparr>ucARFlag := SMBUS_FALSE\<rparr>) s;
     dbg E i (ucast (ucSMBusAddr (inst i s))) 173 s }"

definition vSMBusARPResetDevice :: "'w smbus_env \<Rightarrow> nat \<Rightarrow> 'w smbus_st \<Rightarrow> 'w smbus_st option" where
  "vSMBusARPResetDevice E i s = do {
     let s = upd_inst i (\<lambda>x. x\<lparr>ucARFlag := SMBUS_FALSE\<rparr>) s;
     s \<leftarrow> dbg E i (ucast (ucSMBusAddr (inst i s))) 195 s;
     if xARPCapability (inst i s) \<noteq> SMBUS_ARP_NON_ARP_CAPABLE \<and>
        xARPCapability (inst i s) \<noteq> SMBUS_ARP_CAPABILITY_UNKNOWN then
       (let addr_type = ucUDID (inst i s) SMBUS_UDID_DEVICE_CAPABILITIES_BYTE AND SMBUS_UDID_ADDRESS_TYPE_MASK in
        if addr_type = SMBUS_UDID_FIXED_ADDRESS then do {
          let s = upd_inst i (\<lambda>x. x\<lparr>ucAVFlag := SMBUS_TRUE\<rparr>) s;
          dbg E i (ucast (ucSMBusAddr (inst i s))) 206 s }
        else if addr_type = SMBUS_UDID_DYNAMIC_AND_PERSISTENT then do {
          s \<leftarrow> (if ucAVFlag (inst i s) = SMBUS_TRUE then do {
                 s \<leftarrow> vSMBusHWWriteTgtControlEnable E (ucUDIDMatchedInstance (inst i s)) 0 s;
                 dbg E i (ucast (ucSMBusAddr (inst i s))) 217 s }
               else Some s);
          let s = upd_inst i (\<lambda>x. x\<lparr>ucAVFlag := SMBUS_FALSE\<rparr>) s;
          dbg E i (ucast (ucSMBusAddr (inst i s))) 223 s }
        else Some s)
     else Some s }"

definition vSMBusSendNACK :: "'w smbus_env \<Rightarrow> nat \<Rightarrow> 'w smbus_st \<Rightarrow> 'w smbus_st option" where
  "vSMBusSendNACK E i s = do {
     (r, s) \<leftarrow> ucSMBusTargetWriteDescriptorNACK E s;
     Some (upd_inst i (\<lambda>x. x\<lparr>ucNackSent := SMBUS_TRUE\<rparr>) s) }"

text \<open>Sending an acknowledge descriptor: the code either counts it or logs its failure.\<close>

definition ack_counted :: "'w smbus_env \<Rightarrow> nat \<Rightarrow> 'w smbus_st \<Rightarrow> 'w smbus_st option" where
  "ack_counted E i s = do {
     (r, s) \<leftarrow> ucSMBusTargetWriteDescriptorACK E SMBUS_FALSE s;
     Some (if r = SMBUS_HW_DESCRIPTOR_WRITE_SUCCESS
           then upd_inst i (\<lambda>x. x\<lparr>usDescriptorsSent := usDescriptorsSent x + 1\<rparr>) s else s) }"

definition ack_logged :: "'w smbus_env \<Rightarrow> nat \<Rightarrow> u32 \<Rightarrow> 'w smbus_st \<Rightarrow> 'w smbus_st option" where
  "ack_logged E i line s = do {
     (r, s) \<leftarrow> ucSMBusTargetWriteDescriptorACK E SMBUS_FALSE s;
     if r \<noteq> SMBUS_HW_DESCRIPTOR_WRITE_SUCCESS then errlog E i 0 line s else Some s }"

text \<open>The acknowledge loop of the almost-empty interrupts: up to \<open>n\<close> descriptors, while fewer
  than \<open>lim\<close> were sent.\<close>

fun ack_fill :: "'w smbus_env \<Rightarrow> nat \<Rightarrow> (SMBus_Instance \<Rightarrow> u16) \<Rightarrow> nat \<Rightarrow> 'w smbus_st \<Rightarrow> 'w smbus_st option" where
  "ack_fill E i lim 0 s = Some s"
| "ack_fill E i lim (Suc n) s =
     (if usDescriptorsSent (inst i s) < lim (inst i s) then do {
        (r, s) \<leftarrow> ucSMBusTargetWriteDescriptorACK E SMBUS_TRUE s;
        if r \<noteq> SMBUS_HW_DESCRIPTOR_WRITE_SUCCESS then Some s
        else ack_fill E i lim n (upd_inst i (\<lambda>x. x\<lparr>usDescriptorsSent := usDescriptorsSent x + 1\<rparr>) s) }
      else ack_fill E i lim n s)"

text \<open>The free places of a descriptor FIFO with the fill level read into a byte.\<close>

definition fifo_room :: "u32 \<Rightarrow> nat" where
  "fifo_room fill = SMBUS_FIFO_DEPTH - unat (ucast fill :: u8)"

definition ack_almost_empty :: "'w smbus_env \<Rightarrow> nat \<Rightarrow> (SMBus_Instance \<Rightarrow> u16) \<Rightarrow> 'w smbus_st \<Rightarrow> 'w smbus_st option" where
  "ack_almost_empty E i lim s = do {
     (fill, s) \<leftarrow> ulSMBusHWReadTgtDescStatusFillLevel E s;
     ack_fill E i lim (fifo_room fill) s }"

text \<open>Receiving: the byte goes to the receive index, which is bounded by nothing but the array.\<close>

definition receive_byte :: "nat \<Rightarrow> u8 \<Rightarrow> 'w smbus_st \<Rightarrow> 'w smbus_st option" where
  "receive_byte i b s = do {
     dat \<leftarrow> arr_set SMBUS_DATA_SIZE_MAX (ucReceivedData (inst i s)) (unat (usReceiveIndex (inst i s))) b;
     Some (upd_inst i (\<lambda>x. x\<lparr>ucReceivedData := dat, usReceiveIndex := usReceiveIndex x + 1\<rparr>) s) }"

fun receive_loop :: "'w smbus_env \<Rightarrow> nat \<Rightarrow> nat \<Rightarrow> 'w smbus_st \<Rightarrow> 'w smbus_st option" where
  "receive_loop E i 0 s = Some s"
| "receive_loop E i (Suc n) s = do {
     (payload, s) \<leftarrow> ulSMBusHWReadTgtRxFifoPayload E s;
     s \<leftarrow> receive_byte i (ucast payload) s;
     receive_loop E i n s }"

definition receive_available :: "'w smbus_env \<Rightarrow> nat \<Rightarrow> 'w smbus_st \<Rightarrow> 'w smbus_st option" where
  "receive_available E i s = do {
     (fill, s) \<leftarrow> ulSMBusHWReadTgtRxFifoStatusFillLevel E s;
     receive_loop E i (unat (ucast fill :: u8)) s }"

text \<open>The message counters, arrays over the protocols.\<close>

definition count_initiated :: "nat \<Rightarrow> 'w smbus_st \<Rightarrow> 'w smbus_st option" where
  "count_initiated i s = do {
     let p = unat (protocol_num (xProtocol (inst i s)));
     n \<leftarrow> arr_get 27 (ulMessagesInitiated (inst i s)) p;
     Some (upd_inst i (\<lambda>x. x\<lparr>ulMessagesInitiated := (ulMessagesInitiated x)(p := n + 1)\<rparr>) s) }"

definition count_complete :: "nat \<Rightarrow> 'w smbus_st \<Rightarrow> 'w smbus_st option" where
  "count_complete i s = do {
     let p = unat (protocol_num (xProtocol (inst i s)));
     n \<leftarrow> arr_get 27 (ulMessagesComplete (inst i s)) p;
     Some (upd_inst i (\<lambda>x. x\<lparr>ulMessagesComplete := (ulMessagesComplete x)(p := n + 1)\<rparr>) s) }"

text \<open>The expected byte count, at most half the FIFO, as the part to wait for.\<close>

definition half_fifo_part :: "u16 \<Rightarrow> u8" where
  "half_fifo_part n = ucast (if n < SMBUS_HALF_FIFO_DEPTH then n else SMBUS_HALF_FIFO_DEPTH)"

end
