(* ===== verification/SMBus_Target.thy ===== *)
theory SMBus_Target
  imports SMBus_State
begin

text \<open>
  The handlers of the SMBus state machine for the states of a target (\<open>smbus_state.c\<close>),
  one definition per handler, the long ones split by event; with the ARP commands and the
  arbitration that selects the instance whose UDID is reported.
\<close>

section \<open>The initial state\<close>

definition initial_write_irq :: "'w smbus_env \<Rightarrow> nat \<Rightarrow> 'w smbus_st \<Rightarrow> 'w smbus_st option" where
  "initial_write_irq E i s =
     (if ucSimpleDevice (inst i s) = SMBUS_FALSE then
        Some (vSMBusNextStateDecoder i
          (if ulI2CDevice (inst i s) = ucast SMBUS_TRUE then SMBUS_STATE_AWAITING_DATA
           else SMBUS_STATE_AWAITING_COMMAND_BYTE) s)
      else do {
        let s = upd_inst i (\<lambda>x. x\<lparr>xProtocol := SMBUS_PROTOCOL_SEND_BYTE, usExpectedByteCount := 1,
                  ucExpectedByteCountPart := 1\<rparr>) s;
        s \<leftarrow> vSMBusHWWriteRxFifoFillThresholdFillThresh E (ucast (usExpectedByteCount (inst i s))) s;
        s \<leftarrow> ack_counted E i s;
        Some (vSMBusNextStateDecoder i SMBUS_STATE_AWAITING_DATA s) })"

definition initial_read_irq :: "'w smbus_env \<Rightarrow> nat \<Rightarrow> u8 \<Rightarrow> 'w smbus_st \<Rightarrow> 'w smbus_st option" where
  "initial_read_irq E i ucAnyEvent s =
     (if ucSimpleDevice (inst i s) = SMBUS_FALSE then
        (if ulI2CDevice (inst i s) = ucast SMBUS_TRUE then do {
           s \<leftarrow> vSMBusHandleActionGetI2CDataFromApplication E i s;
           Some (vSMBusNextStateDecoder i SMBUS_STATE_READY_TO_SEND_BYTE s) }
         else do {
           (r, s) \<leftarrow> ucSMBusTargetReadDescriptorRead E SMBUS_UNEXPECTED_READ_DESCRIPTOR_DATA s;
           unexpected_event E i ucAnyEvent s })
      else do {
        let s = upd_inst i (\<lambda>x. x\<lparr>xProtocol := SMBUS_PROTOCOL_RECEIVE_BYTE\<rparr>) s;
        s \<leftarrow> vSMBusHandleActionGetDataFromApplication E i s;
        Some (vSMBusNextStateDecoder i SMBUS_STATE_READY_TO_SEND_BYTE s) })"

definition initial_send_next_byte :: "'w smbus_env \<Rightarrow> nat \<Rightarrow> 'w smbus_st \<Rightarrow> 'w smbus_st option" where
  "initial_send_next_byte E i s = do {
     (d, s) \<leftarrow> ulSMBusHWReadPHYCtrlDbgState E s;
     s \<leftarrow> dbg E i d 365 s;
     (d, s) \<leftarrow> ulSMBusHWReadCtrlDbgState E s;
     s \<leftarrow> dbg E i d 368 s;
     s \<leftarrow> (if xProtocol (inst i s) \<noteq> SMBUS_PROTOCOL_NONE then count_initiated i s else Some s);
     (case xProtocol (inst i s) of
        SMBUS_PROTOCOL_QUICK_CMD_LO \<Rightarrow> do {
          (r, s) \<leftarrow> ucSMBusControllerWriteDescriptorQuickWrite E (ucSMBusDestAddr (inst i s)) s;
          s \<leftarrow> vSMBusHWWriteCtrlControlEnable E 1 s;
          Some (vSMBusNextStateDecoder i SMBUS_STATE_AWAITING_DONE s) }
      | SMBUS_PROTOCOL_QUICK_CMD_HI \<Rightarrow> do {
          (r, s) \<leftarrow> ucSMBusControllerReadDescriptorQuickRead E (ucSMBusDestAddr (inst i s)) s;
          s \<leftarrow> vSMBusHWWriteCtrlControlEnable E 1 s;
          Some (vSMBusNextStateDecoder i SMBUS_STATE_AWAITING_DONE s) }
      | SMBUS_PROTOCOL_RECEIVE_BYTE \<Rightarrow> do {
          let s = upd_inst i (\<lambda>x. x\<lparr>usExpectedByteCount := 1, ucExpectedByteCountPart := 1\<rparr>) s;
          s \<leftarrow> vSMBusHandleActionCreateEventSendNextByte E i s;
          Some (vSMBusNextStateDecoder i SMBUS_STATE_CONTROLLER_SEND_READ_START s) }
      | I2C_PROTOCOL_WRITE \<Rightarrow> do {
          (r, s) \<leftarrow> ucSMBusControllerWriteDescriptorStartWrite E (ucSMBusDestAddr (inst i s)) s;
          s \<leftarrow> vSMBusHandleActionCreateEventSendNextByte E i s;
          Some (vSMBusNextStateDecoder i SMBUS_STATE_CONTROLLER_WRITE_BYTE s) }
      | I2C_PROTOCOL_WRITE_READ \<Rightarrow> do {
          (r, s) \<leftarrow> ucSMBusControllerWriteDescriptorStartWrite E (ucSMBusDestAddr (inst i s)) s;
          s \<leftarrow> vSMBusHandleActionCreateEventSendNextByte E i s;
          Some (vSMBusNextStateDecoder i SMBUS_STATE_CONTROLLER_WRITE_BYTE s) }
      | I2C_PROTOCOL_READ \<Rightarrow> do {
          (r, s) \<leftarrow> ucSMBusControllerReadDescriptorStart E (ucSMBusDestAddr (inst i s)) s;
          s \<leftarrow> vSMBusHWWriteCtrlControlEnable E SMBUS_CONTROL_ENABLE s;
          let s = upd_inst i (\<lambda>x. x\<lparr>ucExpectedByteCountPart := half_fifo_part (usExpectedByteCount x)\<rparr>) s;
          s \<leftarrow> (if 0 < ucExpectedByteCountPart (inst i s)
               then vSMBusHWWriteCtrlRxFifoFillThreshold E (ucast (ucExpectedByteCountPart (inst i s))) s
               else Some s);
          Some (vSMBusNextStateDecoder i SMBUS_STATE_CONTROLLER_READ_BYTE s) }
      | _ \<Rightarrow> do {
          s \<leftarrow> dbg E i (ucast (ucSMBusDestAddr (inst i s))) 427 s;
          (r, s) \<leftarrow> ucSMBusControllerWriteDescriptorStartWrite E (ucSMBusDestAddr (inst i s)) s;
          s \<leftarrow> vSMBusHandleActionCreateEventSendNextByte E i s;
          Some (vSMBusNextStateDecoder i SMBUS_STATE_CONTROLLER_SEND_COMMAND s) }) }"

definition vDefaultSMBusFSMSMBusStateInitial :: "'w smbus_env \<Rightarrow> nat \<Rightarrow> u8 \<Rightarrow> 'w smbus_st \<Rightarrow> 'w smbus_st option" where
  "vDefaultSMBusFSMSMBusStateInitial E i ucAnyEvent s =
     error_cases E i ucAnyEvent s
       (if ucAnyEvent = E_TARGET_WRITE_IRQ then initial_write_irq E i s
        else if ucAnyEvent = E_TARGET_READ_IRQ then initial_read_irq E i ucAnyEvent s
        else if ucAnyEvent = E_SEND_NEXT_BYTE then initial_send_next_byte E i s
        else unexpected_event E i ucAnyEvent s)"

section \<open>UDID arbitration\<close>

text \<open>
  The candidates are the entries below the size of a list of instance numbers.  For each
  byte of the UDID, from the most significant, the list is sorted by that byte and cut to
  the prefix that shares the smallest value.
\<close>

definition vInstanceSwap :: "nat \<Rightarrow> nat \<Rightarrow> (nat \<Rightarrow> u8) \<Rightarrow> nat \<Rightarrow> u8" where
  "vInstanceSwap a b l = l(a := l b, b := l a)"

definition udid_byte :: "SMBusProfile \<Rightarrow> nat \<Rightarrow> u8 \<Rightarrow> u8" where
  "udid_byte p ucUDIDByteIndex k = ucUDID (xSMBusInstance p (unat k)) ucUDIDByteIndex"

definition udid_smallest :: "SMBusProfile \<Rightarrow> nat \<Rightarrow> nat \<Rightarrow> (nat \<Rightarrow> u8) \<Rightarrow> nat \<Rightarrow> nat" where
  "udid_smallest p b n l o' =
     foldl (\<lambda>m k. if udid_byte p b (l k) < udid_byte p b (l m) then k else m) o' [Suc o'..<n]"

definition vUDIDInstanceSort :: "SMBusProfile \<Rightarrow> (nat \<Rightarrow> u8) \<Rightarrow> nat \<Rightarrow> nat \<Rightarrow> nat \<Rightarrow> u8" where
  "vUDIDInstanceSort p l n b = foldl (\<lambda>l o'. vInstanceSwap (udid_smallest p b n l o') o' l) l [0..<n - 1]"

text \<open>The new size: the entry after the one at the position is read even at the last
  position, and beyond the seven elements of the array when all seven are candidates.\<close>

fun udid_shrink :: "SMBusProfile \<Rightarrow> nat \<Rightarrow> (nat \<Rightarrow> u8) \<Rightarrow> nat \<Rightarrow> nat list \<Rightarrow> nat option" where
  "udid_shrink p b l n [] = Some n"
| "udid_shrink p b l n (j # js) = do {
     x \<leftarrow> arr_get SMBUS_NUM_NON_ARP_INSTANCES l j;
     y \<leftarrow> arr_get SMBUS_NUM_NON_ARP_INSTANCES l (j + 1);
     if udid_byte p b x \<noteq> udid_byte p b y then Some (j + 1) else udid_shrink p b l n js }"

fun udid_narrow :: "SMBusProfile \<Rightarrow> nat list \<Rightarrow> (nat \<Rightarrow> u8) \<Rightarrow> nat \<Rightarrow> (nat \<Rightarrow> u8) option" where
  "udid_narrow p [] l n = Some l"
| "udid_narrow p (b # bs) l n = do {
     let l = vUDIDInstanceSort p l n b;
     n \<leftarrow> udid_shrink p b l n [0..<n];
     if n = 1 then Some l else udid_narrow p bs l n }"

text \<open>The message with a UDID and the address byte, in the send buffer.\<close>

definition udid_message :: "SMBus_Instance \<Rightarrow> u8 \<Rightarrow> (nat \<Rightarrow> u8) \<Rightarrow> nat \<Rightarrow> u8" where
  "udid_message m a d =
     (\<lambda>j. if j = 0 then SMBUS_GET_UDID_DATA_LENGTH
          else if j \<le> SMBUS_UDID_LENGTH then ucUDID m (SMBUS_UDID_DEVICE_CAPABILITIES_BYTE - (j - 1))
          else if j = SMBUS_UDID_ASSIGNED_ADDRESS_BYTE then a else d j)"

definition arp_capable :: "SMBus_Instance \<Rightarrow> bool" where
  "arp_capable m \<longleftrightarrow> xARPCapability m = SMBUS_ARP_CAPABLE \<or> xARPCapability m = SMBUS_ARP_FIXED_AND_DISCOVERABLE"

section \<open>Waiting for the command byte\<close>

definition acb_host_notify :: "'w smbus_env \<Rightarrow> nat \<Rightarrow> 'w smbus_st \<Rightarrow> 'w smbus_st option" where
  "acb_host_notify E i s = do {
     s \<leftarrow> dbg E i (ucast (ucSMBusAddr (inst i s))) 582 s;
     let s = upd_inst i (\<lambda>x. x\<lparr>xProtocol := SMBUS_PROTOCOL_HOST_NOTIFY\<rparr>) s;
     (payload, s) \<leftarrow> ulSMBusHWReadTgtRxFifoPayload E s;
     let s = upd_inst i (\<lambda>x. x\<lparr>ucCommand := ucast payload, ucSMBusSenderAddr := ucast payload,
               usExpectedByteCount := 2, ucExpectedByteCountPart := 2\<rparr>) s;
     s \<leftarrow> ack_logged E i 592 s;
     Some (vSMBusNextStateDecoder i SMBUS_STATE_AWAITING_DATA s) }"

definition acb_assign_address :: "'w smbus_env \<Rightarrow> nat \<Rightarrow> 'w smbus_st \<Rightarrow> 'w smbus_st option" where
  "acb_assign_address E i s = do {
     let s = upd_prof (\<lambda>p. p\<lparr>ucUDIDMatch := (\<lambda>k. if k < SMBUS_NUM_NON_ARP_INSTANCES then SMBUS_TRUE else ucUDIDMatch p k)\<rparr>) s;
     s \<leftarrow> ack_logged E i 623 s;
     Some (vSMBusNextStateDecoder i SMBUS_STATE_AWAITING_BLOCK_SIZE s) }"

definition acb_ack_and_pec :: "'w smbus_env \<Rightarrow> nat \<Rightarrow> u32 \<Rightarrow> 'w smbus_st \<Rightarrow> 'w smbus_st option" where
  "acb_ack_and_pec E i line s = do {
     s \<leftarrow> ack_logged E i line s;
     (r, s) \<leftarrow> ucSMBusTargetWriteDescriptorPEC E s;
     let s = upd_inst i (\<lambda>x. x\<lparr>ucPECSent := SMBUS_TRUE\<rparr>) s;
     Some (vSMBusNextStateDecoder i SMBUS_STATE_AWAITING_DONE s) }"

definition acb_nack :: "'w smbus_env \<Rightarrow> nat \<Rightarrow> 'w smbus_st \<Rightarrow> 'w smbus_st option" where
  "acb_nack E i s = do {
     s \<leftarrow> vSMBusSendNACK E i s;
     Some (vSMBusNextStateDecoder i SMBUS_STATE_AWAITING_DONE s) }"

text \<open>A directed reset is acknowledged when the instance with the address has a valid one.\<close>

definition acb_directed_valid :: "'w smbus_env \<Rightarrow> nat \<Rightarrow> 'w smbus_st \<Rightarrow> (u8 \<times> 'w smbus_st) option" where
  "acb_directed_valid E i s =
     (case find (\<lambda>k. ucSMBusAddr (inst k s) = ucMatchedSMBusAddr (inst i s)) [0..<SMBUS_NUM_NON_ARP_INSTANCES] of
        None \<Rightarrow> Some (SMBUS_FALSE, s)
      | Some k \<Rightarrow> do {
          s \<leftarrow> dbg E i (ucast (ucAVFlag (inst k s))) 668 s;
          Some (if ucAVFlag (inst k s) = SMBUS_TRUE then SMBUS_TRUE else SMBUS_FALSE, s) })"

definition acb_prepare_or_reset :: "'w smbus_env \<Rightarrow> nat \<Rightarrow> 'w smbus_st \<Rightarrow> 'w smbus_st option" where
  "acb_prepare_or_reset E i s = do {
     s \<leftarrow> dbg E i (protocol_num (xProtocol (inst i s))) 634 s;
     let s = upd_inst i (\<lambda>x. x\<lparr>usExpectedByteCount := 0, ucExpectedByteCountPart := 0\<rparr>) s;
     if list_ex (\<lambda>k. arp_capable (inst k s) \<and> unat (ucInstanceInPlay (prof s)) \<noteq> k) [0..<SMBUS_NUM_NON_ARP_INSTANCES]
     then
       (if xProtocol (inst i s) = SMBUS_ARP_PROTO_RESET_DEVICE_DIRECTED then do {
          (ucOKToACK, s) \<leftarrow> acb_directed_valid E i s;
          if ucOKToACK = SMBUS_TRUE then acb_ack_and_pec E i 685 s else acb_nack E i s }
        else acb_ack_and_pec E i 705 s)
     else acb_nack E i s }"

fun acb_directed_loop :: "'w smbus_env \<Rightarrow> nat \<Rightarrow> nat list \<Rightarrow> 'w smbus_st \<Rightarrow> (u8 \<times> 'w smbus_st) option" where
  "acb_directed_loop E i [] s = Some (SMBUS_FALSE, s)"
| "acb_directed_loop E i (k # ks) s = do {
     s \<leftarrow> dbg E i (ucast (ucSMBusAddr (inst k s))) 733 s;
     if ucSMBusAddr (inst k s) = ucMatchedSMBusAddr (inst i s) then do {
       s \<leftarrow> dbg E i (arp_capability_num (xARPCapability (inst k s))) 740 s;
       s \<leftarrow> dbg E i (ucast (ucAVFlag (inst k s))) 743 s;
       if xARPCapability (inst k s) \<noteq> SMBUS_ARP_NON_ARP_CAPABLE \<and> ucAVFlag (inst k s) = SMBUS_TRUE then
         Some (SMBUS_TRUE, upd_inst i (\<lambda>x. x\<lparr>ucSendData := udid_message (inst k s)
           (push_bit 1 (ucSMBusAddr (inst k s)) OR SMBUS_UDID_ASSIGNED_ADDRESS_BIT0) (ucSendData x)\<rparr>) s)
       else acb_directed_loop E i ks s }
     else acb_directed_loop E i ks s }"

definition acb_get_udid_directed :: "'w smbus_env \<Rightarrow> nat \<Rightarrow> 'w smbus_st \<Rightarrow> 'w smbus_st option" where
  "acb_get_udid_directed E i s = do {
     let s = upd_inst i (\<lambda>x. x\<lparr>usSendDataSize := SMBUS_GET_UDID_MSG_LENGTH\<rparr>) s;
     s \<leftarrow> dbg E i (ucast (ucMatchedSMBusAddr (inst i s))) 725 s;
     (ucOKToACK, s) \<leftarrow> acb_directed_loop E i [0..<SMBUS_NUM_NON_ARP_INSTANCES] s;
     if ucOKToACK = SMBUS_TRUE then do {
       s \<leftarrow> ack_logged E i 776 s;
       Some (vSMBusNextStateDecoder i SMBUS_STATE_AWAITING_READ s) }
     else acb_nack E i s }"

text \<open>Collecting the candidates of an undirected Get UDID into the list, with its size.\<close>

fun acb_candidates ::
  "'w smbus_env \<Rightarrow> nat \<Rightarrow> nat list \<Rightarrow> (nat \<Rightarrow> u8) \<Rightarrow> nat \<Rightarrow> 'w smbus_st \<Rightarrow> ((nat \<Rightarrow> u8) \<times> nat \<times> 'w smbus_st) option" where
  "acb_candidates E i [] l n s = Some (l, n, s)"
| "acb_candidates E i (k # ks) l n s = do {
     s \<leftarrow> dbg E i (of_nat k) 796 s;
     if ucInstanceInUse (inst k s) = SMBUS_TRUE then do {
       s \<leftarrow> dbg E i (arp_capability_num (xARPCapability (inst k s))) 802 s;
       s \<leftarrow> dbg E i (ucast (ucARFlag (inst k s))) 805 s;
       if arp_capable (inst k s) \<and> unat (ucInstanceInPlay (prof s)) \<noteq> k \<and> ucARFlag (inst k s) = SMBUS_FALSE then do {
         l \<leftarrow> arr_set SMBUS_NUM_NON_ARP_INSTANCES l n (of_nat k);
         let n = n + 1;
         s \<leftarrow> dbg E i (of_nat n) 820 s;
         s \<leftarrow> dbg E i (of_nat k) 823 s;
         acb_candidates E i ks l n s }
       else acb_candidates E i ks l n s }
     else acb_candidates E i ks l n s }"

text \<open>The arbitration, when there is more than one candidate, and the reply of the winner.\<close>

definition acb_udid_pick :: "'w smbus_env \<Rightarrow> nat \<Rightarrow> (nat \<Rightarrow> u8) \<Rightarrow> nat \<Rightarrow> 'w smbus_st \<Rightarrow> ((nat \<Rightarrow> u8) \<times> 'w smbus_st) option" where
  "acb_udid_pick E i l n s =
     (if n \<noteq> 1 then do {
        s \<leftarrow> dbg E i (of_nat n) 841 s;
        l \<leftarrow> udid_narrow (prof s) (rev [0..<SMBUS_UDID_LENGTH]) l n;
        Some (l, s) }
      else Some (l, s))"

definition udid_address :: "SMBus_Instance \<Rightarrow> u8" where
  "udid_address m = (if ucAVFlag m = SMBUS_FALSE then SMBUS_UDID_DTA_AV_FLAG_CLEAR
     else push_bit 1 (ucSMBusAddr m) OR SMBUS_UDID_DTA_BIT_0_SET)"

definition acb_udid_reply :: "'w smbus_env \<Rightarrow> nat \<Rightarrow> u8 \<Rightarrow> 'w smbus_st \<Rightarrow> 'w smbus_st option" where
  "acb_udid_reply E i k s = do {
     s \<leftarrow> vLogAddEntry E SMBUS_LOG_LEVEL_DEBUG (ucast k) SMBUS_LOG_EVENT_DEBUG
            (ucast (ucSMBusAddr (inst (unat k) s))) 873 s;
     let s = upd_inst i (\<lambda>x. x\<lparr>ucSendData := udid_message (inst (unat k) s) (udid_address (inst (unat k) s))
               (ucSendData x)\<rparr>) s;
     s \<leftarrow> dbg E i (ucast (ucSMBusAddr (inst (unat k) s))) 904 s;
     s \<leftarrow> ack_logged E i 910 s;
     Some (vSMBusNextStateDecoder i SMBUS_STATE_AWAITING_READ s) }"

definition acb_get_udid :: "'w smbus_env \<Rightarrow> nat \<Rightarrow> 'w smbus_st \<Rightarrow> 'w smbus_st option" where
  "acb_get_udid E i s = do {
     let s = upd_inst i (\<lambda>x. x\<lparr>usSendDataSize := SMBUS_GET_UDID_MSG_LENGTH\<rparr>) s;
     (l, n, s) \<leftarrow> acb_candidates E i [0..<SMBUS_NUM_NON_ARP_INSTANCES] (\<lambda>_. 0) 0 s;
     if 0 < n then do {
       s \<leftarrow> dbg E i (of_nat n) 836 s;
       (l, s) \<leftarrow> acb_udid_pick E i l n s;
       acb_udid_reply E i (l 0) s }
     else acb_nack E i s }"

definition acb_arp_command :: "'w smbus_env \<Rightarrow> nat \<Rightarrow> 'w smbus_st \<Rightarrow> 'w smbus_st option" where
  "acb_arp_command E i s = do {
     s \<leftarrow> dbg E i (protocol_num (xProtocol (inst i s))) 610 s;
     (case xProtocol (inst i s) of
        SMBUS_ARP_PROTOCOL_ASSIGN_ADDRESS \<Rightarrow> acb_assign_address E i s
      | SMBUS_ARP_PROTOCOL_PREPARE_TO_ARP \<Rightarrow> acb_prepare_or_reset E i s
      | SMBUS_ARP_PROTOCOL_RESET_DEVICE \<Rightarrow> acb_prepare_or_reset E i s
      | SMBUS_ARP_PROTO_RESET_DEVICE_DIRECTED \<Rightarrow> acb_prepare_or_reset E i s
      | SMBUS_ARP_PROTOCOL_GET_UDID_DIRECTED \<Rightarrow> acb_get_udid_directed E i s
      | SMBUS_ARP_PROTOCOL_GET_UDID \<Rightarrow> acb_get_udid E i s
      | _ \<Rightarrow> Some s) }"

definition acb_arp :: "'w smbus_env \<Rightarrow> nat \<Rightarrow> 'w smbus_st \<Rightarrow> 'w smbus_st option" where
  "acb_arp E i s = do {
     s \<leftarrow> dbg E i (ucast (ucSMBusAddr (inst i s))) 600 s;
     (r, s) \<leftarrow> ucSMBusHandleActionGetARPProtocol E i s;
     if r = SMBUS_ACTION_ARP_PROTOCOL_UNDETERMINED then acb_nack E i s else acb_arp_command E i s }"

text \<open>The byte counts of the write protocols.\<close>

definition acb_expect :: "u16 \<Rightarrow> nat \<Rightarrow> 'w smbus_st \<Rightarrow> 'w smbus_st" where
  "acb_expect n i s = upd_inst i (\<lambda>x. x\<lparr>usExpectedByteCount := n, ucExpectedByteCountPart := ucast n\<rparr>) s"

fun ack_times :: "'w smbus_env \<Rightarrow> nat \<Rightarrow> nat \<Rightarrow> 'w smbus_st \<Rightarrow> 'w smbus_st option" where
  "ack_times E i 0 s = Some s"
| "ack_times E i (Suc n) s = do { s \<leftarrow> ack_counted E i s; ack_times E i n s }"

definition acb_write_ready :: "'w smbus_env \<Rightarrow> nat \<Rightarrow> 'w smbus_st \<Rightarrow> 'w smbus_st option" where
  "acb_write_ready E i s = do {
     s \<leftarrow> vSMBusHWWriteRxFifoFillThresholdFillThresh E (ucast (usExpectedByteCount (inst i s))) s;
     s \<leftarrow> ack_times E i (unat (usExpectedByteCount (inst i s)) + 1) s;
     (empty, s) \<leftarrow> ulSMBusHWReadTgtRxFifoStatusEmpty E s;
     s \<leftarrow> (if empty \<noteq> SMBUS_RX_FIFO_IS_EMPTY then vSMBusGenerateEvent_E_TARGET_DATA_IRQ E i s else Some s);
     Some (vSMBusNextStateDecoder i SMBUS_STATE_AWAITING_DATA s) }"

definition acb_read_protocol :: "'w smbus_env \<Rightarrow> nat \<Rightarrow> 'w smbus_st \<Rightarrow> 'w smbus_st option" where
  "acb_read_protocol E i s = do {
     s \<leftarrow> vSMBusHandleActionGetDataFromApplication E i s;
     s \<leftarrow> ack_logged E i 939 s;
     Some (vSMBusNextStateDecoder i SMBUS_STATE_AWAITING_READ s) }"

definition acb_block_protocol :: "'w smbus_env \<Rightarrow> nat \<Rightarrow> 'w smbus_st \<Rightarrow> 'w smbus_st option" where
  "acb_block_protocol E i s = do {
     s \<leftarrow> ack_logged E i 972 s;
     Some (vSMBusNextStateDecoder i SMBUS_STATE_AWAITING_BLOCK_SIZE s) }"

text \<open>A device: the first switch of the code sets the byte count of a write, the second one
  acknowledges it; both are decided by the protocol of the command.\<close>

definition acb_device :: "'w smbus_env \<Rightarrow> nat \<Rightarrow> 'w smbus_st \<Rightarrow> 'w smbus_st option" where
  "acb_device E i s = do {
     s \<leftarrow> vSMBusHandleActionGetProtocol E i s;
     (case xProtocol (inst i s) of
        SMBUS_PROTOCOL_BLOCK_READ \<Rightarrow> acb_read_protocol E i s
      | SMBUS_PROTOCOL_READ_64 \<Rightarrow> acb_read_protocol E i s
      | SMBUS_PROTOCOL_READ_32 \<Rightarrow> acb_read_protocol E i s
      | SMBUS_PROTOCOL_READ_WORD \<Rightarrow> acb_read_protocol E i s
      | SMBUS_PROTOCOL_READ_BYTE \<Rightarrow> acb_read_protocol E i s
      | SMBUS_PROTOCOL_WRITE_64 \<Rightarrow> acb_write_ready E i (acb_expect 8 i s)
      | SMBUS_PROTOCOL_WRITE_32 \<Rightarrow> acb_write_ready E i (acb_expect 4 i s)
      | SMBUS_PROTOCOL_WRITE_WORD \<Rightarrow> acb_write_ready E i (acb_expect 2 i s)
      | SMBUS_PROTOCOL_PROCESS_CALL \<Rightarrow> acb_write_ready E i (acb_expect 2 i s)
      | SMBUS_PROTOCOL_WRITE_BYTE \<Rightarrow> acb_write_ready E i (acb_expect 1 i s)
      | SMBUS_PROTOCOL_BLOCK_WRITE \<Rightarrow> acb_block_protocol E i s
      | SMBUS_PROTOCOL_BLK_WRITE_BLK_RD_PROCESS_CALL \<Rightarrow> acb_block_protocol E i s
      | _ \<Rightarrow> acb_nack E i s) }"

definition acb_data_irq :: "'w smbus_env \<Rightarrow> nat \<Rightarrow> 'w smbus_st \<Rightarrow> 'w smbus_st option" where
  "acb_data_irq E i s = do {
     s \<leftarrow> dbg E i (ucast (ucSMBusAddr (inst i s))) 576 s;
     s \<leftarrow> (if ucSMBusAddr (inst i s) = SMBUS_NOTIFY_ARP_MASTER_ADDRESS then acb_host_notify E i s
           else if ucSMBusAddr (inst i s) = SMBUS_DEVICE_DEFAULT_ARP_ADDRESS then acb_arp E i s
           else acb_device E i s);
     if xProtocol (inst i s) \<noteq> SMBUS_PROTOCOL_NONE then count_initiated i s else Some s }"

definition vDefaultSMBusFSMSMBusStateAwaitingCommandByte ::
  "'w smbus_env \<Rightarrow> nat \<Rightarrow> u8 \<Rightarrow> 'w smbus_st \<Rightarrow> 'w smbus_st option" where
  "vDefaultSMBusFSMSMBusStateAwaitingCommandByte E i ucAnyEvent s =
     error_cases E i ucAnyEvent s
       (if ucAnyEvent = E_DESC_FIFO_ALMOST_EMPTY_IRQ then Some s
        else if ucAnyEvent = E_TARGET_DATA_IRQ then acb_data_irq E i s
        else unexpected_event E i ucAnyEvent s)"

end
