(* ===== verification/SMBus_Transfer.thy ===== *)
theory SMBus_Transfer
  imports SMBus_State
begin

text \<open>
  The handlers of the SMBus state machine (\<open>smbus_state.c\<close>) for a target that is moving
  data: waiting for the read, sending bytes, the packet error code, receiving bytes and
  the block size, and the end of the transaction with its ARP side effects.
\<close>

section \<open>Waiting for the read, sending bytes, the packet error code\<close>

definition vDefaultSMBusFSMSMBusStateAwaitingRead :: "'w smbus_env \<Rightarrow> nat \<Rightarrow> u8 \<Rightarrow> 'w smbus_st \<Rightarrow> 'w smbus_st option" where
  "vDefaultSMBusFSMSMBusStateAwaitingRead E i ucAnyEvent s =
     error_cases E i ucAnyEvent s
       (if ucAnyEvent = E_DESC_FIFO_ALMOST_EMPTY_IRQ then do {
          s \<leftarrow> vLogAddEntry E SMBUS_LOG_LEVEL_INFO (inst_num i s) SMBUS_LOG_EVENT_DEBUG
                 (ucast (usDescriptorsSent (inst i s))) 1058 s;
          ack_almost_empty E i usExpectedByteCount s }
        else if ucAnyEvent = E_TARGET_READ_IRQ then
          Some (if xProtocol (inst i s) \<in>
                  {SMBUS_PROTOCOL_BLK_WRITE_BLK_RD_PROCESS_CALL, SMBUS_PROTOCOL_PROCESS_CALL,
                   SMBUS_PROTOCOL_BLOCK_READ, SMBUS_PROTOCOL_READ_64, SMBUS_PROTOCOL_READ_32,
                   SMBUS_PROTOCOL_READ_WORD, SMBUS_PROTOCOL_READ_BYTE, SMBUS_ARP_PROTOCOL_GET_UDID,
                   SMBUS_ARP_PROTOCOL_GET_UDID_DIRECTED}
                then vSMBusNextStateDecoder i SMBUS_STATE_READY_TO_SEND_BYTE s else s)
        else if ucAnyEvent = E_TARGET_DATA_IRQ then Some s
        else unexpected_event E i ucAnyEvent s)"

text \<open>Sending: a read descriptor per byte of the send buffer, while there is room.\<close>

fun send_fill :: "'w smbus_env \<Rightarrow> nat \<Rightarrow> nat \<Rightarrow> 'w smbus_st \<Rightarrow> 'w smbus_st option" where
  "send_fill E i 0 s = Some s"
| "send_fill E i (Suc n) s =
     (if usSendIndex (inst i s) < usSendDataSize (inst i s) then do {
        b \<leftarrow> arr_get SMBUS_DATA_SIZE_MAX (ucSendData (inst i s)) (unat (usSendIndex (inst i s)));
        (r, s) \<leftarrow> ucSMBusTargetReadDescriptorRead E b s;
        if r = SMBUS_HW_DESCRIPTOR_WRITE_FAIL then Some s
        else send_fill E i n (upd_inst i (\<lambda>x. x\<lparr>usSendIndex := usSendIndex x + 1\<rparr>) s) }
      else send_fill E i n s)"

definition rtsb_almost_empty :: "'w smbus_env \<Rightarrow> nat \<Rightarrow> 'w smbus_st \<Rightarrow> 'w smbus_st option" where
  "rtsb_almost_empty E i s =
     (if xProtocol (inst i s) \<in>
           {SMBUS_PROTOCOL_BLK_WRITE_BLK_RD_PROCESS_CALL, SMBUS_PROTOCOL_PROCESS_CALL,
            SMBUS_PROTOCOL_BLOCK_READ, SMBUS_PROTOCOL_READ_64, SMBUS_PROTOCOL_READ_32,
            SMBUS_PROTOCOL_READ_WORD, SMBUS_PROTOCOL_READ_BYTE, SMBUS_PROTOCOL_RECEIVE_BYTE,
            SMBUS_ARP_PROTOCOL_GET_UDID, SMBUS_ARP_PROTOCOL_GET_UDID_DIRECTED} \<or>
         ulI2CDevice (inst i s) = 1
      then do {
        s \<leftarrow> dbg E i (ucast (usSendIndex (inst i s))) 1224 s;
        s \<leftarrow> dbg E i (ucast (usSendDataSize (inst i s))) 1227 s;
        (fill, s) \<leftarrow> ulSMBusHWReadTgtDescStatusFillLevel E s;
        s \<leftarrow> send_fill E i (fifo_room fill) s;
        if usSendIndex (inst i s) = usSendDataSize (inst i s) then do {
          s \<leftarrow> vSMBusHandleActionCreateEventIsPECRequired E i s;
          Some (vSMBusNextStateDecoder i SMBUS_STATE_CHECK_IF_PEC_REQUIRED s) }
        else Some s }
      else Some s)"

definition vDefaultSMBusFSMSMBusStateReadyToSendByte ::
  "'w smbus_env \<Rightarrow> nat \<Rightarrow> u8 \<Rightarrow> 'w smbus_st \<Rightarrow> 'w smbus_st option" where
  "vDefaultSMBusFSMSMBusStateReadyToSendByte E i ucAnyEvent s =
     error_cases E i ucAnyEvent s
       (if ucAnyEvent = E_DESC_FIFO_ALMOST_EMPTY_IRQ then rtsb_almost_empty E i s
        else unexpected_event E i ucAnyEvent s)"

definition pec_read :: "'w smbus_env \<Rightarrow> nat \<Rightarrow> 'w smbus_st \<Rightarrow> 'w smbus_st option" where
  "pec_read E i s = do {
     (r, s) \<leftarrow> ucSMBusTargetReadDescriptorPECRead E s;
     if r = SMBUS_HW_DESCRIPTOR_WRITE_FAIL then vSMBusHandleActionCreateEventIsPECRequired E i s
     else Some (vSMBusNextStateDecoder i SMBUS_STATE_AWAITING_DONE s) }"

definition check_pec :: "'w smbus_env \<Rightarrow> nat \<Rightarrow> 'w smbus_st \<Rightarrow> 'w smbus_st option" where
  "check_pec E i s = do {
     s \<leftarrow> dbg E i (protocol_num (xProtocol (inst i s))) 1326 s;
     s \<leftarrow> (if xProtocol (inst i s) \<in>
             {SMBUS_PROTOCOL_BLK_WRITE_BLK_RD_PROCESS_CALL, SMBUS_PROTOCOL_PROCESS_CALL,
              SMBUS_PROTOCOL_BLOCK_READ, SMBUS_PROTOCOL_READ_64, SMBUS_PROTOCOL_READ_32,
              SMBUS_PROTOCOL_READ_WORD, SMBUS_PROTOCOL_READ_BYTE, SMBUS_PROTOCOL_RECEIVE_BYTE} \<or>
             ulI2CDevice (inst i s) = 1
          then do {
            s \<leftarrow> dbg E i (ucast (ucPECRequired (inst i s))) 1339 s;
            if ucPECRequired (inst i s) = SMBUS_TRUE then pec_read E i s
            else Some (vSMBusNextStateDecoder i SMBUS_STATE_AWAITING_DONE s) }
          else Some s);
     if xProtocol (inst i s) \<in> {SMBUS_ARP_PROTOCOL_GET_UDID, SMBUS_ARP_PROTOCOL_GET_UDID_DIRECTED}
     then pec_read E i s else Some s }"

definition vDefaultSMBusFSMSMBusStateCheckIfPECRequired ::
  "'w smbus_env \<Rightarrow> nat \<Rightarrow> u8 \<Rightarrow> 'w smbus_st \<Rightarrow> 'w smbus_st option" where
  "vDefaultSMBusFSMSMBusStateCheckIfPECRequired E i ucAnyEvent s =
     error_cases E i ucAnyEvent s
       (if ucAnyEvent = E_IS_PEC_REQUIRED then check_pec E i s
        else unexpected_event E i ucAnyEvent s)"

section \<open>The end of a transaction\<close>

definition done_fifo_empty :: "'w smbus_env \<Rightarrow> nat \<Rightarrow> 'w smbus_st \<Rightarrow> 'w smbus_st option" where
  "done_fifo_empty E i s = do {
     s \<leftarrow> dbg E i (ucast (usDescriptorsSent (inst i s))) 1414 s;
     s \<leftarrow> dbg E i (ucast (usExpectedByteCount (inst i s))) 1417 s;
     s \<leftarrow> dbg E i (ucast (usReceiveIndex (inst i s))) 1420 s;
     let s = upd_inst i (\<lambda>x. x\<lparr>ucFifoEmptyWhileInDoneCount := ucFifoEmptyWhileInDoneCount x + 1\<rparr>) s;
     if SMBUS_MAX_FIFO_EMPTY_WHILE_IN_DONE < ucFifoEmptyWhileInDoneCount (inst i s) then vSMBusSendNACK E i s
     else do {
       s \<leftarrow> (if ucNackSent (inst i s) = SMBUS_FALSE then ack_almost_empty E i usExpectedByteCount s else Some s);
       if unat (usExpectedByteCount (inst i s)) + 1 \<le> unat (usReceiveIndex (inst i s)) then
         (if ucPECRequired (inst i s) = SMBUS_TRUE \<and> ucPECSent (inst i s) = SMBUS_FALSE then do {
            (r, s) \<leftarrow> ucSMBusTargetWriteDescriptorPEC E s;
            Some (upd_inst i (\<lambda>x. x\<lparr>ucPECSent := SMBUS_TRUE\<rparr>) s) }
          else if ucSimpleDevice (inst i s) = SMBUS_TRUE then vSMBusSendNACK E i s
          else Some s)
       else Some s } }"

definition arp_reset_capable :: "SMBus_Instance \<Rightarrow> bool" where
  "arp_reset_capable m \<longleftrightarrow> xARPCapability m = SMBUS_ARP_CAPABLE \<or>
     xARPCapability m = SMBUS_ARP_FIXED_AND_DISCOVERABLE \<or> xARPCapability m = SMBUS_ARP_FIXED_NOT_DISCOVERABLE"

text \<open>Assign Address: the matched instance takes the new address, unless a byte was refused.
  An index outside the profile's array of instances is undefined.\<close>

definition done_assign_address :: "'w smbus_env \<Rightarrow> nat \<Rightarrow> 'w smbus_st \<Rightarrow> 'w smbus_st option" where
  "done_assign_address E i s =
     (if ucNackSent (inst i s) = SMBUS_FALSE then do {
        s \<leftarrow> dbg E i (ucast (ucUDIDMatchedInstance (inst i s))) 1586 s;
        s \<leftarrow> dbg E i (ucast (ucNewDeviceSlaveAddr (inst i s))) 1589 s;
        let n = ucUDIDMatchedInstance (inst i s);
        let k = unat n;
        m \<leftarrow> arr_get SMBUS_NUM_INSTANCES (xSMBusInstance (prof s)) k;
        let s = (if xARPCapability m = SMBUS_ARP_CAPABLE \<or> xARPCapability m = SMBUS_ARP_FIXED_AND_DISCOVERABLE
                 then upd_inst k (\<lambda>x. x\<lparr>ucARFlag := SMBUS_TRUE, ucAVFlag := SMBUS_TRUE\<rparr>) s else s);
        if xARPCapability m = SMBUS_ARP_CAPABLE then do {
          let s = upd_inst k (\<lambda>x. x\<lparr>ucSMBusAddr := ucNewDeviceSlaveAddr (inst i s)\<rparr>) s;
          s \<leftarrow> vSMBusHWWriteTgtControlEnable E n 0 s;
          s \<leftarrow> vSMBusHWWriteTgtControlAddress E n (ucast (ucSMBusAddr (inst k s))) s;
          s \<leftarrow> vSMBusHWWriteTgtControlEnable E n 1 s;
          Some (vSMBusHandleActionNotifyAddressChangeToApplication E k (ucast (ulTransactionID (prof s))) s) }
        else Some s }
      else Some s)"

fun done_prepare :: "'w smbus_env \<Rightarrow> nat list \<Rightarrow> 'w smbus_st \<Rightarrow> 'w smbus_st option" where
  "done_prepare E [] s = Some s"
| "done_prepare E (k # ks) s = do {
     s \<leftarrow> (if ucInstanceInUse (inst k s) = SMBUS_TRUE \<and> arp_reset_capable (inst k s) \<and>
             unat (ucInstanceInPlay (prof s)) \<noteq> k then vSMBusARPPrepareToARP E k s else Some s);
     done_prepare E ks s }"

fun done_reset :: "'w smbus_env \<Rightarrow> nat \<Rightarrow> nat list \<Rightarrow> 'w smbus_st \<Rightarrow> 'w smbus_st option" where
  "done_reset E i [] s = Some s"
| "done_reset E i (k # ks) s = do {
     s \<leftarrow> dbg E i (of_nat k) 1643 s;
     s \<leftarrow> (if ucInstanceInUse (inst k s) = SMBUS_TRUE then do {
            s \<leftarrow> dbg E i (ucast (ucSMBusAddr (inst k s))) 1649 s;
            if arp_reset_capable (inst k s) then do {
              s \<leftarrow> dbg E i (ucast (ucSMBusAddr (inst k s))) 1656 s;
              if unat (ucInstanceInPlay (prof s)) \<noteq> k then vSMBusARPResetDevice E k s else Some s }
            else Some s }
          else Some s);
     done_reset E i ks s }"

fun done_reset_directed :: "'w smbus_env \<Rightarrow> nat \<Rightarrow> nat list \<Rightarrow> 'w smbus_st \<Rightarrow> 'w smbus_st option" where
  "done_reset_directed E i [] s = Some s"
| "done_reset_directed E i (k # ks) s = do {
     s \<leftarrow> (if ucSMBusAddr (inst k s) = ucMatchedSMBusAddr (inst i s) \<and>
             ucInstanceInUse (inst k s) = SMBUS_TRUE \<and> arp_reset_capable (inst k s)
          then vSMBusARPResetDevice E k s else Some s);
     done_reset_directed E i ks s }"

definition done_i2c :: "'w smbus_env \<Rightarrow> nat \<Rightarrow> 'w smbus_st \<Rightarrow> 'w smbus_st option" where
  "done_i2c E i s = do {
     s \<leftarrow> dbg E i (ucast (ucCommand (inst i s))) 1537 s;
     s \<leftarrow> dbg E i (ucast (usExpectedByteCount (inst i s))) 1540 s;
     let s = (if ucNackSent (inst i s) = SMBUS_FALSE
              then vSMBusHandleActionAnnounceI2CResultToApplication E i RESULT_SUCCESS s else s);
     to_initial E i s }"

definition write_data :: "'w smbus_env \<Rightarrow> nat \<Rightarrow> 'w smbus_st \<Rightarrow> 'w smbus_st option" where
  "write_data E i s = vSMBusHandleActionWriteDataToApplication E i (ucast (ulTransactionID (prof s))) s"

definition done_smbus :: "'w smbus_env \<Rightarrow> nat \<Rightarrow> 'w smbus_st \<Rightarrow> 'w smbus_st option" where
  "done_smbus E i s = do {
     let p = xProtocol (inst i s);
     s \<leftarrow> (if p \<in> {SMBUS_PROTOCOL_BLOCK_WRITE, SMBUS_PROTOCOL_WRITE_64, SMBUS_PROTOCOL_WRITE_32,
                   SMBUS_PROTOCOL_WRITE_WORD, SMBUS_PROTOCOL_WRITE_BYTE, SMBUS_PROTOCOL_SEND_BYTE} then do {
            s \<leftarrow> dbg E i (ucast (ucCommand (inst i s))) 1561 s;
            s \<leftarrow> dbg E i (ucast (usExpectedByteCount (inst i s))) 1564 s;
            if ucNackSent (inst i s) = SMBUS_FALSE then write_data E i s else Some s }
          else Some s);
     s \<leftarrow> (if p = SMBUS_PROTOCOL_HOST_NOTIFY then write_data E i s else Some s);
     s \<leftarrow> (if p = SMBUS_ARP_PROTOCOL_ASSIGN_ADDRESS then done_assign_address E i s else Some s);
     s \<leftarrow> (if p = SMBUS_ARP_PROTOCOL_PREPARE_TO_ARP
          then done_prepare E [0..<SMBUS_NUM_NON_ARP_INSTANCES] s else Some s);
     s \<leftarrow> (if p = SMBUS_ARP_PROTOCOL_RESET_DEVICE
          then done_reset E i [0..<SMBUS_NUM_NON_ARP_INSTANCES] s else Some s);
     s \<leftarrow> (if p = SMBUS_ARP_PROTO_RESET_DEVICE_DIRECTED
          then done_reset_directed E i [0..<SMBUS_NUM_NON_ARP_INSTANCES] s else Some s);
     if p \<in> {SMBUS_PROTOCOL_BLK_WRITE_BLK_RD_PROCESS_CALL, SMBUS_PROTOCOL_PROCESS_CALL,
             SMBUS_PROTOCOL_BLOCK_WRITE, SMBUS_PROTOCOL_BLOCK_READ, SMBUS_PROTOCOL_READ_64,
             SMBUS_PROTOCOL_READ_32, SMBUS_PROTOCOL_READ_WORD, SMBUS_PROTOCOL_READ_BYTE,
             SMBUS_PROTOCOL_RECEIVE_BYTE, SMBUS_PROTOCOL_WRITE_64, SMBUS_PROTOCOL_WRITE_32,
             SMBUS_PROTOCOL_WRITE_WORD, SMBUS_PROTOCOL_WRITE_BYTE, SMBUS_PROTOCOL_SEND_BYTE,
             SMBUS_PROTOCOL_HOST_NOTIFY, SMBUS_PROTOCOL_NONE}
     then to_initial E i (announce E i (if ucNackSent (inst i s) = SMBUS_FALSE then RESULT_SUCCESS else RESULT_ERROR) s)
     else if p \<in> {SMBUS_ARP_PROTOCOL_ASSIGN_ADDRESS, SMBUS_ARP_PROTOCOL_PREPARE_TO_ARP,
             SMBUS_ARP_PROTOCOL_RESET_DEVICE, SMBUS_ARP_PROTO_RESET_DEVICE_DIRECTED,
             SMBUS_ARP_PROTOCOL_GET_UDID, SMBUS_ARP_PROTOCOL_GET_UDID_DIRECTED}
     then to_initial E i s
     else Some s }"

definition done_target_done :: "'w smbus_env \<Rightarrow> nat \<Rightarrow> 'w smbus_st \<Rightarrow> 'w smbus_st option" where
  "done_target_done E i s = do {
     s \<leftarrow> (if xProtocol (inst i s) = SMBUS_PROTOCOL_NONE then Some s else count_complete i s);
     if ulI2CDevice (inst i s) = 1 then done_i2c E i s else done_smbus E i s }"

definition done_controller_done :: "'w smbus_env \<Rightarrow> nat \<Rightarrow> 'w smbus_st \<Rightarrow> 'w smbus_st option" where
  "done_controller_done E i s = do {
     s \<leftarrow> (if xProtocol (inst i s) = SMBUS_PROTOCOL_BLOCK_READ then write_data E i s else Some s);
     s \<leftarrow> (if xProtocol (inst i s) = SMBUS_PROTOCOL_NONE then Some s else count_complete i s);
     to_initial E i
       (if xProtocol (inst i s) = I2C_PROTOCOL_WRITE
        then vSMBusHandleActionAnnounceI2CResultToApplication E i RESULT_SUCCESS s
        else announce E i RESULT_SUCCESS s) }"

text \<open>Here the target errors announce the result too.\<close>

definition vDefaultSMBusFSMSMBusStateAwaitingDone :: "'w smbus_env \<Rightarrow> nat \<Rightarrow> u8 \<Rightarrow> 'w smbus_st \<Rightarrow> 'w smbus_st option" where
  "vDefaultSMBusFSMSMBusStateAwaitingDone E i ucAnyEvent s =
     (if ucAnyEvent = E_CONTROLLER_DESC_FIFO_ALMOST_EMPTY_IRQ then do {
        s \<leftarrow> dbg E i (ucast (usDescriptorsSent (inst i s))) 1405 s;
        dbg E i (ucast (usExpectedByteCount (inst i s))) 1408 s }
      else if ucAnyEvent = E_DESC_FIFO_ALMOST_EMPTY_IRQ then done_fifo_empty E i s
      else if bus_warning_event ucAnyEvent then Some (vSMBusHandleActionBusWarning E i ucAnyEvent s)
      else if target_error_event ucAnyEvent then controller_error E i ucAnyEvent s
      else if controller_error_event ucAnyEvent then controller_error E i ucAnyEvent s
      else if ucAnyEvent = E_TARGET_READ_IRQ then vSMBusSendNACK E i s
      else if ucAnyEvent = E_TARGET_DONE_IRQ then done_target_done E i s
      else if ucAnyEvent = E_TARGET_DATA_IRQ then
        (if xProtocol (inst i s) \<in>
              {SMBUS_PROTOCOL_BLOCK_WRITE, SMBUS_PROTOCOL_WRITE_64, SMBUS_PROTOCOL_WRITE_32,
               SMBUS_PROTOCOL_WRITE_WORD, SMBUS_PROTOCOL_WRITE_BYTE, SMBUS_PROTOCOL_SEND_BYTE,
               SMBUS_ARP_PROTOCOL_ASSIGN_ADDRESS, SMBUS_ARP_PROTOCOL_PREPARE_TO_ARP,
               SMBUS_ARP_PROTOCOL_RESET_DEVICE, SMBUS_ARP_PROTO_RESET_DEVICE_DIRECTED,
               SMBUS_ARP_PROTOCOL_GET_UDID, SMBUS_ARP_PROTOCOL_GET_UDID_DIRECTED}
         then receive_available E i s else Some s)
      else if ucAnyEvent = E_CONTROLLER_DONE_IRQ then done_controller_done E i s
      else unexpected_event E i ucAnyEvent s)"

section \<open>Receiving data\<close>

text \<open>One byte of an Assign Address command against the UDIDs: an instance still matching
  whose byte differs is dropped, the last one that agrees is remembered.\<close>

fun udid_match_loop :: "nat \<Rightarrow> nat list \<Rightarrow> u8 \<Rightarrow> 'w smbus_st \<Rightarrow> (u8 \<times> 'w smbus_st) option" where
  "udid_match_loop i [] found s = Some (found, s)"
| "udid_match_loop i (k # ks) found s =
     (if ucInstanceInUse (inst k s) = SMBUS_TRUE \<and> ucUDIDMatch (prof s) k = SMBUS_TRUE then do {
        b \<leftarrow> arr_get SMBUS_DATA_SIZE_MAX (ucReceivedData (inst i s)) (unat (usReceiveIndex (inst i s)));
        if usReceiveIndex (inst i s) \<le> 15 then
          (if ucUDID (inst k s) (15 - unat (usReceiveIndex (inst i s))) = b
           then udid_match_loop i ks SMBUS_TRUE (upd_inst i (\<lambda>x. x\<lparr>ucUDIDMatchedInstance := of_nat k\<rparr>) s)
           else udid_match_loop i ks found (upd_prof (\<lambda>p. p\<lparr>ucUDIDMatch := (ucUDIDMatch p)(k := SMBUS_FALSE)\<rparr>) s))
        else None }
      else udid_match_loop i ks found s)"

definition ucCheckAtLeastOneMatchFound :: "'w smbus_env \<Rightarrow> nat \<Rightarrow> 'w smbus_st \<Rightarrow> (u8 \<times> 'w smbus_st) option" where
  "ucCheckAtLeastOneMatchFound E i s = do {
     (ucAtLeastOneMatchFound, s) \<leftarrow> udid_match_loop i [0..<SMBUS_NUM_NON_ARP_INSTANCES] SMBUS_FALSE s;
     s \<leftarrow> dbg E i (ucast ucAtLeastOneMatchFound) 1836 s;
     Some (ucAtLeastOneMatchFound, s) }"

text \<open>The value of the byte that was just received.\<close>

abbreviation received_byte :: "nat \<Rightarrow> 'w smbus_st \<Rightarrow> u8" where
  "received_byte i s \<equiv> ucReceivedData (inst i s) (unat (usReceiveIndex (inst i s)))"

definition assign_address_byte :: "'w smbus_env \<Rightarrow> nat \<Rightarrow> 'w smbus_st \<Rightarrow> 'w smbus_st option" where
  "assign_address_byte E i s = do {
     (payload, s) \<leftarrow> ulSMBusHWReadTgtRxFifoPayload E s;
     dat \<leftarrow> arr_set SMBUS_DATA_SIZE_MAX (ucReceivedData (inst i s)) (unat (usReceiveIndex (inst i s))) (ucast payload);
     let s = upd_inst i (\<lambda>x. x\<lparr>ucReceivedData := dat\<rparr>) s;
     s \<leftarrow> dbg E i (ucast (usReceiveIndex (inst i s))) 2032 s;
     s \<leftarrow> dbg E i (ucast (received_byte i s)) 2035 s;
     if usReceiveIndex (inst i s) < 16 then do {
       s \<leftarrow> dbg E i (ucast (received_byte i s)) 2040 s;
       (found, s) \<leftarrow> ucCheckAtLeastOneMatchFound E i s;
       s \<leftarrow> (if found = SMBUS_TRUE then do {
              s \<leftarrow> ack_counted E i s;
              Some (vSMBusNextStateDecoder i SMBUS_STATE_AWAITING_DATA s) }
            else do {
              s \<leftarrow> vSMBusSendNACK E i s;
              Some (vSMBusNextStateDecoder i SMBUS_STATE_AWAITING_DONE s) });
       Some (upd_inst i (\<lambda>x. x\<lparr>usReceiveIndex := usReceiveIndex x + 1\<rparr>) s) }
     else if usReceiveIndex (inst i s) = 16 then do {
       let s = upd_inst i (\<lambda>x. x\<lparr>ucNewDeviceSlaveAddr := drop_bit 1 (ucReceivedData x (unat (usReceiveIndex x)))\<rparr>) s;
       s \<leftarrow> dbg E i (ucast (received_byte i s)) 2065 s;
       s \<leftarrow> dbg E i (ucast (ucUDIDMatchedInstance (inst i s))) 2068 s;
       s \<leftarrow> dbg E i (ucast (ucNewDeviceSlaveAddr (inst i s))) 2071 s;
       s \<leftarrow> ack_counted E i s;
       Some (upd_inst i (\<lambda>x. x\<lparr>usReceiveIndex := usReceiveIndex x + 1\<rparr>) s) }
     else do {
       s \<leftarrow> dbg E i (ucast (usReceiveIndex (inst i s))) 2084 s;
       (r, s) \<leftarrow> ucSMBusTargetWriteDescriptorPEC E s;
       let s = upd_inst i (\<lambda>x. x\<lparr>ucPECSent := SMBUS_TRUE\<rparr>) s;
       Some (vSMBusNextStateDecoder i SMBUS_STATE_AWAITING_DONE s) } }"

fun assign_address_loop :: "'w smbus_env \<Rightarrow> nat \<Rightarrow> nat \<Rightarrow> 'w smbus_st \<Rightarrow> 'w smbus_st option" where
  "assign_address_loop E i 0 s = Some s"
| "assign_address_loop E i (Suc n) s = do { s \<leftarrow> assign_address_byte E i s; assign_address_loop E i n s }"

definition data_write_bytes :: "'w smbus_env \<Rightarrow> nat \<Rightarrow> 'w smbus_st \<Rightarrow> 'w smbus_st option" where
  "data_write_bytes E i s = do {
     s \<leftarrow> receive_available E i s;
     if usReceiveIndex (inst i s) < usExpectedByteCount (inst i s) then do {
       let s = upd_inst i (\<lambda>x. x\<lparr>ucExpectedByteCountPart :=
                 (if usExpectedByteCount x - usReceiveIndex x < SMBUS_FIFO_FILL_TRIGGER then 1
                  else ucast SMBUS_FIFO_FILL_TRIGGER)\<rparr>) s;
       s \<leftarrow> vSMBusHWWriteRxFifoFillThresholdFillThresh E (ucast (ucExpectedByteCountPart (inst i s))) s;
       Some (vSMBusNextStateDecoder i SMBUS_STATE_AWAITING_DATA s) }
     else do {
       s \<leftarrow> vSMBusHWWriteRxFifoFillThresholdFillThresh E 1 s;
       if xProtocol (inst i s) \<in> {SMBUS_PROTOCOL_BLK_WRITE_BLK_RD_PROCESS_CALL, SMBUS_PROTOCOL_PROCESS_CALL}
       then do {
         s \<leftarrow> (if ucNackSent (inst i s) = SMBUS_FALSE then write_data E i s else Some s);
         s \<leftarrow> vSMBusHandleActionGetDataFromApplication E i s;
         s \<leftarrow> dbg E i (ucast (usSendDataSize (inst i s))) 2144 s;
         Some (vSMBusNextStateDecoder i SMBUS_STATE_AWAITING_READ s) }
       else Some (vSMBusNextStateDecoder i SMBUS_STATE_AWAITING_DONE s) } }"

definition data_data_irq :: "'w smbus_env \<Rightarrow> nat \<Rightarrow> 'w smbus_st \<Rightarrow> 'w smbus_st option" where
  "data_data_irq E i s =
     (if ulI2CDevice (inst i s) = 1 then receive_available E i s
      else if xProtocol (inst i s) = SMBUS_ARP_PROTOCOL_ASSIGN_ADDRESS then do {
        (fill, s) \<leftarrow> ulSMBusHWReadTgtRxFifoStatusFillLevel E s;
        assign_address_loop E i (unat (ucast fill :: u8)) s }
      else if xProtocol (inst i s) \<in>
           {SMBUS_PROTOCOL_HOST_NOTIFY, SMBUS_PROTOCOL_BLK_WRITE_BLK_RD_PROCESS_CALL,
            SMBUS_PROTOCOL_PROCESS_CALL, SMBUS_PROTOCOL_BLOCK_WRITE, SMBUS_PROTOCOL_WRITE_64,
            SMBUS_PROTOCOL_WRITE_32, SMBUS_PROTOCOL_WRITE_WORD, SMBUS_PROTOCOL_WRITE_BYTE,
            SMBUS_PROTOCOL_SEND_BYTE}
      then data_write_bytes E i s
      else Some s)"

definition data_i2c_deliver :: "'w smbus_env \<Rightarrow> nat \<Rightarrow> 'w smbus_st \<Rightarrow> 'w smbus_st option" where
  "data_i2c_deliver E i s =
     (if ucNackSent (inst i s) = SMBUS_FALSE \<and> 0 < usReceiveIndex (inst i s)
      then vSMBusHandleActionWriteI2CDataToApplication E i s else Some s)"

definition data_read_irq :: "'w smbus_env \<Rightarrow> nat \<Rightarrow> u8 \<Rightarrow> 'w smbus_st \<Rightarrow> 'w smbus_st option" where
  "data_read_irq E i ucAnyEvent s =
     (if xProtocol (inst i s) \<noteq> SMBUS_PROTOCOL_HOST_NOTIFY then
        (if ulI2CDevice (inst i s) = 1 then do {
           s \<leftarrow> data_i2c_deliver E i s;
           s \<leftarrow> vSMBusHandleActionGetI2CDataFromApplication E i s;
           Some (vSMBusNextStateDecoder i SMBUS_STATE_READY_TO_SEND_BYTE s) }
         else vSMBusGenerateEvent_E_TARGET_READ_IRQ E i s)
      else controller_error E i ucAnyEvent s)"

definition data_done_irq :: "'w smbus_env \<Rightarrow> nat \<Rightarrow> u8 \<Rightarrow> 'w smbus_st \<Rightarrow> 'w smbus_st option" where
  "data_done_irq E i ucAnyEvent s =
     (if ulI2CDevice (inst i s) = 1 then do {
        s \<leftarrow> data_i2c_deliver E i s;
        s \<leftarrow> vSMBusGenerateEvent_E_TARGET_DONE_IRQ E i s;
        Some (vSMBusNextStateDecoder i SMBUS_STATE_AWAITING_DONE s) }
      else to_initial E i (vSMBusHandleActionBusError E i ucAnyEvent (announce E i RESULT_ERROR s)))"

definition vDefaultSMBusFSMSMBusStateAwaitingData :: "'w smbus_env \<Rightarrow> nat \<Rightarrow> u8 \<Rightarrow> 'w smbus_st \<Rightarrow> 'w smbus_st option" where
  "vDefaultSMBusFSMSMBusStateAwaitingData E i ucAnyEvent s =
     error_cases E i ucAnyEvent s
       (if ucAnyEvent = E_DESC_FIFO_ALMOST_EMPTY_IRQ then
          (if xProtocol (inst i s) \<noteq> SMBUS_ARP_PROTOCOL_ASSIGN_ADDRESS then
             (if ulI2CDevice (inst i s) \<noteq> 0 then ack_almost_empty E i usReceiveIndex s
              else ack_almost_empty E i usExpectedByteCount s)
           else Some s)
        else if ucAnyEvent = E_TARGET_READ_IRQ then data_read_irq E i ucAnyEvent s
        else if ucAnyEvent = E_TARGET_DONE_IRQ then data_done_irq E i ucAnyEvent s
        else if ucAnyEvent = E_TARGET_DATA_IRQ then data_data_irq E i s
        else unexpected_event E i ucAnyEvent s)"

section \<open>The block size\<close>

definition block_size_irq :: "'w smbus_env \<Rightarrow> nat \<Rightarrow> 'w smbus_st \<Rightarrow> 'w smbus_st option" where
  "block_size_irq E i s = do {
     (empty, s) \<leftarrow> ulSMBusHWReadTgtRxFifoStatusEmpty E s;
     if empty \<noteq> SMBUS_RX_FIFO_IS_EMPTY then do {
       (payload, s) \<leftarrow> ulSMBusHWReadTgtRxFifoPayload E s;
       let s = upd_inst i (\<lambda>x. x\<lparr>usExpectedByteCount := ucast payload\<rparr>) s;
       s \<leftarrow> dbg E i (ucast (usDescriptorsSent (inst i s))) 2244 s;
       s \<leftarrow> dbg E i (ucast (usExpectedByteCount (inst i s))) 2247 s;
       s \<leftarrow> ack_logged E i 2254 s;
       let s = upd_inst i (\<lambda>x. x\<lparr>usReceiveIndex := 0, ucExpectedByteCountPart :=
                 (if usExpectedByteCount x < SMBUS_FIFO_FILL_TRIGGER then 1 else ucast SMBUS_FIFO_FILL_TRIGGER)\<rparr>) s;
       s \<leftarrow> vSMBusHWWriteRxFifoFillThresholdFillThresh E (ucast (ucExpectedByteCountPart (inst i s))) s;
       if xProtocol (inst i s) = SMBUS_PROTOCOL_BLK_WRITE_BLK_RD_PROCESS_CALL \<and> usExpectedByteCount (inst i s) = 0
       then do {
         s \<leftarrow> vSMBusHandleActionGetDataFromApplication E i s;
         s \<leftarrow> dbg E i (ucast (usSendDataSize (inst i s))) 2283 s;
         Some (vSMBusNextStateDecoder i SMBUS_STATE_AWAITING_READ s) }
       else Some (vSMBusNextStateDecoder i SMBUS_STATE_AWAITING_DATA s) }
     else dbg E i 0 2261 s }"

definition vDefaultSMBusFSMSMBusStateAwaitingBlockSize ::
  "'w smbus_env \<Rightarrow> nat \<Rightarrow> u8 \<Rightarrow> 'w smbus_st \<Rightarrow> 'w smbus_st option" where
  "vDefaultSMBusFSMSMBusStateAwaitingBlockSize E i ucAnyEvent s =
     error_cases E i ucAnyEvent s
       (if ucAnyEvent = E_DESC_FIFO_ALMOST_EMPTY_IRQ then Some s
        else if ucAnyEvent = E_TARGET_DATA_IRQ then
          (if xProtocol (inst i s) \<in>
                {SMBUS_PROTOCOL_BLK_WRITE_BLK_RD_PROCESS_CALL, SMBUS_PROTOCOL_BLOCK_WRITE,
                 SMBUS_ARP_PROTOCOL_ASSIGN_ADDRESS}
           then block_size_irq E i s else Some s)
        else unexpected_event E i ucAnyEvent s)"

end
