(* ===== verification/SMBus_Controller.thy ===== *)
theory SMBus_Controller
  imports SMBus_State
begin

text \<open>
  The handlers of the SMBus state machine (\<open>smbus_state.c\<close>) for the states of a controller:
  sending the command, writing bytes, starting a read, reading the block size, the bytes
  and the end of a read.
\<close>

definition control_enable :: "'w smbus_env \<Rightarrow> 'w smbus_st \<Rightarrow> 'w smbus_st option" where
  "control_enable E s = vSMBusHWWriteCtrlControlEnable E SMBUS_CONTROL_ENABLE s"

section \<open>Sending the command\<close>

definition send_command :: "'w smbus_env \<Rightarrow> nat \<Rightarrow> SMBUS_STATE \<Rightarrow> 'w smbus_st \<Rightarrow> 'w smbus_st option" where
  "send_command E i xNext s = do {
     (r, s) \<leftarrow> ucSMBusControllerWriteDescriptorByte E (ucCommand (inst i s)) SMBUS_FALSE s;
     if r = SMBUS_HW_DESCRIPTOR_WRITE_FAIL then Some s
     else do {
       s \<leftarrow> vSMBusHandleActionCreateEventSendNextByte E i s;
       Some (vSMBusNextStateDecoder i xNext s) } }"

definition csc_send_next_byte :: "'w smbus_env \<Rightarrow> nat \<Rightarrow> 'w smbus_st \<Rightarrow> 'w smbus_st option" where
  "csc_send_next_byte E i s =
     (if xProtocol (inst i s) \<in>
           {SMBUS_PROTOCOL_BLOCK_READ, SMBUS_PROTOCOL_READ_64, SMBUS_PROTOCOL_READ_32,
            SMBUS_PROTOCOL_READ_WORD, SMBUS_PROTOCOL_READ_BYTE, SMBUS_ARP_PROTOCOL_GET_UDID,
            SMBUS_ARP_PROTOCOL_GET_UDID_DIRECTED}
      then send_command E i SMBUS_STATE_CONTROLLER_SEND_READ_START s
      else if xProtocol (inst i s) \<in>
           {SMBUS_PROTOCOL_BLOCK_WRITE, SMBUS_PROTOCOL_WRITE_BYTE, SMBUS_PROTOCOL_WRITE_WORD,
            SMBUS_PROTOCOL_HOST_NOTIFY, SMBUS_PROTOCOL_WRITE_32, SMBUS_PROTOCOL_WRITE_64,
            SMBUS_PROTOCOL_PROCESS_CALL, SMBUS_PROTOCOL_BLK_WRITE_BLK_RD_PROCESS_CALL,
            SMBUS_ARP_PROTOCOL_PREPARE_TO_ARP, SMBUS_ARP_PROTOCOL_RESET_DEVICE,
            SMBUS_ARP_PROTO_RESET_DEVICE_DIRECTED, SMBUS_ARP_PROTOCOL_ASSIGN_ADDRESS}
      then send_command E i SMBUS_STATE_CONTROLLER_WRITE_BYTE s
      else if xProtocol (inst i s) = SMBUS_PROTOCOL_SEND_BYTE then do {
        s \<leftarrow> vSMBusHandleActionCreateEventSendNextByte E i s;
        Some (vSMBusNextStateDecoder i SMBUS_STATE_CONTROLLER_WRITE_BYTE s) }
      else Some s)"

definition vDefaultSMBusFSMSMBusStateControllerSendCommand ::
  "'w smbus_env \<Rightarrow> nat \<Rightarrow> u8 \<Rightarrow> 'w smbus_st \<Rightarrow> 'w smbus_st option" where
  "vDefaultSMBusFSMSMBusStateControllerSendCommand E i ucAnyEvent s =
     error_cases E i ucAnyEvent s
       (if ucAnyEvent = E_SEND_NEXT_BYTE then csc_send_next_byte E i s
        else unexpected_event E i ucAnyEvent s)"

section \<open>Writing bytes\<close>

text \<open>One byte of the send buffer goes into the descriptor FIFO.\<close>

definition advance_send :: "nat \<Rightarrow> 'w smbus_st \<Rightarrow> 'w smbus_st" where
  "advance_send i s = upd_inst i (\<lambda>x. x\<lparr>usSendIndex := usSendIndex x + 1, usSendDataSize := usSendDataSize x - 1\<rparr>) s"

definition send_data_byte :: "nat \<Rightarrow> 'w smbus_st \<Rightarrow> u8 option" where
  "send_data_byte i s = arr_get SMBUS_DATA_SIZE_MAX (ucSendData (inst i s)) (unat (usSendIndex (inst i s)))"

text \<open>All bytes but the last one, while there is room.\<close>

fun cwb_fill :: "'w smbus_env \<Rightarrow> nat \<Rightarrow> nat \<Rightarrow> 'w smbus_st \<Rightarrow> 'w smbus_st option" where
  "cwb_fill E i 0 s = Some s"
| "cwb_fill E i (Suc n) s =
     (if 1 < usSendDataSize (inst i s) then do {
        b \<leftarrow> send_data_byte i s;
        s \<leftarrow> vLogAddEntry E SMBUS_LOG_LEVEL_DEBUG (ucast (usSendIndex (inst i s))) SMBUS_LOG_EVENT_DEBUG (ucast b) 2518 s;
        (r, s) \<leftarrow> ucSMBusControllerWriteDescriptorByte E b SMBUS_TRUE s;
        if r = SMBUS_HW_DESCRIPTOR_WRITE_FAIL then Some s else cwb_fill E i n (advance_send i s) }
      else cwb_fill E i n s)"

text \<open>All bytes: the Assign Address command.\<close>

fun cwb_fill_all :: "'w smbus_env \<Rightarrow> nat \<Rightarrow> nat \<Rightarrow> 'w smbus_st \<Rightarrow> 'w smbus_st option" where
  "cwb_fill_all E i 0 s = Some s"
| "cwb_fill_all E i (Suc n) s =
     (if 0 < usSendDataSize (inst i s) then do {
        b \<leftarrow> send_data_byte i s;
        (r, s) \<leftarrow> ucSMBusControllerWriteDescriptorByte E b SMBUS_TRUE s;
        if r = SMBUS_HW_DESCRIPTOR_WRITE_FAIL then Some s else cwb_fill_all E i n (advance_send i s) }
      else Some s)"

definition cwb_last_then_read :: "'w smbus_env \<Rightarrow> nat \<Rightarrow> 'w smbus_st \<Rightarrow> 'w smbus_st option" where
  "cwb_last_then_read E i s = do {
     b \<leftarrow> send_data_byte i s;
     (r, s) \<leftarrow> ucSMBusControllerWriteDescriptorByte E b SMBUS_FALSE s;
     if r = SMBUS_HW_DESCRIPTOR_WRITE_FAIL then Some (vSMBusNextStateDecoder i SMBUS_STATE_CONTROLLER_WRITE_BYTE s)
     else do {
       s \<leftarrow> vSMBusHandleActionCreateEventSendNextByte E i s;
       Some (vSMBusNextStateDecoder i SMBUS_STATE_CONTROLLER_SEND_READ_START s) } }"

definition cwb_last_host_notify :: "'w smbus_env \<Rightarrow> nat \<Rightarrow> 'w smbus_st \<Rightarrow> 'w smbus_st option" where
  "cwb_last_host_notify E i s = do {
     b \<leftarrow> send_data_byte i s;
     (r, s) \<leftarrow> ucSMBusControllerWriteDescriptorStopWrite E b s;
     Some (vSMBusNextStateDecoder i
       (if r = SMBUS_HW_DESCRIPTOR_WRITE_FAIL then SMBUS_STATE_CONTROLLER_WRITE_BYTE else SMBUS_STATE_AWAITING_DONE) s) }"

definition cwb_last_pec :: "'w smbus_env \<Rightarrow> nat \<Rightarrow> 'w smbus_st \<Rightarrow> 'w smbus_st option" where
  "cwb_last_pec E i s = do {
     (fill, s) \<leftarrow> ulSMBusHWReadCtrlDescStatusFillLevel E s;
     if fill \<le> SMBUS_FIFO_SPACE_FOR_TWO_BYTES then do {
       b \<leftarrow> send_data_byte i s;
       (r, s) \<leftarrow> ucSMBusControllerWriteDescriptorByte E b SMBUS_FALSE s;
       if r = SMBUS_HW_DESCRIPTOR_WRITE_FAIL then Some (vSMBusNextStateDecoder i SMBUS_STATE_CONTROLLER_WRITE_BYTE s)
       else do {
         (r, s) \<leftarrow> ucSMBusControllerWriteDescriptorPECWrite E s;
         s \<leftarrow> control_enable E s;
         Some (vSMBusNextStateDecoder i SMBUS_STATE_AWAITING_DONE s) } }
     else Some (vSMBusNextStateDecoder i SMBUS_STATE_CONTROLLER_WRITE_BYTE s) }"

definition cwb_last_stop :: "'w smbus_env \<Rightarrow> nat \<Rightarrow> 'w smbus_st \<Rightarrow> 'w smbus_st option" where
  "cwb_last_stop E i s = do {
     b \<leftarrow> send_data_byte i s;
     (r, s) \<leftarrow> ucSMBusControllerWriteDescriptorStopWrite E b s;
     s \<leftarrow> control_enable E s;
     Some (vSMBusNextStateDecoder i
       (if r = SMBUS_HW_DESCRIPTOR_WRITE_FAIL then SMBUS_STATE_CONTROLLER_WRITE_BYTE else SMBUS_STATE_AWAITING_DONE) s) }"

definition cwb_data :: "'w smbus_env \<Rightarrow> nat \<Rightarrow> 'w smbus_st \<Rightarrow> 'w smbus_st option" where
  "cwb_data E i s = do {
     s \<leftarrow> dbg E i (ucast (usSendDataSize (inst i s))) 2505 s;
     if 1 < usSendDataSize (inst i s) then do {
       (fill, s) \<leftarrow> ulSMBusHWReadCtrlDescStatusFillLevel E s;
       s \<leftarrow> cwb_fill E i (fifo_room fill) s;
       control_enable E s }
     else do {
       s \<leftarrow> dbg E i (ucast (usSendDataSize (inst i s))) 2538 s;
       if xProtocol (inst i s) \<in>
            {SMBUS_PROTOCOL_PROCESS_CALL, SMBUS_PROTOCOL_BLK_WRITE_BLK_RD_PROCESS_CALL, I2C_PROTOCOL_WRITE_READ}
       then cwb_last_then_read E i s
       else do {
         s \<leftarrow> dbg E i (ucast (usSendDataSize (inst i s))) 2560 s;
         if xProtocol (inst i s) = SMBUS_PROTOCOL_HOST_NOTIFY then cwb_last_host_notify E i s
         else do {
           s \<leftarrow> dbg E i (ucast (ucPecRequiredForTransaction (inst i s))) 2579 s;
           if ucPecRequiredForTransaction (inst i s) = SMBUS_TRUE then cwb_last_pec E i s
           else cwb_last_stop E i s } } } }"

definition cwb_assign_address :: "'w smbus_env \<Rightarrow> nat \<Rightarrow> 'w smbus_st \<Rightarrow> 'w smbus_st option" where
  "cwb_assign_address E i s = do {
     (fill, s) \<leftarrow> ulSMBusHWReadCtrlDescStatusFillLevel E s;
     s \<leftarrow> cwb_fill_all E i (fifo_room fill) s;
     (r, s) \<leftarrow> ucSMBusControllerWriteDescriptorPECWrite E s;
     s \<leftarrow> control_enable E s;
     Some (vSMBusNextStateDecoder i SMBUS_STATE_AWAITING_DONE s) }"

definition cwb_arp_command :: "'w smbus_env \<Rightarrow> nat \<Rightarrow> 'w smbus_st \<Rightarrow> 'w smbus_st option" where
  "cwb_arp_command E i s = do {
     s \<leftarrow> dbg E i (protocol_num (xProtocol (inst i s))) 2668 s;
     (r, s) \<leftarrow> ucSMBusControllerWriteDescriptorPECWrite E s;
     s \<leftarrow> control_enable E s;
     Some (vSMBusNextStateDecoder i SMBUS_STATE_AWAITING_DONE s) }"

definition vDefaultSMBusFSMSMBusStateControllerWriteByte ::
  "'w smbus_env \<Rightarrow> nat \<Rightarrow> u8 \<Rightarrow> 'w smbus_st \<Rightarrow> 'w smbus_st option" where
  "vDefaultSMBusFSMSMBusStateControllerWriteByte E i ucAnyEvent s =
     error_cases E i ucAnyEvent s
       (if ucAnyEvent = E_SEND_NEXT_BYTE \<or> ucAnyEvent = E_CONTROLLER_DESC_FIFO_ALMOST_EMPTY_IRQ then
          (if xProtocol (inst i s) \<in>
                {SMBUS_PROTOCOL_BLOCK_WRITE, SMBUS_PROTOCOL_WRITE_BYTE, SMBUS_PROTOCOL_WRITE_WORD,
                 SMBUS_PROTOCOL_WRITE_32, SMBUS_PROTOCOL_WRITE_64, SMBUS_PROTOCOL_PROCESS_CALL,
                 SMBUS_PROTOCOL_BLK_WRITE_BLK_RD_PROCESS_CALL, SMBUS_PROTOCOL_SEND_BYTE,
                 SMBUS_PROTOCOL_HOST_NOTIFY, I2C_PROTOCOL_WRITE, I2C_PROTOCOL_WRITE_READ}
           then cwb_data E i s
           else if xProtocol (inst i s) = SMBUS_ARP_PROTOCOL_ASSIGN_ADDRESS then cwb_assign_address E i s
           else if xProtocol (inst i s) \<in>
                {SMBUS_ARP_PROTOCOL_PREPARE_TO_ARP, SMBUS_ARP_PROTOCOL_RESET_DEVICE,
                 SMBUS_ARP_PROTO_RESET_DEVICE_DIRECTED}
           then cwb_arp_command E i s
           else Some s)
        else unexpected_event E i ucAnyEvent s)"

section \<open>Starting a read\<close>

text \<open>The receive threshold is left at one when nothing is expected.\<close>

definition ctrl_threshold :: "'w smbus_env \<Rightarrow> nat \<Rightarrow> 'w smbus_st \<Rightarrow> 'w smbus_st option" where
  "ctrl_threshold E i s =
     (if 0 < ucExpectedByteCountPart (inst i s)
      then vSMBusHWWriteCtrlRxFifoFillThreshold E (ucast (ucExpectedByteCountPart (inst i s))) s
      else Some s)"

fun read_bytes :: "'w smbus_env \<Rightarrow> nat \<Rightarrow> nat \<Rightarrow> 'w smbus_st \<Rightarrow> 'w smbus_st option" where
  "read_bytes E i 0 s = Some s"
| "read_bytes E i (Suc n) s = do {
     (r, s) \<leftarrow> ucSMBusControllerReadDescriptorByte E SMBUS_FALSE s;
     read_bytes E i n (upd_inst i (\<lambda>x. x\<lparr>usDescriptorsSent := usDescriptorsSent x + 1\<rparr>) s) }"

definition csrs_i2c :: "'w smbus_env \<Rightarrow> nat \<Rightarrow> 'w smbus_st \<Rightarrow> 'w smbus_st option" where
  "csrs_i2c E i s = do {
     let s = upd_inst i (\<lambda>x. x\<lparr>usDescriptorsSent := 0\<rparr>) s;
     (r, s) \<leftarrow> ucSMBusControllerReadDescriptorStart E (ucSMBusDestAddr (inst i s)) s;
     let s = upd_inst i (\<lambda>x. x\<lparr>ucExpectedByteCountPart := half_fifo_part (usExpectedByteCount x)\<rparr>) s;
     s \<leftarrow> ctrl_threshold E i s;
     if usExpectedByteCount (inst i s) = 0 then do {
       (r, s) \<leftarrow> ucSMBusControllerReadDescriptorStop E s;
       s \<leftarrow> control_enable E s;
       Some (vSMBusNextStateDecoder i SMBUS_STATE_CONTROLLER_READ_DONE s) }
     else do {
       s \<leftarrow> control_enable E s;
       Some (vSMBusNextStateDecoder i SMBUS_STATE_CONTROLLER_READ_BYTE s) } }"

definition csrs_block :: "'w smbus_env \<Rightarrow> nat \<Rightarrow> 'w smbus_st \<Rightarrow> 'w smbus_st option" where
  "csrs_block E i s = do {
     let s = upd_inst i (\<lambda>x. x\<lparr>usDescriptorsSent := 0\<rparr>) s;
     (r, s) \<leftarrow> ucSMBusControllerReadDescriptorStart E (ucSMBusDestAddr (inst i s)) s;
     (fill, s) \<leftarrow> ulSMBusHWReadCtrlDescStatusFillLevel E s;
     s \<leftarrow> control_enable E s;
     s \<leftarrow> dbg E i (protocol_num (xProtocol (inst i s))) 2788 s;
     Some (vSMBusNextStateDecoder i SMBUS_STATE_CONTROLLER_READ_BLOCK_SIZE s) }"

definition read_size :: "SMBUS_COMMAND_PROTOCOL \<Rightarrow> u16 option" where
  "read_size p = (case p of
     SMBUS_PROTOCOL_READ_64 \<Rightarrow> Some 8
   | SMBUS_PROTOCOL_READ_32 \<Rightarrow> Some 4
   | SMBUS_PROTOCOL_READ_WORD \<Rightarrow> Some 2
   | SMBUS_PROTOCOL_READ_BYTE \<Rightarrow> Some 1
   | SMBUS_PROTOCOL_PROCESS_CALL \<Rightarrow> Some 2
   | SMBUS_PROTOCOL_RECEIVE_BYTE \<Rightarrow> Some 1
   | _ \<Rightarrow> None)"

definition csrs_read :: "'w smbus_env \<Rightarrow> nat \<Rightarrow> u16 \<Rightarrow> 'w smbus_st \<Rightarrow> 'w smbus_st option" where
  "csrs_read E i n s = do {
     let s = upd_inst i (\<lambda>x. x\<lparr>usExpectedByteCount := n, ucExpectedByteCountPart := ucast n, usDescriptorsSent := 0\<rparr>) s;
     s \<leftarrow> vSMBusHWWriteCtrlRxFifoFillThreshold E (ucast (ucExpectedByteCountPart (inst i s))) s;
     (r, s) \<leftarrow> ucSMBusControllerReadDescriptorStart E (ucSMBusDestAddr (inst i s)) s;
     s \<leftarrow> (if ucPecRequiredForTransaction (inst i s) = SMBUS_TRUE then do {
            s \<leftarrow> read_bytes E i (unat (ucExpectedByteCountPart (inst i s))) s;
            (r, s) \<leftarrow> ucSMBusControllerReadDescriptorPEC E s;
            Some s }
          else do {
            s \<leftarrow> read_bytes E i (unat (ucExpectedByteCountPart (inst i s)) - 1) s;
            (r, s) \<leftarrow> ucSMBusControllerReadDescriptorStop E s;
            Some (upd_inst i (\<lambda>x. x\<lparr>usDescriptorsSent := usDescriptorsSent x + 1\<rparr>) s) });
     s \<leftarrow> control_enable E s;
     Some (vSMBusNextStateDecoder i SMBUS_STATE_CONTROLLER_READ_BYTE s) }"

definition vDefaultSMBusFSMSMBusStateControllerSendReadStart ::
  "'w smbus_env \<Rightarrow> nat \<Rightarrow> u8 \<Rightarrow> 'w smbus_st \<Rightarrow> 'w smbus_st option" where
  "vDefaultSMBusFSMSMBusStateControllerSendReadStart E i ucAnyEvent s =
     error_cases E i ucAnyEvent s
       (if ucAnyEvent = E_SEND_NEXT_BYTE then
          (if xProtocol (inst i s) = I2C_PROTOCOL_WRITE_READ then csrs_i2c E i s
           else if xProtocol (inst i s) \<in>
                {SMBUS_PROTOCOL_BLOCK_READ, SMBUS_PROTOCOL_BLK_WRITE_BLK_RD_PROCESS_CALL,
                 SMBUS_ARP_PROTOCOL_GET_UDID, SMBUS_ARP_PROTOCOL_GET_UDID_DIRECTED}
           then csrs_block E i s
           else (case read_size (xProtocol (inst i s)) of
                   Some n \<Rightarrow> csrs_read E i n s
                 | None \<Rightarrow> Some s))
        else unexpected_event E i ucAnyEvent s)"

section \<open>Reading the block size\<close>

text \<open>The controller errors are logged with the debug registers, before and after.\<close>

definition log_dbg_states :: "'w smbus_env \<Rightarrow> nat \<Rightarrow> u32 \<Rightarrow> u32 \<Rightarrow> 'w smbus_st \<Rightarrow> 'w smbus_st option" where
  "log_dbg_states E i line1 line2 s = do {
     (d, s) \<leftarrow> ulSMBusHWReadPHYCtrlDbgState E s;
     s \<leftarrow> dbg E i d line1 s;
     (d, s) \<leftarrow> ulSMBusHWReadCtrlDbgState E s;
     dbg E i d line2 s }"

definition crbs_error :: "'w smbus_env \<Rightarrow> nat \<Rightarrow> u8 \<Rightarrow> 'w smbus_st \<Rightarrow> 'w smbus_st option" where
  "crbs_error E i ucAnyEvent s = do {
     s \<leftarrow> log_dbg_states E i 2946 2949 s;
     s \<leftarrow> controller_error E i ucAnyEvent s;
     log_dbg_states E i 2958 2961 s }"

definition crbs_data :: "'w smbus_env \<Rightarrow> nat \<Rightarrow> 'w smbus_st \<Rightarrow> 'w smbus_st option" where
  "crbs_data E i s = do {
     (payload, s) \<leftarrow> ulSMBusHWReadCtrlRxFifoPayload E s;
     let s = upd_inst i (\<lambda>x. x\<lparr>usExpectedByteCount := ucast payload, usDescriptorsSent := 0,
               ucExpectedByteCountPart := half_fifo_part (ucast payload)\<rparr>) s;
     s \<leftarrow> ctrl_threshold E i s;
     if ucPecRequiredForTransaction (inst i s) = SMBUS_TRUE \<or>
        ucSMBusDestAddr (inst i s) = SMBUS_DEVICE_DEFAULT_ARP_ADDRESS then do {
       (r, s) \<leftarrow> ucSMBusControllerReadDescriptorByte E SMBUS_FALSE s;
       s \<leftarrow> control_enable E s;
       let s = vSMBusNextStateDecoder i SMBUS_STATE_CONTROLLER_READ_BYTE s;
       if usExpectedByteCount (inst i s) = 0 then do {
         (r, s) \<leftarrow> ucSMBusControllerReadDescriptorPEC E s;
         Some s }
       else Some s }
     else if usExpectedByteCount (inst i s) = 0 then do {
       (r, s) \<leftarrow> ucSMBusControllerReadDescriptorStop E s;
       s \<leftarrow> control_enable E s;
       Some (vSMBusNextStateDecoder i SMBUS_STATE_CONTROLLER_READ_DONE s) }
     else do {
       (r, s) \<leftarrow> ucSMBusControllerReadDescriptorByte E SMBUS_FALSE s;
       s \<leftarrow> control_enable E s;
       Some (vSMBusNextStateDecoder i SMBUS_STATE_CONTROLLER_READ_BYTE s) } }"

definition vDefaultSMBusFSMSMBusStateControllerReadBlockSize ::
  "'w smbus_env \<Rightarrow> nat \<Rightarrow> u8 \<Rightarrow> 'w smbus_st \<Rightarrow> 'w smbus_st option" where
  "vDefaultSMBusFSMSMBusStateControllerReadBlockSize E i ucAnyEvent s =
     (if ucAnyEvent = E_CONTROLLER_DESC_FIFO_ALMOST_EMPTY_IRQ then Some s
      else if bus_warning_event ucAnyEvent then Some (vSMBusHandleActionBusWarning E i ucAnyEvent s)
      else if target_error_event ucAnyEvent then target_error E i ucAnyEvent s
      else if controller_error_event ucAnyEvent then crbs_error E i ucAnyEvent s
      else if ucAnyEvent = E_CONTROLLER_DATA_IRQ then
        (if xProtocol (inst i s) \<in>
              {SMBUS_PROTOCOL_BLOCK_READ, SMBUS_PROTOCOL_BLK_WRITE_BLK_RD_PROCESS_CALL,
               SMBUS_ARP_PROTOCOL_GET_UDID, SMBUS_ARP_PROTOCOL_GET_UDID_DIRECTED}
         then crbs_data E i s else Some s)
      else unexpected_event E i ucAnyEvent s)"

section \<open>Reading bytes\<close>

text \<open>Descriptors with a packet error code at the end: the loop ends with the code.\<close>

fun read_fill_pec :: "'w smbus_env \<Rightarrow> nat \<Rightarrow> nat \<Rightarrow> 'w smbus_st \<Rightarrow> 'w smbus_st option" where
  "read_fill_pec E i 0 s = Some s"
| "read_fill_pec E i (Suc n) s =
     (if usDescriptorsSent (inst i s) < usExpectedByteCount (inst i s) then do {
        (r, s) \<leftarrow> ucSMBusControllerReadDescriptorByte E SMBUS_TRUE s;
        if r = SMBUS_HW_DESCRIPTOR_WRITE_FAIL then Some s
        else read_fill_pec E i n (upd_inst i (\<lambda>x. x\<lparr>usDescriptorsSent := usDescriptorsSent x + 1\<rparr>) s) }
      else do {
        (r, s) \<leftarrow> ucSMBusControllerReadDescriptorPEC E s;
        Some (if r = SMBUS_HW_DESCRIPTOR_WRITE_FAIL then s
              else upd_inst i (\<lambda>x. x\<lparr>usDescriptorsSent := usDescriptorsSent x + 1\<rparr>) s) })"

text \<open>Descriptors without one: the last is a stop.  The code compares with the count minus
  one, in \<open>int\<close>.\<close>

fun read_fill_stop :: "'w smbus_env \<Rightarrow> nat \<Rightarrow> nat \<Rightarrow> 'w smbus_st \<Rightarrow> 'w smbus_st option" where
  "read_fill_stop E i 0 s = Some s"
| "read_fill_stop E i (Suc n) s =
     (if unat (usDescriptorsSent (inst i s)) + 1 < unat (usExpectedByteCount (inst i s)) then do {
        (r, s) \<leftarrow> ucSMBusControllerReadDescriptorByte E SMBUS_TRUE s;
        if r = SMBUS_HW_DESCRIPTOR_WRITE_FAIL then Some s
        else read_fill_stop E i n (upd_inst i (\<lambda>x. x\<lparr>usDescriptorsSent := usDescriptorsSent x + 1\<rparr>) s) }
      else if unat (usDescriptorsSent (inst i s)) + 1 = unat (usExpectedByteCount (inst i s)) then do {
        (r, s) \<leftarrow> ucSMBusControllerReadDescriptorStop E s;
        if r = SMBUS_HW_DESCRIPTOR_WRITE_FAIL then Some s
        else read_fill_stop E i n (upd_inst i (\<lambda>x. x\<lparr>usDescriptorsSent := usDescriptorsSent x + 1\<rparr>) s) }
      else read_fill_stop E i n s)"

definition crb_almost_empty :: "'w smbus_env \<Rightarrow> nat \<Rightarrow> 'w smbus_st \<Rightarrow> 'w smbus_st option" where
  "crb_almost_empty E i s = do {
     s \<leftarrow> dbg E i (ucast (usDescriptorsSent (inst i s))) 3096 s;
     s \<leftarrow> dbg E i (ucast (usExpectedByteCount (inst i s))) 3099 s;
     if usDescriptorsSent (inst i s) < usExpectedByteCount (inst i s) then do {
       let pec = ucPecRequiredForTransaction (inst i s);
       (fill, s) \<leftarrow> ulSMBusHWReadCtrlDescStatusFillLevel E s;
       s \<leftarrow> (if pec = SMBUS_TRUE then read_fill_pec E i (fifo_room fill) s
            else read_fill_stop E i (fifo_room fill) s);
       (fill, s) \<leftarrow> ulSMBusHWReadCtrlDescStatusFillLevel E s;
       control_enable E s }
     else Some s }"

text \<open>Emptying the receive FIFO into the receive buffer; it ends when the hardware says so.\<close>

partial_function (option) receive_all :: "'w smbus_env \<Rightarrow> nat \<Rightarrow> 'w smbus_st \<Rightarrow> 'w smbus_st option" where
  "receive_all E i s =
     Option.bind (ulSMBusHWReadCtrlRxFifoStatusEmpty E s) (\<lambda>r.
       if fst r = 0
       then Option.bind (ulSMBusHWReadCtrlRxFifoPayload E (snd r)) (\<lambda>q.
         Option.bind (receive_byte i (ucast (fst q)) (snd q)) (receive_all E i))
       else Some (snd r))"

definition crb_data :: "'w smbus_env \<Rightarrow> nat \<Rightarrow> 'w smbus_st \<Rightarrow> 'w smbus_st option" where
  "crb_data E i s = do {
     s \<leftarrow> receive_all E i s;
     s \<leftarrow> dbg E i (ucast (usReceiveIndex (inst i s))) 3197 s;
     s \<leftarrow> dbg E i (ucast (usExpectedByteCount (inst i s))) 3201 s;
     if usExpectedByteCount (inst i s) \<le> usReceiveIndex (inst i s) then do {
       s \<leftarrow> vSMBusHWWriteCtrlRxFifoFillThreshold E 1 s;
       Some (if ucPecRequiredForTransaction (inst i s) = SMBUS_TRUE \<longrightarrow>
                usExpectedByteCount (inst i s) < usReceiveIndex (inst i s)
             then vSMBusNextStateDecoder i SMBUS_STATE_CONTROLLER_READ_DONE s else s) }
     else do {
       let s = upd_inst i (\<lambda>x. x\<lparr>ucExpectedByteCountPart := half_fifo_part (usExpectedByteCount x - usReceiveIndex x)\<rparr>) s;
       vSMBusHWWriteCtrlRxFifoFillThreshold E (ucast (ucExpectedByteCountPart (inst i s))) s } }"

definition vDefaultSMBusFSMSMBusStateControllerReadByte ::
  "'w smbus_env \<Rightarrow> nat \<Rightarrow> u8 \<Rightarrow> 'w smbus_st \<Rightarrow> 'w smbus_st option" where
  "vDefaultSMBusFSMSMBusStateControllerReadByte E i ucAnyEvent s =
     error_cases E i ucAnyEvent s
       (if ucAnyEvent = E_CONTROLLER_DESC_FIFO_ALMOST_EMPTY_IRQ then
          (if xProtocol (inst i s) \<in>
                {SMBUS_PROTOCOL_BLOCK_READ, SMBUS_PROTOCOL_BLK_WRITE_BLK_RD_PROCESS_CALL,
                 SMBUS_ARP_PROTOCOL_GET_UDID, SMBUS_ARP_PROTOCOL_GET_UDID_DIRECTED,
                 I2C_PROTOCOL_READ, I2C_PROTOCOL_WRITE_READ}
           then crb_almost_empty E i s else Some s)
        else if ucAnyEvent = E_CONTROLLER_DONE_IRQ then Some s
        else if ucAnyEvent = E_CONTROLLER_DATA_IRQ then
          (if xProtocol (inst i s) \<in>
                {SMBUS_PROTOCOL_READ_64, SMBUS_PROTOCOL_READ_32, SMBUS_PROTOCOL_READ_WORD,
                 SMBUS_PROTOCOL_READ_BYTE, SMBUS_PROTOCOL_PROCESS_CALL, SMBUS_PROTOCOL_RECEIVE_BYTE,
                 SMBUS_PROTOCOL_BLOCK_READ, SMBUS_PROTOCOL_BLK_WRITE_BLK_RD_PROCESS_CALL,
                 SMBUS_ARP_PROTOCOL_GET_UDID, SMBUS_ARP_PROTOCOL_GET_UDID_DIRECTED,
                 I2C_PROTOCOL_READ, I2C_PROTOCOL_WRITE_READ}
           then crb_data E i s else Some s)
        else unexpected_event E i ucAnyEvent s)"

definition vDefaultSMBusFSMSMBusStateControllerReadPEC ::
  "'w smbus_env \<Rightarrow> nat \<Rightarrow> u8 \<Rightarrow> 'w smbus_st \<Rightarrow> 'w smbus_st option" where
  "vDefaultSMBusFSMSMBusStateControllerReadPEC E i ucAnyEvent s =
     error_cases E i ucAnyEvent s
       (if ucAnyEvent = E_CONTROLLER_DATA_IRQ then
          (if xProtocol (inst i s) \<in>
                {SMBUS_PROTOCOL_BLOCK_READ, SMBUS_PROTOCOL_READ_64, SMBUS_PROTOCOL_READ_32,
                 SMBUS_PROTOCOL_READ_WORD, SMBUS_PROTOCOL_READ_BYTE, SMBUS_PROTOCOL_PROCESS_CALL,
                 SMBUS_PROTOCOL_BLK_WRITE_BLK_RD_PROCESS_CALL, SMBUS_PROTOCOL_RECEIVE_BYTE} \<and>
              ucPecRequiredForTransaction (inst i s) = SMBUS_TRUE
           then do {
             (r, s) \<leftarrow> ucSMBusControllerReadDescriptorPEC E s;
             s \<leftarrow> control_enable E s;
             Some (vSMBusNextStateDecoder i SMBUS_STATE_CONTROLLER_READ_DONE s) }
           else Some s)
        else unexpected_event E i ucAnyEvent s)"

section \<open>The end of a read\<close>

definition crd_data :: "'w smbus_env \<Rightarrow> nat \<Rightarrow> 'w smbus_st \<Rightarrow> 'w smbus_st option" where
  "crd_data E i s =
     (if xProtocol (inst i s) = I2C_PROTOCOL_READ then do {
        s \<leftarrow> receive_all E i s;
        s \<leftarrow> dbg E i (ucast (usReceiveIndex (inst i s))) 3373 s;
        dbg E i (ucast (usExpectedByteCount (inst i s))) 3377 s }
      else Some s)"

text \<open>A descriptor that was accepted is counted, and the controller is enabled.\<close>

definition sent_and_enable :: "'w smbus_env \<Rightarrow> nat \<Rightarrow> u8 \<Rightarrow> 'w smbus_st \<Rightarrow> 'w smbus_st option" where
  "sent_and_enable E i r s =
     (if r = SMBUS_HW_DESCRIPTOR_WRITE_FAIL then Some s
      else control_enable E (upd_inst i (\<lambda>x. x\<lparr>usDescriptorsSent := usDescriptorsSent x + 1\<rparr>) s))"

definition crd_i2c_read :: "'w smbus_env \<Rightarrow> nat \<Rightarrow> 'w smbus_st \<Rightarrow> 'w smbus_st option" where
  "crd_i2c_read E i s =
     (if usDescriptorsSent (inst i s) < usReceiveIndex (inst i s) then
        (if unat (usDescriptorsSent (inst i s)) + 1 = unat (usReceiveIndex (inst i s)) then do {
           (r, s) \<leftarrow> ucSMBusControllerReadDescriptorStop E s;
           sent_and_enable E i r s }
         else do {
           (r, s) \<leftarrow> ucSMBusControllerReadDescriptorByte E SMBUS_TRUE s;
           sent_and_enable E i r s })
      else Some s)"

definition crd_almost_empty :: "'w smbus_env \<Rightarrow> nat \<Rightarrow> 'w smbus_st \<Rightarrow> 'w smbus_st option" where
  "crd_almost_empty E i s =
     (if xProtocol (inst i s) = I2C_PROTOCOL_READ then crd_i2c_read E i s
      else if usDescriptorsSent (inst i s) < usExpectedByteCount (inst i s) then
        (if ucPecRequiredForTransaction (inst i s) = SMBUS_TRUE then do {
           (fill, s) \<leftarrow> ulSMBusHWReadCtrlDescStatusFillLevel E s;
           read_fill_pec E i (fifo_room fill) s }
         else do {
           (fill, s) \<leftarrow> ulSMBusHWReadCtrlDescStatusFillLevel E s;
           s \<leftarrow> read_fill_stop E i (fifo_room fill) s;
           control_enable E s })
      else if ucPecRequiredForTransaction (inst i s) = SMBUS_TRUE \<and>
              usDescriptorsSent (inst i s) = usExpectedByteCount (inst i s) then do {
        (r, s) \<leftarrow> ucSMBusControllerReadDescriptorPEC E s;
        Some (if r = SMBUS_HW_DESCRIPTOR_WRITE_FAIL then s
              else upd_inst i (\<lambda>x. x\<lparr>usDescriptorsSent := usDescriptorsSent x + 1\<rparr>) s) }
      else Some s)"

definition crd_done :: "'w smbus_env \<Rightarrow> nat \<Rightarrow> 'w smbus_st \<Rightarrow> 'w smbus_st option" where
  "crd_done E i s =
     (if xProtocol (inst i s) \<in>
           {SMBUS_PROTOCOL_BLOCK_READ, SMBUS_PROTOCOL_READ_64, SMBUS_PROTOCOL_READ_32,
            SMBUS_PROTOCOL_READ_WORD, SMBUS_PROTOCOL_READ_BYTE, SMBUS_PROTOCOL_PROCESS_CALL,
            SMBUS_PROTOCOL_BLK_WRITE_BLK_RD_PROCESS_CALL, SMBUS_PROTOCOL_RECEIVE_BYTE,
            SMBUS_ARP_PROTOCOL_GET_UDID_DIRECTED, SMBUS_ARP_PROTOCOL_GET_UDID} then do {
        s \<leftarrow> dbg E i (protocol_num (xProtocol (inst i s))) 3551 s;
        s \<leftarrow> vSMBusHandleActionWriteDataToApplication E i (ucast (ulTransactionID (prof s))) s;
        let s = announce E i RESULT_SUCCESS s;
        s \<leftarrow> count_complete i s;
        to_initial E i s }
      else if xProtocol (inst i s) \<in> {I2C_PROTOCOL_READ, I2C_PROTOCOL_WRITE_READ} then do {
        s \<leftarrow> dbg E i (protocol_num (xProtocol (inst i s))) 3568 s;
        s \<leftarrow> vSMBusHandleActionWriteI2CDataToApplication E i s;
        let s = vSMBusHandleActionAnnounceI2CResultToApplication E i RESULT_SUCCESS s;
        s \<leftarrow> count_complete i s;
        to_initial E i s }
      else if xProtocol (inst i s) \<in>
           {SMBUS_PROTOCOL_SEND_BYTE, SMBUS_PROTOCOL_WRITE_BYTE, SMBUS_PROTOCOL_WRITE_WORD,
            SMBUS_PROTOCOL_BLOCK_WRITE, SMBUS_PROTOCOL_HOST_NOTIFY, SMBUS_PROTOCOL_WRITE_32,
            SMBUS_PROTOCOL_WRITE_64, SMBUS_ARP_PROTOCOL_PREPARE_TO_ARP, SMBUS_ARP_PROTOCOL_RESET_DEVICE,
            SMBUS_ARP_PROTOCOL_ASSIGN_ADDRESS, SMBUS_ARP_PROTO_RESET_DEVICE_DIRECTED} then do {
        let s = announce E i RESULT_SUCCESS s;
        s \<leftarrow> count_complete i s;
        to_initial E i s }
      else if xProtocol (inst i s) = I2C_PROTOCOL_WRITE then do {
        let s = vSMBusHandleActionAnnounceI2CResultToApplication E i RESULT_SUCCESS s;
        s \<leftarrow> count_complete i s;
        to_initial E i s }
      else Some s)"

definition vDefaultSMBusFSMSMBusStateControllerReadDone ::
  "'w smbus_env \<Rightarrow> nat \<Rightarrow> u8 \<Rightarrow> 'w smbus_st \<Rightarrow> 'w smbus_st option" where
  "vDefaultSMBusFSMSMBusStateControllerReadDone E i ucAnyEvent s =
     error_cases E i ucAnyEvent s
       (if ucAnyEvent = E_CONTROLLER_DATA_IRQ then crd_data E i s
        else if ucAnyEvent = E_CONTROLLER_DESC_FIFO_ALMOST_EMPTY_IRQ then crd_almost_empty E i s
        else if ucAnyEvent = E_CONTROLLER_DONE_IRQ then crd_done E i s
        else unexpected_event E i ucAnyEvent s)"

end
