(* ===== verification/SMBus_FSM.thy ===== *)
theory SMBus_FSM
  imports SMBus_Target SMBus_Transfer SMBus_Controller
begin

text \<open>
  The dispatch of an event to the handler of the instance's state, \<open>vSMBusFSM\<close>.
\<close>

definition fsm_handler :: "SMBUS_STATE \<Rightarrow> 'w smbus_env \<Rightarrow> nat \<Rightarrow> u8 \<Rightarrow> 'w smbus_st \<Rightarrow> 'w smbus_st option" where
  "fsm_handler st = (case st of
     SMBUS_STATE_INITIAL \<Rightarrow> vDefaultSMBusFSMSMBusStateInitial
   | SMBUS_STATE_AWAITING_COMMAND_BYTE \<Rightarrow> vDefaultSMBusFSMSMBusStateAwaitingCommandByte
   | SMBUS_STATE_AWAITING_BLOCK_SIZE \<Rightarrow> vDefaultSMBusFSMSMBusStateAwaitingBlockSize
   | SMBUS_STATE_AWAITING_DATA \<Rightarrow> vDefaultSMBusFSMSMBusStateAwaitingData
   | SMBUS_STATE_AWAITING_READ \<Rightarrow> vDefaultSMBusFSMSMBusStateAwaitingRead
   | SMBUS_STATE_READY_TO_SEND_BYTE \<Rightarrow> vDefaultSMBusFSMSMBusStateReadyToSendByte
   | SMBUS_STATE_CHECK_IF_PEC_REQUIRED \<Rightarrow> vDefaultSMBusFSMSMBusStateCheckIfPECRequired
   | SMBUS_STATE_AWAITING_DONE \<Rightarrow> vDefaultSMBusFSMSMBusStateAwaitingDone
   | SMBUS_STATE_CONTROLLER_SEND_COMMAND \<Rightarrow> vDefaultSMBusFSMSMBusStateControllerSendCommand
   | SMBUS_STATE_CONTROLLER_SEND_READ_START \<Rightarrow> vDefaultSMBusFSMSMBusStateControllerSendReadStart
   | SMBUS_STATE_CONTROLLER_READ_BLOCK_SIZE \<Rightarrow> vDefaultSMBusFSMSMBusStateControllerReadBlockSize
   | SMBUS_STATE_CONTROLLER_READ_BYTE \<Rightarrow> vDefaultSMBusFSMSMBusStateControllerReadByte
   | SMBUS_STATE_CONTROLLER_READ_PEC \<Rightarrow> vDefaultSMBusFSMSMBusStateControllerReadPEC
   | SMBUS_STATE_CONTROLLER_READ_DONE \<Rightarrow> vDefaultSMBusFSMSMBusStateControllerReadDone
   | SMBUS_STATE_CONTROLLER_WRITE_BYTE \<Rightarrow> vDefaultSMBusFSMSMBusStateControllerWriteByte)"

definition vSMBusFSM :: "'w smbus_env \<Rightarrow> nat \<Rightarrow> u8 \<Rightarrow> 'w smbus_st \<Rightarrow> 'w smbus_st option" where
  "vSMBusFSM E i ucAnyEvent s = do {
     let s = vSMBusClearAction i s;
     let s = upd_inst i (\<lambda>x. x\<lparr>ucEvent := ucAnyEvent\<rparr>) s;
     s \<leftarrow> vLogAddEntry E SMBUS_LOG_LEVEL_INFO (inst_num i s) SMBUS_LOG_EVENT_FSM_EVENT
            (state_num (xState (inst i s))) (ucast ucAnyEvent) s;
     s \<leftarrow> dbg E i (ucast ucAnyEvent) 3645 s;
     fsm_handler (xState (inst i s)) E i ucAnyEvent s }"

end
