(* ===== verification/SMBus_Frames.thy ===== *)
theory SMBus_Frames
  imports SMBus_State
begin

text \<open>
  What the building blocks of the state machine leave alone.  \<open>keeps e i s s'\<close>: the state of
  instance \<open>i\<close>, the part \<open>e\<close> of every other instance (the whole of it with \<open>id\<close>, all but
  the ARP fields with \<open>arp_erase\<close>) and the well-formedness of the log are unchanged.
  \<open>at_state e i s0 c s\<close> says so since the start \<open>s0\<close> of a handler, with the instance still in
  state \<open>c\<close>; \<open>reach\<close> is the goal of a handler, the set of states it may end in.  The rules
  \<open>at_bind\<close> step through a handler one call at a time.
\<close>

named_theorems keep \<open>calls that keep the state of the instance and every other instance\<close>
named_theorems keepv \<open>the same for calls that return a value\<close>

definition keeps :: "(SMBus_Instance \<Rightarrow> 'v) \<Rightarrow> nat \<Rightarrow> 'w smbus_st \<Rightarrow> 'w smbus_st \<Rightarrow> bool" where
  "keeps e i s s' \<longleftrightarrow> xState (inst i s') = xState (inst i s) \<and> (\<forall>j. j \<noteq> i \<longrightarrow> e (inst j s') = e (inst j s)) \<and>
     (log_inv s \<longrightarrow> log_inv s')"

definition at_state :: "(SMBus_Instance \<Rightarrow> 'v) \<Rightarrow> nat \<Rightarrow> 'w smbus_st \<Rightarrow> SMBUS_STATE \<Rightarrow> 'w smbus_st \<Rightarrow> bool" where
  "at_state e i s0 c s \<longleftrightarrow> xState (inst i s) = c \<and> (\<forall>j. j \<noteq> i \<longrightarrow> e (inst j s) = e (inst j s0)) \<and> (log_inv s0 \<longrightarrow> log_inv s)"

definition reach :: "(SMBus_Instance \<Rightarrow> 'v) \<Rightarrow> nat \<Rightarrow> 'w smbus_st \<Rightarrow> SMBUS_STATE \<Rightarrow> SMBUS_STATE set \<Rightarrow> 'w smbus_st \<Rightarrow> bool" where
  "reach e i s0 c T s \<longleftrightarrow> (\<exists>t\<in>T. at_state e i s0 t s)"

lemma keeps_refl [simp]: "keeps e i s s"
  by (simp add: keeps_def)

lemma keeps_trans: "keeps e i s t \<Longrightarrow> keeps e i t u \<Longrightarrow> keeps e i s u"
  by (simp add: keeps_def)

lemma at_start: "xState (inst i s) = c \<Longrightarrow> at_state e i s c s"
  by (simp add: at_state_def)

lemma at_keeps: "at_state e i s0 c s \<Longrightarrow> keeps e i s s' \<Longrightarrow> at_state e i s0 c s'"
  by (simp add: at_state_def keeps_def)

lemma log_inv_upd [simp]: "log_inv (upd_inst i f s) = log_inv s"
  by (simp add: log_inv_def upd_inst_def)

lemma keeps_upd [simp]: "keeps e i s (upd_inst i f s) \<longleftrightarrow> xState (f (inst i s)) = xState (inst i s)"
  by (simp add: keeps_def)

lemma keeps_log_only: "log_only s s' \<Longrightarrow> (log_inv s \<Longrightarrow> log_inv s') \<Longrightarrow> keeps e i s s'"
  by (simp add: keeps_def log_onlyD)

lemma at_upd [simp]: "xState (f (inst i s)) = xState (inst i s) \<Longrightarrow>
  at_state e i s0 c (upd_inst i f s) = at_state e i s0 c s"
  by (simp add: at_state_def)

lemma inst_upd_prof [simp]: "(\<And>p. xSMBusInstance (f p) = xSMBusInstance p) \<Longrightarrow> inst j (upd_prof f s) = inst j s"
  by (simp add: inst_def upd_prof_def)

lemma log_inv_upd_prof [simp]: "(\<And>p. xLogCircularBuf (f p) = xLogCircularBuf p) \<Longrightarrow> log_inv (upd_prof f s) = log_inv s"
  by (simp add: log_inv_def upd_prof_def)

lemma at_upd_prof [simp]: "(\<And>p. xSMBusInstance (f p) = xSMBusInstance p \<and> xLogCircularBuf (f p) = xLogCircularBuf p) \<Longrightarrow>
  at_state e i s0 c (upd_prof f s) = at_state e i s0 c s"
  by (simp add: at_state_def)

lemma prof_upd_inst [simp]:
  "ucInstanceInPlay (prof (upd_inst i f s)) = ucInstanceInPlay (prof s)"
  "ucActiveTargetInstance (prof (upd_inst i f s)) = ucActiveTargetInstance (prof s)"
  "ucUDIDMatch (prof (upd_inst i f s)) = ucUDIDMatch (prof s)"
  "ulTransactionID (prof (upd_inst i f s)) = ulTransactionID (prof s)"
  "pvBaseAddr (prof (upd_inst i f s)) = pvBaseAddr (prof s)"
  by (simp_all add: upd_inst_def)

lemma inst_world [simp]: "inst j (s\<lparr>world := w\<rparr>) = inst j s"
  by (simp add: inst_def)

lemma at_world [simp]: "at_state e i s0 c (s\<lparr>world := w\<rparr>) = at_state e i s0 c s"
  by (simp add: at_state_def)

lemma keeps_world [simp]: "keeps e i s (s\<lparr>world := w\<rparr>)"
  by (simp add: keeps_def)

section \<open>Stepping rules\<close>

lemma at_bind:
  assumes "post m (keeps e i s)" and "at_state e i s0 c s"
    and "\<And>s'. at_state e i s0 c s' \<Longrightarrow> post (f s') (reach e i s0 c T)"
  shows "post (Option.bind m f) (reach e i s0 c T)"
  using assms by (auto simp: post_bind_iff intro: at_keeps elim!: post_weaken)

lemma at_bindv:
  assumes "post m (\<lambda>(v, s'). keeps e i s s')" and "at_state e i s0 c s"
    and "\<And>v s'. at_state e i s0 c s' \<Longrightarrow> post (f v s') (reach e i s0 c T)"
  shows "post (Option.bind m (\<lambda>(v, s'). f v s')) (reach e i s0 c T)"
  using assms by (auto simp: post_bind_iff intro: at_keeps elim!: post_weaken)

lemma at_last: "post m (keeps e i s) \<Longrightarrow> at_state e i s0 c s \<Longrightarrow> c \<in> T \<Longrightarrow> post m (reach e i s0 c T)"
  by (auto simp: reach_def intro!: bexI [of _ c] intro: at_keeps elim!: post_weaken)

text \<open>At the end of a handler, what is left to show is the membership in the set.\<close>

lemma reach_same [simp]: "at_state e i s0 c s \<Longrightarrow> reach e i s0 c T s \<longleftrightarrow> c \<in> T"
  by (auto simp: reach_def at_state_def)

lemma reach_next [simp]: "at_state e i s0 c s \<Longrightarrow> reach e i s0 c T (vSMBusNextStateDecoder i t s) \<longleftrightarrow> t \<in> T"
  by (auto simp: reach_def at_state_def vSMBusNextStateDecoder_def)

lemma reach_keeps: "post m (keeps e i s) \<Longrightarrow> reach e i s0 c T s \<Longrightarrow> post m (reach e i s0 c T)"
  by (erule post_weaken) (auto simp: reach_def intro: at_keeps)

lemma keep_bind:
  assumes "post m (keeps e i s)" and "\<And>s'. post (f s') (keeps e i s')"
  shows "post (Option.bind m f) (keeps e i s)"
  by (rule post_bind [OF assms(1)]) (auto intro: post_weaken [OF assms(2)] keeps_trans)

lemma keep_bindv:
  assumes "post m (\<lambda>(v, s'). keeps e i s s')" and "\<And>v s'. post (f v s') (keeps e i s')"
  shows "post (Option.bind m (\<lambda>(v, s'). f v s')) (keeps e i s)"
  by (rule post_bind [OF assms(1)]) (auto intro: post_weaken [OF assms(2)] keeps_trans)

lemma keepv_bind:
  assumes "post m (keeps e i s)" and "\<And>s'. post (f s') (\<lambda>(v, s''). keeps e i s' s'')"
  shows "post (Option.bind m f) (\<lambda>(v, s''). keeps e i s s'')"
  using assms by (fastforce simp: post_bind_iff intro: keeps_trans elim!: post_weaken)

lemma keepv_bindv:
  assumes "post m (\<lambda>(v, s'). keeps e i s s')" and "\<And>v s'. post (f v s') (\<lambda>(v, s''). keeps e i s' s'')"
  shows "post (Option.bind m (\<lambda>(v, s'). f v s')) (\<lambda>(v, s''). keeps e i s s'')"
  using assms by (fastforce simp: post_bind_iff intro: keeps_trans elim!: post_weaken)

text \<open>Starting from an updated state.\<close>

lemma keep_upd: "post m (keeps e i (upd_inst i f s)) \<Longrightarrow> xState (f (inst i s)) = xState (inst i s) \<Longrightarrow> post m (keeps e i s)"
  by (erule post_weaken) (metis keeps_trans keeps_upd)

lemma keep_quiet: "quiet m \<Longrightarrow> post (m s) (keeps e i s)"
  by (rule postI) (auto intro!: keeps_log_only dest: quietD)

lemma keep_quietv: "quietv m \<Longrightarrow> post (m s) (\<lambda>(v, s'). keeps e i s s')"
  by (rule postI) (auto intro!: keeps_log_only dest: quietvD)

section \<open>Events, actions and helpers\<close>

lemma create_event_keeps [keep]: "post (vSMBusCreateEvent E i ev s) (keeps e i s)"
proof (cases "ucEventBufferTryWrite (xEventSrcCircularBuf (inst i s)) ev 0")
  case (Some r)
  obtain res pos buf where "r = (res, pos, buf)" by (cases r)
  with Some show ?thesis
    by (auto simp: vSMBusCreateEvent_def Let_def intro!: keep_upd [OF keep_quiet [OF log_add_quiet]])
qed (simp add: vSMBusCreateEvent_def)

lemma generate_keeps [keep]:
  "post (vSMBusGenerateEvent_E_IS_PEC_REQUIRED E i s) (keeps e i s)"
  "post (vSMBusGenerateEvent_E_SEND_NEXT_BYTE E i s) (keeps e i s)"
  "post (vSMBusGenerateEvent_E_TARGET_DATA_IRQ E i s) (keeps e i s)"
  "post (vSMBusGenerateEvent_E_TARGET_READ_IRQ E i s) (keeps e i s)"
  "post (vSMBusGenerateEvent_E_TARGET_DONE_IRQ E i s) (keeps e i s)"
  "post (vSMBusHandleActionCreateEventIsPECRequired E i s) (keeps e i s)"
  "post (vSMBusHandleActionCreateEventSendNextByte E i s) (keeps e i s)"
  unfolding vSMBusHandleActionCreateEventIsPECRequired_def vSMBusHandleActionCreateEventSendNextByte_def
    vSMBusGenerateEvent_E_IS_PEC_REQUIRED_def vSMBusGenerateEvent_E_SEND_NEXT_BYTE_def
    vSMBusGenerateEvent_E_TARGET_DATA_IRQ_def vSMBusGenerateEvent_E_TARGET_READ_IRQ_def
    vSMBusGenerateEvent_E_TARGET_DONE_IRQ_def
  by (auto intro!: keep_bind create_event_keeps)


text \<open>Draining a FIFO: whatever it read, only the log and the world changed.\<close>

lemma drain_ctrl_log_only: "drain_ctrl E s = Some s' \<Longrightarrow> log_only s s' \<and> (log_inv s \<longrightarrow> log_inv s')"
proof (induction rule: drain_ctrl.raw_induct [rotated, consumes 1, case_names step])
  case (step f s s')
  then show ?case
    by (auto split: bind_splits if_splits)
      (meson log_only_trans quietvD(1,2) reads_quiet)+
qed

lemma drain_tgt_log_only: "drain_tgt E s = Some s' \<Longrightarrow> log_only s s' \<and> (log_inv s \<longrightarrow> log_inv s')"
proof (induction rule: drain_tgt.raw_induct [rotated, consumes 1, case_names step])
  case (step f s s')
  then show ?case
    by (auto split: bind_splits if_splits)
      (meson log_only_trans quietvD(1,2) reads_quiet)+
qed


lemma keep_upd_prof:
  "post m (keeps e i (upd_prof f s)) \<Longrightarrow> (\<And>p. xSMBusInstance (f p) = xSMBusInstance p \<and> xLogCircularBuf (f p) = xLogCircularBuf p) \<Longrightarrow>
   post m (keeps e i s)"
  by (erule post_weaken) (simp add: keeps_def)

lemma drains_keep [keep]: "post (drain_ctrl E s) (keeps e i s)" "post (drain_tgt E s) (keeps e i s)"
  by (rule postI; blast intro!: keeps_log_only dest: drain_ctrl_log_only drain_tgt_log_only)+

lemmas quiet_ops = log_add_quiet reads_quiet writes_quiet tgt_control_quiet descs_quiet

lemma dbg_reads_quiet [simp]: "quietv (ulSMBusHWReadPHYCtrlDbgState E)" "quietv (ulSMBusHWReadCtrlDbgState E)"
  unfolding read_defs [abs_def] by simp_all

lemmas log_keeps [keep] = keep_quiet [OF log_add_quiet]

lemmas hw_keepsv [keepv] =
  reads_quiet [THEN keep_quietv] dbg_reads_quiet [THEN keep_quietv] descs_quiet [THEN keep_quietv]

lemmas hw_keeps [keep] = writes_quiet [THEN keep_quiet] tgt_control_quiet [THEN keep_quiet]

lemma reset_keeps [keep]: "post (vSMBusHandleActionResetAllData E i s) (keeps e i s)"
proof -
  have ctrl: "post (do { s \<leftarrow> drain_ctrl E (upd_prof (\<lambda>p. p\<lparr>ucInstanceInPlay := SMBUS_INVALID_INSTANCE\<rparr>) s);
      s \<leftarrow> vSMBusHWWriteCtrlRxFifoReset E 1 s; vSMBusHWWriteCtrlDescFifoReset E 1 s }) (keeps e i s)" for s
    by (rule keep_upd_prof [where f = "\<lambda>p. p\<lparr>ucInstanceInPlay := SMBUS_INVALID_INSTANCE\<rparr>"])
      (auto intro!: keep_bind keep)
  have tgt: "post (do { s \<leftarrow> drain_tgt E (upd_prof (\<lambda>p. p\<lparr>ucActiveTargetInstance := SMBUS_INVALID_INSTANCE\<rparr>) s);
      vSMBusHWWriteTgtRxFifoReset E 1 s }) (keeps e i s)" for s
    by (rule keep_upd_prof [where f = "\<lambda>p. p\<lparr>ucActiveTargetInstance := SMBUS_INVALID_INSTANCE\<rparr>"])
      (auto intro!: keep_bind keep)
  show ?thesis
    unfolding vSMBusHandleActionResetAllData_def Let_def
    by (rule keep_upd [where f = reset_data])
      (auto simp: reset_data_def intro!: keep_bind keep post_if ctrl tgt)
qed

text \<open>Callbacks that return nothing change the world alone.\<close>

lemma callbacks_at [simp]:
  "at_state e i s0 c (vSMBusHandleActionAnnounceResultToApplication E k t n s) = at_state e i s0 c s"
  "at_state e i s0 c (vSMBusHandleActionBusError E k b s) = at_state e i s0 c s"
  "at_state e i s0 c (vSMBusHandleActionBusWarning E k b s) = at_state e i s0 c s"
  "at_state e i s0 c (vSMBusHandleActionNotifyAddressChangeToApplication E k t s) = at_state e i s0 c s"
  "at_state e i s0 c (vSMBusHandleActionAnnounceI2CResultToApplication E k n s) = at_state e i s0 c s"
  "at_state e i s0 c (announce E k n s) = at_state e i s0 c s"
  by (simp_all add: vSMBusHandleActionAnnounceResultToApplication_def vSMBusHandleActionBusError_def
      vSMBusHandleActionBusWarning_def vSMBusHandleActionNotifyAddressChangeToApplication_def
      vSMBusHandleActionAnnounceI2CResultToApplication_def announce_def Let_def split: option.splits)

lemma keep_from: "post m (keeps e i t) \<Longrightarrow> keeps e i s t \<Longrightarrow> post m (keeps e i s)"
  by (erule post_weaken) (rule keeps_trans)

lemma keeps_upd2 [simp]: "xState (f (inst i t)) = xState (inst i t) \<Longrightarrow> keeps e i s (upd_inst i f t) = keeps e i s t"
  by (simp add: keeps_def)

lemma keeps_world2 [simp]: "keeps e i s (t\<lparr>world := w\<rparr>) = keeps e i s t"
  by (simp add: keeps_def)

lemma get_protocol_keeps [keep]: "post (vSMBusHandleActionGetProtocol E i s) (keeps e i s)"
proof (cases "pFnGetProtocol (inst i s)")
  case (Some f)
  show ?thesis
    unfolding vSMBusHandleActionGetProtocol_def Some option.case Let_def split_beta
    by (rule keep_bindv [unfolded split_beta], rule keepv [unfolded split_beta], rule post_if,
        rule keep_bindv [unfolded split_beta], rule keepv [unfolded split_beta], rule keep_from, rule keep, simp,
        rule keep)
qed (simp add: vSMBusHandleActionGetProtocol_def)

lemma arp_command_state: "arp_command c x = (r, y) \<Longrightarrow> xState y = xState x"
  by (auto simp: arp_command_def split: if_splits)

lemma get_arp_protocol_keeps [keepv]: "post (ucSMBusHandleActionGetARPProtocol E i s) (\<lambda>(v, s'). keeps e i s s')"
proof -
  have "post (let s = upd_inst i (\<lambda>x. x\<lparr>ucCommand := c\<rparr>) s; (r, x) = arp_command c (inst i s)
      in Some (r, upd_inst i (\<lambda>_. x) s)) (\<lambda>(v, s'). keeps e i s s')" for s c
    by (auto simp: Let_def dest: arp_command_state split: prod.split)
  then show ?thesis
    unfolding ucSMBusHandleActionGetARPProtocol_def
    by (auto simp: Let_def intro!: keepv_bindv keepv_bind keepv keep)
qed

lemma get_data_keeps [keep]: "post (vSMBusHandleActionGetDataFromApplication E i s) (keeps e i s)"
proof (cases "pFnGetData (inst i s)")
  case (Some f)
  obtain tmp n w where d: "env_get_data E f (ucCommand (inst i s)) (\<lambda>_. 0) (world s) = (tmp, n, w)"
    by (cases "env_get_data E f (ucCommand (inst i s)) (\<lambda>_. 0) (world s)")
  show ?thesis
    unfolding vSMBusHandleActionGetDataFromApplication_def Some option.case Let_def d prod.case
    by (rule post_if, simp_all add: post_bind_iff postI, rule keep_from, rule keep, simp)
qed (simp add: vSMBusHandleActionGetDataFromApplication_def)

lemma get_i2c_data_keeps [keep]: "post (vSMBusHandleActionGetI2CDataFromApplication E i s) (keeps e i s)"
proof (cases "pFnI2CGetData (inst i s)")
  case (Some f)
  obtain tmp n w where d: "env_i2c_get_data E f (\<lambda>_. 0) (world s) = (tmp, n, w)"
    by (cases "env_i2c_get_data E f (\<lambda>_. 0) (world s)")
  show ?thesis
    unfolding vSMBusHandleActionGetI2CDataFromApplication_def Some option.case Let_def d prod.case
    by (rule post_if, simp_all add: post_bind_iff postI, rule keep_from, rule keep, simp)
qed (simp add: vSMBusHandleActionGetI2CDataFromApplication_def)

lemma write_data_keeps [keep]:
  "post (vSMBusHandleActionWriteDataToApplication E i t s) (keeps e i s)"
  "post (vSMBusHandleActionWriteI2CDataToApplication E i s) (keeps e i s)"
  by (auto simp: vSMBusHandleActionWriteDataToApplication_def vSMBusHandleActionWriteI2CDataToApplication_def
      Let_def post_bind_iff intro!: postI split: option.split)

lemma nack_keeps [keep]: "post (vSMBusSendNACK E i s) (keeps e i s)"
  unfolding vSMBusSendNACK_def by (auto intro!: keep_bindv keepv keep)

lemma ack_counted_keeps [keep]: "post (ack_counted E i s) (keeps e i s)"
  unfolding ack_counted_def by (auto intro!: keep_bindv keepv keep)

lemma ack_logged_keeps [keep]: "post (ack_logged E i line s) (keeps e i s)"
  unfolding ack_logged_def by (auto intro!: keep_bindv keepv keep post_if)

lemma ack_fill_keeps [keep]: "post (ack_fill E i lim n s) (keeps e i s)"
proof (induction n arbitrary: s)
  case (Suc n)
  then show ?case by (auto intro!: keep_bindv keepv keep keep_upd [OF Suc.IH])
qed simp

lemma ack_almost_empty_keeps [keep]: "post (ack_almost_empty E i lim s) (keeps e i s)"
  unfolding ack_almost_empty_def by (auto intro!: keep_bindv keepv keep)

lemma receive_byte_keeps [keep]: "post (receive_byte i b s) (keeps e i s)"
  by (auto simp: receive_byte_def post_bind_iff intro!: postI)

lemma receive_loop_keeps [keep]: "post (receive_loop E i n s) (keeps e i s)"
proof (induction n arbitrary: s)
  case (Suc n)
  then show ?case by (auto intro!: keep_bindv keep_bind keepv keep)
qed simp

lemma receive_available_keeps [keep]: "post (receive_available E i s) (keeps e i s)"
  unfolding receive_available_def by (auto intro!: keep_bindv keepv keep)

lemma count_keeps [keep]: "post (count_initiated i s) (keeps e i s)" "post (count_complete i s) (keeps e i s)"
  by (auto simp: count_initiated_def count_complete_def Let_def post_bind_iff intro!: postI)

section \<open>The common ends of a handler\<close>

lemma to_initial_reach:
  assumes "at_state e i s0 c s" and "SMBUS_STATE_INITIAL \<in> T"
  shows "post (to_initial E i s) (reach e i s0 c T)"
  unfolding to_initial_def by (rule at_bind [OF reset_keeps assms(1)]) (simp add: assms(2))

lemma unexpected_reach:
  assumes "at_state e i s0 c s" and "SMBUS_STATE_INITIAL \<in> T"
  shows "post (unexpected_event E i ev s) (reach e i s0 c T)"
  unfolding unexpected_event_def vSMBusLogUnexpected_def
  by (rule at_bind [OF log_keeps assms(1)]) (rule to_initial_reach [OF _ assms(2)])

text \<open>A handler ends in \<open>T\<close>: with the state itself for a warning, initial for an error, and
  what the rest gives for every other event.\<close>

lemma error_cases_reach:
  assumes "at_state e i s0 c s" and "bus_warning_event ev \<Longrightarrow> c \<in> T"
    and "target_error_event ev \<or> controller_error_event ev \<Longrightarrow> SMBUS_STATE_INITIAL \<in> T"
    and "\<not> bus_warning_event ev \<Longrightarrow> \<not> target_error_event ev \<Longrightarrow> \<not> controller_error_event ev \<Longrightarrow>
      post rest (reach e i s0 c T)"
  shows "post (error_cases E i ev s rest) (reach e i s0 c T)"
  unfolding error_cases_def target_error_def controller_error_def
  using assms(2-4) by (intro post_if) (auto simp: assms(1) intro!: to_initial_reach)


text \<open>Optional calls.\<close>

lemma at_bind_when:
  assumes "b \<Longrightarrow> post m (keeps e i s)" and "at_state e i s0 c s"
    and "\<And>s'. at_state e i s0 c s' \<Longrightarrow> post (f s') (reach e i s0 c T)"
  shows "post (Option.bind (if b then m else Some s) f) (reach e i s0 c T)"
  by (rule at_bind [OF _ assms(2,3)]) (simp add: assms(1))

lemma at_bind_unless:
  assumes "\<not> b \<Longrightarrow> post m (keeps e i s)" and "at_state e i s0 c s"
    and "\<And>s'. at_state e i s0 c s' \<Longrightarrow> post (f s') (reach e i s0 c T)"
  shows "post (Option.bind (if b then Some s else m) f) (reach e i s0 c T)"
  by (rule at_bind [OF _ assms(2,3)]) (simp add: assms(1))

text \<open>The steps as introduction rules, one per call.\<close>

lemmas steps = at_bind_when at_bind_unless keep [THEN at_bind] keepv [THEN at_bindv] keep [THEN at_last]
  to_initial_reach unexpected_reach post_if

end
