(* ===== verification/SMBus_FSM_Transitions.thy ===== *)
theory SMBus_FSM_Transitions
  imports SMBus_FSM SMBus_Frames
begin

text \<open>
  The transition table of the SMBus state machine, and the proof that \<open>vSMBusFSM\<close> follows it.
\<close>

section \<open>The table\<close>

definition fsm_row :: "u8 \<Rightarrow> SMBUS_STATE \<Rightarrow> (u8 \<times> SMBUS_STATE set) list \<Rightarrow> SMBUS_STATE set" where
  "fsm_row ev c row =
     (if bus_warning_event ev then {c}
      else if target_error_event ev \<or> controller_error_event ev then {SMBUS_STATE_INITIAL}
      else (case map_of row ev of Some T \<Rightarrow> T | None \<Rightarrow> {SMBUS_STATE_INITIAL}))"

fun fsm_table :: "SMBUS_STATE \<Rightarrow> (u8 \<times> SMBUS_STATE set) list" where
  "fsm_table SMBUS_STATE_INITIAL =
     [(E_TARGET_WRITE_IRQ, {SMBUS_STATE_AWAITING_DATA, SMBUS_STATE_AWAITING_COMMAND_BYTE}),
      (E_TARGET_READ_IRQ, {SMBUS_STATE_READY_TO_SEND_BYTE, SMBUS_STATE_INITIAL}),
      (E_SEND_NEXT_BYTE, {SMBUS_STATE_AWAITING_DONE, SMBUS_STATE_CONTROLLER_SEND_READ_START,
         SMBUS_STATE_CONTROLLER_WRITE_BYTE, SMBUS_STATE_CONTROLLER_READ_BYTE,
         SMBUS_STATE_CONTROLLER_SEND_COMMAND})]"
| "fsm_table SMBUS_STATE_AWAITING_COMMAND_BYTE =
     [(E_DESC_FIFO_ALMOST_EMPTY_IRQ, {SMBUS_STATE_AWAITING_COMMAND_BYTE}),
      (E_TARGET_DATA_IRQ, {SMBUS_STATE_AWAITING_DATA, SMBUS_STATE_AWAITING_BLOCK_SIZE,
         SMBUS_STATE_AWAITING_READ, SMBUS_STATE_AWAITING_DONE})]"
| "fsm_table SMBUS_STATE_AWAITING_BLOCK_SIZE =
     [(E_DESC_FIFO_ALMOST_EMPTY_IRQ, {SMBUS_STATE_AWAITING_BLOCK_SIZE}),
      (E_TARGET_DATA_IRQ, {SMBUS_STATE_AWAITING_BLOCK_SIZE, SMBUS_STATE_AWAITING_DATA,
         SMBUS_STATE_AWAITING_READ})]"
| "fsm_table SMBUS_STATE_AWAITING_DATA =
     [(E_DESC_FIFO_ALMOST_EMPTY_IRQ, {SMBUS_STATE_AWAITING_DATA}),
      (E_TARGET_READ_IRQ, {SMBUS_STATE_AWAITING_DATA, SMBUS_STATE_READY_TO_SEND_BYTE, SMBUS_STATE_INITIAL}),
      (E_TARGET_DONE_IRQ, {SMBUS_STATE_AWAITING_DONE, SMBUS_STATE_INITIAL}),
      (E_TARGET_DATA_IRQ, {SMBUS_STATE_AWAITING_DATA, SMBUS_STATE_AWAITING_DONE, SMBUS_STATE_AWAITING_READ})]"
| "fsm_table SMBUS_STATE_AWAITING_READ =
     [(E_DESC_FIFO_ALMOST_EMPTY_IRQ, {SMBUS_STATE_AWAITING_READ}),
      (E_TARGET_READ_IRQ, {SMBUS_STATE_AWAITING_READ, SMBUS_STATE_READY_TO_SEND_BYTE}),
      (E_TARGET_DATA_IRQ, {SMBUS_STATE_AWAITING_READ})]"
| "fsm_table SMBUS_STATE_READY_TO_SEND_BYTE =
     [(E_DESC_FIFO_ALMOST_EMPTY_IRQ, {SMBUS_STATE_READY_TO_SEND_BYTE, SMBUS_STATE_CHECK_IF_PEC_REQUIRED})]"
| "fsm_table SMBUS_STATE_CHECK_IF_PEC_REQUIRED =
     [(E_IS_PEC_REQUIRED, {SMBUS_STATE_CHECK_IF_PEC_REQUIRED, SMBUS_STATE_AWAITING_DONE})]"
| "fsm_table SMBUS_STATE_AWAITING_DONE =
     [(E_CONTROLLER_DESC_FIFO_ALMOST_EMPTY_IRQ, {SMBUS_STATE_AWAITING_DONE}),
      (E_DESC_FIFO_ALMOST_EMPTY_IRQ, {SMBUS_STATE_AWAITING_DONE}),
      (E_TARGET_READ_IRQ, {SMBUS_STATE_AWAITING_DONE}),
      (E_TARGET_DONE_IRQ, {SMBUS_STATE_AWAITING_DONE, SMBUS_STATE_INITIAL}),
      (E_TARGET_DATA_IRQ, {SMBUS_STATE_AWAITING_DONE}),
      (E_CONTROLLER_DONE_IRQ, {SMBUS_STATE_INITIAL})]"
| "fsm_table SMBUS_STATE_CONTROLLER_SEND_COMMAND =
     [(E_SEND_NEXT_BYTE, {SMBUS_STATE_CONTROLLER_SEND_COMMAND, SMBUS_STATE_CONTROLLER_SEND_READ_START,
         SMBUS_STATE_CONTROLLER_WRITE_BYTE})]"
| "fsm_table SMBUS_STATE_CONTROLLER_WRITE_BYTE =
     [(E_SEND_NEXT_BYTE, {SMBUS_STATE_CONTROLLER_WRITE_BYTE, SMBUS_STATE_CONTROLLER_SEND_READ_START,
         SMBUS_STATE_AWAITING_DONE}),
      (E_CONTROLLER_DESC_FIFO_ALMOST_EMPTY_IRQ, {SMBUS_STATE_CONTROLLER_WRITE_BYTE,
         SMBUS_STATE_CONTROLLER_SEND_READ_START, SMBUS_STATE_AWAITING_DONE})]"
| "fsm_table SMBUS_STATE_CONTROLLER_SEND_READ_START =
     [(E_SEND_NEXT_BYTE, {SMBUS_STATE_CONTROLLER_SEND_READ_START, SMBUS_STATE_CONTROLLER_READ_BLOCK_SIZE,
         SMBUS_STATE_CONTROLLER_READ_BYTE, SMBUS_STATE_CONTROLLER_READ_DONE})]"
| "fsm_table SMBUS_STATE_CONTROLLER_READ_BLOCK_SIZE =
     [(E_CONTROLLER_DESC_FIFO_ALMOST_EMPTY_IRQ, {SMBUS_STATE_CONTROLLER_READ_BLOCK_SIZE}),
      (E_CONTROLLER_DATA_IRQ, {SMBUS_STATE_CONTROLLER_READ_BLOCK_SIZE, SMBUS_STATE_CONTROLLER_READ_BYTE,
         SMBUS_STATE_CONTROLLER_READ_DONE})]"
| "fsm_table SMBUS_STATE_CONTROLLER_READ_BYTE =
     [(E_CONTROLLER_DESC_FIFO_ALMOST_EMPTY_IRQ, {SMBUS_STATE_CONTROLLER_READ_BYTE}),
      (E_CONTROLLER_DONE_IRQ, {SMBUS_STATE_CONTROLLER_READ_BYTE}),
      (E_CONTROLLER_DATA_IRQ, {SMBUS_STATE_CONTROLLER_READ_BYTE, SMBUS_STATE_CONTROLLER_READ_DONE})]"
| "fsm_table SMBUS_STATE_CONTROLLER_READ_PEC =
     [(E_CONTROLLER_DATA_IRQ, {SMBUS_STATE_CONTROLLER_READ_PEC, SMBUS_STATE_CONTROLLER_READ_DONE})]"
| "fsm_table SMBUS_STATE_CONTROLLER_READ_DONE =
     [(E_CONTROLLER_DATA_IRQ, {SMBUS_STATE_CONTROLLER_READ_DONE}),
      (E_CONTROLLER_DESC_FIFO_ALMOST_EMPTY_IRQ, {SMBUS_STATE_CONTROLLER_READ_DONE}),
      (E_CONTROLLER_DONE_IRQ, {SMBUS_STATE_CONTROLLER_READ_DONE, SMBUS_STATE_INITIAL})]"

definition fsm_next :: "SMBUS_STATE \<Rightarrow> u8 \<Rightarrow> SMBUS_STATE set" where
  "fsm_next c ev = fsm_row ev c (fsm_table c)"

lemmas event_group_defs = bus_warning_event_def target_error_event_def controller_error_event_def

text \<open>How the table is used: a handler that treats the groups alike needs its other events.\<close>

lemma fsm_row_cases:
  assumes "at_state e i s0 c s"
    and "\<And>T. \<not> bus_warning_event ev \<Longrightarrow> \<not> target_error_event ev \<Longrightarrow> \<not> controller_error_event ev \<Longrightarrow>
      T = (case map_of row ev of Some T \<Rightarrow> T | None \<Rightarrow> {SMBUS_STATE_INITIAL}) \<Longrightarrow> post rest (reach e i s0 c T)"
  shows "post (error_cases E i ev s rest) (reach e i s0 c (fsm_row ev c row))"
proof (rule error_cases_reach [OF assms(1)])
  show "bus_warning_event ev \<Longrightarrow> c \<in> fsm_row ev c row" by (simp add: fsm_row_def)
  show "target_error_event ev \<or> controller_error_event ev \<Longrightarrow> SMBUS_STATE_INITIAL \<in> fsm_row ev c row"
    by (auto simp: fsm_row_def event_group_defs)
  show "\<not> bus_warning_event ev \<Longrightarrow> \<not> target_error_event ev \<Longrightarrow> \<not> controller_error_event ev \<Longrightarrow>
      post rest (reach e i s0 c (fsm_row ev c row))"
    by (rule assms(2)) (simp_all add: fsm_row_def)
qed

section \<open>The target's handlers\<close>

lemma initial_write_reach:
  "at_state e i s0 c s \<Longrightarrow> {SMBUS_STATE_AWAITING_DATA, SMBUS_STATE_AWAITING_COMMAND_BYTE} \<subseteq> T \<Longrightarrow>
   post (initial_write_irq E i s) (reach e i s0 c T)"
  unfolding initial_write_irq_def Let_def by (auto intro!: keep steps)

lemma initial_read_reach:
  "at_state e i s0 c s \<Longrightarrow> {SMBUS_STATE_READY_TO_SEND_BYTE, SMBUS_STATE_INITIAL} \<subseteq> T \<Longrightarrow>
   post (initial_read_irq E i ev s) (reach e i s0 c T)"
  unfolding initial_read_irq_def Let_def by (auto intro!: keep steps)

lemma initial_send_reach:
  "at_state e i s0 c s \<Longrightarrow>
   {SMBUS_STATE_AWAITING_DONE, SMBUS_STATE_CONTROLLER_SEND_READ_START, SMBUS_STATE_CONTROLLER_WRITE_BYTE,
    SMBUS_STATE_CONTROLLER_READ_BYTE, SMBUS_STATE_CONTROLLER_SEND_COMMAND} \<subseteq> T \<Longrightarrow>
   post (initial_send_next_byte E i s) (reach e i s0 c T)"
  unfolding initial_send_next_byte_def Let_def
  by (auto intro!: keep steps split: SMBUS_COMMAND_PROTOCOL.split)

text \<open>Rows of the table are matched against the event of each case.\<close>

lemma Initial_reach:
  "at_state e i s0 SMBUS_STATE_INITIAL s \<Longrightarrow>
   post (vDefaultSMBusFSMSMBusStateInitial E i ev s) (reach e i s0 SMBUS_STATE_INITIAL (fsm_next SMBUS_STATE_INITIAL ev))"
  unfolding vDefaultSMBusFSMSMBusStateInitial_def fsm_next_def
  by (rule fsm_row_cases)
    (auto intro!: post_if initial_write_reach initial_read_reach initial_send_reach unexpected_reach)

lemma nack_reach:
  "at_state e i s0 c s \<Longrightarrow> SMBUS_STATE_AWAITING_DONE \<in> T \<Longrightarrow> post (acb_nack E i s) (reach e i s0 c T)"
  unfolding acb_nack_def by (auto intro!: keep steps)

lemma ack_and_pec_reach:
  "at_state e i s0 c s \<Longrightarrow> SMBUS_STATE_AWAITING_DONE \<in> T \<Longrightarrow> post (acb_ack_and_pec E i line s) (reach e i s0 c T)"
  unfolding acb_ack_and_pec_def Let_def by (auto intro!: keep steps)

lemma host_notify_reach:
  "at_state e i s0 c s \<Longrightarrow> SMBUS_STATE_AWAITING_DATA \<in> T \<Longrightarrow> post (acb_host_notify E i s) (reach e i s0 c T)"
  unfolding acb_host_notify_def Let_def by (auto intro!: keep steps)

lemma assign_address_reach:
  "at_state e i s0 c s \<Longrightarrow> SMBUS_STATE_AWAITING_BLOCK_SIZE \<in> T \<Longrightarrow> post (acb_assign_address E i s) (reach e i s0 c T)"
  unfolding acb_assign_address_def Let_def by (auto intro!: keep steps)

lemma directed_valid_keeps [keepv]: "post (acb_directed_valid E i s) (\<lambda>(v, s'). keeps e i s s')"
  unfolding acb_directed_valid_def by (auto intro!: keepv_bind keep split: option.split)

lemma prepare_or_reset_reach:
  "at_state e i s0 c s \<Longrightarrow> SMBUS_STATE_AWAITING_DONE \<in> T \<Longrightarrow> post (acb_prepare_or_reset E i s) (reach e i s0 c T)"
  unfolding acb_prepare_or_reset_def Let_def
  by (auto intro!: keep steps at_bindv [OF directed_valid_keeps] nack_reach ack_and_pec_reach)

lemma directed_loop_keeps [keepv]: "post (acb_directed_loop E i ks s) (\<lambda>(v, s'). keeps e i s s')"
proof (induction ks arbitrary: s)
  case (Cons k ks)
  then show ?case by (auto intro!: keepv_bind keep)
qed simp

lemma get_udid_directed_reach:
  "at_state e i s0 c s \<Longrightarrow> {SMBUS_STATE_AWAITING_DONE, SMBUS_STATE_AWAITING_READ} \<subseteq> T \<Longrightarrow>
   post (acb_get_udid_directed E i s) (reach e i s0 c T)"
  unfolding acb_get_udid_directed_def Let_def
  by (auto intro!: keep steps at_bindv [OF directed_loop_keeps] nack_reach)

lemma candidates_step:
  assumes "post m (keeps e i s)" and "\<And>t. post (f t) (\<lambda>(l', n', s'). keeps e i t s')"
  shows "post (Option.bind m f) (\<lambda>(l', n', s'). keeps e i s s')"
  by (rule post_bind [OF assms(1)]) (auto intro: keeps_trans intro!: post_weaken [OF assms(2)])

lemma candidates_keeps: "post (acb_candidates E i ks l n s) (\<lambda>(l', n', s'). keeps e i s s')"
proof (induction ks arbitrary: l n s)
  case (Cons k ks)
  then show ?case
    by (auto simp: Let_def arr_set_def intro!: candidates_step keep)
qed simp

lemma udid_reply_reach:
  "at_state e i s0 c s \<Longrightarrow> SMBUS_STATE_AWAITING_READ \<in> T \<Longrightarrow> post (acb_udid_reply E i k s) (reach e i s0 c T)"
  unfolding acb_udid_reply_def Let_def by (auto intro!: keep steps)

lemma udid_pick_keeps: "post (acb_udid_pick E i l n s) (\<lambda>(v, s'). keeps e i s s')"
  unfolding acb_udid_pick_def
  by (rule post_if, rule keepv_bind, rule keep) (auto simp: post_bind_iff intro: postI)

lemma get_udid_reach:
  assumes "at_state e i s0 c s" and T: "{SMBUS_STATE_AWAITING_DONE, SMBUS_STATE_AWAITING_READ} \<subseteq> T"
  shows "post (acb_get_udid E i s) (reach e i s0 c T)"
  unfolding acb_get_udid_def Let_def
proof (rule post_bind [OF candidates_keeps], clarsimp split del: if_split)
  fix l n s'
  assume "keeps e i (upd_inst i (usSendDataSize_update (\<lambda>_. SMBUS_GET_UDID_MSG_LENGTH)) s) s'"
  then have "at_state e i s0 c s'" using assms(1) by (auto elim: at_keeps [rotated])
  with T show "post (if 0 < n then do { s \<leftarrow> dbg E i (of_nat n) 836 s'; (l, s) \<leftarrow> acb_udid_pick E i l n s; acb_udid_reply E i (l 0) s }
      else acb_nack E i s') (reach e i s0 c T)"
    by (auto intro!: keep steps at_bindv [OF udid_pick_keeps] udid_reply_reach nack_reach)
qed


text \<open>A determined ARP protocol is one of the six that are handled.\<close>

definition arp_protocol :: "SMBUS_COMMAND_PROTOCOL \<Rightarrow> bool" where
  "arp_protocol p \<longleftrightarrow> p \<in> {SMBUS_ARP_PROTOCOL_PREPARE_TO_ARP, SMBUS_ARP_PROTOCOL_RESET_DEVICE,
     SMBUS_ARP_PROTOCOL_GET_UDID, SMBUS_ARP_PROTOCOL_ASSIGN_ADDRESS, SMBUS_ARP_PROTOCOL_GET_UDID_DIRECTED,
     SMBUS_ARP_PROTO_RESET_DEVICE_DIRECTED}"

lemma arp_command_determined:
  "arp_command c x = (r, y) \<Longrightarrow> r = SMBUS_ACTION_ARP_PROTOCOL_UNDETERMINED \<or> arp_protocol (xProtocol y)"
  by (auto simp: arp_command_def arp_protocol_def split: if_splits)

lemma arp_protocol_determined:
  "post (ucSMBusHandleActionGetARPProtocol E i s) (\<lambda>(v, s'). v = SMBUS_ACTION_ARP_PROTOCOL_UNDETERMINED \<or>
     arp_protocol (xProtocol (inst i s')))"
  unfolding ucSMBusHandleActionGetARPProtocol_def
  by (auto simp: post_bind_iff Let_def intro!: postI split: if_splits prod.split dest: arp_command_determined)

lemma dbg_inst: "vLogAddEntry E l n ev a b s = Some s' \<Longrightarrow> inst k s' = inst k s"
  using log_onlyD(1) [OF quietD(1) [OF log_add_quiet]] by blast

lemma arp_command_reach:
  assumes A: "at_state e i s0 c s" and P: "arp_protocol (xProtocol (inst i s))"
    and T: "{SMBUS_STATE_AWAITING_BLOCK_SIZE, SMBUS_STATE_AWAITING_READ, SMBUS_STATE_AWAITING_DONE} \<subseteq> T"
  shows "post (acb_arp_command E i s) (reach e i s0 c T)"
proof (cases "dbg E i (protocol_num (xProtocol (inst i s))) 610 s")
  case (Some s')
  have "at_state e i s0 c s'" by (rule at_keeps [OF A postD [OF log_keeps Some]])
  moreover have "xProtocol (inst i s') = xProtocol (inst i s)" by (simp add: dbg_inst [OF Some])
  ultimately show ?thesis
    using P T Some
    by (auto simp: acb_arp_command_def arp_protocol_def
        intro!: assign_address_reach prepare_or_reset_reach get_udid_directed_reach get_udid_reach)
qed (simp add: acb_arp_command_def)

lemma post_conj: "post m P \<Longrightarrow> post m Q \<Longrightarrow> post m (\<lambda>x. P x \<and> Q x)"
  by (cases m) simp_all

lemma arp_reach:
  assumes A: "at_state e i s0 c s"
    and T: "{SMBUS_STATE_AWAITING_BLOCK_SIZE, SMBUS_STATE_AWAITING_READ, SMBUS_STATE_AWAITING_DONE} \<subseteq> T"
  shows "post (acb_arp E i s) (reach e i s0 c T)"
  unfolding acb_arp_def
proof (rule at_bind [OF log_keeps A], rule post_bind [OF post_conj [OF get_arp_protocol_keeps arp_protocol_determined]])
  fix s1 x
  assume "at_state e i s0 c s1"
    and "(case x of (v, s') \<Rightarrow> keeps e i s1 s') \<and> (case x of (v, s') \<Rightarrow>
      v = SMBUS_ACTION_ARP_PROTOCOL_UNDETERMINED \<or> arp_protocol (xProtocol (inst i s')))"
  with T show "post (case x of (r, s) \<Rightarrow> if r = SMBUS_ACTION_ARP_PROTOCOL_UNDETERMINED then acb_nack E i s
      else acb_arp_command E i s) (reach e i s0 c T)"
    by (auto intro!: nack_reach arp_command_reach elim: at_keeps)
qed

lemma ack_times_keeps [keep]: "post (ack_times E i n s) (keeps e i s)"
  by (induction n arbitrary: s) (auto intro!: keep_bind keep)

lemma acb_expect_at [simp]: "at_state e i s0 c (acb_expect n i s) = at_state e i s0 c s"
  by (simp add: acb_expect_def)

lemma device_reach:
  assumes "at_state e i s0 c s"
    and "{SMBUS_STATE_AWAITING_BLOCK_SIZE, SMBUS_STATE_AWAITING_READ, SMBUS_STATE_AWAITING_DATA,
      SMBUS_STATE_AWAITING_DONE} \<subseteq> T"
  shows "post (acb_device E i s) (reach e i s0 c T)"
proof -
  have rd: "post (acb_read_protocol E i s) (reach e i s0 c T)" if "at_state e i s0 c s" for s
    unfolding acb_read_protocol_def using that assms(2) by (auto intro!: keep steps)
  have wr: "post (acb_write_ready E i s) (reach e i s0 c T)" if "at_state e i s0 c s" for s
    unfolding acb_write_ready_def using that assms(2)
    by (auto intro!: keep steps at_bind [OF ack_times_keeps])
  have bk: "post (acb_block_protocol E i s) (reach e i s0 c T)" if "at_state e i s0 c s" for s
    unfolding acb_block_protocol_def using that assms(2) by (auto intro!: keep steps)
  show ?thesis
    unfolding acb_device_def using assms
    by (auto intro!: keep steps rd wr bk nack_reach split: SMBUS_COMMAND_PROTOCOL.split)
qed


lemma acb_data_reach:
  assumes A: "at_state e i s0 c s"
    and T: "{SMBUS_STATE_AWAITING_BLOCK_SIZE, SMBUS_STATE_AWAITING_READ, SMBUS_STATE_AWAITING_DATA,
      SMBUS_STATE_AWAITING_DONE} \<subseteq> T"
  shows "post (acb_data_irq E i s) (reach e i s0 c T)"
  unfolding acb_data_irq_def
proof (rule at_bind [OF log_keeps A], rule post_bind)
  fix s1
  assume "at_state e i s0 c s1"
  with T show "post (if ucSMBusAddr (inst i s1) = SMBUS_NOTIFY_ARP_MASTER_ADDRESS then acb_host_notify E i s1
      else if ucSMBusAddr (inst i s1) = SMBUS_DEVICE_DEFAULT_ARP_ADDRESS then acb_arp E i s1
      else acb_device E i s1) (reach e i s0 c T)"
    by (auto intro!: post_if host_notify_reach arp_reach device_reach)
next
  fix s2
  assume "reach e i s0 c T s2"
  then show "post (if xProtocol (inst i s2) \<noteq> SMBUS_PROTOCOL_NONE then count_initiated i s2 else Some s2) (reach e i s0 c T)"
    by (auto intro!: post_if reach_keeps [OF count_keeps(1)])
qed

lemma AwaitingCommandByte_reach:
  "at_state e i s0 SMBUS_STATE_AWAITING_COMMAND_BYTE s \<Longrightarrow>
   post (vDefaultSMBusFSMSMBusStateAwaitingCommandByte E i ev s)
     (reach e i s0 SMBUS_STATE_AWAITING_COMMAND_BYTE (fsm_next SMBUS_STATE_AWAITING_COMMAND_BYTE ev))"
  unfolding vDefaultSMBusFSMSMBusStateAwaitingCommandByte_def fsm_next_def
  by (rule fsm_row_cases) (auto intro!: post_if acb_data_reach unexpected_reach)

lemma AwaitingRead_reach:
  "at_state e i s0 SMBUS_STATE_AWAITING_READ s \<Longrightarrow>
   post (vDefaultSMBusFSMSMBusStateAwaitingRead E i ev s)
     (reach e i s0 SMBUS_STATE_AWAITING_READ (fsm_next SMBUS_STATE_AWAITING_READ ev))"
  unfolding vDefaultSMBusFSMSMBusStateAwaitingRead_def fsm_next_def
  by (rule fsm_row_cases) (auto intro!: keep steps)

lemma send_fill_keeps [keep]: "post (send_fill E i n s) (keeps e i s)"
proof (induction n arbitrary: s)
  case (Suc n)
  then show ?case
    by (auto simp: arr_get_def intro!: keep_bindv keepv keep_upd [OF Suc.IH])
qed simp

lemma ReadyToSendByte_reach:
  "at_state e i s0 SMBUS_STATE_READY_TO_SEND_BYTE s \<Longrightarrow>
   post (vDefaultSMBusFSMSMBusStateReadyToSendByte E i ev s)
     (reach e i s0 SMBUS_STATE_READY_TO_SEND_BYTE (fsm_next SMBUS_STATE_READY_TO_SEND_BYTE ev))"
  unfolding vDefaultSMBusFSMSMBusStateReadyToSendByte_def rtsb_almost_empty_def fsm_next_def
  by (rule fsm_row_cases) (auto intro!: keep steps at_bind [OF send_fill_keeps])


lemma pec_read_reach:
  "at_state e i s0 c s \<Longrightarrow> {c, SMBUS_STATE_AWAITING_DONE} \<subseteq> T \<Longrightarrow> post (pec_read E i s) (reach e i s0 c T)"
  unfolding pec_read_def by (auto intro!: keep steps)

text \<open>When the state may have changed on the way, the rest starts from any of the states.\<close>

lemma reach_bind:
  assumes "post m (reach e i s0 c T)" and "\<And>t s. t \<in> T \<Longrightarrow> at_state e i s0 t s \<Longrightarrow> post (f s) (reach e i s0 t T)"
  shows "post (Option.bind m f) (reach e i s0 c T)"
  by (rule post_bind [OF assms(1)]) (auto simp: reach_def intro: post_weaken [OF assms(2)])

lemma CheckIfPECRequired_reach:
  assumes "at_state e i s0 SMBUS_STATE_CHECK_IF_PEC_REQUIRED s"
  shows "post (vDefaultSMBusFSMSMBusStateCheckIfPECRequired E i ev s)
     (reach e i s0 SMBUS_STATE_CHECK_IF_PEC_REQUIRED (fsm_next SMBUS_STATE_CHECK_IF_PEC_REQUIRED ev))"
proof -
  have "post (check_pec E i s) (reach e i s0 SMBUS_STATE_CHECK_IF_PEC_REQUIRED
      {SMBUS_STATE_CHECK_IF_PEC_REQUIRED, SMBUS_STATE_AWAITING_DONE})"
    unfolding check_pec_def
  proof (rule at_bind [OF log_keeps assms], rule reach_bind)
    fix s1
    assume "at_state e i s0 SMBUS_STATE_CHECK_IF_PEC_REQUIRED s1"
    then show "post (if xProtocol (inst i s1) \<in>
           {SMBUS_PROTOCOL_BLK_WRITE_BLK_RD_PROCESS_CALL, SMBUS_PROTOCOL_PROCESS_CALL,
            SMBUS_PROTOCOL_BLOCK_READ, SMBUS_PROTOCOL_READ_64, SMBUS_PROTOCOL_READ_32,
            SMBUS_PROTOCOL_READ_WORD, SMBUS_PROTOCOL_READ_BYTE, SMBUS_PROTOCOL_RECEIVE_BYTE} \<or>
           ulI2CDevice (inst i s1) = 1
        then do { s \<leftarrow> dbg E i (ucast (ucPECRequired (inst i s1))) 1339 s1;
          if ucPECRequired (inst i s) = SMBUS_TRUE then pec_read E i s
          else Some (vSMBusNextStateDecoder i SMBUS_STATE_AWAITING_DONE s) }
        else Some s1) (reach e i s0 SMBUS_STATE_CHECK_IF_PEC_REQUIRED
          {SMBUS_STATE_CHECK_IF_PEC_REQUIRED, SMBUS_STATE_AWAITING_DONE})"
      by (intro post_if) (auto intro!: keep steps pec_read_reach)
  next
    fix t s1
    assume "t \<in> {SMBUS_STATE_CHECK_IF_PEC_REQUIRED, SMBUS_STATE_AWAITING_DONE}" "at_state e i s0 t s1"
    then show "post (if xProtocol (inst i s1) \<in> {SMBUS_ARP_PROTOCOL_GET_UDID, SMBUS_ARP_PROTOCOL_GET_UDID_DIRECTED}
        then pec_read E i s1 else Some s1)
      (reach e i s0 t {SMBUS_STATE_CHECK_IF_PEC_REQUIRED, SMBUS_STATE_AWAITING_DONE})"
      by (intro post_if pec_read_reach) auto
  qed
  with assms show ?thesis
    unfolding vDefaultSMBusFSMSMBusStateCheckIfPECRequired_def fsm_next_def
    by (intro fsm_row_cases) (auto intro!: post_if unexpected_reach)
qed


section \<open>The end of a transaction\<close>

text \<open>The ARP commands change other instances, but only their flags and their address.\<close>

definition arp_erase :: "SMBus_Instance \<Rightarrow> SMBus_Instance" where
  "arp_erase x = x\<lparr>ucARFlag := 0, ucAVFlag := 0, ucSMBusAddr := 0\<rparr>"

lemma arp_erase_state: "arp_erase x = arp_erase y \<Longrightarrow> xState x = xState y"
  by (drule arg_cong [of _ _ xState]) (simp add: arp_erase_def)

lemma arp_erase_upd [simp]:
  "(\<And>x. arp_erase (f x) = arp_erase x) \<Longrightarrow> keeps arp_erase i s (upd_inst k f t) = keeps arp_erase i s t"
  using arp_erase_state [of "f (inst k t)" "inst k t"] by (auto simp: keeps_def)

lemma arp_erase_fields [simp]:
  "arp_erase (x\<lparr>ucARFlag := a\<rparr>) = arp_erase x" "arp_erase (x\<lparr>ucAVFlag := a\<rparr>) = arp_erase x"
  "arp_erase (x\<lparr>ucSMBusAddr := a\<rparr>) = arp_erase x"
  by (simp_all add: arp_erase_def)

lemma keep_arp_upd:
  "post m (keeps arp_erase i (upd_inst k f s)) \<Longrightarrow> (\<And>x. arp_erase (f x) = arp_erase x) \<Longrightarrow> post m (keeps arp_erase i s)"
  by (erule keep_from) simp

lemma arp_prepare_keeps: "post (vSMBusARPPrepareToARP E k s) (keeps arp_erase i s)"
  unfolding vSMBusARPPrepareToARP_def Let_def by (rule keep_arp_upd, rule keep) simp

lemma arp_reset_keeps: "post (vSMBusARPResetDevice E k s) (keeps arp_erase i s)"
proof -
  have fixed: "post (vLogAddEntry E l n ev v line (upd_inst k (\<lambda>x. x\<lparr>ucAVFlag := a\<rparr>) s)) (keeps arp_erase i s)"
    for l n ev v line a s
    by (rule keep_arp_upd, rule keep) simp
  have dyn: "post (do {
      s \<leftarrow> (if b s then do { s \<leftarrow> vSMBusHWWriteTgtControlEnable E n 0 s; dbg E k v 217 s } else Some s);
      let s = upd_inst k (\<lambda>x. x\<lparr>ucAVFlag := SMBUS_FALSE\<rparr>) s;
      dbg E k (u s) 223 s }) (keeps arp_erase i s)" for s b n v u
    by (rule keep_bind) (auto simp: Let_def intro!: fixed keep_bind keep)
  show ?thesis
    unfolding vSMBusARPResetDevice_def Let_def
    by (rule keep_arp_upd [where f = "\<lambda>x. x\<lparr>ucARFlag := SMBUS_FALSE\<rparr>"])
      (auto intro!: keep_bind keep fixed dyn [unfolded Let_def])
qed

lemma done_prepare_keeps: "post (done_prepare E ks s) (keeps arp_erase i s)"
  by (induction ks arbitrary: s) (auto intro!: keep_bind arp_prepare_keeps)

lemma done_reset_keeps: "post (done_reset E i ks s) (keeps arp_erase i s)"
  by (induction ks arbitrary: s) (auto intro!: keep_bind keep arp_reset_keeps)

lemma done_reset_directed_keeps: "post (done_reset_directed E i ks s) (keeps arp_erase i s)"
  by (induction ks arbitrary: s) (auto intro!: keep_bind arp_reset_keeps)


lemma notify_keeps [simp]:
  "keeps e i s (vSMBusHandleActionNotifyAddressChangeToApplication E k t u) = keeps e i s u"
  by (simp add: vSMBusHandleActionNotifyAddressChangeToApplication_def split: option.splits)

lemma done_assign_address_keeps: "post (done_assign_address E i s) (keeps arp_erase i s)"
proof -
  have tail: "post (do {
      s \<leftarrow> vSMBusHWWriteTgtControlEnable E n 0 s;
      s \<leftarrow> vSMBusHWWriteTgtControlAddress E n (v s) s;
      s \<leftarrow> vSMBusHWWriteTgtControlEnable E n 1 s;
      Some (vSMBusHandleActionNotifyAddressChangeToApplication E k (u s) s) }) (keeps arp_erase i s)" for n v u k s
    by (auto intro!: keep_bind keep)
  show ?thesis
    unfolding done_assign_address_def Let_def
    by (auto simp: arr_get_def intro!: keep_bind keep keep_from [OF tail])
qed

lemma write_data_keep [keep]: "post (write_data E i s) (keeps e i s)"
  unfolding write_data_def by (rule keep)

lemma done_i2c_reach:
  "at_state e i s0 c s \<Longrightarrow> SMBUS_STATE_INITIAL \<in> T \<Longrightarrow> post (done_i2c E i s) (reach e i s0 c T)"
  unfolding done_i2c_def Let_def by (auto intro!: keep steps)

lemma done_smbus_reach:
  assumes "at_state arp_erase i s0 c s" and "{c, SMBUS_STATE_INITIAL} \<subseteq> T"
  shows "post (done_smbus E i s) (reach arp_erase i s0 c T)"
proof -
  have data: "post (if b then do { s \<leftarrow> dbg E i x 1561 s; s \<leftarrow> dbg E i (y s) 1564 s;
      if d s then write_data E i s else Some s } else Some s) (keeps e i s)" for b x y d s and e :: "SMBus_Instance \<Rightarrow> 'b"
    by (auto intro!: keep_bind keep)
  show ?thesis
    unfolding done_smbus_def Let_def
    by (rule at_bind [OF data assms(1)], (rule at_bind_when, rule write_data_keep, assumption),
        (rule at_bind_when, rule done_assign_address_keeps, assumption),
        (rule at_bind_when, rule done_prepare_keeps, assumption),
        (rule at_bind_when, rule done_reset_keeps, assumption),
        (rule at_bind_when, rule done_reset_directed_keeps, assumption), intro post_if)
      (use assms(2) in \<open>auto intro!: to_initial_reach\<close>)
qed


lemma done_target_done_reach:
  assumes "at_state arp_erase i s0 c s" and "{c, SMBUS_STATE_INITIAL} \<subseteq> T"
  shows "post (done_target_done E i s) (reach arp_erase i s0 c T)"
  unfolding done_target_done_def
  by (rule at_bind_unless [OF count_keeps(2) assms(1)]) (use assms(2) in \<open>auto intro!: post_if done_i2c_reach done_smbus_reach\<close>)

lemma done_controller_done_reach:
  "at_state e i s0 c s \<Longrightarrow> SMBUS_STATE_INITIAL \<in> T \<Longrightarrow> post (done_controller_done E i s) (reach e i s0 c T)"
  unfolding done_controller_done_def
  by (rule at_bind_when [OF write_data_keep], assumption, rule at_bind_unless [OF count_keeps(2)], assumption)
    (auto intro!: to_initial_reach)

lemma done_fifo_empty_keeps: "post (done_fifo_empty E i s) (keeps e i s)"
proof -
  have rest: "post (do { s \<leftarrow> (if b s then ack_almost_empty E i usExpectedByteCount s else Some s);
       if c s then
         (if d s then do {
            (r, s) \<leftarrow> ucSMBusTargetWriteDescriptorPEC E s;
            Some (upd_inst i (\<lambda>x. x\<lparr>ucPECSent := SMBUS_TRUE\<rparr>) s) }
          else if f s then vSMBusSendNACK E i s
          else Some s)
       else Some s }) (keeps e i s)" for b c d f s
    by (rule keep_bind) (auto intro!: post_if keep_bindv keep keepv)
  show ?thesis
    unfolding done_fifo_empty_def Let_def
    by (rule keep_bind, rule keep, rule keep_bind, rule keep, rule keep_bind, rule keep,
        rule keep_upd [where f = "\<lambda>x. x\<lparr>ucFifoEmptyWhileInDoneCount := ucFifoEmptyWhileInDoneCount x + 1\<rparr>"],
        rule post_if, rule keep, rule rest) simp
qed

lemma controller_error_reach:
  "at_state e i s0 c s \<Longrightarrow> SMBUS_STATE_INITIAL \<in> T \<Longrightarrow> post (controller_error E i ev s) (reach e i s0 c T)"
  unfolding controller_error_def by (rule to_initial_reach) simp

text \<open>Only the end of a transaction of a target touches the other instances.\<close>

lemma AwaitingDone_reach:
  assumes A: "at_state e i s0 SMBUS_STATE_AWAITING_DONE s"
    and D: "ev = E_TARGET_DONE_IRQ \<Longrightarrow> post (done_target_done E i s)
      (reach e i s0 SMBUS_STATE_AWAITING_DONE {SMBUS_STATE_AWAITING_DONE, SMBUS_STATE_INITIAL})"
  shows "post (vDefaultSMBusFSMSMBusStateAwaitingDone E i ev s)
     (reach e i s0 SMBUS_STATE_AWAITING_DONE (fsm_next SMBUS_STATE_AWAITING_DONE ev))"
  unfolding vDefaultSMBusFSMSMBusStateAwaitingDone_def fsm_next_def fsm_row_def using A
  by (intro post_if)
    (auto simp: event_group_defs intro!: D controller_error_reach done_controller_done_reach unexpected_reach
      at_last [OF done_fifo_empty_keeps] keep steps)

lemma match_loop_keeps [keepv]: "post (udid_match_loop i ks f (s :: 'w smbus_st)) (\<lambda>(v, s'). keeps e i s s')"
proof (induction ks arbitrary: f s)
  case (Cons k ks)
  have p: "post (udid_match_loop i ks f (upd_prof (\<lambda>p. p\<lparr>ucUDIDMatch := (ucUDIDMatch p)(k := SMBUS_FALSE)\<rparr>) s))
      (\<lambda>(v, s'). keeps e i s s')" for f and s :: "'w smbus_st"
    by (rule post_weaken [OF Cons.IH]) (auto simp: keeps_def)
  have u: "post (udid_match_loop i ks f (upd_inst i (\<lambda>x. x\<lparr>ucUDIDMatchedInstance := b\<rparr>) s))
      (\<lambda>(v, s'). keeps e i s s')" for f b and s :: "'w smbus_st"
    by (rule post_weaken [OF Cons.IH]) (auto simp: keeps_def)
  show ?case by (auto simp: arr_get_def p u Cons.IH)
qed simp

lemma check_match_keeps [keepv]: "post (ucCheckAtLeastOneMatchFound E i s) (\<lambda>(v, s'). keeps e i s s')"
  unfolding ucCheckAtLeastOneMatchFound_def
  by (rule keepv_bindv [OF match_loop_keeps]) (auto intro!: keepv_bind keep)

lemma reach_upd [simp]: "(\<And>x. xState (f x) = xState x) \<Longrightarrow> reach e i s0 c T (upd_inst i f s) = reach e i s0 c T s"
  by (simp add: reach_def)

lemma assign_byte_reach:
  assumes A: "at_state e i s0 c s" and "{c, SMBUS_STATE_AWAITING_DATA, SMBUS_STATE_AWAITING_DONE} \<subseteq> T"
  shows "post (assign_address_byte E i s) (reach e i s0 c T)"
proof -
  have R: "post (do {
      s \<leftarrow> (if b s then do { s \<leftarrow> ack_counted E i s; Some (vSMBusNextStateDecoder i SMBUS_STATE_AWAITING_DATA s) }
            else do { s \<leftarrow> vSMBusSendNACK E i s; Some (vSMBusNextStateDecoder i SMBUS_STATE_AWAITING_DONE s) });
      Some (upd_inst i (\<lambda>x. x\<lparr>usReceiveIndex := usReceiveIndex x + 1\<rparr>) s) }) (reach e i s0 c T)"
    if "at_state e i s0 c s" for b s
    by (rule post_bind [where P = "reach e i s0 c T"]) (use that assms(2) in \<open>auto intro!: keep steps\<close>)
  show ?thesis
    unfolding assign_address_byte_def Let_def using assms
    by (auto simp: arr_set_def intro!: keep steps at_bindv [OF check_match_keeps] R)
qed

lemma assign_loop_reach:
  "at_state e i s0 c s \<Longrightarrow> {c, SMBUS_STATE_AWAITING_DATA, SMBUS_STATE_AWAITING_DONE} \<subseteq> T \<Longrightarrow>
   post (assign_address_loop E i n s) (reach e i s0 c T)"
proof (induction n arbitrary: c s)
  case (Suc n)
  show ?case
    by (simp, rule reach_bind [OF assign_byte_reach [OF Suc.prems]]) (use Suc in auto)
qed simp


lemma receive_all_keeps [keep]: "post (receive_all E i s) (keeps e i s)"
proof (rule postI)
  fix s'
  assume "receive_all E i s = Some s'"
  then show "keeps e i s s'"
  proof (induction rule: receive_all.raw_induct [rotated, consumes 1, case_names step])
    case (step f E i s s')
    from step(2) obtain r where 1: "ulSMBusHWReadCtrlRxFifoStatusEmpty E s = Some r"
      by (cases "ulSMBusHWReadCtrlRxFifoStatusEmpty E s") simp_all
    have k1: "keeps e i s (snd r)"
      using postD [OF keep_quietv [OF reads_quiet(7)] 1] by (simp add: split_beta)
    show ?case
    proof (cases "fst r = 0")
      case True
      with 1 step(2) obtain q s3 where 2: "ulSMBusHWReadCtrlRxFifoPayload E (snd r) = Some q"
        and 3: "receive_byte i (ucast (fst q)) (snd q) = Some s3" and 4: "f E i s3 = Some s'"
        by (auto simp: bind_eq_Some_conv)
      have "keeps e i (snd r) (snd q)"
        using postD [OF keep_quietv [OF reads_quiet(6)] 2] by (simp add: split_beta)
      moreover have "keeps e i (snd q) s3" by (rule postD [OF receive_byte_keeps 3])
      moreover have "keeps e i s3 s'" by (rule step(1) [OF 4])
      ultimately show ?thesis using k1 by (meson keeps_trans)
    next
      case False
      with 1 step(2) k1 show ?thesis by simp
    qed
  qed
qed

text \<open>The data and its acknowledgement.\<close>

lemma get_data_then_read:
  "at_state e i s0 c s \<Longrightarrow> SMBUS_STATE_AWAITING_READ \<in> T \<Longrightarrow>
   post (do { s \<leftarrow> vSMBusHandleActionGetDataFromApplication E i s;
     s \<leftarrow> dbg E i (v s) line s;
     Some (vSMBusNextStateDecoder i SMBUS_STATE_AWAITING_READ s) }) (reach e i s0 c T)"
  by (auto intro!: keep steps)

lemma data_write_bytes_reach:
  "at_state e i s0 c s \<Longrightarrow> {SMBUS_STATE_AWAITING_DATA, SMBUS_STATE_AWAITING_READ, SMBUS_STATE_AWAITING_DONE} \<subseteq> T \<Longrightarrow>
   post (data_write_bytes E i s) (reach e i s0 c T)"
  unfolding data_write_bytes_def Let_def
  by (auto intro!: keep steps at_bind [OF write_data_keep])

lemma data_data_reach:
  assumes "at_state e i s0 c s" and "{c, SMBUS_STATE_AWAITING_DATA, SMBUS_STATE_AWAITING_READ, SMBUS_STATE_AWAITING_DONE} \<subseteq> T"
  shows "post (data_data_irq E i s) (reach e i s0 c T)"
  unfolding data_data_irq_def using assms
  by (auto intro!: keep steps assign_loop_reach data_write_bytes_reach)

lemma deliver_keeps [keep]: "post (data_i2c_deliver E i s) (keeps e i s)"
  unfolding data_i2c_deliver_def by (auto intro!: keep)

lemma data_read_reach:
  "at_state e i s0 c s \<Longrightarrow> {c, SMBUS_STATE_READY_TO_SEND_BYTE, SMBUS_STATE_INITIAL} \<subseteq> T \<Longrightarrow>
   post (data_read_irq E i ev s) (reach e i s0 c T)"
  unfolding data_read_irq_def
  by (auto intro!: at_bind [OF deliver_keeps] keep steps controller_error_reach)

lemma data_done_reach:
  "at_state e i s0 c s \<Longrightarrow> {SMBUS_STATE_AWAITING_DONE, SMBUS_STATE_INITIAL} \<subseteq> T \<Longrightarrow>
   post (data_done_irq E i ev s) (reach e i s0 c T)"
  unfolding data_done_irq_def
  by (auto intro!: at_bind [OF deliver_keeps] keep steps)

lemma AwaitingData_reach:
  "at_state e i s0 SMBUS_STATE_AWAITING_DATA s \<Longrightarrow>
   post (vDefaultSMBusFSMSMBusStateAwaitingData E i ev s)
     (reach e i s0 SMBUS_STATE_AWAITING_DATA (fsm_next SMBUS_STATE_AWAITING_DATA ev))"
  unfolding vDefaultSMBusFSMSMBusStateAwaitingData_def fsm_next_def
  by (rule fsm_row_cases)
    (auto intro!: keep steps data_read_reach data_done_reach data_data_reach)

lemma block_size_reach:
  "at_state e i s0 c s \<Longrightarrow> {c, SMBUS_STATE_AWAITING_DATA, SMBUS_STATE_AWAITING_READ} \<subseteq> T \<Longrightarrow>
   post (block_size_irq E i s) (reach e i s0 c T)"
  unfolding block_size_irq_def Let_def
  by (auto intro!: keep steps at_bind [OF ack_logged_keeps])

lemma AwaitingBlockSize_reach:
  "at_state e i s0 SMBUS_STATE_AWAITING_BLOCK_SIZE s \<Longrightarrow>
   post (vDefaultSMBusFSMSMBusStateAwaitingBlockSize E i ev s)
     (reach e i s0 SMBUS_STATE_AWAITING_BLOCK_SIZE (fsm_next SMBUS_STATE_AWAITING_BLOCK_SIZE ev))"
  unfolding vDefaultSMBusFSMSMBusStateAwaitingBlockSize_def fsm_next_def
  by (rule fsm_row_cases) (auto intro!: keep steps block_size_reach)

section \<open>The controller's handlers\<close>

lemma control_enable_keeps [keep]: "post (control_enable E s) (keeps e i s)"
  unfolding control_enable_def by (rule keep)

lemma send_command_reach:
  "at_state e i s0 c s \<Longrightarrow> {c, n} \<subseteq> T \<Longrightarrow> post (send_command E i n s) (reach e i s0 c T)"
  unfolding send_command_def by (auto intro!: keep steps)

lemma ControllerSendCommand_reach:
  "at_state e i s0 SMBUS_STATE_CONTROLLER_SEND_COMMAND s \<Longrightarrow>
   post (vDefaultSMBusFSMSMBusStateControllerSendCommand E i ev s)
     (reach e i s0 SMBUS_STATE_CONTROLLER_SEND_COMMAND (fsm_next SMBUS_STATE_CONTROLLER_SEND_COMMAND ev))"
  unfolding vDefaultSMBusFSMSMBusStateControllerSendCommand_def fsm_next_def csc_send_next_byte_def
  by (rule fsm_row_cases) (auto intro!: post_if send_command_reach keep steps)

lemma advance_keeps: "post m (keeps e i (advance_send i s)) \<Longrightarrow> post m (keeps e i s)"
  by (erule keep_from) (simp add: advance_send_def)

lemma cwb_fill_keeps [keep]: "post (cwb_fill E i n s) (keeps e i s)"
proof (induction n arbitrary: s)
  case (Suc n)
  then show ?case
    by (auto simp: send_data_byte_def arr_get_def intro!: keep_bindv keep_bind keepv keep advance_keeps [OF Suc.IH])
qed simp

lemma cwb_fill_all_keeps [keep]: "post (cwb_fill_all E i n s) (keeps e i s)"
proof (induction n arbitrary: s)
  case (Suc n)
  then show ?case
    by (auto simp: send_data_byte_def arr_get_def intro!: keep_bindv keepv keep advance_keeps [OF Suc.IH])
qed simp

text \<open>The byte that is sent is in the buffer or the step is undefined.\<close>

lemma send_byte_bind:
  "(\<And>b. post (f b) Q) \<Longrightarrow> post (Option.bind (send_data_byte i s) f) Q"
  by (cases "send_data_byte i s") simp_all

lemma cwb_data_reach:
  assumes "at_state e i s0 c s"
    and "{c, SMBUS_STATE_CONTROLLER_WRITE_BYTE, SMBUS_STATE_CONTROLLER_SEND_READ_START, SMBUS_STATE_AWAITING_DONE} \<subseteq> T"
  shows "post (cwb_data E i s) (reach e i s0 c T)"
  unfolding cwb_data_def cwb_last_then_read_def cwb_last_host_notify_def cwb_last_pec_def cwb_last_stop_def
  using assms
  by (auto intro!: send_byte_bind at_bind [OF cwb_fill_keeps] at_bind [OF control_enable_keeps]
      at_last [OF control_enable_keeps] keep steps)

lemma cwb_arp_reach:
  assumes "at_state e i s0 c s" and "SMBUS_STATE_AWAITING_DONE \<in> T"
  shows "post (cwb_assign_address E i s) (reach e i s0 c T)" "post (cwb_arp_command E i s) (reach e i s0 c T)"
  unfolding cwb_assign_address_def cwb_arp_command_def using assms
  by (auto intro!: at_bind [OF cwb_fill_all_keeps] at_bind [OF control_enable_keeps] keep steps)

lemma ControllerWriteByte_reach:
  "at_state e i s0 SMBUS_STATE_CONTROLLER_WRITE_BYTE s \<Longrightarrow>
   post (vDefaultSMBusFSMSMBusStateControllerWriteByte E i ev s)
     (reach e i s0 SMBUS_STATE_CONTROLLER_WRITE_BYTE (fsm_next SMBUS_STATE_CONTROLLER_WRITE_BYTE ev))"
  unfolding vDefaultSMBusFSMSMBusStateControllerWriteByte_def fsm_next_def
  by (rule fsm_row_cases) (auto intro!: post_if cwb_data_reach cwb_arp_reach unexpected_reach)

lemma ctrl_threshold_keeps [keep]: "post (ctrl_threshold E i s) (keeps e i s)"
  unfolding ctrl_threshold_def by (auto intro!: keep)

lemma read_bytes_keeps [keep]: "post (read_bytes E i n s) (keeps e i s)"
proof (induction n arbitrary: s)
  case (Suc n)
  then show ?case by (auto intro!: keep_bindv keepv keep_upd [OF Suc.IH])
qed simp

lemma csrs_read_reach:
  assumes "at_state e i s0 c s" and "SMBUS_STATE_CONTROLLER_READ_BYTE \<in> T"
  shows "post (csrs_read E i n s) (reach e i s0 c T)"
proof -
  have tail: "post (do {
      s \<leftarrow> (if b s then do {
            s \<leftarrow> read_bytes E i (u s) s;
            (r, s) \<leftarrow> ucSMBusControllerReadDescriptorPEC E s;
            Some s }
          else do {
            s \<leftarrow> read_bytes E i (v s) s;
            (r, s) \<leftarrow> ucSMBusControllerReadDescriptorStop E s;
            Some (upd_inst i (\<lambda>x. x\<lparr>usDescriptorsSent := usDescriptorsSent x + 1\<rparr>) s) });
     s \<leftarrow> control_enable E s;
     Some (vSMBusNextStateDecoder i SMBUS_STATE_CONTROLLER_READ_BYTE s) }) (reach e i s0 c T)"
    if "at_state e i s0 c s" for b u v s
    by (rule at_bind [OF _ that])
      (use assms(2) in \<open>auto intro!: keep_bind keep_bindv keep keepv at_bind [OF control_enable_keeps]\<close>)
  show ?thesis
    unfolding csrs_read_def Let_def using assms by (auto intro!: keep steps tail)
qed

lemma ControllerSendReadStart_reach:
  assumes "at_state e i s0 SMBUS_STATE_CONTROLLER_SEND_READ_START s"
  shows "post (vDefaultSMBusFSMSMBusStateControllerSendReadStart E i ev s)
     (reach e i s0 SMBUS_STATE_CONTROLLER_SEND_READ_START (fsm_next SMBUS_STATE_CONTROLLER_SEND_READ_START ev))"
proof -
  let ?T = "{SMBUS_STATE_CONTROLLER_SEND_READ_START, SMBUS_STATE_CONTROLLER_READ_BLOCK_SIZE,
         SMBUS_STATE_CONTROLLER_READ_BYTE, SMBUS_STATE_CONTROLLER_READ_DONE}"
  have i2c: "post (csrs_i2c E i s) (reach e i s0 SMBUS_STATE_CONTROLLER_SEND_READ_START ?T)"
    unfolding csrs_i2c_def Let_def using assms
    by (auto intro!: at_bind [OF ctrl_threshold_keeps] at_bind [OF control_enable_keeps] keep steps)
  have block: "post (csrs_block E i s) (reach e i s0 SMBUS_STATE_CONTROLLER_SEND_READ_START ?T)"
    unfolding csrs_block_def Let_def using assms by (auto intro!: at_bind [OF control_enable_keeps] keep steps)
  show ?thesis
    unfolding vDefaultSMBusFSMSMBusStateControllerSendReadStart_def fsm_next_def using assms
    by (intro fsm_row_cases) (auto intro!: post_if i2c block csrs_read_reach unexpected_reach split: option.split)
qed

lemma log_dbg_keeps [keep]: "post (log_dbg_states E i l1 l2 s) (keeps e i s)"
  unfolding log_dbg_states_def by (auto intro!: keep_bindv keep_bind keepv keep)

lemma crbs_error_reach:
  assumes "at_state e i s0 c s" and "SMBUS_STATE_INITIAL \<in> T"
  shows "post (crbs_error E i ev s) (reach e i s0 c T)"
  unfolding crbs_error_def
  by (rule at_bind [OF log_dbg_keeps assms(1)], rule post_bind [OF controller_error_reach], assumption, rule assms(2))
    (rule reach_keeps [OF log_dbg_keeps])

lemma reach_keepsv:
  assumes "post m (\<lambda>(v, s'). keeps e i t s')" and "reach e i s0 c T t"
  shows "post (Option.bind m (\<lambda>(v, s'). Some s')) (reach e i s0 c T)"
  by (rule post_bind [OF assms(1)]) (use assms(2) in \<open>auto simp: reach_def intro!: bexI intro: at_keeps\<close>)

lemma crbs_data_reach:
  assumes "at_state e i s0 c s" and T: "{SMBUS_STATE_CONTROLLER_READ_BYTE, SMBUS_STATE_CONTROLLER_READ_DONE} \<subseteq> T"
  shows "post (crbs_data E i s) (reach e i s0 c T)"
proof -
  have pec: "post (let s = vSMBusNextStateDecoder i SMBUS_STATE_CONTROLLER_READ_BYTE s in
      if usExpectedByteCount (inst i s) = 0
      then do { (r, s) \<leftarrow> ucSMBusControllerReadDescriptorPEC E s; Some s }
      else Some s) (reach e i s0 c T)" if "at_state e i s0 c s" for s
    unfolding Let_def using that T by (auto intro!: post_if reach_keepsv [OF keep_quietv [OF descs_quiet(15)]])
  show ?thesis
    unfolding crbs_data_def Let_def using assms
    by (auto intro!: pec [unfolded Let_def] at_bind [OF control_enable_keeps] at_bind [OF ctrl_threshold_keeps] keep steps)
qed

lemma ControllerReadBlockSize_reach:
  "at_state e i s0 SMBUS_STATE_CONTROLLER_READ_BLOCK_SIZE s \<Longrightarrow>
   post (vDefaultSMBusFSMSMBusStateControllerReadBlockSize E i ev s)
     (reach e i s0 SMBUS_STATE_CONTROLLER_READ_BLOCK_SIZE (fsm_next SMBUS_STATE_CONTROLLER_READ_BLOCK_SIZE ev))"
  unfolding vDefaultSMBusFSMSMBusStateControllerReadBlockSize_def fsm_next_def fsm_row_def target_error_def
  by (intro post_if)
    (auto simp: event_group_defs intro!: crbs_error_reach crbs_data_reach keep steps)

lemma read_fill_pec_keeps [keep]: "post (read_fill_pec E i n s) (keeps e i s)"
proof (induction n arbitrary: s)
  case (Suc n)
  then show ?case by (auto intro!: keep_bindv keepv keep_upd [OF Suc.IH])
qed simp

lemma read_fill_stop_keeps [keep]: "post (read_fill_stop E i n s) (keeps e i s)"
proof (induction n arbitrary: s)
  case (Suc n)
  then show ?case by (auto intro!: keep_bindv keepv keep_upd [OF Suc.IH])
qed simp

lemma crb_almost_empty_keeps [keep]: "post (crb_almost_empty E i s) (keeps e i s)"
  unfolding crb_almost_empty_def Let_def by (auto intro!: keep_bind keep_bindv keepv keep)

lemma crb_data_reach:
  assumes "at_state e i s0 c s" and "{c, SMBUS_STATE_CONTROLLER_READ_DONE} \<subseteq> T"
  shows "post (crb_data E i s) (reach e i s0 c T)"
  unfolding crb_data_def Let_def using assms
  by (auto intro!: at_bind [OF receive_all_keeps] keep steps)

lemma ControllerReadByte_reach:
  "at_state e i s0 SMBUS_STATE_CONTROLLER_READ_BYTE s \<Longrightarrow>
   post (vDefaultSMBusFSMSMBusStateControllerReadByte E i ev s)
     (reach e i s0 SMBUS_STATE_CONTROLLER_READ_BYTE (fsm_next SMBUS_STATE_CONTROLLER_READ_BYTE ev))"
  unfolding vDefaultSMBusFSMSMBusStateControllerReadByte_def fsm_next_def
  by (rule fsm_row_cases) (auto intro!: post_if crb_data_reach at_last [OF crb_almost_empty_keeps] unexpected_reach)

lemma ControllerReadPEC_reach:
  "at_state e i s0 SMBUS_STATE_CONTROLLER_READ_PEC s \<Longrightarrow>
   post (vDefaultSMBusFSMSMBusStateControllerReadPEC E i ev s)
     (reach e i s0 SMBUS_STATE_CONTROLLER_READ_PEC (fsm_next SMBUS_STATE_CONTROLLER_READ_PEC ev))"
  unfolding vDefaultSMBusFSMSMBusStateControllerReadPEC_def fsm_next_def
  by (rule fsm_row_cases) (auto intro!: at_bind [OF control_enable_keeps] keep steps)

lemma sent_and_enable_keeps [keep]: "post (sent_and_enable E i r s) (keeps e i s)"
  unfolding sent_and_enable_def by (auto intro: keep_upd [OF control_enable_keeps])

lemma crd_keeps [keep]: "post (crd_data E i s) (keeps e i s)" "post (crd_almost_empty E i s) (keeps e i s)"
  unfolding crd_data_def crd_almost_empty_def crd_i2c_read_def
  by (auto intro!: keep_bind keep_bindv keepv keep)

lemma crd_done_reach:
  assumes "at_state e i s0 c s" and "{c, SMBUS_STATE_INITIAL} \<subseteq> T"
  shows "post (crd_done E i s) (reach e i s0 c T)"
  unfolding crd_done_def Let_def using assms by (auto intro!: keep steps)

lemma ControllerReadDone_reach:
  "at_state e i s0 SMBUS_STATE_CONTROLLER_READ_DONE s \<Longrightarrow>
   post (vDefaultSMBusFSMSMBusStateControllerReadDone E i ev s)
     (reach e i s0 SMBUS_STATE_CONTROLLER_READ_DONE (fsm_next SMBUS_STATE_CONTROLLER_READ_DONE ev))"
  unfolding vDefaultSMBusFSMSMBusStateControllerReadDone_def fsm_next_def
  by (rule fsm_row_cases)
    (auto intro!: post_if at_last [OF crd_keeps(1)] at_last [OF crd_keeps(2)] crd_done_reach unexpected_reach)

section \<open>The dispatch\<close>

text \<open>All handlers but the one that ends a target's transaction leave the other instances alone.\<close>

lemma handler_reach:
  assumes "at_state e i s0 (xState (inst i s)) s"
    and "xState (inst i s) = SMBUS_STATE_AWAITING_DONE \<Longrightarrow> ev = E_TARGET_DONE_IRQ \<Longrightarrow> post (done_target_done E i s)
      (reach e i s0 SMBUS_STATE_AWAITING_DONE {SMBUS_STATE_AWAITING_DONE, SMBUS_STATE_INITIAL})"
  shows "post (fsm_handler (xState (inst i s)) E i ev s)
    (reach e i s0 (xState (inst i s)) (fsm_next (xState (inst i s)) ev))"
  using assms unfolding fsm_handler_def
  by (cases "xState (inst i s)")
    (auto intro!: Initial_reach AwaitingCommandByte_reach AwaitingBlockSize_reach AwaitingData_reach AwaitingRead_reach
      ReadyToSendByte_reach CheckIfPECRequired_reach AwaitingDone_reach ControllerSendCommand_reach
      ControllerSendReadStart_reach ControllerReadBlockSize_reach ControllerReadByte_reach ControllerReadPEC_reach
      ControllerReadDone_reach ControllerWriteByte_reach)

lemma fsm_reach:
  assumes "\<And>s'. at_state e i s (xState (inst i s)) s' \<Longrightarrow> xState (inst i s) = SMBUS_STATE_AWAITING_DONE \<Longrightarrow>
    ev = E_TARGET_DONE_IRQ \<Longrightarrow> post (done_target_done E i s')
      (reach e i s SMBUS_STATE_AWAITING_DONE {SMBUS_STATE_AWAITING_DONE, SMBUS_STATE_INITIAL})"
  shows "post (vSMBusFSM E i ev s) (reach e i s (xState (inst i s)) (fsm_next (xState (inst i s)) ev))"
proof -
  let ?t = "upd_inst i (\<lambda>x. x\<lparr>ucEvent := ev\<rparr>) (vSMBusClearAction i s)"
  have "at_state e i s (xState (inst i s)) ?t"
    by (simp add: vSMBusClearAction_def at_start)
  moreover have "post (fsm_handler (xState (inst i s')) E i ev s')
      (reach e i s (xState (inst i s)) (fsm_next (xState (inst i s)) ev))"
    if "at_state e i s (xState (inst i s)) s'" for s'
  proof -
    have c: "xState (inst i s') = xState (inst i s)" using that by (simp add: at_state_def)
    show ?thesis
      using handler_reach [where s = s' and s0 = s and e = e and i = i and ev = ev and E = E] that assms
      unfolding c by blast
  qed
  ultimately show ?thesis
    unfolding vSMBusFSM_def Let_def by (auto intro!: at_bind [OF log_keeps])
qed

text \<open>
  C8: One event handled by the state machine moves the instance along the transition table:
  whatever the hardware and the callbacks do, a returning \<open>vSMBusFSM\<close> leaves the instance in
  one of the states the table lists for its state and the event.  In particular the three
  warnings keep the state, the twenty-two error events and every event a state does not
  expect lead to the initial state.
\<close>

theorem fsm_transitions:
  "post (vSMBusFSM E i ev s) (\<lambda>s'. xState (inst i s') \<in> fsm_next (xState (inst i s)) ev)"
proof -
  have "post (vSMBusFSM E i ev s) (reach arp_erase i s (xState (inst i s)) (fsm_next (xState (inst i s)) ev))"
    by (rule fsm_reach, rule done_target_done_reach) simp_all
  then show ?thesis by (rule post_weaken) (auto simp: reach_def at_state_def)
qed

text \<open>
  C9: The other instances are not disturbed.  Handling an event of one instance leaves every
  other instance as it is, except when a target's transaction ends, where the ARP commands
  change nothing but the address and the two ARP flags of the others.
\<close>

theorem fsm_isolation:
  "post (vSMBusFSM E i ev s) (\<lambda>s'.
     let view = (if xState (inst i s) = SMBUS_STATE_AWAITING_DONE \<and> ev = E_TARGET_DONE_IRQ then arp_erase else id) in
     (\<lambda>j. view (inst j s'))(i := x) = (\<lambda>j. view (inst j s))(i := x))"
proof (cases "xState (inst i s) = SMBUS_STATE_AWAITING_DONE \<and> ev = E_TARGET_DONE_IRQ")
  case True
  have "post (vSMBusFSM E i ev s) (reach arp_erase i s (xState (inst i s)) (fsm_next (xState (inst i s)) ev))"
    by (rule fsm_reach, rule done_target_done_reach) simp_all
  then show ?thesis
    by (rule post_weaken) (use True in \<open>auto simp: reach_def at_state_def fun_eq_iff\<close>)
next
  case False
  then have "post (vSMBusFSM E i ev s) (reach id i s (xState (inst i s)) (fsm_next (xState (inst i s)) ev))"
    by (intro fsm_reach) simp
  then show ?thesis
    by (rule post_weaken) (use False in \<open>auto simp: reach_def at_state_def fun_eq_iff\<close>)
qed

end
