(* ===== verification/SMBus_FSM_Runs.thy ===== *)
theory SMBus_FSM_Runs
  imports SMBus_FSM_Transitions
begin

text \<open>
  Runs of the state machines of all instances: any sequence of events, each handled by the
  machine of any instance.  Facts that hold in every state of every run.
\<close>

inductive smbus_run :: "'w smbus_env \<Rightarrow> 'w smbus_st \<Rightarrow> 'w smbus_st \<Rightarrow> bool" for E where
  run_start: "smbus_run E s s"
| run_event: "smbus_run E s t \<Longrightarrow> vSMBusFSM E i ev t = Some u \<Longrightarrow> smbus_run E s u"

inductive_cases smbus_runE: "smbus_run E s u"

text \<open>The state of every instance after one event.\<close>

lemma fsm_state_step:
  assumes "vSMBusFSM E i ev s = Some s'"
  shows "xState (inst i s') \<in> fsm_next (xState (inst i s)) ev" and "j \<noteq> i \<Longrightarrow> xState (inst j s') = xState (inst j s)"
    and "log_inv s \<Longrightarrow> log_inv s'"
proof -
  have "reach arp_erase i s (xState (inst i s)) (fsm_next (xState (inst i s)) ev) s'"
    by (rule postD [OF fsm_reach assms], rule done_target_done_reach) simp_all
  then obtain t where t: "t \<in> fsm_next (xState (inst i s)) ev" and a: "at_state arp_erase i s t s'"
    by (auto simp: reach_def)
  from a t show "xState (inst i s') \<in> fsm_next (xState (inst i s)) ev" and "log_inv s \<Longrightarrow> log_inv s'"
    by (auto simp: at_state_def)
  show "j \<noteq> i \<Longrightarrow> xState (inst j s') = xState (inst j s)"
    using a by (auto simp: at_state_def intro: arp_erase_state)
qed

lemma read_pec_not_entered: "c \<noteq> SMBUS_STATE_CONTROLLER_READ_PEC \<Longrightarrow> SMBUS_STATE_CONTROLLER_READ_PEC \<notin> fsm_next c ev"
  by (cases c) (auto simp: fsm_next_def fsm_row_def split: option.splits if_splits)

text \<open>
  C10: In every run that starts with all instances in the initial state and a log index inside
  the log, whatever the events, the hardware and the callbacks do, no instance is ever in the
  state \<open>SMBUS_STATE_CONTROLLER_READ_PEC\<close> (its handler is dead code) and the write index of
  the log stays inside its 5000 entries.
\<close>

theorem smbus_run_safe:
  assumes "smbus_run E s t" and "\<And>i. xState (inst i s) = SMBUS_STATE_INITIAL" and "log_inv s"
  shows "xState (inst i t) \<noteq> SMBUS_STATE_CONTROLLER_READ_PEC \<and> log_inv t"
  using assms
proof (induction arbitrary: i rule: smbus_run.induct)
  case (run_start s)
  then show ?case by simp
next
  case (run_event s t j ev u)
  show ?case
    using run_event.IH [OF run_event.prems, of i] fsm_state_step [OF run_event.hyps(2)] read_pec_not_entered [of "xState (inst j t)" ev]
    by (cases "i = j") auto
qed

lemma warning_runs:
  assumes "log_inv s" and "bus_warning_event ev" and "xState (inst i s) = SMBUS_STATE_INITIAL"
  shows "\<exists>u. vSMBusFSM E i ev s = Some u"
proof -
  let ?t = "upd_inst i (\<lambda>x. x\<lparr>ucEvent := ev\<rparr>) (vSMBusClearAction i s)"
  have L: "log_inv ?t" using assms(1) by (simp add: vSMBusClearAction_def)
  obtain u where u: "vLogAddEntry E SMBUS_LOG_LEVEL_INFO (inst_num i ?t) SMBUS_LOG_EVENT_FSM_EVENT
      (state_num (xState (inst i ?t))) (ucast ev) ?t = Some u" "log_only ?t u" "log_inv u"
    by (rule okayE [OF log_add_okay [OF L]]) blast
  obtain v where v: "dbg E i (ucast ev) 3645 u = Some v" "log_only u v"
    by (rule okayE [OF log_add_okay [OF u(3)]]) blast
  have "xState (inst i v) = SMBUS_STATE_INITIAL"
    using assms(3) by (simp add: log_onlyD(1) [OF v(2)] log_onlyD(1) [OF u(2)] vSMBusClearAction_def)
  then show ?thesis
    using u(1) v(1) assms(2)
    by (simp add: vSMBusFSM_def Let_def fsm_handler_def vDefaultSMBusFSMSMBusStateInitial_def error_cases_def)
qed

theorem smbus_run_safe_witness:
  "\<exists>t. smbus_run memory_env \<lparr>prof = zero_profile, world = (\<lambda>_. 0)\<rparr> t \<and>
     (\<forall>i. xState (inst i t) \<noteq> SMBUS_STATE_CONTROLLER_READ_PEC \<and> log_inv t) \<and>
     vSMBusFSM memory_env 3 E_TARGET_PHY_TEXT_TIMEOUT_ERROR_IRQ \<lparr>prof = zero_profile, world = (\<lambda>_. 0)\<rparr> = Some t"
proof -
  let ?s = "\<lparr>prof = zero_profile, world = (\<lambda>_. 0)\<rparr> :: (u64 \<Rightarrow> u32) smbus_st"
  have L: "log_inv ?s" and I: "xState (inst i ?s) = SMBUS_STATE_INITIAL" for i
    by (simp_all add: log_inv_def zero_profile_def zero_instance_def inst_def)
  obtain t where t: "vSMBusFSM memory_env 3 E_TARGET_PHY_TEXT_TIMEOUT_ERROR_IRQ ?s = Some t"
    using warning_runs [OF L _ I, of E_TARGET_PHY_TEXT_TIMEOUT_ERROR_IRQ memory_env 3]
    by (auto simp: bus_warning_event_def)
  have "smbus_run memory_env ?s t" by (rule run_event [OF run_start t])
  with smbus_run_safe [OF this I L] t show ?thesis by blast
qed

end
