(* ===== verification/SMBus_Driver.thy ===== *)
theory SMBus_Driver
  imports SMBus_FSM_Runs
begin

text \<open>
  The driver's interface (\<open>smbus_driver.c\<close>): the firewall check, the queue handler that feeds
  the state machine, initialisation, the creation and destruction of SMBus instances and I2C
  devices, the start of a controller's transaction, log and statistics.

  The profile is the driver's one static object, so the handle of the caller is a truth
  value (\<open>True\<close> for its address, \<open>False\<close> for \<open>NULL\<close>), and the functions that take the
  profile itself are modelled for a handle that is not \<open>NULL\<close>.  A buffer of the caller is a
  list of its bytes, \<open>None\<close> for \<open>NULL\<close>.  The capability and protocol arguments are values
  of their enumerations.  \<open>F x y\<close> stands for the floating-point term
  \<open>ulSMBusCeil( ( float )x * ( ( float )y / ( float )SMBUS_TBUF_DIVISOR ) )\<close>, its first
  argument in hundredths.  The version numbers of the build are arguments as well.
\<close>

abbreviation (input) SMBUS_INIT_CODE :: u32 where "SMBUS_INIT_CODE \<equiv> 0x7AB3F91D"
abbreviation (input) SMBUS_DEINIT_CODE :: u32 where "SMBUS_DEINIT_CODE \<equiv> 0"
abbreviation (input) SMBUS_MAGIC_NUMBER :: u32 where "SMBUS_MAGIC_NUMBER \<equiv> 0x534D4273"
abbreviation (input) SMBUS_INVALID_ADDRESS_MASK :: u8 where "SMBUS_INVALID_ADDRESS_MASK \<equiv> 0x80"
abbreviation (input) SMBUS_LAST_SMBUS_INSTANCE :: u8 where "SMBUS_LAST_SMBUS_INSTANCE \<equiv> 7"
abbreviation (input) SMBUS_LAST_NON_ARP_SMBUS_INSTANCE :: u8 where "SMBUS_LAST_NON_ARP_SMBUS_INSTANCE \<equiv> 6"
abbreviation (input) SMBUS_UDID_PEC_SUPPORTED_BIT :: u8 where "SMBUS_UDID_PEC_SUPPORTED_BIT \<equiv> 1"
abbreviation (input) SMBUS_LOG_LEVEL_MAX :: SMBUS_LOG_LEVEL where "SMBUS_LOG_LEVEL_MAX \<equiv> 5"
abbreviation (input) SMBUS_SMBCLK_LOW_TIMEOUT_DETECTED :: u32 where "SMBUS_SMBCLK_LOW_TIMEOUT_DETECTED \<equiv> 1"
abbreviation (input) SMBUS_SMBDAT_LOW_TIMEOUT_DETECTED :: u32 where "SMBUS_SMBDAT_LOW_TIMEOUT_DETECTED \<equiv> 1"
abbreviation (input) I2C_READ_DATA_SIZE_MIN :: u16 where "I2C_READ_DATA_SIZE_MIN \<equiv> 1"
abbreviation (input) SMBUS_CONTROLLER_IRQS :: u32 where "SMBUS_CONTROLLER_IRQS \<equiv> 0x0000DFEF"

section \<open>Firewall\<close>

definition firewall_intact :: "SMBus_Instance \<Rightarrow> bool" where
  "firewall_intact x \<longleftrightarrow> ulFirewall1 x = SMBUS_FIREWALL1 \<and> ulFirewall2 x = SMBUS_FIREWALL2 \<and>
     ulFirewall3 x = SMBUS_FIREWALL3"

definition xSMBusFirewallCheck :: "'w smbus_st \<Rightarrow> SMBUS_ERROR_TYPE" where
  "xSMBusFirewallCheck s =
     (if list_all (\<lambda>i. firewall_intact (inst i s)) [0..<SMBUS_NUM_INSTANCES] then SMBUS_SUCCESS else SMBUS_ERROR)"

text \<open>The error line that most functions log; the last number is the source line.\<close>

definition drv_error :: "'w smbus_env \<Rightarrow> u32 \<Rightarrow> 'w smbus_st \<Rightarrow> 'w smbus_st option" where
  "drv_error E line s =
     vLogAddEntry E SMBUS_LOG_LEVEL_ERROR SMBUS_INSTANCE_UNDETERMINED SMBUS_LOG_EVENT_ERROR 1 line s"

text \<open>A function that refuses to work, with the answer \<open>r\<close>, when the firewall is broken.\<close>

definition guarded ::
  "'w smbus_env \<Rightarrow> u32 \<Rightarrow> 'r \<Rightarrow> 'w smbus_st \<Rightarrow> ('r \<times> 'w smbus_st) option \<Rightarrow> ('r \<times> 'w smbus_st) option" where
  "guarded E line r s act =
     (if xSMBusFirewallCheck s \<noteq> SMBUS_SUCCESS then do { s \<leftarrow> drv_error E line s; Some (r, s) } else act)"

section \<open>The event queues\<close>

text \<open>The queue of one instance: read an event, handle it, until there is none.\<close>

partial_function (option) handle_queue :: "'w smbus_env \<Rightarrow> nat \<Rightarrow> 'w smbus_st \<Rightarrow> 'w smbus_st option" where
  "handle_queue E i s = do {
     (res, ucAnyEvent, pos, buf) \<leftarrow> ucEventBufferTryRead (xEventSrcCircularBuf (inst i s)) 0;
     let s = upd_inst i (\<lambda>x. x\<lparr>xEventSrcCircularBuf := buf\<rparr>) s;
     if res \<noteq> 0 then do { s \<leftarrow> vSMBusFSM E i ucAnyEvent s; handle_queue E i s } else Some s }"

fun handle_queues :: "'w smbus_env \<Rightarrow> nat list \<Rightarrow> 'w smbus_st \<Rightarrow> 'w smbus_st option" where
  "handle_queues E [] s = Some s"
| "handle_queues E (i # is) s = do {
     s \<leftarrow> (if ucInstanceInUse (inst i s) = SMBUS_TRUE then handle_queue E i s else Some s);
     handle_queues E is s }"

definition vSMBusEventQueueHandle :: "'w smbus_env \<Rightarrow> 'w smbus_st \<Rightarrow> 'w smbus_st option" where
  "vSMBusEventQueueHandle E s = handle_queues E [0..<SMBUS_NUM_INSTANCES] s"

section \<open>Version and interrupts\<close>

record SMBus_Version =
  usIpVerMajor :: u16
  usIpVerMinor :: u16
  ucSwVerMajor :: u8
  ucSwVerMinor :: u8
  ucSwVerPatch :: u8
  ucSwDevBuild :: u8
  ucSwTestBuild :: u8

text \<open>The version of the build, then the call; the handle and the output may be \<open>NULL\<close>.\<close>

definition xSMBusGetVersion ::
  "u8 \<times> u8 \<times> u8 \<times> u8 \<times> nat \<Rightarrow> 'w smbus_env \<Rightarrow> bool \<Rightarrow> bool \<Rightarrow> 'w smbus_st \<Rightarrow>
   (SMBUS_ERROR_TYPE \<times> SMBus_Version option \<times> 'w smbus_st) option" where
  "xSMBusGetVersion build E profile out s =
     (let (major, minor, patch, commits, status) = build;
          v = \<lparr>usIpVerMajor = 0, usIpVerMinor = 0, ucSwVerMajor = major, ucSwVerMinor = minor,
               ucSwVerPatch = patch, ucSwDevBuild = commits, ucSwTestBuild = (if status = 0 then 0 else 1)\<rparr>
      in if \<not> out then Some (SMBUS_ERROR, None, s)
      else if \<not> profile then Some (SMBUS_ERROR, Some v, s)
      else if xSMBusFirewallCheck s \<noteq> SMBUS_SUCCESS then do {
        s \<leftarrow> drv_error E 132 s;
        Some (SMBUS_ERROR, Some v, s) }
      else do {
        (ip, s) \<leftarrow> ulSMBusHWReadIPVersion E s;
        Some (SMBUS_SUCCESS,
              Some (v\<lparr>usIpVerMajor := ucast (drop_bit 16 (ip AND 0xFFFF0000)), usIpVerMinor := ucast (ip AND 0xFFFF)\<rparr>), s) })"

definition xSMBusInterruptDisableAndClearInterrupts ::
  "'w smbus_env \<Rightarrow> 'w smbus_st \<Rightarrow> (SMBUS_ERROR_TYPE \<times> 'w smbus_st) option" where
  "xSMBusInterruptDisableAndClearInterrupts E s = guarded E 168 SMBUS_ERROR s (do {
     s \<leftarrow> vSMBusHWWriteIRQGIEEnable E 0 s;
     s \<leftarrow> vSMBusHWWriteIRQIER E 0 s;
     s \<leftarrow> vSMBusHWWriteERRIRQIER E 0 s;
     s \<leftarrow> vSMBusHWWriteIRQISR E 0x0000FFFF s;
     s \<leftarrow> vSMBusHWWriteERRIRQISR E 0x000FFFFF s;
     Some (SMBUS_SUCCESS, s) })"

definition xSMBusInterruptEnableInterrupts ::
  "'w smbus_env \<Rightarrow> 'w smbus_st \<Rightarrow> (SMBUS_ERROR_TYPE \<times> 'w smbus_st) option" where
  "xSMBusInterruptEnableInterrupts E s = guarded E 200 SMBUS_ERROR s (do {
     s \<leftarrow> vSMBusHWWriteIRQIER E SMBUS_CONTROLLER_IRQS s;
     s \<leftarrow> vSMBusHWWriteERRIRQIER E 0x000FFFFF s;
     s \<leftarrow> vSMBusHWWriteIRQGIEEnable E 1 s;
     Some (SMBUS_SUCCESS, s) })"

section \<open>Initialisation\<close>

datatype SMBUS_FREQ_CLASS = SMBUS_FREQ_100KHZ | SMBUS_FREQ_400KHZ | SMBUS_FREQ_1MHZ | SMBUS_FREQ_MAX

text \<open>
  The timing constants in hundredths and whether the fixed latency is subtracted: bus free
  time, target data set-up and hold, controller data hold, start hold and set-up, stop set-up,
  clock low and high.
\<close>

fun timing :: "SMBUS_FREQ_CLASS \<Rightarrow> (nat \<times> bool) list" where
  "timing SMBUS_FREQ_100KHZ = [(47000, False), (12500, False), (3300, True), (3300, True), (44000, True),
     (51700, True), (44000, True), (51700, True), (44000, True)]"
| "timing SMBUS_FREQ_400KHZ = [(13000, False), (4000, False), (11, False), (11, False), (6600, True),
     (6600, True), (6600, True), (14300, True), (6600, True)]"
| "timing SMBUS_FREQ_1MHZ = [(5000, False), (1700, False), (11, False), (11, False), (2860, True),
     (2860, True), (2860, True), (5500, True), (2860, True)]"
| "timing SMBUS_FREQ_MAX = []"

definition freq_value :: "(nat \<Rightarrow> u32 \<Rightarrow> u32) \<Rightarrow> u32 \<Rightarrow> u32 \<Rightarrow> nat \<times> bool \<Rightarrow> u32" where
  "freq_value F ulAXIClockFrequency ulConstant t =
     F (fst t) ulAXIClockFrequency - (if snd t then ulConstant else 1)"

definition timing_writes :: "('w smbus_env \<Rightarrow> u32 \<Rightarrow> 'w smbus_st \<Rightarrow> 'w smbus_st option) list" where
  "timing_writes = [vSMBusHWWritePHYBusFreetime, vSMBusHWWritePHYTgtDataSetupTgtDataSetup,
     vSMBusHWWritePHYTgtDataHold, vSMBusHWWritePHYCtrlDataHold, vSMBusHWWritePHYCtrlStartHold,
     vSMBusHWWritePHYCtrlStartSetup, vSMBusHWWritePHYCtrlStopSetup, vSMBusHWWritePHYCtrlClkTLow,
     vSMBusHWWritePHYCtrlClkTHigh]"

text \<open>The values logged beforehand, with their source lines.\<close>

definition timing_log :: "((nat \<times> bool) \<times> u32) list" where
  "timing_log = [((47000, False), 274), ((13000, False), 276), ((5000, False), 278),
     ((12500, False), 281), ((4000, False), 283), ((1700, False), 285),
     ((3300, True), 288), ((11, False), 290), ((11, False), 292),
     ((3300, True), 295), ((11, False), 297), ((11, False), 299),
     ((44000, True), 302), ((6600, True), 304), ((2860, True), 306),
     ((51700, True), 309), ((6600, True), 311), ((2860, True), 313),
     ((44000, True), 316), ((6600, True), 318), ((2860, True), 320),
     ((51700, True), 323), ((14300, True), 325), ((5500, True), 327),
     ((44000, True), 330), ((6600, True), 332), ((2860, True), 334)]"

definition drv_info :: "'w smbus_env \<Rightarrow> u32 \<Rightarrow> u32 \<Rightarrow> 'w smbus_st \<Rightarrow> 'w smbus_st option" where
  "drv_info E v line s =
     vLogAddEntry E SMBUS_LOG_LEVEL_INFO SMBUS_INSTANCE_UNDETERMINED SMBUS_LOG_EVENT_DEBUG v line s"

fun log_timing :: "'w smbus_env \<Rightarrow> (nat \<times> bool \<Rightarrow> u32) \<Rightarrow> ((nat \<times> bool) \<times> u32) list \<Rightarrow> 'w smbus_st \<Rightarrow> 'w smbus_st option" where
  "log_timing E val [] s = Some s"
| "log_timing E val ((t, line) # ts) s = do { s \<leftarrow> drv_info E (val t) line s; log_timing E val ts s }"

fun write_timing :: "'w smbus_env \<Rightarrow> (('w smbus_env \<Rightarrow> u32 \<Rightarrow> 'w smbus_st \<Rightarrow> 'w smbus_st option) \<times> u32) list \<Rightarrow>
    'w smbus_st \<Rightarrow> 'w smbus_st option" where
  "write_timing E [] s = Some s"
| "write_timing E ((wr, v) # ws) s = do { s \<leftarrow> wr E v s; write_timing E ws s }"

text \<open>The loop that clears the statistics of an instance.\<close>

definition clear_stats :: "SMBus_Instance \<Rightarrow> SMBus_Instance" where
  "clear_stats x = x\<lparr>ulMessagesComplete := (\<lambda>j. if j < 23 then 0 else ulMessagesComplete x j),
     ulMessagesInitiated := (\<lambda>j. if j < 23 then 0 else ulMessagesInitiated x j)\<rparr>"

text \<open>The event queue of an instance, emptied.\<close>

definition empty_queue :: "SMBus_Instance \<Rightarrow> SMBus_Instance option" where
  "empty_queue x = do {
     buf \<leftarrow> vEventBufferInitialize (xEventSrcCircularBuf x) (pxEventBuf (xEventSrcCircularBuf x)) SMBUS_MAX_EVENT_ELEMENTS;
     Some (x\<lparr>xEventSrcCircularBuf := buf\<rparr>) }"

definition edit_inst :: "nat \<Rightarrow> (SMBus_Instance \<Rightarrow> SMBus_Instance option) \<Rightarrow> 'w smbus_st \<Rightarrow> 'w smbus_st option" where
  "edit_inst i f s = map_option (\<lambda>x. upd_inst i (\<lambda>_. x) s) (f (inst i s))"

definition init_instance :: "SMBus_Instance \<Rightarrow> SMBus_Instance option" where
  "init_instance x = map_option clear_stats (empty_queue (x\<lparr>
     ulFirewall1 := SMBUS_FIREWALL1, ulFirewall2 := SMBUS_FIREWALL2, ulFirewall3 := SMBUS_FIREWALL3,
     ucInstanceInUse := SMBUS_FALSE, ucSMBusAddr := 0, pFnGetProtocol := None, pFnGetData := None,
     pFnWriteData := None, pFnAnnounceResult := None, pFnArpAddrChange := None, pFnBusError := None,
     pFnBusWarning := None, ucPECRequired := SMBUS_FALSE, xARPCapability := SMBUS_ARP_CAPABILITY_UNKNOWN,
     ucARFlag := SMBUS_FALSE, ucAVFlag := SMBUS_FALSE, xProtocol := SMBUS_PROTOCOL_NONE,
     ucThisInstanceNum := SMBUS_INVALID_INSTANCE, ucUDIDMatchedInstance := SMBUS_INVALID_INSTANCE\<rparr>))"

fun init_instances :: "nat list \<Rightarrow> 'w smbus_st \<Rightarrow> 'w smbus_st option" where
  "init_instances [] s = Some s"
| "init_instances (i # is) s = do { s \<leftarrow> edit_inst i init_instance s; init_instances is s }"

text \<open>The fixed latency of the controller's input: seven cycles, one more, and the glitch filter.\<close>

definition init_constant :: "'w smbus_env \<Rightarrow> 'w smbus_st \<Rightarrow> (u32 \<times> 'w smbus_st) option" where
  "init_constant E s = do {
     (enabled, s) \<leftarrow> ulSMBusHWReadPHYFilterControlEnable E s;
     if enabled = 1 then do {
       (duration, s) \<leftarrow> ulSMBusHWReadPHYFilterControlDuration E s;
       Some ((duration + 1) + (7 + 1), s) }
     else Some (7 + 1, s) }"

definition init_hardware ::
  "(nat \<Rightarrow> u32 \<Rightarrow> u32) \<Rightarrow> 'w smbus_env \<Rightarrow> SMBUS_FREQ_CLASS \<Rightarrow> 'w smbus_st \<Rightarrow> 'w smbus_st option" where
  "init_hardware F E xFrequencyClass s = do {
     (ulAXIClockFrequency, s) \<leftarrow> ulSMBusHWReadBuildConfig0 E s;
     (ulConstant, s) \<leftarrow> init_constant E s;
     let val = freq_value F ulAXIClockFrequency ulConstant;
     s \<leftarrow> log_timing E val timing_log s;
     write_timing E (zip timing_writes (map val (timing xFrequencyClass))) s }"

definition init_software :: "'w smbus_env \<Rightarrow> 'w smbus_st \<Rightarrow> 'w smbus_st option" where
  "init_software E s = do {
     (c0, s) \<leftarrow> ulSMBusHWReadBuildConfig0 E s;
     s \<leftarrow> drv_info E c0 410 s;
     (c1, s) \<leftarrow> ulSMBusHWReadBuildConfig1 E s;
     s \<leftarrow> drv_info E c1 413 s;
     let s = upd_prof (\<lambda>p. p\<lparr>ucInstanceInPlay := SMBUS_INVALID_INSTANCE, ulTransactionID := 0\<rparr>) s;
     s \<leftarrow> init_instances [0..<SMBUS_NUM_INSTANCES] s;
     s \<leftarrow> vSMBusHWWriteCtrlDescFifoReset E 1 s;
     s \<leftarrow> vSMBusHWWriteTgtRxFifoReset E 1 s;
     vSMBusHWWriteCtrlRxFifoReset E 1 s }"

text \<open>
  The result carries the handle after the call.  The last branch of the switch over the
  frequency class is not reachable past the guard.
\<close>

definition xInitSMBus ::
  "(nat \<Rightarrow> u32 \<Rightarrow> u32) \<Rightarrow> 'w smbus_env \<Rightarrow> bool option \<Rightarrow> SMBUS_FREQ_CLASS \<Rightarrow> u64 \<Rightarrow> SMBUS_LOG_LEVEL \<Rightarrow> nat option \<Rightarrow>
   'w smbus_st \<Rightarrow> (SMBUS_ERROR_TYPE \<times> bool option \<times> 'w smbus_st) option" where
  "xInitSMBus F E handle xFrequencyClass base level ticks s =
     (if handle = Some False \<and> base \<noteq> 0 \<and> xFrequencyClass \<noteq> SMBUS_FREQ_MAX \<and> level < SMBUS_LOG_LEVEL_MAX then
        (if ulInitialize (prof s) \<noteq> SMBUS_INIT_CODE then do {
           let s = upd_prof (\<lambda>p. (vLogInitialize p)\<lparr>pFnReadTicks := ticks, pvBaseAddr := base, xLogLevel := level\<rparr>) s;
           (version, s) \<leftarrow> ulSMBusHWReadIPVersion E s;
           s \<leftarrow> drv_info E version 255 s;
           (magic, s) \<leftarrow> ulSMBusHWReadIPMagicNum E s;
           if magic = SMBUS_MAGIC_NUMBER then do {
             s \<leftarrow> init_hardware F E xFrequencyClass s;
             s \<leftarrow> init_software E s;
             Some (SMBUS_SUCCESS, Some True, upd_prof (\<lambda>p. p\<lparr>ulInitialize := SMBUS_INIT_CODE\<rparr>) s) }
           else Some (SMBUS_ERROR, Some True, s) }
         else Some (SMBUS_ERROR, Some True, s))
      else Some (SMBUS_ERROR, handle, s))"

definition xDeinitSMBus ::
  "'w smbus_env \<Rightarrow> bool option \<Rightarrow> 'w smbus_st \<Rightarrow> (SMBUS_ERROR_TYPE \<times> bool option \<times> 'w smbus_st) option" where
  "xDeinitSMBus E handle s =
     (if handle = Some True then
        (if xSMBusFirewallCheck s \<noteq> SMBUS_SUCCESS then do {
           s \<leftarrow> drv_error E 493 s;
           Some (SMBUS_ERROR, handle, s) }
         else if list_ex (\<lambda>i. ucInstanceInUse (inst i s) = SMBUS_TRUE) [0..<SMBUS_NUM_INSTANCES]
         then Some (SMBUS_ERROR, handle, s)
         else do {
           (r, s) \<leftarrow> xSMBusInterruptDisableAndClearInterrupts E s;
           Some (SMBUS_SUCCESS, Some False,
                 upd_prof (\<lambda>p. p\<lparr>pvBaseAddr := 0, pFnReadTicks := None, ulInitialize := SMBUS_DEINIT_CODE\<rparr>) s) })
      else Some (SMBUS_ERROR, handle, s))"

end
