(* ===== verification/SMBus_Devices.thy ===== *)
theory SMBus_Devices
  imports SMBus_Driver
begin

text \<open>
  The creation and destruction of SMBus instances and I2C devices (\<open>smbus_driver.c\<close>), and the
  invariant of the instance table that they keep.

  The table has seven entries for devices and one, the last, for the address resolution
  protocol (ARP), which comes into use with the first device that takes part in it.
\<close>

section \<open>SMBus instances\<close>

definition address_type :: "(nat \<Rightarrow> u8) \<Rightarrow> u8" where
  "address_type udid = udid SMBUS_UDID_DEVICE_CAPABILITIES_BYTE AND SMBUS_UDID_ADDRESS_TYPE_MASK"

text \<open>The checks on the arguments before an instance is added.\<close>

definition create_allowed :: "u8 \<Rightarrow> (nat \<Rightarrow> u8) \<Rightarrow> SMBUS_ARP_CAPABILITY \<Rightarrow> bool" where
  "create_allowed addr udid cap \<longleftrightarrow>
     \<not> (cap = SMBUS_ARP_CAPABILITY_UNKNOWN) \<and>
     \<not> (SMBUS_INVALID_ADDRESS_MASK AND addr \<noteq> 0 \<and> cap = SMBUS_ARP_CAPABLE \<and>
        address_type udid \<noteq> SMBUS_UDID_DYNAMIC_AND_PERSISTENT) \<and>
     \<not> (cap = SMBUS_ARP_CAPABLE \<and> address_type udid = SMBUS_UDID_FIXED_ADDRESS)"

definition address_free :: "u8 \<Rightarrow> 'w smbus_st \<Rightarrow> bool" where
  "address_free a s \<longleftrightarrow> list_all (\<lambda>i. \<not> (ucInstanceInUse (inst i s) = SMBUS_TRUE \<and> ucSMBusAddr (inst i s) = a))
     [0..<SMBUS_NUM_NON_ARP_INSTANCES]"

text \<open>The first entry that is not in use.\<close>

definition free_entry :: "'w smbus_st \<Rightarrow> nat option" where
  "free_entry s = find (\<lambda>i. ucInstanceInUse (inst i s) = SMBUS_FALSE) [0..<SMBUS_NUM_NON_ARP_INSTANCES]"

record smbus_callbacks =
  cb_GetProtocol :: "nat option"
  cb_GetData :: "nat option"
  cb_WriteData :: "nat option"
  cb_AnnounceResult :: "nat option"
  cb_ArpAddrChange :: "nat option"
  cb_BusError :: "nat option"
  cb_BusWarning :: "nat option"

definition new_av_flag :: "u8 \<Rightarrow> (nat \<Rightarrow> u8) \<Rightarrow> SMBUS_ARP_CAPABILITY \<Rightarrow> u8" where
  "new_av_flag addr udid cap =
     (if cap = SMBUS_ARP_CAPABLE then
        (if address_type udid = SMBUS_UDID_DYNAMIC_AND_PERSISTENT then
           (if SMBUS_INVALID_ADDRESS_MASK AND addr \<noteq> 0 \<or> addr = 0 then SMBUS_FALSE else SMBUS_TRUE)
         else SMBUS_FALSE)
      else SMBUS_TRUE)"

definition new_instance ::
  "nat \<Rightarrow> u8 \<Rightarrow> (nat \<Rightarrow> u8) \<Rightarrow> SMBUS_ARP_CAPABILITY \<Rightarrow> smbus_callbacks \<Rightarrow> u8 \<Rightarrow> SMBus_Instance \<Rightarrow> SMBus_Instance" where
  "new_instance i addr udid cap cb simple x = x\<lparr>
     ucSMBusAddr := addr, pFnGetProtocol := cb_GetProtocol cb, pFnGetData := cb_GetData cb,
     pFnWriteData := cb_WriteData cb, pFnAnnounceResult := cb_AnnounceResult cb,
     pFnArpAddrChange := cb_ArpAddrChange cb, pFnI2CGetData := None, pFnI2CWriteData := None,
     pFnI2CAnnounceResult := None, pFnBusError := cb_BusError cb, pFnBusWarning := cb_BusWarning cb,
     ucInstanceInUse := SMBUS_TRUE, ucTriggerFSM := SMBUS_FALSE, xARPCapability := cap,
     ucARFlag := SMBUS_FALSE, ulI2CDevice := 0, ucFifoEmptyWhileInDoneCount := 0,
     ucAVFlag := new_av_flag addr udid cap, ucNewDeviceSlaveAddr := 0, ucNackSent := SMBUS_FALSE,
     ucSimpleDevice := simple, ucThisInstanceNum := of_nat i,
     ucUDID := (\<lambda>j. if j < SMBUS_UDID_LENGTH then udid j else ucUDID x j),
     ucPECRequired := udid SMBUS_UDID_DEVICE_CAPABILITIES_BYTE AND SMBUS_UDID_PEC_SUPPORTED_BIT\<rparr>"

definition new_arp_instance :: "SMBus_Instance \<Rightarrow> SMBus_Instance" where
  "new_arp_instance x = x\<lparr>ucInstanceInUse := SMBUS_TRUE, ucSMBusAddr := SMBUS_DEVICE_DEFAULT_ARP_ADDRESS,
     ucPECRequired := SMBUS_TRUE, ucThisInstanceNum := of_nat SMBUS_ARP_INSTANCE_ID\<rparr>"

definition add_arp_instance :: "'w smbus_env \<Rightarrow> SMBUS_ARP_CAPABILITY \<Rightarrow> 'w smbus_st \<Rightarrow> 'w smbus_st option" where
  "add_arp_instance E cap s =
     (if ucInstanceInUse (inst SMBUS_ARP_INSTANCE_ID s) = SMBUS_FALSE \<and> cap \<noteq> SMBUS_ARP_NON_ARP_CAPABLE then do {
        let s = upd_inst SMBUS_ARP_INSTANCE_ID new_arp_instance s;
        s \<leftarrow> vSMBusHWWriteTgtControlAddress E (of_nat SMBUS_ARP_INSTANCE_ID) (ucast SMBUS_DEVICE_DEFAULT_ARP_ADDRESS) s;
        vSMBusHWWriteTgtControlEnable E (of_nat SMBUS_ARP_INSTANCE_ID) 1 s }
      else Some s)"

definition add_instance ::
  "'w smbus_env \<Rightarrow> nat \<Rightarrow> u8 \<Rightarrow> (nat \<Rightarrow> u8) \<Rightarrow> SMBUS_ARP_CAPABILITY \<Rightarrow> smbus_callbacks \<Rightarrow> u8 \<Rightarrow> 'w smbus_st \<Rightarrow>
   'w smbus_st option" where
  "add_instance E i addr udid cap cb simple s = do {
     let s = upd_inst i (new_instance i addr udid cap cb simple) s;
     s \<leftarrow> vSMBusHWWriteTgtControlAddress E (of_nat i) (ucast addr) s;
     s \<leftarrow> (if xARPCapability (inst i s) \<noteq> SMBUS_ARP_CAPABLE
           then vSMBusHWWriteTgtControlEnable E (of_nat i) 1 s else Some s);
     add_arp_instance E cap s }"

definition ucCreateSMBusInstance ::
  "'w smbus_env \<Rightarrow> u8 \<Rightarrow> (nat \<Rightarrow> u8) \<Rightarrow> SMBUS_ARP_CAPABILITY \<Rightarrow> smbus_callbacks \<Rightarrow> u8 \<Rightarrow> 'w smbus_st \<Rightarrow>
   (u8 \<times> 'w smbus_st) option" where
  "ucCreateSMBusInstance E addr udid cap cb simple s =
     (if (cb_GetProtocol cb \<noteq> None \<or> simple = SMBUS_TRUE) \<and> cb_GetData cb \<noteq> None \<and>
         cb_WriteData cb \<noteq> None \<and> cb_AnnounceResult cb \<noteq> None
      then guarded E 558 SMBUS_INVALID_INSTANCE s
        (if create_allowed addr udid cap \<and> (cap = SMBUS_ARP_CAPABLE \<or> address_free addr s)
         then (case free_entry s of
             None \<Rightarrow> Some (SMBUS_INVALID_INSTANCE, s)
           | Some i \<Rightarrow> do {
               s \<leftarrow> add_instance E i addr udid cap cb simple s;
               Some (of_nat i, s) })
         else Some (SMBUS_INVALID_INSTANCE, s))
      else Some (SMBUS_INVALID_INSTANCE, s))"

section \<open>Destroying an instance\<close>

definition old_instance :: "SMBus_Instance \<Rightarrow> SMBus_Instance option" where
  "old_instance x = map_option clear_stats (empty_queue (x\<lparr>
     ulFirewall1 := SMBUS_FIREWALL1, ulFirewall2 := SMBUS_FIREWALL2, ulFirewall3 := SMBUS_FIREWALL3,
     ucInstanceInUse := SMBUS_FALSE, ucSMBusAddr := 0, pFnGetProtocol := None, pFnGetData := None,
     pFnWriteData := None, pFnAnnounceResult := None, pFnArpAddrChange := None, pFnBusError := None,
     pFnBusWarning := None, ucPECRequired := SMBUS_FALSE, xARPCapability := SMBUS_ARP_CAPABILITY_UNKNOWN,
     ucARFlag := SMBUS_FALSE, ucAVFlag := SMBUS_FALSE, xProtocol := SMBUS_PROTOCOL_NONE,
     ucThisInstanceNum := SMBUS_INVALID_INSTANCE\<rparr>))"

definition old_arp_instance :: "SMBus_Instance \<Rightarrow> SMBus_Instance option" where
  "old_arp_instance x = map_option clear_stats (empty_queue (x\<lparr>
     ulFirewall1 := SMBUS_FIREWALL1, ulFirewall2 := SMBUS_FIREWALL2, ulFirewall3 := SMBUS_FIREWALL3,
     ucInstanceInUse := SMBUS_FALSE, ucSMBusAddr := 0, pFnGetProtocol := None, pFnGetData := None,
     ucPECRequired := SMBUS_FALSE, xARPCapability := SMBUS_ARP_CAPABILITY_UNKNOWN,
     ucARFlag := SMBUS_FALSE, ucAVFlag := SMBUS_FALSE, xProtocol := SMBUS_PROTOCOL_NONE,
     ucThisInstanceNum := SMBUS_INVALID_INSTANCE\<rparr>))"

text \<open>A target address is switched off, then set to 0.\<close>

definition release_address :: "'w smbus_env \<Rightarrow> u8 \<Rightarrow> 'w smbus_st \<Rightarrow> 'w smbus_st option" where
  "release_address E i s = do {
     s \<leftarrow> vSMBusHWWriteTgtControlEnable E i 0 s;
     vSMBusHWWriteTgtControlAddress E i 0 s }"

definition arp_needed :: "'w smbus_st \<Rightarrow> bool" where
  "arp_needed s \<longleftrightarrow> list_ex (\<lambda>i. ucInstanceInUse (inst i s) = SMBUS_TRUE \<and>
     xARPCapability (inst i s) \<noteq> SMBUS_ARP_NON_ARP_CAPABLE) [0..<SMBUS_NUM_NON_ARP_INSTANCES]"

definition xDestroySMBusInstance ::
  "'w smbus_env \<Rightarrow> u8 \<Rightarrow> 'w smbus_st \<Rightarrow> (SMBUS_ERROR_TYPE \<times> 'w smbus_st) option" where
  "xDestroySMBusInstance E ucSMBusInstanceID s =
     (let i = unat ucSMBusInstanceID in
      if ucSMBusInstanceID \<le> SMBUS_LAST_NON_ARP_SMBUS_INSTANCE
      then guarded E 723 SMBUS_ERROR s
        (if ucInstanceInUse (inst i s) = SMBUS_TRUE \<and> xState (inst i s) = SMBUS_STATE_INITIAL then do {
           s \<leftarrow> release_address E ucSMBusInstanceID s;
           s \<leftarrow> edit_inst i old_instance s;
           s \<leftarrow> (if \<not> arp_needed s then do {
                    s \<leftarrow> release_address E (of_nat SMBUS_ARP_INSTANCE_ID) s;
                    edit_inst SMBUS_ARP_INSTANCE_ID old_arp_instance s }
                 else Some s);
           Some (SMBUS_SUCCESS, s) }
         else Some (SMBUS_ERROR, s))
      else Some (SMBUS_ERROR, s))"

section \<open>I2C devices\<close>

record i2c_callbacks =
  cb_I2CGetData :: "nat option"
  cb_I2CWriteData :: "nat option"
  cb_I2CAnnounceResult :: "nat option"
  cb_I2CBusError :: "nat option"
  cb_I2CBusWarning :: "nat option"

definition new_device :: "nat \<Rightarrow> u8 \<Rightarrow> i2c_callbacks \<Rightarrow> SMBus_Instance \<Rightarrow> SMBus_Instance" where
  "new_device i ucAddr cb x = x\<lparr>ucSMBusAddr := ucAddr, pFnGetProtocol := None, pFnGetData := None,
     pFnWriteData := None, pFnAnnounceResult := None, pFnArpAddrChange := None,
     pFnI2CGetData := cb_I2CGetData cb, pFnI2CWriteData := cb_I2CWriteData cb,
     pFnI2CAnnounceResult := cb_I2CAnnounceResult cb, pFnBusError := cb_I2CBusError cb,
     pFnBusWarning := cb_I2CBusWarning cb, ucInstanceInUse := SMBUS_TRUE, ucTriggerFSM := SMBUS_FALSE,
     ulI2CDevice := 1, ucNewDeviceSlaveAddr := 0, ucNackSent := SMBUS_FALSE, ucSimpleDevice := SMBUS_FALSE,
     ucThisInstanceNum := of_nat i, ucPECRequired := SMBUS_FALSE\<rparr>"

text \<open>A broken firewall is logged; the address is still checked, with the same answer.\<close>

definition ucI2CCreateDevice :: "'w smbus_env \<Rightarrow> u8 \<Rightarrow> i2c_callbacks \<Rightarrow> 'w smbus_st \<Rightarrow> (u8 \<times> 'w smbus_st) option" where
  "ucI2CCreateDevice E ucAddr cb s =
     (if cb_I2CGetData cb \<noteq> None \<and> cb_I2CWriteData cb \<noteq> None \<and> cb_I2CAnnounceResult cb \<noteq> None
      then guarded E 1205 SMBUS_INVALID_INSTANCE s
        (if \<not> (SMBUS_INVALID_ADDRESS_MASK AND ucAddr \<noteq> 0) \<and> address_free ucAddr s
         then (case free_entry s of
             None \<Rightarrow> Some (SMBUS_INVALID_INSTANCE, s)
           | Some i \<Rightarrow> do {
               let s = upd_inst i (new_device i ucAddr cb) s;
               s \<leftarrow> vSMBusHWWriteTgtControlAddress E (of_nat i) (ucast ucAddr) s;
               s \<leftarrow> vSMBusHWWriteTgtControlEnable E (of_nat i) 1 s;
               Some (of_nat i, s) })
         else Some (SMBUS_INVALID_INSTANCE, s))
      else Some (SMBUS_INVALID_INSTANCE, s))"

definition old_device :: "SMBus_Instance \<Rightarrow> SMBus_Instance option" where
  "old_device x = map_option clear_stats (empty_queue (x\<lparr>
     ulFirewall1 := SMBUS_FIREWALL1, ulFirewall2 := SMBUS_FIREWALL2, ulFirewall3 := SMBUS_FIREWALL3,
     ucInstanceInUse := SMBUS_FALSE, ucSMBusAddr := 0, pFnI2CGetData := None, pFnI2CWriteData := None,
     pFnI2CAnnounceResult := None, pFnBusError := None, pFnBusWarning := None, ucPECRequired := SMBUS_FALSE,
     xARPCapability := SMBUS_ARP_CAPABILITY_UNKNOWN, ucARFlag := SMBUS_FALSE, ucAVFlag := SMBUS_FALSE,
     xProtocol := SMBUS_PROTOCOL_NONE, ucThisInstanceNum := SMBUS_INVALID_INSTANCE, ulI2CDevice := 0\<rparr>))"

definition ucI2CDestroyDevice ::
  "'w smbus_env \<Rightarrow> u8 \<Rightarrow> 'w smbus_st \<Rightarrow> (SMBUS_ERROR_TYPE \<times> 'w smbus_st) option" where
  "ucI2CDestroyDevice E ucDeviceId s =
     (let i = unat ucDeviceId in
      if ucDeviceId \<le> SMBUS_LAST_NON_ARP_SMBUS_INSTANCE
      then guarded E 1295 SMBUS_ERROR s
        (if ucInstanceInUse (inst i s) = SMBUS_TRUE \<and> xState (inst i s) = SMBUS_STATE_INITIAL then do {
           s \<leftarrow> release_address E ucDeviceId s;
           s \<leftarrow> edit_inst i old_device s;
           Some (SMBUS_SUCCESS, s) }
         else Some (SMBUS_ERROR, s))
      else Some (SMBUS_ERROR, s))"

section \<open>The instance table\<close>

text \<open>
  The table is well-formed: the firewall is intact and every queue well-formed; the flag that
  an entry is in use is a truth value and a device in use knows its number; two devices in use
  that are not ARP capable have different addresses; and the ARP entry is in use when a device
  that takes part in ARP is (an I2C device created in a fresh entry counts as well, as its
  capability is then unknown).
\<close>

definition device :: "(nat \<Rightarrow> SMBus_Instance) \<Rightarrow> nat \<Rightarrow> bool" where
  "device T i \<longleftrightarrow> i < SMBUS_NUM_NON_ARP_INSTANCES \<and> ucInstanceInUse (T i) = SMBUS_TRUE"

definition arp_device :: "(nat \<Rightarrow> SMBus_Instance) \<Rightarrow> nat \<Rightarrow> bool" where
  "arp_device T i \<longleftrightarrow> device T i \<and> ulI2CDevice (T i) = 0 \<and> xARPCapability (T i) \<noteq> SMBUS_ARP_NON_ARP_CAPABLE"

definition entry_ok :: "nat \<Rightarrow> SMBus_Instance \<Rightarrow> bool" where
  "entry_ok i x \<longleftrightarrow> firewall_intact x \<and> ev_inv (xEventSrcCircularBuf x) \<and>
     ulMaxElements (xEventSrcCircularBuf x) = SMBUS_MAX_EVENT_ELEMENTS \<and>
     (ucInstanceInUse x = SMBUS_TRUE \<and> ucThisInstanceNum x = of_nat i \<or> ucInstanceInUse x = SMBUS_FALSE)"

definition addresses_ok :: "(nat \<Rightarrow> SMBus_Instance) \<Rightarrow> bool" where
  "addresses_ok T \<longleftrightarrow> (\<forall>i j. device T i \<longrightarrow> device T j \<longrightarrow> i \<noteq> j \<longrightarrow> ucSMBusAddr (T i) = ucSMBusAddr (T j) \<longrightarrow>
     xARPCapability (T i) = SMBUS_ARP_CAPABLE \<or> xARPCapability (T j) = SMBUS_ARP_CAPABLE)"

definition arp_ok :: "(nat \<Rightarrow> SMBus_Instance) \<Rightarrow> bool" where
  "arp_ok T \<longleftrightarrow> (\<forall>i. arp_device T i \<longrightarrow> ucInstanceInUse (T SMBUS_ARP_INSTANCE_ID) = SMBUS_TRUE)"

definition table_ok :: "(nat \<Rightarrow> SMBus_Instance) \<Rightarrow> bool" where
  "table_ok T \<longleftrightarrow> (\<forall>i < SMBUS_NUM_INSTANCES. entry_ok i (T i)) \<and> addresses_ok T \<and> arp_ok T"

abbreviation instances :: "'w smbus_st \<Rightarrow> nat \<Rightarrow> SMBus_Instance" where
  "instances s \<equiv> xSMBusInstance (prof s)"

end
