(* ===== verification/SMBus_Arbitration.thy ===== *)
theory SMBus_Arbitration
  imports SMBus_FSM_Transitions
begin

text \<open>
  The arbitration of an undirected Get UDID command: among the instances that are in use, can
  be discovered and have no resolved address, the one with the smallest UDID answers.
\<close>

section \<open>Selection sort of the candidates by one byte\<close>

lemma smallest_foldl:
  fixes f :: "nat \<Rightarrow> u8"
  defines "pick \<equiv> foldl (\<lambda>m k. if f k < f m then k else m)"
  shows "pick o' ks \<in> insert o' (set ks) \<and> (\<forall>k \<in> insert o' (set ks). f (pick o' ks) \<le> f k)"
  unfolding pick_def
proof (induction ks arbitrary: o')
  case (Cons k ks)
  let ?m = "if f k < f o' then k else o'"
  have "f ?m \<le> f k" "f ?m \<le> f o'" by auto
  then show ?case using Cons.IH [of ?m] by (auto split: if_splits)
qed simp

lemma smallest_spec:
  assumes "o' < n"
  shows "udid_smallest p b n l o' \<in> {o'..<n}"
    and "j \<in> {o'..<n} \<Longrightarrow> udid_byte p b (l (udid_smallest p b n l o')) \<le> udid_byte p b (l j)"
proof -
  have "insert o' (set [Suc o'..<n]) = {o'..<n}" using assms by auto
  with smallest_foldl [of "\<lambda>k. udid_byte p b (l k)" o' "[Suc o'..<n]"]
  show "udid_smallest p b n l o' \<in> {o'..<n}"
    and "j \<in> {o'..<n} \<Longrightarrow> udid_byte p b (l (udid_smallest p b n l o')) \<le> udid_byte p b (l j)"
    by (simp_all only: udid_smallest_def ball_simps)
qed

lemma swap_image: "x < n \<Longrightarrow> y < n \<Longrightarrow> vInstanceSwap x y l ` {..<n} = l ` {..<n}"
  by (rule set_eqI) (auto simp: vInstanceSwap_def image_iff split: if_splits)

lemma sort_prefix:
  fixes p :: SMBusProfile and b n :: nat and l :: "nat \<Rightarrow> u8"
  assumes "t < n"
  defines "step \<equiv> \<lambda>l o'. vInstanceSwap (udid_smallest p b n l o') o' l"
  shows "foldl step l [0..<t] ` {..<n} = l ` {..<n} \<and>
    (\<forall>x<t. \<forall>y. x < y \<and> y < n \<longrightarrow> udid_byte p b (foldl step l [0..<t] x) \<le> udid_byte p b (foldl step l [0..<t] y))"
  using assms(1)
proof (induction t)
  case (Suc t)
  let ?l = "foldl step l [0..<t]" and ?f = "udid_byte p b"
  let ?m = "udid_smallest p b n ?l t"
  have tn: "t < n" using Suc.prems by simp
  note m = smallest_spec(1) [OF tn, of p b ?l] and small = smallest_spec(2) [OF tn, where p = p and b = b and l = ?l]
  from Suc.IH [OF tn] have IH: "?l ` {..<n} = l ` {..<n}" "\<And>x y. x < t \<Longrightarrow> x < y \<Longrightarrow> y < n \<Longrightarrow> ?f (?l x) \<le> ?f (?l y)"
    by blast+
  have eq: "foldl step l [0..<Suc t] = vInstanceSwap ?m t ?l" by (simp add: step_def)
  have "?f (vInstanceSwap ?m t ?l x) \<le> ?f (vInstanceSwap ?m t ?l y)" if "x < Suc t" "x < y" "y < n" for x y
    using that IH(2) [of x] small m by (cases "x = t") (auto simp: vInstanceSwap_def)
  moreover have "vInstanceSwap ?m t ?l ` {..<n} = l ` {..<n}" using m tn by (simp add: swap_image IH(1))
  ultimately show ?case unfolding eq by blast
qed simp

lemma sort_spec:
  assumes "0 < n"
  shows "vUDIDInstanceSort p l n b ` {..<n} = l ` {..<n}"
    and "x < y \<Longrightarrow> y < n \<Longrightarrow> udid_byte p b (vUDIDInstanceSort p l n b x) \<le> udid_byte p b (vUDIDInstanceSort p l n b y)"
proof -
  have P: "vUDIDInstanceSort p l n b ` {..<n} = l ` {..<n} \<and>
    (\<forall>x<n - 1. \<forall>y. x < y \<and> y < n \<longrightarrow>
      udid_byte p b (vUDIDInstanceSort p l n b x) \<le> udid_byte p b (vUDIDInstanceSort p l n b y))"
    unfolding vUDIDInstanceSort_def by (rule sort_prefix) (use assms in simp)
  then show "vUDIDInstanceSort p l n b ` {..<n} = l ` {..<n}" by blast
  show "x < y \<Longrightarrow> y < n \<Longrightarrow> udid_byte p b (vUDIDInstanceSort p l n b x) \<le> udid_byte p b (vUDIDInstanceSort p l n b y)"
    using P by simp
qed

section \<open>Cutting the list\<close>

lemma shrink_spec:
  assumes "n < SMBUS_NUM_NON_ARP_INSTANCES" and "j < n" and "\<And>k. k \<le> j \<Longrightarrow> udid_byte p b (l k) = v"
  shows "okay (udid_shrink p b l n [j..<n]) (\<lambda>m. 0 < m \<and> m \<le> n \<and>
    (\<forall>k<m. udid_byte p b (l k) = v) \<and> (m < n \<longrightarrow> udid_byte p b (l m) \<noteq> v))"
  using assms(2,3)
proof (induction "n - j" arbitrary: j)
  case (Suc d)
  have js: "[j..<n] = j # [Suc j..<n]" using Suc.prems(1) by (simp add: upt_conv_Cons)
  have b: "j < SMBUS_NUM_NON_ARP_INSTANCES" "Suc j < SMBUS_NUM_NON_ARP_INSTANCES" using Suc.prems(1) assms(1) by simp_all
  have v: "udid_byte p b (l j) = v" by (rule Suc.prems(2)) simp
  show ?case
  proof (cases "udid_byte p b (l (Suc j)) = v")
    case False
    then show ?thesis
      using b v Suc.prems unfolding js by (simp add: arr_get_def less_Suc_eq_le)
  next
    case eq: True
    show ?thesis
    proof (cases "Suc j = n")
      case True
      then show ?thesis using b v eq Suc.prems(2) unfolding js by (auto simp: arr_get_def)
    next
      case False
      have "udid_byte p b (l k) = v" if "k \<le> Suc j" for k
        using Suc.prems(2) eq that by (cases "k = Suc j") auto
      with False Suc.prems(1) Suc.hyps(2) have
        "okay (udid_shrink p b l n [Suc j..<n]) (\<lambda>m. 0 < m \<and> m \<le> n \<and>
          (\<forall>k<m. udid_byte p b (l k) = v) \<and> (m < n \<longrightarrow> udid_byte p b (l m) \<noteq> v))"
        by (intro Suc.hyps(1)) auto
      with b v eq show ?thesis unfolding js by (simp add: arr_get_def)
    qed
  qed
qed simp

section \<open>The winner\<close>

text \<open>A UDID as a number, its byte 15 being the most significant.\<close>

fun udid_part :: "(nat \<Rightarrow> u8) \<Rightarrow> nat list \<Rightarrow> nat" where
  "udid_part u [] = 0"
| "udid_part u (b # bs) = unat (u b) * 256 ^ length bs + udid_part u bs"

definition udid_value :: "SMBus_Instance \<Rightarrow> nat" where
  "udid_value m = udid_part (ucUDID m) (rev [0..<SMBUS_UDID_LENGTH])"

lemma udid_part_less: "udid_part u bs < 256 ^ length bs"
proof (induction bs)
  case (Cons b bs)
  have "unat (u b) < 2 ^ LENGTH(8)" by (rule unsigned_less)
  then have "unat (u b) \<le> 255" by simp
  then have "unat (u b) * 256 ^ length bs \<le> 255 * 256 ^ length bs" by (rule mult_le_mono1)
  with Cons have "unat (u b) * 256 ^ length bs + udid_part u bs < 256 * 256 ^ length bs" by linarith
  then show ?case by simp
qed simp

lemma udid_part_first:
  assumes "u b < v b"
  shows "udid_part u (b # bs) < udid_part v (b # bs)"
proof -
  have "Suc (unat (u b)) \<le> unat (v b)" using assms by (simp add: word_less_nat_alt)
  then have "Suc (unat (u b)) * 256 ^ length bs \<le> unat (v b) * 256 ^ length bs" by (rule mult_le_mono1)
  with udid_part_less [of u bs] show ?thesis by simp
qed

lemma narrow_spec:
  assumes "0 < n" and "n < SMBUS_NUM_NON_ARP_INSTANCES" and "bs \<noteq> []"
  shows "okay (udid_narrow p bs l n) (\<lambda>l'. l' 0 \<in> l ` {..<n} \<and>
    (\<forall>k<n. udid_part (ucUDID (xSMBusInstance p (unat (l' 0)))) bs \<le> udid_part (ucUDID (xSMBusInstance p (unat (l k)))) bs))"
  using assms
proof (induction bs arbitrary: l n)
  case (Cons b bs)
  let ?s = "vUDIDInstanceSort p l n b" and ?u = "\<lambda>k. ucUDID (xSMBusInstance p (unat k))"
  note S = sort_spec [OF Cons.prems(1), where p = p and l = l and b = b]
  define v where "v = ?u (?s 0) b"
  obtain m where m: "udid_shrink p b ?s n [0..<n] = Some m" "0 < m" "m \<le> n"
    "\<And>k. k < m \<Longrightarrow> ?u (?s k) b = v" "m < n \<Longrightarrow> ?u (?s m) b \<noteq> v"
    using shrink_spec [OF Cons.prems(2,1), where p = p and b = b and l = ?s and v = v]
    unfolding okay_iff udid_byte_def v_def by blast
  have later: "v < ?u (?s k) b" if "m \<le> k" "k < n" for k
  proof -
    have "v \<le> ?u (?s m) b" using S(2) [of 0 m] that m(2) by (simp add: udid_byte_def v_def)
    moreover have "?u (?s m) b \<noteq> v" using m(5) that by simp
    ultimately have "v < ?u (?s m) b" by simp
    also have "?u (?s m) b \<le> ?u (?s k) b" using S(2) [of m k] that by (cases "m = k") (simp_all add: udid_byte_def)
    finally show ?thesis .
  qed
  have all: "\<exists>j<n. l k = ?s j" if "k < n" for k
    using S(1) that by (metis imageE imageI lessThan_iff)
  have lift: "okay r (\<lambda>l'. l' 0 \<in> l ` {..<n} \<and> (\<forall>k<n. udid_part (?u (l' 0)) (b # bs) \<le> udid_part (?u (l k)) (b # bs)))"
    if "r = Some l'" "x < n" "l' 0 = ?s x" "\<And>j. j < n \<Longrightarrow> udid_part (?u (?s x)) (b # bs) \<le> udid_part (?u (?s j)) (b # bs)"
    for r l' x
  proof -
    have "l' 0 \<in> l ` {..<n}" using that(2,3) S(1) by (metis imageI lessThan_iff)
    moreover have "udid_part (?u (l' 0)) (b # bs) \<le> udid_part (?u (l k)) (b # bs)" if "k < n" for k
      using all [OF that] \<open>l' 0 = ?s x\<close> \<open>\<And>j. j < n \<Longrightarrow> udid_part (?u (?s x)) (b # bs) \<le> udid_part (?u (?s j)) (b # bs)\<close>
      by metis
    ultimately show ?thesis by (simp add: \<open>r = Some l'\<close>)
  qed
  have beat: "udid_part (?u (?s x)) (b # bs) < udid_part (?u (?s j)) (b # bs)" if "x < m" "m \<le> j" "j < n" for x j
    by (rule udid_part_first) (use later [OF that(2,3)] m(4) [OF that(1)] in simp)
  show ?case
  proof (cases "m = 1")
    case True
    have "udid_part (?u (?s 0)) (b # bs) \<le> udid_part (?u (?s j)) (b # bs)" if "j < n" for j
      using beat [of 0 j] True that by (cases "j = 0") (auto intro: less_imp_le)
    then show ?thesis
      by (intro lift [of _ ?s 0]) (use m(1) True Cons.prems(1) in \<open>simp_all add: Let_def\<close>)
  next
    case False
    show ?thesis
    proof (cases "bs = []")
      case True
      have "udid_part (?u (?s 0)) (b # bs) \<le> udid_part (?u (?s j)) (b # bs)" if "j < n" for j
        using beat [of 0 j] m(2) m(4) [of j] m(4) [of 0] True that by (cases "j < m") (auto intro: less_imp_le)
      then show ?thesis
        by (intro lift [of _ ?s 0]) (use m(1) False True Cons.prems(1) in \<open>simp_all add: Let_def\<close>)
    next
      case ne: False
      obtain l' where l': "udid_narrow p bs ?s m = Some l'" "l' 0 \<in> ?s ` {..<m}"
        "\<And>k. k < m \<Longrightarrow> udid_part (?u (l' 0)) bs \<le> udid_part (?u (?s k)) bs"
        using Cons.IH [OF m(2) _ ne, of ?s] m(3) Cons.prems(2) by (auto simp: okay_iff)
      obtain x where x: "x < m" "l' 0 = ?s x" using l'(2) by auto
      have "udid_part (?u (?s x)) (b # bs) \<le> udid_part (?u (?s j)) (b # bs)" if "j < n" for j
      proof (cases "j < m")
        case True
        then show ?thesis using l'(3) [OF True] m(4) [OF True] m(4) [OF x(1)] x(2) by simp
      next
        case False
        then show ?thesis using beat [OF x(1) _ that] by simp
      qed
      then show ?thesis
        by (intro lift [of _ l' x])
          (use m(1,3) l'(1) False x in \<open>simp_all add: Let_def\<close>)
    qed
  qed
qed simp

section \<open>The command\<close>

text \<open>The instances that take part in the arbitration.\<close>

definition discoverable :: "'w smbus_st \<Rightarrow> nat \<Rightarrow> bool" where
  "discoverable s k \<longleftrightarrow> ucInstanceInUse (inst k s) = SMBUS_TRUE \<and> arp_capable (inst k s) \<and>
     unat (ucInstanceInPlay (prof s)) \<noteq> k \<and> ucARFlag (inst k s) = SMBUS_FALSE"

definition candidates :: "'w smbus_st \<Rightarrow> nat list" where
  "candidates s = filter (discoverable s) [0..<SMBUS_NUM_NON_ARP_INSTANCES]"

text \<open>Total forms of the calls that change nothing but the log and the world.\<close>

definition logged :: "'w smbus_st \<Rightarrow> 'w smbus_st \<Rightarrow> bool" where
  "logged s s' \<longleftrightarrow> log_only s s' \<and> log_inv s'"

lemma logged_trans: "logged s t \<Longrightarrow> logged t u \<Longrightarrow> logged s u"
  by (auto simp: logged_def intro: log_only_trans)

lemma quiet_logged: "quiet m \<Longrightarrow> log_inv s \<Longrightarrow> okay (m s) (logged s)"
  using quietD [of m s] by (auto simp: okay_iff logged_def)

lemma quietv_logged: "quietv m \<Longrightarrow> log_inv s \<Longrightarrow> okay (m s) (\<lambda>(v, s'). logged s s')"
  using quietvD [of m s] by (auto simp: okay_iff logged_def)

lemmas dbg_logged = quiet_logged [OF log_add_quiet]

lemma loggedD:
  assumes "logged s s'"
  shows "log_inv s'" "inst k s' = inst k s" "discoverable s' = discoverable s" "xSMBusInstance (prof s') = xSMBusInstance (prof s)"
    "ucInstanceInPlay (prof s') = ucInstanceInPlay (prof s)"
  using assms log_onlyD [of s s'] by (auto simp: logged_def discoverable_def)

lemma okay_logged:
  assumes "okay m (logged s)" and "\<And>t. logged s t \<Longrightarrow> okay (f t) Q"
  shows "okay (Option.bind m f) Q"
  by (rule okay_bind [OF assms])

lemma okay_dbg:
  assumes "logged s0 s" and "\<And>t. logged s0 t \<Longrightarrow> okay (f t) Q"
  shows "okay (Option.bind (vLogAddEntry E lev n ev a b s) f) Q"
  by (rule okay_logged [OF dbg_logged [OF loggedD(1) [OF assms(1)]]]) (rule assms(2), rule logged_trans [OF assms(1)])

lemma candidates_spec:
  assumes "log_inv s" and "n + length ks \<le> SMBUS_NUM_NON_ARP_INSTANCES"
  shows "okay (acb_candidates E i ks l n s) (\<lambda>(l', n', s'). logged s s' \<and>
    map l' [0..<n'] = map l [0..<n] @ map of_nat (filter (discoverable s) ks))"
  using assms
proof (induction ks arbitrary: l n s)
  case Nil
  then show ?case by (simp add: logged_def)
next
  case (Cons k ks)
  let ?Q = "\<lambda>(l', n', s'). logged s s' \<and>
    map l' [0..<n'] = map l [0..<n] @ map of_nat (filter (discoverable s) (k # ks))"
  have skip: "okay (acb_candidates E i ks l n t) ?Q" if "logged s t" "\<not> discoverable s k" for t
    by (rule okay_weaken [OF Cons.IH [of t n l]])
      (use that Cons.prems loggedD [OF that(1)] in \<open>auto intro: logged_trans\<close>)
  have take: "okay (acb_candidates E i ks (l(n := of_nat k)) (n + 1) t) ?Q" if "logged s t" "discoverable s k" for t
    by (rule okay_weaken [OF Cons.IH [of t "n + 1" "l(n := of_nat k)"]])
      (use that Cons.prems loggedD [OF that(1)] in \<open>auto intro: logged_trans\<close>)
  have n: "n < SMBUS_NUM_NON_ARP_INSTANCES" using Cons.prems(2) by simp
  have rest: "okay (if arp_capable (inst k t) \<and> unat (ucInstanceInPlay (prof t)) \<noteq> k \<and> ucARFlag (inst k t) = SMBUS_FALSE
      then do {
         l \<leftarrow> arr_set SMBUS_NUM_NON_ARP_INSTANCES l n (of_nat k);
         let n = n + 1;
         s \<leftarrow> dbg E i (of_nat n) 820 t;
         s \<leftarrow> dbg E i (of_nat k) 823 s;
         acb_candidates E i ks l n s }
      else acb_candidates E i ks l n t) ?Q"
    if t: "logged s t" and u: "ucInstanceInUse (inst k s) = SMBUS_TRUE" for t
  proof (cases "discoverable s k")
    case True
    have c: "arp_capable (inst k t) \<and> unat (ucInstanceInPlay (prof t)) \<noteq> k \<and> ucARFlag (inst k t) = SMBUS_FALSE"
      and eq: "arr_set SMBUS_NUM_NON_ARP_INSTANCES l n (of_nat k) = Some (l(n := of_nat k))"
      using True loggedD [OF t] n by (simp_all add: discoverable_def arr_set_def)
    show ?thesis
      unfolding if_P [OF c] eq Option.bind.bind_lunit Let_def
      by (rule okay_dbg [OF t], rule okay_dbg, assumption, rule take [OF _ True])
  next
    case False
    then have c: "\<not> (arp_capable (inst k t) \<and> unat (ucInstanceInPlay (prof t)) \<noteq> k \<and> ucARFlag (inst k t) = SMBUS_FALSE)"
      using loggedD [OF t] u by (simp add: discoverable_def)
    show ?thesis unfolding if_not_P [OF c] by (rule skip [OF t False])
  qed
  show ?case
    unfolding acb_candidates.simps
  proof (rule okay_logged [OF dbg_logged [OF Cons.prems(1)]])
    fix t assume t: "logged s t"
    show "okay (if ucInstanceInUse (inst k t) = SMBUS_TRUE then do {
         s \<leftarrow> dbg E i (arp_capability_num (xARPCapability (inst k t))) 802 t;
         s \<leftarrow> dbg E i (ucast (ucARFlag (inst k s))) 805 s;
         if arp_capable (inst k s) \<and> unat (ucInstanceInPlay (prof s)) \<noteq> k \<and> ucARFlag (inst k s) = SMBUS_FALSE then do {
           l \<leftarrow> arr_set SMBUS_NUM_NON_ARP_INSTANCES l n (of_nat k);
           let n = n + 1;
           s \<leftarrow> dbg E i (of_nat n) 820 s;
           s \<leftarrow> dbg E i (of_nat k) 823 s;
           acb_candidates E i ks l n s }
         else acb_candidates E i ks l n s }
       else acb_candidates E i ks l n t) ?Q"
    proof (cases "ucInstanceInUse (inst k s) = SMBUS_TRUE")
      case True
      show ?thesis
        unfolding loggedD(2) [OF t] if_P [OF True]
        by (rule okay_dbg [OF t], rule okay_dbg, assumption, rule rest [OF _ True])
    next
      case False
      then show ?thesis using skip [OF t] by (simp add: loggedD(2) [OF t] discoverable_def)
    qed
  qed
qed

text \<open>With fewer than seven candidates, picking one is defined and it is the one with the lowest UDID.\<close>

lemma pick_spec:
  assumes "log_inv s" and "0 < n" and "n < SMBUS_NUM_NON_ARP_INSTANCES"
  shows "okay (acb_udid_pick E i l n s) (\<lambda>(l', s'). logged s s' \<and> l' 0 \<in> l ` {..<n} \<and>
    (\<forall>k<n. udid_value (inst (unat (l' 0)) s) \<le> udid_value (inst (unat (l k)) s)))"
proof (cases "n = 1")
  case True
  then show ?thesis using assms(1) by (simp add: acb_udid_pick_def logged_def)
next
  case False
  have narrow: "okay (do { l \<leftarrow> udid_narrow (prof t) (rev [0..<SMBUS_UDID_LENGTH]) l n; Some (l, t) })
      (\<lambda>(l', s'). logged s s' \<and> l' 0 \<in> l ` {..<n} \<and>
        (\<forall>k<n. udid_value (inst (unat (l' 0)) s) \<le> udid_value (inst (unat (l k)) s)))"
    if "logged s t" for t
    by (rule okay_bind [OF narrow_spec [OF assms(2,3)]])
      (use that loggedD(4) [OF that] in \<open>simp_all add: udid_value_def inst_def\<close>)
  have n: "n \<noteq> 1" using False .
  show ?thesis
    unfolding acb_udid_pick_def if_P [OF n]
    by (rule okay_logged [OF dbg_logged [OF assms(1)]]) (rule narrow)
qed

lemma ack_logged_total: "log_inv s \<Longrightarrow> okay (ack_logged E i line s) (logged s)"
proof -
  assume L: "log_inv s"
  have "okay (if r \<noteq> SMBUS_HW_DESCRIPTOR_WRITE_SUCCESS then errlog E i 0 line t else Some t) (logged s)"
    if "logged s t" for r t
    using that by (auto intro: okay_weaken [OF dbg_logged [OF loggedD(1) [OF that]] logged_trans [OF that]])
  then show ?thesis
    unfolding ack_logged_def
    by (intro okay_bind [OF quietv_logged [OF descs_quiet(3) L]]) auto
qed

lemma reply_spec:
  assumes "log_inv s"
  shows "okay (acb_udid_reply E i k s) (\<lambda>s'. xState (inst i s') = SMBUS_STATE_AWAITING_READ \<and>
    usSendDataSize (inst i s') = usSendDataSize (inst i s) \<and>
    ucSendData (inst i s') = udid_message (inst (unat k) s) (udid_address (inst (unat k) s)) (ucSendData (inst i s)))"
proof -
  let ?f = "\<lambda>m x. x\<lparr>ucSendData := udid_message m (udid_address m) (ucSendData x)\<rparr>"
  have rest: "okay (do {
      s \<leftarrow> dbg E i v 904 (upd_inst i (?f (inst (unat k) s)) t);
      s \<leftarrow> ack_logged E i 910 s;
      Some (vSMBusNextStateDecoder i SMBUS_STATE_AWAITING_READ s) })
      (\<lambda>s'. xState (inst i s') = SMBUS_STATE_AWAITING_READ \<and>
        usSendDataSize (inst i s') = usSendDataSize (inst i s) \<and>
        ucSendData (inst i s') = udid_message (inst (unat k) s) (udid_address (inst (unat k) s)) (ucSendData (inst i s)))"
    if "logged s t" for t v
  proof -
    have L: "log_inv (upd_inst i (?f (inst (unat k) s)) t)" using loggedD(1) [OF that] by simp
    show ?thesis
      by (rule okay_logged [OF dbg_logged [OF L]], rule okay_logged [OF ack_logged_total [OF loggedD(1)]], assumption)
        (simp add: vSMBusNextStateDecoder_def loggedD(2) loggedD(2) [OF that])
  qed
  show ?thesis
    unfolding acb_udid_reply_def Let_def
    by (rule okay_logged [OF dbg_logged [OF assms]]) (use rest in \<open>simp add: loggedD(2)\<close>)
qed

text \<open>
  C11: The lowest UDID wins the arbitration.  When at least one and at most six instances are in
  use, discoverable and unresolved, a Get UDID command is answered, whatever the hardware
  does: the reply that is prepared is the UDID message of one of them whose UDID, read as a
  128-bit number, is the lowest of all, with its address (all ones when it has none), and the
  target goes on to wait for the read.
\<close>

theorem get_udid_lowest:
  assumes "log_inv s" and "candidates s \<noteq> []" and "length (candidates s) < SMBUS_NUM_NON_ARP_INSTANCES"
  shows "okay (acb_get_udid E i s) (\<lambda>s'. \<exists>k\<in>set (candidates s).
    (\<forall>c\<in>set (candidates s). udid_value (inst k s) \<le> udid_value (inst c s)) \<and>
    ucSendData (inst i s') = udid_message (inst k s) (udid_address (inst k s)) (ucSendData (inst i s)) \<and>
    usSendDataSize (inst i s') = SMBUS_GET_UDID_MSG_LENGTH \<and> xState (inst i s') = SMBUS_STATE_AWAITING_READ)"
proof -
  let ?s = "upd_inst i (\<lambda>x. x\<lparr>usSendDataSize := SMBUS_GET_UDID_MSG_LENGTH\<rparr>) s"
  let ?C = "candidates s" and ?n = "length (candidates s)"
  have L: "log_inv ?s" using assms(1) by simp
  have D: "discoverable ?s = discoverable s" by (auto simp: discoverable_def fun_eq_iff arp_capable_def)
  have U: "udid_value (inst k ?s) = udid_value (inst k s)" for k by (simp add: udid_value_def)
  have M: "udid_message (inst k ?s) (udid_address (inst k ?s)) = udid_message (inst k s) (udid_address (inst k s))" for k
    by (simp add: udid_message_def udid_address_def fun_eq_iff)
  obtain l n t where cn: "acb_candidates E i [0..<SMBUS_NUM_NON_ARP_INSTANCES] (\<lambda>_. 0) 0 ?s = Some (l, n, t)"
    and t: "logged ?s t" and ln: "map l [0..<n] = map of_nat ?C"
    using candidates_spec [OF L, of 0 "[0..<SMBUS_NUM_NON_ARP_INSTANCES]" E i "\<lambda>_. 0"]
    by (auto simp: okay_iff D candidates_def)
  have "n = ?n" using arg_cong [OF ln, of length] by simp
  note c = cn [unfolded this] and l = ln [unfolded this]
  have lk: "l k = of_nat (?C ! k)" if "k < ?n" for k
    using arg_cong [OF l, of "\<lambda>xs. xs ! k"] that by simp
  have small: "?C ! k < SMBUS_NUM_NON_ARP_INSTANCES" if "k < ?n" for k
    using nth_mem [OF that] by (auto simp: candidates_def)
  have ul: "unat (l k) = ?C ! k" if "k < ?n" for k
    using lk [OF that] small [OF that] by (simp add: unat_of_nat)
  have n: "0 < ?n" using assms(2) by simp
  have pick: "okay (do { (l, s) \<leftarrow> acb_udid_pick E i l ?n u; acb_udid_reply E i (l 0) s })
      (\<lambda>s'. \<exists>k\<in>set (candidates s).
        (\<forall>c\<in>set (candidates s). udid_value (inst k s) \<le> udid_value (inst c s)) \<and>
        ucSendData (inst i s') = udid_message (inst k s) (udid_address (inst k s)) (ucSendData (inst i s)) \<and>
        usSendDataSize (inst i s') = SMBUS_GET_UDID_MSG_LENGTH \<and> xState (inst i s') = SMBUS_STATE_AWAITING_READ)"
    if u: "logged ?s u" for u
  proof (rule okay_bind [OF pick_spec [OF loggedD(1) [OF u] n assms(3)]], clarify)
    fix l' v x
    assume v: "logged u v" and x: "x < ?n" "l' 0 = l x"
      and best: "\<forall>k<?n. udid_value (inst (unat (l' 0)) u) \<le> udid_value (inst (unat (l k)) u)"
    have uv: "logged ?s v" by (rule logged_trans [OF u v])
    have "udid_value (inst (?C ! x) s) \<le> udid_value (inst c s)" if "c \<in> set ?C" for c
      using that best x(2) ul [OF x(1)] ul unfolding in_set_conv_nth loggedD(2) [OF u] U by auto
    then show "okay (acb_udid_reply E i (l' 0) v) (\<lambda>s'. \<exists>k\<in>set (candidates s).
        (\<forall>c\<in>set (candidates s). udid_value (inst k s) \<le> udid_value (inst c s)) \<and>
        ucSendData (inst i s') = udid_message (inst k s) (udid_address (inst k s)) (ucSendData (inst i s)) \<and>
        usSendDataSize (inst i s') = SMBUS_GET_UDID_MSG_LENGTH \<and> xState (inst i s') = SMBUS_STATE_AWAITING_READ)"
      using nth_mem [OF x(1)]
      by (intro okay_weaken [OF reply_spec [OF loggedD(1) [OF uv]]] bexI [of _ "?C ! x"])
        (simp_all add: x(2) ul [OF x(1)] loggedD(2) [OF uv] M del: inst_upd_inst, simp_all)
  qed
  show ?thesis
    unfolding acb_get_udid_def Let_def c Option.bind.bind_lunit prod.case if_P [OF n]
    by (rule okay_dbg [OF t]) (rule pick)
qed

text \<open>Two instances, 1 and 2, answer; instance 2 has the lower UDID.\<close>

definition example_profile :: "nat \<Rightarrow> (nat \<Rightarrow> u8) \<Rightarrow> SMBusProfile" where
  "example_profile n tops = zero_profile\<lparr>ucInstanceInPlay := 99,
     xSMBusInstance := (\<lambda>k. if k < n then zero_instance\<lparr>ucInstanceInUse := SMBUS_TRUE,
       xARPCapability := SMBUS_ARP_CAPABLE, ucUDID := (\<lambda>b. if b = 15 then tops k else of_nat (b * k))\<rparr>
       else zero_instance)\<rparr>"

lemma example_candidates:
  "n \<le> 7 \<Longrightarrow> candidates \<lparr>prof = example_profile n tops, world = w\<rparr> = [0..<n]"
  by (subgoal_tac "n \<in> {0,1,2,3,4,5,6,7}")
    (auto simp: candidates_def discoverable_def example_profile_def inst_def zero_instance_def arp_capable_def upt_rec)

theorem get_udid_lowest_witness:
  "okay (acb_get_udid memory_env 7 \<lparr>prof = example_profile 3 (\<lambda>k. of_nat (5 - k)), world = (\<lambda>_. 0)\<rparr>)
     (\<lambda>s'. ucSendData (inst 7 s') 1 = 3 \<and> xState (inst 7 s') = SMBUS_STATE_AWAITING_READ)"
proof -
  let ?s = "\<lparr>prof = example_profile 3 (\<lambda>k. of_nat (5 - k)), world = (\<lambda>_. 0)\<rparr> :: (u64 \<Rightarrow> u32) smbus_st"
  have C: "candidates ?s = [0, 1, 2]" by (simp add: example_candidates upt_rec)
  have v: "udid_value (inst k ?s) = udid_part (\<lambda>b. if b = 15 then of_nat (5 - k) else of_nat (b * k)) (rev [0..<SMBUS_UDID_LENGTH])"
    if "k < 3" for k
    using that by (simp add: udid_value_def inst_def example_profile_def)
  have P: "okay (acb_get_udid memory_env 7 ?s) (\<lambda>s'. \<exists>k\<in>set (candidates ?s).
      (\<forall>c\<in>set (candidates ?s). udid_value (inst k ?s) \<le> udid_value (inst c ?s)) \<and>
      ucSendData (inst 7 s') = udid_message (inst k ?s) (udid_address (inst k ?s)) (ucSendData (inst 7 ?s)) \<and>
      usSendDataSize (inst 7 s') = SMBUS_GET_UDID_MSG_LENGTH \<and> xState (inst 7 s') = SMBUS_STATE_AWAITING_READ)"
    by (rule get_udid_lowest) (simp_all add: C, simp add: log_inv_def example_profile_def zero_profile_def)
  have F: "ucSendData (inst 7 s') 1 = 3 \<and> xState (inst 7 s') = SMBUS_STATE_AWAITING_READ"
    if k: "k \<in> set (candidates ?s)" and best: "\<forall>c\<in>set (candidates ?s). udid_value (inst k ?s) \<le> udid_value (inst c ?s)"
      and m: "ucSendData (inst 7 s') = udid_message (inst k ?s) (udid_address (inst k ?s)) (ucSendData (inst 7 ?s))"
      and x: "xState (inst 7 s') = SMBUS_STATE_AWAITING_READ"
    for s' k
  proof -
    have "k = 2"
      using k best unfolding C by (auto simp: v upt_rec)
    then show ?thesis
      using m x by (simp add: udid_message_def inst_def example_profile_def)
  qed
  show ?thesis by (rule okay_weaken [OF P], erule bexE, elim conjE, rule F)
qed

section \<open>Seven candidates\<close>

lemma shrink_overrun:
  assumes "\<And>k. k < 7 \<Longrightarrow> udid_byte p b (l k) = v"
  shows "udid_shrink p b l 7 [0..<7] = None"
  using assms by (simp add: upt_rec arr_get_def)

text \<open>
  C12: Seven candidates overrun the list.  When all seven instances take part in the
  arbitration and the most significant bytes of their UDIDs agree, the comparison of each
  entry with its successor reads the element after the last one of the array of seven
  instance numbers: the Get UDID command is undefined.
\<close>

theorem get_udid_overrun:
  assumes "log_inv s" and "length (candidates s) = SMBUS_NUM_NON_ARP_INSTANCES"
    and "\<And>k. k < SMBUS_NUM_NON_ARP_INSTANCES \<Longrightarrow> ucUDID (inst k s) SMBUS_UDID_DEVICE_CAPABILITIES_BYTE = v"
  shows "acb_get_udid E i s = None"
proof -
  let ?s = "upd_inst i (\<lambda>x. x\<lparr>usSendDataSize := SMBUS_GET_UDID_MSG_LENGTH\<rparr>) s"
  have L: "log_inv ?s" using assms(1) by simp
  have D: "discoverable ?s = discoverable s" by (auto simp: discoverable_def fun_eq_iff arp_capable_def)
  obtain l n t where c: "acb_candidates E i [0..<SMBUS_NUM_NON_ARP_INSTANCES] (\<lambda>_. 0) 0 ?s = Some (l, n, t)"
    and t: "logged ?s t" and ln: "map l [0..<n] = map of_nat (candidates s)"
    using candidates_spec [OF L, of 0 "[0..<SMBUS_NUM_NON_ARP_INSTANCES]" E i "\<lambda>_. 0"]
    by (auto simp: okay_iff D candidates_def)
  have n: "n = 7" using arg_cong [OF ln, of length] assms(2) by simp
  have small: "unat (l k) < 7" if "k < 7" for k
  proof -
    have "candidates s ! k \<in> set (candidates s)" using that assms(2) by simp
    then have "candidates s ! k < 7" by (simp add: candidates_def)
    moreover have "l k = of_nat (candidates s ! k)"
      using arg_cong [OF ln, of "\<lambda>xs. xs ! k"] that n assms(2) by simp
    ultimately show ?thesis by (simp add: unat_of_nat)
  qed
  have none: "udid_narrow (prof u) (rev [0..<SMBUS_UDID_LENGTH]) l 7 = None" if u: "logged ?s u" for u
  proof -
    have rev: "rev [0..<SMBUS_UDID_LENGTH] = SMBUS_UDID_DEVICE_CAPABILITIES_BYTE # rev [0..<15]"
      by (simp add: upt_rec)
    have "udid_byte (prof u) SMBUS_UDID_DEVICE_CAPABILITIES_BYTE (vUDIDInstanceSort (prof u) l 7 15 k) = v" if "k < 7" for k
    proof -
      have "vUDIDInstanceSort (prof u) l 7 15 k \<in> l ` {..<7}"
        using sort_spec(1) [of 7 "prof u" l 15] that by (metis imageI lessThan_iff zero_less_numeral)
      then obtain j where j: "j < 7" "vUDIDInstanceSort (prof u) l 7 15 k = l j" by auto
      have "ucUDID (inst (unat (l j)) u) 15 = v"
        using assms(3) [OF small [OF j(1)]] by (auto simp: loggedD(2) [OF u])
      then show ?thesis by (simp add: udid_byte_def j(2) inst_def)
    qed
    then show ?thesis
      using shrink_overrun [of "prof u" 15 "vUDIDInstanceSort (prof u) l 7 15" v]
      by (simp add: rev Let_def)
  qed
  have pick: "acb_udid_pick E i l 7 u = None" if u: "logged ?s u" for u
  proof -
    obtain w where w: "dbg E i (of_nat 7) 841 u = Some w" "logged u w"
      using okayE [OF dbg_logged [OF loggedD(1) [OF u]]] by blast
    show ?thesis using w(1) none [OF logged_trans [OF u w(2)]] by (simp add: acb_udid_pick_def)
  qed
  obtain u where u: "dbg E i (of_nat 7) 836 t = Some u" "logged t u"
    using okayE [OF dbg_logged [OF loggedD(1) [OF t]]] by blast
  show ?thesis
    using u(1) pick [OF logged_trans [OF t u(2)]] c n by (simp add: acb_get_udid_def Let_def)
qed

theorem get_udid_overrun_witness:
  "acb_get_udid memory_env 7 \<lparr>prof = example_profile 7 (\<lambda>_. 1), world = (\<lambda>_. 0)\<rparr> = None"
proof (rule get_udid_overrun [where v = 1])
  show "log_inv \<lparr>prof = example_profile 7 (\<lambda>_. 1), world = (\<lambda>_. 0)\<rparr>"
    by (simp add: log_inv_def example_profile_def zero_profile_def)
  show "length (candidates \<lparr>prof = example_profile 7 (\<lambda>_. 1), world = (\<lambda>_. 0)\<rparr>) = SMBUS_NUM_NON_ARP_INSTANCES"
    by (simp add: example_candidates)
qed (simp add: inst_def example_profile_def)

end
