(* ===== verification/SMBus_Recovery.thy ===== *)
theory SMBus_Recovery
  imports SMBus_FSM_Runs SMBus_Arbitration
begin

text \<open>
  Recovery from an error: handling an error event always returns and brings the instance to
  the initial state with its transaction cleared, in each of the fifteen states.  The one
  thing needed of the hardware is that reading a receive FIFO takes an element out of it, so
  that the loops that drain it come to an end.
\<close>

section \<open>Draining a FIFO\<close>

text \<open>
  A receive FIFO seen through its two registers: \<open>level\<close> is the number of its elements, the
  lowest bit of the status register says that there is none, and a read of the payload
  register removes one.  Reading the status and the clock leaves it alone.
\<close>

definition rx_fifo :: "'w smbus_env \<Rightarrow> ('w \<Rightarrow> nat) \<Rightarrow> u64 \<Rightarrow> u64 \<Rightarrow> bool" where
  "rx_fifo E level status payload \<longleftrightarrow>
     (\<forall>w. (fst (env_in32 E status w) AND 1 = 0) = (0 < level w)) \<and>
     (\<forall>w. level (snd (env_in32 E status w)) = level w) \<and>
     (\<forall>w. level (snd (env_in32 E payload w)) = level w - 1) \<and>
     (\<forall>f w. level (snd (env_read_ticks E f w)) = level w)"

lemma log_add_level:
  assumes "\<And>f w. level (snd (env_read_ticks E f w)) = level w" and "vLogAddEntry E l n ev a b s = Some s'"
  shows "level (world s') = level (world s)"
  using assms(2)
  by (auto simp: vLogAddEntry_def Let_def split: if_splits option.splits prod.splits bind_splits) (metis assms(1) snd_conv)

lemma read_field_level:
  assumes t: "\<And>f w. level (snd (env_read_ticks E f w)) = level w" and L: "log_inv s"
  shows "okay (read_field E off m pos s) (\<lambda>(v, s'). logged s s' \<and>
     v = drop_bit pos (fst (env_in32 E (hw_address s off) (world s)) AND m) \<and>
     level (world s') = level (snd (env_in32 E (hw_address s off) (world s))))"
proof -
  obtain v w where r: "env_in32 E (hw_address s off) (world s) = (v, w)" by fastforce
  have "log_inv (s\<lparr>world := w\<rparr>)" using L by simp
  then obtain s' where s': "vLogAddEntry E SMBUS_LOG_LEVEL_DEBUG SMBUS_INSTANCE_UNDETERMINED
      SMBUS_LOG_EVENT_HW_READ off v (s\<lparr>world := w\<rparr>) = Some s'" "log_only s s'" "log_inv s'"
    using okayE [OF log_add_okay] by (metis log_only_world(2))
  show ?thesis
    using log_add_level [OF t s'(1)] s' r
    by (simp add: read_field_def prvulSMBusHardwareRead_def logged_def)
qed

text \<open>The two drains are the same loop over different registers.\<close>

lemma drain_loop:
  assumes unfold: "\<And>s. D s = Option.bind (read_field E st 1 0 s) (\<lambda>r. if fst r = 0
      then Option.bind (read_field E pl 0xFF 0 (snd r)) (\<lambda>q. D (snd q)) else Some (snd r))"
    and F: "rx_fifo E level (hw_address s st) (hw_address s pl)" and L: "log_inv s"
  shows "okay (D s) (logged s)"
  using F L
proof (induction "level (world s)" arbitrary: s rule: less_induct)
  case less
  have t: "\<And>f w. level (snd (env_read_ticks E f w)) = level w" using less.prems(1) by (simp add: rx_fifo_def)
  obtain v u where u: "read_field E st 1 0 s = Some (v, u)" "logged s u"
    "v = drop_bit 0 (fst (env_in32 E (hw_address s st) (world s)) AND 1)" "level (world u) = level (world s)"
    using read_field_level [OF t less.prems(2), of st 1 0] less.prems(1) by (auto simp: okay_iff rx_fifo_def)
  have a: "hw_address u off = hw_address s off" for off
    using u(2) by (simp add: logged_def hw_address_log_only)
  show ?case
  proof (cases "v = 0")
    case False
    then show ?thesis using u by (simp add: unfold [of s])
  next
    case True
    obtain x q where q: "read_field E pl 0xFF 0 u = Some (x, q)" "logged u q" "level (world q) = level (world s) - 1"
      using read_field_level [OF t loggedD(1) [OF u(2)], of pl "0xFF" 0] less.prems(1) u(4)
      by (auto simp: okay_iff rx_fifo_def a)
    have "0 < level (world s)" using True u(3) less.prems(1) by (simp add: rx_fifo_def)
    then have "okay (D q) (logged q)"
      using less.prems(1) q loggedD(1) [OF q(2)] a hw_address_log_only [of u q]
      by (intro less.hyps) (auto simp: logged_def)
    then show ?thesis
      using u(1) q(1) True logged_trans [OF u(2) q(2)]
      by (simp add: unfold [of s]) (auto elim!: okay_weaken intro: logged_trans)
  qed
qed

text \<open>Both FIFOs of the instance's profile.\<close>

definition rx_fifos :: "'w smbus_env \<Rightarrow> ('w \<Rightarrow> nat) \<Rightarrow> ('w \<Rightarrow> nat) \<Rightarrow> u64 \<Rightarrow> bool" where
  "rx_fifos E tgt ctrl base \<longleftrightarrow>
     rx_fifo E tgt (base + 0x610) (base + 0x60C) \<and> rx_fifo E ctrl (base + 0xA14) (base + 0xA10)"

lemma drains_total:
  assumes "rx_fifos E tgt ctrl (pvBaseAddr (prof s))" and "log_inv s"
  shows "okay (drain_tgt E s) (logged s)" and "okay (drain_ctrl E s) (logged s)"
  using drain_loop [OF drain_tgt.simps [of E, unfolded ulSMBusHWReadTgtRxFifoStatusEmpty_def ulSMBusHWReadTgtRxFifoPayload_def], of tgt s]
    drain_loop [OF drain_ctrl.simps [of E, unfolded ulSMBusHWReadCtrlRxFifoStatusEmpty_def ulSMBusHWReadCtrlRxFifoPayload_def], of ctrl s]
    assms by (simp_all add: rx_fifos_def hw_address_def)

section \<open>The reset of a transaction\<close>

text \<open>\<open>changed i f s s'\<close>: instance \<open>i\<close> was changed by \<open>f\<close>, the others not at all, and the log is in order.\<close>

definition changed :: "nat \<Rightarrow> (SMBus_Instance \<Rightarrow> SMBus_Instance) \<Rightarrow> 'w smbus_st \<Rightarrow> 'w smbus_st \<Rightarrow> bool" where
  "changed i f s s' \<longleftrightarrow> xSMBusInstance (prof s') = (xSMBusInstance (prof s))(i := f (inst i s)) \<and>
     log_inv s' \<and> pvBaseAddr (prof s') = pvBaseAddr (prof s)"

lemma changed_logged: "changed i f s t \<Longrightarrow> logged t u \<Longrightarrow> changed i f s u"
  by (auto simp: changed_def logged_def log_onlyD)

lemma logged_changed: "logged s t \<Longrightarrow> changed i f t u \<Longrightarrow> changed i f s u"
  using log_onlyD [of s t] by (auto simp: changed_def logged_def)

lemma logged_writes:
  "log_inv s \<Longrightarrow> okay (vSMBusHWWriteCtrlRxFifoReset E v s) (logged s)"
  "log_inv s \<Longrightarrow> okay (vSMBusHWWriteCtrlDescFifoReset E v s) (logged s)"
  "log_inv s \<Longrightarrow> okay (vSMBusHWWriteTgtRxFifoReset E v s) (logged s)"
  by (simp_all add: quiet_logged)

lemma reset_total:
  assumes F: "rx_fifos E tgt ctrl (pvBaseAddr (prof s))" and L: "log_inv s"
  shows "okay (vSMBusHandleActionResetAllData E i s) (changed i reset_data s)"
proof -
  let ?s = "upd_inst i reset_data s"
  have prof_part: "changed i reset_data s u"
    if "logged ?s t" and "logged (upd_prof f t) u" and "\<And>p. xSMBusInstance (f p) = xSMBusInstance p \<and> pvBaseAddr (f p) = pvBaseAddr p"
    for f t u
    using that log_onlyD(4,9) [of ?s t] log_onlyD(4,9) [of "upd_prof f t" u]
    by (simp add: changed_def logged_def upd_prof_def upd_inst_def inst_def)
  have base: "rx_fifos E tgt ctrl (pvBaseAddr (prof t))" "log_inv t" if "logged ?s t" for t
    using F that log_onlyD(4) [of ?s t] by (simp_all add: logged_def)
  show ?thesis
    unfolding vSMBusHandleActionResetAllData_def Let_def
  proof (rule okay_logged [OF dbg_logged])
    show "log_inv ?s" using L by simp
    fix t assume t: "logged ?s t"
    let ?c = "upd_prof (\<lambda>p. p\<lparr>ucInstanceInPlay := SMBUS_INVALID_INSTANCE\<rparr>) t"
    let ?g = "upd_prof (\<lambda>p. p\<lparr>ucActiveTargetInstance := SMBUS_INVALID_INSTANCE\<rparr>) t"
    have up: "rx_fifos E tgt ctrl (pvBaseAddr (prof (upd_prof f t)))" "log_inv (upd_prof f t)"
      if "\<And>p. pvBaseAddr (f p) = pvBaseAddr p \<and> xLogCircularBuf (f p) = xLogCircularBuf p" for f
      using base [OF t] that by (simp_all add: upd_prof_def log_inv_def)
    have c: "okay (do { s \<leftarrow> drain_ctrl E ?c; s \<leftarrow> vSMBusHWWriteCtrlRxFifoReset E 1 s; vSMBusHWWriteCtrlDescFifoReset E 1 s })
        (changed i reset_data s)"
      by (rule okay_logged [OF drains_total(2) [OF up]], simp, simp, rule okay_logged [OF logged_writes(1) [OF loggedD(1)]],
          assumption, rule okay_weaken [OF logged_writes(2) [OF loggedD(1)]], assumption,
          rule prof_part [OF t, of "\<lambda>p. p\<lparr>ucInstanceInPlay := SMBUS_INVALID_INSTANCE\<rparr>"],
          rule logged_trans [OF logged_trans], assumption+, simp)
    have g: "okay (do { s \<leftarrow> drain_tgt E ?g; vSMBusHWWriteTgtRxFifoReset E 1 s }) (changed i reset_data s)"
      by (rule okay_logged [OF drains_total(1) [OF up]], simp, simp,
          rule okay_weaken [OF logged_writes(3) [OF loggedD(1)]], assumption,
          rule prof_part [OF t, of "\<lambda>p. p\<lparr>ucActiveTargetInstance := SMBUS_INVALID_INSTANCE\<rparr>"],
          rule logged_trans, assumption+, simp)
    show "okay (if ucThisInstanceNum (inst i t) = ucInstanceInPlay (prof t)
        then do { s \<leftarrow> drain_ctrl E ?c; s \<leftarrow> vSMBusHWWriteCtrlRxFifoReset E 1 s; vSMBusHWWriteCtrlDescFifoReset E 1 s }
        else do { s \<leftarrow> drain_tgt E ?g; vSMBusHWWriteTgtRxFifoReset E 1 s }) (changed i reset_data s)"
      using c g by simp
  qed
qed

section \<open>Recovery\<close>

text \<open>The instance after its recovery.\<close>

definition to_initial_data :: "SMBus_Instance \<Rightarrow> SMBus_Instance" where
  "to_initial_data x = (reset_data x)\<lparr>xPreviousState := xState x, xState := SMBUS_STATE_INITIAL\<rparr>"

definition recovered :: "u8 \<Rightarrow> SMBus_Instance \<Rightarrow> SMBus_Instance" where
  "recovered ev x = to_initial_data (x\<lparr>ulAction := 0, ucEvent := ev\<rparr>)"

lemma to_initial_total:
  assumes "rx_fifos E tgt ctrl (pvBaseAddr (prof s))" and "log_inv s"
  shows "okay (to_initial E i s) (changed i to_initial_data s)"
  unfolding to_initial_def
  by (rule okay_bind [OF reset_total [OF assms]])
    (auto simp: changed_def vSMBusNextStateDecoder_def upd_inst_def inst_def to_initial_data_def reset_data_def log_inv_def)

lemma callbacks_world:
  "prof (vSMBusHandleActionBusError E i ev s) = prof s" "prof (announce E i n s) = prof s"
  by (simp_all add: vSMBusHandleActionBusError_def announce_def vSMBusHandleActionAnnounceResultToApplication_def
      Let_def split: option.split)

lemma changed_prof: "prof t = prof s \<Longrightarrow> changed i f t u = changed i f s u"
  by (simp add: changed_def inst_def)

lemma errors_total:
  assumes "rx_fifos E tgt ctrl (pvBaseAddr (prof s))" and "log_inv s"
  shows "okay (target_error E i ev s) (changed i to_initial_data s)"
    and "okay (controller_error E i ev s) (changed i to_initial_data s)"
proof -
  have "okay (to_initial E i t) (changed i to_initial_data s)" if "prof t = prof s" for t
    by (rule okay_weaken [OF to_initial_total [of E tgt ctrl t i]])
      (use assms that changed_prof [OF that] in \<open>simp_all add: log_inv_def\<close>)
  then show "okay (target_error E i ev s) (changed i to_initial_data s)"
    and "okay (controller_error E i ev s) (changed i to_initial_data s)"
    by (simp_all add: target_error_def controller_error_def callbacks_world)
qed

lemma log_dbg_total:
  assumes "log_inv s"
  shows "okay (log_dbg_states E i a b s) (logged s)"
proof -
  have rd: "okay (case r of (d, u) \<Rightarrow> dbg E i d n u) (logged s)" if "case r of (d, u) \<Rightarrow> logged t u" "logged s t" for r n t
    using that by (cases r) (auto intro!: okay_weaken [OF dbg_logged] dest: loggedD(1) intro: logged_trans)
  have one: "okay (do { (d, s) \<leftarrow> ulSMBusHWReadCtrlDbgState E t; dbg E i d n s }) (logged s)" if "logged s t" for n t
    by (rule okay_bind [OF quietv_logged [OF dbg_reads_quiet(2) loggedD(1) [OF that]]]) (rule rd [OF _ that])
  show ?thesis
    unfolding log_dbg_states_def
    by (rule okay_bind [OF quietv_logged [OF dbg_reads_quiet(1) assms]], clarsimp, rule okay_dbg, assumption, rule one)
qed

lemma error_cases_error:
  "target_error_event ev \<Longrightarrow> error_cases E i ev s rest = target_error E i ev s"
  "controller_error_event ev \<Longrightarrow> error_cases E i ev s rest = controller_error E i ev s"
  by (auto simp: error_cases_def event_group_defs)

lemma other_error_handlers:
  assumes "target_error_event ev \<or> controller_error_event ev"
  shows "vDefaultSMBusFSMSMBusStateAwaitingDone E i ev s = controller_error E i ev s"
    and "vDefaultSMBusFSMSMBusStateControllerReadBlockSize E i ev s =
      (if target_error_event ev then target_error E i ev s else crbs_error E i ev s)"
proof -
  have ne: "(ev = E_CONTROLLER_DESC_FIFO_ALMOST_EMPTY_IRQ) = False" "(ev = E_DESC_FIFO_ALMOST_EMPTY_IRQ) = False"
    "bus_warning_event ev = False"
    using assms by (auto simp: event_group_defs)
  show "vDefaultSMBusFSMSMBusStateAwaitingDone E i ev s = controller_error E i ev s"
    using assms unfolding vDefaultSMBusFSMSMBusStateAwaitingDone_def ne if_False by (cases "target_error_event ev") simp_all
  show "vDefaultSMBusFSMSMBusStateControllerReadBlockSize E i ev s =
      (if target_error_event ev then target_error E i ev s else crbs_error E i ev s)"
    using assms unfolding vDefaultSMBusFSMSMBusStateControllerReadBlockSize_def ne if_False
    by (cases "target_error_event ev") simp_all
qed

lemmas handler_defs =
  vDefaultSMBusFSMSMBusStateInitial_def vDefaultSMBusFSMSMBusStateAwaitingCommandByte_def
  vDefaultSMBusFSMSMBusStateAwaitingBlockSize_def vDefaultSMBusFSMSMBusStateAwaitingData_def
  vDefaultSMBusFSMSMBusStateAwaitingRead_def vDefaultSMBusFSMSMBusStateReadyToSendByte_def
  vDefaultSMBusFSMSMBusStateCheckIfPECRequired_def
  vDefaultSMBusFSMSMBusStateControllerSendCommand_def vDefaultSMBusFSMSMBusStateControllerSendReadStart_def
  vDefaultSMBusFSMSMBusStateControllerReadByte_def
  vDefaultSMBusFSMSMBusStateControllerReadPEC_def vDefaultSMBusFSMSMBusStateControllerReadDone_def
  vDefaultSMBusFSMSMBusStateControllerWriteByte_def

lemma error_handlers:
  assumes "target_error_event ev \<or> controller_error_event ev"
  shows "fsm_handler c E i ev s \<in> {target_error E i ev s, controller_error E i ev s, crbs_error E i ev s}"
  using assms
proof
  assume "target_error_event ev"
  then show ?thesis
    by (cases c) (simp_all only: fsm_handler_def SMBUS_STATE.case handler_defs error_cases_error
      other_error_handlers simp_thms if_True insert_iff)
next
  assume "controller_error_event ev"
  then show ?thesis
    using other_error_handlers [OF assms, of E i s]
    by (cases c) (simp_all only: fsm_handler_def SMBUS_STATE.case handler_defs error_cases_error
      simp_thms insert_iff split: if_split)
qed

lemma crbs_error_total:
  assumes "rx_fifos E tgt ctrl (pvBaseAddr (prof s))" and "log_inv s"
  shows "okay (crbs_error E i ev s) (changed i to_initial_data s)"
proof -
  have "okay (do { u \<leftarrow> controller_error E i ev t; log_dbg_states E i 2958 2961 u }) (changed i to_initial_data s)"
    if t: "logged s t" for t
  proof (rule okay_bind [OF errors_total(2)])
    show "rx_fifos E tgt ctrl (pvBaseAddr (prof t))" "log_inv t"
      using t assms(1) log_onlyD(4) [of s t] by (simp_all add: logged_def)
    fix u assume u: "changed i to_initial_data t u"
    then have "log_inv u" by (simp add: changed_def)
    then show "okay (log_dbg_states E i 2958 2961 u) (changed i to_initial_data s)"
      by (rule okay_weaken [OF log_dbg_total]) (rule changed_logged [OF logged_changed [OF t u]])
  qed
  then show ?thesis
    unfolding crbs_error_def by (rule okay_logged [OF log_dbg_total [OF assms(2)]])
qed

text \<open>
  C13: Every error event is survived, in every state.  Provided that reading the receive FIFOs
  empties them and the log index is inside the log, handling one of the twenty-two error
  events returns, leaves the instance in the initial state with the data of its transaction
  cleared and nothing else of it changed, and does not touch the other instances.
\<close>

theorem fsm_error_recovers:
  assumes "rx_fifos E tgt ctrl (pvBaseAddr (prof s))" and "log_inv s"
    and "target_error_event ev \<or> controller_error_event ev"
  shows "okay (vSMBusFSM E i ev s) (\<lambda>s'. log_inv s' \<and>
    xSMBusInstance (prof s') = (xSMBusInstance (prof s))(i := recovered ev (inst i s)))"
proof -
  let ?f = "\<lambda>x. x\<lparr>ulAction := 0, ucEvent := ev\<rparr>"
  let ?t = "upd_inst i (\<lambda>x. x\<lparr>ucEvent := ev\<rparr>) (vSMBusClearAction i s)"
  have L: "logged ?t ?t" using assms(2) by (simp add: logged_def vSMBusClearAction_def)
  have T: "pvBaseAddr (prof ?t) = pvBaseAddr (prof s)" "inst i ?t = ?f (inst i s)"
    "xSMBusInstance (prof ?t) = (xSMBusInstance (prof s))(i := ?f (inst i s))"
    by (simp_all add: vSMBusClearAction_def upd_inst_def inst_def)
  have "okay (fsm_handler c E i ev u) (changed i to_initial_data u)" if u: "logged ?t u" for c u
  proof -
    have "rx_fifos E tgt ctrl (pvBaseAddr (prof u))" "log_inv u"
      using u assms(1) log_onlyD(4) [of ?t u] T(1) by (simp_all add: logged_def)
    with error_handlers [OF assms(3), of c E i u] errors_total [of E tgt ctrl u i ev] crbs_error_total [of E tgt ctrl u i ev]
    show ?thesis by auto
  qed
  then have H: "okay (fsm_handler c E i ev u) (\<lambda>s'. log_inv s' \<and>
      xSMBusInstance (prof s') = (xSMBusInstance (prof s))(i := recovered ev (inst i s)))" if u: "logged ?t u" for c u
    by (rule okay_weaken) (use u T(2,3) loggedD [OF u] in \<open>auto simp: changed_def recovered_def\<close>)
  show ?thesis
    unfolding vSMBusFSM_def Let_def by (rule okay_dbg [OF L], rule okay_dbg, assumption, rule H)
qed

text \<open>Hardware with a receive FIFO of the target: the world is its level.\<close>

definition fifo_env :: "nat smbus_env" where
  "fifo_env = \<lparr>env_in32 = (\<lambda>a n. if a = 0x610 then (if n = 0 then 1 else 0, n) else if a = 0x60C then (0xAB, n - 1)
       else if a = 0xA14 then (1, n) else (0, n)), env_out32 = (\<lambda>a v n. n),
     env_read_ticks = (\<lambda>f n. (0, n)), env_get_protocol = (\<lambda>f c n. (SMBUS_PROTOCOL_NONE, n)),
     env_get_data = (\<lambda>f c b n. (b, 0, n)), env_write_data = (\<lambda>f c b k t n. n),
     env_announce = (\<lambda>f c t k n. n), env_arp_addr = (\<lambda>f c n. n), env_bus_error = (\<lambda>f e n. n),
     env_bus_warning = (\<lambda>f e n. n), env_i2c_get_data = (\<lambda>f b n. (b, 0, n)),
     env_i2c_write_data = (\<lambda>f b k n. n), env_i2c_announce = (\<lambda>f k n. n)\<rparr>"

theorem fsm_error_recovers_witness:
  "okay (vSMBusFSM fifo_env 2 E_TARGET_PEC_ERROR_IRQ
       \<lparr>prof = zero_profile\<lparr>xSMBusInstance := (\<lambda>_. zero_instance\<lparr>xState := SMBUS_STATE_AWAITING_DATA, usReceiveIndex := 7\<rparr>)\<rparr>,
        world = 5\<rparr>)
     (\<lambda>s'. xState (inst 2 s') = SMBUS_STATE_INITIAL \<and> usReceiveIndex (inst 2 s') = 0 \<and>
        xState (inst 3 s') = SMBUS_STATE_AWAITING_DATA)"
proof -
  let ?s = "\<lparr>prof = zero_profile\<lparr>xSMBusInstance := (\<lambda>_. zero_instance\<lparr>xState := SMBUS_STATE_AWAITING_DATA, usReceiveIndex := 7\<rparr>)\<rparr>,
    world = 5\<rparr> :: nat smbus_st"
  have "rx_fifos fifo_env id (\<lambda>_. 0) (pvBaseAddr (prof ?s))"
    by (simp add: rx_fifos_def rx_fifo_def fifo_env_def zero_profile_def)
  moreover have "log_inv ?s" by (simp add: log_inv_def zero_profile_def)
  moreover have "target_error_event E_TARGET_PEC_ERROR_IRQ \<or> controller_error_event E_TARGET_PEC_ERROR_IRQ"
    by (simp add: target_error_event_def)
  ultimately show ?thesis
    by (rule okay_weaken [OF fsm_error_recovers])
      (simp add: inst_def recovered_def to_initial_data_def reset_data_def)
qed

end
