(* ===== verification/SMBus_Table.thy ===== *)
theory SMBus_Table
  imports SMBus_Devices SMBus_Recovery
begin

text \<open>
  The instance table: initialisation establishes its invariant \<open>table_ok\<close>, and every sequence
  of creations and destructions of SMBus instances and I2C devices returns and keeps it.
\<close>

section \<open>Stepping through an operation\<close>

text \<open>\<open>tab T s\<close>: the table is \<open>T\<close> and the log is in order.\<close>

definition tab :: "(nat \<Rightarrow> SMBus_Instance) \<Rightarrow> 'w smbus_st \<Rightarrow> bool" where
  "tab T s \<longleftrightarrow> instances s = T \<and> log_inv s"

lemma tabD: "tab T s \<Longrightarrow> inst i s = T i" "tab T s \<Longrightarrow> instances s = T" "tab T s \<Longrightarrow> log_inv s"
  by (simp_all add: tab_def inst_def)

lemma tab_logged: "tab T s \<Longrightarrow> logged s t \<Longrightarrow> tab T t"
  using log_onlyD(9) [of s t] by (simp add: tab_def logged_def)

lemma tab_quiet:
  "quiet m \<Longrightarrow> tab T s \<Longrightarrow> (\<And>t. tab T t \<Longrightarrow> okay (f t) Q) \<Longrightarrow> okay (Option.bind (m s) f) Q"
  by (rule okay_bind [OF quiet_logged [OF _ tabD(3)]]) (auto intro: tab_logged)

lemma tab_quietv:
  "quietv m \<Longrightarrow> tab T s \<Longrightarrow> (\<And>v t. tab T t \<Longrightarrow> okay (f (v, t)) Q) \<Longrightarrow> okay (Option.bind (m s) f) Q"
  by (rule okay_bind [OF quietv_logged [OF _ tabD(3)]]) (auto intro: tab_logged)

lemma tab_last: "quiet m \<Longrightarrow> tab T s \<Longrightarrow> okay (m s) (tab T)"
  using quiet_logged [of m s] tabD(3) [of T s] by (auto elim!: okay_weaken intro: tab_logged)

lemma tab_upd [simp]: "tab T s \<Longrightarrow> tab (T(i := f (T i))) (upd_inst i f s)"
  by (simp add: tab_def upd_inst_def log_inv_def)

lemma tab_edit:
  assumes "tab T s" and "okay (f (T i)) P" and "\<And>y t. P y \<Longrightarrow> tab (T(i := y)) t \<Longrightarrow> okay (g t) Q"
  shows "okay (Option.bind (edit_inst i f s) g) Q"
proof -
  obtain y where y: "f (T i) = Some y" "P y" using assms(2) by (rule okayE)
  have "tab (T(i := y)) (upd_inst i (\<lambda>_. y) s)" using tab_upd [OF assms(1), of i "\<lambda>_. y"] by simp
  with y show ?thesis using assms(3) tabD(1) [OF assms(1)] by (simp add: edit_inst_def)
qed

lemma release_quiet [simp]: "quiet (release_address E i)" and drv_error_quiet [simp]: "quiet (drv_error E l)"
  and drv_info_quiet [simp]: "quiet (drv_info E v l)"
  unfolding release_address_def [abs_def] drv_error_def [abs_def] drv_info_def [abs_def] by auto

lemma firewall_tab: "tab T s \<Longrightarrow> (\<And>i. i < 8 \<Longrightarrow> firewall_intact (T i)) \<Longrightarrow> guarded E l r s act = act"
  by (auto simp: guarded_def xSMBusFirewallCheck_def list_all_iff tabD(1))

section \<open>Entries\<close>

lemma empty_queue_ok:
  assumes "length (pxEventBuf (xEventSrcCircularBuf x)) = 300"
  shows "okay (empty_queue x) (\<lambda>y. \<exists>b. y = x\<lparr>xEventSrcCircularBuf := b\<rparr> \<and> ev_inv b \<and> ev_contents b = [] \<and>
    ulMaxElements b = SMBUS_MAX_EVENT_ELEMENTS)"
proof -
  have "okay (vEventBufferInitialize (xEventSrcCircularBuf x) (pxEventBuf (xEventSrcCircularBuf x)) 300)
      (\<lambda>c. ev_inv c \<and> ev_contents c = [] \<and> ev_cap c = 300)"
    using initialize_ok [of 300 "pxEventBuf (xEventSrcCircularBuf x)" "xEventSrcCircularBuf x"] assms by simp
  moreover have "ev_cap c = 300 \<Longrightarrow> ulMaxElements c = 300" for c
    unfolding ev_cap_def by (simp add: word_unat_eq_iff)
  ultimately show ?thesis by (auto simp: empty_queue_def okay_bind_iff elim!: okay_weaken)
qed

lemma entry_queue: "entry_ok i x \<Longrightarrow> length (pxEventBuf (xEventSrcCircularBuf x)) = 300"
  by (simp add: entry_ok_def ev_inv_def)

definition idle_entry :: "nat \<Rightarrow> SMBus_Instance \<Rightarrow> bool" where
  "idle_entry i x \<longleftrightarrow> entry_ok i x \<and> ucInstanceInUse x = SMBUS_FALSE \<and> ev_contents (xEventSrcCircularBuf x) = [] \<and>
     xARPCapability x = SMBUS_ARP_CAPABILITY_UNKNOWN"

lemma cleared_ok:
  assumes "length (pxEventBuf (xEventSrcCircularBuf x)) = 300" and "firewall_intact x"
    and "ucInstanceInUse x = SMBUS_FALSE" and "xARPCapability x = SMBUS_ARP_CAPABILITY_UNKNOWN"
  shows "okay (map_option clear_stats (empty_queue x)) (idle_entry i)"
proof -
  obtain b where "empty_queue x = Some (x\<lparr>xEventSrcCircularBuf := b\<rparr>)" "ev_inv b" "ev_contents b = []"
      "ulMaxElements b = SMBUS_MAX_EVENT_ELEMENTS"
    using empty_queue_ok [OF assms(1)] by (auto elim!: okayE)
  then show ?thesis
    using assms by (simp add: idle_entry_def entry_ok_def firewall_intact_def clear_stats_def)
qed

lemma old_ok:
  assumes "length (pxEventBuf (xEventSrcCircularBuf x)) = 300"
  shows "okay (old_instance x) (idle_entry i)" and "okay (old_arp_instance x) (idle_entry i)"
    and "okay (old_device x) (idle_entry i)" and "okay (init_instance x) (idle_entry i)"
  unfolding old_instance_def old_arp_instance_def old_device_def init_instance_def
  by (rule cleared_ok; simp add: assms firewall_intact_def)+

section \<open>The invariant\<close>

lemma table_entry: "table_ok T \<Longrightarrow> i < 8 \<Longrightarrow> entry_ok i (T i)"
  by (simp add: table_ok_def)

lemma table_firewall: "table_ok T \<Longrightarrow> i < 8 \<Longrightarrow> firewall_intact (T i)"
  using table_entry [of T i] by (simp add: entry_ok_def)

text \<open>A device goes out of use; the ARP entry goes out of use when no device needs it.\<close>

lemma table_remove:
  assumes T: "table_ok T" and i: "i < 7" and y: "idle_entry i y"
  shows "table_ok (T(i := y))"
proof -
  have d: "device (T(i := y)) j \<longleftrightarrow> j \<noteq> i \<and> device T j" for j
    using y by (auto simp: device_def idle_entry_def)
  have "addresses_ok (T(i := y))" using T unfolding table_ok_def addresses_ok_def d by auto
  moreover have "arp_ok (T(i := y))" using T i unfolding table_ok_def arp_ok_def arp_device_def d by auto
  ultimately show ?thesis using T y by (simp add: table_ok_def idle_entry_def)
qed

lemma table_remove_arp:
  assumes T: "table_ok T" and y: "idle_entry 7 y" and none: "\<And>i. \<not> arp_device T i"
  shows "table_ok (T(7 := y))"
proof -
  have d: "device (T(7 := y)) j = device T j" for j by (simp add: device_def)
  have "addresses_ok (T(7 := y))" using T unfolding table_ok_def addresses_ok_def d by (auto simp: device_def)
  moreover have "arp_ok (T(7 := y))"
    using none unfolding arp_ok_def arp_device_def d by (auto simp: device_def)
  ultimately show ?thesis using T y by (simp add: table_ok_def idle_entry_def)
qed

lemma table_add:
  assumes T: "table_ok T" and i: "i < 7" and y: "entry_ok i y"
    and addr: "xARPCapability y = SMBUS_ARP_CAPABLE \<or> (\<forall>j. device T j \<longrightarrow> j \<noteq> i \<longrightarrow> ucSMBusAddr (T j) \<noteq> ucSMBusAddr y)"
    and arp: "ulI2CDevice y = 0 \<and> xARPCapability y \<noteq> SMBUS_ARP_NON_ARP_CAPABLE \<Longrightarrow>
      ucInstanceInUse (T 7) = SMBUS_TRUE"
  shows "table_ok (T(i := y))"
proof -
  have "addresses_ok (T(i := y))"
    using T addr by (auto simp: table_ok_def addresses_ok_def device_def)
  moreover have "arp_ok (T(i := y))"
    using T i arp by (auto simp: table_ok_def arp_ok_def arp_device_def device_def)
  ultimately show ?thesis using T y by (simp add: table_ok_def)
qed

lemma table_add_arp:
  assumes T: "table_ok T" and y: "entry_ok 7 y" and "ucInstanceInUse y = SMBUS_TRUE"
  shows "table_ok (T(7 := y))"
proof -
  have d: "device (T(7 := y)) j = device T j" for j by (simp add: device_def)
  have "addresses_ok (T(7 := y))" using T unfolding table_ok_def addresses_ok_def d by (auto simp: device_def)
  moreover have "arp_ok (T(7 := y))" using assms(3) by (simp add: arp_ok_def)
  ultimately show ?thesis using T y by (simp add: table_ok_def)
qed

section \<open>The operations keep it\<close>

definition good :: "'w smbus_st \<Rightarrow> bool" where
  "good s \<longleftrightarrow> table_ok (instances s) \<and> log_inv s"

lemma good_tab: "good s \<Longrightarrow> tab (instances s) s"
  by (simp add: good_def tab_def)

lemma tab_good: "tab T s \<Longrightarrow> table_ok T \<Longrightarrow> good s"
  by (simp add: good_def tab_def)

lemma find_entry: "find P [0..<n] = Some i \<Longrightarrow> i < n \<and> P i" for i n :: nat
  by (auto simp: find_Some_iff)

lemma free_entry_tab: "tab T s \<Longrightarrow> free_entry s = Some i \<Longrightarrow> i < 7 \<and> ucInstanceInUse (T i) = SMBUS_FALSE"
  using find_entry [of "\<lambda>i. ucInstanceInUse (inst i s) = SMBUS_FALSE" 7 i] by (simp add: free_entry_def tabD(1))

lemma address_free_tab: "tab T s \<Longrightarrow> address_free a s \<Longrightarrow> device T j \<Longrightarrow> ucSMBusAddr (T j) \<noteq> a"
  by (auto simp: address_free_def list_all_iff tabD(1) device_def)

lemma new_entries:
  assumes "entry_ok i x"
  shows "entry_ok i (new_instance i addr udid cap cb simple x)" and "entry_ok i (new_device i addr dcb x)"
    and "i = 7 \<Longrightarrow> entry_ok 7 (new_arp_instance x)"
  using assms by (simp_all add: entry_ok_def firewall_intact_def new_instance_def new_device_def new_arp_instance_def)

lemma add_instance_tab:
  fixes s :: "'w smbus_st"
  assumes T: "tab T s" and i: "i < 7"
  shows "okay (add_instance E i addr udid cap cb simple s)
    (tab ((if ucInstanceInUse (T 7) = SMBUS_FALSE \<and> cap \<noteq> SMBUS_ARP_NON_ARP_CAPABLE then T(7 := new_arp_instance (T 7)) else T)
      (i := new_instance i addr udid cap cb simple (T i))))"
proof -
  let ?y = "new_instance i addr udid cap cb simple (T i)"
  have arp: "okay (add_arp_instance E cap u)
      (tab ((if ucInstanceInUse (T 7) = SMBUS_FALSE \<and> cap \<noteq> SMBUS_ARP_NON_ARP_CAPABLE then T(7 := new_arp_instance (T 7)) else T)
        (i := ?y)))" if u: "tab (T(i := ?y)) u" for u
  proof (cases "ucInstanceInUse (T 7) = SMBUS_FALSE \<and> cap \<noteq> SMBUS_ARP_NON_ARP_CAPABLE")
    case True
    have v: "tab (T(7 := new_arp_instance (T 7), i := ?y)) (upd_inst 7 new_arp_instance u)"
      using tab_upd [OF u, of 7 new_arp_instance] i by (simp add: fun_upd_twist)
    with True i tabD(1) [OF u, of 7] show ?thesis
      unfolding add_arp_instance_def Let_def by (auto intro!: tab_quiet [OF _ v] tab_last)
  next
    case False
    with i tabD(1) [OF u, of 7] u show ?thesis by (auto simp: add_arp_instance_def)
  qed
  have c: "xARPCapability ?y = cap" by (simp add: new_instance_def)
  have v: "tab (T(i := ?y)) (upd_inst i (new_instance i addr udid cap cb simple) s)" using tab_upd [OF T] .
  show ?thesis
    unfolding add_instance_def Let_def
  proof (rule tab_quiet [OF tgt_control_quiet(1) v])
    fix t :: "'w smbus_st"
    assume t: "tab (T(i := ?y)) t"
    show "okay (do {
         s \<leftarrow> (if xARPCapability (inst i t) \<noteq> SMBUS_ARP_CAPABLE then vSMBusHWWriteTgtControlEnable E (of_nat i) 1 t else Some t);
         add_arp_instance E cap s })
       (tab ((if ucInstanceInUse (T 7) = SMBUS_FALSE \<and> cap \<noteq> SMBUS_ARP_NON_ARP_CAPABLE then T(7 := new_arp_instance (T 7)) else T)
         (i := ?y)))"
      using arp [OF t] tab_quiet [OF tgt_control_quiet(2) [of E "of_nat i" 1] t arp]
      by (cases "cap = SMBUS_ARP_CAPABLE") (simp_all add: tabD(1) [OF t] c del: if_split)
  qed
qed

lemma create_good:
  fixes s :: "'w smbus_st"
  assumes "good s"
  shows "okay (ucCreateSMBusInstance E addr udid cap cb simple s) (\<lambda>(r, s'). good s')"
proof -
  let ?T = "instances s"
  note T = good_tab [OF assms]
  have ok: "table_ok ?T" using assms by (simp add: good_def)
  have add: "okay (add_instance E i addr udid cap cb simple s) good"
    if i: "free_entry s = Some i" and a: "cap = SMBUS_ARP_CAPABLE \<or> address_free addr s" for i
  proof -
    note f = free_entry_tab [OF T i]
    let ?R = "if ucInstanceInUse (?T 7) = SMBUS_FALSE \<and> cap \<noteq> SMBUS_ARP_NON_ARP_CAPABLE then ?T(7 := new_arp_instance (?T 7)) else ?T"
    have d: "device ?R j = device ?T j" "device ?T j \<Longrightarrow> ?R j = ?T j" for j by (auto simp: device_def)
    have "table_ok ?R"
      using ok table_add_arp [OF ok new_entries(3) [OF table_entry [OF ok]]] by (auto simp: new_arp_instance_def)
    moreover have "ucInstanceInUse (?T 7) = SMBUS_TRUE \<or> ucInstanceInUse (?T 7) = SMBUS_FALSE"
      using table_entry [OF ok, of 7] by (auto simp: entry_ok_def)
    ultimately have "table_ok (?R(i := new_instance i addr udid cap cb simple (?T i)))"
      using f a d address_free_tab [OF T]
      by (intro table_add new_entries(1) table_entry [OF ok]) (auto simp: new_instance_def new_arp_instance_def)
    with add_instance_tab [OF T conjunct1 [OF f], of E addr udid cap cb simple] show ?thesis
      by (auto elim!: okay_weaken intro: tab_good)
  qed
  have fw: "guarded E l r s act = act" for l r and act :: "(u8 \<times> 'w smbus_st) option"
    by (rule firewall_tab [OF T]) (rule table_firewall [OF ok])
  show ?thesis
    using assms add by (auto simp: ucCreateSMBusInstance_def fw okay_bind_iff split: option.split)
qed

lemma destroy_good:
  fixes s :: "'w smbus_st"
  assumes "good s"
  shows "okay (xDestroySMBusInstance E n s) (\<lambda>(r, s'). good s')"
proof -
  let ?T = "instances s" and ?i = "unat n"
  note T = good_tab [OF assms]
  have ok: "table_ok ?T" using assms by (simp add: good_def)
  have fw: "guarded E l r s act = act" for l r and act :: "(SMBUS_ERROR_TYPE \<times> 'w smbus_st) option"
    by (rule firewall_tab [OF T]) (rule table_firewall [OF ok])
  have arp: "okay (do { u \<leftarrow> (if \<not> arp_needed t then do { u \<leftarrow> release_address E (of_nat 7) t; edit_inst 7 old_arp_instance u } else Some t);
      Some (SMBUS_SUCCESS, u) }) (\<lambda>(r, s'). good s')" if t: "tab R t" and R: "table_ok R" for R t
  proof (cases "arp_needed t")
    case False
    then have none: "\<not> arp_device R i" for i
      using tabD(1) [OF t] by (auto simp: arp_needed_def arp_device_def device_def list_ex_iff)
    have q: "okay (old_arp_instance (R 7)) (idle_entry 7)" by (rule old_ok) (simp add: entry_queue [OF table_entry [OF R]])
    have "okay (do { u \<leftarrow> edit_inst 7 old_arp_instance v; Some (SMBUS_SUCCESS, u) }) (\<lambda>(r, s'). good s')"
      if v: "tab R v" for v
      by (rule tab_edit [where f = old_arp_instance, OF v q]) (simp add: tab_good table_remove_arp [OF R _ none])
    with False show ?thesis by (auto intro!: tab_quiet [OF release_quiet t])
  qed (use t R tab_good in auto)
  have "okay (do { s \<leftarrow> release_address E n s; s \<leftarrow> edit_inst ?i old_instance s;
      s \<leftarrow> (if \<not> arp_needed s then do { s \<leftarrow> release_address E (of_nat 7) s; edit_inst 7 old_arp_instance s } else Some s);
      Some (SMBUS_SUCCESS, s) }) (\<lambda>(r, s'). good s')" if n: "n \<le> 6"
  proof (rule tab_quiet [OF release_quiet T])
    have i: "?i < 7" using n by (simp add: word_le_nat_alt)
    fix t :: "'w smbus_st"
    assume t: "tab ?T t"
    have q: "okay (old_instance (?T ?i)) (idle_entry ?i)"
      by (rule old_ok) (use i entry_queue [OF table_entry [OF ok]] in simp)
    show "okay (do { s \<leftarrow> edit_inst ?i old_instance t;
      s \<leftarrow> (if \<not> arp_needed s then do { s \<leftarrow> release_address E (of_nat 7) s; edit_inst 7 old_arp_instance s } else Some s);
      Some (SMBUS_SUCCESS, s) }) (\<lambda>(r, s'). good s')"
      by (rule tab_edit [where f = old_instance, OF t q]) (rule arp, assumption, rule table_remove [OF ok i])
  qed
  then show ?thesis using assms by (auto simp: xDestroySMBusInstance_def Let_def fw)
qed

lemma i2c_create_good:
  fixes s :: "'w smbus_st"
  assumes "good s"
  shows "okay (ucI2CCreateDevice E addr cb s) (\<lambda>(r, s'). good s')"
proof -
  let ?T = "instances s"
  note T = good_tab [OF assms]
  have ok: "table_ok ?T" using assms by (simp add: good_def)
  have fw: "guarded E l r s act = act" for l r and act :: "(u8 \<times> 'w smbus_st) option"
    by (rule firewall_tab [OF T]) (rule table_firewall [OF ok])
  have "okay (do { s \<leftarrow> vSMBusHWWriteTgtControlAddress E (of_nat i) (ucast addr) (upd_inst i (new_device i addr cb) s);
      s \<leftarrow> vSMBusHWWriteTgtControlEnable E (of_nat i) 1 s; Some (of_nat i :: u8, s) }) (\<lambda>(r, s'). good s')"
    if i: "free_entry s = Some i" and a: "address_free addr s" for i
  proof -
    note f = free_entry_tab [OF T i]
    have R: "table_ok (?T(i := new_device i addr cb (?T i)))"
      using f address_free_tab [OF T a]
      by (intro table_add ok new_entries(2) table_entry [OF ok]) (auto simp: new_device_def)
    show ?thesis
      by (rule tab_quiet [OF tgt_control_quiet(1) tab_upd [OF T]], rule tab_quiet [OF tgt_control_quiet(2)], assumption)
        (simp add: tab_good R)
  qed
  then show ?thesis using assms by (auto simp: ucI2CCreateDevice_def fw split: option.split)
qed

lemma i2c_destroy_good:
  fixes s :: "'w smbus_st"
  assumes "good s"
  shows "okay (ucI2CDestroyDevice E n s) (\<lambda>(r, s'). good s')"
proof -
  let ?T = "instances s" and ?i = "unat n"
  note T = good_tab [OF assms]
  have ok: "table_ok ?T" using assms by (simp add: good_def)
  have fw: "guarded E l r s act = act" for l r and act :: "(SMBUS_ERROR_TYPE \<times> 'w smbus_st) option"
    by (rule firewall_tab [OF T]) (rule table_firewall [OF ok])
  have "okay (do { s \<leftarrow> release_address E n s; s \<leftarrow> edit_inst ?i old_device s; Some (SMBUS_SUCCESS, s) })
      (\<lambda>(r, s'). good s')" if n: "n \<le> 6"
  proof (rule tab_quiet [OF release_quiet T])
    have i: "?i < 7" using n by (simp add: word_le_nat_alt)
    fix t :: "'w smbus_st"
    assume t: "tab ?T t"
    have q: "okay (old_device (?T ?i)) (idle_entry ?i)"
      by (rule old_ok) (use i entry_queue [OF table_entry [OF ok]] in simp)
    show "okay (do { s \<leftarrow> edit_inst ?i old_device t; Some (SMBUS_SUCCESS, s) }) (\<lambda>(r, s'). good s')"
      by (rule tab_edit [where f = old_device, OF t q]) (simp, rule tab_good, assumption, rule table_remove [OF ok i])
  qed
  then show ?thesis using assms by (auto simp: ucI2CDestroyDevice_def Let_def fw)
qed

section \<open>Initialisation\<close>

lemma init_instances_tab:
  fixes s :: "'w smbus_st"
  assumes "tab T s" and "\<And>i. i \<in> set is \<Longrightarrow> length (pxEventBuf (xEventSrcCircularBuf (T i))) = 300" and "distinct is"
  shows "okay (init_instances is s) (\<lambda>t. log_inv t \<and> (\<forall>i \<in> set is. idle_entry i (instances t i)) \<and>
    (\<forall>i. i \<notin> set is \<longrightarrow> instances t i = T i))"
  using assms
proof (induction "is" arbitrary: T s)
  case Nil
  then show ?case by (simp add: tab_def)
next
  case (Cons i "is")
  have q: "okay (init_instance (T i)) (idle_entry i)" by (rule old_ok) (simp add: Cons.prems(2))
  show ?case
    unfolding init_instances.simps
  proof (rule tab_edit [where f = init_instance, OF Cons.prems(1) q])
    fix y and t :: "'w smbus_st"
    assume y: "idle_entry i y" and t: "tab (T(i := y)) t"
    have "okay (init_instances is t) (\<lambda>t. log_inv t \<and> (\<forall>k \<in> set is. idle_entry k (instances t k)) \<and>
        (\<forall>k. k \<notin> set is \<longrightarrow> instances t k = (T(i := y)) k))"
      by (rule Cons.IH [OF t]) (use Cons.prems in auto)
    then show "okay (init_instances is t) (\<lambda>t. log_inv t \<and> (\<forall>k \<in> set (i # is). idle_entry k (instances t k)) \<and>
        (\<forall>k. k \<notin> set (i # is) \<longrightarrow> instances t k = T k))"
      by (rule okay_weaken) (use y Cons.prems(3) in auto)
  qed
qed

lemma idle_table: "(\<And>i. i < 8 \<Longrightarrow> idle_entry i (T i)) \<Longrightarrow> table_ok T"
  by (auto simp: table_ok_def addresses_ok_def arp_ok_def arp_device_def device_def idle_entry_def)

lemma log_timing_quiet [simp]: "quiet (log_timing E val ts)"
proof (induction ts)
  case (Cons t ts)
  then show ?case by (cases t) (simp add: log_timing.simps [abs_def], intro quiet_bind, simp_all)
qed (simp add: log_timing.simps [abs_def])

lemma write_timing_quiet: "(\<And>x. x \<in> set ws \<Longrightarrow> quiet (fst x E (snd x))) \<Longrightarrow> quiet (write_timing E ws)"
proof (induction ws)
  case (Cons w ws)
  then have "quiet (\<lambda>s. do { s \<leftarrow> fst w E (snd w) s; write_timing E ws s })" by (intro quiet_bind) auto
  moreover have "write_timing E (w # ws) = (\<lambda>s. do { s \<leftarrow> fst w E (snd w) s; write_timing E ws s })"
    by (rule ext) (cases w, simp)
  ultimately show ?case by simp
qed (simp add: write_timing.simps [abs_def])

lemma more_reads_quiet [simp]:
  "quietv (ulSMBusHWReadIPVersion E)" "quietv (ulSMBusHWReadIPMagicNum E)" "quietv (ulSMBusHWReadBuildConfig0 E)"
  "quietv (ulSMBusHWReadBuildConfig1 E)" "quietv (ulSMBusHWReadPHYFilterControlEnable E)"
  "quietv (ulSMBusHWReadPHYFilterControlDuration E)"
  unfolding read_defs [abs_def] by simp_all

lemma timing_writes_quiet: "w \<in> set timing_writes \<Longrightarrow> quiet (w E v)"
  unfolding timing_writes_def write_defs [abs_def] by (auto simp: write_defs [abs_def])

lemma init_constant_quiet [simp]: "quietv (init_constant E)"
  unfolding init_constant_def [abs_def]
  by (intro quietv_bind quietv_if; simp)+

lemma init_hardware_quiet [simp]: "quiet (init_hardware F E c)"
  unfolding init_hardware_def [abs_def] Let_def
  by (intro quietv_quiet_bind quiet_bind write_timing_quiet; (simp; fail)?)
    (auto dest!: set_zip_leftD intro: timing_writes_quiet)

lemma tab_upd_prof:
  "tab T s \<Longrightarrow> (\<And>p. xSMBusInstance (f p) = xSMBusInstance p \<and> xLogCircularBuf (f p) = xLogCircularBuf p) \<Longrightarrow>
   tab T (upd_prof f s)"
  by (simp add: tab_def upd_prof_def log_inv_def)

text \<open>The queues of the instances have room for 300 events: the size of their arrays.\<close>

definition queue_arrays :: "'w smbus_st \<Rightarrow> bool" where
  "queue_arrays s \<longleftrightarrow> (\<forall>i < SMBUS_NUM_INSTANCES. length (pxEventBuf (xEventSrcCircularBuf (instances s i))) = 300)"

lemma init_software_idle:
  fixes s :: "'w smbus_st"
  assumes T: "tab T s" and len: "\<And>i. i < 8 \<Longrightarrow> length (pxEventBuf (xEventSrcCircularBuf (T i))) = 300"
  shows "okay (init_software E s) (\<lambda>t. log_inv t \<and> (\<forall>i < SMBUS_NUM_INSTANCES. idle_entry i (instances t i)))"
proof -
  have rest: "okay (do { u \<leftarrow> vSMBusHWWriteCtrlDescFifoReset E 1 v; u \<leftarrow> vSMBusHWWriteTgtRxFifoReset E 1 u;
      vSMBusHWWriteCtrlRxFifoReset E 1 u }) (\<lambda>t. log_inv t \<and> (\<forall>i < 8. idle_entry i (instances t i)))"
    if v: "log_inv v" "\<forall>i \<in> set [0..<8]. idle_entry i (instances v i)" for v :: "'w smbus_st"
  proof -
    have t: "tab (instances v) v" using v by (simp add: tab_def)
    show ?thesis
      by (rule tab_quiet [OF _ t], simp, rule tab_quiet, simp, assumption, rule okay_weaken, rule tab_last, simp, assumption)
        (use v in \<open>auto simp: tab_def\<close>)
  qed
  have q: "quietv (ulSMBusHWReadBuildConfig0 E)" "quietv (ulSMBusHWReadBuildConfig1 E)" "quiet (drv_info E v l)" for v l
    by simp_all
  have init: "okay (do { v \<leftarrow> init_instances [0..<8] (upd_prof (\<lambda>p. p\<lparr>ucInstanceInPlay := SMBUS_INVALID_INSTANCE, ulTransactionID := 0\<rparr>) u);
      u \<leftarrow> vSMBusHWWriteCtrlDescFifoReset E 1 v; u \<leftarrow> vSMBusHWWriteTgtRxFifoReset E 1 u;
      vSMBusHWWriteCtrlRxFifoReset E 1 u }) (\<lambda>t. log_inv t \<and> (\<forall>i < 8. idle_entry i (instances t i)))"
    if u: "tab T u" for u :: "'w smbus_st"
    by (rule okay_bind [OF init_instances_tab [OF tab_upd_prof [OF u]]]) (auto simp: len intro!: rest)
  show ?thesis
    unfolding init_software_def Let_def
    by (rule tab_quietv [OF q(1) T], simp, rule tab_quiet [OF q(3)], assumption, rule tab_quietv [OF q(2)], assumption,
      simp, rule tab_quiet [OF q(3)], assumption) (rule init)
qed

lemma magic_read:
  assumes "\<And>w. fst (env_in32 E (hw_address s SMBUS_REG_IP_MAGIC_NUM) w) = magic"
  shows "post (ulSMBusHWReadIPMagicNum E s) (\<lambda>(v, s'). v = magic)"
  using assms [of "world s"]
  by (auto simp: ulSMBusHWReadIPMagicNum_def prvulSMBusHardwareRead_def intro!: postI split: prod.splits bind_splits)

lemma init_start_tab:
  "tab (instances s) (upd_prof (\<lambda>p. (vLogInitialize p)\<lparr>pFnReadTicks := ticks, pvBaseAddr := base, xLogLevel := level\<rparr>) s)"
  by (simp add: tab_def log_inv_def upd_prof_def vLogInitialize_def)

lemma init_outcome:
  assumes "\<And>w. fst (env_in32 E (base + 8) w) = magic" and "queue_arrays s"
  shows "okay (xInitSMBus F E (Some False) class base level ticks s) (\<lambda>(r, handle, s').
    if base \<noteq> 0 \<and> class \<noteq> SMBUS_FREQ_MAX \<and> level < SMBUS_LOG_LEVEL_MAX \<and>
       ulInitialize (prof s) \<noteq> SMBUS_INIT_CODE \<and> magic = SMBUS_MAGIC_NUMBER
    then r = SMBUS_SUCCESS \<and> handle = Some True \<and> ulInitialize (prof s') = SMBUS_INIT_CODE \<and> good s' \<and>
      [i \<leftarrow> [0..<SMBUS_NUM_INSTANCES]. ucInstanceInUse (inst i s') \<noteq> SMBUS_FALSE] = []
    else r = SMBUS_ERROR)"
proof -
  let ?s = "upd_prof (\<lambda>p. (vLogInitialize p)\<lparr>pFnReadTicks := ticks, pvBaseAddr := base, xLogLevel := level\<rparr>) s"
  let ?Q = "\<lambda>(r, handle, s'). if magic = SMBUS_MAGIC_NUMBER
    then r = SMBUS_SUCCESS \<and> handle = Some True \<and> ulInitialize (prof s') = SMBUS_INIT_CODE \<and> good s' \<and>
      [i \<leftarrow> [0..<SMBUS_NUM_INSTANCES]. ucInstanceInUse (inst i s') \<noteq> SMBUS_FALSE] = []
    else r = SMBUS_ERROR"
  note T = init_start_tab [where s = s and ticks = ticks and base = base and level = level]
  have sw: "okay (init_software E t) (\<lambda>u. log_inv u \<and> (\<forall>i < SMBUS_NUM_INSTANCES. idle_entry i (instances u i)))"
    if "tab (instances s) t" for t :: "'a smbus_st"
    by (rule init_software_idle [OF that]) (use assms(2) in \<open>simp add: queue_arrays_def\<close>)
  have hw: "okay (do { s \<leftarrow> init_hardware F E class t; s \<leftarrow> init_software E s;
      Some (SMBUS_SUCCESS, Some True, upd_prof (\<lambda>p. p\<lparr>ulInitialize := SMBUS_INIT_CODE\<rparr>) s) })
      (\<lambda>(r, handle, s'). r = SMBUS_SUCCESS \<and> handle = Some True \<and> ulInitialize (prof s') = SMBUS_INIT_CODE \<and> good s' \<and>
        [i \<leftarrow> [0..<SMBUS_NUM_INSTANCES]. ucInstanceInUse (inst i s') \<noteq> SMBUS_FALSE] = [])"
    if t: "tab (instances s) t" for t :: "'a smbus_st"
    by (rule tab_quiet [OF init_hardware_quiet t], rule okay_bind [OF sw], assumption)
      (auto simp: good_def idle_table upd_prof_def log_inv_def idle_entry_def inst_def filter_empty_conv)
  have read: "okay (ulSMBusHWReadIPMagicNum E t) (\<lambda>(v, u). v = magic \<and> tab (instances s) u)" if t: "logged ?s t" for t
  proof -
    have "hw_address t SMBUS_REG_IP_MAGIC_NUM = base + 8"
      using t log_onlyD(4) [of ?s t] by (simp add: logged_def hw_address_def upd_prof_def)
    then have "post (ulSMBusHWReadIPMagicNum E t) (\<lambda>(v, u). v = magic)" by (intro magic_read) (simp add: assms(1))
    with quietv_logged [OF more_reads_quiet(2) tabD(3) [OF tab_logged [OF T t]], of E] tab_logged [OF tab_logged [OF T t]]
    show ?thesis by (auto simp: okay_iff)
  qed
  have "okay (do { (version, s) \<leftarrow> ulSMBusHWReadIPVersion E ?s; s \<leftarrow> drv_info E version 255 s;
      (m, s) \<leftarrow> ulSMBusHWReadIPMagicNum E s;
      if m = SMBUS_MAGIC_NUMBER then do { s \<leftarrow> init_hardware F E class s; s \<leftarrow> init_software E s;
        Some (SMBUS_SUCCESS, Some True, upd_prof (\<lambda>p. p\<lparr>ulInitialize := SMBUS_INIT_CODE\<rparr>) s) }
      else Some (SMBUS_ERROR, Some True, s) }) ?Q"
  proof (rule okay_bind [OF quietv_logged [OF more_reads_quiet(1) tabD(3) [OF T]]], clarify)
    fix v and t assume t: "logged ?s t"
    show "okay (do { s \<leftarrow> drv_info E v 255 t; (m, s) \<leftarrow> ulSMBusHWReadIPMagicNum E s;
      if m = SMBUS_MAGIC_NUMBER then do { s \<leftarrow> init_hardware F E class s; s \<leftarrow> init_software E s;
        Some (SMBUS_SUCCESS, Some True, upd_prof (\<lambda>p. p\<lparr>ulInitialize := SMBUS_INIT_CODE\<rparr>) s) }
      else Some (SMBUS_ERROR, Some True, s) }) ?Q"
      by (rule okay_bind [OF quiet_logged [OF drv_info_quiet loggedD(1) [OF t]]],
        rule okay_bind [OF read [OF logged_trans [OF t]]], assumption) (use hw in auto)
  qed
  then show ?thesis by (auto simp: xInitSMBus_def Let_def)
qed

text \<open>
  Initialisation succeeds exactly when its arguments are in range, the driver is not
  initialised yet and the identification register of the hardware holds the magic number; it
  then hands out the profile, marks it as initialised and leaves a well-formed instance table
  in which nothing is in use.  It always returns.
\<close>

theorem init_detects_hardware:
  assumes "\<And>w. fst (env_in32 E (base + 8) w) = magic" and "queue_arrays s"
  shows "okay (xInitSMBus F E (Some False) class base level ticks s) (\<lambda>(r, handle, s').
    if base \<noteq> 0 \<and> class \<noteq> SMBUS_FREQ_MAX \<and> level < SMBUS_LOG_LEVEL_MAX \<and>
       ulInitialize (prof s) \<noteq> SMBUS_INIT_CODE \<and> magic = SMBUS_MAGIC_NUMBER
    then r = SMBUS_SUCCESS \<and> handle = Some True \<and> ulInitialize (prof s') = SMBUS_INIT_CODE \<and> good s' \<and>
      [i \<leftarrow> [0..<SMBUS_NUM_INSTANCES]. ucInstanceInUse (inst i s') \<noteq> SMBUS_FALSE] = []
    else r = SMBUS_ERROR)"
  using init_outcome [OF assms] .

text \<open>Hardware that identifies itself, its other registers being plain memory.\<close>

definition ident_env :: "(u64 \<Rightarrow> u32) smbus_env" where
  "ident_env = memory_env\<lparr>env_in32 := (\<lambda>a w. (if a = 0x1008 then SMBUS_MAGIC_NUMBER else w a, w))\<rparr>"

abbreviation fresh_driver :: "(u64 \<Rightarrow> u32) smbus_st" where
  "fresh_driver \<equiv> \<lparr>prof = zero_profile, world = (\<lambda>_. 0)\<rparr>"

lemma fresh_driver_init:
  "\<And>w. fst (env_in32 ident_env (0x1000 + 8) w) = SMBUS_MAGIC_NUMBER" "queue_arrays fresh_driver"
  by (simp_all add: ident_env_def queue_arrays_def zero_profile_def zero_instance_def)

lemma init_detects_hardware_witness:
  "okay (xInitSMBus (\<lambda>x y. of_nat x * y) ident_env (Some False) SMBUS_FREQ_400KHZ 0x1000 SMBUS_LOG_LEVEL_INFO None fresh_driver)
     (\<lambda>(r, handle, s'). r = SMBUS_SUCCESS \<and> handle = Some True \<and> good s')"
  by (rule okay_weaken, rule init_detects_hardware [OF fresh_driver_init]) (auto simp: zero_profile_def)

section \<open>Sequences of calls\<close>

datatype drv_call =
    CreateInstance u8 "nat \<Rightarrow> u8" SMBUS_ARP_CAPABILITY smbus_callbacks u8
  | DestroyInstance u8
  | CreateDevice u8 i2c_callbacks
  | DestroyDevice u8

text \<open>A call, its answer dropped.\<close>

fun drv_exec :: "'w smbus_env \<Rightarrow> drv_call \<Rightarrow> 'w smbus_st \<Rightarrow> 'w smbus_st option" where
  "drv_exec E (CreateInstance addr udid cap cb simple) s =
     map_option snd (ucCreateSMBusInstance E addr udid cap cb simple s)"
| "drv_exec E (DestroyInstance n) s = map_option snd (xDestroySMBusInstance E n s)"
| "drv_exec E (CreateDevice addr cb) s = map_option snd (ucI2CCreateDevice E addr cb s)"
| "drv_exec E (DestroyDevice n) s = map_option snd (ucI2CDestroyDevice E n s)"

fun drv_run :: "'w smbus_env \<Rightarrow> drv_call list \<Rightarrow> 'w smbus_st \<Rightarrow> 'w smbus_st option" where
  "drv_run E [] s = Some s"
| "drv_run E (c # cs) s = do { s \<leftarrow> drv_exec E c s; drv_run E cs s }"

lemma okay_map_snd: "okay m (\<lambda>(r, s). P s) \<Longrightarrow> okay (map_option snd m) P"
  by (cases m) auto

lemma drv_exec_good: "good s \<Longrightarrow> okay (drv_exec E c s) good"
  by (cases c) (auto intro!: okay_map_snd create_good destroy_good i2c_create_good i2c_destroy_good)

lemma drv_run_good: "good s \<Longrightarrow> okay (drv_run E cs s) good"
  by (induction cs arbitrary: s) (auto intro: okay_bind [OF drv_exec_good])

text \<open>
  C14: Once the driver is initialised, every sequence of creations and destructions of SMBus
  instances and I2C devices returns and keeps the instance table well-formed: the firewall
  intact, the numbers of the devices right, no address twice among the devices that are not
  ARP capable, and the ARP entry in use whenever a device takes part in ARP.
\<close>

theorem instance_table_safe:
  assumes "xInitSMBus F E (Some False) class base level ticks s = Some (SMBUS_SUCCESS, h, t)" and "queue_arrays s"
    and "\<And>w. fst (env_in32 E (base + 8) w) = magic"
  shows "okay (drv_run E cs t) (\<lambda>u. table_ok (instances u))"
proof -
  have "good t"
    using init_outcome [of E base magic s F "class" level ticks, OF assms(3,2)] assms(1) by (auto split: if_splits)
  from okay_weaken [OF drv_run_good [OF this]] show ?thesis by (simp add: good_def)
qed

definition smbus_cb :: smbus_callbacks where
  "smbus_cb = \<lparr>cb_GetProtocol = Some 1, cb_GetData = Some 2, cb_WriteData = Some 3, cb_AnnounceResult = Some 4,
     cb_ArpAddrChange = None, cb_BusError = None, cb_BusWarning = None\<rparr>"

definition i2c_cb :: i2c_callbacks where
  "i2c_cb = \<lparr>cb_I2CGetData = Some 5, cb_I2CWriteData = Some 6, cb_I2CAnnounceResult = Some 7,
     cb_I2CBusError = None, cb_I2CBusWarning = None\<rparr>"

lemma instance_table_safe_witness:
  "\<exists>h t. xInitSMBus (\<lambda>x y. of_nat x * y) ident_env (Some False) SMBUS_FREQ_400KHZ 0x1000 SMBUS_LOG_LEVEL_INFO None
       fresh_driver = Some (SMBUS_SUCCESS, h, t) \<and>
     okay (drv_run ident_env [CreateDevice 0x20 i2c_cb, CreateInstance 0x20 (\<lambda>_. 0) SMBUS_ARP_NON_ARP_CAPABLE smbus_cb 0, DestroyDevice 0] t) (\<lambda>u. table_ok (instances u))"
proof -
  obtain h t where t: "xInitSMBus (\<lambda>x y. of_nat x * y) ident_env (Some False) SMBUS_FREQ_400KHZ 0x1000 SMBUS_LOG_LEVEL_INFO None
      fresh_driver = Some (SMBUS_SUCCESS, h, t)"
    using init_outcome [OF fresh_driver_init, of "\<lambda>x y. of_nat x * y" SMBUS_FREQ_400KHZ SMBUS_LOG_LEVEL_INFO None]
    by (auto simp: okay_iff zero_profile_def)
  from instance_table_safe [OF t fresh_driver_init(2,1)] t show ?thesis by blast
qed

section \<open>The ARP entry that stays\<close>

lemma create_tab:
  assumes T: "tab T s" and fw: "\<And>i. i < 8 \<Longrightarrow> firewall_intact (T i)"
    and cb: "cb_GetProtocol cb \<noteq> None" "cb_GetData cb \<noteq> None" "cb_WriteData cb \<noteq> None" "cb_AnnounceResult cb \<noteq> None"
    and ok: "create_allowed addr udid cap" "cap = SMBUS_ARP_CAPABLE \<or> address_free addr s" and i: "free_entry s = Some i"
  shows "okay (drv_exec E (CreateInstance addr udid cap cb simple) s)
    (tab ((if ucInstanceInUse (T 7) = SMBUS_FALSE \<and> cap \<noteq> SMBUS_ARP_NON_ARP_CAPABLE then T(7 := new_arp_instance (T 7)) else T)
      (i := new_instance i addr udid cap cb simple (T i))))"
  using add_instance_tab [OF T conjunct1 [OF free_entry_tab [OF T i]], of E addr udid cap cb simple] cb ok i
  by (auto simp: ucCreateSMBusInstance_def firewall_tab [OF T fw] okay_iff)

lemma create_device_tab:
  assumes T: "tab T s" and fw: "\<And>i. i < 8 \<Longrightarrow> firewall_intact (T i)"
    and cb: "cb_I2CGetData cb \<noteq> None" "cb_I2CWriteData cb \<noteq> None" "cb_I2CAnnounceResult cb \<noteq> None"
    and ok: "0x80 AND addr = 0" "address_free addr s" and i: "free_entry s = Some i"
  shows "okay (drv_exec E (CreateDevice addr cb) s) (tab (T(i := new_device i addr cb (T i))))"
proof -
  have "okay (do { s \<leftarrow> vSMBusHWWriteTgtControlAddress E (of_nat i) (ucast addr) (upd_inst i (new_device i addr cb) s);
      s \<leftarrow> vSMBusHWWriteTgtControlEnable E (of_nat i) 1 s; Some (of_nat i :: u8, s) })
      (\<lambda>(r, u). tab (T(i := new_device i addr cb (T i))) u)"
    by (rule tab_quiet [OF tgt_control_quiet(1) tab_upd [OF T]], rule tab_quiet [OF tgt_control_quiet(2)], assumption) simp
  with cb ok i show ?thesis
    by (auto simp: ucI2CCreateDevice_def firewall_tab [OF T fw] intro!: okay_map_snd)
qed

lemma destroy_tab:
  fixes s :: "'w smbus_st"
  assumes T: "tab T s" and fw: "\<And>i. i < 8 \<Longrightarrow> firewall_intact (T i)" and i: "i < 7" "entry_ok i (T i)" "device T i"
    and st: "xState (T i) = SMBUS_STATE_INITIAL"
  shows "okay (drv_exec E (DestroyDevice (of_nat i)) s) (\<lambda>u. \<exists>y. idle_entry i y \<and> tab (T(i := y)) u)"
    and "device T j \<Longrightarrow> j \<noteq> i \<Longrightarrow> xARPCapability (T j) \<noteq> SMBUS_ARP_NON_ARP_CAPABLE \<Longrightarrow>
      okay (drv_exec E (DestroyInstance (of_nat i)) s) (\<lambda>u. \<exists>y. idle_entry i y \<and> tab (T(i := y)) u)"
proof -
  have n: "unat (of_nat i :: u8) = i" "(of_nat i :: u8) \<le> 6"
    using i(1) by (auto simp: word_le_nat_alt unat_of_nat take_bit_nat_eq_self_iff)
  have go: "ucInstanceInUse (inst i s) = SMBUS_TRUE" "xState (inst i s) = SMBUS_STATE_INITIAL"
    using i(3) st by (simp_all add: tabD(1) [OF T] device_def)
  have q: "okay (old_device (T i)) (idle_entry i)" "okay (old_instance (T i)) (idle_entry i)"
    by (rule old_ok, rule entry_queue [OF i(2)])+
  have "okay (do { s \<leftarrow> edit_inst i old_device t; Some (SMBUS_SUCCESS, s) }) (\<lambda>(r, u). \<exists>y. idle_entry i y \<and> tab (T(i := y)) u)"
    if "tab T t" for t :: "'w smbus_st"
    by (rule tab_edit [where f = old_device, OF that q(1)]) auto
  from tab_quiet [OF release_quiet T this]
  show "okay (drv_exec E (DestroyDevice (of_nat i)) s) (\<lambda>u. \<exists>y. idle_entry i y \<and> tab (T(i := y)) u)"
    using go n by (auto simp: ucI2CDestroyDevice_def Let_def firewall_tab [OF T fw] intro!: okay_map_snd)
  assume j: "device T j" "j \<noteq> i" "xARPCapability (T j) \<noteq> SMBUS_ARP_NON_ARP_CAPABLE"
  have need: "arp_needed u" if "tab (T(i := y)) u" for u :: "'w smbus_st" and y
    using j by (auto simp: arp_needed_def list_ex_iff tabD(1) [OF that] device_def intro!: bexI [of _ j])
  have "okay (do { s \<leftarrow> edit_inst i old_instance t;
        s \<leftarrow> (if \<not> arp_needed s then do { s \<leftarrow> release_address E (of_nat 7) s; edit_inst 7 old_arp_instance s } else Some s);
        Some (SMBUS_SUCCESS, s) }) (\<lambda>(r, u). \<exists>y. idle_entry i y \<and> tab (T(i := y)) u)"
    if "tab T t" for t :: "'w smbus_st"
    by (rule tab_edit [where f = old_instance, OF that q(2)]) (auto simp: need)
  from tab_quiet [OF release_quiet T this]
  show "okay (drv_exec E (DestroyInstance (of_nat i)) s) (\<lambda>u. \<exists>y. idle_entry i y \<and> tab (T(i := y)) u)"
    using go n by (auto simp: xDestroySMBusInstance_def Let_def firewall_tab [OF T fw] intro!: okay_map_snd)
qed

text \<open>The four calls, one table after the other.\<close>

lemma leak_steps:
  fixes s :: "'w smbus_st"
  assumes T: "tab T s" and idle: "\<And>i. i < 8 \<Longrightarrow> idle_entry i (T i)"
    and st: "xState (T 0) = SMBUS_STATE_INITIAL" "xState (T 1) = SMBUS_STATE_INITIAL"
    and cb: "cb_GetProtocol cb \<noteq> None" "cb_GetData cb \<noteq> None" "cb_WriteData cb \<noteq> None" "cb_AnnounceResult cb \<noteq> None"
      "cb_I2CGetData dcb \<noteq> None" "cb_I2CWriteData dcb \<noteq> None" "cb_I2CAnnounceResult dcb \<noteq> None"
    and addr: "a \<noteq> b" "0x80 AND b = 0"
  shows "okay (drv_run E [CreateInstance a udid SMBUS_ARP_FIXED_AND_DISCOVERABLE cb simple, CreateDevice b dcb,
      DestroyInstance 0, DestroyDevice 1] s)
    (\<lambda>u. \<exists>y z. idle_entry 0 y \<and> idle_entry 1 z \<and> tab (T(7 := new_arp_instance (T 7), 0 := y, 1 := z)) u)"
proof -
  let ?x = "new_instance 0 a udid SMBUS_ARP_FIXED_AND_DISCOVERABLE cb simple (T 0)" and ?d = "new_device 1 b dcb (T 1)"
  let ?T1 = "T(7 := new_arp_instance (T 7), 0 := ?x)"
  let ?T2 = "?T1(1 := ?d)"
  have e: "entry_ok i (T i)" "firewall_intact (T i)" "ucInstanceInUse (T i) = SMBUS_FALSE"
    "xARPCapability (T i) = SMBUS_ARP_CAPABILITY_UNKNOWN" if "i < 8" for i
    using idle [OF that] by (simp_all add: idle_entry_def entry_ok_def)
  have fw: "firewall_intact x \<Longrightarrow> firewall_intact (new_instance 0 a udid c cb simple x)"
    "firewall_intact x \<Longrightarrow> firewall_intact (new_device i b dcb x)" "firewall_intact x \<Longrightarrow> firewall_intact (new_arp_instance x)" for x c i
    by (simp_all add: firewall_intact_def new_instance_def new_device_def new_arp_instance_def)
  have use: "ucInstanceInUse ?x = SMBUS_TRUE" "ucInstanceInUse ?d = SMBUS_TRUE" "ucSMBusAddr ?x = a"
    "xState ?x = SMBUS_STATE_INITIAL" "xState ?d = SMBUS_STATE_INITIAL" "xARPCapability ?d = SMBUS_ARP_CAPABILITY_UNKNOWN"
    using st e(4) [of 1] by (simp_all add: new_instance_def new_device_def)
  have up: "[0..<7] = [0, 1, 2, 3, 4, 5, 6::nat]" by (simp add: upt_rec)
  have f0: "free_entry s = Some 0" and a0: "address_free a s"
    using e(3) by (simp_all add: free_entry_def address_free_def up tabD(1) [OF T])
  have one: "okay (drv_exec E (CreateInstance a udid SMBUS_ARP_FIXED_AND_DISCOVERABLE cb simple) s) (tab ?T1)"
    using create_tab [OF T e(2), of cb a udid SMBUS_ARP_FIXED_AND_DISCOVERABLE 0 E simple] cb f0 a0 e(3) [of 7]
    by (simp add: create_allowed_def)
  have two: "okay (drv_exec E (CreateDevice b dcb) t) (tab ?T2)" if t: "tab ?T1 t" for t :: "'w smbus_st"
  proof -
    have "free_entry t = Some 1" "address_free b t"
      using e(3) use addr(1) by (simp_all add: free_entry_def address_free_def up tabD(1) [OF t])
    with create_device_tab [OF t _ cb(5,6,7) addr(2), of 1 E] e(2) fw show ?thesis by simp
  qed
  have three: "okay (drv_exec E (DestroyInstance 0) t) (\<lambda>u. \<exists>y. idle_entry 0 y \<and> tab (?T2(0 := y)) u)"
    if t: "tab ?T2 t" for t :: "'w smbus_st"
    using destroy_tab(2) [OF t, of 0 1 E] e(1,2) fw use new_entries(1) [OF e(1)] by (simp add: device_def)
  have four: "okay (drv_exec E (DestroyDevice 1) t) (\<lambda>u. \<exists>z. idle_entry 1 z \<and> tab (?T2(0 := y, 1 := z)) u)"
    if t: "tab (?T2(0 := y)) t" and y: "idle_entry 0 y" for t :: "'w smbus_st" and y
  proof -
    have "firewall_intact y" using y by (simp add: idle_entry_def entry_ok_def)
    moreover have "entry_ok 1 ?d" by (rule new_entries(2)) (simp add: e(1))
    ultimately show ?thesis
      using destroy_tab(1) [OF t, of 1 E] e(2) fw use by (simp add: device_def)
  qed
  have fin: "?T2(0 := y, 1 := z) = T(7 := new_arp_instance (T 7), 0 := y, 1 := z)" for y z by auto
  show ?thesis
    unfolding drv_run.simps
    by (rule okay_bind [OF one], rule okay_bind [OF two], assumption, rule okay_bind [OF three], assumption, elim exE conjE,
      rule okay_bind [OF four], assumption, assumption) (auto simp: fin)
qed

text \<open>
  An ARP entry that cannot be removed.  From a table in which nothing is in use, create an
  SMBus device that takes part in ARP and an I2C device, then destroy both, the SMBus device
  first.  No device is left, but the ARP entry is still in use: the destruction of the SMBus
  device keeps it because the I2C device's capability is not \<open>SMBUS_ARP_NON_ARP_CAPABLE\<close>, and
  the destruction of the I2C device does not look at it.  The driver can then not be
  de-initialised any more.
\<close>

theorem arp_entry_leaks:
  assumes "log_inv s" and "\<And>i. i < SMBUS_NUM_INSTANCES \<Longrightarrow> idle_entry i (instances s i)"
    and "xState (inst 0 s) = SMBUS_STATE_INITIAL" "xState (inst 1 s) = SMBUS_STATE_INITIAL"
    and "cb_GetProtocol cb \<noteq> None" "cb_GetData cb \<noteq> None" "cb_WriteData cb \<noteq> None" "cb_AnnounceResult cb \<noteq> None"
      "cb_I2CGetData dcb \<noteq> None" "cb_I2CWriteData dcb \<noteq> None" "cb_I2CAnnounceResult dcb \<noteq> None"
    and "a \<noteq> b" "SMBUS_INVALID_ADDRESS_MASK AND b = 0"
  shows "okay (drv_run E [CreateInstance a udid SMBUS_ARP_FIXED_AND_DISCOVERABLE cb simple, CreateDevice b dcb,
      DestroyInstance 0, DestroyDevice 1] s)
    (\<lambda>u. [i \<leftarrow> [0..<SMBUS_NUM_INSTANCES]. ucInstanceInUse (inst i u) = SMBUS_TRUE] = [SMBUS_ARP_INSTANCE_ID] \<and>
      xDeinitSMBus E (Some True) u = Some (SMBUS_ERROR, Some True, u))"
proof -
  let ?T = "instances s"
  have T: "tab ?T s" using assms(1) by (simp add: tab_def)
  have up: "[0..<8] = [0, 1, 2, 3, 4, 5, 6, 7::nat]" by (simp add: upt_rec)
  have i: "ucInstanceInUse (?T i) = SMBUS_FALSE" "firewall_intact (?T i)" if "i < 8" for i
    using assms(2) [OF that] by (simp_all add: idle_entry_def entry_ok_def)
  have fin: "[i \<leftarrow> [0..<8]. ucInstanceInUse (inst i u) = SMBUS_TRUE] = [7] \<and>
      xDeinitSMBus E (Some True) u = Some (SMBUS_ERROR, Some True, u)"
    if y: "idle_entry 0 y" and z: "idle_entry 1 z" and u: "tab (?T(7 := new_arp_instance (?T 7), 0 := y, 1 := z)) u" for y z u
  proof -
    have f: "ucInstanceInUse y = SMBUS_FALSE" "ucInstanceInUse z = SMBUS_FALSE" "firewall_intact y" "firewall_intact z"
      using y z by (simp_all add: idle_entry_def entry_ok_def)
    have n: "ucInstanceInUse (new_arp_instance (?T 7)) = SMBUS_TRUE" "firewall_intact (new_arp_instance (?T 7))"
      using i(2) [of 7] by (simp_all add: new_arp_instance_def firewall_intact_def)
    show ?thesis
      using f n i by (simp add: up tabD(1) [OF u] xDeinitSMBus_def xSMBusFirewallCheck_def)
  qed
  show ?thesis
    by (rule okay_weaken, rule leak_steps [OF T assms(2)]) (use assms fin in \<open>simp_all add: inst_def, blast?\<close>)
qed

definition idle_driver :: "(u64 \<Rightarrow> u32) smbus_st" where
  "idle_driver = \<lparr>prof = zero_profile\<lparr>xSMBusInstance := (\<lambda>_. the (init_instance zero_instance))\<rparr>, world = (\<lambda>_. 0)\<rparr>"

lemma idle_driver_idle: "idle_entry i (instances idle_driver i)" "log_inv idle_driver"
  "xState (inst i idle_driver) = SMBUS_STATE_INITIAL"
proof -
  have "okay (init_instance zero_instance) (idle_entry i)" by (rule old_ok(4)) (simp add: zero_instance_def)
  moreover have "post (init_instance zero_instance) (\<lambda>y. xState y = SMBUS_STATE_INITIAL)"
    by (auto simp: init_instance_def empty_queue_def clear_stats_def zero_instance_def intro!: postI split: bind_splits)
  ultimately obtain y where "init_instance zero_instance = Some y" "idle_entry i y" "xState y = SMBUS_STATE_INITIAL"
    by (auto simp: okay_iff)
  then show "idle_entry i (instances idle_driver i)" "log_inv idle_driver" "xState (inst i idle_driver) = SMBUS_STATE_INITIAL"
    by (simp_all add: idle_driver_def inst_def log_inv_def zero_profile_def)
qed

lemma arp_entry_leaks_witness:
  "okay (drv_run memory_env [CreateInstance 0x12 (\<lambda>_. 0) SMBUS_ARP_FIXED_AND_DISCOVERABLE smbus_cb 0,
      CreateDevice 0x50 i2c_cb, DestroyInstance 0, DestroyDevice 1] idle_driver)
    (\<lambda>u. [i \<leftarrow> [0..<SMBUS_NUM_INSTANCES]. ucInstanceInUse (inst i u) = SMBUS_TRUE] = [SMBUS_ARP_INSTANCE_ID] \<and>
      xDeinitSMBus memory_env (Some True) u = Some (SMBUS_ERROR, Some True, u))"
  by (rule arp_entry_leaks) (simp_all add: idle_driver_idle smbus_cb_def i2c_cb_def)

end
