(* ===== verification/SMBus_Commands.thy ===== *)
theory SMBus_Commands
  imports SMBus_Table
begin

text \<open>
  The start of a controller's transaction, for SMBus instances and for I2C devices, and the
  log and statistics functions (\<open>smbus_driver.c\<close>).
\<close>

text \<open>The steps all four functions end with: the event that starts the state machine is handled at once.\<close>

definition start_transaction :: "'w smbus_env \<Rightarrow> nat \<Rightarrow> 'w smbus_st \<Rightarrow> 'w smbus_st option" where
  "start_transaction E i s = do {
     s \<leftarrow> vSMBusHWWriteCtrlDescFifoReset E 1 s;
     s \<leftarrow> vSMBusHWWriteCtrlRxFifoReset E 1 s;
     s \<leftarrow> vSMBusGenerateEvent_E_SEND_NEXT_BYTE E i s;
     s \<leftarrow> vSMBusHWWriteIRQGIEEnable E 0 s;
     s \<leftarrow> vSMBusEventQueueHandle E s;
     s \<leftarrow> vSMBusHWWriteIRQIER E SMBUS_CONTROLLER_IRQS s;
     vSMBusHWWriteIRQGIEEnable E 1 s }"

text \<open>The data to send, \<open>memcpy\<close> of the first \<open>n\<close> bytes of the caller's buffer.\<close>

definition copy_send_data :: "nat \<Rightarrow> u8 list \<Rightarrow> u16 \<Rightarrow> 'w smbus_st \<Rightarrow> 'w smbus_st option" where
  "copy_send_data i buf n s = do {
     dat \<leftarrow> arr_copy SMBUS_DATA_SIZE_MAX (ucSendData (inst i s)) (length buf) (\<lambda>k. buf ! k) (unat n);
     Some (upd_inst i (\<lambda>x. x\<lparr>ucSendData := dat\<rparr>) s) }"

definition take_bus :: "u8 \<Rightarrow> 'w smbus_st \<Rightarrow> 'w smbus_st" where
  "take_bus n s = upd_prof (\<lambda>p. p\<lparr>ucInstanceInPlay := n\<rparr>) s"

definition bus_lines_low :: "'w smbus_env \<Rightarrow> 'w smbus_st \<Rightarrow> (bool \<times> 'w smbus_st) option" where
  "bus_lines_low E s = do {
     (clk, s) \<leftarrow> ulSMBusHWReadPHYStatusSMBClkLowTimeout E s;
     if clk = SMBUS_SMBCLK_LOW_TIMEOUT_DETECTED then Some (True, s) else do {
       (dat, s) \<leftarrow> ulSMBusHWReadPHYStatusSMBDATLowTimeout E s;
       Some (dat = SMBUS_SMBDAT_LOW_TIMEOUT_DETECTED, s) } }"

definition controller_command :: "SMBUS_COMMAND_PROTOCOL \<Rightarrow> u8 \<Rightarrow> u8" where
  "controller_command xProto cmd =
     (if xProto = SMBUS_ARP_PROTO_RESET_DEVICE_DIRECTED then cmd AND SMBUS_ARP_DIRECTED_COMMAND_ADDRESS_MASK
      else if xProto = SMBUS_ARP_PROTOCOL_GET_UDID_DIRECTED then cmd OR SMBUS_ARP_UDID_DIRECTED_COMMAND else cmd)"

text \<open>The answer carries the transaction identifier, if one was given out.\<close>

definition initiate_command ::
  "'w smbus_env \<Rightarrow> u8 \<Rightarrow> u8 \<Rightarrow> u8 \<Rightarrow> SMBUS_COMMAND_PROTOCOL \<Rightarrow> u16 \<Rightarrow> u8 list \<Rightarrow> u8 \<Rightarrow> 'w smbus_st \<Rightarrow>
   ((SMBUS_ERROR_TYPE \<times> u32 option) \<times> 'w smbus_st) option" where
  "initiate_command E n dest cmd xProto nbytes buf pec s =
     (let i = unat n in
      if ucInstanceInPlay (prof s) = SMBUS_INVALID_INSTANCE \<and> xState (inst i s) = SMBUS_STATE_INITIAL then do {
        let tid = ulTransactionID (prof s);
        let s = take_bus n (upd_prof (\<lambda>p. p\<lparr>ulTransactionID := ulTransactionID p + 1\<rparr>) s);
        s \<leftarrow> copy_send_data i buf nbytes s;
        let s = upd_inst i (\<lambda>x. x\<lparr>usSendDataSize := nbytes, usSendIndex := 0,
          ucCommand := controller_command xProto cmd, xProtocol := xProto, ucSMBusDestAddr := dest,
          ucPecRequiredForTransaction := pec\<rparr>) s;
        s \<leftarrow> start_transaction E i s;
        Some ((SMBUS_SUCCESS, Some tid), s) }
      else Some ((SMBUS_ERROR, None), s))"

definition xSMBusControllerInitiateCommand ::
  "'w smbus_env \<Rightarrow> u8 \<Rightarrow> u8 \<Rightarrow> u8 \<Rightarrow> SMBUS_COMMAND_PROTOCOL \<Rightarrow> u16 \<Rightarrow> u8 list option \<Rightarrow> u8 \<Rightarrow> bool \<Rightarrow> 'w smbus_st \<Rightarrow>
   ((SMBUS_ERROR_TYPE \<times> u32 option) \<times> 'w smbus_st) option" where
  "xSMBusControllerInitiateCommand E n dest cmd xProto nbytes buf pec has_id s =
     (case buf of
        Some b \<Rightarrow>
          (if n \<le> SMBUS_LAST_NON_ARP_SMBUS_INSTANCE \<and> protocol_num xProto < protocol_num SMBUS_PROTOCOL_NONE \<and>
              nbytes \<le> of_nat SMBUS_DATA_SIZE_MAX \<and> pec \<le> SMBUS_TRUE \<and> has_id
           then guarded E 842 (SMBUS_ERROR, None) s (do {
             (low, s) \<leftarrow> bus_lines_low E s;
             if low then do { s \<leftarrow> drv_error E 849 s; Some ((SMBUS_ERROR, None), s) }
             else initiate_command E n dest cmd xProto nbytes b pec s })
           else Some ((SMBUS_ERROR, None), s))
      | None \<Rightarrow> Some ((SMBUS_ERROR, None), s))"

section \<open>I2C transfers\<close>

definition ucI2CWriteData ::
  "'w smbus_env \<Rightarrow> u8 \<Rightarrow> u8 \<Rightarrow> u8 list option \<Rightarrow> u16 \<Rightarrow> 'w smbus_st \<Rightarrow> (SMBUS_ERROR_TYPE \<times> 'w smbus_st) option" where
  "ucI2CWriteData E n dest buf nbytes s =
     (case buf of
        Some b \<Rightarrow>
          (if n \<le> SMBUS_LAST_NON_ARP_SMBUS_INSTANCE \<and> nbytes \<le> of_nat SMBUS_DATA_SIZE_MAX
           then guarded E 1365 SMBUS_ERROR s
             (let i = unat n in
              if ucInstanceInUse (inst i s) = SMBUS_TRUE \<and> ucInstanceInPlay (prof s) = SMBUS_INVALID_INSTANCE \<and>
                 xState (inst i s) = SMBUS_STATE_INITIAL then do {
                s \<leftarrow> copy_send_data i b nbytes s;
                let s = take_bus n s;
                let s = upd_inst i (\<lambda>x. x\<lparr>usSendDataSize := nbytes, usSendIndex := 0, ulI2CTransaction := 1,
                  xProtocol := I2C_PROTOCOL_WRITE, ucSMBusDestAddr := dest\<rparr>) s;
                s \<leftarrow> start_transaction E i s;
                Some (SMBUS_SUCCESS, s) }
              else Some (SMBUS_ERROR, s))
           else Some (SMBUS_ERROR, s))
      | None \<Rightarrow> Some (SMBUS_ERROR, s))"

definition ucI2CReadData ::
  "'w smbus_env \<Rightarrow> u8 \<Rightarrow> u8 \<Rightarrow> u16 \<Rightarrow> 'w smbus_st \<Rightarrow> (SMBUS_ERROR_TYPE \<times> 'w smbus_st) option" where
  "ucI2CReadData E n dest nbytes s =
     (if n \<le> SMBUS_LAST_NON_ARP_SMBUS_INSTANCE \<and> nbytes \<le> of_nat SMBUS_DATA_SIZE_MAX
      then guarded E 1437 SMBUS_ERROR s
        (let i = unat n in
         if ucInstanceInPlay (prof s) = SMBUS_INVALID_INSTANCE \<and> xState (inst i s) = SMBUS_STATE_INITIAL then do {
           let s = take_bus n s;
           let s = upd_inst i (\<lambda>x. x\<lparr>usExpectedByteCount := nbytes, xProtocol := I2C_PROTOCOL_READ,
             ucSMBusDestAddr := dest\<rparr>) s;
           s \<leftarrow> start_transaction E i s;
           Some (SMBUS_SUCCESS, s) }
         else Some (SMBUS_ERROR, s))
      else Some (SMBUS_ERROR, s))"

definition ucI2CWriteReadData ::
  "'w smbus_env \<Rightarrow> u8 \<Rightarrow> u8 \<Rightarrow> u8 list option \<Rightarrow> u16 \<Rightarrow> u16 \<Rightarrow> 'w smbus_st \<Rightarrow> (SMBUS_ERROR_TYPE \<times> 'w smbus_st) option" where
  "ucI2CWriteReadData E n dest buf wsize rsize s =
     (case buf of
        Some b \<Rightarrow>
          (if n \<le> SMBUS_LAST_NON_ARP_SMBUS_INSTANCE \<and> wsize \<le> of_nat SMBUS_DATA_SIZE_MAX \<and>
              rsize \<le> of_nat SMBUS_DATA_SIZE_MAX \<and> I2C_READ_DATA_SIZE_MIN \<le> rsize
           then guarded E 1507 SMBUS_ERROR s
             (let i = unat n in
              if ucInstanceInPlay (prof s) = SMBUS_INVALID_INSTANCE \<and> xState (inst i s) = SMBUS_STATE_INITIAL then do {
                s \<leftarrow> copy_send_data i b wsize s;
                let s = take_bus n s;
                let s = upd_inst i (\<lambda>x. x\<lparr>usSendDataSize := wsize, usSendIndex := 0, usExpectedByteCount := rsize,
                  xProtocol := I2C_PROTOCOL_WRITE_READ, ucSMBusDestAddr := dest\<rparr>) s;
                s \<leftarrow> start_transaction E i s;
                Some (SMBUS_SUCCESS, s) }
              else Some (SMBUS_ERROR, s))
           else Some (SMBUS_ERROR, s))
      | None \<Rightarrow> Some (SMBUS_ERROR, s))"

section \<open>Log and statistics\<close>

text \<open>The text of the log and its length are the result; \<open>fmt\<close> formats a line.\<close>

definition xSMBusGetLog ::
  "(nat \<Rightarrow> SMBus_LogBufRecord \<Rightarrow> string) \<Rightarrow> 'w smbus_env \<Rightarrow> bool \<Rightarrow> 'w smbus_st \<Rightarrow>
   ((SMBUS_ERROR_TYPE \<times> (string \<times> u32) option) \<times> 'w smbus_st) option" where
  "xSMBusGetLog fmt E buffers s =
     (if buffers then guarded E 927 (SMBUS_ERROR, None) s (Some ((SMBUS_SUCCESS, Some (vLogDisplayLog fmt (prof s))), s))
      else Some ((SMBUS_ERROR, None), s))"

definition xSMBusLogReset :: "'w smbus_env \<Rightarrow> 'w smbus_st \<Rightarrow> (SMBUS_ERROR_TYPE \<times> 'w smbus_st) option" where
  "xSMBusLogReset E s = guarded E 952 SMBUS_ERROR s (Some (SMBUS_SUCCESS, upd_prof vLogInitialize s))"

definition vSMBusLogEnable :: "'w smbus_env \<Rightarrow> 'w smbus_st \<Rightarrow> (unit \<times> 'w smbus_st) option" where
  "vSMBusLogEnable E s = guarded E 975 () s (Some ((), upd_prof (\<lambda>p. p\<lparr>xLogLevel := SMBUS_LOG_LEVEL_DEBUG\<rparr>) s))"

definition vSMBusLogDisable :: "'w smbus_env \<Rightarrow> 'w smbus_st \<Rightarrow> (unit \<times> 'w smbus_st) option" where
  "vSMBusLogDisable E s = guarded E 994 () s (Some ((), upd_prof (\<lambda>p. p\<lparr>xLogLevel := SMBUS_LOG_LEVEL_NONE\<rparr>) s))"

definition vSMBusResetStatsLogInstance :: "'w smbus_env \<Rightarrow> u8 \<Rightarrow> 'w smbus_st \<Rightarrow> (unit \<times> 'w smbus_st) option" where
  "vSMBusResetStatsLogInstance E n s =
     (if n \<le> SMBUS_LAST_SMBUS_INSTANCE then guarded E 1016 () s (Some ((), upd_inst (unat n) clear_stats s)) else Some ((), s))"

text \<open>The two counters of each of the 23 protocols.\<close>

definition vSMBusReadStatsLogInstance ::
  "'w smbus_env \<Rightarrow> u8 \<Rightarrow> bool \<Rightarrow> 'w smbus_st \<Rightarrow> ((u32 list \<times> u32 list) option \<times> 'w smbus_st) option" where
  "vSMBusReadStatsLogInstance E n out s =
     (if n \<le> SMBUS_LAST_SMBUS_INSTANCE \<and> out then guarded E 1047 None s
        (Some (Some (map (ulMessagesComplete (inst (unat n) s)) [0..<23], map (ulMessagesInitiated (inst (unat n) s)) [0..<23]), s))
      else Some (None, s))"

definition pcProtocolToString :: "u8 \<Rightarrow> string" where
  "pcProtocolToString ucProtocol =
     (if ucProtocol = 1 then ''SMBUS_PROTOCOL_QUICK_CMD_HI''
      else if ucProtocol = 0 then ''SMBUS_PROTOCOL_QUICK_CMD_LO''
      else if ucProtocol = 2 then ''SMBUS_PROTOCOL_SEND_BYTE''
      else if ucProtocol = 3 then ''SMBUS_PROTOCOL_RECEIVE_BYTE''
      else if ucProtocol = 4 then ''SMBUS_PROTOCOL_WRITE_BYTE''
      else if ucProtocol = 5 then ''SMBUS_PROTOCOL_WRITE_WORD''
      else if ucProtocol = 6 then ''SMBUS_PROTOCOL_READ_BYTE''
      else if ucProtocol = 7 then ''SMBUS_PROTOCOL_READ_WORD''
      else if ucProtocol = 8 then ''SMBUS_PROTOCOL_PROCESS_CALL''
      else if ucProtocol = 9 then ''SMBUS_PROTOCOL_BLOCK_WRITE''
      else if ucProtocol = 10 then ''SMBUS_PROTOCOL_BLOCK_READ''
      else if ucProtocol = 11 then ''SMBUS_PROTOCOL_BLK_WRITE_BLK_RD_PROCESS_CALL''
      else if ucProtocol = 12 then ''SMBUS_PROTOCOL_HOST_NOTIFY''
      else if ucProtocol = 13 then ''SMBUS_PROTOCOL_WRITE_32''
      else if ucProtocol = 14 then ''SMBUS_PROTOCOL_READ_32''
      else if ucProtocol = 15 then ''SMBUS_PROTOCOL_WRITE_64''
      else if ucProtocol = 16 then ''SMBUS_PROTOCOL_READ_64''
      else if ucProtocol = 23 then ''SMBUS_PROTOCOL_NONE''
      else if ucProtocol = 17 then ''SMBUS_ARP_PROTOCOL_PREPARE_TO_ARP''
      else if ucProtocol = 18 then ''SMBUS_ARP_PROTOCOL_RESET_DEVICE''
      else if ucProtocol = 19 then ''SMBUS_ARP_PROTOCOL_GET_UDID''
      else if ucProtocol = 20 then ''SMBUS_ARP_PROTOCOL_ASSIGN_ADDRESS''
      else if ucProtocol = 22 then ''SMBUS_ARP_PROTO_RESET_DEVICE_DIRECTED''
      else if ucProtocol = 21 then ''SMBUS_ARP_PROTOCOL_GET_UDID_DIRECTED''
      else ''SMBUS_PROTOCOL_UNKNOWN'')"

end
