(* ===== verification/SMBus_Queues.thy ===== *)
theory SMBus_Queues
  imports SMBus_Commands
begin

text \<open>
  What the queue handler guarantees, and the transaction that never ends because the instance
  it was started on is not in use.
\<close>

section \<open>The queue handler empties the queues\<close>

text \<open>A queue from which nothing can be read.\<close>

definition drained :: "SMBus_EventBuf \<Rightarrow> bool" where
  "drained b \<longleftrightarrow> (case ucEventBufferTryRead b 0 of Some (res, _) \<Rightarrow> res = 0 | None \<Rightarrow> False)"

lemma read_drained: "ucEventBufferTryRead b 0 = Some (0, c, p, b') \<Longrightarrow> drained b' \<and> b' = b"
  by (auto simp: drained_def ucEventBufferTryRead_def Let_def split: if_splits bind_splits)

lemma drained_empty: "ev_inv b \<Longrightarrow> ev_contents b = [] \<Longrightarrow> drained b"
  by (simp add: drained_def read_empty)

text \<open>\<open>others P s s'\<close>: the instances outside \<open>P\<close> differ in the ARP fields at most.\<close>

definition others :: "nat set \<Rightarrow> 'w smbus_st \<Rightarrow> 'w smbus_st \<Rightarrow> bool" where
  "others P s s' \<longleftrightarrow> (\<forall>j. j \<notin> P \<longrightarrow> arp_erase (inst j s') = arp_erase (inst j s))"

lemma arp_erase_eq: "arp_erase x = arp_erase y \<Longrightarrow> ucInstanceInUse x = ucInstanceInUse y \<and>
  xEventSrcCircularBuf x = xEventSrcCircularBuf y"
  by (frule arg_cong [of _ _ ucInstanceInUse], drule arg_cong [of _ _ xEventSrcCircularBuf]) (simp add: arp_erase_def)

lemma others_fields: "others P s t \<Longrightarrow> j \<notin> P \<Longrightarrow> ucInstanceInUse (inst j t) = ucInstanceInUse (inst j s) \<and>
  xEventSrcCircularBuf (inst j t) = xEventSrcCircularBuf (inst j s)"
  by (rule arp_erase_eq) (simp add: others_def)

lemma others_trans: "others P s t \<Longrightarrow> others R t u \<Longrightarrow> others (P \<union> R) s u"
  by (simp add: others_def)

lemma fsm_others: "post (vSMBusFSM E i ev s) (others {i} s)"
proof -
  have "post (vSMBusFSM E i ev s) (reach arp_erase i s (xState (inst i s)) (fsm_next (xState (inst i s)) ev))"
    by (rule fsm_reach, rule done_target_done_reach) simp_all
  then show ?thesis by (rule post_weaken) (auto simp: reach_def at_state_def others_def)
qed

lemma handle_queue_post: "post (handle_queue E i s) (\<lambda>s'. others {i} s s' \<and> drained (xEventSrcCircularBuf (inst i s')))"
proof (rule postI)
  fix s'
  show "handle_queue E i s = Some s' \<Longrightarrow> others {i} s s' \<and> drained (xEventSrcCircularBuf (inst i s'))"
  proof (induction rule: handle_queue.raw_induct [rotated, consumes 1, case_names step])
    case (step h E i s s')
    obtain res ev p buf where r: "ucEventBufferTryRead (xEventSrcCircularBuf (inst i s)) 0 = Some (res, ev, p, buf)"
      using step(2) by (auto split: bind_splits)
    let ?u = "upd_inst i (\<lambda>x. x\<lparr>xEventSrcCircularBuf := buf\<rparr>) s"
    show ?case
    proof (cases "res = 0")
      case True
      with r step(2) show ?thesis using read_drained by (auto simp: others_def)
    next
      case False
      with r step(2) obtain t where t: "vSMBusFSM E i ev ?u = Some t" "h E i t = Some s'" by (auto split: bind_splits)
      from fsm_others [of E i ev ?u] t(1) have "others {i} s t" by (simp add: others_def)
      with step(1) [OF t(2)] show ?thesis by (simp add: others_def)
    qed
  qed
qed

lemma handle_queues_post:
  "distinct is \<Longrightarrow> post (handle_queues E is s) (\<lambda>s'. others (set is) s s' \<and>
    (\<forall>i \<in> set is. ucInstanceInUse (inst i s') = SMBUS_TRUE \<longrightarrow> drained (xEventSrcCircularBuf (inst i s'))))"
proof (induction "is" arbitrary: s)
  case (Cons i "is")
  have one: "post (if ucInstanceInUse (inst i s) = SMBUS_TRUE then handle_queue E i s else Some s)
      (\<lambda>t. others {i} s t \<and> (ucInstanceInUse (inst i t) = SMBUS_TRUE \<longrightarrow> drained (xEventSrcCircularBuf (inst i t))))"
    by (auto intro: post_weaken [OF handle_queue_post] simp: others_def)
  show ?case
    unfolding handle_queues.simps
  proof (rule post_bind [OF one])
    fix t
    assume t: "others {i} s t \<and> (ucInstanceInUse (inst i t) = SMBUS_TRUE \<longrightarrow> drained (xEventSrcCircularBuf (inst i t)))"
    have d: "distinct is" "i \<notin> set is" using Cons.prems by simp_all
    show "post (handle_queues E is t) (\<lambda>s'. others (set (i # is)) s s' \<and>
      (\<forall>k \<in> set (i # is). ucInstanceInUse (inst k s') = SMBUS_TRUE \<longrightarrow> drained (xEventSrcCircularBuf (inst k s'))))"
    proof (rule post_weaken [OF Cons.IH [OF d(1)]], elim conjE)
      fix u
      assume u: "others (set is) t u"
        "\<forall>k \<in> set is. ucInstanceInUse (inst k u) = SMBUS_TRUE \<longrightarrow> drained (xEventSrcCircularBuf (inst k u))"
      show "others (set (i # is)) s u \<and>
          (\<forall>k \<in> set (i # is). ucInstanceInUse (inst k u) = SMBUS_TRUE \<longrightarrow> drained (xEventSrcCircularBuf (inst k u)))"
        using t others_trans [OF conjunct1 [OF t] u(1)] others_fields [OF u(1) d(2)] u(2) by simp
    qed
  qed
qed (simp add: others_def)

definition settled :: "'w smbus_st \<Rightarrow> bool" where
  "settled s \<longleftrightarrow> [i \<leftarrow> [0..<SMBUS_NUM_INSTANCES].
     ucInstanceInUse (inst i s) = SMBUS_TRUE \<and> \<not> drained (xEventSrcCircularBuf (inst i s))] = []"

lemma handle_settled: "post (vSMBusEventQueueHandle E s) settled"
  unfolding vSMBusEventQueueHandle_def
  by (rule post_weaken [OF handle_queues_post]) (auto simp: settled_def filter_empty_conv)

text \<open>
  When the queue handler returns, no event is left in the queue of any instance that is in
  use: each queue is emptied in turn and handling an event never raises one for another
  instance.
\<close>

theorem queue_handler_drains:
  "post (vSMBusEventQueueHandle E s) (\<lambda>s'. [i \<leftarrow> [0..<SMBUS_NUM_INSTANCES].
     ucInstanceInUse (inst i s') = SMBUS_TRUE \<and> \<not> drained (xEventSrcCircularBuf (inst i s'))] = [])"
  using handle_settled by (simp add: settled_def [abs_def])

section \<open>A transaction on an instance that is not in use\<close>

lemma upd_inst_same: "f (inst i s) = inst i s \<Longrightarrow> upd_inst i f s = s"
  by (simp add: upd_inst_def inst_def)

lemma handle_queue_idle:
  assumes "ev_inv (xEventSrcCircularBuf (inst i s))" and "ev_contents (xEventSrcCircularBuf (inst i s)) = []"
  shows "handle_queue E i s = Some s"
  by (subst handle_queue.simps) (simp add: read_empty [OF assms] upd_inst_same)

text \<open>Nothing is pending for an instance in use.\<close>

definition quiescent :: "'w smbus_st \<Rightarrow> bool" where
  "quiescent s \<longleftrightarrow> (\<forall>i < SMBUS_NUM_INSTANCES. ucInstanceInUse (inst i s) = SMBUS_TRUE \<longrightarrow>
     ev_inv (xEventSrcCircularBuf (inst i s)) \<and> ev_contents (xEventSrcCircularBuf (inst i s)) = [])"

lemma quiescent_handle: "quiescent s \<Longrightarrow> vSMBusEventQueueHandle E s = Some s"
proof -
  assume q: "quiescent s"
  have "(\<And>i. i \<in> set is \<Longrightarrow> i < 8) \<Longrightarrow> handle_queues E is s = Some s" for "is"
    using q by (induction "is") (auto simp: quiescent_def handle_queue_idle)
  from this [of "[0..<8]"] show ?thesis by (simp add: vSMBusEventQueueHandle_def)
qed

text \<open>No transaction starts while another one holds the bus.\<close>

lemma initiate_refused:
  assumes "ucInstanceInPlay (prof s) \<noteq> SMBUS_INVALID_INSTANCE"
  shows "post (xSMBusControllerInitiateCommand E n dest cmd xProto nbytes buf pec has_id s) (\<lambda>((r, tid), _). r = SMBUS_ERROR)"
proof -
  have "quietv (bus_lines_low E)" unfolding bus_lines_low_def [abs_def] by (intro quietv_bind quietv_if; simp)
  then have "post (bus_lines_low E s) (\<lambda>(low, t). log_only s t)" by (rule quietv_post) simp
  then have "post (bus_lines_low E s) (\<lambda>(low, t). ucInstanceInPlay (prof t) \<noteq> SMBUS_INVALID_INSTANCE)"
    by (rule post_weaken) (use assms log_onlyD(2) in fastforce)
  then have "post (do { (low, s) \<leftarrow> bus_lines_low E s;
      if low then do { s \<leftarrow> drv_error E 849 s; Some ((SMBUS_ERROR, None), s) }
      else initiate_command E n dest cmd xProto nbytes b pec s }) (\<lambda>((r, tid), _). r = SMBUS_ERROR)" for b
    by (rule post_bind) (auto simp: initiate_command_def Let_def intro!: postI split: if_splits bind_splits)
  then show ?thesis
    by (auto simp: xSMBusControllerInitiateCommand_def guarded_def post_bind_iff intro!: postI split: option.split)
qed

lemma lines_high:
  assumes "\<And>w. fst (env_in32 E (pvBaseAddr (prof s) + 0x200) w) AND 6 = 0" and "log_inv s"
  shows "okay (bus_lines_low E s) (\<lambda>(low, t). \<not> low \<and> logged s t)"
proof -
  have field: "okay (read_field E SMBUS_REG_PHY_STATUS m pos t) (\<lambda>(v, u). v = 0 \<and> logged s u)"
    if t: "logged s t" and m: "m = 4 \<and> pos = 2 \<or> m = 2 \<and> pos = 1" for m pos t
  proof -
    have "quietv (read_field E SMBUS_REG_PHY_STATUS m pos)" by simp
    then obtain v u where u: "read_field E SMBUS_REG_PHY_STATUS m pos t = Some (v, u)" "logged t u"
      using okayE [OF quietv_logged [OF _ loggedD(1) [OF t]]] by (metis (no_types, lifting) case_prodE)
    obtain w where w: "v = drop_bit pos (fst (env_in32 E (hw_address t SMBUS_REG_PHY_STATUS) w) AND m)"
      using u(1) by (auto simp: read_field_def prvulSMBusHardwareRead_def split: prod.splits bind_splits) (metis fst_conv)
    have "hw_address t SMBUS_REG_PHY_STATUS = pvBaseAddr (prof s) + 0x200"
      using t log_onlyD(4) [of s t] by (simp add: logged_def hw_address_def)
    then have "fst (env_in32 E (hw_address t SMBUS_REG_PHY_STATUS) w) AND 6 = 0" by (simp add: assms(1))
    moreover have "x AND 6 = 0 \<Longrightarrow> x AND 4 = 0 \<and> x AND 2 = 0" for x :: u32
    proof -
      assume "x AND 6 = 0"
      then have "(x AND 6) AND 4 = 0" "(x AND 6) AND 2 = 0" by simp_all
      then show ?thesis by (simp add: and.assoc)
    qed
    ultimately have z: "fst (env_in32 E (hw_address t SMBUS_REG_PHY_STATUS) w) AND m = 0" using m by auto
    have "v = 0" unfolding w z by simp
    then show ?thesis using u logged_trans [OF t u(2)] by simp
  qed
  have s: "logged s s" using assms(2) by (simp add: logged_def)
  show ?thesis
    unfolding bus_lines_low_def ulSMBusHWReadPHYStatusSMBClkLowTimeout_def ulSMBusHWReadPHYStatusSMBDATLowTimeout_def
    by (rule okay_bind [OF field [OF s]], simp, clarsimp, rule okay_bind [OF field], assumption, simp, clarsimp)
qed

lemma send_event_idle:
  assumes "ev_inv (xEventSrcCircularBuf (inst i s))" and "ev_contents (xEventSrcCircularBuf (inst i s)) = []"
    and "0 < ev_cap (xEventSrcCircularBuf (inst i s))"
  shows "okay (vSMBusGenerateEvent_E_SEND_NEXT_BYTE E i s) (\<lambda>t. \<exists>b. ev_inv b \<and> ev_contents b = [E_SEND_NEXT_BYTE] \<and>
    t = upd_inst i (\<lambda>x. x\<lparr>xEventSrcCircularBuf := b, ucTriggerFSM := SMBUS_TRUE\<rparr>) s)"
proof -
  have "length (ev_contents (xEventSrcCircularBuf (inst i s))) < ev_cap (xEventSrcCircularBuf (inst i s))"
    using assms by simp
  from write_room [OF assms(1) this, of E_SEND_NEXT_BYTE 0] assms(2)
  obtain p b where b: "ucEventBufferTryWrite (xEventSrcCircularBuf (inst i s)) E_SEND_NEXT_BYTE 0 =
      Some (SMBUS_EVENT_BUFFER_SUCCESS, p, b)" "ev_inv b" "ev_contents b = [E_SEND_NEXT_BYTE]"
    by (auto elim!: okayE)
  have "upd_inst i (\<lambda>x. x\<lparr>ucTriggerFSM := SMBUS_TRUE\<rparr>) (upd_inst i (\<lambda>x. x\<lparr>xEventSrcCircularBuf := b\<rparr>) s) =
      upd_inst i (\<lambda>x. x\<lparr>xEventSrcCircularBuf := b, ucTriggerFSM := SMBUS_TRUE\<rparr>) s"
    by (simp add: upd_inst_def)
  with b show ?thesis
    by (simp add: vSMBusGenerateEvent_E_SEND_NEXT_BYTE_def vSMBusCreateEvent_def) blast
qed

text \<open>
  The state a transaction leaves behind that was started on an entry \<open>i\<close> which is not in use:
  the bus is taken, the event that would start the state machine stays in a queue that is
  never looked at.
\<close>

definition stuck :: "nat \<Rightarrow> 'w smbus_st \<Rightarrow> bool" where
  "stuck i s \<longleftrightarrow> ucInstanceInPlay (prof s) = of_nat i \<and> ucInstanceInUse (inst i s) = SMBUS_FALSE \<and>
     xState (inst i s) = SMBUS_STATE_INITIAL \<and> ev_contents (xEventSrcCircularBuf (inst i s)) = [E_SEND_NEXT_BYTE] \<and>
     quiescent s"

lemma start_stuck:
  fixes s :: "'w smbus_st"
  assumes L: "log_inv s" and Q: "quiescent s" and P: "ucInstanceInPlay (prof s) = of_nat i"
    and U: "ucInstanceInUse (inst i s) = SMBUS_FALSE" and X: "xState (inst i s) = SMBUS_STATE_INITIAL"
    and B: "ev_inv (xEventSrcCircularBuf (inst i s))" "ev_contents (xEventSrcCircularBuf (inst i s)) = []"
      "0 < ev_cap (xEventSrcCircularBuf (inst i s))"
  shows "okay (start_transaction E i s) (stuck i)"
proof -
  have keep: "quiescent t" "inst k t = inst k s" "ucInstanceInPlay (prof t) = of_nat i" if "logged s t" for t k
    using Q P loggedD(2,5) [OF that] by (simp_all add: quiescent_def)
  have rest: "okay (do { v \<leftarrow> vSMBusHWWriteIRQGIEEnable E 0 u; v \<leftarrow> vSMBusEventQueueHandle E v;
      v \<leftarrow> vSMBusHWWriteIRQIER E SMBUS_CONTROLLER_IRQS v; vSMBusHWWriteIRQGIEEnable E 1 v }) (stuck i)"
    if u: "stuck i u" "log_inv u" for u :: "'w smbus_st"
  proof -
    have k: "stuck i v" "quiescent v" if "logged u v" for v
      using u(1) loggedD(2,5) [OF that] by (simp_all add: stuck_def quiescent_def)
    show ?thesis
    proof (rule okay_logged [OF quiet_logged [OF writes_quiet(12) u(2)]])
      fix v assume v: "logged u v"
      have "okay (do { w \<leftarrow> vSMBusHWWriteIRQIER E SMBUS_CONTROLLER_IRQS v; vSMBusHWWriteIRQGIEEnable E 1 w }) (logged u)"
        by (rule okay_logged [OF quiet_logged [OF writes_quiet(10) loggedD(1) [OF v]]], rule okay_weaken,
          rule quiet_logged [OF writes_quiet(12) loggedD(1)], assumption, blast intro: logged_trans v)
      with k show "okay (do { v \<leftarrow> vSMBusEventQueueHandle E v;
          v \<leftarrow> vSMBusHWWriteIRQIER E SMBUS_CONTROLLER_IRQS v; vSMBusHWWriteIRQGIEEnable E 1 v }) (stuck i)"
        by (auto simp: quiescent_handle [OF k(2) [OF v]] elim!: okay_weaken)
    qed
  qed
  have gen: "okay (do { u \<leftarrow> vSMBusGenerateEvent_E_SEND_NEXT_BYTE E i t; v \<leftarrow> vSMBusHWWriteIRQGIEEnable E 0 u;
      v \<leftarrow> vSMBusEventQueueHandle E v; v \<leftarrow> vSMBusHWWriteIRQIER E SMBUS_CONTROLLER_IRQS v;
      vSMBusHWWriteIRQGIEEnable E 1 v }) (stuck i)" if t: "logged s t" for t
  proof (rule okay_bind [OF send_event_idle])
    show "ev_inv (xEventSrcCircularBuf (inst i t))" "ev_contents (xEventSrcCircularBuf (inst i t)) = []"
      "0 < ev_cap (xEventSrcCircularBuf (inst i t))" using B keep(2) [OF t] by simp_all
    fix u
    assume "\<exists>b. ev_inv b \<and> ev_contents b = [E_SEND_NEXT_BYTE] \<and>
      u = upd_inst i (\<lambda>x. x\<lparr>xEventSrcCircularBuf := b, ucTriggerFSM := SMBUS_TRUE\<rparr>) t"
    then have "stuck i u" "log_inv u"
      using keep [OF t] loggedD(1) [OF t] U X by (auto simp: stuck_def quiescent_def upd_inst_def log_inv_def inst_def)
    then show "okay (do { v \<leftarrow> vSMBusHWWriteIRQGIEEnable E 0 u; v \<leftarrow> vSMBusEventQueueHandle E v;
      v \<leftarrow> vSMBusHWWriteIRQIER E SMBUS_CONTROLLER_IRQS v; vSMBusHWWriteIRQGIEEnable E 1 v }) (stuck i)" by (rule rest)
  qed
  show ?thesis
    unfolding start_transaction_def
    by (rule okay_logged [OF quiet_logged [OF writes_quiet(5) L]],
      rule okay_logged [OF quiet_logged [OF writes_quiet(4) loggedD(1)]], assumption) (rule gen, rule logged_trans)
qed

text \<open>
  A transaction started on an entry that is not in use locks the bus.  With the bus free,
  its lines high and nothing pending, \<open>xSMBusControllerInitiateCommand\<close> on such an entry
  answers success and gives out a transaction identifier; but the event it raises is in a queue
  that the queue handler skips, so that handling the queues changes nothing, the bus stays
  taken, and every later command on any instance is refused.
\<close>

theorem initiate_unused_locks:
  fixes s :: "'w smbus_st"
  assumes "good s" and "quiescent s" and "n \<le> SMBUS_LAST_NON_ARP_SMBUS_INSTANCE"
    and "ucInstanceInUse (inst (unat n) s) = SMBUS_FALSE" "xState (inst (unat n) s) = SMBUS_STATE_INITIAL"
      "ev_contents (xEventSrcCircularBuf (inst (unat n) s)) = []"
    and "ucInstanceInPlay (prof s) = SMBUS_INVALID_INSTANCE"
    and "\<And>w. fst (env_in32 E (pvBaseAddr (prof s) + 0x200) w) AND 6 = 0"
    and "protocol_num xProto < protocol_num SMBUS_PROTOCOL_NONE" "nbytes \<le> 256" "unat nbytes \<le> length b" "pec \<le> SMBUS_TRUE"
  shows "okay (xSMBusControllerInitiateCommand E n dest cmd xProto nbytes (Some b) pec True s) (\<lambda>((r, tid), t).
    r = SMBUS_SUCCESS \<and> tid = Some (ulTransactionID (prof s)) \<and> stuck (unat n) t \<and>
    vSMBusEventQueueHandle E t = Some t \<and>
    (\<forall>n' dest' cmd' xProto' nbytes' buf' pec' has_id.
      post (xSMBusControllerInitiateCommand E n' dest' cmd' xProto' nbytes' buf' pec' has_id t) (\<lambda>((r, tid), _). r = SMBUS_ERROR)))"
proof -
  let ?i = "unat n"
  have L: "log_inv s" and T: "tab (instances s) s" and ok: "table_ok (instances s)"
    using assms(1) by (simp_all add: good_def tab_def)
  have n: "of_nat ?i = n" "?i < 8" "n \<noteq> SMBUS_INVALID_INSTANCE" using assms(3) by (auto simp: word_le_nat_alt)
  have e: "entry_ok ?i (inst ?i s)" using table_entry [OF ok n(2)] by (simp add: inst_def)
  have cap: "0 < ev_cap (xEventSrcCircularBuf (inst ?i s))" "ev_inv (xEventSrcCircularBuf (inst ?i s))"
    using e by (simp_all add: entry_ok_def ev_cap_def)
  have fw: "guarded E l r s act = act" for l r and act :: "((SMBUS_ERROR_TYPE \<times> u32 option) \<times> 'w smbus_st) option"
    by (rule firewall_tab [OF T]) (rule table_firewall [OF ok])
  have fin: "vSMBusEventQueueHandle E t = Some t \<and> (\<forall>n' dest' cmd' xProto' nbytes' buf' pec' has_id.
      post (xSMBusControllerInitiateCommand E n' dest' cmd' xProto' nbytes' buf' pec' has_id t) (\<lambda>((r, tid), _). r = SMBUS_ERROR))"
    if "stuck ?i t" for t :: "'w smbus_st"
    using that n(1,3) by (auto simp: stuck_def quiescent_handle intro: initiate_refused)
  have init: "okay (initiate_command E n dest cmd xProto nbytes b pec t) (\<lambda>((r, tid), u).
      r = SMBUS_SUCCESS \<and> tid = Some (ulTransactionID (prof s)) \<and> stuck ?i u)" if t: "logged s t" for t
  proof -
    have same: "inst k t = inst k s" "ucInstanceInPlay (prof t) = SMBUS_INVALID_INSTANCE"
        "ulTransactionID (prof t) = ulTransactionID (prof s)" "log_inv t" for k
      using loggedD(1,2,5) [OF t] t log_onlyD(6) [of s t] assms(7) by (simp_all add: logged_def)
    let ?v = "take_bus n (upd_prof (\<lambda>p. p\<lparr>ulTransactionID := ulTransactionID p + 1\<rparr>) t)"
    obtain dat where dat: "copy_send_data ?i b nbytes ?v = Some (upd_inst ?i (\<lambda>x. x\<lparr>ucSendData := dat\<rparr>) ?v)"
      using assms(10,11) by (auto simp: copy_send_data_def arr_copy_def word_le_nat_alt)
    let ?u = "upd_inst ?i (\<lambda>x. x\<lparr>usSendDataSize := nbytes, usSendIndex := 0, ucCommand := controller_command xProto cmd,
      xProtocol := xProto, ucSMBusDestAddr := dest, ucPecRequiredForTransaction := pec\<rparr>)
      (upd_inst ?i (\<lambda>x. x\<lparr>ucSendData := dat\<rparr>) ?v)"
    have v: "inst k ?v = inst k s" for k using same(1) by (simp add: take_bus_def)
    have "okay (start_transaction E ?i ?u) (stuck ?i)"
    proof (rule start_stuck)
      show "log_inv ?u" using same(4) by (simp add: take_bus_def)
      show "quiescent ?u" using assms(2,4) v by (auto simp: quiescent_def)
      show "ucInstanceInPlay (prof ?u) = of_nat ?i" by (simp add: take_bus_def upd_prof_def upd_inst_def)
    qed (use assms(4,5,6) cap v in simp_all)
    with dat same assms(5) show ?thesis by (auto simp: initiate_command_def Let_def elim!: okayE)
  qed
  have "okay (do { (low, u) \<leftarrow> bus_lines_low E s;
      if low then do { u \<leftarrow> drv_error E 849 u; Some ((SMBUS_ERROR, None), u) }
      else initiate_command E n dest cmd xProto nbytes b pec u }) (\<lambda>((r, tid), u).
      r = SMBUS_SUCCESS \<and> tid = Some (ulTransactionID (prof s)) \<and> stuck ?i u)"
    by (rule okay_bind [OF lines_high [OF assms(8) L]]) (auto simp: init)
  then have "okay (xSMBusControllerInitiateCommand E n dest cmd xProto nbytes (Some b) pec True s) (\<lambda>((r, tid), u).
      r = SMBUS_SUCCESS \<and> tid = Some (ulTransactionID (prof s)) \<and> stuck ?i u)"
    using assms(3,9,10,12) fw by (simp add: xSMBusControllerInitiateCommand_def)
  then show ?thesis by (rule okay_weaken) (use fin in auto)
qed

text \<open>Hardware whose registers read as zero.\<close>

definition zero_env :: "(u64 \<Rightarrow> u32) smbus_env" where
  "zero_env = memory_env\<lparr>env_in32 := (\<lambda>a w. (0, w))\<rparr>"

lemma initiate_unused_locks_witness:
  "okay (xSMBusControllerInitiateCommand zero_env 2 0x50 0 SMBUS_PROTOCOL_WRITE_BYTE 1 (Some [7]) 0 True
     (take_bus SMBUS_INVALID_INSTANCE idle_driver)) (\<lambda>((r, tid), t). r = SMBUS_SUCCESS \<and> stuck 2 t)"
proof -
  let ?s = "take_bus SMBUS_INVALID_INSTANCE idle_driver"
  have e: "instances ?s = instances idle_driver" "inst i ?s = instances idle_driver i" for i
    by (simp_all add: take_bus_def upd_prof_def inst_def)
  have idle: "idle_entry i (instances ?s i)" for i using idle_driver_idle(1) by (simp only: e(1))
  have g: "good ?s"
    using idle_table [of "instances ?s"] idle idle_driver_idle(2)
    by (simp add: good_def take_bus_def upd_prof_def log_inv_def)
  have q: "quiescent ?s" using idle_driver_idle(1) by (auto simp: quiescent_def e(2) idle_entry_def)
  have f: "ucInstanceInUse (inst i ?s) = SMBUS_FALSE" "ev_contents (xEventSrcCircularBuf (inst i ?s)) = []"
    "xState (inst i ?s) = SMBUS_STATE_INITIAL" for i
    using idle_driver_idle(1) [of i] idle_driver_idle(3) [of i] by (simp_all add: e idle_entry_def inst_def)
  have "okay (xSMBusControllerInitiateCommand zero_env 2 0x50 0 SMBUS_PROTOCOL_WRITE_BYTE 1 (Some [7]) 0 True ?s) (\<lambda>((r, tid), t).
    r = SMBUS_SUCCESS \<and> tid = Some (ulTransactionID (prof ?s)) \<and> stuck (unat (2 :: u8)) t \<and>
    vSMBusEventQueueHandle zero_env t = Some t \<and>
    (\<forall>n' dest' cmd' xProto' nbytes' buf' pec' has_id.
      post (xSMBusControllerInitiateCommand zero_env n' dest' cmd' xProto' nbytes' buf' pec' has_id t) (\<lambda>((r, tid), _). r = SMBUS_ERROR)))"
    by (rule initiate_unused_locks) (use g q f in \<open>simp_all add: take_bus_def upd_prof_def idle_driver_def zero_profile_def zero_env_def\<close>)
  then show ?thesis by (rule okay_weaken) auto
qed

end
