(* ===== verification/SMBus_Interrupt.thy ===== *)
theory SMBus_Interrupt
  imports SMBus_Queues
begin

text \<open>
  The interrupt handler (\<open>smbus_interrupt_handler.c\<close>): it reads which interrupts are pending,
  turns them into events of the target and of the controller instance concerned, has the queue
  handler process them, and acknowledges the interrupts.
\<close>

abbreviation (input) SMBUS_INTERRUPT_ERROR_IRQ :: u32 where "SMBUS_INTERRUPT_ERROR_IRQ \<equiv> 0x1"
abbreviation (input) SMBUS_INTERRUPT_TGT_LOA :: u32 where "SMBUS_INTERRUPT_TGT_LOA \<equiv> 0x2"
abbreviation (input) SMBUS_INTERRUPT_TGT_PEC_ERROR :: u32 where "SMBUS_INTERRUPT_TGT_PEC_ERROR \<equiv> 0x4"
abbreviation (input) SMBUS_INTERRUPT_TGT_DONE :: u32 where "SMBUS_INTERRUPT_TGT_DONE \<equiv> 0x8"
abbreviation (input) SMBUS_INTERRUPT_TGT_DESC_FIFO_EMPTY :: u32 where "SMBUS_INTERRUPT_TGT_DESC_FIFO_EMPTY \<equiv> 0x10"
abbreviation (input) SMBUS_INTERRUPT_TGT_RX_FIFO_FILL_THRESHOLD :: u32 where "SMBUS_INTERRUPT_TGT_RX_FIFO_FILL_THRESHOLD \<equiv> 0x20"
abbreviation (input) SMBUS_INTERRUPT_TGT_READ :: u32 where "SMBUS_INTERRUPT_TGT_READ \<equiv> 0x40"
abbreviation (input) SMBUS_INTERRUPT_TGT_WRITE :: u32 where "SMBUS_INTERRUPT_TGT_WRITE \<equiv> 0x80"
abbreviation (input) SMBUS_INTERRUPT_TGT_DESC_FIFO_ALMOST_EMPTY :: u32 where "SMBUS_INTERRUPT_TGT_DESC_FIFO_ALMOST_EMPTY \<equiv> 0x100"
abbreviation (input) SMBUS_INTERRUPT_CTLR_LOA :: u32 where "SMBUS_INTERRUPT_CTLR_LOA \<equiv> 0x200"
abbreviation (input) SMBUS_INTERRUPT_CTLR_NACK_ERROR :: u32 where "SMBUS_INTERRUPT_CTLR_NACK_ERROR \<equiv> 0x400"
abbreviation (input) SMBUS_INTERRUPT_CTLR_PEC_ERROR :: u32 where "SMBUS_INTERRUPT_CTLR_PEC_ERROR \<equiv> 0x800"
abbreviation (input) SMBUS_INTERRUPT_CTLR_DONE :: u32 where "SMBUS_INTERRUPT_CTLR_DONE \<equiv> 0x1000"
abbreviation (input) SMBUS_INTERRUPT_CTLR_DESC_FIFO_EMPTY :: u32 where "SMBUS_INTERRUPT_CTLR_DESC_FIFO_EMPTY \<equiv> 0x2000"
abbreviation (input) SMBUS_INTERRUPT_CTLR_RX_FIFO_FILL_THRESHOLD :: u32 where "SMBUS_INTERRUPT_CTLR_RX_FIFO_FILL_THRESHOLD \<equiv> 0x4000"
abbreviation (input) SMBUS_INTERRUPT_CTLR_DESC_FIFO_ALMOST_EMPTY :: u32 where "SMBUS_INTERRUPT_CTLR_DESC_FIFO_ALMOST_EMPTY \<equiv> 0x8000"
abbreviation (input) SMBUS_ERROR_INTERRUPT_PHY_SMBCLK_LOW_TIMEOUT :: u32 where "SMBUS_ERROR_INTERRUPT_PHY_SMBCLK_LOW_TIMEOUT \<equiv> 0x1"
abbreviation (input) SMBUS_ERROR_INTERRUPT_PHY_SMBDAT_LOW_TIMEOUT :: u32 where "SMBUS_ERROR_INTERRUPT_PHY_SMBDAT_LOW_TIMEOUT \<equiv> 0x2"
abbreviation (input) SMBUS_ERROR_INTERRUPT_PHY_UNEXPTD_BUS_IDLE :: u32 where "SMBUS_ERROR_INTERRUPT_PHY_UNEXPTD_BUS_IDLE \<equiv> 0x4"
abbreviation (input) SMBUS_ERROR_INTERRUPT_TGT_DESC_ERROR :: u32 where "SMBUS_ERROR_INTERRUPT_TGT_DESC_ERROR \<equiv> 0x8"
abbreviation (input) SMBUS_ERROR_INTERRUPT_TGT_DESC_FIFO_UNDERFLOW :: u32 where "SMBUS_ERROR_INTERRUPT_TGT_DESC_FIFO_UNDERFLOW \<equiv> 0x10"
abbreviation (input) SMBUS_ERROR_INTERRUPT_TGT_DESC_FIFO_OVERFLOW :: u32 where "SMBUS_ERROR_INTERRUPT_TGT_DESC_FIFO_OVERFLOW \<equiv> 0x20"
abbreviation (input) SMBUS_ERROR_INTERRUPT_TGT_DESC_FIFO_ERROR :: u32 where "SMBUS_ERROR_INTERRUPT_TGT_DESC_FIFO_ERROR \<equiv> 0x40"
abbreviation (input) SMBUS_ERROR_INTERRUPT_TGT_RX_FIFO_UNDERFLOW :: u32 where "SMBUS_ERROR_INTERRUPT_TGT_RX_FIFO_UNDERFLOW \<equiv> 0x80"
abbreviation (input) SMBUS_ERROR_INTERRUPT_TGT_RX_FIFO_OVERFLOW :: u32 where "SMBUS_ERROR_INTERRUPT_TGT_RX_FIFO_OVERFLOW \<equiv> 0x100"
abbreviation (input) SMBUS_ERROR_INTERRUPT_TGT_RX_FIFO_ERROR :: u32 where "SMBUS_ERROR_INTERRUPT_TGT_RX_FIFO_ERROR \<equiv> 0x200"
abbreviation (input) SMBUS_ERROR_INTERRUPT_PHY_TGT_TEXT_TIMEOUT :: u32 where "SMBUS_ERROR_INTERRUPT_PHY_TGT_TEXT_TIMEOUT \<equiv> 0x400"
abbreviation (input) SMBUS_ERROR_INTERRUPT_CTLR_DESC_ERROR :: u32 where "SMBUS_ERROR_INTERRUPT_CTLR_DESC_ERROR \<equiv> 0x800"
abbreviation (input) SMBUS_ERROR_INTERRUPT_CTLR_DESC_FIFO_UNDERFLOW :: u32 where "SMBUS_ERROR_INTERRUPT_CTLR_DESC_FIFO_UNDERFLOW \<equiv> 0x1000"
abbreviation (input) SMBUS_ERROR_INTERRUPT_CTLR_DESC_FIFO_OVERFLOW :: u32 where "SMBUS_ERROR_INTERRUPT_CTLR_DESC_FIFO_OVERFLOW \<equiv> 0x2000"
abbreviation (input) SMBUS_ERROR_INTERRUPT_CTLR_DESC_FIFO_ERROR :: u32 where "SMBUS_ERROR_INTERRUPT_CTLR_DESC_FIFO_ERROR \<equiv> 0x4000"
abbreviation (input) SMBUS_ERROR_INTERRUPT_CTLR_RX_FIFO_UNDERFLOW :: u32 where "SMBUS_ERROR_INTERRUPT_CTLR_RX_FIFO_UNDERFLOW \<equiv> 0x8000"
abbreviation (input) SMBUS_ERROR_INTERRUPT_CTLR_RX_FIFO_OVERFLOW :: u32 where "SMBUS_ERROR_INTERRUPT_CTLR_RX_FIFO_OVERFLOW \<equiv> 0x10000"
abbreviation (input) SMBUS_ERROR_INTERRUPT_CTLR_RX_FIFO_ERROR :: u32 where "SMBUS_ERROR_INTERRUPT_CTLR_RX_FIFO_ERROR \<equiv> 0x20000"
abbreviation (input) SMBUS_ERROR_INTERRUPT_PHY_CTLR_TEXT_TIMEOUT :: u32 where "SMBUS_ERROR_INTERRUPT_PHY_CTLR_TEXT_TIMEOUT \<equiv> 0x40000"
abbreviation (input) SMBUS_ERROR_INTERRUPT_PHY_CTLR_CEXT_TIMEOUT :: u32 where "SMBUS_ERROR_INTERRUPT_PHY_CTLR_CEXT_TIMEOUT \<equiv> 0x80000"
abbreviation (input) SMBUS_INTERRUPT_TGT_INTERRUPTS :: u32 where "SMBUS_INTERRUPT_TGT_INTERRUPTS \<equiv> 0x1FE"
abbreviation (input) SMBUS_INTERRUPT_CTLR_INTERRUPTS :: u32 where "SMBUS_INTERRUPT_CTLR_INTERRUPTS \<equiv> 0xFE00"
abbreviation (input) SMBUS_INTERRUPT_CTLR_ERROR_INTERRUPTS :: u32 where "SMBUS_INTERRUPT_CTLR_ERROR_INTERRUPTS \<equiv> 0xFF800"
abbreviation (input) SMBUS_INTERRUPT_TGT_ERROR_INTERRUPTS :: u32 where "SMBUS_INTERRUPT_TGT_ERROR_INTERRUPTS \<equiv> 0x7FF"
abbreviation (input) SMBUS_INTERRUPT_TGT_READ_OR_WRITE_INTERRUPTS :: u32 where "SMBUS_INTERRUPT_TGT_READ_OR_WRITE_INTERRUPTS \<equiv> 0xC0"

definition ucSMBusDetermineInstanceFromTargetAddress :: "'w smbus_env \<Rightarrow> 'w smbus_st \<Rightarrow> (u8 \<times> 'w smbus_st) option" where
  "ucSMBusDetermineInstanceFromTargetAddress E s = do {
     (a, s) \<leftarrow> ulSMBusHWReadTgtStatusAddress E s;
     Some (case find (\<lambda>i. ucInstanceInUse (inst i s) = SMBUS_TRUE \<and> ucast a = ucSMBusAddr (inst i s)) [0..<SMBUS_NUM_INSTANCES] of
             None \<Rightarrow> SMBUS_INVALID_INSTANCE | Some i \<Rightarrow> of_nat i, s) }"

definition prvvSMBusClearInterrupts :: "'w smbus_env \<Rightarrow> u32 \<Rightarrow> u32 \<Rightarrow> 'w smbus_st \<Rightarrow> 'w smbus_st option" where
  "prvvSMBusClearInterrupts E isr err s = do {
     s \<leftarrow> vSMBusHWWriteERRIRQISR E err s;
     vSMBusHWWriteIRQISR E isr s }"

section \<open>From interrupts to events\<close>

text \<open>The events of the bits of a vector, in the order of the code.\<close>

definition when_set :: "u32 \<Rightarrow> u32 \<Rightarrow> ('w smbus_st \<Rightarrow> 'w smbus_st option) \<Rightarrow> 'w smbus_st \<Rightarrow> 'w smbus_st option" where
  "when_set v m f s = (if v AND m \<noteq> 0 then f s else Some s)"

definition target_error_events :: "'w smbus_env \<Rightarrow> nat \<Rightarrow> u32 \<Rightarrow> 'w smbus_st \<Rightarrow> 'w smbus_st option" where
  "target_error_events E i ev s = do {
     s \<leftarrow> when_set ev SMBUS_ERROR_INTERRUPT_PHY_TGT_TEXT_TIMEOUT (vSMBusGenerateEvent_E_TARGET_PHY_TEXT_TIMEOUT_ERROR_IRQ E i) s;
     s \<leftarrow> when_set ev SMBUS_ERROR_INTERRUPT_TGT_RX_FIFO_ERROR (vSMBusGenerateEvent_E_TARGET_RX_FIFO_ERROR_ERROR_IRQ E i) s;
     s \<leftarrow> when_set ev SMBUS_ERROR_INTERRUPT_TGT_RX_FIFO_OVERFLOW (vSMBusGenerateEvent_E_TARGET_RX_FIFO_OVERFLOW_ERROR_IRQ E i) s;
     s \<leftarrow> when_set ev SMBUS_ERROR_INTERRUPT_TGT_RX_FIFO_UNDERFLOW (vSMBusGenerateEvent_E_TARGET_RX_FIFO_UNDERFLOW_ERROR_IRQ E i) s;
     s \<leftarrow> when_set ev SMBUS_ERROR_INTERRUPT_TGT_DESC_FIFO_ERROR (vSMBusGenerateEvent_E_TARGET_DESC_FIFO_ERROR_IRQ E i) s;
     s \<leftarrow> when_set ev SMBUS_ERROR_INTERRUPT_TGT_DESC_FIFO_OVERFLOW (vSMBusGenerateEvent_E_TARGET_DESC_FIFO_OVERFLOW_ERROR_IRQ E i) s;
     s \<leftarrow> when_set ev SMBUS_ERROR_INTERRUPT_TGT_DESC_FIFO_UNDERFLOW (vSMBusGenerateEvent_E_TARGET_DESC_FIFO_UNDERFLOW_ERROR_IRQ E i) s;
     s \<leftarrow> when_set ev SMBUS_ERROR_INTERRUPT_TGT_DESC_ERROR (vSMBusGenerateEvent_E_TARGET_DESC_ERROR_IRQ E i) s;
     s \<leftarrow> when_set ev SMBUS_ERROR_INTERRUPT_PHY_UNEXPTD_BUS_IDLE (vSMBusGenerateEvent_E_TARGET_PHY_UNEXPTD_BUS_IDLE_ERROR_IRQ E i) s;
     s \<leftarrow> when_set ev SMBUS_ERROR_INTERRUPT_PHY_SMBDAT_LOW_TIMEOUT (vSMBusGenerateEvent_E_TARGET_PHY_SMBDAT_LOW_TIMEOUT_DESC_ERROR_IRQ E i) s;
     s \<leftarrow> when_set ev SMBUS_ERROR_INTERRUPT_PHY_SMBCLK_LOW_TIMEOUT (vSMBusGenerateEvent_E_TARGET_PHY_SMBCLK_LOW_TIMEOUT_ERROR_IRQ E i) s;
     Some s }"

definition target_irq_events :: "'w smbus_env \<Rightarrow> nat \<Rightarrow> u32 \<Rightarrow> 'w smbus_st \<Rightarrow> 'w smbus_st option" where
  "target_irq_events E i iv s = do {
     s \<leftarrow> when_set iv SMBUS_INTERRUPT_TGT_LOA (vSMBusGenerateEvent_E_TARGET_LOA_ERROR_IRQ E i) s;
     s \<leftarrow> when_set iv SMBUS_INTERRUPT_TGT_PEC_ERROR (vSMBusGenerateEvent_E_TARGET_PEC_ERROR_IRQ E i) s;
     s \<leftarrow> when_set iv SMBUS_INTERRUPT_TGT_READ (vSMBusGenerateEvent_E_TARGET_READ_IRQ E i) s;
     s \<leftarrow> when_set iv SMBUS_INTERRUPT_TGT_WRITE (vSMBusGenerateEvent_E_TARGET_WRITE_IRQ E i) s;
     s \<leftarrow> when_set iv SMBUS_INTERRUPT_TGT_RX_FIFO_FILL_THRESHOLD (vSMBusGenerateEvent_E_TARGET_DATA_IRQ E i) s;
     s \<leftarrow> when_set iv SMBUS_INTERRUPT_TGT_DONE (vSMBusGenerateEvent_E_TARGET_DONE_IRQ E i) s;
     s \<leftarrow> when_set iv SMBUS_INTERRUPT_TGT_DESC_FIFO_ALMOST_EMPTY (vSMBusGenerateEvent_E_DESC_FIFO_ALMOST_EMPTY_IRQ E i) s;
     Some s }"

definition controller_error_events :: "'w smbus_env \<Rightarrow> nat \<Rightarrow> u32 \<Rightarrow> 'w smbus_st \<Rightarrow> 'w smbus_st option" where
  "controller_error_events E i ev s = do {
     s \<leftarrow> when_set ev SMBUS_ERROR_INTERRUPT_PHY_CTLR_TEXT_TIMEOUT (vSMBusGenerateEvent_E_CONTROLLER_PHY_CTLR_TEXT_TIMEOUT_ERROR_IRQ E i) s;
     s \<leftarrow> when_set ev SMBUS_ERROR_INTERRUPT_PHY_CTLR_CEXT_TIMEOUT (vSMBusGenerateEvent_E_CONTROLLER_PHY_CTLR_CEXT_TIMEOUT_ERROR_IRQ E i) s;
     s \<leftarrow> when_set ev SMBUS_ERROR_INTERRUPT_CTLR_RX_FIFO_ERROR (vSMBusGenerateEvent_E_CONTROLLER_RX_FIFO_ERROR_IRQ E i) s;
     s \<leftarrow> when_set ev SMBUS_ERROR_INTERRUPT_CTLR_RX_FIFO_OVERFLOW (vSMBusGenerateEvent_E_CONTROLLER_RX_FIFO_OVERFLOW_ERROR_IRQ E i) s;
     s \<leftarrow> when_set ev SMBUS_ERROR_INTERRUPT_CTLR_RX_FIFO_UNDERFLOW (vSMBusGenerateEvent_E_CONTROLLER_RX_FIFO_UNDERFLOW_ERROR_IRQ E i) s;
     s \<leftarrow> when_set ev SMBUS_ERROR_INTERRUPT_CTLR_DESC_FIFO_ERROR (vSMBusGenerateEvent_E_CONTROLLER_DESC_FIFO_ERROR_IRQ E i) s;
     s \<leftarrow> when_set ev SMBUS_ERROR_INTERRUPT_CTLR_DESC_FIFO_OVERFLOW (vSMBusGenerateEvent_E_CONTROLLER_DESC_FIFO_OVERFLOW_ERROR_IRQ E i) s;
     s \<leftarrow> when_set ev SMBUS_ERROR_INTERRUPT_CTLR_DESC_FIFO_UNDERFLOW (vSMBusGenerateEvent_E_CONTROLLER_DESC_FIFO_UNDERFLOW_ERROR_IRQ E i) s;
     s \<leftarrow> when_set ev SMBUS_ERROR_INTERRUPT_CTLR_DESC_ERROR (vSMBusGenerateEvent_E_CONTROLLER_DESC_ERROR_IRQ E i) s;
     Some s }"

definition controller_irq_events :: "'w smbus_env \<Rightarrow> nat \<Rightarrow> u32 \<Rightarrow> 'w smbus_st \<Rightarrow> 'w smbus_st option" where
  "controller_irq_events E i iv s = do {
     s \<leftarrow> when_set iv SMBUS_INTERRUPT_CTLR_LOA (vSMBusGenerateEvent_E_CONTROLLER_LOA_ERROR_IRQ E i) s;
     s \<leftarrow> when_set iv SMBUS_INTERRUPT_CTLR_NACK_ERROR (vSMBusGenerateEvent_E_CONTROLLER_NACK_ERROR_IRQ E i) s;
     s \<leftarrow> when_set iv SMBUS_INTERRUPT_CTLR_PEC_ERROR (vSMBusGenerateEvent_E_CONTROLLER_PEC_ERROR_IRQ E i) s;
     s \<leftarrow> when_set iv SMBUS_INTERRUPT_CTLR_RX_FIFO_FILL_THRESHOLD (vSMBusGenerateEvent_E_CONTROLLER_DATA_IRQ E i) s;
     s \<leftarrow> when_set iv SMBUS_INTERRUPT_CTLR_DESC_FIFO_ALMOST_EMPTY (vSMBusGenerateEvent_E_CONTROLLER_DESC_FIFO_ALMOST_EMPTY_IRQ E i) s;
     s \<leftarrow> when_set iv SMBUS_INTERRUPT_CTLR_DONE (vSMBusGenerateEvent_E_CONTROLLER_DONE_IRQ E i) s;
     Some s }"

text \<open>The events of a target and of a controller instance.\<close>

definition target_events :: "'w smbus_env \<Rightarrow> nat \<Rightarrow> u32 \<Rightarrow> u32 \<Rightarrow> 'w smbus_st \<Rightarrow> 'w smbus_st option" where
  "target_events E i iv ev s = do {
     s \<leftarrow> (if ev AND SMBUS_INTERRUPT_TGT_ERROR_INTERRUPTS \<noteq> 0 then target_error_events E i ev s else Some s);
     target_irq_events E i iv s }"

definition controller_events :: "'w smbus_env \<Rightarrow> nat \<Rightarrow> u32 \<Rightarrow> u32 \<Rightarrow> 'w smbus_st \<Rightarrow> 'w smbus_st option" where
  "controller_events E i iv ev s = do {
     s \<leftarrow> (if ev AND SMBUS_INTERRUPT_CTLR_ERROR_INTERRUPTS \<noteq> 0 then controller_error_events E i ev s else Some s);
     controller_irq_events E i iv s }"

section \<open>The handler\<close>

text \<open>A line that is stuck low would interrupt for ever, so its interrupt is switched off.\<close>

definition mask_low_line :: "'w smbus_env \<Rightarrow> u32 \<Rightarrow> u32 \<Rightarrow> u32 \<Rightarrow> 'w smbus_st \<Rightarrow> 'w smbus_st option" where
  "mask_low_line E ev m keep s = when_set ev m (\<lambda>s. do {
     (ier, s) \<leftarrow> ulSMBusHWReadErrIRQIER E s;
     vSMBusHWWriteERRIRQIER E (ier AND keep) s }) s"

text \<open>The pending interrupts: the status registers as read, and the vectors of the enabled ones.\<close>

definition read_interrupts :: "'w smbus_env \<Rightarrow> 'w smbus_st \<Rightarrow> ((u32 \<times> u32 \<times> u32 \<times> u32) \<times> 'w smbus_st) option" where
  "read_interrupts E s = do {
     (isr, s) \<leftarrow> ulSMBusHWReadIRQISR E s;
     (ier, s) \<leftarrow> ulSMBusHWReadIRQIER E s;
     if (isr AND ier) AND SMBUS_INTERRUPT_ERROR_IRQ \<noteq> 0 then do {
       (err, s) \<leftarrow> ulSMBusHWReadErrIRQISR E s;
       (eier, s) \<leftarrow> ulSMBusHWReadErrIRQIER E s;
       s \<leftarrow> mask_low_line E (err AND eier) SMBUS_ERROR_INTERRUPT_PHY_SMBCLK_LOW_TIMEOUT 0x000FFFFE s;
       s \<leftarrow> mask_low_line E (err AND eier) SMBUS_ERROR_INTERRUPT_PHY_SMBDAT_LOW_TIMEOUT 0x000FFFFD s;
       Some ((isr, isr AND ier, err, err AND eier), s) }
     else Some ((isr, isr AND ier, 0, 0), s) }"

definition rearm_errors :: "'w smbus_env \<Rightarrow> 'w smbus_st \<Rightarrow> 'w smbus_st option" where
  "rearm_errors E s = do {
     (low, s) \<leftarrow> bus_lines_low E s;
     if \<not> low then vSMBusHWWriteERRIRQIER E 0x000FFFFF s else Some s }"

text \<open>The target's and the controller's part; the result is the instance number they looked at.\<close>

definition handle_target :: "'w smbus_env \<Rightarrow> u32 \<Rightarrow> u32 \<Rightarrow> u8 \<Rightarrow> 'w smbus_st \<Rightarrow> (u8 \<times> 'w smbus_st) option" where
  "handle_target E iv ev n s =
     (if iv AND (SMBUS_INTERRUPT_TGT_INTERRUPTS OR SMBUS_INTERRUPT_ERROR_IRQ) \<noteq> 0 then do {
        s \<leftarrow> (if iv AND SMBUS_INTERRUPT_TGT_READ_OR_WRITE_INTERRUPTS \<noteq> 0 then do {
                 (k, s) \<leftarrow> ucSMBusDetermineInstanceFromTargetAddress E s;
                 Some (upd_prof (\<lambda>p. p\<lparr>ucActiveTargetInstance := k\<rparr>) s) }
               else Some s);
        let n = ucActiveTargetInstance (prof s);
        s \<leftarrow> (if n \<le> SMBUS_LAST_SMBUS_INSTANCE then do {
                 s \<leftarrow> target_events E (unat n) iv ev s;
                 vSMBusEventQueueHandle E s }
               else vSMBusHWWriteTgtRxFifoReset E 1 s);
        Some (n, s) }
      else Some (n, s))"

definition handle_controller :: "'w smbus_env \<Rightarrow> u32 \<Rightarrow> u32 \<Rightarrow> u8 \<Rightarrow> 'w smbus_st \<Rightarrow> (u8 \<times> 'w smbus_st) option" where
  "handle_controller E iv ev n s =
     (if iv AND (SMBUS_INTERRUPT_CTLR_INTERRUPTS OR SMBUS_INTERRUPT_ERROR_IRQ) \<noteq> 0 then do {
        let n = ucInstanceInPlay (prof s);
        s \<leftarrow> (if n \<le> SMBUS_LAST_SMBUS_INSTANCE then do {
                 s \<leftarrow> controller_events E (unat n) iv ev s;
                 vSMBusEventQueueHandle E s }
               else do {
                 s \<leftarrow> vSMBusHWWriteCtrlRxFifoReset E 1 s;
                 vSMBusHWWriteCtrlDescFifoReset E 1 s });
        Some (n, s) }
      else Some (n, s))"

definition finish_interrupt :: "'w smbus_env \<Rightarrow> u32 \<Rightarrow> u32 \<Rightarrow> u32 \<Rightarrow> u8 \<Rightarrow> 'w smbus_st \<Rightarrow> 'w smbus_st option" where
  "finish_interrupt E isr iv err n s = do {
     s \<leftarrow> prvvSMBusClearInterrupts E isr err s;
     s \<leftarrow> (if n \<noteq> SMBUS_INVALID_INSTANCE \<and> iv AND SMBUS_INTERRUPT_CTLR_DONE \<noteq> 0
           then vSMBusHWWriteIRQIER E 0x000001EF s else Some s);
     vSMBusHWWriteIRQGIEEnable E 1 s }"

definition vSMBusInterruptHandler :: "'w smbus_env \<Rightarrow> 'w smbus_st \<Rightarrow> 'w smbus_st option" where
  "vSMBusInterruptHandler E s = do {
     s \<leftarrow> rearm_errors E s;
     s \<leftarrow> vSMBusHWWriteIRQGIEEnable E 0 s;
     ((isr, iv, err, ev), s) \<leftarrow> read_interrupts E s;
     s \<leftarrow> vLogAddEntry E SMBUS_LOG_LEVEL_INFO SMBUS_INSTANCE_UNDETERMINED SMBUS_LOG_EVENT_INTERRUPT_EVENT isr err s;
     (n, s) \<leftarrow> handle_target E iv ev SMBUS_INVALID_INSTANCE s;
     (n, s) \<leftarrow> handle_controller E iv ev n s;
     finish_interrupt E isr iv err n s }"

section \<open>The order of the events\<close>

text \<open>The events of each part, by the bit of the vector they come from.\<close>

definition target_error_table :: "(u32 \<times> u8) list" where
  "target_error_table = [(SMBUS_ERROR_INTERRUPT_PHY_TGT_TEXT_TIMEOUT, E_TARGET_PHY_TEXT_TIMEOUT_ERROR_IRQ),
     (SMBUS_ERROR_INTERRUPT_TGT_RX_FIFO_ERROR, E_TARGET_RX_FIFO_ERROR_ERROR_IRQ),
     (SMBUS_ERROR_INTERRUPT_TGT_RX_FIFO_OVERFLOW, E_TARGET_RX_FIFO_OVERFLOW_ERROR_IRQ),
     (SMBUS_ERROR_INTERRUPT_TGT_RX_FIFO_UNDERFLOW, E_TARGET_RX_FIFO_UNDERFLOW_ERROR_IRQ),
     (SMBUS_ERROR_INTERRUPT_TGT_DESC_FIFO_ERROR, E_TARGET_DESC_FIFO_ERROR_IRQ),
     (SMBUS_ERROR_INTERRUPT_TGT_DESC_FIFO_OVERFLOW, E_TARGET_DESC_FIFO_OVERFLOW_ERROR_IRQ),
     (SMBUS_ERROR_INTERRUPT_TGT_DESC_FIFO_UNDERFLOW, E_TARGET_DESC_FIFO_UNDERFLOW_ERROR_IRQ),
     (SMBUS_ERROR_INTERRUPT_TGT_DESC_ERROR, E_TARGET_DESC_ERROR_IRQ),
     (SMBUS_ERROR_INTERRUPT_PHY_UNEXPTD_BUS_IDLE, E_TARGET_PHY_UNEXPTD_BUS_IDLE_ERROR_IRQ),
     (SMBUS_ERROR_INTERRUPT_PHY_SMBDAT_LOW_TIMEOUT, E_TARGET_PHY_SMBDAT_LOW_TIMEOUT_DESC_ERROR_IRQ),
     (SMBUS_ERROR_INTERRUPT_PHY_SMBCLK_LOW_TIMEOUT, E_TARGET_PHY_SMBCLK_LOW_TIMEOUT_ERROR_IRQ)]"

definition target_irq_table :: "(u32 \<times> u8) list" where
  "target_irq_table = [(SMBUS_INTERRUPT_TGT_LOA, E_TARGET_LOA_ERROR_IRQ),
     (SMBUS_INTERRUPT_TGT_PEC_ERROR, E_TARGET_PEC_ERROR_IRQ),
     (SMBUS_INTERRUPT_TGT_READ, E_TARGET_READ_IRQ),
     (SMBUS_INTERRUPT_TGT_WRITE, E_TARGET_WRITE_IRQ),
     (SMBUS_INTERRUPT_TGT_RX_FIFO_FILL_THRESHOLD, E_TARGET_DATA_IRQ),
     (SMBUS_INTERRUPT_TGT_DONE, E_TARGET_DONE_IRQ),
     (SMBUS_INTERRUPT_TGT_DESC_FIFO_ALMOST_EMPTY, E_DESC_FIFO_ALMOST_EMPTY_IRQ)]"

definition controller_error_table :: "(u32 \<times> u8) list" where
  "controller_error_table = [(SMBUS_ERROR_INTERRUPT_PHY_CTLR_TEXT_TIMEOUT, E_CONTROLLER_PHY_CTLR_TEXT_TIMEOUT_ERROR_IRQ),
     (SMBUS_ERROR_INTERRUPT_PHY_CTLR_CEXT_TIMEOUT, E_CONTROLLER_PHY_CTLR_CEXT_TIMEOUT_ERROR_IRQ),
     (SMBUS_ERROR_INTERRUPT_CTLR_RX_FIFO_ERROR, E_CONTROLLER_RX_FIFO_ERROR_IRQ),
     (SMBUS_ERROR_INTERRUPT_CTLR_RX_FIFO_OVERFLOW, E_CONTROLLER_RX_FIFO_OVERFLOW_ERROR_IRQ),
     (SMBUS_ERROR_INTERRUPT_CTLR_RX_FIFO_UNDERFLOW, E_CONTROLLER_RX_FIFO_UNDERFLOW_ERROR_IRQ),
     (SMBUS_ERROR_INTERRUPT_CTLR_DESC_FIFO_ERROR, E_CONTROLLER_DESC_FIFO_ERROR_IRQ),
     (SMBUS_ERROR_INTERRUPT_CTLR_DESC_FIFO_OVERFLOW, E_CONTROLLER_DESC_FIFO_OVERFLOW_ERROR_IRQ),
     (SMBUS_ERROR_INTERRUPT_CTLR_DESC_FIFO_UNDERFLOW, E_CONTROLLER_DESC_FIFO_UNDERFLOW_ERROR_IRQ),
     (SMBUS_ERROR_INTERRUPT_CTLR_DESC_ERROR, E_CONTROLLER_DESC_ERROR_IRQ)]"

definition controller_irq_table :: "(u32 \<times> u8) list" where
  "controller_irq_table = [(SMBUS_INTERRUPT_CTLR_LOA, E_CONTROLLER_LOA_ERROR_IRQ),
     (SMBUS_INTERRUPT_CTLR_NACK_ERROR, E_CONTROLLER_NACK_ERROR_IRQ),
     (SMBUS_INTERRUPT_CTLR_PEC_ERROR, E_CONTROLLER_PEC_ERROR_IRQ),
     (SMBUS_INTERRUPT_CTLR_RX_FIFO_FILL_THRESHOLD, E_CONTROLLER_DATA_IRQ),
     (SMBUS_INTERRUPT_CTLR_DESC_FIFO_ALMOST_EMPTY, E_CONTROLLER_DESC_FIFO_ALMOST_EMPTY_IRQ),
     (SMBUS_INTERRUPT_CTLR_DONE, E_CONTROLLER_DONE_IRQ)]"

definition pending :: "u32 \<Rightarrow> (u32 \<times> u8) list \<Rightarrow> u8 list" where
  "pending v tb = map snd (filter (\<lambda>r. v AND fst r \<noteq> 0) tb)"

definition queue_is :: "nat \<Rightarrow> u8 list \<Rightarrow> 'w smbus_st \<Rightarrow> bool" where
  "queue_is i q s \<longleftrightarrow> ev_inv (xEventSrcCircularBuf (inst i s)) \<and> ev_cap (xEventSrcCircularBuf (inst i s)) = 300 \<and>
     ev_contents (xEventSrcCircularBuf (inst i s)) = q"

definition emits :: "nat \<Rightarrow> ('w smbus_st \<Rightarrow> 'w smbus_st option) \<Rightarrow> u8 \<Rightarrow> bool" where
  "emits i f x \<longleftrightarrow> (\<forall>s q. queue_is i q s \<longrightarrow> length q < 300 \<longrightarrow> okay (f s) (queue_is i (q @ [x])))"

lemma create_emits:
  fixes E :: "'w smbus_env"
  shows "emits i (vSMBusCreateEvent E i x) x"
  unfolding emits_def
proof (intro allI impI)
  fix s :: "'w smbus_st" and q
  assume q: "queue_is i q s" "length q < 300"
  then obtain p b where "ucEventBufferTryWrite (xEventSrcCircularBuf (inst i s)) x 0 =
      Some (SMBUS_EVENT_BUFFER_SUCCESS, p, b)" "ev_inv b" "ev_contents b = q @ [x]" "ev_cap b = 300"
    using write_room [of "xEventSrcCircularBuf (inst i s)" x 0] by (auto simp: queue_is_def elim!: okayE)
  then show "okay (vSMBusCreateEvent E i x s) (queue_is i (q @ [x]))"
    by (simp add: vSMBusCreateEvent_def queue_is_def)
qed

lemma generate_emits:
  "emits i (vSMBusGenerateEvent_E_TARGET_WRITE_IRQ E i) E_TARGET_WRITE_IRQ"
  "emits i (vSMBusGenerateEvent_E_TARGET_DATA_IRQ E i) E_TARGET_DATA_IRQ"
  "emits i (vSMBusGenerateEvent_E_CONTROLLER_DATA_IRQ E i) E_CONTROLLER_DATA_IRQ"
  "emits i (vSMBusGenerateEvent_E_TARGET_READ_IRQ E i) E_TARGET_READ_IRQ"
  "emits i (vSMBusGenerateEvent_E_TARGET_DONE_IRQ E i) E_TARGET_DONE_IRQ"
  "emits i (vSMBusGenerateEvent_E_CONTROLLER_DONE_IRQ E i) E_CONTROLLER_DONE_IRQ"
  "emits i (vSMBusGenerateEvent_E_TARGET_LOA_ERROR_IRQ E i) E_TARGET_LOA_ERROR_IRQ"
  "emits i (vSMBusGenerateEvent_E_TARGET_PEC_ERROR_IRQ E i) E_TARGET_PEC_ERROR_IRQ"
  "emits i (vSMBusGenerateEvent_E_TARGET_PHY_TEXT_TIMEOUT_ERROR_IRQ E i) E_TARGET_PHY_TEXT_TIMEOUT_ERROR_IRQ"
  "emits i (vSMBusGenerateEvent_E_TARGET_RX_FIFO_ERROR_ERROR_IRQ E i) E_TARGET_RX_FIFO_ERROR_ERROR_IRQ"
  "emits i (vSMBusGenerateEvent_E_TARGET_RX_FIFO_OVERFLOW_ERROR_IRQ E i) E_TARGET_RX_FIFO_OVERFLOW_ERROR_IRQ"
  "emits i (vSMBusGenerateEvent_E_TARGET_RX_FIFO_UNDERFLOW_ERROR_IRQ E i) E_TARGET_RX_FIFO_UNDERFLOW_ERROR_IRQ"
  "emits i (vSMBusGenerateEvent_E_TARGET_DESC_FIFO_ERROR_IRQ E i) E_TARGET_DESC_FIFO_ERROR_IRQ"
  "emits i (vSMBusGenerateEvent_E_TARGET_DESC_FIFO_OVERFLOW_ERROR_IRQ E i) E_TARGET_DESC_FIFO_OVERFLOW_ERROR_IRQ"
  "emits i (vSMBusGenerateEvent_E_TARGET_DESC_FIFO_UNDERFLOW_ERROR_IRQ E i) E_TARGET_DESC_FIFO_UNDERFLOW_ERROR_IRQ"
  "emits i (vSMBusGenerateEvent_E_TARGET_DESC_ERROR_IRQ E i) E_TARGET_DESC_ERROR_IRQ"
  "emits i (vSMBusGenerateEvent_E_TARGET_PHY_UNEXPTD_BUS_IDLE_ERROR_IRQ E i) E_TARGET_PHY_UNEXPTD_BUS_IDLE_ERROR_IRQ"
  "emits i (vSMBusGenerateEvent_E_TARGET_PHY_SMBDAT_LOW_TIMEOUT_DESC_ERROR_IRQ E i) E_TARGET_PHY_SMBDAT_LOW_TIMEOUT_DESC_ERROR_IRQ"
  "emits i (vSMBusGenerateEvent_E_TARGET_PHY_SMBCLK_LOW_TIMEOUT_ERROR_IRQ E i) E_TARGET_PHY_SMBCLK_LOW_TIMEOUT_ERROR_IRQ"
  "emits i (vSMBusGenerateEvent_E_CONTROLLER_LOA_ERROR_IRQ E i) E_CONTROLLER_LOA_ERROR_IRQ"
  "emits i (vSMBusGenerateEvent_E_CONTROLLER_NACK_ERROR_IRQ E i) E_CONTROLLER_NACK_ERROR_IRQ"
  "emits i (vSMBusGenerateEvent_E_CONTROLLER_PEC_ERROR_IRQ E i) E_CONTROLLER_PEC_ERROR_IRQ"
  "emits i (vSMBusGenerateEvent_E_CONTROLLER_PHY_CTLR_TEXT_TIMEOUT_ERROR_IRQ E i) E_CONTROLLER_PHY_CTLR_TEXT_TIMEOUT_ERROR_IRQ"
  "emits i (vSMBusGenerateEvent_E_CONTROLLER_PHY_CTLR_CEXT_TIMEOUT_ERROR_IRQ E i) E_CONTROLLER_PHY_CTLR_CEXT_TIMEOUT_ERROR_IRQ"
  "emits i (vSMBusGenerateEvent_E_CONTROLLER_RX_FIFO_ERROR_IRQ E i) E_CONTROLLER_RX_FIFO_ERROR_IRQ"
  "emits i (vSMBusGenerateEvent_E_CONTROLLER_RX_FIFO_OVERFLOW_ERROR_IRQ E i) E_CONTROLLER_RX_FIFO_OVERFLOW_ERROR_IRQ"
  "emits i (vSMBusGenerateEvent_E_CONTROLLER_RX_FIFO_UNDERFLOW_ERROR_IRQ E i) E_CONTROLLER_RX_FIFO_UNDERFLOW_ERROR_IRQ"
  "emits i (vSMBusGenerateEvent_E_CONTROLLER_DESC_FIFO_ERROR_IRQ E i) E_CONTROLLER_DESC_FIFO_ERROR_IRQ"
  "emits i (vSMBusGenerateEvent_E_CONTROLLER_DESC_FIFO_OVERFLOW_ERROR_IRQ E i) E_CONTROLLER_DESC_FIFO_OVERFLOW_ERROR_IRQ"
  "emits i (vSMBusGenerateEvent_E_CONTROLLER_DESC_FIFO_UNDERFLOW_ERROR_IRQ E i) E_CONTROLLER_DESC_FIFO_UNDERFLOW_ERROR_IRQ"
  "emits i (vSMBusGenerateEvent_E_CONTROLLER_DESC_ERROR_IRQ E i) E_CONTROLLER_DESC_ERROR_IRQ"
  "emits i (vSMBusGenerateEvent_E_DESC_FIFO_ALMOST_EMPTY_IRQ E i) E_DESC_FIFO_ALMOST_EMPTY_IRQ"
  "emits i (vSMBusGenerateEvent_E_CONTROLLER_DESC_FIFO_ALMOST_EMPTY_IRQ E i) E_CONTROLLER_DESC_FIFO_ALMOST_EMPTY_IRQ"
  by (simp_all add: create_emits vSMBusGenerateEvent_E_TARGET_WRITE_IRQ_def [abs_def]
    vSMBusGenerateEvent_E_TARGET_DATA_IRQ_def [abs_def]
    vSMBusGenerateEvent_E_CONTROLLER_DATA_IRQ_def [abs_def]
    vSMBusGenerateEvent_E_TARGET_READ_IRQ_def [abs_def]
    vSMBusGenerateEvent_E_TARGET_DONE_IRQ_def [abs_def]
    vSMBusGenerateEvent_E_CONTROLLER_DONE_IRQ_def [abs_def]
    vSMBusGenerateEvent_E_TARGET_LOA_ERROR_IRQ_def [abs_def]
    vSMBusGenerateEvent_E_TARGET_PEC_ERROR_IRQ_def [abs_def]
    vSMBusGenerateEvent_E_TARGET_PHY_TEXT_TIMEOUT_ERROR_IRQ_def [abs_def]
    vSMBusGenerateEvent_E_TARGET_RX_FIFO_ERROR_ERROR_IRQ_def [abs_def]
    vSMBusGenerateEvent_E_TARGET_RX_FIFO_OVERFLOW_ERROR_IRQ_def [abs_def]
    vSMBusGenerateEvent_E_TARGET_RX_FIFO_UNDERFLOW_ERROR_IRQ_def [abs_def]
    vSMBusGenerateEvent_E_TARGET_DESC_FIFO_ERROR_IRQ_def [abs_def]
    vSMBusGenerateEvent_E_TARGET_DESC_FIFO_OVERFLOW_ERROR_IRQ_def [abs_def]
    vSMBusGenerateEvent_E_TARGET_DESC_FIFO_UNDERFLOW_ERROR_IRQ_def [abs_def]
    vSMBusGenerateEvent_E_TARGET_DESC_ERROR_IRQ_def [abs_def]
    vSMBusGenerateEvent_E_TARGET_PHY_UNEXPTD_BUS_IDLE_ERROR_IRQ_def [abs_def]
    vSMBusGenerateEvent_E_TARGET_PHY_SMBDAT_LOW_TIMEOUT_DESC_ERROR_IRQ_def [abs_def]
    vSMBusGenerateEvent_E_TARGET_PHY_SMBCLK_LOW_TIMEOUT_ERROR_IRQ_def [abs_def]
    vSMBusGenerateEvent_E_CONTROLLER_LOA_ERROR_IRQ_def [abs_def]
    vSMBusGenerateEvent_E_CONTROLLER_NACK_ERROR_IRQ_def [abs_def]
    vSMBusGenerateEvent_E_CONTROLLER_PEC_ERROR_IRQ_def [abs_def]
    vSMBusGenerateEvent_E_CONTROLLER_PHY_CTLR_TEXT_TIMEOUT_ERROR_IRQ_def [abs_def]
    vSMBusGenerateEvent_E_CONTROLLER_PHY_CTLR_CEXT_TIMEOUT_ERROR_IRQ_def [abs_def]
    vSMBusGenerateEvent_E_CONTROLLER_RX_FIFO_ERROR_IRQ_def [abs_def]
    vSMBusGenerateEvent_E_CONTROLLER_RX_FIFO_OVERFLOW_ERROR_IRQ_def [abs_def]
    vSMBusGenerateEvent_E_CONTROLLER_RX_FIFO_UNDERFLOW_ERROR_IRQ_def [abs_def]
    vSMBusGenerateEvent_E_CONTROLLER_DESC_FIFO_ERROR_IRQ_def [abs_def]
    vSMBusGenerateEvent_E_CONTROLLER_DESC_FIFO_OVERFLOW_ERROR_IRQ_def [abs_def]
    vSMBusGenerateEvent_E_CONTROLLER_DESC_FIFO_UNDERFLOW_ERROR_IRQ_def [abs_def]
    vSMBusGenerateEvent_E_CONTROLLER_DESC_ERROR_IRQ_def [abs_def]
    vSMBusGenerateEvent_E_DESC_FIFO_ALMOST_EMPTY_IRQ_def [abs_def]
    vSMBusGenerateEvent_E_CONTROLLER_DESC_FIFO_ALMOST_EMPTY_IRQ_def [abs_def])

lemma when_step:
  assumes "emits i f x" and "queue_is i q s" and "length q + n \<le> 300" and "0 < n"
    and "\<And>t. queue_is i (q @ pending v [(m, x)]) t \<Longrightarrow> length (q @ pending v [(m, x)]) + (n - 1) \<le> 300 \<Longrightarrow> okay (g t) Q"
  shows "okay (Option.bind (when_set v m f s) g) Q"
proof (cases "v AND m = 0")
  case True
  with assms(2-5) show ?thesis by (simp add: when_set_def pending_def)
next
  case False
  have "okay (f s) (queue_is i (q @ [x]))" using assms(1-4) by (simp add: emits_def)
  with False assms(3,4,5) show ?thesis by (auto simp: when_set_def pending_def intro: okay_bind)
qed

lemma pending_append: "pending v (r # r' # rs) = pending v [r] @ pending v (r' # rs)"
  by (simp add: pending_def)

lemmas pending_tables = pending_append target_error_table_def target_irq_table_def controller_error_table_def
  controller_irq_table_def

lemma errors_order:
  assumes "queue_is i q s"
  shows "length q + 11 \<le> 300 \<Longrightarrow> okay (target_error_events E i ev s) (queue_is i (q @ pending ev target_error_table))"
    and "length q + 9 \<le> 300 \<Longrightarrow> okay (controller_error_events E i ev s) (queue_is i (q @ pending ev controller_error_table))"
  unfolding target_error_events_def controller_error_events_def
  by (insert assms, ((rule when_step, rule generate_emits, assumption, assumption, simp)+, simp add: pending_tables)+)

lemma irqs_order:
  assumes "queue_is i q s"
  shows "length q + 7 \<le> 300 \<Longrightarrow> okay (target_irq_events E i iv s) (queue_is i (q @ pending iv target_irq_table))"
    and "length q + 6 \<le> 300 \<Longrightarrow> okay (controller_irq_events E i iv s) (queue_is i (q @ pending iv controller_irq_table))"
  unfolding target_irq_events_def controller_irq_events_def
  by (insert assms, ((rule when_step, rule generate_emits, assumption, assumption, simp)+, simp add: pending_tables)+)

lemma no_group:
  assumes "v AND g = 0" and "\<And>r. r \<in> set tb \<Longrightarrow> fst r AND g = fst r"
  shows "pending v tb = []"
proof -
  have "v AND fst r = 0" if r: "r \<in> set tb" for r
  proof -
    have "v AND fst r = v AND (fst r AND g)" by (simp only: assms(2) [OF r])
    also have "\<dots> = (v AND g) AND fst r" by (simp only: and.assoc and.commute and.left_commute)
    finally show ?thesis by (simp add: assms(1))
  qed
  then show ?thesis by (simp add: pending_def filter_empty_conv)
qed

lemma groups:
  "ev AND SMBUS_INTERRUPT_TGT_ERROR_INTERRUPTS = 0 \<Longrightarrow> pending ev target_error_table = []"
  "ev AND SMBUS_INTERRUPT_CTLR_ERROR_INTERRUPTS = 0 \<Longrightarrow> pending ev controller_error_table = []"
  by (erule no_group, auto simp: target_error_table_def controller_error_table_def)+

text \<open>
  C15: The interrupts of one instance become events in a fixed order: first the errors of the
  bus, from the error vector, then the conditions of the main vector, the end of the
  transaction after the data of a target and last for a controller.  With room for them in the
  queue, exactly one event per pending bit is appended and none is lost.
\<close>

theorem interrupt_events_in_order:
  assumes "queue_is i q s" and "length q \<le> 282"
  shows "okay (target_events E i iv ev s) (\<lambda>t. ev_contents (xEventSrcCircularBuf (inst i t)) =
      q @ pending ev target_error_table @ pending iv target_irq_table) \<and>
    okay (controller_events E i iv ev s) (\<lambda>t. ev_contents (xEventSrcCircularBuf (inst i t)) =
      q @ pending ev controller_error_table @ pending iv controller_irq_table)"
proof -
  have len: "length (pending v tb) \<le> length tb" for v tb by (simp add: pending_def)
  have lens: "length (q @ pending ev target_error_table) + 7 \<le> 300" "length (q @ pending ev controller_error_table) + 6 \<le> 300"
    using len [of ev target_error_table] len [of ev controller_error_table] assms(2)
    by (simp_all add: target_error_table_def controller_error_table_def)
  have t: "okay (if ev AND SMBUS_INTERRUPT_TGT_ERROR_INTERRUPTS \<noteq> 0 then target_error_events E i ev s else Some s)
      (queue_is i (q @ pending ev target_error_table))"
    using errors_order(1) [OF assms(1), of E ev] groups(1) [of ev] assms by auto
  have c: "okay (if ev AND SMBUS_INTERRUPT_CTLR_ERROR_INTERRUPTS \<noteq> 0 then controller_error_events E i ev s else Some s)
      (queue_is i (q @ pending ev controller_error_table))"
    using errors_order(2) [OF assms(1), of E ev] groups(2) [of ev] assms by auto
  have "okay (target_events E i iv ev s) (queue_is i ((q @ pending ev target_error_table) @ pending iv target_irq_table))"
    unfolding target_events_def by (rule okay_bind [OF t], rule irqs_order(1) [OF _ lens(1)])
  moreover have "okay (controller_events E i iv ev s)
      (queue_is i ((q @ pending ev controller_error_table) @ pending iv controller_irq_table))"
    unfolding controller_events_def by (rule okay_bind [OF c], rule irqs_order(2) [OF _ lens(2)])
  ultimately show ?thesis by (auto simp: queue_is_def elim!: okay_weaken)
qed

lemma interrupt_events_in_order_witness:
  "okay (target_events memory_env 0 0x28 0x201 idle_driver) (\<lambda>t. ev_contents (xEventSrcCircularBuf (inst 0 t)) =
     [E_TARGET_RX_FIFO_ERROR_ERROR_IRQ, E_TARGET_PHY_SMBCLK_LOW_TIMEOUT_ERROR_IRQ, E_TARGET_DATA_IRQ, E_TARGET_DONE_IRQ])"
proof -
  have "queue_is 0 [] idle_driver"
    using idle_driver_idle(1) [of 0] by (simp add: queue_is_def idle_entry_def entry_ok_def ev_cap_def inst_def)
  from conjunct1 [OF interrupt_events_in_order [where E = memory_env and iv = "0x28" and ev = "0x201", OF this]] show ?thesis
    by (simp add: pending_def target_error_table_def target_irq_table_def)
qed

section \<open>What the handler leaves behind\<close>

lemma settled_log_only: "log_only s t \<Longrightarrow> settled s \<Longrightarrow> settled t"
  by (simp add: settled_def log_onlyD)

lemma settled_quiet: "quiet m \<Longrightarrow> settled s \<Longrightarrow> (\<And>t. settled t \<Longrightarrow> post (f t) Q) \<Longrightarrow> post (Option.bind (m s) f) Q"
  by (rule post_bind [OF quiet_post [where Q = settled]]) (auto intro: settled_log_only)

lemma settled_quietv:
  "quietv m \<Longrightarrow> settled s \<Longrightarrow> (\<And>v t. settled t \<Longrightarrow> post (f (v, t)) Q) \<Longrightarrow> post (Option.bind (m s) f) Q"
  by (rule post_bind [OF quietv_post [where Q = "\<lambda>(v, t). settled t"]]) (auto intro: settled_log_only)

lemma lines_quiet [simp]: "quietv (bus_lines_low E)"
  unfolding bus_lines_low_def [abs_def] by (intro quietv_bind quietv_if; simp)

lemma rearm_quiet [simp]: "quiet (rearm_errors E)"
  unfolding rearm_errors_def [abs_def] by (intro quietv_quiet_bind quiet_if; simp)

lemma mask_quiet [simp]: "quiet (mask_low_line E ev m k)"
  unfolding mask_low_line_def [abs_def] when_set_def by (intro quietv_quiet_bind quiet_if; simp)

lemma read_interrupts_quiet [simp]: "quietv (read_interrupts E)"
  unfolding read_interrupts_def [abs_def] by (intro quietv_bind quietv_if quiet_quietv_bind; simp)

lemma settled_last: "quiet m \<Longrightarrow> settled s \<Longrightarrow> post (m s) settled"
  by (rule quiet_post) (auto intro: settled_log_only)

lemma handled_settled: "post (Option.bind m (vSMBusEventQueueHandle E)) settled"
  by (cases m) (simp_all add: handle_settled)

lemma settled_upd_prof [simp]:
  "(\<And>p. xSMBusInstance (f p) = xSMBusInstance p) \<Longrightarrow> settled (upd_prof f s) = settled s"
  by (simp add: settled_def)

lemma target_settled:
  assumes s: "settled s"
  shows "post (handle_target E iv ev n s) (\<lambda>(k, t). settled t)"
proof -
  have det: "post (if b then do { (k, s) \<leftarrow> ucSMBusDetermineInstanceFromTargetAddress E s;
      Some (upd_prof (\<lambda>p. p\<lparr>ucActiveTargetInstance := k\<rparr>) s) } else Some s) settled" for b
    using s unfolding ucSMBusDetermineInstanceFromTargetAddress_def
    by (auto intro!: settled_quietv [OF reads_quiet(12)])
  have "post (if k \<le> SMBUS_LAST_SMBUS_INSTANCE then do { s \<leftarrow> target_events E (unat k) iv ev t; vSMBusEventQueueHandle E s }
      else vSMBusHWWriteTgtRxFifoReset E 1 t) settled" if "settled t" for k t
    using that by (simp add: handled_settled settled_last)
  note act = this
  show ?thesis
    unfolding handle_target_def Let_def
    by (rule post_if, rule post_bind [OF det], rule post_bind [OF act]) (simp_all add: s)
qed

lemma controller_settled:
  assumes s: "settled s"
  shows "post (handle_controller E iv ev n s) (\<lambda>(k, t). settled t)"
proof -
  have "post (if k \<le> SMBUS_LAST_SMBUS_INSTANCE then do { s \<leftarrow> controller_events E (unat k) iv ev s; vSMBusEventQueueHandle E s }
      else do { s \<leftarrow> vSMBusHWWriteCtrlRxFifoReset E 1 s; vSMBusHWWriteCtrlDescFifoReset E 1 s }) settled" for k
    using s by (auto simp: handled_settled intro!: settled_quiet [OF writes_quiet(4)] settled_last)
  note act = this
  show ?thesis
    unfolding handle_controller_def Let_def by (rule post_if, rule post_bind [OF act]) (simp_all add: s)
qed

lemma finish_settled:
  assumes "settled s" and "\<And>a v w. rd (env_out32 E a v w) a = v"
  shows "post (finish_interrupt E isr iv err n s) (\<lambda>t. settled t \<and> rd (world t) (pvBaseAddr (prof t) + 0x20) = 1)"
proof -
  have gie: "post (vSMBusHWWriteIRQGIEEnable E 1 t) (\<lambda>u. settled u \<and> rd (world u) (pvBaseAddr (prof u) + 0x20) = 1)"
    if t: "settled t" for t
  proof -
    have "post (vSMBusHWWriteIRQGIEEnable E 1 t) (\<lambda>u. rd (world u) (pvBaseAddr (prof u) + 0x20) = 1)"
      using assms(2) by (auto simp: vSMBusHWWriteIRQGIEEnable_def prvvSMBusHardwareWrite_def hw_address_def
        intro!: postI split: bind_splits)
    with settled_last [OF writes_quiet(12) t, of E 1] show ?thesis by (auto intro!: postI)
  qed
  have "quiet (prvvSMBusClearInterrupts E isr err)"
    unfolding prvvSMBusClearInterrupts_def [abs_def] by (intro quiet_bind) simp_all
  then show ?thesis
    unfolding finish_interrupt_def
    by (rule settled_quiet [OF _ assms(1)], cases "n \<noteq> SMBUS_INVALID_INSTANCE \<and> iv AND SMBUS_INTERRUPT_CTLR_DONE \<noteq> 0")
      (simp_all add: gie settled_quiet [OF writes_quiet(10) _ gie] del: de_Morgan_conj)
qed

text \<open>
  Interrupts end in order.  If no instance in use has an unhandled event when the handler
  is entered, none has when it returns, whatever interrupts are pending and whatever the
  hardware and the callbacks do; and on every path the last thing the handler does is to enable
  the interrupts again.
\<close>

theorem interrupt_handler_settles:
  assumes "settled s" and "\<And>a v w. rd (env_out32 E a v w) a = v"
  shows "post (vSMBusInterruptHandler E s) (\<lambda>t. settled t \<and> rd (world t) (pvBaseAddr (prof t) + 0x20) = 1)"
proof -
  have rest: "post (do { (n, s) \<leftarrow> handle_target E iv ev SMBUS_INVALID_INSTANCE t; (n, s) \<leftarrow> handle_controller E iv ev n s;
      finish_interrupt E isr iv err n s }) (\<lambda>t. settled t \<and> rd (world t) (pvBaseAddr (prof t) + 0x20) = 1)"
    if "settled t" for isr iv err ev t
    by (rule post_bind [OF target_settled [OF that]]) (auto intro!: post_bind [OF controller_settled] finish_settled assms(2))
  show ?thesis
    unfolding vSMBusInterruptHandler_def
    by (rule settled_quiet [OF rearm_quiet assms(1)], rule settled_quiet [OF writes_quiet(12)], assumption,
      rule settled_quietv [OF read_interrupts_quiet], assumption, clarsimp, rule settled_quiet [OF log_add_quiet], assumption)
      (rule rest)
qed

lemma interrupt_handler_settles_witness:
  "settled idle_driver \<and> post (vSMBusInterruptHandler memory_env (idle_driver\<lparr>world := (\<lambda>_. 0x28)\<rparr>))
     (\<lambda>t. settled t \<and> world t (pvBaseAddr (prof t) + 0x20) = 1)"
proof -
  have "ucInstanceInUse (inst i idle_driver) = SMBUS_FALSE" for i
    using idle_driver_idle(1) [of i] by (simp add: idle_entry_def inst_def)
  then have "settled idle_driver" "settled (idle_driver\<lparr>world := (\<lambda>_. 0x28)\<rparr>)"
    by (simp_all add: settled_def filter_empty_conv inst_def)
  with interrupt_handler_settles [where rd = "\<lambda>w. w" and E = memory_env] show ?thesis by (simp add: memory_env_def)
qed

end
