(* ===== verification/Byte_Buffer.thy ===== *)
theory Byte_Buffer
  imports AMR_Prelude
begin

text \<open>
  Packed C structures inside byte buffers: checked reads and writes of one byte and of
  little-endian 16-bit and 32-bit members at an offset, and \<open>memcpy\<close> between buffers.  An
  access outside the buffer is \<open>None\<close>.
\<close>

definition get8 :: "u8 list \<Rightarrow> nat \<Rightarrow> u8 option" where
  "get8 b i = (if i < length b then Some (b ! i) else None)"

definition put8 :: "nat \<Rightarrow> u8 \<Rightarrow> u8 list \<Rightarrow> u8 list option" where
  "put8 i v b = (if i < length b then Some (b[i := v]) else None)"

definition get16 :: "u8 list \<Rightarrow> nat \<Rightarrow> u16 option" where
  "get16 b i = do { lo \<leftarrow> get8 b i; hi \<leftarrow> get8 b (i + 1); Some (ucast lo OR push_bit 8 (ucast hi)) }"

definition put16 :: "nat \<Rightarrow> u16 \<Rightarrow> u8 list \<Rightarrow> u8 list option" where
  "put16 i v b = do { b \<leftarrow> put8 i (ucast v) b; put8 (i + 1) (ucast (drop_bit 8 v)) b }"

text \<open>The bytes from an offset on, and a copy of bytes to an offset.\<close>

definition get_bytes :: "u8 list \<Rightarrow> nat \<Rightarrow> nat \<Rightarrow> u8 list option" where
  "get_bytes b i n = (if i + n \<le> length b then Some (take n (drop i b)) else None)"

definition put_bytes :: "nat \<Rightarrow> u8 list \<Rightarrow> u8 list \<Rightarrow> u8 list option" where
  "put_bytes i xs b =
     (if i + length xs \<le> length b then Some (take i b @ xs @ drop (i + length xs) b) else None)"

definition get32 :: "u8 list \<Rightarrow> nat \<Rightarrow> u32 option" where
  "get32 b i = load32 b i"

definition put32 :: "nat \<Rightarrow> u32 \<Rightarrow> u8 list \<Rightarrow> u8 list option" where
  "put32 i v b = put_bytes i (le_bytes32 v) b"

section \<open>When an access is defined, and what it yields\<close>

lemma get8_Some [simp]: "get8 b i = Some v \<longleftrightarrow> i < length b \<and> v = b ! i"
  by (auto simp: get8_def)

lemma put8_Some [simp]: "put8 i v b = Some c \<longleftrightarrow> i < length b \<and> c = b[i := v]"
  by (auto simp: put8_def)

lemma get_bytes_Some [simp]: "get_bytes b i n = Some xs \<longleftrightarrow> i + n \<le> length b \<and> xs = take n (drop i b)"
  by (auto simp: get_bytes_def)

lemma put_bytes_Some [simp]: "put_bytes i xs b = Some c \<longleftrightarrow>
    i + length xs \<le> length b \<and> c = take i b @ xs @ drop (i + length xs) b"
  by (auto simp: put_bytes_def)

lemma put_bytes_length: "put_bytes i xs b = Some c \<Longrightarrow> length c = length b"
  by auto

lemma put32_Some: "put32 i v b = Some c \<longleftrightarrow>
    i + 4 \<le> length b \<and> c = take i b @ le_bytes32 v @ drop (i + 4) b"
  by (simp add: put32_def)

lemma get16_Some: "get16 b i = Some v \<longleftrightarrow>
    i + 1 < length b \<and> v = ucast (b ! i) OR push_bit 8 (ucast (b ! (i + 1)))"
  by (auto simp: get16_def get8_def)

lemma put16_Some: "put16 i v b = Some c \<longleftrightarrow>
    i + 1 < length b \<and> c = b[i := ucast v, i + 1 := ucast (drop_bit 8 v)]"
  by (auto simp: put16_def put8_def)

lemma unat_small: "n < 2 ^ LENGTH('a) \<Longrightarrow> unat (of_nat n :: 'a::len word) = n"
  by (simp add: unat_of_nat)

lemma list_update_append_bytes:
  "i + length xs \<le> length b \<Longrightarrow> k < length b \<Longrightarrow>
   (take i b @ xs @ drop (i + length xs) b) ! k =
     (if i \<le> k \<and> k < i + length xs then xs ! (k - i) else b ! k)"
  by (auto simp: nth_append min_def)

text \<open>Reading back what was written.\<close>

lemma get16_put16: "put16 i v b = Some c \<Longrightarrow> get16 c i = Some v"
proof -
  assume p: "put16 i v b = Some c"
  have "ucast (ucast v :: u8) OR push_bit 8 (ucast (ucast (drop_bit 8 v) :: u8)) = v"
    by (rule bit_word_eqI) (auto simp: bit_simps not_le)
  with p show ?thesis by (simp add: put16_Some get16_Some)
qed

lemma put16_get16: "get16 b i = Some v \<Longrightarrow> put16 i v b = Some b"
proof -
  assume g: "get16 b i = Some v"
  have "ucast (ucast x OR push_bit 8 (ucast y) :: u16) = x" for x y :: u8
    by (rule bit_word_eqI) (auto simp: bit_simps)
  moreover have "ucast (drop_bit 8 (ucast x OR push_bit 8 (ucast y) :: u16)) = y" for x y :: u8
    by (rule bit_word_eqI) (auto simp: bit_simps dest: bit_out_of_range)
  ultimately show ?thesis using g by (simp add: get16_Some put16_Some)
qed

lemma put_bytes_get_bytes: "get_bytes b i n = Some xs \<Longrightarrow> put_bytes i xs b = Some b"
  by (auto simp: min_def) (metis append_assoc append_take_drop_id drop_drop add.commute)

lemma get_bytes_put_bytes: "put_bytes i xs b = Some c \<Longrightarrow> get_bytes c i (length xs) = Some xs"
  by auto

lemma get32_put32: "put32 i v b = Some c \<Longrightarrow> get32 c i = Some v"
proof -
  assume p: "put32 i v b = Some c"
  obtain b0 b1 b2 b3 where v: "le_bytes32 v = [b0, b1, b2, b3]"
    by (simp add: le_bytes32_def)
  have len: "length [b0, b1, b2, b3] = 4" by simp
  have "i + 4 \<le> length b" using p by (simp add: put32_Some)
  then have "c ! (i + k) = [b0, b1, b2, b3] ! k" if "k < 4" for k
    using that p list_update_append_bytes [of i "[b0, b1, b2, b3]" b "i + k", unfolded len] by (simp add: put32_Some v)
  from this [of 0] this [of 1] this [of 2] this [of 3] p show ?thesis
    by (auto simp: get32_def load32_def put32_Some v le_word32_bytes [OF v])
qed

end
