(* ===== verification/AMC_Common.thy ===== *)
theory AMC_Common
  imports Byte_Buffer EVL
begin

text \<open>
  What the firmware's modules share (\<open>standard.h\<close>, \<open>amc_cfg.h\<close>): the states of a module, the
  numbers of the proxy drivers, access to an allocated array, bounded \<open>for\<close> loops, and
  \<open>strncmp\<close>.
\<close>

datatype MODULE_STATE = MODULE_STATE_OK | MODULE_STATE_UNINITIALISED | MODULE_STATE_ERROR

abbreviation (input) AMC_CFG_UNIQUE_ID_AXC :: u8 where "AMC_CFG_UNIQUE_ID_AXC \<equiv> 0"
abbreviation (input) AMC_CFG_UNIQUE_ID_APC :: u8 where "AMC_CFG_UNIQUE_ID_APC \<equiv> 1"
abbreviation (input) AMC_CFG_UNIQUE_ID_ASC :: u8 where "AMC_CFG_UNIQUE_ID_ASC \<equiv> 2"
abbreviation (input) AMC_CFG_UNIQUE_ID_AMI :: u8 where "AMC_CFG_UNIQUE_ID_AMI \<equiv> 3"
abbreviation (input) AMC_CFG_UNIQUE_ID_BMC :: u8 where "AMC_CFG_UNIQUE_ID_BMC \<equiv> 4"

abbreviation (input) MODULE_UPPER_FIREWALL :: u32 where "MODULE_UPPER_FIREWALL \<equiv> 0xBABECAFE"
abbreviation (input) MODULE_LOWER_FIREWALL :: u32 where "MODULE_LOWER_FIREWALL \<equiv> 0xDEADFACE"

section \<open>Allocated arrays\<close>

text \<open>Element \<open>i\<close> of an array: undefined for a null pointer and outside the array.\<close>

definition elem :: "'a list option \<Rightarrow> nat \<Rightarrow> 'a option" where
  "elem p i = do { xs \<leftarrow> p; if i < length xs then Some (xs ! i) else None }"

definition set_elem :: "'a list option \<Rightarrow> nat \<Rightarrow> 'a \<Rightarrow> 'a list option" where
  "set_elem p i v = do { xs \<leftarrow> p; if i < length xs then Some (xs[i := v]) else None }"

lemma elem_Some_iff: "elem p i = Some v \<longleftrightarrow> (\<exists>xs. p = Some xs \<and> i < length xs \<and> v = xs ! i)"
  by (cases p) (auto simp: elem_def)

lemma set_elem_Some_iff: "set_elem p i v = Some ys \<longleftrightarrow> (\<exists>xs. p = Some xs \<and> i < length xs \<and> ys = xs[i := v])"
  by (cases p) (auto simp: set_elem_def)

section \<open>Loops\<close>

fun for_each :: "('a \<Rightarrow> 's \<Rightarrow> 's option) \<Rightarrow> 'a list \<Rightarrow> 's \<Rightarrow> 's option" where
  "for_each f [] s = Some s"
| "for_each f (x # xs) s = do { s \<leftarrow> f x s; for_each f xs s }"

lemma for_each_append: "for_each f (xs @ ys) s = Option.bind (for_each f xs s) (for_each f ys)"
proof (induction xs arbitrary: s)
  case (Cons x xs)
  then show ?case by (cases "f x s") simp_all
qed simp

lemma for_each_post:
  assumes "P s" and "\<And>x s. x \<in> set xs \<Longrightarrow> P s \<Longrightarrow> post (f x s) P"
  shows "post (for_each f xs s) P"
  using assms
proof (induction xs arbitrary: s)
  case (Cons x xs)
  then show ?case by (auto intro!: post_bind [of "f x s" P])
qed simp

lemma for_each_okay:
  assumes "P s" and "\<And>x s. x \<in> set xs \<Longrightarrow> P s \<Longrightarrow> okay (f x s) P"
  shows "okay (for_each f xs s) P"
  using assms
proof (induction xs arbitrary: s)
  case (Cons x xs)
  then show ?case by (auto intro!: okay_bind [of "f x s" P])
qed simp

text \<open>A loop over \<open>0, \<dots>, n - 1\<close> with an invariant on the counter.\<close>

lemma for_each_upt_okay:
  assumes "P m s" and "m \<le> n" and "\<And>i s. m \<le> i \<Longrightarrow> i < n \<Longrightarrow> P i s \<Longrightarrow> okay (f i s) (P (Suc i))"
  shows "okay (for_each f [m..<n] s) (P n)"
  using assms(2,1,3)
proof (induction n rule: dec_induct)
  case (step k)
  have "okay (for_each f [m..<k] s) (P k)"
    using step.prems step.IH by simp
  then show ?case
    using step by (auto simp: for_each_append okay_bind_iff elim!: okay_weaken)
qed simp

section \<open>Strings\<close>

text \<open>\<open>strncmp(a, b, n) == 0\<close>, undefined when it reads outside one of the arrays.\<close>

fun strncmp_equal :: "u8 list \<Rightarrow> u8 list \<Rightarrow> nat \<Rightarrow> bool option" where
  "strncmp_equal a b 0 = Some True"
| "strncmp_equal (x # a) (y # b) (Suc n) =
     (if x \<noteq> y then Some False else if x = 0 then Some True else strncmp_equal a b n)"
| "strncmp_equal a b (Suc n) = None"

end
