(* ===== verification/BMC_State.thy ===== *)
theory BMC_State
  imports AMC_Common
begin

text \<open>
  The state of the board controller's proxy (\<open>bmc_proxy_driver.c\<close>) and of the MCTP and PLDM
  layers it drives: every static variable of these files is a field.  Packed structures that
  the code sends as bytes (the platform descriptor records, the message buffers) are byte
  lists.  A function pointer of a command table is a constructor of its type.  The operating
  system, the event library's environment and the transport below the proxy are parameters,
  acting on this state (the callbacks of an event call back into the proxy) or on a world
  \<open>'w\<close>.
\<close>

abbreviation (input) MAX_BUFFER_SIZE :: nat where "MAX_BUFFER_SIZE \<equiv> 255"
abbreviation (input) MAX_RX_DATA_SIZE :: nat where "MAX_RX_DATA_SIZE \<equiv> 256"
abbreviation (input) MAX_MULTIPART_BUFFER_SIZE :: nat where "MAX_MULTIPART_BUFFER_SIZE \<equiv> 1024"
abbreviation (input) TOTAL_PDR_COUNT :: nat where "TOTAL_PDR_COUNT \<equiv> 77"
abbreviation (input) HAL_UUID_SIZE :: nat where "HAL_UUID_SIZE \<equiv> 16"
abbreviation (input) BMC_UPPER_FIREWALL :: u32 where "BMC_UPPER_FIREWALL \<equiv> 0xBABECAFE"
abbreviation (input) BMC_LOWER_FIREWALL :: u32 where "BMC_LOWER_FIREWALL \<equiv> 0xDEADFACE"

section \<open>The proxy\<close>

datatype BMC_PROXY_STATS =
    BMC_PROXY_STATS_INIT_OVERALL_COMPLETE | BMC_PROXY_STATS_CREATE_MUTEX
  | BMC_PROXY_STATS_CREATE_SEMAPHORE | BMC_PROXY_STATS_PEND_SEMAPHORE
  | BMC_PROXY_STATS_POST_SEMAPHORE | BMC_PROXY_STATS_TAKE_MUTEX | BMC_PROXY_STATS_RELEASE_MUTEX
  | BMC_PROXY_STATS_TASK_TIME_MS | BMC_PROXY_STATS_STATUS_RETRIEVAL
  | BMC_PROXY_STATS_GET_SENSOR_ID_REQUEST

datatype BMC_PROXY_ERRORS =
    BMC_PROXY_ERRORS_MUTEX_RELEASE_FAILED | BMC_PROXY_ERRORS_MUTEX_TAKE_FAILED
  | BMC_PROXY_ERRORS_CREATE_SEMAPHORE | BMC_PROXY_ERRORS_PEND_SEMAPHORE
  | BMC_PROXY_ERRORS_POST_SEMAPHORE | BMC_PROXY_ERRORS_FW_IF_OPEN_FAILED
  | BMC_PROXY_ERRORS_FW_IF_READ_FAILED | BMC_PROXY_ERRORS_MEM_ALLOC_FAILED
  | BMC_PROXY_ERRORS_VALIDATION_FAILED | BMC_PROXY_INIT_MUTEX_CREATE_FAILED
  | BMC_PROXY_INIT_TASK_CREATE_FAILED | BMC_PROXY_VALIDATION_FAILED
  | BMC_PROXY_UNSUPPORTED_OPCODE_RX | BMC_PROXY_FW_IF_WRITE_FAILED | BMC_PROXY_BIND_CB_FAILED
  | BMC_PROXY_ERRORS_INIT_EVL_RECORD_FAILED | BMC_PROXY_RAISE_EVENT_FAIL
  | BMC_UNEXPECTED_SENSOR_ID | BMC_UNEXPECTED_FLAG

text \<open>The events and the answers to them are compared and stored as bytes.\<close>

abbreviation (input) BMC_PROXY_DRIVER_E_MSG_ARRIVAL :: u8 where "BMC_PROXY_DRIVER_E_MSG_ARRIVAL \<equiv> 0"
abbreviation (input) BMC_PROXY_DRIVER_E_GET_SENSOR_INFO :: u8 where "BMC_PROXY_DRIVER_E_GET_SENSOR_INFO \<equiv> 3"
abbreviation (input) BMC_PROXY_DRIVER_E_ENABLE_SENSOR :: u8 where "BMC_PROXY_DRIVER_E_ENABLE_SENSOR \<equiv> 4"

abbreviation (input) BMC_SENSOR_ENABLE_RESP_OK :: u8 where "BMC_SENSOR_ENABLE_RESP_OK \<equiv> 0"
abbreviation (input) BMC_SENSOR_ENABLE_RESP_INVALID_SENSOR_ID :: u8 where
  "BMC_SENSOR_ENABLE_RESP_INVALID_SENSOR_ID \<equiv> 1"
abbreviation (input) BMC_SENSOR_ENABLE_RESP_INVALID_SENSOR_OPERATIONAL_STATE :: u8 where
  "BMC_SENSOR_ENABLE_RESP_INVALID_SENSOR_OPERATIONAL_STATE \<equiv> 2"
abbreviation (input) BMC_SENSOR_ENABLE_RESP_EVENT_GENERATION_NOT_SUPPORTED :: u8 where
  "BMC_SENSOR_ENABLE_RESP_EVENT_GENERATION_NOT_SUPPORTED \<equiv> 3"
abbreviation (input) BMC_SENSOR_ENABLE_RESP_NONE :: u8 where "BMC_SENSOR_ENABLE_RESP_NONE \<equiv> 4"

abbreviation (input) BMC_GET_SENSOR_RESP_OK :: u8 where "BMC_GET_SENSOR_RESP_OK \<equiv> 0"
abbreviation (input) BMC_GET_SENSOR_RESP_INVALID_SENSOR_ID :: u8 where
  "BMC_GET_SENSOR_RESP_INVALID_SENSOR_ID \<equiv> 1"
abbreviation (input) BMC_GET_SENSOR_RESP_INVALID_SENSOR_OPERATIONAL_STATE :: u8 where
  "BMC_GET_SENSOR_RESP_INVALID_SENSOR_OPERATIONAL_STATE \<equiv> 2"
abbreviation (input) BMC_GET_SENSOR_RESP_REARM_UNAVAILABLE_IN_PRESENT_STATE :: u8 where
  "BMC_GET_SENSOR_RESP_REARM_UNAVAILABLE_IN_PRESENT_STATE \<equiv> 3"
abbreviation (input) BMC_GET_SENSOR_RESP_NONE :: u8 where "BMC_GET_SENSOR_RESP_NONE \<equiv> 4"

abbreviation (input) eSensorOpStateEnabled :: u8 where "eSensorOpStateEnabled \<equiv> 0"
abbreviation (input) eSensorOpStateDisabled :: u8 where "eSensorOpStateDisabled \<equiv> 1"
abbreviation (input) eSensorOpStateUnavailable :: u8 where "eSensorOpStateUnavailable \<equiv> 2"
abbreviation (input) eSensorNoEventGeneration :: u8 where "eSensorNoEventGeneration \<equiv> 0"

text \<open>
  A sensor array is a list of packed records; \<open>None\<close> is a null pointer.  The operating
  system's handles other than the mutex are only passed on, and left out.
\<close>

record BMCProxyDriverPrivateData =
  bmc_ulUpperFirewall :: u32
  bmc_iInitialised :: bool
  ucMyId :: u8
  pxEvlRecord :: "EVLRecord option"
  pvOsalMutexHdl :: "nat option"
  pucRxData :: "u8 list"
  ulRxDataSize :: u32
  ucProcessRxData :: bool
  ucAwaitingSensorData :: bool
  usRequestedSensorId :: u16
  ucRequestedSensorOperationalState :: u8
  ucRequestedSensorEventMessageEnable :: u8
  ucSetNumericSensorEnableResponse :: u8
  ucGetNumericSensorResponse :: u8
  ucGetNumericSensorState :: u8
  ssSensorInfo :: u16
  pxPdrTemperatureSensors :: "u8 list list option"
  pxPdrVoltageSensors :: "u8 list list option"
  pxPdrCurrentSensors :: "u8 list list option"
  pxPdrPowerSensors :: "u8 list list option"
  pxPdrSensorNames :: "u8 list list option"
  iTotalPdrTemperature :: nat
  iTotalPdrVoltage :: nat
  iTotalPdrCurrent :: nat
  iTotalPdrPower :: nat
  iTotalPdrName :: nat
  pucUuid :: "u8 list"
  pulStatCounters :: "BMC_PROXY_STATS \<Rightarrow> u32"
  pulErrorCounters :: "BMC_PROXY_ERRORS \<Rightarrow> u32"
  bmc_xState :: MODULE_STATE
  bmc_ulLowerFirewall :: u32

section \<open>The repository of platform descriptor records\<close>

datatype RepoState = ERepoStateAvailable | ERepoStateUpdateInprogress | ERepoStateFailed

primrec repo_state_code :: "RepoState \<Rightarrow> u8" where
  "repo_state_code ERepoStateAvailable = 0"
| "repo_state_code ERepoStateUpdateInprogress = 1"
| "repo_state_code ERepoStateFailed = 2"

record TimeStamp =
  UTC_Offset :: u16
  uSeconds :: "u8 list"
  Seconds :: u8
  Minutes :: u8
  Hours :: u8
  Day :: u8
  Month :: u8
  Year :: u16
  UTC_Time_Resolution :: u8

text \<open>The 13 bytes of the packed time stamp.\<close>

definition timestamp_bytes :: "TimeStamp \<Rightarrow> u8 list" where
  "timestamp_bytes t =
     [ucast (UTC_Offset t), ucast (drop_bit 8 (UTC_Offset t))] @ uSeconds t @
     [Seconds t, Minutes t, Hours t, Day t, Month t, ucast (Year t), ucast (drop_bit 8 (Year t)),
      UTC_Time_Resolution t]"

text \<open>Where an entry of \<open>PDRRecords\<close> points to.\<close>

datatype pdr_ref = Terminus nat | Temperature nat | Voltage nat | Current nat | Power nat | SensorName nat

record PDRRepositoryInfo =
  repositoryState :: RepoState
  updateTimestamp :: TimeStamp
  OEMUpdateTimestamp :: TimeStamp
  recordCount :: u32
  repositorySize :: u32
  largestRecordSize :: u32
  dataTransferHandleTimeout :: u8
  PDRRecords :: "nat \<Rightarrow> pdr_ref option"
  iIsRepoInitialized :: bool

section \<open>PLDM and MCTP\<close>

record PendingTransfers =
  initialized :: u8
  next_start :: u8

record pldm_data =
  pldm_TID :: u8
  GetVersionPendingXfers :: "nat \<Rightarrow> PendingTransfers"
  GetPDRPendingXfers :: "nat \<Rightarrow> PendingTransfers"
  Pldm_Type_Supported :: "u8 list"
  PldmInitDone :: bool
  type0_Command_Supported :: "u8 list"
  type2_Command_Supported :: "u8 list"

record mctp_data =
  multiPartReqBuffer :: "u8 list"
  request_pkt :: bool
  BMC_endpoint_id_g :: u8
  SC_endpoint_id_g :: u8
  MCTP_header_version_g :: u8
  BMC_slave_address_g :: u8
  prv_seq_num :: u8
  staging_buff_size :: u32
  mctp_EID :: u16
  eidSetFlag :: u8

record 'w bmc_st =
  xLocalData :: BMCProxyDriverPrivateData
  xPdrTerminusLocator :: "u8 list list"
  MSP432_PDR_Repository :: PDRRepositoryInfo
  pldm :: pldm_data
  mctp :: mctp_data
  ReqBuffer :: "u8 list"
  RespBuffer :: "u8 list"
  evl_data :: EVLPrivateData
  outside :: 'w

text \<open>
  The environment: the event library's (mutexes, allocation, clock, callbacks), the creation
  of the semaphore and the task, the firmware interface (open; read, with the buffer and the
  size it is given and hands back; write, to an address), sleeping, and the addresses of
  the two static tables whose entries are named by 32-bit transfer handles.
\<close>

record 'w bmc_env =
  evl_part :: "'w bmc_st evl_env"
  semaphore_create :: "'w \<Rightarrow> bool \<times> 'w"
  task_create :: "'w \<Rightarrow> bool \<times> 'w"
  fw_if_open :: "'w \<Rightarrow> bool \<times> 'w"
  fw_if_read :: "u8 list \<Rightarrow> u32 \<Rightarrow> 'w \<Rightarrow> bool \<times> u8 list \<times> u32 \<times> 'w"
  fw_if_write :: "u8 \<Rightarrow> u8 list \<Rightarrow> 'w \<Rightarrow> bool \<times> 'w"
  sleep_ms :: "u32 \<Rightarrow> 'w \<Rightarrow> 'w"
  version_xfers_base :: u32
  pdr_xfers_base :: u32

section \<open>Counters\<close>

definition upd_local :: "(BMCProxyDriverPrivateData \<Rightarrow> BMCProxyDriverPrivateData) \<Rightarrow> 'w bmc_st \<Rightarrow> 'w bmc_st" where
  "upd_local f s = s\<lparr>xLocalData := f (xLocalData s)\<rparr>"

definition BMC_INC_STAT_COUNTER :: "BMC_PROXY_STATS \<Rightarrow> 'w bmc_st \<Rightarrow> 'w bmc_st" where
  "BMC_INC_STAT_COUNTER x = upd_local (\<lambda>d. d\<lparr>pulStatCounters := (pulStatCounters d)(x := pulStatCounters d x + 1)\<rparr>)"

definition BMC_INC_ERROR_COUNTER :: "BMC_PROXY_ERRORS \<Rightarrow> 'w bmc_st \<Rightarrow> 'w bmc_st" where
  "BMC_INC_ERROR_COUNTER x = upd_local (\<lambda>d. d\<lparr>pulErrorCounters := (pulErrorCounters d)(x := pulErrorCounters d x + 1)\<rparr>)"

definition INC_ERROR_COUNTER_WITH_STATE :: "BMC_PROXY_ERRORS \<Rightarrow> 'w bmc_st \<Rightarrow> 'w bmc_st" where
  "INC_ERROR_COUNTER_WITH_STATE x s =
     BMC_INC_ERROR_COUNTER x (upd_local (\<lambda>d. d\<lparr>bmc_xState := MODULE_STATE_ERROR\<rparr>) s)"

definition bmc_firewalls_ok :: "'w bmc_st \<Rightarrow> bool" where
  "bmc_firewalls_ok s \<longleftrightarrow> BMC_UPPER_FIREWALL = bmc_ulUpperFirewall (xLocalData s) \<and>
     BMC_LOWER_FIREWALL = bmc_ulLowerFirewall (xLocalData s)"

definition bmc_ready :: "'w bmc_st \<Rightarrow> bool" where
  "bmc_ready s \<longleftrightarrow> bmc_firewalls_ok s \<and> bmc_iInitialised (xLocalData s)"


section \<open>The static initialisers\<close>

definition initial_timestamp :: TimeStamp where
  "initial_timestamp = \<lparr>UTC_Offset = 0, uSeconds = [0, 0, 0], Seconds = 0, Minutes = 0, Hours = 0, Day = 0,
     Month = 0, Year = 0, UTC_Time_Resolution = 0\<rparr>"

definition initial_repository :: PDRRepositoryInfo where
  "initial_repository = \<lparr>repositoryState = ERepoStateFailed, updateTimestamp = initial_timestamp,
     OEMUpdateTimestamp = initial_timestamp, recordCount = 0, repositorySize = 0, largestRecordSize = 0,
     dataTransferHandleTimeout = 0, PDRRecords = (\<lambda>_. None), iIsRepoInitialized = False\<rparr>"

definition initial_locator :: "u8 list" where
  "initial_locator = replicate 10 0 @ [0, 0, 1, 0, 0x7F, 0x7F, 0, 17, 1] @ replicate HAL_UUID_SIZE 0"

definition initial_local :: BMCProxyDriverPrivateData where
  "initial_local = \<lparr>bmc_ulUpperFirewall = BMC_UPPER_FIREWALL, bmc_iInitialised = False, ucMyId = 0,
     pxEvlRecord = None, pvOsalMutexHdl = None, pucRxData = replicate MAX_RX_DATA_SIZE 0, ulRxDataSize = 0,
     ucProcessRxData = False, ucAwaitingSensorData = False, usRequestedSensorId = 0,
     ucRequestedSensorOperationalState = 0, ucRequestedSensorEventMessageEnable = 0,
     ucSetNumericSensorEnableResponse = BMC_SENSOR_ENABLE_RESP_NONE,
     ucGetNumericSensorResponse = BMC_GET_SENSOR_RESP_NONE, ucGetNumericSensorState = 0, ssSensorInfo = 0,
     pxPdrTemperatureSensors = None, pxPdrVoltageSensors = None, pxPdrCurrentSensors = None,
     pxPdrPowerSensors = None, pxPdrSensorNames = None, iTotalPdrTemperature = 0, iTotalPdrVoltage = 0,
     iTotalPdrCurrent = 0, iTotalPdrPower = 0, iTotalPdrName = 0, pucUuid = replicate HAL_UUID_SIZE 0,
     pulStatCounters = (\<lambda>_. 0), pulErrorCounters = (\<lambda>_. 0), bmc_xState = MODULE_STATE_UNINITIALISED,
     bmc_ulLowerFirewall = BMC_LOWER_FIREWALL\<rparr>"

definition initial_pldm :: pldm_data where
  "initial_pldm = \<lparr>pldm_TID = 0, GetVersionPendingXfers = (\<lambda>_. \<lparr>initialized = 0, next_start = 0\<rparr>),
     GetPDRPendingXfers = (\<lambda>_. \<lparr>initialized = 0, next_start = 0\<rparr>), Pldm_Type_Supported = replicate 8 0,
     PldmInitDone = False, type0_Command_Supported = replicate 32 0, type2_Command_Supported = replicate 32 0\<rparr>"

definition initial_mctp :: mctp_data where
  "initial_mctp = \<lparr>multiPartReqBuffer = replicate MAX_MULTIPART_BUFFER_SIZE 0, request_pkt = True,
     BMC_endpoint_id_g = 0, SC_endpoint_id_g = 0, MCTP_header_version_g = 0, BMC_slave_address_g = 0,
     prv_seq_num = 0, staging_buff_size = 0, mctp_EID = 0, eidSetFlag = 0\<rparr>"

definition initial_bmc :: "EVLPrivateData \<Rightarrow> 'w \<Rightarrow> 'w bmc_st" where
  "initial_bmc d w = \<lparr>xLocalData = initial_local, xPdrTerminusLocator = [initial_locator],
     MSP432_PDR_Repository = initial_repository, pldm = initial_pldm, mctp = initial_mctp,
     ReqBuffer = replicate MAX_BUFFER_SIZE 0, RespBuffer = replicate MAX_BUFFER_SIZE 0, evl_data = d,
     outside = w\<rparr>"

text \<open>A quiet environment: everything succeeds, no callback does anything.\<close>

definition sample_bmc_env :: "'w bmc_env" where
  "sample_bmc_env = \<lparr>evl_part = \<lparr>mutex_create = Pair (Some 5), mutex_take = (\<lambda>m. Pair True), mutex_release = (\<lambda>m. Pair True),
       mem_alloc = Pair True, uptime_ms = Pair 7, evl_callback = (\<lambda>cb sig. Pair OK)\<rparr>,
     semaphore_create = Pair True, task_create = Pair True, fw_if_open = Pair True,
     fw_if_read = (\<lambda>b n w. (True, b, n, w)), fw_if_write = (\<lambda>a b. Pair True), sleep_ms = (\<lambda>n w. w),
     version_xfers_base = 0x1000, pdr_xfers_base = 0x2000\<rparr>"

end
