(* ===== verification/BMC_Sensors.thy ===== *)
theory BMC_Sensors
  imports BMC_State
begin

text \<open>
  The sensor side of the proxy (\<open>bmc_proxy_driver.c\<close>): the sensor arrays, the events that ask
  the application for a reading, and the repository of descriptor records built from the
  arrays (\<open>vPdrRepoInit\<close>, with \<open>pldm_pdr.c\<close>).
\<close>

section \<open>The sensor arrays\<close>

definition iGetNumTemperatureSensors :: "'w bmc_st \<Rightarrow> nat" where
  "iGetNumTemperatureSensors s = (if bmc_ready s then iTotalPdrTemperature (xLocalData s) else 0)"

definition iGetNumVoltageSensors :: "'w bmc_st \<Rightarrow> nat" where
  "iGetNumVoltageSensors s = (if bmc_ready s then iTotalPdrVoltage (xLocalData s) else 0)"

definition iGetNumCurrentSensors :: "'w bmc_st \<Rightarrow> nat" where
  "iGetNumCurrentSensors s = (if bmc_ready s then iTotalPdrCurrent (xLocalData s) else 0)"

definition iGetNumPowerSensors :: "'w bmc_st \<Rightarrow> nat" where
  "iGetNumPowerSensors s = (if bmc_ready s then iTotalPdrPower (xLocalData s) else 0)"

definition iGetNumNameSensors :: "'w bmc_st \<Rightarrow> nat" where
  "iGetNumNameSensors s = (if bmc_ready s then iTotalPdrName (xLocalData s) else 0)"

abbreviation (input) SENSOR_ID_OFFSET :: nat where "SENSOR_ID_OFFSET \<equiv> 12"

text \<open>One search loop: the elements \<open>i, i + 1, \<dots>\<close>, \<open>n\<close> of them.\<close>

fun sensor_listed :: "u8 list list option \<Rightarrow> u16 \<Rightarrow> nat \<Rightarrow> nat \<Rightarrow> bool option" where
  "sensor_listed p usSensorId i 0 = Some False"
| "sensor_listed p usSensorId i (Suc n) = do {
     rec \<leftarrow> elem p i;
     x \<leftarrow> get16 rec SENSOR_ID_OFFSET;
     if x = usSensorId then Some True else sensor_listed p usSensorId (i + 1) n }"

definition iCheckSensorValid :: "u16 \<Rightarrow> 'w bmc_st \<Rightarrow> evl_status option" where
  "iCheckSensorValid usSensorId s =
     (if \<not> bmc_ready s then Some ERROR
      else do {
        let d = xLocalData s;
        found \<leftarrow> sensor_listed (pxPdrTemperatureSensors d) usSensorId 0 (iGetNumTemperatureSensors s);
        if found then Some OK else do {
        found \<leftarrow> sensor_listed (pxPdrVoltageSensors d) usSensorId 0 (iGetNumVoltageSensors s);
        if found then Some OK else do {
        found \<leftarrow> sensor_listed (pxPdrCurrentSensors d) usSensorId 0 (iGetNumCurrentSensors s);
        if found then Some OK else do {
        found \<leftarrow> sensor_listed (pxPdrPowerSensors d) usSensorId 0 (iGetNumPowerSensors s);
        Some (if found then OK else ERROR) } } } })"

section \<open>Asking the application\<close>

text \<open>Raising an event: the callbacks of the proxy's record run on the proxy's own state.\<close>

definition bmc_raise :: "'w bmc_env \<Rightarrow> u8 \<Rightarrow> 'w bmc_st \<Rightarrow> (evl_status \<times> 'w bmc_st) option" where
  "bmc_raise E ev s = do {
     (st, d, s) \<leftarrow> iEVL_RaiseEvent (evl_part E) (pxEvlRecord (xLocalData s))
        (Some \<lparr>ucModule = ucMyId (xLocalData s), ucEventType = ev, ucInstance = 0, ucAdditionalData = 0\<rparr>)
        (evl_data s) s;
     let s = s\<lparr>evl_data := d\<rparr>;
     Some (st, if st = ERROR then BMC_INC_ERROR_COUNTER BMC_PROXY_RAISE_EVENT_FAIL s else s) }"

definition iRaiseBmcEvent :: "'w bmc_env \<Rightarrow> u8 \<Rightarrow> 'w bmc_st \<Rightarrow> (evl_status \<times> 'w bmc_st) option" where
  "iRaiseBmcEvent E ev s =
     bmc_raise E ev
       (if ev = BMC_PROXY_DRIVER_E_GET_SENSOR_INFO \<or> ev = BMC_PROXY_DRIVER_E_ENABLE_SENSOR
        then upd_local (\<lambda>d. d\<lparr>ucAwaitingSensorData := True\<rparr>) s else s)"

text \<open>A byte of the response, at an offset of the response buffer.\<close>

definition resp8 :: "nat \<Rightarrow> u8 \<Rightarrow> 'w bmc_st \<Rightarrow> 'w bmc_st option" where
  "resp8 i v s = do { b \<leftarrow> put8 i v (RespBuffer s); Some (s\<lparr>RespBuffer := b\<rparr>) }"

definition resp16 :: "nat \<Rightarrow> u16 \<Rightarrow> 'w bmc_st \<Rightarrow> 'w bmc_st option" where
  "resp16 i v s = do { b \<leftarrow> put16 i v (RespBuffer s); Some (s\<lparr>RespBuffer := b\<rparr>) }"

definition resp32 :: "nat \<Rightarrow> u32 \<Rightarrow> 'w bmc_st \<Rightarrow> 'w bmc_st option" where
  "resp32 i v s = do { b \<leftarrow> put32 i v (RespBuffer s); Some (s\<lparr>RespBuffer := b\<rparr>) }"

definition resp_bytes :: "nat \<Rightarrow> u8 list \<Rightarrow> 'w bmc_st \<Rightarrow> 'w bmc_st option" where
  "resp_bytes i xs s = do { b \<leftarrow> put_bytes i xs (RespBuffer s); Some (s\<lparr>RespBuffer := b\<rparr>) }"

abbreviation (input) RESP_PLDM_SUCCESS :: u8 where "RESP_PLDM_SUCCESS \<equiv> 0"
abbreviation (input) RESP_PLDM_ERROR_GENERIC :: u8 where "RESP_PLDM_ERROR_GENERIC \<equiv> 1"
abbreviation (input) RESP_INVALID_SENSOR_ID :: u8 where "RESP_INVALID_SENSOR_ID \<equiv> 0x80"
abbreviation (input) RESP_INVALID_SENSOR_OPERATIONAL_STATE :: u8 where
  "RESP_INVALID_SENSOR_OPERATIONAL_STATE \<equiv> 0x81"
abbreviation (input) RESP_REARM_UNAVAILABLE_IN_PRESENT_STATE :: u8 where
  "RESP_REARM_UNAVAILABLE_IN_PRESENT_STATE \<equiv> 0x81"
abbreviation (input) RESP_EVENT_GENERATION_NOT_SUPPORTED :: u8 where
  "RESP_EVENT_GENERATION_NOT_SUPPORTED \<equiv> 0x82"

definition set_enable_code :: "u8 \<Rightarrow> u8" where
  "set_enable_code r =
     (if r = BMC_SENSOR_ENABLE_RESP_OK then RESP_PLDM_SUCCESS
      else if r = BMC_SENSOR_ENABLE_RESP_INVALID_SENSOR_ID then RESP_INVALID_SENSOR_ID
      else if r = BMC_SENSOR_ENABLE_RESP_INVALID_SENSOR_OPERATIONAL_STATE
        then RESP_INVALID_SENSOR_OPERATIONAL_STATE
      else if r = BMC_SENSOR_ENABLE_RESP_EVENT_GENERATION_NOT_SUPPORTED
        then RESP_EVENT_GENERATION_NOT_SUPPORTED
      else RESP_PLDM_ERROR_GENERIC)"

text \<open>The response message is at offset \<open>q\<close> of the response buffer, its size is \<open>n\<close>.\<close>

definition iSetNumericSensorEnable ::
  "'w bmc_env \<Rightarrow> u16 \<Rightarrow> u8 \<Rightarrow> nat \<Rightarrow> nat \<Rightarrow> 'w bmc_st \<Rightarrow> (evl_status \<times> nat \<times> 'w bmc_st) option" where
  "iSetNumericSensorEnable E usSensorId ucSensorOperationalState q n s =
     (if \<not> bmc_ready s then Some (ERROR, n, s)
      else do {
        let s = upd_local (\<lambda>d. d\<lparr>usRequestedSensorId := usSensorId,
                                 ucRequestedSensorOperationalState := ucSensorOperationalState\<rparr>) s;
        valid \<leftarrow> iCheckSensorValid usSensorId s;
        if valid = OK then do {
          (st, s) \<leftarrow> iRaiseBmcEvent E BMC_PROXY_DRIVER_E_ENABLE_SENSOR s;
          if st = OK then do {
            s \<leftarrow> resp8 (q + n) (set_enable_code (ucSetNumericSensorEnableResponse (xLocalData s))) s;
            Some (OK, n + 1, s) }
          else do {
            s \<leftarrow> resp8 (q + n) RESP_PLDM_ERROR_GENERIC s;
            Some (ERROR, n + 1, s) } }
        else do {
          s \<leftarrow> resp8 (q + n) RESP_INVALID_SENSOR_ID s;
          Some (ERROR, n + 1, s) } })"

text \<open>
  The completion code, the operational state and the reading are the caller's variables, not
  initialised there: \<open>None\<close> when the function does not write them.
\<close>

definition iGetNumericSensorReading ::
  "'w bmc_env \<Rightarrow> u16 \<Rightarrow> 'w bmc_st \<Rightarrow>
   (evl_status \<times> u8 option \<times> u8 option \<times> u16 option \<times> 'w bmc_st) option" where
  "iGetNumericSensorReading E usSensorId s =
     (if \<not> bmc_ready s then Some (ERROR, None, None, None, s)
      else do {
        let s = upd_local (\<lambda>d. d\<lparr>usRequestedSensorId := usSensorId\<rparr>) s;
        valid \<leftarrow> iCheckSensorValid usSensorId s;
        if valid = OK then do {
          (st, s) \<leftarrow> iRaiseBmcEvent E BMC_PROXY_DRIVER_E_GET_SENSOR_INFO s;
          if st = OK then
            (let d = xLocalData s; r = ucGetNumericSensorResponse d in
             if r = BMC_GET_SENSOR_RESP_OK
             then Some (OK, Some RESP_PLDM_SUCCESS, Some (ucRequestedSensorOperationalState d), Some (ssSensorInfo d), s)
             else if r = BMC_GET_SENSOR_RESP_INVALID_SENSOR_ID
             then Some (OK, Some RESP_INVALID_SENSOR_ID, None, None, s)
             else if r = BMC_GET_SENSOR_RESP_INVALID_SENSOR_OPERATIONAL_STATE
             then Some (OK, Some RESP_INVALID_SENSOR_OPERATIONAL_STATE, None, None, s)
             else if r = BMC_GET_SENSOR_RESP_REARM_UNAVAILABLE_IN_PRESENT_STATE
             then Some (OK, Some RESP_REARM_UNAVAILABLE_IN_PRESENT_STATE, None, None, s)
             else Some (OK, Some RESP_PLDM_ERROR_GENERIC, None, None, s))
          else Some (ERROR, Some RESP_PLDM_ERROR_GENERIC, None, None, s) }
        else Some (ERROR, Some RESP_INVALID_SENSOR_ID, None, None, s) })"

section \<open>The answers of the application\<close>

text \<open>
  \<open>iBMC_SendResponseForGetSensor\<close> and \<open>iBMC_SetResponse\<close>; the signal argument is not used.
\<close>

definition iBMC_SendResponseForGetSensor :: "u16 \<Rightarrow> u16 \<Rightarrow> u8 \<Rightarrow> u8 \<Rightarrow> 'w bmc_st \<Rightarrow> evl_status \<times> 'w bmc_st" where
  "iBMC_SendResponseForGetSensor usSensorId info ucSensorState xSensorResponse s =
     (if \<not> bmc_ready s then (ERROR, BMC_INC_ERROR_COUNTER BMC_PROXY_VALIDATION_FAILED s)
      else if \<not> ucAwaitingSensorData (xLocalData s) then (ERROR, BMC_INC_ERROR_COUNTER BMC_UNEXPECTED_FLAG s)
      else (let (st, s) =
        (if usRequestedSensorId (xLocalData s) = usSensorId
         then (OK, upd_local (\<lambda>d. d\<lparr>ssSensorInfo := info,
                 ucRequestedSensorOperationalState := ucSensorState,
                 ucGetNumericSensorResponse := xSensorResponse\<rparr>) s)
         else (ERROR, BMC_INC_ERROR_COUNTER BMC_UNEXPECTED_SENSOR_ID
                 (upd_local (\<lambda>d. d\<lparr>ucGetNumericSensorResponse := BMC_GET_SENSOR_RESP_NONE\<rparr>) s)))
        in (st, upd_local (\<lambda>d. d\<lparr>ucAwaitingSensorData := False\<rparr>) s)))"

definition iBMC_SetResponse :: "u16 \<Rightarrow> u8 \<Rightarrow> 'w bmc_st \<Rightarrow> evl_status \<times> 'w bmc_st" where
  "iBMC_SetResponse usSensorId xBmcResponse s =
     (if \<not> bmc_ready s then (ERROR, BMC_INC_ERROR_COUNTER BMC_PROXY_VALIDATION_FAILED s)
      else if \<not> ucAwaitingSensorData (xLocalData s) then (ERROR, BMC_INC_ERROR_COUNTER BMC_UNEXPECTED_FLAG s)
      else (let (st, s) =
        (if usRequestedSensorId (xLocalData s) = usSensorId
         then (OK, upd_local (\<lambda>d. d\<lparr>ucSetNumericSensorEnableResponse := xBmcResponse\<rparr>) s)
         else (ERROR, BMC_INC_ERROR_COUNTER BMC_UNEXPECTED_SENSOR_ID
                 (upd_local (\<lambda>d. d\<lparr>ucSetNumericSensorEnableResponse := BMC_SENSOR_ENABLE_RESP_NONE\<rparr>) s)))
        in (st, upd_local (\<lambda>d. d\<lparr>ucAwaitingSensorData := False\<rparr>) s)))"

text \<open>The sensor and the state an application is asked about (\<open>pxSignal\<close> only has to be non-null).\<close>

definition iBMC_GetSensorIdRequest ::
  "EVLSignal option \<Rightarrow> 'w bmc_st \<Rightarrow> evl_status \<times> (u16 \<times> u8) option \<times> 'w bmc_st" where
  "iBMC_GetSensorIdRequest pxSignal s =
     (if bmc_ready s \<and> pxSignal \<noteq> None
      then (let s = BMC_INC_STAT_COUNTER BMC_PROXY_STATS_GET_SENSOR_ID_REQUEST s
            in (OK, Some (usRequestedSensorId (xLocalData s), ucRequestedSensorOperationalState (xLocalData s)), s))
      else (ERROR, None, BMC_INC_ERROR_COUNTER BMC_PROXY_VALIDATION_FAILED s))"

definition iGetUuid :: "nat \<Rightarrow> 'w bmc_st \<Rightarrow> (nat \<times> 'w bmc_st) option" where
  "iGetUuid i s =
     (if bmc_ready s then do {
        xs \<leftarrow> get_bytes (pucUuid (xLocalData s)) 0 HAL_UUID_SIZE;
        s \<leftarrow> resp_bytes i xs s;
        Some (HAL_UUID_SIZE, s) }
      else Some (0, s))"
end
