(* ===== verification/BMC_Repository.thy ===== *)
theory BMC_Repository
  imports BMC_Sensors
begin

text \<open>
  The repository of platform descriptor records: \<open>vPdrRepoInit\<close> (\<open>bmc_proxy_driver.c\<close>) gives
  every record of the terminus and of the sensor arrays a handle and a header, and
  \<open>pldm_pdr.c\<close> keeps the terminus id and the time stamp.
\<close>

abbreviation (input) PDR_HEADER_VERSION :: u8 where "PDR_HEADER_VERSION \<equiv> 1"
abbreviation (input) EPDRTypeTerminusLocator :: u8 where "EPDRTypeTerminusLocator \<equiv> 1"
abbreviation (input) EPDRTypeNumericSensor :: u8 where "EPDRTypeNumericSensor \<equiv> 2"
abbreviation (input) EPDRTypeSensorAuxNames :: u8 where "EPDRTypeSensorAuxNames \<equiv> 6"
abbreviation (input) MAX_NAME_SIZE :: nat where "MAX_NAME_SIZE \<equiv> 32"
abbreviation (input) TOTAL_PDR_COUNT_TERMINUS :: nat where "TOTAL_PDR_COUNT_TERMINUS \<equiv> 1"

text \<open>
  Sizes of the packed structures (\<open>CommonPDRFormat\<close>, \<open>TerminusPDRFormatUid\<close>,
  \<open>PLDMNumericSensorPdr\<close>, \<open>PLDMNumericSensorNamePdr\<close>) and offsets of the members written here.
\<close>

abbreviation (input) sizeof_CommonPDRFormat :: nat where "sizeof_CommonPDRFormat \<equiv> 10"
abbreviation (input) sizeof_TerminusPDRFormatUid :: nat where "sizeof_TerminusPDRFormatUid \<equiv> 35"
abbreviation (input) sizeof_PLDMNumericSensorPdr :: nat where "sizeof_PLDMNumericSensorPdr \<equiv> 81"
abbreviation (input) sizeof_PLDMNumericSensorNamePdr :: nat where "sizeof_PLDMNumericSensorNamePdr \<equiv> 86"
abbreviation (input) TID_OFFSET :: nat where "TID_OFFSET \<equiv> 13"
abbreviation (input) DEVICE_UID_OFFSET :: nat where "DEVICE_UID_OFFSET \<equiv> 19"
abbreviation (input) SENSOR_NAME_OFFSET :: nat where "SENSOR_NAME_OFFSET \<equiv> 22"
abbreviation (input) CHANGE_NUMBER_OFFSET :: nat where "CHANGE_NUMBER_OFFSET \<equiv> 6"
abbreviation (input) DATA_LENGTH_OFFSET :: nat where "DATA_LENGTH_OFFSET \<equiv> 8"

section \<open>Records and their places\<close>

text \<open>What a pointer of the repository points to, and writing through it.\<close>

definition pdr_array :: "pdr_ref \<Rightarrow> 'w bmc_st \<Rightarrow> u8 list list option \<times> nat" where
  "pdr_array r s = (let d = xLocalData s in
     case r of Terminus i \<Rightarrow> (Some (xPdrTerminusLocator s), i)
     | Temperature i \<Rightarrow> (pxPdrTemperatureSensors d, i) | Voltage i \<Rightarrow> (pxPdrVoltageSensors d, i)
     | Current i \<Rightarrow> (pxPdrCurrentSensors d, i) | Power i \<Rightarrow> (pxPdrPowerSensors d, i)
     | SensorName i \<Rightarrow> (pxPdrSensorNames d, i))"

definition set_pdr_array :: "pdr_ref \<Rightarrow> u8 list list \<Rightarrow> 'w bmc_st \<Rightarrow> 'w bmc_st" where
  "set_pdr_array r xs s =
     (case r of Terminus i \<Rightarrow> s\<lparr>xPdrTerminusLocator := xs\<rparr>
     | Temperature i \<Rightarrow> upd_local (\<lambda>d. d\<lparr>pxPdrTemperatureSensors := Some xs\<rparr>) s
     | Voltage i \<Rightarrow> upd_local (\<lambda>d. d\<lparr>pxPdrVoltageSensors := Some xs\<rparr>) s
     | Current i \<Rightarrow> upd_local (\<lambda>d. d\<lparr>pxPdrCurrentSensors := Some xs\<rparr>) s
     | Power i \<Rightarrow> upd_local (\<lambda>d. d\<lparr>pxPdrPowerSensors := Some xs\<rparr>) s
     | SensorName i \<Rightarrow> upd_local (\<lambda>d. d\<lparr>pxPdrSensorNames := Some xs\<rparr>) s)"

definition pdr_get :: "pdr_ref \<Rightarrow> 'w bmc_st \<Rightarrow> u8 list option" where
  "pdr_get r s = (let (p, i) = pdr_array r s in elem p i)"

definition pdr_put :: "pdr_ref \<Rightarrow> u8 list \<Rightarrow> 'w bmc_st \<Rightarrow> 'w bmc_st option" where
  "pdr_put r bytes s = (let (p, i) = pdr_array r s in
     do { xs \<leftarrow> p; if i < length xs then Some (set_pdr_array r (xs[i := bytes]) s) else None })"

section \<open>Names and time stamps\<close>

definition vUpdateTimestamp :: "TimeStamp \<Rightarrow> TimeStamp" where
  "vUpdateTimestamp t = t\<lparr>Year := 0, Month := 0, Day := 0, Hours := 8, Minutes := 30, Seconds := 15,
     uSeconds := [0, 0, 0], UTC_Offset := 0, UTC_Time_Resolution := 0xF\<rparr>"

text \<open>
  The loop over the characters of a name, \<open>k\<close> being \<open>MAX_NAME_SIZE - i\<close>.  The character is read
  before the index is compared with the size of the name.
\<close>

fun name_scan :: "u8 list \<Rightarrow> nat \<Rightarrow> nat \<Rightarrow> nat option" where
  "name_scan name i k = do {
     c \<leftarrow> get16 name (2 * i);
     if c \<noteq> 0 then (case k of 0 \<Rightarrow> Some i | Suc k \<Rightarrow> name_scan name (i + 1) k) else Some i }"

declare name_scan.simps [simp del]

definition sensor_name_empty_space :: "u8 list \<Rightarrow> (nat \<times> u8 list) option" where
  "sensor_name_empty_space name = do {
     i \<leftarrow> name_scan name 0 MAX_NAME_SIZE;
     let i = i + 1;
     name \<leftarrow> (if i = MAX_NAME_SIZE then put16 (2 * (i - 1)) 0 name else Some name);
     Some (2 * (MAX_NAME_SIZE - i), name) }"

section \<open>The repository\<close>

definition upd_repo :: "(PDRRepositoryInfo \<Rightarrow> PDRRepositoryInfo) \<Rightarrow> 'w bmc_st \<Rightarrow> 'w bmc_st" where
  "upd_repo f s = s\<lparr>MSP432_PDR_Repository := f (MSP432_PDR_Repository s)\<rparr>"

text \<open>The header of a record, a \<open>CommonPDRFormat\<close>.\<close>

definition pdr_header :: "nat \<Rightarrow> u8 \<Rightarrow> nat \<Rightarrow> u8 list" where
  "pdr_header iRecordHandle type iCurrRecordSize =
     le_bytes32 (of_nat iRecordHandle) @ [PDR_HEADER_VERSION, type, 0, 0] @
     (let n = of_nat (iCurrRecordSize - sizeof_CommonPDRFormat) :: u16 in [ucast n, ucast (drop_bit 8 n)])"

text \<open>
  The body of the five loops: \<open>h\<close> is the handle, \<open>size\<close> computes the size of the record; the
  pointer is stored, then the header.
\<close>

definition add_pdr :: "pdr_ref \<Rightarrow> u8 \<Rightarrow> (u8 list \<Rightarrow> (nat \<times> u8 list) option) \<Rightarrow> nat \<Rightarrow> 'w bmc_st \<Rightarrow> 'w bmc_st option" where
  "add_pdr r type rec_size h s = do {
     recs \<leftarrow> arr_set TOTAL_PDR_COUNT (PDRRecords (MSP432_PDR_Repository s)) h (Some r);
     let s = upd_repo (\<lambda>p. p\<lparr>PDRRecords := recs\<rparr>) s;
     rec \<leftarrow> pdr_get r s;
     (iCurrRecordSize, rec) \<leftarrow> rec_size rec;
     rec \<leftarrow> put_bytes 0 (pdr_header h type iCurrRecordSize) rec;
     s \<leftarrow> pdr_put r rec s;
     Some (upd_repo (\<lambda>p. p\<lparr>recordCount := recordCount p + 1,
        repositorySize := repositorySize p + of_nat iCurrRecordSize,
        largestRecordSize := max (largestRecordSize p) (of_nat iCurrRecordSize)\<rparr>) s) }"

definition name_size :: "u8 list \<Rightarrow> (nat \<times> u8 list) option" where
  "name_size rec = do {
     name \<leftarrow> get_bytes rec SENSOR_NAME_OFFSET (2 * MAX_NAME_SIZE);
     (empty, name) \<leftarrow> sensor_name_empty_space name;
     rec \<leftarrow> put_bytes SENSOR_NAME_OFFSET name rec;
     Some (sizeof_PLDMNumericSensorNamePdr - empty, rec) }"

definition fixed_size :: "nat \<Rightarrow> u8 list \<Rightarrow> (nat \<times> u8 list) option" where
  "fixed_size n rec = Some (n, rec)"

text \<open>The loop over an array of \<open>n\<close> records from element \<open>i\<close>, handles from \<open>h\<close> on.\<close>

fun add_pdrs ::
  "(nat \<Rightarrow> pdr_ref) \<Rightarrow> u8 \<Rightarrow> (u8 list \<Rightarrow> (nat \<times> u8 list) option) \<Rightarrow> nat \<Rightarrow> nat \<Rightarrow> nat \<Rightarrow> 'w bmc_st \<Rightarrow> 'w bmc_st option" where
  "add_pdrs r type rec_size h i 0 s = Some s"
| "add_pdrs r type rec_size h i (Suc n) s = do {
     s \<leftarrow> add_pdr (r i) type rec_size h s;
     add_pdrs r type rec_size (h + 1) (i + 1) n s }"

definition init_terminus :: "'w bmc_st \<Rightarrow> 'w bmc_st option" where
  "init_terminus s = do {
     uid \<leftarrow> get_bytes (pucUuid (xLocalData s)) 0 HAL_UUID_SIZE;
     rec \<leftarrow> pdr_get (Terminus 0) s;
     rec \<leftarrow> put_bytes DEVICE_UID_OFFSET uid rec;
     s \<leftarrow> pdr_put (Terminus 0) rec s;
     add_pdr (Terminus 0) EPDRTypeTerminusLocator (fixed_size sizeof_TerminusPDRFormatUid) 0 s }"

definition vPdrRepoInit :: "'w bmc_st \<Rightarrow> 'w bmc_st option" where
  "vPdrRepoInit s =
     (if iIsRepoInitialized (MSP432_PDR_Repository s) then Some s
      else do {
        let s = upd_repo (\<lambda>p. p\<lparr>iIsRepoInitialized := True, repositoryState := ERepoStateAvailable,
                  recordCount := 0, repositorySize := 0, largestRecordSize := 0, dataTransferHandleTimeout := 0,
                  updateTimestamp := vUpdateTimestamp (updateTimestamp p)\<lparr>UTC_Time_Resolution := 0xF\<rparr>,
                  OEMUpdateTimestamp := vUpdateTimestamp (updateTimestamp p)\<lparr>UTC_Time_Resolution := 0xF\<rparr>\<rparr>) s;
        s \<leftarrow> init_terminus s;
        let h1 = TOTAL_PDR_COUNT_TERMINUS;
        let n1 = iGetNumTemperatureSensors s;
        s \<leftarrow> add_pdrs Temperature EPDRTypeNumericSensor (fixed_size sizeof_PLDMNumericSensorPdr) h1 0 n1 s;
        let h2 = h1 + n1;
        let n2 = iGetNumVoltageSensors s;
        s \<leftarrow> add_pdrs Voltage EPDRTypeNumericSensor (fixed_size sizeof_PLDMNumericSensorPdr) h2 0 n2 s;
        let h3 = h2 + n2;
        let n3 = iGetNumCurrentSensors s;
        s \<leftarrow> add_pdrs Current EPDRTypeNumericSensor (fixed_size sizeof_PLDMNumericSensorPdr) h3 0 n3 s;
        let h4 = h3 + n3;
        let n4 = iGetNumPowerSensors s;
        s \<leftarrow> add_pdrs Power EPDRTypeNumericSensor (fixed_size sizeof_PLDMNumericSensorPdr) h4 0 n4 s;
        let h5 = h4 + n4;
        let n5 = iGetNumNameSensors s;
        add_pdrs SensorName EPDRTypeSensorAuxNames name_size h5 0 n5 s })"

text \<open>The terminus id, record 0 of the repository.\<close>

definition update_tid :: "u8 \<Rightarrow> 'w bmc_st \<Rightarrow> 'w bmc_st option" where
  "update_tid tid s = do {
     s \<leftarrow> vPdrRepoInit s;
     r \<leftarrow> PDRRecords (MSP432_PDR_Repository s) 0;
     let s = upd_repo (\<lambda>p. p\<lparr>repositoryState := ERepoStateUpdateInprogress\<rparr>) s;
     rec \<leftarrow> pdr_get r s;
     rec \<leftarrow> put8 TID_OFFSET tid rec;
     v \<leftarrow> get16 rec CHANGE_NUMBER_OFFSET;
     rec \<leftarrow> put16 CHANGE_NUMBER_OFFSET (v + 1) rec;
     s \<leftarrow> pdr_put r rec s;
     Some (upd_repo (\<lambda>p. p\<lparr>updateTimestamp := vUpdateTimestamp (updateTimestamp p),
        repositoryState := ERepoStateAvailable\<rparr>) s) }"

definition getPDRRepository :: "'w bmc_st \<Rightarrow> (PDRRepositoryInfo \<times> 'w bmc_st) option" where
  "getPDRRepository s = do { s \<leftarrow> vPdrRepoInit s; Some (MSP432_PDR_Repository s, s) }"
end
