(* ===== verification/PLDM_Crc.thy ===== *)
theory PLDM_Crc
  imports AMR_Prelude
begin

text \<open>
  The checksums of the PLDM messages (\<open>pldm_processor.c\<close>): the two lookup tables, the loops
  over them, and the bit-by-bit checksums they stand for.
\<close>

section \<open>Table-driven checksums\<close>

definition CRCTable32 :: "u32 list" where
  "CRCTable32 = [
     0x00000000, 0x77073096, 0xEE0E612C, 0x990951BA, 0x076DC419, 0x706AF48F, 0xE963A535, 0x9E6495A3,
     0x0EDB8832, 0x79DCB8A4, 0xE0D5E91E, 0x97D2D988, 0x09B64C2B, 0x7EB17CBD, 0xE7B82D07, 0x90BF1D91,
     0x1DB71064, 0x6AB020F2, 0xF3B97148, 0x84BE41DE, 0x1ADAD47D, 0x6DDDE4EB, 0xF4D4B551, 0x83D385C7,
     0x136C9856, 0x646BA8C0, 0xFD62F97A, 0x8A65C9EC, 0x14015C4F, 0x63066CD9, 0xFA0F3D63, 0x8D080DF5,
     0x3B6E20C8, 0x4C69105E, 0xD56041E4, 0xA2677172, 0x3C03E4D1, 0x4B04D447, 0xD20D85FD, 0xA50AB56B,
     0x35B5A8FA, 0x42B2986C, 0xDBBBC9D6, 0xACBCF940, 0x32D86CE3, 0x45DF5C75, 0xDCD60DCF, 0xABD13D59,
     0x26D930AC, 0x51DE003A, 0xC8D75180, 0xBFD06116, 0x21B4F4B5, 0x56B3C423, 0xCFBA9599, 0xB8BDA50F,
     0x2802B89E, 0x5F058808, 0xC60CD9B2, 0xB10BE924, 0x2F6F7C87, 0x58684C11, 0xC1611DAB, 0xB6662D3D,
     0x76DC4190, 0x01DB7106, 0x98D220BC, 0xEFD5102A, 0x71B18589, 0x06B6B51F, 0x9FBFE4A5, 0xE8B8D433,
     0x7807C9A2, 0x0F00F934, 0x9609A88E, 0xE10E9818, 0x7F6A0DBB, 0x086D3D2D, 0x91646C97, 0xE6635C01,
     0x6B6B51F4, 0x1C6C6162, 0x856530D8, 0xF262004E, 0x6C0695ED, 0x1B01A57B, 0x8208F4C1, 0xF50FC457,
     0x65B0D9C6, 0x12B7E950, 0x8BBEB8EA, 0xFCB9887C, 0x62DD1DDF, 0x15DA2D49, 0x8CD37CF3, 0xFBD44C65,
     0x4DB26158, 0x3AB551CE, 0xA3BC0074, 0xD4BB30E2, 0x4ADFA541, 0x3DD895D7, 0xA4D1C46D, 0xD3D6F4FB,
     0x4369E96A, 0x346ED9FC, 0xAD678846, 0xDA60B8D0, 0x44042D73, 0x33031DE5, 0xAA0A4C5F, 0xDD0D7CC9,
     0x5005713C, 0x270241AA, 0xBE0B1010, 0xC90C2086, 0x5768B525, 0x206F85B3, 0xB966D409, 0xCE61E49F,
     0x5EDEF90E, 0x29D9C998, 0xB0D09822, 0xC7D7A8B4, 0x59B33D17, 0x2EB40D81, 0xB7BD5C3B, 0xC0BA6CAD,
     0xEDB88320, 0x9ABFB3B6, 0x03B6E20C, 0x74B1D29A, 0xEAD54739, 0x9DD277AF, 0x04DB2615, 0x73DC1683,
     0xE3630B12, 0x94643B84, 0x0D6D6A3E, 0x7A6A5AA8, 0xE40ECF0B, 0x9309FF9D, 0x0A00AE27, 0x7D079EB1,
     0xF00F9344, 0x8708A3D2, 0x1E01F268, 0x6906C2FE, 0xF762575D, 0x806567CB, 0x196C3671, 0x6E6B06E7,
     0xFED41B76, 0x89D32BE0, 0x10DA7A5A, 0x67DD4ACC, 0xF9B9DF6F, 0x8EBEEFF9, 0x17B7BE43, 0x60B08ED5,
     0xD6D6A3E8, 0xA1D1937E, 0x38D8C2C4, 0x4FDFF252, 0xD1BB67F1, 0xA6BC5767, 0x3FB506DD, 0x48B2364B,
     0xD80D2BDA, 0xAF0A1B4C, 0x36034AF6, 0x41047A60, 0xDF60EFC3, 0xA867DF55, 0x316E8EEF, 0x4669BE79,
     0xCB61B38C, 0xBC66831A, 0x256FD2A0, 0x5268E236, 0xCC0C7795, 0xBB0B4703, 0x220216B9, 0x5505262F,
     0xC5BA3BBE, 0xB2BD0B28, 0x2BB45A92, 0x5CB36A04, 0xC2D7FFA7, 0xB5D0CF31, 0x2CD99E8B, 0x5BDEAE1D,
     0x9B64C2B0, 0xEC63F226, 0x756AA39C, 0x026D930A, 0x9C0906A9, 0xEB0E363F, 0x72076785, 0x05005713,
     0x95BF4A82, 0xE2B87A14, 0x7BB12BAE, 0x0CB61B38, 0x92D28E9B, 0xE5D5BE0D, 0x7CDCEFB7, 0x0BDBDF21,
     0x86D3D2D4, 0xF1D4E242, 0x68DDB3F8, 0x1FDA836E, 0x81BE16CD, 0xF6B9265B, 0x6FB077E1, 0x18B74777,
     0x88085AE6, 0xFF0F6A70, 0x66063BCA, 0x11010B5C, 0x8F659EFF, 0xF862AE69, 0x616BFFD3, 0x166CCF45,
     0xA00AE278, 0xD70DD2EE, 0x4E048354, 0x3903B3C2, 0xA7672661, 0xD06016F7, 0x4969474D, 0x3E6E77DB,
     0xAED16A4A, 0xD9D65ADC, 0x40DF0B66, 0x37D83BF0, 0xA9BCAE53, 0xDEBB9EC5, 0x47B2CF7F, 0x30B5FFE9,
     0xBDBDF21C, 0xCABAC28A, 0x53B39330, 0x24B4A3A6, 0xBAD03605, 0xCDD70693, 0x54DE5729, 0x23D967BF,
     0xB3667A2E, 0xC4614AB8, 0x5D681B02, 0x2A6F2B94, 0xB40BBE37, 0xC30C8EA1, 0x5A05DF1B, 0x2D02EF8D]"

definition CRCTable8 :: "u8 list" where
  "CRCTable8 = [
     0x00, 0x07, 0x0E, 0x09, 0x1C, 0x1B, 0x12, 0x15, 0x38, 0x3F, 0x36, 0x31, 0x24, 0x23, 0x2A, 0x2D,
     0x70, 0x77, 0x7E, 0x79, 0x6C, 0x6B, 0x62, 0x65, 0x48, 0x4F, 0x46, 0x41, 0x54, 0x53, 0x5A, 0x5D,
     0xE0, 0xE7, 0xEE, 0xE9, 0xFC, 0xFB, 0xF2, 0xF5, 0xD8, 0xDF, 0xD6, 0xD1, 0xC4, 0xC3, 0xCA, 0xCD,
     0x90, 0x97, 0x9E, 0x99, 0x8C, 0x8B, 0x82, 0x85, 0xA8, 0xAF, 0xA6, 0xA1, 0xB4, 0xB3, 0xBA, 0xBD,
     0xC7, 0xC0, 0xC9, 0xCE, 0xDB, 0xDC, 0xD5, 0xD2, 0xFF, 0xF8, 0xF1, 0xF6, 0xE3, 0xE4, 0xED, 0xEA,
     0xB7, 0xB0, 0xB9, 0xBE, 0xAB, 0xAC, 0xA5, 0xA2, 0x8F, 0x88, 0x81, 0x86, 0x93, 0x94, 0x9D, 0x9A,
     0x27, 0x20, 0x29, 0x2E, 0x3B, 0x3C, 0x35, 0x32, 0x1F, 0x18, 0x11, 0x16, 0x03, 0x04, 0x0D, 0x0A,
     0x57, 0x50, 0x59, 0x5E, 0x4B, 0x4C, 0x45, 0x42, 0x6F, 0x68, 0x61, 0x66, 0x73, 0x74, 0x7D, 0x7A,
     0x89, 0x8E, 0x87, 0x80, 0x95, 0x92, 0x9B, 0x9C, 0xB1, 0xB6, 0xBF, 0xB8, 0xAD, 0xAA, 0xA3, 0xA4,
     0xF9, 0xFE, 0xF7, 0xF0, 0xE5, 0xE2, 0xEB, 0xEC, 0xC1, 0xC6, 0xCF, 0xC8, 0xDD, 0xDA, 0xD3, 0xD4,
     0x69, 0x6E, 0x67, 0x60, 0x75, 0x72, 0x7B, 0x7C, 0x51, 0x56, 0x5F, 0x58, 0x4D, 0x4A, 0x43, 0x44,
     0x19, 0x1E, 0x17, 0x10, 0x05, 0x02, 0x0B, 0x0C, 0x21, 0x26, 0x2F, 0x28, 0x3D, 0x3A, 0x33, 0x34,
     0x4E, 0x49, 0x40, 0x47, 0x52, 0x55, 0x5C, 0x5B, 0x76, 0x71, 0x78, 0x7F, 0x6A, 0x6D, 0x64, 0x63,
     0x3E, 0x39, 0x30, 0x37, 0x22, 0x25, 0x2C, 0x2B, 0x06, 0x01, 0x08, 0x0F, 0x1A, 0x1D, 0x14, 0x13,
     0xAE, 0xA9, 0xA0, 0xA7, 0xB2, 0xB5, 0xBC, 0xBB, 0x96, 0x91, 0x98, 0x9F, 0x8A, 0x8D, 0x84, 0x83,
     0xDE, 0xD9, 0xD0, 0xD7, 0xC2, 0xC5, 0xCC, 0xCB, 0xE6, 0xE1, 0xE8, 0xEF, 0xFA, 0xFD, 0xF4, 0xF3]"

text \<open>
  One turn of each loop.  The buffer is the list of the \<open>size\<close> bytes the caller passes;
  \<open>unsigned long\<close> has 32 bits on the target.
\<close>

definition crc32_turn :: "u32 \<Rightarrow> u8 \<Rightarrow> u32" where
  "crc32_turn crc b = CRCTable32 ! unat ((crc XOR ucast b) AND 0xFF) XOR drop_bit 8 crc"

definition ulGetCrc32 :: "u8 list \<Rightarrow> u32" where
  "ulGetCrc32 data = foldl crc32_turn 0xFFFFFFFF data XOR 0xFFFFFFFF"

definition crc8_turn :: "u8 \<Rightarrow> u8 \<Rightarrow> u8" where
  "crc8_turn crc b = CRCTable8 ! unat (crc XOR b)"

definition ucGetCrc8 :: "u8 list \<Rightarrow> u8" where
  "ucGetCrc8 data = foldl crc8_turn 0 data"

section \<open>The checksums bit by bit\<close>

text \<open>Reflected division by the polynomial 0x04C11DB7, and division by 0x07.\<close>

definition crc32_shift :: "u32 \<Rightarrow> u32" where
  "crc32_shift c = (if bit c 0 then drop_bit 1 c XOR 0xEDB88320 else drop_bit 1 c)"

definition crc32_byte :: "u32 \<Rightarrow> u8 \<Rightarrow> u32" where
  "crc32_byte c b = (crc32_shift ^^ 8) (c XOR ucast b)"

definition crc32_reference :: "u8 list \<Rightarrow> u32" where
  "crc32_reference data = NOT (foldl crc32_byte (- 1) data)"

definition crc8_shift :: "u8 \<Rightarrow> u8" where
  "crc8_shift c = (if bit c 7 then push_bit 1 c XOR 0x07 else push_bit 1 c)"

definition crc8_byte :: "u8 \<Rightarrow> u8 \<Rightarrow> u8" where
  "crc8_byte c b = (crc8_shift ^^ 8) (c XOR b)"

definition crc8_reference :: "u8 list \<Rightarrow> u8" where
  "crc8_reference data = foldl crc8_byte 0 data"

section \<open>Linear functions and their tables\<close>

definition xor_linear :: "('a :: len word \<Rightarrow> 'a word) \<Rightarrow> bool" where
  "xor_linear f \<longleftrightarrow> (\<forall>x y. f (x XOR y) = f x XOR f y)"

lemma xor_linearD: "xor_linear f \<Longrightarrow> f (x XOR y) = f x XOR f y"
  by (simp add: xor_linear_def)

lemma xor_linear_0: "xor_linear f \<Longrightarrow> f 0 = 0"
  using xor_linearD [of f 0 0] by simp

lemma xor_linear_funpow: "xor_linear f \<Longrightarrow> xor_linear (f ^^ n)"
  by (induction n) (simp_all add: xor_linear_def)

lemma word_xor_eq_0: "x XOR y = 0 \<longleftrightarrow> x = y" for x y :: "'a :: len word"
proof
  assume "x XOR y = 0"
  then have "x XOR (x XOR y) = x XOR 0" by simp
  then show "x = y" by (simp add: xor.assoc [symmetric])
qed simp

lemma word_xor_cancel [simp]: "x XOR m = y XOR m \<longleftrightarrow> x = y" "m XOR x = m XOR y \<longleftrightarrow> x = y"
  for x y m :: "'a :: len word"
  by (simp_all flip: word_xor_eq_0 [of "x XOR m"] word_xor_eq_0 [of "m XOR x"] word_xor_eq_0 [of x y]
      add: ac_simps)

lemma xor_linear_inj:
  assumes "xor_linear f" and "\<And>x. f x = 0 \<Longrightarrow> x = 0"
  shows "inj f"
proof (rule injI)
  fix x y
  assume "f x = f y"
  then have "f (x XOR y) = 0" using assms(1) by (simp add: xor_linearD)
  then have "x XOR y = 0" by (rule assms(2))
  then show "x = y" by (simp add: word_xor_eq_0)
qed

lemma crc32_shift_linear: "xor_linear crc32_shift"
  by (auto simp: xor_linear_def crc32_shift_def bit_xor_iff drop_bit_xor ac_simps)

lemma crc8_shift_linear: "xor_linear crc8_shift"
  by (auto simp: xor_linear_def crc8_shift_def bit_xor_iff push_bit_xor ac_simps)

text \<open>The table of a linear function is spanned by its values at the powers of two.\<close>

fun span :: "'a :: len word list \<Rightarrow> 'a word list" where
  "span [] = [0]"
| "span (b # bs) = (let t = span bs in t @ map (\<lambda>x. x XOR b) t)"

lemma length_span [simp]: "length (span bs) = 2 ^ length bs"
  by (induction bs) (simp_all add: Let_def)

lemma of_nat_split:
  assumes "k < 2 ^ n" and "n < LENGTH('a :: len)"
  shows "(of_nat (2 ^ n + k) :: 'a word) = of_nat k XOR 2 ^ n"
proof -
  have "bit (of_nat k :: 'a word) m \<Longrightarrow> m < n" for m
    using assms(1) less_le_trans [OF assms(1) power_increasing [of n m "2 :: nat"]]
    by (rule_tac ccontr) (simp add: bit_of_nat_iff bit_nat_def not_less)
  then have "(of_nat k :: 'a word) AND 2 ^ n = 0"
    by (intro bit_word_eqI) (auto simp: bit_simps)
  then show ?thesis
    by (simp add: disjunctive_add_eq_xor ac_simps)
qed

lemma span_nth:
  fixes f :: "'a :: len word \<Rightarrow> 'a word"
  assumes "xor_linear f"
  shows "n \<le> LENGTH('a) \<Longrightarrow> k < 2 ^ n \<Longrightarrow> span (map (\<lambda>i. f (2 ^ i)) (rev [0..<n])) ! k = f (of_nat k)"
proof (induction n arbitrary: k)
  case 0
  then show ?case using xor_linear_0 [OF assms] by simp
next
  case (Suc n)
  show ?case
  proof (cases "k < 2 ^ n")
    case True
    with Suc show ?thesis by (simp add: Let_def nth_append)
  next
    case False
    with Suc.prems have k: "k = 2 ^ n + (k - 2 ^ n)" "k - 2 ^ n < 2 ^ n" by auto
    have "f (of_nat k) = f (of_nat (k - 2 ^ n) XOR 2 ^ n)"
      using of_nat_split [OF k(2), where 'a = 'a] k(1) Suc.prems(1) by simp
    with Suc False k(2) show ?thesis
      by (simp add: Let_def nth_append xor_linearD [OF assms])
  qed
qed

lemma funpow_8: "(f ^^ 8) x = f (f (f (f (f (f (f (f x)))))))"
  by (simp add: numeral_eq_Suc)

lemma mask_FF: "(0xFF :: u32) = mask 8"
  by (simp add: mask_eq_exp_minus_1)

section \<open>The tables hold the bit-by-bit values\<close>

lemma table32: "k < 256 \<Longrightarrow> CRCTable32 ! k = (crc32_shift ^^ 8) (of_nat k)"
proof -
  assume "k < 256"
  moreover have "CRCTable32 = span (map (\<lambda>i. (crc32_shift ^^ 8) (2 ^ i)) (rev [0..<8]))"
    by (simp add: upt_rec funpow_8 crc32_shift_def CRCTable32_def)
  ultimately show ?thesis
    using span_nth [OF xor_linear_funpow [OF crc32_shift_linear], of 8 k 8] by simp
qed

lemma table8: "k < 256 \<Longrightarrow> CRCTable8 ! k = (crc8_shift ^^ 8) (of_nat k)"
proof -
  assume "k < 256"
  moreover have "CRCTable8 = span (map (\<lambda>i. (crc8_shift ^^ 8) (2 ^ i)) (rev [0..<8]))"
    by (simp add: upt_rec funpow_8 crc8_shift_def bit_numeral_rec CRCTable8_def)
  ultimately show ?thesis
    using span_nth [OF xor_linear_funpow [OF crc8_shift_linear], of 8 k 8] by simp
qed

text \<open>Eight shifts of a word whose low byte is zero only move its bits down.\<close>

lemma crc32_shift_down: "(\<And>m. m < n \<Longrightarrow> \<not> bit c m) \<Longrightarrow> (crc32_shift ^^ n) c = drop_bit n c"
proof (induction n arbitrary: c)
  case (Suc n)
  then have "crc32_shift c = drop_bit 1 c" by (simp add: crc32_shift_def)
  with Suc.IH [of "drop_bit 1 c"] Suc.prems show ?case
    by (simp add: funpow_Suc_right bit_simps del: funpow.simps)
qed simp

lemma crc32_turn: "crc32_turn c b = crc32_byte c b"
proof -
  define x where "x = c XOR ucast b"
  define f where "f = crc32_shift ^^ 8"
  have f: "xor_linear f" unfolding f_def by (rule xor_linear_funpow [OF crc32_shift_linear])
  have "f (x AND NOT (mask 8)) = drop_bit 8 (x AND NOT (mask 8))"
    unfolding f_def by (rule crc32_shift_down) (simp add: bit_simps)
  also have "\<dots> = drop_bit 8 c"
    by (rule bit_word_eqI) (auto simp: x_def bit_simps dest: bit_out_of_range)
  finally have hi: "f (x AND NOT (mask 8)) = drop_bit 8 c" .
  have "unat (x AND mask 8) < 2 ^ 8"
    unfolding take_bit_eq_mask [symmetric] unsigned_take_bit_eq by (rule take_bit_nat_less_exp)
  then have lo: "CRCTable32 ! unat (x AND mask 8) = f (x AND mask 8)"
    using table32 [of "unat (x AND mask 8)"] by (simp add: f_def)
  have "x = (x AND mask 8) XOR (x AND NOT (mask 8))"
    by (rule bit_word_eqI) (auto simp: bit_simps)
  then have "f x = f (x AND mask 8) XOR f (x AND NOT (mask 8))"
    using xor_linearD [OF f, of "x AND mask 8" "x AND NOT (mask 8)"] by simp
  then show ?thesis
    by (simp add: crc32_turn_def crc32_byte_def mask_FF lo hi flip: f_def x_def)
qed

lemma crc8_turn: "crc8_turn c b = crc8_byte c b"
  using table8 [of "unat (c XOR b)"] unat_bound [of "c XOR b"]
  by (simp add: crc8_turn_def crc8_byte_def)

section \<open>What the checksums detect\<close>

lemma crc32_shift_zero: "crc32_shift c = 0 \<Longrightarrow> c = 0"
proof (cases "bit c 0")
  case True
  assume "crc32_shift c = 0"
  with True have "drop_bit 1 c = 0xEDB88320" by (simp add: crc32_shift_def word_xor_eq_0)
  then have "bit (drop_bit 1 c) 31 = bit (0xEDB88320 :: u32) 31" by simp
  then have False by (auto simp: bit_simps bit_numeral_rec dest: bit_out_of_range)
  then show ?thesis ..
next
  case False
  assume "crc32_shift c = 0"
  with False have z: "drop_bit 1 c = 0" by (simp add: crc32_shift_def)
  show ?thesis
  proof (rule bit_word_eqI)
    fix n
    assume n: "n < LENGTH(32)"
    have "bit (drop_bit 1 c) (n - 1) = bit (0 :: u32) (n - 1)" using z by simp
    then show "bit c n = bit 0 n"
      using n False by (cases n) (auto simp: bit_simps)
  qed
qed

lemma crc8_shift_zero: "crc8_shift c = 0 \<Longrightarrow> c = 0"
proof (cases "bit c 7")
  case True
  assume "crc8_shift c = 0"
  with True have "push_bit 1 c = 7" by (simp add: crc8_shift_def word_xor_eq_0)
  then have "bit (push_bit 1 c) 0 = bit (7 :: u8) 0" by simp
  then show ?thesis by (simp add: bit_simps bit_0)
next
  case False
  assume "crc8_shift c = 0"
  with False have z: "push_bit 1 c = 0" by (simp add: crc8_shift_def)
  show ?thesis
  proof (rule bit_word_eqI)
    fix n :: nat
    assume "n < LENGTH(8)"
    moreover have "\<not> bit (push_bit 1 c) (n + 1)" unfolding z by simp
    ultimately show "bit c n = bit 0 n"
      unfolding bit_push_bit_iff using False by (cases "n = 7") auto
  qed
qed

lemma ucast_u8_eq [simp]: "(ucast a :: u32) = ucast b \<longleftrightarrow> a = b" for a b :: u8
proof
  assume "(ucast a :: u32) = ucast b"
  then have "unat (ucast a :: u32) = unat (ucast b :: u32)" by simp
  then show "a = b" by (simp add: word_unat_eq_iff)
qed simp

lemma crc32_byte_eq: "crc32_byte c b = crc32_byte d b \<longleftrightarrow> c = d" "crc32_byte c a = crc32_byte c b \<longleftrightarrow> a = b"
proof -
  have i: "inj (crc32_shift ^^ 8)"
    by (rule inj_fn, rule xor_linear_inj [OF crc32_shift_linear crc32_shift_zero])
  show "crc32_byte c b = crc32_byte d b \<longleftrightarrow> c = d" "crc32_byte c a = crc32_byte c b \<longleftrightarrow> a = b"
    by (auto simp: crc32_byte_def inj_eq [OF i])
qed

lemma crc8_byte_eq: "crc8_byte c b = crc8_byte d b \<longleftrightarrow> c = d" "crc8_byte c a = crc8_byte c b \<longleftrightarrow> a = b"
proof -
  have i: "inj (crc8_shift ^^ 8)"
    by (rule inj_fn, rule xor_linear_inj [OF crc8_shift_linear crc8_shift_zero])
  show "crc8_byte c b = crc8_byte d b \<longleftrightarrow> c = d" "crc8_byte c a = crc8_byte c b \<longleftrightarrow> a = b"
    by (auto simp: crc8_byte_def inj_eq [OF i])
qed

lemma crc_foldl_differ:
  assumes turn: "\<And>c d b. f c b = f d b \<longleftrightarrow> c = d" "\<And>c a b. f c a = f c b \<longleftrightarrow> a = b"
    and "i < length data" and "v \<noteq> data ! i"
  shows "foldl f c (data[i := v]) \<noteq> foldl f c data"
proof -
  have inj: "foldl f c xs = foldl f d xs \<longleftrightarrow> c = d" for c d xs
    by (induction xs arbitrary: c d) (simp_all add: turn(1))
  have "data = take i data @ data ! i # drop (Suc i) data"
    using assms(3) by (rule id_take_nth_drop)
  moreover have "data[i := v] = take i data @ v # drop (Suc i) data"
    using assms(3) by (rule upd_conv_take_nth_drop)
  ultimately have "foldl f c (data[i := v]) = foldl f (f (foldl f c (take i data)) v) (drop (Suc i) data)"
    "foldl f c data = foldl f (f (foldl f c (take i data)) (data ! i)) (drop (Suc i) data)"
    by (metis foldl_append foldl_Cons)+
  with assms(4) show ?thesis by (simp add: inj turn(2))
qed

section \<open>Properties\<close>

text \<open>
  C16: The two table-driven checksums are the checksums defined bit by bit: \<open>ulGetCrc32\<close> is the
  reflected CRC-32 of DSP0240 (polynomial 0x04C11DB7, start and final value all ones),
  \<open>ucGetCrc8\<close> the CRC-8 of polynomial 0x07, for every buffer.
\<close>

theorem crc_tables_correct:
  "ulGetCrc32 data = crc32_reference data \<and> ucGetCrc8 data = crc8_reference data"
proof -
  have "crc32_turn = crc32_byte" "crc8_turn = crc8_byte"
    by (rule ext, rule ext, rule crc32_turn) (rule ext, rule ext, rule crc8_turn)
  moreover have "foldl crc32_byte (- 1) data XOR - 1 = NOT (foldl crc32_byte (- 1) data)"
    by simp
  moreover have "(0xFFFFFFFF :: u32) = - 1" by simp
  ultimately show ?thesis
    unfolding ulGetCrc32_def crc32_reference_def ucGetCrc8_def crc8_reference_def by metis
qed

text \<open>
  C17: A change of a single byte of a buffer, whatever its position and its new value, changes
  both checksums, so a receiver that compares them notices it.
\<close>

theorem crc_detects_byte_change:
  assumes "i < length data" and "v \<noteq> data ! i"
  shows "ulGetCrc32 (data[i := v]) \<noteq> ulGetCrc32 data \<and> ucGetCrc8 (data[i := v]) \<noteq> ucGetCrc8 data"
proof -
  have "crc32_turn = crc32_byte" "crc8_turn = crc8_byte"
    by (rule ext, rule ext, rule crc32_turn) (rule ext, rule ext, rule crc8_turn)
  then show ?thesis
    using crc_foldl_differ [of crc32_byte, OF crc32_byte_eq assms] crc_foldl_differ [of crc8_byte, OF crc8_byte_eq assms]
    by (simp add: ulGetCrc32_def ucGetCrc8_def)
qed

lemma crc_detects_byte_change_witness:
  "ulGetCrc32 [1, 5, 3] \<noteq> ulGetCrc32 [1, 2, 3] \<and> ucGetCrc8 [1, 5, 3] \<noteq> ucGetCrc8 [1, 2, 3]"
  using crc_detects_byte_change [of 1 "[1, 2, 3]" 5] by simp

end
