(* ===== verification/PLDM_Commands.thy ===== *)
theory PLDM_Commands
  imports BMC_Repository PLDM_Crc
begin

text \<open>
  The tables of PLDM commands (\<open>pldm_commands.c\<close>): which types, versions and commands are
  supported, the lookup of a command's function and the bit fields that answer the
  discovery commands.  A command list points to the next list of the same type, which is
  null for both lists of the file: the chain of a type is a list of at most one element.
\<close>

datatype PldmFunction =
    fn_SetTID | fn_GetTID | fn_GetPLDMVersion | fn_GetPLDMType | fn_GetPLDMCommand
  | fn_SetNumericSensorEnable | fn_GetSensorReading | fn_GetPDRRepositoryInfo | fn_GetPDR

record PldmCommandList =
  funcList :: "nat \<Rightarrow> PldmFunction option"
  max_command_id :: nat
  version_id :: nat

abbreviation (input) MAX_PLDM_TYPE :: nat where "MAX_PLDM_TYPE \<equiv> 6"
abbreviation (input) POSSIBLE_MAX_PLDM_TYPE :: nat where "POSSIBLE_MAX_PLDM_TYPE \<equiv> 64"
abbreviation (input) POSSIBLE_MAX_PLDM_CMD :: nat where "POSSIBLE_MAX_PLDM_CMD \<equiv> 256"
abbreviation (input) MAX_PLDM_0_COMMAND :: nat where "MAX_PLDM_0_COMMAND \<equiv> 6"
abbreviation (input) MAX_PLDM_2_COMMAND :: nat where "MAX_PLDM_2_COMMAND \<equiv> 0x54"

definition Pldm_Versions :: "u8 list list" where
  "Pldm_Versions = [[0x00, 0xF0, 0xF1, 0xF1], [0x00, 0xF2, 0xF2, 0xF1]]"

definition PldmType0_cmd :: "nat \<Rightarrow> PldmFunction option" where
  "PldmType0_cmd = (\<lambda>_. None)
     (1 := Some fn_SetTID, 2 := Some fn_GetTID, 3 := Some fn_GetPLDMVersion,
      4 := Some fn_GetPLDMType, 5 := Some fn_GetPLDMCommand)"

definition PldmType2_cmd :: "nat \<Rightarrow> PldmFunction option" where
  "PldmType2_cmd = (\<lambda>_. None)
     (0x10 := Some fn_SetNumericSensorEnable, 0x11 := Some fn_GetSensorReading,
      0x50 := Some fn_GetPDRRepositoryInfo, 0x51 := Some fn_GetPDR)"

definition pldm_type_cmd :: "nat \<Rightarrow> PldmCommandList list" where
  "pldm_type_cmd = (\<lambda>_. [])
     (0 := [\<lparr>funcList = PldmType0_cmd, max_command_id = MAX_PLDM_0_COMMAND, version_id = 0\<rparr>],
      2 := [\<lparr>funcList = PldmType2_cmd, max_command_id = MAX_PLDM_2_COMMAND, version_id = 1\<rparr>])"

section \<open>Initialisation\<close>

definition upd_pldm :: "(pldm_data \<Rightarrow> pldm_data) \<Rightarrow> 'w bmc_st \<Rightarrow> 'w bmc_st" where
  "upd_pldm f s = s\<lparr>pldm := f (pldm s)\<rparr>"

definition set_flag :: "nat \<Rightarrow> u8 list \<Rightarrow> u8 list option" where
  "set_flag k bits = do { b \<leftarrow> get8 bits (k div 8); put8 (k div 8) (b OR push_bit (k mod 8) 1) bits }"

text \<open>The array \<open>Pldm_Command_Supported\<close> of the list of a type.\<close>

definition command_flags :: "nat \<Rightarrow> pldm_data \<Rightarrow> u8 list" where
  "command_flags type p = (if type = 0 then type0_Command_Supported p else type2_Command_Supported p)"

definition set_command_flags :: "nat \<Rightarrow> u8 list \<Rightarrow> pldm_data \<Rightarrow> pldm_data" where
  "set_command_flags type bits p =
     (if type = 0 then p\<lparr>type0_Command_Supported := bits\<rparr> else p\<lparr>type2_Command_Supported := bits\<rparr>)"

fun flag_commands :: "PldmCommandList \<Rightarrow> nat list \<Rightarrow> u8 list \<Rightarrow> u8 list option" where
  "flag_commands c [] bits = Some bits"
| "flag_commands c (k # ks) bits = do {
     bits \<leftarrow> (if funcList c k \<noteq> None then set_flag k bits else Some bits);
     flag_commands c ks bits }"

fun init_chain :: "nat \<Rightarrow> PldmCommandList list \<Rightarrow> pldm_data \<Rightarrow> pldm_data option" where
  "init_chain type [] p = Some p"
| "init_chain type (c # cs) p = do {
     bits \<leftarrow> flag_commands c [0..<max_command_id c] (command_flags type p);
     init_chain type cs (set_command_flags type bits p) }"

fun init_types :: "nat list \<Rightarrow> pldm_data \<Rightarrow> pldm_data option" where
  "init_types [] p = Some p"
| "init_types (t # ts) p = do {
     p \<leftarrow> (if pldm_type_cmd t \<noteq> [] then do {
             bits \<leftarrow> set_flag t (Pldm_Type_Supported p);
             init_chain t (pldm_type_cmd t) (p\<lparr>Pldm_Type_Supported := bits\<rparr>) }
           else Some p);
     init_types ts p }"

definition pldm_command_init :: "'w bmc_st \<Rightarrow> 'w bmc_st option" where
  "pldm_command_init s =
     (if PldmInitDone (pldm s) then Some s
      else do {
        s \<leftarrow> vPdrRepoInit s;
        p \<leftarrow> init_types [0..<MAX_PLDM_TYPE] (pldm s);
        Some (s\<lparr>pldm := p\<lparr>PldmInitDone := True\<rparr>\<rparr>) })"

section \<open>Lookups\<close>

definition IsPldmTypeSupported :: "u8 \<Rightarrow> bool" where
  "IsPldmTypeSupported type \<longleftrightarrow> unat type < MAX_PLDM_TYPE \<and> pldm_type_cmd (unat type) \<noteq> []"

abbreviation (input) RESP_PLDM_ERROR_PLDM_CMD_NS :: u8 where "RESP_PLDM_ERROR_PLDM_CMD_NS \<equiv> 0x05"
abbreviation (input) RESP_PLDM_ERROR_PLDM_TYPE_INV :: u8 where "RESP_PLDM_ERROR_PLDM_TYPE_INV \<equiv> 0x20"

text \<open>The first list of the chain that knows the command.\<close>

fun find_func :: "PldmCommandList list \<Rightarrow> nat \<Rightarrow> PldmFunction option" where
  "find_func [] cmd = None"
| "find_func (c # cs) cmd =
     (if \<not> (1 \<le> cmd \<and> cmd < max_command_id c) then find_func cs cmd
      else case funcList c cmd of Some f \<Rightarrow> Some f | None \<Rightarrow> find_func cs cmd)"

definition get_pldm_func :: "u8 \<Rightarrow> u8 \<Rightarrow> u8 \<times> PldmFunction option" where
  "get_pldm_func pldm_type pldm_cmd =
     (if \<not> IsPldmTypeSupported pldm_type then (RESP_PLDM_ERROR_PLDM_TYPE_INV, None)
      else case find_func (pldm_type_cmd (unat pldm_type)) (unat pldm_cmd) of
        Some f \<Rightarrow> (RESP_PLDM_SUCCESS, Some f)
      | None \<Rightarrow> (RESP_PLDM_ERROR_PLDM_CMD_NS, None))"

definition get_pldm_version_id :: "u8 list \<Rightarrow> nat option" where
  "get_pldm_version_id version =
     List.find (\<lambda>id. list_all (\<lambda>i. version ! i = Pldm_Versions ! id ! i) [0..<4]) [0..<length Pldm_Versions]"

definition IsPldmVersionSupported :: "u8 \<Rightarrow> u8 list \<Rightarrow> bool" where
  "IsPldmVersionSupported type ver \<longleftrightarrow>
     IsPldmTypeSupported type \<and>
     (case get_pldm_version_id ver of None \<Rightarrow> False
      | Some v \<Rightarrow> list_ex (\<lambda>c. version_id c = v) (pldm_type_cmd (unat type)))"

section \<open>The answers of the discovery commands\<close>

text \<open>Each writes at offset \<open>q\<close> of the response and yields how many bytes.\<close>

definition getPldmTypeSupport :: "nat \<Rightarrow> 'w bmc_st \<Rightarrow> (nat \<times> 'w bmc_st) option" where
  "getPldmTypeSupport q s = do {
     s \<leftarrow> pldm_command_init s;
     bits \<leftarrow> get_bytes (Pldm_Type_Supported (pldm s)) 0 (POSSIBLE_MAX_PLDM_TYPE div 8);
     s \<leftarrow> resp_bytes q bits s;
     Some (POSSIBLE_MAX_PLDM_TYPE div 8, s) }"

definition getPldmCmdSupport :: "u8 \<Rightarrow> u8 list \<Rightarrow> nat \<Rightarrow> 'w bmc_st \<Rightarrow> (nat \<times> 'w bmc_st) option" where
  "getPldmCmdSupport type ver q s = do {
     s \<leftarrow> pldm_command_init s;
     if \<not> IsPldmTypeSupported type then Some (0, s)
     else (case get_pldm_version_id ver of None \<Rightarrow> Some (0, s)
       | Some v \<Rightarrow>
         (case List.find (\<lambda>c. version_id c = v) (pldm_type_cmd (unat type)) of
            None \<Rightarrow> Some (0, s)
          | Some c \<Rightarrow> do {
              bits \<leftarrow> get_bytes (command_flags (unat type) (pldm s)) 0 (POSSIBLE_MAX_PLDM_CMD div 8);
              s \<leftarrow> resp_bytes q bits s;
              Some (POSSIBLE_MAX_PLDM_CMD div 8, s) })) }"

text \<open>The lists before the start index, and at most \<open>n\<close> versions from there on.\<close>

fun skip_lists :: "nat \<Rightarrow> PldmCommandList list \<Rightarrow> PldmCommandList list option" where
  "skip_lists 0 cs = Some cs"
| "skip_lists (Suc n) [] = None"
| "skip_lists (Suc n) (c # cs) = skip_lists n cs"

fun emit_versions ::
  "nat \<Rightarrow> PldmCommandList list \<Rightarrow> nat \<Rightarrow> nat \<Rightarrow> 'w bmc_st \<Rightarrow> (nat \<times> bool \<times> 'w bmc_st) option" where
  "emit_versions 0 cs q ret_size s = Some (ret_size, cs \<noteq> [], s)"
| "emit_versions (Suc n) [] q ret_size s = Some (ret_size, False, s)"
| "emit_versions (Suc n) (c # cs) q ret_size s = do {
     s \<leftarrow> resp_bytes (q + ret_size) (Pldm_Versions ! version_id c) s;
     emit_versions n cs q (ret_size + 4) s }"

definition getPldmVersionSupport ::
  "u8 \<Rightarrow> nat \<Rightarrow> nat \<Rightarrow> nat \<Rightarrow> 'w bmc_st \<Rightarrow> (nat \<times> bool \<times> 'w bmc_st) option" where
  "getPldmVersionSupport type q start_version num_version s =
     (if \<not> IsPldmTypeSupported type then Some (0, False, s)
      else case skip_lists start_version (pldm_type_cmd (unat type)) of
        None \<Rightarrow> Some (0, False, s)
      | Some cs \<Rightarrow> emit_versions num_version cs q 0 s)"
end
