(* ===== verification/PLDM_Processor.thy ===== *)
theory PLDM_Processor
  imports PLDM_Commands
begin

text \<open>
  The functions of the PLDM commands (\<open>pldm_processor.c\<close>) and the dispatch of a request
  (\<open>pldm_parser.c\<close>).  \<open>PayLoadIn\<close> is offset \<open>p\<close> of the request's buffer \<open>req\<close>, \<open>PayLoadOut\<close>
  offset \<open>q\<close> of the response buffer; each function yields the size of the response.
\<close>

abbreviation (input) PENDING_XFER_INIT_KEY :: u8 where "PENDING_XFER_INIT_KEY \<equiv> 0x93"
abbreviation (input) MAX_PLDM_RESPONSE_SIZE :: nat where "MAX_PLDM_RESPONSE_SIZE \<equiv> 128 - 3"
abbreviation (input) RESP_INVALID_DATA_XFER_HANDLE :: u8 where "RESP_INVALID_DATA_XFER_HANDLE \<equiv> 0x80"
abbreviation (input) RESP_INVALID_XFER_OPERATION_FLAG :: u8 where "RESP_INVALID_XFER_OPERATION_FLAG \<equiv> 0x81"
abbreviation (input) RESP_INVALID_PLDM_TYPE_IN_REQUEST :: u8 where "RESP_INVALID_PLDM_TYPE_IN_REQUEST \<equiv> 0x83"
abbreviation (input) RESP_INVALID_PLDM_VERSION_IN_REQUEST :: u8 where "RESP_INVALID_PLDM_VERSION_IN_REQUEST \<equiv> 0x84"
abbreviation (input) RESP_INVALID_RECORD_HANDLE :: u8 where "RESP_INVALID_RECORD_HANDLE \<equiv> 0x82"
abbreviation (input) RESP_INVALID_RECORD_CHANGE_NUMBER :: u8 where "RESP_INVALID_RECORD_CHANGE_NUMBER \<equiv> 0x83"
abbreviation (input) RESP_REPOSITORY_UPDATE_IN_PROGRESS :: u8 where "RESP_REPOSITORY_UPDATE_IN_PROGRESS \<equiv> 0x85"
abbreviation (input) EGetNextPart :: u8 where "EGetNextPart \<equiv> 0"
abbreviation (input) EGetFirstPart :: u8 where "EGetFirstPart \<equiv> 1"

text \<open>A response of one byte, the completion code.\<close>

definition completion :: "nat \<Rightarrow> u8 \<Rightarrow> 'w bmc_st \<Rightarrow> (nat \<times> 'w bmc_st) option" where
  "completion q code s = do { s \<leftarrow> resp8 q code s; Some (1, s) }"

section \<open>Transfers in several parts\<close>

text \<open>
  A transfer handle is the address of an entry of a static table of \<open>n\<close> entries of two bytes.
  The code dereferences whatever address the request names: an address that is not an entry
  of the table is undefined.
\<close>

definition xfer_entry :: "u32 \<Rightarrow> nat \<Rightarrow> u32 \<Rightarrow> nat option" where
  "xfer_entry base n handle =
     (let d = unat (handle - base) in if even d \<and> d div 2 < n then Some (d div 2) else None)"

definition xfer_handle :: "u32 \<Rightarrow> nat \<Rightarrow> u32" where
  "xfer_handle base i = base + of_nat (2 * i)"

abbreviation (input) VERSION_XFERS :: nat where "VERSION_XFERS \<equiv> 64"
abbreviation (input) PDR_XFERS :: nat where "PDR_XFERS \<equiv> 100"

definition set_version_xfer :: "nat \<Rightarrow> PendingTransfers \<Rightarrow> 'w bmc_st \<Rightarrow> 'w bmc_st" where
  "set_version_xfer i x = upd_pldm (\<lambda>p. p\<lparr>GetVersionPendingXfers := (GetVersionPendingXfers p)(i := x)\<rparr>)"

definition set_pdr_xfer :: "nat \<Rightarrow> PendingTransfers \<Rightarrow> 'w bmc_st \<Rightarrow> 'w bmc_st" where
  "set_pdr_xfer i x = upd_pldm (\<lambda>p. p\<lparr>GetPDRPendingXfers := (GetPDRPendingXfers p)(i := x)\<rparr>)"

text \<open>
  What both transfers do with the pending entry \<open>x\<close> after a part starting at \<open>start\<close>: the
  new entry, whether a handle is handed out, and the flag, given the four flag values.
\<close>

definition next_transfer ::
  "u8 \<times> u8 \<times> u8 \<times> u8 \<Rightarrow> bool \<Rightarrow> u8 \<Rightarrow> nat \<Rightarrow> PendingTransfers \<Rightarrow> PendingTransfers \<times> u8" where
  "next_transfer flags unfinished step start x =
     (let (EStart, EMiddle, EEnd, EStartAndEnd) = flags in
      if unfinished then
        (let x = x\<lparr>next_start := next_start x + step\<rparr> in
         if initialized x \<noteq> PENDING_XFER_INIT_KEY
         then (x\<lparr>initialized := PENDING_XFER_INIT_KEY\<rparr>, EStart) else (x, EMiddle))
      else if initialized x = PENDING_XFER_INIT_KEY \<and> start \<noteq> 0
      then (x\<lparr>initialized := 0, next_start := 0\<rparr>, EEnd)
      else (x, EStartAndEnd))"

section \<open>Type 0: control and discovery\<close>

definition pldm_cmd_SetTID :: "u8 list \<Rightarrow> nat \<Rightarrow> nat \<Rightarrow> 'w bmc_st \<Rightarrow> (nat \<times> 'w bmc_st) option" where
  "pldm_cmd_SetTID req p q s = do {
     tid \<leftarrow> get8 req p;
     let s = upd_pldm (\<lambda>d. d\<lparr>pldm_TID := tid\<rparr>) s;
     s \<leftarrow> resp8 q RESP_PLDM_SUCCESS s;
     s \<leftarrow> update_tid tid s;
     Some (1, s) }"

definition pldm_cmd_GetTID :: "u8 list \<Rightarrow> nat \<Rightarrow> nat \<Rightarrow> 'w bmc_st \<Rightarrow> (nat \<times> 'w bmc_st) option" where
  "pldm_cmd_GetTID req p q s = do {
     s \<leftarrow> resp8 q RESP_PLDM_SUCCESS s;
     s \<leftarrow> resp8 (q + 1) (pldm_TID (pldm s)) s;
     Some (2, s) }"

text \<open>Request: handle, flag (offset 4), type (5).  Response: code, handle (1), flag (5), versions (6).\<close>

definition send_versions :: "'w bmc_env \<Rightarrow> u8 \<Rightarrow> nat \<Rightarrow> nat \<Rightarrow> nat \<Rightarrow> 'w bmc_st \<Rightarrow> (nat \<times> 'w bmc_st) option" where
  "send_versions E type i start_index q s = do {
     (ret, isMoreVersion, s) \<leftarrow> getPldmVersionSupport type (q + 6) start_index 8 s;
     if ret = 0 then completion q RESP_PLDM_ERROR_GENERIC s
     else do {
       s \<leftarrow> resp8 q RESP_PLDM_SUCCESS s;
       let (x, flag) = next_transfer (1, 2, 4, 5) isMoreVersion 8 start_index (GetVersionPendingXfers (pldm s) i);
       s \<leftarrow> resp32 (q + 1) (if isMoreVersion then xfer_handle (version_xfers_base E) i else 0) s;
       s \<leftarrow> resp8 (q + 5) flag (set_version_xfer i x s);
       versions \<leftarrow> get_bytes (RespBuffer s) (q + 6) ret;
       s \<leftarrow> resp32 (q + 6 + ret) (ulGetCrc32 versions) s;
       Some (6 + ret + 4, s) } }"

definition pldm_cmd_GetPLDMVersion ::
  "'w bmc_env \<Rightarrow> u8 list \<Rightarrow> nat \<Rightarrow> nat \<Rightarrow> 'w bmc_st \<Rightarrow> (nat \<times> 'w bmc_st) option" where
  "pldm_cmd_GetPLDMVersion E req p q s = do {
     type \<leftarrow> get8 req (p + 5);
     if \<not> IsPldmTypeSupported type then completion q RESP_INVALID_PLDM_TYPE_IN_REQUEST s
     else do {
       OperationFlag \<leftarrow> get8 req (p + 4);
       if OperationFlag = EGetNextPart then do {
         TransferHandle \<leftarrow> get32 req p;
         if TransferHandle = 0 then completion q RESP_INVALID_DATA_XFER_HANDLE s
         else do {
           i \<leftarrow> xfer_entry (version_xfers_base E) VERSION_XFERS TransferHandle;
           let x = GetVersionPendingXfers (pldm s) i;
           if initialized x \<noteq> PENDING_XFER_INIT_KEY then completion q RESP_INVALID_DATA_XFER_HANDLE s
           else send_versions E type i (unat (next_start x)) q s } }
       else if OperationFlag = EGetFirstPart
       then send_versions E type (unat type) 0 q (set_version_xfer (unat type) \<lparr>initialized = 0, next_start = 0\<rparr> s)
       else completion q RESP_INVALID_XFER_OPERATION_FLAG s } }"

definition pldm_cmd_GetPLDMType :: "u8 list \<Rightarrow> nat \<Rightarrow> nat \<Rightarrow> 'w bmc_st \<Rightarrow> (nat \<times> 'w bmc_st) option" where
  "pldm_cmd_GetPLDMType req p q s = do {
     (ret, s) \<leftarrow> getPldmTypeSupport (q + 1) s;
     if ret \<noteq> 0 then do { s \<leftarrow> resp8 q RESP_PLDM_SUCCESS s; Some (1 + ret, s) }
     else completion q RESP_PLDM_ERROR_GENERIC s }"

definition pldm_cmd_GetPLDMCommand :: "u8 list \<Rightarrow> nat \<Rightarrow> nat \<Rightarrow> 'w bmc_st \<Rightarrow> (nat \<times> 'w bmc_st) option" where
  "pldm_cmd_GetPLDMCommand req p q s = do {
     type \<leftarrow> get8 req p;
     if \<not> IsPldmTypeSupported type then completion q RESP_INVALID_PLDM_TYPE_IN_REQUEST s
     else do {
       version \<leftarrow> get_bytes req (p + 1) 4;
       if \<not> IsPldmVersionSupported type version then completion q RESP_INVALID_PLDM_VERSION_IN_REQUEST s
       else do {
         (ret, s) \<leftarrow> getPldmCmdSupport type version (q + 1) s;
         if ret \<noteq> 0 then do { s \<leftarrow> resp8 q RESP_PLDM_SUCCESS s; Some (1 + ret, s) }
         else completion q RESP_PLDM_ERROR_GENERIC s } } }"

section \<open>Type 2: sensors and descriptor records\<close>

text \<open>Request: sensor, operational state (2), event messages (3).\<close>

definition pldm_cmd_SetNumericSensorEnable ::
  "'w bmc_env \<Rightarrow> u8 list \<Rightarrow> nat \<Rightarrow> nat \<Rightarrow> 'w bmc_st \<Rightarrow> (nat \<times> 'w bmc_st) option" where
  "pldm_cmd_SetNumericSensorEnable E req p q s = do {
     state \<leftarrow> get8 req (p + 2);
     if state \<noteq> eSensorOpStateEnabled \<and> state \<noteq> eSensorOpStateDisabled \<and> state \<noteq> eSensorOpStateUnavailable
     then completion q RESP_INVALID_SENSOR_OPERATIONAL_STATE s
     else do {
       messages \<leftarrow> get8 req (p + 3);
       if messages \<noteq> eSensorNoEventGeneration then completion q RESP_EVENT_GENERATION_NOT_SUPPORTED s
       else do {
         sensorID \<leftarrow> get16 req p;
         (st, n, s) \<leftarrow> iSetNumericSensorEnable E sensorID state q 0 s;
         Some (n, s) } } }"

text \<open>
  Request: sensor, rearm (2).  Response: code, data size (1), state (2), events (3), present (4),
  previous (5) and event state (6), reading (7).  An operational state or a reading that was
  never written is an indeterminate value.
\<close>

definition pldm_cmd_GetSensorReading ::
  "'w bmc_env \<Rightarrow> u8 list \<Rightarrow> nat \<Rightarrow> nat \<Rightarrow> 'w bmc_st \<Rightarrow> (nat \<times> 'w bmc_st) option" where
  "pldm_cmd_GetSensorReading E req p q s = do {
     sensorID \<leftarrow> get16 req p;
     (st, code, state, reading, s) \<leftarrow> iGetNumericSensorReading E sensorID s;
     if st \<noteq> OK then completion q RESP_INVALID_SENSOR_ID s
     else do {
       c \<leftarrow> code;
       if c = RESP_INVALID_SENSOR_ID then completion q c s
       else do {
         rearm \<leftarrow> get8 req (p + 2);
         if rearm \<noteq> 0 then completion q RESP_REARM_UNAVAILABLE_IN_PRESENT_STATE s
         else do {
           s \<leftarrow> resp8 q RESP_PLDM_SUCCESS s;
           s \<leftarrow> resp8 (q + 1) 3 s;
           state \<leftarrow> state;
           s \<leftarrow> resp8 (q + 2) state s;
           s \<leftarrow> resp8 (q + 3) eSensorNoEventGeneration s;
           if state \<noteq> eSensorOpStateEnabled then do {
             s \<leftarrow> resp_bytes (q + 4) [0, 0, 0] s;
             s \<leftarrow> resp16 (q + 7) 0 s;
             Some (9, s) }
           else do {
             s \<leftarrow> resp_bytes (q + 4) [1, 0, 1] s;
             reading \<leftarrow> reading;
             s \<leftarrow> resp16 (q + 7) reading s;
             Some (9, s) } } } } }"

text \<open>
  Response: code, state (1), the two time stamps (2, 15), the counts and sizes (28, 32, 36), the
  timeout (40).
\<close>

definition pldm_cmd_GetPDRRepositoryInfo :: "u8 list \<Rightarrow> nat \<Rightarrow> nat \<Rightarrow> 'w bmc_st \<Rightarrow> (nat \<times> 'w bmc_st) option" where
  "pldm_cmd_GetPDRRepositoryInfo req p q s = do {
     (repo_info, s) \<leftarrow> getPDRRepository s;
     s \<leftarrow> resp8 q RESP_PLDM_SUCCESS s;
     s \<leftarrow> resp8 (q + 1) (repo_state_code (repositoryState repo_info)) s;
     s \<leftarrow> resp_bytes (q + 2) (timestamp_bytes (updateTimestamp repo_info)) s;
     s \<leftarrow> resp_bytes (q + 15) (timestamp_bytes (OEMUpdateTimestamp repo_info)) s;
     s \<leftarrow> resp32 (q + 28) (recordCount repo_info) s;
     s \<leftarrow> resp32 (q + 32) (repositorySize repo_info) s;
     s \<leftarrow> resp32 (q + 36) (largestRecordSize repo_info) s;
     s \<leftarrow> resp8 (q + 40) (dataTransferHandleTimeout repo_info) s;
     Some (41, s) }"

text \<open>
  Request: record, handle (4), flag (8), count (9), change number (11).  Response: code, next
  record (1), next handle (5), flag (9), count (10), data (12).

  \<open>send_pdr\<close> is what follows the checks: entry \<open>i\<close> is pending, the part starts at \<open>start_index\<close>.
\<close>

definition send_pdr ::
  "'w bmc_env \<Rightarrow> u32 \<Rightarrow> u32 \<Rightarrow> u8 list \<Rightarrow> u16 \<Rightarrow> nat \<Rightarrow> nat \<Rightarrow> nat \<Rightarrow> 'w bmc_st \<Rightarrow> (nat \<times> 'w bmc_st) option" where
  "send_pdr E record_handle count data requestCount i start_index q s = do {
     let max_data_len = min (unat requestCount) (MAX_PLDM_RESPONSE_SIZE - 12);
     dataLength \<leftarrow> get16 data DATA_LENGTH_OFFSET;
     let pdr_size = unat dataLength + sizeof_CommonPDRFormat;
     s \<leftarrow> resp8 q RESP_PLDM_SUCCESS s;
     s \<leftarrow> resp32 (q + 1) ((record_handle + 1) mod count) s;
     let left = unat (of_int (int pdr_size - int start_index) :: u16);
     let unfinished = max_data_len < left;
     let responseCount = (if unfinished then max_data_len else left);
     let (x, flag) = next_transfer (0, 1, 4, 5) unfinished (of_nat max_data_len) start_index (GetPDRPendingXfers (pldm s) i);
     s \<leftarrow> resp32 (q + 5) (if unfinished then xfer_handle (pdr_xfers_base E) i else 0) (set_pdr_xfer i x s);
     s \<leftarrow> resp8 (q + 9) flag s;
     s \<leftarrow> resp16 (q + 10) (of_nat responseCount) s;
     part \<leftarrow> get_bytes data start_index responseCount;
     s \<leftarrow> resp_bytes (q + 12) part s;
     if flag = 4 then do {
       rec \<leftarrow> get_bytes data 0 pdr_size;
       s \<leftarrow> resp8 (q + 12 + responseCount) (ucGetCrc8 rec) s;
       Some (12 + responseCount + 1, s) }
     else Some (12 + responseCount, s) }"

definition pldm_cmd_GetPDR ::
  "'w bmc_env \<Rightarrow> u8 list \<Rightarrow> nat \<Rightarrow> nat \<Rightarrow> 'w bmc_st \<Rightarrow> (nat \<times> 'w bmc_st) option" where
  "pldm_cmd_GetPDR E req p q s = do {
     (repo_info, s) \<leftarrow> getPDRRepository s;
     record_handle \<leftarrow> get32 req p;
     if repositoryState repo_info = ERepoStateUpdateInprogress
     then completion q RESP_REPOSITORY_UPDATE_IN_PROGRESS s
     else if recordCount repo_info \<le> record_handle then completion q RESP_INVALID_RECORD_HANDLE s
     else do {
       r \<leftarrow> arr_get TOTAL_PDR_COUNT (PDRRecords repo_info) (unat record_handle);
       r \<leftarrow> r;
       data \<leftarrow> pdr_get r s;
       OperationFlag \<leftarrow> get8 req (p + 8);
       requestCount \<leftarrow> get16 req (p + 9);
       if OperationFlag = EGetNextPart then do {
         dataTransferHandle \<leftarrow> get32 req (p + 4);
         if dataTransferHandle = 0 then completion q RESP_INVALID_DATA_XFER_HANDLE s
         else do {
           i \<leftarrow> xfer_entry (pdr_xfers_base E) PDR_XFERS dataTransferHandle;
           let x = GetPDRPendingXfers (pldm s) i;
           if initialized x \<noteq> PENDING_XFER_INIT_KEY then completion q RESP_INVALID_DATA_XFER_HANDLE s
           else do {
             recordChangeNumber \<leftarrow> get16 req (p + 11);
             current \<leftarrow> get16 data CHANGE_NUMBER_OFFSET;
             if recordChangeNumber \<noteq> current then completion q RESP_INVALID_RECORD_CHANGE_NUMBER s
             else send_pdr E record_handle (recordCount repo_info) data requestCount i (unat (next_start x)) q s } } }
       else if OperationFlag = EGetFirstPart then do {
         _ \<leftarrow> arr_get PDR_XFERS (GetPDRPendingXfers (pldm s)) (unat record_handle);
         send_pdr E record_handle (recordCount repo_info) data requestCount (unat record_handle) 0 q
           (set_pdr_xfer (unat record_handle) \<lparr>initialized = 0, next_start = 0\<rparr> s) }
       else completion q RESP_INVALID_XFER_OPERATION_FLAG s } }"

section \<open>The dispatch of a request\<close>

definition call_pldm ::
  "'w bmc_env \<Rightarrow> PldmFunction \<Rightarrow> u8 list \<Rightarrow> nat \<Rightarrow> nat \<Rightarrow> 'w bmc_st \<Rightarrow> (nat \<times> 'w bmc_st) option" where
  "call_pldm E f req p q s =
     (case f of fn_SetTID \<Rightarrow> pldm_cmd_SetTID req p q s
      | fn_GetTID \<Rightarrow> pldm_cmd_GetTID req p q s
      | fn_GetPLDMVersion \<Rightarrow> pldm_cmd_GetPLDMVersion E req p q s
      | fn_GetPLDMType \<Rightarrow> pldm_cmd_GetPLDMType req p q s
      | fn_GetPLDMCommand \<Rightarrow> pldm_cmd_GetPLDMCommand req p q s
      | fn_SetNumericSensorEnable \<Rightarrow> pldm_cmd_SetNumericSensorEnable E req p q s
      | fn_GetSensorReading \<Rightarrow> pldm_cmd_GetSensorReading E req p q s
      | fn_GetPDRRepositoryInfo \<Rightarrow> pldm_cmd_GetPDRRepositoryInfo req p q s
      | fn_GetPDR \<Rightarrow> pldm_cmd_GetPDR E req p q s)"

definition clear_pldm_packet :: "nat \<Rightarrow> u8 list \<Rightarrow> u8 list option" where
  "clear_pldm_packet i buf = put_bytes i (replicate (3 + 128) 0) buf"

definition init_pldm_response :: "u8 list \<Rightarrow> nat \<Rightarrow> nat \<Rightarrow> 'w bmc_st \<Rightarrow> 'w bmc_st option" where
  "init_pldm_response req p q s = do {
     b \<leftarrow> get8 req p;
     s \<leftarrow> resp8 q (b AND NOT (0x80 OR 0x40)) s;
     b \<leftarrow> get8 req (p + 1);
     s \<leftarrow> resp8 (q + 1) b s;
     b \<leftarrow> get8 req (p + 2);
     resp8 (q + 2) b s }"

definition process_pldm_request ::
  "'w bmc_env \<Rightarrow> u8 list \<Rightarrow> nat \<Rightarrow> nat \<Rightarrow> bool \<Rightarrow> 'w bmc_st \<Rightarrow> (nat \<times> 'w bmc_st) option" where
  "process_pldm_request E req p q is_request s = do {
     s \<leftarrow> (if is_request then init_pldm_response req p q s else Some s);
     hdr_pldm_type \<leftarrow> get8 req (p + 1);
     cmd \<leftarrow> get8 req (p + 2);
     let (ret, processor) = get_pldm_func (hdr_pldm_type AND 7) cmd;
     if ret \<noteq> 0 then do { s \<leftarrow> resp8 (q + 3) ret s; Some (3 + 1, s) }
     else do {
       f \<leftarrow> processor;
       (n, s) \<leftarrow> call_pldm E f req (p + 3) (q + 3) s;
       Some (3 + n, s) } }"
end
