(* ===== verification/MCTP.thy ===== *)
theory MCTP
  imports PLDM_Processor
begin

text \<open>
  MCTP: the control commands (\<open>mctp_commands.c\<close>, \<open>mctp_parser.c\<close>), the assembly of requests
  sent in several packets and the disassembly of responses (\<open>mctp_interpreter.c\<close>).  A packet is
  at offset 0 of its buffer: destination and source address (0, 2), byte count (1), header
  version (3), destination and source endpoint (4, 5), the flags (6: tag in bits 0-2, \<open>to\<close> 3,
  sequence number 4-5, \<open>eom\<close> 6, \<open>som\<close> 7), message type (7) and message (8).
\<close>

abbreviation (input) MCTP_HEADER :: nat where "MCTP_HEADER \<equiv> 7"
abbreviation (input) MCTP_MAX_PAYLOAD_SIZE :: nat where "MCTP_MAX_PAYLOAD_SIZE \<equiv> 64"
abbreviation (input) MCTP_MESSAGE_DELAY_MS :: u32 where "MCTP_MESSAGE_DELAY_MS \<equiv> 10"
abbreviation (input) sizeof_mctp_message :: nat where "sizeof_mctp_message \<equiv> 8"
abbreviation (input) MCTP_MSG_MCTP_CONTROL :: u8 where "MCTP_MSG_MCTP_CONTROL \<equiv> 0"
abbreviation (input) MCTP_MSG_MCTP_PLDM :: u8 where "MCTP_MSG_MCTP_PLDM \<equiv> 1"

section \<open>The flags byte\<close>

definition flag_tag :: "u8 \<Rightarrow> u8" where "flag_tag b = b AND 0x07"
definition flag_seq :: "u8 \<Rightarrow> u8" where "flag_seq b = drop_bit 4 b AND 0x03"
definition flag_eom :: "u8 \<Rightarrow> bool" where "flag_eom b = bit b 6"
definition flag_som :: "u8 \<Rightarrow> bool" where "flag_som b = bit b 7"

definition set_tag :: "u8 \<Rightarrow> u8 \<Rightarrow> u8" where "set_tag v b = (b AND NOT 0x07) OR (v AND 0x07)"
definition set_seq :: "u8 \<Rightarrow> u8 \<Rightarrow> u8" where "set_seq v b = (b AND NOT 0x30) OR push_bit 4 (v AND 0x03)"
definition set_eom :: "bool \<Rightarrow> u8 \<Rightarrow> u8" where "set_eom v b = (if v then b OR 0x40 else b AND NOT 0x40)"
definition set_som :: "bool \<Rightarrow> u8 \<Rightarrow> u8" where "set_som v b = (if v then b OR 0x80 else b AND NOT 0x80)"

section \<open>Control commands\<close>

definition upd_mctp :: "(mctp_data \<Rightarrow> mctp_data) \<Rightarrow> 'w bmc_st \<Rightarrow> 'w bmc_st" where
  "upd_mctp f s = s\<lparr>mctp := f (mctp s)\<rparr>"

abbreviation (input) RESP_MCTP_CTRL_MSG_SUCCESS :: u8 where "RESP_MCTP_CTRL_MSG_SUCCESS \<equiv> 0"
abbreviation (input) RESP_MCTP_CTRL_MSG_ERROR_INVALID_DATA :: u8 where "RESP_MCTP_CTRL_MSG_ERROR_INVALID_DATA \<equiv> 2"
abbreviation (input) RESP_MCTP_CTRL_MSG_ERROR_MCTP_CMD_NS :: u8 where "RESP_MCTP_CTRL_MSG_ERROR_MCTP_CMD_NS \<equiv> 5"
abbreviation (input) RESP_MCTP_CTRL_MSG_TYPE_UNSUPPORTED :: u8 where "RESP_MCTP_CTRL_MSG_TYPE_UNSUPPORTED \<equiv> 0x80"

datatype mctpFunction = fn_SetEID | fn_GetEID | fn_GetUUID | fn_GetMCTPVersion | fn_GetMCTPMsgType

abbreviation (input) MAX_MCTP_CTRL_COMMAND :: nat where "MAX_MCTP_CTRL_COMMAND \<equiv> 10"

definition mctp_func :: "nat \<Rightarrow> mctpFunction option" where
  "mctp_func = (\<lambda>_. None)
     (1 := Some fn_SetEID, 2 := Some fn_GetEID, 3 := Some fn_GetUUID, 4 := Some fn_GetMCTPVersion,
      5 := Some fn_GetMCTPMsgType)"

text \<open>The table is indexed with the command byte as it comes: outside its ten entries the read is undefined.\<close>

definition get_mctp_func :: "u8 \<Rightarrow> (u8 \<times> mctpFunction option) option" where
  "get_mctp_func mctp_cmd = do {
     f \<leftarrow> arr_get MAX_MCTP_CTRL_COMMAND mctp_func (unat mctp_cmd);
     Some (case f of Some g \<Rightarrow> (RESP_MCTP_CTRL_MSG_SUCCESS, Some g)
       | None \<Rightarrow> (RESP_MCTP_CTRL_MSG_ERROR_MCTP_CMD_NS, None)) }"

text \<open>
  The answers to Set Endpoint ID: completion code, the status byte, which is or-ed into the byte
  already in the response buffer, the setting and the pool size.
\<close>

definition eid_answer :: "nat \<Rightarrow> u8 \<Rightarrow> u8 \<Rightarrow> 'w bmc_st \<Rightarrow> (nat \<times> 'w bmc_st) option" where
  "eid_answer q status eid s = do {
     s \<leftarrow> resp8 q RESP_MCTP_CTRL_MSG_SUCCESS s;
     old \<leftarrow> get8 (RespBuffer s) (q + 1);
     s \<leftarrow> resp8 (q + 1) (old OR push_bit 4 status) s;
     s \<leftarrow> resp8 (q + 2) eid s;
     s \<leftarrow> resp8 (q + 3) 0 s;
     Some (4, s) }"

definition eid_invalid :: "nat \<Rightarrow> 'w bmc_st \<Rightarrow> (nat \<times> 'w bmc_st) option" where
  "eid_invalid q s = do { s \<leftarrow> resp8 q RESP_MCTP_CTRL_MSG_ERROR_INVALID_DATA s; Some (4, s) }"

definition mctp_cmd_SetEID :: "u8 list \<Rightarrow> nat \<Rightarrow> nat \<Rightarrow> 'w bmc_st \<Rightarrow> (nat \<times> 'w bmc_st) option" where
  "mctp_cmd_SetEID req p q s = do {
     endPointId \<leftarrow> get8 req (p + 1);
     if endPointId \<noteq> 0x00 \<and> endPointId \<noteq> 0xFF then do {
       operation \<leftarrow> get8 req p;
       if operation = 0 then
         (if eidSetFlag (mctp s) = 0
          then do {
            (n, s) \<leftarrow> eid_answer q 0 endPointId (upd_mctp (\<lambda>d. d\<lparr>mctp_EID := ucast endPointId\<rparr>) s);
            Some (n, upd_mctp (\<lambda>d. d\<lparr>eidSetFlag := 1\<rparr>) s) }
          else eid_answer q 1 endPointId s)
       else if operation = 1
       then eid_answer q 0 endPointId (upd_mctp (\<lambda>d. d\<lparr>mctp_EID := ucast endPointId\<rparr>) s)
       else if operation = 2 \<or> operation = 3 then eid_invalid q s
       else Some (0, s) }
     else eid_invalid q s }"

definition mctp_cmd_GetEID :: "u8 list \<Rightarrow> nat \<Rightarrow> nat \<Rightarrow> 'w bmc_st \<Rightarrow> (nat \<times> 'w bmc_st) option" where
  "mctp_cmd_GetEID req p q s = do {
     s \<leftarrow> resp8 q RESP_MCTP_CTRL_MSG_SUCCESS s;
     s \<leftarrow> resp8 (q + 1) (if eidSetFlag (mctp s) = 0 then 0 else ucast (mctp_EID (mctp s))) s;
     s \<leftarrow> resp8 (q + 2) 1 s;
     s \<leftarrow> resp8 (q + 3) 0 s;
     Some (4, s) }"

definition mctp_cmd_GetUUID :: "u8 list \<Rightarrow> nat \<Rightarrow> nat \<Rightarrow> 'w bmc_st \<Rightarrow> (nat \<times> 'w bmc_st) option" where
  "mctp_cmd_GetUUID req p q s = do {
     s \<leftarrow> resp8 q RESP_MCTP_CTRL_MSG_SUCCESS s;
     (n, s) \<leftarrow> iGetUuid (q + 1) s;
     Some (1 + n, s) }"

definition BYTE_SWAP32 :: "u32 \<Rightarrow> u32" where
  "BYTE_SWAP32 val = drop_bit 24 (val AND 0xff000000) OR drop_bit 8 (val AND 0x00ff0000) OR
     push_bit 8 (val AND 0x0000ff00) OR push_bit 24 (val AND 0x000000ff)"

text \<open>
  The completion code is tested before it is written, unless the type is not supported: what the
  response buffer holds decides.
\<close>

definition mctp_cmd_GetMCTPVersion :: "u8 list \<Rightarrow> nat \<Rightarrow> nat \<Rightarrow> 'w bmc_st \<Rightarrow> (nat \<times> 'w bmc_st) option" where
  "mctp_cmd_GetMCTPVersion req p q s = do {
     msg_type_num \<leftarrow> get8 req p;
     (count, s) \<leftarrow>
       (if msg_type_num = 0xFF \<or> msg_type_num = 0x00 then do {
          s \<leftarrow> resp32 (q + 2) (BYTE_SWAP32 0xf1f3f100) s;
          s \<leftarrow> resp8 (q + 1) 1 s;
          Some (1, s) }
        else if msg_type_num = 0x01 then do {
          s \<leftarrow> resp32 (q + 2) (BYTE_SWAP32 0xf1f0f000) s;
          s \<leftarrow> resp8 (q + 1) 1 s;
          Some (1, s) }
        else do {
          s \<leftarrow> resp8 q RESP_MCTP_CTRL_MSG_TYPE_UNSUPPORTED s;
          Some (0, s) });
     completion_code \<leftarrow> get8 (RespBuffer s) q;
     if completion_code \<noteq> 0 then Some (1, s)
     else do {
       s \<leftarrow> resp8 q 0 s;
       Some (4 * count + 2, s) } }"

definition mctpSupportedMsgTypes :: "u8 list" where
  "mctpSupportedMsgTypes = [0, 1]"

definition mctp_cmd_GetMCTPMsgType :: "u8 list \<Rightarrow> nat \<Rightarrow> nat \<Rightarrow> 'w bmc_st \<Rightarrow> (nat \<times> 'w bmc_st) option" where
  "mctp_cmd_GetMCTPMsgType req p q s = do {
     s \<leftarrow> resp8 q RESP_MCTP_CTRL_MSG_SUCCESS s;
     s \<leftarrow> resp8 (q + 1) (of_nat (length mctpSupportedMsgTypes)) s;
     s \<leftarrow> resp_bytes (q + 2) mctpSupportedMsgTypes s;
     Some (2 + length mctpSupportedMsgTypes, s) }"

definition call_mctp :: "mctpFunction \<Rightarrow> u8 list \<Rightarrow> nat \<Rightarrow> nat \<Rightarrow> 'w bmc_st \<Rightarrow> (nat \<times> 'w bmc_st) option" where
  "call_mctp f req p q s =
     (case f of fn_SetEID \<Rightarrow> mctp_cmd_SetEID req p q s
      | fn_GetEID \<Rightarrow> mctp_cmd_GetEID req p q s
      | fn_GetUUID \<Rightarrow> mctp_cmd_GetUUID req p q s
      | fn_GetMCTPVersion \<Rightarrow> mctp_cmd_GetMCTPVersion req p q s
      | fn_GetMCTPMsgType \<Rightarrow> mctp_cmd_GetMCTPMsgType req p q s)"

text \<open>The packet's first byte: instance id in bits 0-4, reserved bit 5, \<open>d\<close> 6, \<open>rq\<close> 7.\<close>

definition init_mctp_response :: "u8 list \<Rightarrow> nat \<Rightarrow> nat \<Rightarrow> 'w bmc_st \<Rightarrow> 'w bmc_st option" where
  "init_mctp_response req p q s = do {
     b \<leftarrow> get8 req p;
     old \<leftarrow> get8 (RespBuffer s) q;
     s \<leftarrow> resp8 q ((old AND 0x20) OR (b AND 0x1F)) s;
     cmd \<leftarrow> get8 req (p + 1);
     resp8 (q + 1) cmd s }"

definition process_mctp_request ::
  "u8 list \<Rightarrow> nat \<Rightarrow> nat \<Rightarrow> bool \<Rightarrow> 'w bmc_st \<Rightarrow> (nat \<times> 'w bmc_st) option" where
  "process_mctp_request req p q is_request s = do {
     s \<leftarrow> (if is_request then init_mctp_response req p q s else Some s);
     cmd \<leftarrow> get8 req (p + 1);
     (ret, processor) \<leftarrow> get_mctp_func cmd;
     if ret \<noteq> 0 then do { s \<leftarrow> resp8 (q + 2) ret s; Some (3, s) }
     else (case processor of
         Some f \<Rightarrow> do { (n, s) \<leftarrow> call_mctp f req (p + 2) (q + 2) s; Some (2 + n, s) }
       | None \<Rightarrow> Some (2, s)) }"

section \<open>A complete request\<close>

text \<open>The size of the response's payload, which starts with the message type.\<close>

definition process_request :: "'w bmc_env \<Rightarrow> u8 list \<Rightarrow> 'w bmc_st \<Rightarrow> (nat \<times> 'w bmc_st) option" where
  "process_request E req s = do {
     b \<leftarrow> get8 req 8;
     let s = upd_mctp (\<lambda>d. d\<lparr>request_pkt := bit b 7\<rparr>) s;
     msg_type \<leftarrow> get8 req 7;
     (payload_size, s) \<leftarrow>
       (if msg_type = MCTP_MSG_MCTP_CONTROL then do {
          s \<leftarrow> resp8 7 MCTP_MSG_MCTP_CONTROL s;
          process_mctp_request req 8 8 (bit b 7) s }
        else if msg_type = MCTP_MSG_MCTP_PLDM then do {
          s \<leftarrow> resp8 7 MCTP_MSG_MCTP_PLDM s;
          process_pldm_request E req 8 8 (bit b 7) s }
        else Some (0, s));
     Some (payload_size + 1, s) }"

section \<open>Assembling a request\<close>

text \<open>
  What becomes of a packet that passed the checks: it is kept or dropped (\<open>None\<close>), or it
  completes a request, whose response then has a payload of the given size.
\<close>

definition reset_staging :: "'w bmc_st \<Rightarrow> 'w bmc_st" where
  "reset_staging = upd_mctp (\<lambda>d. d\<lparr>multiPartReqBuffer := replicate MAX_MULTIPART_BUFFER_SIZE 0x30,
     staging_buff_size := 0, prv_seq_num := 0\<rparr>)"

text \<open>The payload of a later packet goes behind what is staged.\<close>

definition stage_payload :: "u8 \<Rightarrow> 'w bmc_st \<Rightarrow> 'w bmc_st option" where
  "stage_payload byte_count s = do {
     let n = unat byte_count - MCTP_HEADER;
     part \<leftarrow> get_bytes (ReqBuffer s) MCTP_HEADER n;
     buf \<leftarrow> put_bytes (unat (staging_buff_size (mctp s))) part (multiPartReqBuffer (mctp s));
     Some (upd_mctp (\<lambda>d. d\<lparr>multiPartReqBuffer := buf, staging_buff_size := staging_buff_size d + of_nat n\<rparr>) s) }"

definition stage_first :: "u8 \<Rightarrow> u8 \<Rightarrow> 'w bmc_st \<Rightarrow> 'w bmc_st option" where
  "stage_first byte_count seq_num s =
     (let blank = replicate MAX_MULTIPART_BUFFER_SIZE 0x30 in
      if staging_buff_size (mctp s) = 0 then do {
        packet \<leftarrow> get_bytes (ReqBuffer s) 0 (unat byte_count);
        buf \<leftarrow> put_bytes 0 packet blank;
        Some (upd_mctp (\<lambda>d. d\<lparr>multiPartReqBuffer := buf, staging_buff_size := ucast byte_count,
                              prv_seq_num := seq_num\<rparr>) s) }
      else Some (reset_staging s))"

definition assemble :: "'w bmc_env \<Rightarrow> u8 \<Rightarrow> u8 \<Rightarrow> 'w bmc_st \<Rightarrow> (nat option \<times> 'w bmc_st) option" where
  "assemble E flags byte_count s =
     (let seq_num = flag_seq flags;
          expected = (prv_seq_num (mctp s) + 1) mod 4 in
      if flag_som flags then
        (if flag_eom flags then do {
           (n, s) \<leftarrow> process_request E (ReqBuffer s) s;
           Some (Some n, s) }
         else do { s \<leftarrow> stage_first byte_count seq_num s; Some (None, s) })
      else if expected \<noteq> seq_num then Some (None, reset_staging s)
      else do {
        s \<leftarrow> stage_payload byte_count s;
        if flag_eom flags then do {
          (n, s) \<leftarrow> process_request E (multiPartReqBuffer (mctp s)) s;
          Some (Some n, upd_mctp (\<lambda>d. d\<lparr>staging_buff_size := 0, prv_seq_num := 0\<rparr>) s) }
        else Some (None, upd_mctp (\<lambda>d. d\<lparr>prv_seq_num := seq_num\<rparr>) s) })"

section \<open>Disassembling a response\<close>

text \<open>\<open>iResponseDataWrite\<close> on the response buffer; whether all was written.\<close>

definition iResponseDataWrite :: "'w bmc_env \<Rightarrow> nat \<Rightarrow> 'w bmc_st \<Rightarrow> (bool \<times> 'w bmc_st) option" where
  "iResponseDataWrite E usDataSize s =
     (if bmc_ready s then do {
        addr \<leftarrow> get8 (RespBuffer s) 0;
        data \<leftarrow> get_bytes (RespBuffer s) 2 (usDataSize - 2);
        let (ok, w) = fw_if_write E addr data (outside s);
        Some (ok, s\<lparr>outside := w\<rparr>) }
      else Some (False, s))"

text \<open>One packet of \<open>pkt_size\<close> payload bytes; then what prepares the next packet.\<close>

definition send_packet :: "'w bmc_env \<Rightarrow> nat \<Rightarrow> bool \<Rightarrow> 'w bmc_st \<Rightarrow> (bool \<times> 'w bmc_st) option" where
  "send_packet E pkt_size is_last s = do {
     flags \<leftarrow> get8 (RespBuffer s) 6;
     s \<leftarrow> resp8 6 (set_eom is_last flags) s;
     src \<leftarrow> get8 (ReqBuffer s) 2;
     s \<leftarrow> resp8 0 (drop_bit 1 (src AND NOT 1)) s;
     s \<leftarrow> resp8 1 (of_nat (MCTP_HEADER + pkt_size - 2)) s;
     iResponseDataWrite E (MCTP_HEADER + pkt_size) s }"

definition next_packet :: "'w bmc_env \<Rightarrow> u8 \<Rightarrow> nat \<Rightarrow> 'w bmc_st \<Rightarrow> 'w bmc_st option" where
  "next_packet E saved_byte payload_size s = do {
     let s = s\<lparr>outside := sleep_ms E MCTP_MESSAGE_DELAY_MS (outside s)\<rparr>;
     s \<leftarrow> resp8 (MCTP_HEADER + MCTP_MAX_PAYLOAD_SIZE) saved_byte s;
     flags \<leftarrow> get8 (RespBuffer s) 6;
     s \<leftarrow> resp8 6 (set_som False (set_seq (flag_seq flags + 1) flags)) s;
     rest \<leftarrow> get_bytes (RespBuffer s) (MCTP_HEADER + MCTP_MAX_PAYLOAD_SIZE) payload_size;
     resp_bytes MCTP_HEADER rest s }"

function send_packets :: "'w bmc_env \<Rightarrow> nat \<Rightarrow> 'w bmc_st \<Rightarrow> 'w bmc_st option" where
  "send_packets E payload_size s =
     (if payload_size = 0 then Some s
      else if MCTP_MAX_PAYLOAD_SIZE < payload_size then do {
        saved_byte \<leftarrow> get8 (RespBuffer s) (MCTP_HEADER + MCTP_MAX_PAYLOAD_SIZE);
        (sent, s) \<leftarrow> send_packet E MCTP_MAX_PAYLOAD_SIZE False s;
        if \<not> sent then Some s
        else do {
          s \<leftarrow> next_packet E saved_byte (payload_size - MCTP_MAX_PAYLOAD_SIZE) s;
          send_packets E (payload_size - MCTP_MAX_PAYLOAD_SIZE) s } }
      else do {
        (sent, s) \<leftarrow> send_packet E payload_size True s;
        Some s })"
  by pat_completeness auto
termination by (relation "measure (\<lambda>(E, n, s). n)") auto

declare send_packets.simps [simp del]

text \<open>The header of a response, from the packet in the request buffer.\<close>

definition start_response :: "'w bmc_st \<Rightarrow> 'w bmc_st option" where
  "start_response s = do {
     s \<leftarrow> resp8 2 (0x30 OR 1) s;
     v \<leftarrow> get8 (ReqBuffer s) 3;
     s \<leftarrow> resp8 3 v s;
     v \<leftarrow> get8 (ReqBuffer s) 5;
     s \<leftarrow> resp8 4 v s;
     v \<leftarrow> get8 (ReqBuffer s) 4;
     s \<leftarrow> resp8 5 v s;
     v \<leftarrow> get8 (ReqBuffer s) 6;
     flags \<leftarrow> get8 (RespBuffer s) 6;
     resp8 6 (set_som True (set_seq 0 (set_tag (flag_tag v) flags))) s }"

section \<open>A packet from the board controller\<close>

definition process_pmci_request :: "'w bmc_env \<Rightarrow> nat \<Rightarrow> 'w bmc_st \<Rightarrow> 'w bmc_st option" where
  "process_pmci_request E i2cSlaveReadCount s = do {
     flags \<leftarrow> get8 (ReqBuffer s) 6;
     src_ep \<leftarrow> get8 (ReqBuffer s) 5;
     dest_ep \<leftarrow> get8 (ReqBuffer s) 4;
     version \<leftarrow> get8 (ReqBuffer s) 3;
     src_addr \<leftarrow> get8 (ReqBuffer s) 2;
     let s = upd_mctp (\<lambda>d. d\<lparr>BMC_endpoint_id_g := src_ep, SC_endpoint_id_g := dest_ep,
               MCTP_header_version_g := version, BMC_slave_address_g := src_addr\<rparr>) s;
     if i2cSlaveReadCount < sizeof_mctp_message then Some s
     else do {
       req \<leftarrow> put8 0 0x30 (ReqBuffer s);
       let s = s\<lparr>ReqBuffer := req\<rparr>;
       n \<leftarrow> get8 req 1;
       let byte_count = n + 2;
       if unat byte_count \<noteq> i2cSlaveReadCount then Some s
       else if ucast dest_ep \<noteq> mctp_EID (mctp s) \<and> dest_ep \<noteq> 0 then Some s
       else do {
         (completed, s) \<leftarrow> assemble E flags byte_count s;
         case completed of None \<Rightarrow> Some s
         | Some payload_size \<Rightarrow>
             (if request_pkt (mctp s) then do {
                s \<leftarrow> start_response s;
                send_packets E payload_size s }
              else Some s) } } }"
end
