(* ===== verification/BMC_Proxy.thy ===== *)
theory BMC_Proxy
  imports MCTP
begin

text \<open>
  The proxy itself (\<open>bmc_proxy_driver.c\<close>): initialisation, binding of callbacks, statistics, the
  processing of a received message and one turn of the proxy's task.
\<close>

section \<open>Initialisation\<close>

text \<open>
  A copy of a caller's array of \<open>n\<close> records in allocated memory; \<open>put\<close> stores the pointer and
  the count.  An allocation of no bytes answers a null pointer (\<open>osal.c\<close>).
\<close>

definition iAllocateNumericSensorPDR ::
  "'w bmc_env \<Rightarrow> u8 list list option \<Rightarrow> nat \<Rightarrow>
   (u8 list list \<Rightarrow> nat \<Rightarrow> BMCProxyDriverPrivateData \<Rightarrow> BMCProxyDriverPrivateData) \<Rightarrow>
   'w bmc_st \<Rightarrow> (evl_status \<times> 'w bmc_st) option" where
  "iAllocateNumericSensorPDR E incoming n put s =
     (case incoming of None \<Rightarrow> Some (OK, s)
      | Some recs \<Rightarrow>
          (let (got, s) = (if n = 0 then (False, s) else mem_alloc (evl_part E) s) in
           if \<not> got then Some (ERROR, INC_ERROR_COUNTER_WITH_STATE BMC_PROXY_ERRORS_MEM_ALLOC_FAILED s)
           else if n \<le> length recs then Some (OK, upd_local (put (take n recs) n) s)
           else None))"

record bmc_config =
  cfg_ucProxyId :: u8
  cfg_pxFwIf :: bool
  cfg_temperature :: "u8 list list option"
  cfg_iTotalPdrTemperature :: nat
  cfg_voltage :: "u8 list list option"
  cfg_iTotalPdrVoltage :: nat
  cfg_current :: "u8 list list option"
  cfg_iTotalPdrCurrent :: nat
  cfg_power :: "u8 list list option"
  cfg_iTotalPdrPower :: nat
  cfg_names :: "u8 list list option"
  cfg_iTotalPdrName :: nat
  cfg_pucUuid :: "u8 list option"

definition copy_sensors :: "'w bmc_env \<Rightarrow> bmc_config \<Rightarrow> 'w bmc_st \<Rightarrow> (evl_status \<times> 'w bmc_st) option" where
  "copy_sensors E c s = do {
     (st, s) \<leftarrow> iAllocateNumericSensorPDR E (cfg_temperature c) (cfg_iTotalPdrTemperature c)
       (\<lambda>xs n d. d\<lparr>pxPdrTemperatureSensors := Some xs, iTotalPdrTemperature := n\<rparr>) s;
     (st, s) \<leftarrow> (if st \<noteq> OK then Some (st, s) else
       iAllocateNumericSensorPDR E (cfg_voltage c) (cfg_iTotalPdrVoltage c)
         (\<lambda>xs n d. d\<lparr>pxPdrVoltageSensors := Some xs, iTotalPdrVoltage := n\<rparr>) s);
     (st, s) \<leftarrow> (if st \<noteq> OK then Some (st, s) else
       iAllocateNumericSensorPDR E (cfg_current c) (cfg_iTotalPdrCurrent c)
         (\<lambda>xs n d. d\<lparr>pxPdrCurrentSensors := Some xs, iTotalPdrCurrent := n\<rparr>) s);
     (st, s) \<leftarrow> (if st \<noteq> OK then Some (st, s) else
       iAllocateNumericSensorPDR E (cfg_power c) (cfg_iTotalPdrPower c)
         (\<lambda>xs n d. d\<lparr>pxPdrPowerSensors := Some xs, iTotalPdrPower := n\<rparr>) s);
     if st \<noteq> OK then Some (st, s) else
       iAllocateNumericSensorPDR E (cfg_names c) (cfg_iTotalPdrName c)
         (\<lambda>xs n d. d\<lparr>pxPdrSensorNames := Some xs, iTotalPdrName := n\<rparr>) s }"

text \<open>The end of the initialisation: the interface is opened, the commands are set up.\<close>

definition open_interface :: "'w bmc_env \<Rightarrow> 'w bmc_st \<Rightarrow> (evl_status \<times> 'w bmc_st) option" where
  "open_interface E s =
     (let (opened, w) = fw_if_open E (outside s); s = s\<lparr>outside := w\<rparr> in
      if \<not> opened then Some (OK, INC_ERROR_COUNTER_WITH_STATE BMC_PROXY_ERRORS_FW_IF_OPEN_FAILED s)
      else do {
        s \<leftarrow> pldm_command_init (upd_local (\<lambda>d. d\<lparr>bmc_iInitialised := True, bmc_xState := MODULE_STATE_OK\<rparr>) s);
        let s = BMC_INC_STAT_COUNTER BMC_PROXY_STATS_CREATE_MUTEX s;
        let s = BMC_INC_STAT_COUNTER BMC_PROXY_STATS_CREATE_SEMAPHORE s;
        Some (OK, BMC_INC_STAT_COUNTER BMC_PROXY_STATS_INIT_OVERALL_COMPLETE s) })"

definition create_services :: "'w bmc_env \<Rightarrow> 'w bmc_st \<Rightarrow> evl_status \<times> 'w bmc_st" where
  "create_services E s =
     (let (st, pp, d, s) = iEVL_CreateRecord (evl_part E) (Some (pxEvlRecord (xLocalData s))) (evl_data s) s;
          s = upd_local (\<lambda>l. l\<lparr>pxEvlRecord := (case pp of Some r \<Rightarrow> r | None \<Rightarrow> None)\<rparr>) (s\<lparr>evl_data := d\<rparr>) in
      if st \<noteq> OK then (ERROR, INC_ERROR_COUNTER_WITH_STATE BMC_PROXY_ERRORS_INIT_EVL_RECORD_FAILED s)
      else (case mutex_create (evl_part E) s of
        (None, s) \<Rightarrow> (ERROR, INC_ERROR_COUNTER_WITH_STATE BMC_PROXY_INIT_MUTEX_CREATE_FAILED s)
      | (Some m, s) \<Rightarrow>
          (let s = upd_local (\<lambda>l. l\<lparr>pvOsalMutexHdl := Some m\<rparr>) s;
               (ok, w) = semaphore_create E (outside s); s = s\<lparr>outside := w\<rparr> in
           if \<not> ok then (ERROR, BMC_INC_ERROR_COUNTER BMC_PROXY_ERRORS_CREATE_SEMAPHORE s)
           else (let (ok, w) = task_create E (outside s); s = s\<lparr>outside := w\<rparr> in
             if \<not> ok then (ERROR, INC_ERROR_COUNTER_WITH_STATE BMC_PROXY_INIT_TASK_CREATE_FAILED s)
             else (OK, s)))))"

definition iBMC_Initialise :: "'w bmc_env \<Rightarrow> bmc_config \<Rightarrow> 'w bmc_st \<Rightarrow> (evl_status \<times> 'w bmc_st) option" where
  "iBMC_Initialise E c s =
     (if bmc_firewalls_ok s \<and> \<not> bmc_iInitialised (xLocalData s) \<and> cfg_pxFwIf c \<and>
         cfg_temperature c \<noteq> None \<and> cfg_voltage c \<noteq> None \<and> cfg_current c \<noteq> None \<and>
         cfg_power c \<noteq> None \<and> cfg_names c \<noteq> None \<and> cfg_pucUuid c \<noteq> None
      then
        (let s = upd_local (\<lambda>d. d\<lparr>ucMyId := cfg_ucProxyId c\<rparr>) s;
             (st, s) = create_services E s in
         if st \<noteq> OK then Some (ERROR, s)
         else do {
           uuid \<leftarrow> cfg_pucUuid c;
           uuid \<leftarrow> get_bytes uuid 0 HAL_UUID_SIZE;
           (st, s) \<leftarrow> copy_sensors E c (upd_local (\<lambda>d. d\<lparr>pucUuid := uuid\<rparr>) s);
           if st = OK then open_interface E s else Some (st, s) })
      else Some (ERROR, BMC_INC_ERROR_COUNTER BMC_PROXY_VALIDATION_FAILED s))"

section \<open>Callbacks, statistics and state\<close>

definition iBMC_BindCallback :: "'w bmc_env \<Rightarrow> nat option \<Rightarrow> 'w bmc_st \<Rightarrow> evl_status \<times> 'w bmc_st" where
  "iBMC_BindCallback E pxCallback s =
     (if bmc_ready s \<and> pxCallback \<noteq> None \<and> pxEvlRecord (xLocalData s) \<noteq> None
      then (let (st, r, d, s) = iEVL_BindCallback (evl_part E) (pxEvlRecord (xLocalData s)) pxCallback (evl_data s) s;
                s = upd_local (\<lambda>l. l\<lparr>pxEvlRecord := r\<rparr>) (s\<lparr>evl_data := d\<rparr>)
            in (st, if st = ERROR then INC_ERROR_COUNTER_WITH_STATE BMC_PROXY_BIND_CB_FAILED s else s))
      else (ERROR, BMC_INC_ERROR_COUNTER BMC_PROXY_VALIDATION_FAILED s))"

text \<open>The values printed, in the order of the counters.\<close>

definition bmc_stats :: "BMC_PROXY_STATS list" where
  "bmc_stats =
     [BMC_PROXY_STATS_INIT_OVERALL_COMPLETE, BMC_PROXY_STATS_CREATE_MUTEX, BMC_PROXY_STATS_CREATE_SEMAPHORE,
      BMC_PROXY_STATS_PEND_SEMAPHORE, BMC_PROXY_STATS_POST_SEMAPHORE, BMC_PROXY_STATS_TAKE_MUTEX,
      BMC_PROXY_STATS_RELEASE_MUTEX, BMC_PROXY_STATS_TASK_TIME_MS, BMC_PROXY_STATS_STATUS_RETRIEVAL,
      BMC_PROXY_STATS_GET_SENSOR_ID_REQUEST]"

definition bmc_errors :: "BMC_PROXY_ERRORS list" where
  "bmc_errors =
     [BMC_PROXY_ERRORS_MUTEX_RELEASE_FAILED, BMC_PROXY_ERRORS_MUTEX_TAKE_FAILED,
      BMC_PROXY_ERRORS_CREATE_SEMAPHORE, BMC_PROXY_ERRORS_PEND_SEMAPHORE, BMC_PROXY_ERRORS_POST_SEMAPHORE,
      BMC_PROXY_ERRORS_FW_IF_OPEN_FAILED, BMC_PROXY_ERRORS_FW_IF_READ_FAILED,
      BMC_PROXY_ERRORS_MEM_ALLOC_FAILED, BMC_PROXY_ERRORS_VALIDATION_FAILED,
      BMC_PROXY_INIT_MUTEX_CREATE_FAILED, BMC_PROXY_INIT_TASK_CREATE_FAILED, BMC_PROXY_VALIDATION_FAILED,
      BMC_PROXY_UNSUPPORTED_OPCODE_RX, BMC_PROXY_FW_IF_WRITE_FAILED, BMC_PROXY_BIND_CB_FAILED,
      BMC_PROXY_ERRORS_INIT_EVL_RECORD_FAILED, BMC_PROXY_RAISE_EVENT_FAIL, BMC_UNEXPECTED_SENSOR_ID,
      BMC_UNEXPECTED_FLAG]"

definition iBMC_PrintStatistics :: "'w bmc_st \<Rightarrow> evl_status \<times> u32 list \<times> u32 list \<times> 'w bmc_st" where
  "iBMC_PrintStatistics s =
     (if bmc_firewalls_ok s
      then (OK, map (pulStatCounters (xLocalData s)) bmc_stats, map (pulErrorCounters (xLocalData s)) bmc_errors, s)
      else (ERROR, [], [], BMC_INC_ERROR_COUNTER BMC_PROXY_VALIDATION_FAILED s))"

definition iBMC_ClearStatistics :: "'w bmc_st \<Rightarrow> evl_status \<times> 'w bmc_st" where
  "iBMC_ClearStatistics s =
     (if bmc_ready s then (OK, upd_local (\<lambda>d. d\<lparr>pulStatCounters := (\<lambda>_. 0), pulErrorCounters := (\<lambda>_. 0)\<rparr>) s)
      else (ERROR, BMC_INC_ERROR_COUNTER BMC_PROXY_VALIDATION_FAILED s))"

text \<open>\<open>out\<close>: whether the caller's pointer is non-null; the state is what it then receives.\<close>

definition iBMC_GetState :: "'w bmc_env \<Rightarrow> bool \<Rightarrow> 'w bmc_st \<Rightarrow> evl_status \<times> MODULE_STATE option \<times> 'w bmc_st" where
  "iBMC_GetState E out s =
     (if bmc_firewalls_ok s \<and> out then
        (let m = pvOsalMutexHdl (xLocalData s); (taken, s) = mutex_take (evl_part E) m s in
         if taken then
           (let s = BMC_INC_STAT_COUNTER BMC_PROXY_STATS_TAKE_MUTEX s;
                x = bmc_xState (xLocalData s);
                s = BMC_INC_STAT_COUNTER BMC_PROXY_STATS_STATUS_RETRIEVAL s;
                (rel, s) = mutex_release (evl_part E) m s
            in if rel then (OK, Some x, BMC_INC_STAT_COUNTER BMC_PROXY_STATS_RELEASE_MUTEX s)
               else (ERROR, Some x, INC_ERROR_COUNTER_WITH_STATE BMC_PROXY_ERRORS_MUTEX_RELEASE_FAILED s))
         else (ERROR, None, INC_ERROR_COUNTER_WITH_STATE BMC_PROXY_ERRORS_MUTEX_TAKE_FAILED s))
      else (ERROR, None, BMC_INC_ERROR_COUNTER BMC_PROXY_ERRORS_VALIDATION_FAILED s))"

definition vEmulateReceivedMessage :: "u8 list option \<Rightarrow> u16 \<Rightarrow> 'w bmc_st \<Rightarrow> 'w bmc_st option" where
  "vEmulateReceivedMessage pucData usDatasize s =
     (case pucData of Some data \<Rightarrow>
        (if bmc_ready s then do {
           xs \<leftarrow> get_bytes data 0 (unat usDatasize);
           rx \<leftarrow> put_bytes 0 xs (pucRxData (xLocalData s));
           Some (upd_local (\<lambda>d. d\<lparr>pucRxData := rx, ulRxDataSize := ucast usDatasize, ucProcessRxData := True\<rparr>) s) }
         else Some s)
      | None \<Rightarrow> Some s)"

section \<open>A received message\<close>

definition bmc_release :: "'w bmc_env \<Rightarrow> 'w bmc_st \<Rightarrow> 'w bmc_st" where
  "bmc_release E s =
     (let (rel, s) = mutex_release (evl_part E) (pvOsalMutexHdl (xLocalData s)) s in
      if rel then BMC_INC_STAT_COUNTER BMC_PROXY_STATS_RELEASE_MUTEX s
      else BMC_INC_ERROR_COUNTER BMC_PROXY_ERRORS_MUTEX_RELEASE_FAILED s)"

text \<open>
  The message goes behind two bytes of the request buffer, the second of which is its length.
\<close>

definition load_request :: "'w bmc_st \<Rightarrow> 'w bmc_st option" where
  "load_request s = do {
     let n = ulRxDataSize (xLocalData s);
     req \<leftarrow> put8 1 (ucast n) (replicate MAX_BUFFER_SIZE 0);
     data \<leftarrow> get_bytes (pucRxData (xLocalData s)) 0 (unat n);
     req \<leftarrow> put_bytes 2 data req;
     Some (s\<lparr>ReqBuffer := req, RespBuffer := replicate MAX_BUFFER_SIZE 0\<rparr>) }"

definition process_loaded :: "'w bmc_env \<Rightarrow> 'w bmc_st \<Rightarrow> 'w bmc_st option" where
  "process_loaded E s = do {
     s \<leftarrow> load_request s;
     let n = unat (ulRxDataSize (xLocalData s));
     if 0 < n then do {
       s \<leftarrow> process_pmci_request E (n + 2) s;
       let (_, s) = uptime_ms (evl_part E) s;
       Some s }
     else Some s }"

definition vProcessRxMessage :: "'w bmc_env \<Rightarrow> 'w bmc_st \<Rightarrow> 'w bmc_st option" where
  "vProcessRxMessage E s =
     (let (_, s) = uptime_ms (evl_part E) s in
      if \<not> bmc_ready s then Some s
      else do {
        let (taken, s) = mutex_take (evl_part E) (pvOsalMutexHdl (xLocalData s)) s;
        s \<leftarrow> (if taken then do {
                (st, s) \<leftarrow> bmc_raise E BMC_PROXY_DRIVER_E_MSG_ARRIVAL (BMC_INC_STAT_COUNTER BMC_PROXY_STATS_TAKE_MUTEX s);
                s \<leftarrow> (if st = ERROR then Some s else process_loaded E s);
                Some (bmc_release E s) }
              else Some (BMC_INC_ERROR_COUNTER BMC_PROXY_ERRORS_MUTEX_TAKE_FAILED s));
        Some (upd_local (\<lambda>d. d\<lparr>ucProcessRxData := False\<rparr>) s) })"

section \<open>The task\<close>

definition start_message :: "BMCProxyDriverPrivateData \<Rightarrow> BMCProxyDriverPrivateData" where
  "start_message d = d\<lparr>ucAwaitingSensorData := False, usRequestedSensorId := 0,
     ucRequestedSensorOperationalState := 0, ucRequestedSensorEventMessageEnable := 0,
     ucSetNumericSensorEnableResponse := 0, ucGetNumericSensorResponse := 0, ucGetNumericSensorState := 0,
     ssSensorInfo := 0, ucProcessRxData := True\<rparr>"

text \<open>One turn of the endless loop of \<open>vProxyDriverTask\<close>.\<close>

definition proxy_task_turn :: "'w bmc_env \<Rightarrow> 'w bmc_st \<Rightarrow> 'w bmc_st option" where
  "proxy_task_turn E s =
     (let (ulStartMs, s) = uptime_ms (evl_part E) s;
          (ok, rx, n, w) = fw_if_read E (pucRxData (xLocalData s)) (ulRxDataSize (xLocalData s)) (outside s);
          s = upd_local (\<lambda>d. d\<lparr>pucRxData := rx, ulRxDataSize := n\<rparr>) (s\<lparr>outside := w\<rparr>);
          s = (if \<not> ok then INC_ERROR_COUNTER_WITH_STATE BMC_PROXY_ERRORS_FW_IF_READ_FAILED s
               else (let (taken, s) = mutex_take (evl_part E) (pvOsalMutexHdl (xLocalData s)) s in
                 if taken then bmc_release E (upd_local start_message (BMC_INC_STAT_COUNTER BMC_PROXY_STATS_TAKE_MUTEX s))
                 else BMC_INC_ERROR_COUNTER BMC_PROXY_ERRORS_MUTEX_TAKE_FAILED s))
      in do {
        s \<leftarrow> (if ucProcessRxData (xLocalData s) then vProcessRxMessage E s else Some s);
        let (t, s) = uptime_ms (evl_part E) s;
        Some (upd_local (\<lambda>d. d\<lparr>pulStatCounters :=
          (pulStatCounters d)(BMC_PROXY_STATS_TASK_TIME_MS := t - ulStartMs)\<rparr>) s) })"
end
