(* ===== verification/BMC_Types.thy ===== *)
theory BMC_Types
  imports BMC_Proxy
begin

text \<open>
  The shape of the proxy's state: every buffer, table and packed structure keeps the size the
  C declaration gives it.
\<close>

section \<open>Shapes\<close>

definition time_stamp_wf :: "TimeStamp \<Rightarrow> bool" where
  "time_stamp_wf t \<longleftrightarrow> length (uSeconds t) = 3"

definition records_of :: "nat \<Rightarrow> u8 list list option \<Rightarrow> bool" where
  "records_of n p \<longleftrightarrow> (case p of None \<Rightarrow> True | Some xs \<Rightarrow> list_all (\<lambda>rec. length rec = n) xs)"

definition local_wf :: "BMCProxyDriverPrivateData \<Rightarrow> bool" where
  "local_wf d \<longleftrightarrow> length (pucRxData d) = MAX_RX_DATA_SIZE \<and> length (pucUuid d) = HAL_UUID_SIZE \<and>
     records_of sizeof_PLDMNumericSensorPdr (pxPdrTemperatureSensors d) \<and>
     records_of sizeof_PLDMNumericSensorPdr (pxPdrVoltageSensors d) \<and>
     records_of sizeof_PLDMNumericSensorPdr (pxPdrCurrentSensors d) \<and>
     records_of sizeof_PLDMNumericSensorPdr (pxPdrPowerSensors d) \<and>
     records_of sizeof_PLDMNumericSensorNamePdr (pxPdrSensorNames d)"

definition bmc_wf :: "'w bmc_st \<Rightarrow> bool" where
  "bmc_wf s \<longleftrightarrow> local_wf (xLocalData s) \<and>
     length (xPdrTerminusLocator s) = 1 \<and> records_of sizeof_TerminusPDRFormatUid (Some (xPdrTerminusLocator s)) \<and>
     time_stamp_wf (updateTimestamp (MSP432_PDR_Repository s)) \<and>
     time_stamp_wf (OEMUpdateTimestamp (MSP432_PDR_Repository s)) \<and>
     length (Pldm_Type_Supported (pldm s)) = POSSIBLE_MAX_PLDM_TYPE div 8 \<and>
     length (type0_Command_Supported (pldm s)) = POSSIBLE_MAX_PLDM_CMD div 8 \<and>
     length (type2_Command_Supported (pldm s)) = POSSIBLE_MAX_PLDM_CMD div 8 \<and>
     length (multiPartReqBuffer (mctp s)) = MAX_MULTIPART_BUFFER_SIZE \<and>
     length (ReqBuffer s) = MAX_BUFFER_SIZE \<and> length (RespBuffer s) = MAX_BUFFER_SIZE"

text \<open>
  What the environment owes: the operating system's calls and the application's callbacks keep
  the shapes, and a read of the interface fills the buffer it is given.
\<close>

definition env_wf :: "'w bmc_env \<Rightarrow> bool" where
  "env_wf E \<longleftrightarrow>
     (\<forall>m s. bmc_wf s \<longrightarrow> bmc_wf (snd (mutex_take (evl_part E) m s)) \<and> bmc_wf (snd (mutex_release (evl_part E) m s))) \<and>
     (\<forall>s. bmc_wf s \<longrightarrow> bmc_wf (snd (uptime_ms (evl_part E) s))) \<and>
     (\<forall>cb sig s. bmc_wf s \<longrightarrow> bmc_wf (snd (evl_callback (evl_part E) cb sig s))) \<and>
     (\<forall>b n w. length (fst (snd (fw_if_read E b n w))) = length b)"

section \<open>Rules\<close>

text \<open>
  One rule per operation, in the form of a weakest precondition: the result of an operation on
  a state of the right shape is a state of the right shape.
\<close>

named_theorems wf_rules

lemma wp_bind [wf_rules]: "post m (\<lambda>x. post (f x) Q) \<Longrightarrow> post (Option.bind m f) Q"
  by (simp add: post_bind_iff)

lemma wp_if [wf_rules]: "(b \<Longrightarrow> post x Q) \<Longrightarrow> (\<not> b \<Longrightarrow> post y Q) \<Longrightarrow> post (if b then x else y) Q"
  by simp

lemma wp_prod: "(\<And>a b. p = (a, b) \<Longrightarrow> post (f a b) Q) \<Longrightarrow> post (case p of (a, b) \<Rightarrow> f a b) Q"
  by (cases p) simp

lemma wp_option [wf_rules]:
  "(p = None \<Longrightarrow> post x Q) \<Longrightarrow> (\<And>a. p = Some a \<Longrightarrow> post (f a) Q) \<Longrightarrow> post (case p of None \<Rightarrow> x | Some a \<Rightarrow> f a) Q"
  by (cases p) simp_all

lemma wp_Some [wf_rules]: "Q x \<Longrightarrow> post (Some x) Q"
  by simp

lemma wp_None [wf_rules]: "post None Q"
  by simp

lemma wp_read: "(\<And>v. m = Some v \<Longrightarrow> Q v) \<Longrightarrow> post m Q"
  by (cases m) simp_all

lemmas wp_reads [wf_rules] =
  wp_read [where m = "get8 b i" for b i] wp_read [where m = "get16 b i" for b i] wp_read [where m = "get32 b i" for b i]
  wp_read [where m = "arr_get n a i" for n a i] wp_read [where m = "iCheckSensorValid i s" for i s]
  wp_read [where m = "xfer_entry a n h" for a n h] wp_read [where m = "get_mctp_func c" for c]
  wp_read [where m = "PDRRecords r i" for r i]

lemma wp_get_bytes [wf_rules]: "(\<And>xs. length xs = n \<Longrightarrow> Q xs) \<Longrightarrow> post (get_bytes b i n) Q"
  by (auto simp: get_bytes_def)

lemma wp_put8 [wf_rules]: "(\<And>c. length c = length b \<Longrightarrow> Q c) \<Longrightarrow> post (put8 i v b) Q"
  by (auto simp: put8_def)

lemma wp_put16 [wf_rules]: "(\<And>c. length c = length b \<Longrightarrow> Q c) \<Longrightarrow> post (put16 i v b) Q"
  by (auto simp: put16_def put8_def)

lemma wp_put_bytes [wf_rules]: "(\<And>c. length c = length b \<Longrightarrow> Q c) \<Longrightarrow> post (put_bytes i xs b) Q"
  by (auto simp: put_bytes_def)

lemma bmc_wf_resp: "bmc_wf s \<Longrightarrow> length b = length (RespBuffer s) \<Longrightarrow> bmc_wf (s\<lparr>RespBuffer := b\<rparr>)"
  by (simp add: bmc_wf_def)

lemma wp_resp [wf_rules]:
  "bmc_wf s \<Longrightarrow> (\<And>s'. bmc_wf s' \<Longrightarrow> Q s') \<Longrightarrow> post (resp8 i v s) Q"
  "bmc_wf s \<Longrightarrow> (\<And>s'. bmc_wf s' \<Longrightarrow> Q s') \<Longrightarrow> post (resp16 i v16 s) Q"
  "bmc_wf s \<Longrightarrow> (\<And>s'. bmc_wf s' \<Longrightarrow> Q s') \<Longrightarrow> post (resp32 i v32 s) Q"
  "bmc_wf s \<Longrightarrow> (\<And>s'. bmc_wf s' \<Longrightarrow> Q s') \<Longrightarrow> post (resp_bytes i xs s) Q"
  by (auto simp: resp8_def resp16_def resp32_def resp_bytes_def put32_def put8_def put16_def put_bytes_def
      bmc_wf_resp post_bind_iff)

text \<open>Updates of the local data.\<close>

lemma bmc_wf_local [simp]: "bmc_wf s \<Longrightarrow> bmc_wf (upd_local f s) = local_wf (f (xLocalData s))"
  by (simp add: bmc_wf_def upd_local_def)

lemma local_wf_xLocalData [simp]: "bmc_wf s \<Longrightarrow> local_wf (xLocalData s)"
  by (simp add: bmc_wf_def)

lemma local_wf_update [simp]:
  "local_wf (d\<lparr>ucAwaitingSensorData := b\<rparr>) = local_wf d" "local_wf (d\<lparr>usRequestedSensorId := i\<rparr>) = local_wf d"
  "local_wf (d\<lparr>ucRequestedSensorOperationalState := x\<rparr>) = local_wf d" "local_wf (d\<lparr>ulRxDataSize := n\<rparr>) = local_wf d"
  "local_wf (d\<lparr>ucProcessRxData := b\<rparr>) = local_wf d" "local_wf (d\<lparr>pulStatCounters := c\<rparr>) = local_wf d"
  by (simp_all add: local_wf_def)

lemma bmc_wf_counters [simp, intro]:
  "bmc_wf s \<Longrightarrow> bmc_wf (BMC_INC_STAT_COUNTER x s)" "bmc_wf s \<Longrightarrow> bmc_wf (BMC_INC_ERROR_COUNTER y s)"
  "bmc_wf s \<Longrightarrow> bmc_wf (INC_ERROR_COUNTER_WITH_STATE y s)"
  by (simp_all add: bmc_wf_def upd_local_def BMC_INC_STAT_COUNTER_def BMC_INC_ERROR_COUNTER_def
      INC_ERROR_COUNTER_WITH_STATE_def local_wf_def)

lemma bmc_wf_xfer [simp, intro]:
  "bmc_wf s \<Longrightarrow> bmc_wf (set_version_xfer i x s)" "bmc_wf s \<Longrightarrow> bmc_wf (set_pdr_xfer i x s)"
  "bmc_wf s \<Longrightarrow> bmc_wf (s\<lparr>outside := w\<rparr>)" "bmc_wf s \<Longrightarrow> bmc_wf (s\<lparr>evl_data := d\<rparr>)"
  by (simp_all add: bmc_wf_def set_version_xfer_def set_pdr_xfer_def upd_pldm_def)

section \<open>The repository\<close>

definition ref_size :: "pdr_ref \<Rightarrow> nat" where
  "ref_size r = (case r of Terminus _ \<Rightarrow> sizeof_TerminusPDRFormatUid
     | SensorName _ \<Rightarrow> sizeof_PLDMNumericSensorNamePdr | _ \<Rightarrow> sizeof_PLDMNumericSensorPdr)"

lemma wp_pdr_get [wf_rules]: "bmc_wf s \<Longrightarrow> (\<And>rec. length rec = ref_size r \<Longrightarrow> Q rec) \<Longrightarrow> post (pdr_get r s) Q"
  by (cases r) (auto simp: pdr_get_def pdr_array_def elem_def bmc_wf_def local_wf_def records_of_def ref_size_def
      list_all_length split: option.splits intro!: wf_rules)

lemma wp_pdr_put [wf_rules]:
  "bmc_wf s \<Longrightarrow> length rec = ref_size r \<Longrightarrow> (\<And>s'. bmc_wf s' \<Longrightarrow> Q s') \<Longrightarrow> post (pdr_put r rec s) Q"
  by (cases r) (auto simp: pdr_put_def pdr_array_def set_pdr_array_def upd_local_def bmc_wf_def local_wf_def records_of_def
      ref_size_def list_all_length nth_list_update split: option.splits intro!: wf_rules)

lemma bmc_wf_repo [simp]:
  "bmc_wf s \<Longrightarrow> bmc_wf (upd_repo f s) = (time_stamp_wf (updateTimestamp (f (MSP432_PDR_Repository s))) \<and>
   time_stamp_wf (OEMUpdateTimestamp (f (MSP432_PDR_Repository s))))"
  by (simp add: bmc_wf_def upd_repo_def)

lemma time_stamp_wf_update [simp]: "time_stamp_wf (vUpdateTimestamp t)"
  "time_stamp_wf ((vUpdateTimestamp t)\<lparr>UTC_Time_Resolution := r\<rparr>)"
  by (simp_all add: time_stamp_wf_def vUpdateTimestamp_def)

lemma wf_time_stamps [simp]: "bmc_wf s \<Longrightarrow> time_stamp_wf (updateTimestamp (MSP432_PDR_Repository s))"
  "bmc_wf s \<Longrightarrow> time_stamp_wf (OEMUpdateTimestamp (MSP432_PDR_Repository s))"
  by (simp_all add: bmc_wf_def)

definition keeps_size :: "(u8 list \<Rightarrow> (nat \<times> u8 list) option) \<Rightarrow> bool" where
  "keeps_size f \<longleftrightarrow> (\<forall>rec. post (f rec) (\<lambda>(n, rec'). length rec' = length rec))"

lemma keeps_size_fixed [simp]: "keeps_size (fixed_size n)"
  by (simp add: keeps_size_def fixed_size_def)

lemma keeps_size_name [simp]: "keeps_size name_size"
  unfolding keeps_size_def name_size_def sensor_name_empty_space_def
  by (auto simp: put16_Some post_def split: option.splits bind_splits)

lemma wp_keeps: "keeps_size f \<Longrightarrow> (\<And>n rec'. length rec' = length rec \<Longrightarrow> Q (n, rec')) \<Longrightarrow> post (f rec) Q"
  by (rule post_weaken [of "f rec" "\<lambda>(n, rec'). length rec' = length rec"]) (auto simp: keeps_size_def)

lemma wp_arr_set [wf_rules]: "(\<And>b. Q b) \<Longrightarrow> post (arr_set n a i v) Q"
  by (auto simp: arr_set_def)

lemma wp_add_pdr [wf_rules]:
  assumes "bmc_wf s" and f: "keeps_size f" and "\<And>s'. bmc_wf s' \<Longrightarrow> Q s'"
  shows "post (add_pdr r type f h s) Q"
  unfolding add_pdr_def Let_def
  by ((intro wf_rules wp_keeps [OF f] assms(3) | rule wp_prod | (simp add: assms(1); fail))+)

lemma wp_add_pdrs [wf_rules]:
  assumes "bmc_wf s" and f: "keeps_size f" and "\<And>s'. bmc_wf s' \<Longrightarrow> Q s'"
  shows "post (add_pdrs r type f h i n s) Q"
  using assms(1)
proof (induction n arbitrary: h i s)
  case (Suc n)
  show ?case by simp (intro wf_rules f Suc; assumption)
qed (simp add: assms(3))

lemma wp_init_terminus [wf_rules]: "bmc_wf s \<Longrightarrow> (\<And>s'. bmc_wf s' \<Longrightarrow> Q s') \<Longrightarrow> post (init_terminus s) Q"
  unfolding init_terminus_def Let_def by ((intro wf_rules | rule wp_prod | (simp; fail))+)

lemma wp_vPdrRepoInit [wf_rules]: "bmc_wf s \<Longrightarrow> (\<And>s'. bmc_wf s' \<Longrightarrow> Q s') \<Longrightarrow> post (vPdrRepoInit s) Q"
  unfolding vPdrRepoInit_def Let_def by ((intro wf_rules | rule wp_prod | (simp; fail))+)

lemma wp_update_tid [wf_rules]:
  assumes "bmc_wf s" and "\<And>s'. bmc_wf s' \<Longrightarrow> Q s'"
  shows "post (update_tid tid s) Q"
  unfolding update_tid_def Let_def
  by ((intro wf_rules assms(2) | rule wp_prod | (simp add: assms(1); fail))+)

lemma wp_getPDRRepository [wf_rules]: "bmc_wf s \<Longrightarrow>
    (\<And>p s'. bmc_wf s' \<Longrightarrow> Q (p, s')) \<Longrightarrow> post (getPDRRepository s) Q"
  unfolding getPDRRepository_def Let_def by ((intro wf_rules | rule wp_prod | (simp; fail))+)

section \<open>Events\<close>

lemma wf_call_bindings:
  "env_wf E \<Longrightarrow> bmc_wf s \<Longrightarrow> bmc_wf (snd (call_bindings (evl_part E) sig cbs d s))"
proof (induction cbs arbitrary: d s)
  case (Cons cb cbs)
  from Cons.prems have "bmc_wf (snd (evl_callback (evl_part E) cb sig s))" by (simp add: env_wf_def)
  with Cons show ?case by (simp add: Let_def case_prod_beta)
qed simp

lemma env_wfD:
  assumes "env_wf E" and "bmc_wf s"
  shows "mutex_take (evl_part E) m s = (b, s') \<Longrightarrow> bmc_wf s'" "mutex_release (evl_part E) m s = (b, s') \<Longrightarrow> bmc_wf s'"
    "uptime_ms (evl_part E) s = (t, s') \<Longrightarrow> bmc_wf s'" "call_bindings (evl_part E) sig cbs d s = (d', s') \<Longrightarrow> bmc_wf s'"
  using assms wf_call_bindings [OF assms, of sig cbs d] unfolding env_wf_def by (metis snd_conv)+

lemma wp_env [wf_rules]:
  assumes "env_wf E" and "bmc_wf s" and "\<And>b s'. bmc_wf s' \<Longrightarrow> post (f b s') Q"
  shows "post (case mutex_take (evl_part E) m s of (b, s') \<Rightarrow> f b s') Q"
    "post (case mutex_release (evl_part E) m s of (b, s') \<Rightarrow> f b s') Q"
  using env_wfD(1,2) [OF assms(1,2)] assms(3) by (auto split: prod.split)

lemma wp_uptime [wf_rules]:
  assumes "env_wf E" and "bmc_wf s" and "\<And>t s'. bmc_wf s' \<Longrightarrow> post (f t s') Q"
  shows "post (case uptime_ms (evl_part E) s of (t, s') \<Rightarrow> f t s') Q"
  using env_wfD(3) [OF assms(1,2)] assms(3) by (auto split: prod.split)

lemma wp_call_bindings [wf_rules]:
  assumes "env_wf E" and "bmc_wf s" and "\<And>d s'. bmc_wf s' \<Longrightarrow> post (f d s') Q"
  shows "post (case call_bindings (evl_part E) sig cbs d s of (d, s') \<Rightarrow> f d s') Q"
  using env_wfD(4) [OF assms(1,2)] assms(3) by (auto split: prod.split)

lemma wp_raise:
  assumes E: "env_wf E" and "bmc_wf s" and Q: "\<And>st d s'. bmc_wf s' \<Longrightarrow> Q (st, d, s')"
  shows "post (iEVL_RaiseEvent (evl_part E) r sig d s) Q"
  unfolding iEVL_RaiseEvent_def log_signal_def Let_def
  by ((intro wf_rules E Q assms(2) | rule wp_prod | (auto; fail))+)

lemma wp_bmc_raise [wf_rules]:
  assumes E: "env_wf E" and "bmc_wf s" and Q: "\<And>st s'. bmc_wf s' \<Longrightarrow> Q (st, s')"
  shows "post (bmc_raise E ev s) Q"
  unfolding bmc_raise_def Let_def
  by ((intro wf_rules wp_raise E Q | rule wp_prod | (simp add: assms(2); fail))+)

lemma wp_iRaiseBmcEvent [wf_rules]:
  assumes E: "env_wf E" and "bmc_wf s" and Q: "\<And>st s'. bmc_wf s' \<Longrightarrow> Q (st, s')"
  shows "post (iRaiseBmcEvent E ev s) Q"
  unfolding iRaiseBmcEvent_def Let_def
  by ((intro wf_rules E Q | rule wp_prod | (simp add: assms(2); fail))+)

lemma wp_iSetNumericSensorEnable [wf_rules]:
  assumes E: "env_wf E" and "bmc_wf s" and Q: "\<And>st n s'. bmc_wf s' \<Longrightarrow> Q (st, n, s')"
  shows "post (iSetNumericSensorEnable E i state q n s) Q"
  unfolding iSetNumericSensorEnable_def Let_def
  by ((intro wf_rules E Q | rule wp_prod | (simp add: assms(2); fail))+)

lemma wp_iGetNumericSensorReading [wf_rules]:
  assumes E: "env_wf E" and "bmc_wf s" and Q: "\<And>st c y r s'. bmc_wf s' \<Longrightarrow> Q (st, c, y, r, s')"
  shows "post (iGetNumericSensorReading E i s) Q"
  unfolding iGetNumericSensorReading_def Let_def
  by ((intro wf_rules E Q | rule wp_prod | (simp add: assms(2); fail))+)

section \<open>The commands\<close>

lemma wp_completion [wf_rules]:
  assumes "bmc_wf s" and Q: "\<And>n s'. bmc_wf s' \<Longrightarrow> Q (n, s')"
  shows "post (completion q c s) Q"
  unfolding completion_def Let_def by ((intro wf_rules Q | rule wp_prod | (simp add: assms(1); fail))+)

text \<open>The initialisation of the command tables.\<close>

definition pldm_wf :: "pldm_data \<Rightarrow> bool" where
  "pldm_wf p \<longleftrightarrow> length (Pldm_Type_Supported p) = POSSIBLE_MAX_PLDM_TYPE div 8 \<and>
     length (type0_Command_Supported p) = POSSIBLE_MAX_PLDM_CMD div 8 \<and>
     length (type2_Command_Supported p) = POSSIBLE_MAX_PLDM_CMD div 8"

lemma bmc_wf_pldm [simp]: "bmc_wf s \<Longrightarrow> bmc_wf (s\<lparr>pldm := p\<rparr>) = pldm_wf p" "bmc_wf s \<Longrightarrow> pldm_wf (pldm s)"
  "bmc_wf s \<Longrightarrow> bmc_wf (upd_pldm f s) = pldm_wf (f (pldm s))"
  unfolding bmc_wf_def pldm_wf_def upd_pldm_def by simp_all

lemma pldm_wf_update [simp]: "pldm_wf (p\<lparr>PldmInitDone := b\<rparr>) = pldm_wf p" "pldm_wf (p\<lparr>pldm_TID := i\<rparr>) = pldm_wf p"
  by (simp_all add: pldm_wf_def)

lemma wp_set_flag [wf_rules]: "(\<And>c. length c = length bits \<Longrightarrow> Q c) \<Longrightarrow> post (set_flag k bits) Q"
  unfolding set_flag_def by (auto simp: get8_def put8_def)

lemma wp_flag_commands [wf_rules]: "(\<And>c. length c = length bits \<Longrightarrow> Q c) \<Longrightarrow> post (flag_commands l ks bits) Q"
proof (induction ks arbitrary: bits)
  case (Cons k ks)
  show ?case unfolding flag_commands.simps by (intro wf_rules Cons) simp_all
qed simp

lemma wp_init_chain [wf_rules]: "pldm_wf p \<Longrightarrow> (\<And>p'. pldm_wf p' \<Longrightarrow> Q p') \<Longrightarrow> post (init_chain type cs p) Q"
proof (induction cs arbitrary: p)
  case (Cons c cs)
  show ?case unfolding init_chain.simps
    by (intro wf_rules Cons) (use Cons.prems(1) in \<open>auto simp: pldm_wf_def set_command_flags_def command_flags_def\<close>)
qed simp

lemma wp_init_types [wf_rules]: "pldm_wf p \<Longrightarrow> (\<And>p'. pldm_wf p' \<Longrightarrow> Q p') \<Longrightarrow> post (init_types ts p) Q"
proof (induction ts arbitrary: p)
  case (Cons c cs)
  show ?case unfolding init_types.simps
    by (intro wf_rules Cons) (use Cons.prems(1) in \<open>auto simp: pldm_wf_def\<close>)
qed simp

lemma wp_pldm_command_init [wf_rules]:
  assumes s: "bmc_wf s" and Q: "\<And>s'. bmc_wf s' \<Longrightarrow> Q s'"
  shows "post (pldm_command_init s) Q"
  unfolding pldm_command_init_def
  by (intro wf_rules Q) (simp_all add: s)

lemma wp_emit_versions [wf_rules]:
  "bmc_wf s \<Longrightarrow> (\<And>n b s'. bmc_wf s' \<Longrightarrow> Q (n, b, s')) \<Longrightarrow> post (emit_versions k cs q r s) Q"
proof (induction k arbitrary: cs r s)
  case (Suc k)
  show ?case by (cases cs; simp; intro wf_rules Suc; assumption?)
qed simp

lemma wp_getPldmTypeSupport [wf_rules]:
  assumes s: "bmc_wf s" and Q: "\<And>n s'. bmc_wf s' \<Longrightarrow> Q (n, s')"
  shows "post (getPldmTypeSupport q s) Q"
  unfolding getPldmTypeSupport_def Let_def
  by ((intro wf_rules Q | rule wp_prod | (simp add: s; fail) | rule wp_read)+)

lemma wp_getPldmCmdSupport [wf_rules]:
  assumes s: "bmc_wf s" and Q: "\<And>n s'. bmc_wf s' \<Longrightarrow> Q (n, s')"
  shows "post (getPldmCmdSupport type ver q s) Q"
  unfolding getPldmCmdSupport_def Let_def
  by ((intro wf_rules Q | rule wp_prod | (simp add: s; fail) | rule wp_read)+)

lemma wp_getPldmVersionSupport [wf_rules]:
  assumes s: "bmc_wf s" and Q: "\<And>n b s'. bmc_wf s' \<Longrightarrow> Q (n, b, s')"
  shows "post (getPldmVersionSupport type q k m s) Q"
  unfolding getPldmVersionSupport_def Let_def
  by ((intro wf_rules Q | rule wp_prod | (simp add: s; fail) | rule wp_read)+)

lemma wp_send_versions [wf_rules]:
  assumes s: "bmc_wf s" and Q: "\<And>n s'. bmc_wf s' \<Longrightarrow> Q (n, s')"
  shows "post (send_versions E type i k q s) Q"
  unfolding send_versions_def Let_def
  by ((intro wf_rules Q | rule wp_prod | (simp add: s; fail) | rule wp_read)+)

lemma wp_send_pdr [wf_rules]:
  assumes s: "bmc_wf s" and Q: "\<And>n s'. bmc_wf s' \<Longrightarrow> Q (n, s')"
  shows "post (send_pdr E rh c data m i k q s) Q"
  unfolding send_pdr_def Let_def
  by ((intro wf_rules Q | rule wp_prod | (simp add: s; fail) | rule wp_read)+)

lemma wp_pldm_cmd_SetTID [wf_rules]:
  assumes s: "bmc_wf s" and Q: "\<And>n s'. bmc_wf s' \<Longrightarrow> Q (n, s')"
  shows "post (pldm_cmd_SetTID req p q s) Q"
  unfolding pldm_cmd_SetTID_def Let_def
  by ((intro wf_rules Q | rule wp_prod | (simp add: s; fail) | rule wp_read)+)

lemma wp_pldm_cmd_GetTID [wf_rules]:
  assumes s: "bmc_wf s" and Q: "\<And>n s'. bmc_wf s' \<Longrightarrow> Q (n, s')"
  shows "post (pldm_cmd_GetTID req p q s) Q"
  unfolding pldm_cmd_GetTID_def Let_def
  by ((intro wf_rules Q | rule wp_prod | (simp add: s; fail) | rule wp_read)+)

lemma wp_pldm_cmd_GetPLDMVersion [wf_rules]:
  assumes s: "bmc_wf s" and Q: "\<And>n s'. bmc_wf s' \<Longrightarrow> Q (n, s')"
  shows "post (pldm_cmd_GetPLDMVersion E req p q s) Q"
  unfolding pldm_cmd_GetPLDMVersion_def Let_def
  by ((intro wf_rules Q | rule wp_prod | (simp add: s; fail) | rule wp_read)+)

lemma wp_pldm_cmd_GetPLDMType [wf_rules]:
  assumes s: "bmc_wf s" and Q: "\<And>n s'. bmc_wf s' \<Longrightarrow> Q (n, s')"
  shows "post (pldm_cmd_GetPLDMType req p q s) Q"
  unfolding pldm_cmd_GetPLDMType_def Let_def
  by ((intro wf_rules Q | rule wp_prod | (simp add: s; fail) | rule wp_read)+)

lemma wp_pldm_cmd_GetPLDMCommand [wf_rules]:
  assumes s: "bmc_wf s" and Q: "\<And>n s'. bmc_wf s' \<Longrightarrow> Q (n, s')"
  shows "post (pldm_cmd_GetPLDMCommand req p q s) Q"
  unfolding pldm_cmd_GetPLDMCommand_def Let_def
  by ((intro wf_rules Q | rule wp_prod | (simp add: s; fail) | rule wp_read)+)

lemma wp_pldm_cmd_SetNumericSensorEnable [wf_rules]:
  assumes E: "env_wf E" and s: "bmc_wf s" and Q: "\<And>n s'. bmc_wf s' \<Longrightarrow> Q (n, s')"
  shows "post (pldm_cmd_SetNumericSensorEnable E req p q s) Q"
  unfolding pldm_cmd_SetNumericSensorEnable_def Let_def
  by ((intro wf_rules Q E | rule wp_prod | (simp add: s; fail) | rule wp_read)+)

lemma wp_pldm_cmd_GetSensorReading [wf_rules]:
  assumes E: "env_wf E" and s: "bmc_wf s" and Q: "\<And>n s'. bmc_wf s' \<Longrightarrow> Q (n, s')"
  shows "post (pldm_cmd_GetSensorReading E req p q s) Q"
  unfolding pldm_cmd_GetSensorReading_def Let_def
  by ((intro wf_rules Q E | rule wp_prod | (simp add: s; fail) | rule wp_read)+)

lemma wp_pldm_cmd_GetPDRRepositoryInfo [wf_rules]:
  assumes s: "bmc_wf s" and Q: "\<And>n s'. bmc_wf s' \<Longrightarrow> Q (n, s')"
  shows "post (pldm_cmd_GetPDRRepositoryInfo req p q s) Q"
  unfolding pldm_cmd_GetPDRRepositoryInfo_def Let_def
  by ((intro wf_rules Q | rule wp_prod | (simp add: s; fail) | rule wp_read)+)

lemma wp_pldm_cmd_GetPDR [wf_rules]:
  assumes s: "bmc_wf s" and Q: "\<And>n s'. bmc_wf s' \<Longrightarrow> Q (n, s')"
  shows "post (pldm_cmd_GetPDR E req p q s) Q"
  unfolding pldm_cmd_GetPDR_def Let_def
  by ((intro wf_rules Q | rule wp_prod | (simp add: s; fail) | rule wp_read)+)

lemma wp_call_pldm [wf_rules]:
  assumes "env_wf E" and "bmc_wf s" and "\<And>n s'. bmc_wf s' \<Longrightarrow> Q (n, s')"
  shows "post (call_pldm E f req p q s) Q"
  unfolding call_pldm_def using assms by (cases f) (auto intro!: wf_rules)

lemma wp_init_pldm_response [wf_rules]:
  assumes s: "bmc_wf s" and Q: "\<And>s'. bmc_wf s' \<Longrightarrow> Q s'"
  shows "post (init_pldm_response req p q s) Q"
  unfolding init_pldm_response_def Let_def
  by ((intro wf_rules Q | rule wp_prod | (simp add: s; fail) | rule wp_read)+)

lemma wp_process_pldm_request [wf_rules]:
  assumes E: "env_wf E" and s: "bmc_wf s" and Q: "\<And>n s'. bmc_wf s' \<Longrightarrow> Q (n, s')"
  shows "post (process_pldm_request E req p q r s) Q"
  unfolding process_pldm_request_def Let_def
  by ((intro wf_rules Q E | rule wp_prod | (simp add: s; fail) | rule wp_read)+)

section \<open>MCTP\<close>

lemma wf_buffers [simp]:
  "bmc_wf s \<Longrightarrow> length (multiPartReqBuffer (mctp s)) = MAX_MULTIPART_BUFFER_SIZE"
  "bmc_wf s \<Longrightarrow> length (ReqBuffer s) = MAX_BUFFER_SIZE" "bmc_wf s \<Longrightarrow> length (RespBuffer s) = MAX_BUFFER_SIZE"
  "bmc_wf s \<Longrightarrow> bmc_wf (s\<lparr>ReqBuffer := b\<rparr>) = (length b = MAX_BUFFER_SIZE)"
  "bmc_wf s \<Longrightarrow> bmc_wf (s\<lparr>ReqBuffer := b, RespBuffer := c\<rparr>) = (length b = MAX_BUFFER_SIZE \<and> length c = MAX_BUFFER_SIZE)"
  "bmc_wf s \<Longrightarrow> bmc_wf (upd_mctp f s) = (length (multiPartReqBuffer (f (mctp s))) = MAX_MULTIPART_BUFFER_SIZE)"
  unfolding bmc_wf_def upd_mctp_def by simp_all

lemma wp_iGetUuid [wf_rules]:
  assumes s: "bmc_wf s" and Q: "\<And>n s'. bmc_wf s' \<Longrightarrow> Q (n, s')"
  shows "post (iGetUuid i s) Q"
  unfolding iGetUuid_def Let_def
  by ((intro wf_rules Q | rule wp_prod | (simp add: s; fail) | rule wp_read)+)

lemma wp_eid_answer [wf_rules]:
  assumes s: "bmc_wf s" and Q: "\<And>n s'. bmc_wf s' \<Longrightarrow> Q (n, s')"
  shows "post (eid_answer q st eid s) Q"
  unfolding eid_answer_def Let_def
  by ((intro wf_rules Q | rule wp_prod | (simp add: s; fail) | rule wp_read)+)

lemma wp_eid_invalid [wf_rules]:
  assumes s: "bmc_wf s" and Q: "\<And>n s'. bmc_wf s' \<Longrightarrow> Q (n, s')"
  shows "post (eid_invalid q s) Q"
  unfolding eid_invalid_def Let_def
  by ((intro wf_rules Q | rule wp_prod | (simp add: s; fail) | rule wp_read)+)

lemma wp_mctp_cmd_SetEID [wf_rules]:
  assumes s: "bmc_wf s" and Q: "\<And>n s'. bmc_wf s' \<Longrightarrow> Q (n, s')"
  shows "post (mctp_cmd_SetEID req p q s) Q"
  unfolding mctp_cmd_SetEID_def Let_def
  by ((intro wf_rules Q | rule wp_prod | (simp add: s; fail) | rule wp_read)+)

lemma wp_mctp_cmd_GetEID [wf_rules]:
  assumes s: "bmc_wf s" and Q: "\<And>n s'. bmc_wf s' \<Longrightarrow> Q (n, s')"
  shows "post (mctp_cmd_GetEID req p q s) Q"
  unfolding mctp_cmd_GetEID_def Let_def
  by ((intro wf_rules Q | rule wp_prod | (simp add: s; fail) | rule wp_read)+)

lemma wp_mctp_cmd_GetUUID [wf_rules]:
  assumes s: "bmc_wf s" and Q: "\<And>n s'. bmc_wf s' \<Longrightarrow> Q (n, s')"
  shows "post (mctp_cmd_GetUUID req p q s) Q"
  unfolding mctp_cmd_GetUUID_def Let_def
  by ((intro wf_rules Q | rule wp_prod | (simp add: s; fail) | rule wp_read)+)

lemma wp_mctp_cmd_GetMCTPVersion [wf_rules]:
  assumes s: "bmc_wf s" and Q: "\<And>n s'. bmc_wf s' \<Longrightarrow> Q (n, s')"
  shows "post (mctp_cmd_GetMCTPVersion req p q s) Q"
  unfolding mctp_cmd_GetMCTPVersion_def Let_def
  by ((intro wf_rules Q | rule wp_prod | (simp add: s; fail) | rule wp_read)+)

lemma wp_mctp_cmd_GetMCTPMsgType [wf_rules]:
  assumes s: "bmc_wf s" and Q: "\<And>n s'. bmc_wf s' \<Longrightarrow> Q (n, s')"
  shows "post (mctp_cmd_GetMCTPMsgType req p q s) Q"
  unfolding mctp_cmd_GetMCTPMsgType_def Let_def
  by ((intro wf_rules Q | rule wp_prod | (simp add: s; fail) | rule wp_read)+)

lemma wp_call_mctp [wf_rules]:
  assumes "bmc_wf s" and "\<And>n s'. bmc_wf s' \<Longrightarrow> Q (n, s')"
  shows "post (call_mctp f req p q s) Q"
  unfolding call_mctp_def using assms by (cases f) (auto intro!: wf_rules)

lemma wp_init_mctp_response [wf_rules]:
  assumes s: "bmc_wf s" and Q: "\<And>s'. bmc_wf s' \<Longrightarrow> Q s'"
  shows "post (init_mctp_response req p q s) Q"
  unfolding init_mctp_response_def Let_def
  by ((intro wf_rules Q | rule wp_prod | (simp add: s; fail) | rule wp_read)+)

lemma wp_process_mctp_request [wf_rules]:
  assumes s: "bmc_wf s" and Q: "\<And>n s'. bmc_wf s' \<Longrightarrow> Q (n, s')"
  shows "post (process_mctp_request req p q r s) Q"
  unfolding process_mctp_request_def Let_def
  by ((intro wf_rules Q | rule wp_prod | (simp add: s; fail) | rule wp_read)+)

lemma wp_process_request [wf_rules]:
  assumes E: "env_wf E" and s: "bmc_wf s" and Q: "\<And>n s'. bmc_wf s' \<Longrightarrow> Q (n, s')"
  shows "post (process_request E req s) Q"
  unfolding process_request_def Let_def
  by ((intro wf_rules Q E | rule wp_prod | (simp add: s; fail) | rule wp_read)+)

lemma bmc_wf_reset [simp]: "bmc_wf s \<Longrightarrow> bmc_wf (reset_staging s)"
  by (simp add: reset_staging_def)

lemma wp_stage_payload [wf_rules]:
  assumes s: "bmc_wf s" and Q: "\<And>s'. bmc_wf s' \<Longrightarrow> Q s'"
  shows "post (stage_payload b s) Q"
  unfolding stage_payload_def Let_def
  by ((intro wf_rules Q | rule wp_prod | (simp add: s; fail) | rule wp_read)+)

lemma wp_stage_first [wf_rules]:
  assumes s: "bmc_wf s" and Q: "\<And>s'. bmc_wf s' \<Longrightarrow> Q s'"
  shows "post (stage_first b n s) Q"
  unfolding stage_first_def Let_def
  by ((intro wf_rules Q | rule wp_prod | (simp add: s; fail) | rule wp_read)+)

lemma wp_assemble [wf_rules]:
  assumes E: "env_wf E" and s: "bmc_wf s" and Q: "\<And>n s'. bmc_wf s' \<Longrightarrow> Q (n, s')"
  shows "post (assemble E f b s) Q"
  unfolding assemble_def Let_def
  by ((intro wf_rules Q E | rule wp_prod | (simp add: s; fail) | rule wp_read)+)

lemma wp_iResponseDataWrite [wf_rules]:
  assumes s: "bmc_wf s" and Q: "\<And>n s'. bmc_wf s' \<Longrightarrow> Q (n, s')"
  shows "post (iResponseDataWrite E n s) Q"
  unfolding iResponseDataWrite_def Let_def
  by ((intro wf_rules Q | rule wp_prod | (simp add: s; fail) | rule wp_read)+)

lemma wp_send_packet [wf_rules]:
  assumes s: "bmc_wf s" and Q: "\<And>n s'. bmc_wf s' \<Longrightarrow> Q (n, s')"
  shows "post (send_packet E n u s) Q"
  unfolding send_packet_def Let_def
  by ((intro wf_rules Q | rule wp_prod | (simp add: s; fail) | rule wp_read)+)

lemma wp_next_packet [wf_rules]:
  assumes s: "bmc_wf s" and Q: "\<And>s'. bmc_wf s' \<Longrightarrow> Q s'"
  shows "post (next_packet E b n s) Q"
  unfolding next_packet_def Let_def
  by ((intro wf_rules Q | rule wp_prod | (simp add: s; fail) | rule wp_read)+)

lemma wp_send_packets [wf_rules]:
  "bmc_wf s \<Longrightarrow> (\<And>s'. bmc_wf s' \<Longrightarrow> Q s') \<Longrightarrow> post (send_packets E n s) Q"
proof (induction n arbitrary: s rule: less_induct)
  case (less n)
  show ?case
    by (subst send_packets.simps, (intro wf_rules less | rule wp_prod | (simp; fail))+)
qed

lemma wp_start_response [wf_rules]:
  assumes s: "bmc_wf s" and Q: "\<And>s'. bmc_wf s' \<Longrightarrow> Q s'"
  shows "post (start_response s) Q"
  unfolding start_response_def Let_def
  by ((intro wf_rules Q | rule wp_prod | (simp add: s; fail) | rule wp_read)+)

lemma wp_process_pmci_request [wf_rules]:
  assumes E: "env_wf E" and s: "bmc_wf s" and Q: "\<And>s'. bmc_wf s' \<Longrightarrow> Q s'"
  shows "post (process_pmci_request E n s) Q"
  unfolding process_pmci_request_def Let_def
  by ((intro wf_rules Q E | rule wp_prod | (simp add: s; fail) | rule wp_read)+)

section \<open>The proxy\<close>

lemma wp_load_request [wf_rules]:
  assumes s: "bmc_wf s" and Q: "\<And>s'. bmc_wf s' \<Longrightarrow> Q s'"
  shows "post (load_request s) Q"
  unfolding load_request_def Let_def
  by ((intro wf_rules Q | rule wp_prod | (simp add: s; fail) | rule wp_read)+)

lemma wp_process_loaded [wf_rules]:
  assumes E: "env_wf E" and s: "bmc_wf s" and Q: "\<And>s'. bmc_wf s' \<Longrightarrow> Q s'"
  shows "post (process_loaded E s) Q"
  unfolding process_loaded_def Let_def
  by ((intro wf_rules Q E | rule wp_prod | (simp add: s; fail) | rule wp_read)+)

lemma bmc_wf_release [simp]: "env_wf E \<Longrightarrow> bmc_wf s \<Longrightarrow> bmc_wf (bmc_release E s)"
  by (auto simp: bmc_release_def split: prod.split dest: env_wfD)

lemma wp_vProcessRxMessage [wf_rules]:
  assumes E: "env_wf E" and s: "bmc_wf s" and Q: "\<And>s'. bmc_wf s' \<Longrightarrow> Q s'"
  shows "post (vProcessRxMessage E s) Q"
  unfolding vProcessRxMessage_def Let_def
  by ((intro wf_rules Q E | rule wp_prod | (simp add: s E; fail) | rule wp_read)+)


text \<open>The state the program starts in has these shapes.\<close>

lemma initial_bmc_wf: "bmc_wf (initial_bmc d w)"
  by (simp add: bmc_wf_def local_wf_def records_of_def time_stamp_wf_def initial_bmc_def initial_local_def initial_mctp_def
      initial_pldm_def initial_repository_def initial_timestamp_def initial_locator_def)

end
