(* ===== verification/BMC_Records.thy ===== *)
theory BMC_Records
  imports BMC_Proxy
begin

text \<open>
  The repository after its initialisation: every record of the proxy has a handle, its own
  place and a header that tells its true size.
\<close>

section \<open>Writing one record\<close>

text \<open>All of the state but the records themselves.\<close>

definition core :: "'w bmc_st \<Rightarrow> 'w bmc_st" where
  "core s = s\<lparr>xPdrTerminusLocator := [], xLocalData := (xLocalData s)\<lparr>pxPdrTemperatureSensors := None,
     pxPdrVoltageSensors := None, pxPdrCurrentSensors := None, pxPdrPowerSensors := None,
     pxPdrSensorNames := None\<rparr>\<rparr>"

lemma core_upd_repo [simp]: "core (upd_repo f s) = upd_repo f (core s)"
  by (simp add: core_def upd_repo_def)

lemma upd_repo_repo [simp]: "MSP432_PDR_Repository (upd_repo f s) = f (MSP432_PDR_Repository s)"
  by (simp add: upd_repo_def)

lemma core_repo [simp]: "MSP432_PDR_Repository (core s) = MSP432_PDR_Repository s"
  by (simp add: core_def)

lemma pdr_get_upd_repo [simp]: "pdr_get r (upd_repo f s) = pdr_get r s"
  by (cases r) (simp_all add: pdr_get_def pdr_array_def upd_repo_def)

lemma upd_repo_upd_repo [simp]: "upd_repo f (upd_repo g s) = upd_repo (\<lambda>p. f (g p)) s"
  by (simp add: upd_repo_def)

lemma core_ready: "bmc_ready (core s) = bmc_ready s"
  by (simp add: core_def bmc_ready_def bmc_firewalls_ok_def)

lemma core_counts:
  "iTotalPdrTemperature (xLocalData (core s)) = iTotalPdrTemperature (xLocalData s)"
  "iTotalPdrVoltage (xLocalData (core s)) = iTotalPdrVoltage (xLocalData s)"
  "iTotalPdrCurrent (xLocalData (core s)) = iTotalPdrCurrent (xLocalData s)"
  "iTotalPdrPower (xLocalData (core s)) = iTotalPdrPower (xLocalData s)"
  "iTotalPdrName (xLocalData (core s)) = iTotalPdrName (xLocalData s)"
  by (simp_all add: core_def)

lemma set_pdr_array_core [simp]: "core (set_pdr_array r xs s) = core s"
  by (cases r) (simp_all add: set_pdr_array_def core_def upd_local_def)

lemma pdr_get_set:
  assumes "pdr_array r s = (Some xs, i)"
  shows "pdr_get r' (set_pdr_array r (xs[i := b]) s) = (if r' = r \<and> i < length xs then Some b else pdr_get r' s)"
  using assms
  by (cases r; cases r')
    (auto simp: pdr_get_def pdr_array_def set_pdr_array_def upd_local_def elem_def Let_def nth_list_update)

lemma pdr_put_effect:
  assumes "pdr_get r s = Some old"
  shows "okay (pdr_put r b s) (\<lambda>s'. core s' = core s \<and>
    (\<forall>r'. pdr_get r' s' = (if r' = r then Some b else pdr_get r' s)))"
proof -
  obtain xs i where a: "pdr_array r s = (Some xs, i)" and i: "i < length xs"
    using assms by (auto simp: pdr_get_def elem_def split: prod.splits bind_splits if_splits)
  then show ?thesis
    by (simp add: pdr_put_def pdr_get_set [OF a])
qed

lemma length_pdr_header [simp]: "length (pdr_header h type n) = 10"
  by (simp add: pdr_header_def Let_def)

text \<open>What adding a record does to the repository.\<close>

definition repo_entry :: "nat \<Rightarrow> pdr_ref \<Rightarrow> nat \<Rightarrow> PDRRepositoryInfo \<Rightarrow> PDRRepositoryInfo" where
  "repo_entry h r n p = p\<lparr>PDRRecords := (PDRRecords p)(h := Some r), recordCount := recordCount p + 1,
     repositorySize := repositorySize p + of_nat n, largestRecordSize := max (largestRecordSize p) (of_nat n)\<rparr>"

lemma add_pdr_effect:
  assumes "pdr_get r s = Some rec" and "rec_size rec = Some (n, rec')" and "10 \<le> length rec'" and "h < 77"
  shows "okay (add_pdr r type rec_size h s) (\<lambda>s'. core s' = upd_repo (repo_entry h r n) (core s) \<and>
    (\<forall>r'. pdr_get r' s' = (if r' = r then Some (pdr_header h type n @ drop 10 rec') else pdr_get r' s)))"
proof -
  define s1 where "s1 = upd_repo (\<lambda>p. p\<lparr>PDRRecords := (PDRRecords (MSP432_PDR_Repository s))(h := Some r)\<rparr>) s"
  have put: "put_bytes 0 (pdr_header h type n) rec' = Some (pdr_header h type n @ drop 10 rec')"
    using assms(3) by (simp add: put_bytes_def)
  have "pdr_get r s1 = Some rec" using assms(1) by (simp add: s1_def)
  then obtain s2 where s2: "pdr_put r (pdr_header h type n @ drop 10 rec') s1 = Some s2" "core s2 = core s1"
    "\<And>r'. pdr_get r' s2 = (if r' = r then Some (pdr_header h type n @ drop 10 rec') else pdr_get r' s1)"
    using pdr_put_effect [of r s1 rec "pdr_header h type n @ drop 10 rec'"] by (auto simp: okay_iff)
  have c: "upd_repo f (core s2) = upd_repo (\<lambda>p. f (p\<lparr>PDRRecords := (PDRRecords p)(h := Some r)\<rparr>)) (core s)" for f
    by (simp add: s2(2) s1_def) (simp add: upd_repo_def)
  show ?thesis
    using assms(1,2,4) s2(1)
    by (simp add: add_pdr_def arr_set_def put s1_def [symmetric] s2(3) c)
      (simp add: s1_def repo_entry_def [abs_def])
qed

section \<open>All records\<close>

text \<open>The records in the order of the loops, each with its type and the computation of its size.\<close>

type_synonym pdr_entry = "pdr_ref \<times> u8 \<times> (u8 list \<Rightarrow> (nat \<times> u8 list) option)"

definition pdr_entries :: "BMCProxyDriverPrivateData \<Rightarrow> pdr_entry list" where
  "pdr_entries d =
     (Terminus 0, EPDRTypeTerminusLocator, fixed_size 35) #
     map (\<lambda>k. (Temperature k, EPDRTypeNumericSensor, fixed_size 81)) [0..<iTotalPdrTemperature d] @
     map (\<lambda>k. (Voltage k, EPDRTypeNumericSensor, fixed_size 81)) [0..<iTotalPdrVoltage d] @
     map (\<lambda>k. (Current k, EPDRTypeNumericSensor, fixed_size 81)) [0..<iTotalPdrCurrent d] @
     map (\<lambda>k. (Power k, EPDRTypeNumericSensor, fixed_size 81)) [0..<iTotalPdrPower d] @
     map (\<lambda>k. (SensorName k, EPDRTypeSensorAuxNames, name_size)) [0..<iTotalPdrName d]"

fun add_all :: "nat \<Rightarrow> pdr_entry list \<Rightarrow> 'w bmc_st \<Rightarrow> 'w bmc_st option" where
  "add_all h [] s = Some s"
| "add_all h ((r, type, rec_size) # es) s = do { s \<leftarrow> add_pdr r type rec_size h s; add_all (h + 1) es s }"

lemma add_all_append:
  "add_all h (es @ fs) s = do { s \<leftarrow> add_all h es s; add_all (h + length es) fs s }"
proof (induction h es s rule: add_all.induct)
  case (2 h r type rec_size es s)
  then show ?case by (cases "add_pdr r type rec_size h s") simp_all
qed simp

lemma add_pdrs_all: "add_pdrs r type sz h i n s = add_all h (map (\<lambda>k. (r k, type, sz)) [i..<i + n]) s"
proof (induction r type sz h i n s rule: add_pdrs.induct)
  case (2 r type rec_size h i n s)
  then show ?case by (cases "add_pdr (r i) type rec_size h s") (simp_all add: upt_conv_Cons del: upt_Suc)
qed simp

text \<open>The record and its size as an entry leaves it, given the record before.\<close>

definition entry_ok :: "'w bmc_st \<Rightarrow> pdr_entry \<Rightarrow> bool" where
  "entry_ok s e = (case e of (r, type, sz) \<Rightarrow>
     (case pdr_get r s of None \<Rightarrow> False | Some rec \<Rightarrow>
       (case sz rec of None \<Rightarrow> False | Some (n, rec') \<Rightarrow> 10 \<le> length rec')))"

definition entry_size :: "'w bmc_st \<Rightarrow> pdr_entry \<Rightarrow> nat" where
  "entry_size s e = (case e of (r, type, sz) \<Rightarrow> fst (the (sz (the (pdr_get r s)))))"

definition entry_record :: "'w bmc_st \<Rightarrow> nat \<Rightarrow> pdr_entry \<Rightarrow> u8 list" where
  "entry_record s h e = (case e of (r, type, sz) \<Rightarrow>
     (let (n, rec) = the (sz (the (pdr_get r s))) in pdr_header h type n @ drop 10 rec))"

fun repo_entries :: "nat \<Rightarrow> (pdr_ref \<times> nat) list \<Rightarrow> PDRRepositoryInfo \<Rightarrow> PDRRepositoryInfo" where
  "repo_entries h [] p = p"
| "repo_entries h ((r, n) # es) p = repo_entries (h + 1) es (repo_entry h r n p)"

lemma repo_entries_fun:
  "repo_entries h [] = (\<lambda>p. p)"
  "repo_entries h ((r, n) # es) = (\<lambda>p. repo_entries (h + 1) es (repo_entry h r n p))"
  by (rule ext, simp)+

lemma add_all_effect:
  assumes "distinct (map fst es)" and "list_all (entry_ok s) es" and "h + length es \<le> 77"
  shows "okay (add_all h es s) (\<lambda>s'.
    core s' = upd_repo (repo_entries h (map (\<lambda>e. (fst e, entry_size s e)) es)) (core s) \<and>
    (\<forall>k < length es. pdr_get (fst (es ! k)) s' = Some (entry_record s (h + k) (es ! k))) \<and>
    (\<forall>r. r \<notin> fst ` set es \<longrightarrow> pdr_get r s' = pdr_get r s))"
  using assms
proof (induction es arbitrary: h s)
  case Nil
  then show ?case by (simp add: upd_repo_def repo_entries_fun)
next
  case (Cons e es)
  obtain r type sz where e: "e = (r, type, sz)" by (cases e)
  obtain rec n rec' where rec: "pdr_get r s = Some rec" "sz rec = Some (n, rec')" "10 \<le> length rec'"
    using Cons.prems(2) by (auto simp: e entry_ok_def split: option.splits)
  obtain s1 where s1: "add_pdr r type sz h s = Some s1" "core s1 = upd_repo (repo_entry h r n) (core s)"
    "\<And>r'. pdr_get r' s1 = (if r' = r then Some (pdr_header h type n @ drop 10 rec') else pdr_get r' s)"
    using add_pdr_effect [of r s rec sz n rec' h type, OF rec] Cons.prems(3) by (auto simp: okay_iff)
  have other: "fst x \<noteq> r" if "x \<in> set es" for x
    using that Cons.prems(1) by (auto simp: e)
  then have same: "entry_ok s1 x = entry_ok s x" "entry_size s1 x = entry_size s x"
    "entry_record s1 k x = entry_record s k x" if "x \<in> set es" for x k
    using other [OF that]
    by (cases x; simp add: entry_ok_def entry_size_def entry_record_def s1(3))+
  have "list_all (entry_ok s1) es"
    using Cons.prems(2) by (simp add: list_all_iff same)
  then obtain s2 where s2: "add_all (h + 1) es s1 = Some s2"
    "core s2 = upd_repo (repo_entries (h + 1) (map (\<lambda>e. (fst e, entry_size s1 e)) es)) (core s1)"
    "\<And>k. k < length es \<Longrightarrow> pdr_get (fst (es ! k)) s2 = Some (entry_record s1 (h + 1 + k) (es ! k))"
    "\<And>r. r \<notin> fst ` set es \<Longrightarrow> pdr_get r s2 = pdr_get r s1"
    using Cons.IH [of s1 "h + 1"] Cons.prems by (auto simp: okay_iff)
  have size: "entry_size s e = n" by (simp add: e entry_size_def rec)
  have "map (\<lambda>e. (fst e, entry_size s1 e)) es = map (\<lambda>e. (fst e, entry_size s e)) es"
    by (simp add: same)
  with s2(2) have "core s2 = upd_repo (repo_entries h (map (\<lambda>e. (fst e, entry_size s e)) (e # es))) (core s)"
    by (simp add: s1(2) size [unfolded e] e repo_entries_fun)
  moreover have "pdr_get (fst ((e # es) ! k)) s2 = Some (entry_record s (h + k) ((e # es) ! k))"
    if "k < length (e # es)" for k
  proof (cases k)
    case 0
    have "r \<notin> fst ` set es" using Cons.prems(1) by (simp add: e)
    with 0 show ?thesis by (simp add: e s2(4) s1(3) entry_record_def rec)
  next
    case (Suc j)
    with that have "j < length es" by simp
    with Suc s2(3) [of j] show ?thesis by (simp add: same)
  qed
  moreover have "pdr_get r' s2 = pdr_get r' s" if "r' \<notin> fst ` set (e # es)" for r'
    using that s2(4) [of r'] s1(3) [of r'] by (auto simp: e)
  ultimately show ?case
    using s1(1) s2(1) by (simp add: e repo_entries_fun)
qed

section \<open>The initialisation\<close>

definition has_terminator :: "u8 list \<Rightarrow> bool" where
  "has_terminator rec \<longleftrightarrow> list_ex (\<lambda>k. get16 (take 64 (drop SENSOR_NAME_OFFSET rec)) (2 * k) = Some 0) [0..<MAX_NAME_SIZE]"

definition sensors_ok :: "u8 list list option \<Rightarrow> nat \<Rightarrow> nat \<Rightarrow> bool" where
  "sensors_ok p n len \<longleftrightarrow>
     (case p of None \<Rightarrow> n = 0 | Some xs \<Rightarrow> length xs = n \<and> list_all (\<lambda>rec. length rec = len) xs)"

text \<open>The arrays hold as many records as the proxy counts, of their sizes, and fit the repository.\<close>

definition wf_sensors :: "'w bmc_st \<Rightarrow> bool" where
  "wf_sensors s \<longleftrightarrow> (let d = xLocalData s in
     length (pucUuid d) = HAL_UUID_SIZE \<and>
     sensors_ok (Some (xPdrTerminusLocator s)) 1 sizeof_TerminusPDRFormatUid \<and>
     sensors_ok (pxPdrTemperatureSensors d) (iTotalPdrTemperature d) sizeof_PLDMNumericSensorPdr \<and>
     sensors_ok (pxPdrVoltageSensors d) (iTotalPdrVoltage d) sizeof_PLDMNumericSensorPdr \<and>
     sensors_ok (pxPdrCurrentSensors d) (iTotalPdrCurrent d) sizeof_PLDMNumericSensorPdr \<and>
     sensors_ok (pxPdrPowerSensors d) (iTotalPdrPower d) sizeof_PLDMNumericSensorPdr \<and>
     sensors_ok (pxPdrSensorNames d) (iTotalPdrName d) sizeof_PLDMNumericSensorNamePdr \<and>
     (case pxPdrSensorNames d of None \<Rightarrow> True | Some xs \<Rightarrow> list_all has_terminator xs) \<and>
     1 + iTotalPdrTemperature d + iTotalPdrVoltage d + iTotalPdrCurrent d + iTotalPdrPower d + iTotalPdrName d
       \<le> TOTAL_PDR_COUNT)"

text \<open>The length of a name, the terminator included, and the size of its record.\<close>

definition name_length :: "u8 list \<Rightarrow> nat" where
  "name_length rec = Suc (LEAST k. get16 (take 64 (drop SENSOR_NAME_OFFSET rec)) (2 * k) = Some 0)"

lemma name_scan_first:
  assumes "i \<le> m" and "get16 name (2 * m) = Some 0" and "\<And>k. i \<le> k \<Longrightarrow> k < m \<Longrightarrow> get16 name (2 * k) \<noteq> Some 0"
    and "2 * m + 1 < length name" and "m \<le> i + k"
  shows "name_scan name i k = Some m"
  using assms
proof (induction k arbitrary: i)
  case 0
  then have "i = m" by simp
  then show ?case by (subst name_scan.simps) (simp add: 0(2))
next
  case (Suc k)
  show ?case
  proof (cases "i = m")
    case True
    with Suc.prems show ?thesis by (subst name_scan.simps) simp
  next
    case False
    then have lt: "i < m" using Suc.prems(1) by simp
    then obtain c where c: "get16 name (2 * i) = Some c"
      using Suc.prems(4) by (auto simp: get16_Some)
    then have "c \<noteq> 0" using Suc.prems(3) [of i] lt by auto
    moreover have "name_scan name (i + 1) k = Some m"
      using Suc.IH [of "i + 1"] Suc.prems lt by simp
    ultimately show ?thesis using c by (subst name_scan.simps) simp
  qed
qed

lemma name_size_ok:
  assumes "length rec = sizeof_PLDMNumericSensorNamePdr" and "has_terminator rec"
  shows "\<exists>rec'. name_size rec = Some (22 + 2 * name_length rec, rec') \<and> rec' = rec \<and> name_length rec \<le> 32"
proof -
  define name where "name = take 64 (drop 22 rec)"
  define m where "m = (LEAST k. get16 name (2 * k) = Some 0)"
  have len: "length name = 64" using assms(1) by (simp add: name_def)
  obtain k where k: "get16 name (2 * k) = Some 0" "k < 32"
    using assms(2) by (auto simp: has_terminator_def list_ex_iff name_def)
  have m: "get16 name (2 * m) = Some 0" "m \<le> k"
    unfolding m_def by (rule LeastI [where P = "\<lambda>k. get16 name (2 * k) = Some 0", OF k(1)])
      (rule Least_le [where P = "\<lambda>k. get16 name (2 * k) = Some 0", OF k(1)])
  have "name_scan name 0 32 = Some m"
    by (rule name_scan_first) (use m k len in \<open>auto simp: m_def dest: not_less_Least\<close>)
  moreover have "put16 62 0 name = Some name" if "m = 31"
    using put16_get16 [OF m(1)] that by simp
  ultimately have e: "sensor_name_empty_space name = Some (2 * (32 - (m + 1)), name)"
    by (auto simp: sensor_name_empty_space_def Let_def)
  have g: "get_bytes rec 22 64 = Some name" using assms(1) by (simp add: name_def)
  have "name_size rec = Some (86 - 2 * (32 - (m + 1)), rec)"
    by (simp add: name_size_def e g put_bytes_get_bytes [OF g])
  moreover have "name_length rec = m + 1" by (simp add: name_length_def m_def name_def)
  ultimately show ?thesis using m(2) k(2) by simp
qed

text \<open>Every entry of the repository is in order, and its size is known.\<close>

definition record_size :: "'w bmc_st \<Rightarrow> pdr_ref \<Rightarrow> nat" where
  "record_size s r = (case r of Terminus _ \<Rightarrow> sizeof_TerminusPDRFormatUid
     | SensorName _ \<Rightarrow> SENSOR_NAME_OFFSET + 2 * name_length (the (pdr_get r s))
     | _ \<Rightarrow> sizeof_PLDMNumericSensorPdr)"

lemma sensors_elem:
  assumes "sensors_ok p n len" and "i < n"
  shows "\<exists>rec. elem p i = Some rec \<and> length rec = len \<and> (\<forall>xs. p = Some xs \<longrightarrow> rec \<in> set xs)"
  using assms by (cases p) (auto simp: sensors_ok_def elem_def list_all_iff)

lemma pdr_entries_cases:
  assumes "e \<in> set (pdr_entries d)"
  shows "e = (Terminus 0, EPDRTypeTerminusLocator, fixed_size 35) \<or>
    (\<exists>k < iTotalPdrTemperature d. e = (Temperature k, EPDRTypeNumericSensor, fixed_size 81)) \<or>
    (\<exists>k < iTotalPdrVoltage d. e = (Voltage k, EPDRTypeNumericSensor, fixed_size 81)) \<or>
    (\<exists>k < iTotalPdrCurrent d. e = (Current k, EPDRTypeNumericSensor, fixed_size 81)) \<or>
    (\<exists>k < iTotalPdrPower d. e = (Power k, EPDRTypeNumericSensor, fixed_size 81)) \<or>
    (\<exists>k < iTotalPdrName d. e = (SensorName k, EPDRTypeSensorAuxNames, name_size))"
  using assms by (auto simp: pdr_entries_def)

lemma wf_sensorsD:
  assumes "wf_sensors s"
  shows "k < iTotalPdrTemperature (xLocalData s) \<Longrightarrow> \<exists>rec. pdr_get (Temperature k) s = Some rec \<and> length rec = 81"
    and "k < iTotalPdrVoltage (xLocalData s) \<Longrightarrow> \<exists>rec. pdr_get (Voltage k) s = Some rec \<and> length rec = 81"
    and "k < iTotalPdrCurrent (xLocalData s) \<Longrightarrow> \<exists>rec. pdr_get (Current k) s = Some rec \<and> length rec = 81"
    and "k < iTotalPdrPower (xLocalData s) \<Longrightarrow> \<exists>rec. pdr_get (Power k) s = Some rec \<and> length rec = 81"
  using assms
  by (auto simp: wf_sensors_def Let_def pdr_get_def pdr_array_def dest: sensors_elem)

lemma wf_namesD:
  assumes "wf_sensors s" and "k < iTotalPdrName (xLocalData s)"
  shows "\<exists>rec. pdr_get (SensorName k) s = Some rec \<and> length rec = 86 \<and> has_terminator rec"
proof -
  have "sensors_ok (pxPdrSensorNames (xLocalData s)) (iTotalPdrName (xLocalData s)) 86"
    using assms(1) by (simp add: wf_sensors_def Let_def)
  from sensors_elem [OF this assms(2)] obtain rec xs where
    "pxPdrSensorNames (xLocalData s) = Some xs" "elem (Some xs) k = Some rec" "length rec = 86" "rec \<in> set xs"
    by (cases "pxPdrSensorNames (xLocalData s)") (auto simp: elem_def)
  then show ?thesis
    using assms(1) by (auto simp: wf_sensors_def Let_def pdr_get_def pdr_array_def list_all_iff)
qed

definition entry_known :: "'w bmc_st \<Rightarrow> pdr_entry \<Rightarrow> bool" where
  "entry_known s e \<longleftrightarrow> (\<exists>rec. pdr_get (fst e) s = Some rec \<and> snd (snd e) rec = Some (record_size s (fst e), rec) \<and>
     10 \<le> record_size s (fst e) \<and> record_size s (fst e) \<le> length rec \<and> length rec \<le> 86)"

lemma sensor_entry_known:
  "\<exists>rec. pdr_get r s = Some rec \<and> length rec = 81 \<Longrightarrow> record_size s r = 81 \<Longrightarrow> entry_known s (r, type, fixed_size 81)"
  by (auto simp: entry_known_def fixed_size_def)

lemma entries_known:
  assumes "wf_sensors s" and "e \<in> set (pdr_entries (xLocalData s))"
  shows "entry_known s e"
  using pdr_entries_cases [OF assms(2)]
proof (elim disjE exE conjE)
  assume e: "e = (Terminus 0, EPDRTypeTerminusLocator, fixed_size 35)"
  have "\<exists>rec. pdr_get (Terminus 0) s = Some rec \<and> length rec = 35"
    using assms(1) sensors_elem [of "Some (xPdrTerminusLocator s)" 1 35 0]
    by (auto simp: wf_sensors_def Let_def pdr_get_def pdr_array_def)
  then show ?thesis by (auto simp: e entry_known_def fixed_size_def record_size_def)
next
  fix k
  assume k: "k < iTotalPdrName (xLocalData s)" and e: "e = (SensorName k, EPDRTypeSensorAuxNames, name_size)"
  obtain rec where rec: "pdr_get (SensorName k) s = Some rec" "length rec = 86" "has_terminator rec"
    using wf_namesD [OF assms(1) k] by blast
  then show ?thesis
    using name_size_ok [OF rec(2,3)] by (auto simp: e entry_known_def record_size_def)
qed (simp_all add: record_size_def sensor_entry_known wf_sensorsD [OF assms(1)])

lemma entries_ok:
  assumes "wf_sensors s"
  shows "list_all (entry_ok s) (pdr_entries (xLocalData s))"
    and "e \<in> set (pdr_entries (xLocalData s)) \<Longrightarrow> entry_size s e = record_size s (fst e)"
    and "e \<in> set (pdr_entries (xLocalData s)) \<Longrightarrow>
      \<exists>rec. pdr_get (fst e) s = Some rec \<and>
        entry_record s h e = pdr_header h (fst (snd e)) (record_size s (fst e)) @ drop 10 rec"
proof -
  have k: "entry_known s e" if "e \<in> set (pdr_entries (xLocalData s))" for e
    using entries_known [OF assms that] .
  show "list_all (entry_ok s) (pdr_entries (xLocalData s))"
    unfolding list_all_iff
  proof
    fix e assume "e \<in> set (pdr_entries (xLocalData s))"
    from k [OF this] show "entry_ok s e"
      by (cases e) (auto simp: entry_ok_def entry_known_def)
  qed
  show "entry_size s e = record_size s (fst e)" if "e \<in> set (pdr_entries (xLocalData s))"
    using k [OF that] by (cases e) (auto simp: entry_size_def entry_known_def)
  show "\<exists>rec. pdr_get (fst e) s = Some rec \<and>
      entry_record s h e = pdr_header h (fst (snd e)) (record_size s (fst e)) @ drop 10 rec"
    if "e \<in> set (pdr_entries (xLocalData s))"
    using k [OF that] by (cases e) (auto simp: entry_record_def entry_known_def)
qed

lemma distinct_entries: "distinct (map fst (pdr_entries d))"
  by (auto simp: pdr_entries_def distinct_map inj_on_def comp_def)

lemma repo_entries_effect:
  assumes "\<forall>e \<in> set es. snd e \<le> 86"
  shows "repo_entries h es p = p\<lparr>
    PDRRecords := (\<lambda>j. if h \<le> j \<and> j < h + length es then Some (fst (es ! (j - h))) else PDRRecords p j),
    recordCount := recordCount p + of_nat (length es),
    repositorySize := repositorySize p + of_nat (sum_list (map snd es)),
    largestRecordSize := fold (\<lambda>n m. max m (of_nat n)) (map snd es) (largestRecordSize p)\<rparr>"
proof (induction es arbitrary: h p)
  case (Cons e es)
  obtain r n where e: "e = (r, n)" by (cases e)
  have eq: "(\<lambda>j. if Suc h \<le> j \<and> j < Suc (h + length es) then Some (fst (es ! (j - Suc h)))
        else PDRRecords (repo_entry h r n p) j) =
      (\<lambda>j. if h \<le> j \<and> j < Suc (h + length es) then Some (fst (((r, n) # es) ! (j - h))) else PDRRecords p j)"
    by (rule ext) (auto simp: repo_entry_def nth_Cons' dest!: le_Suc_ex)
  show ?case
    unfolding e by (simp add: Cons.IH eq) (simp add: repo_entry_def ac_simps)
next
  case Nil
  then show ?case by (cases p) (auto simp: fun_eq_iff)
qed

lemma fold_max_words:
  assumes "\<forall>n \<in> set ns. n \<le> 86" and "k \<le> 86"
  shows "fold (\<lambda>n m. max m (of_nat n)) ns (of_nat k) = (of_nat (fold max ns k) :: u32)"
  using assms
proof (induction ns arbitrary: k)
  case (Cons n ns)
  have "max (of_nat k) (of_nat n) = (of_nat (max n k) :: u32)"
    using Cons.prems by (simp add: max_def word_le_nat_alt unsigned_of_nat take_bit_nat_eq_self)
  with Cons show ?case by simp
qed simp

lemma fold_max_Max: "fold max ns k = Max (insert k (set ns))" for k :: nat
  using Max.set_eq_fold [of k ns] by simp

section \<open>The built repository\<close>

text \<open>The references of the repository, in the order of their handles.\<close>

definition pdr_refs :: "'w bmc_st \<Rightarrow> pdr_ref list" where
  "pdr_refs s = map fst (pdr_entries (xLocalData s))"

definition pdr_type :: "pdr_ref \<Rightarrow> u8" where
  "pdr_type r = (case r of Terminus _ \<Rightarrow> EPDRTypeTerminusLocator | SensorName _ \<Rightarrow> EPDRTypeSensorAuxNames
     | _ \<Rightarrow> EPDRTypeNumericSensor)"

text \<open>The record of a reference before the initialisation, the terminus record with the device's UUID.\<close>

definition with_uuid :: "'w bmc_st \<Rightarrow> 'w bmc_st" where
  "with_uuid s = s\<lparr>xPdrTerminusLocator := [take DEVICE_UID_OFFSET (xPdrTerminusLocator s ! 0) @ pucUuid (xLocalData s)]\<rparr>"

definition blank_repo :: "PDRRepositoryInfo \<Rightarrow> PDRRepositoryInfo" where
  "blank_repo p = p\<lparr>iIsRepoInitialized := True, repositoryState := ERepoStateAvailable,
     recordCount := 0, repositorySize := 0, largestRecordSize := 0, dataTransferHandleTimeout := 0,
     updateTimestamp := vUpdateTimestamp (updateTimestamp p)\<lparr>UTC_Time_Resolution := 0xF\<rparr>,
     OEMUpdateTimestamp := vUpdateTimestamp (updateTimestamp p)\<lparr>UTC_Time_Resolution := 0xF\<rparr>\<rparr>"

lemma entries_type: "e \<in> set (pdr_entries d) \<Longrightarrow> fst (snd e) = pdr_type (fst e)"
  by (auto dest!: pdr_entries_cases simp: pdr_type_def)

lemma wf_with_uuid: "wf_sensors s \<Longrightarrow> wf_sensors (with_uuid s)"
  by (auto simp: wf_sensors_def with_uuid_def Let_def sensors_ok_def list_all_iff length_Suc_conv)

lemma length_entries: "wf_sensors s \<Longrightarrow> length (pdr_entries (xLocalData s)) \<le> 77"
  by (simp add: wf_sensors_def pdr_entries_def Let_def)

lemma init_terminus_all:
  assumes "wf_sensors s"
  shows "init_terminus s = add_all 0 [(Terminus 0, EPDRTypeTerminusLocator, fixed_size 35)] (with_uuid s)"
proof -
  obtain t where t: "xPdrTerminusLocator s = [t]" "length t = 35" and u: "length (pucUuid (xLocalData s)) = 16"
    using assms by (auto simp: wf_sensors_def Let_def sensors_ok_def length_Suc_conv)
  have 1: "pdr_put (Terminus 0) (take 19 t @ pucUuid (xLocalData s)) s = Some (with_uuid s)"
    by (simp add: pdr_put_def pdr_array_def set_pdr_array_def with_uuid_def t)
  have 2: "pdr_get (Terminus 0) s = Some t"
    by (simp add: pdr_get_def pdr_array_def elem_def t)
  have 3: "put_bytes 19 (pucUuid (xLocalData s)) t = Some (take 19 t @ pucUuid (xLocalData s))"
    using t u by (simp add: put_bytes_def)
  have 4: "get_bytes (pucUuid (xLocalData s)) 0 16 = Some (pucUuid (xLocalData s))"
    using u by (simp add: get_bytes_def)
  show ?thesis
    by (cases "add_pdr (Terminus 0) 1 (fixed_size 35) 0 (with_uuid s)") (simp_all add: init_terminus_def 1 2 3 4)
qed

text \<open>No record changes how many sensors there are.\<close>

definition same_counts :: "'w bmc_st \<Rightarrow> 'w bmc_st \<Rightarrow> bool" where
  "same_counts s s' \<longleftrightarrow> iGetNumTemperatureSensors s' = iGetNumTemperatureSensors s \<and>
     iGetNumVoltageSensors s' = iGetNumVoltageSensors s \<and> iGetNumCurrentSensors s' = iGetNumCurrentSensors s \<and>
     iGetNumPowerSensors s' = iGetNumPowerSensors s \<and> iGetNumNameSensors s' = iGetNumNameSensors s"

lemma same_counts_core: "core s' = upd_repo f (core s) \<Longrightarrow> same_counts s s'"
proof -
  assume c: "core s' = upd_repo f (core s)"
  have x: "xLocalData (core s') = xLocalData (core s)" using c by (simp add: upd_repo_def)
  then have r: "bmc_ready s' = bmc_ready s"
    by (metis core_ready bmc_ready_def bmc_firewalls_ok_def)
  have "iTotalPdrTemperature (xLocalData s') = iTotalPdrTemperature (xLocalData s)"
    "iTotalPdrVoltage (xLocalData s') = iTotalPdrVoltage (xLocalData s)"
    "iTotalPdrCurrent (xLocalData s') = iTotalPdrCurrent (xLocalData s)"
    "iTotalPdrPower (xLocalData s') = iTotalPdrPower (xLocalData s)"
    "iTotalPdrName (xLocalData s') = iTotalPdrName (xLocalData s)"
    using x core_counts by metis+
  with r show ?thesis
    by (simp add: same_counts_def iGetNumTemperatureSensors_def iGetNumVoltageSensors_def
        iGetNumCurrentSensors_def iGetNumPowerSensors_def iGetNumNameSensors_def)
qed

lemma bind_eqI: "(\<And>x. m = Some x \<Longrightarrow> f x = g x) \<Longrightarrow> Option.bind m f = Option.bind m g"
  by (cases m) simp_all

lemma pdr_put_core: "pdr_put r b s = Some s' \<Longrightarrow> core s' = core s"
  by (auto simp: pdr_put_def split: prod.splits bind_splits if_splits)

lemma same_counts_trans: "same_counts s t \<Longrightarrow> same_counts t u \<Longrightarrow> same_counts s u"
  by (simp add: same_counts_def)

lemma add_pdr_counts: "add_pdr r type sz h s = Some s' \<Longrightarrow> same_counts s s'"
proof -
  assume "add_pdr r type sz h s = Some s'"
  then have "\<exists>f. core s' = upd_repo f (core s)"
    by (auto simp: add_pdr_def Let_def split: bind_splits dest!: pdr_put_core) (rule exI, rule refl)
  then show ?thesis using same_counts_core by blast
qed

lemma add_all_counts: "add_all h es s = Some s' \<Longrightarrow> same_counts s s'"
proof (induction h es s rule: add_all.induct)
  case (2 h r type rec_size es s)
  then show ?case
    by (auto split: bind_splits dest: add_pdr_counts intro: same_counts_trans)
qed (simp add: same_counts_def)

lemma repo_init_all:
  assumes "wf_sensors s" and "bmc_ready s" and "\<not> iIsRepoInitialized (MSP432_PDR_Repository s)"
  shows "vPdrRepoInit s = add_all 0 (pdr_entries (xLocalData s)) (with_uuid (upd_repo blank_repo s))"
proof -
  define s0 where "s0 = with_uuid (upd_repo blank_repo s)"
  let ?d = "xLocalData s"
  define A where "A = [(Terminus 0, EPDRTypeTerminusLocator, fixed_size 35)]"
  define B where "B r n = map (\<lambda>k. (r k, EPDRTypeNumericSensor, fixed_size 81)) [0..<n]" for r :: "nat \<Rightarrow> pdr_ref" and n
  define C where "C = map (\<lambda>k. (SensorName k, EPDRTypeSensorAuxNames, name_size)) [0..<iTotalPdrName ?d]"
  note ents = A_def B_def C_def
  have parts: "pdr_entries ?d = A @ B Temperature (iTotalPdrTemperature ?d) @ B Voltage (iTotalPdrVoltage ?d) @
      B Current (iTotalPdrCurrent ?d) @ B Power (iTotalPdrPower ?d) @ C"
    by (simp add: pdr_entries_def ents)
  have wf0: "wf_sensors (upd_repo blank_repo s)" using assms(1) by (simp add: wf_sensors_def upd_repo_def)
  have same: "same_counts s t'" if "add_all h es t = Some t'" "same_counts s t" for h es and t t' :: "'a bmc_st"
    using that add_all_counts same_counts_trans by blast
  have same0: "same_counts s s0"
    by (rule same_counts_core [of _ blank_repo]) (simp add: s0_def with_uuid_def core_def upd_repo_def)
  have n: "iGetNumTemperatureSensors t = iTotalPdrTemperature ?d" "iGetNumVoltageSensors t = iTotalPdrVoltage ?d"
    "iGetNumCurrentSensors t = iTotalPdrCurrent ?d" "iGetNumPowerSensors t = iTotalPdrPower ?d"
    "iGetNumNameSensors t = iTotalPdrName ?d" if "same_counts s t" for t
    using that assms(2)
    by (simp_all add: same_counts_def iGetNumTemperatureSensors_def iGetNumVoltageSensors_def
        iGetNumCurrentSensors_def iGetNumPowerSensors_def iGetNumNameSensors_def)
  have step: "add_all h (es @ fs) t = (case add_all h es t of None \<Rightarrow> None | Some t \<Rightarrow> add_all (h + length es) fs t)" for h es fs t
    by (simp add: add_all_append split: option.split)
  have len: "length A = 1" "length (B r k) = k" for r k by (simp_all add: ents)
  have "init_terminus (upd_repo blank_repo s) = add_all 0 A s0"
    by (simp add: init_terminus_all [OF wf0] s0_def A_def)
  then have "vPdrRepoInit s = add_all 0 A s0 \<bind> (\<lambda>s.
      add_all 1 (B Temperature (iGetNumTemperatureSensors s)) s \<bind> (\<lambda>t.
      add_all (1 + iGetNumTemperatureSensors s) (B Voltage (iGetNumVoltageSensors t)) t \<bind> (\<lambda>u.
      add_all (1 + iGetNumTemperatureSensors s + iGetNumVoltageSensors t) (B Current (iGetNumCurrentSensors u)) u \<bind> (\<lambda>v.
      add_all (1 + iGetNumTemperatureSensors s + iGetNumVoltageSensors t + iGetNumCurrentSensors u)
        (B Power (iGetNumPowerSensors v)) v \<bind> (\<lambda>w.
      add_all (1 + iGetNumTemperatureSensors s + iGetNumVoltageSensors t + iGetNumCurrentSensors u + iGetNumPowerSensors v)
        (map (\<lambda>k. (SensorName k, EPDRTypeSensorAuxNames, name_size)) [0..<iGetNumNameSensors w]) w)))))"
    using assms(3) by (simp add: vPdrRepoInit_def blank_repo_def [abs_def, symmetric] add_pdrs_all B_def Let_def)
  also have "\<dots> = add_all 0 (pdr_entries ?d) s0"
    unfolding parts add_all_append len C_def
    by (rule bind_eqI, frule same, rule same0, simp only: n add_0,
        (rule bind_eqI, frule (1) same, simp only: n)+)
  finally show ?thesis by (simp add: s0_def)
qed

text \<open>What the repository holds once it is built, \<open>s\<close> being the state before.\<close>

lemma sizes_bound:
  assumes "wf_sensors s" and "e \<in> set (pdr_entries (xLocalData s))"
  shows "record_size s (fst e) \<le> 86" and "10 \<le> record_size s (fst e)"
  using entries_known [OF assms] by (auto simp: entry_known_def)

definition built_repo :: "'w bmc_st \<Rightarrow> PDRRepositoryInfo" where
  "built_repo s = (blank_repo (MSP432_PDR_Repository s))
     \<lparr>PDRRecords := (\<lambda>h. if h < length (pdr_refs s) then Some (pdr_refs s ! h)
          else PDRRecords (MSP432_PDR_Repository s) h),
      recordCount := of_nat (length (pdr_refs s)),
      repositorySize := of_nat (sum_list (map (record_size (with_uuid s)) (pdr_refs s))),
      largestRecordSize := of_nat (Max (set (map (record_size (with_uuid s)) (pdr_refs s))))\<rparr>"

definition built_record :: "'w bmc_st \<Rightarrow> nat \<Rightarrow> u8 list" where
  "built_record s h = (let r = pdr_refs s ! h in
     pdr_header h (pdr_type r) (record_size (with_uuid s) r) @ drop 10 (the (pdr_get r (with_uuid s))))"

lemma repo_init_builds:
  assumes wf: "wf_sensors s" and ready: "bmc_ready s" and new: "\<not> iIsRepoInitialized (MSP432_PDR_Repository s)"
  shows "okay (vPdrRepoInit s) (\<lambda>s'.
    core s' = upd_repo (\<lambda>_. built_repo s) (core s) \<and>
    (\<forall>h < length (pdr_refs s). pdr_get (pdr_refs s ! h) s' = Some (built_record s h)))"
proof -
  define t where "t = with_uuid (upd_repo blank_repo s)"
  have t: "t = upd_repo blank_repo (with_uuid s)" by (simp add: t_def with_uuid_def upd_repo_def)
  have x: "xLocalData t = xLocalData s" by (simp add: t upd_repo_def with_uuid_def)
  have wft: "wf_sensors t" using wf_with_uuid [OF wf] by (simp add: t wf_sensors_def upd_repo_def)
  have get: "pdr_get r t = pdr_get r (with_uuid s)" for r by (simp add: t)
  then have size: "record_size t r = record_size (with_uuid s) r" for r by (cases r) (simp_all add: record_size_def)
  let ?es = "pdr_entries (xLocalData s)"
  note ok = entries_ok [OF wft, unfolded x]
  have core: "core t = upd_repo blank_repo (core s)" by (simp add: t with_uuid_def core_def upd_repo_def)
  obtain s' where s': "add_all 0 ?es t = Some s'"
    "core s' = upd_repo (repo_entries 0 (map (\<lambda>e. (fst e, entry_size t e)) ?es)) (core t)"
    "\<And>k. k < length ?es \<Longrightarrow> pdr_get (fst (?es ! k)) s' = Some (entry_record t k (?es ! k))"
    using add_all_effect [OF distinct_entries ok(1), of 0] length_entries [OF wf] by (auto simp: okay_iff)
  have es: "map (\<lambda>e. (fst e, entry_size t e)) ?es = map (\<lambda>r. (r, record_size (with_uuid s) r)) (pdr_refs s)"
    by (simp add: pdr_refs_def ok(2) size)
  let ?ns = "map (record_size (with_uuid s)) (pdr_refs s)"
  have bound: "\<forall>n \<in> set ?ns. n \<le> 86"
    using sizes_bound(1) [OF wft, unfolded x] by (auto simp: pdr_refs_def size)
  then have bound': "\<forall>e \<in> set (map (\<lambda>r. (r, record_size (with_uuid s) r)) (pdr_refs s)). snd e \<le> 86"
    by auto
  have ne: "?ns \<noteq> []" by (simp add: pdr_refs_def pdr_entries_def)
  have "fold (\<lambda>n m. max m (of_nat n)) ?ns 0 = (of_nat (Max (insert 0 (set ?ns))) :: u32)"
    using fold_max_words [OF bound, of 0] by (simp add: fold_max_Max)
  also have "Max (insert 0 (set ?ns)) = Max (set ?ns)"
    using ne by (subst Max_insert) (auto simp: max_def)
  finally have large: "fold (\<lambda>n m. max m (of_nat n)) ?ns 0 = (of_nat (Max (set ?ns)) :: u32)" .
  have "core s' = upd_repo (\<lambda>_. built_repo s) (core s)"
    unfolding s'(2) es core upd_repo_def core_repo
    by (simp add: repo_entries_effect bound' comp_def large built_repo_def blank_repo_def core_def
        cong: if_cong)
  moreover have "pdr_get (pdr_refs s ! h) s' = Some (built_record s h)" if "h < length (pdr_refs s)" for h
  proof -
    have h: "h < length ?es" using that by (simp add: pdr_refs_def)
    then have "?es ! h \<in> set ?es" by simp
    from ok(3) [OF this, of h] s'(3) [OF h] h show ?thesis
      by (auto simp: pdr_refs_def built_record_def get size entries_type [OF nth_mem [OF h]] Let_def)
  qed
  ultimately show ?thesis
    by (simp add: repo_init_all [OF assms] s'(1) flip: t_def)
qed

lemma header_reads:
  assumes "10 \<le> n" and "n \<le> 86"
  shows "get32 (pdr_header h type n @ xs) 0 = Some (of_nat h)" "get8 (pdr_header h type n @ xs) 4 = Some 1"
    "get8 (pdr_header h type n @ xs) 5 = Some type" "get16 (pdr_header h type n @ xs) 6 = Some 0"
    "get16 (pdr_header h type n @ xs) 8 = Some (of_nat (n - 10))"
proof -
  obtain b0 b1 b2 b3 where b: "le_bytes32 (of_nat h) = [b0, b1, b2, b3]" by (simp add: le_bytes32_def)
  show "get32 (pdr_header h type n @ xs) 0 = Some (of_nat h)"
    by (simp add: get32_def load32_def pdr_header_def b le_word32_bytes [OF b] Let_def)
  show "get8 (pdr_header h type n @ xs) 4 = Some 1" "get8 (pdr_header h type n @ xs) 5 = Some type"
    "get16 (pdr_header h type n @ xs) 6 = Some 0"
    by (simp_all add: pdr_header_def b Let_def get16_Some)
  have "ucast (ucast w :: u8) OR push_bit 8 (ucast (ucast (drop_bit 8 w) :: u8)) = w" for w :: u16
    by (rule bit_word_eqI) (auto simp: bit_simps not_le)
  from this [of "of_nat (n - 10)"] show "get16 (pdr_header h type n @ xs) 8 = Some (of_nat (n - 10))"
    by (simp add: pdr_header_def b Let_def get16_Some)
qed

text \<open>
  C18: With well-formed sensor arrays, the initialisation of the repository gives every record, the
  terminus locator first and the sensors and names in the order of their arrays, the handle
  of its position; the record then starts with a header of that handle, its type, change
  number 0 and the length of its data, which ends inside the record (a name's after the
  terminator), and the rest of the record is unchanged.  The repository's count, size and
  largest size are those of all records.
\<close>

theorem pdr_repository_built:
  assumes "wf_sensors s" and "bmc_ready s" and "\<not> iIsRepoInitialized (MSP432_PDR_Repository s)"
  shows "okay (vPdrRepoInit s) (\<lambda>s'. let repo = MSP432_PDR_Repository s'; size = record_size (with_uuid s) in
    recordCount repo = of_nat (length (pdr_refs s)) \<and>
    repositorySize repo = of_nat (sum_list (map size (pdr_refs s))) \<and>
    largestRecordSize repo = of_nat (Max (set (map size (pdr_refs s)))) \<and>
    (\<forall>h < length (pdr_refs s). let r = pdr_refs s ! h in
      PDRRecords repo h = Some r \<and>
      okay (pdr_get r s') (\<lambda>data. get32 data 0 = Some (of_nat h) \<and> get8 data 4 = Some 1 \<and>
        get8 data 5 = Some (pdr_type r) \<and> get16 data 6 = Some 0 \<and>
        get16 data 8 = Some (of_nat (size r - 10)) \<and> size r \<le> length data \<and>
        Some (drop 10 data) = map_option (drop 10) (pdr_get r (with_uuid s)))))"
proof -
  have get: "\<exists>rec. pdr_get (pdr_refs s ! h) (with_uuid s) = Some rec \<and>
      10 \<le> record_size (with_uuid s) (pdr_refs s ! h) \<and> record_size (with_uuid s) (pdr_refs s ! h) \<le> length rec \<and>
      record_size (with_uuid s) (pdr_refs s ! h) \<le> 86"
    if "h < length (pdr_refs s)" for h
    using that entries_known [OF wf_with_uuid [OF assms(1)], of "pdr_entries (xLocalData s) ! h"]
    by (auto simp: pdr_refs_def entry_known_def with_uuid_def)
  obtain s' where s': "vPdrRepoInit s = Some s'" "core s' = upd_repo (\<lambda>_. built_repo s) (core s)"
    "\<And>h. h < length (pdr_refs s) \<Longrightarrow> pdr_get (pdr_refs s ! h) s' = Some (built_record s h)"
    using repo_init_builds [OF assms] by (auto simp: okay_iff)
  have "MSP432_PDR_Repository (core s') = built_repo s" unfolding s'(2) by simp
  then have "MSP432_PDR_Repository s' = built_repo s" by simp
  moreover have "okay (pdr_get (pdr_refs s ! h) s') (\<lambda>data. get32 data 0 = Some (of_nat h) \<and> get8 data 4 = Some 1 \<and>
        get8 data 5 = Some (pdr_type (pdr_refs s ! h)) \<and> get16 data 6 = Some 0 \<and>
        get16 data 8 = Some (of_nat (record_size (with_uuid s) (pdr_refs s ! h) - 10)) \<and>
        record_size (with_uuid s) (pdr_refs s ! h) \<le> length data \<and>
        Some (drop 10 data) = map_option (drop 10) (pdr_get (pdr_refs s ! h) (with_uuid s)))"
    if h: "h < length (pdr_refs s)" for h
  proof -
    obtain rec where rec: "pdr_get (pdr_refs s ! h) (with_uuid s) = Some rec"
      "10 \<le> record_size (with_uuid s) (pdr_refs s ! h)" "record_size (with_uuid s) (pdr_refs s ! h) \<le> length rec"
      "record_size (with_uuid s) (pdr_refs s ! h) \<le> 86"
      using get [OF h] by blast
    show ?thesis
      unfolding s'(3) [OF h] built_record_def Let_def rec(1) okay_Some option.sel
      by (intro conjI header_reads rec(2,4)) (use rec(2,3) in \<open>simp_all add: rec(1)\<close>)
  qed
  ultimately show ?thesis
    by (simp add: s'(1) Let_def built_repo_def)
qed

text \<open>A proxy that is ready, with one sensor of each array and the name \<open>AB\<close>.\<close>

definition sample_sensor :: "u8 \<Rightarrow> u8 list" where
  "sample_sensor i = replicate 12 0 @ [i] @ replicate 68 0"

definition sample_name :: "u8 list" where
  "sample_name = replicate 22 0 @ [0x41, 0, 0x42, 0] @ replicate 60 0"

definition sample_bmc :: "'w \<Rightarrow> 'w bmc_st" where
  "sample_bmc w = (initial_bmc sample_evl_data w)\<lparr>xLocalData := initial_local\<lparr>bmc_iInitialised := True,
     pxEvlRecord := Some \<lparr>pxFirstBinding = [7], iNumBindings = 1, pxMtx = Some 2\<rparr>, pvOsalMutexHdl := Some 3,
     pxPdrTemperatureSensors := Some [sample_sensor 1], pxPdrVoltageSensors := Some [sample_sensor 2],
     pxPdrCurrentSensors := Some [sample_sensor 3], pxPdrPowerSensors := Some [sample_sensor 4],
     pxPdrSensorNames := Some [sample_name], iTotalPdrTemperature := 1, iTotalPdrVoltage := 1,
     iTotalPdrCurrent := 1, iTotalPdrPower := 1, iTotalPdrName := 1\<rparr>\<rparr>"

lemma sample_bmc_ok:
  "wf_sensors (sample_bmc w)" "bmc_ready (sample_bmc w)" "\<not> iIsRepoInitialized (MSP432_PDR_Repository (sample_bmc w))"
proof -
  have "get16 (take 64 (drop 22 sample_name)) (2 * 2) = Some 0"
    by (simp add: sample_name_def get16_def get8_def)
  then have "has_terminator sample_name"
    unfolding has_terminator_def list_ex_iff by (intro bexI [of _ 2]) simp_all
  then show "wf_sensors (sample_bmc w)"
    by (simp add: wf_sensors_def sample_bmc_def initial_bmc_def initial_local_def sensors_ok_def sample_sensor_def
        initial_locator_def sample_name_def Let_def)
  show "bmc_ready (sample_bmc w)" "\<not> iIsRepoInitialized (MSP432_PDR_Repository (sample_bmc w))"
    by (simp_all add: bmc_ready_def bmc_firewalls_ok_def sample_bmc_def initial_bmc_def initial_local_def
        initial_repository_def)
qed

lemma sample_refs: "pdr_refs (sample_bmc w) = [Terminus 0, Temperature 0, Voltage 0, Current 0, Power 0, SensorName 0]"
  by (simp add: pdr_refs_def pdr_entries_def sample_bmc_def initial_bmc_def initial_local_def)

lemma pdr_repository_built_witness:
  "okay (vPdrRepoInit (sample_bmc ())) (\<lambda>s'. recordCount (MSP432_PDR_Repository s') = 6 \<and>
     PDRRecords (MSP432_PDR_Repository s') 3 = Some (Current 0))"
  by (rule okay_weaken [OF pdr_repository_built [OF sample_bmc_ok]]) (auto simp: sample_refs Let_def dest: spec [of _ 3])
end
