(* ===== verification/PLDM_Transfer.thy ===== *)
theory PLDM_Transfer
  imports BMC_Records
begin

text \<open>
  The transfer of a descriptor record in several parts (\<open>pldm_cmd_GetPDR\<close>), seen from the
  board controller that asks for the parts one after the other.
\<close>

section \<open>Responses written from front to back\<close>

definition put_resp :: "nat \<Rightarrow> u8 list \<Rightarrow> 'w bmc_st \<Rightarrow> 'w bmc_st" where
  "put_resp i xs s = s\<lparr>RespBuffer := take i (RespBuffer s) @ xs @ drop (i + length xs) (RespBuffer s)\<rparr>"

definition le_bytes16 :: "u16 \<Rightarrow> u8 list" where
  "le_bytes16 v = [ucast v, ucast (drop_bit 8 v)]"

lemma length_le_bytes16 [simp]: "length (le_bytes16 v) = 2"
  by (simp add: le_bytes16_def)

lemma resp_bytes_put: "resp_bytes i xs s = (if i + length xs \<le> length (RespBuffer s) then Some (put_resp i xs s) else None)"
  by (simp add: resp_bytes_def put_bytes_def put_resp_def)

lemma resp32_put: "resp32 i v s = (if i + 4 \<le> length (RespBuffer s) then Some (put_resp i (le_bytes32 v) s) else None)"
  by (simp add: resp32_def put32_def put_bytes_def put_resp_def)

lemma resp8_put: "resp8 i v s = (if i < length (RespBuffer s) then Some (put_resp i [v] s) else None)"
  by (simp add: resp8_def put8_def put_resp_def upd_conv_take_nth_drop)

lemma resp16_put: "resp16 i v s = (if i + 2 \<le> length (RespBuffer s) then Some (put_resp i (le_bytes16 v) s) else None)"
proof (cases "i + 2 \<le> length (RespBuffer s)")
  case True
  then have "(RespBuffer s)[i := a, i + 1 := b] = take i (RespBuffer s) @ [a, b] @ drop (i + 2) (RespBuffer s)" for a b
    by (simp add: upd_conv_take_nth_drop take_update_swap drop_update_swap)
  with True show ?thesis
    by (simp add: resp16_def put16_def put8_def put_resp_def le_bytes16_def)
next
  case False
  then show ?thesis by (simp add: resp16_def put16_def put8_def)
qed

lemmas resp_put = resp8_put resp16_put resp32_put resp_bytes_put

lemma put_resp_length [simp]:
  "i + length xs \<le> length (RespBuffer s) \<Longrightarrow> length (RespBuffer (put_resp i xs s)) = length (RespBuffer s)"
  by (simp add: put_resp_def)

lemma put_resp_append:
  "j = i + length xs \<Longrightarrow> i \<le> length (RespBuffer s) \<Longrightarrow> put_resp j ys (put_resp i xs s) = put_resp i (xs @ ys) s"
  by (simp add: put_resp_def ac_simps)

lemma put_resp_get:
  "i + length xs \<le> length (RespBuffer s) \<Longrightarrow> get_bytes (RespBuffer (put_resp i xs s)) i (length xs) = Some xs"
  by (simp add: put_resp_def)

lemma put_resp_frame [simp]:
  "xLocalData (put_resp i xs s) = xLocalData s" "MSP432_PDR_Repository (put_resp i xs s) = MSP432_PDR_Repository s"
  "pldm (put_resp i xs s) = pldm s" "mctp (put_resp i xs s) = mctp s" "ReqBuffer (put_resp i xs s) = ReqBuffer s"
  "evl_data (put_resp i xs s) = evl_data s" "outside (put_resp i xs s) = outside s"
  "xPdrTerminusLocator (put_resp i xs s) = xPdrTerminusLocator s"
  by (simp_all add: put_resp_def)

lemma upd_pldm_put [simp]: "upd_pldm f (put_resp i xs s) = put_resp i xs (upd_pldm f s)"
  by (simp add: upd_pldm_def put_resp_def)

lemma set_pdr_xfer_put [simp]: "set_pdr_xfer i x (put_resp j xs s) = put_resp j xs (set_pdr_xfer i x s)"
  by (simp add: set_pdr_xfer_def)

lemma set_pdr_xfer_frame [simp]:
  "RespBuffer (set_pdr_xfer i x s) = RespBuffer s" "MSP432_PDR_Repository (set_pdr_xfer i x s) = MSP432_PDR_Repository s"
  "pdr_get r (set_pdr_xfer i x s) = pdr_get r s" "GetPDRPendingXfers (pldm (set_pdr_xfer i x s)) = (GetPDRPendingXfers (pldm s))(i := x)"
  "set_pdr_xfer i x (set_pdr_xfer i y s) = set_pdr_xfer i x s"
  by (cases r; simp add: set_pdr_xfer_def upd_pldm_def pdr_get_def pdr_array_def)+

lemma pdr_get_put_resp [simp]: "pdr_get r (put_resp i xs s) = pdr_get r s"
  by (cases r) (simp_all add: put_resp_def pdr_get_def pdr_array_def)

section \<open>One part\<close>

text \<open>The size of a record and the number of bytes of the part that starts at \<open>start\<close>.\<close>

definition pdr_size :: "u8 list \<Rightarrow> nat option" where
  "pdr_size data = map_option (\<lambda>n. unat n + 10) (get16 data DATA_LENGTH_OFFSET)"

definition max_part :: "u16 \<Rightarrow> nat" where
  "max_part count = min (unat count) (MAX_PLDM_RESPONSE_SIZE - 12)"

definition part_response :: "u32 \<Rightarrow> u32 \<Rightarrow> u32 \<Rightarrow> u8 \<Rightarrow> u8 list \<Rightarrow> u8 list \<Rightarrow> u8 list" where
  "part_response rh count handle flag part data =
     [0] @ le_bytes32 ((rh + 1) mod count) @ le_bytes32 handle @ [flag] @ le_bytes16 (of_nat (length part)) @ part @
     (if flag = 4 then [ucGetCrc8 data] else [])"

lemma send_pdr_effect:
  assumes size: "pdr_size data = Some n" and n: "n \<le> length data" "n \<le> 255" and start: "start \<le> n"
    and buf: "q + 126 \<le> length (RespBuffer s)"
  shows "send_pdr E rh c data count i start q s =
    (let unfinished = max_part count < n - start; k = (if unfinished then max_part count else n - start);
         (x, flag) = next_transfer (0, 1, 4, 5) unfinished (of_nat (max_part count)) start (GetPDRPendingXfers (pldm s) i);
         r = part_response rh c (if unfinished then xfer_handle (pdr_xfers_base E) i else 0) flag
               (take k (drop start data)) (take n data)
     in Some (length r, put_resp q r (set_pdr_xfer i x s)))"
proof -
  obtain d where d: "get16 data 8 = Some d" "n = unat d + 10"
    using size by (auto simp: pdr_size_def)
  define m where "m = max_part count"
  have m: "min (unat count) 113 = m" "m \<le> 113" by (simp_all add: m_def max_part_def)
  have "(of_int (int n - int start) :: u16) = of_nat (n - start)"
    using start by (simp add: of_nat_diff)
  then have "unat (of_int (int n - int start) :: u16) = n - start"
    using n(2) by (simp add: unsigned_of_nat take_bit_nat_eq_self)
  then have left: "unat (d + 10 - of_nat start) = n - start" "unat (of_nat n - of_nat start :: u16) = n - start"
    by (simp_all add: d(2))
  obtain x flag where nt: "next_transfer (0, 1, 4, 5) (m < n - start) (of_nat m) start (GetPDRPendingXfers (pldm s) i) = (x, flag)"
    by (cases "next_transfer (0, 1, 4, 5) (m < n - start) (of_nat m) start (GetPDRPendingXfers (pldm s) i)")
  define k where "k = (if m < n - start then m else n - start)"
  have k: "k \<le> 113" "start + k \<le> length data"
    using m(2) n start by (auto simp: k_def)
  have part: "get_bytes data start k = Some (take k (drop start data))" using k by (simp add: get_bytes_def)
  have rec: "get_bytes data 0 n = Some (take n data)" using n by (simp add: get_bytes_def)
  show ?thesis
  proof (cases "m < n - start")
    case True
    then have "k = m" by (simp add: k_def)
    with True part rec nt buf k show ?thesis
      by (simp add: send_pdr_def d(1) m(1) left resp_put put_resp_append Let_def part_response_def
          flip: m_def d(2) del: get_bytes_Some)
  next
    case False
    then have "k = n - start" by (simp add: k_def)
    with False part rec nt buf k show ?thesis
      by (simp add: send_pdr_def d(1) m(1) left resp_put put_resp_append Let_def part_response_def
          flip: m_def d(2) del: get_bytes_Some)
  qed
qed

section \<open>The board controller's side\<close>

text \<open>The payload of a request for a part: record, transfer handle, operation, count, change number.\<close>

definition pdr_request :: "u32 \<Rightarrow> u32 \<Rightarrow> u8 \<Rightarrow> u16 \<Rightarrow> u16 \<Rightarrow> u8 list" where
  "pdr_request rh handle op count change =
     le_bytes32 rh @ le_bytes32 handle @ [op] @ le_bytes16 count @ le_bytes16 change"

text \<open>
  Fetching a record: the first part, then the next parts with the handle of the last response,
  until the transfer flag says the record is complete; the data of all parts, and the checksum
  when the last response has one.  The fuel bounds the number of requests.
\<close>

fun fetch_pdr ::
  "'w bmc_env \<Rightarrow> u32 \<Rightarrow> u16 \<Rightarrow> u16 \<Rightarrow> nat \<Rightarrow> nat \<Rightarrow> u8 \<Rightarrow> u32 \<Rightarrow> 'w bmc_st \<Rightarrow>
   (u8 list \<times> u8 option \<times> 'w bmc_st) option" where
  "fetch_pdr E rh count change q 0 op handle s = None"
| "fetch_pdr E rh count change q (Suc fuel) op handle s = do {
     (len, s) \<leftarrow> pldm_cmd_GetPDR E (pdr_request rh handle op count change) 0 q s;
     code \<leftarrow> get8 (RespBuffer s) q;
     next \<leftarrow> get32 (RespBuffer s) (q + 5);
     flag \<leftarrow> get8 (RespBuffer s) (q + 9);
     n \<leftarrow> get16 (RespBuffer s) (q + 10);
     part \<leftarrow> get_bytes (RespBuffer s) (q + 12) (unat n);
     if code \<noteq> 0 then None
     else if flag = 5 then Some (part, None, s)
     else if flag = 4 then do {
       crc \<leftarrow> get8 (RespBuffer s) (q + 12 + unat n);
       Some (part, Some crc, s) }
     else do {
       (rest, crc, s) \<leftarrow> fetch_pdr E rh count change q fuel EGetNextPart next s;
       Some (part @ rest, crc, s) } }"

lemma request_reads:
  "get32 (pdr_request rh handle op count change) 0 = Some rh"
  "get32 (pdr_request rh handle op count change) 4 = Some handle"
  "get8 (pdr_request rh handle op count change) 8 = Some op"
  "get16 (pdr_request rh handle op count change) 9 = Some count"
  "get16 (pdr_request rh handle op count change) 11 = Some change"
proof -
  obtain a0 a1 a2 a3 where a: "le_bytes32 rh = [a0, a1, a2, a3]" by (simp add: le_bytes32_def)
  obtain b0 b1 b2 b3 where b: "le_bytes32 handle = [b0, b1, b2, b3]" by (simp add: le_bytes32_def)
  have w: "ucast (ucast v :: u8) OR push_bit 8 (ucast (ucast (drop_bit 8 v) :: u8)) = v" for v :: u16
    by (rule bit_word_eqI) (auto simp: bit_simps not_le)
  show "get32 (pdr_request rh handle op count change) 0 = Some rh"
    "get32 (pdr_request rh handle op count change) 4 = Some handle"
    "get8 (pdr_request rh handle op count change) 8 = Some op"
    "get16 (pdr_request rh handle op count change) 9 = Some count"
    "get16 (pdr_request rh handle op count change) 11 = Some change"
    by (simp_all add: pdr_request_def a b get32_def load32_def le_word32_bytes [OF a] le_word32_bytes [OF b]
        get16_Some le_bytes16_def w)
qed

text \<open>What a fetch relies on: the repository is built, the record is in it, its size fits a byte.\<close>

definition pdr_available :: "'w bmc_env \<Rightarrow> u32 \<Rightarrow> nat \<Rightarrow> 'w bmc_st \<Rightarrow> u8 list \<Rightarrow> bool" where
  "pdr_available E rh q s data \<longleftrightarrow> (let repo = MSP432_PDR_Repository s in
     iIsRepoInitialized repo \<and> repositoryState repo = ERepoStateAvailable \<and> rh < recordCount repo \<and>
     unat rh < TOTAL_PDR_COUNT \<and>
     (case PDRRecords repo (unat rh) of None \<Rightarrow> False | Some r \<Rightarrow>
       (case pdr_get r s of None \<Rightarrow> False | Some rec \<Rightarrow>
         (case pdr_size rec of None \<Rightarrow> False | Some n \<Rightarrow> n \<le> length rec \<and> n \<le> 255 \<and> data = take n rec))) \<and>
     q + 126 \<le> length (RespBuffer s) \<and> pdr_xfers_base E \<noteq> 0 \<and> unat (pdr_xfers_base E) + 2 * PDR_XFERS \<le> 2 ^ 32)"

lemma handle_entry:
  assumes "base \<noteq> 0" and "unat base + 2 * n \<le> 2 ^ 32" and "i < n"
  shows "xfer_handle base i \<noteq> 0" and "xfer_entry base n (xfer_handle base i) = Some i"
proof -
  define d :: u32 where "d = of_nat (2 * i)"
  have u: "unat d = 2 * i"
    unfolding d_def using assms(2,3) by (intro unat_small) simp
  have h: "xfer_handle base i = base + d" by (simp add: xfer_handle_def d_def)
  have "unat (base + d) = unat base + 2 * i"
    using assms(2,3) by (simp add: unat_word_ariths(1) u)
  then show "xfer_handle base i \<noteq> 0" using assms(1) by (auto simp: h unat_eq_zero)
  show "xfer_entry base n (xfer_handle base i) = Some i"
    using assms(3) by (simp add: xfer_entry_def h u Let_def)
qed

text \<open>Decoding a response: what is read in the part of the buffer that was written.\<close>

lemma put_resp_read:
  assumes "q + length xs \<le> length (RespBuffer s)" and "i + n \<le> length xs"
  shows "get_bytes (RespBuffer (put_resp q xs s)) (q + i) n = get_bytes xs i n"
proof -
  have "length (take q (RespBuffer s)) = q" using assms(1) by simp
  then have "take n (drop (q + i) (take q (RespBuffer s) @ xs @ drop (q + length xs) (RespBuffer s))) = take n (drop i xs)"
    using assms(2) by (simp add: drop_append)
  moreover have "length (RespBuffer (put_resp q xs s)) = length (RespBuffer s)"
    using assms(1) by simp
  ultimately show ?thesis using assms by (simp add: get_bytes_def) (simp add: put_resp_def)
qed

lemma get8_bytes: "get8 b i = map_option hd (get_bytes b i 1)"
  by (auto simp: get8_def get_bytes_def take_Suc hd_drop_conv_nth)

lemma get16_bytes: "get16 b i = map_option (\<lambda>xs. ucast (xs ! 0) OR push_bit 8 (ucast (xs ! 1))) (get_bytes b i 2)"
  by (auto simp: get16_def get8_def get_bytes_def)

lemma get32_bytes: "get32 b i = bind (get_bytes b i 4) (\<lambda>xs. load32 xs 0)"
  by (auto simp: get32_def load32_def get_bytes_def)

lemma word16_bytes: "ucast (ucast v :: u8) OR push_bit 8 (ucast (ucast (drop_bit 8 v) :: u8)) = (v :: u16)"
  by (rule bit_word_eqI) (auto simp: bit_simps not_le)

lemma part_response_reads:
  assumes "q + 126 \<le> length (RespBuffer s)" and "length part \<le> 113"
    and "b = RespBuffer (put_resp q (part_response rh c handle flag part data) s)"
  shows "get8 b q = Some 0" "get32 b (q + 5) = Some handle" "get8 b (q + 9) = Some flag"
    "get16 b (q + 10) = Some (of_nat (length part))" "get_bytes b (q + 12) (length part) = Some part"
    "flag = 4 \<Longrightarrow> get8 b (q + 12 + length part) = Some (ucGetCrc8 data)"
proof -
  let ?r = "part_response rh c handle flag part data"
  obtain a0 a1 a2 a3 where a: "le_bytes32 ((rh + 1) mod c) = [a0, a1, a2, a3]" by (simp add: le_bytes32_def)
  obtain h0 h1 h2 h3 where h: "le_bytes32 handle = [h0, h1, h2, h3]" by (simp add: le_bytes32_def)
  define l :: u16 where "l = of_nat (length part)"
  have r: "?r = [0, a0, a1, a2, a3, h0, h1, h2, h3, flag, ucast l, ucast (drop_bit 8 l)] @ part @
      (if flag = 4 then [ucGetCrc8 data] else [])"
    by (simp add: part_response_def a h le_bytes16_def l_def)
  have fits: "q + length ?r \<le> length (RespBuffer s)" using assms(1,2) by (simp add: r)
  have rd: "get_bytes b (q + i) n = get_bytes ?r i n" if "i + n \<le> length ?r" for i n
    unfolding assms(3) by (rule put_resp_read [OF fits that])
  show "get8 b q = Some 0" using rd [of 0 1] by (simp add: get8_bytes r get_bytes_def)
  show "get32 b (q + 5) = Some handle"
    using rd [of 5 4] by (simp add: get32_bytes r get_bytes_def load32_def le_word32_bytes [OF h])
  show "get8 b (q + 9) = Some flag" using rd [of 9 1] by (simp add: get8_bytes r get_bytes_def)
  show "get16 b (q + 10) = Some (of_nat (length part))"
    using rd [of 10 2] by (simp add: get16_bytes r get_bytes_def word16_bytes l_def)
  show "get_bytes b (q + 12) (length part) = Some part"
    using rd [of 12 "length part"] by (simp add: r get_bytes_def)
  show "flag = 4 \<Longrightarrow> get8 b (q + 12 + length part) = Some (ucGetCrc8 data)"
  proof -
    assume f: "flag = 4"
    define pre where "pre = [0, a0, a1, a2, a3, h0, h1, h2, h3, flag, ucast l, ucast (drop_bit 8 l)] @ part"
    have r4: "?r = pre @ [ucGetCrc8 data]" by (subst r) (simp add: f pre_def)
    have pre: "length pre = 12 + length part" by (simp add: pre_def)
    have "12 + length part + 1 \<le> length ?r" by (simp add: r4 pre)
    from rd [OF this] show ?thesis by (simp only: get8_bytes add.assoc r4) (simp add: get_bytes_def flip: pre)
  qed
qed

section \<open>A request for a part of an available record\<close>

lemma pdr_availableE:
  assumes "pdr_available E rh q s data"
  obtains r rec where "iIsRepoInitialized (MSP432_PDR_Repository s)"
    "repositoryState (MSP432_PDR_Repository s) = ERepoStateAvailable" "\<not> recordCount (MSP432_PDR_Repository s) \<le> rh"
    "unat rh < TOTAL_PDR_COUNT" "PDRRecords (MSP432_PDR_Repository s) (unat rh) = Some r" "pdr_get r s = Some rec"
    "pdr_size rec = Some (length data)" "length data \<le> length rec" "length data \<le> 255"
    "data = take (length data) rec" "q + 126 \<le> length (RespBuffer s)"
    "pdr_xfers_base E \<noteq> 0" "unat (pdr_xfers_base E) + 2 * PDR_XFERS \<le> 2 ^ 32"
  using assms by (auto simp: pdr_available_def Let_def not_le split: option.splits)

lemma pdr_available_frame:
  "pdr_available E rh q s data \<Longrightarrow> q + length xs \<le> length (RespBuffer s) \<Longrightarrow>
   pdr_available E rh q (put_resp q xs (set_pdr_xfer i x s)) data"
  by (simp add: pdr_available_def cong: option.case_cong)

lemma getPDRRepository_built: "iIsRepoInitialized (MSP432_PDR_Repository s) \<Longrightarrow>
    getPDRRepository s = Some (MSP432_PDR_Repository s, s)"
  by (simp add: getPDRRepository_def vPdrRepoInit_def)

text \<open>What the response to a request for the part at \<open>start\<close> holds, and the state after it.\<close>

definition part_sent :: "'w bmc_env \<Rightarrow> u32 \<Rightarrow> u16 \<Rightarrow> nat \<Rightarrow> u8 list \<Rightarrow> nat \<Rightarrow> 'w bmc_st \<Rightarrow> (nat \<times> 'w bmc_st)" where
  "part_sent E rh count q data start s =
    (let i = unat rh; unfinished = max_part count < length data - start;
         k = (if unfinished then max_part count else length data - start);
         (x, flag) = next_transfer (0, 1, 4, 5) unfinished (of_nat (max_part count)) start (GetPDRPendingXfers (pldm s) i);
         r = part_response rh (recordCount (MSP432_PDR_Repository s)) (if unfinished then xfer_handle (pdr_xfers_base E) i else 0)
               flag (take k (drop start data)) data
     in (length r, put_resp q r (set_pdr_xfer i x s)))"

lemma max_part_le: "max_part count \<le> 113" by (simp add: max_part_def)

lemma send_available:
  assumes av: "pdr_available E rh q s data" and start: "start \<le> length data"
    and get: "PDRRecords (MSP432_PDR_Repository s) (unat rh) = Some r" "pdr_get r s = Some rec"
  shows "send_pdr E rh (recordCount (MSP432_PDR_Repository s)) rec count (unat rh) start q s =
    Some (part_sent E rh count q data start s)"
proof -
  note f = pdr_availableE [OF av]
  have "pdr_size rec = Some (length data)" "length data \<le> length rec" "length data \<le> 255"
    "data = take (length data) rec" "q + 126 \<le> length (RespBuffer s)"
    by (rule f; use get in simp)+
  note d = this
  define k where "k = (if max_part count < length data - start then max_part count else length data - start)"
  have "k \<le> length data - start" by (simp add: k_def)
  then have "take k (drop start (take (length data) rec)) = take k (drop start rec)"
    by (simp add: drop_take min_def)
  then have "take k (drop start rec) = take k (drop start data)"
    by (simp flip: d(4))
  with send_pdr_effect [OF d(1,2,3) start d(5)] d(4) show ?thesis
    by (simp add: part_sent_def Let_def case_prod_beta flip: k_def)
qed

lemma first_part:
  assumes av: "pdr_available E rh q s data"
  shows "pldm_cmd_GetPDR E (pdr_request rh handle EGetFirstPart count change) 0 q s =
    Some (part_sent E rh count q data 0 (set_pdr_xfer (unat rh) \<lparr>initialized = 0, next_start = 0\<rparr> s))"
proof -
  let ?s = "set_pdr_xfer (unat rh) \<lparr>initialized = 0, next_start = 0\<rparr> s"
  obtain r rec where f: "iIsRepoInitialized (MSP432_PDR_Repository s)"
    "repositoryState (MSP432_PDR_Repository s) = ERepoStateAvailable" "\<not> recordCount (MSP432_PDR_Repository s) \<le> rh"
    "unat rh < TOTAL_PDR_COUNT" "PDRRecords (MSP432_PDR_Repository s) (unat rh) = Some r" "pdr_get r s = Some rec"
    by (rule pdr_availableE [OF av]) blast
  have "pdr_available E rh q ?s data"
    using av by (simp add: pdr_available_def cong: option.case_cong)
  from send_available [OF this _ , of 0 r rec count] f show ?thesis
    by (simp add: pldm_cmd_GetPDR_def getPDRRepository_built request_reads arr_get_def)
qed

lemma available_change:
  assumes av: "pdr_available E rh q s data"
    and get: "PDRRecords (MSP432_PDR_Repository s) (unat rh) = Some r" "pdr_get r s = Some rec"
    and change: "get16 data CHANGE_NUMBER_OFFSET = Some change"
  shows "get16 rec CHANGE_NUMBER_OFFSET = Some change"
proof -
  have d: "length data \<le> length rec" "data = take (length data) rec"
    by (rule pdr_availableE [OF av]; use get in simp)+
  have c: "6 + 1 < length data" "change = ucast (data ! 6) OR push_bit 8 (ucast (data ! 7))"
    using change by (auto simp: get16_Some)
  then have "data ! 6 = rec ! 6" "data ! 7 = rec ! 7" by (subst d(2); simp)+
  with c d(1) show ?thesis by (simp add: get16_Some)
qed

lemma next_part:
  assumes av: "pdr_available E rh q s data"
    and pending: "GetPDRPendingXfers (pldm s) (unat rh) = \<lparr>initialized = PENDING_XFER_INIT_KEY, next_start = of_nat start\<rparr>"
    and start: "start \<le> length data" and change: "get16 data CHANGE_NUMBER_OFFSET = Some change"
  shows "pldm_cmd_GetPDR E (pdr_request rh (xfer_handle (pdr_xfers_base E) (unat rh)) EGetNextPart count change) 0 q s =
    Some (part_sent E rh count q data start s)"
proof -
  obtain r rec where f: "iIsRepoInitialized (MSP432_PDR_Repository s)"
    "repositoryState (MSP432_PDR_Repository s) = ERepoStateAvailable" "\<not> recordCount (MSP432_PDR_Repository s) \<le> rh"
    "unat rh < TOTAL_PDR_COUNT" "PDRRecords (MSP432_PDR_Repository s) (unat rh) = Some r" "pdr_get r s = Some rec"
    "pdr_size rec = Some (length data)" "length data \<le> length rec" "length data \<le> 255" "data = take (length data) rec"
    "pdr_xfers_base E \<noteq> 0" "unat (pdr_xfers_base E) + 2 * PDR_XFERS \<le> 2 ^ 32"
    by (rule pdr_availableE [OF av]) blast
  have i: "unat rh < PDR_XFERS" using f(4) by simp
  have st: "unat (of_nat start :: u8) = start"
    using start f(9) by (intro unat_small) simp
  from available_change [OF av f(5,6) change] send_available [OF av start f(5,6), of count] f(1-6) handle_entry [OF f(11,12) i] st pending show ?thesis
    by (simp add: pldm_cmd_GetPDR_def getPDRRepository_built request_reads arr_get_def)
qed

lemma part_sent_read:
  assumes av: "pdr_available E rh q s data" and sent: "part_sent E rh count q data start s = (len, s')"
    and start: "start \<le> length data" and m: "m = max_part count"
  shows "pdr_available E rh q s' data"
    and "get8 (RespBuffer s') q = Some 0"
    and "get32 (RespBuffer s') (q + 5) =
      Some (if m < length data - start then xfer_handle (pdr_xfers_base E) (unat rh) else 0)"
    and "get8 (RespBuffer s') (q + 9) = Some (snd (next_transfer (0, 1, 4, 5) (m < length data - start) (of_nat m) start
           (GetPDRPendingXfers (pldm s) (unat rh))))"
    and "get16 (RespBuffer s') (q + 10) = Some (of_nat (min m (length data - start)))"
    and "get_bytes (RespBuffer s') (q + 12) (min m (length data - start)) = Some (take m (drop start data))"
    and "snd (next_transfer (0, 1, 4, 5) (m < length data - start) (of_nat m) start (GetPDRPendingXfers (pldm s) (unat rh))) = 4
       \<Longrightarrow> get8 (RespBuffer s') (q + 12 + min m (length data - start)) = Some (ucGetCrc8 data)"
    and "GetPDRPendingXfers (pldm s') (unat rh) = fst (next_transfer (0, 1, 4, 5) (m < length data - start) (of_nat m) start
           (GetPDRPendingXfers (pldm s) (unat rh)))"
proof -
  let ?u = "m < length data - start"
  let ?k = "if ?u then m else length data - start"
  obtain x flag where nt: "next_transfer (0, 1, 4, 5) ?u (of_nat m) start (GetPDRPendingXfers (pldm s) (unat rh)) = (x, flag)"
    by fastforce
  define h where "h = (if ?u then xfer_handle (pdr_xfers_base E) (unat rh) else 0)"
  define part where "part = take ?k (drop start data)"
  define c where "c = recordCount (MSP432_PDR_Repository s)"
  have part: "length part = min m (length data - start)" "part = take m (drop start data)"
    using start by (auto simp: part_def min_def)
  have fits: "q + 126 \<le> length (RespBuffer s)" using av by (simp add: pdr_available_def Let_def)
  have len: "length part \<le> 113" using part(1) max_part_le [of count] m by simp
  have s': "s' = put_resp q (part_response rh c h flag part data) (set_pdr_xfer (unat rh) x s)"
    using sent nt unfolding part_sent_def Let_def part_def h_def c_def m [symmetric] by simp
  have "q + length (part_response rh c h flag part data) \<le> length (RespBuffer s)"
    using fits len by (simp add: part_response_def)
  then show "pdr_available E rh q s' data"
    unfolding s' by (rule pdr_available_frame [OF av])
  note r = part_response_reads [OF _ len, of q "set_pdr_xfer (unat rh) x s" "RespBuffer s'" rh c h flag data]
  have r: "get8 (RespBuffer s') q = Some 0" "get32 (RespBuffer s') (q + 5) = Some h"
    "get8 (RespBuffer s') (q + 9) = Some flag" "get16 (RespBuffer s') (q + 10) = Some (of_nat (length part))"
    "get_bytes (RespBuffer s') (q + 12) (length part) = Some part"
    "flag = 4 \<Longrightarrow> get8 (RespBuffer s') (q + 12 + length part) = Some (ucGetCrc8 data)"
    by (rule r; simp add: fits s')+
  show "get8 (RespBuffer s') q = Some 0" by (rule r)
  show "get32 (RespBuffer s') (q + 5) = Some (if ?u then xfer_handle (pdr_xfers_base E) (unat rh) else 0)"
    using r(2) by (simp add: h_def)
  show "get8 (RespBuffer s') (q + 9) = Some (snd (next_transfer (0, 1, 4, 5) ?u (of_nat m) start
           (GetPDRPendingXfers (pldm s) (unat rh))))" using r(3) by (simp add: nt)
  show "get16 (RespBuffer s') (q + 10) = Some (of_nat (min m (length data - start)))"
    using r(4) unfolding part(1) .
  show "get_bytes (RespBuffer s') (q + 12) (min m (length data - start)) = Some (take m (drop start data))"
    using r(5) unfolding part(1) by (simp only: part(2))
  show "get8 (RespBuffer s') (q + 12 + min m (length data - start)) = Some (ucGetCrc8 data)"
    if "snd (next_transfer (0, 1, 4, 5) ?u (of_nat m) start (GetPDRPendingXfers (pldm s) (unat rh))) = 4"
    using r(6) that unfolding part(1) by (simp add: nt)
  show "GetPDRPendingXfers (pldm s') (unat rh) = fst (next_transfer (0, 1, 4, 5) ?u (of_nat m) start
           (GetPDRPendingXfers (pldm s) (unat rh)))" by (simp add: nt s')
qed

section \<open>The whole record\<close>

lemma fetch_rest:
  assumes "pdr_available E rh q s data" and "0 < max_part count" and "get16 data CHANGE_NUMBER_OFFSET = Some change"
    and "GetPDRPendingXfers (pldm s) (unat rh) = \<lparr>initialized = PENDING_XFER_INIT_KEY, next_start = of_nat start\<rparr>"
    and "0 < start" "start < length data" and "length data - start < fuel"
  shows "\<exists>s'. fetch_pdr E rh count change q fuel EGetNextPart (xfer_handle (pdr_xfers_base E) (unat rh)) s =
    Some (drop start data, Some (ucGetCrc8 data), s')"
  using assms
proof (induction fuel arbitrary: start s)
  case (Suc fuel)
  let ?m = "max_part count"
  obtain len s' where sent: "part_sent E rh count q data start s = (len, s')" by fastforce
  note step = next_part [OF Suc.prems(1,4) less_imp_le [OF Suc.prems(6)] Suc.prems(3), of count]
  note rd = part_sent_read [OF Suc.prems(1) sent less_imp_le [OF Suc.prems(6)] refl]
  have n: "unat (of_nat (min ?m (length data - start)) :: u16) = min ?m (length data - start)"
    using max_part_le [of count] by (intro unat_small) simp
  show ?case
  proof (cases "?m < length data - start")
    case True
    have "length data \<le> 255" by (rule pdr_availableE [OF Suc.prems(1)])
    then have x: "GetPDRPendingXfers (pldm s') (unat rh) = \<lparr>initialized = PENDING_XFER_INIT_KEY, next_start = of_nat (start + ?m)\<rparr>"
      using rd(8) True Suc.prems(4) by (simp add: next_transfer_def)
    obtain s'' where "fetch_pdr E rh count change q fuel EGetNextPart (xfer_handle (pdr_xfers_base E) (unat rh)) s' =
        Some (drop (start + ?m) data, Some (ucGetCrc8 data), s'')"
      using Suc.IH [OF rd(1) Suc.prems(2,3) x] True Suc.prems(2,7) by force
    moreover have "take ?m (drop start data) @ drop (start + ?m) data = drop start data"
      by (metis append_take_drop_id drop_drop add.commute)
    ultimately show ?thesis
      using step sent rd(2-6) n True Suc.prems(4) by (simp add: next_transfer_def del: get8_Some get_bytes_Some)
  next
    case False
    with step sent rd(2-7) n Suc.prems(4,5) show ?thesis
      by (simp add: next_transfer_def del: get8_Some get_bytes_Some)
  qed
qed simp

text \<open>
  C19: a board controller that asks for the parts of a record of the built repository one after
  the other, with the handle of each response in the next request, receives in the order of the
  parts exactly the bytes of the record, in at most as many requests as the record has bytes,
  however small a part it asks for; a record that takes several parts comes with its CRC-8.
\<close>

theorem pdr_fetched:
  assumes "pdr_available E rh q s data" and "0 < max_part count" and "get16 data CHANGE_NUMBER_OFFSET = Some change"
    and "length data < fuel"
  shows "okay (fetch_pdr E rh count change q fuel EGetFirstPart handle s) (\<lambda>(bytes, crc, s').
    bytes = data \<and> crc = (if length data \<le> max_part count then None else Some (ucGetCrc8 data)))"
proof -
  let ?m = "max_part count"
  let ?s = "set_pdr_xfer (unat rh) \<lparr>initialized = 0, next_start = 0\<rparr> s"
  obtain f where fuel: "fuel = Suc f" "length data \<le> f" using assms(4) by (cases fuel) auto
  have av: "pdr_available E rh q ?s data"
    using assms(1) by (simp add: pdr_available_def cong: option.case_cong)
  obtain len s' where sent: "part_sent E rh count q data 0 ?s = (len, s')" by fastforce
  note step = first_part [OF assms(1), of handle count change]
  note rd = part_sent_read [OF av sent le0 refl]
  have n: "unat (of_nat (min ?m (length data)) :: u16) = min ?m (length data)"
    using max_part_le [of count] by (intro unat_small) simp
  show ?thesis
  proof (cases "?m < length data")
    case True
    have x: "GetPDRPendingXfers (pldm s') (unat rh) = \<lparr>initialized = PENDING_XFER_INIT_KEY, next_start = of_nat ?m\<rparr>"
      using rd(8) True by (simp add: next_transfer_def)
    obtain s'' where "fetch_pdr E rh count change q f EGetNextPart (xfer_handle (pdr_xfers_base E) (unat rh)) s' =
        Some (drop ?m data, Some (ucGetCrc8 data), s'')"
      using fetch_rest [OF rd(1) assms(2,3) x, of f] True assms(2) fuel(2) by force
    with step sent rd(2-6) n True show ?thesis
      by (simp add: fuel(1) next_transfer_def del: get8_Some get_bytes_Some)
  next
    case False
    with step sent rd(2-7) n show ?thesis
      by (simp add: fuel(1) next_transfer_def del: get8_Some get_bytes_Some)
  qed
qed
text \<open>A part that starts beyond the record's end: the rest is a 16-bit difference that wraps.\<close>

lemma send_pdr_beyond:
  assumes "pdr_size rec = Some n" and "n < start" and "start \<le> 255" and "n \<le> 255"
    and "length rec < start + max_part count"
  shows "send_pdr E rh c rec count i start q s = None"
proof -
  obtain d where d: "get16 rec 8 = Some d" "n = unat d + 10"
    using assms(1) by (auto simp: pdr_size_def)
  define m where "m = max_part count"
  have m: "min (unat count) 113 = m" "m \<le> 113" by (simp_all add: m_def max_part_def)
  have "(int n - int start) mod 65536 = (int n - int start + 65536) mod 65536"
    by (simp only: mod_add_self2)
  also have "\<dots> = int n - int start + 65536"
    using assms(2-4) by (intro mod_pos_pos_trivial) simp_all
  finally have "(int n - int start) mod 65536 = int n - int start + 65536" .
  then have "uint (of_int (int n - int start) :: u16) = int n - int start + 65536"
    unfolding uint_word_of_int by simp
  then have "unat (of_int (int n - int start) :: u16) = 65536 - (start - n)"
    unfolding unat_eq_nat_uint using assms(2-4) by linarith
  then have left: "unat (d + 10 - of_nat start) = 65536 - (start - n)" "unat (of_nat n - of_nat start :: u16) = 65536 - (start - n)"
    by (simp_all add: d(2))
  have u: "m < 65536 - (start - n)" using m(2) assms(2-4) by simp
  have part: "get_bytes rec start m = None" using assms(5) by (simp add: get_bytes_def m_def)
  show ?thesis
    using u part by (simp add: send_pdr_def d(1) m(1) left Let_def case_prod_beta bind_eq_None_conv
        flip: d(2) del: get_bytes_Some)
qed

text \<open>
  A transfer handle is not tied to the record whose transfer it was handed out for.  With a
  transfer pending beyond the end of a shorter record, a request for the next part that names
  the shorter record (and its change number) copies the part from beyond the array's element:
  the command has no defined result.
\<close>

theorem transfer_handle_of_other_record:
  assumes av: "pdr_available E rh q s data" and j: "j < PDR_XFERS" "initialized (GetPDRPendingXfers (pldm s) j) = PENDING_XFER_INIT_KEY"
    and beyond: "length data < unat (next_start (GetPDRPendingXfers (pldm s) j))"
    and rec: "PDRRecords (MSP432_PDR_Repository s) (unat rh) = Some r" "pdr_get r s = Some rec"
      "length rec < unat (next_start (GetPDRPendingXfers (pldm s) j)) + max_part count"
    and change: "get16 data CHANGE_NUMBER_OFFSET = Some change"
  shows "pldm_cmd_GetPDR E (pdr_request rh (xfer_handle (pdr_xfers_base E) j) EGetNextPart count change) 0 q s = None"
proof -
  let ?start = "unat (next_start (GetPDRPendingXfers (pldm s) j))"
  have f: "iIsRepoInitialized (MSP432_PDR_Repository s)"
    "repositoryState (MSP432_PDR_Repository s) = ERepoStateAvailable" "\<not> recordCount (MSP432_PDR_Repository s) \<le> rh"
    "unat rh < TOTAL_PDR_COUNT" "pdr_size rec = Some (length data)" "length data \<le> 255"
    "pdr_xfers_base E \<noteq> 0" "unat (pdr_xfers_base E) + 2 * PDR_XFERS \<le> 2 ^ 32"
    by (rule pdr_availableE [OF av]; use rec in simp)+
  have "?start \<le> 255" using unat_bound [of "next_start (GetPDRPendingXfers (pldm s) j)"] by simp
  with send_pdr_beyond [OF f(5) beyond _ f(6) rec(3)]
  have "send_pdr E rh (recordCount (MSP432_PDR_Repository s)) rec count j ?start q s = None" by simp
  with f rec j handle_entry [OF f(7,8) j(1)] available_change [OF av rec(1,2) change] show ?thesis
    by (simp add: pldm_cmd_GetPDR_def getPDRRepository_built request_reads arr_get_def)
qed

text \<open>A repository with two records: a sensor name of 70 bytes and the 35 bytes of the terminus.\<close>

definition two_records :: "unit bmc_st" where
  "two_records = (sample_bmc ())\<lparr>
     xLocalData := (xLocalData (sample_bmc ()))\<lparr>pxPdrSensorNames := Some [[0, 0, 0, 0, 1, 11, 0, 0, 60, 0] @ replicate 76 0x41]\<rparr>,
     xPdrTerminusLocator := [[1, 0, 0, 0, 1, 1, 0, 0, 25, 0] @ drop 10 initial_locator],
     MSP432_PDR_Repository := initial_repository\<lparr>repositoryState := ERepoStateAvailable, recordCount := 2,
       PDRRecords := (\<lambda>_. None)(0 := Some (SensorName 0), 1 := Some (Terminus 0)), iIsRepoInitialized := True\<rparr>\<rparr>"

lemma two_records_available:
  "pdr_available sample_bmc_env 0 4 two_records ([0, 0, 0, 0, 1, 11, 0, 0, 60, 0] @ replicate 60 0x41)"
  "pdr_available sample_bmc_env 1 4 two_records ([1, 0, 0, 0, 1, 1, 0, 0, 25, 0] @ drop 10 initial_locator)"
  by (simp_all add: pdr_available_def two_records_def sample_bmc_env_def sample_bmc_def initial_bmc_def initial_local_def
      initial_repository_def initial_locator_def pdr_get_def pdr_array_def elem_def pdr_size_def get16_def get8_def Let_def)

lemma pdr_fetched_witness:
  "okay (fetch_pdr sample_bmc_env 0 32 0 4 80 EGetFirstPart 0 two_records) (\<lambda>(bytes, crc, s').
    bytes = [0, 0, 0, 0, 1, 11, 0, 0, 60, 0] @ replicate 60 0x41 \<and> crc = Some (ucGetCrc8 bytes))"
  by (rule okay_weaken [OF pdr_fetched [OF two_records_available(1), of 32 0 80 0]])
    (auto simp: max_part_def get16_def get8_def)

definition pending_name :: "unit bmc_st" where
  "pending_name = set_pdr_xfer 0 \<lparr>initialized = PENDING_XFER_INIT_KEY, next_start = 64\<rparr> two_records"

lemma transfer_handle_of_other_record_witness:
  "pldm_cmd_GetPDR sample_bmc_env (pdr_request 1 0x2000 EGetNextPart 32 0) 0 4 pending_name = None"
proof -
  have "pdr_available sample_bmc_env 1 4 pending_name ([1, 0, 0, 0, 1, 1, 0, 0, 25, 0] @ drop 10 initial_locator)"
    using two_records_available(2) by (simp add: pending_name_def pdr_available_def cong: option.case_cong)
  moreover have "PDRRecords (MSP432_PDR_Repository pending_name) 1 = Some (Terminus 0)"
    "pdr_get (Terminus 0) pending_name = Some ([1, 0, 0, 0, 1, 1, 0, 0, 25, 0] @ drop 10 initial_locator)"
    "GetPDRPendingXfers (pldm pending_name) 0 = \<lparr>initialized = PENDING_XFER_INIT_KEY, next_start = 64\<rparr>"
    "xfer_handle (pdr_xfers_base (sample_bmc_env :: unit bmc_env)) 0 = 0x2000"
    by (simp_all add: pending_name_def) (simp_all add: two_records_def sample_bmc_env_def xfer_handle_def pdr_get_def
        pdr_array_def elem_def)
  ultimately show ?thesis
    using transfer_handle_of_other_record [of sample_bmc_env 1 4 pending_name
      "[1, 0, 0, 0, 1, 1, 0, 0, 25, 0] @ drop 10 initial_locator" 0 "Terminus 0" _ 32 0]
    by (simp add: initial_locator_def max_part_def get16_def get8_def)
qed
end
