(* ===== verification/BMC_Reading.thy ===== *)
theory BMC_Reading
  imports PLDM_Transfer
begin

text \<open>
  A sensor reading from the board controller's request to the application and back: the event
  that asks the application, its answer from within the callback, and the response.
\<close>

text \<open>An operating system whose mutexes are always granted and that leaves the proxy's state alone.\<close>

definition quiet_os :: "'w bmc_env \<Rightarrow> bool" where
  "quiet_os E \<longleftrightarrow> (\<forall>m s. mutex_take (evl_part E) m s = (True, s)) \<and>
     (\<forall>m s. mutex_release (evl_part E) m s = (True, s)) \<and> (\<forall>s. snd (uptime_ms (evl_part E) s) = s)"

definition event :: "u8 \<Rightarrow> 'w bmc_st \<Rightarrow> EVLSignal" where
  "event ev s = \<lparr>ucModule = ucMyId (xLocalData s), ucEventType = ev, ucInstance = 0, ucAdditionalData = 0\<rparr>"

lemma raise_to_one:
  assumes os: "quiet_os E" and evl: "evl_ready (evl_data s)" and one: "pxEvlRecord (xLocalData s) = Some r" "pxFirstBinding r = [cb]"
  shows "\<exists>d. bmc_raise E ev s = Some (OK, (snd (evl_callback (evl_part E) cb (event ev s) s))\<lparr>evl_data := d\<rparr>)"
proof -
  obtain t where t: "uptime_ms (evl_part E) s = (t, s)" using os by (metis quiet_os_def prod.collapse)
  obtain st s' where cb: "evl_callback (evl_part E) cb (event ev s) s = (st, s')" by fastforce
  have "evl_firewalls_ok (evl_data s)" "iIsInitialised (evl_data s)" "iLogIdx (evl_data s) < EVL_LOG_LEN"
    using evl by (simp_all add: evl_ready_def)
  with os t cb show ?thesis
    by (simp add: bmc_raise_def iEVL_RaiseEvent_def log_signal_def one quiet_os_def arr_set_def Let_def
        flip: event_def) blast
qed

text \<open>What the request for a reading leads to, once the application has been asked.\<close>

definition asked :: "'w bmc_env \<Rightarrow> nat \<Rightarrow> u16 \<Rightarrow> 'w bmc_st \<Rightarrow> 'w bmc_st" where
  "asked E cb sensorID s = (let s = upd_local (\<lambda>d. d\<lparr>usRequestedSensorId := sensorID, ucAwaitingSensorData := True\<rparr>) s
     in snd (evl_callback (evl_part E) cb (event BMC_PROXY_DRIVER_E_GET_SENSOR_INFO s) s))"

definition can_ask :: "'w bmc_env \<Rightarrow> nat \<Rightarrow> u16 \<Rightarrow> 'w bmc_st \<Rightarrow> bool" where
  "can_ask E cb sensorID s \<longleftrightarrow> quiet_os E \<and> evl_ready (evl_data s) \<and> bmc_ready s \<and>
     (case pxEvlRecord (xLocalData s) of None \<Rightarrow> False | Some r \<Rightarrow> pxFirstBinding r = [cb]) \<and>
     iCheckSensorValid sensorID s = Some OK"

lemma iCheckSensorValid_upd:
  assumes "\<And>d. (bmc_ulUpperFirewall (f d), bmc_ulLowerFirewall (f d), bmc_iInitialised (f d), pxPdrTemperatureSensors (f d),
      pxPdrVoltageSensors (f d), pxPdrCurrentSensors (f d), pxPdrPowerSensors (f d)) =
     (bmc_ulUpperFirewall d, bmc_ulLowerFirewall d, bmc_iInitialised d, pxPdrTemperatureSensors d,
      pxPdrVoltageSensors d, pxPdrCurrentSensors d, pxPdrPowerSensors d)"
    and "\<And>d. (iTotalPdrTemperature (f d), iTotalPdrVoltage (f d), iTotalPdrCurrent (f d), iTotalPdrPower (f d)) =
     (iTotalPdrTemperature d, iTotalPdrVoltage d, iTotalPdrCurrent d, iTotalPdrPower d)"
  shows "iCheckSensorValid i (upd_local f s) = iCheckSensorValid i s"
  using assms by (simp add: iCheckSensorValid_def iGetNumTemperatureSensors_def iGetNumVoltageSensors_def
      iGetNumCurrentSensors_def iGetNumPowerSensors_def bmc_ready_def bmc_firewalls_ok_def upd_local_def Let_def cong: if_cong)

lemma reading_asked:
  assumes "can_ask E cb sensorID s"
  shows "\<exists>d. let s' = asked E cb sensorID s; l = xLocalData s'; r = ucGetNumericSensorResponse l in
    iGetNumericSensorReading E sensorID s =
      (if r = BMC_GET_SENSOR_RESP_OK
       then Some (OK, Some 0, Some (ucRequestedSensorOperationalState l), Some (ssSensorInfo l), s'\<lparr>evl_data := d\<rparr>)
       else Some (OK, Some (if r = 1 then RESP_INVALID_SENSOR_ID else if r = 2 \<or> r = 3 then 0x81 else 1),
         None, None, s'\<lparr>evl_data := d\<rparr>))"
proof -
  let ?s = "upd_local (\<lambda>d. d\<lparr>usRequestedSensorId := sensorID, ucAwaitingSensorData := True\<rparr>) s"
  obtain r where r: "pxEvlRecord (xLocalData ?s) = Some r" "pxFirstBinding r = [cb]"
    using assms by (auto simp: can_ask_def upd_local_def split: option.splits)
  have "quiet_os E" "evl_ready (evl_data ?s)" using assms by (simp_all add: can_ask_def upd_local_def)
  from raise_to_one [OF this r, of BMC_PROXY_DRIVER_E_GET_SENSOR_INFO]
  obtain d where raised: "bmc_raise E BMC_PROXY_DRIVER_E_GET_SENSOR_INFO ?s = Some (OK, (asked E cb sensorID s)\<lparr>evl_data := d\<rparr>)"
    unfolding asked_def Let_def by blast
  have "iCheckSensorValid sensorID (upd_local (\<lambda>d. d\<lparr>usRequestedSensorId := sensorID\<rparr>) s) = Some OK"
    using assms by (subst iCheckSensorValid_upd) (simp_all add: can_ask_def)
  moreover have "upd_local (\<lambda>d. d\<lparr>ucAwaitingSensorData := True\<rparr>) (upd_local (\<lambda>d. d\<lparr>usRequestedSensorId := sensorID\<rparr>) s) = ?s"
    by (simp add: upd_local_def)
  ultimately show ?thesis
    using assms raised by (intro exI [of _ d]) (simp add: iGetNumericSensorReading_def can_ask_def iRaiseBmcEvent_def Let_def)
qed

lemma upd_frames [simp]: "evl_data (upd_local f s) = evl_data s" "RespBuffer (upd_local f s) = RespBuffer s" "xLocalData (upd_local f s) = f (xLocalData s)"
  by (simp_all add: upd_local_def)

lemma put_resp_read9: "length xs = 9 \<Longrightarrow> q + 9 \<le> length (RespBuffer s) \<Longrightarrow>
    get_bytes (RespBuffer (put_resp q xs s)) q 9 = Some xs"
  using put_resp_get [of q xs s] by simp

section \<open>The response\<close>

text \<open>
  C24: a reading passes from the application to the board controller.  When the application's
  callback answers for the sensor it was asked about, the response to Get Sensor Reading is
  nine bytes: success, a 16-bit signed reading, the operational state the application gave,
  and for an enabled sensor the reading itself, for any other sensor zeroes.
\<close>

theorem sensor_reading_reported:
  assumes ask: "can_ask E cb sensorID s"
    and answers: "\<And>sig s. snd (evl_callback (evl_part E) cb sig s) = snd (iBMC_SendResponseForGetSensor sensorID info state BMC_GET_SENSOR_RESP_OK s)"
    and req: "get16 req p = Some sensorID" "get8 req (p + 2) = Some 0" and fits: "q + 9 \<le> length (RespBuffer s)"
  shows "okay (pldm_cmd_GetSensorReading E req p q s) (\<lambda>(n, s'). n = 9 \<and> get_bytes (RespBuffer s') q 9 =
    Some (if state = eSensorOpStateEnabled then [0, 3, 0, 0, 1, 0, 1] @ le_bytes16 info else [0, 3, state, 0, 0, 0, 0, 0, 0]))"
proof -
  have ready: "bmc_ready s" using ask by (simp add: can_ask_def)
  let ?s = "asked E cb sensorID s"
  have s': "ucGetNumericSensorResponse (xLocalData ?s) = 0" "ucRequestedSensorOperationalState (xLocalData ?s) = state"
    "ssSensorInfo (xLocalData ?s) = info" "RespBuffer ?s = RespBuffer s"
    using ready by (simp_all add: asked_def answers iBMC_SendResponseForGetSensor_def bmc_ready_def bmc_firewalls_ok_def)
  obtain d where r: "iGetNumericSensorReading E sensorID s = Some (OK, Some 0, Some state, Some info, ?s\<lparr>evl_data := d\<rparr>)"
    using reading_asked [OF ask] s' by (auto simp: Let_def)
  show ?thesis
    using fits req by (simp add: pldm_cmd_GetSensorReading_def r resp_put put_resp_append s' le_bytes16_def put_resp_read9
        del: get8_Some get_bytes_Some)
qed

text \<open>
  An answer that is missing is taken for a reading.  The task resets the answer to the value
  that stands for success; when no callback answers, the response reports success, an enabled
  sensor and the reading 0.
\<close>

theorem missing_answer_reported_as_zero:
  assumes ask: "can_ask E cb sensorID (upd_local start_message s)"
    and silent: "\<And>sig s. snd (evl_callback (evl_part E) cb sig s) = s"
    and req: "get16 req p = Some sensorID" "get8 req (p + 2) = Some 0" and fits: "q + 9 \<le> length (RespBuffer s)"
  shows "okay (pldm_cmd_GetSensorReading E req p q (upd_local start_message s)) (\<lambda>(n, s'). n = 9 \<and>
    get_bytes (RespBuffer s') q 9 = Some [0, 3, 0, 0, 1, 0, 1, 0, 0])"
proof -
  let ?s = "asked E cb sensorID (upd_local start_message s)"
  have s': "ucGetNumericSensorResponse (xLocalData ?s) = 0" "ucRequestedSensorOperationalState (xLocalData ?s) = 0"
    "ssSensorInfo (xLocalData ?s) = 0" "RespBuffer ?s = RespBuffer s"
    by (simp_all add: asked_def silent start_message_def)
  obtain d where r: "iGetNumericSensorReading E sensorID (upd_local start_message s) =
      Some (OK, Some 0, Some 0, Some 0, ?s\<lparr>evl_data := d\<rparr>)"
    using reading_asked [OF ask] s' by (auto simp: Let_def)
  show ?thesis
    using fits req by (simp add: pldm_cmd_GetSensorReading_def r resp_put put_resp_append s' le_bytes16_def put_resp_read9
        del: get8_Some get_bytes_Some)
qed

text \<open>
  an answer for another sensor, or any answer but success and an invalid sensor, makes the
  handler go on with variables it never assigned: the operational state it would send is
  indeterminate, and the command has no defined result.
\<close>

theorem other_answer_undefined:
  assumes ask: "can_ask E cb sensorID s"
    and answers: "\<And>sig s. snd (evl_callback (evl_part E) cb sig s) = snd (iBMC_SendResponseForGetSensor other info state resp s)"
    and other: "other \<noteq> sensorID \<or> resp \<noteq> BMC_GET_SENSOR_RESP_OK \<and> resp \<noteq> BMC_GET_SENSOR_RESP_INVALID_SENSOR_ID"
    and req: "get16 req p = Some sensorID" "get8 req (p + 2) = Some 0"
  shows "pldm_cmd_GetSensorReading E req p q s = None"
proof -
  have ready: "bmc_ready s" using ask by (simp add: can_ask_def)
  let ?s = "asked E cb sensorID s"
  have s': "ucGetNumericSensorResponse (xLocalData ?s) = (if other = sensorID then resp else BMC_GET_SENSOR_RESP_NONE)"
    using ready by (simp add: asked_def answers iBMC_SendResponseForGetSensor_def bmc_ready_def bmc_firewalls_ok_def
        BMC_INC_ERROR_COUNTER_def)
  have not_ok: "ucGetNumericSensorResponse (xLocalData ?s) \<noteq> 0" "ucGetNumericSensorResponse (xLocalData ?s) \<noteq> 1"
    using other unfolding s' by auto
  from reading_asked [OF ask] obtain d where "iGetNumericSensorReading E sensorID s = Some (OK, Some (if
      ucGetNumericSensorResponse (xLocalData ?s) = 2 \<or> ucGetNumericSensorResponse (xLocalData ?s) = 3 then 0x81 else 1),
      None, None, ?s\<lparr>evl_data := d\<rparr>)"
    unfolding Let_def using not_ok by auto
  then obtain c where "iGetNumericSensorReading E sensorID s = Some (OK, Some c, None, None, ?s\<lparr>evl_data := d\<rparr>)" "c \<noteq> 0x80"
    by (rule that) simp
  then show ?thesis
    using req by (simp add: pldm_cmd_GetSensorReading_def bind_eq_None_conv del: get8_Some)
qed

section \<open>Witnesses\<close>

text \<open>The proxy of \<open>sample_bmc\<close>, whose record binds callback 7, and an application that answers.\<close>

definition answering :: "u16 \<Rightarrow> u16 \<Rightarrow> u8 \<Rightarrow> u8 \<Rightarrow> unit bmc_env" where
  "answering i info state resp = sample_bmc_env\<lparr>evl_part := (evl_part sample_bmc_env)\<lparr>
     evl_callback := (\<lambda>cb sig s. iBMC_SendResponseForGetSensor i info state resp s)\<rparr>\<rparr>"

lemma sample_sensor_id: "get16 (sample_sensor n) 12 = Some (ucast n)"
  by (simp add: sample_sensor_def get16_def get8_def nth_append)

lemma sensor_2_valid: "iCheckSensorValid 2 (sample_bmc w) = Some OK" "iCheckSensorValid 2 (upd_local start_message (sample_bmc w)) = Some OK"
  by (simp_all add: iCheckSensorValid_def sample_bmc_def initial_bmc_def initial_local_def iGetNumTemperatureSensors_def
      iGetNumVoltageSensors_def bmc_ready_def bmc_firewalls_ok_def start_message_def elem_def sample_sensor_id)

lemma sample_can_ask:
  "can_ask (answering i info state resp) 7 2 (sample_bmc ())" "can_ask sample_bmc_env 7 2 (upd_local start_message (sample_bmc ()))"
  using sensor_2_valid sample_evl_ready
  by (simp_all add: can_ask_def quiet_os_def answering_def sample_bmc_env_def)
    (simp_all add: sample_bmc_def initial_bmc_def initial_local_def bmc_ready_def bmc_firewalls_ok_def start_message_def)

lemma sensor_reading_reported_witness:
  "okay (pldm_cmd_GetSensorReading (answering 2 0x1234 0 0) [2, 0, 0] 0 11 (sample_bmc ()))
     (\<lambda>(n, s'). n = 9 \<and> get_bytes (RespBuffer s') 11 9 = Some [0, 3, 0, 0, 1, 0, 1, 0x34, 0x12])"
proof -
  have "get16 [2, 0, 0 :: u8] 0 = Some 2" "get8 [2, 0, 0 :: u8] (0 + 2) = Some 0" "11 + 9 \<le> length (RespBuffer (sample_bmc ()))"
    by (simp_all add: get16_def get8_def sample_bmc_def initial_bmc_def)
  note reported = sensor_reading_reported [of "answering 2 0x1234 0 0" 7 2 "sample_bmc ()" "0x1234" 0, OF sample_can_ask(1) _ this]
  show ?thesis
    by (rule okay_weaken [OF reported]) (auto simp: answering_def le_bytes16_def simp del: get_bytes_Some)
qed

lemma missing_answer_reported_as_zero_witness:
  "okay (pldm_cmd_GetSensorReading sample_bmc_env [2, 0, 0] 0 11 (upd_local start_message (sample_bmc ())))
     (\<lambda>(n, s'). n = 9 \<and> get_bytes (RespBuffer s') 11 9 = Some [0, 3, 0, 0, 1, 0, 1, 0, 0])"
  by (rule missing_answer_reported_as_zero [OF sample_can_ask(2)])
    (simp_all add: sample_bmc_env_def get16_def get8_def sample_bmc_def initial_bmc_def)

lemma other_answer_undefined_witness:
  "pldm_cmd_GetSensorReading (answering 5 0x1234 0 0) [2, 0, 0] 0 11 (sample_bmc ()) = None"
  by (rule other_answer_undefined [of "answering 5 0x1234 0 0" 7 2 "sample_bmc ()" 5 "0x1234" 0 0, OF sample_can_ask(1)])
    (simp_all add: answering_def get16_def get8_def)
end
