(* ===== verification/MCTP_Packets.thy ===== *)
theory MCTP_Packets
  imports MCTP
begin

text \<open>
  Messages in several packets: what the disassembly of a response puts on the wire, and what
  the assembly of a request makes of such packets.
\<close>

section \<open>The flags byte\<close>

lemma u8_eqI:
  assumes "bit a 0 = bit b 0" "bit a 1 = bit b 1" "bit a 2 = bit b 2" "bit a 3 = bit b 3"
    "bit a 4 = bit b 4" "bit a 5 = bit b 5" "bit a 6 = bit b 6" "bit a 7 = bit b 7"
  shows "a = (b :: u8)"
proof (rule bit_word_eqI)
  fix n assume "n < LENGTH(8)"
  then have "n = 0 \<or> n = 1 \<or> n = 2 \<or> n = 3 \<or> n = 4 \<or> n = 5 \<or> n = 6 \<or> n = 7" by (simp, arith)
  then show "bit a n = bit b n" by (elim disjE) (simp_all only: assms)
qed

lemmas flag_defs = set_eom_def set_som_def set_seq_def set_tag_def flag_eom_def flag_som_def flag_seq_def flag_tag_def

lemma flag_set [simp]:
  "flag_seq (set_eom v b) = flag_seq b" "flag_seq (set_som v b) = flag_seq b" "flag_seq (set_seq w b) = w AND 3"
  "flag_som (set_eom v b) = flag_som b" "flag_som (set_seq w b) = flag_som b" "flag_som (set_som v b) = v"
  "flag_eom (set_som v b) = flag_eom b" "flag_eom (set_seq w b) = flag_eom b" "flag_eom (set_eom v b) = v"
  by (auto intro!: u8_eqI simp: flag_defs bit_simps)

lemma set_flags_idem [simp]:
  "set_eom v (set_eom u b) = set_eom v b" "set_som v (set_som u b) = set_som v b"
  "set_seq x (set_seq y b) = set_seq x b" "set_eom v (set_som u b) = set_som u (set_eom v b)"
  "set_seq x (set_som u b) = set_som u (set_seq x b)" "set_eom v (set_seq x b) = set_seq x (set_eom v b)"
  by (auto intro!: u8_eqI simp: flag_defs bit_simps)

lemma set_seq_and: "set_seq (x AND 3) b = set_seq x b"
  by (simp add: set_seq_def and.assoc)

lemma unat_and3: "unat (x AND 3) = unat (x :: u8) mod 4"
proof -
  have "unat (x AND 3) = unat x AND 3" by (simp add: unsigned_and_eq)
  also have "\<dots> = take_bit 2 (unat x)" by (simp add: take_bit_eq_mask mask_eq_exp_minus_1)
  finally show ?thesis by (simp add: take_bit_eq_mod)
qed

lemma seq_step: "((x :: u8) AND 3) + 1 AND 3 = x + 1 AND 3"
proof (rule word_unat_eq_iff [THEN iffD2])
  have d: "4 dvd (256 :: nat)" by simp
  have "(unat x mod 4 + 1) mod 256 mod 4 = (unat x + 1) mod 256 mod 4"
    unfolding mod_mod_cancel [OF d] by (rule mod_add_left_eq)
  then show "unat ((x AND 3) + 1 AND 3) = unat (x + 1 AND 3)"
    by (simp add: unat_and3 unat_word_ariths(1))
qed

section \<open>A message and its packets\<close>

text \<open>
  The packets of a message \<open>xs\<close> with at most \<open>m\<close> bytes each: a header, the flags byte, and the
  part.  The first packet has the start flag, the last the end flag, and the sequence number
  counts modulo 4.
\<close>

definition message_packets :: "nat \<Rightarrow> u8 list \<Rightarrow> u8 \<Rightarrow> u8 list \<Rightarrow> u8 list list" where
  "message_packets m hdr f xs = (let n = (length xs + (m - 1)) div m in
     map (\<lambda>k. hdr @ [set_eom (Suc k = n) (set_som (k = 0) (set_seq (of_nat k) f))] @ take m (drop (m * k) xs)) [0..<n])"

text \<open>The same packets one after the other, with the flags of the next packet from the last one's.\<close>

function packets_from :: "nat \<Rightarrow> u8 list \<Rightarrow> u8 \<Rightarrow> u8 list \<Rightarrow> u8 list list" where
  "packets_from m hdr f xs =
     (if m < length xs \<and> m \<noteq> 0
      then (hdr @ [set_eom False f] @ take m xs) # packets_from m hdr (set_som False (set_seq (flag_seq f + 1) f)) (drop m xs)
      else [hdr @ [set_eom True f] @ xs])"
  by pat_completeness auto
termination by (relation "measure (\<lambda>(m, h, f, xs). length xs)") auto

declare packets_from.simps [simp del]

lemma set_seq_cong: "x AND 3 = y AND 3 \<Longrightarrow> set_seq x b = set_seq y b"
  by (simp add: set_seq_def)

lemma next_flags: "set_som False (set_seq (flag_seq (set_som u (set_seq x f)) + 1) (set_som u (set_seq x f))) =
    set_som False (set_seq (x + 1) f)"
proof -
  have "set_seq ((x AND 3) + 1) f = set_seq (x + 1) f" by (rule set_seq_cong) (rule seq_step)
  then show ?thesis by simp
qed

lemma packets_count:
  assumes "0 < m" and "m < length xs"
  shows "(length xs + (m - 1)) div m = Suc ((length (drop m xs) + (m - 1)) div m)" and "0 < (length (drop m xs) + (m - 1)) div m"
proof -
  have "length xs + (m - 1) = (length (drop m xs) + (m - 1)) + m" using assms by simp
  then show "(length xs + (m - 1)) div m = Suc ((length (drop m xs) + (m - 1)) div m)"
    using assms(1) by (simp only: div_add_self2 [of m] Suc_eq_plus1)
  show "0 < (length (drop m xs) + (m - 1)) div m" using assms by (simp add: div_greater_zero_iff)
qed

lemma packets_from_nth:
  assumes "0 < m" and "xs \<noteq> []"
  shows "packets_from m hdr (set_som (j = 0) (set_seq (of_nat j) f)) xs = (let n = (length xs + (m - 1)) div m in
    map (\<lambda>k. hdr @ [set_eom (Suc k = n) (set_som (j + k = 0) (set_seq (of_nat (j + k)) f))] @ take m (drop (m * k) xs)) [0..<n])"
  using assms(2)
proof (induction "length xs" arbitrary: xs j rule: less_induct)
  case less
  show ?case
  proof (cases "m < length xs")
    case True
    define n where "n = (length (drop m xs) + (m - 1)) div m"
    have n: "(length xs + (m - 1)) div m = Suc n" "n \<noteq> 0"
      using packets_count [OF assms(1) True] by (simp_all add: n_def)
    have "packets_from m hdr (set_som (Suc j = 0) (set_seq (of_nat (Suc j)) f)) (drop m xs) =
        map (\<lambda>k. hdr @ [set_eom (Suc k = n) (set_som (Suc j + k = 0) (set_seq (of_nat (Suc j + k)) f))] @
               take m (drop (m * k) (drop m xs))) [0..<n]"
      using less.hyps [of "drop m xs" "Suc j"] True assms(1) unfolding n_def Let_def by simp
    moreover have "set_som False (set_seq (flag_seq (set_som (j = 0) (set_seq (of_nat j) f)) + 1) (set_som (j = 0) (set_seq (of_nat j) f)))
        = set_som (Suc j = 0) (set_seq (of_nat (Suc j)) f)"
      by (simp only: next_flags) (simp add: add.commute)
    moreover have "drop (m * k) (drop m xs) = drop (m * Suc k) xs" for k
      by (simp add: add.commute)
    ultimately show ?thesis
      unfolding n(1) Let_def map_upt_Suc using True assms(1) n(2)
      by (subst packets_from.simps) (simp del: drop_drop)
  next
    case False
    moreover have "1 \<le> length xs" using less.prems by (cases xs) simp_all
    ultimately have "(length xs + (m - 1)) div m = 1"
      using assms(1) by (intro div_nat_eqI) simp_all
    with False show ?thesis by (subst packets_from.simps) (simp add: Let_def)
  qed
qed

lemma packets_from_message: "0 < m \<Longrightarrow> xs \<noteq> [] \<Longrightarrow> packets_from m hdr (set_som True (set_seq 0 f)) xs = message_packets m hdr f xs"
  using packets_from_nth [of m xs hdr 0 f] by (simp add: message_packets_def)

section \<open>The disassembly of a response\<close>

text \<open>
  What the packets need of the firmware interface: it writes all, and \<open>log\<close> records the
  writes; sleeping leaves the log alone.
\<close>

definition logs_writes :: "'w bmc_env \<Rightarrow> ('w \<Rightarrow> (u8 \<times> u8 list) list) \<Rightarrow> bool" where
  "logs_writes E log \<longleftrightarrow> (\<forall>a d w. fst (fw_if_write E a d w) \<and> log (snd (fw_if_write E a d w)) = log w @ [(a, d)]) \<and>
     (\<forall>n w. log (sleep_ms E n w) = log w)"

text \<open>The 7-bit address the packets go to: the source of the request.\<close>

definition reply_addr :: "'w bmc_st \<Rightarrow> u8" where
  "reply_addr s = drop_bit 1 (ReqBuffer s ! 2 AND NOT 1)"

lemma reply_addr_masked: "drop_bit (Suc 0) (ReqBuffer s ! 2) AND 127 = reply_addr s"
  by (simp add: reply_addr_def)

text \<open>A buffer that holds a packet, and the accesses to it.\<close>

definition packet :: "u8 \<Rightarrow> u8 \<Rightarrow> u8 list \<Rightarrow> u8 \<Rightarrow> u8 list \<Rightarrow> u8 list" where
  "packet a c hdr f ys = [a, c] @ hdr @ [f] @ ys"

lemma packet_access:
  assumes "length hdr = 4"
  shows "get8 (packet a c hdr f ys) 6 = Some f" "put8 6 v (packet a c hdr f ys) = Some (packet a c hdr v ys)"
    "put8 0 v (packet a c hdr f ys) = Some (packet v c hdr f ys)" "put8 1 v (packet a c hdr f ys) = Some (packet a v hdr f ys)"
    "put8 (Suc 0) v (packet a c hdr f ys) = Some (packet a v hdr f ys)"
    "get8 (packet a c hdr f ys) 0 = Some a"
    "get_bytes (packet a c hdr f (xs @ ys)) 2 (5 + length xs) = Some (hdr @ [f] @ xs)"
    "get_bytes (packet a c hdr f ys) 71 n = get_bytes ys 64 n" "get8 (packet a c hdr f ys) 71 = get8 ys 64"
    "put8 71 v (packet a c hdr f ys) = map_option (packet a c hdr f) (put8 64 v ys)"
    "put_bytes 7 zs (packet a c hdr f ys) = map_option (packet a c hdr f) (put_bytes 0 zs ys)"
proof -
  obtain h2 h3 h4 h5 where h: "hdr = [h2, h3, h4, h5]"
    using assms by (auto simp: length_Suc_conv numeral_eq_Suc)
  show "get8 (packet a c hdr f ys) 6 = Some f" "put8 6 v (packet a c hdr f ys) = Some (packet a c hdr v ys)"
    "put8 0 v (packet a c hdr f ys) = Some (packet v c hdr f ys)" "put8 1 v (packet a c hdr f ys) = Some (packet a v hdr f ys)"
    "put8 (Suc 0) v (packet a c hdr f ys) = Some (packet a v hdr f ys)"
    "get8 (packet a c hdr f ys) 0 = Some a"
    "get_bytes (packet a c hdr f (xs @ ys)) 2 (5 + length xs) = Some (hdr @ [f] @ xs)"
    "get_bytes (packet a c hdr f ys) 71 n = get_bytes ys 64 n" "get8 (packet a c hdr f ys) 71 = get8 ys 64"
    "put8 71 v (packet a c hdr f ys) = map_option (packet a c hdr f) (put8 64 v ys)"
    "put_bytes 7 zs (packet a c hdr f ys) = map_option (packet a c hdr f) (put_bytes 0 zs ys)"
    by (simp_all add: packet_def h get8_def put8_def get_bytes_def put_bytes_def numeral_eq_Suc)
qed

lemma send_packet_effect:
  assumes ready: "bmc_ready s" and log: "logs_writes E log" and req: "2 < length (ReqBuffer s)"
    and b: "RespBuffer s = packet a c hdr f (xs @ rest)" and hdr: "length hdr = 4"
  shows "\<exists>c w. send_packet E (length xs) u s = Some (True, s\<lparr>RespBuffer := packet (reply_addr s) c hdr (set_eom u f) (xs @ rest),
      outside := w\<rparr>) \<and> log w = log (outside s) @ [(reply_addr s, hdr @ [set_eom u f] @ xs)]"
proof -
  define w where "w = snd (fw_if_write E (reply_addr s) (hdr @ [set_eom u f] @ xs) (outside s))"
  have w: "fw_if_write E (reply_addr s) (hdr @ [set_eom u f] @ xs) (outside s) = (True, w)"
    "log w = log (outside s) @ [(reply_addr s, hdr @ [set_eom u f] @ xs)]"
    using log by (auto simp: logs_writes_def prod_eq_iff w_def)
  have src: "get8 (ReqBuffer s) 2 = Some (ReqBuffer s ! 2)" using req by simp
  have "send_packet E (length xs) u s = Some (True, s\<lparr>RespBuffer := packet (reply_addr s) (of_nat (MCTP_HEADER + length xs - 2)) hdr
      (set_eom u f) (xs @ rest), outside := w\<rparr>)"
    using ready w(1) by (simp add: send_packet_def iResponseDataWrite_def resp8_def b packet_access [OF hdr] src
        bmc_ready_def bmc_firewalls_ok_def reply_addr_masked del: get8_Some put8_Some get_bytes_Some)
  with w(2) show ?thesis by blast
qed

lemma next_packet_effect:
  assumes b: "RespBuffer s = packet a c hdr f (xs @ rest)" and hdr: "length hdr = 4" and xs: "64 < length xs"
  shows "\<exists>rest'. next_packet E (xs ! 64) (length xs - 64) s = Some (s\<lparr>RespBuffer := packet a c hdr
      (set_som False (set_seq (flag_seq f + 1) f)) (drop 64 xs @ rest'), outside := sleep_ms E MCTP_MESSAGE_DELAY_MS (outside s)\<rparr>)"
proof -
  have same: "put8 64 (xs ! 64) (xs @ rest) = Some (xs @ rest)"
    using xs list_update_id [of "xs @ rest" 64] by (simp add: nth_append)
  have part: "get_bytes (xs @ rest) 64 (length xs - 64) = Some (drop 64 xs)"
    using xs by simp
  have moved: "put_bytes 0 (drop 64 xs) (xs @ rest) = Some (drop 64 xs @ drop (length xs - 64) (xs @ rest))"
    using xs by simp
  show ?thesis
    by (rule exI [of _ "drop (length xs - 64) (xs @ rest)"])
      (simp add: next_packet_def resp8_def resp_bytes_def b packet_access [OF hdr] same part moved
        del: get8_Some put8_Some get_bytes_Some put_bytes_Some)
qed

lemma packets_from_eom: "packets_from m hdr (set_eom v f) xs = packets_from m hdr f xs"
proof (induction "length xs" arbitrary: xs f rule: less_induct)
  case less
  show ?case
  proof (cases "m < length xs \<and> m \<noteq> 0")
    case True
    then have "length (drop m xs) < length xs" by auto
    with True less [of "drop m xs" "set_som False (set_seq (flag_seq f + 1) f)"] show ?thesis
      by (subst (1 2) packets_from.simps) simp
  next
    case False
    then show ?thesis by (subst (1 2) packets_from.simps) auto
  qed
qed

lemma frames_sent:
  assumes "bmc_ready s" and log: "logs_writes E log" and "2 < length (ReqBuffer s)"
    and "RespBuffer s = packet a c hdr f (xs @ rest)" and hdr: "length hdr = 4" and "xs \<noteq> []"
  shows "okay (send_packets E (length xs) s) (\<lambda>s'. log (outside s') =
    log (outside s) @ map (Pair (reply_addr s)) (packets_from MCTP_MAX_PAYLOAD_SIZE hdr f xs))"
  using assms(1,3,4,6)
proof (induction "length xs" arbitrary: xs a c f rest s rule: less_induct)
  case less
  note b = less.prems(3)
  show ?case
  proof (cases "64 < length xs")
    case True
    have saved: "get8 (RespBuffer s) 71 = Some (xs ! 64)"
      using True by (simp add: b packet_access [OF hdr] del: get8_Some) (simp add: nth_append)
    have "RespBuffer s = packet a c hdr f (take 64 xs @ drop 64 xs @ rest)" by (simp add: b flip: append_assoc)
    from send_packet_effect [OF less.prems(1) log less.prems(2) this hdr, of False] True
    obtain c' w where s1: "send_packet E 64 False s =
        Some (True, s\<lparr>RespBuffer := packet (reply_addr s) c' hdr (set_eom False f) (xs @ rest), outside := w\<rparr>)"
      and w: "log w = log (outside s) @ [(reply_addr s, hdr @ [set_eom False f] @ take 64 xs)]"
      by (auto simp flip: append_assoc)
    let ?s1 = "s\<lparr>RespBuffer := packet (reply_addr s) c' hdr (set_eom False f) (xs @ rest), outside := w\<rparr>"
    have "RespBuffer ?s1 = packet (reply_addr s) c' hdr (set_eom False f) (xs @ rest)" by simp
    from next_packet_effect [OF this hdr True]
    obtain rest' where s2: "next_packet E (xs ! 64) (length xs - 64) ?s1 = Some (?s1\<lparr>RespBuffer := packet (reply_addr s) c' hdr
        (set_som False (set_seq (flag_seq f + 1) (set_eom False f))) (drop 64 xs @ rest'), outside := sleep_ms E 10 w\<rparr>)" by auto
    let ?s2 = "?s1\<lparr>RespBuffer := packet (reply_addr s) c' hdr
        (set_som False (set_seq (flag_seq f + 1) (set_eom False f))) (drop 64 xs @ rest'), outside := sleep_ms E 10 w\<rparr>"
    have "bmc_ready ?s2" "2 < length (ReqBuffer ?s2)" "reply_addr ?s2 = reply_addr s" "log (outside ?s2) = log w"
      using less.prems(1,2) log by (simp_all add: bmc_ready_def bmc_firewalls_ok_def reply_addr_def logs_writes_def)
    with less.hyps [of "drop 64 xs" ?s2 "reply_addr s" c' "set_som False (set_seq (flag_seq f + 1) (set_eom False f))" rest'] True
    have "okay (send_packets E (length xs - 64) ?s2) (\<lambda>s'. log (outside s') = log w @
        map (Pair (reply_addr s)) (packets_from 64 hdr (set_som False (set_seq (flag_seq f + 1) (set_eom False f))) (drop 64 xs)))"
      by simp
    then show ?thesis
      using True s1 s2 saved w less.prems(4) packets_from_eom [of 64 hdr False "set_som False (set_seq (flag_seq f + 1) f)" "drop 64 xs"]
      by (subst send_packets.simps, subst packets_from.simps) (simp add: okay_iff del: get8_Some)
  next
    case False
    from send_packet_effect [OF less.prems(1) log less.prems(2) b hdr, of True] False less.prems(4)
    show ?thesis by (subst send_packets.simps, subst packets_from.simps) (auto simp: okay_iff)
  qed
qed

text \<open>
  C20: the response to a request leaves as the packets of its payload: at most 64 bytes each, in
  order and together exactly the payload, to the address the request came from, with the
  request's endpoints swapped, its tag, the start flag on the first and the end flag on the
  last packet, and sequence numbers counting from 0 modulo 4.
\<close>

theorem response_packets_sent:
  assumes "bmc_ready s" and "logs_writes E log" and "6 < length (ReqBuffer s)"
    and "0 < n" and "MCTP_HEADER + n \<le> length (RespBuffer s)"
  shows "okay (start_response s \<bind> send_packets E n) (\<lambda>s'. log (outside s') = log (outside s) @
    map (Pair (reply_addr s))
      (message_packets MCTP_MAX_PAYLOAD_SIZE [0x31, ReqBuffer s ! 3, ReqBuffer s ! 5, ReqBuffer s ! 4]
        (set_tag (flag_tag (ReqBuffer s ! 6)) (RespBuffer s ! 6)) (take n (drop MCTP_HEADER (RespBuffer s)))))"
proof -
  obtain b0 b1 b2 b3 b4 b5 f ys where b: "RespBuffer s = b0 # b1 # b2 # b3 # b4 # b5 # f # ys"
    using assms(4,5) by (auto simp: Suc_le_length_iff numeral_eq_Suc)
  let ?hdr = "[0x31, ReqBuffer s ! 3, ReqBuffer s ! 5, ReqBuffer s ! 4]"
  let ?f = "set_som True (set_seq 0 (set_tag (flag_tag (ReqBuffer s ! 6)) f))"
  let ?s = "s\<lparr>RespBuffer := packet b0 b1 ?hdr ?f (take n ys @ drop n ys)\<rparr>"
  have n: "n \<le> length ys" using assms(5) by (simp add: b)
  have "start_response s = Some ?s"
    using assms(3) by (simp add: start_response_def resp8_def put8_def get8_def b packet_def numeral_eq_Suc)
  moreover have "okay (send_packets E (length (take n ys)) ?s) (\<lambda>s'. log (outside s') =
      log (outside ?s) @ map (Pair (reply_addr ?s)) (packets_from MCTP_MAX_PAYLOAD_SIZE ?hdr ?f (take n ys)))"
    using assms n by (intro frames_sent [where rest = "drop n ys" and a = b0 and c = b1]) (auto simp: bmc_ready_def bmc_firewalls_ok_def)
  moreover have "packets_from MCTP_MAX_PAYLOAD_SIZE ?hdr ?f (take n ys) =
      message_packets MCTP_MAX_PAYLOAD_SIZE ?hdr (set_tag (flag_tag (ReqBuffer s ! 6)) f) (take n ys)"
    using assms(4) n by (intro packets_from_message) auto
  ultimately show ?thesis using n by (simp add: b reply_addr_def)
qed

section \<open>The assembly of a request\<close>

text \<open>
  The packets of a request arrive one after the other in the request buffer, with the address
  byte and the byte count in front of what \<open>message_packets\<close> lists; each goes through \<open>assemble\<close>,
  and the result is that of the last.
\<close>

definition arrive :: "u8 list \<Rightarrow> 'w bmc_st \<Rightarrow> 'w bmc_st" where
  "arrive pkt s = s\<lparr>ReqBuffer := [0x30, of_nat (length pkt)] @ pkt @ drop (length pkt + 2) (ReqBuffer s)\<rparr>"

fun assemble_all :: "'w bmc_env \<Rightarrow> u8 list list \<Rightarrow> 'w bmc_st \<Rightarrow> (nat option \<times> 'w bmc_st) option" where
  "assemble_all E [] s = Some (None, s)"
| "assemble_all E [pkt] s = assemble E (pkt ! 4) (of_nat (length pkt + 2)) (arrive pkt s)"
| "assemble_all E (pkt # pkts) s = do {
     (_, s) \<leftarrow> assemble E (pkt ! 4) (of_nat (length pkt + 2)) (arrive pkt s);
     assemble_all E pkts s }"

text \<open>What is staged after some packets: their headers' first and their payloads, in order.\<close>

definition staged :: "u8 list \<Rightarrow> u8 \<Rightarrow> 'w bmc_st \<Rightarrow> bool" where
  "staged bytes seq s \<longleftrightarrow> length (multiPartReqBuffer (mctp s)) = MAX_MULTIPART_BUFFER_SIZE \<and>
     length bytes \<le> MAX_MULTIPART_BUFFER_SIZE \<and> staging_buff_size (mctp s) = of_nat (length bytes) \<and>
     take (length bytes) (multiPartReqBuffer (mctp s)) = bytes \<and> prv_seq_num (mctp s) = seq"

lemma stage_payload_effect:
  assumes st: "staged bytes seq s" and m: "length xs \<le> 248" and req: "255 \<le> length (ReqBuffer s)" and hdr: "length hdr = 4"
  shows "stage_payload (of_nat (length (hdr @ [f] @ xs) + 2)) (arrive (hdr @ [f] @ xs) s) =
    (if length bytes + length xs \<le> MAX_MULTIPART_BUFFER_SIZE
     then Some (upd_mctp (\<lambda>d. d\<lparr>multiPartReqBuffer := bytes @ xs @ drop (length bytes + length xs) (multiPartReqBuffer d),
       staging_buff_size := of_nat (length bytes + length xs)\<rparr>) (arrive (hdr @ [f] @ xs) s))
     else None)"
proof -
  have c: "unat (of_nat (length (hdr @ [f] @ xs) + 2) :: u8) = 7 + length xs"
    using m hdr by (subst unat_small) simp_all
  have l: "unat (staging_buff_size (mctp s)) = length bytes"
    using st by (simp add: staged_def unsigned_of_nat take_bit_nat_eq_self)
  have "ReqBuffer (arrive (hdr @ [f] @ xs) s) = packet 0x30 (of_nat (length (hdr @ [f] @ xs))) hdr f (xs @ drop (7 + length xs) (ReqBuffer s))"
    using hdr by (simp add: arrive_def packet_def)
  then have "get_bytes (ReqBuffer (arrive (hdr @ [f] @ xs) s)) MCTP_HEADER (length xs) = Some xs"
    using hdr by (simp add: packet_def)
  then show ?thesis
    using st l by (simp add: stage_payload_def c [simplified] arrive_def staged_def put_bytes_def upd_mctp_def Let_def del: get_bytes_Some)
qed

lemma mod4_and: "x mod 4 = (x AND 3 :: u8)"
  by (rule word_unat_eq_iff [THEN iffD2]) (simp add: unat_and3 unat_mod_distrib)

lemma assemble_all_Cons: "pkts \<noteq> [] \<Longrightarrow> assemble_all E (pkt # pkts) s =
    (assemble E (pkt ! 4) (of_nat (length pkt + 2)) (arrive pkt s) \<bind> (\<lambda>(_, s). assemble_all E pkts s))"
  by (cases pkts) (simp_all add: case_prod_beta)

lemma packets_from_Nil [simp]: "packets_from m hdr f xs \<noteq> []"
  by (subst packets_from.simps) simp

text \<open>The state after an assembly that completes: nothing is staged.\<close>

definition unstaged :: "'w bmc_st \<Rightarrow> 'w bmc_st" where
  "unstaged = upd_mctp (\<lambda>d. d\<lparr>staging_buff_size := 0, prv_seq_num := 0\<rparr>)"

lemma assemble_middle:
  assumes st: "staged bytes seq s" and req: "255 \<le> length (ReqBuffer s)" and hdr: "length hdr = 4" and m: "length xs \<le> 248"
    and seq: "flag_seq f = seq + 1 AND 3" and som: "\<not> flag_som f" and eom: "\<not> flag_eom f"
  defines "pkt \<equiv> hdr @ [f] @ xs"
  shows "length bytes + length xs \<le> MAX_MULTIPART_BUFFER_SIZE \<Longrightarrow>
      \<exists>rq d. assemble E (pkt ! 4) (of_nat (length pkt + 2)) (arrive pkt s) = Some (None, s\<lparr>ReqBuffer := rq, mctp := d\<rparr>) \<and>
        staged (bytes @ xs) (flag_seq f) (s\<lparr>ReqBuffer := rq, mctp := d\<rparr>) \<and> 255 \<le> length rq"
    and "MAX_MULTIPART_BUFFER_SIZE < length bytes + length xs \<Longrightarrow>
      assemble E (pkt ! 4) (of_nat (length pkt + 2)) (arrive pkt s) = None"
proof -
  have f: "pkt ! 4 = f" using hdr by (simp add: pkt_def nth_append)
  have prv: "(prv_seq_num (mctp (arrive pkt s)) + 1) mod 4 = flag_seq f"
    using st by (simp add: arrive_def staged_def mod4_and seq)
  note stage = stage_payload_effect [OF st m req hdr, of f, folded pkt_def]
  show "assemble E (pkt ! 4) (of_nat (length pkt + 2)) (arrive pkt s) = None"
    if "MAX_MULTIPART_BUFFER_SIZE < length bytes + length xs"
    using that som by (simp only: assemble_def f prv stage Let_def) simp
  have len: "255 \<le> length (ReqBuffer (arrive pkt s))" using req m hdr by (simp add: arrive_def pkt_def)
  show "\<exists>rq d. assemble E (pkt ! 4) (of_nat (length pkt + 2)) (arrive pkt s) = Some (None, s\<lparr>ReqBuffer := rq, mctp := d\<rparr>) \<and>
        staged (bytes @ xs) (flag_seq f) (s\<lparr>ReqBuffer := rq, mctp := d\<rparr>) \<and> 255 \<le> length rq"
    if "length bytes + length xs \<le> MAX_MULTIPART_BUFFER_SIZE"
  proof (intro exI conjI)
    show "assemble E (pkt ! 4) (of_nat (length pkt + 2)) (arrive pkt s) = Some (None, s\<lparr>ReqBuffer := ReqBuffer (arrive pkt s),
        mctp := (mctp s)\<lparr>multiPartReqBuffer := bytes @ xs @ drop (length bytes + length xs) (multiPartReqBuffer (mctp s)),
          staging_buff_size := of_nat (length bytes + length xs), prv_seq_num := flag_seq f\<rparr>\<rparr>)"
      using that som eom by (simp only: assemble_def f prv stage Let_def) (simp add: arrive_def upd_mctp_def)
  qed (use that st len in \<open>simp_all add: staged_def\<close>)
qed

lemma assemble_last:
  assumes st: "staged bytes seq s" and req: "255 \<le> length (ReqBuffer s)" and hdr: "length hdr = 4" and m: "length xs \<le> 248"
    and seq: "flag_seq f = seq + 1 AND 3" and som: "\<not> flag_som f" and eom: "flag_eom f"
  defines "pkt \<equiv> hdr @ [f] @ xs"
  shows "length bytes + length xs \<le> MAX_MULTIPART_BUFFER_SIZE \<Longrightarrow>
      \<exists>buf rq d. assemble E (pkt ! 4) (of_nat (length pkt + 2)) (arrive pkt s) =
          map_option (\<lambda>(n, t). (Some n, unstaged t)) (process_request E buf (s\<lparr>ReqBuffer := rq, mctp := d\<rparr>)) \<and>
        take (length bytes + length xs) buf = bytes @ xs"
    and "MAX_MULTIPART_BUFFER_SIZE < length bytes + length xs \<Longrightarrow>
      assemble E (pkt ! 4) (of_nat (length pkt + 2)) (arrive pkt s) = None"
proof -
  have f: "pkt ! 4 = f" using hdr by (simp add: pkt_def nth_append)
  have prv: "(prv_seq_num (mctp (arrive pkt s)) + 1) mod 4 = flag_seq f"
    using st by (simp add: arrive_def staged_def mod4_and seq)
  note stage = stage_payload_effect [OF st m req hdr, of f, folded pkt_def]
  show "assemble E (pkt ! 4) (of_nat (length pkt + 2)) (arrive pkt s) = None"
    if "MAX_MULTIPART_BUFFER_SIZE < length bytes + length xs"
    using that som by (simp only: assemble_def f prv stage Let_def) simp
  let ?buf = "bytes @ xs @ drop (length bytes + length xs) (multiPartReqBuffer (mctp s))"
  let ?d = "(mctp s)\<lparr>multiPartReqBuffer := ?buf, staging_buff_size := of_nat (length bytes + length xs)\<rparr>"
  have "assemble E (pkt ! 4) (of_nat (length pkt + 2)) (arrive pkt s) =
      map_option (\<lambda>(n, t). (Some n, unstaged t)) (process_request E ?buf (s\<lparr>ReqBuffer := ReqBuffer (arrive pkt s), mctp := ?d\<rparr>))"
    if "length bytes + length xs \<le> MAX_MULTIPART_BUFFER_SIZE"
    using that som eom
    by (simp only: assemble_def f prv stage Let_def)
      (simp add: arrive_def upd_mctp_def unstaged_def map_option_case case_prod_beta split: option.split)
  then show "\<exists>buf rq d. assemble E (pkt ! 4) (of_nat (length pkt + 2)) (arrive pkt s) =
          map_option (\<lambda>(n, t). (Some n, unstaged t)) (process_request E buf (s\<lparr>ReqBuffer := rq, mctp := d\<rparr>)) \<and>
        take (length bytes + length xs) buf = bytes @ xs"
    if "length bytes + length xs \<le> MAX_MULTIPART_BUFFER_SIZE"
    using that by (intro exI [of _ ?buf] exI [of _ "ReqBuffer (arrive pkt s)"] exI [of _ ?d]) simp
qed

lemma assembled_rest:
  assumes "staged bytes seq s" and "255 \<le> length (ReqBuffer s)" and hdr: "length hdr = 4" and m: "0 < m" "m \<le> 248"
    and "flag_seq f = seq + 1 AND 3" and "\<not> flag_som f" and "xs \<noteq> []"
  shows "length bytes + length xs \<le> MAX_MULTIPART_BUFFER_SIZE \<Longrightarrow>
      \<exists>buf rq d. assemble_all E (packets_from m hdr f xs) s =
          map_option (\<lambda>(n, t). (Some n, unstaged t)) (process_request E buf (s\<lparr>ReqBuffer := rq, mctp := d\<rparr>)) \<and>
        take (length bytes + length xs) buf = bytes @ xs"
    and "MAX_MULTIPART_BUFFER_SIZE < length bytes + length xs \<Longrightarrow> assemble_all E (packets_from m hdr f xs) s = None"
  using assms(1,2,6-8)
proof (induction "length xs" arbitrary: xs bytes seq f s rule: less_induct)
  case less
  {
    case 1
    let ?f = "set_som False (set_seq (flag_seq f + 1) f)"
    have next_f: "flag_seq ?f = flag_seq f + 1 AND 3" "\<not> flag_som ?f" by simp_all
    show ?case
    proof (cases "m < length xs")
      case True
      have part: "length (take m xs) \<le> 248" "length bytes + length (take m xs) \<le> 1024" using m 1 by auto
      obtain rq d where mid: "assemble E ((hdr @ [set_eom False f] @ take m xs) ! 4) (of_nat (length (hdr @ [set_eom False f] @ take m xs) + 2))
            (arrive (hdr @ [set_eom False f] @ take m xs) s) = Some (None, s\<lparr>ReqBuffer := rq, mctp := d\<rparr>)"
        "staged (bytes @ take m xs) (flag_seq f) (s\<lparr>ReqBuffer := rq, mctp := d\<rparr>)" "255 \<le> length rq"
        using assemble_middle(1) [OF 1(2,3) hdr part(1) _ _ _ part(2), of "set_eom False f" E] 1(4,5) by auto
      have "length (drop m xs) < length xs" "drop m xs \<noteq> []" "length (bytes @ take m xs) + length (drop m xs) \<le> 1024"
        using True m(1) 1(1) by auto
      from less.hyps(1) [OF this(1,3) mid(2) _ next_f this(2)] mid(3) True
      have "\<exists>buf rq' d'. assemble_all E (packets_from m hdr ?f (drop m xs)) (s\<lparr>ReqBuffer := rq, mctp := d\<rparr>) =
          map_option (\<lambda>(n, t). (Some n, unstaged t)) (process_request E buf (s\<lparr>ReqBuffer := rq', mctp := d'\<rparr>)) \<and>
        take (length bytes + length xs) buf = bytes @ xs" by simp
      with mid(1) True m(1) show ?thesis
        by (subst packets_from.simps) (simp add: assemble_all_Cons)
    next
      case False
      then have part: "length xs \<le> 248" using m by simp
      from assemble_last(1) [OF 1(2,3) hdr part _ _ _ 1(1), of "set_eom True f" E] 1(4,5) False show ?thesis
        by (subst packets_from.simps) simp
    qed
  next
    case 2
    let ?f = "set_som False (set_seq (flag_seq f + 1) f)"
    have next_f: "flag_seq ?f = flag_seq f + 1 AND 3" "\<not> flag_som ?f" by simp_all
    show ?case
    proof (cases "m < length xs")
      case True
      have part: "length (take m xs) \<le> 248" using m by auto
      show ?thesis
      proof (cases "length bytes + length (take m xs) \<le> 1024")
        case fits: True
        obtain rq d where mid: "assemble E ((hdr @ [set_eom False f] @ take m xs) ! 4) (of_nat (length (hdr @ [set_eom False f] @ take m xs) + 2))
              (arrive (hdr @ [set_eom False f] @ take m xs) s) = Some (None, s\<lparr>ReqBuffer := rq, mctp := d\<rparr>)"
          "staged (bytes @ take m xs) (flag_seq f) (s\<lparr>ReqBuffer := rq, mctp := d\<rparr>)" "255 \<le> length rq"
          using assemble_middle(1) [OF 2(2,3) hdr part _ _ _ fits, of "set_eom False f" E] 2(4,5) by auto
        have "length (drop m xs) < length xs" "drop m xs \<noteq> []" "1024 < length (bytes @ take m xs) + length (drop m xs)"
          using True m(1) 2(1) by auto
        from less.hyps(2) [OF this(1,3) mid(2) _ next_f this(2)] mid(1,3) True m(1) show ?thesis
          by (subst packets_from.simps) (auto simp: assemble_all_Cons)
      next
        case False
        with assemble_middle(2) [OF 2(2,3) hdr part, of "set_eom False f" E] 2(4,5) True m(1) show ?thesis
          by (subst packets_from.simps) (simp add: assemble_all_Cons)
      qed
    next
      case False
      then have part: "length xs \<le> 248" using m by simp
      from assemble_last(2) [OF 2(2,3) hdr part _ _ _ 2(1), of "set_eom True f" E] 2(4,5) False show ?thesis
        by (subst packets_from.simps) simp
    qed
  }
qed

text \<open>The first packet of several.\<close>

lemma assemble_first:
  assumes idle: "staging_buff_size (mctp s) = 0" and req: "255 \<le> length (ReqBuffer s)" and hdr: "length hdr = 4"
    and m: "length xs \<le> 248" and som: "flag_som f" and eom: "\<not> flag_eom f"
  defines "pkt \<equiv> hdr @ [f] @ xs"
  shows "\<exists>rq d. assemble E (pkt ! 4) (of_nat (length pkt + 2)) (arrive pkt s) = Some (None, s\<lparr>ReqBuffer := rq, mctp := d\<rparr>) \<and>
      staged ([0x30, of_nat (length pkt)] @ pkt) (flag_seq f) (s\<lparr>ReqBuffer := rq, mctp := d\<rparr>) \<and> 255 \<le> length rq"
proof -
  have f: "pkt ! 4 = f" using hdr by (simp add: pkt_def nth_append)
  have n: "length pkt = 5 + length xs" using hdr by (simp add: pkt_def)
  have c: "unat (of_nat (length pkt + 2) :: u8) = length pkt + 2"
    using m n by (intro unat_small) simp
  let ?pkt = "[0x30, of_nat (length pkt)] @ pkt"
  let ?buf = "?pkt @ drop (length pkt + 2) (replicate 1024 0x30)"
  let ?d = "(mctp s)\<lparr>multiPartReqBuffer := ?buf, staging_buff_size := of_nat (length pkt + 2), prv_seq_num := flag_seq f\<rparr>"
  have "get_bytes (ReqBuffer (arrive pkt s)) 0 (length pkt + 2) = Some ?pkt"
    using req by (simp add: arrive_def)
  moreover have "put_bytes 0 ?pkt (replicate 1024 0x30) = Some ?buf"
    using m n by (simp add: put_bytes_def)
  moreover have "ucast (of_nat (length pkt + 2) :: u8) = (of_nat (length pkt + 2) :: u32)"
  proof (rule word_unat_eq_iff [THEN iffD2])
    have "unat (ucast x :: u32) = unat x" for x :: u8 by simp
    moreover have "unat (of_nat (length pkt + 2) :: u32) = length pkt + 2" using m n by (intro unat_small) simp
    ultimately show "unat (ucast (of_nat (length pkt + 2) :: u8) :: u32) = unat (of_nat (length pkt + 2) :: u32)"
      by (simp only: c)
  qed
  ultimately have "assemble E (pkt ! 4) (of_nat (length pkt + 2)) (arrive pkt s) =
      Some (None, s\<lparr>ReqBuffer := ReqBuffer (arrive pkt s), mctp := ?d\<rparr>)"
    using idle som eom unfolding assemble_def f Let_def stage_first_def c
    by (simp only: if_True if_False bind.bind_lunit) (simp add: arrive_def upd_mctp_def)
  moreover have "staged ?pkt (flag_seq f) (s\<lparr>ReqBuffer := ReqBuffer (arrive pkt s), mctp := ?d\<rparr>)"
    unfolding staged_def
  proof (intro conjI)
    show "take (length ?pkt) (multiPartReqBuffer (mctp (s\<lparr>ReqBuffer := ReqBuffer (arrive pkt s), mctp := ?d\<rparr>))) = ?pkt" by simp
  qed (use n m in simp_all)
  moreover have "255 \<le> length (ReqBuffer (arrive pkt s))" using req m n by (simp add: arrive_def)
  ultimately show ?thesis by blast
qed

lemma message_assembled:
  assumes "staging_buff_size (mctp s) = 0" and "255 \<le> length (ReqBuffer s)" and hdr: "length hdr = 4"
    and m: "0 < m" "m \<le> 248" "m < length xs"
  shows "\<exists>head. length head = 6 + 1 \<and>
     (if 7 + length xs \<le> MAX_MULTIPART_BUFFER_SIZE
      then \<exists>buf rq d. assemble_all E (message_packets m hdr f xs) s =
          map_option (\<lambda>(n, t). (Some n, unstaged t)) (process_request E buf (s\<lparr>ReqBuffer := rq, mctp := d\<rparr>)) \<and>
        take (7 + length xs) buf = head @ xs
      else assemble_all E (message_packets m hdr f xs) s = None)"
proof -
  let ?f = "set_som True (set_seq 0 f)"
  let ?g = "set_som False (set_seq (flag_seq ?f + 1) ?f)"
  have g: "flag_seq ?g = flag_seq (set_eom False ?f) + 1 AND 3" "\<not> flag_som ?g" by simp_all
  have xs: "xs \<noteq> []" "drop m xs \<noteq> []" "length (take m xs) \<le> 248" "length (take m xs) = m" using m by auto
  have split: "message_packets m hdr f xs = (hdr @ [set_eom False ?f] @ take m xs) # packets_from m hdr ?g (drop m xs)"
    using m by (subst packets_from_message [OF m(1) xs(1), symmetric], subst packets_from.simps) simp
  let ?pkt = "hdr @ [set_eom False ?f] @ take m xs"
  obtain rq d where first: "assemble E (?pkt ! 4) (of_nat (length ?pkt + 2)) (arrive ?pkt s) = Some (None, s\<lparr>ReqBuffer := rq, mctp := d\<rparr>)"
    "staged ([0x30, of_nat (length ?pkt)] @ ?pkt) (flag_seq (set_eom False ?f)) (s\<lparr>ReqBuffer := rq, mctp := d\<rparr>)" "255 \<le> length rq"
    using assemble_first [OF assms(1,2) hdr xs(3), of "set_eom False ?f" E] by auto
  let ?head = "[0x30, of_nat (length ?pkt)] @ hdr @ [set_eom False ?f]"
  let ?st = "[0x30, of_nat (length ?pkt)] @ ?pkt"
  have st: "?st = ?head @ take m xs" "length ?st + length (drop m xs) = 7 + length xs" "length ?head = 7"
    using hdr m by simp_all
  have req: "255 \<le> length (ReqBuffer (s\<lparr>ReqBuffer := rq, mctp := d\<rparr>))" using first(3) by simp
  have all: "assemble_all E (message_packets m hdr f xs) s = assemble_all E (packets_from m hdr ?g (drop m xs)) (s\<lparr>ReqBuffer := rq, mctp := d\<rparr>)"
    unfolding split by (simp only: assemble_all_Cons [OF packets_from_Nil] first(1)) simp
  have fits: "\<exists>buf rq d. assemble_all E (message_packets m hdr f xs) s =
          map_option (\<lambda>(n, t). (Some n, unstaged t)) (process_request E buf (s\<lparr>ReqBuffer := rq, mctp := d\<rparr>)) \<and>
        take (7 + length xs) buf = ?head @ xs" if "7 + length xs \<le> MAX_MULTIPART_BUFFER_SIZE"
    using assembled_rest(1) [OF first(2) req hdr m(1,2) g xs(2), of E] that unfolding all st(2) by (simp add: st(1))
  have over: "assemble_all E (message_packets m hdr f xs) s = None" if "\<not> 7 + length xs \<le> MAX_MULTIPART_BUFFER_SIZE"
    using assembled_rest(2) [OF first(2) req hdr m(1,2) g xs(2), of E] that unfolding all st(2) by simp
  show ?thesis using st(3) fits over by (intro exI [of _ ?head]) simp
qed

text \<open>
  C21: a request that arrives in several packets is assembled to what was sent: whatever packet
  size the sender uses, the message handed to the command processor has, behind the header,
  exactly the bytes of the message, and afterwards nothing is staged any more.
\<close>

theorem request_reassembled:
  assumes "staging_buff_size (mctp s) = 0" and "255 \<le> length (ReqBuffer s)" and "length hdr = 4"
    and "0 < m" and "m \<le> 248" and "m < length xs" and "MCTP_HEADER + length xs \<le> MAX_MULTIPART_BUFFER_SIZE"
  shows "\<exists>buf rq d. assemble_all E (message_packets m hdr f xs) s =
      map_option (\<lambda>(n, t). (Some n, unstaged t)) (process_request E buf (s\<lparr>ReqBuffer := rq, mctp := d\<rparr>)) \<and>
    take (length xs) (drop MCTP_HEADER buf) = xs"
proof -
  have "take (length xs) (drop 7 buf) = xs" if "length head = 7" "take (7 + length xs) buf = head @ xs" for head buf :: "u8 list"
    using that by (metis append_eq_conv_conj take_drop add.commute)
  with message_assembled [OF assms(1-6), of E f] assms(7) show ?thesis by auto
qed

text \<open>
  C22: nothing bounds what is staged: packets in sequence whose payloads together exceed the
  staging buffer by one byte or more are copied beyond its end.
\<close>

theorem request_overflows_staging:
  assumes "staging_buff_size (mctp s) = 0" and "255 \<le> length (ReqBuffer s)" and "length hdr = 4"
    and "0 < m" and "m \<le> 248" and "m < length xs" and "MAX_MULTIPART_BUFFER_SIZE < MCTP_HEADER + length xs"
  shows "assemble_all E (message_packets m hdr f xs) s = None"
  using message_assembled [OF assms(1-6), of E f] assms(7) by auto

text \<open>A ready proxy, a firmware interface that writes, and a message of 100 bytes.\<close>

definition wire_env :: "(u8 \<times> u8 list) list bmc_env" where
  "wire_env = sample_bmc_env\<lparr>fw_if_write := (\<lambda>a b w. (True, w @ [(a, b)]))\<rparr>"

definition replying :: "(u8 \<times> u8 list) list bmc_st" where
  "replying = (initial_bmc sample_evl_data [])\<lparr>xLocalData := initial_local\<lparr>bmc_iInitialised := True\<rparr>,
     ReqBuffer := [0x30, 9, 0x21, 1, 8, 9, 0xC8] @ replicate 248 0\<rparr>"

lemma response_packets_sent_witness:
  "okay (start_response replying \<bind> send_packets wire_env 66) (\<lambda>s'. outside s' =
     [(0x10, [0x31, 1, 9, 8, 0x80] @ replicate 64 0), (0x10, [0x31, 1, 9, 8, 0x50] @ replicate 2 0)])"
proof -
  have "bmc_ready replying" "logs_writes wire_env (\<lambda>w. w)" "6 < length (ReqBuffer replying)" "0 < (66 :: nat)"
    "MCTP_HEADER + 66 \<le> length (RespBuffer replying)"
    by (simp_all add: replying_def bmc_ready_def bmc_firewalls_ok_def initial_local_def initial_bmc_def logs_writes_def wire_env_def sample_bmc_env_def)
  note sent = response_packets_sent [OF this]
  have "[0..<2] = [0, 1 :: nat]" by (simp add: upt_rec)
  then show ?thesis
    using sent by (elim okay_weaken) (simp add: replying_def initial_bmc_def reply_addr_def message_packets_def flag_tag_def
        set_tag_def set_seq_def set_som_def set_eom_def)
qed

lemma request_reassembled_witness:
  "\<exists>buf rq d. assemble_all wire_env (message_packets 64 [0x21, 1, 8, 9] 8 (replicate 100 1)) replying =
      map_option (\<lambda>(n, t). (Some n, unstaged t)) (process_request wire_env buf (replying\<lparr>ReqBuffer := rq, mctp := d\<rparr>)) \<and>
    take 100 (drop MCTP_HEADER buf) = replicate 100 1"
  using request_reassembled [of replying "[0x21, 1, 8, 9]" 64 "replicate 100 1" wire_env 8]
  by (simp add: replying_def initial_bmc_def initial_mctp_def)

lemma request_overflows_staging_witness:
  "assemble_all wire_env (message_packets 248 [0x21, 1, 8, 9] 8 (replicate 1018 1)) replying = None"
  by (rule request_overflows_staging) (simp_all add: replying_def initial_bmc_def initial_mctp_def)
end
