(* ===== verification/Single_Float.thy ===== *)
theory Single_Float
  imports Complex_Main AMR_Prelude
begin

text \<open>
  C's \<open>float\<close>, as far as the sensor code uses it: the finite numbers of IEEE binary32 are
  rationals, and the result of an operation is rounded to nearest, ties to even, with 24
  significant bits (fewer below the smallest normal number).  Infinities and NaNs are not
  represented; a conversion to \<open>uint32_t\<close> of a value that does not fit is undefined.
\<close>

type_synonym single = rat

definition round_half_even :: "rat \<Rightarrow> int" where
  "round_half_even x =
     (let f = \<lfloor>x\<rfloor>; d = x - of_int f in
      if d < 1 / 2 then f else if 1 / 2 < d then f + 1 else if even f then f else f + 1)"

text \<open>\<open>x\<close> times two to the power \<open>e\<close>.\<close>

definition scale2 :: "int \<Rightarrow> rat \<Rightarrow> rat" where
  "scale2 e x = (if 0 \<le> e then x * 2 ^ nat e else x / 2 ^ nat (- e))"

text \<open>The number of binary digits of a positive number.\<close>

function bit_len :: "int \<Rightarrow> int" where
  "bit_len n = (if n \<le> 0 then 0 else 1 + bit_len (n div 2))"
  by pat_completeness auto
termination by (relation "measure nat") auto

declare bit_len.simps [simp del]

text \<open>The exponent of the last bit of a non-zero number with 24 significant bits.\<close>

definition single_exponent :: "rat \<Rightarrow> int" where
  "single_exponent x =
     (let (n, d) = quotient_of \<bar>x\<bar>;
          e = bit_len n - bit_len d - 24
      in max (- 149) (if 2 ^ 24 \<le> scale2 (- e) \<bar>x\<bar> then e + 1 else e))"

definition round_single :: "rat \<Rightarrow> single" where
  "round_single x =
     (if x = 0 then 0
      else (let e = single_exponent x in scale2 e (of_int (round_half_even (scale2 (- e) x)))))"

definition single_add :: "single \<Rightarrow> single \<Rightarrow> single" where
  "single_add x y = round_single (x + y)"

definition single_div :: "single \<Rightarrow> single \<Rightarrow> single" where
  "single_div x y = round_single (x / y)"

definition single_of_int :: "int \<Rightarrow> single" where
  "single_of_int n = round_single (of_int n)"

definition single_to_u32 :: "single \<Rightarrow> u32 option" where
  "single_to_u32 x =
     (let n = (if 0 \<le> x then \<lfloor>x\<rfloor> else \<lceil>x\<rceil>) in
      if 0 \<le> n \<and> n < 2 ^ 32 then Some (word_of_int n) else None)"

section \<open>How far rounding moves a number\<close>

lemma bit_len_pos: "0 < n \<Longrightarrow> bit_len n = 1 + bit_len (n div 2)"
  by (subst bit_len.simps) simp

lemma bit_len_nonpos: "n \<le> 0 \<Longrightarrow> bit_len n = 0"
  by (subst bit_len.simps) simp

lemma bit_len_bounds:
  "0 < n \<Longrightarrow> 1 \<le> bit_len n \<and> 2 ^ nat (bit_len n - 1) \<le> n \<and> n < 2 ^ nat (bit_len n)"
proof (induction n rule: bit_len.induct)
  case (1 n)
  show ?case
  proof (cases "n = 1")
    case True
    then show ?thesis by (simp add: bit_len_pos bit_len_nonpos)
  next
    case False
    with 1(2) have h: "0 < n div 2" by linarith
    with 1 have ih: "1 \<le> bit_len (n div 2)" "2 ^ nat (bit_len (n div 2) - 1) \<le> n div 2"
      "n div 2 < 2 ^ nat (bit_len (n div 2))" by simp_all
    define k where "k = nat (bit_len (n div 2) - 1)"
    have k: "nat (bit_len (n div 2)) = Suc k" "nat (bit_len n) = Suc (Suc k)" "nat (bit_len n - 1) = Suc k"
      using ih(1) 1(2) by (simp_all add: k_def bit_len_pos)
    show ?thesis
      using ih(2,3) bit_len_pos [OF 1(2)] ih(1) div_mult_mod_eq [of n 2] pos_mod_bound [of 2 n]
        pos_mod_sign [of 2 n]
      unfolding k k_def [symmetric] by (simp add: mult.commute) linarith
  qed
qed

lemma scale2_powi: "scale2 e x = x * 2 powi e"
  by (simp add: scale2_def power_int_def power_one_over)

lemma single_exponent_low:
  assumes "0 < x"
  shows "single_exponent x = - 149 \<or> 2 ^ 23 * 2 powi single_exponent x \<le> x"
proof -
  obtain n d where q: "quotient_of x = (n, d)" by fastforce
  then have d: "0 < d" and x: "x = of_int n / of_int d"
    by (simp_all add: quotient_of_denom_pos quotient_of_div)
  with assms have n: "0 < n" by (simp add: zero_less_divide_iff)
  define e where "e = bit_len n - bit_len d - 24"
  have "x \<ge> 2 ^ 23 * 2 powi e"
  proof -
    have "(2 :: rat) powi (bit_len n - 1) \<le> of_int n"
      using bit_len_bounds [OF n] by (simp add: power_int_def)
    moreover have "of_int d \<le> (2 :: rat) powi bit_len d"
      using bit_len_bounds [OF d] by (simp add: power_int_def)
    ultimately have "2 powi (bit_len n - 1) / 2 powi bit_len d \<le> x"
      using d n unfolding x by (intro frac_le) simp_all
    moreover have "(2 :: rat) powi (bit_len n - 1) / 2 powi bit_len d = 2 ^ 23 * 2 powi e"
      by (simp add: e_def power_int_diff)
    ultimately show ?thesis by simp
  qed
  moreover have "2 ^ 24 \<le> scale2 (- e) x \<Longrightarrow> 2 ^ 23 * 2 powi (e + 1) \<le> x"
    by (simp add: scale2_powi power_int_minus power_int_add field_simps)
  ultimately show ?thesis
    using assms by (auto simp: single_exponent_def q e_def [symmetric] Let_def max_def)
qed

lemma round_half_even_near: "\<bar>of_int (round_half_even y) - y\<bar> \<le> 1 / 2"
proof -
  have "of_int \<lfloor>y\<rfloor> \<le> y" "y < of_int \<lfloor>y\<rfloor> + 1" by linarith+
  then show ?thesis by (auto simp: round_half_even_def Let_def)
qed

lemma round_single_near:
  assumes "0 \<le> x"
  shows "\<bar>round_single x - x\<bar> \<le> x / 2 ^ 24 + 1 / 2 ^ 100"
proof (cases "x = 0")
  case False
  with assms have x: "0 < x" by simp
  define e where "e = single_exponent x"
  define y where "y = scale2 (- e) x"
  have xy: "x = y * 2 powi e"
    by (simp add: y_def scale2_powi power_int_minus)
  have "round_single x = of_int (round_half_even y) * 2 powi e"
    using False by (simp add: round_single_def e_def y_def scale2_powi Let_def mult.commute)
  with xy have "round_single x - x = (of_int (round_half_even y) - y) * 2 powi e"
    by (simp add: left_diff_distrib)
  then have "\<bar>round_single x - x\<bar> = \<bar>of_int (round_half_even y) - y\<bar> * 2 powi e"
    by (simp add: abs_mult)
  also have "\<dots> \<le> (1 / 2) * 2 powi e"
    by (intro mult_right_mono round_half_even_near) simp
  finally have near: "\<bar>round_single x - x\<bar> \<le> 2 powi e / 2" by simp
  from single_exponent_low [OF x] show ?thesis
  proof
    assume "single_exponent x = - 149"
    then have "2 powi e / 2 \<le> (1 / 2 ^ 100 :: rat)" by (simp add: e_def power_int_minus)
    with near assms show ?thesis by (simp add: add_increasing)
  next
    assume "2 ^ 23 * 2 powi single_exponent x \<le> x"
    then have "2 powi e / 2 \<le> x / 2 ^ 24" by (simp add: e_def)
    with near show ?thesis by (simp add: add_increasing2)
  qed
qed (simp add: round_single_def)

lemma round_single_nonneg: "0 \<le> x \<Longrightarrow> 0 \<le> round_single x"
proof -
  assume "0 \<le> x"
  then have "0 \<le> round_half_even (scale2 e x)" for e
    by (auto simp: round_half_even_def Let_def scale2_powi)
  then show ?thesis by (simp add: round_single_def scale2_powi Let_def)
qed

end
