(* ===== verification/ASC_Proxy.thy ===== *)
theory ASC_Proxy
  imports AMC_Common Single_Float
begin

text \<open>
  The sensor control proxy, \<open>proxy_drivers/asc/asc_proxy_driver.c\<close>: the table of sensors, the
  operations on it, and the task that reads every sensor and raises the threshold events.
  The functions that read a sensor or tell whether it is enabled are numbers, called through
  the environment; they act on the world \<open>'w\<close>, as do the task creation, the clock and the
  sleep.  The event library's services and callbacks act on the proxy's whole state.
\<close>

abbreviation (input) ASC_SENSOR_NAME_MAX :: nat where "ASC_SENSOR_NAME_MAX \<equiv> 20"
abbreviation (input) ASC_SENSOR_INVALID_VAL :: u32 where "ASC_SENSOR_INVALID_VAL \<equiv> 0xFFFFFFFF"
abbreviation (input) ASC_SENSOR_I2C_BUS_NUM :: u8 where "ASC_SENSOR_I2C_BUS_NUM \<equiv> 0"
abbreviation (input) ASC_TASK_SLEEP_MS :: u32 where "ASC_TASK_SLEEP_MS \<equiv> 100"

section \<open>Data\<close>

text \<open>The events, compared and stored as bytes.\<close>

abbreviation (input) ASC_PROXY_DRIVER_E_SENSOR_UPDATE_COMPLETE :: u8 where
  "ASC_PROXY_DRIVER_E_SENSOR_UPDATE_COMPLETE \<equiv> 0"
abbreviation (input) ASC_PROXY_DRIVER_E_SENSOR_UNAVAILABLE :: u8 where
  "ASC_PROXY_DRIVER_E_SENSOR_UNAVAILABLE \<equiv> 1"
abbreviation (input) ASC_PROXY_DRIVER_E_SENSOR_LOWER_FATAL :: u8 where
  "ASC_PROXY_DRIVER_E_SENSOR_LOWER_FATAL \<equiv> 8"
abbreviation (input) ASC_PROXY_DRIVER_E_SENSOR_UPPER_WARNING :: u8 where
  "ASC_PROXY_DRIVER_E_SENSOR_UPPER_WARNING \<equiv> 9"
abbreviation (input) ASC_PROXY_DRIVER_E_SENSOR_UPPER_CRITICAL :: u8 where
  "ASC_PROXY_DRIVER_E_SENSOR_UPPER_CRITICAL \<equiv> 10"
abbreviation (input) ASC_PROXY_DRIVER_E_SENSOR_UPPER_FATAL :: u8 where
  "ASC_PROXY_DRIVER_E_SENSOR_UPPER_FATAL \<equiv> 11"
abbreviation (input) MAX_ASC_PROXY_DRIVER_EVENTS :: u8 where "MAX_ASC_PROXY_DRIVER_EVENTS \<equiv> 12"

datatype ASC_PROXY_DRIVER_SENSOR_STATUS =
    ASC_PROXY_DRIVER_SENSOR_STATUS_NOT_PRESENT
  | ASC_PROXY_DRIVER_SENSOR_STATUS_PRESENT_AND_VALID
  | ASC_PROXY_DRIVER_SENSOR_STATUS_DATA_NOT_AVAILABLE
  | ASC_PROXY_DRIVER_SENSOR_STATUS_NOT_AVAILABLE

primrec sensor_status_code :: "ASC_PROXY_DRIVER_SENSOR_STATUS \<Rightarrow> u8" where
  "sensor_status_code ASC_PROXY_DRIVER_SENSOR_STATUS_NOT_PRESENT = 0"
| "sensor_status_code ASC_PROXY_DRIVER_SENSOR_STATUS_PRESENT_AND_VALID = 1"
| "sensor_status_code ASC_PROXY_DRIVER_SENSOR_STATUS_DATA_NOT_AVAILABLE = 2"
| "sensor_status_code ASC_PROXY_DRIVER_SENSOR_STATUS_NOT_AVAILABLE = 3"

datatype ASC_PROXY_DRIVER_SENSOR_OPERATIONAL_STATUS =
    ASC_PROXY_DRIVER_SENSOR_OPERATIONAL_STATUS_ENABLED
  | ASC_PROXY_DRIVER_SENSOR_OPERATIONAL_STATUS_DISABLED
  | ASC_PROXY_DRIVER_SENSOR_OPERATIONAL_STATUS_UNAVAILABLE

datatype ASC_PROXY_DRIVER_SENSOR_UNIT_MOD =
    ASC_PROXY_DRIVER_SENSOR_UNIT_MOD_MEGA | ASC_PROXY_DRIVER_SENSOR_UNIT_MOD_KILO
  | ASC_PROXY_DRIVER_SENSOR_UNIT_MOD_NONE | ASC_PROXY_DRIVER_SENSOR_UNIT_MOD_MILLI
  | ASC_PROXY_DRIVER_SENSOR_UNIT_MOD_MICRO | MAX_ASC_PROXY_DRIVER_SENSOR_UNIT_MOD

datatype ASC_PROXY_DRIVER_SENSOR_THRESHOLD_STATUS =
    ASC_PROXY_DRIVER_SENSOR_THRESHOLD_STATUS_HEALTHY | ASC_PROXY_DRIVER_SENSOR_THRESHOLD_STATUS_WARNING
  | ASC_PROXY_DRIVER_SENSOR_THRESHOLD_STATUS_CRITICAL | ASC_PROXY_DRIVER_SENSOR_THRESHOLD_STATUS_FATAL

abbreviation (input) MAX_ASC_PROXY_DRIVER_SENSOR_TYPE :: nat where "MAX_ASC_PROXY_DRIVER_SENSOR_TYPE \<equiv> 4"

abbreviation (input) ASC_PROXY_DRIVER_SENSOR_BITFIELD_TEMPERATURE :: u8 where
  "ASC_PROXY_DRIVER_SENSOR_BITFIELD_TEMPERATURE \<equiv> 1"
abbreviation (input) ASC_PROXY_DRIVER_SENSOR_BITFIELD_VOLTAGE :: u8 where
  "ASC_PROXY_DRIVER_SENSOR_BITFIELD_VOLTAGE \<equiv> 2"
abbreviation (input) ASC_PROXY_DRIVER_SENSOR_BITFIELD_CURRENT :: u8 where
  "ASC_PROXY_DRIVER_SENSOR_BITFIELD_CURRENT \<equiv> 4"
abbreviation (input) ASC_PROXY_DRIVER_SENSOR_BITFIELD_POWER :: u8 where
  "ASC_PROXY_DRIVER_SENSOR_BITFIELD_POWER \<equiv> 8"

record ASCProxyDriverSensorReadings =
  ulSensorValue :: u32
  ulLowerWarningLimit :: u32
  ulLowerCriticalLimit :: u32
  ulLowerFatalLimit :: u32
  ulUpperWarningLimit :: u32
  ulUpperCriticalLimit :: u32
  ulUpperFatalLimit :: u32
  ulAverageSensorValue :: u32
  ulMaxSensorValue :: u32
  xSensorStatus :: ASC_PROXY_DRIVER_SENSOR_STATUS
  xSensorOperationalStatus :: ASC_PROXY_DRIVER_SENSOR_OPERATIONAL_STATUS
  xSensorUnitModifier :: ASC_PROXY_DRIVER_SENSOR_UNIT_MOD

record ASCProxyDriverSensorData =
  pcSensorName :: "u8 list"
  ucSensorId :: u8
  ucSensorType :: u8
  ucTotalPowerSensor :: u8
  ucSensorAddress :: u8
  ucChannelNumber :: "nat \<Rightarrow> u8"
  pxSensorEnabled :: nat
  ppxReadSensorFunc :: "nat \<Rightarrow> nat option"
  pxReadings :: "nat \<Rightarrow> ASCProxyDriverSensorReadings"
  ulThresholdStatus :: ASC_PROXY_DRIVER_SENSOR_THRESHOLD_STATUS

datatype ASC_PROXY_STATS =
    ASC_PROXY_STATS_INIT_OVERALL_COMPLETE | ASC_PROXY_STATS_CREATE_MUTEX | ASC_PROXY_STATS_TAKE_MUTEX
  | ASC_PROXY_STATS_RELEASE_MUTEX | ASC_PROXY_STATS_GET_ALL_SENSOR_DATA
  | ASC_PROXY_STATS_GET_SINGLE_SENSOR_DATA_BY_ID | ASC_PROXY_STATS_GET_SINGLE_SENSOR_DATA_BY_NAME
  | ASC_PROXY_STATS_RESET_ALL_SENSOR_DATA | ASC_PROXY_STATS_RESET_SINGLE_SENSOR_DATA_BY_ID
  | ASC_PROXY_STATS_RESET_SINGLE_SENSOR_DATA_BY_NAME | ASC_PROXY_STATS_TASK_TIME_MS
  | ASC_PROXY_STATS_STATUS_RETRIEVAL | ASC_PROXY_STATS_SET_SENSOR_THRESHOLD_BY_ID
  | ASC_PROXY_GET_OPERATIONAL_STATE | ASC_PROXY_STATS_SET_OPERATIONAL_STATE_BY_ID
  | ASC_PROXY_STATS_GET_OPERATIONAL_STATE_BY_ID

datatype ASC_PROXY_ERRORS =
    ASC_PROXY_ERRORS_MUTEX_RELEASE_FAILED | ASC_PROXY_ERRORS_MUTEX_TAKE_FAILED
  | ASC_PROXY_ERRORS_MEM_ALLOC_FAILED | ASC_PROXY_ERRORS_GET_ALL_SENSOR_DATA
  | ASC_PROXY_ERRORS_GET_SINGLE_SENSOR_DATA_BY_ID | ASC_PROXY_ERRORS_GET_SINGLE_SENSOR_DATA_BY_NAME
  | ASC_PROXY_ERRORS_RESET_ALL_SENSOR_DATA | ASC_PROXY_ERRORS_RESET_SINGLE_SENSOR_DATA_BY_ID
  | ASC_PROXY_ERRORS_RESET_SINGLE_SENSOR_DATA_BY_NAME | ASC_PROXY_ERRORS_RAISE_EVENT_FAILED
  | ASC_PROXY_ERRORS_INIT_FW_IF_OPEN_FAILED | ASC_PROXY_ERRORS_INIT_MUTEX_CREATE_FAILED
  | ASC_PROXY_ERRORS_INIT_TASK_CREATE_FAILED | ASC_PROXY_ERRORS_VALIDATION_FAILED
  | ASC_PROXY_ERRORS_UNKNOWN_RETURN_CODE | ASC_PROXY_ERRORS_BIND_CB_FAILED
  | ASC_PROXY_ERRORS_INIT_EVL_RECORD_FAILED | ASC_PROXY_ERRORS_SET_SENSOR_THRESHOLD_BY_ID
  | ASC_PROXY_ERRORS_GET_OPERATIONAL_STATE_BY_ID | ASC_PROXY_ERRORS_SET_OPERATIONAL_STATE_BY_ID

text \<open>The private data (the source calls its type \<open>AXCProxyDriverPrivateData\<close>).\<close>

record ASCProxyDriverPrivateData =
  asc_ulUpperFirewall :: u32
  asc_iInitialised :: bool
  asc_ucMyId :: u8
  asc_pxEvlRecord :: "EVLRecord option"
  asc_pvOsalMutexHdl :: "nat option"
  asc_pxSensorData :: "ASCProxyDriverSensorData list option"
  asc_ucNumSensors :: u8
  asc_pulStatCounters :: "ASC_PROXY_STATS \<Rightarrow> u32"
  asc_pulErrorCounters :: "ASC_PROXY_ERRORS \<Rightarrow> u32"
  asc_xState :: MODULE_STATE
  asc_ulLowerFirewall :: u32

record 'w asc_st =
  asc_local :: ASCProxyDriverPrivateData
  asc_evl :: EVLPrivateData
  asc_outside :: 'w

record 'w asc_env =
  asc_evl_part :: "'w asc_st evl_env"
  asc_task_create :: "'w \<Rightarrow> bool \<times> 'w"
  sensor_enabled :: "nat \<Rightarrow> 'w \<Rightarrow> bool \<times> 'w"
  read_sensor :: "nat \<Rightarrow> u8 \<Rightarrow> u8 \<Rightarrow> u8 \<Rightarrow> 'w \<Rightarrow> evl_status \<times> single \<times> 'w"
  asc_uptime_ticks :: "'w \<Rightarrow> u32 \<times> 'w"
  asc_sleep :: "u32 \<Rightarrow> 'w \<Rightarrow> 'w"

definition initial_asc_local :: ASCProxyDriverPrivateData where
  "initial_asc_local = \<lparr>asc_ulUpperFirewall = MODULE_UPPER_FIREWALL, asc_iInitialised = False, asc_ucMyId = 0,
     asc_pxEvlRecord = None, asc_pvOsalMutexHdl = None, asc_pxSensorData = None, asc_ucNumSensors = 0,
     asc_pulStatCounters = (\<lambda>_. 0), asc_pulErrorCounters = (\<lambda>_. 0), asc_xState = MODULE_STATE_UNINITIALISED,
     asc_ulLowerFirewall = MODULE_LOWER_FIREWALL\<rparr>"

definition upd_asc :: "(ASCProxyDriverPrivateData \<Rightarrow> ASCProxyDriverPrivateData) \<Rightarrow> 'w asc_st \<Rightarrow> 'w asc_st" where
  "upd_asc f s = s\<lparr>asc_local := f (asc_local s)\<rparr>"

definition ASC_INC_STAT_COUNTER :: "ASC_PROXY_STATS \<Rightarrow> 'w asc_st \<Rightarrow> 'w asc_st" where
  "ASC_INC_STAT_COUNTER x =
     upd_asc (\<lambda>d. d\<lparr>asc_pulStatCounters := (asc_pulStatCounters d)(x := asc_pulStatCounters d x + 1)\<rparr>)"

definition ASC_INC_ERROR_COUNTER :: "ASC_PROXY_ERRORS \<Rightarrow> 'w asc_st \<Rightarrow> 'w asc_st" where
  "ASC_INC_ERROR_COUNTER x =
     upd_asc (\<lambda>d. d\<lparr>asc_pulErrorCounters := (asc_pulErrorCounters d)(x := asc_pulErrorCounters d x + 1)\<rparr>)"

definition ASC_INC_ERROR_COUNTER_WITH_STATE :: "ASC_PROXY_ERRORS \<Rightarrow> 'w asc_st \<Rightarrow> 'w asc_st" where
  "ASC_INC_ERROR_COUNTER_WITH_STATE x s =
     ASC_INC_ERROR_COUNTER x (upd_asc (\<lambda>d. d\<lparr>asc_xState := MODULE_STATE_ERROR\<rparr>) s)"

definition asc_firewalls_ok :: "'w asc_st \<Rightarrow> bool" where
  "asc_firewalls_ok s \<longleftrightarrow> MODULE_UPPER_FIREWALL = asc_ulUpperFirewall (asc_local s) \<and>
     MODULE_LOWER_FIREWALL = asc_ulLowerFirewall (asc_local s)"

definition asc_ready :: "'w asc_st \<Rightarrow> bool" where
  "asc_ready s \<longleftrightarrow> asc_firewalls_ok s \<and> asc_iInitialised (asc_local s)"

section \<open>Initialisation\<close>

text \<open>The caller's array is copied: \<open>memcpy\<close> of the first \<open>n\<close> elements, undefined if it has fewer.\<close>

definition array_prefix :: "nat \<Rightarrow> 'a list option \<Rightarrow> 'a list option" where
  "array_prefix n p = do { xs \<leftarrow> p; if n \<le> length xs then Some (take n xs) else None }"

text \<open>An allocation of no bytes answers a null pointer (\<open>osal.c\<close>).\<close>

definition asc_create_task :: "'w asc_env \<Rightarrow> 'w asc_st \<Rightarrow> evl_status \<times> 'w asc_st" where
  "asc_create_task E s =
     (let (ok, w) = asc_task_create E (asc_outside s); s = s\<lparr>asc_outside := w\<rparr> in
      if \<not> ok then (ERROR, ASC_INC_ERROR_COUNTER_WITH_STATE ASC_PROXY_ERRORS_INIT_TASK_CREATE_FAILED s)
      else (OK, upd_asc (\<lambda>d. d\<lparr>asc_iInitialised := True, asc_xState := MODULE_STATE_OK\<rparr>) s))"

definition iASC_Initialise ::
  "'w asc_env \<Rightarrow> u8 \<Rightarrow> ASCProxyDriverSensorData list option \<Rightarrow> u8 \<Rightarrow> 'w asc_st \<Rightarrow> (evl_status \<times> 'w asc_st) option" where
  "iASC_Initialise E ucProxyId pxSensorData ucNumSensors s =
     (if asc_firewalls_ok s \<and> \<not> asc_iInitialised (asc_local s) \<and> pxSensorData \<noteq> None then
        (let s = upd_asc (\<lambda>d. d\<lparr>asc_ucMyId := ucProxyId\<rparr>) s;
             (st, pp, d, s) = iEVL_CreateRecord (asc_evl_part E) (Some (asc_pxEvlRecord (asc_local s))) (asc_evl s) s;
             s = upd_asc (\<lambda>l. l\<lparr>asc_pxEvlRecord := (case pp of Some r \<Rightarrow> r | None \<Rightarrow> None)\<rparr>) (s\<lparr>asc_evl := d\<rparr>) in
         if st \<noteq> OK then Some (ERROR, ASC_INC_ERROR_COUNTER_WITH_STATE ASC_PROXY_ERRORS_INIT_EVL_RECORD_FAILED s)
         else (case mutex_create (asc_evl_part E) s of
           (None, s) \<Rightarrow> Some (ERROR, ASC_INC_ERROR_COUNTER_WITH_STATE ASC_PROXY_ERRORS_INIT_MUTEX_CREATE_FAILED s)
         | (Some m, s) \<Rightarrow>
             (let s = upd_asc (\<lambda>l. l\<lparr>asc_pvOsalMutexHdl := Some m\<rparr>) s;
                  s = ASC_INC_STAT_COUNTER ASC_PROXY_STATS_CREATE_MUTEX s;
                  s = ASC_INC_STAT_COUNTER ASC_PROXY_STATS_INIT_OVERALL_COMPLETE s;
                  (got, s) = (if ucNumSensors = 0 then (False, s) else mem_alloc (asc_evl_part E) s) in
              if got then do {
                xs \<leftarrow> array_prefix (unat ucNumSensors) pxSensorData;
                let s = upd_asc (\<lambda>l. l\<lparr>asc_pxSensorData := Some xs, asc_ucNumSensors := ucNumSensors\<rparr>) s;
                Some (asc_create_task E s) }
              else Some (ERROR, ASC_INC_ERROR_COUNTER_WITH_STATE ASC_PROXY_ERRORS_MEM_ALLOC_FAILED
                (upd_asc (\<lambda>l. l\<lparr>asc_pxSensorData := None\<rparr>) s)))))
      else Some (ERROR, ASC_INC_ERROR_COUNTER ASC_PROXY_ERRORS_VALIDATION_FAILED s))"

definition iASC_BindCallback :: "'w asc_env \<Rightarrow> nat option \<Rightarrow> 'w asc_st \<Rightarrow> evl_status \<times> 'w asc_st" where
  "iASC_BindCallback E pxCallback s =
     (if asc_ready s \<and> pxCallback \<noteq> None \<and> asc_pxEvlRecord (asc_local s) \<noteq> None
      then (let (st, r, d, s) =
                  iEVL_BindCallback (asc_evl_part E) (asc_pxEvlRecord (asc_local s)) pxCallback (asc_evl s) s;
                s = upd_asc (\<lambda>l. l\<lparr>asc_pxEvlRecord := r\<rparr>) (s\<lparr>asc_evl := d\<rparr>)
            in (st, if st = ERROR then ASC_INC_ERROR_COUNTER_WITH_STATE ASC_PROXY_ERRORS_BIND_CB_FAILED s else s))
      else (ERROR, ASC_INC_ERROR_COUNTER ASC_PROXY_ERRORS_VALIDATION_FAILED s))"

section \<open>Operations under the mutex\<close>

definition asc_mutex_take :: "'w asc_env \<Rightarrow> 'w asc_st \<Rightarrow> bool \<times> 'w asc_st" where
  "asc_mutex_take E s = mutex_take (asc_evl_part E) (asc_pvOsalMutexHdl (asc_local s)) s"

definition asc_mutex_release :: "'w asc_env \<Rightarrow> evl_status \<Rightarrow> 'w asc_st \<Rightarrow> evl_status \<times> 'w asc_st" where
  "asc_mutex_release E st s =
     (let (rel, s) = mutex_release (asc_evl_part E) (asc_pvOsalMutexHdl (asc_local s)) s in
      if rel then (st, ASC_INC_STAT_COUNTER ASC_PROXY_STATS_RELEASE_MUTEX s)
      else (ERROR, ASC_INC_ERROR_COUNTER_WITH_STATE ASC_PROXY_ERRORS_MUTEX_RELEASE_FAILED s))"

text \<open>
  What most operations share: the mutex is taken, the body runs, the mutex is released.  The
  body answers what the caller's pointer receives, \<open>None\<close> for nothing.
\<close>

definition asc_locked ::
  "'w asc_env \<Rightarrow> ('w asc_st \<Rightarrow> (evl_status \<times> 'a option \<times> 'w asc_st) option) \<Rightarrow> 'w asc_st \<Rightarrow>
   (evl_status \<times> 'a option \<times> 'w asc_st) option" where
  "asc_locked E body s =
     (let (taken, s) = asc_mutex_take E s in
      if taken then do {
        (st, out, s) \<leftarrow> body (ASC_INC_STAT_COUNTER ASC_PROXY_STATS_TAKE_MUTEX s);
        let (st, s) = asc_mutex_release E st s;
        Some (st, out, s) }
      else Some (ERROR, None, ASC_INC_ERROR_COUNTER_WITH_STATE ASC_PROXY_ERRORS_MUTEX_TAKE_FAILED s))"

text \<open>The search loops: the first of \<open>n\<close> sensors from index \<open>i\<close> on that the test accepts.\<close>

fun find_sensor ::
  "(ASCProxyDriverSensorData \<Rightarrow> bool option) \<Rightarrow> ASCProxyDriverSensorData list option \<Rightarrow> nat \<Rightarrow> nat \<Rightarrow> nat option option" where
  "find_sensor f p i 0 = Some None"
| "find_sensor f p i (Suc n) = do {
     x \<leftarrow> elem p i;
     b \<leftarrow> f x;
     if b then Some (Some i) else find_sensor f p (i + 1) n }"

definition has_id :: "u8 \<Rightarrow> ASCProxyDriverSensorData \<Rightarrow> bool option" where
  "has_id ucId x = Some (ucSensorId x = ucId)"

definition has_name :: "u8 list \<Rightarrow> ASCProxyDriverSensorData \<Rightarrow> bool option" where
  "has_name pcName x = strncmp_equal (pcSensorName x) pcName ASC_SENSOR_NAME_MAX"

text \<open>
  The body of an operation on one sensor: what is done to the sensor found, or the error
  counted when there is none.
\<close>

definition on_sensor ::
  "(ASCProxyDriverSensorData \<Rightarrow> bool option) \<Rightarrow> ASC_PROXY_ERRORS \<Rightarrow>
   (nat \<Rightarrow> ASCProxyDriverSensorData \<Rightarrow> 'w asc_st \<Rightarrow> ('a option \<times> 'w asc_st) option) \<Rightarrow>
   'w asc_st \<Rightarrow> (evl_status \<times> 'a option \<times> 'w asc_st) option" where
  "on_sensor f e act s = do {
     let p = asc_pxSensorData (asc_local s);
     r \<leftarrow> find_sensor f p 0 (unat (asc_ucNumSensors (asc_local s)));
     case r of
       Some i \<Rightarrow> do { x \<leftarrow> elem p i; (out, s) \<leftarrow> act i x s; Some (OK, out, s) }
     | None \<Rightarrow> Some (ERROR, None, ASC_INC_ERROR_COUNTER_WITH_STATE e s) }"

definition set_sensor :: "nat \<Rightarrow> ASCProxyDriverSensorData \<Rightarrow> 'w asc_st \<Rightarrow> 'w asc_st option" where
  "set_sensor i x s = do {
     xs \<leftarrow> set_elem (asc_pxSensorData (asc_local s)) i x;
     Some (upd_asc (\<lambda>d. d\<lparr>asc_pxSensorData := Some xs\<rparr>) s) }"

definition asc_unavailable :: "'w asc_st \<Rightarrow> (evl_status \<times> 'a option \<times> 'w asc_st) option" where
  "asc_unavailable s = Some (ERROR, None, ASC_INC_ERROR_COUNTER ASC_PROXY_ERRORS_VALIDATION_FAILED s)"

section \<open>Resetting\<close>

definition reset_reading :: "ASCProxyDriverSensorReadings \<Rightarrow> ASCProxyDriverSensorReadings" where
  "reset_reading r = r\<lparr>ulSensorValue := 0, xSensorStatus := ASC_PROXY_DRIVER_SENSOR_STATUS_NOT_PRESENT,
     ulAverageSensorValue := 0, ulMaxSensorValue := 0,
     xSensorOperationalStatus := ASC_PROXY_DRIVER_SENSOR_OPERATIONAL_STATUS_ENABLED\<rparr>"

definition reset_sensor :: "ASCProxyDriverSensorData \<Rightarrow> ASCProxyDriverSensorData" where
  "reset_sensor x = x\<lparr>pxReadings :=
     (\<lambda>j. if j < MAX_ASC_PROXY_DRIVER_SENSOR_TYPE then reset_reading (pxReadings x j) else pxReadings x j)\<rparr>"

definition reset_at :: "nat \<Rightarrow> 'w asc_st \<Rightarrow> 'w asc_st option" where
  "reset_at i s = do { x \<leftarrow> elem (asc_pxSensorData (asc_local s)) i; set_sensor i (reset_sensor x) s }"

text \<open>The mutex is released here even when it could not be taken.\<close>

definition iASC_ResetAllSensorData :: "'w asc_env \<Rightarrow> 'w asc_st \<Rightarrow> (evl_status \<times> 'w asc_st) option" where
  "iASC_ResetAllSensorData E s =
     (if asc_ready s then do {
        let (taken, s) = asc_mutex_take E s;
        (st, s) \<leftarrow> (if taken then do {
            let s = ASC_INC_STAT_COUNTER ASC_PROXY_STATS_TAKE_MUTEX s;
            s \<leftarrow> for_each reset_at [0..<unat (asc_ucNumSensors (asc_local s))] s;
            Some (OK, ASC_INC_STAT_COUNTER ASC_PROXY_STATS_RESET_ALL_SENSOR_DATA s) }
          else Some (ERROR, ASC_INC_ERROR_COUNTER_WITH_STATE ASC_PROXY_ERRORS_MUTEX_TAKE_FAILED s));
        Some (asc_mutex_release E st s) }
      else Some (ERROR, ASC_INC_ERROR_COUNTER ASC_PROXY_ERRORS_VALIDATION_FAILED s))"

definition reset_found :: "ASC_PROXY_STATS \<Rightarrow> nat \<Rightarrow> ASCProxyDriverSensorData \<Rightarrow> 'w asc_st \<Rightarrow> (unit option \<times> 'w asc_st) option" where
  "reset_found c i x s = do { s \<leftarrow> set_sensor i (reset_sensor x) s; Some (None, ASC_INC_STAT_COUNTER c s) }"

definition iASC_ResetSingleSensorDataById ::
  "'w asc_env \<Rightarrow> u8 \<Rightarrow> 'w asc_st \<Rightarrow> (evl_status \<times> unit option \<times> 'w asc_st) option" where
  "iASC_ResetSingleSensorDataById E ucId s =
     (if asc_ready s
      then asc_locked E (on_sensor (has_id ucId) ASC_PROXY_ERRORS_RESET_SINGLE_SENSOR_DATA_BY_NAME
             (reset_found ASC_PROXY_STATS_RESET_SINGLE_SENSOR_DATA_BY_ID)) s
      else asc_unavailable s)"

definition iASC_ResetSingleSensorDataByName ::
  "'w asc_env \<Rightarrow> u8 list option \<Rightarrow> 'w asc_st \<Rightarrow> (evl_status \<times> unit option \<times> 'w asc_st) option" where
  "iASC_ResetSingleSensorDataByName E pcName s =
     (case pcName of Some name \<Rightarrow>
        (if asc_ready s
         then asc_locked E (on_sensor (has_name name) ASC_PROXY_ERRORS_RESET_SINGLE_SENSOR_DATA_BY_NAME
                (reset_found ASC_PROXY_STATS_RESET_SINGLE_SENSOR_DATA_BY_NAME)) s
         else asc_unavailable s)
      | None \<Rightarrow> asc_unavailable s)"

section \<open>Reading the table\<close>

text \<open>
  The caller's array and count: what the array holds afterwards, and the count.  \<open>None\<close> for
  the array is a null pointer; the count is the caller's variable.
\<close>

definition copy_all ::
  "ASCProxyDriverSensorData list \<Rightarrow> u8 \<Rightarrow> 'w asc_st \<Rightarrow>
   (evl_status \<times> (ASCProxyDriverSensorData list \<times> u8) option \<times> 'w asc_st) option" where
  "copy_all dst n s =
     (let k = asc_ucNumSensors (asc_local s) in
      if k \<le> n then do {
        src \<leftarrow> array_prefix (unat k) (asc_pxSensorData (asc_local s));
        if unat k \<le> length dst then Some (OK, Some (src @ drop (unat k) dst, k), s) else None }
      else Some (ERROR, Some (dst, 0), ASC_INC_ERROR_COUNTER_WITH_STATE ASC_PROXY_ERRORS_GET_ALL_SENSOR_DATA s))"

definition iASC_GetAllSensorData ::
  "'w asc_env \<Rightarrow> ASCProxyDriverSensorData list option \<Rightarrow> u8 \<Rightarrow> 'w asc_st \<Rightarrow>
   (evl_status \<times> (ASCProxyDriverSensorData list \<times> u8) option \<times> 'w asc_st) option" where
  "iASC_GetAllSensorData E pxData n s =
     (case pxData of Some dst \<Rightarrow>
        (if asc_ready s
         then asc_locked E (copy_all dst n) (ASC_INC_STAT_COUNTER ASC_PROXY_STATS_GET_ALL_SENSOR_DATA s)
         else asc_unavailable s)
      | None \<Rightarrow> asc_unavailable s)"

text \<open>\<open>out\<close>: whether the caller's pointer is non-null; the result is what it then receives.\<close>

definition iASC_GetSingleSensorDataById ::
  "'w asc_env \<Rightarrow> u8 \<Rightarrow> bool \<Rightarrow> 'w asc_st \<Rightarrow> (evl_status \<times> ASCProxyDriverSensorData option \<times> 'w asc_st) option" where
  "iASC_GetSingleSensorDataById E ucId out s =
     (if asc_ready s \<and> out
      then asc_locked E (on_sensor (has_id ucId) ASC_PROXY_ERRORS_RESET_SINGLE_SENSOR_DATA_BY_ID
             (\<lambda>i x s. Some (Some x, s))) (ASC_INC_STAT_COUNTER ASC_PROXY_STATS_GET_SINGLE_SENSOR_DATA_BY_ID s)
      else asc_unavailable s)"

definition iASC_GetSingleSensorDataByName ::
  "'w asc_env \<Rightarrow> u8 list option \<Rightarrow> bool \<Rightarrow> 'w asc_st \<Rightarrow> (evl_status \<times> ASCProxyDriverSensorData option \<times> 'w asc_st) option" where
  "iASC_GetSingleSensorDataByName E pcName out s =
     (case pcName of Some name \<Rightarrow>
        (if asc_ready s \<and> out
         then asc_locked E (on_sensor (has_name name) ASC_PROXY_ERRORS_RESET_SINGLE_SENSOR_DATA_BY_NAME
                (\<lambda>i x s. Some (Some x, s))) (ASC_INC_STAT_COUNTER ASC_PROXY_STATS_GET_SINGLE_SENSOR_DATA_BY_NAME s)
         else asc_unavailable s)
      | None \<Rightarrow> asc_unavailable s)"

section \<open>Threshold and operational states\<close>

definition iASC_SetSingleSensorThresholdStatusById ::
  "'w asc_env \<Rightarrow> u8 \<Rightarrow> ASC_PROXY_DRIVER_SENSOR_THRESHOLD_STATUS \<Rightarrow> 'w asc_st \<Rightarrow>
   (evl_status \<times> unit option \<times> 'w asc_st) option" where
  "iASC_SetSingleSensorThresholdStatusById E ucId xStatus s =
     (if asc_ready s
      then asc_locked E (on_sensor (has_id ucId) ASC_PROXY_ERRORS_SET_SENSOR_THRESHOLD_BY_ID
             (\<lambda>i x s. do {
                s \<leftarrow> set_sensor i (x\<lparr>ulThresholdStatus := xStatus\<rparr>) s;
                Some (None, ASC_INC_STAT_COUNTER ASC_PROXY_STATS_SET_SENSOR_THRESHOLD_BY_ID s) })) s
      else asc_unavailable s)"

text \<open>The sensor type indexes the readings unchecked: undefined outside them.\<close>

definition set_reading :: "nat \<Rightarrow> nat \<Rightarrow> ASCProxyDriverSensorReadings \<Rightarrow> 'w asc_st \<Rightarrow> 'w asc_st option" where
  "set_reading i j r s = do {
     x \<leftarrow> elem (asc_pxSensorData (asc_local s)) i;
     rs \<leftarrow> arr_set MAX_ASC_PROXY_DRIVER_SENSOR_TYPE (pxReadings x) j r;
     set_sensor i (x\<lparr>pxReadings := rs\<rparr>) s }"

definition iASC_SetSingleSensorOperationalStateById ::
  "'w asc_env \<Rightarrow> u8 \<Rightarrow> u8 \<Rightarrow> ASC_PROXY_DRIVER_SENSOR_OPERATIONAL_STATUS \<Rightarrow> 'w asc_st \<Rightarrow>
   (evl_status \<times> unit option \<times> 'w asc_st) option" where
  "iASC_SetSingleSensorOperationalStateById E ucId ty ucOperationalState s =
     (if asc_ready s
      then asc_locked E (on_sensor (has_id ucId) ASC_PROXY_ERRORS_SET_OPERATIONAL_STATE_BY_ID
             (\<lambda>i x s. do {
                r \<leftarrow> arr_get MAX_ASC_PROXY_DRIVER_SENSOR_TYPE (pxReadings x) (unat ty);
                s \<leftarrow> set_reading i (unat ty) (r\<lparr>xSensorOperationalStatus := ucOperationalState\<rparr>) s;
                Some (None, ASC_INC_STAT_COUNTER ASC_PROXY_STATS_SET_OPERATIONAL_STATE_BY_ID s) })) s
      else asc_unavailable s)"

definition asc_enabled :: "'w asc_env \<Rightarrow> ASCProxyDriverSensorData \<Rightarrow> 'w asc_st \<Rightarrow> bool \<times> 'w asc_st" where
  "asc_enabled E x s =
     (let (b, w) = sensor_enabled E (pxSensorEnabled x) (asc_outside s) in (b, s\<lparr>asc_outside := w\<rparr>))"

definition iASC_GetSingleSensorOperationalStateById ::
  "'w asc_env \<Rightarrow> u8 \<Rightarrow> u8 \<Rightarrow> bool \<Rightarrow> 'w asc_st \<Rightarrow>
   (evl_status \<times> ASC_PROXY_DRIVER_SENSOR_OPERATIONAL_STATUS option \<times> 'w asc_st) option" where
  "iASC_GetSingleSensorOperationalStateById E ucId ty out s =
     (if asc_ready s \<and> out
      then asc_locked E (on_sensor (has_id ucId) ASC_PROXY_ERRORS_GET_OPERATIONAL_STATE_BY_ID
             (\<lambda>i x s. do {
                let (on, s) = asc_enabled E x s;
                st \<leftarrow> (if on then do {
                    r \<leftarrow> arr_get MAX_ASC_PROXY_DRIVER_SENSOR_TYPE (pxReadings x) (unat ty);
                    Some (xSensorOperationalStatus r) }
                  else Some ASC_PROXY_DRIVER_SENSOR_OPERATIONAL_STATUS_UNAVAILABLE);
                Some (Some st, ASC_INC_STAT_COUNTER ASC_PROXY_STATS_GET_OPERATIONAL_STATE_BY_ID s) })) s
      else asc_unavailable s)"

section \<open>Statistics and state\<close>

definition asc_stats :: "ASC_PROXY_STATS list" where
  "asc_stats =
     [ASC_PROXY_STATS_INIT_OVERALL_COMPLETE, ASC_PROXY_STATS_CREATE_MUTEX, ASC_PROXY_STATS_TAKE_MUTEX,
      ASC_PROXY_STATS_RELEASE_MUTEX, ASC_PROXY_STATS_GET_ALL_SENSOR_DATA,
      ASC_PROXY_STATS_GET_SINGLE_SENSOR_DATA_BY_ID, ASC_PROXY_STATS_GET_SINGLE_SENSOR_DATA_BY_NAME,
      ASC_PROXY_STATS_RESET_ALL_SENSOR_DATA, ASC_PROXY_STATS_RESET_SINGLE_SENSOR_DATA_BY_ID,
      ASC_PROXY_STATS_RESET_SINGLE_SENSOR_DATA_BY_NAME, ASC_PROXY_STATS_TASK_TIME_MS,
      ASC_PROXY_STATS_STATUS_RETRIEVAL, ASC_PROXY_STATS_SET_SENSOR_THRESHOLD_BY_ID,
      ASC_PROXY_GET_OPERATIONAL_STATE, ASC_PROXY_STATS_SET_OPERATIONAL_STATE_BY_ID,
      ASC_PROXY_STATS_GET_OPERATIONAL_STATE_BY_ID]"

definition asc_errors :: "ASC_PROXY_ERRORS list" where
  "asc_errors =
     [ASC_PROXY_ERRORS_MUTEX_RELEASE_FAILED, ASC_PROXY_ERRORS_MUTEX_TAKE_FAILED,
      ASC_PROXY_ERRORS_MEM_ALLOC_FAILED, ASC_PROXY_ERRORS_GET_ALL_SENSOR_DATA,
      ASC_PROXY_ERRORS_GET_SINGLE_SENSOR_DATA_BY_ID, ASC_PROXY_ERRORS_GET_SINGLE_SENSOR_DATA_BY_NAME,
      ASC_PROXY_ERRORS_RESET_ALL_SENSOR_DATA, ASC_PROXY_ERRORS_RESET_SINGLE_SENSOR_DATA_BY_ID,
      ASC_PROXY_ERRORS_RESET_SINGLE_SENSOR_DATA_BY_NAME, ASC_PROXY_ERRORS_RAISE_EVENT_FAILED,
      ASC_PROXY_ERRORS_INIT_FW_IF_OPEN_FAILED, ASC_PROXY_ERRORS_INIT_MUTEX_CREATE_FAILED,
      ASC_PROXY_ERRORS_INIT_TASK_CREATE_FAILED, ASC_PROXY_ERRORS_VALIDATION_FAILED,
      ASC_PROXY_ERRORS_UNKNOWN_RETURN_CODE, ASC_PROXY_ERRORS_BIND_CB_FAILED,
      ASC_PROXY_ERRORS_INIT_EVL_RECORD_FAILED, ASC_PROXY_ERRORS_SET_SENSOR_THRESHOLD_BY_ID,
      ASC_PROXY_ERRORS_GET_OPERATIONAL_STATE_BY_ID, ASC_PROXY_ERRORS_SET_OPERATIONAL_STATE_BY_ID]"

definition iASC_PrintStatistics :: "'w asc_st \<Rightarrow> evl_status \<times> u32 list \<times> u32 list \<times> 'w asc_st" where
  "iASC_PrintStatistics s =
     (if asc_firewalls_ok s
      then (OK, map (asc_pulStatCounters (asc_local s)) asc_stats, map (asc_pulErrorCounters (asc_local s)) asc_errors, s)
      else (ERROR, [], [], ASC_INC_ERROR_COUNTER ASC_PROXY_ERRORS_VALIDATION_FAILED s))"

definition iASC_ClearStatistics :: "'w asc_st \<Rightarrow> evl_status \<times> 'w asc_st" where
  "iASC_ClearStatistics s =
     (if asc_ready s
      then (OK, upd_asc (\<lambda>d. d\<lparr>asc_pulStatCounters := (\<lambda>_. 0), asc_pulErrorCounters := (\<lambda>_. 0)\<rparr>) s)
      else (ERROR, ASC_INC_ERROR_COUNTER ASC_PROXY_ERRORS_VALIDATION_FAILED s))"

definition iASC_GetState :: "'w asc_env \<Rightarrow> bool \<Rightarrow> 'w asc_st \<Rightarrow> evl_status \<times> MODULE_STATE option \<times> 'w asc_st" where
  "iASC_GetState E out s =
     (if asc_firewalls_ok s \<and> out then
        (let (taken, s) = asc_mutex_take E s;
             (st, x, s) = (if taken
               then (OK, Some (asc_xState (asc_local s)), ASC_INC_STAT_COUNTER ASC_PROXY_STATS_STATUS_RETRIEVAL s)
               else (ERROR, None, ASC_INC_ERROR_COUNTER_WITH_STATE ASC_PROXY_ERRORS_MUTEX_TAKE_FAILED s));
             (st, s) = asc_mutex_release E st s
         in (st, x, s))
      else (ERROR, None, ASC_INC_ERROR_COUNTER ASC_PROXY_ERRORS_VALIDATION_FAILED s))"

section \<open>The task\<close>

text \<open>
  The task's own variables: its two arrays have one row per sensor at the time it starts, and
  the signal keeps its additional data from one event to the next.
\<close>

record asc_task =
  task_rows :: nat
  iNumberOfReadings :: "nat \<Rightarrow> nat \<Rightarrow> int"
  ulSumOfSensorValues :: "nat \<Rightarrow> nat \<Rightarrow> u32"
  xNewSignal :: EVLSignal

definition start_task :: "'w asc_st \<Rightarrow> asc_task" where
  "start_task s = \<lparr>task_rows = unat (asc_ucNumSensors (asc_local s)), iNumberOfReadings = (\<lambda>_ _. 0),
     ulSumOfSensorValues = (\<lambda>_ _. 0),
     xNewSignal = \<lparr>ucModule = asc_ucMyId (asc_local s), ucEventType = MAX_ASC_PROXY_DRIVER_EVENTS,
                   ucInstance = 0, ucAdditionalData = 0\<rparr>\<rparr>"

text \<open>The cell \<open>(i, j)\<close> of the counts is incremented; a signed overflow is undefined.\<close>

definition count_reading :: "nat \<Rightarrow> nat \<Rightarrow> u32 \<Rightarrow> asc_task \<Rightarrow> (int \<times> asc_task) option" where
  "count_reading i j v t =
     (let n = iNumberOfReadings t i j + 1 in
      if i < task_rows t \<and> j < MAX_ASC_PROXY_DRIVER_SENSOR_TYPE \<and> n < 2 ^ 31
      then Some (n, t\<lparr>iNumberOfReadings := (iNumberOfReadings t)(i := (iNumberOfReadings t i)(j := n)),
        ulSumOfSensorValues := (ulSumOfSensorValues t)(i := (ulSumOfSensorValues t i)(j := ulSumOfSensorValues t i j + v))\<rparr>)
      else None)"

text \<open>The running average: integer arithmetic, except for the share of the new value.\<close>

definition running_average :: "u32 \<Rightarrow> single \<Rightarrow> int \<Rightarrow> u32 option" where
  "running_average avg v n =
     (if word_of_int n = (0 :: u32) then None
      else single_to_u32 (single_add (single_of_int (uint (avg - avg div word_of_int n)))
                                     (single_div v (single_of_int n))))"

text \<open>A successful reading of value \<open>v\<close>, the \<open>n\<close>-th.\<close>

definition take_reading ::
  "single \<Rightarrow> u32 \<Rightarrow> int \<Rightarrow> ASCProxyDriverSensorReadings \<Rightarrow> ASCProxyDriverSensorReadings option" where
  "take_reading v value n r = do {
     avg \<leftarrow> running_average (ulAverageSensorValue r) v n;
     Some (r\<lparr>ulSensorValue := value, xSensorStatus := ASC_PROXY_DRIVER_SENSOR_STATUS_PRESENT_AND_VALID,
             ulAverageSensorValue := avg,
             ulMaxSensorValue := (if ulMaxSensorValue r < value then value else ulMaxSensorValue r)\<rparr>) }"

definition read_one :: "'w asc_env \<Rightarrow> nat \<Rightarrow> nat \<Rightarrow> asc_task \<times> 'w asc_st \<Rightarrow> (asc_task \<times> 'w asc_st) option" where
  "read_one E i j = (\<lambda>(t, s). do {
     x \<leftarrow> elem (asc_pxSensorData (asc_local s)) i;
     f \<leftarrow> arr_get MAX_ASC_PROXY_DRIVER_SENSOR_TYPE (ppxReadSensorFunc x) j;
     case f of None \<Rightarrow> Some (t, s)
     | Some f \<Rightarrow> do {
         ch \<leftarrow> arr_get MAX_ASC_PROXY_DRIVER_SENSOR_TYPE (ucChannelNumber x) j;
         r \<leftarrow> arr_get MAX_ASC_PROXY_DRIVER_SENSOR_TYPE (pxReadings x) j;
         let (st, v, w) = read_sensor E f ASC_SENSOR_I2C_BUS_NUM (ucSensorAddress x) ch (asc_outside s);
         let s = s\<lparr>asc_outside := w\<rparr>;
         if st = OK then do {
           value \<leftarrow> single_to_u32 v;
           (n, t) \<leftarrow> count_reading i j value t;
           r \<leftarrow> take_reading v value n r;
           s \<leftarrow> set_reading i j r s;
           Some (t, s) }
         else do {
           s \<leftarrow> set_reading i j (r\<lparr>xSensorStatus := ASC_PROXY_DRIVER_SENSOR_STATUS_DATA_NOT_AVAILABLE\<rparr>) s;
           Some (t, s) } } })"

definition read_sensor_at :: "'w asc_env \<Rightarrow> nat \<Rightarrow> asc_task \<times> 'w asc_st \<Rightarrow> (asc_task \<times> 'w asc_st) option" where
  "read_sensor_at E i = (\<lambda>(t, s). do {
     x \<leftarrow> elem (asc_pxSensorData (asc_local s)) i;
     let (on, s) = asc_enabled E x s;
     if on then for_each (read_one E i) [0..<MAX_ASC_PROXY_DRIVER_SENSOR_TYPE] (t, s) else Some (t, s) })"

definition read_sensors :: "'w asc_env \<Rightarrow> asc_task \<times> 'w asc_st \<Rightarrow> (asc_task \<times> 'w asc_st) option" where
  "read_sensors E = (\<lambda>(t, s). for_each (read_sensor_at E) [0..<unat (asc_ucNumSensors (asc_local s))] (t, s))"

text \<open>The event a reading calls for; only the upper limits are compared.\<close>

definition threshold_event :: "ASCProxyDriverSensorReadings \<Rightarrow> u8 option" where
  "threshold_event r =
     (let over = (\<lambda>l. l \<noteq> ASC_SENSOR_INVALID_VAL \<and> l \<le> ulSensorValue r) in
      if over (ulUpperFatalLimit r) then Some ASC_PROXY_DRIVER_E_SENSOR_UPPER_FATAL
      else if over (ulUpperCriticalLimit r) then Some ASC_PROXY_DRIVER_E_SENSOR_UPPER_CRITICAL
      else if over (ulUpperWarningLimit r) then Some ASC_PROXY_DRIVER_E_SENSOR_UPPER_WARNING
      else None)"

definition asc_raise :: "'w asc_env \<Rightarrow> EVLSignal \<Rightarrow> 'w asc_st \<Rightarrow> 'w asc_st option" where
  "asc_raise E sig s = do {
     (st, d, s) \<leftarrow> iEVL_RaiseEvent (asc_evl_part E) (asc_pxEvlRecord (asc_local s)) (Some sig) (asc_evl s) s;
     let s = s\<lparr>asc_evl := d\<rparr>;
     Some (if st = ERROR then ASC_INC_ERROR_COUNTER_WITH_STATE ASC_PROXY_ERRORS_RAISE_EVENT_FAILED s else s) }"

definition raise_signal :: "'w asc_env \<Rightarrow> u8 \<Rightarrow> asc_task \<times> 'w asc_st \<Rightarrow> (asc_task \<times> 'w asc_st) option" where
  "raise_signal E ev = (\<lambda>(t, s). do {
     let t = t\<lparr>xNewSignal := (xNewSignal t)\<lparr>ucEventType := ev\<rparr>\<rparr>;
     s \<leftarrow> asc_raise E (xNewSignal t) s;
     Some (t, s) })"

definition notify_one :: "'w asc_env \<Rightarrow> nat \<Rightarrow> nat \<Rightarrow> asc_task \<times> 'w asc_st \<Rightarrow> (asc_task \<times> 'w asc_st) option" where
  "notify_one E i j = (\<lambda>(t, s). do {
     let t = t\<lparr>xNewSignal := (xNewSignal t)\<lparr>ucAdditionalData := of_nat j\<rparr>\<rparr>;
     x \<leftarrow> elem (asc_pxSensorData (asc_local s)) i;
     r \<leftarrow> arr_get MAX_ASC_PROXY_DRIVER_SENSOR_TYPE (pxReadings x) j;
     case threshold_event r of None \<Rightarrow> Some (t, s) | Some ev \<Rightarrow> raise_signal E ev (t, s) })"

definition notify_at :: "'w asc_env \<Rightarrow> nat \<Rightarrow> asc_task \<times> 'w asc_st \<Rightarrow> (asc_task \<times> 'w asc_st) option" where
  "notify_at E i = (\<lambda>(t, s). do {
     x \<leftarrow> elem (asc_pxSensorData (asc_local s)) i;
     let (on, s) = asc_enabled E x s;
     if on then do {
       let t = t\<lparr>xNewSignal := (xNewSignal t)\<lparr>ucInstance := ucSensorId x\<rparr>\<rparr>;
       for_each (notify_one E i) [0..<MAX_ASC_PROXY_DRIVER_SENSOR_TYPE] (t, s) }
     else Some (t, s) })"

text \<open>
  The number of sensors does not change once the proxy is initialised, so the loops may read
  it once.
\<close>

definition notify_sensors :: "'w asc_env \<Rightarrow> asc_task \<times> 'w asc_st \<Rightarrow> (asc_task \<times> 'w asc_st) option" where
  "notify_sensors E = (\<lambda>(t, s). do {
     (t, s) \<leftarrow> for_each (notify_at E) [0..<unat (asc_ucNumSensors (asc_local s))] (t, s);
     raise_signal E ASC_PROXY_DRIVER_E_SENSOR_UPDATE_COMPLETE (t\<lparr>xNewSignal := (xNewSignal t)\<lparr>ucInstance := 0\<rparr>\<rparr>, s) })"

definition asc_ticks :: "'w asc_env \<Rightarrow> 'w asc_st \<Rightarrow> u32 \<times> 'w asc_st" where
  "asc_ticks E s = (let (n, w) = asc_uptime_ticks E (asc_outside s) in (n, s\<lparr>asc_outside := w\<rparr>))"

text \<open>The end of a turn: the time it took is recorded, and the task sleeps.\<close>

definition end_turn :: "'w asc_env \<Rightarrow> u32 \<Rightarrow> 'w asc_st \<Rightarrow> 'w asc_st" where
  "end_turn E start s =
     (let (now, s) = asc_ticks E s;
          s = upd_asc (\<lambda>d. d\<lparr>asc_pulStatCounters :=
                (asc_pulStatCounters d)(ASC_PROXY_STATS_TASK_TIME_MS := (now - start) div 10)\<rparr>) s
      in s\<lparr>asc_outside := asc_sleep E ASC_TASK_SLEEP_MS (asc_outside s)\<rparr>)"

text \<open>One turn of the task's endless loop.\<close>

definition asc_task_turn :: "'w asc_env \<Rightarrow> asc_task \<times> 'w asc_st \<Rightarrow> (asc_task \<times> 'w asc_st) option" where
  "asc_task_turn E = (\<lambda>(t, s). do {
     let (start, s) = asc_ticks E s;
     let (taken, s) = asc_mutex_take E s;
     (t, s) \<leftarrow>
       (if taken then do {
          (t, s) \<leftarrow> read_sensors E (t, ASC_INC_STAT_COUNTER ASC_PROXY_STATS_TAKE_MUTEX s);
          let (st, s) = asc_mutex_release E OK s;
          if st = OK then notify_sensors E (t, s) else Some (t, s) }
        else Some (t, ASC_INC_ERROR_COUNTER_WITH_STATE ASC_PROXY_ERRORS_MUTEX_TAKE_FAILED s));
     Some (t, end_turn E start s) })"

end
