(* ===== verification/ASDM_State.thy ===== *)
theory ASDM_State
  imports ASC_Proxy
begin

text \<open>
  The state of the sensor and asset repository (\<open>apps/asdm/asdm.c\<close>): the sensor data records
  (SDR) and sensor data sets (SDS) of seven repositories, the partition table and the board
  information.  The union of a repository's payload is a datatype, and reading a member that
  was not written last is undefined; the union of a record field is its bytes.  Enumerations
  that index arrays are numbers.  The processor is a Cortex-R5: pointers have four bytes,
  enumerations the smallest size, and \<open>char\<close> is unsigned.

  The operating system, the proxies for sensors and images, the EEPROM and the boot register
  act on a world \<open>'w\<close>.
\<close>

abbreviation (input) ASDM_RECORD_FIELD_BYTES_MAX :: nat where "ASDM_RECORD_FIELD_BYTES_MAX \<equiv> 30"
abbreviation (input) ASDM_RECORD_FIELD_LENGTH_MASK :: u8 where "ASDM_RECORD_FIELD_LENGTH_MASK \<equiv> 0x3F"
abbreviation (input) ASDM_RECORD_FIELD_TYPE_MASK :: u8 where "ASDM_RECORD_FIELD_TYPE_MASK \<equiv> 3"
abbreviation (input) ASDM_RECORD_FIELD_TYPE_POS :: nat where "ASDM_RECORD_FIELD_TYPE_POS \<equiv> 6"

abbreviation (input) ASDM_SDR_THRESHOLD_UPPER_WARNING_MASK :: u8 where "ASDM_SDR_THRESHOLD_UPPER_WARNING_MASK \<equiv> 0x01"
abbreviation (input) ASDM_SDR_THRESHOLD_UPPER_CRITICAL_MASK :: u8 where "ASDM_SDR_THRESHOLD_UPPER_CRITICAL_MASK \<equiv> 0x02"
abbreviation (input) ASDM_SDR_THRESHOLD_UPPER_FATAL_MASK :: u8 where "ASDM_SDR_THRESHOLD_UPPER_FATAL_MASK \<equiv> 0x04"
abbreviation (input) ASDM_SDR_THRESHOLD_LOWER_WARNING_MASK :: u8 where "ASDM_SDR_THRESHOLD_LOWER_WARNING_MASK \<equiv> 0x08"
abbreviation (input) ASDM_SDR_THRESHOLD_LOWER_CRITICAL_MASK :: u8 where "ASDM_SDR_THRESHOLD_LOWER_CRITICAL_MASK \<equiv> 0x10"
abbreviation (input) ASDM_SDR_THRESHOLD_LOWER_FATAL_MASK :: u8 where "ASDM_SDR_THRESHOLD_LOWER_FATAL_MASK \<equiv> 0x20"
abbreviation (input) ASDM_SDR_THRESHOLD_SENSOR_AVG_MASK :: u8 where "ASDM_SDR_THRESHOLD_SENSOR_AVG_MASK \<equiv> 0x40"
abbreviation (input) ASDM_SDR_THRESHOLD_SENSOR_MAX_MASK :: u8 where "ASDM_SDR_THRESHOLD_SENSOR_MAX_MASK \<equiv> 0x80"

abbreviation (input) ASDM_EOR_BYTES :: nat where "ASDM_EOR_BYTES \<equiv> 3"
abbreviation (input) ASDM_EOR_MARKER :: "u8 list" where "ASDM_EOR_MARKER \<equiv> [0x45, 0x4E, 0x44]"
abbreviation (input) AMC_ASDM_SENSOR_SIZE_4B :: u8 where "AMC_ASDM_SENSOR_SIZE_4B \<equiv> 4"
abbreviation (input) AMC_ASDM_EMPTY_SDR_SIZE :: u16 where "AMC_ASDM_EMPTY_SDR_SIZE \<equiv> 0"
abbreviation (input) TOTAL_NUM_BYTES_MULTIPLE :: u16 where "TOTAL_NUM_BYTES_MULTIPLE \<equiv> 8"
abbreviation (input) SENSOR_RESPONSE_VALUES :: u8 where "SENSOR_RESPONSE_VALUES \<equiv> 3"
abbreviation (input) TOTAL_POWER_NUM_RECORDS :: u8 where "TOTAL_POWER_NUM_RECORDS \<equiv> 1"
abbreviation (input) FPT_NUM_RECORDS :: u8 where "FPT_NUM_RECORDS \<equiv> 1"
abbreviation (input) BOARD_INFO_NUM_RECORDS :: u8 where "BOARD_INFO_NUM_RECORDS \<equiv> 1"
abbreviation (input) ASDM_HEADER_DEFAULT_BYTES :: u16 where "ASDM_HEADER_DEFAULT_BYTES \<equiv> 8"
abbreviation (input) ASDM_HEADER_VER :: u8 where "ASDM_HEADER_VER \<equiv> 1"

section \<open>Numbers of repositories, calls and codes\<close>

abbreviation (input) AMC_ASDM_SUPPORTED_REPO_TEMP :: nat where "AMC_ASDM_SUPPORTED_REPO_TEMP \<equiv> 0"
abbreviation (input) AMC_ASDM_SUPPORTED_REPO_VOLTAGE :: nat where "AMC_ASDM_SUPPORTED_REPO_VOLTAGE \<equiv> 1"
abbreviation (input) AMC_ASDM_SUPPORTED_REPO_CURRENT :: nat where "AMC_ASDM_SUPPORTED_REPO_CURRENT \<equiv> 2"
abbreviation (input) AMC_ASDM_SUPPORTED_REPO_POWER :: nat where "AMC_ASDM_SUPPORTED_REPO_POWER \<equiv> 3"
abbreviation (input) AMC_ASDM_SUPPORTED_REPO_TOTAL_POWER :: nat where "AMC_ASDM_SUPPORTED_REPO_TOTAL_POWER \<equiv> 4"
abbreviation (input) AMC_ASDM_SUPPORTED_REPO_FPT :: nat where "AMC_ASDM_SUPPORTED_REPO_FPT \<equiv> 5"
abbreviation (input) AMC_ASDM_SUPPORTED_REPO_BOARD_INFO :: nat where "AMC_ASDM_SUPPORTED_REPO_BOARD_INFO \<equiv> 6"
abbreviation (input) AMC_ASDM_SUPPORTED_REPO_MAX :: nat where "AMC_ASDM_SUPPORTED_REPO_MAX \<equiv> 7"

abbreviation (input) ASDM_REPOSITORY_TYPE_BOARD_INFO :: u8 where "ASDM_REPOSITORY_TYPE_BOARD_INFO \<equiv> 0xC0"
abbreviation (input) ASDM_REPOSITORY_TYPE_TEMP :: u8 where "ASDM_REPOSITORY_TYPE_TEMP \<equiv> 0xC1"
abbreviation (input) ASDM_REPOSITORY_TYPE_VOLTAGE :: u8 where "ASDM_REPOSITORY_TYPE_VOLTAGE \<equiv> 0xC2"
abbreviation (input) ASDM_REPOSITORY_TYPE_CURRENT :: u8 where "ASDM_REPOSITORY_TYPE_CURRENT \<equiv> 0xC3"
abbreviation (input) ASDM_REPOSITORY_TYPE_POWER :: u8 where "ASDM_REPOSITORY_TYPE_POWER \<equiv> 0xC4"
abbreviation (input) ASDM_REPOSITORY_TYPE_TOTAL_POWER :: u8 where "ASDM_REPOSITORY_TYPE_TOTAL_POWER \<equiv> 0xC6"
abbreviation (input) ASDM_REPOSITORY_TYPE_FPT :: u8 where "ASDM_REPOSITORY_TYPE_FPT \<equiv> 0xF0"

datatype ASDM_API_ID_TYPE =
    ASDM_API_ID_TYPE_GET_SDR_SIZE | ASDM_API_ID_TYPE_GET_SDR | ASDM_API_ID_TYPE_GET_SINGLE_SENSOR_DATA
  | ASDM_API_ID_TYPE_GET_ALL_SENSOR_DATA | ASDM_API_ID_TYPE_GET_SDR_V2
  | ASDM_API_ID_TYPE_GET_ALL_SENSOR_DATA_V2 | ASDM_API_ID_TYPE_CONFIG_WRITES
  | ASDM_API_ID_TYPE_SEND_EVENTS | ASDM_API_ID_TYPE_MAX

abbreviation (input) ASDM_SDR_COMPLETION_CODE_OPERATION_SUCCESS :: u8 where
  "ASDM_SDR_COMPLETION_CODE_OPERATION_SUCCESS \<equiv> 1"
abbreviation (input) ASDM_SDR_RESP_BYTE_CC :: nat where "ASDM_SDR_RESP_BYTE_CC \<equiv> 0"
abbreviation (input) ASDM_SDR_RESP_BYTE_REPO_TYPE :: nat where "ASDM_SDR_RESP_BYTE_REPO_TYPE \<equiv> 1"
abbreviation (input) ASDM_SDR_RESP_BYTE_SIZE :: nat where "ASDM_SDR_RESP_BYTE_SIZE \<equiv> 2"

abbreviation (input) ASDM_RECORD_FIELD_TYPE_CODE_NUM :: u8 where "ASDM_RECORD_FIELD_TYPE_CODE_NUM \<equiv> 0"
abbreviation (input) ASDM_RECORD_FIELD_TYPE_CODE_BYTE_ARRAY :: u8 where "ASDM_RECORD_FIELD_TYPE_CODE_BYTE_ARRAY \<equiv> 1"
abbreviation (input) ASDM_RECORD_FIELD_TYPE_CODE_8_BIT_ASCII :: u8 where "ASDM_RECORD_FIELD_TYPE_CODE_8_BIT_ASCII \<equiv> 3"
abbreviation (input) ASDM_SDR_SENSOR_STATUS_PRESENT_VALID :: u8 where "ASDM_SDR_SENSOR_STATUS_PRESENT_VALID \<equiv> 1"

text \<open>The unit modifiers are stored in a \<open>char\<close>.\<close>

abbreviation (input) ASDM_SDR_UNIT_MODIFIER_MICRO :: u8 where "ASDM_SDR_UNIT_MODIFIER_MICRO \<equiv> 0xFA"
abbreviation (input) ASDM_SDR_UNIT_MODIFIER_MILLI :: u8 where "ASDM_SDR_UNIT_MODIFIER_MILLI \<equiv> 0xFD"
abbreviation (input) ASDM_SDR_UNIT_MODIFIER_NONE :: u8 where "ASDM_SDR_UNIT_MODIFIER_NONE \<equiv> 0"
abbreviation (input) ASDM_SDR_UNIT_MODIFIER_KILO :: u8 where "ASDM_SDR_UNIT_MODIFIER_KILO \<equiv> 3"
abbreviation (input) ASDM_SDR_UNIT_MODIFIER_MEGA :: u8 where "ASDM_SDR_UNIT_MODIFIER_MEGA \<equiv> 6"

abbreviation (input) ASDM_SDS_SENSOR_TAG_BOARD_TEMP :: u8 where "ASDM_SDS_SENSOR_TAG_BOARD_TEMP \<equiv> 1"
abbreviation (input) ASDM_SDS_SENSOR_TAG_VOLTAGE :: u8 where "ASDM_SDS_SENSOR_TAG_VOLTAGE \<equiv> 4"
abbreviation (input) ASDM_SDS_SENSOR_TAG_CURRENT :: u8 where "ASDM_SDS_SENSOR_TAG_CURRENT \<equiv> 5"
abbreviation (input) ASDM_SDS_SENSOR_TAG_POWER :: u8 where "ASDM_SDS_SENSOR_TAG_POWER \<equiv> 6"

datatype ASDM_STATS =
    ASDM_STATS_INIT_OVERALL_COMPLETE | ASDM_STATS_ASC_SENSOR_UPDATE_EVENT
  | ASDM_STATS_ASC_SENSOR_OTHER_EVENT | ASDM_STATS_AMI_SENSOR_REQUEST
  | ASDM_STATS_AMI_UNSUPPORTED_REQUEST | ASDM_STATS_ASDM_GET_SDR_API
  | ASDM_STATS_ASDM_GET_ALL_SENSOR_API | ASDM_STATS_ASDM_GET_SDR_SIZE_API
  | ASDM_STATS_ASDM_GET_SINGLE_SENSOR_API | ASDM_STATS_ASDM_POPULATE_SDR_SUCCESS
  | ASDM_STATS_TAKE_MUTEX | ASDM_STATS_RELEASE_MUTEX | ASDM_STATS_MALLOC | ASDM_STATS_FREE
  | ASDM_STATS_GET_FPT_HEADER | ASDM_STATS_GET_FPT_PARTITION | ASDM_STATS_APC_FPT_UPDATE_EVENT
  | ASDM_STATS_APC_FPT_FLAGS_UPDATE_EVENT

datatype ASDM_ERRORS =
    ASDM_ERRORS_INIT_MUTEX_FAILED | ASDM_ERRORS_INIT_BIND_ASC_CB_FAILED
  | ASDM_ERRORS_INIT_BIND_APC_CB_FAILED | ASDM_ERRORS_INIT_OVERALL_FAILED
  | ASDM_ERRORS_ASC_GET_SENSORS_FAILED | ASDM_ERRORS_ASC_GET_SINGLE_SENSOR_FAILED
  | ASDM_ERRORS_AMI_SENSOR_REQUEST_EMPTY_SDR | ASDM_ERRORS_AMI_SENSOR_REQUEST_UNKNOWN_API
  | ASDM_ERRORS_AMI_SENSOR_REQUEST_FAILED | ASDM_ERRORS_AMI_UNSUPPORTED_REPO
  | ASDM_ERRORS_MUTEX_RELEASE_FAILED | ASDM_ERRORS_MUTEX_TAKE_FAILED | ASDM_ERRORS_MALLOC_FAILED
  | ASDM_ERRORS_ASC_BITFIELD_MAPPING | ASDM_ERRORS_ASDM_REPO_MAPPING
  | ASDM_ERRORS_ASDM_UNIT_MODIFIER_MAPPING | ASDM_ERRORS_ASDM_SENSOR_NAME_LENGTH
  | ASDM_ERRORS_ASDM_POPULATE_SDR_FAILED | ASDM_ERRORS_ASDM_POPULATE_SDS_FAILED
  | ASDM_ERRORS_ASDM_GET_SDR_FAILED | ASDM_ERRORS_TOTAL_POWER_FAILED | ASDM_ERRORS_APC_PARTITION_HEADER
  | ASDM_ERRORS_APC_PARTITION_INFO | ASDM_ERRORS_ASDM_POPULATE_BDINFO_FAILED
  | ASDM_ERRORS_APC_FPT_UPDATE_FAILED | ASDM_ERRORS_SENSOR_TAG_MAPPING

section \<open>Records\<close>

text \<open>
  A record field: its union is the 30 bytes of \<open>pucBytesValue\<close>, the first four of which are
  \<open>ulValue\<close>.
\<close>

record ASDMRecordField =
  fld_ucType :: u8
  fld_ucLength :: u8
  fld_bytes :: "u8 list"

definition zero_field :: ASDMRecordField where
  "zero_field = \<lparr>fld_ucType = 0, fld_ucLength = 0, fld_bytes = replicate ASDM_RECORD_FIELD_BYTES_MAX 0\<rparr>"

definition fld_ulValue :: "ASDMRecordField \<Rightarrow> u32 option" where
  "fld_ulValue f = get32 (fld_bytes f) 0"

definition set_fld_ulValue :: "u32 \<Rightarrow> ASDMRecordField \<Rightarrow> ASDMRecordField option" where
  "set_fld_ulValue v f = do { b \<leftarrow> put32 0 v (fld_bytes f); Some (f\<lparr>fld_bytes := b\<rparr>) }"

record ASDMSensorHeader =
  ucRepoType :: u8
  ucRepoVersionNum :: u8
  ucTotalNumRecords :: u8
  usTotalNumBytes :: u16

definition zero_header :: ASDMSensorHeader where
  "zero_header = \<lparr>ucRepoType = 0, ucRepoVersionNum = 0, ucTotalNumRecords = 0, usTotalNumBytes = 0\<rparr>"

text \<open>The header is packed: its five bytes.\<close>

definition header_bytes :: "ASDMSensorHeader \<Rightarrow> u8 list" where
  "header_bytes h = [ucRepoType h, ucRepoVersionNum h, ucTotalNumRecords h,
     ucast (usTotalNumBytes h), ucast (drop_bit 8 (usTotalNumBytes h))]"

record ASDMFptHeader =
  fpt_ucFptVersion :: u8
  fpt_ucFptHeaderSize :: u8
  fpt_ucFptEntrySize :: u8
  fpt_ucNumEntries :: u8

definition fpt_header_bytes :: "ASDMFptHeader \<Rightarrow> u8 list" where
  "fpt_header_bytes h = [fpt_ucFptVersion h, fpt_ucFptHeaderSize h, fpt_ucFptEntrySize h, fpt_ucNumEntries h]"

record ASDMFptEntry =
  fpe_ulType :: u32
  fpe_ulBaseAddr :: u32
  fpe_ulPartitionSize :: u32
  fpe_pucPdiMd5 :: "u8 list"
  fpe_ulPdiSize :: u32
  fpe_ulPartitionFlags :: u32

text \<open>The entry has no padding: its 36 bytes, the checksum being 16 of them.\<close>

definition fpt_entry_bytes :: "ASDMFptEntry \<Rightarrow> u8 list" where
  "fpt_entry_bytes e = le_bytes32 (fpe_ulType e) @ le_bytes32 (fpe_ulBaseAddr e) @
     le_bytes32 (fpe_ulPartitionSize e) @ fpe_pucPdiMd5 e @ le_bytes32 (fpe_ulPdiSize e) @
     le_bytes32 (fpe_ulPartitionFlags e)"

record ASDMFptRecord =
  xFptHdrPrimary :: ASDMFptHeader
  pxFptEntryPrimary :: "ASDMFptEntry list option"
  xFptHdrSecondary :: ASDMFptHeader
  pxFptEntrySecondary :: "ASDMFptEntry list option"

abbreviation (input) sizeof_ASDMFptRecord :: u16 where "sizeof_ASDMFptRecord \<equiv> 16"
abbreviation (input) sizeof_ASDMFptEntry :: u16 where "sizeof_ASDMFptEntry \<equiv> 36"
abbreviation (input) sizeof_ASDMBoardInfoRecord :: u16 where "sizeof_ASDMBoardInfoRecord \<equiv> 612"

definition zero_fpt_header :: ASDMFptHeader where
  "zero_fpt_header = \<lparr>fpt_ucFptVersion = 0, fpt_ucFptHeaderSize = 0, fpt_ucFptEntrySize = 0, fpt_ucNumEntries = 0\<rparr>"

definition zero_fpt_record :: ASDMFptRecord where
  "zero_fpt_record = \<lparr>xFptHdrPrimary = zero_fpt_header, pxFptEntryPrimary = None,
     xFptHdrSecondary = zero_fpt_header, pxFptEntrySecondary = None\<rparr>"

text \<open>The members of \<open>ASDMBoardInfoRecord\<close>, all of the type of a record field.\<close>

datatype board_field =
    xEepromVersion | xProductName | xBoardRev | xBoardSerial | xMacAddressCount | xFirstMacAddress
  | xActiveState | xConfigMode | xManufacturingDate | xPartNumber | xUuid | xPcieId | xMaxPowerMode
  | xMemorySize | xOemId | xCapability | xMfgPartNumber

type_synonym ASDMBoardInfoRecord = "board_field \<Rightarrow> ASDMRecordField"

definition board_fields :: "board_field list" where
  "board_fields = [xEepromVersion, xProductName, xBoardRev, xBoardSerial, xMacAddressCount, xFirstMacAddress,
     xActiveState, xConfigMode, xManufacturingDate, xPartNumber, xUuid, xPcieId, xMaxPowerMode,
     xMemorySize, xOemId, xCapability, xMfgPartNumber]"

record ASDMSdrRecord =
  sdr_ucId :: u8
  xSensorName :: ASDMRecordField
  sdr_xSensorValue :: ASDMRecordField
  xSensorBaseUnit :: ASDMRecordField
  cUnitModifier :: u8
  ucThresholdSupportedBitMask :: u8
  sdr_ulLowerFatalLimit :: u32
  sdr_ulLowerCritLimit :: u32
  sdr_ulLowerWarnLimit :: u32
  sdr_ulUpperWarnLimit :: u32
  sdr_ulUpperCritLimit :: u32
  sdr_ulUpperFatalLimit :: u32
  sdr_ucSensorStatus :: u8
  ulMaxValue :: u32
  ulAverageValue :: u32

definition zero_sdr :: ASDMSdrRecord where
  "zero_sdr = \<lparr>sdr_ucId = 0, xSensorName = zero_field, sdr_xSensorValue = zero_field,
     xSensorBaseUnit = zero_field, cUnitModifier = 0, ucThresholdSupportedBitMask = 0,
     sdr_ulLowerFatalLimit = 0, sdr_ulLowerCritLimit = 0, sdr_ulLowerWarnLimit = 0,
     sdr_ulUpperWarnLimit = 0, sdr_ulUpperCritLimit = 0, sdr_ulUpperFatalLimit = 0,
     sdr_ucSensorStatus = 0, ulMaxValue = 0, ulAverageValue = 0\<rparr>"

record ASDMSdsRecord =
  sds_ucId :: u8
  sds_xSensorValue :: ASDMRecordField
  sds_ucSensorStatus :: u8
  ucSensorTag :: u8
  ucRsvd :: u8

text \<open>
  The payload of a repository.  The union is zeroed at first; a zeroed union reads as a null
  pointer or as a zero partition table.  The board information of the last repository is
  the one the private data points to.
\<close>

datatype sdr_payload =
    Zeroed | SensorRecords "ASDMSdrRecord list option" | FptRecord ASDMFptRecord | BoardInfo

record ASDMSdr =
  sdr_xHdr :: ASDMSensorHeader
  sdr_payload :: sdr_payload
  sdr_pucAsdmEor :: "u8 list"

record ASDMSds =
  sds_xHdr :: ASDMSensorHeader
  sds_pxSensorRecord :: "ASDMSdsRecord list option"
  sds_pucAsdmEor :: "u8 list"

record ASDMSensorList =
  ucNumFound :: u8
  pucSensorIndex :: "u8 list option"
  pucSensorId :: "u8 list option"

section \<open>The partition table of the image proxy\<close>

abbreviation (input) APC_BOOT_DEVICE_PRIMARY :: nat where "APC_BOOT_DEVICE_PRIMARY \<equiv> 0"
abbreviation (input) APC_BOOT_DEVICE_SECONDARY :: nat where "APC_BOOT_DEVICE_SECONDARY \<equiv> 1"
abbreviation (input) MAX_APC_BOOT_DEVICES :: nat where "MAX_APC_BOOT_DEVICES \<equiv> 2"
abbreviation (input) USER_PDI_POWERUP_PARTITION :: nat where "USER_PDI_POWERUP_PARTITION \<equiv> 2"
abbreviation (input) APC_FPT_TYPE_PDI_BOOT :: u32 where "APC_FPT_TYPE_PDI_BOOT \<equiv> 0x0E00"
abbreviation (input) APC_PROXY_DRIVER_E_DOWNLOAD_COMPLETE :: u8 where "APC_PROXY_DRIVER_E_DOWNLOAD_COMPLETE \<equiv> 1"
abbreviation (input) APC_PROXY_DRIVER_E_FPT_UPDATE :: u8 where "APC_PROXY_DRIVER_E_FPT_UPDATE \<equiv> 4"
abbreviation (input) APC_PROXY_DRIVER_E_COPY_COMPLETE :: u8 where "APC_PROXY_DRIVER_E_COPY_COMPLETE \<equiv> 6"
abbreviation (input) APC_PROXY_DRIVER_E_FPT_FLAGS_UPDATED :: u8 where "APC_PROXY_DRIVER_E_FPT_FLAGS_UPDATED \<equiv> 11"

record APCProxyDriverFptHeader =
  ulMagicNum :: u32
  ucFptVersion :: u8
  ucFptHeaderSize :: u8
  ucEntrySize :: u8
  ucNumEntries :: u8

record APCProxyDriverFptPartition =
  ulPartitionType :: u32
  ulPartitionBaseAddr :: u32
  ulPartitionSize :: u32
  pdi_md5 :: "u8 list"
  ulPdiSize :: u32
  ulPartitionFlags :: u32

definition zero_apc_header :: APCProxyDriverFptHeader where
  "zero_apc_header = \<lparr>ulMagicNum = 0, ucFptVersion = 0, ucFptHeaderSize = 0, ucEntrySize = 0, ucNumEntries = 0\<rparr>"

section \<open>The private data and the environment\<close>

record ASDMPrivateData =
  asdm_ulUpperFirewall :: u32
  iSensorListInitialised :: bool
  asdm_iInitialised :: bool
  pxAscData :: "ASCProxyDriverSensorData list option"
  ucAscNumSensors :: u8
  pxSensorList :: "nat \<Rightarrow> ASDMSensorList"
  pxAsdmSdrInfo :: "ASDMSdr list option"
  pxAsdmSdsInfo :: "ASDMSds list option"
  asdm_pvOsalMutexHdl :: "nat option"
  ulPowerCalcIterations :: u32
  ulAveragePower :: u32
  ulMaxPower :: u32
  pxFptHeader :: "nat \<Rightarrow> APCProxyDriverFptHeader"
  ppxFptPartitions :: "nat \<Rightarrow> APCProxyDriverFptPartition list option"
  pxBoardInfo :: "ASDMBoardInfoRecord option"
  asdm_pulStatCounters :: "ASDM_STATS \<Rightarrow> u32"
  asdm_pulErrorCounters :: "ASDM_ERRORS \<Rightarrow> u32"
  asdm_ulLowerFirewall :: u32

record 'w asdm_st =
  asdm :: ASDMPrivateData
  asdm_outside :: 'w

text \<open>
  What fresh memory holds is part of the environment, as is what lies behind the readings of
  the total power sensor, which the code reads (see \<open>sds_reading\<close>).  An EEPROM getter
  receives the field buffer and answers the buffer and a length.
\<close>

record 'w asdm_env =
  asdm_mutex_create :: "'w \<Rightarrow> nat option \<times> 'w"
  asdm_mutex_take :: "nat option \<Rightarrow> 'w \<Rightarrow> bool \<times> 'w"
  asdm_mutex_release :: "nat option \<Rightarrow> 'w \<Rightarrow> bool \<times> 'w"
  asdm_mem_alloc :: "'w \<Rightarrow> bool \<times> 'w"
  asc_get_all :: "ASCProxyDriverSensorData list option \<Rightarrow> u8 \<Rightarrow> 'w \<Rightarrow>
    (evl_status \<times> (ASCProxyDriverSensorData list \<times> u8) option \<times> 'w) option"
  asc_get_single :: "u8 \<Rightarrow> 'w \<Rightarrow> (evl_status \<times> ASCProxyDriverSensorData option \<times> 'w) option"
  asc_bind :: "'w \<Rightarrow> evl_status \<times> 'w"
  asdm_sensor_enabled :: "nat \<Rightarrow> 'w \<Rightarrow> bool \<times> 'w"
  apc_get_header :: "nat \<Rightarrow> 'w \<Rightarrow> evl_status \<times> APCProxyDriverFptHeader \<times> 'w"
  apc_get_partition :: "nat \<Rightarrow> nat \<Rightarrow> 'w \<Rightarrow> evl_status \<times> APCProxyDriverFptPartition \<times> 'w"
  apc_bind :: "'w \<Rightarrow> evl_status \<times> 'w"
  user_pdi_load_status :: "'w \<Rightarrow> u32"
  boot_register :: "'w \<Rightarrow> u32 \<times> 'w"
  eeprom_get :: "board_field \<Rightarrow> u8 list \<Rightarrow> 'w \<Rightarrow> evl_status \<times> u8 list \<times> u8 \<times> 'w"
  power_sensors_enabled :: bool
  fresh_sensor :: ASCProxyDriverSensorData
  fresh_sds :: ASDMSdsRecord
  fresh_byte :: u8
  behind_readings :: ASCProxyDriverSensorReadings

definition initial_asdm :: ASDMPrivateData where
  "initial_asdm = \<lparr>asdm_ulUpperFirewall = MODULE_UPPER_FIREWALL, iSensorListInitialised = False,
     asdm_iInitialised = False, pxAscData = None, ucAscNumSensors = 0,
     pxSensorList = (\<lambda>_. \<lparr>ucNumFound = 0, pucSensorIndex = None, pucSensorId = None\<rparr>),
     pxAsdmSdrInfo = None, pxAsdmSdsInfo = None, asdm_pvOsalMutexHdl = None, ulPowerCalcIterations = 0,
     ulAveragePower = 0, ulMaxPower = 0, pxFptHeader = (\<lambda>_. zero_apc_header), ppxFptPartitions = (\<lambda>_. None),
     pxBoardInfo = None, asdm_pulStatCounters = (\<lambda>_. 0), asdm_pulErrorCounters = (\<lambda>_. 0),
     asdm_ulLowerFirewall = MODULE_LOWER_FIREWALL\<rparr>"

text \<open>The types and versions of the repositories (\<open>xAsdmHeaderInfo\<close>).\<close>

definition xAsdmHeaderInfo :: "ASDMSensorHeader list" where
  "xAsdmHeaderInfo = map (\<lambda>t. zero_header\<lparr>ucRepoType := t, ucRepoVersionNum := ASDM_HEADER_VER\<rparr>)
     [ASDM_REPOSITORY_TYPE_TEMP, ASDM_REPOSITORY_TYPE_VOLTAGE, ASDM_REPOSITORY_TYPE_CURRENT,
      ASDM_REPOSITORY_TYPE_POWER, ASDM_REPOSITORY_TYPE_TOTAL_POWER, ASDM_REPOSITORY_TYPE_FPT,
      ASDM_REPOSITORY_TYPE_BOARD_INFO]"

text \<open>The names of the base units: \<open>None\<close> where the table has no entry.\<close>

definition pcConvertRepoBaseUnitStr :: "u8 \<Rightarrow> u8 list option" where
  "pcConvertRepoBaseUnitStr t =
     (if t = ASDM_REPOSITORY_TYPE_TEMP then Some [0x43, 0x65, 0x6C, 0x73, 0x69, 0x75, 0x73, 0]
      else if t = ASDM_REPOSITORY_TYPE_VOLTAGE then Some [0x56, 0x6F, 0x6C, 0x74, 0x73, 0]
      else if t = ASDM_REPOSITORY_TYPE_CURRENT then Some [0x41, 0x6D, 0x70, 0x73, 0]
      else if t = ASDM_REPOSITORY_TYPE_POWER \<or> t = ASDM_REPOSITORY_TYPE_TOTAL_POWER
        then Some [0x57, 0x61, 0x74, 0x74, 0x73, 0]
      else None)"

text \<open>The sensor of the total power; its \<open>pxSensorEnabled\<close> is \<open>iSensorIsEnabled\<close>, a constant of the profile.\<close>

definition total_power_reading :: "ASC_PROXY_DRIVER_SENSOR_UNIT_MOD \<Rightarrow> ASCProxyDriverSensorReadings" where
  "total_power_reading m = \<lparr>ulSensorValue = 0, ulLowerWarningLimit = ASC_SENSOR_INVALID_VAL,
     ulLowerCriticalLimit = ASC_SENSOR_INVALID_VAL, ulLowerFatalLimit = ASC_SENSOR_INVALID_VAL,
     ulUpperWarningLimit = ASC_SENSOR_INVALID_VAL, ulUpperCriticalLimit = ASC_SENSOR_INVALID_VAL,
     ulUpperFatalLimit = ASC_SENSOR_INVALID_VAL, ulAverageSensorValue = 0, ulMaxSensorValue = 0,
     xSensorStatus = ASC_PROXY_DRIVER_SENSOR_STATUS_NOT_PRESENT,
     xSensorOperationalStatus = ASC_PROXY_DRIVER_SENSOR_OPERATIONAL_STATUS_ENABLED,
     xSensorUnitModifier = m\<rparr>"

definition xTotalPowerData :: ASCProxyDriverSensorData where
  "xTotalPowerData = \<lparr>pcSensorName = [0x54, 0x6F, 0x74, 0x61, 0x6C, 0x5F, 0x50, 0x6F, 0x77, 0x65, 0x72] @ replicate 9 0,
     ucSensorId = 1, ucSensorType = ASC_PROXY_DRIVER_SENSOR_BITFIELD_POWER, ucTotalPowerSensor = 0,
     ucSensorAddress = 0, ucChannelNumber = (\<lambda>_. 0xFF), pxSensorEnabled = 0, ppxReadSensorFunc = (\<lambda>_. None),
     pxReadings = (\<lambda>j. total_power_reading (if j = 3 then ASC_PROXY_DRIVER_SENSOR_UNIT_MOD_MILLI
                                              else ASC_PROXY_DRIVER_SENSOR_UNIT_MOD_NONE)),
     ulThresholdStatus = ASC_PROXY_DRIVER_SENSOR_THRESHOLD_STATUS_HEALTHY\<rparr>"

section \<open>Elementary steps\<close>

definition upd_asdm :: "(ASDMPrivateData \<Rightarrow> ASDMPrivateData) \<Rightarrow> 'w asdm_st \<Rightarrow> 'w asdm_st" where
  "upd_asdm f s = s\<lparr>asdm := f (asdm s)\<rparr>"

definition ASDM_INC_STAT_COUNTER :: "ASDM_STATS \<Rightarrow> 'w asdm_st \<Rightarrow> 'w asdm_st" where
  "ASDM_INC_STAT_COUNTER x =
     upd_asdm (\<lambda>d. d\<lparr>asdm_pulStatCounters := (asdm_pulStatCounters d)(x := asdm_pulStatCounters d x + 1)\<rparr>)"

definition ASDM_INC_ERROR_COUNTER :: "ASDM_ERRORS \<Rightarrow> 'w asdm_st \<Rightarrow> 'w asdm_st" where
  "ASDM_INC_ERROR_COUNTER x =
     upd_asdm (\<lambda>d. d\<lparr>asdm_pulErrorCounters := (asdm_pulErrorCounters d)(x := asdm_pulErrorCounters d x + 1)\<rparr>)"

definition asdm_firewalls_ok :: "'w asdm_st \<Rightarrow> bool" where
  "asdm_firewalls_ok s \<longleftrightarrow> MODULE_UPPER_FIREWALL = asdm_ulUpperFirewall (asdm s) \<and>
     MODULE_LOWER_FIREWALL = asdm_ulLowerFirewall (asdm s)"

text \<open>A service of the environment, run on the world of the state.\<close>

definition asdm_call :: "('w \<Rightarrow> 'a \<times> 'w) \<Rightarrow> 'w asdm_st \<Rightarrow> 'a \<times> 'w asdm_st" where
  "asdm_call f s = (let (x, w) = f (asdm_outside s) in (x, s\<lparr>asdm_outside := w\<rparr>))"

definition asdm_take :: "'w asdm_env \<Rightarrow> 'w asdm_st \<Rightarrow> bool \<times> 'w asdm_st" where
  "asdm_take E s = asdm_call (asdm_mutex_take E (asdm_pvOsalMutexHdl (asdm s))) s"

definition asdm_release :: "'w asdm_env \<Rightarrow> evl_status \<Rightarrow> 'w asdm_st \<Rightarrow> evl_status \<times> 'w asdm_st" where
  "asdm_release E st s =
     (let (rel, s) = asdm_call (asdm_mutex_release E (asdm_pvOsalMutexHdl (asdm s))) s in
      if rel then (st, ASDM_INC_STAT_COUNTER ASDM_STATS_RELEASE_MUTEX s)
      else (ERROR, ASDM_INC_ERROR_COUNTER ASDM_ERRORS_MUTEX_RELEASE_FAILED s))"

text \<open>A repository of the SDR or SDS array, and its replacement.\<close>

definition sdr_at :: "nat \<Rightarrow> 'w asdm_st \<Rightarrow> ASDMSdr option" where
  "sdr_at r s = elem (pxAsdmSdrInfo (asdm s)) r"

definition sds_at :: "nat \<Rightarrow> 'w asdm_st \<Rightarrow> ASDMSds option" where
  "sds_at r s = elem (pxAsdmSdsInfo (asdm s)) r"

definition upd_sdr :: "nat \<Rightarrow> (ASDMSdr \<Rightarrow> ASDMSdr) \<Rightarrow> 'w asdm_st \<Rightarrow> 'w asdm_st option" where
  "upd_sdr r f s = do {
     x \<leftarrow> sdr_at r s;
     xs \<leftarrow> set_elem (pxAsdmSdrInfo (asdm s)) r (f x);
     Some (upd_asdm (\<lambda>d. d\<lparr>pxAsdmSdrInfo := Some xs\<rparr>) s) }"

definition upd_sds :: "nat \<Rightarrow> (ASDMSds \<Rightarrow> ASDMSds) \<Rightarrow> 'w asdm_st \<Rightarrow> 'w asdm_st option" where
  "upd_sds r f s = do {
     x \<leftarrow> sds_at r s;
     xs \<leftarrow> set_elem (pxAsdmSdsInfo (asdm s)) r (f x);
     Some (upd_asdm (\<lambda>d. d\<lparr>pxAsdmSdsInfo := Some xs\<rparr>) s) }"

text \<open>The members of the payload.\<close>

definition sensor_records :: "ASDMSdr \<Rightarrow> ASDMSdrRecord list option option" where
  "sensor_records x = (case sdr_payload x of Zeroed \<Rightarrow> Some None | SensorRecords p \<Rightarrow> Some p | _ \<Rightarrow> None)"

definition fpt_record :: "ASDMSdr \<Rightarrow> ASDMFptRecord option" where
  "fpt_record x = (case sdr_payload x of Zeroed \<Rightarrow> Some zero_fpt_record | FptRecord f \<Rightarrow> Some f | _ \<Rightarrow> None)"

text \<open>Record \<open>i\<close> of repository \<open>r\<close>, and its replacement.\<close>

definition get_sdr_record :: "nat \<Rightarrow> nat \<Rightarrow> 'w asdm_st \<Rightarrow> ASDMSdrRecord option" where
  "get_sdr_record r i s = do { x \<leftarrow> sdr_at r s; p \<leftarrow> sensor_records x; elem p i }"

definition set_sdr_record :: "nat \<Rightarrow> nat \<Rightarrow> ASDMSdrRecord \<Rightarrow> 'w asdm_st \<Rightarrow> 'w asdm_st option" where
  "set_sdr_record r i v s = do {
     x \<leftarrow> sdr_at r s;
     p \<leftarrow> sensor_records x;
     xs \<leftarrow> set_elem p i v;
     upd_sdr r (sdr_payload_update (\<lambda>_. SensorRecords (Some xs))) s }"

definition get_sds_record :: "nat \<Rightarrow> nat \<Rightarrow> 'w asdm_st \<Rightarrow> ASDMSdsRecord option" where
  "get_sds_record r i s = do { x \<leftarrow> sds_at r s; elem (sds_pxSensorRecord x) i }"

definition set_sds_record :: "nat \<Rightarrow> nat \<Rightarrow> ASDMSdsRecord \<Rightarrow> 'w asdm_st \<Rightarrow> 'w asdm_st option" where
  "set_sds_record r i v s = do {
     x \<leftarrow> sds_at r s;
     xs \<leftarrow> set_elem (sds_pxSensorRecord x) i v;
     upd_sds r (\<lambda>x. x\<lparr>sds_pxSensorRecord := Some xs\<rparr>) s }"

end
