(* ===== verification/ASDM_Build.thy ===== *)
theory ASDM_Build
  imports ASDM_State
begin

text \<open>
  Building the repositories (\<open>asdm.c\<close>): the lists of sensors of each type, the records made
  from the sensor table, the partition table, the board information, and the initialisation
  that puts them together.
\<close>

section \<open>Mappings\<close>

text \<open>The mappings answer \<open>None\<close> with status \<open>ERROR\<close>, and a value with \<open>OK\<close>.\<close>

definition unit_modifier :: "ASC_PROXY_DRIVER_SENSOR_UNIT_MOD \<Rightarrow> u8 option" where
  "unit_modifier m = (case m of
      ASC_PROXY_DRIVER_SENSOR_UNIT_MOD_MEGA \<Rightarrow> Some ASDM_SDR_UNIT_MODIFIER_MEGA
    | ASC_PROXY_DRIVER_SENSOR_UNIT_MOD_KILO \<Rightarrow> Some ASDM_SDR_UNIT_MODIFIER_KILO
    | ASC_PROXY_DRIVER_SENSOR_UNIT_MOD_NONE \<Rightarrow> Some ASDM_SDR_UNIT_MODIFIER_NONE
    | ASC_PROXY_DRIVER_SENSOR_UNIT_MOD_MILLI \<Rightarrow> Some ASDM_SDR_UNIT_MODIFIER_MILLI
    | ASC_PROXY_DRIVER_SENSOR_UNIT_MOD_MICRO \<Rightarrow> Some ASDM_SDR_UNIT_MODIFIER_MICRO
    | MAX_ASC_PROXY_DRIVER_SENSOR_UNIT_MOD \<Rightarrow> None)"

definition iMapUnitModifier :: "ASC_PROXY_DRIVER_SENSOR_UNIT_MOD \<Rightarrow> 'w asdm_st \<Rightarrow> u8 option \<times> 'w asdm_st" where
  "iMapUnitModifier m s =
     (if asdm_firewalls_ok s then
        (case unit_modifier m of
           Some v \<Rightarrow> (Some v, s)
         | None \<Rightarrow> (None, ASDM_INC_ERROR_COUNTER ASDM_ERRORS_ASDM_UNIT_MODIFIER_MAPPING s))
      else (None, s))"

definition repo_index :: "u8 \<Rightarrow> nat option" where
  "repo_index t =
     (if t = ASDM_REPOSITORY_TYPE_TEMP then Some AMC_ASDM_SUPPORTED_REPO_TEMP
      else if t = ASDM_REPOSITORY_TYPE_VOLTAGE then Some AMC_ASDM_SUPPORTED_REPO_VOLTAGE
      else if t = ASDM_REPOSITORY_TYPE_CURRENT then Some AMC_ASDM_SUPPORTED_REPO_CURRENT
      else if t = ASDM_REPOSITORY_TYPE_POWER then Some AMC_ASDM_SUPPORTED_REPO_POWER
      else if t = ASDM_REPOSITORY_TYPE_TOTAL_POWER then Some AMC_ASDM_SUPPORTED_REPO_TOTAL_POWER
      else if t = ASDM_REPOSITORY_TYPE_BOARD_INFO then Some AMC_ASDM_SUPPORTED_REPO_BOARD_INFO
      else if t = ASDM_REPOSITORY_TYPE_FPT then Some AMC_ASDM_SUPPORTED_REPO_FPT
      else None)"

definition iMapAsdmRepo :: "u8 \<Rightarrow> 'w asdm_st \<Rightarrow> nat option \<times> 'w asdm_st" where
  "iMapAsdmRepo t s =
     (if asdm_firewalls_ok s then
        (case repo_index t of
           Some r \<Rightarrow> (Some r, s)
         | None \<Rightarrow> (None, ASDM_INC_ERROR_COUNTER ASDM_ERRORS_ASDM_REPO_MAPPING s))
      else (None, s))"

definition sensor_tag :: "nat \<Rightarrow> u8 option" where
  "sensor_tag r =
     (if r = AMC_ASDM_SUPPORTED_REPO_TEMP then Some ASDM_SDS_SENSOR_TAG_BOARD_TEMP
      else if r = AMC_ASDM_SUPPORTED_REPO_VOLTAGE then Some ASDM_SDS_SENSOR_TAG_VOLTAGE
      else if r = AMC_ASDM_SUPPORTED_REPO_CURRENT then Some ASDM_SDS_SENSOR_TAG_CURRENT
      else if r = AMC_ASDM_SUPPORTED_REPO_POWER \<or> r = AMC_ASDM_SUPPORTED_REPO_TOTAL_POWER
        then Some ASDM_SDS_SENSOR_TAG_POWER
      else None)"

definition iMapSensorTag :: "nat \<Rightarrow> 'w asdm_st \<Rightarrow> u8 option \<times> 'w asdm_st" where
  "iMapSensorTag r s =
     (if asdm_firewalls_ok s then
        (case sensor_tag r of
           Some t \<Rightarrow> (Some t, s)
         | None \<Rightarrow> (None, ASDM_INC_ERROR_COUNTER ASDM_ERRORS_SENSOR_TAG_MAPPING s))
      else (None, s))"

section \<open>Lists of sensors\<close>

definition sensor_bit :: "nat \<Rightarrow> u8 option" where
  "sensor_bit r =
     (if r = AMC_ASDM_SUPPORTED_REPO_TEMP then Some ASC_PROXY_DRIVER_SENSOR_BITFIELD_TEMPERATURE
      else if r = AMC_ASDM_SUPPORTED_REPO_VOLTAGE then Some ASC_PROXY_DRIVER_SENSOR_BITFIELD_VOLTAGE
      else if r = AMC_ASDM_SUPPORTED_REPO_CURRENT then Some ASC_PROXY_DRIVER_SENSOR_BITFIELD_CURRENT
      else if r = AMC_ASDM_SUPPORTED_REPO_POWER \<or> r = AMC_ASDM_SUPPORTED_REPO_TOTAL_POWER
        then Some ASC_PROXY_DRIVER_SENSOR_BITFIELD_POWER
      else if r = AMC_ASDM_SUPPORTED_REPO_FPT \<or> r = AMC_ASDM_SUPPORTED_REPO_BOARD_INFO then Some 0
      else None)"

definition set_sensor_list :: "nat \<Rightarrow> ASDMSensorList \<Rightarrow> 'w asdm_st \<Rightarrow> 'w asdm_st option" where
  "set_sensor_list r l s = do {
     ls \<leftarrow> arr_set AMC_ASDM_SUPPORTED_REPO_MAX (pxSensorList (asdm s)) r l;
     Some (upd_asdm (\<lambda>d. d\<lparr>pxSensorList := ls\<rparr>) s) }"

definition get_sensor_list :: "nat \<Rightarrow> 'w asdm_st \<Rightarrow> ASDMSensorList option" where
  "get_sensor_list r s = arr_get AMC_ASDM_SUPPORTED_REPO_MAX (pxSensorList (asdm s)) r"

definition add_sensor :: "nat \<Rightarrow> u8 \<Rightarrow> u8 \<Rightarrow> 'w asdm_st \<Rightarrow> 'w asdm_st option" where
  "add_sensor r i ident s = do {
     l \<leftarrow> get_sensor_list r s;
     ixs \<leftarrow> set_elem (pucSensorIndex l) (unat (ucNumFound l)) i;
     ids \<leftarrow> set_elem (pucSensorId l) (unat (ucNumFound l)) ident;
     set_sensor_list r (l\<lparr>pucSensorIndex := Some ixs, pucSensorId := Some ids, ucNumFound := ucNumFound l + 1\<rparr>) s }"

definition list_sensor :: "'w asdm_env \<Rightarrow> nat \<Rightarrow> u8 \<Rightarrow> nat \<Rightarrow> 'w asdm_st \<Rightarrow> 'w asdm_st option" where
  "list_sensor E r ucBit i s = do {
     x \<leftarrow> elem (pxAscData (asdm s)) i;
     if ucSensorType x AND ucBit \<noteq> 0 then do {
       let (on, s) = asdm_call (asdm_sensor_enabled E (pxSensorEnabled x)) s;
       if on then add_sensor r (of_nat i) (ucSensorId x) s else Some s }
     else Some s }"

definition iPopulateRepoSensorList :: "'w asdm_env \<Rightarrow> u8 \<Rightarrow> nat \<Rightarrow> 'w asdm_st \<Rightarrow> (evl_status \<times> 'w asdm_st) option" where
  "iPopulateRepoSensorList E ucNumSensors r s =
     (if asdm_firewalls_ok s \<and> iSensorListInitialised (asdm s) \<and> pxAscData (asdm s) \<noteq> None then
        (case sensor_bit r of
           None \<Rightarrow> Some (ERROR, ASDM_INC_ERROR_COUNTER ASDM_ERRORS_ASC_BITFIELD_MAPPING s)
         | Some ucBit \<Rightarrow> do {
             s \<leftarrow> for_each (list_sensor E r ucBit) [0..<unat ucNumSensors] s;
             Some (OK, s) })
      else Some (ERROR, s))"

section \<open>One record\<close>

text \<open>A limit that is not invalid is stored, its bit is set, and one byte is counted for it.\<close>

definition add_limit ::
  "u32 \<Rightarrow> u8 \<Rightarrow> (u32 \<Rightarrow> ASDMSdrRecord \<Rightarrow> ASDMSdrRecord) \<Rightarrow> ASDMSdrRecord \<times> u16 \<Rightarrow> ASDMSdrRecord \<times> u16" where
  "add_limit v m put = (\<lambda>(rec, n).
     if ASC_SENSOR_INVALID_VAL \<noteq> v
     then ((put v rec)\<lparr>ucThresholdSupportedBitMask := ucThresholdSupportedBitMask rec OR m\<rparr>, n + 1)
     else (rec, n))"

definition sdr_limits :: "ASCProxyDriverSensorReadings \<Rightarrow> ASDMSdrRecord \<Rightarrow> ASDMSdrRecord \<times> u16" where
  "sdr_limits r rec =
     (let x = (rec, 0);
          x = add_limit (ulLowerFatalLimit r) ASDM_SDR_THRESHOLD_LOWER_FATAL_MASK
                (\<lambda>v. sdr_ulLowerFatalLimit_update (\<lambda>_. v)) x;
          x = add_limit (ulLowerCriticalLimit r) ASDM_SDR_THRESHOLD_LOWER_CRITICAL_MASK
                (\<lambda>v. sdr_ulLowerCritLimit_update (\<lambda>_. v)) x;
          x = add_limit (ulLowerWarningLimit r) ASDM_SDR_THRESHOLD_LOWER_WARNING_MASK
                (\<lambda>v. sdr_ulLowerWarnLimit_update (\<lambda>_. v)) x;
          x = add_limit (ulUpperFatalLimit r) ASDM_SDR_THRESHOLD_UPPER_FATAL_MASK
                (\<lambda>v. sdr_ulUpperFatalLimit_update (\<lambda>_. v)) x;
          x = add_limit (ulUpperCriticalLimit r) ASDM_SDR_THRESHOLD_UPPER_CRITICAL_MASK
                (\<lambda>v. sdr_ulUpperCritLimit_update (\<lambda>_. v)) x
      in add_limit (ulUpperWarningLimit r) ASDM_SDR_THRESHOLD_UPPER_WARNING_MASK
           (\<lambda>v. sdr_ulUpperWarnLimit_update (\<lambda>_. v)) x)"

text \<open>The record, the count if it is written, and the status.\<close>

definition iPopulateSdrThresholds ::
  "ASCProxyDriverSensorData \<Rightarrow> ASDMSdrRecord \<Rightarrow> nat \<Rightarrow> 'w asdm_st \<Rightarrow> (evl_status \<times> ASDMSdrRecord \<times> u16 option) option" where
  "iPopulateSdrThresholds pxData rec r s =
     (if asdm_firewalls_ok s then do {
        x \<leftarrow> arr_get MAX_ASC_PROXY_DRIVER_SENSOR_TYPE (pxReadings pxData) r;
        let (rec, n) = sdr_limits x rec;
        Some (OK, rec, Some n) }
      else Some (ERROR, rec, None))"

fun c_strlen :: "u8 list \<Rightarrow> nat option" where
  "c_strlen [] = None"
| "c_strlen (x # xs) = (if x = 0 then Some 0 else map_option Suc (c_strlen xs))"

text \<open>
  A string of \<open>n\<close> bytes, the terminator included, copied into a field and terminated again
  behind it.
\<close>

definition string_field :: "u8 list \<Rightarrow> nat \<Rightarrow> ASDMRecordField \<Rightarrow> ASDMRecordField option" where
  "string_field str n f = do {
     b \<leftarrow> put_bytes 0 (take n str) (fld_bytes f);
     b \<leftarrow> put8 n 0 b;
     Some (f\<lparr>fld_ucType := ASDM_RECORD_FIELD_TYPE_CODE_8_BIT_ASCII,
             fld_ucLength := of_nat n AND ASDM_RECORD_FIELD_LENGTH_MASK, fld_bytes := b\<rparr>) }"

definition value_field :: "u32 \<Rightarrow> ASDMRecordField \<Rightarrow> ASDMRecordField option" where
  "value_field v f = set_fld_ulValue v (f\<lparr>fld_ucLength := AMC_ASDM_SENSOR_SIZE_4B AND ASDM_RECORD_FIELD_LENGTH_MASK\<rparr>)"

text \<open>
  The status and the two statistics; the bit of the average goes with the maximum and the bit
  of the maximum with the average.
\<close>

definition sdr_status :: "ASCProxyDriverSensorReadings \<Rightarrow> ASDMSdrRecord \<times> u16 \<Rightarrow> ASDMSdrRecord \<times> u16" where
  "sdr_status r = (\<lambda>(rec, n).
     (let x = (rec\<lparr>sdr_ucSensorStatus := ASDM_SDR_SENSOR_STATUS_PRESENT_VALID\<rparr>, n + 1);
          x = add_limit (ulMaxSensorValue r) ASDM_SDR_THRESHOLD_SENSOR_AVG_MASK (\<lambda>v. ulMaxValue_update (\<lambda>_. v)) x
      in add_limit (ulAverageSensorValue r) ASDM_SDR_THRESHOLD_SENSOR_MAX_MASK
           (\<lambda>v. ulAverageValue_update (\<lambda>_. v)) x))"

text \<open>
  The result: the status, the record as far as it was written, the byte count if it was
  written, the state.
\<close>

definition populate_units ::
  "u8 \<Rightarrow> ASCProxyDriverSensorReadings \<Rightarrow> ASDMSdrRecord \<Rightarrow> u16 \<Rightarrow> 'w asdm_st \<Rightarrow>
   (evl_status \<times> ASDMSdrRecord \<times> u16 \<times> 'w asdm_st) option" where
  "populate_units t r rec n s = do {
     str \<leftarrow> pcConvertRepoBaseUnitStr t;
     k \<leftarrow> c_strlen str;
     v \<leftarrow> value_field (ulSensorValue r) (sdr_xSensorValue rec);
     u \<leftarrow> string_field str (k + 1) (xSensorBaseUnit rec);
     let rec = rec\<lparr>sdr_xSensorValue := v, xSensorBaseUnit := u\<rparr>;
     let n = n + 4 + of_nat (k + 1);
     let (m, s) = iMapUnitModifier (xSensorUnitModifier r) s;
     case m of
       Some m \<Rightarrow> Some (OK, rec\<lparr>cUnitModifier := m\<rparr>, n + 1, s)
     | None \<Rightarrow> Some (ERROR, rec, n, s) }"

definition populate_limits ::
  "ASCProxyDriverSensorData \<Rightarrow> nat \<Rightarrow> ASDMSdrRecord \<Rightarrow> u16 \<Rightarrow> 'w asdm_st \<Rightarrow>
   (evl_status \<times> ASDMSdrRecord \<times> u16 option \<times> 'w asdm_st) option" where
  "populate_limits pxData r rec n s = do {
     x \<leftarrow> arr_get MAX_ASC_PROXY_DRIVER_SENSOR_TYPE (pxReadings pxData) r;
     (st, rec, m) \<leftarrow> iPopulateSdrThresholds pxData (rec\<lparr>ucThresholdSupportedBitMask := 0\<rparr>) r s;
     if st = OK then (let (rec, n) = sdr_status x (rec, n + 1 + 2) in Some (OK, rec, Some n, s))
     else Some (st, rec, None, s) }"

definition populate_sdr_record ::
  "u8 \<Rightarrow> u8 \<Rightarrow> nat \<Rightarrow> ASCProxyDriverSensorData \<Rightarrow> ASDMSdrRecord \<Rightarrow> 'w asdm_st \<Rightarrow>
   (evl_status \<times> ASDMSdrRecord \<times> u16 option \<times> 'w asdm_st) option" where
  "populate_sdr_record ucIndex t r pxData rec s = do {
     let rec = rec\<lparr>sdr_ucId := ucIndex + 1\<rparr>;
     k \<leftarrow> c_strlen (pcSensorName pxData);
     if ASDM_RECORD_FIELD_BYTES_MAX \<le> k + 1
     then Some (ERROR, rec, None, ASDM_INC_ERROR_COUNTER ASDM_ERRORS_ASDM_SENSOR_NAME_LENGTH s)
     else do {
       f \<leftarrow> string_field (pcSensorName pxData) (k + 1) (xSensorName rec);
       x \<leftarrow> arr_get MAX_ASC_PROXY_DRIVER_SENSOR_TYPE (pxReadings pxData) r;
       (st, rec, n, s) \<leftarrow> populate_units t x (rec\<lparr>xSensorName := f\<rparr>) (1 + of_nat (k + 1)) s;
       if st = OK then populate_limits pxData r rec n s else Some (st, rec, None, s) } }"

definition iPopulateSdr ::
  "u8 \<Rightarrow> u8 \<Rightarrow> ASCProxyDriverSensorData \<Rightarrow> ASDMSdrRecord \<Rightarrow> 'w asdm_st \<Rightarrow>
   (evl_status \<times> ASDMSdrRecord \<times> u16 option \<times> 'w asdm_st) option" where
  "iPopulateSdr ucIndex t pxData rec s =
     (if asdm_firewalls_ok s then
        (let (m, s) = (if t = ASDM_REPOSITORY_TYPE_TOTAL_POWER
                       then (Some AMC_ASDM_SUPPORTED_REPO_POWER, s) else iMapAsdmRepo t s) in
         case m of
           Some r \<Rightarrow> populate_sdr_record ucIndex t r pxData rec s
         | None \<Rightarrow> Some (ERROR, rec, None, s))
      else Some (ERROR, rec, None, s))"

text \<open>
  The readings of the SDS are indexed by the repository: for the bytes power that is one past
  the last, and the code reads what lies behind the array.
\<close>

definition sds_reading :: "'w asdm_env \<Rightarrow> ASCProxyDriverSensorData \<Rightarrow> nat \<Rightarrow> ASCProxyDriverSensorReadings option" where
  "sds_reading E pxData r =
     (if r < MAX_ASC_PROXY_DRIVER_SENSOR_TYPE then Some (pxReadings pxData r)
      else if r = MAX_ASC_PROXY_DRIVER_SENSOR_TYPE then Some (behind_readings E)
      else None)"

definition iPopulateSds ::
  "'w asdm_env \<Rightarrow> u8 \<Rightarrow> u8 \<Rightarrow> ASCProxyDriverSensorData \<Rightarrow> ASDMSdsRecord \<Rightarrow> 'w asdm_st \<Rightarrow>
   (evl_status \<times> ASDMSdsRecord \<times> u16 option \<times> 'w asdm_st) option" where
  "iPopulateSds E ucIndex t pxData rec s =
     (let (m, s) = iMapAsdmRepo t s in
      case m of
        Some r \<Rightarrow> do {
          x \<leftarrow> sds_reading E pxData r;
          v \<leftarrow> value_field (ulSensorValue x) (sds_xSensorValue rec);
          let rec = rec\<lparr>sds_ucId := ucIndex + 1, sds_xSensorValue := v,
                        sds_ucSensorStatus := sensor_status_code (xSensorStatus x)\<rparr>;
          let (tag, s) = iMapSensorTag r s;
          (case tag of
             Some g \<Rightarrow> Some (OK, rec\<lparr>ucSensorTag := g, ucRsvd := 0\<rparr>, Some 8, s)
           | None \<Rightarrow> Some (ERROR, rec\<lparr>ucSensorTag := 0, ucRsvd := 0\<rparr>, Some 8, s)) }
      | None \<Rightarrow> Some (ERROR, rec, None, s))"

section \<open>The partition table\<close>

text \<open>An allocation of no bytes answers a null pointer (\<open>osal.c\<close>).\<close>

definition asdm_malloc :: "'w asdm_env \<Rightarrow> nat \<Rightarrow> 'w asdm_st \<Rightarrow> bool \<times> 'w asdm_st" where
  "asdm_malloc E n s = (if n = 0 then (False, s) else asdm_call (asdm_mem_alloc E) s)"

definition set_partitions :: "nat \<Rightarrow> APCProxyDriverFptPartition list option \<Rightarrow> 'w asdm_st \<Rightarrow> 'w asdm_st" where
  "set_partitions i p = upd_asdm (\<lambda>d. d\<lparr>ppxFptPartitions := (ppxFptPartitions d)(i := p)\<rparr>)"

definition set_fpt_header :: "nat \<Rightarrow> APCProxyDriverFptHeader \<Rightarrow> 'w asdm_st \<Rightarrow> 'w asdm_st" where
  "set_fpt_header i h = upd_asdm (\<lambda>d. d\<lparr>pxFptHeader := (pxFptHeader d)(i := h)\<rparr>)"

text \<open>
  The partitions \<open>j, j + 1, \<dots>\<close> of a device, \<open>n\<close> of them: on an error the array is freed.
\<close>

fun fetch_partitions ::
  "'w asdm_env \<Rightarrow> nat \<Rightarrow> nat \<Rightarrow> nat \<Rightarrow> APCProxyDriverFptPartition list \<Rightarrow> 'w asdm_st \<Rightarrow> evl_status \<times> 'w asdm_st" where
  "fetch_partitions E i j 0 ps s = (OK, set_partitions i (Some ps) s)"
| "fetch_partitions E i j (Suc n) ps s =
     (let ((st, p), s) = asdm_call (\<lambda>w. let (st, p, w) = apc_get_partition E i j w in ((st, p), w)) s in
      if st = OK then fetch_partitions E i (j + 1) n (ps @ [p]) (ASDM_INC_STAT_COUNTER ASDM_STATS_GET_FPT_PARTITION s)
      else (ERROR, set_partitions i None (ASDM_INC_ERROR_COUNTER ASDM_ERRORS_APC_PARTITION_INFO s)))"

text \<open>One boot device: the status, whether the loop is left, and the state.\<close>

definition get_fpt_device :: "'w asdm_env \<Rightarrow> nat \<Rightarrow> 'w asdm_st \<Rightarrow> evl_status \<times> bool \<times> 'w asdm_st" where
  "get_fpt_device E i s =
     (let ((st, h), s) = asdm_call (\<lambda>w. let (st, h, w) = apc_get_header E i w in ((st, h), w)) s in
      if st = OK then
        (let s = ASDM_INC_STAT_COUNTER ASDM_STATS_GET_FPT_HEADER (set_fpt_header i h s);
             (got, s) = asdm_malloc E (unat (ucNumEntries h)) s in
         if got then
           (let (st, s) = fetch_partitions E i 0 (unat (ucNumEntries h)) []
                            (ASDM_INC_STAT_COUNTER ASDM_STATS_MALLOC s)
            in (st, False, s))
         else (OK, False, ASDM_INC_ERROR_COUNTER ASDM_ERRORS_MALLOC_FAILED s))
      else if i = APC_BOOT_DEVICE_PRIMARY
        then (ERROR, True, ASDM_INC_ERROR_COUNTER ASDM_ERRORS_APC_PARTITION_HEADER s)
      else (OK, False, set_fpt_header i zero_apc_header s))"

definition iGetFptData :: "'w asdm_env \<Rightarrow> 'w asdm_st \<Rightarrow> evl_status \<times> 'w asdm_st" where
  "iGetFptData E s =
     (if asdm_firewalls_ok s \<and> ppxFptPartitions (asdm s) APC_BOOT_DEVICE_PRIMARY = None \<and>
         ppxFptPartitions (asdm s) APC_BOOT_DEVICE_SECONDARY = None then
        (let (st, left, s) = get_fpt_device E APC_BOOT_DEVICE_PRIMARY s in
         if left then (st, s)
         else (let (st, left, s) = get_fpt_device E APC_BOOT_DEVICE_SECONDARY s in (st, s)))
      else (ERROR, s))"

definition fpt_header_of :: "APCProxyDriverFptHeader \<Rightarrow> ASDMFptHeader" where
  "fpt_header_of h = \<lparr>fpt_ucFptVersion = ucFptVersion h, fpt_ucFptHeaderSize = ucFptHeaderSize h,
     fpt_ucFptEntrySize = ucEntrySize h, fpt_ucNumEntries = ucNumEntries h\<rparr>"

definition fpt_entry_of :: "APCProxyDriverFptPartition \<Rightarrow> ASDMFptEntry" where
  "fpt_entry_of p = \<lparr>fpe_ulType = ulPartitionType p, fpe_ulBaseAddr = ulPartitionBaseAddr p,
     fpe_ulPartitionSize = ulPartitionSize p, fpe_pucPdiMd5 = pdi_md5 p, fpe_ulPdiSize = ulPdiSize p,
     fpe_ulPartitionFlags = ulPartitionFlags p\<rparr>"

text \<open>The boot partition the board was started from is marked by bit 16 of its flags.\<close>

definition mark_boot :: "u32 \<Rightarrow> APCProxyDriverFptPartition \<Rightarrow> APCProxyDriverFptPartition" where
  "mark_boot addr p =
     (if ulPartitionType p = APC_FPT_TYPE_PDI_BOOT then
        p\<lparr>ulPartitionFlags := (if addr = ulPartitionBaseAddr p then ulPartitionFlags p OR 0x10000
                             else ulPartitionFlags p AND NOT 0x10000)\<rparr>
      else p)"

definition upd_fpt :: "(ASDMFptRecord \<Rightarrow> ASDMFptRecord) \<Rightarrow> 'w asdm_st \<Rightarrow> 'w asdm_st option" where
  "upd_fpt f s = do {
     x \<leftarrow> sdr_at AMC_ASDM_SUPPORTED_REPO_FPT s;
     r \<leftarrow> fpt_record x;
     upd_sdr AMC_ASDM_SUPPORTED_REPO_FPT (sdr_payload_update (\<lambda>_. FptRecord (f r))) s }"

text \<open>The entries of the primary device; the partition loaded at power-up is indexed unchecked.\<close>

definition populate_primary ::
  "'w asdm_env \<Rightarrow> APCProxyDriverFptPartition list \<Rightarrow> 'w asdm_st \<Rightarrow> 'w asdm_st option" where
  "populate_primary E ps s = do {
     let s = ASDM_INC_STAT_COUNTER ASDM_STATS_MALLOC s;
     let n = unat (ucNumEntries (pxFptHeader (asdm s) APC_BOOT_DEVICE_PRIMARY));
     p \<leftarrow> elem (Some ps) USER_PDI_POWERUP_PARTITION;
     ps \<leftarrow> set_elem (Some ps) USER_PDI_POWERUP_PARTITION
            (p\<lparr>ulPartitionFlags := ulPartitionFlags p OR user_pdi_load_status E (asdm_outside s)\<rparr>);
     let (reg, s) = asdm_call (boot_register E) s;
     pre \<leftarrow> array_prefix n (Some ps);
     let pre = map (mark_boot (reg * (32 * 1024))) pre;
     let s = set_partitions APC_BOOT_DEVICE_PRIMARY (Some (pre @ drop n ps)) s;
     upd_fpt (\<lambda>f. f\<lparr>pxFptEntryPrimary := Some (map fpt_entry_of pre)\<rparr>) s }"

definition populate_secondary :: "APCProxyDriverFptPartition list \<Rightarrow> 'w asdm_st \<Rightarrow> 'w asdm_st option" where
  "populate_secondary ps s = do {
     let s = ASDM_INC_STAT_COUNTER ASDM_STATS_MALLOC s;
     pre \<leftarrow> array_prefix (unat (ucNumEntries (pxFptHeader (asdm s) APC_BOOT_DEVICE_SECONDARY))) (Some ps);
     upd_fpt (\<lambda>f. f\<lparr>pxFptEntrySecondary := Some (map fpt_entry_of pre)\<rparr>) s }"

text \<open>
  The status, the byte count if it is written, and the state.  A missing secondary device is
  not an error.
\<close>

definition iPopulateAsdmFpt :: "'w asdm_env \<Rightarrow> 'w asdm_st \<Rightarrow> (evl_status \<times> u16 option \<times> 'w asdm_st) option" where
  "iPopulateAsdmFpt E s =
     (if asdm_firewalls_ok s then do {
        let h0 = pxFptHeader (asdm s) APC_BOOT_DEVICE_PRIMARY;
        let h1 = pxFptHeader (asdm s) APC_BOOT_DEVICE_SECONDARY;
        s \<leftarrow> upd_fpt (\<lambda>f. f\<lparr>xFptHdrPrimary := fpt_header_of h0, xFptHdrSecondary := fpt_header_of h1\<rparr>) s;
        let (got, s) = asdm_malloc E (unat (ucNumEntries h0)) s;
        case (got, ppxFptPartitions (asdm s) APC_BOOT_DEVICE_PRIMARY) of
          (True, Some ps) \<Rightarrow> do {
            s \<leftarrow> populate_primary E ps s;
            let n = sizeof_ASDMFptRecord + sizeof_ASDMFptEntry * ucast (ucNumEntries h0);
            let (got, s) = asdm_malloc E (unat (ucNumEntries h1)) s;
            (case (got, ppxFptPartitions (asdm s) APC_BOOT_DEVICE_SECONDARY) of
               (True, Some ps) \<Rightarrow> do {
                 s \<leftarrow> populate_secondary ps s;
                 Some (OK, Some (n + sizeof_ASDMFptEntry * ucast (ucNumEntries h1)), s) }
             | _ \<Rightarrow> do {
                 s \<leftarrow> upd_fpt (\<lambda>f. f\<lparr>pxFptEntrySecondary := None\<rparr>) s;
                 Some (OK, Some n, ASDM_INC_ERROR_COUNTER ASDM_ERRORS_MALLOC_FAILED s) }) }
        | _ \<Rightarrow> do {
            s \<leftarrow> upd_fpt (\<lambda>f. f\<lparr>pxFptEntryPrimary := None\<rparr>) s;
            Some (ERROR, None, ASDM_INC_ERROR_COUNTER ASDM_ERRORS_MALLOC_FAILED s) } }
      else Some (ERROR, None, s))"

section \<open>The board information\<close>

definition iPopulateAsdmBoardInfo :: "'w asdm_st \<Rightarrow> (evl_status \<times> u16 option \<times> 'w asdm_st) option" where
  "iPopulateAsdmBoardInfo s =
     (if asdm_firewalls_ok s \<and> pxBoardInfo (asdm s) \<noteq> None then do {
        s \<leftarrow> upd_sdr AMC_ASDM_SUPPORTED_REPO_BOARD_INFO (sdr_payload_update (\<lambda>_. BoardInfo)) s;
        Some (OK, Some sizeof_ASDMBoardInfoRecord, s) }
      else Some (ERROR, None, s))"

text \<open>The type code of a field.\<close>

definition board_field_type :: "board_field \<Rightarrow> u8" where
  "board_field_type f =
     (if f \<in> {xEepromVersion, xProductName, xBoardRev, xBoardSerial, xActiveState, xPartNumber, xMemorySize,
              xMfgPartNumber} then ASDM_RECORD_FIELD_TYPE_CODE_8_BIT_ASCII
      else if f = xMacAddressCount then ASDM_RECORD_FIELD_TYPE_CODE_NUM
      else ASDM_RECORD_FIELD_TYPE_CODE_BYTE_ARRAY)"

text \<open>A field from what the EEPROM getter left in the buffer and its length.\<close>

definition board_record_field :: "board_field \<Rightarrow> u8 list \<Rightarrow> u8 \<Rightarrow> ASDMRecordField \<Rightarrow> ASDMRecordField option" where
  "board_record_field f pucField ucFieldLen old =
     (if f = xMacAddressCount then do {
        b \<leftarrow> get8 pucField 0;
        set_fld_ulValue (ucast b) (old\<lparr>fld_ucType := board_field_type f, fld_ucLength := 1\<rparr>) }
      else do {
        let n = min ucFieldLen 29;
        xs \<leftarrow> get_bytes pucField 0 (unat n);
        b \<leftarrow> put_bytes 0 xs (fld_bytes old);
        Some (old\<lparr>fld_ucType := board_field_type f, fld_ucLength := n AND ASDM_RECORD_FIELD_LENGTH_MASK,
                  fld_bytes := b\<rparr>) })"

text \<open>The getters are called in the order of the members, up to the first error.\<close>

fun read_board_fields ::
  "'w asdm_env \<Rightarrow> board_field list \<Rightarrow> u8 list \<Rightarrow> ASDMBoardInfoRecord \<Rightarrow> 'w asdm_st \<Rightarrow>
   (evl_status \<times> ASDMBoardInfoRecord \<times> 'w asdm_st) option" where
  "read_board_fields E [] buf info s = Some (OK, info, s)"
| "read_board_fields E (f # fs) buf info s =
     (let ((st, buf, n), s) = asdm_call (\<lambda>w. let (st, b, n, w) = eeprom_get E f buf w in ((st, b, n), w)) s in
      if st = OK then do {
        x \<leftarrow> board_record_field f buf n (info f);
        read_board_fields E fs buf (info(f := x)) s }
      else Some (ERROR, info, s))"

definition iGetBoardInfoData :: "'w asdm_env \<Rightarrow> 'w asdm_st \<Rightarrow> (evl_status \<times> 'w asdm_st) option" where
  "iGetBoardInfoData E s = do {
     (st, s) \<leftarrow>
       (if asdm_firewalls_ok s \<and> pxBoardInfo (asdm s) = None then
          (let (got, s) = asdm_malloc E 1 s in
           if got then do {
             (st, info, s) \<leftarrow> read_board_fields E board_fields (replicate 40 0) (\<lambda>_. zero_field) s;
             Some (st, upd_asdm (\<lambda>d. d\<lparr>pxBoardInfo := Some info\<rparr>) s) }
           else Some (ERROR, ASDM_INC_ERROR_COUNTER ASDM_ERRORS_MALLOC_FAILED s))
        else Some (ERROR, s));
     Some (st, if st \<noteq> OK then ASDM_INC_ERROR_COUNTER ASDM_ERRORS_ASDM_POPULATE_BDINFO_FAILED s else s) }"

section \<open>Initialisation of a repository\<close>

definition set_num_found :: "nat \<Rightarrow> u8 \<Rightarrow> 'w asdm_st \<Rightarrow> 'w asdm_st option" where
  "set_num_found r n s = do { l \<leftarrow> get_sensor_list r s; set_sensor_list r (l\<lparr>ucNumFound := n\<rparr>) s }"

text \<open>How many records a repository has; a source that fails leaves it empty.\<close>

definition count_records :: "'w asdm_env \<Rightarrow> u8 \<Rightarrow> nat \<Rightarrow> 'w asdm_st \<Rightarrow> 'w asdm_st option" where
  "count_records E ucNumSensors r s =
     (if r \<le> AMC_ASDM_SUPPORTED_REPO_POWER then do {
        (st, s) \<leftarrow> iPopulateRepoSensorList E ucNumSensors r s;
        if st \<noteq> OK then set_num_found r 0 s else Some s }
      else if r = AMC_ASDM_SUPPORTED_REPO_TOTAL_POWER then
        set_num_found r (if iSensorListInitialised (asdm s) then TOTAL_POWER_NUM_RECORDS else 0) s
      else if r = AMC_ASDM_SUPPORTED_REPO_FPT then
        (let (st, s) = iGetFptData E s in set_num_found r (if st = OK then FPT_NUM_RECORDS else 0) s)
      else do {
        (st, s) \<leftarrow> iGetBoardInfoData E s;
        set_num_found r (if st = OK then BOARD_INFO_NUM_RECORDS else 0) s })"

definition init_headers :: "nat \<Rightarrow> 'w asdm_st \<Rightarrow> 'w asdm_st option" where
  "init_headers r s = do {
     h \<leftarrow> elem (Some xAsdmHeaderInfo) r;
     l \<leftarrow> get_sensor_list r s;
     let h = h\<lparr>ucTotalNumRecords := ucNumFound l\<rparr>;
     s \<leftarrow> upd_sdr r (\<lambda>x. x\<lparr>sdr_xHdr := h\<rparr>) s;
     upd_sds r (\<lambda>x. x\<lparr>sds_xHdr := h\<rparr>) s }"

text \<open>
  The SDR and SDS of sensor \<open>i\<close> of a repository: the status and the count of the SDS replace
  those of the SDR.
\<close>

definition populate_one ::
  "'w asdm_env \<Rightarrow> nat \<Rightarrow> nat \<Rightarrow> 'w asdm_st \<Rightarrow> (evl_status \<times> u16 \<times> 'w asdm_st) option" where
  "populate_one E r i s = do {
     l \<leftarrow> get_sensor_list r s;
     idx \<leftarrow> elem (pucSensorIndex l) i;
     x \<leftarrow> sdr_at r s;
     let t = ucRepoType (sdr_xHdr x);
     if r = AMC_ASDM_SUPPORTED_REPO_TOTAL_POWER \<and> \<not> power_sensors_enabled E then Some (OK, 0, s)
     else do {
       data \<leftarrow> (if r = AMC_ASDM_SUPPORTED_REPO_TOTAL_POWER then elem (Some [xTotalPowerData]) i
               else elem (pxAscData (asdm s)) (unat idx));
       let k = (if r = AMC_ASDM_SUPPORTED_REPO_TOTAL_POWER then 0 else i);
       rec \<leftarrow> get_sdr_record r k s;
       (st, rec, n, s) \<leftarrow> iPopulateSdr (of_nat i) t data rec s;
       s \<leftarrow> set_sdr_record r k rec s;
       rec \<leftarrow> get_sds_record r k s;
       (st, rec, m, s) \<leftarrow> iPopulateSds E (of_nat i) t data rec s;
       s \<leftarrow> set_sds_record r k rec s;
       Some (st, (case m of Some v \<Rightarrow> v | None \<Rightarrow> (case n of Some v \<Rightarrow> v | None \<Rightarrow> 0)), s) } }"

definition free_records :: "nat \<Rightarrow> 'w asdm_st \<Rightarrow> 'w asdm_st option" where
  "free_records r s = do {
     x \<leftarrow> sdr_at r s;
     p \<leftarrow> sensor_records x;
     let s = (if p \<noteq> None then ASDM_INC_STAT_COUNTER ASDM_STATS_FREE s else s);
     s \<leftarrow> upd_sdr r (\<lambda>x. x\<lparr>sdr_payload := SensorRecords None,
            sdr_xHdr := (sdr_xHdr x)\<lparr>ucTotalNumRecords := 0, usTotalNumBytes := 0\<rparr>\<rparr>) s;
     let s = ASDM_INC_ERROR_COUNTER ASDM_ERRORS_ASDM_POPULATE_SDR_FAILED s;
     y \<leftarrow> sds_at r s;
     let s = (if sds_pxSensorRecord y \<noteq> None then ASDM_INC_STAT_COUNTER ASDM_STATS_FREE s else s);
     s \<leftarrow> upd_sds r (\<lambda>x. x\<lparr>sds_pxSensorRecord := None,
            sds_xHdr := (sds_xHdr x)\<lparr>ucTotalNumRecords := 0, usTotalNumBytes := 0\<rparr>\<rparr>) s;
     Some (ASDM_INC_ERROR_COUNTER ASDM_ERRORS_ASDM_POPULATE_SDS_FAILED s) }"

text \<open>The records \<open>i, i + 1, \<dots>\<close>, \<open>n\<close> of them; \<open>bytes\<close> is the running byte count.\<close>

fun populate_records ::
  "'w asdm_env \<Rightarrow> nat \<Rightarrow> nat \<Rightarrow> nat \<Rightarrow> u16 \<Rightarrow> 'w asdm_st \<Rightarrow> (evl_status \<times> u16 \<times> 'w asdm_st) option" where
  "populate_records E r i 0 bytes s = Some (OK, bytes, s)"
| "populate_records E r i (Suc n) bytes s = do {
     (st, m, s) \<leftarrow> populate_one E r i s;
     if st = ERROR then do { s \<leftarrow> free_records r s; Some (ERROR, bytes, s) }
     else populate_records E r (i + 1) n (bytes + m) (ASDM_INC_STAT_COUNTER ASDM_STATS_ASDM_POPULATE_SDR_SUCCESS s) }"

text \<open>
  The arrays of a sensor repository with \<open>n\<close> records.  Only the pointer to the SDS is checked;
  without an SDR array the code goes on with a null pointer, which is undefined here.
\<close>

definition alloc_records :: "'w asdm_env \<Rightarrow> nat \<Rightarrow> nat \<Rightarrow> 'w asdm_st \<Rightarrow> (bool \<times> 'w asdm_st) option" where
  "alloc_records E r n s = do {
     let (got, s) = asdm_malloc E n s;
     s \<leftarrow> upd_sdr r (sdr_payload_update (\<lambda>_. SensorRecords (if got then Some (replicate n zero_sdr) else None))) s;
     let (got, s) = asdm_malloc E n s;
     s \<leftarrow> upd_sds r (\<lambda>x. x\<lparr>sds_pxSensorRecord := (if got then Some (replicate n (fresh_sds E)) else None)\<rparr>) s;
     Some (got, s) }"

definition populate_repo :: "'w asdm_env \<Rightarrow> nat \<Rightarrow> u16 \<Rightarrow> 'w asdm_st \<Rightarrow> (evl_status \<times> u16 \<times> 'w asdm_st) option" where
  "populate_repo E r bytes s = do {
     l \<leftarrow> get_sensor_list r s;
     if r \<le> AMC_ASDM_SUPPORTED_REPO_TOTAL_POWER then do {
       (got, s) \<leftarrow> alloc_records E r (unat (ucNumFound l)) s;
       if got then populate_records E r 0 (unat (ucNumFound l)) bytes (ASDM_INC_STAT_COUNTER ASDM_STATS_MALLOC s)
       else Some (ERROR, bytes, ASDM_INC_ERROR_COUNTER ASDM_ERRORS_MALLOC_FAILED s) }
     else do {
       (st, n, s) \<leftarrow> (if r = AMC_ASDM_SUPPORTED_REPO_FPT then iPopulateAsdmFpt E s else iPopulateAsdmBoardInfo s);
       Some (st, (if st = OK then bytes + (case n of Some n \<Rightarrow> n | None \<Rightarrow> 0) else bytes), s) } }"

definition round_up8 :: "u16 \<Rightarrow> u16" where
  "round_up8 n = (if n mod TOTAL_NUM_BYTES_MULTIPLE \<noteq> 0
     then n + (TOTAL_NUM_BYTES_MULTIPLE - n mod TOTAL_NUM_BYTES_MULTIPLE) else n)"

definition finish_repo :: "nat \<Rightarrow> u16 \<Rightarrow> 'w asdm_st \<Rightarrow> 'w asdm_st option" where
  "finish_repo r bytes s = do {
     s \<leftarrow> upd_sdr r (\<lambda>x. x\<lparr>sdr_pucAsdmEor := ASDM_EOR_MARKER\<rparr>) s;
     s \<leftarrow> upd_sds r (\<lambda>x. x\<lparr>sds_pucAsdmEor := ASDM_EOR_MARKER\<rparr>) s;
     upd_sdr r (\<lambda>x. x\<lparr>sdr_xHdr := (sdr_xHdr x)\<lparr>usTotalNumBytes := round_up8 bytes div TOTAL_NUM_BYTES_MULTIPLE\<rparr>\<rparr>) s }"

definition init_repo :: "'w asdm_env \<Rightarrow> u8 \<Rightarrow> nat \<Rightarrow> 'w asdm_st \<Rightarrow> (evl_status \<times> 'w asdm_st) option" where
  "init_repo E ucNumSensors r s = do {
     s \<leftarrow> count_records E ucNumSensors r s;
     s \<leftarrow> init_headers r s;
     l \<leftarrow> get_sensor_list r s;
     (st, bytes, s) \<leftarrow> (if 0 < ucNumFound l then populate_repo E r ASDM_HEADER_DEFAULT_BYTES s
                        else Some (OK, ASDM_HEADER_DEFAULT_BYTES, s));
     if st = OK then do { s \<leftarrow> finish_repo r bytes s; Some (OK, s) } else Some (st, s) }"

text \<open>The loop over the repositories ends at the first error.\<close>

fun init_repos :: "'w asdm_env \<Rightarrow> u8 \<Rightarrow> nat list \<Rightarrow> 'w asdm_st \<Rightarrow> (evl_status \<times> 'w asdm_st) option" where
  "init_repos E ucNumSensors [] s = Some (OK, s)"
| "init_repos E ucNumSensors (r # rs) s = do {
     (st, s) \<leftarrow> init_repo E ucNumSensors r s;
     if st = ERROR then Some (ERROR, s) else init_repos E ucNumSensors rs s }"

definition zero_sdr_repo :: ASDMSdr where
  "zero_sdr_repo = \<lparr>sdr_xHdr = zero_header, sdr_payload = Zeroed, sdr_pucAsdmEor = replicate ASDM_EOR_BYTES 0\<rparr>"

definition zero_sds_repo :: ASDMSds where
  "zero_sds_repo = \<lparr>sds_xHdr = zero_header, sds_pxSensorRecord = None, sds_pucAsdmEor = replicate ASDM_EOR_BYTES 0\<rparr>"

text \<open>The allocation of the SDS array is not checked.\<close>

definition iInitAsdm :: "'w asdm_env \<Rightarrow> u8 \<Rightarrow> 'w asdm_st \<Rightarrow> (evl_status \<times> 'w asdm_st) option" where
  "iInitAsdm E ucNumSensors s =
     (if asdm_firewalls_ok s \<and> pxAscData (asdm s) \<noteq> None \<and> pxAsdmSdrInfo (asdm s) = None then
        (let (got1, s) = asdm_malloc E AMC_ASDM_SUPPORTED_REPO_MAX s;
             (got2, s) = asdm_malloc E AMC_ASDM_SUPPORTED_REPO_MAX s;
             sds = (if got2 then Some (replicate AMC_ASDM_SUPPORTED_REPO_MAX zero_sds_repo) else None) in
         if got1 then
           init_repos E ucNumSensors [0..<AMC_ASDM_SUPPORTED_REPO_MAX]
             (ASDM_INC_STAT_COUNTER ASDM_STATS_MALLOC
                (upd_asdm (\<lambda>d. d\<lparr>pxAsdmSdrInfo := Some (replicate AMC_ASDM_SUPPORTED_REPO_MAX zero_sdr_repo),
                                 pxAsdmSdsInfo := sds\<rparr>) s))
         else Some (ERROR, ASDM_INC_ERROR_COUNTER ASDM_ERRORS_MALLOC_FAILED
           (upd_asdm (\<lambda>d. d\<lparr>pxAsdmSdsInfo := (if got2 then Some (replicate AMC_ASDM_SUPPORTED_REPO_MAX zero_sds_repo)
                                              else None)\<rparr>) s)))
      else Some (ERROR, s))"

section \<open>Initialisation\<close>

text \<open>The two arrays of a repository's list, up to the first failure.\<close>

definition alloc_bytes :: "'w asdm_env \<Rightarrow> nat \<Rightarrow> 'w asdm_st \<Rightarrow> u8 list option \<times> 'w asdm_st" where
  "alloc_bytes E n s =
     (let (got, s) = asdm_malloc E n s in
      if got then (Some (replicate n (fresh_byte E)), ASDM_INC_STAT_COUNTER ASDM_STATS_MALLOC s)
      else (None, ASDM_INC_ERROR_COUNTER ASDM_ERRORS_MALLOC_FAILED s))"

fun alloc_lists :: "'w asdm_env \<Rightarrow> nat \<Rightarrow> nat list \<Rightarrow> 'w asdm_st \<Rightarrow> (evl_status \<times> 'w asdm_st) option" where
  "alloc_lists E n [] s = Some (OK, s)"
| "alloc_lists E n (r # rs) s = do {
     let (p, s) = alloc_bytes E n s;
     l \<leftarrow> get_sensor_list r s;
     s \<leftarrow> set_sensor_list r (l\<lparr>pucSensorId := p\<rparr>) s;
     if p = None then Some (ERROR, s)
     else do {
       let (p, s) = alloc_bytes E n s;
       l \<leftarrow> get_sensor_list r s;
       s \<leftarrow> set_sensor_list r (l\<lparr>pucSensorIndex := p\<rparr>) s;
       if p = None then Some (ERROR, s) else alloc_lists E n rs s } }"

definition count_free :: "'a option \<Rightarrow> 'w asdm_st \<Rightarrow> 'w asdm_st" where
  "count_free p s = (if p \<noteq> None then ASDM_INC_STAT_COUNTER ASDM_STATS_FREE s else s)"

definition free_list :: "nat \<Rightarrow> 'w asdm_st \<Rightarrow> 'w asdm_st option" where
  "free_list r s = do {
     l \<leftarrow> get_sensor_list r s;
     let s = count_free (pucSensorIndex l) (count_free (pucSensorId l) s);
     s \<leftarrow> set_sensor_list r (l\<lparr>pucSensorId := None, pucSensorIndex := None\<rparr>) s;
     Some (upd_asdm (\<lambda>d. d\<lparr>pxAscData := None\<rparr>) (count_free (pxAscData (asdm s)) s)) }"

text \<open>
  With the sensor table allocated: it is filled, and the lists are allocated.  The status of
  these steps is replaced by that of \<open>iInitAsdm\<close>.
\<close>

definition fill_table :: "'w asdm_env \<Rightarrow> u8 \<Rightarrow> 'w asdm_st \<Rightarrow> (u8 \<times> 'w asdm_st) option" where
  "fill_table E ucNumSensors s = do {
     (st, out, w) \<leftarrow> asc_get_all E (pxAscData (asdm s)) ucNumSensors (asdm_outside s);
     let s = s\<lparr>asdm_outside := w\<rparr>;
     let (s, n) = (case out of Some (xs, n) \<Rightarrow> (upd_asdm (\<lambda>d. d\<lparr>pxAscData := Some xs\<rparr>) s, n) | None \<Rightarrow> (s, ucNumSensors));
     if st = OK then do {
       (st, s) \<leftarrow> alloc_lists E (unat n) [0..<AMC_ASDM_SUPPORTED_REPO_MAX]
                    (upd_asdm (\<lambda>d. d\<lparr>iSensorListInitialised := True\<rparr>) s);
       s \<leftarrow> (if st \<noteq> OK then for_each free_list [0..<AMC_ASDM_SUPPORTED_REPO_MAX] s else Some s);
       Some (n, s) }
     else Some (n, ASDM_INC_ERROR_COUNTER ASDM_ERRORS_ASC_GET_SENSORS_FAILED s) }"

definition bind_callbacks :: "'w asdm_env \<Rightarrow> evl_status \<Rightarrow> 'w asdm_st \<Rightarrow> evl_status \<times> 'w asdm_st" where
  "bind_callbacks E st s =
     (let (b, s) = asdm_call (asc_bind E) s;
          (st, s) = (if b = OK then (st, s) else (ERROR, ASDM_INC_ERROR_COUNTER ASDM_ERRORS_INIT_BIND_ASC_CB_FAILED s));
          (b, s) = asdm_call (apc_bind E) s;
          (st, s) = (if b = OK then (st, s) else (ERROR, ASDM_INC_ERROR_COUNTER ASDM_ERRORS_INIT_BIND_APC_CB_FAILED s))
      in if st = OK
         then (OK, ASDM_INC_STAT_COUNTER ASDM_STATS_INIT_OVERALL_COMPLETE (upd_asdm (\<lambda>d. d\<lparr>asdm_iInitialised := True\<rparr>) s))
         else (st, ASDM_INC_ERROR_COUNTER ASDM_ERRORS_INIT_OVERALL_FAILED s))"

definition iASDM_Initialise :: "'w asdm_env \<Rightarrow> u8 \<Rightarrow> 'w asdm_st \<Rightarrow> (evl_status \<times> 'w asdm_st) option" where
  "iASDM_Initialise E ucNumSensors s =
     (if asdm_firewalls_ok s \<and> \<not> asdm_iInitialised (asdm s) then do {
        let (m, s) = asdm_call (asdm_mutex_create E) s;
        (st, s) \<leftarrow> (case m of
            None \<Rightarrow> Some (ERROR, ASDM_INC_ERROR_COUNTER ASDM_ERRORS_INIT_MUTEX_FAILED s)
          | Some h \<Rightarrow>
              (let s = upd_asdm (\<lambda>d. d\<lparr>asdm_pvOsalMutexHdl := Some h, ucAscNumSensors := ucNumSensors\<rparr>) s;
                   (got, s) = asdm_malloc E (unat ucNumSensors) s in
               if got then do {
                 let s = upd_asdm (\<lambda>d. d\<lparr>pxAscData := Some (replicate (unat ucNumSensors) (fresh_sensor E))\<rparr>) s;
                 (n, s) \<leftarrow> fill_table E ucNumSensors (ASDM_INC_STAT_COUNTER ASDM_STATS_MALLOC s);
                 iInitAsdm E n s }
               else Some (ERROR, ASDM_INC_ERROR_COUNTER ASDM_ERRORS_MALLOC_FAILED
                 (upd_asdm (\<lambda>d. d\<lparr>pxAscData := None\<rparr>) s))));
        Some (bind_callbacks E st s) }
      else Some (ERROR, s))"

end
