(* ===== verification/ASDM_Update.thy ===== *)
theory ASDM_Update
  imports ASDM_Build
begin

text \<open>
  Keeping the repositories up to date (\<open>asdm.c\<close>): the sensor proxy's event after each pass over
  the sensors refreshes the values and the total power, the image proxy's events refresh the
  partition table.
\<close>

section \<open>The total power\<close>

text \<open>
  The sum over the power sensors \<open>i, i + 1, \<dots>\<close>, \<open>n\<close> of them, that count for the total;
  \<open>None\<close> inside for a missing record array.
\<close>

fun sum_power ::
  "ASDMPrivateData \<Rightarrow> ASDMSensorList \<Rightarrow> ASDMSdrRecord list option \<Rightarrow> nat \<Rightarrow> nat \<Rightarrow> u32 \<Rightarrow> u32 option option" where
  "sum_power d l p i 0 acc = Some (Some acc)"
| "sum_power d l p i (Suc n) acc =
     (if p = None then Some None
      else do {
        idx \<leftarrow> elem (pucSensorIndex l) i;
        x \<leftarrow> elem (pxAscData d) (unat idx);
        if ucTotalPowerSensor x = 1 then do {
          rec \<leftarrow> elem p i;
          v \<leftarrow> fld_ulValue (sdr_xSensorValue rec);
          sum_power d l p (i + 1) n (acc + v) }
        else sum_power d l p (i + 1) n acc })"

text \<open>The running average and the maximum; the number of calculations wraps, and zero divides.\<close>

definition power_statistics :: "u32 \<Rightarrow> ASDMPrivateData \<Rightarrow> ASDMPrivateData option" where
  "power_statistics v d =
     (let n = ulPowerCalcIterations d + 1;
          m = (if ulMaxPower d < v then v else ulMaxPower d)
      in if n = 0 then None
         else Some (d\<lparr>ulPowerCalcIterations := n, ulMaxPower := m,
                      ulAveragePower := ulAveragePower d - ulAveragePower d div n + v div n\<rparr>))"

definition store_total_power :: "u32 \<Rightarrow> 'w asdm_st \<Rightarrow> (evl_status \<times> 'w asdm_st) option" where
  "store_total_power v s = do {
     x \<leftarrow> sdr_at AMC_ASDM_SUPPORTED_REPO_TOTAL_POWER s;
     p \<leftarrow> sensor_records x;
     if p \<noteq> None then do {
       rec \<leftarrow> elem p 0;
       f \<leftarrow> set_fld_ulValue v (sdr_xSensorValue rec);
       s \<leftarrow> set_sdr_record AMC_ASDM_SUPPORTED_REPO_TOTAL_POWER 0
              (rec\<lparr>ulAverageValue := ulAveragePower (asdm s), ulMaxValue := ulMaxPower (asdm s),
                   sdr_xSensorValue := f\<rparr>) s;
       Some (OK, s) }
     else Some (ERROR, ASDM_INC_ERROR_COUNTER ASDM_ERRORS_ASDM_GET_SDR_FAILED s) }"

definition iCalculateTotalPower :: "'w asdm_st \<Rightarrow> (evl_status \<times> 'w asdm_st) option" where
  "iCalculateTotalPower s =
     (if asdm_firewalls_ok s \<and> pxAscData (asdm s) \<noteq> None \<and> pxAsdmSdrInfo (asdm s) \<noteq> None then do {
        l \<leftarrow> get_sensor_list AMC_ASDM_SUPPORTED_REPO_POWER s;
        x \<leftarrow> sdr_at AMC_ASDM_SUPPORTED_REPO_POWER s;
        p \<leftarrow> (if ucNumFound l = 0 then Some None else sensor_records x);
        r \<leftarrow> sum_power (asdm s) l p 0 (unat (ucNumFound l)) 0;
        case r of
          Some v \<Rightarrow> do {
            d \<leftarrow> power_statistics v (asdm s);
            store_total_power v (s\<lparr>asdm := d\<rparr>) }
        | None \<Rightarrow> Some (ERROR, ASDM_INC_ERROR_COUNTER ASDM_ERRORS_ASDM_GET_SDR_FAILED s) }
      else Some (ERROR, s))"

section \<open>The values of the records\<close>

definition sdr_refresh :: "ASCProxyDriverSensorReadings \<Rightarrow> ASDMSdrRecord \<Rightarrow> ASDMSdrRecord option" where
  "sdr_refresh r rec = do {
     f \<leftarrow> set_fld_ulValue (ulSensorValue r) (sdr_xSensorValue rec);
     Some (rec\<lparr>sdr_xSensorValue := f, ulAverageValue := ulAverageSensorValue r, ulMaxValue := ulMaxSensorValue r,
               sdr_ucSensorStatus := sensor_status_code (xSensorStatus r)\<rparr>) }"

definition sds_refresh :: "ASCProxyDriverSensorReadings \<Rightarrow> ASDMSdsRecord \<Rightarrow> ASDMSdsRecord option" where
  "sds_refresh r rec = do {
     f \<leftarrow> set_fld_ulValue (ulSensorValue r) (sds_xSensorValue rec);
     Some (rec\<lparr>sds_xSensorValue := f, sds_ucSensorStatus := sensor_status_code (xSensorStatus r)\<rparr>) }"

definition update_record :: "nat \<Rightarrow> nat \<Rightarrow> 'w asdm_st \<Rightarrow> 'w asdm_st option" where
  "update_record r i s = do {
     l \<leftarrow> get_sensor_list r s;
     idx \<leftarrow> elem (pucSensorIndex l) i;
     x \<leftarrow> elem (pxAscData (asdm s)) (unat idx);
     y \<leftarrow> arr_get MAX_ASC_PROXY_DRIVER_SENSOR_TYPE (pxReadings x) r;
     rec \<leftarrow> get_sdr_record r i s;
     rec \<leftarrow> sdr_refresh y rec;
     s \<leftarrow> set_sdr_record r i rec s;
     rec \<leftarrow> get_sds_record r i s;
     rec \<leftarrow> sds_refresh y rec;
     set_sds_record r i rec s }"

definition update_repo :: "nat \<Rightarrow> 'w asdm_st \<Rightarrow> 'w asdm_st option" where
  "update_repo r s = do {
     l \<leftarrow> get_sensor_list r s;
     for_each (update_record r) [0..<unat (ucNumFound l)] s }"

definition iUpdateAsdmValues :: "'w asdm_env \<Rightarrow> 'w asdm_st \<Rightarrow> (evl_status \<times> 'w asdm_st) option" where
  "iUpdateAsdmValues E s =
     (if asdm_firewalls_ok s \<and> pxAscData (asdm s) \<noteq> None \<and> pxAsdmSdrInfo (asdm s) \<noteq> None then
        (let (taken, s) = asdm_take E s in
         if taken then do {
           s \<leftarrow> for_each update_repo [0..<AMC_ASDM_SUPPORTED_REPO_TOTAL_POWER]
                  (ASDM_INC_STAT_COUNTER ASDM_STATS_TAKE_MUTEX s);
           (st, s) \<leftarrow> iCalculateTotalPower s;
           let s = (if st = ERROR then ASDM_INC_ERROR_COUNTER ASDM_ERRORS_TOTAL_POWER_FAILED s else s);
           Some (asdm_release E st s) }
         else Some (ERROR, ASDM_INC_ERROR_COUNTER ASDM_ERRORS_MUTEX_TAKE_FAILED s))
      else Some (ERROR, s))"

section \<open>The events of the sensor proxy\<close>

text \<open>A single sensor is copied to the start of the table, whichever sensor it is.\<close>

definition fetch_single :: "'w asdm_env \<Rightarrow> u8 \<Rightarrow> 'w asdm_st \<Rightarrow> (evl_status \<times> 'w asdm_st) option" where
  "fetch_single E ident s = do {
     (st, out, w) \<leftarrow> asc_get_single E ident (asdm_outside s);
     let s = s\<lparr>asdm_outside := w\<rparr>;
     s \<leftarrow> (case out of
         Some x \<Rightarrow> do { xs \<leftarrow> set_elem (pxAscData (asdm s)) 0 x; Some (upd_asdm (\<lambda>d. d\<lparr>pxAscData := Some xs\<rparr>) s) }
       | None \<Rightarrow> Some s);
     Some (st, if st \<noteq> OK then ASDM_INC_ERROR_COUNTER ASDM_ERRORS_ASC_GET_SINGLE_SENSOR_FAILED s else s) }"

definition sensors_updated :: "'w asdm_env \<Rightarrow> 'w asdm_st \<Rightarrow> (evl_status \<times> 'w asdm_st) option" where
  "sensors_updated E s = do {
     (st, out, w) \<leftarrow> asc_get_all E (pxAscData (asdm s)) (ucAscNumSensors (asdm s)) (asdm_outside s);
     let s = s\<lparr>asdm_outside := w\<rparr>;
     let s = (case out of Some (xs, n) \<Rightarrow> upd_asdm (\<lambda>d. d\<lparr>pxAscData := Some xs\<rparr>) s | None \<Rightarrow> s);
     if st = OK then iUpdateAsdmValues E (ASDM_INC_STAT_COUNTER ASDM_STATS_ASC_SENSOR_UPDATE_EVENT s)
     else Some (st, ASDM_INC_ERROR_COUNTER ASDM_ERRORS_ASC_GET_SENSORS_FAILED s) }"

definition iAscCallback :: "'w asdm_env \<Rightarrow> EVLSignal option \<Rightarrow> 'w asdm_st \<Rightarrow> (evl_status \<times> 'w asdm_st) option" where
  "iAscCallback E psig s =
     (case psig of
        Some sig \<Rightarrow>
          (if pxAscData (asdm s) \<noteq> None \<and> ucModule sig = AMC_CFG_UNIQUE_ID_ASC then
             (let ev = ucEventType sig in
              if ev = ASC_PROXY_DRIVER_E_SENSOR_UPDATE_COMPLETE then sensors_updated E s
              else if ASC_PROXY_DRIVER_E_SENSOR_UNAVAILABLE \<le> ev \<and> ev \<le> ASC_PROXY_DRIVER_E_SENSOR_LOWER_FATAL
                then Some (OK, ASDM_INC_STAT_COUNTER ASDM_STATS_ASC_SENSOR_OTHER_EVENT s)
              else if ASC_PROXY_DRIVER_E_SENSOR_UPPER_WARNING \<le> ev \<and> ev \<le> ASC_PROXY_DRIVER_E_SENSOR_UPPER_FATAL
                then fetch_single E (ucInstance sig) s
              else Some (ERROR, s))
           else Some (ERROR, s))
      | None \<Rightarrow> Some (ERROR, s))"

section \<open>The events of the image proxy\<close>

definition count_free_entries :: "'a option \<Rightarrow> 'w asdm_st \<Rightarrow> 'w asdm_st" where
  "count_free_entries p s = (if p \<noteq> None then ASDM_INC_STAT_COUNTER ASDM_STATS_FREE s else s)"

text \<open>
  The old entries are freed and the table is built again.  The byte count of the header and
  the marker, which the variable starts with, is overwritten.
\<close>

definition iUpdateAsdmFpt :: "'w asdm_env \<Rightarrow> 'w asdm_st \<Rightarrow> (evl_status \<times> 'w asdm_st) option" where
  "iUpdateAsdmFpt E s =
     (if asdm_firewalls_ok s then do {
        x \<leftarrow> sdr_at AMC_ASDM_SUPPORTED_REPO_FPT s;
        f \<leftarrow> fpt_record x;
        let s = count_free_entries (pxFptEntrySecondary f) (count_free_entries (pxFptEntryPrimary f) s);
        s \<leftarrow> upd_fpt (\<lambda>f. f\<lparr>pxFptEntryPrimary := None, pxFptEntrySecondary := None\<rparr>) s;
        (st, n, s) \<leftarrow> iPopulateAsdmFpt E s;
        if st = OK then do {
          let n = (case n of Some n \<Rightarrow> n | None \<Rightarrow> ASDM_HEADER_DEFAULT_BYTES);
          s \<leftarrow> upd_sdr AMC_ASDM_SUPPORTED_REPO_FPT
                 (\<lambda>x. x\<lparr>sdr_xHdr := (sdr_xHdr x)\<lparr>usTotalNumBytes := round_up8 n div TOTAL_NUM_BYTES_MULTIPLE\<rparr>\<rparr>) s;
          Some (OK, s) }
        else Some (ERROR, s) }
      else Some (ERROR, s))"

definition drop_partitions :: "nat \<Rightarrow> 'w asdm_st \<Rightarrow> 'w asdm_st" where
  "drop_partitions i s = set_partitions i None (count_free_entries (ppxFptPartitions (asdm s) i) s)"

definition iRefreshFptData :: "'w asdm_env \<Rightarrow> 'w asdm_st \<Rightarrow> (evl_status \<times> 'w asdm_st) option" where
  "iRefreshFptData E s =
     (if asdm_firewalls_ok s then
        (let (taken, s) = asdm_take E s in
         if taken then do {
           let s = ASDM_INC_STAT_COUNTER ASDM_STATS_TAKE_MUTEX s;
           let s = set_fpt_header APC_BOOT_DEVICE_SECONDARY zero_apc_header
                     (set_fpt_header APC_BOOT_DEVICE_PRIMARY zero_apc_header s);
           let s = drop_partitions APC_BOOT_DEVICE_SECONDARY (drop_partitions APC_BOOT_DEVICE_PRIMARY s);
           let (st, s) = iGetFptData E s;
           (st, s) \<leftarrow> (if st = OK then iUpdateAsdmFpt E s else Some (st, s));
           Some (asdm_release E st s) }
         else Some (ERROR, ASDM_INC_ERROR_COUNTER ASDM_ERRORS_MUTEX_TAKE_FAILED s))
      else Some (ERROR, s))"

definition refresh_event :: "'w asdm_env \<Rightarrow> 'w asdm_st \<Rightarrow> (evl_status \<times> 'w asdm_st) option" where
  "refresh_event E s = do {
     (st, s) \<leftarrow> iRefreshFptData E s;
     Some (st, if st = OK then s else ASDM_INC_ERROR_COUNTER ASDM_ERRORS_APC_FPT_UPDATE_FAILED s) }"

definition iApcCallback :: "'w asdm_env \<Rightarrow> EVLSignal option \<Rightarrow> 'w asdm_st \<Rightarrow> (evl_status \<times> 'w asdm_st) option" where
  "iApcCallback E psig s =
     (case psig of
        Some sig \<Rightarrow>
          (if ucModule sig = AMC_CFG_UNIQUE_ID_APC then
             (let ev = ucEventType sig in
              if ev = APC_PROXY_DRIVER_E_FPT_UPDATE
                then refresh_event E (ASDM_INC_STAT_COUNTER ASDM_STATS_APC_FPT_UPDATE_EVENT s)
              else if ev = APC_PROXY_DRIVER_E_FPT_FLAGS_UPDATED
                then refresh_event E (ASDM_INC_STAT_COUNTER ASDM_STATS_APC_FPT_FLAGS_UPDATE_EVENT s)
              else if ev = APC_PROXY_DRIVER_E_COPY_COMPLETE \<or> ev = APC_PROXY_DRIVER_E_DOWNLOAD_COMPLETE
                then refresh_event E s
              else Some (OK, ASDM_INC_STAT_COUNTER ASDM_STATS_AMI_UNSUPPORTED_REQUEST s))
           else Some (ERROR, s))
      | None \<Rightarrow> Some (ERROR, s))"

end
