(* ===== verification/ASDM_Power.thy ===== *)
theory ASDM_Power
  imports ASDM_Update
begin

text \<open>
  The statistics of the total power (\<open>iCalculateTotalPower\<close>): the running average stays
  between the smallest and the largest total seen, although both divisions round down.
\<close>

section \<open>One step of the average\<close>

lemma minus_quotient_mono:
  fixes a b n :: nat
  assumes "a \<le> b" and "0 < n"
  shows "a - a div n \<le> b - b div n"
  using assms(1)
proof (induction b rule: dec_induct)
  case (step k)
  have "Suc k div n \<le> Suc (k div n)" using assms(2) by (simp add: div_Suc)
  moreover have "k div n \<le> k" by simp
  ultimately show ?case using step.IH by linarith
qed simp

lemma average_step_bounds:
  fixes a v n lo hi :: nat
  assumes "lo \<le> a" "a \<le> hi" "lo \<le> v" "v \<le> hi" "0 < n"
  shows "lo \<le> a - a div n + v div n" and "a - a div n + v div n \<le> hi"
proof -
  have "lo - lo div n \<le> a - a div n" "lo div n \<le> v div n" "lo div n \<le> lo"
    using assms by (simp_all add: minus_quotient_mono div_le_mono)
  then show "lo \<le> a - a div n + v div n" by linarith
  have "a - a div n \<le> hi - hi div n" "v div n \<le> hi div n" "hi div n \<le> hi"
    using assms by (simp_all add: minus_quotient_mono div_le_mono)
  then show "a - a div n + v div n \<le> hi" by linarith
qed

text \<open>The same on 32-bit words, where nothing wraps.\<close>

lemma word_average_step_bounds:
  fixes a v n lo hi :: u32
  assumes "lo \<le> a" "a \<le> hi" "lo \<le> v" "v \<le> hi" "n \<noteq> 0"
  shows "lo \<le> a - a div n + v div n \<and> a - a div n + v div n \<le> hi"
proof -
  have n: "0 < unat n" using assms(5) by (simp add: unat_gt_0)
  note b = average_step_bounds [of "unat lo" "unat a" "unat hi" "unat v" "unat n"]
  have q: "unat (a div n) = unat a div unat n" "unat (v div n) = unat v div unat n"
    by (simp_all add: unat_div)
  have "a div n \<le> a" using div_le_dividend [of "unat a" "unat n"] by (simp add: word_le_nat_alt q)
  then have s: "unat (a - a div n) = unat a - unat a div unat n" by (simp add: unat_sub q)
  have up: "unat a - unat a div unat n + unat v div unat n \<le> unat hi"
    using assms n by (intro b) (simp_all add: word_le_nat_alt)
  also have "\<dots> < 2 ^ 32" using unat_bound [of hi] by simp
  finally have "unat (a - a div n + v div n) = unat a - unat a div unat n + unat v div unat n"
    unfolding unat_word_ariths(1) s q by (simp del: add_diff_assoc2)
  with up b(1) assms n show ?thesis by (simp add: word_le_nat_alt)
qed

section \<open>Any number of steps\<close>

text \<open>What holds after the totals \<open>vs\<close>.\<close>

definition power_inv :: "u32 list \<Rightarrow> ASDMPrivateData \<Rightarrow> bool" where
  "power_inv vs d \<longleftrightarrow> unat (ulPowerCalcIterations d) = length vs \<and> ulMaxPower d = fold max vs 0 \<and>
     (vs = [] \<longrightarrow> ulAveragePower d = 0) \<and>
     (vs \<noteq> [] \<longrightarrow> Min (set vs) \<le> ulAveragePower d \<and> ulAveragePower d \<le> Max (set vs))"

lemma power_inv_step:
  assumes inv: "power_inv vs d" and len: "length vs + 1 < 2 ^ 32"
  shows "okay (power_statistics v d) (power_inv (vs @ [v]))"
proof -
  let ?n = "ulPowerCalcIterations d + 1"
  let ?avg = "ulAveragePower d - ulAveragePower d div ?n + v div ?n"
  from inv have it: "unat (ulPowerCalcIterations d) = length vs" by (simp add: power_inv_def)
  then have n: "unat ?n = length vs + 1" using len by (simp add: unat_inc)
  then have nz: "?n \<noteq> 0" by (metis add_is_0 one_neq_zero unat_0)
  have "(if m < v then v else m) = max v m" for m :: u32
    by (auto simp: max_def)
  then have mx: "(if ulMaxPower d < v then v else ulMaxPower d) = fold max (vs @ [v]) 0"
    using inv by (simp add: power_inv_def)
  have avg: "Min (set (vs @ [v])) \<le> ?avg \<and> ?avg \<le> Max (set (vs @ [v]))"
  proof (cases "vs = []")
    case True
    then have "?n = 1" "ulAveragePower d = 0" using inv n by (simp_all add: power_inv_def word_unat_eq_iff)
    with True show ?thesis by simp
  next
    case False
    with inv have "Min (set vs) \<le> ulAveragePower d" "ulAveragePower d \<le> Max (set vs)"
      by (simp_all add: power_inv_def)
    with False show ?thesis
      by (intro word_average_step_bounds nz) (auto simp: min_le_iff_disj le_max_iff_disj)
  qed
  show ?thesis
    using nz n avg mx by (simp add: power_statistics_def Let_def power_inv_def)
qed

lemma power_inv_run:
  assumes "power_inv us d" and "length us + length vs < 2 ^ 32"
  shows "okay (for_each power_statistics vs d) (power_inv (us @ vs))"
  using assms
proof (induction vs arbitrary: us d)
  case (Cons v vs)
  have "okay (power_statistics v d) (power_inv (us @ [v]))"
    using Cons.prems by (intro power_inv_step) simp_all
  then show ?case
    using Cons.IH [of "us @ [v]"] Cons.prems(2) by (auto intro!: okay_bind [of "power_statistics v d"])
qed simp

lemma fold_max_power: "vs \<noteq> [] \<Longrightarrow> fold max vs (0 :: u32) = Max (set vs)"
proof -
  have "fold max vs (a :: u32) = Max (insert a (set vs))" for a
    by (metis Max.set_eq_fold list.simps(15))
  moreover assume "vs \<noteq> []"
  ultimately show ?thesis by (simp add: max_absorb2)
qed

text \<open>
  C27: after any number of totals, fewer than \<open>2 ^ 32\<close>, the maximum power is the largest of
  them and the average, although every division rounds down, is not below the smallest and
  not above the largest; no subtraction or addition of the code wraps.
\<close>

theorem power_average_bounded:
  assumes "ulPowerCalcIterations d = 0" and "ulAveragePower d = 0" and "ulMaxPower d = 0"
    and "vs \<noteq> []" and "length vs < 2 ^ 32"
  shows "okay (for_each power_statistics vs d) (\<lambda>d'.
    ulMaxPower d' = Max (set vs) \<and> Min (set vs) \<le> ulAveragePower d' \<and> ulAveragePower d' \<le> Max (set vs) \<and>
    unat (ulPowerCalcIterations d') = length vs)"
proof -
  have "power_inv [] d" using assms by (simp add: power_inv_def)
  from power_inv_run [OF this, of vs] assms(4,5) show ?thesis
    by (auto simp: power_inv_def fold_max_power elim!: okay_weaken)
qed

lemma power_average_bounded_witness:
  "okay (for_each power_statistics [10, 7] initial_asdm) (\<lambda>d'. ulMaxPower d' = 10 \<and> 7 \<le> ulAveragePower d' \<and>
     ulAveragePower d' \<le> 10 \<and> unat (ulPowerCalcIterations d') = 2)"
  by (rule okay_weaken [OF power_average_bounded [of initial_asdm "[10, 7]"]]) (simp_all add: initial_asdm_def)

end
