(* ===== verification/ASC_Readings.thy ===== *)
theory ASC_Readings
  imports ASC_Proxy
begin

text \<open>
  What a pass of the sensor proxy's task over the sensors does to the table
  (\<open>asc_proxy_driver.c\<close>).
\<close>

section \<open>The running average\<close>

lemma single_of_int_bounds:
  assumes "0 \<le> n"
  shows "of_int n * (1 - 1 / 2 ^ 24) - 1 / 2 ^ 100 \<le> single_of_int n"
    "single_of_int n \<le> of_int n * (1 + 1 / 2 ^ 24) + 1 / 2 ^ 100"
  using round_single_near [of "of_int n"] assms unfolding single_of_int_def
  by (simp_all add: abs_le_iff algebra_simps)

text \<open>For readings and averages below \<open>2 ^ 30\<close> the average always has a value.\<close>

lemma running_average_defined:
  assumes avg: "uint avg \<le> 2 ^ 30" and v: "0 \<le> v" "v \<le> 2 ^ 30" and n: "1 \<le> n" "n < 2 ^ 31"
  shows "\<exists>a. running_average avg v n = Some a"
proof -
  have un: "uint (word_of_int n :: u32) = n"
    using n by (simp add: uint_word_of_int)
  have nz: "(word_of_int n :: u32) \<noteq> 0"
  proof
    assume "(word_of_int n :: u32) = 0"
    then have "uint (word_of_int n :: u32) = 0" by simp
    with un n show False by simp
  qed
  define k where "k = uint (avg - avg div word_of_int n)"
  have "avg div word_of_int n \<le> avg"
    by (simp add: word_le_nat_alt unat_div_distrib)
  then have "k = uint avg - uint (avg div word_of_int n)"
    by (simp add: k_def uint_minus_simple_alt [THEN iffD1])
  moreover have "0 \<le> uint (avg div word_of_int n)" by simp
  ultimately have k2: "k \<le> 2 ^ 30" using avg by linarith
  have k: "0 \<le> k" "k \<le> 2 ^ 30" using k2 by (simp_all add: k_def)
  define x where "x = single_of_int k"
  have "of_int k \<le> (2 ^ 30 :: rat)" using k(2) by (metis of_int_le_iff of_int_numeral of_int_power)
  then have x: "0 \<le> x" "x \<le> 2 ^ 30 + 2 ^ 7"
    using single_of_int_bounds(2) [OF k(1)] k(1) by (simp_all add: x_def single_of_int_def round_single_nonneg)
  define m where "m = single_of_int n"
  have "1 / 2 \<le> m"
  proof -
    have "(1 :: rat) \<le> of_int n" using n(1) by simp
    then show ?thesis using single_of_int_bounds(1) [of n] n(1) by (simp add: m_def)
  qed
  then have q: "0 \<le> v / m" "v / m \<le> 2 ^ 31"
    using v by (simp_all add: divide_le_eq)
  define y where "y = single_div v m"
  have y: "0 \<le> y" "y \<le> 2 ^ 31 + 2 ^ 8"
    using round_single_near [OF q(1)] q by (simp_all add: y_def single_div_def round_single_nonneg abs_le_iff)
  define z where "z = single_add x y"
  define w where "w = x + y"
  have w: "0 \<le> w" "w \<le> 2 ^ 30 + 2 ^ 7 + 2 ^ 31 + 2 ^ 8" using x y by (simp_all add: w_def)
  have z: "0 \<le> z" "z < 2 ^ 32"
    using round_single_near [OF w(1)] w
    by (simp_all add: z_def single_add_def w_def [symmetric] round_single_nonneg abs_le_iff)
  then have "0 \<le> \<lfloor>z\<rfloor>" "\<lfloor>z\<rfloor> < 2 ^ 32" by (simp_all add: floor_less_iff)
  with z nz show ?thesis
    by (simp add: running_average_def single_to_u32_def Let_def k_def [symmetric] x_def [symmetric]
        m_def [symmetric] y_def [symmetric] z_def [symmetric])
qed

lemma single_to_u32_defined: "0 \<le> v \<Longrightarrow> v \<le> 2 ^ 30 \<Longrightarrow> single_to_u32 v = Some (word_of_int \<lfloor>v\<rfloor>)"
  by (simp add: single_to_u32_def floor_less_iff)

section \<open>One pass over the sensors\<close>

text \<open>
  An environment whose sensors stand still during a pass: whether a sensor is enabled depends
  on its function, and the answer of a sensor on the function, the address and the channel.
  The world may change with every access.
\<close>

definition steady :: "'w asc_env \<Rightarrow> (nat \<Rightarrow> bool) \<Rightarrow> (nat \<Rightarrow> u8 \<Rightarrow> u8 \<Rightarrow> evl_status \<times> single) \<Rightarrow> bool" where
  "steady E en ans \<longleftrightarrow>
     (\<forall>f w. fst (sensor_enabled E f w) = en f) \<and>
     (\<forall>f a c w. fst (read_sensor E f ASC_SENSOR_I2C_BUS_NUM a c w) = fst (ans f a c) \<and>
                fst (snd (read_sensor E f ASC_SENSOR_I2C_BUS_NUM a c w)) = snd (ans f a c))"

text \<open>The answer of sensor \<open>x\<close> for type \<open>j\<close>: nothing when it is disabled or has no function.\<close>

definition sensor_answer ::
  "(nat \<Rightarrow> bool) \<Rightarrow> (nat \<Rightarrow> u8 \<Rightarrow> u8 \<Rightarrow> evl_status \<times> single) \<Rightarrow> ASCProxyDriverSensorData \<Rightarrow> nat \<Rightarrow> (evl_status \<times> single) option" where
  "sensor_answer en ans x j =
     (if en (pxSensorEnabled x)
      then map_option (\<lambda>f. ans f (ucSensorAddress x) (ucChannelNumber x j)) (ppxReadSensorFunc x j) else None)"

text \<open>The readings and the count of a cell after an answer, from those before.\<close>

definition cell_after ::
  "(evl_status \<times> single) option \<Rightarrow> ASCProxyDriverSensorReadings \<times> int \<Rightarrow> (ASCProxyDriverSensorReadings \<times> int) option" where
  "cell_after a = (\<lambda>(r, n).
     (case a of
        None \<Rightarrow> Some (r, n)
      | Some (st, v) \<Rightarrow>
          (if st = OK then map_option (\<lambda>r. (r, n + 1)) (take_reading v (word_of_int \<lfloor>v\<rfloor>) (n + 1) r)
           else Some (r\<lparr>xSensorStatus := ASC_PROXY_DRIVER_SENSOR_STATUS_DATA_NOT_AVAILABLE\<rparr>, n))))"

text \<open>A cell whose next reading is defined.\<close>

definition cell_fits :: "(evl_status \<times> single) option \<Rightarrow> ASCProxyDriverSensorReadings \<times> int \<Rightarrow> bool" where
  "cell_fits a = (\<lambda>(r, n).
     (case a of Some (OK, v) \<Rightarrow> 0 \<le> v \<and> v \<le> 2 ^ 30 \<and> uint (ulAverageSensorValue r) \<le> 2 ^ 30 \<and> 0 \<le> n \<and> n + 1 < 2 ^ 31
      | _ \<Rightarrow> True))"

lemma cell_fits_defined:
  assumes "cell_fits (Some (OK, v)) (r, n)"
  shows "single_to_u32 v = Some (word_of_int \<lfloor>v\<rfloor>)" "\<exists>r'. take_reading v (word_of_int \<lfloor>v\<rfloor>) (n + 1) r = Some r'"
  using assms running_average_defined [of "ulAverageSensorValue r" v "n + 1"]
  by (auto simp: cell_fits_def single_to_u32_defined take_reading_def)

text \<open>
  The state in the middle of a pass that started with table \<open>xs\<close> and counts \<open>c\<close>: the cells in
  \<open>D\<close> are done, the others are as they were.
\<close>

definition pass_inv ::
  "(nat \<Rightarrow> bool) \<Rightarrow> (nat \<Rightarrow> u8 \<Rightarrow> u8 \<Rightarrow> evl_status \<times> single) \<Rightarrow> ASCProxyDriverSensorData list \<Rightarrow> (nat \<Rightarrow> nat \<Rightarrow> int) \<Rightarrow>
   (nat \<Rightarrow> nat \<Rightarrow> bool) \<Rightarrow> asc_task \<times> 'w asc_st \<Rightarrow> bool" where
  "pass_inv en ans xs c D = (\<lambda>(t, s).
     task_rows t = length xs \<and>
     (\<exists>ys. asc_pxSensorData (asc_local s) = Some ys \<and> length ys = length xs \<and>
        (\<forall>i < length xs. ys ! i = (xs ! i)\<lparr>pxReadings := pxReadings (ys ! i)\<rparr> \<and>
           (\<forall>j < MAX_ASC_PROXY_DRIVER_SENSOR_TYPE.
              (if D i j then cell_after (sensor_answer en ans (xs ! i) j) (pxReadings (xs ! i) j, c i j)
               else Some (pxReadings (xs ! i) j, c i j)) = Some (pxReadings (ys ! i) j, iNumberOfReadings t i j)))))"

lemma pass_inv_world: "pass_inv en ans xs c D (t, s\<lparr>asc_outside := w\<rparr>) = pass_inv en ans xs c D (t, s)"
  by (simp add: pass_inv_def)

text \<open>A cell without an answer is done from the start.\<close>

lemma pass_inv_skip:
  assumes "pass_inv en ans xs c D (t, s)" and "\<And>i j. D' i j \<Longrightarrow> D i j \<or> sensor_answer en ans (xs ! i) j = None"
    and "\<And>i j. D i j \<Longrightarrow> D' i j"
  shows "pass_inv en ans xs c D' (t, s)"
proof -
  from assms(1) obtain ys where ys: "task_rows t = length xs" "asc_pxSensorData (asc_local s) = Some ys"
      "length ys = length xs"
    and st: "\<And>i. i < length xs \<Longrightarrow> ys ! i = (xs ! i)\<lparr>pxReadings := pxReadings (ys ! i)\<rparr>"
    and cell: "\<And>i j. i < length xs \<Longrightarrow> j < MAX_ASC_PROXY_DRIVER_SENSOR_TYPE \<Longrightarrow>
       (if D i j then cell_after (sensor_answer en ans (xs ! i) j) (pxReadings (xs ! i) j, c i j)
        else Some (pxReadings (xs ! i) j, c i j)) = Some (pxReadings (ys ! i) j, iNumberOfReadings t i j)"
    by (auto simp: pass_inv_def)
  have "(if D' i j then cell_after (sensor_answer en ans (xs ! i) j) (pxReadings (xs ! i) j, c i j)
        else Some (pxReadings (xs ! i) j, c i j)) = Some (pxReadings (ys ! i) j, iNumberOfReadings t i j)"
    if "i < length xs" "j < MAX_ASC_PROXY_DRIVER_SENSOR_TYPE" for i j
  proof (cases "D i j")
    case True
    with cell [OF that] assms(3) [OF True] show ?thesis by simp
  next
    case False
    then have "D' i j \<Longrightarrow> sensor_answer en ans (xs ! i) j = None" using assms(2) by blast
    with False cell [OF that] show ?thesis by (simp add: cell_after_def)
  qed
  with ys st show ?thesis by (auto simp: pass_inv_def)
qed

text \<open>Access to a sensor of the table in the middle of a pass.\<close>

lemma pass_inv_sensor:
  assumes "pass_inv en ans xs c D (t, s)" and "i < length xs"
  obtains y where "elem (asc_pxSensorData (asc_local s)) i = Some y"
    and "y = (xs ! i)\<lparr>pxReadings := pxReadings y\<rparr>"
  using assms by (auto simp: pass_inv_def elem_def)

lemma sensor_eqD:
  assumes "y = x\<lparr>pxReadings := f\<rparr>"
  shows "pxSensorEnabled y = pxSensorEnabled x" "ppxReadSensorFunc y = ppxReadSensorFunc x"
    "ucSensorAddress y = ucSensorAddress x" "ucChannelNumber y = ucChannelNumber x"
  using assms by simp_all

lemma sensor_readings_update: "y = x\<lparr>pxReadings := g\<rparr> \<Longrightarrow> y\<lparr>pxReadings := f\<rparr> = x\<lparr>pxReadings := f\<rparr>"
  by simp

text \<open>Storing the readings of one cell.\<close>

lemma pass_inv_store:
  assumes inv: "pass_inv en ans xs c D (t, s)" and ys: "asc_pxSensorData (asc_local s) = Some ys"
    and i: "i < length xs" and nD: "\<not> D i j"
    and new: "cell_after (sensor_answer en ans (xs ! i) j) (pxReadings (xs ! i) j, c i j) = Some (r, iNumberOfReadings t' i j)"
    and rows: "task_rows t' = task_rows t"
    and other: "\<And>a b. a \<noteq> i \<or> b \<noteq> j \<Longrightarrow> iNumberOfReadings t' a b = iNumberOfReadings t a b"
    and s': "asc_pxSensorData (asc_local s') = Some (ys[i := (ys ! i)\<lparr>pxReadings := (pxReadings (ys ! i))(j := r)\<rparr>])"
  shows "pass_inv en ans xs c (\<lambda>a b. D a b \<or> a = i \<and> b = j) (t', s')"
proof -
  let ?ys = "ys[i := (ys ! i)\<lparr>pxReadings := (pxReadings (ys ! i))(j := r)\<rparr>]"
  from inv ys have len: "task_rows t = length xs" "length ys = length xs"
    and st: "\<And>i. i < length xs \<Longrightarrow> ys ! i = (xs ! i)\<lparr>pxReadings := pxReadings (ys ! i)\<rparr>"
    and cell: "\<And>i j. i < length xs \<Longrightarrow> j < MAX_ASC_PROXY_DRIVER_SENSOR_TYPE \<Longrightarrow>
       (if D i j then cell_after (sensor_answer en ans (xs ! i) j) (pxReadings (xs ! i) j, c i j)
        else Some (pxReadings (xs ! i) j, c i j)) = Some (pxReadings (ys ! i) j, iNumberOfReadings t i j)"
    by (auto simp: pass_inv_def)
  have same: "?ys ! a = ys ! a" if "a \<noteq> i" for a
    using that by simp
  have at: "?ys ! i = (ys ! i)\<lparr>pxReadings := (pxReadings (ys ! i))(j := r)\<rparr>"
    using i len by simp
  have "?ys ! a = (xs ! a)\<lparr>pxReadings := pxReadings (?ys ! a)\<rparr>" if "a < length xs" for a
  proof (cases "a = i")
    case True
    show ?thesis unfolding True at by (simp add: sensor_readings_update [OF st [OF i]])
  next
    case False
    show ?thesis unfolding same [OF False] by (rule st [OF that])
  qed
  moreover have "(if D a b \<or> a = i \<and> b = j then cell_after (sensor_answer en ans (xs ! a) b) (pxReadings (xs ! a) b, c a b)
        else Some (pxReadings (xs ! a) b, c a b)) = Some (pxReadings (?ys ! a) b, iNumberOfReadings t' a b)"
    if "a < length xs" "b < MAX_ASC_PROXY_DRIVER_SENSOR_TYPE" for a b
  proof (cases "a = i \<and> b = j")
    case True
    with new at show ?thesis by simp
  next
    case False
    then have "pxReadings (?ys ! a) b = pxReadings (ys ! a) b"
      using at same [of a] by (cases "a = i") simp_all
    with cell [OF that] other [of a b] False show ?thesis by auto
  qed
  ultimately show ?thesis
    using len rows s' by (auto simp: pass_inv_def)
qed

text \<open>Reading one cell.\<close>

lemma count_reading_cell:
  "i < task_rows t \<Longrightarrow> j < MAX_ASC_PROXY_DRIVER_SENSOR_TYPE \<Longrightarrow> iNumberOfReadings t i j + 1 < 2 ^ 31 \<Longrightarrow>
   \<exists>t'. count_reading i j v t = Some (iNumberOfReadings t i j + 1, t') \<and> task_rows t' = task_rows t \<and>
     iNumberOfReadings t' i j = iNumberOfReadings t i j + 1 \<and>
     (\<forall>a b. a \<noteq> i \<or> b \<noteq> j \<longrightarrow> iNumberOfReadings t' a b = iNumberOfReadings t a b)"
  by (auto simp: count_reading_def Let_def)

lemma set_reading_cell:
  assumes "asc_pxSensorData (asc_local s) = Some ys" "i < length ys" "j < MAX_ASC_PROXY_DRIVER_SENSOR_TYPE"
  shows "\<exists>s'. set_reading i j r s = Some s' \<and>
    asc_pxSensorData (asc_local s') = Some (ys[i := (ys ! i)\<lparr>pxReadings := (pxReadings (ys ! i))(j := r)\<rparr>])"
  using assms by (simp add: set_reading_def set_sensor_def set_elem_def elem_def arr_set_def upd_asc_def)

lemma read_one_pass:
  assumes E: "steady E en ans" and inv: "pass_inv en ans xs c D (t, s)" and i: "i < length xs"
    and j: "j < MAX_ASC_PROXY_DRIVER_SENSOR_TYPE" and nD: "\<not> D i j" and on: "en (pxSensorEnabled (xs ! i))"
    and fits: "cell_fits (sensor_answer en ans (xs ! i) j) (pxReadings (xs ! i) j, c i j)"
  shows "okay (read_one E i j (t, s)) (pass_inv en ans xs c (\<lambda>a b. D a b \<or> a = i \<and> b = j))"
proof -
  from inv obtain ys where rows: "task_rows t = length xs" and ys: "asc_pxSensorData (asc_local s) = Some ys"
    and len: "length ys = length xs"
    and st: "\<And>i. i < length xs \<Longrightarrow> ys ! i = (xs ! i)\<lparr>pxReadings := pxReadings (ys ! i)\<rparr>"
    and cell: "\<And>i j. i < length xs \<Longrightarrow> j < MAX_ASC_PROXY_DRIVER_SENSOR_TYPE \<Longrightarrow>
       (if D i j then cell_after (sensor_answer en ans (xs ! i) j) (pxReadings (xs ! i) j, c i j)
        else Some (pxReadings (xs ! i) j, c i j)) = Some (pxReadings (ys ! i) j, iNumberOfReadings t i j)"
    by (auto simp: pass_inv_def)
  note st = st [OF i]
  have old: "pxReadings (ys ! i) j = pxReadings (xs ! i) j" "iNumberOfReadings t i j = c i j"
    using cell [OF i j] nD by simp_all
  note y = sensor_eqD [OF st]
  have el: "elem (asc_pxSensorData (asc_local s)) i = Some (ys ! i)"
    using ys len i by (simp add: elem_def)
  show ?thesis
  proof (cases "ppxReadSensorFunc (xs ! i) j")
    case None
    then have none: "sensor_answer en ans (xs ! i) j = None" by (simp add: sensor_answer_def)
    have "pass_inv en ans xs c (\<lambda>a b. D a b \<or> a = i \<and> b = j) (t, s)"
      by (rule pass_inv_skip [OF inv]) (use none in auto)
    with None el y j show ?thesis by (simp add: read_one_def arr_get_def)
  next
    case (Some f)
    let ?q = "ans f (ucSensorAddress (xs ! i)) (ucChannelNumber (xs ! i) j)"
    have a: "sensor_answer en ans (xs ! i) j = Some ?q"
      using on Some by (simp add: sensor_answer_def)
    obtain st v where sv: "?q = (st, v)" by fastforce
    define w where "w = snd (snd (read_sensor E f ASC_SENSOR_I2C_BUS_NUM (ucSensorAddress (xs ! i))
        (ucChannelNumber (xs ! i) j) (asc_outside s)))"
    have rd: "read_sensor E f ASC_SENSOR_I2C_BUS_NUM (ucSensorAddress (xs ! i)) (ucChannelNumber (xs ! i) j)
        (asc_outside s) = (st, v, w)"
      using E sv by (simp add: steady_def w_def prod_eq_iff)
    let ?s = "s\<lparr>asc_outside := w\<rparr>"
    have ys': "asc_pxSensorData (asc_local ?s) = Some ys" "i < length ys" using ys len i by simp_all
    show ?thesis
    proof (cases st)
      case OK
      from cell_fits_defined [of v "pxReadings (xs ! i) j" "c i j"] fits a sv OK
      obtain r where val: "single_to_u32 v = Some (word_of_int \<lfloor>v\<rfloor>)"
        and r: "take_reading v (word_of_int \<lfloor>v\<rfloor>) (c i j + 1) (pxReadings (xs ! i) j) = Some r" by auto
      have n: "iNumberOfReadings t i j + 1 < 2 ^ 31"
        using fits a sv OK by (simp add: cell_fits_def old)
      obtain t' where t': "count_reading i j (word_of_int \<lfloor>v\<rfloor>) t = Some (iNumberOfReadings t i j + 1, t')"
        "task_rows t' = task_rows t" "iNumberOfReadings t' i j = c i j + 1"
        "\<And>a b. a \<noteq> i \<or> b \<noteq> j \<Longrightarrow> iNumberOfReadings t' a b = iNumberOfReadings t a b"
        using count_reading_cell [OF _ j n] i rows old by metis
      obtain s' where s': "set_reading i j r ?s = Some s'"
        "asc_pxSensorData (asc_local s') = Some (ys[i := (ys ! i)\<lparr>pxReadings := (pxReadings (ys ! i))(j := r)\<rparr>])"
        using set_reading_cell [OF ys' j] by metis
      have "pass_inv en ans xs c (\<lambda>a b. D a b \<or> a = i \<and> b = j) (t', s')"
        by (rule pass_inv_store [OF inv ys i nD _ t'(2) t'(4) s'(2)]) (simp_all add: a sv OK cell_after_def r t'(3))
      with el y j Some rd val r t' s' OK old show ?thesis
        by (simp add: read_one_def arr_get_def)
    next
      case ERROR
      let ?r = "(pxReadings (xs ! i) j)\<lparr>xSensorStatus := ASC_PROXY_DRIVER_SENSOR_STATUS_DATA_NOT_AVAILABLE\<rparr>"
      obtain s' where s': "set_reading i j ?r ?s = Some s'"
        "asc_pxSensorData (asc_local s') = Some (ys[i := (ys ! i)\<lparr>pxReadings := (pxReadings (ys ! i))(j := ?r)\<rparr>])"
        using set_reading_cell [OF ys' j] by metis
      have "pass_inv en ans xs c (\<lambda>a b. D a b \<or> a = i \<and> b = j) (t, s')"
        by (rule pass_inv_store [OF inv ys i nD _ _ _ s'(2)]) (simp_all add: a sv ERROR cell_after_def old)
      with el y j Some rd s' ERROR old show ?thesis
        by (simp add: read_one_def arr_get_def)
    qed
  qed
qed

lemma read_types_pass:
  fixes E :: "'w asc_env"
  assumes E: "steady E en ans" and inv: "pass_inv en ans xs c (\<lambda>a b. a < i) (t, s)" and i: "i < length xs"
    and on: "en (pxSensorEnabled (xs ! i))"
    and fits: "\<And>j. j < MAX_ASC_PROXY_DRIVER_SENSOR_TYPE \<Longrightarrow>
       cell_fits (sensor_answer en ans (xs ! i) j) (pxReadings (xs ! i) j, c i j)"
  shows "okay (for_each (read_one E i) [0..<MAX_ASC_PROXY_DRIVER_SENSOR_TYPE] (t, s))
     (pass_inv en ans xs c (\<lambda>a b. a < i \<or> a = i \<and> b < MAX_ASC_PROXY_DRIVER_SENSOR_TYPE))"
proof (rule for_each_upt_okay [where P = "\<lambda>j. pass_inv en ans xs c (\<lambda>a b. a < i \<or> a = i \<and> b < j)"])
  fix j and x :: "asc_task \<times> 'w asc_st"
  assume j: "j < MAX_ASC_PROXY_DRIVER_SENSOR_TYPE" and x: "pass_inv en ans xs c (\<lambda>a b. a < i \<or> a = i \<and> b < j) x"
  obtain t' s' where x': "x = (t', s')" by fastforce
  have "(\<lambda>a b. (a < i \<or> a = i \<and> b < j) \<or> a = i \<and> b = j) = (\<lambda>a b. a < i \<or> a = i \<and> b < Suc j)"
    by (auto simp: fun_eq_iff)
  with read_one_pass [OF E x [unfolded x'] i j _ on fits [OF j]]
  show "okay (read_one E i j x) (pass_inv en ans xs c (\<lambda>a b. a < i \<or> a = i \<and> b < Suc j))"
    by (simp add: x')
qed (use inv in simp_all)

lemma pass_inv_cong:
  assumes "pass_inv en ans xs c D x"
    and "\<And>a b. a < length xs \<Longrightarrow> b < MAX_ASC_PROXY_DRIVER_SENSOR_TYPE \<Longrightarrow> D a b = D' a b"
  shows "pass_inv en ans xs c D' x"
  using assms by (cases x) (simp add: pass_inv_def)

lemma read_sensor_at_pass:
  assumes E: "steady E en ans" and inv: "pass_inv en ans xs c (\<lambda>a b. a < i) (t, s)" and i: "i < length xs"
    and fits: "\<And>j. j < MAX_ASC_PROXY_DRIVER_SENSOR_TYPE \<Longrightarrow>
       cell_fits (sensor_answer en ans (xs ! i) j) (pxReadings (xs ! i) j, c i j)"
  shows "okay (read_sensor_at E i (t, s)) (pass_inv en ans xs c (\<lambda>a b. a < Suc i))"
proof -
  from inv obtain ys where ys: "asc_pxSensorData (asc_local s) = Some ys" "length ys = length xs"
    and st: "ys ! i = (xs ! i)\<lparr>pxReadings := pxReadings (ys ! i)\<rparr>"
    using i by (auto simp: pass_inv_def)
  have el: "elem (asc_pxSensorData (asc_local s)) i = Some (ys ! i)"
    using ys i by (simp add: elem_def)
  have on: "fst (sensor_enabled E (pxSensorEnabled (ys ! i)) (asc_outside s)) = en (pxSensorEnabled (xs ! i))"
    using E sensor_eqD(1) [OF st] by (simp add: steady_def)
  define w where "w = snd (sensor_enabled E (pxSensorEnabled (ys ! i)) (asc_outside s))"
  have call: "asc_enabled E (ys ! i) s = (en (pxSensorEnabled (xs ! i)), s\<lparr>asc_outside := w\<rparr>)"
    using on by (simp add: asc_enabled_def w_def split_beta)
  have inv': "pass_inv en ans xs c (\<lambda>a b. a < i) (t, s\<lparr>asc_outside := w\<rparr>)"
    using inv by (simp add: pass_inv_world)
  show ?thesis
  proof (cases "en (pxSensorEnabled (xs ! i))")
    case True
    from read_types_pass [OF E inv' i True fits]
    have "okay (for_each (read_one E i) [0..<MAX_ASC_PROXY_DRIVER_SENSOR_TYPE] (t, s\<lparr>asc_outside := w\<rparr>))
       (pass_inv en ans xs c (\<lambda>a b. a < Suc i))"
      by (rule okay_weaken) (auto elim!: pass_inv_cong)
    with True el call show ?thesis by (simp add: read_sensor_at_def)
  next
    case False
    have "pass_inv en ans xs c (\<lambda>a b. a < Suc i) (t, s\<lparr>asc_outside := w\<rparr>)"
      by (rule pass_inv_skip [OF inv']) (use False in \<open>auto simp: sensor_answer_def less_Suc_eq\<close>)
    with False el call show ?thesis by (simp add: read_sensor_at_def)
  qed
qed

text \<open>
  C25: one pass over the sensors, with a table of any length whose readings and averages stay
  below \<open>2 ^ 30\<close>, is defined and does to every cell of the table what its sensor's answer
  calls for, and nothing else: a value is stored with its status, the running average and the
  maximum, and counted; an error only changes the status; a disabled sensor and a type
  without a reading function keep their readings; the other members of every entry, such as
  its name and limits of addressing, are not changed.
\<close>

theorem sensor_pass_records:
  fixes E :: "'w asc_env"
  assumes "steady E en ans"
    and "asc_pxSensorData (asc_local s) = Some xs" and "unat (asc_ucNumSensors (asc_local s)) = length xs"
    and "task_rows t = length xs"
    and "\<forall>i < length xs. \<forall>j < MAX_ASC_PROXY_DRIVER_SENSOR_TYPE.
      cell_fits (sensor_answer en ans (xs ! i) j) (pxReadings (xs ! i) j, iNumberOfReadings t i j)"
  shows "okay (read_sensors E (t, s)) (\<lambda>(t', s'). \<exists>ys.
    asc_pxSensorData (asc_local s') = Some ys \<and> length ys = length xs \<and>
    (\<forall>i < length xs. ys ! i = (xs ! i)\<lparr>pxReadings := pxReadings (ys ! i)\<rparr> \<and>
       (\<forall>j < MAX_ASC_PROXY_DRIVER_SENSOR_TYPE.
          cell_after (sensor_answer en ans (xs ! i) j) (pxReadings (xs ! i) j, iNumberOfReadings t i j) =
          Some (pxReadings (ys ! i) j, iNumberOfReadings t' i j))))"
proof -
  let ?inv = "\<lambda>k (x :: asc_task \<times> 'w asc_st). pass_inv en ans xs (iNumberOfReadings t) (\<lambda>a b. a < k) x"
  have "okay (for_each (read_sensor_at E) [0..<length xs] (t, s)) (?inv (length xs))"
  proof (rule for_each_upt_okay [where P = ?inv])
    fix i x
    assume i: "i < length xs" and x: "?inv i x"
    obtain t' s' where x': "x = (t', s')" by fastforce
    show "okay (read_sensor_at E i x) (?inv (Suc i))"
      using read_sensor_at_pass [OF assms(1) x [unfolded x'] i] assms(5) i by (simp add: x')
  qed (use assms(2,4) in \<open>simp_all add: pass_inv_def\<close>)
  then have "okay (read_sensors E (t, s)) (?inv (length xs))"
    using assms(3) by (simp add: read_sensors_def)
  then show ?thesis by (rule okay_weaken) (auto simp: pass_inv_def)
qed

text \<open>An example: two sensors, the first with a temperature of 42.5, the second disabled.\<close>

definition sample_asc_env :: "unit asc_env" where
  "sample_asc_env = \<lparr>asc_evl_part = \<lparr>mutex_create = Pair (Some 5), mutex_take = (\<lambda>m. Pair True),
       mutex_release = (\<lambda>m. Pair True), mem_alloc = Pair True, uptime_ms = Pair 7,
       evl_callback = (\<lambda>cb sig. Pair OK)\<rparr>,
     asc_task_create = Pair True, sensor_enabled = (\<lambda>f. Pair (f = 1)),
     read_sensor = (\<lambda>f b a c w. (OK, 85 / 2, w)), asc_uptime_ticks = Pair 0, asc_sleep = (\<lambda>n w. w)\<rparr>"

definition zero_reading :: ASCProxyDriverSensorReadings where
  "zero_reading = \<lparr>ulSensorValue = 0, ulLowerWarningLimit = ASC_SENSOR_INVALID_VAL,
     ulLowerCriticalLimit = ASC_SENSOR_INVALID_VAL, ulLowerFatalLimit = ASC_SENSOR_INVALID_VAL,
     ulUpperWarningLimit = 40, ulUpperCriticalLimit = 100, ulUpperFatalLimit = 110, ulAverageSensorValue = 0,
     ulMaxSensorValue = 0, xSensorStatus = ASC_PROXY_DRIVER_SENSOR_STATUS_NOT_PRESENT,
     xSensorOperationalStatus = ASC_PROXY_DRIVER_SENSOR_OPERATIONAL_STATUS_ENABLED,
     xSensorUnitModifier = ASC_PROXY_DRIVER_SENSOR_UNIT_MOD_NONE\<rparr>"

definition sample_sensor :: "nat \<Rightarrow> ASCProxyDriverSensorData" where
  "sample_sensor f = \<lparr>pcSensorName = [0x54, 0] @ replicate 18 0, ucSensorId = of_nat f,
     ucSensorType = ASC_PROXY_DRIVER_SENSOR_BITFIELD_TEMPERATURE, ucTotalPowerSensor = 0, ucSensorAddress = 0x48,
     ucChannelNumber = (\<lambda>_. 0), pxSensorEnabled = f, ppxReadSensorFunc = (\<lambda>j. if j = 0 then Some 9 else None),
     pxReadings = (\<lambda>_. zero_reading), ulThresholdStatus = ASC_PROXY_DRIVER_SENSOR_THRESHOLD_STATUS_HEALTHY\<rparr>"

definition sample_asc :: "unit asc_st" where
  "sample_asc = \<lparr>asc_local = initial_asc_local\<lparr>asc_iInitialised := True, asc_ucMyId := AMC_CFG_UNIQUE_ID_ASC,
       asc_pvOsalMutexHdl := Some 5, asc_pxSensorData := Some [sample_sensor 1, sample_sensor 2],
       asc_ucNumSensors := 2, asc_xState := MODULE_STATE_OK\<rparr>,
     asc_evl = sample_evl_data, asc_outside = ()\<rparr>"

lemma sample_average: "running_average 0 (85 / 2) 1 = Some 42" "\<lfloor>85 / 2 :: rat\<rfloor> = 42"
  by code_simp (simp add: floor_eq_iff)

lemma sensor_pass_records_witness:
  "okay (read_sensors sample_asc_env (start_task (sample_asc), sample_asc)) (\<lambda>(t', s'). \<exists>ys.
     asc_pxSensorData (asc_local s') = Some ys \<and> length ys = 2 \<and>
     pxReadings (ys ! 0) 0 = zero_reading\<lparr>ulSensorValue := 42, ulAverageSensorValue := 42, ulMaxSensorValue := 42,
       xSensorStatus := ASC_PROXY_DRIVER_SENSOR_STATUS_PRESENT_AND_VALID\<rparr> \<and> pxReadings (ys ! 1) 0 = zero_reading \<and>
     iNumberOfReadings t' 0 0 = 1 \<and> iNumberOfReadings t' 1 0 = 0)"
proof (rule okay_weaken [OF sensor_pass_records [where en = "\<lambda>f. f = 1" and ans = "\<lambda>f a c. (OK, 85 / 2)" and
      xs = "[sample_sensor 1, sample_sensor 2]"]])
  show "steady sample_asc_env (\<lambda>f. f = 1) (\<lambda>f a c. (OK, 85 / 2))"
    by (simp add: steady_def sample_asc_env_def)
  show "\<forall>i < length [sample_sensor 1, sample_sensor 2]. \<forall>j < MAX_ASC_PROXY_DRIVER_SENSOR_TYPE.
      cell_fits (sensor_answer (\<lambda>f. f = 1) (\<lambda>f a c. (OK, 85 / 2)) ([sample_sensor 1, sample_sensor 2] ! i) j)
        (pxReadings ([sample_sensor 1, sample_sensor 2] ! i) j, iNumberOfReadings (start_task (sample_asc)) i j)"
    by (simp add: cell_fits_def sensor_answer_def sample_sensor_def zero_reading_def start_task_def less_Suc_eq)
next
  fix x :: "asc_task \<times> unit asc_st"
  let ?xs = "[sample_sensor 1, sample_sensor 2]"
  assume h: "case x of (t', s') \<Rightarrow> \<exists>ys.
    asc_pxSensorData (asc_local s') = Some ys \<and> length ys = length ?xs \<and>
    (\<forall>i < length ?xs. ys ! i = (?xs ! i)\<lparr>pxReadings := pxReadings (ys ! i)\<rparr> \<and>
       (\<forall>j < MAX_ASC_PROXY_DRIVER_SENSOR_TYPE.
          cell_after (sensor_answer (\<lambda>f. f = 1) (\<lambda>f a c. (OK, 85 / 2)) (?xs ! i) j)
            (pxReadings (?xs ! i) j, iNumberOfReadings (start_task (sample_asc)) i j) =
          Some (pxReadings (ys ! i) j, iNumberOfReadings t' i j)))"
  have "cell_after (sensor_answer (\<lambda>f. f = 1) (\<lambda>f a c. (OK, 85 / 2)) (?xs ! 0) 0) (pxReadings (?xs ! 0) 0, 0) =
      Some (zero_reading\<lparr>ulSensorValue := 42, ulAverageSensorValue := 42, ulMaxSensorValue := 42,
       xSensorStatus := ASC_PROXY_DRIVER_SENSOR_STATUS_PRESENT_AND_VALID\<rparr>, 1)"
    "cell_after (sensor_answer (\<lambda>f. f = 1) (\<lambda>f a c. (OK, 85 / 2)) (?xs ! 1) 0) (pxReadings (?xs ! 1) 0, 0) =
      Some (zero_reading, 0)"
    by (simp_all add: cell_after_def sensor_answer_def sample_sensor_def take_reading_def sample_average zero_reading_def)
  with h show "case x of (t', s') \<Rightarrow> \<exists>ys.
     asc_pxSensorData (asc_local s') = Some ys \<and> length ys = 2 \<and>
     pxReadings (ys ! 0) 0 = zero_reading\<lparr>ulSensorValue := 42, ulAverageSensorValue := 42, ulMaxSensorValue := 42,
       xSensorStatus := ASC_PROXY_DRIVER_SENSOR_STATUS_PRESENT_AND_VALID\<rparr> \<and> pxReadings (ys ! 1) 0 = zero_reading \<and>
     iNumberOfReadings t' 0 0 = 1 \<and> iNumberOfReadings t' 1 0 = 0"
    by (fastforce simp: start_task_def)
qed (simp_all add: sample_asc_def start_task_def)

section \<open>A reading below minus one\<close>

text \<open>The members of the table the task does not write.\<close>

definition same_sensors :: "ASCProxyDriverSensorData list \<Rightarrow> asc_task \<times> 'w asc_st \<Rightarrow> bool" where
  "same_sensors xs = (\<lambda>(t, s). \<exists>ys. asc_pxSensorData (asc_local s) = Some ys \<and> length ys = length xs \<and>
     (\<forall>i < length xs. ys ! i = (xs ! i)\<lparr>pxReadings := pxReadings (ys ! i)\<rparr>))"

lemma same_sensors_set_reading:
  assumes "same_sensors xs (t, s)"
  shows "post (set_reading i j r s) (\<lambda>s'. same_sensors xs (t', s'))"
proof (rule postI)
  fix s'
  assume s': "set_reading i j r s = Some s'"
  from assms obtain ys where ys: "asc_pxSensorData (asc_local s) = Some ys" "length ys = length xs"
    and st: "\<And>i. i < length xs \<Longrightarrow> ys ! i = (xs ! i)\<lparr>pxReadings := pxReadings (ys ! i)\<rparr>"
    by (auto simp: same_sensors_def)
  let ?ys = "ys[i := (ys ! i)\<lparr>pxReadings := (pxReadings (ys ! i))(j := r)\<rparr>]"
  from s' ys have i: "i < length xs" and s'': "asc_pxSensorData (asc_local s') = Some ?ys"
    by (auto simp: set_reading_def set_sensor_def set_elem_def elem_def upd_asc_def bind_eq_Some_conv split: if_splits)
  have at: "?ys ! i = (ys ! i)\<lparr>pxReadings := (pxReadings (ys ! i))(j := r)\<rparr>" using i ys by simp
  have "?ys ! a = (xs ! a)\<lparr>pxReadings := pxReadings (?ys ! a)\<rparr>" if a: "a < length xs" for a
  proof (cases "a = i")
    case True
    show ?thesis unfolding True at by (simp add: sensor_readings_update [OF st [OF i]])
  next
    case False
    then have at: "?ys ! a = ys ! a" by simp
    show ?thesis unfolding at by (rule st [OF a])
  qed
  with s'' ys(2) show "same_sensors xs (t', s')" by (auto simp: same_sensors_def)
qed

lemma same_sensors_world: "same_sensors xs (t, s) \<Longrightarrow> same_sensors xs (t', s\<lparr>asc_outside := w\<rparr>)"
  by (simp add: same_sensors_def)

lemma read_one_same: "same_sensors xs x \<Longrightarrow> post (read_one E i j x) (same_sensors xs)"
  by (cases x) (auto simp: read_one_def post_bind_iff Let_def split: option.split prod.split
      intro!: postI dest: postD [OF same_sensors_set_reading [OF same_sensors_world]])

lemma for_each_None:
  assumes "x \<in> set xs" and "P s" and "\<And>y s. P s \<Longrightarrow> post (f y s) P" and "\<And>s. P s \<Longrightarrow> f x s = None"
  shows "for_each f xs s = None"
  using assms(1,2)
proof (induction xs arbitrary: s)
  case (Cons y ys)
  show ?case
  proof (cases "x = y")
    case False
    with Cons.prems have "x \<in> set ys" by simp
    with Cons.IH postD [OF assms(3) [OF Cons.prems(2)]] show ?thesis
      by (cases "f y s") auto
  qed (use assms(4) Cons.prems in simp)
qed simp

lemma read_sensor_at_same: "same_sensors xs x \<Longrightarrow> post (read_sensor_at E i x) (same_sensors xs)"
  by (cases x) (auto simp: read_sensor_at_def asc_enabled_def post_bind_iff split: prod.split
      intro!: postI elim: same_sensors_world dest: postD [OF for_each_post [OF same_sensors_world read_one_same]])

text \<open>
  C26: a sensor whose reading is -1 or less: the pass over the sensors has no defined result,
  since the code converts the floating-point value to an unsigned integer. One such reading of
  one enabled sensor is enough, whatever the other sensors answer.
\<close>

theorem negative_reading_undefined:
  fixes E :: "'w asc_env"
  assumes "steady E en ans"
    and "asc_pxSensorData (asc_local s) = Some xs" and "unat (asc_ucNumSensors (asc_local s)) = length xs"
    and "i < length xs" and "j < MAX_ASC_PROXY_DRIVER_SENSOR_TYPE"
    and "sensor_answer en ans (xs ! i) j = Some (OK, v)" and "v \<le> - 1"
  shows "read_sensors E (t, s) = None"
proof -
  from assms(6) obtain f where on: "en (pxSensorEnabled (xs ! i))" and f: "ppxReadSensorFunc (xs ! i) j = Some f"
    and ans: "ans f (ucSensorAddress (xs ! i)) (ucChannelNumber (xs ! i) j) = (OK, v)"
    by (auto simp: sensor_answer_def split: if_splits option.splits)
  have at: "\<exists>ys. asc_pxSensorData (asc_local s) = Some ys \<and> i < length ys \<and>
      ys ! i = (xs ! i)\<lparr>pxReadings := pxReadings (ys ! i)\<rparr>"
    if "same_sensors xs (t, s)" for t and s :: "'w asc_st"
    using that assms(4) by (auto simp: same_sensors_def)
  have neg: "single_to_u32 v = None"
    using assms(7) by (simp add: single_to_u32_def not_le)
  have one: "read_one E i j x = None" if "same_sensors xs x" for x
  proof -
    obtain t s where x: "x = (t, s)" by fastforce
    from at [OF that [unfolded x]] obtain ys where ys: "asc_pxSensorData (asc_local s) = Some ys" "i < length ys"
      and st: "ys ! i = (xs ! i)\<lparr>pxReadings := pxReadings (ys ! i)\<rparr>" by blast
    obtain w where call: "read_sensor E f ASC_SENSOR_I2C_BUS_NUM (ucSensorAddress (xs ! i))
        (ucChannelNumber (xs ! i) j) (asc_outside s) = (OK, v, w)"
      using assms(1) ans by (simp add: steady_def prod_eq_iff)
    show ?thesis
      using assms(5) f call neg
      by (simp add: x read_one_def ys elem_def sensor_eqD [OF st] arr_get_def)
  qed
  have row: "read_sensor_at E i x = None" if inv: "same_sensors xs x" for x
  proof -
    obtain t s where x: "x = (t, s)" by fastforce
    from at [OF inv [unfolded x]] obtain ys where ys: "asc_pxSensorData (asc_local s) = Some ys" "i < length ys"
      and st: "ys ! i = (xs ! i)\<lparr>pxReadings := pxReadings (ys ! i)\<rparr>" by blast
    have el: "elem (asc_pxSensorData (asc_local s)) i = Some (ys ! i)"
      using ys by (simp add: elem_def)
    obtain w where call: "asc_enabled E (ys ! i) s = (True, s\<lparr>asc_outside := w\<rparr>)"
      using assms(1) on sensor_eqD(1) [OF st] by (simp add: asc_enabled_def steady_def split_beta)
    have "for_each (read_one E i) [0..<MAX_ASC_PROXY_DRIVER_SENSOR_TYPE] (t, s\<lparr>asc_outside := w\<rparr>) = None"
      by (rule for_each_None [where x = j and P = "same_sensors xs"])
         (use assms(5) inv x in \<open>simp_all add: read_one_same same_sensors_world one\<close>)
    with el call show ?thesis by (simp add: x read_sensor_at_def)
  qed
  have "same_sensors xs (t, s)" using assms(2) by (simp add: same_sensors_def)
  then have "for_each (read_sensor_at E) [0..<length xs] (t, s) = None"
    by (rule for_each_None [where x = i and P = "same_sensors xs", rotated])
       (use assms(4) in \<open>simp_all add: read_sensor_at_same row\<close>)
  with assms(3) show ?thesis by (simp add: read_sensors_def)
qed

lemma negative_reading_undefined_witness:
  "read_sensors (sample_asc_env\<lparr>read_sensor := \<lambda>f b a c w. (OK, - 5 / 2, w)\<rparr>) (start_task sample_asc, sample_asc) = None"
proof (rule negative_reading_undefined [where en = "\<lambda>f. f = 1" and ans = "\<lambda>f a c. (OK, - 5 / 2)" and i = 0 and j = 0
      and v = "- 5 / 2" and xs = "[sample_sensor 1, sample_sensor 2]"])
qed (simp_all add: steady_def sample_asc_env_def sensor_answer_def sample_sensor_def sample_asc_def)

end
