(* ===== verification/ASDM_Values.thy ===== *)
theory ASDM_Values
  imports ASDM_Update ASC_Readings
begin

text \<open>
  The sensor proxy's update event and the records it refreshes: what a well-formed repository
  is, the loops over its records, and that after the event every record shows the readings
  the proxy handed out and the total power is the sum of the sensors that count for it.
\<close>

section \<open>The record arrays\<close>

text \<open>The records of repository \<open>r\<close>, if it has any.\<close>

definition sdr_recs :: "'w asdm_st \<Rightarrow> nat \<Rightarrow> ASDMSdrRecord list option" where
  "sdr_recs s r = do { x \<leftarrow> sdr_at r s; p \<leftarrow> sensor_records x; p }"

definition sds_recs :: "'w asdm_st \<Rightarrow> nat \<Rightarrow> ASDMSdsRecord list option" where
  "sds_recs s r = do { x \<leftarrow> sds_at r s; sds_pxSensorRecord x }"

lemma get_sdr_record_recs: "get_sdr_record r i s = elem (sdr_recs s r) i"
  by (cases "sdr_at r s") (auto simp: get_sdr_record_def sdr_recs_def elem_def bind_assoc split: Option.bind_split)

lemma get_sds_record_recs: "get_sds_record r i s = elem (sds_recs s r) i"
  by (cases "sds_at r s") (auto simp: get_sds_record_def sds_recs_def elem_def)

text \<open>Only the two record arrays may differ.\<close>

definition same_but_records :: "'w asdm_st \<Rightarrow> 'w asdm_st \<Rightarrow> bool" where
  "same_but_records s s' \<longleftrightarrow> asdm_outside s' = asdm_outside s \<and>
     (\<exists>a b. asdm s' = (asdm s)\<lparr>pxAsdmSdrInfo := a, pxAsdmSdsInfo := b\<rparr>)"

lemma same_but_recordsD:
  assumes "same_but_records s s'"
  shows "asdm_outside s' = asdm_outside s" "pxAscData (asdm s') = pxAscData (asdm s)"
    "pxSensorList (asdm s') = pxSensorList (asdm s)"
    "asdm_firewalls_ok s' = asdm_firewalls_ok s" "asdm_pvOsalMutexHdl (asdm s') = asdm_pvOsalMutexHdl (asdm s)"
    "ulPowerCalcIterations (asdm s') = ulPowerCalcIterations (asdm s)"
    "ulAveragePower (asdm s') = ulAveragePower (asdm s)" "ulMaxPower (asdm s') = ulMaxPower (asdm s)"
proof -
  from assms obtain a b where "asdm_outside s' = asdm_outside s" "asdm s' = (asdm s)\<lparr>pxAsdmSdrInfo := a, pxAsdmSdsInfo := b\<rparr>"
    by (auto simp: same_but_records_def)
  then show "asdm_outside s' = asdm_outside s" "pxAscData (asdm s') = pxAscData (asdm s)"
    "pxSensorList (asdm s') = pxSensorList (asdm s)"
    "asdm_firewalls_ok s' = asdm_firewalls_ok s" "asdm_pvOsalMutexHdl (asdm s') = asdm_pvOsalMutexHdl (asdm s)"
    "ulPowerCalcIterations (asdm s') = ulPowerCalcIterations (asdm s)"
    "ulAveragePower (asdm s') = ulAveragePower (asdm s)" "ulMaxPower (asdm s') = ulMaxPower (asdm s)"
    by (simp_all add: asdm_firewalls_ok_def)
qed

lemma same_but_records_refl [simp]: "same_but_records s s"
  by (auto simp: same_but_records_def intro!: exI [where x = "pxAsdmSdrInfo (asdm s)"] exI [where x = "pxAsdmSdsInfo (asdm s)"])

lemma same_but_records_sdr [simp]: "same_but_records s (upd_asdm (pxAsdmSdrInfo_update f) s)"
  by (auto simp: same_but_records_def upd_asdm_def intro!: exI [where x = "f (pxAsdmSdrInfo (asdm s))"]
      exI [where x = "pxAsdmSdsInfo (asdm s)"])

lemma same_but_records_sds [simp]: "same_but_records s (upd_asdm (pxAsdmSdsInfo_update f) s)"
  by (auto simp: same_but_records_def upd_asdm_def intro!: exI [where x = "f (pxAsdmSdsInfo (asdm s))"]
      exI [where x = "pxAsdmSdrInfo (asdm s)"])

lemma same_but_records_trans:
  assumes "same_but_records s s'" and "same_but_records s' s''"
  shows "same_but_records s s''"
proof -
  from assms obtain a b c d where "asdm_outside s' = asdm_outside s" "asdm_outside s'' = asdm_outside s'"
    and "asdm s' = (asdm s)\<lparr>pxAsdmSdrInfo := a, pxAsdmSdsInfo := b\<rparr>"
    and "asdm s'' = (asdm s')\<lparr>pxAsdmSdrInfo := c, pxAsdmSdsInfo := d\<rparr>"
    by (auto simp: same_but_records_def)
  then show ?thesis by (auto simp: same_but_records_def)
qed

text \<open>Storing a record of an array.\<close>

lemma set_sdr_record_recs:
  assumes "sdr_recs s r = Some recs" and "i < length recs"
  shows "okay (set_sdr_record r i v s) (\<lambda>s'. same_but_records s s' \<and> sdr_recs s' = (sdr_recs s)(r := Some (recs[i := v])) \<and>
    sds_recs s' = sds_recs s)"
proof -
  from assms(1) obtain x where x: "sdr_at r s = Some x" "sensor_records x = Some (Some recs)"
    by (auto simp: sdr_recs_def bind_eq_Some_conv)
  then obtain xs where xs: "pxAsdmSdrInfo (asdm s) = Some xs" "r < length xs" "xs ! r = x"
    by (auto simp: sdr_at_def elem_Some_iff)
  let ?s = "upd_asdm (\<lambda>d. d\<lparr>pxAsdmSdrInfo := Some (xs[r := x\<lparr>sdr_payload := SensorRecords (Some (recs[i := v]))\<rparr>])\<rparr>) s"
  have "set_sdr_record r i v s = Some ?s"
    using x xs assms(2) by (simp add: set_sdr_record_def upd_sdr_def set_elem_def)
  moreover have "sdr_recs ?s = (sdr_recs s)(r := Some (recs[i := v]))"
    using xs by (auto simp: fun_eq_iff sdr_recs_def sdr_at_def upd_asdm_def elem_def sensor_records_def)
  moreover have "sds_recs ?s = sds_recs s"
    by (simp add: fun_eq_iff sds_recs_def sds_at_def upd_asdm_def)
  ultimately show ?thesis by simp
qed

lemma set_sds_record_recs:
  assumes "sds_recs s r = Some recs" and "i < length recs"
  shows "okay (set_sds_record r i v s) (\<lambda>s'. same_but_records s s' \<and> sdr_recs s' = sdr_recs s \<and>
    sds_recs s' = (sds_recs s)(r := Some (recs[i := v])))"
proof -
  from assms(1) obtain x where x: "sds_at r s = Some x" "sds_pxSensorRecord x = Some recs"
    by (auto simp: sds_recs_def bind_eq_Some_conv)
  then obtain xs where xs: "pxAsdmSdsInfo (asdm s) = Some xs" "r < length xs" "xs ! r = x"
    by (auto simp: sds_at_def elem_Some_iff)
  let ?s = "upd_asdm (\<lambda>d. d\<lparr>pxAsdmSdsInfo := Some (xs[r := x\<lparr>sds_pxSensorRecord := Some (recs[i := v])\<rparr>])\<rparr>) s"
  have "set_sds_record r i v s = Some ?s"
    using x xs assms(2) by (simp add: set_sds_record_def upd_sds_def set_elem_def)
  moreover have "sds_recs ?s = (sds_recs s)(r := Some (recs[i := v]))"
    using xs by (auto simp: fun_eq_iff sds_recs_def sds_at_def upd_asdm_def elem_def)
  moreover have "sdr_recs ?s = sdr_recs s"
    by (simp add: fun_eq_iff sdr_recs_def sdr_at_def upd_asdm_def)
  ultimately show ?thesis by simp
qed

text \<open>The same for single records, as the loops need it.\<close>

lemma set_sdr_record_get:
  assumes "get_sdr_record r i s = Some old"
  shows "okay (set_sdr_record r i v s) (\<lambda>s'. same_but_records s s' \<and>
    (\<forall>a b. get_sdr_record a b s' = (if a = r \<and> b = i then Some v else get_sdr_record a b s)) \<and>
    (\<forall>a b. get_sds_record a b s' = get_sds_record a b s))"
proof -
  from assms obtain recs where recs: "sdr_recs s r = Some recs" "i < length recs"
    by (auto simp: get_sdr_record_recs elem_Some_iff)
  show ?thesis
    by (rule okay_weaken [OF set_sdr_record_recs [OF recs]])
       (use recs in \<open>auto simp: get_sdr_record_recs get_sds_record_recs elem_def nth_list_update\<close>)
qed

lemma set_sds_record_get:
  assumes "get_sds_record r i s = Some old"
  shows "okay (set_sds_record r i v s) (\<lambda>s'. same_but_records s s' \<and>
    (\<forall>a b. get_sdr_record a b s' = get_sdr_record a b s) \<and>
    (\<forall>a b. get_sds_record a b s' = (if a = r \<and> b = i then Some v else get_sds_record a b s)))"
proof -
  from assms obtain recs where recs: "sds_recs s r = Some recs" "i < length recs"
    by (auto simp: get_sds_record_recs elem_Some_iff)
  show ?thesis
    by (rule okay_weaken [OF set_sds_record_recs [OF recs]])
       (use recs in \<open>auto simp: get_sdr_record_recs get_sds_record_recs elem_def nth_list_update\<close>)
qed

section \<open>One record\<close>

definition value_fits :: "ASDMRecordField \<Rightarrow> bool" where
  "value_fits f \<longleftrightarrow> 4 \<le> length (fld_bytes f)"

definition stored :: "u32 \<Rightarrow> ASDMRecordField \<Rightarrow> ASDMRecordField" where
  "stored v f = f\<lparr>fld_bytes := le_bytes32 v @ drop 4 (fld_bytes f)\<rparr>"

lemma set_fld_ulValue_stored: "value_fits f \<Longrightarrow> set_fld_ulValue v f = Some (stored v f)"
  by (auto simp: set_fld_ulValue_def value_fits_def stored_def bind_eq_Some_conv put32_Some)

lemma fld_ulValue_stored: "value_fits f \<Longrightarrow> fld_ulValue (stored v f) = Some v"
  using get32_put32 [of 0 v "fld_bytes f"]
  by (simp add: fld_ulValue_def value_fits_def stored_def put32_Some)

lemma value_fits_stored [simp]: "value_fits (stored v f)"
  by (simp add: value_fits_def stored_def)

text \<open>The records after a refresh, from those before and the reading.\<close>

definition sdr_showing :: "ASCProxyDriverSensorReadings \<Rightarrow> ASDMSdrRecord \<Rightarrow> ASDMSdrRecord" where
  "sdr_showing y rec = rec\<lparr>sdr_xSensorValue := stored (ulSensorValue y) (sdr_xSensorValue rec),
     ulAverageValue := ulAverageSensorValue y, ulMaxValue := ulMaxSensorValue y,
     sdr_ucSensorStatus := sensor_status_code (xSensorStatus y)\<rparr>"

definition sds_showing :: "ASCProxyDriverSensorReadings \<Rightarrow> ASDMSdsRecord \<Rightarrow> ASDMSdsRecord" where
  "sds_showing y rec = rec\<lparr>sds_xSensorValue := stored (ulSensorValue y) (sds_xSensorValue rec),
     sds_ucSensorStatus := sensor_status_code (xSensorStatus y)\<rparr>"

lemma sdr_refresh_showing: "value_fits (sdr_xSensorValue rec) \<Longrightarrow> sdr_refresh y rec = Some (sdr_showing y rec)"
  by (simp add: sdr_refresh_def sdr_showing_def set_fld_ulValue_stored)

lemma sds_refresh_showing: "value_fits (sds_xSensorValue rec) \<Longrightarrow> sds_refresh y rec = Some (sds_showing y rec)"
  by (simp add: sds_refresh_def sds_showing_def set_fld_ulValue_stored)

section \<open>Well-formed repositories\<close>

text \<open>How many records of repository \<open>r\<close> are refreshed, and the sensor that record \<open>i\<close> belongs to.\<close>

definition records :: "'w asdm_st \<Rightarrow> nat \<Rightarrow> nat" where
  "records s r = unat (ucNumFound (pxSensorList (asdm s) r))"

definition listed :: "'w asdm_st \<Rightarrow> nat \<Rightarrow> nat \<Rightarrow> ASCProxyDriverSensorData option" where
  "listed s r i = do { idx \<leftarrow> elem (pucSensorIndex (pxSensorList (asdm s) r)) i; elem (pxAscData (asdm s)) (unat idx) }"

text \<open>A record with room for a value and a sensor of the table.\<close>

definition record_ok :: "'w asdm_st \<Rightarrow> nat \<Rightarrow> nat \<Rightarrow> bool" where
  "record_ok s r i \<longleftrightarrow> listed s r i \<noteq> None \<and>
     okay (get_sdr_record r i s) (\<lambda>rec. value_fits (sdr_xSensorValue rec)) \<and>
     okay (get_sds_record r i s) (\<lambda>rec. value_fits (sds_xSensorValue rec))"

definition repositories_ok :: "'w asdm_st \<Rightarrow> bool" where
  "repositories_ok s \<longleftrightarrow> asdm_firewalls_ok s \<and> pxAscData (asdm s) \<noteq> None \<and>
     (\<forall>r < AMC_ASDM_SUPPORTED_REPO_TOTAL_POWER. \<forall>i < records s r. record_ok s r i) \<and>
     okay (get_sdr_record AMC_ASDM_SUPPORTED_REPO_TOTAL_POWER 0 s) (\<lambda>rec. value_fits (sdr_xSensorValue rec))"

text \<open>
  After some of the records of \<open>s\<close> have been refreshed: those in \<open>D\<close> show the reading of their
  sensor, all others are as they were, and nothing else has changed.
\<close>

definition refreshed :: "(nat \<Rightarrow> nat \<Rightarrow> bool) \<Rightarrow> 'w asdm_st \<Rightarrow> 'w asdm_st \<Rightarrow> bool" where
  "refreshed D s s' \<longleftrightarrow> same_but_records s s' \<and>
     (\<forall>r i. get_sdr_record r i s' =
        (if D r i then do { x \<leftarrow> listed s r i; rec \<leftarrow> get_sdr_record r i s; Some (sdr_showing (pxReadings x r) rec) }
         else get_sdr_record r i s)) \<and>
     (\<forall>r i. get_sds_record r i s' =
        (if D r i then do { x \<leftarrow> listed s r i; rec \<leftarrow> get_sds_record r i s; Some (sds_showing (pxReadings x r) rec) }
         else get_sds_record r i s))"

lemma refreshed_none: "refreshed (\<lambda>r i. False) s s"
  by (simp add: refreshed_def)

lemma refreshed_cong: "refreshed D s s' \<Longrightarrow> (\<And>r i. D r i = D' r i) \<Longrightarrow> refreshed D' s s'"
  by (simp add: refreshed_def)

lemma update_record_refreshed:
  assumes inv: "refreshed D s s'" and new: "\<not> D r i" and r: "r < AMC_ASDM_SUPPORTED_REPO_TOTAL_POWER"
    and ok: "record_ok s r i"
  shows "okay (update_record r i s') (refreshed (\<lambda>a b. D a b \<or> a = r \<and> b = i) s)"
proof -
  note same = same_but_recordsD [of s s']
  have sb: "same_but_records s s'" using inv by (simp add: refreshed_def)
  from ok obtain x rec sds where x: "listed s r i = Some x"
    and rec: "get_sdr_record r i s = Some rec" "value_fits (sdr_xSensorValue rec)"
    and sds: "get_sds_record r i s = Some sds" "value_fits (sds_xSensorValue sds)"
    by (auto simp: record_ok_def okay_iff)
  from x obtain idx where idx: "elem (pucSensorIndex (pxSensorList (asdm s) r)) i = Some idx"
    "elem (pxAscData (asdm s)) (unat idx) = Some x"
    by (auto simp: listed_def bind_eq_Some_conv)
  have rec': "get_sdr_record r i s' = Some rec" and sds': "get_sds_record r i s' = Some sds"
    using inv new rec sds by (simp_all add: refreshed_def)
  let ?y = "pxReadings x r"
  from set_sdr_record_get [OF rec', of "sdr_showing ?y rec"] obtain s1
    where s1: "set_sdr_record r i (sdr_showing ?y rec) s' = Some s1" "same_but_records s' s1"
      "\<And>a b. get_sdr_record a b s1 = (if a = r \<and> b = i then Some (sdr_showing ?y rec) else get_sdr_record a b s')"
      "\<And>a b. get_sds_record a b s1 = get_sds_record a b s'"
    by (rule okayE) blast
  have sds1: "get_sds_record r i s1 = Some sds" using sds' s1(4) by simp
  from set_sds_record_get [OF sds1, of "sds_showing ?y sds"] obtain s2
    where s2: "set_sds_record r i (sds_showing ?y sds) s1 = Some s2" "same_but_records s1 s2"
      "\<And>a b. get_sdr_record a b s2 = get_sdr_record a b s1"
      "\<And>a b. get_sds_record a b s2 = (if a = r \<and> b = i then Some (sds_showing ?y sds) else get_sds_record a b s1)"
    by (rule okayE) blast
  have "update_record r i s' = Some s2"
    using idx r rec' rec(2) sds1 sds(2) s1(1) s2(1)
    by (simp add: update_record_def get_sensor_list_def arr_get_def same [OF sb] sdr_refresh_showing sds_refresh_showing)
  moreover have "same_but_records s s2"
    using sb s1(2) s2(2) by (blast intro: same_but_records_trans)
  then have "refreshed (\<lambda>a b. D a b \<or> a = r \<and> b = i) s s2"
    using inv x rec(1) sds(1) by (auto simp: refreshed_def s2(3,4) s1(3,4))
  ultimately show ?thesis by simp
qed

section \<open>The loops\<close>

lemma update_repo_refreshed:
  assumes inv: "refreshed (\<lambda>a b. a < r \<and> b < records s a) s s'" and r: "r < AMC_ASDM_SUPPORTED_REPO_TOTAL_POWER"
    and ok: "\<And>i. i < records s r \<Longrightarrow> record_ok s r i"
  shows "okay (update_repo r s') (refreshed (\<lambda>a b. a < Suc r \<and> b < records s a) s)"
proof -
  let ?D = "\<lambda>k a b. a < r \<and> b < records s a \<or> a = r \<and> b < k"
  have "okay (for_each (update_record r) [0..<records s r] s') (refreshed (?D (records s r)) s)"
  proof (rule for_each_upt_okay [where P = "\<lambda>k. refreshed (?D k) s"])
    fix i t
    assume i: "i < records s r" and inv: "refreshed (?D i) s t"
    have "okay (update_record r i t) (refreshed (\<lambda>a b. ?D i a b \<or> a = r \<and> b = i) s)"
      by (rule update_record_refreshed [OF inv _ r ok [OF i]]) simp
    then show "okay (update_record r i t) (refreshed (?D (Suc i)) s)"
      by (rule okay_weaken) (erule refreshed_cong, auto simp: less_Suc_eq)
  qed (use inv in \<open>simp_all add: refreshed_cong\<close>)
  moreover have "?D (records s r) = (\<lambda>a b. a < Suc r \<and> b < records s a)"
    by (auto simp: fun_eq_iff less_Suc_eq)
  moreover have "pxSensorList (asdm s') = pxSensorList (asdm s)"
    using inv by (simp add: refreshed_def same_but_recordsD)
  ultimately show ?thesis
    using r by (simp add: update_repo_def get_sensor_list_def arr_get_def records_def)
qed

lemma update_repos_refreshed:
  assumes "repositories_ok s"
  shows "okay (for_each update_repo [0..<AMC_ASDM_SUPPORTED_REPO_TOTAL_POWER] s)
    (refreshed (\<lambda>a b. a < AMC_ASDM_SUPPORTED_REPO_TOTAL_POWER \<and> b < records s a) s)"
proof (rule for_each_upt_okay [where P = "\<lambda>k. refreshed (\<lambda>a b. a < k \<and> b < records s a) s"])
  show "refreshed (\<lambda>a b. a < 0 \<and> b < records s a) s s" using refreshed_none by simp
  fix r t
  assume r: "r < AMC_ASDM_SUPPORTED_REPO_TOTAL_POWER" and inv: "refreshed (\<lambda>a b. a < r \<and> b < records s a) s t"
  show "okay (update_repo r t) (refreshed (\<lambda>a b. a < Suc r \<and> b < records s a) s)"
    by (rule update_repo_refreshed [OF inv r]) (use assms r in \<open>simp add: repositories_ok_def\<close>)
qed simp

section \<open>The total power\<close>

text \<open>What a power sensor contributes to the total, and the total (32 bits, it may wrap).\<close>

definition power_share :: "ASCProxyDriverSensorData \<Rightarrow> u32" where
  "power_share x = (if ucTotalPowerSensor x = 1 then ulSensorValue (pxReadings x AMC_ASDM_SUPPORTED_REPO_POWER) else 0)"

definition total_power :: "'w asdm_st \<Rightarrow> u32" where
  "total_power s = sum_list (map (\<lambda>i. power_share (the (listed s AMC_ASDM_SUPPORTED_REPO_POWER i)))
     [0..<records s AMC_ASDM_SUPPORTED_REPO_POWER])"

lemma sum_power_shares:
  assumes "\<And>j. i \<le> j \<Longrightarrow> j < i + n \<Longrightarrow> \<exists>x rec. listed s AMC_ASDM_SUPPORTED_REPO_POWER j = Some x \<and> elem p j = Some rec \<and>
      fld_ulValue (sdr_xSensorValue rec) = Some (ulSensorValue (pxReadings x AMC_ASDM_SUPPORTED_REPO_POWER))"
  shows "sum_power (asdm s) (pxSensorList (asdm s) AMC_ASDM_SUPPORTED_REPO_POWER) p i n acc =
    Some (Some (acc + sum_list (map (\<lambda>j. power_share (the (listed s AMC_ASDM_SUPPORTED_REPO_POWER j))) [i..<i + n])))"
  using assms
proof (induction n arbitrary: i acc)
  case (Suc n)
  from Suc.prems [of i] obtain x rec where x: "listed s AMC_ASDM_SUPPORTED_REPO_POWER i = Some x" "elem p i = Some rec"
    "fld_ulValue (sdr_xSensorValue rec) = Some (ulSensorValue (pxReadings x AMC_ASDM_SUPPORTED_REPO_POWER))" by auto
  then have p: "p \<noteq> None" by (auto simp: elem_Some_iff)
  have rest: "sum_power (asdm s) (pxSensorList (asdm s) AMC_ASDM_SUPPORTED_REPO_POWER) p (i + 1) n acc' =
    Some (Some (acc' + sum_list (map (\<lambda>j. power_share (the (listed s AMC_ASDM_SUPPORTED_REPO_POWER j))) [i + 1..<i + 1 + n])))" for acc'
    by (rule Suc.IH) (use Suc.prems in auto)
  have "[i..<i + Suc n] = i # [i + 1..<i + 1 + n]" by (simp add: upt_rec)
  with x p rest show ?case
    by (auto simp: listed_def bind_eq_Some_conv power_share_def algebra_simps)
qed simp

lemma get_sdr_record_frame:
  assumes "pxAsdmSdrInfo (asdm s') = pxAsdmSdrInfo (asdm s)"
  shows "get_sdr_record r i s' = get_sdr_record r i s"
  using assms by (simp add: get_sdr_record_def sdr_at_def)

lemma get_sds_record_frame:
  assumes "pxAsdmSdsInfo (asdm s') = pxAsdmSdsInfo (asdm s)"
  shows "get_sds_record r i s' = get_sds_record r i s"
  using assms by (simp add: get_sds_record_def sds_at_def)

text \<open>The record of the total power.\<close>

definition total_showing :: "u32 \<Rightarrow> ASDMPrivateData \<Rightarrow> ASDMSdrRecord \<Rightarrow> ASDMSdrRecord" where
  "total_showing v d rec = rec\<lparr>ulAverageValue := ulAveragePower d, ulMaxValue := ulMaxPower d,
     sdr_xSensorValue := stored v (sdr_xSensorValue rec)\<rparr>"

lemma store_total_power_record:
  assumes rec: "get_sdr_record AMC_ASDM_SUPPORTED_REPO_TOTAL_POWER 0 s = Some rec" "value_fits (sdr_xSensorValue rec)"
  shows "okay (store_total_power v s) (\<lambda>(st, s'). st = OK \<and> same_but_records s s' \<and>
    (\<forall>a b. get_sdr_record a b s' = (if a = AMC_ASDM_SUPPORTED_REPO_TOTAL_POWER \<and> b = 0
        then Some (total_showing v (asdm s) rec) else get_sdr_record a b s)) \<and>
    (\<forall>a b. get_sds_record a b s' = get_sds_record a b s))"
proof -
  from rec(1) obtain x p where x: "sdr_at AMC_ASDM_SUPPORTED_REPO_TOTAL_POWER s = Some x" "sensor_records x = Some p"
    "elem p 0 = Some rec" by (auto simp: get_sdr_record_def bind_eq_Some_conv)
  then have "p \<noteq> None" by (auto simp: elem_Some_iff)
  then have "store_total_power v s = do {
      s \<leftarrow> set_sdr_record AMC_ASDM_SUPPORTED_REPO_TOTAL_POWER 0 (total_showing v (asdm s) rec) s; Some (OK, s) }"
    using x rec(2) by (simp add: store_total_power_def set_fld_ulValue_stored total_showing_def)
  then show ?thesis
    using set_sdr_record_get [OF rec(1), of "total_showing v (asdm s) rec"] by (simp add: okay_bind_iff)
qed

lemma total_power_calculated:
  assumes inv: "refreshed (\<lambda>a b. a < AMC_ASDM_SUPPORTED_REPO_TOTAL_POWER \<and> b < records s a) s s'"
    and ok: "repositories_ok s" and calc: "ulPowerCalcIterations (asdm s) + 1 \<noteq> 0"
  shows "\<exists>d rec. get_sdr_record AMC_ASDM_SUPPORTED_REPO_TOTAL_POWER 0 s = Some rec \<and>
    value_fits (sdr_xSensorValue rec) \<and> power_statistics (total_power s) (asdm s') = Some d \<and>
    okay (iCalculateTotalPower s') (\<lambda>(st, t). st = OK \<and> same_but_records (s'\<lparr>asdm := d\<rparr>) t \<and>
      (\<forall>a b. get_sdr_record a b t = (if a = AMC_ASDM_SUPPORTED_REPO_TOTAL_POWER \<and> b = 0
          then Some (total_showing (total_power s) d rec) else get_sdr_record a b s')) \<and>
      (\<forall>a b. get_sds_record a b t = get_sds_record a b s'))"
proof -
  let ?P = AMC_ASDM_SUPPORTED_REPO_POWER and ?T = AMC_ASDM_SUPPORTED_REPO_TOTAL_POWER
  have sb: "same_but_records s s'" using inv by (simp add: refreshed_def)
  note same = same_but_recordsD [OF sb]
  from ok obtain rec where rec: "get_sdr_record ?T 0 s = Some rec" "value_fits (sdr_xSensorValue rec)"
    by (auto simp: repositories_ok_def okay_iff)
  then have rec': "get_sdr_record ?T 0 s' = Some rec" using inv by (simp add: refreshed_def)
  then obtain sdr where sdr: "pxAsdmSdrInfo (asdm s') = Some sdr" "?T < length sdr"
    by (auto simp: get_sdr_record_def sdr_at_def elem_Some_iff bind_eq_Some_conv)
  then have at: "sdr_at ?P s' = Some (sdr ! ?P)" by (simp add: sdr_at_def elem_def)
  have listed': "listed s' r i = listed s r i" and records': "records s' r = records s r" for r i
    by (simp_all add: listed_def records_def same)
  have shown: "\<exists>x rec. listed s' ?P j = Some x \<and> get_sdr_record ?P j s' = Some rec \<and>
      fld_ulValue (sdr_xSensorValue rec) = Some (ulSensorValue (pxReadings x ?P))" if j: "j < records s ?P" for j
  proof -
    from ok j have "record_ok s ?P j" by (simp add: repositories_ok_def)
    then show ?thesis
      using inv j by (auto simp: record_ok_def okay_iff refreshed_def listed' sdr_showing_def fld_ulValue_stored)
  qed
  have sum: "\<exists>p. (if ucNumFound (pxSensorList (asdm s') ?P) = 0 then Some None else sensor_records (sdr ! ?P)) = Some p \<and>
     sum_power (asdm s') (pxSensorList (asdm s') ?P) p 0 (unat (ucNumFound (pxSensorList (asdm s') ?P))) 0 =
       Some (Some (total_power s))"
  proof (cases "records s ?P = 0")
    case True
    then have "ucNumFound (pxSensorList (asdm s') ?P) = 0" by (simp add: records_def same unat_eq_0)
    with True show ?thesis by (simp add: total_power_def)
  next
    case False
    with shown [of 0] obtain p where p: "sensor_records (sdr ! ?P) = Some p"
      by (auto simp: get_sdr_record_def at bind_eq_Some_conv)
    then have el: "get_sdr_record ?P j s' = elem p j" for j by (simp add: get_sdr_record_def at)
    have "sum_power (asdm s') (pxSensorList (asdm s') ?P) p 0 (records s ?P) 0 = Some (Some (total_power s))"
      unfolding total_power_def using shown
      by (subst sum_power_shares) (auto simp: listed' el)
    moreover have "ucNumFound (pxSensorList (asdm s') ?P) \<noteq> 0" using False by (auto simp: records_def same)
    ultimately show ?thesis using p by (simp add: records_def same)
  qed
  have nz: "ulPowerCalcIterations (asdm s') + 1 \<noteq> 0" using calc by (simp add: same)
  then obtain d where d: "power_statistics (total_power s) (asdm s') = Some d"
    by (auto simp: power_statistics_def Let_def)
  then have frame: "pxAsdmSdrInfo d = pxAsdmSdrInfo (asdm s')" "pxAsdmSdsInfo d = pxAsdmSdsInfo (asdm s')"
    by (auto simp: power_statistics_def Let_def split: if_splits)
  have get: "get_sdr_record a b (s'\<lparr>asdm := d\<rparr>) = get_sdr_record a b s'"
    "get_sds_record a b (s'\<lparr>asdm := d\<rparr>) = get_sds_record a b s'" for a b
    by (rule get_sdr_record_frame, simp add: frame) (rule get_sds_record_frame, simp add: frame)
  then have rec2: "get_sdr_record ?T 0 (s'\<lparr>asdm := d\<rparr>) = Some rec" using rec' by simp
  from sum obtain p where "(if ucNumFound (pxSensorList (asdm s') ?P) = 0 then Some None else sensor_records (sdr ! ?P)) = Some p"
    "sum_power (asdm s') (pxSensorList (asdm s') ?P) p 0 (unat (ucNumFound (pxSensorList (asdm s') ?P))) 0 = Some (Some (total_power s))"
    by blast
  then have run: "iCalculateTotalPower s' = store_total_power (total_power s) (s'\<lparr>asdm := d\<rparr>)"
    using ok sdr at d by (simp add: iCalculateTotalPower_def repositories_ok_def same get_sensor_list_def arr_get_def)
  have "okay (iCalculateTotalPower s') (\<lambda>(st, t). st = OK \<and> same_but_records (s'\<lparr>asdm := d\<rparr>) t \<and>
      (\<forall>a b. get_sdr_record a b t = (if a = ?T \<and> b = 0 then Some (total_showing (total_power s) d rec)
          else get_sdr_record a b s')) \<and>
      (\<forall>a b. get_sds_record a b t = get_sds_record a b s'))"
    unfolding run by (rule okay_weaken [OF store_total_power_record [OF rec2 rec(2)]]) (auto simp: get)
  with rec d show ?thesis by blast
qed

section \<open>The update of all values\<close>

text \<open>States that agree in what the update reads.\<close>

definition same_repositories :: "'w asdm_st \<Rightarrow> 'w asdm_st \<Rightarrow> bool" where
  "same_repositories s s' \<longleftrightarrow> pxAscData (asdm s') = pxAscData (asdm s) \<and> pxSensorList (asdm s') = pxSensorList (asdm s) \<and>
     asdm_firewalls_ok s' = asdm_firewalls_ok s \<and>
     (\<forall>r i. get_sdr_record r i s' = get_sdr_record r i s) \<and> (\<forall>r i. get_sds_record r i s' = get_sds_record r i s)"

lemma same_repositoriesD:
  assumes "same_repositories s s'"
  shows "records s' r = records s r" "listed s' r i = listed s r i" "total_power s' = total_power s"
    "repositories_ok s' = repositories_ok s"
  using assms by (simp_all add: same_repositories_def records_def listed_def total_power_def repositories_ok_def record_ok_def
      cong: map_cong)

lemma same_repositories_upd:
  assumes "pxAscData (f (asdm s)) = pxAscData (asdm s)" "pxSensorList (f (asdm s)) = pxSensorList (asdm s)"
    "asdm_ulUpperFirewall (f (asdm s)) = asdm_ulUpperFirewall (asdm s)"
    "asdm_ulLowerFirewall (f (asdm s)) = asdm_ulLowerFirewall (asdm s)"
    "pxAsdmSdrInfo (f (asdm s)) = pxAsdmSdrInfo (asdm s)" "pxAsdmSdsInfo (f (asdm s)) = pxAsdmSdsInfo (asdm s)"
  shows "same_repositories s (upd_asdm f s)"
  using assms by (simp add: same_repositories_def upd_asdm_def asdm_firewalls_ok_def get_sdr_record_def get_sds_record_def
      sdr_at_def sds_at_def)

lemma same_repositories_world: "same_repositories s (s\<lparr>asdm_outside := w\<rparr>)"
  by (simp add: same_repositories_def asdm_firewalls_ok_def get_sdr_record_def get_sds_record_def sdr_at_def sds_at_def)

lemma same_repositories_trans: "same_repositories s t \<Longrightarrow> same_repositories t u \<Longrightarrow> same_repositories s u"
  by (simp add: same_repositories_def)

lemma same_repositories_counters:
  "same_repositories s (ASDM_INC_STAT_COUNTER c s)" "same_repositories s (ASDM_INC_ERROR_COUNTER e s)"
  unfolding ASDM_INC_STAT_COUNTER_def ASDM_INC_ERROR_COUNTER_def by (rule same_repositories_upd; simp)+

text \<open>A record that shows the readings of sensor \<open>x\<close>.\<close>

definition record_shows :: "'w asdm_st \<Rightarrow> nat \<Rightarrow> nat \<Rightarrow> ASCProxyDriverSensorData \<Rightarrow> bool" where
  "record_shows s r i x \<longleftrightarrow> (let y = pxReadings x r in
     okay (get_sdr_record r i s) (\<lambda>rec. fld_ulValue (sdr_xSensorValue rec) = Some (ulSensorValue y) \<and>
       ulAverageValue rec = ulAverageSensorValue y \<and> ulMaxValue rec = ulMaxSensorValue y \<and>
       sdr_ucSensorStatus rec = sensor_status_code (xSensorStatus y)) \<and>
     okay (get_sds_record r i s) (\<lambda>rec. fld_ulValue (sds_xSensorValue rec) = Some (ulSensorValue y) \<and>
       sds_ucSensorStatus rec = sensor_status_code (xSensorStatus y)))"

text \<open>Every record shows its sensor, and the total power its sum; the repositories stay well-formed.\<close>

definition up_to_date :: "u32 \<Rightarrow> 'w asdm_st \<Rightarrow> bool" where
  "up_to_date m s \<longleftrightarrow> repositories_ok s \<and>
     (\<forall>r < AMC_ASDM_SUPPORTED_REPO_TOTAL_POWER. \<forall>i < records s r. okay (listed s r i) (record_shows s r i)) \<and>
     okay (get_sdr_record AMC_ASDM_SUPPORTED_REPO_TOTAL_POWER 0 s) (\<lambda>rec.
       fld_ulValue (sdr_xSensorValue rec) = Some (total_power s) \<and> ulMaxValue rec = max m (total_power s))"

lemma up_to_date_same:
  assumes "same_repositories s s'"
  shows "up_to_date m s' = up_to_date m s"
proof -
  have "record_shows s' r i = record_shows s r i" for r i
    using assms by (simp add: same_repositories_def record_shows_def fun_eq_iff)
  moreover have "get_sdr_record r i s' = get_sdr_record r i s" for r i
    using assms by (simp add: same_repositories_def)
  ultimately show ?thesis
    by (simp add: up_to_date_def same_repositoriesD [OF assms])
qed

text \<open>What the loops and the total leave behind is up to date.\<close>

lemma refreshed_up_to_date:
  assumes ok: "repositories_ok s"
    and inv: "refreshed (\<lambda>a b. a < AMC_ASDM_SUPPORTED_REPO_TOTAL_POWER \<and> b < records s a) s s'"
    and t: "pxAscData (asdm t) = pxAscData (asdm s')" "pxSensorList (asdm t) = pxSensorList (asdm s')"
      "asdm_firewalls_ok t = asdm_firewalls_ok s'"
    and rec: "get_sdr_record AMC_ASDM_SUPPORTED_REPO_TOTAL_POWER 0 s = Some rec" "value_fits (sdr_xSensorValue rec)"
    and sdr: "\<And>a b. get_sdr_record a b t = (if a = AMC_ASDM_SUPPORTED_REPO_TOTAL_POWER \<and> b = 0
        then Some (total_showing (total_power s) d rec) else get_sdr_record a b s')"
    and sds: "\<And>a b. get_sds_record a b t = get_sds_record a b s'"
    and mx: "ulMaxPower d = max m (total_power s)"
  shows "up_to_date m t"
proof -
  have sb: "same_but_records s s'" using inv by (simp add: refreshed_def)
  have listed: "listed t r i = listed s r i" and records: "records t r = records s r" for r i
    using t by (simp_all add: listed_def records_def same_but_recordsD [OF sb])
  then have total: "total_power t = total_power s" by (simp add: total_power_def)
  have each: "record_ok t r i \<and> okay (listed t r i) (record_shows t r i)"
    if r: "r < AMC_ASDM_SUPPORTED_REPO_TOTAL_POWER" and i: "i < records s r" for r i
  proof -
    from ok r i have "record_ok s r i" by (simp add: repositories_ok_def)
    then obtain x a b where x: "listed s r i = Some x" and a: "get_sdr_record r i s = Some a" "value_fits (sdr_xSensorValue a)"
      and b: "get_sds_record r i s = Some b" "value_fits (sds_xSensorValue b)"
      by (auto simp: record_ok_def okay_iff)
    then have "get_sdr_record r i t = Some (sdr_showing (pxReadings x r) a)"
      "get_sds_record r i t = Some (sds_showing (pxReadings x r) b)"
      using inv r i by (simp_all add: sdr sds refreshed_def)
    with x a(2) b(2) show ?thesis
      by (simp add: record_ok_def record_shows_def listed sdr_showing_def sds_showing_def fld_ulValue_stored)
  qed
  have "asdm_firewalls_ok t" "pxAscData (asdm t) \<noteq> None"
    using ok t by (simp_all add: repositories_ok_def same_but_recordsD [OF sb])
  with each rec show ?thesis
    by (simp add: up_to_date_def repositories_ok_def records total sdr total_showing_def fld_ulValue_stored mx)
qed

lemma values_updated:
  assumes ok: "repositories_ok s" and calc: "ulPowerCalcIterations (asdm s) + 1 \<noteq> 0"
    and E: "\<And>h w. fst (asdm_mutex_take E h w)" "\<And>h w. fst (asdm_mutex_release E h w)"
  shows "okay (iUpdateAsdmValues E s) (\<lambda>(st, s'). st = OK \<and> up_to_date (ulMaxPower (asdm s)) s' \<and>
    pxAscData (asdm s') = pxAscData (asdm s) \<and> pxSensorList (asdm s') = pxSensorList (asdm s))"
proof -
  let ?D = "\<lambda>s a b. a < AMC_ASDM_SUPPORTED_REPO_TOTAL_POWER \<and> b < records s a"
  define w where "w = snd (asdm_mutex_take E (asdm_pvOsalMutexHdl (asdm s)) (asdm_outside s))"
  have take: "asdm_take E s = (True, s\<lparr>asdm_outside := w\<rparr>)"
    by (simp add: asdm_take_def asdm_call_def w_def split_beta E(1))
  define s1 where "s1 = ASDM_INC_STAT_COUNTER ASDM_STATS_TAKE_MUTEX (s\<lparr>asdm_outside := w\<rparr>)"
  have s1: "same_repositories s s1"
    unfolding s1_def by (rule same_repositories_trans [OF same_repositories_world same_repositories_counters(1)])
  have num: "ulPowerCalcIterations (asdm s1) = ulPowerCalcIterations (asdm s)" "ulMaxPower (asdm s1) = ulMaxPower (asdm s)"
    by (simp_all add: s1_def ASDM_INC_STAT_COUNTER_def upd_asdm_def)
  have ok1: "repositories_ok s1" using ok by (simp add: same_repositoriesD [OF s1])
  obtain s2 where s2: "for_each update_repo [0..<AMC_ASDM_SUPPORTED_REPO_TOTAL_POWER] s1 = Some s2"
    and inv: "refreshed (?D s1) s1 s2"
    using update_repos_refreshed [OF ok1] by (rule okayE)
  note same = same_but_recordsD [of s1 s2]
  have sb: "same_but_records s1 s2" using inv by (simp add: refreshed_def)
  from total_power_calculated [OF inv ok1] calc num obtain d rec t
    where rec: "get_sdr_record AMC_ASDM_SUPPORTED_REPO_TOTAL_POWER 0 s1 = Some rec" "value_fits (sdr_xSensorValue rec)"
      and d: "power_statistics (total_power s1) (asdm s2) = Some d"
      and t: "iCalculateTotalPower s2 = Some (OK, t)" "same_but_records (s2\<lparr>asdm := d\<rparr>) t"
        "\<And>a b. get_sdr_record a b t = (if a = AMC_ASDM_SUPPORTED_REPO_TOTAL_POWER \<and> b = 0
            then Some (total_showing (total_power s1) d rec) else get_sdr_record a b s2)"
        "\<And>a b. get_sds_record a b t = get_sds_record a b s2"
    by (auto simp: okay_iff)
  have d': "pxAscData d = pxAscData (asdm s2)" "pxSensorList d = pxSensorList (asdm s2)"
    "asdm_firewalls_ok (s2\<lparr>asdm := d\<rparr>) = asdm_firewalls_ok s2"
    "ulMaxPower d = max (ulMaxPower (asdm s)) (total_power s1)"
    using d num by (auto simp: power_statistics_def Let_def asdm_firewalls_ok_def same [OF sb] max_def split: if_splits)
  have up: "up_to_date (ulMaxPower (asdm s)) t"
    by (rule refreshed_up_to_date [OF ok1 inv _ _ _ rec t(3,4) d'(4)])
       (use d' same_but_recordsD [OF t(2)] in simp_all)
  define s' where "s' = ASDM_INC_STAT_COUNTER ASDM_STATS_RELEASE_MUTEX (t\<lparr>asdm_outside :=
      snd (asdm_mutex_release E (asdm_pvOsalMutexHdl (asdm t)) (asdm_outside t))\<rparr>)"
  have rel: "asdm_release E OK t = (OK, s')" "same_repositories t s'"
    by (simp add: asdm_release_def asdm_call_def s'_def split_beta E(2))
       (unfold s'_def, rule same_repositories_trans [OF same_repositories_world same_repositories_counters(1)])
  have "pxAsdmSdrInfo (asdm s) \<noteq> None"
    using ok by (auto simp: repositories_ok_def okay_iff get_sdr_record_def sdr_at_def elem_Some_iff bind_eq_Some_conv)
  then have "iUpdateAsdmValues E s = Some (OK, s')"
    using ok take s2 t(1) rel by (simp add: iUpdateAsdmValues_def repositories_ok_def s1_def)
  moreover have "up_to_date (ulMaxPower (asdm s)) s'" using up rel(2) by (simp add: up_to_date_same)
  ultimately show ?thesis
    using rel(2) s1 d' same_but_recordsD [OF t(2)] by (simp add: same_repositories_def same [OF sb])
qed

section \<open>The update event\<close>

text \<open>The sensor proxy hands out its whole table to a caller with room for it.\<close>

lemma proxy_hands_out:
  assumes "asc_ready w" and "asc_pxSensorData (asc_local w) = Some ys"
    and "unat (asc_ucNumSensors (asc_local w)) = length ys" and "length dst = length ys"
    and F: "\<And>h w. fst (mutex_take (asc_evl_part F) h w)" "\<And>h w. fst (mutex_release (asc_evl_part F) h w)"
      "\<And>h w. asc_local (snd (mutex_take (asc_evl_part F) h w)) = asc_local w"
  shows "okay (iASC_GetAllSensorData F (Some dst) (asc_ucNumSensors (asc_local w)) w) (\<lambda>(st, out, w').
    st = OK \<and> out = Some (ys, asc_ucNumSensors (asc_local w)))"
  using assms
  by (simp add: iASC_GetAllSensorData_def asc_locked_def asc_mutex_take_def asc_mutex_release_def copy_all_def
      array_prefix_def ASC_INC_STAT_COUNTER_def upd_asc_def split_beta Let_def)

text \<open>
  C28: the sensor proxy's update event, with the proxy itself as the provider of the readings:
  the table of the proxy is copied, and afterwards every record of the SDR and SDS of the
  temperature, voltage, current and power repositories shows value, average, maximum and
  status of the sensor it is listed for; the total power record shows the sum of the power
  sensors that count for it, and the maximum of the sums so far; and the repositories are
  again in the state in which the next event finds them.
\<close>

theorem update_event_mirrors_proxy:
  fixes E :: "'v asc_st asdm_env" and F :: "'v asc_env" and s :: "'v asc_st asdm_st"
  assumes "repositories_ok s" and "ulPowerCalcIterations (asdm s) + 1 \<noteq> 0"
    and "asc_get_all E = iASC_GetAllSensorData F"
    and "asc_ready (asdm_outside s)" and "asc_pxSensorData (asc_local (asdm_outside s)) = Some ys"
    and "unat (asc_ucNumSensors (asc_local (asdm_outside s))) = length ys"
    and "ucAscNumSensors (asdm s) = asc_ucNumSensors (asc_local (asdm_outside s))"
    and "map_option length (pxAscData (asdm s)) = Some (length ys)"
    and "\<forall>h w. fst (mutex_take (asc_evl_part F) h w) \<and> fst (mutex_release (asc_evl_part F) h w) \<and>
      asc_local (snd (mutex_take (asc_evl_part F) h w)) = asc_local w"
    and "\<forall>h w. fst (asdm_mutex_take E h w) \<and> fst (asdm_mutex_release E h w)"
    and "ucModule sig = AMC_CFG_UNIQUE_ID_ASC" and "ucEventType sig = ASC_PROXY_DRIVER_E_SENSOR_UPDATE_COMPLETE"
  shows "okay (iAscCallback E (Some sig) s) (\<lambda>(st, s'). st = OK \<and> pxAscData (asdm s') = Some ys \<and>
    pxSensorList (asdm s') = pxSensorList (asdm s) \<and> up_to_date (ulMaxPower (asdm s)) s')"
proof -
  from assms(8) obtain data where data: "pxAscData (asdm s) = Some data" "length data = length ys" by auto
  from proxy_hands_out [OF assms(4,5,6) data(2), of F] assms(9) obtain w
    where get: "iASC_GetAllSensorData F (Some data) (ucAscNumSensors (asdm s)) (asdm_outside s) =
      Some (OK, Some (ys, ucAscNumSensors (asdm s)), w)"
    by (auto simp: okay_iff assms(7))
  define s1 where "s1 = ASDM_INC_STAT_COUNTER ASDM_STATS_ASC_SENSOR_UPDATE_EVENT
      (upd_asdm (\<lambda>d. d\<lparr>pxAscData := Some ys\<rparr>) (s\<lparr>asdm_outside := w\<rparr>))"
  have sdr: "get_sdr_record r i s1 = get_sdr_record r i s" and sds: "get_sds_record r i s1 = get_sds_record r i s" for r i
    by (rule get_sdr_record_frame get_sds_record_frame, simp add: s1_def ASDM_INC_STAT_COUNTER_def upd_asdm_def)+
  have fields: "pxAscData (asdm s1) = Some ys" "pxSensorList (asdm s1) = pxSensorList (asdm s)"
    "ulPowerCalcIterations (asdm s1) = ulPowerCalcIterations (asdm s)" "ulMaxPower (asdm s1) = ulMaxPower (asdm s)"
    "asdm_firewalls_ok s1 = asdm_firewalls_ok s"
    by (simp_all add: s1_def ASDM_INC_STAT_COUNTER_def upd_asdm_def asdm_firewalls_ok_def)
  have "listed s1 r i = None \<longleftrightarrow> listed s r i = None" for r i
    by (simp add: listed_def fields data elem_def split: Option.bind_split)
  then have "repositories_ok s1"
    using assms(1) by (simp add: repositories_ok_def record_ok_def sdr sds fields records_def)
  from values_updated [OF this, of E] assms(2,10)
  have "okay (iUpdateAsdmValues E s1) (\<lambda>(st, s'). st = OK \<and> up_to_date (ulMaxPower (asdm s)) s' \<and>
      pxAscData (asdm s') = Some ys \<and> pxSensorList (asdm s') = pxSensorList (asdm s))"
    by (simp add: fields)
  moreover have "iAscCallback E (Some sig) s = iUpdateAsdmValues E s1"
    using data get assms(3,11,12) by (simp add: iAscCallback_def sensors_updated_def s1_def)
  ultimately show ?thesis by (auto elim!: okay_weaken)
qed

text \<open>
  An example: sensor 0 has a temperature, sensor 1 a power that counts for the total; the
  repositories hold one record each of temperature, power and total power.
\<close>

definition sample_table :: "ASCProxyDriverSensorData list" where
  "sample_table = [(sample_sensor 1)\<lparr>pxReadings := (\<lambda>_. zero_reading)(0 := zero_reading\<lparr>ulSensorValue := 42\<rparr>)\<rparr>,
     (sample_sensor 2)\<lparr>ucTotalPowerSensor := 1,
       pxReadings := (\<lambda>_. zero_reading)(3 := zero_reading\<lparr>ulSensorValue := 900\<rparr>)\<rparr>]"

definition sample_sds :: ASDMSdsRecord where
  "sample_sds = \<lparr>sds_ucId = 1, sds_xSensorValue = zero_field, sds_ucSensorStatus = 0, ucSensorTag = 0, ucRsvd = 0\<rparr>"

definition sample_repo :: "nat \<Rightarrow> ASDMSdr" where
  "sample_repo r = \<lparr>sdr_xHdr = zero_header, sdr_payload = SensorRecords (Some [zero_sdr]), sdr_pucAsdmEor = ASDM_EOR_MARKER\<rparr>"

definition sample_asdm :: "unit asc_st asdm_st" where
  "sample_asdm = \<lparr>asdm = initial_asdm\<lparr>asdm_iInitialised := True, iSensorListInitialised := True,
       pxAscData := Some [sample_sensor 1, sample_sensor 2], ucAscNumSensors := 2,
       pxSensorList := (\<lambda>r. \<lparr>ucNumFound = (if r = 0 \<or> r = 3 \<or> r = 4 then 1 else 0),
          pucSensorIndex = Some [if r = 3 then 1 else 0, 0], pucSensorId = Some [if r = 3 then 2 else 1, 0]\<rparr>),
       pxAsdmSdrInfo := Some (map sample_repo [0..<7]),
       pxAsdmSdsInfo := Some (replicate 7 \<lparr>sds_xHdr = zero_header, sds_pxSensorRecord = Some [sample_sds],
          sds_pucAsdmEor = ASDM_EOR_MARKER\<rparr>),
       asdm_pvOsalMutexHdl := Some 8\<rparr>,
     asdm_outside = sample_asc\<lparr>asc_local := (asc_local sample_asc)\<lparr>asc_pxSensorData := Some sample_table\<rparr>\<rparr>\<rparr>"

definition sample_asdm_env :: "unit asc_st asdm_env" where
  "sample_asdm_env = \<lparr>asdm_mutex_create = Pair (Some 8), asdm_mutex_take = (\<lambda>h. Pair True),
     asdm_mutex_release = (\<lambda>h. Pair True), asdm_mem_alloc = Pair True,
     asc_get_all = iASC_GetAllSensorData sample_asc_env,
     asc_get_single = (\<lambda>i. iASC_GetSingleSensorDataById sample_asc_env i True), asc_bind = Pair OK,
     asdm_sensor_enabled = (\<lambda>f. Pair True), apc_get_header = (\<lambda>i w. (ERROR, zero_apc_header, w)),
     apc_get_partition = (\<lambda>i j w. (ERROR, \<lparr>ulPartitionType = 0, ulPartitionBaseAddr = 0, ulPartitionSize = 0,
        pdi_md5 = replicate 16 0, ulPdiSize = 0, ulPartitionFlags = 0\<rparr>, w)),
     apc_bind = Pair OK, user_pdi_load_status = (\<lambda>w. 0), boot_register = Pair 0,
     eeprom_get = (\<lambda>f b w. (OK, b, 0, w)), power_sensors_enabled = True, fresh_sensor = sample_sensor 0,
     fresh_sds = sample_sds, fresh_byte = 0, behind_readings = zero_reading\<rparr>"

lemma sample_asdm_records:
  "get_sdr_record r 0 sample_asdm = (if r < 7 then Some zero_sdr else None)"
  "get_sds_record r 0 sample_asdm = (if r < 7 then Some sample_sds else None)"
  by (simp_all add: get_sdr_record_def get_sds_record_def sdr_at_def sds_at_def sample_asdm_def elem_def
      sensor_records_def sample_repo_def)

lemma sample_asdm_ok: "repositories_ok sample_asdm"
proof -
  have "records sample_asdm r = (if r = 0 \<or> r = 3 \<or> r = 4 then 1 else 0)" for r
    by (simp add: records_def sample_asdm_def)
  moreover have "listed sample_asdm r 0 \<noteq> None" for r
    by (simp add: listed_def sample_asdm_def elem_def)
  moreover have "asdm_firewalls_ok sample_asdm" "pxAscData (asdm sample_asdm) \<noteq> None"
    by (simp_all add: asdm_firewalls_ok_def sample_asdm_def initial_asdm_def)
  moreover have "value_fits (sdr_xSensorValue zero_sdr)" "value_fits (sds_xSensorValue sample_sds)"
    by (simp_all add: value_fits_def zero_sdr_def sample_sds_def zero_field_def)
  ultimately show ?thesis
    by (simp add: repositories_ok_def record_ok_def sample_asdm_records)
qed

lemma update_event_mirrors_proxy_witness:
  "okay (iAscCallback sample_asdm_env (Some \<lparr>ucModule = 2, ucEventType = 0, ucInstance = 0, ucAdditionalData = 3\<rparr>) sample_asdm)
     (\<lambda>(st, s'). st = OK \<and>
       okay (get_sdr_record AMC_ASDM_SUPPORTED_REPO_TEMP 0 s') (\<lambda>rec. fld_ulValue (sdr_xSensorValue rec) = Some 42) \<and>
       okay (get_sdr_record AMC_ASDM_SUPPORTED_REPO_TOTAL_POWER 0 s') (\<lambda>rec. fld_ulValue (sdr_xSensorValue rec) = Some 900))"
proof (rule okay_weaken [OF update_event_mirrors_proxy [where F = sample_asc_env and ys = sample_table]])
  show "repositories_ok sample_asdm" by (rule sample_asdm_ok)
  show "\<forall>h w. fst (mutex_take (asc_evl_part sample_asc_env) h w) \<and> fst (mutex_release (asc_evl_part sample_asc_env) h w) \<and>
      asc_local (snd (mutex_take (asc_evl_part sample_asc_env) h w)) = asc_local w"
    by (simp add: sample_asc_env_def)
  fix z :: "evl_status \<times> unit asc_st asdm_st"
  assume "case z of (st, s') \<Rightarrow> st = OK \<and> pxAscData (asdm s') = Some sample_table \<and>
    pxSensorList (asdm s') = pxSensorList (asdm sample_asdm) \<and> up_to_date (ulMaxPower (asdm sample_asdm)) s'"
  then obtain s' where z: "z = (OK, s')" and l: "pxAscData (asdm s') = Some sample_table"
    "pxSensorList (asdm s') = pxSensorList (asdm sample_asdm)" and up: "up_to_date (ulMaxPower (asdm sample_asdm)) s'"
    by (cases z) auto
  have li: "listed s' 0 0 = Some (sample_table ! 0)" "listed s' 3 0 = Some (sample_table ! 1)"
    "records s' 0 = 1" "records s' 3 = 1"
    by (simp_all add: listed_def records_def l sample_asdm_def elem_def sample_table_def)
  then have "total_power s' = 900"
    by (simp add: total_power_def power_share_def sample_table_def)
  moreover from up have "okay (listed s' 0 i) (record_shows s' 0 i)" if "i < records s' 0" for i
    using that by (auto simp: up_to_date_def)
  then have "record_shows s' 0 0 (sample_table ! 0)" using li by fastforce
  ultimately show "case z of (st, s') \<Rightarrow> st = OK \<and>
       okay (get_sdr_record AMC_ASDM_SUPPORTED_REPO_TEMP 0 s') (\<lambda>rec. fld_ulValue (sdr_xSensorValue rec) = Some 42) \<and>
       okay (get_sdr_record AMC_ASDM_SUPPORTED_REPO_TOTAL_POWER 0 s') (\<lambda>rec. fld_ulValue (sdr_xSensorValue rec) = Some 900)"
    using up by (auto simp: z up_to_date_def record_shows_def sample_table_def elim!: okay_weaken)
qed (simp_all add: sample_asdm_def sample_asdm_env_def initial_asdm_def asc_ready_def asc_firewalls_ok_def
      sample_asc_def initial_asc_local_def sample_table_def)

end
