(* ===== verification/ASDM_Responses.thy ===== *)
theory ASDM_Responses
  imports ASDM_Build
begin

text \<open>
  The responses to the host's requests (\<open>asdm.c\<close>): each is written into the caller's buffer
  at a 16-bit byte count, without a check of its size: a byte outside the buffer is undefined.
\<close>

section \<open>Writing at the byte count\<close>

text \<open>The state of a response: the byte count and the buffer.\<close>

type_synonym resp = "u16 \<times> u8 list"

definition emit :: "u8 list \<Rightarrow> resp \<Rightarrow> resp option" where
  "emit xs = (\<lambda>(n, b). do { b \<leftarrow> put_bytes (unat n) xs b; Some (n + of_nat (length xs), b) })"

definition emit8 :: "u8 \<Rightarrow> resp \<Rightarrow> resp option" where
  "emit8 v = emit [v]"

text \<open>\<open>memcpy\<close> of \<open>k\<close> bytes from a 32-bit member.\<close>

definition emit_u32 :: "u32 \<Rightarrow> u8 \<Rightarrow> resp \<Rightarrow> resp option" where
  "emit_u32 v k x = do { xs \<leftarrow> get_bytes (le_bytes32 v) 0 (unat k); emit xs x }"

definition emit_field :: "ASDMRecordField \<Rightarrow> u8 \<Rightarrow> resp \<Rightarrow> resp option" where
  "emit_field f k x = do { xs \<leftarrow> get_bytes (fld_bytes f) 0 (unat k); emit xs x }"

text \<open>The two leading bytes, and the payload size stored later in the third.\<close>

definition emit_code :: "nat \<Rightarrow> u8 list \<Rightarrow> resp option" where
  "emit_code r b = do {
     h \<leftarrow> elem (Some xAsdmHeaderInfo) r;
     b \<leftarrow> put8 ASDM_SDR_RESP_BYTE_CC ASDM_SDR_COMPLETION_CODE_OPERATION_SUCCESS b;
     b \<leftarrow> put8 ASDM_SDR_RESP_BYTE_REPO_TYPE (ucRepoType h) b;
     Some (2, b) }"

section \<open>The requests\<close>

text \<open>
  What a response function hands back: the status, the buffer, the size if the code writes
  it, and the state.
\<close>

type_synonym 'w asdm_answer = "evl_status \<times> u8 list \<times> u16 option \<times> 'w asdm_st"

text \<open>A body run with the mutex held.\<close>

definition asdm_locked ::
  "'w asdm_env \<Rightarrow> u8 list \<Rightarrow> ('w asdm_st \<Rightarrow> 'w asdm_answer option) \<Rightarrow> 'w asdm_st \<Rightarrow> 'w asdm_answer option" where
  "asdm_locked E buf body s =
     (let (taken, s) = asdm_take E s in
      if taken then do {
        (st, b, n, s) \<leftarrow> body (ASDM_INC_STAT_COUNTER ASDM_STATS_TAKE_MUTEX s);
        let (st, s) = asdm_release E st s;
        Some (st, b, n, s) }
      else Some (ERROR, buf, None, ASDM_INC_ERROR_COUNTER ASDM_ERRORS_MUTEX_TAKE_FAILED s))"

text \<open>A request whose repository is mapped first.\<close>

definition on_repo ::
  "'w asdm_env \<Rightarrow> u8 \<Rightarrow> u8 list \<Rightarrow> (nat \<Rightarrow> 'w asdm_st \<Rightarrow> 'w asdm_answer option) \<Rightarrow> 'w asdm_st \<Rightarrow> 'w asdm_answer option" where
  "on_repo E t buf body s =
     (let (m, s) = iMapAsdmRepo t s in
      case m of
        Some r \<Rightarrow> asdm_locked E buf (body r) s
      | None \<Rightarrow> Some (ERROR, buf, None, s))"

subsection \<open>All sensors\<close>

text \<open>The values of record \<open>i\<close>: one length and three values of that length, and the status.\<close>

definition emit_values :: "u8 \<Rightarrow> ASDMSdrRecord \<Rightarrow> resp \<Rightarrow> resp option" where
  "emit_values len rec x = do {
     v \<leftarrow> fld_ulValue (sdr_xSensorValue rec);
     x \<leftarrow> emit_u32 v len x;
     x \<leftarrow> emit_u32 (ulMaxValue rec) len x;
     x \<leftarrow> emit_u32 (ulAverageValue rec) len x;
     emit8 (sdr_ucSensorStatus rec) x }"

definition all_sensor_record :: "'w asdm_st \<Rightarrow> nat \<Rightarrow> nat \<Rightarrow> u8 \<times> resp \<Rightarrow> (u8 \<times> resp) option" where
  "all_sensor_record s r i = (\<lambda>(size, x). do {
     rec \<leftarrow> get_sdr_record r i s;
     let len = fld_ucLength (sdr_xSensorValue rec) AND ASDM_RECORD_FIELD_LENGTH_MASK;
     x \<leftarrow> emit8 len x;
     x \<leftarrow> emit_values len rec x;
     Some (size + (1 + SENSOR_RESPONSE_VALUES * len + 1), x) })"

definition all_sensors :: "u8 list \<Rightarrow> nat \<Rightarrow> 'w asdm_st \<Rightarrow> 'w asdm_answer option" where
  "all_sensors buf r s = do {
     (n, b) \<leftarrow> emit_code r buf;
     d \<leftarrow> sdr_at r s;
     (size, n, b) \<leftarrow> for_each (all_sensor_record s r) [0..<unat (ucTotalNumRecords (sdr_xHdr d))] (0, n + 1, b);
     b \<leftarrow> put8 ASDM_SDR_RESP_BYTE_SIZE size b;
     Some (OK, b, Some n, s) }"

definition iPopulateAsdmGetAllSensorDataResponse ::
  "'w asdm_env \<Rightarrow> u8 \<Rightarrow> u8 list \<Rightarrow> 'w asdm_st \<Rightarrow> 'w asdm_answer option" where
  "iPopulateAsdmGetAllSensorDataResponse E t buf s =
     (if asdm_firewalls_ok s
      then on_repo E t buf (all_sensors buf) (ASDM_INC_STAT_COUNTER ASDM_STATS_ASDM_GET_ALL_SENSOR_API s)
      else Some (ERROR, buf, None, s))"

subsection \<open>The size of a repository\<close>

text \<open>
  The mutex is taken first, and released only for a known repository.  The size comes from
  the constant table, whose sizes are all zero.
\<close>

definition iPopulateAsdmGetSizeResponse ::
  "'w asdm_env \<Rightarrow> u8 \<Rightarrow> u8 list \<Rightarrow> 'w asdm_st \<Rightarrow> 'w asdm_answer option" where
  "iPopulateAsdmGetSizeResponse E t buf s =
     (if asdm_firewalls_ok s then
        (let (taken, s) = asdm_take E s in
         if taken then
           (let (m, s) = iMapAsdmRepo t (ASDM_INC_STAT_COUNTER ASDM_STATS_TAKE_MUTEX s) in
            case m of
              Some r \<Rightarrow> do {
                (n, b) \<leftarrow> emit_code r buf;
                h \<leftarrow> elem (Some xAsdmHeaderInfo) r;
                b \<leftarrow> put16 ASDM_SDR_RESP_BYTE_SIZE (5 + usTotalNumBytes h + 3) b;
                let (st, s) = asdm_release E OK s;
                Some (st, b, Some (n + 2), s) }
            | None \<Rightarrow> Some (ERROR, buf, None, s))
         else Some (ERROR, buf, None, ASDM_INC_ERROR_COUNTER ASDM_ERRORS_MUTEX_TAKE_FAILED s))
      else Some (ERROR, buf, None, s))"

subsection \<open>One sensor\<close>

text \<open>
  The length taken is that of the sensor's name, the length sent is that of the status, and
  the identifier indexes the records unchecked.
\<close>

definition single_sensor :: "u8 list \<Rightarrow> u8 \<Rightarrow> nat \<Rightarrow> 'w asdm_st \<Rightarrow> 'w asdm_answer option" where
  "single_sensor buf ident r s = do {
     (n, b) \<leftarrow> emit_code r buf;
     rec \<leftarrow> get_sdr_record r (unat ident) s;
     let len = fld_ucLength (xSensorName rec) AND ASDM_RECORD_FIELD_LENGTH_MASK;
     x \<leftarrow> emit8 1 (n + 1, b);
     (n, b) \<leftarrow> emit_values len rec x;
     b \<leftarrow> put8 ASDM_SDR_RESP_BYTE_SIZE (1 + SENSOR_RESPONSE_VALUES * len + 1) b;
     Some (OK, b, Some n, s) }"

definition iPopulateAsdmGetSingleSensorResponse ::
  "'w asdm_env \<Rightarrow> u8 \<Rightarrow> u8 \<Rightarrow> u8 list \<Rightarrow> 'w asdm_st \<Rightarrow> 'w asdm_answer option" where
  "iPopulateAsdmGetSingleSensorResponse E t ident buf s =
     (if asdm_firewalls_ok s
      then on_repo E t buf (single_sensor buf ident)
             (ASDM_INC_STAT_COUNTER ASDM_STATS_ASDM_GET_SINGLE_SENSOR_API s)
      else Some (ERROR, buf, None, s))"

subsection \<open>The board information\<close>

definition emit_board_field :: "ASDMRecordField \<Rightarrow> resp \<Rightarrow> resp option" where
  "emit_board_field f x = do {
     x \<leftarrow> emit8 (fld_ucType f) x;
     x \<leftarrow> emit8 (fld_ucLength f) x;
     emit_field f (fld_ucLength f) x }"

definition emit_board :: "ASDMBoardInfoRecord \<Rightarrow> board_field \<Rightarrow> resp \<Rightarrow> resp option" where
  "emit_board info f = emit_board_field (info f)"

text \<open>
  The caller passes the address behind what it has written: the count starts at zero from
  there, and the buffer is the rest.
\<close>

definition board_pointer :: "nat \<Rightarrow> 'w asdm_st \<Rightarrow> ASDMBoardInfoRecord option" where
  "board_pointer r s = do { x \<leftarrow> sdr_at r s; if sdr_payload x = BoardInfo then pxBoardInfo (asdm s) else None }"

definition iPopulateAsdmSdrBoardInfoResponse ::
  "u8 \<Rightarrow> u8 list \<Rightarrow> 'w asdm_st \<Rightarrow> 'w asdm_answer option" where
  "iPopulateAsdmSdrBoardInfoResponse t buf s =
     (if asdm_firewalls_ok s then
        (let (m, s) = iMapAsdmRepo t s in
         case m of
           Some r \<Rightarrow> do {
             info \<leftarrow> board_pointer r s;
             (n, b) \<leftarrow> for_each (emit_board info) board_fields (0, buf);
             Some (OK, b, Some n, s) }
         | None \<Rightarrow> Some (ERROR, buf, None, s))
      else Some (ERROR, buf, None, s))"

subsection \<open>The sensor data records\<close>

text \<open>Type and length share a byte.\<close>

definition type_length :: "ASDMRecordField \<Rightarrow> u8 \<times> u8" where
  "type_length f =
     (let len = fld_ucLength f AND ASDM_RECORD_FIELD_LENGTH_MASK;
          ty = fld_ucType f AND ASDM_RECORD_FIELD_TYPE_MASK
      in (len, len OR push_bit ASDM_RECORD_FIELD_TYPE_POS ty))"

definition emit_typed :: "ASDMRecordField \<Rightarrow> resp \<Rightarrow> resp option" where
  "emit_typed f x = (let (len, tl) = type_length f in do { x \<leftarrow> emit8 tl x; emit_field f len x })"

text \<open>A value, if the bit of the record's mask says so.\<close>

definition emit_if :: "ASDMSdrRecord \<Rightarrow> u8 \<Rightarrow> u32 \<Rightarrow> u8 \<Rightarrow> resp \<Rightarrow> resp option" where
  "emit_if rec m v len x = (if ucThresholdSupportedBitMask rec AND m \<noteq> 0 then emit_u32 v len x else Some x)"

definition emit_sdr_v2 :: "ASDMSdrRecord \<Rightarrow> resp \<Rightarrow> resp option" where
  "emit_sdr_v2 rec x = do {
     let len = fst (type_length (sdr_xSensorValue rec));
     x \<leftarrow> emit8 (sdr_ucId rec) x;
     x \<leftarrow> emit_typed (xSensorName rec) x;
     x \<leftarrow> emit_typed (sdr_xSensorValue rec) x;
     x \<leftarrow> emit_typed (xSensorBaseUnit rec) x;
     x \<leftarrow> emit8 (cUnitModifier rec) x;
     x \<leftarrow> emit8 (ucThresholdSupportedBitMask rec) x;
     x \<leftarrow> emit_if rec ASDM_SDR_THRESHOLD_LOWER_FATAL_MASK (sdr_ulLowerFatalLimit rec) len x;
     x \<leftarrow> emit_if rec ASDM_SDR_THRESHOLD_LOWER_CRITICAL_MASK (sdr_ulLowerCritLimit rec) len x;
     x \<leftarrow> emit_if rec ASDM_SDR_THRESHOLD_LOWER_WARNING_MASK (sdr_ulLowerWarnLimit rec) len x;
     x \<leftarrow> emit_if rec ASDM_SDR_THRESHOLD_UPPER_FATAL_MASK (sdr_ulUpperFatalLimit rec) len x;
     x \<leftarrow> emit_if rec ASDM_SDR_THRESHOLD_UPPER_CRITICAL_MASK (sdr_ulUpperCritLimit rec) len x;
     x \<leftarrow> emit_if rec ASDM_SDR_THRESHOLD_UPPER_WARNING_MASK (sdr_ulUpperWarnLimit rec) len x;
     emit8 (sdr_ucSensorStatus rec) x }"

definition emit_sdr :: "ASDMSdrRecord \<Rightarrow> resp \<Rightarrow> resp option" where
  "emit_sdr rec x = do {
     let len = fst (type_length (sdr_xSensorValue rec));
     x \<leftarrow> emit_sdr_v2 rec x;
     x \<leftarrow> emit_if rec ASDM_SDR_THRESHOLD_SENSOR_AVG_MASK (ulAverageValue rec) len x;
     emit_if rec ASDM_SDR_THRESHOLD_SENSOR_MAX_MASK (ulMaxValue rec) len x }"

definition emit_record ::
  "(ASDMSdrRecord \<Rightarrow> resp \<Rightarrow> resp option) \<Rightarrow> 'w asdm_st \<Rightarrow> nat \<Rightarrow> nat \<Rightarrow> resp \<Rightarrow> resp option" where
  "emit_record f s r i x = do { rec \<leftarrow> get_sdr_record r i s; f rec x }"

text \<open>The completion code and the header.\<close>

definition emit_header :: "nat \<Rightarrow> u8 list \<Rightarrow> 'w asdm_st \<Rightarrow> resp option" where
  "emit_header r buf s = do {
     d \<leftarrow> sdr_at r s;
     x \<leftarrow> emit8 ASDM_SDR_COMPLETION_CODE_OPERATION_SUCCESS (0, buf);
     emit (header_bytes (sdr_xHdr d)) x }"

definition emit_eor :: "nat \<Rightarrow> 'w asdm_st \<Rightarrow> resp \<Rightarrow> resp option" where
  "emit_eor r s x = do { d \<leftarrow> sdr_at r s; emit (sdr_pucAsdmEor d) x }"

definition num_found :: "nat \<Rightarrow> 'w asdm_st \<Rightarrow> nat option" where
  "num_found r s = do { l \<leftarrow> get_sensor_list r s; Some (unat (ucNumFound l)) }"

text \<open>The records of a sensor repository.\<close>

definition emit_records ::
  "(ASDMSdrRecord \<Rightarrow> resp \<Rightarrow> resp option) \<Rightarrow> nat \<Rightarrow> 'w asdm_st \<Rightarrow> resp \<Rightarrow> resp option" where
  "emit_records f r s x = do {
     d \<leftarrow> sdr_at r s;
     for_each (emit_record f s r) [0..<unat (ucTotalNumRecords (sdr_xHdr d))] x }"

definition emit_entry :: "ASDMFptEntry list option \<Rightarrow> nat \<Rightarrow> resp \<Rightarrow> resp option" where
  "emit_entry p i x = do { e \<leftarrow> elem p i; emit (fpt_entry_bytes e) x }"

text \<open>The table of one device: its header and its entries.\<close>

definition emit_device :: "ASDMFptHeader \<Rightarrow> ASDMFptEntry list option \<Rightarrow> resp \<Rightarrow> resp option" where
  "emit_device h p x = do {
     x \<leftarrow> emit (fpt_header_bytes h) x;
     for_each (emit_entry p) [0..<unat (fpt_ucNumEntries h)] x }"

definition emit_fpt :: "nat \<Rightarrow> 'w asdm_st \<Rightarrow> resp \<Rightarrow> resp option" where
  "emit_fpt r s x = do {
     d \<leftarrow> sdr_at r s;
     f \<leftarrow> fpt_record d;
     x \<leftarrow> emit_device (xFptHdrPrimary f) (pxFptEntryPrimary f) x;
     emit_device (xFptHdrSecondary f) (pxFptEntrySecondary f) x }"

text \<open>The payload of a GET SDR response; the board information is written behind the header.\<close>

definition sdr_payload_response ::
  "u8 \<Rightarrow> nat \<Rightarrow> resp \<Rightarrow> 'w asdm_st \<Rightarrow> (evl_status \<times> resp \<times> 'w asdm_st) option" where
  "sdr_payload_response t r x s = do {
     k \<leftarrow> num_found r s;
     if k = 0 then Some (OK, x, ASDM_INC_ERROR_COUNTER ASDM_ERRORS_AMI_SENSOR_REQUEST_EMPTY_SDR s)
     else if r \<le> AMC_ASDM_SUPPORTED_REPO_TOTAL_POWER then do { x \<leftarrow> emit_records emit_sdr r s x; Some (OK, x, s) }
     else if r = AMC_ASDM_SUPPORTED_REPO_FPT then do { x \<leftarrow> emit_fpt r s x; Some (OK, x, s) }
     else do {
       let (n, b) = x;
       (st, rest, m, s) \<leftarrow> iPopulateAsdmSdrBoardInfoResponse t (drop (unat n) b) s;
       Some (st, (if st = OK then n + (case m of Some m \<Rightarrow> m | None \<Rightarrow> 0) else n, take (unat n) b @ rest), s) } }"

definition get_sdr :: "u8 \<Rightarrow> u8 list \<Rightarrow> nat \<Rightarrow> 'w asdm_st \<Rightarrow> 'w asdm_answer option" where
  "get_sdr t buf r s = do {
     x \<leftarrow> emit_header r buf s;
     (st, x, s) \<leftarrow> sdr_payload_response t r x s;
     (n, b) \<leftarrow> emit_eor r s x;
     Some (st, b, Some n, s) }"

definition iPopulateAsdmGetSdrResponse :: "'w asdm_env \<Rightarrow> u8 \<Rightarrow> u8 list \<Rightarrow> 'w asdm_st \<Rightarrow> 'w asdm_answer option" where
  "iPopulateAsdmGetSdrResponse E t buf s =
     (if asdm_firewalls_ok s
      then on_repo E t buf (get_sdr t buf) (ASDM_INC_STAT_COUNTER ASDM_STATS_ASDM_GET_SDR_API s)
      else Some (ERROR, buf, None, s))"

text \<open>The second version: sensor repositories only, and the size is not written.\<close>

definition get_sdr_v2 :: "u8 list \<Rightarrow> nat \<Rightarrow> 'w asdm_st \<Rightarrow> 'w asdm_answer option" where
  "get_sdr_v2 buf r s = do {
     x \<leftarrow> emit_header r buf s;
     k \<leftarrow> num_found r s;
     (st, x, s) \<leftarrow>
       (if r \<le> AMC_ASDM_SUPPORTED_REPO_TOTAL_POWER then
          (if k = 0 then Some (OK, x, ASDM_INC_ERROR_COUNTER ASDM_ERRORS_AMI_SENSOR_REQUEST_EMPTY_SDR s)
           else do { x \<leftarrow> emit_records emit_sdr_v2 r s x; Some (OK, x, s) })
        else Some (ERROR, x, ASDM_INC_ERROR_COUNTER ASDM_ERRORS_AMI_UNSUPPORTED_REPO s));
     (n, b) \<leftarrow> emit_eor r s x;
     Some (st, b, None, s) }"

definition iPopulateAsdmGetSdrResponseV2 :: "'w asdm_env \<Rightarrow> u8 \<Rightarrow> u8 list \<Rightarrow> 'w asdm_st \<Rightarrow> 'w asdm_answer option" where
  "iPopulateAsdmGetSdrResponseV2 E t buf s =
     (if asdm_firewalls_ok s
      then on_repo E t buf (get_sdr_v2 buf) (ASDM_INC_STAT_COUNTER ASDM_STATS_ASDM_GET_SDR_API s)
      else Some (ERROR, buf, None, s))"

subsection \<open>All sensors, second version\<close>

text \<open>The payload size counts the length byte and the value, not the identifier, status and tag.\<close>

definition all_sensor_record_v2 :: "'w asdm_st \<Rightarrow> nat \<Rightarrow> nat \<Rightarrow> u8 \<times> resp \<Rightarrow> (u8 \<times> resp) option" where
  "all_sensor_record_v2 s r i = (\<lambda>(size, x). do {
     rec \<leftarrow> get_sds_record r i s;
     x \<leftarrow> emit8 (sds_ucId rec) x;
     let len = fld_ucLength (sds_xSensorValue rec) AND ASDM_RECORD_FIELD_LENGTH_MASK;
     x \<leftarrow> emit8 len x;
     v \<leftarrow> fld_ulValue (sds_xSensorValue rec);
     x \<leftarrow> emit_u32 v len x;
     x \<leftarrow> emit8 (sds_ucSensorStatus rec) x;
     x \<leftarrow> emit8 (ucSensorTag rec) x;
     Some (size + (1 + len), x) })"

definition all_sensors_v2 :: "u8 list \<Rightarrow> nat \<Rightarrow> 'w asdm_st \<Rightarrow> 'w asdm_answer option" where
  "all_sensors_v2 buf r s = do {
     (n, b) \<leftarrow> emit_code r buf;
     d \<leftarrow> sds_at r s;
     (size, n, b) \<leftarrow> for_each (all_sensor_record_v2 s r) [0..<unat (ucTotalNumRecords (sds_xHdr d))] (0, n + 1, b);
     b \<leftarrow> put8 ASDM_SDR_RESP_BYTE_SIZE size b;
     Some (OK, b, Some n, s) }"

definition iPopulateAsdmGetAllSensorDataResponseV2 ::
  "'w asdm_env \<Rightarrow> u8 \<Rightarrow> u8 list \<Rightarrow> 'w asdm_st \<Rightarrow> 'w asdm_answer option" where
  "iPopulateAsdmGetAllSensorDataResponseV2 E t buf s =
     (if asdm_firewalls_ok s
      then on_repo E t buf (all_sensors_v2 buf) (ASDM_INC_STAT_COUNTER ASDM_STATS_ASDM_GET_ALL_SENSOR_API s)
      else Some (ERROR, buf, None, s))"

section \<open>The entry point\<close>

text \<open>\<open>None\<close> for the buffer or \<open>False\<close> for the size is a null pointer.\<close>

definition iASDM_PopulateResponse ::
  "'w asdm_env \<Rightarrow> ASDM_API_ID_TYPE \<Rightarrow> u8 \<Rightarrow> u8 \<Rightarrow> u8 list option \<Rightarrow> bool \<Rightarrow> 'w asdm_st \<Rightarrow>
   (evl_status \<times> u8 list option \<times> u16 option \<times> 'w asdm_st) option" where
  "iASDM_PopulateResponse E xApiType t ident pucRespBuff out s =
     (case pucRespBuff of
        Some buf \<Rightarrow>
          (if asdm_firewalls_ok s \<and> asdm_iInitialised (asdm s) \<and> out then do {
             (st, b, n, s) \<leftarrow> (case xApiType of
                 ASDM_API_ID_TYPE_GET_SDR_SIZE \<Rightarrow> iPopulateAsdmGetSizeResponse E t buf s
               | ASDM_API_ID_TYPE_GET_SDR \<Rightarrow> iPopulateAsdmGetSdrResponse E t buf s
               | ASDM_API_ID_TYPE_GET_SINGLE_SENSOR_DATA \<Rightarrow> iPopulateAsdmGetSingleSensorResponse E t ident buf s
               | ASDM_API_ID_TYPE_GET_ALL_SENSOR_DATA \<Rightarrow> iPopulateAsdmGetAllSensorDataResponse E t buf s
               | ASDM_API_ID_TYPE_GET_SDR_V2 \<Rightarrow> iPopulateAsdmGetSdrResponseV2 E t buf s
               | ASDM_API_ID_TYPE_GET_ALL_SENSOR_DATA_V2 \<Rightarrow> iPopulateAsdmGetAllSensorDataResponseV2 E t buf s
               | _ \<Rightarrow> Some (ERROR, buf, None, s));
             Some (st, Some b, n, s) }
           else Some (ERROR, Some buf, None, s))
      | None \<Rightarrow> Some (ERROR, None, None, s))"

section \<open>Statistics\<close>

definition asdm_stats :: "ASDM_STATS list" where
  "asdm_stats =
     [ASDM_STATS_INIT_OVERALL_COMPLETE, ASDM_STATS_ASC_SENSOR_UPDATE_EVENT, ASDM_STATS_ASC_SENSOR_OTHER_EVENT,
      ASDM_STATS_AMI_SENSOR_REQUEST, ASDM_STATS_AMI_UNSUPPORTED_REQUEST, ASDM_STATS_ASDM_GET_SDR_API,
      ASDM_STATS_ASDM_GET_ALL_SENSOR_API, ASDM_STATS_ASDM_GET_SDR_SIZE_API,
      ASDM_STATS_ASDM_GET_SINGLE_SENSOR_API, ASDM_STATS_ASDM_POPULATE_SDR_SUCCESS, ASDM_STATS_TAKE_MUTEX,
      ASDM_STATS_RELEASE_MUTEX, ASDM_STATS_MALLOC, ASDM_STATS_FREE, ASDM_STATS_GET_FPT_HEADER,
      ASDM_STATS_GET_FPT_PARTITION, ASDM_STATS_APC_FPT_UPDATE_EVENT, ASDM_STATS_APC_FPT_FLAGS_UPDATE_EVENT]"

definition asdm_errors :: "ASDM_ERRORS list" where
  "asdm_errors =
     [ASDM_ERRORS_INIT_MUTEX_FAILED, ASDM_ERRORS_INIT_BIND_ASC_CB_FAILED, ASDM_ERRORS_INIT_BIND_APC_CB_FAILED,
      ASDM_ERRORS_INIT_OVERALL_FAILED, ASDM_ERRORS_ASC_GET_SENSORS_FAILED,
      ASDM_ERRORS_ASC_GET_SINGLE_SENSOR_FAILED, ASDM_ERRORS_AMI_SENSOR_REQUEST_EMPTY_SDR,
      ASDM_ERRORS_AMI_SENSOR_REQUEST_UNKNOWN_API, ASDM_ERRORS_AMI_SENSOR_REQUEST_FAILED,
      ASDM_ERRORS_AMI_UNSUPPORTED_REPO, ASDM_ERRORS_MUTEX_RELEASE_FAILED, ASDM_ERRORS_MUTEX_TAKE_FAILED,
      ASDM_ERRORS_MALLOC_FAILED, ASDM_ERRORS_ASC_BITFIELD_MAPPING, ASDM_ERRORS_ASDM_REPO_MAPPING,
      ASDM_ERRORS_ASDM_UNIT_MODIFIER_MAPPING, ASDM_ERRORS_ASDM_SENSOR_NAME_LENGTH,
      ASDM_ERRORS_ASDM_POPULATE_SDR_FAILED, ASDM_ERRORS_ASDM_POPULATE_SDS_FAILED,
      ASDM_ERRORS_ASDM_GET_SDR_FAILED, ASDM_ERRORS_TOTAL_POWER_FAILED, ASDM_ERRORS_APC_PARTITION_HEADER,
      ASDM_ERRORS_APC_PARTITION_INFO, ASDM_ERRORS_ASDM_POPULATE_BDINFO_FAILED,
      ASDM_ERRORS_APC_FPT_UPDATE_FAILED, ASDM_ERRORS_SENSOR_TAG_MAPPING]"

definition iASDM_PrintStatistics :: "'w asdm_st \<Rightarrow> evl_status \<times> u32 list \<times> u32 list" where
  "iASDM_PrintStatistics s =
     (if asdm_firewalls_ok s
      then (OK, map (asdm_pulStatCounters (asdm s)) asdm_stats, map (asdm_pulErrorCounters (asdm s)) asdm_errors)
      else (ERROR, [], []))"

definition iASDM_ClearStatistics :: "'w asdm_st \<Rightarrow> evl_status \<times> 'w asdm_st" where
  "iASDM_ClearStatistics s =
     (if asdm_firewalls_ok s
      then (OK, upd_asdm (\<lambda>d. d\<lparr>asdm_pulStatCounters := (\<lambda>_. 0), asdm_pulErrorCounters := (\<lambda>_. 0)\<rparr>) s)
      else (ERROR, s))"

end
