(* ===== verification/Host_Types.thy ===== *)
theory Host_Types
  imports AMC_Common
begin

text \<open>
  The host driver's view of sensors and assets (\<open>sw/AMI/driver/ami_amc_control.h\<close>,
  \<open>ami_sensor.h\<close>): records as the host keeps them, the repositories, and the state of the
  device that matters for them.  The driver runs in the Linux kernel on a little-endian
  64-bit processor.

  The memory allocator, the command queue and the clock act on a world \<open>'w\<close>.  The pointer to
  the control structure is a flag, whether it is non-null.
\<close>

section \<open>Constants\<close>

abbreviation (input) SUCCESS :: int where "SUCCESS \<equiv> 0"
abbreviation (input) EIO :: int where "EIO \<equiv> 5"
abbreviation (input) ENOMEM :: int where "ENOMEM \<equiv> 12"
abbreviation (input) EINVAL :: int where "EINVAL \<equiv> 22"
abbreviation (input) ENODATA :: int where "ENODATA \<equiv> 61"
abbreviation (input) EILSEQ :: int where "EILSEQ \<equiv> 84"

abbreviation (input) SENSOR_RSP_LEN :: nat where "SENSOR_RSP_LEN \<equiv> 4096"
abbreviation (input) SDR_RESP_LEN :: nat where "SDR_RESP_LEN \<equiv> 4096"
abbreviation (input) SDR_LENGTH_MASK :: u8 where "SDR_LENGTH_MASK \<equiv> 0x3F"
abbreviation (input) SDR_TYPE_POS :: nat where "SDR_TYPE_POS \<equiv> 6"
abbreviation (input) SDR_EOR :: u32 where "SDR_EOR \<equiv> 0x454E44"
abbreviation (input) THRESHOLD_UPPER_WARNING_MASK :: u8 where "THRESHOLD_UPPER_WARNING_MASK \<equiv> 0x01"
abbreviation (input) THRESHOLD_UPPER_CRITICAL_MASK :: u8 where "THRESHOLD_UPPER_CRITICAL_MASK \<equiv> 0x02"
abbreviation (input) THRESHOLD_UPPER_FATAL_MASK :: u8 where "THRESHOLD_UPPER_FATAL_MASK \<equiv> 0x04"
abbreviation (input) THRESHOLD_LOWER_WARNING_MASK :: u8 where "THRESHOLD_LOWER_WARNING_MASK \<equiv> 0x08"
abbreviation (input) THRESHOLD_LOWER_CRITICAL_MASK :: u8 where "THRESHOLD_LOWER_CRITICAL_MASK \<equiv> 0x10"
abbreviation (input) THRESHOLD_LOWER_FATAL_MASK :: u8 where "THRESHOLD_LOWER_FATAL_MASK \<equiv> 0x20"
abbreviation (input) THRESHOLD_SENSOR_AVG_MASK :: u8 where "THRESHOLD_SENSOR_AVG_MASK \<equiv> 0x40"
abbreviation (input) THRESHOLD_SENSOR_MAX_MASK :: u8 where "THRESHOLD_SENSOR_MAX_MASK \<equiv> 0x80"
abbreviation (input) SDR_VALUE_MAX_LEN :: nat where "SDR_VALUE_MAX_LEN \<equiv> 64"
abbreviation (input) SDR_THRESHOLD_MAX_LEN :: nat where "SDR_THRESHOLD_MAX_LEN \<equiv> 4"
abbreviation (input) NUM_SENSOR_REPOS :: nat where "NUM_SENSOR_REPOS \<equiv> 7"
abbreviation (input) DEFAULT_BDINFO_POWER :: u8 where "DEFAULT_BDINFO_POWER \<equiv> 0xFF"

abbreviation (input) SDR_TYPE_BDINFO :: u8 where "SDR_TYPE_BDINFO \<equiv> 0xC0"
abbreviation (input) SDR_TYPE_TEMP :: u8 where "SDR_TYPE_TEMP \<equiv> 0xC1"
abbreviation (input) SDR_TYPE_VOLTAGE :: u8 where "SDR_TYPE_VOLTAGE \<equiv> 0xC2"
abbreviation (input) SDR_TYPE_CURRENT :: u8 where "SDR_TYPE_CURRENT \<equiv> 0xC3"
abbreviation (input) SDR_TYPE_POWER :: u8 where "SDR_TYPE_POWER \<equiv> 0xC4"
abbreviation (input) SDR_TYPE_TOTAL_POWER :: u8 where "SDR_TYPE_TOTAL_POWER \<equiv> 0xC6"
abbreviation (input) SDR_TYPE_FPT :: u8 where "SDR_TYPE_FPT \<equiv> 0xF0"
abbreviation (input) SDR_POWER_TYPE :: u8 where "SDR_POWER_TYPE \<equiv> SDR_TYPE_TOTAL_POWER"
abbreviation (input) SDR_CODE_OP_SUCCESS :: u8 where "SDR_CODE_OP_SUCCESS \<equiv> 1"
abbreviation (input) SDR_PARSE_BUF_STATUS_INDEX :: nat where "SDR_PARSE_BUF_STATUS_INDEX \<equiv> 3"

abbreviation (input) GCQ_CMD_FLAG_NONE :: u32 where "GCQ_CMD_FLAG_NONE \<equiv> 0"
abbreviation (input) GCQ_CMD_FLAG_REPO_TYPE_BD_INFO :: u32 where "GCQ_CMD_FLAG_REPO_TYPE_BD_INFO \<equiv> 0x01"
abbreviation (input) GCQ_CMD_FLAG_REPO_TYPE_TEMP :: u32 where "GCQ_CMD_FLAG_REPO_TYPE_TEMP \<equiv> 0x02"
abbreviation (input) GCQ_CMD_FLAG_REPO_TYPE_VOLTAGE :: u32 where "GCQ_CMD_FLAG_REPO_TYPE_VOLTAGE \<equiv> 0x04"
abbreviation (input) GCQ_CMD_FLAG_REPO_TYPE_CURRENT :: u32 where "GCQ_CMD_FLAG_REPO_TYPE_CURRENT \<equiv> 0x08"
abbreviation (input) GCQ_CMD_FLAG_REPO_TYPE_POWER :: u32 where "GCQ_CMD_FLAG_REPO_TYPE_POWER \<equiv> 0x10"
abbreviation (input) GCQ_CMD_FLAG_REPO_TYPE_TOTAL_POWER :: u32 where "GCQ_CMD_FLAG_REPO_TYPE_TOTAL_POWER \<equiv> 0x20"
abbreviation (input) GCQ_CMD_FLAG_REPO_TYPE_FPT :: u32 where "GCQ_CMD_FLAG_REPO_TYPE_FPT \<equiv> 0x40"

abbreviation (input) GCQ_SUBMIT_CMD_GET_SDR_SIZE :: nat where "GCQ_SUBMIT_CMD_GET_SDR_SIZE \<equiv> 0x02"
abbreviation (input) GCQ_SUBMIT_CMD_GET_SDR :: nat where "GCQ_SUBMIT_CMD_GET_SDR \<equiv> 0x03"
abbreviation (input) GCQ_SUBMIT_CMD_GET_INLET_TEMP_SENSOR :: nat where "GCQ_SUBMIT_CMD_GET_INLET_TEMP_SENSOR \<equiv> 0x10"
abbreviation (input) GCQ_SUBMIT_CMD_GET_OUTLET_TEMP_SENSOR :: nat where "GCQ_SUBMIT_CMD_GET_OUTLET_TEMP_SENSOR \<equiv> 0x11"
abbreviation (input) GCQ_SUBMIT_CMD_GET_BOARD_TEMP_SENSOR :: nat where "GCQ_SUBMIT_CMD_GET_BOARD_TEMP_SENSOR \<equiv> 0x12"
abbreviation (input) GCQ_SUBMIT_CMD_GET_FPGA_TEMP_SENSOR :: nat where "GCQ_SUBMIT_CMD_GET_FPGA_TEMP_SENSOR \<equiv> 0x13"
abbreviation (input) GCQ_SUBMIT_CMD_GET_ALL_INST_TEMP_SENSOR :: nat where "GCQ_SUBMIT_CMD_GET_ALL_INST_TEMP_SENSOR \<equiv> 0x20"
abbreviation (input) GCQ_SUBMIT_CMD_GET_VCCINT_VOLTAGE :: nat where "GCQ_SUBMIT_CMD_GET_VCCINT_VOLTAGE \<equiv> 0x30"
abbreviation (input) GCQ_SUBMIT_CMD_GET_VCC1V2_VOLTAGE :: nat where "GCQ_SUBMIT_CMD_GET_VCC1V2_VOLTAGE \<equiv> 0x31"
abbreviation (input) GCQ_SUBMIT_CMD_GET_12V_PEX_VOLTAGE :: nat where "GCQ_SUBMIT_CMD_GET_12V_PEX_VOLTAGE \<equiv> 0x32"
abbreviation (input) GCQ_SUBMIT_CMD_GET_12V_AUX0_VOLTAGE :: nat where "GCQ_SUBMIT_CMD_GET_12V_AUX0_VOLTAGE \<equiv> 0x33"
abbreviation (input) GCQ_SUBMIT_CMD_GET_VCCINT_CURRENT :: nat where "GCQ_SUBMIT_CMD_GET_VCCINT_CURRENT \<equiv> 0x40"
abbreviation (input) GCQ_SUBMIT_CMD_GET_VCC1V2_CURRENT :: nat where "GCQ_SUBMIT_CMD_GET_VCC1V2_CURRENT \<equiv> 0x41"
abbreviation (input) GCQ_SUBMIT_CMD_GET_12V_PEX_CURRENT :: nat where "GCQ_SUBMIT_CMD_GET_12V_PEX_CURRENT \<equiv> 0x42"
abbreviation (input) GCQ_SUBMIT_CMD_GET_TOTAL_POWER :: nat where "GCQ_SUBMIT_CMD_GET_TOTAL_POWER \<equiv> 0x50"
abbreviation (input) GCQ_SUBMIT_CMD_GET_ALL_INST_VOL_SENSOR :: nat where "GCQ_SUBMIT_CMD_GET_ALL_INST_VOL_SENSOR \<equiv> 0x60"
abbreviation (input) GCQ_SUBMIT_CMD_GET_ALL_INST_CUR_SENSOR :: nat where "GCQ_SUBMIT_CMD_GET_ALL_INST_CUR_SENSOR \<equiv> 0x61"
abbreviation (input) GCQ_SUBMIT_CMD_GET_ALL_INST_PWR_SENSOR :: nat where "GCQ_SUBMIT_CMD_GET_ALL_INST_PWR_SENSOR \<equiv> 0x62"

abbreviation (input) AMC_PROXY_CMD_SENSOR_REPO_UNKNOWN :: int where "AMC_PROXY_CMD_SENSOR_REPO_UNKNOWN \<equiv> - EINVAL"
abbreviation (input) AMC_PROXY_CMD_SENSOR_REPO_GET_SIZE :: int where "AMC_PROXY_CMD_SENSOR_REPO_GET_SIZE \<equiv> 0"
abbreviation (input) AMC_PROXY_CMD_SENSOR_REPO_BDINFO :: int where "AMC_PROXY_CMD_SENSOR_REPO_BDINFO \<equiv> 1"
abbreviation (input) AMC_PROXY_CMD_SENSOR_REPO_TEMP :: int where "AMC_PROXY_CMD_SENSOR_REPO_TEMP \<equiv> 2"
abbreviation (input) AMC_PROXY_CMD_SENSOR_REPO_VOLTAGE :: int where "AMC_PROXY_CMD_SENSOR_REPO_VOLTAGE \<equiv> 3"
abbreviation (input) AMC_PROXY_CMD_SENSOR_REPO_CURRENT :: int where "AMC_PROXY_CMD_SENSOR_REPO_CURRENT \<equiv> 4"
abbreviation (input) AMC_PROXY_CMD_SENSOR_REPO_POWER :: int where "AMC_PROXY_CMD_SENSOR_REPO_POWER \<equiv> 5"
abbreviation (input) AMC_PROXY_CMD_SENSOR_REPO_TOTAL_POWER :: int where "AMC_PROXY_CMD_SENSOR_REPO_TOTAL_POWER \<equiv> 6"
abbreviation (input) AMC_PROXY_CMD_SENSOR_REPO_FPT :: int where "AMC_PROXY_CMD_SENSOR_REPO_FPT \<equiv> 8"

abbreviation (input) AMI_AMC_BOOT_DEVICE_PRIMARY :: u8 where "AMI_AMC_BOOT_DEVICE_PRIMARY \<equiv> 0"
abbreviation (input) AMI_AMC_BOOT_DEVICE_SECONDARY :: u8 where "AMI_AMC_BOOT_DEVICE_SECONDARY \<equiv> 1"
abbreviation (input) AMI_AMC_BOOT_DEVICE_MAX :: u8 where "AMI_AMC_BOOT_DEVICE_MAX \<equiv> 2"

section \<open>Records\<close>

record sdr_record =
  r_id :: u8
  r_name_type :: u8
  r_name_len :: u8
  r_name :: "u8 list"
  r_value_type :: u8
  r_value_len :: u8
  r_value :: "u8 list"
  r_unit_type :: u8
  r_unit_len :: u8
  r_unit :: "u8 list"
  r_unit_mod :: u8
  r_threshold_support :: u8
  r_lower_fatal_limit :: "u8 list"
  r_lower_crit_limit :: "u8 list"
  r_lower_warn_limit :: "u8 list"
  r_upper_warn_limit :: "u8 list"
  r_upper_crit_limit :: "u8 list"
  r_upper_fatal_limit :: "u8 list"
  r_sensor_status :: u8
  r_min :: "u8 list"
  r_max :: "u8 list"
  r_avg :: "u8 list"

text \<open>Memory from the zeroing allocators.\<close>

definition zero_sdr_record :: sdr_record where
  "zero_sdr_record = \<lparr>r_id = 0, r_name_type = 0, r_name_len = 0, r_name = replicate SDR_VALUE_MAX_LEN 0,
     r_value_type = 0, r_value_len = 0, r_value = replicate SDR_VALUE_MAX_LEN 0,
     r_unit_type = 0, r_unit_len = 0, r_unit = replicate SDR_VALUE_MAX_LEN 0, r_unit_mod = 0, r_threshold_support = 0,
     r_lower_fatal_limit = replicate SDR_THRESHOLD_MAX_LEN 0, r_lower_crit_limit = replicate SDR_THRESHOLD_MAX_LEN 0,
     r_lower_warn_limit = replicate SDR_THRESHOLD_MAX_LEN 0, r_upper_warn_limit = replicate SDR_THRESHOLD_MAX_LEN 0,
     r_upper_crit_limit = replicate SDR_THRESHOLD_MAX_LEN 0, r_upper_fatal_limit = replicate SDR_THRESHOLD_MAX_LEN 0,
     r_sensor_status = 0, r_min = replicate SDR_THRESHOLD_MAX_LEN 0, r_max = replicate SDR_THRESHOLD_MAX_LEN 0,
     r_avg = replicate SDR_THRESHOLD_MAX_LEN 0\<rparr>"

record fpt_header =
  f_version :: u8
  f_header_size :: u8
  f_entry_size :: u8
  f_num_entries :: u8

definition zero_fpt_hdr :: fpt_header where
  "zero_fpt_hdr = \<lparr>f_version = 0, f_header_size = 0, f_entry_size = 0, f_num_entries = 0\<rparr>"

record fpt_partition =
  p_type :: u32
  p_base_addr :: u32
  p_size :: u32
  p_pdi_md5 :: "u8 list"
  p_pdi_size :: u32
  p_flags :: u32

abbreviation (input) MD5_SIZE :: nat where "MD5_SIZE \<equiv> 16"

record fpt_record_host =
  hdr_primary :: fpt_header
  partition_primary :: "fpt_partition list option"
  hdr_secondary :: fpt_header
  partition_secondary :: "fpt_partition list option"

record field_info =
  i_type :: u8
  i_len :: u8
  i_bytes :: "u8 list"

definition zero_field_info :: field_info where
  "zero_field_info = \<lparr>i_type = 0, i_len = 0, i_bytes = replicate SDR_VALUE_MAX_LEN 0\<rparr>"

text \<open>The members of \<open>bd_info_record\<close>, all of the same type.\<close>

datatype bd_field =
    eeprom_version | product_name | board_rev | board_serial | mac_addr_count | first_mac_addr
  | active_state | config_mode | manufacturing_date | part_number | uuid | pcie_id | power_mode
  | memory_size | oem_id | capability | mfg_part_number

type_synonym bd_info_record = "bd_field \<Rightarrow> field_info"

definition bd_fields :: "bd_field list" where
  "bd_fields = [eeprom_version, product_name, board_rev, board_serial, mac_addr_count, first_mac_addr,
     active_state, config_mode, manufacturing_date, part_number, uuid, pcie_id, power_mode,
     memory_size, oem_id, capability, mfg_part_number]"

text \<open>
  The union of a repository, zeroed at first: a zeroed union reads as null pointers, and a
  member that was not written last is undefined.
\<close>

datatype repo_data = NoData | Records "sdr_record list option" | Fpt fpt_record_host | BdInfo "bd_info_record option"

record sdr_repo =
  repo_type :: u8
  repo_ver :: u8
  num_records :: u8
  repo_size :: u16
  last_update :: u64
  repo_data :: repo_data

definition zero_repo :: sdr_repo where
  "zero_repo = \<lparr>repo_type = 0, repo_ver = 0, num_records = 0, repo_size = 0, last_update = 0, repo_data = NoData\<rparr>"

definition zero_fpt :: fpt_record_host where
  "zero_fpt = \<lparr>hdr_primary = zero_fpt_hdr, partition_primary = None, hdr_secondary = zero_fpt_hdr,
     partition_secondary = None\<rparr>"

definition repo_records :: "sdr_repo \<Rightarrow> sdr_record list option option" where
  "repo_records r = (case repo_data r of NoData \<Rightarrow> Some None | Records p \<Rightarrow> Some p | _ \<Rightarrow> None)"

definition repo_fpt :: "sdr_repo \<Rightarrow> fpt_record_host option" where
  "repo_fpt r = (case repo_data r of NoData \<Rightarrow> Some zero_fpt | Fpt f \<Rightarrow> Some f | _ \<Rightarrow> None)"

definition repo_bd_info :: "sdr_repo \<Rightarrow> bd_info_record option option" where
  "repo_bd_info r = (case repo_data r of NoData \<Rightarrow> Some None | BdInfo p \<Rightarrow> Some p | _ \<Rightarrow> None)"

section \<open>The device and the environment\<close>

text \<open>A pointer to memory that may have been freed: using it then is undefined.\<close>

datatype 'a pointer = Null | Freed | At 'a

definition deref :: "'a pointer \<Rightarrow> 'a option" where
  "deref p = (case p of At x \<Rightarrow> Some x | _ \<Rightarrow> None)"

record pf_dev_struct =
  amc_ctrl_ctxt :: bool
  sensor_refresh :: u16
  num_sensor_repos :: u8
  sensor_repos :: "sdr_repo list pointer"

record 'w host_env =
  host_alloc :: "'w \<Rightarrow> bool \<times> 'w"
  submit_gcq_command :: "nat \<Rightarrow> u32 \<Rightarrow> u8 list \<Rightarrow> 'w \<Rightarrow> int \<times> u8 list \<times> 'w"
  jiffies :: "'w \<Rightarrow> u64 \<times> 'w"
  HZ :: u64

end
