(* ===== verification/Host_Sensors.thy ===== *)
theory Host_Sensors
  imports Host_Types
begin

text \<open>
  The host driver's sensors (\<open>sw/AMI/driver/ami_sensor.c\<close>): the parser of a repository, the
  discovery and the refreshing of the sensors, and the lookups.  The response buffer is a
  list of bytes, and a read outside it, a copy longer than its destination, and a use of
  freed or null memory are undefined.  The addresses that internal callers pass are never
  null where the code checks them too; the control structure may be.
\<close>

section \<open>Names and flags\<close>

definition convert_sensor_status_name_map :: "int \<Rightarrow> string" where
  "convert_sensor_status_name_map status =
     (if status = 0 then ''Sensor Not Present''
      else if status = 1 then ''Sensor Present and Valid''
      else if status = 2 then ''Data Not Available''
      else if status = 0x7F then ''Not Applicable or Default Value''
      else '''')"

definition sdr_repo_type_to_str :: "u8 \<Rightarrow> string" where
  "sdr_repo_type_to_str sdr =
     (if sdr = SDR_TYPE_FPT then ''fpt''
      else if sdr = SDR_TYPE_BDINFO then ''board info''
      else if sdr = SDR_TYPE_TEMP then ''temperature''
      else if sdr = SDR_TYPE_VOLTAGE then ''voltage''
      else if sdr = SDR_TYPE_CURRENT then ''current''
      else if sdr = SDR_TYPE_POWER then ''power''
      else if sdr = SDR_TYPE_TOTAL_POWER then ''total power''
      else '''')"

definition get_flags_for_repo :: "u8 \<Rightarrow> u32" where
  "get_flags_for_repo t =
     (if t = SDR_TYPE_BDINFO then GCQ_CMD_FLAG_REPO_TYPE_BD_INFO
      else if t = SDR_TYPE_TEMP then GCQ_CMD_FLAG_REPO_TYPE_TEMP
      else if t = SDR_TYPE_VOLTAGE then GCQ_CMD_FLAG_REPO_TYPE_VOLTAGE
      else if t = SDR_TYPE_CURRENT then GCQ_CMD_FLAG_REPO_TYPE_CURRENT
      else if t = SDR_TYPE_POWER then GCQ_CMD_FLAG_REPO_TYPE_POWER
      else if t = SDR_TYPE_TOTAL_POWER then GCQ_CMD_FLAG_REPO_TYPE_TOTAL_POWER
      else if t = SDR_TYPE_FPT then GCQ_CMD_FLAG_REPO_TYPE_FPT
      else GCQ_CMD_FLAG_NONE)"

text \<open>The repository of a request, and of a response (\<open>ami_amc_control.c\<close>).\<close>

definition flags_sid :: "u32 \<Rightarrow> int" where
  "flags_sid flags =
     (if flags AND GCQ_CMD_FLAG_REPO_TYPE_TEMP \<noteq> 0 then AMC_PROXY_CMD_SENSOR_REPO_TEMP
      else if flags AND GCQ_CMD_FLAG_REPO_TYPE_CURRENT \<noteq> 0 then AMC_PROXY_CMD_SENSOR_REPO_CURRENT
      else if flags AND GCQ_CMD_FLAG_REPO_TYPE_POWER \<noteq> 0 then AMC_PROXY_CMD_SENSOR_REPO_POWER
      else if flags AND GCQ_CMD_FLAG_REPO_TYPE_TOTAL_POWER \<noteq> 0 then AMC_PROXY_CMD_SENSOR_REPO_TOTAL_POWER
      else if flags AND GCQ_CMD_FLAG_REPO_TYPE_VOLTAGE \<noteq> 0 then AMC_PROXY_CMD_SENSOR_REPO_VOLTAGE
      else if flags AND GCQ_CMD_FLAG_REPO_TYPE_BD_INFO \<noteq> 0 then AMC_PROXY_CMD_SENSOR_REPO_BDINFO
      else if flags AND GCQ_CMD_FLAG_REPO_TYPE_FPT \<noteq> 0 then AMC_PROXY_CMD_SENSOR_REPO_FPT
      else AMC_PROXY_CMD_SENSOR_REPO_UNKNOWN)"

definition get_sid :: "nat \<Rightarrow> u32 \<Rightarrow> int" where
  "get_sid cmd flags =
     (if cmd \<in> {GCQ_SUBMIT_CMD_GET_SDR, GCQ_SUBMIT_CMD_GET_SDR_SIZE} then flags_sid flags
      else if cmd \<in> {GCQ_SUBMIT_CMD_GET_INLET_TEMP_SENSOR, GCQ_SUBMIT_CMD_GET_OUTLET_TEMP_SENSOR,
        GCQ_SUBMIT_CMD_GET_BOARD_TEMP_SENSOR, GCQ_SUBMIT_CMD_GET_FPGA_TEMP_SENSOR,
        GCQ_SUBMIT_CMD_GET_ALL_INST_TEMP_SENSOR} then AMC_PROXY_CMD_SENSOR_REPO_TEMP
      else if cmd \<in> {GCQ_SUBMIT_CMD_GET_VCCINT_VOLTAGE, GCQ_SUBMIT_CMD_GET_VCC1V2_VOLTAGE,
        GCQ_SUBMIT_CMD_GET_12V_PEX_VOLTAGE, GCQ_SUBMIT_CMD_GET_12V_AUX0_VOLTAGE,
        GCQ_SUBMIT_CMD_GET_ALL_INST_VOL_SENSOR} then AMC_PROXY_CMD_SENSOR_REPO_VOLTAGE
      else if cmd \<in> {GCQ_SUBMIT_CMD_GET_VCCINT_CURRENT, GCQ_SUBMIT_CMD_GET_VCC1V2_CURRENT,
        GCQ_SUBMIT_CMD_GET_12V_PEX_CURRENT, GCQ_SUBMIT_CMD_GET_ALL_INST_CUR_SENSOR}
      then AMC_PROXY_CMD_SENSOR_REPO_CURRENT
      else if cmd \<in> {GCQ_SUBMIT_CMD_GET_TOTAL_POWER, GCQ_SUBMIT_CMD_GET_ALL_INST_PWR_SENSOR}
      then (if SDR_TYPE_TOTAL_POWER = SDR_POWER_TYPE then AMC_PROXY_CMD_SENSOR_REPO_TOTAL_POWER
            else AMC_PROXY_CMD_SENSOR_REPO_POWER)
      else AMC_PROXY_CMD_SENSOR_REPO_UNKNOWN)"

definition get_rid :: "u8 \<Rightarrow> int" where
  "get_rid t =
     (if t = 0x00 then AMC_PROXY_CMD_SENSOR_REPO_GET_SIZE
      else if t = 0xC0 then AMC_PROXY_CMD_SENSOR_REPO_BDINFO
      else if t = 0xC1 then AMC_PROXY_CMD_SENSOR_REPO_TEMP
      else if t = 0xC2 then AMC_PROXY_CMD_SENSOR_REPO_VOLTAGE
      else if t = 0xC3 then AMC_PROXY_CMD_SENSOR_REPO_CURRENT
      else if t = 0xC4 then AMC_PROXY_CMD_SENSOR_REPO_POWER
      else if t = 0xC6 then AMC_PROXY_CMD_SENSOR_REPO_TOTAL_POWER
      else AMC_PROXY_CMD_SENSOR_REPO_UNKNOWN)"

section \<open>The parser\<close>

text \<open>
  The parser walks the buffer with an index: a step hands back what it read and the next
  index.  \<open>copy_in\<close> is \<open>memcpy\<close> into the beginning of an array.
\<close>

definition copy_in :: "u8 list \<Rightarrow> u8 list \<Rightarrow> nat \<Rightarrow> nat \<Rightarrow> u8 list option" where
  "copy_in dst b i n = do { xs \<leftarrow> get_bytes b i n; put_bytes 0 xs dst }"

definition parse_u32 :: "u8 list \<Rightarrow> nat \<Rightarrow> (u32 \<times> nat) option" where
  "parse_u32 b i = do { v \<leftarrow> get32 b i; Some (v, i + 4) }"

definition parse_fpt_hdr :: "u8 list \<Rightarrow> nat \<Rightarrow> (fpt_header \<times> nat) option" where
  "parse_fpt_hdr b i = do {
     v \<leftarrow> get8 b i;
     h \<leftarrow> get8 b (i + 1);
     e \<leftarrow> get8 b (i + 2);
     n \<leftarrow> get8 b (i + 3);
     Some (\<lparr>f_version = v, f_header_size = h, f_entry_size = e, f_num_entries = n\<rparr>, i + 4) }"

definition parse_partition :: "u8 list \<Rightarrow> nat \<Rightarrow> (fpt_partition \<times> nat) option" where
  "parse_partition b i = do {
     (ty, i) \<leftarrow> parse_u32 b i;
     (base, i) \<leftarrow> parse_u32 b i;
     (sz, i) \<leftarrow> parse_u32 b i;
     md5 \<leftarrow> get_bytes b i MD5_SIZE;
     (pdi, i) \<leftarrow> parse_u32 b (i + MD5_SIZE);
     (fl, i) \<leftarrow> parse_u32 b i;
     Some (\<lparr>p_type = ty, p_base_addr = base, p_size = sz, p_pdi_md5 = md5, p_pdi_size = pdi, p_flags = fl\<rparr>, i) }"

text \<open>\<open>n\<close> elements, one behind the other.\<close>

fun parse_many :: "(nat \<Rightarrow> ('a \<times> nat) option) \<Rightarrow> nat \<Rightarrow> nat \<Rightarrow> ('a list \<times> nat) option" where
  "parse_many f 0 i = Some ([], i)"
| "parse_many f (Suc n) i = do { (x, i) \<leftarrow> f i; (xs, i) \<leftarrow> parse_many f n i; Some (x # xs, i) }"

text \<open>
  The table of one device.  The allocation is not checked: a failed one is written through.
  Without entries the pointer keeps its value \<open>p\<close>.
\<close>

definition parse_device ::
  "'w host_env \<Rightarrow> u8 list \<Rightarrow> fpt_partition list option \<Rightarrow> nat \<Rightarrow> 'w \<Rightarrow>
   (fpt_header \<times> fpt_partition list option \<times> nat \<times> 'w) option" where
  "parse_device E b p i w = do {
     (h, i) \<leftarrow> parse_fpt_hdr b i;
     if f_num_entries h = 0 then Some (h, p, i, w)
     else (case host_alloc E w of
       (False, w) \<Rightarrow> None
     | (True, w) \<Rightarrow> do {
         (ps, i) \<leftarrow> parse_many (parse_partition b) (unat (f_num_entries h)) i;
         Some (h, Some ps, i, w) }) }"

definition parse_fpt :: "'w host_env \<Rightarrow> u8 list \<Rightarrow> fpt_record_host \<Rightarrow> nat \<Rightarrow> 'w \<Rightarrow> (fpt_record_host \<times> nat \<times> 'w) option" where
  "parse_fpt E b f i w = do {
     (h1, p1, i, w) \<leftarrow> parse_device E b (partition_primary f) i w;
     (h2, p2, i, w) \<leftarrow> parse_device E b (partition_secondary f) i w;
     Some (\<lparr>hdr_primary = h1, partition_primary = p1, hdr_secondary = h2, partition_secondary = p2\<rparr>, i, w) }"

text \<open>A field of the board information; an empty power mode gets its default byte.\<close>

definition parse_info :: "u8 list \<Rightarrow> bd_field \<Rightarrow> bd_info_record \<times> nat \<Rightarrow> (bd_info_record \<times> nat) option" where
  "parse_info b f = (\<lambda>(info, i). do {
     t \<leftarrow> get8 b i;
     n \<leftarrow> get8 b (i + 1);
     bs \<leftarrow> copy_in (i_bytes (info f)) b (i + 2) (unat n);
     bs \<leftarrow> (if f = power_mode \<and> n = 0 then put8 0 DEFAULT_BDINFO_POWER bs else Some bs);
     Some (info(f := \<lparr>i_type = t, i_len = n, i_bytes = bs\<rparr>), i + 2 + unat n) })"

definition parse_bd_info :: "u8 list \<Rightarrow> nat \<Rightarrow> (bd_info_record \<times> nat) option" where
  "parse_bd_info b i = for_each (parse_info b) bd_fields (\<lambda>_. zero_field_info, i)"

text \<open>A byte of type and length, and the bytes; a limit if its bit is set.\<close>

definition parse_typed :: "u8 list \<Rightarrow> nat \<Rightarrow> (u8 \<times> u8 \<times> u8 list \<times> nat) option" where
  "parse_typed b i = do {
     x \<leftarrow> get8 b i;
     let n = x AND SDR_LENGTH_MASK;
     bs \<leftarrow> copy_in (replicate SDR_VALUE_MAX_LEN 0) b (i + 1) (unat n);
     Some (drop_bit SDR_TYPE_POS x, n, bs, i + 1 + unat n) }"

definition parse_limit :: "u8 list \<Rightarrow> u8 \<Rightarrow> u8 \<Rightarrow> u8 \<Rightarrow> nat \<Rightarrow> (u8 list \<times> nat) option" where
  "parse_limit b ths m len i =
     (if ths AND m \<noteq> 0
      then do { bs \<leftarrow> copy_in (replicate SDR_THRESHOLD_MAX_LEN 0) b i (unat len); Some (bs, i + unat len) }
      else Some (replicate SDR_THRESHOLD_MAX_LEN 0, i))"

definition parse_record :: "u8 list \<Rightarrow> nat \<Rightarrow> (sdr_record \<times> nat) option" where
  "parse_record b i = do {
     ident \<leftarrow> get8 b i;
     (nt, nl, nm, i) \<leftarrow> parse_typed b (i + 1);
     (vt, vl, val, i) \<leftarrow> parse_typed b i;
     (ut, ul, un, i) \<leftarrow> parse_typed b i;
     um \<leftarrow> get8 b i;
     ths \<leftarrow> get8 b (i + 1);
     (lf, i) \<leftarrow> parse_limit b ths THRESHOLD_LOWER_FATAL_MASK vl (i + 2);
     (lc, i) \<leftarrow> parse_limit b ths THRESHOLD_LOWER_CRITICAL_MASK vl i;
     (lw, i) \<leftarrow> parse_limit b ths THRESHOLD_LOWER_WARNING_MASK vl i;
     (uf, i) \<leftarrow> parse_limit b ths THRESHOLD_UPPER_FATAL_MASK vl i;
     (uc, i) \<leftarrow> parse_limit b ths THRESHOLD_UPPER_CRITICAL_MASK vl i;
     (uw, i) \<leftarrow> parse_limit b ths THRESHOLD_UPPER_WARNING_MASK vl i;
     st \<leftarrow> get8 b i;
     (av, i) \<leftarrow> parse_limit b ths THRESHOLD_SENSOR_AVG_MASK vl (i + 1);
     (mx, i) \<leftarrow> parse_limit b ths THRESHOLD_SENSOR_MAX_MASK vl i;
     Some (zero_sdr_record\<lparr>r_id := ident, r_name_type := nt, r_name_len := nl, r_name := nm,
        r_value_type := vt, r_value_len := vl, r_value := val, r_unit_type := ut, r_unit_len := ul,
        r_unit := un, r_unit_mod := um, r_threshold_support := ths, r_lower_fatal_limit := lf,
        r_lower_crit_limit := lc, r_lower_warn_limit := lw, r_upper_fatal_limit := uf,
        r_upper_crit_limit := uc, r_upper_warn_limit := uw, r_sensor_status := st, r_avg := av, r_max := mx\<rparr>, i) }"

text \<open>The payload by the type of the repository: a status, the repository and the next index.\<close>

definition parse_payload ::
  "'w host_env \<Rightarrow> u8 list \<Rightarrow> sdr_repo \<Rightarrow> nat \<Rightarrow> 'w \<Rightarrow> (int \<times> sdr_repo \<times> nat \<times> 'w) option" where
  "parse_payload E b repo i w =
     (if repo_type repo = SDR_TYPE_FPT then do {
        f \<leftarrow> repo_fpt repo;
        (f, i, w) \<leftarrow> parse_fpt E b f i w;
        Some (SUCCESS, repo\<lparr>repo_data := Fpt f\<rparr>, i, w) }
      else if repo_type repo = SDR_TYPE_BDINFO then
        (case host_alloc E w of
           (False, w) \<Rightarrow> Some (- ENOMEM, repo\<lparr>repo_data := BdInfo None\<rparr>, i, w)
         | (True, w) \<Rightarrow> do {
             (info, i) \<leftarrow> parse_bd_info b i;
             Some (SUCCESS, repo\<lparr>repo_data := BdInfo (Some info)\<rparr>, i, w) })
      else if repo_type repo \<in> {SDR_TYPE_TEMP, SDR_TYPE_VOLTAGE, SDR_TYPE_CURRENT, SDR_TYPE_POWER,
                                SDR_TYPE_TOTAL_POWER} then
        (case host_alloc E w of
           (False, w) \<Rightarrow> Some (- ENOMEM, repo\<lparr>repo_data := Records None\<rparr>, i, w)
         | (True, w) \<Rightarrow> do {
             (rs, i) \<leftarrow> parse_many (parse_record b) (unat (num_records repo)) i;
             Some (SUCCESS, repo\<lparr>repo_data := Records (Some rs)\<rparr>, i, w) })
      else Some (- EINVAL, repo, i, w))"

text \<open>The three bytes at the end of a repository.\<close>

definition end_of_repo :: "u8 list \<Rightarrow> nat \<Rightarrow> bool option" where
  "end_of_repo b i = do {
     x \<leftarrow> get8 b i;
     y \<leftarrow> get8 b (i + 1);
     z \<leftarrow> get8 b (i + 2);
     Some ((push_bit 16 (ucast x) OR push_bit 8 (ucast y) OR ucast z :: u32) = SDR_EOR) }"

definition parse_sdr ::
  "'w host_env \<Rightarrow> bool \<Rightarrow> u8 list \<Rightarrow> sdr_repo \<Rightarrow> 'w \<Rightarrow> (int \<times> sdr_repo \<times> 'w) option" where
  "parse_sdr E ctl b repo w =
     (if \<not> ctl then Some (- EINVAL, repo, w) else do {
        t \<leftarrow> get8 b 0;
        v \<leftarrow> get8 b 1;
        n \<leftarrow> get8 b 2;
        sz \<leftarrow> get16 b 3;
        let repo = repo\<lparr>repo_type := t, repo_ver := v, num_records := n, repo_size := sz\<rparr>;
        if sz = 0 then Some (- EINVAL, repo, w) else do {
          (ret, repo, i, w) \<leftarrow> (if n > 0 then parse_payload E b repo 5 w else Some (- ENODATA, repo, 5, w));
          if n > 0 \<and> ret \<noteq> SUCCESS then Some (ret, repo, w) else do {
            e \<leftarrow> end_of_repo b i;
            Some (if e then ret else - EILSEQ, repo, w) } } })"

section \<open>Fetching a repository\<close>

definition get_sdr_host ::
  "'w host_env \<Rightarrow> bool \<Rightarrow> u8 \<Rightarrow> sdr_repo \<Rightarrow> 'w \<Rightarrow> (int \<times> sdr_repo \<times> 'w) option" where
  "get_sdr_host E ctl t repo w =
     (if \<not> ctl then Some (- EINVAL, repo, w)
      else (case host_alloc E w of
        (False, w) \<Rightarrow> Some (- ENOMEM, repo, w)
      | (True, w) \<Rightarrow>
          (let (ret, b, w) = submit_gcq_command E GCQ_SUBMIT_CMD_GET_SDR (get_flags_for_repo t)
                               (replicate SDR_RESP_LEN 0) w in
           if ret \<noteq> SUCCESS then Some (- EIO, repo, w) else do {
             cc \<leftarrow> get8 b 0;
             if cc \<noteq> SDR_CODE_OP_SUCCESS then Some (- EINVAL, repo, w) else do {
               rid \<leftarrow> get8 b 1;
               if rid \<noteq> t then Some (- EINVAL, repo, w)
               else parse_sdr E ctl (drop 1 b) repo w } })))"

text \<open>The value of a record; the data is read in its native byte order.\<close>

definition make_val :: "int \<Rightarrow> u8 \<Rightarrow> u8 list option \<Rightarrow> int option" where
  "make_val t sz p =
     (case p of
        None \<Rightarrow> Some 0
      | Some bs \<Rightarrow>
          (if t \<noteq> 0 then Some 0
           else if sz = 1 then do { v \<leftarrow> get8 bs 0; Some (uint v) }
           else if sz = 2 then do { v \<leftarrow> get16 bs 0; Some (uint v) }
           else if sz = 4 then do { v \<leftarrow> get32 bs 0; Some (uint v) }
           else Some 0))"

section \<open>Discovery and deletion\<close>

definition discovery_repos :: "u8 list" where
  "discovery_repos = [SDR_TYPE_TEMP, SDR_TYPE_VOLTAGE, SDR_TYPE_CURRENT, SDR_TYPE_POWER,
     SDR_TYPE_TOTAL_POWER, SDR_TYPE_BDINFO, SDR_TYPE_FPT]"

definition delete_repo_records :: "sdr_repo \<Rightarrow> sdr_repo option" where
  "delete_repo_records repo =
     (if repo_type repo = SDR_TYPE_FPT then do {
        f \<leftarrow> repo_fpt repo;
        let (f, repo) = (if partition_primary f \<noteq> None
          then (f\<lparr>partition_primary := None\<rparr>, repo\<lparr>num_records := 0\<rparr>) else (f, repo));
        let (f, repo) = (if partition_secondary f \<noteq> None
          then (f\<lparr>partition_secondary := None\<rparr>, repo\<lparr>num_records := 0\<rparr>) else (f, repo));
        Some (repo\<lparr>repo_data := Fpt f\<rparr>) }
      else if repo_type repo = SDR_TYPE_BDINFO then do {
        p \<leftarrow> repo_bd_info repo;
        Some (if p \<noteq> None then repo\<lparr>repo_data := BdInfo None, num_records := 0\<rparr> else repo) }
      else if repo_type repo \<in> {SDR_TYPE_TEMP, SDR_TYPE_VOLTAGE, SDR_TYPE_CURRENT, SDR_TYPE_POWER,
                                SDR_TYPE_TOTAL_POWER} then do {
        p \<leftarrow> repo_records repo;
        Some (if p \<noteq> None then repo\<lparr>repo_data := Records None, num_records := 0\<rparr> else repo) }
      else Some repo)"

definition delete_at :: "nat \<Rightarrow> sdr_repo list option \<Rightarrow> sdr_repo list option option" where
  "delete_at i p = do { r \<leftarrow> elem p i; r \<leftarrow> delete_repo_records r; Some (set_elem p i r) }"

text \<open>
  The array of repositories is freed, and the device keeps the pointer to it and the number of
  repositories.
\<close>

definition delete_sensors :: "pf_dev_struct option \<Rightarrow> pf_dev_struct option option" where
  "delete_sensors dev =
     (case dev of
        None \<Rightarrow> Some None
      | Some pf \<Rightarrow>
          (if sensor_repos pf = Null \<or> num_sensor_repos pf = 0 then Some (Some pf) else do {
             _ \<leftarrow> for_each delete_at [0..<NUM_SENSOR_REPOS] (deref (sensor_repos pf));
             Some (Some (pf\<lparr>sensor_repos := Freed\<rparr>)) }))"

fun discover_from ::
  "'w host_env \<Rightarrow> bool \<Rightarrow> u8 list \<Rightarrow> nat \<Rightarrow> sdr_repo list \<Rightarrow> int \<Rightarrow> 'w \<Rightarrow>
   (int \<times> sdr_repo list \<times> int \<times> 'w) option" where
  "discover_from E ctl [] i rs k w = Some (SUCCESS, rs, k, w)"
| "discover_from E ctl (t # ts) i rs k w = do {
     r \<leftarrow> elem (Some rs) i;
     (ret, r, w) \<leftarrow> get_sdr_host E ctl t r w;
     let k = (if ret = - ENODATA then k + 1 else k);
     if ret \<noteq> - ENODATA \<and> ret \<noteq> SUCCESS then Some (ret, rs[i := r], k, w)
     else (let (now, w) = jiffies E w in
           discover_from E ctl ts (i + 1) (rs[i := r\<lparr>last_update := now\<rparr>]) k w) }"

definition discover_sensors ::
  "'w host_env \<Rightarrow> pf_dev_struct option \<Rightarrow> int option \<Rightarrow> 'w \<Rightarrow>
   (int \<times> pf_dev_struct option \<times> int option \<times> 'w) option" where
  "discover_sensors E dev empty_sdr_count w =
     (case (dev, empty_sdr_count) of
        (Some pf, Some k) \<Rightarrow>
          (let pf = pf\<lparr>num_sensor_repos := of_nat NUM_SENSOR_REPOS\<rparr> in
           case host_alloc E w of
             (False, w) \<Rightarrow> Some (- ENOMEM, Some (pf\<lparr>sensor_repos := Null\<rparr>), Some k, w)
           | (True, w) \<Rightarrow> do {
               (ret, rs, k, w) \<leftarrow> discover_from E (amc_ctrl_ctxt pf) discovery_repos 0
                                   (replicate NUM_SENSOR_REPOS zero_repo) k w;
               dev \<leftarrow> (if ret \<noteq> SUCCESS then delete_sensors (Some (pf\<lparr>sensor_repos := At rs\<rparr>))
                      else Some (Some (pf\<lparr>sensor_repos := At rs\<rparr>)));
               Some (ret, dev, Some k, w) })
      | _ \<Rightarrow> Some (- EINVAL, dev, empty_sdr_count, w))"

section \<open>Lookup\<close>

text \<open>The first index that satisfies a test, which may be undefined.\<close>

fun first_index :: "(nat \<Rightarrow> bool option) \<Rightarrow> nat list \<Rightarrow> nat option option" where
  "first_index f [] = Some None"
| "first_index f (j # js) = do { c \<leftarrow> f j; if c then Some (Some j) else first_index f js }"

definition record_has_id :: "sdr_repo \<Rightarrow> int \<Rightarrow> nat \<Rightarrow> bool option" where
  "record_has_id r sid j = do { p \<leftarrow> repo_records r; rec \<leftarrow> elem p j; Some (uint (r_id rec) - 1 = sid) }"

definition find_in_repo :: "sdr_repo \<Rightarrow> u8 \<Rightarrow> int \<Rightarrow> nat option option" where
  "find_in_repo r t sid =
     (if repo_type r \<noteq> t then Some None else first_index (record_has_id r sid) [0..<unat (num_records r)])"

fun find_record_from :: "sdr_repo list pointer \<Rightarrow> u8 \<Rightarrow> int \<Rightarrow> nat list \<Rightarrow> (nat \<times> nat) option option" where
  "find_record_from p t sid [] = Some None"
| "find_record_from p t sid (i # is) = do {
     r \<leftarrow> elem (deref p) i;
     m \<leftarrow> find_in_repo r t sid;
     case m of Some j \<Rightarrow> Some (Some (i, j)) | None \<Rightarrow> find_record_from p t sid is }"

text \<open>A record is the index of its repository and its own; a repository is its index.\<close>

definition find_sdr_record :: "sdr_repo list pointer \<Rightarrow> u8 \<Rightarrow> u8 \<Rightarrow> int \<Rightarrow> (nat \<times> nat) option option" where
  "find_sdr_record p n t sid = (if p = Null then Some None else find_record_from p t sid [0..<unat n])"

definition find_sdr_repo :: "sdr_repo list pointer \<Rightarrow> u8 \<Rightarrow> u8 \<Rightarrow> nat option option" where
  "find_sdr_repo p n t =
     (if p = Null then Some None
      else first_index (\<lambda>i. do { r \<leftarrow> elem (deref p) i; Some (repo_type r = t) }) [0..<unat n])"

text \<open>The repository found, with its index.\<close>

definition repo_of_type :: "pf_dev_struct \<Rightarrow> u8 \<Rightarrow> (nat \<times> sdr_repo) option option" where
  "repo_of_type pf t = do {
     m \<leftarrow> find_sdr_repo (sensor_repos pf) (num_sensor_repos pf) t;
     case m of None \<Rightarrow> Some None | Some i \<Rightarrow> do { r \<leftarrow> elem (deref (sensor_repos pf)) i; Some (Some (i, r)) } }"

definition set_repo :: "nat \<Rightarrow> sdr_repo \<Rightarrow> pf_dev_struct \<Rightarrow> pf_dev_struct option" where
  "set_repo i r pf = do { rs \<leftarrow> set_elem (deref (sensor_repos pf)) i r; Some (pf\<lparr>sensor_repos := At rs\<rparr>) }"

definition update_sdr ::
  "'w host_env \<Rightarrow> pf_dev_struct option \<Rightarrow> u8 \<Rightarrow> 'w \<Rightarrow> (int \<times> pf_dev_struct option \<times> 'w) option" where
  "update_sdr E dev t w =
     (case dev of
        None \<Rightarrow> Some (- EINVAL, None, w)
      | Some pf \<Rightarrow> do {
          m \<leftarrow> repo_of_type pf t;
          case m of
            None \<Rightarrow> Some (- ENODATA, dev, w)
          | Some (i, r) \<Rightarrow>
              (case host_alloc E w of
                 (False, w) \<Rightarrow> Some (- ENOMEM, dev, w)
               | (True, w) \<Rightarrow> do {
                   (ret, new, w) \<leftarrow> get_sdr_host E (amc_ctrl_ctxt pf) t zero_repo w;
                   if ret = SUCCESS then do {
                     _ \<leftarrow> delete_repo_records r;
                     pf \<leftarrow> set_repo i new pf;
                     Some (ret, Some pf, w) }
                   else Some (ret, dev, w) }) })"

section \<open>Reading the sensors\<close>

text \<open>The values of one sensor of the response, stored in record \<open>j\<close>.\<close>

definition store_values :: "u8 list \<Rightarrow> nat \<Rightarrow> u8 \<Rightarrow> sdr_record \<Rightarrow> sdr_record option" where
  "store_values b i len rec = do {
     let n = unat len;
     v \<leftarrow> copy_in (replicate SDR_VALUE_MAX_LEN 0) b i n;
     mx \<leftarrow> copy_in (replicate SDR_THRESHOLD_MAX_LEN 0) b (i + n) n;
     av \<leftarrow> copy_in (replicate SDR_THRESHOLD_MAX_LEN 0) b (i + 2 * n) n;
     st \<leftarrow> get8 b (i + SDR_PARSE_BUF_STATUS_INDEX * n);
     Some (rec\<lparr>r_value_len := len, r_value := v, r_max := mx, r_avg := av, r_sensor_status := st\<rparr>) }"

definition update_repo_record :: "nat \<Rightarrow> (sdr_record \<Rightarrow> sdr_record option) \<Rightarrow> sdr_repo \<Rightarrow> sdr_repo option" where
  "update_repo_record j f r = do {
     p \<leftarrow> repo_records r;
     rec \<leftarrow> elem p j;
     rec \<leftarrow> f rec;
     rs \<leftarrow> set_elem p j rec;
     Some (r\<lparr>repo_data := Records (Some rs)\<rparr>) }"

definition sensor_values :: "u8 list \<Rightarrow> u8 \<Rightarrow> nat \<Rightarrow> nat \<Rightarrow> u8 \<Rightarrow> sdr_repo \<Rightarrow> sdr_repo option" where
  "sensor_values b rid i k len r = do {
     m \<leftarrow> find_sdr_record (At [r]) 1 rid (int k);
     case m of None \<Rightarrow> Some r | Some (_, j) \<Rightarrow> update_repo_record j (store_values b i len) r }"

text \<open>The loop over the sensors of a response, up to the end given by its size.\<close>

function sensor_loop :: "u8 list \<Rightarrow> u8 \<Rightarrow> nat \<Rightarrow> nat \<Rightarrow> nat \<Rightarrow> sdr_repo \<Rightarrow> sdr_repo option" where
  "sensor_loop b rid stop i k r =
     (if i < stop then do {
        len \<leftarrow> get8 b i;
        r \<leftarrow> sensor_values b rid (i + 1) k len r;
        sensor_loop b rid stop (i + 1 + (SDR_PARSE_BUF_STATUS_INDEX * unat len + 1)) (k + 1) r }
      else Some r)"
  by auto

termination
  by (relation "measure (\<lambda>(b, rid, stop, i, k, r). stop - i)") auto

declare sensor_loop.simps [simp del]

definition get_all_sensors ::
  "'w host_env \<Rightarrow> bool \<Rightarrow> nat \<Rightarrow> sdr_repo \<Rightarrow> 'w \<Rightarrow> (int \<times> sdr_repo \<times> 'w) option" where
  "get_all_sensors E ctl gcq_cmd r w =
     (if \<not> ctl then Some (- EINVAL, r, w)
      else (case host_alloc E w of
        (False, w) \<Rightarrow> Some (- ENOMEM, r, w)
      | (True, w) \<Rightarrow>
          (let (ret, b, w) = submit_gcq_command E gcq_cmd GCQ_CMD_FLAG_NONE (replicate SENSOR_RSP_LEN 0) w in
           if ret \<noteq> SUCCESS then Some (- EIO, r, w) else do {
             cc \<leftarrow> get8 b 0;
             if cc \<noteq> SDR_CODE_OP_SUCCESS then Some (- EINVAL, r, w) else do {
               rid \<leftarrow> get8 b 1;
               if get_rid rid \<noteq> get_sid gcq_cmd GCQ_CMD_FLAG_NONE then Some (- EINVAL, r, w) else do {
                 sz \<leftarrow> get8 b 2;
                 r \<leftarrow> sensor_loop b rid (3 + unat sz) 3 0 r;
                 let (now, w) = jiffies E w;
                 Some (SUCCESS, r\<lparr>last_update := now\<rparr>, w) } } })))"

definition repo_of_command :: "nat \<Rightarrow> u8 option" where
  "repo_of_command cmd =
     (if cmd = GCQ_SUBMIT_CMD_GET_ALL_INST_TEMP_SENSOR then Some SDR_TYPE_TEMP
      else if cmd = GCQ_SUBMIT_CMD_GET_ALL_INST_VOL_SENSOR then Some SDR_TYPE_VOLTAGE
      else if cmd = GCQ_SUBMIT_CMD_GET_ALL_INST_CUR_SENSOR then Some SDR_TYPE_CURRENT
      else if cmd = GCQ_SUBMIT_CMD_GET_ALL_INST_PWR_SENSOR then Some SDR_POWER_TYPE
      else None)"

text \<open>\<open>fresh\<close> is \<open>None\<close> for a null pointer.\<close>

definition read_sensors_host ::
  "'w host_env \<Rightarrow> nat \<Rightarrow> pf_dev_struct option \<Rightarrow> bool option \<Rightarrow> 'w \<Rightarrow>
   (int \<times> pf_dev_struct option \<times> bool option \<times> 'w) option" where
  "read_sensors_host E cmd dev fresh w =
     (case (dev, repo_of_command cmd) of
        (Some pf, Some t) \<Rightarrow> do {
          m \<leftarrow> repo_of_type pf t;
          case m of
            None \<Rightarrow> Some (- EINVAL, dev, fresh, w)
          | Some (i, r) \<Rightarrow>
              (let (stamp, w) = jiffies E w; delta = stamp - last_update r in
               if sensor_refresh pf = 0 \<or> delta * 1000 div HZ E > ucast (sensor_refresh pf) then do {
                 (ret, r, w) \<leftarrow> get_all_sensors E (amc_ctrl_ctxt pf) cmd r w;
                 pf \<leftarrow> set_repo i r pf;
                 Some (ret, Some pf, map_option (\<lambda>_. True) fresh, w) }
               else Some (SUCCESS, dev, map_option (\<lambda>_. False) fresh, w)) }
      | _ \<Rightarrow> Some (- EINVAL, dev, fresh, w))"

definition read_thermal_sensors where
  "read_thermal_sensors E = read_sensors_host E GCQ_SUBMIT_CMD_GET_ALL_INST_TEMP_SENSOR"

definition read_voltage_sensors where
  "read_voltage_sensors E = read_sensors_host E GCQ_SUBMIT_CMD_GET_ALL_INST_VOL_SENSOR"

definition read_current_sensors where
  "read_current_sensors E = read_sensors_host E GCQ_SUBMIT_CMD_GET_ALL_INST_CUR_SENSOR"

definition read_power_sensors where
  "read_power_sensors E = read_sensors_host E GCQ_SUBMIT_CMD_GET_ALL_INST_PWR_SENSOR"

section \<open>Assets\<close>

text \<open>The output is \<open>None\<close> for a null pointer.\<close>

definition read_fpt_hdr ::
  "pf_dev_struct option \<Rightarrow> u8 \<Rightarrow> fpt_header option \<Rightarrow> (int \<times> fpt_header option) option" where
  "read_fpt_hdr dev boot_device hdr =
     (case (dev, hdr) of
        (Some pf, Some h) \<Rightarrow>
          (if boot_device \<ge> AMI_AMC_BOOT_DEVICE_MAX then Some (- EINVAL, hdr) else do {
             m \<leftarrow> repo_of_type pf SDR_TYPE_FPT;
             case m of
               None \<Rightarrow> Some (- EINVAL, hdr)
             | Some (_, r) \<Rightarrow>
                 (if num_records r = 0 then Some (- ENODATA, hdr) else do {
                    f \<leftarrow> repo_fpt r;
                    Some (SUCCESS, Some (if boot_device = AMI_AMC_BOOT_DEVICE_PRIMARY then hdr_primary f
                                         else hdr_secondary f)) }) })
      | _ \<Rightarrow> Some (- EINVAL, hdr))"

text \<open>
  The index is compared as an unsigned number with the number of entries less one, which for
  an empty table is the largest number.
\<close>

definition partition_at :: "fpt_header \<Rightarrow> fpt_partition list option \<Rightarrow> u32 \<Rightarrow> (int \<times> fpt_partition option) option" where
  "partition_at h p ident =
     (if ident > ucast (f_num_entries h) - 1 then Some (- EINVAL, None)
      else if p = None then Some (- ENODATA, None)
      else do { x \<leftarrow> elem p (unat ident); Some (SUCCESS, Some x) })"

definition read_fpt_partition ::
  "pf_dev_struct option \<Rightarrow> u8 \<Rightarrow> u32 \<Rightarrow> fpt_partition option \<Rightarrow> (int \<times> fpt_partition option) option" where
  "read_fpt_partition dev boot_device ident out =
     (case (dev, out) of
        (Some pf, Some old) \<Rightarrow>
          (if boot_device \<ge> AMI_AMC_BOOT_DEVICE_MAX then Some (- EINVAL, out) else do {
             m \<leftarrow> repo_of_type pf SDR_TYPE_FPT;
             case m of
               None \<Rightarrow> Some (- EINVAL, out)
             | Some (_, r) \<Rightarrow>
                 (if num_records r = 0 then Some (- ENODATA, out) else do {
                    f \<leftarrow> repo_fpt r;
                    (ret, x) \<leftarrow> (if boot_device = AMI_AMC_BOOT_DEVICE_PRIMARY
                                then partition_at (hdr_primary f) (partition_primary f) ident
                                else partition_at (hdr_secondary f) (partition_secondary f) ident);
                    Some (ret, case x of Some x \<Rightarrow> Some x | None \<Rightarrow> out) }) })
      | _ \<Rightarrow> Some (- EINVAL, out))"

definition read_board_info ::
  "pf_dev_struct option \<Rightarrow> bd_info_record option \<Rightarrow> (int \<times> bd_info_record option) option" where
  "read_board_info dev out =
     (case (dev, out) of
        (Some pf, Some old) \<Rightarrow> do {
          m \<leftarrow> repo_of_type pf SDR_TYPE_BDINFO;
          case m of
            None \<Rightarrow> Some (- EINVAL, out)
          | Some (_, r) \<Rightarrow>
              (if num_records r = 0 then Some (- ENODATA, out) else do {
                 p \<leftarrow> repo_bd_info r;
                 info \<leftarrow> p;
                 Some (SUCCESS, Some info) }) }
      | _ \<Rightarrow> Some (- EINVAL, out))"

end
