(* ===== verification/Host_Firmware.thy ===== *)
theory Host_Firmware
  imports ASDM_Responses Host_Sensors
begin

text \<open>
  The repositories on their way from the firmware to the host: what \<open>GET SDR\<close> writes
  (\<open>ASDM_Responses\<close>) is what the host's parser reads (\<open>Host_Sensors\<close>).
\<close>

section \<open>What a response function writes\<close>

text \<open>The buffer \<open>b\<close> after the bytes \<open>bs\<close> have been written at its beginning.\<close>

definition written :: "u8 list \<Rightarrow> u8 list \<Rightarrow> resp" where
  "written b bs = (of_nat (length bs), bs @ drop (length bs) b)"

definition emits :: "u8 list \<Rightarrow> (resp \<Rightarrow> resp option) \<Rightarrow> u8 list \<Rightarrow> bool" where
  "emits b f ys \<longleftrightarrow> (\<forall>bs. length bs + length ys \<le> length b \<longrightarrow> f (written b bs) = Some (written b (bs @ ys)))"

lemma emits_emit [intro]:
  assumes "length b < 2 ^ 16"
  shows "emits b (emit ys) ys"
  unfolding emits_def
proof (intro allI impI)
  fix bs :: "u8 list" assume fits: "length bs + length ys \<le> length b"
  have "unat (of_nat (length bs) :: u16) = length bs"
    using assms fits by (intro unat_small) simp
  then show "emit ys (written b bs) = Some (written b (bs @ ys))"
    using fits by (simp add: emit_def written_def put_bytes_def add.commute)
qed

lemma emits_emit8:
  assumes "length b < 2 ^ 16"
  shows "emits b (emit8 v) [v]"
  using emits_emit [OF assms, of "[v]"] by (simp add: emits_def emit8_def)

lemma emits_bind:
  assumes "emits b f xs" and "emits b g ys"
  shows "emits b (\<lambda>x. do { x \<leftarrow> f x; g x }) (xs @ ys)"
  using assms by (simp add: emits_def)

lemma emits_skip: "emits b Some []"
  by (simp add: emits_def)

lemma emits_for_each:
  assumes "\<And>i. i \<in> set is \<Longrightarrow> emits b (f i) (g i)"
  shows "emits b (for_each f is) (concat (map g is))"
  using assms
proof (induction "is")
  case Nil
  then show ?case by (simp add: emits_def)
next
  case (Cons i js)
  have "emits b (\<lambda>x. do { x \<leftarrow> f i x; for_each f js x }) (g i @ concat (map g js))"
    using Cons by (intro emits_bind) auto
  then show ?case by (simp add: emits_def)
qed

section \<open>The bytes of a record\<close>

definition shared_length :: "ASDMRecordField \<Rightarrow> nat" where
  "shared_length f = unat (fld_ucLength f AND ASDM_RECORD_FIELD_LENGTH_MASK)"

definition typed_bytes :: "ASDMRecordField \<Rightarrow> u8 list" where
  "typed_bytes f = snd (type_length f) # take (shared_length f) (fld_bytes f)"

definition limit_bytes :: "ASDMSdrRecord \<Rightarrow> u8 \<Rightarrow> u32 \<Rightarrow> u8 list" where
  "limit_bytes rec m v =
     (if ucThresholdSupportedBitMask rec AND m \<noteq> 0
      then take (shared_length (sdr_xSensorValue rec)) (le_bytes32 v) else [])"

definition sdr_v2_bytes :: "ASDMSdrRecord \<Rightarrow> u8 list" where
  "sdr_v2_bytes rec =
     [sdr_ucId rec] @ typed_bytes (xSensorName rec) @ typed_bytes (sdr_xSensorValue rec) @
     typed_bytes (xSensorBaseUnit rec) @ [cUnitModifier rec] @ [ucThresholdSupportedBitMask rec] @
     limit_bytes rec ASDM_SDR_THRESHOLD_LOWER_FATAL_MASK (sdr_ulLowerFatalLimit rec) @
     limit_bytes rec ASDM_SDR_THRESHOLD_LOWER_CRITICAL_MASK (sdr_ulLowerCritLimit rec) @
     limit_bytes rec ASDM_SDR_THRESHOLD_LOWER_WARNING_MASK (sdr_ulLowerWarnLimit rec) @
     limit_bytes rec ASDM_SDR_THRESHOLD_UPPER_FATAL_MASK (sdr_ulUpperFatalLimit rec) @
     limit_bytes rec ASDM_SDR_THRESHOLD_UPPER_CRITICAL_MASK (sdr_ulUpperCritLimit rec) @
     limit_bytes rec ASDM_SDR_THRESHOLD_UPPER_WARNING_MASK (sdr_ulUpperWarnLimit rec) @
     [sdr_ucSensorStatus rec]"

definition sdr_bytes :: "ASDMSdrRecord \<Rightarrow> u8 list" where
  "sdr_bytes rec = sdr_v2_bytes rec @
     limit_bytes rec ASDM_SDR_THRESHOLD_SENSOR_AVG_MASK (ulAverageValue rec) @
     limit_bytes rec ASDM_SDR_THRESHOLD_SENSOR_MAX_MASK (ulMaxValue rec)"

text \<open>A record whose fields lie in their arrays, with a value of at most four bytes.\<close>

definition sendable :: "ASDMSdrRecord \<Rightarrow> bool" where
  "sendable rec \<longleftrightarrow>
     (\<forall>f \<in> {xSensorName rec, sdr_xSensorValue rec, xSensorBaseUnit rec}.
        length (fld_bytes f) = ASDM_RECORD_FIELD_BYTES_MAX \<and> shared_length f \<le> ASDM_RECORD_FIELD_BYTES_MAX) \<and>
     shared_length (sdr_xSensorValue rec) \<le> 4"

lemma emits_u32:
  assumes "length b < 2 ^ 16" and "unat k \<le> 4"
  shows "emits b (emit_u32 v k) (take (unat k) (le_bytes32 v))"
  using assms emits_emit [OF assms(1), of "take (unat k) (le_bytes32 v)"]
  by (simp add: emits_def emit_u32_def get_bytes_def)

lemma emits_typed:
  assumes b: "length b < 2 ^ 16" and f: "shared_length f \<le> length (fld_bytes f)"
  shows "emits b (emit_typed f) (typed_bytes f)"
proof -
  have field: "emits b (emit_field f (fst (type_length f))) (take (shared_length f) (fld_bytes f))"
    using f emits_emit [OF b, of "take (shared_length f) (fld_bytes f)"]
    by (simp add: emits_def emit_field_def get_bytes_def type_length_def shared_length_def Let_def)
  have "emits b (\<lambda>x. do { x \<leftarrow> emit8 (snd (type_length f)) x; emit_field f (fst (type_length f)) x })
    (typed_bytes f)"
    using emits_bind [OF emits_emit8 [OF b] field] by (simp add: typed_bytes_def)
  moreover have "emit_typed f =
    (\<lambda>x. do { x \<leftarrow> emit8 (snd (type_length f)) x; emit_field f (fst (type_length f)) x })"
    by (intro ext) (simp add: emit_typed_def split_beta)
  ultimately show ?thesis
    by simp
qed

lemma emits_if:
  assumes "length b < 2 ^ 16" and "unat k = shared_length (sdr_xSensorValue rec)"
    and "shared_length (sdr_xSensorValue rec) \<le> 4"
  shows "emits b (emit_if rec m v k) (limit_bytes rec m v)"
  using emits_u32 [OF assms(1), of k v] assms(2,3)
  by (simp add: emits_def emit_if_def limit_bytes_def)

lemma emits_sdr:
  assumes b: "length b < 2 ^ 16" and rec: "sendable rec"
  shows "emits b (emit_sdr rec) (sdr_bytes rec)"
proof -
  have "unat (fst (type_length (sdr_xSensorValue rec))) = shared_length (sdr_xSensorValue rec)"
    by (simp add: type_length_def shared_length_def Let_def)
  then have limit: "emits b (emit_if rec m v (fst (type_length (sdr_xSensorValue rec)))) (limit_bytes rec m v)" for m v
    using rec by (intro emits_if [OF b]) (auto simp: sendable_def)
  have typed: "emits b (emit_typed f) (typed_bytes f)"
    if "f \<in> {xSensorName rec, sdr_xSensorValue rec, xSensorBaseUnit rec}" for f
    using rec that by (intro emits_typed [OF b]) (auto simp: sendable_def)
  have v2: "emits b (emit_sdr_v2 rec) (sdr_v2_bytes rec)"
    unfolding emit_sdr_v2_def sdr_v2_bytes_def Let_def
    by (rule emits_bind emits_emit8 [OF b] limit typed insertI1 insertI2)+
  show ?thesis
    unfolding emit_sdr_def sdr_bytes_def Let_def
    by (rule emits_bind v2 limit)+
qed

section \<open>What the parser reads\<close>

text \<open>The bytes \<open>xs\<close> stand in the buffer at index \<open>i\<close>.\<close>

definition holds_at :: "u8 list \<Rightarrow> nat \<Rightarrow> u8 list \<Rightarrow> bool" where
  "holds_at b i xs \<longleftrightarrow> i + length xs \<le> length b \<and> take (length xs) (drop i b) = xs"

lemma holds_at_append:
  "holds_at b i (xs @ ys) \<longleftrightarrow> holds_at b i xs \<and> holds_at b (i + length xs) ys"
  by (auto simp: holds_at_def take_add add.commute add.left_commute append_eq_append_conv)

lemma get8_at: "holds_at b i (x # xs) \<Longrightarrow> get8 b i = Some x"
  by (cases "drop i b") (auto simp: holds_at_def get8_def dest: nth_via_drop)

lemma get_bytes_at: "holds_at b i xs \<Longrightarrow> get_bytes b i (length xs) = Some xs"
  by (simp add: holds_at_def get_bytes_def)

definition padded :: "nat \<Rightarrow> u8 list \<Rightarrow> u8 list" where
  "padded n xs = xs @ replicate (n - length xs) 0"

lemma copy_in_at:
  assumes "holds_at b i xs" and "length xs \<le> n"
  shows "copy_in (replicate n 0) b i (length xs) = Some (padded n xs)"
  using assms by (simp add: copy_in_def get_bytes_at put_bytes_def padded_def)

lemma low_bits_or_shifted:
  "((len AND mask 6) OR push_bit 6 (ty AND mask 2)) AND mask 6 = (len AND mask 6 :: u8)"
  by (rule bit_word_eqI) (auto simp: bit_simps)

lemma high_bits_or_shifted:
  "drop_bit 6 ((len AND mask 6) OR push_bit 6 (ty AND mask 2)) = (ty AND mask 2 :: u8)"
  by (rule bit_word_eqI) (auto simp: bit_simps)

lemma type_length_split:
  "snd (type_length f) AND SDR_LENGTH_MASK = fst (type_length f)"
  "drop_bit SDR_TYPE_POS (snd (type_length f)) = fld_ucType f AND ASDM_RECORD_FIELD_TYPE_MASK"
  using low_bits_or_shifted [of "fld_ucLength f" "fld_ucType f"]
    high_bits_or_shifted [of "fld_ucLength f" "fld_ucType f"]
  by (simp_all add: type_length_def Let_def mask_eq_exp_minus_1)

lemma parse_typed_at:
  assumes at: "holds_at b i (typed_bytes f)" and f: "shared_length f \<le> length (fld_bytes f)"
    and small: "length (fld_bytes f) \<le> SDR_VALUE_MAX_LEN"
  shows "parse_typed b i = Some (fld_ucType f AND ASDM_RECORD_FIELD_TYPE_MASK,
    fld_ucLength f AND ASDM_RECORD_FIELD_LENGTH_MASK,
    padded SDR_VALUE_MAX_LEN (take (shared_length f) (fld_bytes f)), i + length (typed_bytes f))"
proof -
  define xs where "xs = take (shared_length f) (fld_bytes f)"
  have len: "length xs = shared_length f"
    using f by (simp add: xs_def)
  have bytes: "typed_bytes f = [snd (type_length f)] @ xs"
    by (simp add: typed_bytes_def xs_def)
  have at1: "holds_at b i [snd (type_length f)]" and at2: "holds_at b (i + 1) xs"
    using at unfolding bytes holds_at_append by simp_all
  have "shared_length f \<le> SDR_VALUE_MAX_LEN"
    using f small by (rule order_trans)
  then have copied: "copy_in (replicate SDR_VALUE_MAX_LEN 0) b (i + 1) (shared_length f) =
    Some (padded SDR_VALUE_MAX_LEN xs)"
    using copy_in_at [OF at2, of SDR_VALUE_MAX_LEN] by (simp only: len)
  have fst_len: "fst (type_length f) = fld_ucLength f AND ASDM_RECORD_FIELD_LENGTH_MASK"
    by (simp add: type_length_def Let_def)
  have "unat (fst (type_length f)) = shared_length f"
    by (simp only: fst_len shared_length_def)
  then show ?thesis
    unfolding parse_typed_def get8_at [OF at1] bind.bind_lunit Let_def type_length_split
    by (simp only: copied bind.bind_lunit fst_len bytes xs_def [symmetric] length_append len list.size add.assoc) simp
qed

lemma parse_limit_at:
  assumes at: "holds_at b i (limit_bytes rec m v)"
    and k: "unat k = shared_length (sdr_xSensorValue rec)" and small: "unat k \<le> 4"
  shows "parse_limit b (ucThresholdSupportedBitMask rec) m k i =
    Some (padded SDR_THRESHOLD_MAX_LEN (limit_bytes rec m v), i + length (limit_bytes rec m v))"
proof (cases "ucThresholdSupportedBitMask rec AND m = 0")
  case True
  then show ?thesis
    by (simp add: parse_limit_def limit_bytes_def padded_def)
next
  case False
  then have bytes: "limit_bytes rec m v = take (unat k) (le_bytes32 v)"
    by (simp add: limit_bytes_def k)
  have len: "length (limit_bytes rec m v) = unat k"
    using small by (simp add: bytes)
  show ?thesis
    using copy_in_at [OF at, of SDR_THRESHOLD_MAX_LEN] False small unfolding len
    by (simp add: parse_limit_def)
qed

text \<open>The record of the host for a record of the firmware.\<close>

definition field_value :: "ASDMRecordField \<Rightarrow> u8 list" where
  "field_value f = padded SDR_VALUE_MAX_LEN (take (shared_length f) (fld_bytes f))"

definition limit_value :: "ASDMSdrRecord \<Rightarrow> u8 \<Rightarrow> u32 \<Rightarrow> u8 list" where
  "limit_value rec m v = padded SDR_THRESHOLD_MAX_LEN (limit_bytes rec m v)"

definition host_view :: "ASDMSdrRecord \<Rightarrow> sdr_record" where
  "host_view rec = zero_sdr_record\<lparr>r_id := sdr_ucId rec,
     r_name_type := fld_ucType (xSensorName rec) AND ASDM_RECORD_FIELD_TYPE_MASK,
     r_name_len := fld_ucLength (xSensorName rec) AND ASDM_RECORD_FIELD_LENGTH_MASK,
     r_name := field_value (xSensorName rec),
     r_value_type := fld_ucType (sdr_xSensorValue rec) AND ASDM_RECORD_FIELD_TYPE_MASK,
     r_value_len := fld_ucLength (sdr_xSensorValue rec) AND ASDM_RECORD_FIELD_LENGTH_MASK,
     r_value := field_value (sdr_xSensorValue rec),
     r_unit_type := fld_ucType (xSensorBaseUnit rec) AND ASDM_RECORD_FIELD_TYPE_MASK,
     r_unit_len := fld_ucLength (xSensorBaseUnit rec) AND ASDM_RECORD_FIELD_LENGTH_MASK,
     r_unit := field_value (xSensorBaseUnit rec),
     r_unit_mod := cUnitModifier rec, r_threshold_support := ucThresholdSupportedBitMask rec,
     r_lower_fatal_limit := limit_value rec ASDM_SDR_THRESHOLD_LOWER_FATAL_MASK (sdr_ulLowerFatalLimit rec),
     r_lower_crit_limit := limit_value rec ASDM_SDR_THRESHOLD_LOWER_CRITICAL_MASK (sdr_ulLowerCritLimit rec),
     r_lower_warn_limit := limit_value rec ASDM_SDR_THRESHOLD_LOWER_WARNING_MASK (sdr_ulLowerWarnLimit rec),
     r_upper_fatal_limit := limit_value rec ASDM_SDR_THRESHOLD_UPPER_FATAL_MASK (sdr_ulUpperFatalLimit rec),
     r_upper_crit_limit := limit_value rec ASDM_SDR_THRESHOLD_UPPER_CRITICAL_MASK (sdr_ulUpperCritLimit rec),
     r_upper_warn_limit := limit_value rec ASDM_SDR_THRESHOLD_UPPER_WARNING_MASK (sdr_ulUpperWarnLimit rec),
     r_sensor_status := sdr_ucSensorStatus rec,
     r_avg := limit_value rec ASDM_SDR_THRESHOLD_SENSOR_AVG_MASK (ulAverageValue rec),
     r_max := limit_value rec ASDM_SDR_THRESHOLD_SENSOR_MAX_MASK (ulMaxValue rec)\<rparr>"

lemma parse_record_at:
  assumes at: "holds_at b i (sdr_bytes rec)" and rec: "sendable rec"
  shows "parse_record b i = Some (host_view rec, i + length (sdr_bytes rec))"
proof -
  have typed: "parse_typed b j = Some (fld_ucType f AND ASDM_RECORD_FIELD_TYPE_MASK,
      fld_ucLength f AND ASDM_RECORD_FIELD_LENGTH_MASK, field_value f, j + length (typed_bytes f))"
    if "f \<in> {xSensorName rec, sdr_xSensorValue rec, xSensorBaseUnit rec}" "holds_at b j (typed_bytes f)" for f j
    unfolding field_value_def by (rule parse_typed_at) (use rec that in \<open>auto simp: sendable_def\<close>)
  have limit: "parse_limit b (ucThresholdSupportedBitMask rec) m
      (fld_ucLength (sdr_xSensorValue rec) AND ASDM_RECORD_FIELD_LENGTH_MASK) j =
      Some (limit_value rec m v, j + length (limit_bytes rec m v))"
    if "holds_at b j (limit_bytes rec m v)" for m v j
    unfolding limit_value_def
    by (rule parse_limit_at) (use rec that in \<open>auto simp: sendable_def shared_length_def\<close>)
  define i1 where "i1 = i + 1"
  define i2 where "i2 = i1 + length (typed_bytes (xSensorName rec))"
  define i3 where "i3 = i2 + length (typed_bytes (sdr_xSensorValue rec))"
  define i4 where "i4 = i3 + length (typed_bytes (xSensorBaseUnit rec))"
  define i5 where "i5 = i4 + 2"
  define i6 where "i6 = i5 + length (limit_bytes rec ASDM_SDR_THRESHOLD_LOWER_FATAL_MASK (sdr_ulLowerFatalLimit rec))"
  define i7 where "i7 = i6 + length (limit_bytes rec ASDM_SDR_THRESHOLD_LOWER_CRITICAL_MASK (sdr_ulLowerCritLimit rec))"
  define i8 where "i8 = i7 + length (limit_bytes rec ASDM_SDR_THRESHOLD_LOWER_WARNING_MASK (sdr_ulLowerWarnLimit rec))"
  define i9 where "i9 = i8 + length (limit_bytes rec ASDM_SDR_THRESHOLD_UPPER_FATAL_MASK (sdr_ulUpperFatalLimit rec))"
  define i10 where "i10 = i9 + length (limit_bytes rec ASDM_SDR_THRESHOLD_UPPER_CRITICAL_MASK (sdr_ulUpperCritLimit rec))"
  define i11 where "i11 = i10 + length (limit_bytes rec ASDM_SDR_THRESHOLD_UPPER_WARNING_MASK (sdr_ulUpperWarnLimit rec))"
  define i12 where "i12 = i11 + 1"
  define i13 where "i13 = i12 + length (limit_bytes rec ASDM_SDR_THRESHOLD_SENSOR_AVG_MASK (ulAverageValue rec))"
  define i14 where "i14 = i13 + length (limit_bytes rec ASDM_SDR_THRESHOLD_SENSOR_MAX_MASK (ulMaxValue rec))"
  note defs = i1_def i2_def i3_def i4_def i5_def i6_def i7_def i8_def i9_def i10_def i11_def i12_def i13_def i14_def
  have parts:
    "holds_at b i [sdr_ucId rec]"
    "holds_at b i1 (typed_bytes (xSensorName rec))"
    "holds_at b i2 (typed_bytes (sdr_xSensorValue rec))"
    "holds_at b i3 (typed_bytes (xSensorBaseUnit rec))"
    "holds_at b i4 [cUnitModifier rec]"
    "holds_at b (i4 + 1) [ucThresholdSupportedBitMask rec]"
    "holds_at b i5 (limit_bytes rec ASDM_SDR_THRESHOLD_LOWER_FATAL_MASK (sdr_ulLowerFatalLimit rec))"
    "holds_at b i6 (limit_bytes rec ASDM_SDR_THRESHOLD_LOWER_CRITICAL_MASK (sdr_ulLowerCritLimit rec))"
    "holds_at b i7 (limit_bytes rec ASDM_SDR_THRESHOLD_LOWER_WARNING_MASK (sdr_ulLowerWarnLimit rec))"
    "holds_at b i8 (limit_bytes rec ASDM_SDR_THRESHOLD_UPPER_FATAL_MASK (sdr_ulUpperFatalLimit rec))"
    "holds_at b i9 (limit_bytes rec ASDM_SDR_THRESHOLD_UPPER_CRITICAL_MASK (sdr_ulUpperCritLimit rec))"
    "holds_at b i10 (limit_bytes rec ASDM_SDR_THRESHOLD_UPPER_WARNING_MASK (sdr_ulUpperWarnLimit rec))"
    "holds_at b i11 [sdr_ucSensorStatus rec]"
    "holds_at b i12 (limit_bytes rec ASDM_SDR_THRESHOLD_SENSOR_AVG_MASK (ulAverageValue rec))"
    "holds_at b i13 (limit_bytes rec ASDM_SDR_THRESHOLD_SENSOR_MAX_MASK (ulMaxValue rec))"
    using at unfolding sdr_bytes_def sdr_v2_bytes_def append_assoc holds_at_append defs
    by (simp_all add: add.assoc)
  have final: "i14 = i + length (sdr_bytes rec)"
    by (simp add: defs sdr_bytes_def sdr_v2_bytes_def)
  note reads = get8_at [OF parts(1)] get8_at [OF parts(5)] get8_at [OF parts(6)] get8_at [OF parts(13)]
    typed [OF _ parts(2)] typed [OF _ parts(3)] typed [OF _ parts(4)]
    limit [OF parts(7)] limit [OF parts(8)] limit [OF parts(9)] limit [OF parts(10)] limit [OF parts(11)]
    limit [OF parts(12)] limit [OF parts(14)] limit [OF parts(15)]
  show ?thesis
    unfolding parse_record_def host_view_def
    by (simp only: reads bind.bind_lunit prod.case defs [symmetric] insertI1 insertI2 final [symmetric])
qed

lemma parse_records_at:
  assumes "holds_at b i (concat (map sdr_bytes recs))" and "\<forall>rec \<in> set recs. sendable rec"
  shows "parse_many (parse_record b) (length recs) i =
    Some (map host_view recs, i + length (concat (map sdr_bytes recs)))"
  using assms
proof (induction recs arbitrary: i)
  case (Cons rec recs)
  then have "holds_at b i (sdr_bytes rec)"
    and "holds_at b (i + length (sdr_bytes rec)) (concat (map sdr_bytes recs))"
    by (simp_all add: holds_at_append)
  then show ?case
    using Cons by (simp add: parse_record_at)
qed simp

section \<open>From the repository to the host\<close>

definition repo_bytes :: "ASDMSdr \<Rightarrow> ASDMSdrRecord list \<Rightarrow> u8 list" where
  "repo_bytes d recs = header_bytes (sdr_xHdr d) @ concat (map sdr_bytes recs) @ ASDM_EOR_MARKER"

text \<open>Repository \<open>r\<close> of the firmware is \<open>d\<close>, a sensor repository with the records \<open>recs\<close>.\<close>

definition sensor_repository :: "nat \<Rightarrow> 'w asdm_st \<Rightarrow> ASDMSdr \<Rightarrow> ASDMSdrRecord list \<Rightarrow> bool" where
  "sensor_repository r s d recs \<longleftrightarrow>
     r \<le> AMC_ASDM_SUPPORTED_REPO_TOTAL_POWER \<and> sdr_at r s = Some d \<and> sdr_payload d = SensorRecords (Some recs) \<and>
     length recs = unat (ucTotalNumRecords (sdr_xHdr d)) \<and> num_found r s \<noteq> None \<and> num_found r s \<noteq> Some 0 \<and>
     sdr_pucAsdmEor d = ASDM_EOR_MARKER \<and> (\<forall>rec \<in> set recs. sendable rec)"

lemma emits_records:
  assumes b: "length b < 2 ^ 16" and repo: "sensor_repository r s d recs"
  shows "emits b (emit_records emit_sdr r s) (concat (map sdr_bytes recs))"
proof -
  have "emits b (emit_record emit_sdr s r i) (sdr_bytes (recs ! i))" if "i < length recs" for i
  proof -
    have "emit_record emit_sdr s r i = emit_sdr (recs ! i)"
      using repo that by (intro ext)
        (simp add: emit_record_def get_sdr_record_def sensor_repository_def sensor_records_def elem_def)
    then show ?thesis
      using repo that by (simp add: sensor_repository_def emits_sdr [OF b])
  qed
  then have "emits b (for_each (emit_record emit_sdr s r) [0..<length recs])
      (concat (map (\<lambda>i. sdr_bytes (recs ! i)) [0..<length recs]))"
    by (intro emits_for_each) simp
  moreover have "map (\<lambda>i. sdr_bytes (recs ! i)) [0..<length recs] = map sdr_bytes recs"
    by (rule nth_equalityI) simp_all
  moreover have "emit_records emit_sdr r s = for_each (emit_record emit_sdr s r) [0..<length recs]"
    using repo by (intro ext) (simp add: emit_records_def sensor_repository_def)
  ultimately show ?thesis
    by simp
qed

lemma get_sdr_writes:
  assumes b: "length buf < 2 ^ 16" and repo: "sensor_repository r s d recs"
    and fits: "length (repo_bytes d recs) < length buf"
  shows "get_sdr t buf r s =
    Some (OK, snd (written buf (1 # repo_bytes d recs)), Some (fst (written buf (1 # repo_bytes d recs))), s)"
proof -
  obtain k where found: "num_found r s = Some k" "k \<noteq> 0" and d: "sdr_at r s = Some d" and r: "r \<le> 4"
    and eor: "sdr_pucAsdmEor d = ASDM_EOR_MARKER"
    using repo by (auto simp: sensor_repository_def)
  have hdr: "emits buf (\<lambda>x. do { x \<leftarrow> emit8 1 x; emit (header_bytes (sdr_xHdr d)) x })
      ([1] @ header_bytes (sdr_xHdr d))"
    by (rule emits_bind [OF emits_emit8 [OF b] emits_emit [OF b]])
  have lens: "length (repo_bytes d recs) = 5 + length (concat (map sdr_bytes recs)) + 3"
    by (simp add: repo_bytes_def header_bytes_def)
  have start: "emit_header r buf s = Some (written buf (1 # header_bytes (sdr_xHdr d)))"
    using hdr [unfolded emits_def, rule_format, of "[]"] fits lens
    by (simp add: emit_header_def d written_def header_bytes_def)
  have records: "emit_records emit_sdr r s (written buf (1 # header_bytes (sdr_xHdr d))) =
      Some (written buf (1 # header_bytes (sdr_xHdr d) @ concat (map sdr_bytes recs)))"
    using emits_records [OF b repo, unfolded emits_def, rule_format, of "1 # header_bytes (sdr_xHdr d)"] fits lens
    by (simp add: header_bytes_def)
  have final: "emit_eor r s (written buf (1 # header_bytes (sdr_xHdr d) @ concat (map sdr_bytes recs))) =
      Some (written buf (1 # repo_bytes d recs))"
    using emits_emit [OF b, of ASDM_EOR_MARKER, unfolded emits_def, rule_format,
        of "1 # header_bytes (sdr_xHdr d) @ concat (map sdr_bytes recs)"] fits lens
    by (simp add: emit_eor_def d eor repo_bytes_def header_bytes_def)
  show ?thesis
    using found r by (simp add: get_sdr_def start sdr_payload_response_def records final split_beta)
qed

lemma two_bytes:
  "ucast (ucast w :: u8) OR push_bit 8 (ucast (ucast (drop_bit 8 w) :: u8)) = (w :: u16)"
  by (rule bit_word_eqI) (auto simp: bit_simps dest: bit_imp_le_length)

definition sensor_types :: "u8 set" where
  "sensor_types = {SDR_TYPE_TEMP, SDR_TYPE_VOLTAGE, SDR_TYPE_CURRENT, SDR_TYPE_POWER, SDR_TYPE_TOTAL_POWER}"

text \<open>The repository as the host holds it.\<close>

definition host_repo :: "ASDMSdr \<Rightarrow> ASDMSdrRecord list \<Rightarrow> sdr_repo \<Rightarrow> sdr_repo" where
  "host_repo d recs repo = repo\<lparr>repo_type := ucRepoType (sdr_xHdr d), repo_ver := ucRepoVersionNum (sdr_xHdr d),
     num_records := ucTotalNumRecords (sdr_xHdr d), repo_size := usTotalNumBytes (sdr_xHdr d),
     repo_data := Records (Some (map host_view recs))\<rparr>"

lemma parse_sdr_reads:
  assumes at: "holds_at b 0 (repo_bytes d recs)" and recs: "\<forall>rec \<in> set recs. sendable rec" "recs \<noteq> []"
    and len: "length recs = unat (ucTotalNumRecords (sdr_xHdr d))"
    and hdr: "ucRepoType (sdr_xHdr d) \<in> sensor_types" "usTotalNumBytes (sdr_xHdr d) \<noteq> 0"
    and mem: "host_alloc E w = (True, w')"
  shows "parse_sdr E True b repo w = Some (SUCCESS, host_repo d recs repo, w')"
proof -
  define i where "i = 5 + length (concat (map sdr_bytes recs))"
  have len5: "length (header_bytes (sdr_xHdr d)) = 5"
    by (simp add: header_bytes_def)
  have head: "holds_at b 0 (header_bytes (sdr_xHdr d))"
    and mid: "holds_at b 5 (concat (map sdr_bytes recs))" and tail: "holds_at b i ASDM_EOR_MARKER"
    using at unfolding repo_bytes_def holds_at_append i_def len5 add_0 by blast+
  have bytes: "length b \<ge> 5" "take 5 b = header_bytes (sdr_xHdr d)"
    using head unfolding holds_at_def len5 by simp_all
  have "b ! j = header_bytes (sdr_xHdr d) ! j" if "j < 5" for j
    using bytes that by (metis nth_take)
  then have nths: "b ! 0 = ucRepoType (sdr_xHdr d)" "b ! 1 = ucRepoVersionNum (sdr_xHdr d)"
    "b ! 2 = ucTotalNumRecords (sdr_xHdr d)" "b ! 3 = ucast (usTotalNumBytes (sdr_xHdr d))"
    "b ! 4 = ucast (drop_bit 8 (usTotalNumBytes (sdr_xHdr d)))"
    by (simp_all add: header_bytes_def)
  have reads: "get8 b 0 = Some (ucRepoType (sdr_xHdr d))" "get8 b 1 = Some (ucRepoVersionNum (sdr_xHdr d))"
    "get8 b 2 = Some (ucTotalNumRecords (sdr_xHdr d))" "get16 b 3 = Some (usTotalNumBytes (sdr_xHdr d))"
    using bytes(1) nths by (auto simp: get16_def get8_def two_bytes)
  have eor: "holds_at b i [0x45]" "holds_at b (i + 1) [0x4E]" "holds_at b (i + 2) [0x44]"
    using tail holds_at_append [of b i "[0x45]" "[0x4E, 0x44]"] holds_at_append [of b "i + 1" "[0x4E]" "[0x44]"]
    by simp_all
  have "end_of_repo b i = Some True"
    unfolding end_of_repo_def get8_at [OF eor(1)] get8_at [OF eor(2)] get8_at [OF eor(3)] by simp
  moreover have "ucTotalNumRecords (sdr_xHdr d) > 0"
    using recs(2) len by (simp add: word_gt_0) (metis length_greater_0_conv less_irrefl unat_0)
  moreover have "parse_many (parse_record b) (unat (ucTotalNumRecords (sdr_xHdr d))) 5 = Some (map host_view recs, i)"
    using parse_records_at [OF mid recs(1)] by (simp add: len i_def)
  moreover have "ucRepoType (sdr_xHdr d) \<noteq> SDR_TYPE_FPT" "ucRepoType (sdr_xHdr d) \<noteq> SDR_TYPE_BDINFO"
    using hdr(1) by (auto simp: sensor_types_def)
  ultimately show ?thesis
    using hdr mem
    by (simp add: parse_sdr_def reads [unfolded One_nat_def] parse_payload_def sensor_types_def [symmetric] host_repo_def)
qed

text \<open>
  C29: A sensor repository of the firmware whose records lie in their arrays and whose values
  have at most four bytes reaches the host unchanged: the firmware's answer to \<open>GET SDR\<close> is
  defined, and when the host's command receives these bytes (whatever follows them in its
  buffer), the host's parser succeeds and stores exactly the header and the records of the
  firmware: identifiers, types, lengths, values, units, limits and status.
\<close>

theorem sdr_reaches_host:
  assumes repo: "sensor_repository r s d recs" "recs \<noteq> []"
    and hdr: "ucRepoType (sdr_xHdr d) \<in> sensor_types" "usTotalNumBytes (sdr_xHdr d) \<noteq> 0"
    and buf: "length buf < 2 ^ 16" "length (repo_bytes d recs) < length buf"
  shows "\<exists>b n. get_sdr t buf r s = Some (OK, b, Some n, s) \<and>
    (\<forall>(E :: 'w host_env) w w1 w2 w3 reply.
       host_alloc E w = (True, w1) \<and>
       submit_gcq_command E GCQ_SUBMIT_CMD_GET_SDR (get_flags_for_repo (ucRepoType (sdr_xHdr d)))
         (replicate SDR_RESP_LEN 0) w1 = (SUCCESS, reply, w2) \<and>
       take (unat n) reply = take (unat n) b \<and> unat n \<le> length reply \<and> host_alloc E w2 = (True, w3) \<longrightarrow>
       get_sdr_host E True (ucRepoType (sdr_xHdr d)) zero_repo w = Some (SUCCESS, host_repo d recs zero_repo, w3))"
proof -
  define bs where "bs = 1 # repo_bytes d recs"
  have n: "unat (of_nat (length bs) :: u16) = length bs"
    using buf by (intro unat_small) (simp add: bs_def)
  have host: "get_sdr_host E True (ucRepoType (sdr_xHdr d)) zero_repo w = Some (SUCCESS, host_repo d recs zero_repo, w3)"
    if "host_alloc E w = (True, w1)" "host_alloc E w2 = (True, w3)" and reply: "take (length bs) reply = bs"
      and "submit_gcq_command E GCQ_SUBMIT_CMD_GET_SDR (get_flags_for_repo (ucRepoType (sdr_xHdr d)))
        (replicate SDR_RESP_LEN 0) w1 = (SUCCESS, reply, w2)"
    for E :: "'w host_env" and w w1 w2 w3 reply
  proof -
    obtain zs where zs: "reply = bs @ zs"
      using reply by (metis append_take_drop_id)
    have "holds_at (drop 1 reply) 0 (repo_bytes d recs)"
      by (simp add: zs bs_def holds_at_def)
    moreover have "length recs = unat (ucTotalNumRecords (sdr_xHdr d))" "\<forall>rec \<in> set recs. sendable rec"
      using repo(1) by (simp_all add: sensor_repository_def)
    ultimately have "parse_sdr E True (drop 1 reply) zero_repo w2 = Some (SUCCESS, host_repo d recs zero_repo, w3)"
      using repo(2) hdr that by (intro parse_sdr_reads) simp_all
    then show ?thesis
      using that by (simp add: get_sdr_host_def zs bs_def get8_def repo_bytes_def header_bytes_def)
  qed
  show ?thesis
    using get_sdr_writes [OF buf(1) repo(1) buf(2), of t] host
    unfolding bs_def [symmetric] by (fastforce simp: written_def n)
qed

text \<open>A temperature sensor with one limit, and a host whose command asks the firmware.\<close>

definition sample_sdr_field :: "u8 \<Rightarrow> u8 list \<Rightarrow> ASDMRecordField" where
  "sample_sdr_field t xs = \<lparr>fld_ucType = t, fld_ucLength = of_nat (length xs),
     fld_bytes = xs @ replicate (ASDM_RECORD_FIELD_BYTES_MAX - length xs) 0\<rparr>"

definition sample_sdr :: ASDMSdrRecord where
  "sample_sdr = zero_sdr\<lparr>sdr_ucId := 1, xSensorName := sample_sdr_field 3 [0x50, 0x43, 0x42],
     sdr_xSensorValue := sample_sdr_field 0 [0x28, 0, 0, 0], xSensorBaseUnit := sample_sdr_field 3 [0x43],
     ucThresholdSupportedBitMask := 0xC1, sdr_ulUpperWarnLimit := 80, sdr_ucSensorStatus := 1,
     ulMaxValue := 50, ulAverageValue := 45\<rparr>"

definition sample_temperatures :: ASDMSdr where
  "sample_temperatures = \<lparr>sdr_xHdr = \<lparr>ucRepoType = ASDM_REPOSITORY_TYPE_TEMP, ucRepoVersionNum = 1,
       ucTotalNumRecords = 1, usTotalNumBytes = 1\<rparr>,
     sdr_payload = SensorRecords (Some [sample_sdr]), sdr_pucAsdmEor = ASDM_EOR_MARKER\<rparr>"

definition sample_firmware :: "unit asdm_st" where
  "sample_firmware = \<lparr>asdm = initial_asdm\<lparr>pxAsdmSdrInfo := Some [sample_temperatures],
     pxSensorList := (\<lambda>_. \<lparr>ucNumFound = 1, pucSensorIndex = None, pucSensorId = None\<rparr>)\<rparr>, asdm_outside = ()\<rparr>"

definition firmware_answer :: "u8 list \<Rightarrow> u8 list" where
  "firmware_answer buf = (case get_sdr ASDM_REPOSITORY_TYPE_TEMP buf 0 sample_firmware of
     Some (_, b, _, _) \<Rightarrow> b | None \<Rightarrow> [])"

definition asking_host :: "unit host_env" where
  "asking_host = \<lparr>host_alloc = (\<lambda>w. (True, w)),
     submit_gcq_command = (\<lambda>_ _ buf w. (SUCCESS, firmware_answer buf, w)),
     jiffies = (\<lambda>w. (0, w)), HZ = 1000\<rparr>"

lemma sample_repository: "sensor_repository 0 sample_firmware sample_temperatures [sample_sdr]"
  by (simp add: sensor_repository_def sdr_at_def elem_def sample_firmware_def sample_temperatures_def num_found_def
      get_sensor_list_def arr_get_def sendable_def sample_sdr_def sample_sdr_field_def shared_length_def)

lemma sample_length: "length (repo_bytes sample_temperatures [sample_sdr]) = 35"
  by (simp add: repo_bytes_def header_bytes_def sdr_bytes_def sdr_v2_bytes_def typed_bytes_def limit_bytes_def
      sample_sdr_def sample_sdr_field_def shared_length_def)

theorem sdr_reaches_host_witness:
  "get_sdr_host asking_host True ASDM_REPOSITORY_TYPE_TEMP zero_repo () =
     Some (SUCCESS, host_repo sample_temperatures [sample_sdr] zero_repo, ())"
proof -
  let ?buf = "replicate SDR_RESP_LEN 0 :: u8 list"
  let ?bs = "1 # repo_bytes sample_temperatures [sample_sdr]"
  have type: "ucRepoType (sdr_xHdr sample_temperatures) = ASDM_REPOSITORY_TYPE_TEMP"
    and hdr: "ucRepoType (sdr_xHdr sample_temperatures) \<in> sensor_types"
      "usTotalNumBytes (sdr_xHdr sample_temperatures) \<noteq> 0"
    by (simp_all add: sample_temperatures_def sensor_types_def)
  have answer: "get_sdr ASDM_REPOSITORY_TYPE_TEMP ?buf 0 sample_firmware =
      Some (OK, snd (written ?buf ?bs), Some (fst (written ?buf ?bs)), sample_firmware)"
    by (rule get_sdr_writes [OF _ sample_repository]) (simp_all add: sample_length)
  have n: "unat (fst (written ?buf ?bs)) = 36"
    by (simp add: written_def sample_length)
  have len: "length (snd (written ?buf ?bs)) = SDR_RESP_LEN"
    by (simp add: written_def sample_length)
  obtain b n where "get_sdr ASDM_REPOSITORY_TYPE_TEMP ?buf 0 sample_firmware = Some (OK, b, Some n, sample_firmware)"
    and host: "\<And>(E :: unit host_env) w w1 w2 w3 reply. host_alloc E w = (True, w1) \<Longrightarrow>
       submit_gcq_command E GCQ_SUBMIT_CMD_GET_SDR (get_flags_for_repo ASDM_REPOSITORY_TYPE_TEMP) ?buf w1 =
         (SUCCESS, reply, w2) \<Longrightarrow>
       take (unat n) reply = take (unat n) b \<Longrightarrow> unat n \<le> length reply \<Longrightarrow> host_alloc E w2 = (True, w3) \<Longrightarrow>
       get_sdr_host E True ASDM_REPOSITORY_TYPE_TEMP zero_repo w =
         Some (SUCCESS, host_repo sample_temperatures [sample_sdr] zero_repo, w3)"
    using sdr_reaches_host [OF sample_repository _ hdr, of ?buf ASDM_REPOSITORY_TYPE_TEMP, where 'w = unit]
    by (auto simp: sample_length type)
  moreover from this(1) have "b = snd (written ?buf ?bs)" "unat n = 36"
    using answer n by simp_all
  ultimately show ?thesis
    using len answer by (intro host [of _ _ "()" b]) (simp_all add: asking_host_def firmware_answer_def)
qed

end
