(* ===== verification/Host_Readings.thy ===== *)
theory Host_Readings
  imports Host_Firmware
begin

text \<open>
  The readings on their way from the firmware to the host: the response to the request for all
  sensors (\<open>ASDM_Responses.all_sensors\<close>) and the host's loop over it
  (\<open>Host_Sensors.sensor_loop\<close>).  The payload size of the response is a byte.
\<close>

section \<open>The response\<close>

text \<open>A record with a four-byte value.\<close>

definition wide_reading :: "ASDMSdrRecord \<Rightarrow> bool" where
  "wide_reading rec \<longleftrightarrow> fld_ucLength (sdr_xSensorValue rec) AND ASDM_RECORD_FIELD_LENGTH_MASK = 4 \<and>
     fld_ulValue (sdr_xSensorValue rec) \<noteq> None"

definition reading_bytes :: "ASDMSdrRecord \<Rightarrow> u8 list" where
  "reading_bytes rec = [4] @ le_bytes32 (the (fld_ulValue (sdr_xSensorValue rec))) @ le_bytes32 (ulMaxValue rec) @
     le_bytes32 (ulAverageValue rec) @ [sdr_ucSensorStatus rec]"

lemma length_reading [simp]: "length (reading_bytes rec) = 14"
  by (simp add: reading_bytes_def)

lemma length_readings: "length (concat (map reading_bytes recs)) = 14 * length recs"
  by (induction recs) simp_all

text \<open>The repository: its records have four-byte values.\<close>

definition reading_repository :: "nat \<Rightarrow> 'w asdm_st \<Rightarrow> ASDMSdrRecord list \<Rightarrow> bool" where
  "reading_repository r s recs \<longleftrightarrow> r < AMC_ASDM_SUPPORTED_REPO_MAX \<and>
     (\<exists>d. sdr_at r s = Some d \<and> sdr_payload d = SensorRecords (Some recs) \<and>
        length recs = unat (ucTotalNumRecords (sdr_xHdr d))) \<and> (\<forall>rec \<in> set recs. wide_reading rec)"

lemma emits_values:
  assumes b: "length b < 2 ^ 16" and rec: "wide_reading rec"
  shows "emits b (\<lambda>x. do { x \<leftarrow> emit8 4 x; emit_values 4 rec x }) (reading_bytes rec)"
proof -
  obtain v where v: "fld_ulValue (sdr_xSensorValue rec) = Some v"
    using rec by (auto simp: wide_reading_def)
  have u32: "emits b (emit_u32 u 4) (le_bytes32 u)" for u
    using emits_u32 [OF b, of 4 u] by simp
  have "emits b (emit_values 4 rec)
    (le_bytes32 v @ le_bytes32 (ulMaxValue rec) @ le_bytes32 (ulAverageValue rec) @ [sdr_ucSensorStatus rec])"
    unfolding emit_values_def v bind.bind_lunit by (rule emits_bind u32 emits_emit8 [OF b])+
  then show ?thesis
    unfolding reading_bytes_def v option.sel by (rule emits_bind [OF emits_emit8 [OF b]])
qed

text \<open>The loop over the records adds 14 to the size and writes the values.\<close>

lemma all_records_written:
  assumes b: "length b < 2 ^ 16" and repo: "reading_repository r s recs"
    and fits: "length bs + 14 * k \<le> length b" and k: "k \<le> length recs"
  shows "for_each (all_sensor_record s r) [0..<k] (0, written b bs) =
    Some (14 * of_nat k, written b (bs @ concat (map reading_bytes (take k recs))))"
  using fits k
proof (induction k)
  case (Suc k)
  have rec: "get_sdr_record r k s = Some (recs ! k)" and wide: "wide_reading (recs ! k)"
    using repo Suc.prems by (auto simp: reading_repository_def get_sdr_record_def sensor_records_def elem_def)
  have len: "length (concat (map reading_bytes (take k recs))) = 14 * k"
    using Suc.prems(2) by (simp add: length_readings)
  have "(do { x \<leftarrow> emit8 4 (written b (bs @ concat (map reading_bytes (take k recs)))); emit_values 4 (recs ! k) x }) =
      Some (written b ((bs @ concat (map reading_bytes (take k recs))) @ reading_bytes (recs ! k)))"
    using emits_values [OF b wide, unfolded emits_def, rule_format] Suc.prems(1) len by simp
  then have "all_sensor_record s r k (14 * of_nat k, written b (bs @ concat (map reading_bytes (take k recs)))) =
      Some (14 * of_nat (Suc k), written b (bs @ concat (map reading_bytes (take (Suc k) recs))))"
    using wide Suc.prems(2)
    by (auto simp: all_sensor_record_def rec wide_reading_def Let_def take_Suc_conv_app_nth bind_eq_Some_conv algebra_simps) (metis surj_pair)
  then show ?case
    using Suc by (simp add: for_each_append)
qed simp

lemma all_sensors_writes:
  assumes b: "length buf < 2 ^ 16" and repo: "reading_repository r s recs"
    and fits: "3 + 14 * length recs \<le> length buf"
  shows "all_sensors buf r s = Some (OK,
    [1, ucRepoType (xAsdmHeaderInfo ! r), 14 * of_nat (length recs)] @ concat (map reading_bytes recs) @ drop (3 + 14 * length recs) buf,
    Some (of_nat (3 + 14 * length recs)), s)"
proof -
  obtain d where d: "sdr_at r s = Some d" "unat (ucTotalNumRecords (sdr_xHdr d)) = length recs" and r: "r < 7"
    using repo by (auto simp: reading_repository_def)
  define t where "t = ucRepoType (xAsdmHeaderInfo ! r)"
  obtain x y z bs where buf: "buf = x # y # z # bs"
    using fits by (cases buf rule: list.exhaust; (cases "tl buf"; cases "tl (tl buf)")?) auto
  have code: "emit_code r buf = Some (2, 1 # t # z # bs)"
    using r by (simp add: emit_code_def elem_def put8_def buf t_def xAsdmHeaderInfo_def)
  have start: "written buf [1, t, z] = (2 + 1, 1 # t # z # bs)"
    by (simp add: written_def buf)
  note len = length_readings [of recs]
  have "for_each (all_sensor_record s r) [0..<length recs] (0, written buf [1, t, z]) =
      Some (14 * of_nat (length recs), written buf ([1, t, z] @ concat (map reading_bytes recs)))"
    using all_records_written [OF b repo, of "[1, t, z]" "length recs"] fits by simp
  then show ?thesis
    unfolding start by (simp add: all_sensors_def code d written_def len put8_def numeral_3_eq_3 t_def)
qed

section \<open>The loop of the host\<close>

definition refreshed_reading :: "ASDMSdrRecord \<Rightarrow> sdr_record \<Rightarrow> sdr_record" where
  "refreshed_reading rec h = h\<lparr>r_value_len := 4,
     r_value := padded SDR_VALUE_MAX_LEN (le_bytes32 (the (fld_ulValue (sdr_xSensorValue rec)))),
     r_max := le_bytes32 (ulMaxValue rec), r_avg := le_bytes32 (ulAverageValue rec),
     r_sensor_status := sdr_ucSensorStatus rec\<rparr>"

lemma store_values_at:
  assumes "holds_at b i (reading_bytes rec)"
  shows "get8 b i = Some 4" and "store_values b (i + 1) 4 h = Some (refreshed_reading rec h)"
proof -
  have parts: "holds_at b i [4]" "holds_at b (i + 1) (le_bytes32 (the (fld_ulValue (sdr_xSensorValue rec))))"
    "holds_at b (i + 1 + 4) (le_bytes32 (ulMaxValue rec))"
    "holds_at b (i + 1 + 4 + 4) (le_bytes32 (ulAverageValue rec))"
    "holds_at b (i + 1 + 4 + 4 + 4) [sdr_ucSensorStatus rec]"
    using assms unfolding reading_bytes_def holds_at_append length_le_bytes32 by simp_all
  have copies: "copy_in (replicate SDR_VALUE_MAX_LEN 0) b (i + 1) 4 =
      Some (padded SDR_VALUE_MAX_LEN (le_bytes32 (the (fld_ulValue (sdr_xSensorValue rec)))))"
    "copy_in (replicate SDR_THRESHOLD_MAX_LEN 0) b (i + 1 + 4) 4 = Some (le_bytes32 (ulMaxValue rec))"
    "copy_in (replicate SDR_THRESHOLD_MAX_LEN 0) b (i + 1 + 4 + 4) 4 = Some (le_bytes32 (ulAverageValue rec))"
    using copy_in_at [OF parts(2), of SDR_VALUE_MAX_LEN] copy_in_at [OF parts(3), of SDR_THRESHOLD_MAX_LEN]
      copy_in_at [OF parts(4), of SDR_THRESHOLD_MAX_LEN] by (simp_all add: padded_def)
  show "get8 b i = Some 4"
    by (rule get8_at [OF parts(1)])
  show "store_values b (i + 1) 4 h = Some (refreshed_reading rec h)"
    using copies get8_at [OF parts(5)]
    by (simp add: store_values_def refreshed_reading_def Let_def add.assoc del: get8_Some)
qed

lemma first_index_only:
  assumes "\<And>j. m \<le> j \<Longrightarrow> j < n \<Longrightarrow> f j = Some (j = k)" and "m \<le> k" and "k < n"
  shows "first_index f [m..<n] = Some (Some k)"
  using assms
proof (induction "k - m" arbitrary: m)
  case 0
  then show ?case by (simp add: upt_conv_Cons)
next
  case (Suc d)
  then have "first_index f [Suc m..<n] = Some (Some k)"
    by (intro Suc.hyps(1)) auto
  then show ?case
    using Suc by (simp add: upt_conv_Cons)
qed

text \<open>A host repository with the records \<open>hs\<close>, numbered from one.\<close>

definition numbered_repo :: "sdr_repo \<Rightarrow> sdr_record list \<Rightarrow> bool" where
  "numbered_repo hr hs \<longleftrightarrow> repo_data hr = Records (Some hs) \<and> length hs = unat (num_records hr) \<and>
     (\<forall>j < length hs. uint (r_id (hs ! j)) = int j + 1)"

lemma find_numbered:
  assumes "numbered_repo hr hs" and "k < length hs"
  shows "find_sdr_record (At [hr]) 1 (repo_type hr) (int k) = Some (Some (0, k))"
proof -
  have "record_has_id hr (int k) j = Some (j = k)" if "j < length hs" for j
    using assms that by (auto simp: record_has_id_def numbered_repo_def repo_records_def elem_def)
  then have "first_index (record_has_id hr (int k)) [0..<length hs] = Some (Some k)"
    using assms(2) by (intro first_index_only) auto
  then show ?thesis
    using assms by (simp add: find_sdr_record_def find_in_repo_def numbered_repo_def deref_def elem_def)
qed

text \<open>The records after the first \<open>k\<close> have been refreshed.\<close>

definition refreshed_first :: "nat \<Rightarrow> ASDMSdrRecord list \<Rightarrow> sdr_record list \<Rightarrow> sdr_record list" where
  "refreshed_first k recs hs = map (\<lambda>j. if j < k then refreshed_reading (recs ! j) (hs ! j) else hs ! j) [0..<length hs]"

lemma numbered_refreshed:
  assumes "numbered_repo hr hs"
  shows "numbered_repo (hr\<lparr>repo_data := Records (Some (refreshed_first k recs hs))\<rparr>) (refreshed_first k recs hs)"
  using assms by (simp add: numbered_repo_def refreshed_first_def refreshed_reading_def)

lemma refreshed_step:
  assumes "k < length hs"
  shows "(refreshed_first k recs hs)[k := refreshed_reading (recs ! k) (hs ! k)] = refreshed_first (Suc k) recs hs"
    and "refreshed_first k recs hs ! k = hs ! k" and "length (refreshed_first k recs hs) = length hs"
  using assms by (auto simp: refreshed_first_def intro!: nth_equalityI) (auto simp: nth_list_update)

lemma reading_at:
  assumes "holds_at b i (concat (map reading_bytes recs))" and "k < length recs"
  shows "holds_at b (i + 14 * k) (reading_bytes (recs ! k))"
  using assms
proof (induction recs arbitrary: i k)
  case (Cons rec recs)
  show ?case
  proof (cases k)
    case 0
    then show ?thesis using Cons.prems by (simp add: holds_at_append)
  next
    case (Suc j)
    then show ?thesis
      using Cons.IH [of "i + 14" j] Cons.prems by (simp add: holds_at_append add.assoc)
  qed
qed simp

lemma loop_refreshes:
  assumes at: "holds_at b 3 (concat (map reading_bytes recs))"
    and hr: "numbered_repo hr hs" "length hs = length recs"
    and m: "m \<le> length recs" "14 * m < sz + 14" "sz \<le> 14 * m" and k: "k \<le> m"
  shows "sensor_loop b (repo_type hr) (3 + sz) (3 + 14 * k) k (hr\<lparr>repo_data := Records (Some (refreshed_first k recs hs))\<rparr>) =
    Some (hr\<lparr>repo_data := Records (Some (refreshed_first m recs hs))\<rparr>)"
  using k
proof (induction rule: inc_induct)
  case base
  then show ?case using m by (simp add: sensor_loop.simps)
next
  case (step k)
  let ?r = "\<lambda>k. hr\<lparr>repo_data := Records (Some (refreshed_first k recs hs))\<rparr>"
  have k: "k < length recs" "k < length hs" "3 + 14 * k < 3 + sz"
    using step.hyps m hr by simp_all
  have bytes: "holds_at b (3 + 14 * k) (reading_bytes (recs ! k))"
    by (rule reading_at [OF at k(1)])
  have "find_sdr_record (At [?r k]) 1 (repo_type hr) (int k) = Some (Some (0, k))"
    using find_numbered [OF numbered_refreshed [OF hr(1)], of k k recs] k by (simp add: refreshed_step)
  moreover have "update_repo_record k (store_values b (3 + 14 * k + 1) 4) (?r k) = Some (?r (Suc k))"
    using k by (simp add: update_repo_record_def repo_records_def elem_def set_elem_def refreshed_step
        store_values_at(2) [OF bytes, simplified])
  ultimately have vals: "sensor_values b (repo_type hr) (3 + 14 * k + 1) k 4 (?r k) = Some (?r (Suc k))"
    by (simp add: sensor_values_def)
  have next_index: "3 + 14 * k + 1 + (SDR_PARSE_BUF_STATUS_INDEX * unat (4 :: u8) + 1) = 3 + 14 * Suc k"
    by simp
  show ?case
    unfolding sensor_loop.simps [of b _ _ "3 + 14 * k"] store_values_at(1) [OF bytes]
    using k step.IH vals unfolding next_index by simp
qed

lemma payload_size: "unat (14 * of_nat n :: u8) = 14 * n mod 256"
proof -
  have "(14 * of_nat n :: u8) = of_nat (14 * n)"
    by simp
  then show ?thesis
    by (simp only: unat_of_nat) simp
qed

text \<open>
  C30: The request for all sensors carries the readings of the firmware to the host, for the
  number of sensors that the payload size, a byte, can express: with \<open>n\<close> sensors of four
  bytes the host refreshes value, maximum, average and status of exactly the first
  \<open>(14 * n mod 256 + 13) div 14\<close> records and leaves the others as they were, yet reports
  success.  Up to 18 sensors these are all of them; with 19 it is the first alone.
\<close>

theorem readings_reach_host:
  assumes buf: "length buf < 2 ^ 16" "3 + 14 * length recs \<le> length buf"
    and fw: "reading_repository r s recs"
    and host: "numbered_repo hr hs" "length hs = length recs" "repo_type hr = ucRepoType (xAsdmHeaderInfo ! r)"
    and cmd: "get_rid (repo_type hr) = get_sid cmd GCQ_CMD_FLAG_NONE"
  shows "\<exists>b n. all_sensors buf r s = Some (OK, b, Some n, s) \<and>
    (\<forall>(E :: 'v host_env) w w1 w2 w3 reply now.
       host_alloc E w = (True, w1) \<and>
       submit_gcq_command E cmd GCQ_CMD_FLAG_NONE (replicate SENSOR_RSP_LEN 0) w1 = (SUCCESS, reply, w2) \<and>
       take (unat n) reply = take (unat n) b \<and> unat n \<le> length reply \<and> jiffies E w2 = (now, w3) \<longrightarrow>
       get_all_sensors E True cmd hr w = Some (SUCCESS,
         hr\<lparr>repo_data := Records (Some (refreshed_first ((14 * length recs mod 256 + 13) div 14) recs hs)),
            last_update := now\<rparr>, w3))"
proof -
  define bs where "bs = [1, repo_type hr, 14 * of_nat (length recs)] @ concat (map reading_bytes recs)"
  define sz where "sz = 14 * length recs mod 256"
  define m where "m = (sz + 13) div 14"
  have len: "length bs = 3 + 14 * length recs"
    by (simp add: bs_def length_readings)
  have n: "unat (of_nat (3 + 14 * length recs) :: u16) = length bs"
    using buf unfolding len by (intro unat_small) simp
  have m_le: "m \<le> length recs" and m: "14 * m < sz + 14" "sz \<le> 14 * m"
    using mod_less_eq_dividend [of "14 * length recs" 256] unfolding m_def sz_def by linarith+
  have "refreshed_first 0 recs hs = hs"
    by (simp add: refreshed_first_def map_nth)
  then have same: "hr\<lparr>repo_data := Records (Some (refreshed_first 0 recs hs))\<rparr> = hr"
    using host(1) by (simp add: numbered_repo_def)
  have "get_all_sensors E True cmd hr w = Some (SUCCESS,
      hr\<lparr>repo_data := Records (Some (refreshed_first m recs hs)), last_update := now\<rparr>, w3)"
    if "host_alloc E w = (True, w1)" "jiffies E w2 = (now, w3)" and reply: "take (length bs) reply = bs"
      and "submit_gcq_command E cmd GCQ_CMD_FLAG_NONE (replicate SENSOR_RSP_LEN 0) w1 = (SUCCESS, reply, w2)"
    for E :: "'v host_env" and w w1 w2 w3 reply now
  proof -
    obtain zs where zs: "reply = bs @ zs"
      using reply by (metis append_take_drop_id)
    then have "holds_at reply 3 (concat (map reading_bytes recs))"
      by (simp add: bs_def holds_at_def)
    from loop_refreshes [OF this host(1,2) m_le m, of 0]
    have "sensor_loop reply (repo_type hr) (3 + sz) 3 0 hr =
        Some (hr\<lparr>repo_data := Records (Some (refreshed_first m recs hs))\<rparr>)"
      by (simp add: same)
    moreover have gets: "get8 reply 0 = Some 1" "get8 reply 1 = Some (repo_type hr)"
      "get8 reply 2 = Some (14 * of_nat (length recs))"
      by (simp_all add: zs bs_def get8_def)
    ultimately show ?thesis
      using that cmd by (simp add: get_all_sensors_def payload_size sz_def gets gets(2) [unfolded One_nat_def] del: get8_Some)
  qed
  then show ?thesis
    using all_sensors_writes [OF buf(1) fw buf(2)] n len
    unfolding host(3) [symmetric] sz_def m_def
    by (auto simp: bs_def)
qed

text \<open>Nineteen temperature sensors, and a host whose command asks the firmware.\<close>

definition nineteen :: "ASDMSdrRecord list" where
  "nineteen = replicate 19 sample_sdr"

definition crowded_firmware :: "unit asdm_st" where
  "crowded_firmware = sample_firmware\<lparr>asdm := (asdm sample_firmware)\<lparr>pxAsdmSdrInfo :=
     Some [sample_temperatures\<lparr>sdr_xHdr := (sdr_xHdr sample_temperatures)\<lparr>ucTotalNumRecords := 19\<rparr>,
                               sdr_payload := SensorRecords (Some nineteen)\<rparr>]\<rparr>\<rparr>"

definition blank_records :: "nat \<Rightarrow> sdr_record list" where
  "blank_records n = map (\<lambda>j. zero_sdr_record\<lparr>r_id := of_nat (j + 1)\<rparr>) [0..<n]"

lemma blank_numbered:
  assumes "n < 256" and "repo_data hr = Records (Some (blank_records n))" and "num_records hr = of_nat n"
  shows "numbered_repo hr (blank_records n)"
proof -
  have count: "unat (of_nat n :: u8) = n"
    using assms(1) by (intro unat_small) simp
  have "uint (r_id (blank_records n ! j)) = int j + 1" if "j < n" for j
  proof -
    have "unat (of_nat (j + 1) :: u8) = j + 1"
      using that assms(1) by (intro unat_small) simp
    then have "int (unat (of_nat (j + 1) :: u8)) = int j + 1"
      by simp
    then show ?thesis
      using that by (simp add: blank_records_def)
  qed
  then show ?thesis
    using assms count by (simp add: numbered_repo_def) (simp add: blank_records_def)
qed

definition nineteen_host :: "sdr_record list" where
  "nineteen_host = blank_records 19"

definition crowded_repo :: sdr_repo where
  "crowded_repo = zero_repo\<lparr>repo_type := SDR_TYPE_TEMP, num_records := 19, repo_data := Records (Some nineteen_host)\<rparr>"

definition crowded_answer :: "u8 list \<Rightarrow> u8 list" where
  "crowded_answer buf = (case all_sensors buf 0 crowded_firmware of Some (_, b, _, _) \<Rightarrow> b | None \<Rightarrow> [])"

definition crowded_host :: "unit host_env" where
  "crowded_host = asking_host\<lparr>submit_gcq_command := (\<lambda>_ _ buf w. (SUCCESS, crowded_answer buf, w))\<rparr>"

lemma crowded_repository: "reading_repository 0 crowded_firmware nineteen"
  by (simp add: reading_repository_def sdr_at_def elem_def crowded_firmware_def sample_firmware_def nineteen_def
      wide_reading_def sample_sdr_def sample_sdr_field_def fld_ulValue_def get32_def load32_def)

lemma crowded_numbered: "numbered_repo crowded_repo nineteen_host"
  unfolding nineteen_host_def by (rule blank_numbered) (simp_all add: crowded_repo_def nineteen_host_def)

theorem readings_reach_host_witness:
  "get_all_sensors crowded_host True GCQ_SUBMIT_CMD_GET_ALL_INST_TEMP_SENSOR crowded_repo () = Some (SUCCESS,
     crowded_repo\<lparr>repo_data := Records (Some (refreshed_first 1 nineteen nineteen_host)), last_update := 0\<rparr>, ())"
proof -
  let ?buf = "replicate SENSOR_RSP_LEN 0 :: u8 list"
  have n: "length nineteen = 19" "length nineteen_host = length nineteen"
    by (simp_all add: nineteen_def nineteen_host_def blank_records_def)
  have type: "repo_type crowded_repo = ucRepoType (xAsdmHeaderInfo ! 0)"
    by (simp add: crowded_repo_def xAsdmHeaderInfo_def)
  have cmd: "get_rid (repo_type crowded_repo) = get_sid GCQ_SUBMIT_CMD_GET_ALL_INST_TEMP_SENSOR GCQ_CMD_FLAG_NONE"
    by (simp add: crowded_repo_def get_rid_def get_sid_def)
  note answer = all_sensors_writes [OF _ crowded_repository, of ?buf, unfolded n]
  have len: "length (concat (map reading_bytes nineteen)) = 266"
    using n by (simp add: length_readings)
  obtain b n where b: "all_sensors ?buf 0 crowded_firmware = Some (OK, b, Some n, crowded_firmware)"
    and host: "\<And>(E :: unit host_env) w w1 w2 w3 reply now. host_alloc E w = (True, w1) \<Longrightarrow>
       submit_gcq_command E GCQ_SUBMIT_CMD_GET_ALL_INST_TEMP_SENSOR GCQ_CMD_FLAG_NONE ?buf w1 = (SUCCESS, reply, w2) \<Longrightarrow>
       take (unat n) reply = take (unat n) b \<Longrightarrow> unat n \<le> length reply \<Longrightarrow> jiffies E w2 = (now, w3) \<Longrightarrow>
       get_all_sensors E True GCQ_SUBMIT_CMD_GET_ALL_INST_TEMP_SENSOR crowded_repo w = Some (SUCCESS,
         crowded_repo\<lparr>repo_data := Records (Some (refreshed_first 1 nineteen nineteen_host)), last_update := now\<rparr>, w3)"
    using readings_reach_host [OF _ _ crowded_repository crowded_numbered n(2) type cmd, of ?buf, where 'v = unit]
    by (auto simp: n)
  have "unat n \<le> length b"
    using b answer len by auto
  then show ?thesis
    using b by (intro host [of _ _ "()" b]) (simp_all add: crowded_host_def asking_host_def crowded_answer_def)
qed

end
