(* ===== verification/Host_Discovery.thy ===== *)
theory Host_Discovery
  imports Host_Sensors
begin

text \<open>
  What discovery leaves behind (\<open>sw/AMI/driver/ami_sensor.c\<close>): well-formed repositories, on
  which every lookup is defined, when it succeeds, and a pointer to freed memory when it fails.
\<close>

section \<open>Well-formed repositories\<close>

definition partitions_ok :: "fpt_header \<Rightarrow> fpt_partition list option \<Rightarrow> bool" where
  "partitions_ok h p \<longleftrightarrow> (if f_num_entries h = 0 then p = None else (\<exists>ps. p = Some ps \<and> length ps = unat (f_num_entries h)))"

definition data_ok :: "sdr_repo \<Rightarrow> bool" where
  "data_ok r \<longleftrightarrow>
     (if num_records r = 0 then repo_data r = NoData
      else if repo_type r = SDR_TYPE_FPT then
        (\<exists>f. repo_data r = Fpt f \<and> partitions_ok (hdr_primary f) (partition_primary f) \<and>
             partitions_ok (hdr_secondary f) (partition_secondary f))
      else if repo_type r = SDR_TYPE_BDINFO then (\<exists>info. repo_data r = BdInfo (Some info))
      else \<exists>rs. repo_data r = Records (Some rs) \<and> length rs = unat (num_records r))"

definition device_ok :: "pf_dev_struct \<Rightarrow> bool" where
  "device_ok pf \<longleftrightarrow> num_sensor_repos pf = of_nat NUM_SENSOR_REPOS \<and>
     (\<exists>rs. sensor_repos pf = At rs \<and> map repo_type rs = discovery_repos \<and> (\<forall>r \<in> set rs. data_ok r))"

lemma parse_many_length: "parse_many f n i = Some (xs, j) \<Longrightarrow> length xs = n"
  by (induction n arbitrary: i xs) (auto simp: bind_eq_Some_conv)

lemma parse_device_ok: "parse_device E b None i w = Some (h, p, j, w') \<Longrightarrow> partitions_ok h p"
  by (auto simp: parse_device_def partitions_ok_def bind_eq_Some_conv split: if_splits prod.splits bool.splits
      dest: parse_many_length)

lemma parse_fpt_ok:
  assumes "parse_fpt E b zero_fpt i w = Some (f, j, w')"
  shows "partitions_ok (hdr_primary f) (partition_primary f)" and "partitions_ok (hdr_secondary f) (partition_secondary f)"
  using assms by (auto simp: parse_fpt_def zero_fpt_def bind_eq_Some_conv dest: parse_device_ok)

lemma parse_payload_ok:
  assumes "parse_payload E b r i w = Some (SUCCESS, r', j, w')" and "repo_data r = NoData" and "num_records r \<noteq> 0"
  shows "data_ok r' \<and> repo_type r' = repo_type r"
  using assms
  by (auto simp: parse_payload_def data_ok_def repo_fpt_def bind_eq_Some_conv split: if_splits prod.splits bool.splits
      dest: parse_fpt_ok parse_many_length)

lemma parse_sdr_ok:
  assumes parsed: "parse_sdr E ctl b r w = Some (ret, r', w')" and ret: "ret = SUCCESS \<or> ret = - ENODATA"
    and r: "repo_data r = NoData"
  shows "data_ok r' \<and> get8 b 0 = Some (repo_type r')"
proof -
  obtain t v n sz where reads: "get8 b 0 = Some t" "get8 b 1 = Some v" "get8 b 2 = Some n" "get16 b 3 = Some sz"
    and ctl: "ctl"
    using parsed ret by (auto simp: parse_sdr_def bind_eq_Some_conv simp del: get8_Some split: if_splits)
  define r0 where "r0 = r\<lparr>repo_type := t, repo_ver := v, num_records := n, repo_size := sz\<rparr>"
  have r0: "repo_data r0 = NoData" "repo_type r0 = t" "num_records r0 = n"
    using r by (simp_all add: r0_def)
  note unfolded = parsed [unfolded parse_sdr_def reads bind.bind_lunit Let_def r0_def [symmetric]]
  show ?thesis
  proof (cases "n > 0")
    case True
    then obtain i w1 where "parse_payload E b r0 5 w = Some (SUCCESS, r', i, w1)"
      using unfolded ret ctl by (auto simp: bind_eq_Some_conv split: if_splits)
        (auto simp: parse_payload_def bind_eq_Some_conv split: if_splits prod.splits bool.splits)
    then show ?thesis
      using parse_payload_ok r0 reads(1) True by (metis less_irrefl)
  next
    case False
    then have "r' = r0"
      using unfolded ret ctl by (auto simp: bind_eq_Some_conv split: if_splits)
    then show ?thesis
      using False r0 reads(1) by (simp add: data_ok_def word_gt_0)
  qed
qed

lemma get_sdr_ok:
  assumes "get_sdr_host E ctl t r w = Some (ret, r', w')" and "ret = SUCCESS \<or> ret = - ENODATA" and "repo_data r = NoData"
  shows "data_ok r' \<and> repo_type r' = t"
proof -
  have "get8 (drop 1 b) 0 = Some v \<Longrightarrow> get8 b 1 = Some v" for b v
    by (auto simp: get8_def split: if_splits)
  then show ?thesis
    using assms
    by (auto simp: get_sdr_host_def bind_eq_Some_conv split: if_splits prod.splits bool.splits dest!: parse_sdr_ok)
qed

section \<open>Discovery\<close>

lemma data_ok_last_update [simp]: "data_ok (r\<lparr>last_update := v\<rparr>) = data_ok r"
  by (simp add: data_ok_def)

lemma discover_from_ok:
  assumes "discover_from E ctl ts i rs k w = Some (SUCCESS, rs', k', w')" and "i + length ts = length rs"
    and "\<forall>j. i \<le> j \<and> j < length rs \<longrightarrow> repo_data (rs ! j) = NoData"
    and "\<forall>j < i. data_ok (rs ! j)"
  shows "map repo_type rs' = map repo_type (take i rs) @ ts \<and> (\<forall>r \<in> set rs'. data_ok r)"
  using assms
proof (induction ts arbitrary: i rs k w)
  case Nil
  then show ?case by (auto simp: in_set_conv_nth)
next
  case (Cons t ts)
  have i: "i < length rs" "repo_data (rs ! i) = NoData"
    using Cons.prems by auto
  obtain ret r w1 where sdr: "get_sdr_host E ctl t (rs ! i) w = Some (ret, r, w1)"
    and ret: "ret = SUCCESS \<or> ret = - ENODATA"
    and rest: "discover_from E ctl ts (i + 1) (rs[i := r\<lparr>last_update := fst (jiffies E w1)\<rparr>])
      (if ret = - ENODATA then k + 1 else k) (snd (jiffies E w1)) = Some (SUCCESS, rs', k', w')"
    using Cons.prems(1) i(1) by (auto simp: elem_def bind_eq_Some_conv Let_def split_beta split: if_splits)
  let ?rs = "rs[i := r\<lparr>last_update := fst (jiffies E w1)\<rparr>]"
  have r: "data_ok r" "repo_type r = t"
    using get_sdr_ok [OF sdr ret i(2)] by simp_all
  have "map repo_type rs' = map repo_type (take (i + 1) ?rs) @ ts \<and> (\<forall>r \<in> set rs'. data_ok r)"
    using Cons.prems i r by (intro Cons.IH [OF rest]) (auto simp: nth_list_update)
  then show ?case
    using i(1) r(2) by (simp add: take_Suc_conv_app_nth)
qed

lemma discovery_ok:
  assumes "discover_sensors E (Some pf) (Some k) w = Some (SUCCESS, dev, k', w')"
  shows "\<exists>pf'. dev = Some pf' \<and> device_ok pf'"
proof -
  define pf0 where "pf0 = pf\<lparr>num_sensor_repos := of_nat NUM_SENSOR_REPOS\<rparr>"
  obtain w1 rs k1 where found: "discover_from E (amc_ctrl_ctxt pf) discovery_repos 0
      (replicate NUM_SENSOR_REPOS zero_repo) k w1 = Some (SUCCESS, rs, k1, w')"
    and dev: "dev = Some (pf0\<lparr>sensor_repos := At rs\<rparr>)"
    using assms by (auto simp: discover_sensors_def pf0_def Let_def bind_eq_Some_conv split: prod.splits bool.splits if_splits)
  have "map repo_type rs = discovery_repos \<and> (\<forall>r \<in> set rs. data_ok r)"
    using discover_from_ok [OF found] by (simp add: discovery_repos_def zero_repo_def)
  then show ?thesis
    by (simp add: dev device_ok_def pf0_def)
qed

section \<open>Lookups on well-formed repositories\<close>

lemma first_index_defined: "(\<And>j. j \<in> set js \<Longrightarrow> f j \<noteq> None) \<Longrightarrow> first_index f js \<noteq> None"
  by (induction js) (auto simp: bind_eq_None_conv)

lemma first_index_found: "first_index f js = Some (Some j) \<Longrightarrow> j \<in> set js \<and> f j = Some True"
  by (induction js) (auto simp: bind_eq_Some_conv split: if_splits)

lemma repo_of_type_ok:
  assumes "device_ok pf"
  shows "\<exists>m. repo_of_type pf t = Some m \<and> (\<forall>i r. m = Some (i, r) \<longrightarrow> data_ok r \<and> repo_type r = t)"
proof -
  obtain rs where rs: "sensor_repos pf = At rs" "\<forall>r \<in> set rs. data_ok r" and len: "length rs = 7"
    and n: "unat (num_sensor_repos pf) = 7"
    using assms by (auto simp: device_ok_def discovery_repos_def dest!: arg_cong [where f = length])
  let ?f = "\<lambda>i. do { r \<leftarrow> elem (deref (sensor_repos pf)) i; Some (repo_type r = t) }"
  have "first_index ?f [0..<7] \<noteq> None"
    using rs len by (intro first_index_defined) (simp add: deref_def elem_def)
  then obtain m where m: "first_index ?f [0..<7] = Some m"
    by auto
  show ?thesis
  proof (cases m)
    case None
    then show ?thesis
      using m rs n by (simp add: repo_of_type_def find_sdr_repo_def)
  next
    case (Some i)
    then have "i < 7" "repo_type (rs ! i) = t"
      using first_index_found [of ?f "[0..<7]" i] m rs len by (auto simp: deref_def elem_def)
    then show ?thesis
      using m Some rs n len by (simp add: repo_of_type_def find_sdr_repo_def deref_def elem_def)
  qed
qed

lemma find_record_defined:
  assumes ok: "device_ok pf" and t: "t \<noteq> SDR_TYPE_FPT" "t \<noteq> SDR_TYPE_BDINFO"
  shows "find_sdr_record (sensor_repos pf) (num_sensor_repos pf) t sid \<noteq> None"
proof -
  obtain rs where rs: "sensor_repos pf = At rs" "\<forall>r \<in> set rs. data_ok r" and len: "length rs = 7"
    and n: "unat (num_sensor_repos pf) = 7"
    using assms by (auto simp: device_ok_def discovery_repos_def dest!: arg_cong [where f = length])
  have has_id: "record_has_id r sid j \<noteq> None" if "data_ok r" "repo_type r = t" "j < unat (num_records r)" for r j
    using that t by (auto simp: record_has_id_def repo_records_def data_ok_def elem_def split: if_splits)
  have "first_index (record_has_id r sid) [0..<unat (num_records r)] \<noteq> None" if "data_ok r" "repo_type r = t" for r
    using has_id [OF that] by (intro first_index_defined) simp
  then have "find_in_repo r t sid \<noteq> None" if "data_ok r" for r
    using that by (simp add: find_in_repo_def)
  then have "set is \<subseteq> {..<7} \<Longrightarrow> find_record_from (At rs) t sid is \<noteq> None" for "is"
    using rs(2) len by (induction "is")
      (auto simp: deref_def elem_def bind_eq_None_conv split: option.splits dest!: nth_mem)
  then have "find_record_from (At rs) t sid [0..<7] \<noteq> None"
    by (simp add: subset_eq del: upt_rec_numeral not_None_eq)
  then show ?thesis
    by (simp add: find_sdr_record_def rs(1) n)
qed

lemma partition_defined:
  assumes "partitions_ok h p"
  shows "partition_at h p ident \<noteq> None"
proof (cases "ident > ucast (f_num_entries h) - 1 \<or> p = None")
  case True
  then show ?thesis by (auto simp: partition_at_def)
next
  case False
  then obtain ps where ps: "p = Some ps" "length ps = unat (f_num_entries h)" "f_num_entries h \<noteq> 0"
    using assms by (auto simp: partitions_ok_def split: if_splits)
  have "unat ident \<le> unat (ucast (f_num_entries h) - 1 :: u32)"
    using False by (simp add: word_le_nat_alt not_less)
  also have "\<dots> = unat (f_num_entries h) - 1"
  proof -
    have "unat (f_num_entries h) \<noteq> 0"
      using ps(3) by (simp add: unat_eq_0)
    then have "(1 :: u32) \<le> ucast (f_num_entries h)"
      by (simp add: word_le_nat_alt)
    then show ?thesis
      by (simp add: unat_sub)
  qed
  finally have "unat ident < length ps"
    using ps(2,3) by (simp add: unat_eq_0 [symmetric])
  then show ?thesis
    by (simp add: partition_at_def ps(1) elem_def)
qed

lemma delete_repo_defined: "data_ok r \<Longrightarrow> delete_repo_records r \<noteq> None"
  by (auto simp: delete_repo_records_def data_ok_def repo_fpt_def repo_bd_info_def repo_records_def
      Let_def bind_eq_None_conv split: if_splits)

lemma delete_defined:
  assumes "device_ok pf"
  shows "delete_sensors (Some pf) \<noteq> None"
proof -
  obtain rs where rs: "sensor_repos pf = At rs" "\<forall>r \<in> set rs. data_ok r" and len: "length rs = 7"
    using assms by (auto simp: device_ok_def discovery_repos_def dest!: arg_cong [where f = length])
  define P where "P = (\<lambda>i p. \<exists>rs. p = Some rs \<and> length rs = 7 \<and> (\<forall>j. i \<le> j \<and> j < 7 \<longrightarrow> data_ok (rs ! j)))"
  have "okay (delete_at i p) (P (Suc i))" if i: "i < 7" and inv: "P i p" for i p
  proof -
    obtain rs where p: "p = Some rs" "length rs = 7" "\<forall>j. i \<le> j \<and> j < 7 \<longrightarrow> data_ok (rs ! j)"
      using inv by (auto simp: P_def)
    obtain r where "delete_repo_records (rs ! i) = Some r"
      using delete_repo_defined p(3) i by blast
    then show ?thesis
      using p i by (simp add: delete_at_def elem_def set_elem_def okay_def P_def)
  qed
  then have "okay (for_each delete_at [0..<7] (Some rs)) (P 7)"
    using rs(2) len by (intro for_each_upt_okay) (auto simp: P_def)
  then show ?thesis
    by (auto simp: delete_sensors_def rs(1) deref_def okay_def split: option.splits)
qed

text \<open>
  C31: After a successful discovery everything the driver later does with the repositories is
  defined: no lookup of a record, partition table, partition (whatever its number) or board
  information, and no deletion, reads outside an array or through a null, freed or mistyped
  pointer.  This holds whatever bytes the controller sent, an empty repository included.
\<close>

theorem discovery_makes_lookups_defined:
  assumes "discover_sensors E (Some pf) (Some k) w = Some (SUCCESS, dev, k', w')"
  shows "\<exists>pf'. dev = Some pf' \<and> num_sensor_repos pf' = of_nat NUM_SENSOR_REPOS \<and>
    (\<forall>t sid. t \<noteq> SDR_TYPE_FPT \<and> t \<noteq> SDR_TYPE_BDINFO \<longrightarrow>
       find_sdr_record (sensor_repos pf') (num_sensor_repos pf') t sid \<noteq> None) \<and>
    (\<forall>t. find_sdr_repo (sensor_repos pf') (num_sensor_repos pf') t \<noteq> None) \<and>
    (\<forall>boot hdr. read_fpt_hdr dev boot hdr \<noteq> None) \<and>
    (\<forall>boot ident out. read_fpt_partition dev boot ident out \<noteq> None) \<and>
    (\<forall>out. read_board_info dev out \<noteq> None) \<and> delete_sensors dev \<noteq> None"
proof -
  obtain pf' where dev: "dev = Some pf'" and ok: "device_ok pf'"
    using discovery_ok [OF assms] by blast
  have repo: "\<exists>m. repo_of_type pf' t = Some m \<and> (\<forall>i r. m = Some (i, r) \<longrightarrow> data_ok r \<and> repo_type r = t)" for t
    by (rule repo_of_type_ok [OF ok])
  have found: "find_sdr_repo (sensor_repos pf') (num_sensor_repos pf') t \<noteq> None" for t
    using repo [of t] by (auto simp: repo_of_type_def bind_eq_Some_conv)
  have hdr: "read_fpt_hdr dev boot hdr \<noteq> None" for boot hdr
  proof -
    obtain m where m: "repo_of_type pf' SDR_TYPE_FPT = Some m" "\<And>i r. m = Some (i, r) \<Longrightarrow> data_ok r \<and> repo_type r = SDR_TYPE_FPT"
      using repo by blast
    then show ?thesis
      by (cases m) (auto simp: dev read_fpt_hdr_def repo_fpt_def data_ok_def split: option.splits)
  qed
  have part: "read_fpt_partition dev boot ident out \<noteq> None" for boot ident out
  proof -
    obtain m where m: "repo_of_type pf' SDR_TYPE_FPT = Some m" "\<And>i r. m = Some (i, r) \<Longrightarrow> data_ok r \<and> repo_type r = SDR_TYPE_FPT"
      using repo by blast
    then show ?thesis
      by (cases m) (auto simp: dev read_fpt_partition_def repo_fpt_def data_ok_def split_beta
          split: option.splits dest!: partition_defined [of _ _ ident])
  qed
  have info: "read_board_info dev out \<noteq> None" for out
  proof -
    obtain m where m: "repo_of_type pf' SDR_TYPE_BDINFO = Some m" "\<And>i r. m = Some (i, r) \<Longrightarrow> data_ok r \<and> repo_type r = SDR_TYPE_BDINFO"
      using repo by blast
    then show ?thesis
      by (cases m) (auto simp: dev read_board_info_def repo_bd_info_def data_ok_def split: option.splits)
  qed
  show ?thesis
    unfolding dev
    using ok found hdr part info find_record_defined [OF ok] delete_defined [OF ok]
    by (intro exI [of _ pf'] conjI allI impI) (auto simp: device_ok_def dev simp del: not_None_eq)
qed

text \<open>
  C32: A discovery that fails after the repositories have been allocated leaves the device with
  a pointer to the freed array and seven as the number of repositories: from then on reading
  the sensors, updating a repository, every lookup, and deleting the sensors again use freed
  memory.
\<close>

theorem discovery_failure_dangles:
  assumes "discover_sensors E (Some pf) (Some k) w = Some (ret, dev, k', w')" and "ret \<noteq> SUCCESS"
    and "host_alloc E w = (True, w1)"
  shows "read_thermal_sensors E' dev fresh v = None \<and> read_voltage_sensors E' dev fresh v = None \<and>
    read_current_sensors E' dev fresh v = None \<and> read_power_sensors E' dev fresh v = None \<and>
    update_sdr E' dev t v = None \<and> read_fpt_hdr dev AMI_AMC_BOOT_DEVICE_PRIMARY (Some hdr) = None \<and>
    read_board_info dev (Some info) = None \<and> delete_sensors dev = None"
proof -
  obtain pf' where dev: "dev = Some pf'" and freed: "sensor_repos pf' = Freed" "unat (num_sensor_repos pf') = 7"
    using assms
    by (auto simp: discover_sensors_def Let_def bind_eq_Some_conv delete_sensors_def split: prod.splits if_splits)
  have seven: "[0..<7] = 0 # [Suc 0..<7]"
    by (simp add: upt_conv_Cons)
  have none: "repo_of_type pf' t = None" for t
    by (simp add: repo_of_type_def find_sdr_repo_def freed seven deref_def elem_def del: upt_Suc upt_rec_numeral)
  have "num_sensor_repos pf' \<noteq> 0"
    using freed(2) by auto
  moreover have "for_each delete_at [0..<7] None = None"
    by (simp add: seven delete_at_def elem_def del: upt_Suc upt_rec_numeral)
  ultimately have "delete_sensors dev = None"
    by (simp add: dev delete_sensors_def freed deref_def)
  then show ?thesis
    by (simp add: read_thermal_sensors_def read_voltage_sensors_def read_current_sensors_def read_power_sensors_def
        read_sensors_host_def repo_of_command_def update_sdr_def read_fpt_hdr_def read_board_info_def dev none)
qed

text \<open>A controller whose repositories are all empty, and one that does not answer.\<close>

definition no_device :: pf_dev_struct where
  "no_device = \<lparr>amc_ctrl_ctxt = True, sensor_refresh = 0, num_sensor_repos = 0, sensor_repos = Null\<rparr>"

definition empty_answer :: "u32 \<Rightarrow> u8 list" where
  "empty_answer flags = [SDR_CODE_OP_SUCCESS, the (find (\<lambda>t. get_flags_for_repo t = flags) discovery_repos),
     1, 0, 8, 0, 0x45, 0x4E, 0x44]"

definition empty_host :: "unit host_env" where
  "empty_host = \<lparr>host_alloc = (\<lambda>w. (True, w)), submit_gcq_command = (\<lambda>_ flags _ w. (SUCCESS, empty_answer flags, w)),
     jiffies = (\<lambda>w. (0, w)), HZ = 1000\<rparr>"

definition silent_host :: "unit host_env" where
  "silent_host = empty_host\<lparr>submit_gcq_command := (\<lambda>_ _ b w. (- EIO, b, w))\<rparr>"

lemma empty_repo:
  assumes "t \<in> set discovery_repos"
  shows "get_sdr_host empty_host True t zero_repo () =
    Some (- ENODATA, zero_repo\<lparr>repo_type := t, repo_ver := 1, repo_size := 8\<rparr>, ())"
proof -
  have "find (\<lambda>u. get_flags_for_repo u = get_flags_for_repo t) discovery_repos = Some t"
    using assms by (auto simp: discovery_repos_def get_flags_for_repo_def)
  then show ?thesis
    by (simp add: get_sdr_host_def empty_host_def empty_answer_def parse_sdr_def get8_def get16_def end_of_repo_def
        zero_repo_def)
qed

theorem discovery_makes_lookups_defined_witness:
  "\<exists>pf. discover_sensors empty_host (Some no_device) (Some 0) () = Some (SUCCESS, Some pf, Some 7, ()) \<and>
     find_sdr_record (sensor_repos pf) (num_sensor_repos pf) SDR_TYPE_TEMP 3 \<noteq> None \<and>
     read_fpt_partition (Some pf) 0 0xFFFFFFFF None \<noteq> None \<and> delete_sensors (Some pf) \<noteq> None"
proof -
  obtain pf where found: "discover_sensors empty_host (Some no_device) (Some 0) () = Some (SUCCESS, Some pf, Some 7, ())"
  proof -
    have "host_alloc empty_host () = (True, ())" "jiffies empty_host () = (0, ())"
      by (simp_all add: empty_host_def)
    then show thesis
      using empty_repo that
      by (simp add: discover_sensors_def discovery_repos_def no_device_def elem_def Let_def)
  qed
  show ?thesis
    using discovery_makes_lookups_defined [OF found] found by (intro exI [of _ pf]) auto
qed

theorem discovery_failure_dangles_witness:
  "\<exists>pf. discover_sensors silent_host (Some no_device) (Some 0) () = Some (- EIO, Some pf, Some 0, ()) \<and>
     read_thermal_sensors empty_host (Some pf) None () = None \<and> delete_sensors (Some pf) = None"
proof -
  obtain pf where failed: "discover_sensors silent_host (Some no_device) (Some 0) () = Some (- EIO, Some pf, Some 0, ())"
    by (simp add: discover_sensors_def discovery_repos_def no_device_def elem_def get_sdr_host_def silent_host_def
        empty_host_def delete_sensors_def deref_def delete_at_def set_elem_def delete_repo_records_def zero_repo_def
        upt_conv_Cons)
  show ?thesis
    using discovery_failure_dangles [OF failed, of "()" empty_host] failed
    by (intro exI [of _ pf]) (simp add: silent_host_def empty_host_def)
qed

end
