(* ===== verification/AMI_Types.thy ===== *)
theory AMI_Types
  imports AMC_Common
begin

text \<open>
  The management-interface proxy's data, \<open>proxy_drivers/ami/ami_proxy_driver.h\<close> and the
  types of \<open>ami_proxy_driver.c\<close>: the requests as they lie in the request buffer and as the
  proxy keeps them, the mailbox messages, and the responses.  Bit fields are allocated from the
  low bit and enumerations take as few bytes as they need, as the Cortex-R5 ABI has it.
\<close>

abbreviation (input) AMI_TASK_SLEEP_MS :: u32 where "AMI_TASK_SLEEP_MS \<equiv> 100"
abbreviation (input) AMI_RXDATA_SIZE :: nat where "AMI_RXDATA_SIZE \<equiv> 8"

text \<open>\<open>sizeof(AMI_CMD_REQUEST)\<close>: the header and the largest payload.\<close>

abbreviation (input) AMI_CMD_REQUEST_BYTES :: nat where "AMI_CMD_REQUEST_BYTES \<equiv> 56"
abbreviation (input) AMI_PROXY_RESPONSE_SIZE :: u32 where "AMI_PROXY_RESPONSE_SIZE \<equiv> 16"

section \<open>Enumerations\<close>

abbreviation (input) AMI_PROXY_DRIVER_E_PDI_DOWNLOAD_START :: u8 where
  "AMI_PROXY_DRIVER_E_PDI_DOWNLOAD_START \<equiv> 0"
abbreviation (input) AMI_PROXY_DRIVER_E_PDI_COPY_START :: u8 where "AMI_PROXY_DRIVER_E_PDI_COPY_START \<equiv> 1"
abbreviation (input) AMI_PROXY_DRIVER_E_PDI_PROGRAM_START :: u8 where
  "AMI_PROXY_DRIVER_E_PDI_PROGRAM_START \<equiv> 2"
abbreviation (input) AMI_PROXY_DRIVER_E_SENSOR_READ :: u8 where "AMI_PROXY_DRIVER_E_SENSOR_READ \<equiv> 3"
abbreviation (input) AMI_PROXY_DRIVER_E_GET_IDENTITY :: u8 where "AMI_PROXY_DRIVER_E_GET_IDENTITY \<equiv> 4"
abbreviation (input) AMI_PROXY_DRIVER_E_BOOT_SELECT :: u8 where "AMI_PROXY_DRIVER_E_BOOT_SELECT \<equiv> 5"
abbreviation (input) AMI_PROXY_DRIVER_E_HEARTBEAT :: u8 where "AMI_PROXY_DRIVER_E_HEARTBEAT \<equiv> 6"
abbreviation (input) AMI_PROXY_DRIVER_E_EEPROM_READ_WRITE :: u8 where
  "AMI_PROXY_DRIVER_E_EEPROM_READ_WRITE \<equiv> 7"
abbreviation (input) AMI_PROXY_DRIVER_E_MODULE_READ_WRITE :: u8 where
  "AMI_PROXY_DRIVER_E_MODULE_READ_WRITE \<equiv> 8"
abbreviation (input) AMI_PROXY_DRIVER_E_DEBUG_VERBOSITY :: u8 where "AMI_PROXY_DRIVER_E_DEBUG_VERBOSITY \<equiv> 9"
abbreviation (input) AMI_PROXY_DRIVER_E_FPT_FLAGS :: u8 where "AMI_PROXY_DRIVER_E_FPT_FLAGS \<equiv> 10"

datatype AMI_MSG_TYPES =
    AMI_MSG_TYPE_PDI_DOWNLOAD_COMPLETE | AMI_MSG_TYPE_PDI_COPY_COMPLETE | AMI_MSG_TYPE_PDI_PROGRAM_COMPLETE
  | AMI_MSG_TYPE_SENSOR_COMPLETE | AMI_MSG_TYPE_IDENTITY_COMPLETE | AMI_MSG_TYPE_BOOT_SELECT_COMPLETE
  | AMI_MSG_TYPE_HEARTBEAT_COMPLETE | AMI_MSG_TYPE_EEPROM_RW_COMPLETE | AMI_MSG_TYPE_MODULE_RW_COMPLETE
  | AMI_MSG_TYPE_DEBUG_VERBOSITY_COMPLETE | AMI_MSG_TYPE_FPT_FLAGS_COMPLETE

abbreviation (input) AMI_CMD_OPCODE_BOOT_SEL_REQ :: u16 where "AMI_CMD_OPCODE_BOOT_SEL_REQ \<equiv> 0x0"
abbreviation (input) AMI_CMD_OPCODE_HEARTBEAT_REQ :: u16 where "AMI_CMD_OPCODE_HEARTBEAT_REQ \<equiv> 0x2"
abbreviation (input) AMI_CMD_OPCODE_EEPROM_RW_REQ :: u16 where "AMI_CMD_OPCODE_EEPROM_RW_REQ \<equiv> 0x3"
abbreviation (input) AMI_CMD_OPCODE_MODULE_RW_REQ :: u16 where "AMI_CMD_OPCODE_MODULE_RW_REQ \<equiv> 0x4"
abbreviation (input) AMI_CMD_OPCODE_DEBUG_VERBOSITY_REQ :: u16 where "AMI_CMD_OPCODE_DEBUG_VERBOSITY_REQ \<equiv> 0x5"
abbreviation (input) AMI_CMD_OPCODE_FPT_FLAGS_REQ :: u16 where "AMI_CMD_OPCODE_FPT_FLAGS_REQ \<equiv> 0x6"
abbreviation (input) AMI_CMD_OPCODE_PDI_DOWNLOAD_REQ :: u16 where "AMI_CMD_OPCODE_PDI_DOWNLOAD_REQ \<equiv> 0xA"
abbreviation (input) AMI_CMD_OPCODE_PDI_PROGRAM_REQ :: u16 where "AMI_CMD_OPCODE_PDI_PROGRAM_REQ \<equiv> 0xB"
abbreviation (input) AMI_CMD_OPCODE_SENSOR_REQ :: u16 where "AMI_CMD_OPCODE_SENSOR_REQ \<equiv> 0xC"
abbreviation (input) AMI_CMD_OPCODE_PDI_COPY_REQ :: u16 where "AMI_CMD_OPCODE_PDI_COPY_REQ \<equiv> 0xD"
abbreviation (input) AMI_CMD_OPCODE_IDENTIFY_REQ :: u16 where "AMI_CMD_OPCODE_IDENTIFY_REQ \<equiv> 0x202"

abbreviation (input) AMI_CMD_STATE_COMPLETED :: u16 where "AMI_CMD_STATE_COMPLETED \<equiv> 0"

datatype AMI_PROXY_RESULT =
    AMI_PROXY_RESULT_SUCCESS | AMI_PROXY_RESULT_FAILURE | AMI_PROXY_RESULT_INVALID_VALUE
  | AMI_PROXY_RESULT_GET_REQUEST_FAILED | AMI_PROXY_RESULT_PROCESS_REQUEST_FAILED
  | AMI_PROXY_RESULT_ALREADY_IN_PROGRESS | AMI_PROXY_RESULT_INVALID_CONFIGURATION

primrec ami_result_code :: "AMI_PROXY_RESULT \<Rightarrow> u32" where
  "ami_result_code AMI_PROXY_RESULT_SUCCESS = 0"
| "ami_result_code AMI_PROXY_RESULT_FAILURE = 1"
| "ami_result_code AMI_PROXY_RESULT_INVALID_VALUE = 2"
| "ami_result_code AMI_PROXY_RESULT_GET_REQUEST_FAILED = 3"
| "ami_result_code AMI_PROXY_RESULT_PROCESS_REQUEST_FAILED = 4"
| "ami_result_code AMI_PROXY_RESULT_ALREADY_IN_PROGRESS = 5"
| "ami_result_code AMI_PROXY_RESULT_INVALID_CONFIGURATION = 6"

datatype AMI_PROXY_STATS =
    AMI_PROXY_STATS_INIT_OVERALL_COMPLETE | AMI_PROXY_STATS_CREATE_MUTEX | AMI_PROXY_STATS_CREATE_MBOX
  | AMI_PROXY_STATS_TAKE_MUTEX | AMI_PROXY_STATS_RELEASE_MUTEX | AMI_PROXY_STATS_PDI_DOWNLOAD_MBOX_POST
  | AMI_PROXY_STATS_PDI_COPY_MBOX_POST | AMI_PROXY_STATS_PDI_PROGRAM_MBOX_POST
  | AMI_PROXY_STATS_SENSOR_MBOX_POST | AMI_PROXY_STATS_IDENTITY_MBOX_POST
  | AMI_PROXY_STATS_BOOT_SELECT_MBOX_POST | AMI_PROXY_STATS_HEARTBEAT_MBOX_POST
  | AMI_PROXY_STATS_EEPROM_RW_MBOX_POST | AMI_PROXY_STATS_MODULE_RW_MBOX_POST
  | AMI_PROXY_STATS_DEBUG_VERBOSITY_MBOX_PEND | AMI_PROXY_STATS_PDI_DOWNLOAD_MBOX_PEND
  | AMI_PROXY_STATS_PDI_COPY_MBOX_PEND | AMI_PROXY_STATS_SENSOR_MBOX_PEND
  | AMI_PROXY_STATS_IDENTITY_MBOX_PEND | AMI_PROXY_STATS_BOOT_SELECT_MBOX_PEND
  | AMI_PROXY_STATS_HEARTBEAT_MBOX_PEND | AMI_PROXY_STATS_EEPROM_RW_MBOX_PEND
  | AMI_PROXY_STATS_MODULE_RW_MBOX_PEND | AMI_PROXY_STATS_GET_PDI_DOWNLOAD_REQUEST
  | AMI_PROXY_STATS_GET_PDI_PROGRAM_REQUEST | AMI_PROXY_STATS_GET_PDI_COPY_REQUEST
  | AMI_PROXY_STATS_GET_SENSOR_REQUEST | AMI_PROXY_STATS_GET_BOOT_SELECT_REQUEST
  | AMI_PROXY_STATS_TASK_TIME_MS | AMI_PROXY_STATS_GET_EEPROM_RW_REQUEST
  | AMI_PROXY_STATS_STATUS_RETRIEVAL | AMI_PROXY_STATS_GET_MODULE_RW_REQUEST

datatype AMI_PROXY_ERRORS =
    AMI_PROXY_ERRORS_MUTEX_RELEASE_FAILED | AMI_PROXY_ERRORS_MUTEX_TAKE_FAILED
  | AMI_PROXY_ERRORS_MAILBOX_POST_FAILED | AMI_PROXY_ERRORS_PDI_DOWNLOAD_REQUEST
  | AMI_PROXY_ERRORS_PDI_PROGRAM_REQUEST | AMI_PROXY_ERRORS_PDI_COPY_REQUEST
  | AMI_PROXY_ERRORS_EEPROM_RW_REQUEST | AMI_PROXY_ERRORS_MODULE_RW_REQUEST
  | AMI_PROXY_ERRORS_DEBUG_VERBOSITY_REQUEST | AMI_PROXY_ERRORS_GET_SENSOR_REQUEST
  | AMI_PROXY_ERRORS_GET_BOOT_SELECT_REQUEST | AMI_PROXY_ERRORS_GET_HEARTBEAT_REQUEST
  | AMI_PROXY_ERRORS_GET_EEPROM_RW_REQUEST | AMI_PROXY_ERRORS_GET_MODULE_RW_REQUEST
  | AMI_PROXY_ERRORS_GET_DEBUG_VERBOSITY_REQUEST | AMI_PROXY_ERRORS_SET_FPT_FLAGS_REQUEST
  | AMI_PROXY_RAISE_EVENT_PDI_DOWNLOAD_FAILED | AMI_PROXY_RAISE_EVENT_PDI_COPY_FAILED
  | AMI_PROXY_RAISE_EVENT_GET_IDENTIFY_FAILED | AMI_PROXY_RAISE_EVENT_SENSOR_READ_FAILED
  | AMI_PROXY_RAISE_EVENT_BOOT_SELECT_FAILED | AMI_PROXY_RAISE_EVENT_HEARTBEAT_FAILED
  | AMI_PROXY_RAISE_EVENT_EEPROM_RW_FAILED | AMI_PROXY_RAISE_EVENT_MODULE_RW_FAILED
  | AMI_PROXY_RAISE_EVENT_FPT_FLAGS_FAILED | AMI_PROXY_RAISE_EVENT_DEBUG_VERBOSITY_FAILED
  | AMI_PROXY_INIT_FW_IF_OPEN_FAILED | AMI_PROXY_INIT_MUTEX_CREATE_FAILED
  | AMI_PROXY_INIT_MBOX_CREATE_FAILED | AMI_PROXY_INIT_TASK_CREATE_FAILED | AMI_PROXY_VALIDATION_FAILED
  | AMI_PROXY_UNSUPPORTED_OPCODE_RX | AMI_PROXY_UNKNOWN_MAILBOX_MSG | AMI_PROXY_UNKNOWN_RETURN_CODE
  | AMI_PROXY_FW_IF_WRITE_FAILED | AMI_PROXY_BIND_CB_FAILED | AMI_PROXY_RX_DATA_INDEX_FAILED
  | AMI_PROXY_ERRORS_INIT_EVL_RECORD_FAILED

section \<open>Requests as the proxy keeps them\<close>

text \<open>The flags, of type \<open>int\<close> in the source, receive one bit of the request each.\<close>

record AMIProxyPdiDownloadRequest =
  dl_iBootDevice :: u32
  dl_iUpdateFpt :: u32
  dl_iPdiProgram :: u32
  dl_iApuPdiProgram :: u32
  dl_iRpuPdiProgram :: u32
  dl_iLastPacket :: u32
  dl_ullAddress :: u64
  dl_ulLength :: u32
  dl_ulPartitionSel :: u32
  dl_usPacketNum :: u16
  dl_ulPacketSize :: u32
  dl_pucPdiMd5 :: "u8 list"
  dl_ulPdiSize :: u32

record AMIProxyPdiProgramRequest =
  pg_iBootDevice :: u32
  pg_iUpdateFpt :: u32
  pg_iPdiProgram :: u32
  pg_iLastPacket :: u32
  pg_ullAddress :: u64
  pg_ulLength :: u32
  pg_ulPartitionSel :: u32
  pg_usPacketNum :: u16
  pg_ulPacketSize :: u32

record AMIProxyPdiCopyRequest =
  cp_ullAddress :: u64
  cp_ulMaxLength :: u32
  cp_ulSrcDevice :: u32
  cp_ulSrcPartition :: u32
  cp_ulDestDevice :: u32
  cp_ulDestPartition :: u32

record AMIProxySensorRequest =
  sr_xRequest :: u8
  sr_xRepo :: u8
  sr_ulSensorId :: u32
  sr_ulLength :: u32
  sr_ullAddress :: u64

record AMIProxyBootSelectRequest =
  bs_ulPartitionSel :: u32

record AMIProxyEepromRWRequest =
  ee_xRequest :: u8
  ee_ullAddress :: u64
  ee_ulLength :: u32
  ee_ulOffset :: u32

record AMIProxyModuleRWRequest =
  mo_xRequest :: u8
  mo_ullAddress :: u64
  mo_ucExDeviceId :: u8
  mo_ucPage :: u8
  mo_ucByteOffset :: u8
  mo_ucLength :: u8

record AMIProxyFptFlagsRequest =
  fp_xRequest :: u8
  fp_ulBootDevice :: u32
  fp_ulPartitionId :: u32
  fp_ulType :: u32
  fp_ulBaseAddr :: u32
  fp_ulSize :: u32
  fp_pdi_md5 :: "u8 list"
  fp_ulPdiSize :: u32
  fp_ulFlags :: u32

text \<open>
  The union inside a slot, by the member last written; nothing has been written at first.  No
  operation writes the member of a program request: a program request is stored as a download
  request.
\<close>

datatype AMIRequest =
    NoRequest
  | DownloadRequest AMIProxyPdiDownloadRequest
  | CopyRequest AMIProxyPdiCopyRequest
  | SensorRequest AMIProxySensorRequest
  | BootSelectRequest AMIProxyBootSelectRequest
  | EepromReadWriteRequest AMIProxyEepromRWRequest
  | ModuleReadWriteRequest AMIProxyModuleRWRequest
  | FptFlagsRequest AMIProxyFptFlagsRequest
  | DebugVerbosityRequest u8

text \<open>
  Reading a member of the union.  The member of a program request is read only from a slot that
  holds a download request, through the bytes the two structures share: the download request has
  its flags at 0, 4, 8, 12, 16 and 20, its address at 24, its length at 32, its partition at 36;
  the program request has its flags at 0, 4, 8 and 12, its address at 16, its length at 24, its
  partition at 28, its packet number at 32 and its packet size at 36.
\<close>

fun as_download :: "AMIRequest \<Rightarrow> AMIProxyPdiDownloadRequest option" where
  "as_download (DownloadRequest r) = Some r" | "as_download _ = None"

fun as_program :: "AMIRequest \<Rightarrow> AMIProxyPdiProgramRequest option" where
  "as_program (DownloadRequest r) = Some \<lparr>
     pg_iBootDevice = dl_iBootDevice r, pg_iUpdateFpt = dl_iUpdateFpt r, pg_iPdiProgram = dl_iPdiProgram r,
     pg_iLastPacket = dl_iApuPdiProgram r,
     pg_ullAddress = ucast (dl_iRpuPdiProgram r) OR push_bit 32 (ucast (dl_iLastPacket r)),
     pg_ulLength = ucast (dl_ullAddress r), pg_ulPartitionSel = ucast (drop_bit 32 (dl_ullAddress r)),
     pg_usPacketNum = ucast (dl_ulLength r), pg_ulPacketSize = dl_ulPartitionSel r\<rparr>"
| "as_program _ = None"

fun as_copy :: "AMIRequest \<Rightarrow> AMIProxyPdiCopyRequest option" where
  "as_copy (CopyRequest r) = Some r" | "as_copy _ = None"

fun as_sensor :: "AMIRequest \<Rightarrow> AMIProxySensorRequest option" where
  "as_sensor (SensorRequest r) = Some r" | "as_sensor _ = None"

fun as_boot_select :: "AMIRequest \<Rightarrow> AMIProxyBootSelectRequest option" where
  "as_boot_select (BootSelectRequest r) = Some r" | "as_boot_select _ = None"

fun as_eeprom :: "AMIRequest \<Rightarrow> AMIProxyEepromRWRequest option" where
  "as_eeprom (EepromReadWriteRequest r) = Some r" | "as_eeprom _ = None"

fun as_module :: "AMIRequest \<Rightarrow> AMIProxyModuleRWRequest option" where
  "as_module (ModuleReadWriteRequest r) = Some r" | "as_module _ = None"

fun as_fpt_flags :: "AMIRequest \<Rightarrow> AMIProxyFptFlagsRequest option" where
  "as_fpt_flags (FptFlagsRequest r) = Some r" | "as_fpt_flags _ = None"

fun as_verbosity :: "AMIRequest \<Rightarrow> u8 option" where
  "as_verbosity (DebugVerbosityRequest r) = Some r" | "as_verbosity _ = None"

record AMIProxyRxData =
  rx_ucInUse :: bool
  rx_xOpCode :: u16
  rx_usCid :: u16
  rx_request :: AMIRequest

section \<open>Requests in the buffer\<close>

definition get64 :: "u8 list \<Rightarrow> nat \<Rightarrow> u64 option" where
  "get64 b i = do { lo \<leftarrow> get32 b i; hi \<leftarrow> get32 b (i + 4); Some (ucast lo OR push_bit 32 (ucast hi)) }"

text \<open>The bit field of \<open>n\<close> bits from bit \<open>i\<close> on.\<close>

definition bit_field :: "nat \<Rightarrow> nat \<Rightarrow> u32 \<Rightarrow> u32" where
  "bit_field i n v = take_bit n (drop_bit i v)"

definition req_ulOpCode :: "u8 list \<Rightarrow> u16 option" where
  "req_ulOpCode b = get16 b 0"

definition req_usCid :: "u8 list \<Rightarrow> u16 option" where
  "req_usCid b = get16 b 4"

text \<open>\<open>AMIProxyCmdDataPayload\<close>, as a download and as a program request.\<close>

definition parse_download :: "u8 list \<Rightarrow> AMIProxyPdiDownloadRequest option" where
  "parse_download b = do {
     address \<leftarrow> get64 b 8;
     size \<leftarrow> get32 b 16;
     flags \<leftarrow> get32 b 24;
     packet \<leftarrow> get16 b 28;
     packet_size \<leftarrow> get32 b 32;
     md5 \<leftarrow> get_bytes b 36 16;
     pdi_size \<leftarrow> get32 b 52;
     Some \<lparr>dl_iBootDevice = bit_field 14 1 flags, dl_iUpdateFpt = bit_field 12 1 flags,
           dl_iPdiProgram = bit_field 13 1 flags, dl_iApuPdiProgram = bit_field 17 1 flags,
           dl_iRpuPdiProgram = bit_field 18 1 flags, dl_iLastPacket = ucast (take_bit 1 packet),
           dl_ullAddress = address, dl_ulLength = size, dl_ulPartitionSel = bit_field 8 4 flags,
           dl_usPacketNum = drop_bit 1 packet, dl_ulPacketSize = packet_size, dl_pucPdiMd5 = md5,
           dl_ulPdiSize = pdi_size\<rparr> }"

definition parse_copy :: "u8 list \<Rightarrow> AMIProxyPdiCopyRequest option" where
  "parse_copy b = do {
     address \<leftarrow> get64 b 8;
     size \<leftarrow> get32 b 16;
     flags \<leftarrow> get32 b 24;
     Some \<lparr>cp_ullAddress = address, cp_ulMaxLength = size, cp_ulSrcDevice = bit_field 15 1 flags,
           cp_ulSrcPartition = bit_field 0 4 flags, cp_ulDestDevice = bit_field 16 1 flags,
           cp_ulDestPartition = bit_field 4 4 flags\<rparr> }"

definition parse_sensor :: "u8 list \<Rightarrow> AMIProxySensorRequest option" where
  "parse_sensor b = do {
     address \<leftarrow> get64 b 8;
     size \<leftarrow> get32 b 16;
     flags \<leftarrow> get32 b 24;
     Some \<lparr>sr_xRequest = ucast (bit_field 0 8 flags), sr_xRepo = ucast (bit_field 8 8 flags),
           sr_ulSensorId = bit_field 19 8 flags, sr_ulLength = size, sr_ullAddress = address\<rparr> }"

definition parse_boot_select :: "u8 list \<Rightarrow> AMIProxyBootSelectRequest option" where
  "parse_boot_select b = do { flags \<leftarrow> get32 b 24; Some \<lparr>bs_ulPartitionSel = bit_field 8 4 flags\<rparr> }"

definition parse_eeprom :: "u8 list \<Rightarrow> AMIProxyEepromRWRequest option" where
  "parse_eeprom b = do {
     address \<leftarrow> get64 b 8;
     flags \<leftarrow> get32 b 16;
     Some \<lparr>ee_xRequest = ucast (bit_field 0 1 flags), ee_ullAddress = address,
           ee_ulLength = bit_field 1 8 flags, ee_ulOffset = bit_field 9 8 flags\<rparr> }"

definition parse_module :: "u8 list \<Rightarrow> AMIProxyModuleRWRequest option" where
  "parse_module b = do {
     address \<leftarrow> get64 b 8;
     device \<leftarrow> get8 b 16;
     page \<leftarrow> get8 b 17;
     offset \<leftarrow> get8 b 18;
     len \<leftarrow> get8 b 19;
     flags \<leftarrow> get32 b 20;
     Some \<lparr>mo_xRequest = ucast (bit_field 0 1 flags), mo_ullAddress = address, mo_ucExDeviceId = device,
           mo_ucPage = page, mo_ucByteOffset = offset, mo_ucLength = len\<rparr> }"

definition parse_fpt_flags :: "u8 list \<Rightarrow> AMIProxyFptFlagsRequest option" where
  "parse_fpt_flags b = do {
     req \<leftarrow> get32 b 8;
     boot \<leftarrow> get32 b 12;
     part \<leftarrow> get32 b 16;
     ty \<leftarrow> get32 b 20;
     base \<leftarrow> get32 b 24;
     size \<leftarrow> get32 b 28;
     md5 \<leftarrow> get_bytes b 32 16;
     pdi_size \<leftarrow> get32 b 48;
     flags \<leftarrow> get32 b 52;
     Some \<lparr>fp_xRequest = ucast req, fp_ulBootDevice = boot, fp_ulPartitionId = part, fp_ulType = ty,
           fp_ulBaseAddr = base, fp_ulSize = size, fp_pdi_md5 = md5, fp_ulPdiSize = pdi_size, fp_ulFlags = flags\<rparr> }"

text \<open>The payloads of one byte: the heartbeat's count and the verbosity.\<close>

definition req_payload_byte :: "u8 list \<Rightarrow> u8 option" where
  "req_payload_byte b = get8 b 8"

section \<open>Mailbox messages and responses\<close>

record AMI_PROXY_IDENTITY_RESPONSE =
  id_ucVerMajor :: u8
  id_ucVerMinor :: u8
  id_ucVerPatch :: u8
  id_ucLocalChanges :: u8
  id_usDevCommits :: u16
  id_ucLinkVerMajor :: u8
  id_ucLinkVerMinor :: u8

datatype AMIMboxPayload = NoPayload | MboxIdentity AMI_PROXY_IDENTITY_RESPONSE | MboxHeartbeat u8 | MboxFptFlags u32

record AMIProxyMboxMsg =
  mb_eMsgType :: AMI_MSG_TYPES
  mb_ucRxDataIndex :: u8
  mb_xResult :: AMI_PROXY_RESULT
  mb_payload :: AMIMboxPayload

record AMIProxyCmdResp =
  resp_usCid :: u16
  resp_usCState :: u16
  resp_ulPayload0 :: u32
  resp_ulPayload1 :: u32
  resp_ulRCode :: u32

definition ami_le16 :: "u16 \<Rightarrow> u8 list" where
  "ami_le16 w = [ucast w, ucast (drop_bit 8 w)]"

definition response_bytes :: "AMIProxyCmdResp \<Rightarrow> u8 list" where
  "response_bytes r = ami_le16 (resp_usCid r) @ ami_le16 (take_bit 14 (resp_usCState r)) @
     le_bytes32 (resp_ulPayload0 r) @ le_bytes32 (resp_ulPayload1 r) @ le_bytes32 (resp_ulRCode r)"

definition no_response :: AMIProxyCmdResp where
  "no_response = \<lparr>resp_usCid = 0, resp_usCState = 0, resp_ulPayload0 = 0, resp_ulPayload1 = 0, resp_ulRCode = 0\<rparr>"

text \<open>The version words of an identity response.\<close>

definition identity_words :: "AMI_PROXY_IDENTITY_RESPONSE \<Rightarrow> u32 \<times> u32" where
  "identity_words r =
     (ucast (id_ucVerMajor r) OR push_bit 8 (ucast (id_ucVerMinor r)) OR push_bit 16 (ucast (id_ucVerPatch r))
        OR push_bit 24 (ucast (id_ucLocalChanges r)),
      ucast (id_usDevCommits r) OR push_bit 16 (ucast (id_ucLinkVerMajor r)) OR push_bit 24 (ucast (id_ucLinkVerMinor r)))"

lemma length_response_bytes [simp]: "length (response_bytes r) = 16"
  by (simp add: response_bytes_def ami_le16_def)

end
