(* ===== verification/Host_Proxy.thy ===== *)
theory Host_Proxy
  imports Host_Types AMI_Types
begin

text \<open>
  The host driver's proxy of the firmware (\<open>sw/AMI/driver/amc_proxy.c\<close>): it writes the requests
  into the command queue, keeps the list of submitted commands, and its response thread reads the
  responses and completes the commands.  Commands and proxy entries live in stores, by address; a
  freed address holds nothing, and using it is undefined.  The queue, the allocator, the threads
  and the clock act on the world \<open>'w\<close>; the callback acts on the commands and the world.  A critical
  section of the proxy's lock is one step.
\<close>

abbreviation (input) EPERM :: int where "EPERM \<equiv> 1"
abbreviation (input) ETIME :: int where "ETIME \<equiv> 62"
abbreviation (input) EPROTO :: int where "EPROTO \<equiv> 71"
abbreviation (input) EALREADY :: int where "EALREADY \<equiv> 114"

abbreviation (input) AMC_PROXY_REQUEST_CMD_NEW :: u32 where "AMC_PROXY_REQUEST_CMD_NEW \<equiv> 1"
abbreviation (input) AMC_PROXY_MSLEEP_1S :: u32 where "AMC_PROXY_MSLEEP_1S \<equiv> 1000"
abbreviation (input) FPT_UPDATE_MAGIC :: u32 where "FPT_UPDATE_MAGIC \<equiv> 0xAAAAAAAA"
abbreviation (input) PDI_PROGRAM_MAGIC :: u32 where "PDI_PROGRAM_MAGIC \<equiv> 0xBBBBBBBB"
abbreviation (input) PDI_APU_PROGRAM_MAGIC :: u32 where "PDI_APU_PROGRAM_MAGIC \<equiv> 0xCCCCCCCC"
abbreviation (input) PDI_RPU_PROGRAM_MAGIC :: u32 where "PDI_RPU_PROGRAM_MAGIC \<equiv> 0xDDDDDDDD"

abbreviation (input) AMC_PROXY_CMD_OPCODE_DEVICE_BOOT :: u32 where "AMC_PROXY_CMD_OPCODE_DEVICE_BOOT \<equiv> 0x0"
abbreviation (input) AMC_PROXY_CMD_OPCODE_HEARTBEAT :: u32 where "AMC_PROXY_CMD_OPCODE_HEARTBEAT \<equiv> 0x2"
abbreviation (input) AMC_PROXY_CMD_OPCODE_EEPROM_READ_WRITE :: u32 where "AMC_PROXY_CMD_OPCODE_EEPROM_READ_WRITE \<equiv> 0x3"
abbreviation (input) AMC_PROXY_CMD_OPCODE_MODULE_READ_WRITE :: u32 where "AMC_PROXY_CMD_OPCODE_MODULE_READ_WRITE \<equiv> 0x4"
abbreviation (input) AMC_PROXY_CMD_OPCODE_DEBUG_VERBOSITY :: u32 where "AMC_PROXY_CMD_OPCODE_DEBUG_VERBOSITY \<equiv> 0x5"
abbreviation (input) AMC_PROXY_CMD_OPCODE_SET_FPT_PARTITION :: u32 where "AMC_PROXY_CMD_OPCODE_SET_FPT_PARTITION \<equiv> 0x6"
abbreviation (input) AMC_PROXY_CMD_OPCODE_PDI_DOWNLOAD :: u32 where "AMC_PROXY_CMD_OPCODE_PDI_DOWNLOAD \<equiv> 0xA"
abbreviation (input) AMC_PROXY_CMD_OPCODE_SENSOR :: u32 where "AMC_PROXY_CMD_OPCODE_SENSOR \<equiv> 0xC"
abbreviation (input) AMC_PROXY_CMD_OPCODE_PARTITION_COPY :: u32 where "AMC_PROXY_CMD_OPCODE_PARTITION_COPY \<equiv> 0xD"
abbreviation (input) AMC_PROXY_CMD_OPCODE_IDENTIFY :: u32 where "AMC_PROXY_CMD_OPCODE_IDENTIFY \<equiv> 0x202"

abbreviation (input) AMC_PROXY_EVENT_RESPONSE_COMPLETE :: u8 where "AMC_PROXY_EVENT_RESPONSE_COMPLETE \<equiv> 0"
abbreviation (input) AMC_PROXY_EVENT_RESPONSE_TIMEOUT :: u8 where "AMC_PROXY_EVENT_RESPONSE_TIMEOUT \<equiv> 1"

definition amc_result_to_linux_errno :: "u32 \<Rightarrow> int" where
  "amc_result_to_linux_errno res =
     (if res = 0 then 0
      else if res = 1 then - EIO
      else if res = 2 then - EINVAL
      else if res = 3 then - EPROTO
      else if res = 4 then - EPROTO
      else if res = 5 then - EALREADY
      else if res = 6 then - ENODATA
      else - EINVAL)"

section \<open>Requests and responses in the queue\<close>

record amc_proxy_sensor_request =
  sq_req :: u32
  sq_repo :: u32
  sq_sensor_id :: u32
  sq_length :: u32
  sq_address :: u64

record amc_proxy_pdi_download_request =
  pq_length :: u32
  pq_address :: u64
  pq_boot_device :: u32
  pq_partition :: u32
  pq_pdi_md5 :: "u8 list"
  pq_pdi_size :: u32
  pq_last_chunk :: u16
  pq_chunk :: u16
  pq_chunk_size :: u32

record amc_proxy_partition_copy_request =
  cq_src_device :: u32
  cq_src_part :: u32
  cq_dest_device :: u32
  cq_dest_part :: u32
  cq_length :: u32
  cq_address :: u64

record amc_proxy_eeprom_rw_request =
  eq_type :: u32
  eq_address :: u64
  eq_length :: u8
  eq_offset :: u8

record amc_proxy_module_rw_request =
  mq_type :: u32
  mq_address :: u64
  mq_device_id :: u8
  mq_page :: u8
  mq_offset :: u8
  mq_length :: u8

record amc_proxy_fpt_partition_request =
  fq_req_type :: u32
  fq_boot_device :: u32
  fq_partition :: u32
  fq_type :: u32
  fq_base_addr :: u32
  fq_size :: u32
  fq_pdi_md5 :: "u8 list"
  fq_pdi_size :: u32
  fq_flags :: u32

definition le_bytes64 :: "u64 \<Rightarrow> u8 list" where
  "le_bytes64 w = le_bytes32 (ucast w) @ le_bytes32 (ucast (drop_bit 32 w))"

text \<open>Bit fields, from the low bit on: each takes the low bits of what is assigned to it.\<close>

fun pack_bits :: "(nat \<times> u32) list \<Rightarrow> u32" where
  "pack_bits [] = 0"
| "pack_bits ((n, v) # fs) = take_bit n v OR push_bit n (pack_bits fs)"

text \<open>The payload is the rest of the structure, which starts as zeroes.\<close>

definition request_bytes :: "u32 \<Rightarrow> u32 \<Rightarrow> u16 \<Rightarrow> u8 list \<Rightarrow> u8 list" where
  "request_bytes opcode count cid payload =
     le_bytes32 (pack_bits [(16, opcode), (15, count), (1, AMC_PROXY_REQUEST_CMD_NEW)]) @ ami_le16 cid @ ami_le16 0 @
     payload @ replicate (48 - length payload) 0"

definition sensor_payload :: "amc_proxy_sensor_request \<Rightarrow> u8 list" where
  "sensor_payload r = le_bytes64 (sq_address r) @ le_bytes32 (sq_length r) @ le_bytes32 0 @
     le_bytes32 (pack_bits [(8, sq_req r), (8, sq_repo r), (3, 0), (8, sq_sensor_id r)]) @ le_bytes32 0"

definition pdi_download_flags :: "amc_proxy_pdi_download_request \<Rightarrow> u32" where
  "pdi_download_flags r =
     (let p = pq_partition r; boot = (1, pq_boot_device r) in
      if p = FPT_UPDATE_MAGIC then pack_bits [(4, 0), (4, 0), (4, 0), (1, 1), (1, 0), boot]
      else if p = PDI_PROGRAM_MAGIC then pack_bits [(4, 0), (4, 0), (4, 0), (1, 0), (1, 1), boot]
      else if p = PDI_APU_PROGRAM_MAGIC then
        pack_bits [(4, 0), (4, 0), (4, 0), (1, 0), (1, 0), boot, (1, 0), (1, 0), (1, 1)]
      else if p = PDI_RPU_PROGRAM_MAGIC then
        pack_bits [(4, 0), (4, 0), (4, 0), (1, 0), (1, 0), boot, (1, 0), (1, 0), (1, 0), (1, 1)]
      else pack_bits [(4, 0), (4, 0), (4, p), (1, 0), (1, 0), boot])"

text \<open>The packet's number and the flag of the last one, which share sixteen bits.\<close>

definition packet_field :: "u16 \<Rightarrow> u16 \<Rightarrow> u16" where
  "packet_field is_last chunk = take_bit 1 is_last OR push_bit 1 (take_bit 15 chunk)"

definition pdi_download_payload :: "amc_proxy_pdi_download_request \<Rightarrow> u8 list" where
  "pdi_download_payload r = le_bytes64 (pq_address r) @ le_bytes32 (pq_length r) @ le_bytes32 0 @
     le_bytes32 (pdi_download_flags r) @
     ami_le16 (packet_field (pq_last_chunk r) (pq_chunk r)) @ ami_le16 0 @
     le_bytes32 (pq_chunk_size r) @ pq_pdi_md5 r @ le_bytes32 (pq_pdi_size r)"

definition device_boot_payload :: "amc_proxy_pdi_download_request \<Rightarrow> u8 list" where
  "device_boot_payload r = le_bytes64 0 @ le_bytes32 0 @ le_bytes32 0 @
     le_bytes32 (pack_bits [(4, 0), (4, 0), (4, pq_partition r)])"

definition partition_copy_payload :: "amc_proxy_partition_copy_request \<Rightarrow> u8 list" where
  "partition_copy_payload r = le_bytes64 (cq_address r) @ le_bytes32 (cq_length r) @ le_bytes32 0 @
     le_bytes32 (pack_bits [(4, cq_src_part r), (4, cq_dest_part r), (4, 0), (1, 0), (1, 0), (1, 0),
       (1, cq_src_device r), (1, cq_dest_device r)])"

definition eeprom_payload :: "amc_proxy_eeprom_rw_request \<Rightarrow> u8 list" where
  "eeprom_payload r = le_bytes64 (eq_address r) @
     le_bytes32 (pack_bits [(1, eq_type r), (8, ucast (eq_length r)), (8, ucast (eq_offset r))])"

definition module_payload :: "amc_proxy_module_rw_request \<Rightarrow> u8 list" where
  "module_payload r = le_bytes64 (mq_address r) @ [mq_device_id r, mq_page r, mq_offset r, mq_length r] @
     le_bytes32 (pack_bits [(1, mq_type r)])"

definition fpt_partition_payload :: "amc_proxy_fpt_partition_request \<Rightarrow> u8 list" where
  "fpt_partition_payload r = le_bytes32 (fq_req_type r) @ le_bytes32 (fq_boot_device r) @ le_bytes32 (fq_partition r) @
     le_bytes32 (fq_type r) @ le_bytes32 (fq_base_addr r) @ le_bytes32 (fq_size r) @ fq_pdi_md5 r @
     le_bytes32 (fq_pdi_size r) @ le_bytes32 (fq_flags r)"

section \<open>State\<close>

text \<open>A command: its two completions count how often they were completed.\<close>

record amc_proxy_cmd_struct =
  cmd_complete_count :: nat
  cmd_complete_heartbeat :: nat
  cmd_timeout_jiffies :: u64
  cmd_rcode :: int
  cmd_cid :: u16
  cmd_response :: "u8 list"
  cmd_response_code :: u32
  cmd_gcq_cfg :: nat
  cmd_suppress_dbg :: bool
  cmd_opcode :: u32
  timed_out :: bool

record amc_proxy_instance =
  gcq_handle :: nat
  proxy_id :: u8
  event_cb :: "nat option"
  response_thread_created :: bool
  submitted_cmds :: "nat list"
  initialised :: bool

type_synonym cmd_store = "nat \<Rightarrow> amc_proxy_cmd_struct option"

record 'w proxy_st =
  amc_proxy_list :: "nat list"
  entries :: "nat \<Rightarrow> amc_proxy_instance option"
  cmds :: cmd_store
  proxy_world :: 'w

record 'w proxy_env =
  host_gcq_open :: "nat \<Rightarrow> 'w \<Rightarrow> int \<times> 'w"
  host_gcq_close :: "nat \<Rightarrow> 'w \<Rightarrow> int \<times> 'w"
  host_gcq_write :: "nat \<Rightarrow> u8 list \<Rightarrow> 'w \<Rightarrow> int \<times> 'w"
  host_gcq_read :: "nat \<Rightarrow> 'w \<Rightarrow> int \<times> u8 list \<times> 'w"
  host_kzalloc :: "'w \<Rightarrow> nat option \<times> 'w"
  kthread_create :: "'w \<Rightarrow> int \<times> 'w"
  kthread_stop :: "'w \<Rightarrow> int \<times> 'w"
  wake_up_process :: "'w \<Rightarrow> 'w"
  proxy_callback :: "nat \<Rightarrow> u8 \<Rightarrow> u8 \<Rightarrow> nat \<Rightarrow> cmd_store \<times> 'w \<Rightarrow> (cmd_store \<times> 'w) option"
  jiffies :: "'w \<Rightarrow> u64 \<times> 'w"
  host_msleep :: "u32 \<Rightarrow> 'w \<Rightarrow> 'w"

definition upd_entry :: "nat \<Rightarrow> (amc_proxy_instance \<Rightarrow> amc_proxy_instance) \<Rightarrow> 'w proxy_st \<Rightarrow> 'w proxy_st option" where
  "upd_entry a f s = do { e \<leftarrow> entries s a; Some (s\<lparr>entries := (entries s)(a \<mapsto> f e)\<rparr>) }"

definition upd_cmd :: "nat \<Rightarrow> (amc_proxy_cmd_struct \<Rightarrow> amc_proxy_cmd_struct) \<Rightarrow> 'w proxy_st \<Rightarrow> 'w proxy_st option" where
  "upd_cmd p f s = do { c \<leftarrow> cmds s p; Some (s\<lparr>cmds := (cmds s)(p \<mapsto> f c)\<rparr>) }"

definition list_del :: "nat \<Rightarrow> nat \<Rightarrow> 'w proxy_st \<Rightarrow> 'w proxy_st option" where
  "list_del a p = upd_entry a (\<lambda>e. e\<lparr>submitted_cmds := remove1 p (submitted_cmds e)\<rparr>)"

text \<open>
  A command has one list node: adding it to a list while it is in one would corrupt the lists.
\<close>

definition list_add_tail :: "nat \<Rightarrow> nat \<Rightarrow> 'w proxy_st \<Rightarrow> 'w proxy_st option" where
  "list_add_tail a p s = do {
     e \<leftarrow> entries s a;
     if p \<in> set (submitted_cmds e) then None
     else upd_entry a (\<lambda>e. e\<lparr>submitted_cmds := submitted_cmds e @ [p]\<rparr>) s }"

definition raise_proxy_event :: "'w proxy_env \<Rightarrow> nat \<Rightarrow> u8 \<Rightarrow> nat \<Rightarrow> 'w proxy_st \<Rightarrow> 'w proxy_st option" where
  "raise_proxy_event E a ev p s = do {
     e \<leftarrow> entries s a;
     case event_cb e of
       None \<Rightarrow> Some s
     | Some cb \<Rightarrow> do {
         (m, w) \<leftarrow> proxy_callback E cb (proxy_id e) ev p (cmds s, proxy_world s);
         Some (s\<lparr>cmds := m, proxy_world := w\<rparr>) } }"

section \<open>The submitted commands\<close>

text \<open>\<open>time_before(a, b)\<close> of the kernel.\<close>

definition time_before :: "u64 \<Rightarrow> u64 \<Rightarrow> bool" where
  "time_before a b \<longleftrightarrow> sint (a - b) < 0"

text \<open>The first command of the list with the given number; \<open>None\<close> outside for a freed command.\<close>

fun find_cmd :: "cmd_store \<Rightarrow> u16 \<Rightarrow> nat list \<Rightarrow> nat option option" where
  "find_cmd m cid [] = Some None"
| "find_cmd m cid (p # ps) = do {
     c \<leftarrow> m p;
     if cmd_cid c = cid then Some (Some p) else find_cmd m cid ps }"

text \<open>A response's bytes: the number at 0, the payload at 4, the return code at 12.\<close>

definition cmd_complete :: "'w proxy_env \<Rightarrow> nat \<Rightarrow> u8 list \<Rightarrow> 'w proxy_st \<Rightarrow> 'w proxy_st option" where
  "cmd_complete E a ccmd s = do {
     e \<leftarrow> entries s a;
     cid \<leftarrow> get16 ccmd 0;
     r \<leftarrow> find_cmd (cmds s) cid (submitted_cmds e);
     case r of
       None \<Rightarrow> Some s
     | Some p \<Rightarrow> do {
         payload \<leftarrow> get_bytes ccmd 4 8;
         ret \<leftarrow> get32 ccmd 12;
         s \<leftarrow> upd_cmd p (\<lambda>c. c\<lparr>cmd_response := payload, cmd_response_code := ret\<rparr>) s;
         s \<leftarrow> list_del a p s;
         raise_proxy_event E a AMC_PROXY_EVENT_RESPONSE_COMPLETE p s } }"

definition submitted_cmds_empty :: "nat \<Rightarrow> 'w proxy_st \<Rightarrow> bool option" where
  "submitted_cmds_empty a s = do { e \<leftarrow> entries s a; Some (submitted_cmds e = []) }"

text \<open>A command that has timed out: removed from the list when draining, kept otherwise.\<close>

definition expire_cmd :: "'w proxy_env \<Rightarrow> bool \<Rightarrow> nat \<Rightarrow> nat \<Rightarrow> 'w proxy_st \<Rightarrow> 'w proxy_st option" where
  "expire_cmd E drain a p s = do {
     c \<leftarrow> cmds s p;
     let (now, w) = jiffies E (proxy_world s);
     let s = s\<lparr>proxy_world := w\<rparr>;
     if time_before (cmd_timeout_jiffies c) now then do {
       s \<leftarrow> (if drain then list_del a p s else Some s);
       s \<leftarrow> upd_cmd p (\<lambda>c. c\<lparr>cmd_rcode := - ETIME\<rparr>) s;
       raise_proxy_event E a AMC_PROXY_EVENT_RESPONSE_TIMEOUT p s }
     else Some s }"

definition submitted_cmds_drain :: "'w proxy_env \<Rightarrow> nat \<Rightarrow> 'w proxy_st \<Rightarrow> 'w proxy_st option" where
  "submitted_cmds_drain E a s = do { e \<leftarrow> entries s a; for_each (expire_cmd E True a) (submitted_cmds e) s }"

definition submitted_cmd_check_timeout :: "'w proxy_env \<Rightarrow> nat \<Rightarrow> 'w proxy_st \<Rightarrow> 'w proxy_st option" where
  "submitted_cmd_check_timeout E a s = do { e \<leftarrow> entries s a; for_each (expire_cmd E False a) (submitted_cmds e) s }"

definition remove_submitted_cmd :: "nat \<Rightarrow> nat \<Rightarrow> 'w proxy_st \<Rightarrow> 'w proxy_st option" where
  "remove_submitted_cmd a p s = do {
     e \<leftarrow> entries s a;
     for_each (\<lambda>q s. if q = p then do { s \<leftarrow> list_del a q s; upd_cmd q (\<lambda>c. c\<lparr>cmd_rcode := - EIO\<rparr>) s } else Some s)
       (submitted_cmds e) s }"

text \<open>One turn of the response thread.\<close>

definition response_thread_turn :: "'w proxy_env \<Rightarrow> nat \<Rightarrow> 'w proxy_st \<Rightarrow> 'w proxy_st option" where
  "response_thread_turn E a s = do {
     e \<leftarrow> entries s a;
     let (st, ccmd, w) = host_gcq_read E (gcq_handle e) (proxy_world s);
     let s = s\<lparr>proxy_world := w\<rparr>;
     s \<leftarrow> (if st = 0 then cmd_complete E a ccmd s else Some s);
     submitted_cmd_check_timeout E a s }"

section \<open>Opening and closing\<close>

text \<open>The entry whose queue is the given one; \<open>None\<close> outside for a freed entry in the list.\<close>

fun find_entry :: "(nat \<Rightarrow> amc_proxy_instance option) \<Rightarrow> nat \<Rightarrow> nat list \<Rightarrow> nat option option" where
  "find_entry m g [] = Some None"
| "find_entry m g (a # as) = do { e \<leftarrow> m a; if gcq_handle e = g then Some (Some a) else find_entry m g as }"

definition find_matching_gcq_proxy_instance :: "nat \<Rightarrow> 'w proxy_st \<Rightarrow> nat option option" where
  "find_matching_gcq_proxy_instance g s = find_entry (entries s) g (amc_proxy_list s)"

text \<open>
  A failure after the queue was opened leaves it open, and an entry whose thread could not be
  created stays allocated.
\<close>

definition amc_proxy_init :: "'w proxy_env \<Rightarrow> u8 \<Rightarrow> nat option \<Rightarrow> 'w proxy_st \<Rightarrow> int \<times> 'w proxy_st" where
  "amc_proxy_init E i handle s =
     (case handle of None \<Rightarrow> (- EINVAL, s)
      | Some g \<Rightarrow>
          (let (ret, w) = host_gcq_open E g (proxy_world s); s = s\<lparr>proxy_world := w\<rparr> in
           if ret = 0 then
             (let (p, w) = host_kzalloc E (proxy_world s); s = s\<lparr>proxy_world := w\<rparr> in
              case p of None \<Rightarrow> (- EINVAL, s)
              | Some a \<Rightarrow>
                  (let (err, w) = kthread_create E (proxy_world s);
                       e = \<lparr>gcq_handle = g, proxy_id = i, event_cb = None, response_thread_created = (err = 0),
                            submitted_cmds = [], initialised = (err = 0)\<rparr>;
                       s = s\<lparr>proxy_world := w, entries := (entries s)(a \<mapsto> e)\<rparr> in
                   if err = 0 then
                     (0, s\<lparr>amc_proxy_list := amc_proxy_list s @ [a], proxy_world := wake_up_process E (proxy_world s)\<rparr>)
                   else (err, s)))
           else (- EIO, s)))"

definition amc_proxy_bind_callback :: "nat option \<Rightarrow> nat option \<Rightarrow> 'w proxy_st \<Rightarrow> (int \<times> 'w proxy_st) option" where
  "amc_proxy_bind_callback handle cb s =
     (case (handle, cb) of
        (Some g, Some f) \<Rightarrow> do {
          r \<leftarrow> find_matching_gcq_proxy_instance g s;
          case r of None \<Rightarrow> Some (- EPERM, s)
          | Some a \<Rightarrow> do {
              e \<leftarrow> entries s a;
              if initialised e then do { s \<leftarrow> upd_entry a (\<lambda>e. e\<lparr>event_cb := Some f\<rparr>) s; Some (0, s) }
              else Some (- EPERM, s) } }
      | _ \<Rightarrow> Some (- EINVAL, s))"

text \<open>Closing waits until no command is submitted any more; it need not return.\<close>

partial_function (option) wait_drained :: "'w proxy_env \<Rightarrow> nat \<Rightarrow> 'w proxy_st \<Rightarrow> 'w proxy_st option" where
  "wait_drained E a s = do {
     empty \<leftarrow> submitted_cmds_empty a s;
     if empty then Some s
     else do {
       s \<leftarrow> submitted_cmds_drain E a (s\<lparr>proxy_world := host_msleep E AMC_PROXY_MSLEEP_1S (proxy_world s)\<rparr>);
       wait_drained E a s } }"

definition close_entry :: "'w proxy_env \<Rightarrow> nat \<Rightarrow> int \<Rightarrow> 'w proxy_st \<Rightarrow> (int \<times> 'w proxy_st) option" where
  "close_entry E a ret s = do {
     s \<leftarrow> wait_drained E a s;
     e \<leftarrow> entries s a;
     let (ret, s) =
       (if response_thread_created e then
          (let (ret, w) = kthread_stop E (proxy_world s) in
           if ret = 0 then
             (let (ret, w) = host_gcq_close E (gcq_handle e) w in
              (if ret \<noteq> 0 then - EIO else 0, s\<lparr>proxy_world := w\<rparr>))
           else (ret, s\<lparr>proxy_world := w\<rparr>))
        else (ret, s));
     Some (ret, s\<lparr>amc_proxy_list := remove1 a (amc_proxy_list s), entries := (entries s)(a := None)\<rparr>) }"

text \<open>The walk over the list passes the entries of other queues and stops after the matching one.\<close>

fun close_in :: "'w proxy_env \<Rightarrow> nat \<Rightarrow> nat list \<Rightarrow> 'w proxy_st \<Rightarrow> (int \<times> 'w proxy_st) option" where
  "close_in E g [] s = Some (- EPERM, s)"
| "close_in E g (a # as) s = do {
     e \<leftarrow> entries s a;
     if initialised e \<and> gcq_handle e = g then close_entry E a (- EPERM) s else close_in E g as s }"

definition amc_proxy_close :: "'w proxy_env \<Rightarrow> nat \<Rightarrow> 'w proxy_st \<Rightarrow> (int \<times> 'w proxy_st) option" where
  "amc_proxy_close E g s = close_in E g (amc_proxy_list s) s"

text \<open>The entry of a command's queue, if it is there and initialised.\<close>

definition cmd_entry :: "nat \<Rightarrow> 'w proxy_st \<Rightarrow> nat option option" where
  "cmd_entry p s = do {
     c \<leftarrow> cmds s p;
     r \<leftarrow> find_matching_gcq_proxy_instance (cmd_gcq_cfg c) s;
     case r of None \<Rightarrow> Some None
     | Some a \<Rightarrow> do { e \<leftarrow> entries s a; Some (if initialised e then Some a else None) } }"

definition amc_proxy_request_abort :: "nat option \<Rightarrow> 'w proxy_st \<Rightarrow> (int \<times> 'w proxy_st) option" where
  "amc_proxy_request_abort cmd s =
     (case cmd of None \<Rightarrow> Some (- EINVAL, s)
      | Some p \<Rightarrow> do {
          r \<leftarrow> cmd_entry p s;
          case r of None \<Rightarrow> Some (0, s) | Some a \<Rightarrow> do { s \<leftarrow> remove_submitted_cmd a p s; Some (0, s) } })"

section \<open>Requests\<close>

text \<open>
  What all requests share: the request is written, and the command is added to the list of the
  submitted commands afterwards.  The two steps are apart, since the response thread may run
  between them.
\<close>

definition write_request ::
  "'w proxy_env \<Rightarrow> (u16 \<Rightarrow> u8 list) \<Rightarrow> nat \<Rightarrow> 'w proxy_st \<Rightarrow> (int \<times> nat option \<times> 'w proxy_st) option" where
  "write_request E bytes p s = do {
     r \<leftarrow> cmd_entry p s;
     case r of None \<Rightarrow> Some (- EPERM, None, s)
     | Some a \<Rightarrow> do {
         e \<leftarrow> entries s a;
         c \<leftarrow> cmds s p;
         let (ret, w) = host_gcq_write E (gcq_handle e) (bytes (cmd_cid c)) (proxy_world s);
         let s = s\<lparr>proxy_world := w\<rparr>;
         Some (if ret = 0 then (0, Some a, s) else (- EIO, None, s)) } }"

definition add_request :: "nat \<Rightarrow> int \<times> nat option \<times> 'w proxy_st \<Rightarrow> (int \<times> 'w proxy_st) option" where
  "add_request p = (\<lambda>(ret, at, s).
     case at of None \<Rightarrow> Some (ret, s) | Some a \<Rightarrow> do { s \<leftarrow> list_add_tail a p s; Some (ret, s) })"

definition proxy_request ::
  "'w proxy_env \<Rightarrow> (u16 \<Rightarrow> u8 list) \<Rightarrow> nat option \<Rightarrow> 'w proxy_st \<Rightarrow> (int \<times> 'w proxy_st) option" where
  "proxy_request E bytes cmd s =
     (case cmd of None \<Rightarrow> Some (- EINVAL, s)
      | Some p \<Rightarrow> do { r \<leftarrow> write_request E bytes p s; add_request p r })"

text \<open>A request whose argument is a pointer: a null pointer is refused.\<close>

definition proxy_request_with ::
  "'w proxy_env \<Rightarrow> ('r \<Rightarrow> u16 \<Rightarrow> u8 list) \<Rightarrow> nat option \<Rightarrow> 'r option \<Rightarrow> 'w proxy_st \<Rightarrow> (int \<times> 'w proxy_st) option" where
  "proxy_request_with E bytes cmd req s =
     (case req of None \<Rightarrow> Some (- EINVAL, s) | Some r \<Rightarrow> proxy_request E (bytes r) cmd s)"

definition identity_request :: "u16 \<Rightarrow> u8 list" where
  "identity_request cid = request_bytes AMC_PROXY_CMD_OPCODE_IDENTIFY 0 cid []"

definition amc_proxy_request_identity :: "'w proxy_env \<Rightarrow> nat option \<Rightarrow> 'w proxy_st \<Rightarrow> (int \<times> 'w proxy_st) option" where
  "amc_proxy_request_identity E = proxy_request E identity_request"

definition sensor_request :: "amc_proxy_sensor_request \<Rightarrow> u16 \<Rightarrow> u8 list" where
  "sensor_request r cid = request_bytes AMC_PROXY_CMD_OPCODE_SENSOR 24 cid (sensor_payload r)"

definition amc_proxy_request_sensor ::
  "'w proxy_env \<Rightarrow> nat option \<Rightarrow> amc_proxy_sensor_request option \<Rightarrow> 'w proxy_st \<Rightarrow> (int \<times> 'w proxy_st) option" where
  "amc_proxy_request_sensor E = proxy_request_with E sensor_request"

definition pdi_download_request :: "amc_proxy_pdi_download_request \<Rightarrow> u16 \<Rightarrow> u8 list" where
  "pdi_download_request r cid = request_bytes AMC_PROXY_CMD_OPCODE_PDI_DOWNLOAD 48 cid (pdi_download_payload r)"

definition amc_proxy_request_pdi_download ::
  "'w proxy_env \<Rightarrow> nat option \<Rightarrow> amc_proxy_pdi_download_request option \<Rightarrow> 'w proxy_st \<Rightarrow> (int \<times> 'w proxy_st) option" where
  "amc_proxy_request_pdi_download E = proxy_request_with E pdi_download_request"

definition device_boot_request :: "amc_proxy_pdi_download_request \<Rightarrow> u16 \<Rightarrow> u8 list" where
  "device_boot_request r cid = request_bytes AMC_PROXY_CMD_OPCODE_DEVICE_BOOT 48 cid (device_boot_payload r)"

definition amc_proxy_request_device_boot ::
  "'w proxy_env \<Rightarrow> nat option \<Rightarrow> amc_proxy_pdi_download_request option \<Rightarrow> 'w proxy_st \<Rightarrow> (int \<times> 'w proxy_st) option" where
  "amc_proxy_request_device_boot E = proxy_request_with E device_boot_request"

definition partition_copy_request :: "amc_proxy_partition_copy_request \<Rightarrow> u16 \<Rightarrow> u8 list" where
  "partition_copy_request r cid = request_bytes AMC_PROXY_CMD_OPCODE_PARTITION_COPY 48 cid (partition_copy_payload r)"

definition amc_proxy_request_partition_copy ::
  "'w proxy_env \<Rightarrow> nat option \<Rightarrow> amc_proxy_partition_copy_request option \<Rightarrow> 'w proxy_st \<Rightarrow> (int \<times> 'w proxy_st) option" where
  "amc_proxy_request_partition_copy E = proxy_request_with E partition_copy_request"

definition heartbeat_request :: "u8 \<Rightarrow> u16 \<Rightarrow> u8 list" where
  "heartbeat_request r cid = request_bytes AMC_PROXY_CMD_OPCODE_HEARTBEAT 1 cid ([r])"

definition amc_proxy_request_heartbeat ::
  "'w proxy_env \<Rightarrow> nat option \<Rightarrow> u8 option \<Rightarrow> 'w proxy_st \<Rightarrow> (int \<times> 'w proxy_st) option" where
  "amc_proxy_request_heartbeat E = proxy_request_with E heartbeat_request"

definition eeprom_read_write_request :: "amc_proxy_eeprom_rw_request \<Rightarrow> u16 \<Rightarrow> u8 list" where
  "eeprom_read_write_request r cid = request_bytes AMC_PROXY_CMD_OPCODE_EEPROM_READ_WRITE 16 cid (eeprom_payload r)"

definition amc_proxy_request_eeprom_read_write ::
  "'w proxy_env \<Rightarrow> nat option \<Rightarrow> amc_proxy_eeprom_rw_request option \<Rightarrow> 'w proxy_st \<Rightarrow> (int \<times> 'w proxy_st) option" where
  "amc_proxy_request_eeprom_read_write E = proxy_request_with E eeprom_read_write_request"

definition module_read_write_request :: "amc_proxy_module_rw_request \<Rightarrow> u16 \<Rightarrow> u8 list" where
  "module_read_write_request r cid = request_bytes AMC_PROXY_CMD_OPCODE_MODULE_READ_WRITE 16 cid (module_payload r)"

definition amc_proxy_request_module_read_write ::
  "'w proxy_env \<Rightarrow> nat option \<Rightarrow> amc_proxy_module_rw_request option \<Rightarrow> 'w proxy_st \<Rightarrow> (int \<times> 'w proxy_st) option" where
  "amc_proxy_request_module_read_write E = proxy_request_with E module_read_write_request"

definition set_fpt_partition_request :: "amc_proxy_fpt_partition_request \<Rightarrow> u16 \<Rightarrow> u8 list" where
  "set_fpt_partition_request r cid = request_bytes AMC_PROXY_CMD_OPCODE_SET_FPT_PARTITION 48 cid (fpt_partition_payload r)"

definition amc_proxy_request_set_fpt_partition ::
  "'w proxy_env \<Rightarrow> nat option \<Rightarrow> amc_proxy_fpt_partition_request option \<Rightarrow> 'w proxy_st \<Rightarrow> (int \<times> 'w proxy_st) option" where
  "amc_proxy_request_set_fpt_partition E = proxy_request_with E set_fpt_partition_request"

definition debug_verbosity_request :: "u8 \<Rightarrow> u16 \<Rightarrow> u8 list" where
  "debug_verbosity_request v cid = request_bytes AMC_PROXY_CMD_OPCODE_DEBUG_VERBOSITY 1 cid [v]"

definition amc_proxy_request_debug_verbosity ::
  "'w proxy_env \<Rightarrow> nat option \<Rightarrow> u8 \<Rightarrow> 'w proxy_st \<Rightarrow> (int \<times> 'w proxy_st) option" where
  "amc_proxy_request_debug_verbosity E cmd v = proxy_request E (debug_verbosity_request v) cmd"

section \<open>Responses\<close>

text \<open>What all responses share; \<open>f\<close> reads the command of an initialised proxy.\<close>

definition proxy_response :: "(amc_proxy_cmd_struct \<Rightarrow> (int \<times> 'a option) option) \<Rightarrow> nat option \<Rightarrow> 'w proxy_st \<Rightarrow> (int \<times> 'a option) option" where
  "proxy_response f cmd s =
     (case cmd of None \<Rightarrow> Some (- EINVAL, None)
      | Some p \<Rightarrow> do {
          r \<leftarrow> cmd_entry p s;
          case r of None \<Rightarrow> Some (- EPERM, None) | Some a \<Rightarrow> do { c \<leftarrow> cmds s p; f c } })"

definition by_return_code :: "amc_proxy_cmd_struct \<Rightarrow> (int \<times> unit option) option" where
  "by_return_code c = Some (amc_result_to_linux_errno (cmd_response_code c), None)"

text \<open>The version in the response's payload, as the firmware's identity response has it.\<close>

definition amc_proxy_get_response_identity ::
  "nat option \<Rightarrow> bool \<Rightarrow> 'w proxy_st \<Rightarrow> (int \<times> AMI_PROXY_IDENTITY_RESPONSE option) option" where
  "amc_proxy_get_response_identity cmd out s =
     (if \<not> out then Some (- EINVAL, None)
      else proxy_response (\<lambda>c. do {
        maj \<leftarrow> get8 (cmd_response c) 0;
        min \<leftarrow> get8 (cmd_response c) 1;
        patch \<leftarrow> get8 (cmd_response c) 2;
        changes \<leftarrow> get8 (cmd_response c) 3;
        commits \<leftarrow> get16 (cmd_response c) 4;
        lmaj \<leftarrow> get8 (cmd_response c) 6;
        lmin \<leftarrow> get8 (cmd_response c) 7;
        Some (0, Some \<lparr>id_ucVerMajor = maj, id_ucVerMinor = min, id_ucVerPatch = patch, id_ucLocalChanges = changes,
          id_usDevCommits = commits, id_ucLinkVerMajor = lmaj, id_ucLinkVerMinor = lmin\<rparr>) }) cmd s)"

text \<open>A sensor's response is taken from the payload, not from the return code.\<close>

definition amc_proxy_get_response_sensor :: "nat option \<Rightarrow> 'w proxy_st \<Rightarrow> (int \<times> unit option) option" where
  "amc_proxy_get_response_sensor =
     proxy_response (\<lambda>c. do { result \<leftarrow> get32 (cmd_response c) 0; Some (sint result, None) })"

definition amc_proxy_get_response_heartbeat :: "nat option \<Rightarrow> 'w proxy_st \<Rightarrow> (int \<times> u8 option) option" where
  "amc_proxy_get_response_heartbeat =
     proxy_response (\<lambda>c. do {
       n \<leftarrow> get32 (cmd_response c) 0;
       Some (amc_result_to_linux_errno (cmd_response_code c), Some (ucast n)) })"

definition amc_proxy_get_response_set_fpt_partition :: "nat option \<Rightarrow> 'w proxy_st \<Rightarrow> (int \<times> unit option) option" where
  "amc_proxy_get_response_set_fpt_partition = proxy_response by_return_code"

definition amc_proxy_get_response_pdi_download :: "nat option \<Rightarrow> 'w proxy_st \<Rightarrow> (int \<times> unit option) option" where
  "amc_proxy_get_response_pdi_download = proxy_response by_return_code"

definition amc_proxy_get_response_device_boot :: "nat option \<Rightarrow> 'w proxy_st \<Rightarrow> (int \<times> unit option) option" where
  "amc_proxy_get_response_device_boot = proxy_response by_return_code"

definition amc_proxy_get_response_partition_copy :: "nat option \<Rightarrow> 'w proxy_st \<Rightarrow> (int \<times> unit option) option" where
  "amc_proxy_get_response_partition_copy = proxy_response by_return_code"

definition amc_proxy_get_response_eeprom_read_write :: "nat option \<Rightarrow> 'w proxy_st \<Rightarrow> (int \<times> unit option) option" where
  "amc_proxy_get_response_eeprom_read_write = proxy_response by_return_code"

definition amc_proxy_get_response_module_read_write :: "nat option \<Rightarrow> 'w proxy_st \<Rightarrow> (int \<times> unit option) option" where
  "amc_proxy_get_response_module_read_write = proxy_response by_return_code"

definition amc_proxy_get_response_debug_verbosity :: "nat option \<Rightarrow> 'w proxy_st \<Rightarrow> (int \<times> unit option) option" where
  "amc_proxy_get_response_debug_verbosity = proxy_response by_return_code"

end
