(* ===== verification/AMI_Proxy.thy ===== *)
theory AMI_Proxy
  imports AMI_Types
begin

text \<open>
  The management-interface proxy, \<open>proxy_drivers/ami/ami_proxy_driver.c\<close>: it keeps up to eight
  requests of the host, raises an event for each, and answers when an application posts the result
  to its mailbox.  The firmware interface, the mailbox, the task creation, the clock and the sleep
  act on the world \<open>'w\<close>; the event library's services and callbacks act on the proxy's whole state.
\<close>

section \<open>State\<close>

record AMIProxyPrivateData =
  ami_ulUpperFirewall :: u32
  ami_iInitialised :: bool
  ami_ucMyId :: u8
  ami_pxFwIf :: "nat option"
  ami_ulFwIfPort :: u32
  ami_pxEvlRecord :: "EVLRecord option"
  ami_pvOsalMutexHdl :: "nat option"
  ami_pvOsalMBoxHdl :: "nat option"
  ami_xRxData :: "nat \<Rightarrow> AMIProxyRxData"
  ami_pulStatCounters :: "AMI_PROXY_STATS \<Rightarrow> u32"
  ami_pulErrorCounters :: "AMI_PROXY_ERRORS \<Rightarrow> u32"
  ami_xState :: MODULE_STATE
  ami_ulLowerFirewall :: u32

record 'w ami_st =
  ami_local :: AMIProxyPrivateData
  ami_evl :: EVLPrivateData
  ami_outside :: 'w

text \<open>
  A read is given the buffer and its size and answers whether it succeeded and what the buffer
  holds afterwards.
\<close>

record 'w ami_env =
  ami_evl_part :: "'w ami_st evl_env"
  ami_fw_open :: "nat \<Rightarrow> 'w \<Rightarrow> bool \<times> 'w"
  ami_fw_read :: "nat \<Rightarrow> u64 \<Rightarrow> u8 list \<Rightarrow> u32 \<Rightarrow> 'w \<Rightarrow> bool \<times> u8 list \<times> 'w"
  ami_fw_write :: "nat \<Rightarrow> u64 \<Rightarrow> u8 list \<Rightarrow> u32 \<Rightarrow> 'w \<Rightarrow> bool \<times> 'w"
  ami_mbox_create :: "'w \<Rightarrow> nat option \<times> 'w"
  ami_mbox_post :: "nat option \<Rightarrow> AMIProxyMboxMsg \<Rightarrow> 'w \<Rightarrow> bool \<times> 'w"
  ami_mbox_pend :: "nat option \<Rightarrow> 'w \<Rightarrow> AMIProxyMboxMsg option \<times> 'w"
  ami_task_create :: "'w \<Rightarrow> bool \<times> 'w"
  ami_uptime_ms :: "'w \<Rightarrow> u32 \<times> 'w"
  ami_sleep :: "u32 \<Rightarrow> 'w \<Rightarrow> 'w"

definition free_slot :: AMIProxyRxData where
  "free_slot = \<lparr>rx_ucInUse = False, rx_xOpCode = AMI_CMD_OPCODE_BOOT_SEL_REQ, rx_usCid = 0, rx_request = NoRequest\<rparr>"

definition initial_ami_local :: AMIProxyPrivateData where
  "initial_ami_local = \<lparr>ami_ulUpperFirewall = MODULE_UPPER_FIREWALL, ami_iInitialised = False, ami_ucMyId = 0,
     ami_pxFwIf = None, ami_ulFwIfPort = 0, ami_pxEvlRecord = None, ami_pvOsalMutexHdl = None,
     ami_pvOsalMBoxHdl = None, ami_xRxData = (\<lambda>_. free_slot), ami_pulStatCounters = (\<lambda>_. 0),
     ami_pulErrorCounters = (\<lambda>_. 0), ami_xState = MODULE_STATE_UNINITIALISED,
     ami_ulLowerFirewall = MODULE_LOWER_FIREWALL\<rparr>"

definition upd_ami :: "(AMIProxyPrivateData \<Rightarrow> AMIProxyPrivateData) \<Rightarrow> 'w ami_st \<Rightarrow> 'w ami_st" where
  "upd_ami f s = s\<lparr>ami_local := f (ami_local s)\<rparr>"

definition AMI_INC_STAT_COUNTER :: "AMI_PROXY_STATS \<Rightarrow> 'w ami_st \<Rightarrow> 'w ami_st" where
  "AMI_INC_STAT_COUNTER x =
     upd_ami (\<lambda>d. d\<lparr>ami_pulStatCounters := (ami_pulStatCounters d)(x := ami_pulStatCounters d x + 1)\<rparr>)"

definition AMI_INC_ERROR_COUNTER :: "AMI_PROXY_ERRORS \<Rightarrow> 'w ami_st \<Rightarrow> 'w ami_st" where
  "AMI_INC_ERROR_COUNTER x =
     upd_ami (\<lambda>d. d\<lparr>ami_pulErrorCounters := (ami_pulErrorCounters d)(x := ami_pulErrorCounters d x + 1)\<rparr>)"

definition AMI_INC_ERROR_COUNTER_WITH_STATE :: "AMI_PROXY_ERRORS \<Rightarrow> 'w ami_st \<Rightarrow> 'w ami_st" where
  "AMI_INC_ERROR_COUNTER_WITH_STATE x s =
     AMI_INC_ERROR_COUNTER x (upd_ami (\<lambda>d. d\<lparr>ami_xState := MODULE_STATE_ERROR\<rparr>) s)"

definition ami_firewalls_ok :: "'w ami_st \<Rightarrow> bool" where
  "ami_firewalls_ok s \<longleftrightarrow> MODULE_UPPER_FIREWALL = ami_ulUpperFirewall (ami_local s) \<and>
     MODULE_LOWER_FIREWALL = ami_ulLowerFirewall (ami_local s)"

definition ami_ready :: "'w ami_st \<Rightarrow> bool" where
  "ami_ready s \<longleftrightarrow> ami_firewalls_ok s \<and> ami_iInitialised (ami_local s)"

definition ami_invalid :: "'w ami_st \<Rightarrow> evl_status \<times> 'w ami_st" where
  "ami_invalid s = (ERROR, AMI_INC_ERROR_COUNTER AMI_PROXY_VALIDATION_FAILED s)"

section \<open>Initialisation\<close>

definition ami_create_mbox_and_task :: "'w ami_env \<Rightarrow> 'w ami_st \<Rightarrow> evl_status \<times> 'w ami_st" where
  "ami_create_mbox_and_task E s =
     (let (h, w) = ami_mbox_create E (ami_outside s); s = s\<lparr>ami_outside := w\<rparr> in
      case h of
        None \<Rightarrow> (ERROR, AMI_INC_ERROR_COUNTER_WITH_STATE AMI_PROXY_INIT_MBOX_CREATE_FAILED s)
      | Some m \<Rightarrow>
          (let s = upd_ami (\<lambda>d. d\<lparr>ami_pvOsalMBoxHdl := Some m\<rparr>) s;
               (ok, w) = ami_task_create E (ami_outside s);
               s = s\<lparr>ami_outside := w\<rparr> in
           if \<not> ok then (ERROR, AMI_INC_ERROR_COUNTER_WITH_STATE AMI_PROXY_INIT_TASK_CREATE_FAILED s)
           else (OK, upd_ami (\<lambda>d. d\<lparr>ami_iInitialised := True, ami_xState := MODULE_STATE_OK\<rparr>)
                       (AMI_INC_STAT_COUNTER AMI_PROXY_STATS_INIT_OVERALL_COMPLETE
                         (AMI_INC_STAT_COUNTER AMI_PROXY_STATS_CREATE_MBOX
                           (AMI_INC_STAT_COUNTER AMI_PROXY_STATS_CREATE_MUTEX s))))))"

definition iAMI_Initialise :: "'w ami_env \<Rightarrow> u8 \<Rightarrow> nat option \<Rightarrow> u32 \<Rightarrow> 'w ami_st \<Rightarrow> evl_status \<times> 'w ami_st" where
  "iAMI_Initialise E ucProxyId pxFwIf ulFwIfPort s =
     (case pxFwIf of Some fw \<Rightarrow>
        (if ami_firewalls_ok s \<and> \<not> ami_iInitialised (ami_local s) then
          (let s = upd_ami (\<lambda>d. d\<lparr>ami_ucMyId := ucProxyId, ami_pxFwIf := Some fw, ami_ulFwIfPort := ulFwIfPort\<rparr>) s;
               (st, pp, d, s) = iEVL_CreateRecord (ami_evl_part E) (Some (ami_pxEvlRecord (ami_local s))) (ami_evl s) s;
               s = upd_ami (\<lambda>l. l\<lparr>ami_pxEvlRecord := (case pp of Some r \<Rightarrow> r | None \<Rightarrow> None)\<rparr>) (s\<lparr>ami_evl := d\<rparr>) in
           if st \<noteq> OK then (ERROR, AMI_INC_ERROR_COUNTER_WITH_STATE AMI_PROXY_ERRORS_INIT_EVL_RECORD_FAILED s)
           else (let (ok, w) = ami_fw_open E fw (ami_outside s); s = s\<lparr>ami_outside := w\<rparr> in
             if \<not> ok then (ERROR, AMI_INC_ERROR_COUNTER_WITH_STATE AMI_PROXY_INIT_FW_IF_OPEN_FAILED s)
             else (case mutex_create (ami_evl_part E) s of
               (None, s) \<Rightarrow> (ERROR, AMI_INC_ERROR_COUNTER_WITH_STATE AMI_PROXY_INIT_MUTEX_CREATE_FAILED s)
             | (Some m, s) \<Rightarrow>
                 ami_create_mbox_and_task E (upd_ami (\<lambda>l. l\<lparr>ami_pvOsalMutexHdl := Some m\<rparr>) s))))
        else ami_invalid s)
      | None \<Rightarrow> ami_invalid s)"

definition iAMI_BindCallback :: "'w ami_env \<Rightarrow> nat option \<Rightarrow> 'w ami_st \<Rightarrow> evl_status \<times> 'w ami_st" where
  "iAMI_BindCallback E pxCallback s =
     (if ami_ready s \<and> pxCallback \<noteq> None \<and> ami_pxEvlRecord (ami_local s) \<noteq> None
      then (let (st, r, d, s) =
                  iEVL_BindCallback (ami_evl_part E) (ami_pxEvlRecord (ami_local s)) pxCallback (ami_evl s) s;
                s = upd_ami (\<lambda>l. l\<lparr>ami_pxEvlRecord := r\<rparr>) (s\<lparr>ami_evl := d\<rparr>)
            in (st, if st = ERROR then AMI_INC_ERROR_COUNTER_WITH_STATE AMI_PROXY_BIND_CB_FAILED s else s))
      else ami_invalid s)"

section \<open>Posting a result\<close>

definition ami_post :: "'w ami_env \<Rightarrow> AMIProxyMboxMsg \<Rightarrow> 'w ami_st \<Rightarrow> bool \<times> 'w ami_st" where
  "ami_post E m s =
     (let (ok, w) = ami_mbox_post E (ami_pvOsalMBoxHdl (ami_local s)) m (ami_outside s) in (ok, s\<lparr>ami_outside := w\<rparr>))"

text \<open>
  What the operations that set a response share: the message carries the instance of the signal
  as the slot's index, and is posted without waiting.
\<close>

definition ami_set_response ::
  "AMI_PROXY_STATS \<Rightarrow> AMI_MSG_TYPES \<Rightarrow> AMIMboxPayload \<Rightarrow> 'w ami_env \<Rightarrow> EVLSignal option \<Rightarrow> AMI_PROXY_RESULT \<Rightarrow>
   'w ami_st \<Rightarrow> evl_status \<times> 'w ami_st" where
  "ami_set_response c ty p E pxSignal xResult s =
     (case pxSignal of Some sig \<Rightarrow>
        (if ami_ready s then
          (let (ok, s) = ami_post E \<lparr>mb_eMsgType = ty, mb_ucRxDataIndex = ucInstance sig, mb_xResult = xResult,
                                     mb_payload = p\<rparr> s in
           if ok then (OK, AMI_INC_STAT_COUNTER c s)
           else (ERROR, AMI_INC_ERROR_COUNTER_WITH_STATE AMI_PROXY_ERRORS_MAILBOX_POST_FAILED s))
        else ami_invalid s)
      | None \<Rightarrow> ami_invalid s)"

definition iAMI_SetPdiDownloadCompleteResponse ::
  "'w ami_env \<Rightarrow> EVLSignal option \<Rightarrow> AMI_PROXY_RESULT \<Rightarrow> 'w ami_st \<Rightarrow> evl_status \<times> 'w ami_st" where
  "iAMI_SetPdiDownloadCompleteResponse =
     ami_set_response AMI_PROXY_STATS_PDI_DOWNLOAD_MBOX_POST AMI_MSG_TYPE_PDI_DOWNLOAD_COMPLETE NoPayload"

definition iAMI_SetPdiCopyCompleteResponse ::
  "'w ami_env \<Rightarrow> EVLSignal option \<Rightarrow> AMI_PROXY_RESULT \<Rightarrow> 'w ami_st \<Rightarrow> evl_status \<times> 'w ami_st" where
  "iAMI_SetPdiCopyCompleteResponse =
     ami_set_response AMI_PROXY_STATS_PDI_COPY_MBOX_POST AMI_MSG_TYPE_PDI_COPY_COMPLETE NoPayload"

definition iAMI_SetPdiProgramCompleteResponse ::
  "'w ami_env \<Rightarrow> EVLSignal option \<Rightarrow> AMI_PROXY_RESULT \<Rightarrow> 'w ami_st \<Rightarrow> evl_status \<times> 'w ami_st" where
  "iAMI_SetPdiProgramCompleteResponse =
     ami_set_response AMI_PROXY_STATS_PDI_PROGRAM_MBOX_POST AMI_MSG_TYPE_PDI_PROGRAM_COMPLETE NoPayload"

definition iAMI_SetSensorCompleteResponse ::
  "'w ami_env \<Rightarrow> EVLSignal option \<Rightarrow> AMI_PROXY_RESULT \<Rightarrow> 'w ami_st \<Rightarrow> evl_status \<times> 'w ami_st" where
  "iAMI_SetSensorCompleteResponse =
     ami_set_response AMI_PROXY_STATS_SENSOR_MBOX_POST AMI_MSG_TYPE_SENSOR_COMPLETE NoPayload"

definition iAMI_SetBootSelectCompleteResponse ::
  "'w ami_env \<Rightarrow> EVLSignal option \<Rightarrow> AMI_PROXY_RESULT \<Rightarrow> 'w ami_st \<Rightarrow> evl_status \<times> 'w ami_st" where
  "iAMI_SetBootSelectCompleteResponse =
     ami_set_response AMI_PROXY_STATS_BOOT_SELECT_MBOX_POST AMI_MSG_TYPE_BOOT_SELECT_COMPLETE NoPayload"

definition iAMI_SetEepromReadWriteCompleteResponse ::
  "'w ami_env \<Rightarrow> EVLSignal option \<Rightarrow> AMI_PROXY_RESULT \<Rightarrow> 'w ami_st \<Rightarrow> evl_status \<times> 'w ami_st" where
  "iAMI_SetEepromReadWriteCompleteResponse =
     ami_set_response AMI_PROXY_STATS_EEPROM_RW_MBOX_POST AMI_MSG_TYPE_EEPROM_RW_COMPLETE NoPayload"

definition iAMI_SetModuleReadWriteCompleteResponse ::
  "'w ami_env \<Rightarrow> EVLSignal option \<Rightarrow> AMI_PROXY_RESULT \<Rightarrow> 'w ami_st \<Rightarrow> evl_status \<times> 'w ami_st" where
  "iAMI_SetModuleReadWriteCompleteResponse =
     ami_set_response AMI_PROXY_STATS_MODULE_RW_MBOX_POST AMI_MSG_TYPE_MODULE_RW_COMPLETE NoPayload"

definition iAMI_SetDebugVerbosityResponse ::
  "'w ami_env \<Rightarrow> EVLSignal option \<Rightarrow> AMI_PROXY_RESULT \<Rightarrow> 'w ami_st \<Rightarrow> evl_status \<times> 'w ami_st" where
  "iAMI_SetDebugVerbosityResponse =
     ami_set_response AMI_PROXY_STATS_MODULE_RW_MBOX_POST AMI_MSG_TYPE_DEBUG_VERBOSITY_COMPLETE NoPayload"

definition iAMI_SetIdentityResponse ::
  "'w ami_env \<Rightarrow> EVLSignal option \<Rightarrow> AMI_PROXY_RESULT \<Rightarrow> AMI_PROXY_IDENTITY_RESPONSE option \<Rightarrow> 'w ami_st \<Rightarrow>
   evl_status \<times> 'w ami_st" where
  "iAMI_SetIdentityResponse E pxSignal xResult pxIdentityResponse s =
     (case pxIdentityResponse of
        Some r \<Rightarrow> ami_set_response AMI_PROXY_STATS_IDENTITY_MBOX_POST AMI_MSG_TYPE_IDENTITY_COMPLETE
                    (MboxIdentity r) E pxSignal xResult s
      | None \<Rightarrow> ami_invalid s)"

definition iAMI_SetFptFlagsResponse ::
  "'w ami_env \<Rightarrow> EVLSignal option \<Rightarrow> AMI_PROXY_RESULT \<Rightarrow> u32 \<Rightarrow> 'w ami_st \<Rightarrow> evl_status \<times> 'w ami_st" where
  "iAMI_SetFptFlagsResponse E pxSignal xResult ulFlags =
     ami_set_response AMI_PROXY_STATS_BOOT_SELECT_MBOX_POST AMI_MSG_TYPE_FPT_FLAGS_COMPLETE (MboxFptFlags ulFlags)
       E pxSignal xResult"

section \<open>Reading a request\<close>

definition ami_mutex_take :: "'w ami_env \<Rightarrow> 'w ami_st \<Rightarrow> bool \<times> 'w ami_st" where
  "ami_mutex_take E s = mutex_take (ami_evl_part E) (ami_pvOsalMutexHdl (ami_local s)) s"

definition ami_mutex_release :: "'w ami_env \<Rightarrow> 'w ami_st \<Rightarrow> bool \<times> 'w ami_st" where
  "ami_mutex_release E s = mutex_release (ami_evl_part E) (ami_pvOsalMutexHdl (ami_local s)) s"

text \<open>The release that ends an operation: a failure makes the operation fail.\<close>

definition ami_unlock :: "'w ami_env \<Rightarrow> evl_status \<Rightarrow> 'w ami_st \<Rightarrow> evl_status \<times> 'w ami_st" where
  "ami_unlock E st s =
     (let (rel, s) = ami_mutex_release E s in
      if rel then (st, AMI_INC_STAT_COUNTER AMI_PROXY_STATS_RELEASE_MUTEX s)
      else (ERROR, AMI_INC_ERROR_COUNTER_WITH_STATE AMI_PROXY_ERRORS_MUTEX_RELEASE_FAILED s))"

text \<open>
  What the operations that read a request share, by the counter of the call, the counter of an
  invalid request, the operation code and the member of the union.  \<open>out\<close> says whether the
  caller's pointer is non-null; what it receives is the second component of the result.
\<close>

definition ami_get_request ::
  "AMI_PROXY_STATS \<Rightarrow> AMI_PROXY_ERRORS \<Rightarrow> u16 \<Rightarrow> (AMIRequest \<Rightarrow> 'a option) \<Rightarrow>
   'w ami_env \<Rightarrow> EVLSignal option \<Rightarrow> bool \<Rightarrow> 'w ami_st \<Rightarrow> (evl_status \<times> 'a option \<times> 'w ami_st) option" where
  "ami_get_request c e opcode view E pxSignal out s =
     (case pxSignal of Some sig \<Rightarrow>
        (if ami_ready s \<and> out then
          (let (taken, s) = ami_mutex_take E (AMI_INC_STAT_COUNTER c s) in
           if taken then do {
             let s = AMI_INC_STAT_COUNTER AMI_PROXY_STATS_TAKE_MUTEX s;
             let i = unat (ucInstance sig);
             let slot = ami_xRxData (ami_local s) i;
             (st, r, s) \<leftarrow>
               (if i < AMI_RXDATA_SIZE \<and> rx_ucInUse slot \<and> rx_xOpCode slot = opcode
                then do { r \<leftarrow> view (rx_request slot); Some (OK, Some r, s) }
                else Some (ERROR, None, AMI_INC_ERROR_COUNTER_WITH_STATE e s));
             let (st, s) = ami_unlock E st s;
             Some (st, r, s) }
           else Some (ERROR, None, AMI_INC_ERROR_COUNTER_WITH_STATE AMI_PROXY_ERRORS_MUTEX_TAKE_FAILED s))
        else (let (st, s) = ami_invalid s in Some (st, None, s)))
      | None \<Rightarrow> (let (st, s) = ami_invalid s in Some (st, None, s)))"

definition iAMI_GetPdiDownloadRequest ::
  "'w ami_env \<Rightarrow> EVLSignal option \<Rightarrow> bool \<Rightarrow> 'w ami_st \<Rightarrow>
   (evl_status \<times> AMIProxyPdiDownloadRequest option \<times> 'w ami_st) option" where
  "iAMI_GetPdiDownloadRequest = ami_get_request AMI_PROXY_STATS_GET_PDI_DOWNLOAD_REQUEST AMI_PROXY_ERRORS_PDI_DOWNLOAD_REQUEST
     AMI_CMD_OPCODE_PDI_DOWNLOAD_REQ as_download"

definition iAMI_GetPdiCopyRequest ::
  "'w ami_env \<Rightarrow> EVLSignal option \<Rightarrow> bool \<Rightarrow> 'w ami_st \<Rightarrow>
   (evl_status \<times> AMIProxyPdiCopyRequest option \<times> 'w ami_st) option" where
  "iAMI_GetPdiCopyRequest = ami_get_request AMI_PROXY_STATS_GET_PDI_COPY_REQUEST AMI_PROXY_ERRORS_PDI_COPY_REQUEST
     AMI_CMD_OPCODE_PDI_COPY_REQ as_copy"

definition iAMI_GetPdiProgramRequest ::
  "'w ami_env \<Rightarrow> EVLSignal option \<Rightarrow> bool \<Rightarrow> 'w ami_st \<Rightarrow>
   (evl_status \<times> AMIProxyPdiProgramRequest option \<times> 'w ami_st) option" where
  "iAMI_GetPdiProgramRequest = ami_get_request AMI_PROXY_STATS_GET_PDI_PROGRAM_REQUEST AMI_PROXY_ERRORS_PDI_PROGRAM_REQUEST
     AMI_CMD_OPCODE_PDI_PROGRAM_REQ as_program"

definition iAMI_GetSensorRequest ::
  "'w ami_env \<Rightarrow> EVLSignal option \<Rightarrow> bool \<Rightarrow> 'w ami_st \<Rightarrow>
   (evl_status \<times> AMIProxySensorRequest option \<times> 'w ami_st) option" where
  "iAMI_GetSensorRequest = ami_get_request AMI_PROXY_STATS_GET_SENSOR_REQUEST AMI_PROXY_ERRORS_GET_SENSOR_REQUEST
     AMI_CMD_OPCODE_SENSOR_REQ as_sensor"

definition iAMI_GetBootSelectRequest ::
  "'w ami_env \<Rightarrow> EVLSignal option \<Rightarrow> bool \<Rightarrow> 'w ami_st \<Rightarrow>
   (evl_status \<times> AMIProxyBootSelectRequest option \<times> 'w ami_st) option" where
  "iAMI_GetBootSelectRequest = ami_get_request AMI_PROXY_STATS_GET_BOOT_SELECT_REQUEST AMI_PROXY_ERRORS_GET_BOOT_SELECT_REQUEST
     AMI_CMD_OPCODE_BOOT_SEL_REQ as_boot_select"

definition iAMI_GetEepromReadWriteRequest ::
  "'w ami_env \<Rightarrow> EVLSignal option \<Rightarrow> bool \<Rightarrow> 'w ami_st \<Rightarrow>
   (evl_status \<times> AMIProxyEepromRWRequest option \<times> 'w ami_st) option" where
  "iAMI_GetEepromReadWriteRequest = ami_get_request AMI_PROXY_STATS_GET_EEPROM_RW_REQUEST AMI_PROXY_ERRORS_EEPROM_RW_REQUEST
     AMI_CMD_OPCODE_EEPROM_RW_REQ as_eeprom"

definition iAMI_GetModuleReadWriteRequest ::
  "'w ami_env \<Rightarrow> EVLSignal option \<Rightarrow> bool \<Rightarrow> 'w ami_st \<Rightarrow>
   (evl_status \<times> AMIProxyModuleRWRequest option \<times> 'w ami_st) option" where
  "iAMI_GetModuleReadWriteRequest = ami_get_request AMI_PROXY_STATS_GET_MODULE_RW_REQUEST AMI_PROXY_ERRORS_MODULE_RW_REQUEST
     AMI_CMD_OPCODE_MODULE_RW_REQ as_module"

definition iAMI_GetDebugVerbosityRequest ::
  "'w ami_env \<Rightarrow> EVLSignal option \<Rightarrow> bool \<Rightarrow> 'w ami_st \<Rightarrow>
   (evl_status \<times> u8 option \<times> 'w ami_st) option" where
  "iAMI_GetDebugVerbosityRequest = ami_get_request AMI_PROXY_STATS_GET_MODULE_RW_REQUEST AMI_PROXY_ERRORS_DEBUG_VERBOSITY_REQUEST
     AMI_CMD_OPCODE_DEBUG_VERBOSITY_REQ as_verbosity"

definition iAMI_GetFptFlagsRequest ::
  "'w ami_env \<Rightarrow> EVLSignal option \<Rightarrow> bool \<Rightarrow> 'w ami_st \<Rightarrow>
   (evl_status \<times> AMIProxyFptFlagsRequest option \<times> 'w ami_st) option" where
  "iAMI_GetFptFlagsRequest = ami_get_request AMI_PROXY_STATS_GET_BOOT_SELECT_REQUEST AMI_PROXY_RAISE_EVENT_FPT_FLAGS_FAILED
     AMI_CMD_OPCODE_FPT_FLAGS_REQ as_fpt_flags"

section \<open>Statistics and state\<close>

definition ami_stats :: "AMI_PROXY_STATS list" where
  "ami_stats =
     [AMI_PROXY_STATS_INIT_OVERALL_COMPLETE, AMI_PROXY_STATS_CREATE_MUTEX, AMI_PROXY_STATS_CREATE_MBOX,
      AMI_PROXY_STATS_TAKE_MUTEX, AMI_PROXY_STATS_RELEASE_MUTEX, AMI_PROXY_STATS_PDI_DOWNLOAD_MBOX_POST,
      AMI_PROXY_STATS_PDI_COPY_MBOX_POST, AMI_PROXY_STATS_PDI_PROGRAM_MBOX_POST,
      AMI_PROXY_STATS_SENSOR_MBOX_POST, AMI_PROXY_STATS_IDENTITY_MBOX_POST,
      AMI_PROXY_STATS_BOOT_SELECT_MBOX_POST, AMI_PROXY_STATS_HEARTBEAT_MBOX_POST,
      AMI_PROXY_STATS_EEPROM_RW_MBOX_POST, AMI_PROXY_STATS_MODULE_RW_MBOX_POST,
      AMI_PROXY_STATS_DEBUG_VERBOSITY_MBOX_PEND, AMI_PROXY_STATS_PDI_DOWNLOAD_MBOX_PEND,
      AMI_PROXY_STATS_PDI_COPY_MBOX_PEND, AMI_PROXY_STATS_SENSOR_MBOX_PEND, AMI_PROXY_STATS_IDENTITY_MBOX_PEND,
      AMI_PROXY_STATS_BOOT_SELECT_MBOX_PEND, AMI_PROXY_STATS_HEARTBEAT_MBOX_PEND,
      AMI_PROXY_STATS_EEPROM_RW_MBOX_PEND, AMI_PROXY_STATS_MODULE_RW_MBOX_PEND,
      AMI_PROXY_STATS_GET_PDI_DOWNLOAD_REQUEST, AMI_PROXY_STATS_GET_PDI_PROGRAM_REQUEST,
      AMI_PROXY_STATS_GET_PDI_COPY_REQUEST, AMI_PROXY_STATS_GET_SENSOR_REQUEST,
      AMI_PROXY_STATS_GET_BOOT_SELECT_REQUEST, AMI_PROXY_STATS_TASK_TIME_MS,
      AMI_PROXY_STATS_GET_EEPROM_RW_REQUEST, AMI_PROXY_STATS_STATUS_RETRIEVAL,
      AMI_PROXY_STATS_GET_MODULE_RW_REQUEST]"

definition ami_errors :: "AMI_PROXY_ERRORS list" where
  "ami_errors =
     [AMI_PROXY_ERRORS_MUTEX_RELEASE_FAILED, AMI_PROXY_ERRORS_MUTEX_TAKE_FAILED,
      AMI_PROXY_ERRORS_MAILBOX_POST_FAILED, AMI_PROXY_ERRORS_PDI_DOWNLOAD_REQUEST,
      AMI_PROXY_ERRORS_PDI_PROGRAM_REQUEST, AMI_PROXY_ERRORS_PDI_COPY_REQUEST,
      AMI_PROXY_ERRORS_EEPROM_RW_REQUEST, AMI_PROXY_ERRORS_MODULE_RW_REQUEST,
      AMI_PROXY_ERRORS_DEBUG_VERBOSITY_REQUEST, AMI_PROXY_ERRORS_GET_SENSOR_REQUEST,
      AMI_PROXY_ERRORS_GET_BOOT_SELECT_REQUEST, AMI_PROXY_ERRORS_GET_HEARTBEAT_REQUEST,
      AMI_PROXY_ERRORS_GET_EEPROM_RW_REQUEST, AMI_PROXY_ERRORS_GET_MODULE_RW_REQUEST,
      AMI_PROXY_ERRORS_GET_DEBUG_VERBOSITY_REQUEST, AMI_PROXY_ERRORS_SET_FPT_FLAGS_REQUEST,
      AMI_PROXY_RAISE_EVENT_PDI_DOWNLOAD_FAILED, AMI_PROXY_RAISE_EVENT_PDI_COPY_FAILED,
      AMI_PROXY_RAISE_EVENT_GET_IDENTIFY_FAILED, AMI_PROXY_RAISE_EVENT_SENSOR_READ_FAILED,
      AMI_PROXY_RAISE_EVENT_BOOT_SELECT_FAILED, AMI_PROXY_RAISE_EVENT_HEARTBEAT_FAILED,
      AMI_PROXY_RAISE_EVENT_EEPROM_RW_FAILED, AMI_PROXY_RAISE_EVENT_MODULE_RW_FAILED,
      AMI_PROXY_RAISE_EVENT_FPT_FLAGS_FAILED, AMI_PROXY_RAISE_EVENT_DEBUG_VERBOSITY_FAILED,
      AMI_PROXY_INIT_FW_IF_OPEN_FAILED, AMI_PROXY_INIT_MUTEX_CREATE_FAILED, AMI_PROXY_INIT_MBOX_CREATE_FAILED,
      AMI_PROXY_INIT_TASK_CREATE_FAILED, AMI_PROXY_VALIDATION_FAILED, AMI_PROXY_UNSUPPORTED_OPCODE_RX,
      AMI_PROXY_UNKNOWN_MAILBOX_MSG, AMI_PROXY_UNKNOWN_RETURN_CODE, AMI_PROXY_FW_IF_WRITE_FAILED,
      AMI_PROXY_BIND_CB_FAILED, AMI_PROXY_RX_DATA_INDEX_FAILED, AMI_PROXY_ERRORS_INIT_EVL_RECORD_FAILED]"

definition iAMI_PrintStatistics :: "'w ami_st \<Rightarrow> evl_status \<times> u32 list \<times> u32 list \<times> 'w ami_st" where
  "iAMI_PrintStatistics s =
     (if ami_firewalls_ok s
      then (OK, map (ami_pulStatCounters (ami_local s)) ami_stats, map (ami_pulErrorCounters (ami_local s)) ami_errors, s)
      else (ERROR, [], [], AMI_INC_ERROR_COUNTER AMI_PROXY_VALIDATION_FAILED s))"

definition iAMI_ClearStatistics :: "'w ami_st \<Rightarrow> evl_status \<times> 'w ami_st" where
  "iAMI_ClearStatistics s =
     (if ami_ready s
      then (OK, upd_ami (\<lambda>d. d\<lparr>ami_pulStatCounters := (\<lambda>_. 0), ami_pulErrorCounters := (\<lambda>_. 0)\<rparr>) s)
      else ami_invalid s)"

text \<open>The mutex is released here even when it could not be taken.\<close>

definition iAMI_GetState :: "'w ami_env \<Rightarrow> bool \<Rightarrow> 'w ami_st \<Rightarrow> evl_status \<times> MODULE_STATE option \<times> 'w ami_st" where
  "iAMI_GetState E out s =
     (if ami_firewalls_ok s \<and> out then
        (let (taken, s) = ami_mutex_take E s;
             (st, x, s) = (if taken
               then (OK, Some (ami_xState (ami_local s)), AMI_INC_STAT_COUNTER AMI_PROXY_STATS_STATUS_RETRIEVAL s)
               else (ERROR, None, AMI_INC_ERROR_COUNTER_WITH_STATE AMI_PROXY_ERRORS_MUTEX_TAKE_FAILED s));
             (st, s) = ami_unlock E st s
         in (st, x, s))
      else (ERROR, None, AMI_INC_ERROR_COUNTER AMI_PROXY_VALIDATION_FAILED s))"

section \<open>Accepting a request\<close>

text \<open>The answer is \<open>None\<close> for \<open>ERROR\<close>: the caller's index keeps its value.\<close>

definition iFindNextFreeRxDataIndex :: "'w ami_st \<Rightarrow> nat option \<times> 'w ami_st" where
  "iFindNextFreeRxDataIndex s =
     (if ami_ready s
      then (find (\<lambda>i. \<not> rx_ucInUse (ami_xRxData (ami_local s) i)) [0..<AMI_RXDATA_SIZE], s)
      else (None, AMI_INC_ERROR_COUNTER AMI_PROXY_VALIDATION_FAILED s))"

text \<open>What a request puts into the union of its slot; some put nothing there.\<close>

definition keep_request :: "u8 list \<Rightarrow> AMIRequest \<Rightarrow> AMIRequest option" where
  "keep_request b old = Some old"

definition fill_download :: "u8 list \<Rightarrow> AMIRequest \<Rightarrow> AMIRequest option" where
  "fill_download b old = map_option DownloadRequest (parse_download b)"

definition fill_copy :: "u8 list \<Rightarrow> AMIRequest \<Rightarrow> AMIRequest option" where
  "fill_copy b old = map_option CopyRequest (parse_copy b)"

definition fill_sensor :: "u8 list \<Rightarrow> AMIRequest \<Rightarrow> AMIRequest option" where
  "fill_sensor b old = map_option SensorRequest (parse_sensor b)"

definition fill_boot_select :: "u8 list \<Rightarrow> AMIRequest \<Rightarrow> AMIRequest option" where
  "fill_boot_select b old = map_option BootSelectRequest (parse_boot_select b)"

definition fill_eeprom :: "u8 list \<Rightarrow> AMIRequest \<Rightarrow> AMIRequest option" where
  "fill_eeprom b old = map_option EepromReadWriteRequest (parse_eeprom b)"

definition fill_module :: "u8 list \<Rightarrow> AMIRequest \<Rightarrow> AMIRequest option" where
  "fill_module b old = map_option ModuleReadWriteRequest (parse_module b)"

definition fill_verbosity :: "u8 list \<Rightarrow> AMIRequest \<Rightarrow> AMIRequest option" where
  "fill_verbosity b old = map_option DebugVerbosityRequest (req_payload_byte b)"

definition fill_fpt_flags :: "u8 list \<Rightarrow> AMIRequest \<Rightarrow> AMIRequest option" where
  "fill_fpt_flags b old = map_option FptFlagsRequest (parse_fpt_flags b)"

definition take_slot ::
  "(u8 list \<Rightarrow> AMIRequest \<Rightarrow> AMIRequest option) \<Rightarrow> u8 list \<Rightarrow> nat \<Rightarrow> 'w ami_st \<Rightarrow> 'w ami_st option" where
  "take_slot fill b i s = do {
     cid \<leftarrow> req_usCid b;
     opcode \<leftarrow> req_ulOpCode b;
     slot \<leftarrow> arr_get AMI_RXDATA_SIZE (ami_xRxData (ami_local s)) i;
     r \<leftarrow> fill b (rx_request slot);
     a \<leftarrow> arr_set AMI_RXDATA_SIZE (ami_xRxData (ami_local s)) i
           \<lparr>rx_ucInUse = True, rx_xOpCode = opcode, rx_usCid = cid, rx_request = r\<rparr>;
     Some (upd_ami (\<lambda>d. d\<lparr>ami_xRxData := a\<rparr>) s) }"

definition ami_raise :: "'w ami_env \<Rightarrow> AMI_PROXY_ERRORS \<Rightarrow> u8 \<Rightarrow> u8 \<Rightarrow> 'w ami_st \<Rightarrow> (evl_status \<times> 'w ami_st) option" where
  "ami_raise E e ev inst s = do {
     (st, d, s) \<leftarrow> iEVL_RaiseEvent (ami_evl_part E) (ami_pxEvlRecord (ami_local s))
       (Some \<lparr>ucModule = ami_ucMyId (ami_local s), ucEventType = ev, ucInstance = inst, ucAdditionalData = 0\<rparr>)
       (ami_evl s) s;
     let s = s\<lparr>ami_evl := d\<rparr>;
     Some (st, if st = ERROR then AMI_INC_ERROR_COUNTER_WITH_STATE e s else s) }"

text \<open>
  What all requests share: under the mutex a free slot is found and filled; then the event is
  raised, whose instance is the slot's index except for a heartbeat.  A failure to release the
  mutex is counted, but the request goes on.  The answer holds the slot's index, 0 if there is none.
\<close>

definition ami_accept ::
  "'w ami_env \<Rightarrow> (u8 list \<Rightarrow> AMIRequest \<Rightarrow> AMIRequest option) \<Rightarrow> AMI_PROXY_ERRORS \<Rightarrow> u8 \<Rightarrow> u8 option \<Rightarrow> u8 list \<Rightarrow>
   'w ami_st \<Rightarrow> (evl_status \<times> u8 \<times> 'w ami_st) option" where
  "ami_accept E fill e ev inst b s =
     (let (taken, s) = ami_mutex_take E s in
      if taken then do {
        let (free, s) = iFindNextFreeRxDataIndex (AMI_INC_STAT_COUNTER AMI_PROXY_STATS_TAKE_MUTEX s);
        s \<leftarrow> (case free of
                Some i \<Rightarrow> take_slot fill b i s
              | None \<Rightarrow> Some (AMI_INC_ERROR_COUNTER_WITH_STATE AMI_PROXY_RX_DATA_INDEX_FAILED s));
        let (rel, s) = ami_mutex_release E s;
        let s = (if rel then s else AMI_INC_ERROR_COUNTER_WITH_STATE AMI_PROXY_ERRORS_MUTEX_RELEASE_FAILED s);
        case free of
          Some i \<Rightarrow> do {
            (st, s) \<leftarrow> ami_raise E e ev (case inst of Some x \<Rightarrow> x | None \<Rightarrow> of_nat i)
                         (AMI_INC_STAT_COUNTER AMI_PROXY_STATS_RELEASE_MUTEX s);
            Some (st, of_nat i, s) }
        | None \<Rightarrow> Some (ERROR, 0, s) }
      else Some (ERROR, 0, AMI_INC_ERROR_COUNTER_WITH_STATE AMI_PROXY_ERRORS_MUTEX_TAKE_FAILED s))"

text \<open>
  The heartbeat is answered by the proxy itself: once the event is raised, its own response is
  posted.  A full mailbox is counted and not reported.
\<close>

definition iHandleHeartbeatRequest :: "'w ami_env \<Rightarrow> u8 list \<Rightarrow> 'w ami_st \<Rightarrow> (evl_status \<times> 'w ami_st) option" where
  "iHandleHeartbeatRequest E b s =
     (if ami_ready s then do {
        n \<leftarrow> req_payload_byte b;
        (st, i, s) \<leftarrow> ami_accept E keep_request AMI_PROXY_RAISE_EVENT_HEARTBEAT_FAILED AMI_PROXY_DRIVER_E_HEARTBEAT
                        (Some n) b s;
        if st = OK then
          (let (ok, s) = ami_post E \<lparr>mb_eMsgType = AMI_MSG_TYPE_HEARTBEAT_COMPLETE, mb_ucRxDataIndex = i,
                 mb_xResult = AMI_PROXY_RESULT_SUCCESS, mb_payload = MboxHeartbeat n\<rparr> s in
           Some (OK, if ok then AMI_INC_STAT_COUNTER AMI_PROXY_STATS_HEARTBEAT_MBOX_POST s
                     else AMI_INC_ERROR_COUNTER_WITH_STATE AMI_PROXY_ERRORS_MAILBOX_POST_FAILED s))
        else Some (st, s) }
      else Some (ERROR, s))"

text \<open>What the other handlers share: the answer without the slot's index.\<close>

definition ami_handle ::
  "'w ami_env \<Rightarrow> (u8 list \<Rightarrow> AMIRequest \<Rightarrow> AMIRequest option) \<Rightarrow> AMI_PROXY_ERRORS \<Rightarrow> u8 \<Rightarrow> u8 list \<Rightarrow>
   'w ami_st \<Rightarrow> (evl_status \<times> 'w ami_st) option" where
  "ami_handle E fill e ev b s =
     (if ami_ready s then do { (st, i, s) \<leftarrow> ami_accept E fill e ev None b s; Some (st, s) } else Some (ERROR, s))"

definition iHandleEepromRequest :: "'w ami_env \<Rightarrow> u8 list \<Rightarrow> 'w ami_st \<Rightarrow> (evl_status \<times> 'w ami_st) option" where
  "iHandleEepromRequest E =
     ami_handle E fill_eeprom AMI_PROXY_RAISE_EVENT_EEPROM_RW_FAILED AMI_PROXY_DRIVER_E_EEPROM_READ_WRITE"

definition iHandleModuleRequest :: "'w ami_env \<Rightarrow> u8 list \<Rightarrow> 'w ami_st \<Rightarrow> (evl_status \<times> 'w ami_st) option" where
  "iHandleModuleRequest E =
     ami_handle E fill_module AMI_PROXY_RAISE_EVENT_MODULE_RW_FAILED AMI_PROXY_DRIVER_E_MODULE_READ_WRITE"

definition iHandleDebugVerbosityRequest :: "'w ami_env \<Rightarrow> u8 list \<Rightarrow> 'w ami_st \<Rightarrow> (evl_status \<times> 'w ami_st) option" where
  "iHandleDebugVerbosityRequest E =
     ami_handle E fill_verbosity AMI_PROXY_RAISE_EVENT_DEBUG_VERBOSITY_FAILED AMI_PROXY_DRIVER_E_DEBUG_VERBOSITY"

definition iHandleFptFlagsRequest :: "'w ami_env \<Rightarrow> u8 list \<Rightarrow> 'w ami_st \<Rightarrow> (evl_status \<times> 'w ami_st) option" where
  "iHandleFptFlagsRequest E =
     ami_handle E fill_fpt_flags AMI_PROXY_RAISE_EVENT_FPT_FLAGS_FAILED AMI_PROXY_DRIVER_E_FPT_FLAGS"

text \<open>The requests handled inside the task; their status is not looked at afterwards.\<close>

definition ami_case ::
  "'w ami_env \<Rightarrow> (u8 list \<Rightarrow> AMIRequest \<Rightarrow> AMIRequest option) \<Rightarrow> AMI_PROXY_ERRORS \<Rightarrow> u8 \<Rightarrow> u8 list \<Rightarrow>
   'w ami_st \<Rightarrow> 'w ami_st option" where
  "ami_case E fill e ev b s = do { (st, i, s) \<leftarrow> ami_accept E fill e ev None b s; Some s }"

definition handled :: "AMI_PROXY_ERRORS \<Rightarrow> (evl_status \<times> 'w ami_st) option \<Rightarrow> 'w ami_st option" where
  "handled e m = do { (st, s) \<leftarrow> m; Some (if st = ERROR then AMI_INC_ERROR_COUNTER_WITH_STATE e s else s) }"

definition ami_on_pdi_download :: "'w ami_env \<Rightarrow> u8 list \<Rightarrow> 'w ami_st \<Rightarrow> 'w ami_st option" where
  "ami_on_pdi_download E =
     ami_case E fill_download AMI_PROXY_RAISE_EVENT_PDI_DOWNLOAD_FAILED AMI_PROXY_DRIVER_E_PDI_DOWNLOAD_START"

definition ami_on_pdi_copy :: "'w ami_env \<Rightarrow> u8 list \<Rightarrow> 'w ami_st \<Rightarrow> 'w ami_st option" where
  "ami_on_pdi_copy E =
     ami_case E fill_copy AMI_PROXY_RAISE_EVENT_PDI_COPY_FAILED AMI_PROXY_DRIVER_E_PDI_COPY_START"

text \<open>A program request is stored as a download and raises the event of a download.\<close>

definition ami_on_pdi_program :: "'w ami_env \<Rightarrow> u8 list \<Rightarrow> 'w ami_st \<Rightarrow> 'w ami_st option" where
  "ami_on_pdi_program E =
     ami_case E fill_download AMI_PROXY_RAISE_EVENT_PDI_DOWNLOAD_FAILED AMI_PROXY_DRIVER_E_PDI_DOWNLOAD_START"

definition ami_on_sensor :: "'w ami_env \<Rightarrow> u8 list \<Rightarrow> 'w ami_st \<Rightarrow> 'w ami_st option" where
  "ami_on_sensor E =
     ami_case E fill_sensor AMI_PROXY_RAISE_EVENT_SENSOR_READ_FAILED AMI_PROXY_DRIVER_E_SENSOR_READ"

definition ami_on_identify :: "'w ami_env \<Rightarrow> u8 list \<Rightarrow> 'w ami_st \<Rightarrow> 'w ami_st option" where
  "ami_on_identify E =
     ami_case E keep_request AMI_PROXY_RAISE_EVENT_GET_IDENTIFY_FAILED AMI_PROXY_DRIVER_E_GET_IDENTITY"

definition ami_on_boot_select :: "'w ami_env \<Rightarrow> u8 list \<Rightarrow> 'w ami_st \<Rightarrow> 'w ami_st option" where
  "ami_on_boot_select E =
     ami_case E fill_boot_select AMI_PROXY_RAISE_EVENT_BOOT_SELECT_FAILED AMI_PROXY_DRIVER_E_BOOT_SELECT"

definition ami_dispatch :: "'w ami_env \<Rightarrow> u8 list \<Rightarrow> 'w ami_st \<Rightarrow> 'w ami_st option" where
  "ami_dispatch E b s = do {
     opcode \<leftarrow> req_ulOpCode b;
     if opcode = AMI_CMD_OPCODE_PDI_DOWNLOAD_REQ then ami_on_pdi_download E b s
     else if opcode = AMI_CMD_OPCODE_PDI_COPY_REQ then ami_on_pdi_copy E b s
     else if opcode = AMI_CMD_OPCODE_PDI_PROGRAM_REQ then ami_on_pdi_program E b s
     else if opcode = AMI_CMD_OPCODE_SENSOR_REQ then ami_on_sensor E b s
     else if opcode = AMI_CMD_OPCODE_IDENTIFY_REQ then ami_on_identify E b s
     else if opcode = AMI_CMD_OPCODE_BOOT_SEL_REQ then ami_on_boot_select E b s
     else if opcode = AMI_CMD_OPCODE_HEARTBEAT_REQ then
       handled AMI_PROXY_ERRORS_GET_HEARTBEAT_REQUEST (iHandleHeartbeatRequest E b s)
     else if opcode = AMI_CMD_OPCODE_EEPROM_RW_REQ then
       handled AMI_PROXY_ERRORS_GET_EEPROM_RW_REQUEST (iHandleEepromRequest E b s)
     else if opcode = AMI_CMD_OPCODE_MODULE_RW_REQ then
       handled AMI_PROXY_ERRORS_GET_MODULE_RW_REQUEST (iHandleModuleRequest E b s)
     else if opcode = AMI_CMD_OPCODE_DEBUG_VERBOSITY_REQ then
       handled AMI_PROXY_ERRORS_GET_DEBUG_VERBOSITY_REQUEST (iHandleDebugVerbosityRequest E b s)
     else if opcode = AMI_CMD_OPCODE_FPT_FLAGS_REQ then
       handled AMI_PROXY_ERRORS_SET_FPT_FLAGS_REQUEST (iHandleFptFlagsRequest E b s)
     else Some (AMI_INC_ERROR_COUNTER_WITH_STATE AMI_PROXY_UNSUPPORTED_OPCODE_RX s) }"

section \<open>Answering\<close>

text \<open>
  The response's payload and the counter, by the type of the message; the first \<open>None\<close> is an
  undefined read of the message's union, the second a message the task does not know.
\<close>

definition answer_payload :: "AMIProxyMboxMsg \<Rightarrow> (AMI_PROXY_STATS \<times> u32 \<times> u32) option option" where
  "answer_payload m =
     (case mb_eMsgType m of
        AMI_MSG_TYPE_IDENTITY_COMPLETE \<Rightarrow>
          (case mb_payload m of
             MboxIdentity r \<Rightarrow> Some (Some (AMI_PROXY_STATS_IDENTITY_MBOX_PEND, identity_words r)) | _ \<Rightarrow> None)
      | AMI_MSG_TYPE_SENSOR_COMPLETE \<Rightarrow> Some (Some (AMI_PROXY_STATS_SENSOR_MBOX_PEND, 0, 0))
      | AMI_MSG_TYPE_PDI_DOWNLOAD_COMPLETE \<Rightarrow> Some (Some (AMI_PROXY_STATS_PDI_DOWNLOAD_MBOX_PEND, 0, 0))
      | AMI_MSG_TYPE_PDI_COPY_COMPLETE \<Rightarrow> Some (Some (AMI_PROXY_STATS_PDI_COPY_MBOX_PEND, 0, 0))
      | AMI_MSG_TYPE_BOOT_SELECT_COMPLETE \<Rightarrow> Some (Some (AMI_PROXY_STATS_BOOT_SELECT_MBOX_PEND, 0, 0))
      | AMI_MSG_TYPE_HEARTBEAT_COMPLETE \<Rightarrow>
          (case mb_payload m of
             MboxHeartbeat n \<Rightarrow> Some (Some (AMI_PROXY_STATS_HEARTBEAT_MBOX_PEND, ucast n, 0)) | _ \<Rightarrow> None)
      | AMI_MSG_TYPE_EEPROM_RW_COMPLETE \<Rightarrow> Some (Some (AMI_PROXY_STATS_EEPROM_RW_MBOX_PEND, 0, 0))
      | AMI_MSG_TYPE_MODULE_RW_COMPLETE \<Rightarrow> Some (Some (AMI_PROXY_STATS_MODULE_RW_MBOX_PEND, 0, 0))
      | AMI_MSG_TYPE_DEBUG_VERBOSITY_COMPLETE \<Rightarrow> Some (Some (AMI_PROXY_STATS_DEBUG_VERBOSITY_MBOX_PEND, 0, 0))
      | AMI_MSG_TYPE_FPT_FLAGS_COMPLETE \<Rightarrow>
          (case mb_payload m of
             MboxFptFlags n \<Rightarrow> Some (Some (AMI_PROXY_STATS_BOOT_SELECT_MBOX_PEND, n, 0)) | _ \<Rightarrow> None)
      | AMI_MSG_TYPE_PDI_PROGRAM_COMPLETE \<Rightarrow> Some None)"

definition ami_write :: "'w ami_env \<Rightarrow> u8 list \<Rightarrow> 'w ami_st \<Rightarrow> (bool \<times> 'w ami_st) option" where
  "ami_write E b s = do {
     fw \<leftarrow> ami_pxFwIf (ami_local s);
     let (ok, w) = ami_fw_write E fw (ucast (ami_ulFwIfPort (ami_local s))) b AMI_PROXY_RESPONSE_SIZE (ami_outside s);
     Some (ok, s\<lparr>ami_outside := w\<rparr>) }"

definition ami_free_slot :: "'w ami_env \<Rightarrow> nat \<Rightarrow> 'w ami_st \<Rightarrow> 'w ami_st option" where
  "ami_free_slot E i s =
     (let (taken, s) = ami_mutex_take E s in
      if taken then do {
        let s = AMI_INC_STAT_COUNTER AMI_PROXY_STATS_TAKE_MUTEX s;
        slot \<leftarrow> arr_get AMI_RXDATA_SIZE (ami_xRxData (ami_local s)) i;
        a \<leftarrow> arr_set AMI_RXDATA_SIZE (ami_xRxData (ami_local s)) i (slot\<lparr>rx_ucInUse := False\<rparr>);
        Some (snd (ami_unlock E OK (upd_ami (\<lambda>d. d\<lparr>ami_xRxData := a\<rparr>) s))) }
      else Some (AMI_INC_ERROR_COUNTER_WITH_STATE AMI_PROXY_ERRORS_MUTEX_TAKE_FAILED s))"

text \<open>The index a message carries is not checked: outside the table the read is undefined.\<close>

definition ami_answer :: "'w ami_env \<Rightarrow> AMIProxyMboxMsg \<Rightarrow> 'w ami_st \<Rightarrow> 'w ami_st option" where
  "ami_answer E m s = do {
     let i = unat (mb_ucRxDataIndex m);
     known \<leftarrow> answer_payload m;
     case known of
       None \<Rightarrow> Some (AMI_INC_ERROR_COUNTER_WITH_STATE AMI_PROXY_UNKNOWN_MAILBOX_MSG s)
     | Some (c, p0, p1) \<Rightarrow> do {
         let s = AMI_INC_STAT_COUNTER c s;
         slot \<leftarrow> arr_get AMI_RXDATA_SIZE (ami_xRxData (ami_local s)) i;
         (ok, s) \<leftarrow> ami_write E (response_bytes \<lparr>resp_usCid = rx_usCid slot, resp_usCState = AMI_CMD_STATE_COMPLETED,
           resp_ulPayload0 = p0, resp_ulPayload1 = p1, resp_ulRCode = ami_result_code (mb_xResult m)\<rparr>) s;
         if ok then ami_free_slot E i s
         else Some (AMI_INC_ERROR_COUNTER_WITH_STATE AMI_PROXY_FW_IF_WRITE_FAILED s) } }"

section \<open>The task\<close>

definition ami_clock :: "'w ami_env \<Rightarrow> 'w ami_st \<Rightarrow> u32 \<times> 'w ami_st" where
  "ami_clock E s = (let (n, w) = ami_uptime_ms E (ami_outside s) in (n, s\<lparr>ami_outside := w\<rparr>))"

text \<open>The first half of a turn: a request is read into the task's buffer and dispatched.\<close>

definition ami_receive :: "'w ami_env \<Rightarrow> u8 list \<times> 'w ami_st \<Rightarrow> (u8 list \<times> 'w ami_st) option" where
  "ami_receive E = (\<lambda>(b, s). do {
     fw \<leftarrow> ami_pxFwIf (ami_local s);
     let (ok, b, w) = ami_fw_read E fw (ucast (ami_ulFwIfPort (ami_local s))) b (of_nat AMI_CMD_REQUEST_BYTES) (ami_outside s);
     let s = s\<lparr>ami_outside := w\<rparr>;
     s \<leftarrow> (if ok then ami_dispatch E b s else Some s);
     Some (b, s) })"

text \<open>The second half: a message of the mailbox is answered.\<close>

definition ami_respond :: "'w ami_env \<Rightarrow> 'w ami_st \<Rightarrow> 'w ami_st option" where
  "ami_respond E s =
     (let (m, w) = ami_mbox_pend E (ami_pvOsalMBoxHdl (ami_local s)) (ami_outside s); s = s\<lparr>ami_outside := w\<rparr> in
      case m of Some m \<Rightarrow> ami_answer E m s | None \<Rightarrow> Some s)"

text \<open>One turn of the task's endless loop; the request buffer is kept from turn to turn.\<close>

definition ami_task_turn :: "'w ami_env \<Rightarrow> u8 list \<times> 'w ami_st \<Rightarrow> (u8 list \<times> 'w ami_st) option" where
  "ami_task_turn E = (\<lambda>(b, s). do {
     let (start, s) = ami_clock E s;
     (b, s) \<leftarrow> ami_receive E (b, s);
     s \<leftarrow> ami_respond E s;
     let (now, s) = ami_clock E s;
     let s = upd_ami (\<lambda>d. d\<lparr>ami_pulStatCounters :=
               (ami_pulStatCounters d)(AMI_PROXY_STATS_TASK_TIME_MS := now - start)\<rparr>) s;
     Some (b, s\<lparr>ami_outside := ami_sleep E AMI_TASK_SLEEP_MS (ami_outside s)\<rparr>) })"

end
