(* ===== verification/AMI_Slots.thy ===== *)
theory AMI_Slots
  imports AMI_Proxy
begin

text \<open>
  What the management-interface proxy keeps: the slots hold the requests in the form their
  operation codes call for, a turn of the task is defined, and the table of slots behaves as a
  bounded table of pending requests.
\<close>

section \<open>What the services may change\<close>

text \<open>
  The proxy's data without its counters and state.  The services and the callbacks of the
  event library leave it alone: the operations a callback may call are shown below to do so.
\<close>

definition ami_core :: "'w ami_st \<Rightarrow> AMIProxyPrivateData" where
  "ami_core s = (ami_local s)\<lparr>ami_pulStatCounters := (\<lambda>_. 0), ami_pulErrorCounters := (\<lambda>_. 0),
     ami_xState := MODULE_STATE_OK\<rparr>"

definition evl_keeps :: "'w evl_env \<Rightarrow> ('w \<Rightarrow> 'a) \<Rightarrow> bool" where
  "evl_keeps E f \<longleftrightarrow>
     (\<forall>m w. f (snd (mutex_take E m w)) = f w \<and> f (snd (mutex_release E m w)) = f w) \<and>
     (\<forall>w. f (snd (uptime_ms E w)) = f w) \<and> (\<forall>cb sig w. f (snd (evl_callback E cb sig w)) = f w)"

lemma evl_keepsD:
  assumes "evl_keeps E f"
  shows "mutex_take E m w = (b, w') \<Longrightarrow> f w' = f w" "mutex_release E m w = (b, w') \<Longrightarrow> f w' = f w"
    "uptime_ms E w = (t, w') \<Longrightarrow> f w' = f w" "evl_callback E cb sig w = (st, w') \<Longrightarrow> f w' = f w"
  using assms unfolding evl_keeps_def by (metis snd_conv)+

lemma call_bindings_keeps: "evl_keeps E f \<Longrightarrow> call_bindings E sig cbs d w = (d', w') \<Longrightarrow> f w' = f w"
  by (induction cbs arbitrary: d w) (auto simp: Let_def dest: evl_keepsD split: prod.splits if_splits)

lemma call_bindings_index: "call_bindings E sig cbs d w = (d', w') \<Longrightarrow> iLogIdx d' = iLogIdx d"
  by (induction cbs arbitrary: d w)
    (auto simp: Let_def INC_STAT_COUNTER_def INC_ERROR_COUNTER_def split: prod.splits if_splits)

lemma log_signal_keeps:
  assumes "evl_keeps E f" and "iLogIdx d < EVL_LOG_LEN"
  shows "okay (log_signal E sig d w) (\<lambda>(d', w'). f w' = f w \<and> iLogIdx d' < EVL_LOG_LEN)"
  using assms(2) evl_keepsD(3) [OF assms(1)]
  by (cases "uptime_ms E w") (auto simp: log_signal_def arr_set_def Let_def)

lemma raise_event_keeps:
  assumes "evl_keeps E f" and "iLogIdx d < EVL_LOG_LEN"
  shows "okay (iEVL_RaiseEvent E r sig d w) (\<lambda>(st, d', w'). f w' = f w \<and> iLogIdx d' < EVL_LOG_LEN)"
proof (cases "r = None \<or> sig = None \<or> \<not> (evl_firewalls_ok d \<and> iIsInitialised d)")
  case True
  then show ?thesis
    using assms(2) by (cases r; cases sig) (auto simp: iEVL_RaiseEvent_def INC_ERROR_COUNTER_def)
next
  case False
  then obtain r' sig' where [simp]: "r = Some r'" "sig = Some sig'" by auto
  obtain b w1 where t: "mutex_take E (pxLogMtx d) w = (b, w1)" by fastforce
  have f1: "f w1 = f w" using evl_keepsD(1) [OF assms(1) t] .
  show ?thesis
  proof (cases b)
    case b: True
    have "iLogIdx (INC_STAT_COUNTER EVL_STATS_LOG_MUTEX_GRABBED d) < EVL_LOG_LEN" using assms(2) by simp
    from log_signal_keeps [OF assms(1) this, of sig' w1] obtain d2 w2 where
      l: "log_signal E sig' (INC_STAT_COUNTER EVL_STATS_LOG_MUTEX_GRABBED d) w1 = Some (d2, w2)"
      and d2: "f w2 = f w1" "iLogIdx d2 < EVL_LOG_LEN"
      by (auto simp: okay_iff)
    show ?thesis
      using False t b l d2 f1
      by (auto simp: iEVL_RaiseEvent_def Let_def INC_STAT_COUNTER_def INC_ERROR_COUNTER_def
          dest!: evl_keepsD(1,2) [OF assms(1)]
          dest: call_bindings_index call_bindings_keeps [OF assms(1)] split: prod.splits)
  qed (use False t f1 assms(2) in \<open>auto simp: iEVL_RaiseEvent_def Let_def INC_ERROR_COUNTER_def\<close>)
qed

definition ami_msg_ok :: "AMIProxyMboxMsg \<Rightarrow> bool" where
  "ami_msg_ok m \<longleftrightarrow> unat (mb_ucRxDataIndex m) < AMI_RXDATA_SIZE \<and> answer_payload m \<noteq> None"

definition ami_env_ok :: "'w ami_env \<Rightarrow> bool" where
  "ami_env_ok E \<longleftrightarrow> evl_keeps (ami_evl_part E) ami_core \<and>
     (\<forall>m s. ami_evl (snd (mutex_take (ami_evl_part E) m s)) = ami_evl s \<and>
            ami_evl (snd (mutex_release (ami_evl_part E) m s)) = ami_evl s) \<and>
     (\<forall>fw p b n w. length (fst (snd (ami_fw_read E fw p b n w))) = length b) \<and>
     (\<forall>h w m. fst (ami_mbox_pend E h w) = Some m \<longrightarrow> ami_msg_ok m)"

lemma core_counters [simp]:
  "ami_core (AMI_INC_STAT_COUNTER x s) = ami_core s" "ami_core (AMI_INC_ERROR_COUNTER y s) = ami_core s"
  "ami_core (AMI_INC_ERROR_COUNTER_WITH_STATE y s) = ami_core s" "ami_core (s\<lparr>ami_outside := w\<rparr>) = ami_core s"
  "ami_core (s\<lparr>ami_evl := d\<rparr>) = ami_core s"
  by (simp_all add: ami_core_def AMI_INC_STAT_COUNTER_def AMI_INC_ERROR_COUNTER_def
      AMI_INC_ERROR_COUNTER_WITH_STATE_def upd_ami_def)

lemma evl_counters [simp]:
  "ami_evl (AMI_INC_STAT_COUNTER x s) = ami_evl s" "ami_evl (AMI_INC_ERROR_COUNTER y s) = ami_evl s"
  "ami_evl (AMI_INC_ERROR_COUNTER_WITH_STATE y s) = ami_evl s" "ami_evl (upd_ami f s) = ami_evl s"
  "ami_outside (AMI_INC_STAT_COUNTER x s) = ami_outside s" "ami_outside (AMI_INC_ERROR_COUNTER y s) = ami_outside s"
  "ami_outside (AMI_INC_ERROR_COUNTER_WITH_STATE y s) = ami_outside s" "ami_outside (upd_ami f s) = ami_outside s"
  by (simp_all add: AMI_INC_STAT_COUNTER_def AMI_INC_ERROR_COUNTER_def
      AMI_INC_ERROR_COUNTER_WITH_STATE_def upd_ami_def)

text \<open>What depends on the core only.\<close>

lemma core_eqD:
  assumes "ami_core s' = ami_core s"
  shows "ami_xRxData (ami_local s') = ami_xRxData (ami_local s)" "ami_pxFwIf (ami_local s') = ami_pxFwIf (ami_local s)"
    "ami_ready s' = ami_ready s" "ami_pvOsalMutexHdl (ami_local s') = ami_pvOsalMutexHdl (ami_local s)"
    "ami_pvOsalMBoxHdl (ami_local s') = ami_pvOsalMBoxHdl (ami_local s)"
    "ami_ulFwIfPort (ami_local s') = ami_ulFwIfPort (ami_local s)" "ami_ucMyId (ami_local s') = ami_ucMyId (ami_local s)"
    "ami_pxEvlRecord (ami_local s') = ami_pxEvlRecord (ami_local s)"
  using arg_cong [OF assms, of ami_xRxData] arg_cong [OF assms, of ami_pxFwIf]
    arg_cong [OF assms, of ami_pvOsalMutexHdl] arg_cong [OF assms, of ami_pvOsalMBoxHdl]
    arg_cong [OF assms, of ami_ulFwIfPort] arg_cong [OF assms, of ami_ucMyId]
    arg_cong [OF assms, of ami_pxEvlRecord] arg_cong [OF assms, of ami_ulUpperFirewall]
    arg_cong [OF assms, of ami_ulLowerFirewall] arg_cong [OF assms, of ami_iInitialised]
  by (simp_all add: ami_core_def ami_ready_def ami_firewalls_ok_def)

lemma local_counters [simp]:
  "ami_xRxData (ami_local (AMI_INC_STAT_COUNTER x s)) = ami_xRxData (ami_local s)"
  "ami_xRxData (ami_local (AMI_INC_ERROR_COUNTER_WITH_STATE y s)) = ami_xRxData (ami_local s)"
  "ami_pxFwIf (ami_local (AMI_INC_STAT_COUNTER x s)) = ami_pxFwIf (ami_local s)"
  "ami_pxFwIf (ami_local (AMI_INC_ERROR_COUNTER_WITH_STATE y s)) = ami_pxFwIf (ami_local s)"
  "ami_ulFwIfPort (ami_local (AMI_INC_STAT_COUNTER x s)) = ami_ulFwIfPort (ami_local s)"
  by (rule core_eqD; simp)+

lemma core_upd: "ami_core s' = ami_core s \<Longrightarrow>
    ami_core (upd_ami (\<lambda>d. d\<lparr>ami_xRxData := a\<rparr>) s') = ami_core (upd_ami (\<lambda>d. d\<lparr>ami_xRxData := a\<rparr>) s)"
  by (cases "ami_local s'"; cases "ami_local s") (simp add: ami_core_def upd_ami_def)

text \<open>What a callback may call: setting a response and reading a request.\<close>

lemma set_response_keeps:
  "ami_core (snd (ami_set_response c ty p E sig r s)) = ami_core s"
  by (auto simp: ami_set_response_def ami_post_def ami_invalid_def split: option.split prod.split)

lemma take_keeps: "ami_env_ok E \<Longrightarrow> ami_mutex_take E s = (b, s') \<Longrightarrow> ami_core s' = ami_core s \<and> ami_evl s' = ami_evl s"
  unfolding ami_env_ok_def ami_mutex_take_def by (metis evl_keepsD(1) snd_conv)

lemma release_keeps: "ami_env_ok E \<Longrightarrow> ami_mutex_release E s = (b, s') \<Longrightarrow> ami_core s' = ami_core s \<and> ami_evl s' = ami_evl s"
  unfolding ami_env_ok_def ami_mutex_release_def by (metis evl_keepsD(2) snd_conv)

lemma unlock_keeps: "ami_env_ok E \<Longrightarrow> ami_unlock E st s = (st', s') \<Longrightarrow> ami_core s' = ami_core s"
  by (auto simp: ami_unlock_def dest: release_keeps split: prod.splits if_splits)

lemma get_request_keeps:
  assumes "ami_env_ok E"
  shows "post (ami_get_request c e op view E sig out s) (\<lambda>(st, r, s'). ami_core s' = ami_core s)"
  by (auto simp: ami_get_request_def ami_invalid_def Let_def intro!: postI
      dest!: take_keeps [OF assms] unlock_keeps [OF assms] split: option.splits prod.splits if_splits bind_splits)

section \<open>The slots\<close>

text \<open>A slot in use holds the union's member its operation code reads.\<close>

definition slot_ok :: "AMIProxyRxData \<Rightarrow> bool" where
  "slot_ok x \<longleftrightarrow> (rx_ucInUse x \<longrightarrow>
     (rx_xOpCode x = AMI_CMD_OPCODE_PDI_DOWNLOAD_REQ \<longrightarrow> as_download (rx_request x) \<noteq> None) \<and>
     (rx_xOpCode x = AMI_CMD_OPCODE_PDI_PROGRAM_REQ \<longrightarrow> as_program (rx_request x) \<noteq> None) \<and>
     (rx_xOpCode x = AMI_CMD_OPCODE_PDI_COPY_REQ \<longrightarrow> as_copy (rx_request x) \<noteq> None) \<and>
     (rx_xOpCode x = AMI_CMD_OPCODE_SENSOR_REQ \<longrightarrow> as_sensor (rx_request x) \<noteq> None) \<and>
     (rx_xOpCode x = AMI_CMD_OPCODE_BOOT_SEL_REQ \<longrightarrow> as_boot_select (rx_request x) \<noteq> None) \<and>
     (rx_xOpCode x = AMI_CMD_OPCODE_EEPROM_RW_REQ \<longrightarrow> as_eeprom (rx_request x) \<noteq> None) \<and>
     (rx_xOpCode x = AMI_CMD_OPCODE_MODULE_RW_REQ \<longrightarrow> as_module (rx_request x) \<noteq> None) \<and>
     (rx_xOpCode x = AMI_CMD_OPCODE_DEBUG_VERBOSITY_REQ \<longrightarrow> as_verbosity (rx_request x) \<noteq> None) \<and>
     (rx_xOpCode x = AMI_CMD_OPCODE_FPT_FLAGS_REQ \<longrightarrow> as_fpt_flags (rx_request x) \<noteq> None))"

definition slots_ok :: "'w ami_st \<Rightarrow> bool" where
  "slots_ok s \<longleftrightarrow> (\<forall>i < AMI_RXDATA_SIZE. slot_ok (ami_xRxData (ami_local s) i))"

lemma slots_ok_core: "ami_core s' = ami_core s \<Longrightarrow> slots_ok s' = slots_ok s"
  using core_eqD(1) [of s' s] by (simp add: slots_ok_def)

lemma free_slot_ok: "\<not> rx_ucInUse x \<Longrightarrow> slot_ok x"
  by (simp add: slot_ok_def)

lemma buffer_defined [simp]:
  assumes "length b = AMI_CMD_REQUEST_BYTES"
  shows "i + 4 \<le> 56 \<Longrightarrow> \<exists>v. get32 b i = Some v" "i + 2 \<le> 56 \<Longrightarrow> \<exists>v. get16 b i = Some v"
    "i + 8 \<le> 56 \<Longrightarrow> \<exists>v. get64 b i = Some v" "i < 56 \<Longrightarrow> \<exists>v. get8 b i = Some v"
    "i + n \<le> 56 \<Longrightarrow> \<exists>v. get_bytes b i n = Some v"
  using assms by (simp_all add: get32_def load32_def get16_def get64_def get8_def get_bytes_def)

text \<open>The request a buffer holds, by the code of the operation.\<close>

definition fills :: "(u8 list \<Rightarrow> AMIRequest \<Rightarrow> AMIRequest option) \<Rightarrow> u8 list \<Rightarrow> bool" where
  "fills fill b \<longleftrightarrow> (\<forall>cid op old. req_ulOpCode b = Some op \<longrightarrow>
     okay (fill b old) (\<lambda>r. slot_ok \<lparr>rx_ucInUse = True, rx_xOpCode = op, rx_usCid = cid, rx_request = r\<rparr>))"

lemma parses_defined:
  assumes "length b = AMI_CMD_REQUEST_BYTES"
  shows "parse_download b \<noteq> None" "parse_copy b \<noteq> None" "parse_sensor b \<noteq> None" "parse_boot_select b \<noteq> None"
    "parse_eeprom b \<noteq> None" "parse_module b \<noteq> None" "parse_fpt_flags b \<noteq> None" "req_payload_byte b \<noteq> None"
    "req_usCid b \<noteq> None" "req_ulOpCode b \<noteq> None"
  using assms
  by (simp_all add: parse_download_def parse_copy_def parse_sensor_def parse_boot_select_def parse_eeprom_def
      parse_module_def parse_fpt_flags_def req_payload_byte_def req_usCid_def req_ulOpCode_def
      get32_def load32_def get16_def get64_def get8_def get_bytes_def)

lemma fills_request:
  assumes "length b = AMI_CMD_REQUEST_BYTES"
  shows "req_ulOpCode b = Some AMI_CMD_OPCODE_PDI_DOWNLOAD_REQ \<Longrightarrow> fills fill_download b"
    "req_ulOpCode b = Some AMI_CMD_OPCODE_PDI_PROGRAM_REQ \<Longrightarrow> fills fill_download b"
    "req_ulOpCode b = Some AMI_CMD_OPCODE_PDI_COPY_REQ \<Longrightarrow> fills fill_copy b"
    "req_ulOpCode b = Some AMI_CMD_OPCODE_SENSOR_REQ \<Longrightarrow> fills fill_sensor b"
    "req_ulOpCode b = Some AMI_CMD_OPCODE_IDENTIFY_REQ \<Longrightarrow> fills keep_request b"
    "req_ulOpCode b = Some AMI_CMD_OPCODE_BOOT_SEL_REQ \<Longrightarrow> fills fill_boot_select b"
    "req_ulOpCode b = Some AMI_CMD_OPCODE_HEARTBEAT_REQ \<Longrightarrow> fills keep_request b"
    "req_ulOpCode b = Some AMI_CMD_OPCODE_EEPROM_RW_REQ \<Longrightarrow> fills fill_eeprom b"
    "req_ulOpCode b = Some AMI_CMD_OPCODE_MODULE_RW_REQ \<Longrightarrow> fills fill_module b"
    "req_ulOpCode b = Some AMI_CMD_OPCODE_DEBUG_VERBOSITY_REQ \<Longrightarrow> fills fill_verbosity b"
    "req_ulOpCode b = Some AMI_CMD_OPCODE_FPT_FLAGS_REQ \<Longrightarrow> fills fill_fpt_flags b"
  using parses_defined [OF assms]
  by (auto simp: fills_def slot_ok_def fill_download_def fill_copy_def fill_sensor_def fill_boot_select_def
      fill_eeprom_def fill_module_def fill_verbosity_def fill_fpt_flags_def keep_request_def)

section \<open>A turn is defined and keeps the slots\<close>

text \<open>The invariant of the task: the slots, the log's index, the firmware interface.\<close>

definition ami_inv :: "'w ami_st \<Rightarrow> bool" where
  "ami_inv s \<longleftrightarrow> slots_ok s \<and> iLogIdx (ami_evl s) < EVL_LOG_LEN \<and> ami_pxFwIf (ami_local s) \<noteq> None"

lemma ami_inv_core:
  "ami_core s' = ami_core s \<Longrightarrow> iLogIdx (ami_evl s') < EVL_LOG_LEN \<Longrightarrow> ami_inv s \<Longrightarrow> ami_inv s'"
  using core_eqD(2) [of s' s] slots_ok_core [of s' s] by (simp add: ami_inv_def)

definition first_free :: "'w ami_st \<Rightarrow> nat option" where
  "first_free s = (if ami_ready s then find (\<lambda>i. \<not> rx_ucInUse (ami_xRxData (ami_local s) i)) [0..<AMI_RXDATA_SIZE] else None)"

definition put_slot :: "nat \<Rightarrow> AMIProxyRxData \<Rightarrow> 'w ami_st \<Rightarrow> 'w ami_st" where
  "put_slot k x s = upd_ami (\<lambda>d. d\<lparr>ami_xRxData := (ami_xRxData d)(k := x)\<rparr>) s"

lemma put_slot_keeps [simp]: "ami_evl (put_slot k x s) = ami_evl s" "ami_outside (put_slot k x s) = ami_outside s"
  by (simp_all add: put_slot_def)

lemma put_slot_core: "ami_core s' = ami_core s \<Longrightarrow> ami_core (put_slot k x s') = ami_core (put_slot k x s)"
  by (cases "ami_local s'"; cases "ami_local s") (simp add: ami_core_def put_slot_def upd_ami_def)

lemma put_slot_at [simp]:
  "ami_xRxData (ami_local (put_slot k x s)) = (ami_xRxData (ami_local s))(k := x)"
  "ami_ready (put_slot k x s) = ami_ready s" "ami_pxFwIf (ami_local (put_slot k x s)) = ami_pxFwIf (ami_local s)"
  by (simp_all add: put_slot_def upd_ami_def ami_ready_def ami_firewalls_ok_def)

lemma put_slot_inv:
  assumes "ami_inv s" and "slot_ok x" and "ami_core s' = ami_core (put_slot k x s)" and "iLogIdx (ami_evl s') < EVL_LOG_LEN"
  shows "ami_inv s'"
proof -
  have "slots_ok (put_slot k x s)" using assms(1,2) by (simp add: ami_inv_def slots_ok_def)
  with assms show ?thesis
    using slots_ok_core [OF assms(3)] core_eqD(2) [OF assms(3)] by (simp add: ami_inv_def)
qed

lemma first_free_slot: "first_free s = Some k \<Longrightarrow>
    k < AMI_RXDATA_SIZE \<and> \<not> rx_ucInUse (ami_xRxData (ami_local s) k) \<and> ami_ready s"
  by (auto simp: first_free_def find_Some_iff split: if_splits)

lemma first_free_core: "ami_core s' = ami_core s \<Longrightarrow> first_free s' = first_free s"
  using core_eqD(1,3) [of s' s] by (simp add: first_free_def)

lemma find_next_free:
  "iFindNextFreeRxDataIndex s = (k, s') \<Longrightarrow> k = first_free s \<and> ami_core s' = ami_core s \<and> ami_evl s' = ami_evl s"
  by (auto simp: iFindNextFreeRxDataIndex_def first_free_def split: if_splits)

text \<open>The slot a request is put into, and the state with it.\<close>

definition placed :: "bool \<Rightarrow> u16 \<Rightarrow> u16 \<Rightarrow> (AMIRequest \<Rightarrow> AMIRequest option) \<Rightarrow> 'w ami_st \<Rightarrow> 'w ami_st option" where
  "placed taken opcode cid fill s =
     (case (if taken then first_free s else None) of
        Some k \<Rightarrow> do {
          r \<leftarrow> fill (rx_request (ami_xRxData (ami_local s) k));
          Some (put_slot k \<lparr>rx_ucInUse = True, rx_xOpCode = opcode, rx_usCid = cid, rx_request = r\<rparr> s) }
      | None \<Rightarrow> Some s)"

lemma raise_keeps:
  assumes "ami_env_ok E" and "iLogIdx (ami_evl s) < EVL_LOG_LEN"
  shows "okay (ami_raise E e ev inst s) (\<lambda>(st, s'). ami_core s' = ami_core s \<and> iLogIdx (ami_evl s') < EVL_LOG_LEN)"
proof -
  have "evl_keeps (ami_evl_part E) ami_core" using assms(1) by (simp add: ami_env_ok_def)
  from raise_event_keeps [OF this assms(2)] show ?thesis
    unfolding ami_raise_def okay_bind_iff by (rule okay_weaken) (auto simp: Let_def)
qed

lemma okay_case_prod: "(\<And>a b. p = (a, b) \<Longrightarrow> okay (f a b) Q) \<Longrightarrow> okay (case p of (a, b) \<Rightarrow> f a b) Q"
  by (cases p) simp

lemma take_slot_eq:
  assumes "req_usCid b = Some cid" and "req_ulOpCode b = Some opcode" and "k < AMI_RXDATA_SIZE"
    and "fill b (rx_request (ami_xRxData (ami_local s) k)) = Some r"
  shows "take_slot fill b k s = Some (put_slot k \<lparr>rx_ucInUse = True, rx_xOpCode = opcode, rx_usCid = cid, rx_request = r\<rparr> s)"
  using assms by (auto simp: take_slot_def put_slot_def upd_ami_def arr_get_def arr_set_def)

lemma accept_places:
  assumes E: "ami_env_ok E" and i: "iLogIdx (ami_evl s) < EVL_LOG_LEN"
    and b: "req_usCid b = Some cid" "req_ulOpCode b = Some opcode" and fill: "\<And>old. fill b old \<noteq> None"
  shows "okay (ami_accept E fill e ev inst b s) (\<lambda>(st, n, s'). iLogIdx (ami_evl s') < EVL_LOG_LEN \<and>
    okay (placed (fst (ami_mutex_take E s)) opcode cid (fill b) s) (\<lambda>t. ami_core s' = ami_core t))"
proof -
  obtain taken s1 where t: "ami_mutex_take E s = (taken, s1)" by fastforce
  have s1: "ami_core s1 = ami_core s" "iLogIdx (ami_evl s1) < EVL_LOG_LEN"
    using take_keeps [OF E t] i by auto
  show ?thesis
  proof (cases taken)
    case False
    with t s1 show ?thesis by (simp add: ami_accept_def placed_def)
  next
    case True
    let ?s2 = "AMI_INC_STAT_COUNTER AMI_PROXY_STATS_TAKE_MUTEX s1"
    obtain k s3 where f: "iFindNextFreeRxDataIndex ?s2 = (k, s3)" by fastforce
    have k: "k = first_free s" and s3: "ami_core s3 = ami_core s" "iLogIdx (ami_evl s3) < EVL_LOG_LEN"
      using find_next_free [OF f] s1 first_free_core [of ?s2 s] by simp_all
    show ?thesis
    proof (cases k)
      case None
      obtain rel s4 where r: "ami_mutex_release E (AMI_INC_ERROR_COUNTER_WITH_STATE AMI_PROXY_RX_DATA_INDEX_FAILED s3) = (rel, s4)"
        by fastforce
      have "ami_core s4 = ami_core s" "iLogIdx (ami_evl s4) < EVL_LOG_LEN"
        using release_keeps [OF E r] s3 by auto
      with t True f None k r show ?thesis by (simp add: ami_accept_def placed_def)
    next
      case (Some j)
      have j: "j < AMI_RXDATA_SIZE" using first_free_slot k Some by metis
      obtain v where v: "fill b (rx_request (ami_xRxData (ami_local s) j)) = Some v" using fill by blast
      let ?x = "\<lparr>rx_ucInUse = True, rx_xOpCode = opcode, rx_usCid = cid, rx_request = v\<rparr>"
      have same: "ami_xRxData (ami_local s3) = ami_xRxData (ami_local s)" using core_eqD(1) [OF s3(1)] .
      have ts: "take_slot fill b j s3 = Some (put_slot j ?x s3)"
        by (rule take_slot_eq [where fill = fill, OF b j]) (simp add: same v)
      obtain rel s4 where r: "ami_mutex_release E (put_slot j ?x s3) = (rel, s4)" by fastforce
      define s5 where "s5 = AMI_INC_STAT_COUNTER AMI_PROXY_STATS_RELEASE_MUTEX
        (if rel then s4 else AMI_INC_ERROR_COUNTER_WITH_STATE AMI_PROXY_ERRORS_MUTEX_RELEASE_FAILED s4)"
      have s5: "ami_core s5 = ami_core (put_slot j ?x s)" "iLogIdx (ami_evl s5) < EVL_LOG_LEN"
        using release_keeps [OF E r] s3 put_slot_core [OF s3(1)] by (auto simp: s5_def)
      have "okay (ami_raise E e ev (case inst of Some x \<Rightarrow> x | None \<Rightarrow> of_nat j) s5)
          (\<lambda>(st, s'). ami_core s' = ami_core (put_slot j ?x s) \<and> iLogIdx (ami_evl s') < EVL_LOG_LEN)"
        using raise_keeps [OF E s5(2)] s5(1) by simp
      then obtain st s6 where
        rs: "ami_raise E e ev (case inst of Some x \<Rightarrow> x | None \<Rightarrow> of_nat j) s5 = Some (st, s6)"
        and s6: "ami_core s6 = ami_core (put_slot j ?x s)" "iLogIdx (ami_evl s6) < EVL_LOG_LEN"
        by (auto simp: okay_iff)
      have "ami_accept E fill e ev inst b s = Some (st, of_nat j, s6)"
        using t True f Some ts r rs by (simp add: ami_accept_def s5_def)
      moreover have "placed (fst (ami_mutex_take E s)) opcode cid (fill b) s = Some (put_slot j ?x s)"
        using t True v k [symmetric] Some by (simp add: placed_def)
      ultimately show ?thesis using s6 by simp
    qed
  qed
qed

text \<open>What each operation code puts into its slot.\<close>

definition fill_of :: "u16 \<Rightarrow> (u8 list \<Rightarrow> AMIRequest \<Rightarrow> AMIRequest option) option" where
  "fill_of opcode =
     (if opcode = AMI_CMD_OPCODE_PDI_DOWNLOAD_REQ \<or> opcode = AMI_CMD_OPCODE_PDI_PROGRAM_REQ then Some fill_download
      else if opcode = AMI_CMD_OPCODE_PDI_COPY_REQ then Some fill_copy
      else if opcode = AMI_CMD_OPCODE_SENSOR_REQ then Some fill_sensor
      else if opcode = AMI_CMD_OPCODE_BOOT_SEL_REQ then Some fill_boot_select
      else if opcode = AMI_CMD_OPCODE_IDENTIFY_REQ \<or> opcode = AMI_CMD_OPCODE_HEARTBEAT_REQ then Some keep_request
      else if opcode = AMI_CMD_OPCODE_EEPROM_RW_REQ then Some fill_eeprom
      else if opcode = AMI_CMD_OPCODE_MODULE_RW_REQ then Some fill_module
      else if opcode = AMI_CMD_OPCODE_DEBUG_VERBOSITY_REQ then Some fill_verbosity
      else if opcode = AMI_CMD_OPCODE_FPT_FLAGS_REQ then Some fill_fpt_flags
      else None)"

lemma fills_defined:
  assumes "length b = AMI_CMD_REQUEST_BYTES"
  shows "fill_download b old \<noteq> None" "fill_copy b old \<noteq> None" "fill_sensor b old \<noteq> None"
    "fill_boot_select b old \<noteq> None" "fill_eeprom b old \<noteq> None" "fill_module b old \<noteq> None"
    "fill_verbosity b old \<noteq> None" "fill_fpt_flags b old \<noteq> None" "keep_request b old \<noteq> None"
  using parses_defined [OF assms]
  by (auto simp: fill_download_def fill_copy_def fill_sensor_def fill_boot_select_def fill_eeprom_def
      fill_module_def fill_verbosity_def fill_fpt_flags_def keep_request_def)

text \<open>The outcome of a request: the state with the request placed, up to the counters and the outside.\<close>

definition ends_as :: "'w ami_st option \<Rightarrow> 'w ami_st \<Rightarrow> bool" where
  "ends_as m s' \<longleftrightarrow> iLogIdx (ami_evl s') < EVL_LOG_LEN \<and> okay m (\<lambda>t. ami_core s' = ami_core t)"

lemma ends_as_core: "ends_as m s \<Longrightarrow> ami_core s' = ami_core s \<Longrightarrow> ami_evl s' = ami_evl s \<Longrightarrow> ends_as m s'"
  by (simp add: ends_as_def)

definition outcome :: "'w ami_env \<Rightarrow> u8 list \<Rightarrow> 'w ami_st \<Rightarrow> 'w ami_st option" where
  "outcome E b s = do {
     opcode \<leftarrow> req_ulOpCode b;
     cid \<leftarrow> req_usCid b;
     case fill_of opcode of
       Some fill \<Rightarrow> placed (fst (ami_mutex_take E s)) opcode cid (fill b) s
     | None \<Rightarrow> Some s }"

lemma accept_ends:
  assumes "ami_env_ok E" and "iLogIdx (ami_evl s) < EVL_LOG_LEN" and len: "length b = AMI_CMD_REQUEST_BYTES"
    and opcode: "req_ulOpCode b = Some opcode" and fill: "fill_of opcode = Some fill"
  shows "okay (ami_accept E fill e ev inst b s) (\<lambda>(st, n, s'). ends_as (outcome E b s) s')"
proof -
  obtain cid where cid: "req_usCid b = Some cid" using parses_defined(9) [OF len] by blast
  have "\<And>old. fill b old \<noteq> None"
    using fill fills_defined [OF len] by (auto simp: fill_of_def split: if_splits)
  from accept_places [where fill = fill, OF assms(1,2) cid opcode this] show ?thesis
    by (rule okay_weaken) (auto simp: ends_as_def outcome_def opcode cid fill)
qed

lemma ends_as_refl: "iLogIdx (ami_evl s) < EVL_LOG_LEN \<Longrightarrow> ends_as (Some s) s"
  by (simp add: ends_as_def)

lemma outcome_not_ready:
  assumes "length b = AMI_CMD_REQUEST_BYTES" and "\<not> ami_ready s"
  shows "outcome E b s = Some s"
proof -
  obtain opcode cid where "req_ulOpCode b = Some opcode" "req_usCid b = Some cid"
    using parses_defined(9,10) [OF assms(1)] by blast
  moreover have "first_free s = None" using assms(2) by (simp add: first_free_def)
  ultimately show ?thesis by (auto simp: outcome_def placed_def split: option.split)
qed

lemma case_ends:
  assumes "ami_env_ok E" and "iLogIdx (ami_evl s) < EVL_LOG_LEN" and "length b = AMI_CMD_REQUEST_BYTES"
    and "req_ulOpCode b = Some opcode" and "fill_of opcode = Some fill"
  shows "okay (ami_case E fill e ev b s) (ends_as (outcome E b s))"
  unfolding ami_case_def okay_bind_iff by (rule okay_weaken [OF accept_ends [OF assms]]) auto

lemma handled_ends: "okay m (\<lambda>(st, s'). ends_as t s') \<Longrightarrow> okay (handled e m) (ends_as t)"
  unfolding handled_def okay_bind_iff by (erule okay_weaken) (auto elim!: ends_as_core)

lemma handle_ends:
  assumes "ami_env_ok E" and i: "iLogIdx (ami_evl s) < EVL_LOG_LEN" and len: "length b = AMI_CMD_REQUEST_BYTES"
    and "req_ulOpCode b = Some opcode" and "fill_of opcode = Some fill"
  shows "okay (ami_handle E fill e ev b s) (\<lambda>(st, s'). ends_as (outcome E b s) s')"
proof (cases "ami_ready s")
  case True
  then show ?thesis
    unfolding ami_handle_def by (simp add: okay_bind_iff) (rule okay_weaken [OF accept_ends [OF assms]], auto)
next
  case False
  then show ?thesis using outcome_not_ready [OF len False] i by (simp add: ami_handle_def ends_as_refl)
qed

lemma heartbeat_ends:
  assumes "ami_env_ok E" and i: "iLogIdx (ami_evl s) < EVL_LOG_LEN" and len: "length b = AMI_CMD_REQUEST_BYTES"
    and "req_ulOpCode b = Some AMI_CMD_OPCODE_HEARTBEAT_REQ"
  shows "okay (iHandleHeartbeatRequest E b s) (\<lambda>(st, s'). ends_as (outcome E b s) s')"
proof (cases "ami_ready s")
  case True
  obtain n where n: "req_payload_byte b = Some n" using parses_defined(8) [OF len] by blast
  have f: "fill_of AMI_CMD_OPCODE_HEARTBEAT_REQ = Some keep_request" by (simp add: fill_of_def)
  obtain st k t where a: "ami_accept E keep_request AMI_PROXY_RAISE_EVENT_HEARTBEAT_FAILED
      AMI_PROXY_DRIVER_E_HEARTBEAT (Some n) b s = Some (st, k, t)" and t: "ends_as (outcome E b s) t"
    using accept_ends [OF assms(1-4) f] by (fastforce simp: okay_iff)
  show ?thesis
    using True n a by (auto simp: iHandleHeartbeatRequest_def ami_post_def intro!: ends_as_core [OF t] split: prod.split)
next
  case False
  then show ?thesis using outcome_not_ready [OF len False] i by (simp add: iHandleHeartbeatRequest_def ends_as_refl)
qed

lemma dispatch_ends:
  assumes E: "ami_env_ok E" and i: "iLogIdx (ami_evl s) < EVL_LOG_LEN" and len: "length b = AMI_CMD_REQUEST_BYTES"
  shows "okay (ami_dispatch E b s) (ends_as (outcome E b s))"
proof -
  obtain opcode where op: "req_ulOpCode b = Some opcode" using parses_defined(10) [OF len] by blast
  obtain cid where cid: "req_usCid b = Some cid" using parses_defined(9) [OF len] by blast
  have "fill_of opcode = None \<Longrightarrow> ends_as (outcome E b s) (AMI_INC_ERROR_COUNTER_WITH_STATE AMI_PROXY_UNSUPPORTED_OPCODE_RX s)"
    using i by (simp add: outcome_def op cid ends_as_def)
  moreover note h = handle_ends [OF E i len op] and c = case_ends [OF E i len op]
  ultimately show ?thesis
    using op heartbeat_ends [OF E i len]
    by (auto simp: ami_dispatch_def ami_on_pdi_download_def ami_on_pdi_copy_def ami_on_pdi_program_def ami_on_sensor_def
        ami_on_identify_def ami_on_boot_select_def iHandleEepromRequest_def iHandleModuleRequest_def
        iHandleDebugVerbosityRequest_def iHandleFptFlagsRequest_def fill_of_def intro!: handled_ends)
qed

end
