(* ===== verification/AMI_Requests.thy ===== *)
theory AMI_Requests
  imports AMI_Slots
begin

text \<open>
  The task of the management-interface proxy against its abstract specification, a table of
  at most eight pending requests; what is read back of a request, and how a request is answered.
\<close>

section \<open>A turn keeps the invariant\<close>

lemma outcome_inv:
  assumes inv: "ami_inv s" and len: "length b = AMI_CMD_REQUEST_BYTES" and e: "ends_as (outcome E b s) s'"
  shows "ami_inv s'"
proof -
  obtain opcode cid where op: "req_ulOpCode b = Some opcode" and cid: "req_usCid b = Some cid"
    using parses_defined(9,10) [OF len] by blast
  from e obtain t where t: "outcome E b s = Some t" "ami_core s' = ami_core t" and i: "iLogIdx (ami_evl s') < EVL_LOG_LEN"
    by (auto simp: ends_as_def okay_iff)
  show ?thesis
  proof (cases "t = s")
    case True
    with t i inv show ?thesis by (auto intro: ami_inv_core)
  next
    case False
    with t op cid obtain fill k r where fill: "fill_of opcode = Some fill"
      "fill b (rx_request (ami_xRxData (ami_local s) k)) = Some r"
      and s': "ami_core s' = ami_core (put_slot k \<lparr>rx_ucInUse = True, rx_xOpCode = opcode, rx_usCid = cid, rx_request = r\<rparr> s)"
      by (auto simp: outcome_def placed_def split: option.splits if_splits bind_splits)
    have "fills fill b"
      using fills_request [OF len] op fill(1) by (auto simp: fill_of_def split: if_splits)
    with fill(2) op have "slot_ok \<lparr>rx_ucInUse = True, rx_xOpCode = opcode, rx_usCid = cid, rx_request = r\<rparr>"
      unfolding fills_def okay_iff by (metis option.inject)
    from put_slot_inv [OF inv this s' i] show ?thesis .
  qed
qed

lemma receive_ends:
  assumes E: "ami_env_ok E" and inv: "ami_inv s" and len: "length b = AMI_CMD_REQUEST_BYTES"
    and fw: "ami_pxFwIf (ami_local s) = Some fw"
    and read: "ami_fw_read E fw (ucast (ami_ulFwIfPort (ami_local s))) b (of_nat AMI_CMD_REQUEST_BYTES) (ami_outside s) = (ok, b', w)"
  shows "length b' = AMI_CMD_REQUEST_BYTES \<and>
    okay (ami_receive E (b, s)) (\<lambda>(b1, s1). b1 = b' \<and>
      ends_as (if ok then outcome E b' (s\<lparr>ami_outside := w\<rparr>) else Some (s\<lparr>ami_outside := w\<rparr>)) s1)"
proof -
  have len': "length b' = AMI_CMD_REQUEST_BYTES"
    using E read len unfolding ami_env_ok_def by (metis fst_conv snd_conv)
  have i: "iLogIdx (ami_evl (s\<lparr>ami_outside := w\<rparr>)) < EVL_LOG_LEN" using inv by (simp add: ami_inv_def)
  have "okay (if ok then ami_dispatch E b' (s\<lparr>ami_outside := w\<rparr>) else Some (s\<lparr>ami_outside := w\<rparr>))
      (ends_as (if ok then outcome E b' (s\<lparr>ami_outside := w\<rparr>) else Some (s\<lparr>ami_outside := w\<rparr>)))"
    using dispatch_ends [OF E i len'] ends_as_refl [OF i] by simp
  with len' fw read show ?thesis by (auto simp: ami_receive_def okay_bind_iff okay_iff)
qed

lemma inv_outside [simp]: "ami_inv (s\<lparr>ami_outside := w\<rparr>) = ami_inv s"
  by (simp add: ami_inv_def slots_ok_def)

lemma receive_inv:
  assumes E: "ami_env_ok E" and inv: "ami_inv s" and len: "length b = AMI_CMD_REQUEST_BYTES"
  shows "okay (ami_receive E (b, s)) (\<lambda>(b', s'). ami_inv s' \<and> length b' = AMI_CMD_REQUEST_BYTES)"
proof -
  obtain fw where fw: "ami_pxFwIf (ami_local s) = Some fw" using inv by (auto simp: ami_inv_def)
  obtain ok b' w where r:
    "ami_fw_read E fw (ucast (ami_ulFwIfPort (ami_local s))) b (of_nat AMI_CMD_REQUEST_BYTES) (ami_outside s) = (ok, b', w)"
    by (metis prod_cases3)
  from receive_ends [OF E inv len fw r] obtain s1 where
    s1: "ami_receive E (b, s) = Some (b', s1)" "length b' = AMI_CMD_REQUEST_BYTES"
    "ends_as (if ok then outcome E b' (s\<lparr>ami_outside := w\<rparr>) else Some (s\<lparr>ami_outside := w\<rparr>)) s1"
    by (auto simp: okay_iff)
  have "ami_inv s1"
  proof (cases ok)
    case True
    then show ?thesis using outcome_inv [of "s\<lparr>ami_outside := w\<rparr>" b' E s1] s1 inv by simp
  next
    case False
    then show ?thesis using ami_inv_core [of s1 "s\<lparr>ami_outside := w\<rparr>"] s1(3) inv by (simp add: ends_as_def)
  qed
  with s1 show ?thesis by simp
qed

lemma free_slot_keeps:
  assumes E: "ami_env_ok E" and inv: "ami_inv s" and i: "i < AMI_RXDATA_SIZE"
  shows "okay (ami_free_slot E i s) (\<lambda>s'. ami_evl s' = ami_evl s \<and>
    ami_core s' = ami_core (if fst (ami_mutex_take E s) then put_slot i ((ami_xRxData (ami_local s) i)\<lparr>rx_ucInUse := False\<rparr>) s else s))"
proof -
  obtain taken s1 where t: "ami_mutex_take E s = (taken, s1)" by fastforce
  have s1: "ami_core s1 = ami_core s" "ami_evl s1 = ami_evl s" using take_keeps [OF E t] by simp_all
  let ?s2 = "AMI_INC_STAT_COUNTER AMI_PROXY_STATS_TAKE_MUTEX s1"
  have slots: "ami_xRxData (ami_local s1) = ami_xRxData (ami_local s)" by (rule core_eqD(1)) (simp add: s1)
  let ?y = "(ami_xRxData (ami_local s) i)\<lparr>rx_ucInUse := False\<rparr>"
  obtain st s3 where u: "ami_unlock E OK (put_slot i ?y ?s2) = (st, s3)" by fastforce
  have p: "upd_ami (\<lambda>d. d\<lparr>ami_xRxData := (ami_xRxData (ami_local s))(i := ?y)\<rparr>) ?s2 = put_slot i ?y ?s2"
    unfolding put_slot_def upd_ami_def using slots by simp
  have "ami_evl s3 = ami_evl s"
    using u release_keeps [OF E] s1(2) by (auto simp: ami_unlock_def split: prod.splits if_splits)
  moreover have "ami_core s3 = ami_core (put_slot i ?y s)"
    using unlock_keeps [OF E u] put_slot_core [of ?s2 s] s1(1) by simp
  ultimately show ?thesis
    using t i u s1 by (cases taken) (simp_all add: ami_free_slot_def arr_get_def arr_set_def slots p [simplified])
qed

text \<open>What answering a message does, by whether the write succeeds.\<close>

definition answer_bytes :: "AMIProxyRxData \<Rightarrow> u32 \<Rightarrow> u32 \<Rightarrow> AMI_PROXY_RESULT \<Rightarrow> u8 list" where
  "answer_bytes x p0 p1 r = response_bytes \<lparr>resp_usCid = rx_usCid x, resp_usCState = AMI_CMD_STATE_COMPLETED,
     resp_ulPayload0 = p0, resp_ulPayload1 = p1, resp_ulRCode = ami_result_code r\<rparr>"

lemma answer_keeps:
  assumes E: "ami_env_ok E" and inv: "ami_inv s" and m: "ami_msg_ok m"
  shows "okay (ami_answer E m s) ami_inv"
proof -
  let ?i = "unat (mb_ucRxDataIndex m)"
  have i: "?i < AMI_RXDATA_SIZE" using m by (simp add: ami_msg_ok_def)
  obtain k where k: "answer_payload m = Some k" using m by (auto simp: ami_msg_ok_def)
  show ?thesis
  proof (cases k)
    case None
    then show ?thesis using k inv by (simp add: ami_answer_def ami_inv_def slots_ok_def)
  next
    case (Some a)
    obtain c p0 p1 where a: "a = (c, p0, p1)" by (cases a)
    let ?s1 = "AMI_INC_STAT_COUNTER c s"
    have inv1: "ami_inv ?s1" using inv by (simp add: ami_inv_def slots_ok_def)
    obtain fw where fw: "ami_pxFwIf (ami_local ?s1) = Some fw" using inv1 by (auto simp: ami_inv_def)
    let ?bs = "answer_bytes (ami_xRxData (ami_local ?s1) ?i) p0 p1 (mb_xResult m)"
    obtain ok w where wr: "ami_fw_write E fw (ucast (ami_ulFwIfPort (ami_local ?s1))) ?bs AMI_PROXY_RESPONSE_SIZE
        (ami_outside ?s1) = (ok, w)" by fastforce
    let ?s2 = "?s1\<lparr>ami_outside := w\<rparr>"
    have inv2: "ami_inv ?s2" using inv1 by simp
    have eq: "ami_answer E m s = (if ok then ami_free_slot E ?i ?s2
        else Some (AMI_INC_ERROR_COUNTER_WITH_STATE AMI_PROXY_FW_IF_WRITE_FAILED ?s2))"
      using i k Some a fw wr by (simp add: ami_answer_def ami_write_def arr_get_def answer_bytes_def)
    have "okay (ami_free_slot E ?i ?s2) ami_inv"
    proof (rule okay_weaken [OF free_slot_keeps [OF E inv2 i]], goal_cases)
      case (1 s')
      then show ?case
        using inv2 put_slot_inv [OF inv2 free_slot_ok, of "(ami_xRxData (ami_local ?s2) ?i)\<lparr>rx_ucInUse := False\<rparr>" s' ?i]
          ami_inv_core [of s' ?s2]
        by (auto simp: ami_inv_def split: if_splits)
    qed
    moreover have "ami_inv (AMI_INC_ERROR_COUNTER_WITH_STATE AMI_PROXY_FW_IF_WRITE_FAILED ?s2)"
      using inv2 by (simp add: ami_inv_def slots_ok_def)
    ultimately show ?thesis using eq by simp
  qed
qed

lemma respond_inv:
  assumes E: "ami_env_ok E" and inv: "ami_inv s"
  shows "okay (ami_respond E s) ami_inv"
proof -
  obtain m w where p: "ami_mbox_pend E (ami_pvOsalMBoxHdl (ami_local s)) (ami_outside s) = (m, w)" by fastforce
  have "ami_msg_ok x" if "m = Some x" for x
    using E p that unfolding ami_env_ok_def by (metis fst_conv)
  then show ?thesis
    using p inv answer_keeps [OF E, of "s\<lparr>ami_outside := w\<rparr>"] by (auto simp: ami_respond_def Let_def split: option.split)
qed


section \<open>The table of pending requests\<close>

text \<open>The mutexes are granted, and only that.\<close>

definition ami_quiet :: "'w ami_env \<Rightarrow> bool" where
  "ami_quiet E \<longleftrightarrow> (\<forall>m s. mutex_take (ami_evl_part E) m s = (True, s) \<and> mutex_release (ami_evl_part E) m s = (True, s))"

lemma quiet_simps:
  "ami_quiet E \<Longrightarrow> ami_mutex_take E s = (True, s)" "ami_quiet E \<Longrightarrow> ami_mutex_release E s = (True, s)"
  "ami_quiet E \<Longrightarrow> ami_unlock E st s = (st, AMI_INC_STAT_COUNTER AMI_PROXY_STATS_RELEASE_MUTEX s)"
  by (simp_all add: ami_quiet_def ami_mutex_take_def ami_mutex_release_def ami_unlock_def)

text \<open>
  The abstract state: for each index the operation code and the command's number of the request
  waiting there.  A request takes the first free index; an answer frees its own.
\<close>

definition pending :: "'w ami_st \<Rightarrow> nat \<rightharpoonup> u16 \<times> u16" where
  "pending s = (\<lambda>i. let x = ami_xRxData (ami_local s) i in
     if i < AMI_RXDATA_SIZE \<and> rx_ucInUse x then Some (rx_xOpCode x, rx_usCid x) else None)"

definition known_opcode :: "u16 \<Rightarrow> bool" where
  "known_opcode opcode \<longleftrightarrow> opcode \<in> {0, 2, 3, 4, 5, 6, 0xA, 0xB, 0xC, 0xD, 0x202}"

definition spec_receive :: "u16 \<Rightarrow> u16 \<Rightarrow> (nat \<rightharpoonup> u16 \<times> u16) \<Rightarrow> nat \<rightharpoonup> u16 \<times> u16" where
  "spec_receive opcode cid p =
     (if known_opcode opcode then
        (case find (\<lambda>i. p i = None) [0..<AMI_RXDATA_SIZE] of Some k \<Rightarrow> p(k \<mapsto> (opcode, cid)) | None \<Rightarrow> p)
      else p)"

lemma pending_core: "ami_core s' = ami_core s \<Longrightarrow> pending s' = pending s"
  using core_eqD(1) [of s' s] by (simp add: pending_def)

lemma pending_outside [simp]: "pending (s\<lparr>ami_outside := w\<rparr>) = pending s"
  by (simp add: pending_def)

lemma pending_counters [simp]:
  "pending (AMI_INC_STAT_COUNTER c s) = pending s" "pending (AMI_INC_ERROR_COUNTER_WITH_STATE e s) = pending s"
  by (rule pending_core, simp)+

lemma pending_put:
  "k < AMI_RXDATA_SIZE \<Longrightarrow> pending (put_slot k x s) =
     (pending s)(k := if rx_ucInUse x then Some (rx_xOpCode x, rx_usCid x) else None)"
  by (auto simp: pending_def Let_def fun_eq_iff)

lemma find_cong_on: "(\<And>x. x \<in> set xs \<Longrightarrow> f x = g x) \<Longrightarrow> find f xs = find g xs"
  by (induction xs) auto

lemma first_free_pending:
  assumes "ami_ready s"
  shows "first_free s = find (\<lambda>i. pending s i = None) [0..<AMI_RXDATA_SIZE]"
  unfolding first_free_def using assms by (auto simp: pending_def Let_def intro!: find_cong_on)

lemma known_fill: "known_opcode opcode \<longleftrightarrow> fill_of opcode \<noteq> None"
  by (auto simp: known_opcode_def fill_of_def)

lemma outcome_pending:
  assumes q: "ami_quiet E" and ready: "ami_ready s" and len: "length b = AMI_CMD_REQUEST_BYTES"
    and op: "req_ulOpCode b = Some opcode" and cid: "req_usCid b = Some cid" and e: "ends_as (outcome E b s) s'"
  shows "pending s' = spec_receive opcode cid (pending s)"
proof -
  from e obtain t where t: "outcome E b s = Some t" and c: "ami_core s' = ami_core t"
    by (auto simp: ends_as_def okay_iff)
  have "pending t = spec_receive opcode cid (pending s)"
    using t op cid first_free_slot [of s] quiet_simps(1) [OF q, of s]
    by (auto simp: outcome_def placed_def spec_receive_def known_fill first_free_pending [OF ready, symmetric] pending_put
        split: option.splits bind_splits)
  with pending_core [OF c] show ?thesis by simp
qed

text \<open>
  C33: Receiving a request refines a bounded table of pending requests: a known request takes the
  first free index, any other request and any request beyond the eighth leaves the table as it
  is.
\<close>

theorem ami_receive_refines:
  assumes "ami_env_ok E" and "ami_quiet E" and "ami_inv s" and "ami_ready s" and "length b = AMI_CMD_REQUEST_BYTES"
    and "ami_pxFwIf (ami_local s) = Some fw"
    and "ami_fw_read E fw (ucast (ami_ulFwIfPort (ami_local s))) b (of_nat AMI_CMD_REQUEST_BYTES) (ami_outside s) = (ok, b', w)"
    and "req_ulOpCode b' = Some opcode" and "req_usCid b' = Some cid"
  shows "okay (ami_receive E (b, s)) (\<lambda>(b1, s1). b1 = b' \<and>
    pending s1 = (if ok then spec_receive opcode cid (pending s) else pending s))"
proof -
  from receive_ends [OF assms(1,3,5,6,7)] obtain s1 where len: "length b' = AMI_CMD_REQUEST_BYTES"
    and r: "ami_receive E (b, s) = Some (b', s1)"
    and e: "ends_as (if ok then outcome E b' (s\<lparr>ami_outside := w\<rparr>) else Some (s\<lparr>ami_outside := w\<rparr>)) s1"
    by (auto simp: okay_iff)
  have ready: "ami_ready (s\<lparr>ami_outside := w\<rparr>)" using assms(4) by (simp add: ami_ready_def ami_firewalls_ok_def)
  show ?thesis
  proof (cases ok)
    case True
    then show ?thesis using r e outcome_pending [OF assms(2) ready len assms(8,9)] by simp
  next
    case False
    then show ?thesis using r e pending_core [of s1 "s\<lparr>ami_outside := w\<rparr>"] by (simp add: ends_as_def)
  qed
qed

section \<open>Answers\<close>

text \<open>
  C34: An answer writes the sixteen bytes of a response with the number of the request waiting at
  the message's index, and frees that index, and only that one, once the write has succeeded.
\<close>

theorem ami_answer_carries_cid:
  assumes "ami_env_ok E" and "ami_quiet E" and "ami_inv s" and "i < AMI_RXDATA_SIZE"
    and "ami_pxFwIf (ami_local s) = Some fw" and "pending s i = Some (opcode, cid)"
    and "unat (mb_ucRxDataIndex m) = i" and "answer_payload m = Some (Some (c, p0, p1))"
    and "ami_fw_write E fw (ucast (ami_ulFwIfPort (ami_local s)))
      (ami_le16 cid @ [0, 0] @ le_bytes32 p0 @ le_bytes32 p1 @ le_bytes32 (ami_result_code (mb_xResult m)))
      AMI_PROXY_RESPONSE_SIZE (ami_outside s) = (ok, w)"
  shows "okay (ami_answer E m s) (\<lambda>s'. ami_outside s' = w \<and>
    pending s' = (if ok then (pending s)(i := None) else pending s))"
proof -
  let ?s1 = "AMI_INC_STAT_COUNTER c s"
  let ?x = "ami_xRxData (ami_local s) i"
  have x: "rx_usCid ?x = cid" "rx_ucInUse ?x" using assms(4,6) by (auto simp: pending_def Let_def split: if_splits)
  have bytes: "answer_bytes ?x p0 p1 r =
      ami_le16 cid @ [0, 0] @ le_bytes32 p0 @ le_bytes32 p1 @ le_bytes32 (ami_result_code r)" for r
    by (simp add: answer_bytes_def response_bytes_def x ami_le16_def)
  have port: "ami_ulFwIfPort (ami_local ?s1) = ami_ulFwIfPort (ami_local s)" by simp
  let ?s2 = "?s1\<lparr>ami_outside := w\<rparr>"
  have eq: "ami_answer E m s = (if ok then ami_free_slot E i ?s2
      else Some (AMI_INC_ERROR_COUNTER_WITH_STATE AMI_PROXY_FW_IF_WRITE_FAILED ?s2))"
    using assms(4,5,7-9) by (simp add: ami_answer_def ami_write_def arr_get_def bytes [unfolded answer_bytes_def])
  show ?thesis
  proof (cases ok)
    case True
    let ?y = "?x\<lparr>rx_ucInUse := False\<rparr>"
    let ?s3 = "AMI_INC_STAT_COUNTER AMI_PROXY_STATS_TAKE_MUTEX ?s2"
    have "ami_free_slot E i ?s2 = Some (AMI_INC_STAT_COUNTER AMI_PROXY_STATS_RELEASE_MUTEX (put_slot i ?y ?s3))"
      using assms(4) by (simp add: ami_free_slot_def quiet_simps [OF assms(2)] arr_get_def arr_set_def put_slot_def upd_ami_def
          AMI_INC_STAT_COUNTER_def)
    moreover have "pending (put_slot i ?y ?s3) = (pending s)(i := None)"
      using assms(4) by (simp add: pending_put)
    ultimately show ?thesis using eq True by simp
  next
    case False
    with eq show ?thesis by simp
  qed
qed

section \<open>Reading a request back\<close>

lemma get_request_eq:
  assumes q: "ami_quiet E" and ready: "ami_ready s" and inst: "unat (ucInstance sig) = k" and k: "k < AMI_RXDATA_SIZE"
  defines "x \<equiv> ami_xRxData (ami_local s) k"
  shows "rx_ucInUse x \<Longrightarrow> rx_xOpCode x = opcode \<Longrightarrow> view (rx_request x) = Some r \<Longrightarrow>
      \<exists>s'. ami_get_request c e opcode view E (Some sig) True s = Some (OK, Some r, s')"
    "rx_xOpCode x \<noteq> opcode \<Longrightarrow> \<exists>s'. ami_get_request c e opcode view E (Some sig) True s = Some (ERROR, None, s') \<and>
      pending s' = pending s"
  using assms by (simp_all add: ami_get_request_def quiet_simps)

text \<open>The state after a request was put into slot \<open>k\<close> and its event was raised.\<close>

lemma outcome_slot:
  assumes q: "ami_quiet E" and len: "length b = AMI_CMD_REQUEST_BYTES" and free: "first_free s = Some k"
    and op: "req_ulOpCode b = Some opcode" and cid: "req_usCid b = Some cid" and fill: "fill_of opcode = Some fill"
    and r: "fill b (rx_request (ami_xRxData (ami_local s) k)) = Some r" and e: "ends_as (outcome E b s) s'"
  shows "k < AMI_RXDATA_SIZE" "ami_ready s'"
    "ami_xRxData (ami_local s') k = \<lparr>rx_ucInUse = True, rx_xOpCode = opcode, rx_usCid = cid, rx_request = r\<rparr>"
proof -
  let ?x = "\<lparr>rx_ucInUse = True, rx_xOpCode = opcode, rx_usCid = cid, rx_request = r\<rparr>"
  have "outcome E b s = Some (put_slot k ?x s)"
    using op cid fill free r quiet_simps(1) [OF q, of s] by (simp add: outcome_def placed_def)
  with e have c: "ami_core s' = ami_core (put_slot k ?x s)" by (simp add: ends_as_def)
  show "k < AMI_RXDATA_SIZE" "ami_ready s'" "ami_xRxData (ami_local s') k = ?x"
    using first_free_slot [OF free] core_eqD(1,3) [OF c] by simp_all
qed

lemma raise_logs:
  assumes "ami_quiet E" and "evl_ready (ami_evl s)" and "ami_pxEvlRecord (ami_local s) = Some rec"
  shows "post (ami_raise E e ev inst s) (\<lambda>(st, s'). log_view (ami_evl s') = tl (log_view (ami_evl s)) @
    [\<lparr>ucModule = ami_ucMyId (ami_local s), ucEventType = ev, ucInstance = inst, ucAdditionalData = 0\<rparr>])"
proof -
  have "\<And>m w. fst (mutex_take (ami_evl_part E) m w)" using assms(1) by (simp add: ami_quiet_def)
  from raise_event_view [OF assms(2) this] show ?thesis
    unfolding ami_raise_def post_bind_iff assms(3)
    by (rule post_weaken [OF okay_post]) (auto simp: Let_def)
qed

lemma accept_logs:
  assumes q: "ami_quiet E" and "evl_ready (ami_evl s)" and rec: "ami_pxEvlRecord (ami_local s) = Some rec"
    and free: "first_free s = Some k"
  shows "post (ami_accept E fill e ev None b s) (\<lambda>(st, n, s'). last (log_view (ami_evl s')) =
    \<lparr>ucModule = ami_ucMyId (ami_local s), ucEventType = ev, ucInstance = of_nat k, ucAdditionalData = 0\<rparr>)"
proof (rule postI, clarsimp)
  fix st n s'
  assume a: "ami_accept E fill e ev None b s = Some (st, n, s')"
  let ?s1 = "AMI_INC_STAT_COUNTER AMI_PROXY_STATS_TAKE_MUTEX s"
  have f: "iFindNextFreeRxDataIndex ?s1 = (Some k, ?s1)"
  proof -
    have ready: "ami_ready ?s1" using first_free_slot [OF free] core_eqD(3) [of ?s1 s] by simp
    then have "iFindNextFreeRxDataIndex ?s1 = (first_free ?s1, ?s1)"
      by (simp add: iFindNextFreeRxDataIndex_def first_free_def)
    then show ?thesis using first_free_core [of ?s1 s] free by simp
  qed
  from a q f obtain t where t: "take_slot fill b k ?s1 = Some t"
    and r: "ami_raise E e ev (of_nat k) (AMI_INC_STAT_COUNTER AMI_PROXY_STATS_RELEASE_MUTEX t) = Some (st, s')"
    by (auto simp: ami_accept_def quiet_simps split: bind_splits)
  obtain x where "t = put_slot k x ?s1"
    using t by (auto simp: take_slot_def put_slot_def upd_ami_def split: bind_splits)
  then have "ami_evl t = ami_evl s" "ami_pxEvlRecord (ami_local t) = Some rec" "ami_ucMyId (ami_local t) = ami_ucMyId (ami_local s)"
    using rec by (simp_all add: put_slot_def upd_ami_def AMI_INC_STAT_COUNTER_def)
  moreover define u where "u = AMI_INC_STAT_COUNTER AMI_PROXY_STATS_RELEASE_MUTEX t"
  moreover have "ami_pxEvlRecord (ami_local u) = ami_pxEvlRecord (ami_local t)" "ami_ucMyId (ami_local u) = ami_ucMyId (ami_local t)"
    by (simp_all add: u_def AMI_INC_STAT_COUNTER_def upd_ami_def)
  ultimately have "evl_ready (ami_evl u)" "ami_pxEvlRecord (ami_local u) = Some rec" "ami_ucMyId (ami_local u) = ami_ucMyId (ami_local s)"
    using assms(2) by simp_all
  from postD [OF raise_logs [OF q this(1,2)] r [folded u_def]] this(3)
  show "last (log_view (ami_evl s')) = \<lparr>ucModule = ami_ucMyId (ami_local s), ucEventType = ev, ucInstance = of_nat k, ucAdditionalData = 0\<rparr>"
    by simp
qed


section \<open>Concrete instances\<close>

text \<open>Services that always succeed; the host's next request is \<open>req\<close>, the outside is what was written last.\<close>

definition sample_ami_evl :: "u8 list ami_st evl_env" where
  "sample_ami_evl = \<lparr>mutex_create = (\<lambda>s. (Some 1, s)), mutex_take = (\<lambda>m s. (True, s)),
     mutex_release = (\<lambda>m s. (True, s)), mem_alloc = (\<lambda>s. (True, s)), uptime_ms = (\<lambda>s. (0, s)),
     evl_callback = (\<lambda>cb sig s. (OK, s))\<rparr>"

definition sample_ami_env :: "u8 list \<Rightarrow> u8 list ami_env" where
  "sample_ami_env req = \<lparr>ami_evl_part = sample_ami_evl, ami_fw_open = (\<lambda>fw w. (True, w)),
     ami_fw_read = (\<lambda>fw p b n w. (True, if length req = length b then req else b, w)),
     ami_fw_write = (\<lambda>fw p b n w. (True, b)), ami_mbox_create = (\<lambda>w. (Some 1, w)),
     ami_mbox_post = (\<lambda>h m w. (True, w)), ami_mbox_pend = (\<lambda>h w. (None, w)),
     ami_task_create = (\<lambda>w. (True, w)), ami_uptime_ms = (\<lambda>w. (0, w)), ami_sleep = (\<lambda>n w. w)\<rparr>"

definition sample_ami :: "u8 list ami_st" where
  "sample_ami = \<lparr>ami_local = initial_ami_local\<lparr>ami_iInitialised := True, ami_ucMyId := 3, ami_pxFwIf := Some 2,
       ami_pxEvlRecord := Some sample_record, ami_pvOsalMutexHdl := Some 1, ami_pvOsalMBoxHdl := Some 1,
       ami_xState := MODULE_STATE_OK\<rparr>,
     ami_evl = sample_evl_data, ami_outside = []\<rparr>"

text \<open>The same with a copy request of number 7 waiting in slot 0.\<close>

definition sample_ami_copy :: "u8 list ami_st" where
  "sample_ami_copy = put_slot 0 \<lparr>rx_ucInUse = True, rx_xOpCode = AMI_CMD_OPCODE_PDI_COPY_REQ, rx_usCid = 7,
     rx_request = CopyRequest \<lparr>cp_ullAddress = 0, cp_ulMaxLength = 0, cp_ulSrcDevice = 0, cp_ulSrcPartition = 1,
       cp_ulDestDevice = 0, cp_ulDestPartition = 2\<rparr>\<rparr> sample_ami"

text \<open>A request by its operation code and number.\<close>

definition sample_request :: "u8 \<Rightarrow> u8 \<Rightarrow> u8 list" where
  "sample_request opcode cid = [opcode, 0, 0, 0, cid, 0] @ replicate 50 0"

lemma sample_ami_env_ok: "ami_env_ok (sample_ami_env req)" "ami_quiet (sample_ami_env req)"
  by (simp_all add: ami_env_ok_def ami_quiet_def evl_keeps_def sample_ami_env_def sample_ami_evl_def)

lemma sample_ami_facts:
  "ami_inv sample_ami" "ami_ready sample_ami" "first_free sample_ami = Some 0" "evl_ready (ami_evl sample_ami)"
  "ami_pxFwIf (ami_local sample_ami) = Some 2" "ami_pxEvlRecord (ami_local sample_ami) = Some sample_record"
  "ami_ucMyId (ami_local sample_ami) = 3" "pending sample_ami = (\<lambda>_. None)"
  by (simp_all add: ami_inv_def slots_ok_def slot_ok_def first_free_def ami_ready_def ami_firewalls_ok_def sample_ami_def
      initial_ami_local_def free_slot_def sample_evl_data_def evl_ready_def evl_firewalls_ok_def
      pending_def Let_def upt_rec fun_eq_iff)

lemma sample_copy_facts:
  "ami_inv sample_ami_copy" "ami_pxFwIf (ami_local sample_ami_copy) = Some 2"
  "pending sample_ami_copy 0 = Some (AMI_CMD_OPCODE_PDI_COPY_REQ, 7)"
  using sample_ami_facts(1,5) by (simp_all add: sample_ami_copy_def ami_inv_def slots_ok_def slot_ok_def pending_put)

lemma sample_request_facts:
  "length (sample_request opcode cid) = AMI_CMD_REQUEST_BYTES"
  "req_ulOpCode (sample_request opcode cid) = Some (ucast opcode)" "req_usCid (sample_request opcode cid) = Some (ucast cid)"
  by (simp_all add: sample_request_def req_ulOpCode_def req_usCid_def get16_def get8_def numeral_eq_Suc)

lemma sample_read: "length b = AMI_CMD_REQUEST_BYTES \<Longrightarrow>
    ami_fw_read (sample_ami_env (sample_request opcode cid)) fw p b n w = (True, sample_request opcode cid, w)"
  by (simp add: sample_ami_env_def sample_request_facts)


lemma ami_receive_refines_witness:
  "okay (ami_receive (sample_ami_env (sample_request 10 5)) (sample_request 0 0, sample_ami)) (\<lambda>(b1, s1).
     b1 = sample_request 10 5 \<and> pending s1 = [0 \<mapsto> (AMI_CMD_OPCODE_PDI_DOWNLOAD_REQ, 5)])"
  using ami_receive_refines [OF sample_ami_env_ok sample_ami_facts(1,2) sample_request_facts(1) [of 0 0] sample_ami_facts(5)
      sample_read [OF sample_request_facts(1)] sample_request_facts(2,3), of 10 5]
  by (simp add: spec_receive_def known_opcode_def sample_ami_facts upt_rec)

lemma ami_answer_carries_cid_witness:
  "okay (ami_answer (sample_ami_env []) \<lparr>mb_eMsgType = AMI_MSG_TYPE_PDI_COPY_COMPLETE, mb_ucRxDataIndex = 0,
       mb_xResult = AMI_PROXY_RESULT_FAILURE, mb_payload = NoPayload\<rparr> sample_ami_copy)
     (\<lambda>s'. ami_outside s' = [7, 0, 0, 0, 0, 0, 0, 0, 0, 0, 0, 0, 1, 0, 0, 0] \<and>
       pending s' = (pending sample_ami_copy)(0 := None))"
proof -
  have "ami_fw_write (sample_ami_env []) fw p b n w = (True, b)" for fw p b n w
    by (simp add: sample_ami_env_def)
  from ami_answer_carries_cid [OF sample_ami_env_ok sample_copy_facts(1) _ sample_copy_facts(2,3) _ _ this,
      of "\<lparr>mb_eMsgType = AMI_MSG_TYPE_PDI_COPY_COMPLETE, mb_ucRxDataIndex = 0,
       mb_xResult = AMI_PROXY_RESULT_FAILURE, mb_payload = NoPayload\<rparr>" AMI_PROXY_STATS_PDI_COPY_MBOX_PEND 0 0]
  show ?thesis by (simp add: answer_payload_def ami_le16_def le_bytes32_def)
qed


end
