(* ===== verification/Host_AMI.thy ===== *)
theory Host_AMI
  imports Host_Proxy AMI_Requests
begin

text \<open>
  The host's proxy and the firmware's proxy together: every request the host writes is read by the
  firmware as the host meant it, up to the widths of the fields; every response the firmware writes
  completes the command with its number; and what the host makes of the result.
\<close>

section \<open>Reading what was written\<close>

lemma le_word32_parts [simp]:
  "le_word32 (ucast w) (ucast (drop_bit 8 w)) (ucast (drop_bit 16 w)) (ucast (drop_bit 24 w)) = w"
  by (rule le_word32_bytes) (simp add: le_bytes32_def)

lemma get32_here [simp]: "get32 (le_bytes32 v @ ys) 0 = Some v" "get32 (le_bytes32 v) 0 = Some v"
  by (simp_all add: get32_def load32_def le_bytes32_def)

lemma get32_skip: "length xs \<le> i \<Longrightarrow> get32 (xs @ ys) i = get32 ys (i - length xs)"
  by (auto simp: get32_def load32_def nth_append Suc_diff_le)

lemma word16_of_bytes: "ucast (ucast w :: u8) OR push_bit 8 (ucast (ucast (drop_bit 8 w) :: u8)) = (w :: u16)"
  by (rule bit_word_eqI) (auto simp: bit_simps not_le)

lemma get16_here [simp]: "get16 (ami_le16 v @ ys) 0 = Some v"
  by (simp add: get16_def get8_def ami_le16_def word16_of_bytes)

lemma get16_skip: "length xs \<le> i \<Longrightarrow> get16 (xs @ ys) i = get16 ys (i - length xs)"
  by (auto simp: get16_def get8_def nth_append Suc_diff_le)

lemma get8_skip: "length xs \<le> i \<Longrightarrow> get8 (xs @ ys) i = get8 ys (i - length xs)"
  by (auto simp: get8_def nth_append)

lemma word64_parts: "ucast (ucast w :: u32) OR push_bit 32 (ucast (ucast (drop_bit 32 w) :: u32)) = (w :: u64)"
  by (rule bit_word_eqI) (auto simp: bit_simps not_le)

lemma get64_here [simp]: "get64 (le_bytes64 v @ ys) 0 = Some v"
  by (simp add: get64_def le_bytes64_def get32_skip word64_parts)

lemma get64_skip: "length xs \<le> i \<Longrightarrow> get64 (xs @ ys) i = get64 ys (i - length xs)"
  by (simp add: get64_def get32_skip)

lemma get_bytes_here: "length xs = n \<Longrightarrow> get_bytes (xs @ ys) 0 n = Some xs"
  by (simp add: get_bytes_def)

lemma get_bytes_skip: "length xs \<le> i \<Longrightarrow> get_bytes (xs @ ys) i n = get_bytes ys (i - length xs) n"
  by (auto simp: get_bytes_def)

lemma length_parts [simp]: "length (le_bytes64 a) = 8" "length (ami_le16 h) = 2"
  by (simp_all add: le_bytes64_def ami_le16_def)

lemmas skips = get32_skip get16_skip get8_skip get64_skip get_bytes_skip get_bytes_here

text \<open>Bit fields read what was packed.\<close>

lemma bit_field_bits: "bit (bit_field i n v) k \<longleftrightarrow> k < n \<and> bit v (i + k)"
  by (simp add: bit_field_def bit_simps)

lemma bit_field_here [simp]: "bit_field 0 n (pack_bits ((n, v) # fs)) = take_bit n v"
  by (rule bit_word_eqI) (auto simp: bit_field_bits bit_simps)

lemma bit_field_skip: "n \<le> i \<Longrightarrow> i + m \<le> 32 \<Longrightarrow> bit_field i m (pack_bits ((n, v) # fs)) = bit_field (i - n) m (pack_bits fs)"
  by (rule bit_word_eqI) (auto simp: bit_field_bits bit_simps)

lemma bit_field_none [simp]: "bit_field i n (pack_bits []) = 0"
  by (rule bit_word_eqI) (simp add: bit_field_bits)

lemma ucast_pack_bits [simp]: "ucast (pack_bits ((16, v) # fs)) = (ucast v :: u16)"
  by (rule bit_word_eqI) (auto simp: bit_simps)

section \<open>The requests\<close>

text \<open>A request of the host, its bytes, and what an application of the firmware is to read of it.\<close>

datatype host_request =
    Identity_Request
  | Sensor_Request amc_proxy_sensor_request
  | Download_Request amc_proxy_pdi_download_request
  | Boot_Request amc_proxy_pdi_download_request
  | Copy_Request amc_proxy_partition_copy_request
  | Heartbeat_Request u8
  | Eeprom_Request amc_proxy_eeprom_rw_request
  | Module_Request amc_proxy_module_rw_request
  | Verbosity_Request u8
  | Fpt_Request amc_proxy_fpt_partition_request

primrec host_bytes :: "host_request \<Rightarrow> u16 \<Rightarrow> u8 list" where
  "host_bytes Identity_Request = identity_request"
| "host_bytes (Sensor_Request r) = sensor_request r"
| "host_bytes (Download_Request r) = pdi_download_request r"
| "host_bytes (Boot_Request r) = device_boot_request r"
| "host_bytes (Copy_Request r) = partition_copy_request r"
| "host_bytes (Heartbeat_Request n) = heartbeat_request n"
| "host_bytes (Eeprom_Request r) = eeprom_read_write_request r"
| "host_bytes (Module_Request r) = module_read_write_request r"
| "host_bytes (Verbosity_Request v) = debug_verbosity_request v"
| "host_bytes (Fpt_Request r) = set_fpt_partition_request r"

primrec host_opcode :: "host_request \<Rightarrow> u16" where
  "host_opcode Identity_Request = AMI_CMD_OPCODE_IDENTIFY_REQ"
| "host_opcode (Sensor_Request r) = AMI_CMD_OPCODE_SENSOR_REQ"
| "host_opcode (Download_Request r) = AMI_CMD_OPCODE_PDI_DOWNLOAD_REQ"
| "host_opcode (Boot_Request r) = AMI_CMD_OPCODE_BOOT_SEL_REQ"
| "host_opcode (Copy_Request r) = AMI_CMD_OPCODE_PDI_COPY_REQ"
| "host_opcode (Heartbeat_Request n) = AMI_CMD_OPCODE_HEARTBEAT_REQ"
| "host_opcode (Eeprom_Request r) = AMI_CMD_OPCODE_EEPROM_RW_REQ"
| "host_opcode (Module_Request r) = AMI_CMD_OPCODE_MODULE_RW_REQ"
| "host_opcode (Verbosity_Request v) = AMI_CMD_OPCODE_DEBUG_VERBOSITY_REQ"
| "host_opcode (Fpt_Request r) = AMI_CMD_OPCODE_FPT_FLAGS_REQ"

definition flag :: "bool \<Rightarrow> u32" where
  "flag b = (if b then 1 else 0)"

text \<open>A download names a partition, or one of four targets by a magic number.\<close>

definition meant_download :: "amc_proxy_pdi_download_request \<Rightarrow> AMIProxyPdiDownloadRequest" where
  "meant_download r = (let p = pq_partition r in
     \<lparr>dl_iBootDevice = take_bit 1 (pq_boot_device r), dl_iUpdateFpt = flag (p = FPT_UPDATE_MAGIC),
      dl_iPdiProgram = flag (p = PDI_PROGRAM_MAGIC), dl_iApuPdiProgram = flag (p = PDI_APU_PROGRAM_MAGIC),
      dl_iRpuPdiProgram = flag (p = PDI_RPU_PROGRAM_MAGIC), dl_iLastPacket = ucast (take_bit 1 (pq_last_chunk r)),
      dl_ullAddress = pq_address r, dl_ulLength = pq_length r,
      dl_ulPartitionSel = (if p \<in> {FPT_UPDATE_MAGIC, PDI_PROGRAM_MAGIC, PDI_APU_PROGRAM_MAGIC, PDI_RPU_PROGRAM_MAGIC}
        then 0 else take_bit 4 p),
      dl_usPacketNum = take_bit 15 (pq_chunk r), dl_ulPacketSize = pq_chunk_size r, dl_pucPdiMd5 = pq_pdi_md5 r,
      dl_ulPdiSize = pq_pdi_size r\<rparr>)"

primrec meant :: "host_request \<Rightarrow> AMIRequest \<Rightarrow> AMIRequest" where
  "meant Identity_Request old = old"
| "meant (Sensor_Request r) old = SensorRequest \<lparr>sr_xRequest = ucast (sq_req r), sr_xRepo = ucast (sq_repo r),
     sr_ulSensorId = take_bit 8 (sq_sensor_id r), sr_ulLength = sq_length r, sr_ullAddress = sq_address r\<rparr>"
| "meant (Download_Request r) old = DownloadRequest (meant_download r)"
| "meant (Boot_Request r) old = BootSelectRequest \<lparr>bs_ulPartitionSel = take_bit 4 (pq_partition r)\<rparr>"
| "meant (Copy_Request r) old = CopyRequest \<lparr>cp_ullAddress = cq_address r, cp_ulMaxLength = cq_length r,
     cp_ulSrcDevice = take_bit 1 (cq_src_device r), cp_ulSrcPartition = take_bit 4 (cq_src_part r),
     cp_ulDestDevice = take_bit 1 (cq_dest_device r), cp_ulDestPartition = take_bit 4 (cq_dest_part r)\<rparr>"
| "meant (Heartbeat_Request n) old = old"
| "meant (Eeprom_Request r) old = EepromReadWriteRequest \<lparr>ee_xRequest = ucast (take_bit 1 (eq_type r)),
     ee_ullAddress = eq_address r, ee_ulLength = ucast (eq_length r), ee_ulOffset = ucast (eq_offset r)\<rparr>"
| "meant (Module_Request r) old = ModuleReadWriteRequest \<lparr>mo_xRequest = ucast (take_bit 1 (mq_type r)),
     mo_ullAddress = mq_address r, mo_ucExDeviceId = mq_device_id r, mo_ucPage = mq_page r,
     mo_ucByteOffset = mq_offset r, mo_ucLength = mq_length r\<rparr>"
| "meant (Verbosity_Request v) old = DebugVerbosityRequest v"
| "meant (Fpt_Request r) old = FptFlagsRequest \<lparr>fp_xRequest = ucast (fq_req_type r), fp_ulBootDevice = fq_boot_device r,
     fp_ulPartitionId = fq_partition r, fp_ulType = fq_type r, fp_ulBaseAddr = fq_base_addr r, fp_ulSize = fq_size r,
     fp_pdi_md5 = fq_pdi_md5 r, fp_ulPdiSize = fq_pdi_size r, fp_ulFlags = fq_flags r\<rparr>"

text \<open>The checksum's array has sixteen bytes.\<close>

primrec request_wf :: "host_request \<Rightarrow> bool" where
  "request_wf Identity_Request = True"
| "request_wf (Sensor_Request r) = True"
| "request_wf (Download_Request r) = (length (pq_pdi_md5 r) = 16)"
| "request_wf (Boot_Request r) = True"
| "request_wf (Copy_Request r) = True"
| "request_wf (Heartbeat_Request n) = True"
| "request_wf (Eeprom_Request r) = True"
| "request_wf (Module_Request r) = True"
| "request_wf (Verbosity_Request v) = True"
| "request_wf (Fpt_Request r) = (length (fq_pdi_md5 r) = 16)"

lemmas request_defs = identity_request_def sensor_request_def pdi_download_request_def device_boot_request_def
  partition_copy_request_def heartbeat_request_def eeprom_read_write_request_def module_read_write_request_def
  debug_verbosity_request_def set_fpt_partition_request_def

lemmas payload_defs = sensor_payload_def pdi_download_payload_def device_boot_payload_def partition_copy_payload_def
  eeprom_payload_def module_payload_def fpt_partition_payload_def

lemma request_bytes_header:
  "req_ulOpCode (request_bytes opcode count cid payload) = Some (ucast opcode)"
  "req_usCid (request_bytes opcode count cid payload) = Some cid"
proof -
  have "get16 (le_bytes32 v @ ys) 0 = Some (ucast v)" for v ys
  proof -
    have "ucast (ucast v :: u8) OR push_bit 8 (ucast (ucast (drop_bit 8 v) :: u8)) = (ucast v :: u16)"
      by (rule bit_word_eqI) (auto simp: bit_simps not_le)
    then show ?thesis by (simp add: get16_def get8_def le_bytes32_def)
  qed
  then show "req_ulOpCode (request_bytes opcode count cid payload) = Some (ucast opcode)"
    by (simp add: req_ulOpCode_def request_bytes_def del: pack_bits.simps)
  show "req_usCid (request_bytes opcode count cid payload) = Some cid"
    by (simp add: req_usCid_def request_bytes_def skips del: pack_bits.simps)
qed

lemma length_request_bytes: "length payload \<le> 48 \<Longrightarrow> length (request_bytes opcode count cid payload) = AMI_CMD_REQUEST_BYTES"
  by (simp add: request_bytes_def)

lemma host_bytes_header:
  assumes "request_wf h"
  shows "length (host_bytes h cid) = AMI_CMD_REQUEST_BYTES" "req_ulOpCode (host_bytes h cid) = Some (host_opcode h)"
    "req_usCid (host_bytes h cid) = Some cid"
  using assms by (cases h; simp add: request_defs request_bytes_header length_request_bytes payload_defs del: pack_bits.simps)+

lemma payload_at:
  assumes "8 \<le> i"
  shows "get32 (request_bytes opcode count cid p) i = get32 (p @ replicate (48 - length p) 0) (i - 8)"
    "get64 (request_bytes opcode count cid p) i = get64 (p @ replicate (48 - length p) 0) (i - 8)"
    "get16 (request_bytes opcode count cid p) i = get16 (p @ replicate (48 - length p) 0) (i - 8)"
    "get8 (request_bytes opcode count cid p) i = get8 (p @ replicate (48 - length p) 0) (i - 8)"
    "get_bytes (request_bytes opcode count cid p) i n = get_bytes (p @ replicate (48 - length p) 0) (i - 8) n"
  using assms by (simp_all add: request_bytes_def skips del: pack_bits.simps)

lemma parse_sensor_request: "parse_sensor (sensor_request r cid) = Some \<lparr>sr_xRequest = ucast (sq_req r), sr_xRepo = ucast (sq_repo r),
     sr_ulSensorId = take_bit 8 (sq_sensor_id r), sr_ulLength = sq_length r, sr_ullAddress = sq_address r\<rparr>"
proof -
  have "ucast (take_bit 8 v :: u32) = (ucast v :: u8)" for v
    by (rule bit_word_eqI) (auto simp: bit_simps)
  then show ?thesis
    by (simp add: parse_sensor_def sensor_request_def payload_at sensor_payload_def skips bit_field_skip del: pack_bits.simps)
qed

lemma bit_field_ones: "bit_field i n 0 = 0" "take_bit 1 (0 :: u32) = 0" "take_bit 1 (1 :: u32) = 1" "take_bit 4 (0 :: u32) = 0"
  by (simp_all add: bit_field_def)

lemma download_flags:
  "bit_field 14 1 (pdi_download_flags r) = take_bit 1 (pq_boot_device r)"
  "bit_field 12 1 (pdi_download_flags r) = flag (pq_partition r = FPT_UPDATE_MAGIC)"
  "bit_field 13 1 (pdi_download_flags r) = flag (pq_partition r = PDI_PROGRAM_MAGIC)"
  "bit_field 17 1 (pdi_download_flags r) = flag (pq_partition r = PDI_APU_PROGRAM_MAGIC)"
  "bit_field 18 1 (pdi_download_flags r) = flag (pq_partition r = PDI_RPU_PROGRAM_MAGIC)"
  "bit_field 8 4 (pdi_download_flags r) = (if pq_partition r \<in>
     {FPT_UPDATE_MAGIC, PDI_PROGRAM_MAGIC, PDI_APU_PROGRAM_MAGIC, PDI_RPU_PROGRAM_MAGIC} then 0 else take_bit 4 (pq_partition r))"
  by (simp_all add: pdi_download_flags_def Let_def bit_field_skip bit_field_ones flag_def del: pack_bits.simps)

lemma packet_bits:
  "take_bit 1 (packet_field a b) = take_bit 1 a" "drop_bit 1 (packet_field a b) = take_bit 15 b"
proof -
  have "take_bit n (take_bit n a OR push_bit n (take_bit (16 - n) b)) = take_bit n a"
    "drop_bit n (take_bit n a OR push_bit n (take_bit (16 - n) b)) = take_bit (16 - n) b" for n
    by (rule bit_word_eqI; auto simp: bit_simps dest: bit_out_of_range)+
  from this [of 1] show "take_bit 1 (packet_field a b) = take_bit 1 a" "drop_bit 1 (packet_field a b) = take_bit 15 b"
    unfolding packet_field_def by simp_all
qed

lemma parse_download_request:
  "length (pq_pdi_md5 r) = 16 \<Longrightarrow> parse_download (pdi_download_request r cid) = Some (meant_download r)"
  by (simp add: parse_download_def pdi_download_request_def payload_at pdi_download_payload_def skips
      download_flags [simplified] packet_bits [simplified] meant_download_def Let_def)

lemma parse_boot_request: "parse_boot_select (device_boot_request r cid) = Some \<lparr>bs_ulPartitionSel = take_bit 4 (pq_partition r)\<rparr>"
  by (simp add: parse_boot_select_def device_boot_request_def payload_at device_boot_payload_def skips bit_field_skip
      del: pack_bits.simps)

lemma parse_copy_request: "parse_copy (partition_copy_request r cid) = Some \<lparr>cp_ullAddress = cq_address r, cp_ulMaxLength = cq_length r,
     cp_ulSrcDevice = take_bit 1 (cq_src_device r), cp_ulSrcPartition = take_bit 4 (cq_src_part r),
     cp_ulDestDevice = take_bit 1 (cq_dest_device r), cp_ulDestPartition = take_bit 4 (cq_dest_part r)\<rparr>"
  by (simp add: parse_copy_def partition_copy_request_def payload_at partition_copy_payload_def skips bit_field_skip
      del: pack_bits.simps)

lemma take_ucast8: "take_bit 8 (ucast v :: u32) = ucast (v :: u8)"
  by (rule bit_word_eqI) (auto simp: bit_simps dest: bit_out_of_range)

lemma parse_eeprom_request: "parse_eeprom (eeprom_read_write_request r cid) = Some \<lparr>ee_xRequest = ucast (take_bit 1 (eq_type r)),
     ee_ullAddress = eq_address r, ee_ulLength = ucast (eq_length r), ee_ulOffset = ucast (eq_offset r)\<rparr>"
  by (simp add: parse_eeprom_def eeprom_read_write_request_def payload_at eeprom_payload_def skips bit_field_skip take_ucast8
      del: pack_bits.simps)

lemma four_bytes: "get8 ([a, b, c, d] @ ys) 0 = Some a" "get8 ([a, b, c, d] @ ys) (Suc 0) = Some b"
  "get8 ([a, b, c, d] @ ys) 2 = Some c" "get8 ([a, b, c, d] @ ys) 3 = Some d" "get32 ([a, b, c, d] @ ys) 4 = get32 ys 0"
  using get32_skip [of "[a, b, c, d]" 4 ys] by (simp_all add: get8_def numeral_2_eq_2 numeral_3_eq_3)

lemma parse_module_request: "parse_module (module_read_write_request r cid) = Some \<lparr>mo_xRequest = ucast (take_bit 1 (mq_type r)),
     mo_ullAddress = mq_address r, mo_ucExDeviceId = mq_device_id r, mo_ucPage = mq_page r,
     mo_ucByteOffset = mq_offset r, mo_ucLength = mq_length r\<rparr>"
  by (simp add: parse_module_def module_read_write_request_def payload_at module_payload_def get64_skip get8_skip get32_skip
      four_bytes del: pack_bits.simps append_Cons get8_Some)

lemma parse_fpt_request: "length (fq_pdi_md5 r) = 16 \<Longrightarrow> parse_fpt_flags (set_fpt_partition_request r cid) = Some
    \<lparr>fp_xRequest = ucast (fq_req_type r), fp_ulBootDevice = fq_boot_device r,
     fp_ulPartitionId = fq_partition r, fp_ulType = fq_type r, fp_ulBaseAddr = fq_base_addr r, fp_ulSize = fq_size r,
     fp_pdi_md5 = fq_pdi_md5 r, fp_ulPdiSize = fq_pdi_size r, fp_ulFlags = fq_flags r\<rparr>"
  by (simp add: parse_fpt_flags_def set_fpt_partition_request_def payload_at fpt_partition_payload_def skips)

lemma byte_request: "req_payload_byte (request_bytes opcode count cid [v]) = Some v"
proof -
  have "get8 ([v] @ ys) 0 = Some v" for ys by (simp add: get8_def)
  then show ?thesis unfolding req_payload_byte_def by (simp only: payload_at(4) order.refl diff_self_eq_0)
qed

lemma fill_request:
  assumes "request_wf h" and "fill_of (host_opcode h) = Some fill"
  shows "fill (host_bytes h cid) old = Some (meant h old)"
  using assms
  by (cases h)
    (auto simp: fill_of_def fill_download_def fill_copy_def fill_sensor_def fill_boot_select_def fill_eeprom_def fill_module_def
      fill_verbosity_def fill_fpt_flags_def keep_request_def parse_sensor_request parse_download_request parse_boot_request
      parse_copy_request parse_eeprom_request parse_module_request parse_fpt_request debug_verbosity_request_def byte_request)

lemma fill_of_host: "\<exists>fill. fill_of (host_opcode h) = Some fill"
  by (cases h) (simp_all add: fill_of_def)

text \<open>
  C37: Every request the host writes is stored by the firmware as the host meant it, field by
  field and up to the widths of the fields, with its operation code and number.
\<close>

theorem request_reaches_application:
  assumes "ami_env_ok E" and "ami_quiet E" and "ami_inv s" and "length b = AMI_CMD_REQUEST_BYTES"
    and "ami_pxFwIf (ami_local s) = Some fw" and "first_free s = Some k" and "request_wf h"
    and "ami_fw_read E fw (ucast (ami_ulFwIfPort (ami_local s))) b (of_nat AMI_CMD_REQUEST_BYTES) (ami_outside s)
      = (True, host_bytes h cid, w)"
  shows "okay (ami_receive E (b, s)) (\<lambda>(b', s'). ami_xRxData (ami_local s') k =
    \<lparr>rx_ucInUse = True, rx_xOpCode = host_opcode h, rx_usCid = cid,
     rx_request = meant h (rx_request (ami_xRxData (ami_local s) k))\<rparr>)"
proof -
  let ?s = "s\<lparr>ami_outside := w\<rparr>"
  note hdr = host_bytes_header [OF assms(7)]
  obtain fill where fill: "fill_of (host_opcode h) = Some fill" using fill_of_host by blast
  from receive_ends [OF assms(1,3,4,5,8)] obtain s1 where
    r: "ami_receive E (b, s) = Some (host_bytes h cid, s1)" and e: "ends_as (outcome E (host_bytes h cid) ?s) s1"
    by (auto simp: okay_iff)
  have free: "first_free ?s = Some k" using first_free_core [of ?s s] assms(6) by simp
  from outcome_slot(3) [OF assms(2) hdr(1) free hdr(2,3) fill fill_request [OF assms(7) fill] e] r show ?thesis by simp
qed

lemma request_reaches_application_witness:
  "okay (ami_receive (sample_ami_env (host_bytes (Sensor_Request \<lparr>sq_req = 1, sq_repo = 2, sq_sensor_id = 3,
       sq_length = 64, sq_address = 0x1000\<rparr>) 9)) (sample_request 0 0, sample_ami)) (\<lambda>(b', s').
     ami_xRxData (ami_local s') 0 = \<lparr>rx_ucInUse = True, rx_xOpCode = AMI_CMD_OPCODE_SENSOR_REQ, rx_usCid = 9,
       rx_request = SensorRequest \<lparr>sr_xRequest = 1, sr_xRepo = 2, sr_ulSensorId = 3, sr_ulLength = 64,
         sr_ullAddress = 0x1000\<rparr>\<rparr>)"
  (is "okay (ami_receive (sample_ami_env (host_bytes ?h 9)) _) _")
proof -
  have wf: "request_wf ?h" by simp
  have read: "ami_fw_read (sample_ami_env (host_bytes ?h 9)) fw p (sample_request 0 0) n w = (True, host_bytes ?h 9, w)" for fw p n w
    using host_bytes_header(1) [OF wf, of 9] by (simp add: sample_ami_env_def sample_request_facts)
  from request_reaches_application [OF sample_ami_env_ok sample_ami_facts(1) sample_request_facts(1)
      sample_ami_facts(5,3) wf read]
  show ?thesis by simp
qed

end
