(* ===== verification/Host_Answers.thy ===== *)
theory Host_Answers
  imports Host_AMI
begin

text \<open>
  The way back: a response the firmware writes completes the host's command of its number, and
  what the host's callers read of it; the responses that are lost or misread.
\<close>

section \<open>Completing a command\<close>

lemma find_cmd_first:
  assumes "\<And>q. q \<in> set xs \<Longrightarrow> \<exists>d. m q = Some d \<and> cmd_cid d \<noteq> cid" and "m p = Some c" and "cmd_cid c = cid"
  shows "find_cmd m cid (xs @ p # ys) = Some (Some p)"
  using assms(1)
proof (induction xs)
  case (Cons q xs)
  then obtain d where "m q = Some d" "cmd_cid d \<noteq> cid" by (meson list.set_intros(1))
  with Cons show ?case by simp
qed (simp add: assms(2,3))

lemma find_cmd_none:
  "(\<And>q. q \<in> set ps \<Longrightarrow> \<exists>d. m q = Some d \<and> cmd_cid d \<noteq> cid) \<Longrightarrow> find_cmd m cid ps = Some None"
proof (induction ps)
  case (Cons q ps)
  then obtain d where "m q = Some d" "cmd_cid d \<noteq> cid" by (meson list.set_intros(1))
  with Cons show ?case by simp
qed simp

lemma find_entry_same:
  "m a = Some e \<Longrightarrow> gcq_handle e' = gcq_handle e \<Longrightarrow> find_entry (m(a \<mapsto> e')) g as = find_entry m g as"
  by (induction as) (auto simp: fun_eq_iff intro!: arg_cong [of _ _ "Option.bind (m _)"])

lemma response_bytes_fields:
  "get16 (response_bytes r) 0 = Some (resp_usCid r)"
  "get_bytes (response_bytes r) 4 8 = Some (le_bytes32 (resp_ulPayload0 r) @ le_bytes32 (resp_ulPayload1 r))"
  "get32 (response_bytes r) 12 = Some (resp_ulRCode r)"
proof -
  have "get_bytes ((ami_le16 a @ ami_le16 b) @ (le_bytes32 c @ le_bytes32 d) @ le_bytes32 e) 4 8 = Some (le_bytes32 c @ le_bytes32 d)"
    for a b c d e
    using get_bytes_skip [of "ami_le16 a @ ami_le16 b" 4 "(le_bytes32 c @ le_bytes32 d) @ le_bytes32 e" 8]
      get_bytes_here [of "le_bytes32 c @ le_bytes32 d" 8 "le_bytes32 e"] by simp
  then show "get_bytes (response_bytes r) 4 8 = Some (le_bytes32 (resp_ulPayload0 r) @ le_bytes32 (resp_ulPayload1 r))"
    by (simp add: response_bytes_def)
  have "get32 ((ami_le16 a @ ami_le16 b @ le_bytes32 c @ le_bytes32 d) @ le_bytes32 e) 12 = Some e" for a b c d e
    using get32_skip [of "ami_le16 a @ ami_le16 b @ le_bytes32 c @ le_bytes32 d" 12 "le_bytes32 e"] by simp
  then show "get32 (response_bytes r) 12 = Some (resp_ulRCode r)" by (simp add: response_bytes_def)
qed (simp add: response_bytes_def)

text \<open>The state in which the completion of the command at \<open>p\<close> is reported.\<close>

definition completed :: "nat \<Rightarrow> nat \<Rightarrow> AMIProxyCmdResp \<Rightarrow> 'w proxy_st \<Rightarrow> 'w proxy_st option" where
  "completed a p r s = do {
     s \<leftarrow> upd_cmd p (\<lambda>c. c\<lparr>cmd_response := le_bytes32 (resp_ulPayload0 r) @ le_bytes32 (resp_ulPayload1 r),
            cmd_response_code := resp_ulRCode r\<rparr>) s;
     list_del a p s }"

lemma cmd_complete_at:
  assumes "entries s a = Some e" and "submitted_cmds e = xs @ p # ys"
    and "\<And>q. q \<in> set xs \<Longrightarrow> \<exists>d. cmds s q = Some d \<and> cmd_cid d \<noteq> resp_usCid r"
    and "cmds s p = Some c" and "cmd_cid c = resp_usCid r"
  shows "cmd_complete E a (response_bytes r) s = Option.bind (completed a p r s) (raise_proxy_event E a AMC_PROXY_EVENT_RESPONSE_COMPLETE p)"
  using assms find_cmd_first [of xs "cmds s" "resp_usCid r" p c ys]
  by (simp add: cmd_complete_def response_bytes_fields completed_def)

lemma cmd_complete_unknown:
  assumes "entries s a = Some e" and "\<And>q. q \<in> set (submitted_cmds e) \<Longrightarrow> \<exists>d. cmds s q = Some d \<and> cmd_cid d \<noteq> resp_usCid r"
  shows "cmd_complete E a (response_bytes r) s = Some s"
  using assms(1) find_cmd_none [OF assms(2)] by (simp add: cmd_complete_def response_bytes_fields)

text \<open>What is read of the completed command.\<close>

lemma completed_reads:
  assumes "entries s a = Some e" and "initialised e" and "cmds s p = Some c"
    and "find_matching_gcq_proxy_instance (cmd_gcq_cfg c) s = Some (Some a)"
  obtains s1 where "completed a p r s = Some s1"
    "entries s1 = (entries s)(a \<mapsto> e\<lparr>submitted_cmds := remove1 p (submitted_cmds e)\<rparr>)"
    "cmds s1 = (cmds s)(p \<mapsto> c\<lparr>cmd_response := le_bytes32 (resp_ulPayload0 r) @ le_bytes32 (resp_ulPayload1 r),
            cmd_response_code := resp_ulRCode r\<rparr>)"
    "cmd_entry p s1 = Some (Some a)"
proof -
  let ?c = "c\<lparr>cmd_response := le_bytes32 (resp_ulPayload0 r) @ le_bytes32 (resp_ulPayload1 r), cmd_response_code := resp_ulRCode r\<rparr>"
  let ?s1 = "s\<lparr>cmds := (cmds s)(p \<mapsto> ?c), entries := (entries s)(a \<mapsto> e\<lparr>submitted_cmds := remove1 p (submitted_cmds e)\<rparr>)\<rparr>"
  show ?thesis
  proof (rule that [of ?s1])
    show "cmd_entry p ?s1 = Some (Some a)"
      using assms find_entry_same [of "entries s" a e "e\<lparr>submitted_cmds := remove1 p (submitted_cmds e)\<rparr>"]
      by (simp add: cmd_entry_def find_matching_gcq_proxy_instance_def)
  qed (use assms in \<open>simp_all add: completed_def upd_cmd_def list_del_def upd_entry_def\<close>)
qed

section \<open>The results\<close>

text \<open>The error the host's callers are to see for a result of the firmware.\<close>

primrec errno_of :: "AMI_PROXY_RESULT \<Rightarrow> int" where
  "errno_of AMI_PROXY_RESULT_SUCCESS = 0"
| "errno_of AMI_PROXY_RESULT_FAILURE = - EIO"
| "errno_of AMI_PROXY_RESULT_INVALID_VALUE = - EINVAL"
| "errno_of AMI_PROXY_RESULT_GET_REQUEST_FAILED = - EPROTO"
| "errno_of AMI_PROXY_RESULT_PROCESS_REQUEST_FAILED = - EPROTO"
| "errno_of AMI_PROXY_RESULT_ALREADY_IN_PROGRESS = - EALREADY"
| "errno_of AMI_PROXY_RESULT_INVALID_CONFIGURATION = - ENODATA"

lemma errno_of_code: "amc_result_to_linux_errno (ami_result_code r) = errno_of r"
  by (cases r) (simp_all add: amc_result_to_linux_errno_def)

text \<open>The response the firmware's task writes for a message.\<close>

definition answer_of :: "u16 \<Rightarrow> AMIProxyMboxMsg \<Rightarrow> AMIProxyCmdResp" where
  "answer_of cid m =
     (case answer_payload m of
        Some (Some (n, p0, p1)) \<Rightarrow> \<lparr>resp_usCid = cid, resp_usCState = AMI_CMD_STATE_COMPLETED, resp_ulPayload0 = p0,
          resp_ulPayload1 = p1, resp_ulRCode = ami_result_code (mb_xResult m)\<rparr>
      | _ \<Rightarrow> no_response)"

text \<open>What the host reads of it, by the operation that reads it.\<close>

definition host_reads_result :: "nat \<Rightarrow> AMIProxyMboxMsg \<Rightarrow> 'w proxy_st \<Rightarrow> bool" where
  "host_reads_result p m s \<longleftrightarrow> (let e = errno_of (mb_xResult m) in
     (case mb_eMsgType m of
        AMI_MSG_TYPE_PDI_DOWNLOAD_COMPLETE \<Rightarrow> amc_proxy_get_response_pdi_download (Some p) s = Some (e, None)
      | AMI_MSG_TYPE_PDI_COPY_COMPLETE \<Rightarrow> amc_proxy_get_response_partition_copy (Some p) s = Some (e, None)
      | AMI_MSG_TYPE_BOOT_SELECT_COMPLETE \<Rightarrow> amc_proxy_get_response_device_boot (Some p) s = Some (e, None)
      | AMI_MSG_TYPE_EEPROM_RW_COMPLETE \<Rightarrow> amc_proxy_get_response_eeprom_read_write (Some p) s = Some (e, None)
      | AMI_MSG_TYPE_MODULE_RW_COMPLETE \<Rightarrow> amc_proxy_get_response_module_read_write (Some p) s = Some (e, None)
      | AMI_MSG_TYPE_DEBUG_VERBOSITY_COMPLETE \<Rightarrow> amc_proxy_get_response_debug_verbosity (Some p) s = Some (e, None)
      | AMI_MSG_TYPE_FPT_FLAGS_COMPLETE \<Rightarrow> amc_proxy_get_response_set_fpt_partition (Some p) s = Some (e, None)
      | AMI_MSG_TYPE_HEARTBEAT_COMPLETE \<Rightarrow>
          (\<exists>n. mb_payload m = MboxHeartbeat n \<and> amc_proxy_get_response_heartbeat (Some p) s = Some (e, Some n))
      | AMI_MSG_TYPE_IDENTITY_COMPLETE \<Rightarrow>
          (\<exists>v. mb_payload m = MboxIdentity v \<and> amc_proxy_get_response_identity (Some p) True s = Some (0, Some v))
      | AMI_MSG_TYPE_SENSOR_COMPLETE \<Rightarrow> amc_proxy_get_response_sensor (Some p) s = Some (0, None)
      | AMI_MSG_TYPE_PDI_PROGRAM_COMPLETE \<Rightarrow> True))"

lemma word32_bytes:
  "(ucast (ucast a OR push_bit 8 (ucast b) OR push_bit 16 (ucast c) OR push_bit 24 (ucast d) :: u32) :: u8) = a"
  "(ucast (drop_bit 8 (ucast a OR push_bit 8 (ucast b) OR push_bit 16 (ucast c) OR push_bit 24 (ucast d) :: u32)) :: u8) = b"
  "(ucast (drop_bit 16 (ucast a OR push_bit 8 (ucast b) OR push_bit 16 (ucast c) OR push_bit 24 (ucast d) :: u32)) :: u8) = c"
  "(ucast (drop_bit 24 (ucast a OR push_bit 8 (ucast b) OR push_bit 16 (ucast c) OR push_bit 24 (ucast d) :: u32)) :: u8) = d"
  for a b c d :: u8
  by (rule bit_word_eqI; auto simp: bit_simps dest: bit_out_of_range)+

lemma word16_parts:
  "(ucast (ucast (ucast h OR push_bit 16 (ucast c) OR push_bit 24 (ucast d) :: u32) :: u8) OR
     push_bit 8 (ucast (ucast (drop_bit 8 (ucast h OR push_bit 16 (ucast c) OR push_bit 24 (ucast d) :: u32)) :: u8))) = h"
  "(ucast (drop_bit 16 (ucast h OR push_bit 16 (ucast c) OR push_bit 24 (ucast d) :: u32)) :: u8) = c"
  "(ucast (drop_bit 24 (ucast h OR push_bit 16 (ucast c) OR push_bit 24 (ucast d) :: u32)) :: u8) = d"
  for h :: u16 and c d :: u8
  by (rule bit_word_eqI; auto simp: bit_simps not_le dest: bit_out_of_range)+

lemma identity_bytes:
  "(ucast (fst (identity_words v)) :: u8) = id_ucVerMajor v" "(ucast (drop_bit 8 (fst (identity_words v))) :: u8) = id_ucVerMinor v"
  "(ucast (drop_bit 16 (fst (identity_words v))) :: u8) = id_ucVerPatch v"
  "(ucast (drop_bit 24 (fst (identity_words v))) :: u8) = id_ucLocalChanges v"
  "ucast (ucast (snd (identity_words v)) :: u8) OR push_bit 8 (ucast (ucast (drop_bit 8 (snd (identity_words v))) :: u8))
     = id_usDevCommits v"
  "(ucast (drop_bit 16 (snd (identity_words v))) :: u8) = id_ucLinkVerMajor v"
  "(ucast (drop_bit 24 (snd (identity_words v))) :: u8) = id_ucLinkVerMinor v"
  unfolding identity_words_def fst_conv snd_conv by (rule word32_bytes word16_parts)+

lemma identity_read:
  assumes "cmd_entry p s = Some (Some a)" and "cmds s p = Some c"
    and "cmd_response c = le_bytes32 (fst (identity_words v)) @ le_bytes32 (snd (identity_words v))"
  shows "amc_proxy_get_response_identity (Some p) True s = Some (0, Some v)"
proof -
  have at: "get8 (le_bytes32 x @ le_bytes32 y) 0 = Some (ucast x)" "get8 (le_bytes32 x @ le_bytes32 y) 1 = Some (ucast (drop_bit 8 x))"
    "get8 (le_bytes32 x @ le_bytes32 y) 2 = Some (ucast (drop_bit 16 x))" "get8 (le_bytes32 x @ le_bytes32 y) 3 = Some (ucast (drop_bit 24 x))"
    "get16 (le_bytes32 x @ le_bytes32 y) 4 = Some (ucast (ucast y :: u8) OR push_bit 8 (ucast (ucast (drop_bit 8 y) :: u8)))"
    "get8 (le_bytes32 x @ le_bytes32 y) 6 = Some (ucast (drop_bit 16 y))" "get8 (le_bytes32 x @ le_bytes32 y) 7 = Some (ucast (drop_bit 24 y))"
    for x y
    by (simp_all add: get16_def get8_def le_bytes32_def numeral_eq_Suc)
  show ?thesis
    using assms at [of "fst (identity_words v)" "snd (identity_words v)"]
    by (simp add: amc_proxy_get_response_identity_def proxy_response_def identity_bytes del: get8_Some)
qed

lemma ucast_byte: "ucast (ucast n :: u32) = (n :: u8)"
  by (rule bit_word_eqI) (auto simp: bit_simps dest: bit_out_of_range)

lemmas response_reads = amc_proxy_get_response_pdi_download_def amc_proxy_get_response_partition_copy_def
  amc_proxy_get_response_device_boot_def amc_proxy_get_response_eeprom_read_write_def
  amc_proxy_get_response_module_read_write_def amc_proxy_get_response_debug_verbosity_def
  amc_proxy_get_response_set_fpt_partition_def amc_proxy_get_response_heartbeat_def amc_proxy_get_response_sensor_def

text \<open>The first submitted command of a number: its entry, and the commands around it.\<close>

definition first_of_cid :: "nat \<Rightarrow> u16 \<Rightarrow> nat \<Rightarrow> nat list \<Rightarrow> nat list \<Rightarrow> 'w proxy_st \<Rightarrow> bool" where
  "first_of_cid a cid p xs ys s \<longleftrightarrow>
     (case entries s a of None \<Rightarrow> False | Some e \<Rightarrow> initialised e \<and> submitted_cmds e = xs @ p # ys) \<and>
     (case cmds s p of None \<Rightarrow> False | Some c \<Rightarrow> cmd_cid c = cid) \<and>
     cmd_entry p s = Some (Some a) \<and> p \<notin> set xs \<and>
     list_all (\<lambda>q. case cmds s q of None \<Rightarrow> False | Some d \<Rightarrow> cmd_cid d \<noteq> cid) xs"

lemma complete_reads:
  assumes "first_of_cid a cid p xs ys s" and "answer_payload m = Some (Some (n, p0, p1))"
  shows "\<exists>s1. cmd_complete E a (response_bytes (answer_of cid m)) s =
      raise_proxy_event E a AMC_PROXY_EVENT_RESPONSE_COMPLETE p s1 \<and>
    map_option submitted_cmds (entries s1 a) = Some (xs @ ys) \<and> host_reads_result p m s1"
proof -
  let ?r = "answer_of cid m"
  have r: "resp_usCid ?r = cid" "resp_ulPayload0 ?r = p0" "resp_ulPayload1 ?r = p1" "resp_ulRCode ?r = ami_result_code (mb_xResult m)"
    by (simp_all add: answer_of_def assms(2))
  obtain e c where at: "entries s a = Some e" "initialised e" "submitted_cmds e = xs @ p # ys" "cmds s p = Some c" "cmd_cid c = cid"
    "find_matching_gcq_proxy_instance (cmd_gcq_cfg c) s = Some (Some a)" "p \<notin> set xs"
    using assms(1) by (auto simp: first_of_cid_def cmd_entry_def split: option.splits bind_splits if_splits)
  have other: "\<exists>d. cmds s q = Some d \<and> cmd_cid d \<noteq> resp_usCid ?r" if "q \<in> set xs" for q
    using assms(1) that r(1) by (auto simp: first_of_cid_def list_all_iff split: option.splits)
  obtain s1 where s1: "completed a p ?r s = Some s1"
    "entries s1 = (entries s)(a \<mapsto> e\<lparr>submitted_cmds := remove1 p (submitted_cmds e)\<rparr>)"
    "cmds s1 = (cmds s)(p \<mapsto> c\<lparr>cmd_response := le_bytes32 p0 @ le_bytes32 p1, cmd_response_code := ami_result_code (mb_xResult m)\<rparr>)"
    "cmd_entry p s1 = Some (Some a)"
    using completed_reads [OF at(1,2,4,6), of ?r] r by metis
  have "cmd_complete E a (response_bytes ?r) s = raise_proxy_event E a AMC_PROXY_EVENT_RESPONSE_COMPLETE p s1"
    using cmd_complete_at [OF at(1,3) other at(4), of E] at(5) s1(1) r(1) by simp
  moreover have "map_option submitted_cmds (entries s1 a) = Some (xs @ ys)"
    using s1(2) at(3,7) by (simp add: remove1_append)
  moreover have "host_reads_result p m s1"
    using s1(3,4) assms(2) identity_read [OF s1(4)]
    by (cases "mb_eMsgType m"; cases "mb_payload m")
      (auto simp: host_reads_result_def answer_payload_def proxy_response_def by_return_code_def errno_of_code ucast_byte
        response_reads)
  ultimately show ?thesis by blast
qed

text \<open>
  C38: The firmware's response completes the host's first command of its number, removes only
  that one from the list, and the host reads the result, the version or the count the firmware
  put there; for a sensor it reads success whatever the result.
\<close>

theorem result_reaches_host:
  assumes "first_of_cid a cid p xs ys s" and "answer_payload m = Some (Some (n, p0, p1))"
  shows "\<exists>s1. cmd_complete E a (response_bytes (answer_of cid m)) s =
      raise_proxy_event E a AMC_PROXY_EVENT_RESPONSE_COMPLETE p s1 \<and>
    map_option submitted_cmds (entries s1 a) = Some (xs @ ys) \<and> host_reads_result p m s1"
  by (rule complete_reads [OF assms])

text \<open>In particular a failed sensor request reads as a success: the host looks at the payload, not at the return code.\<close>

theorem sensor_failure_masked:
  assumes "first_of_cid a cid p xs ys s" and "mb_eMsgType m = AMI_MSG_TYPE_SENSOR_COMPLETE"
    and "mb_xResult m \<noteq> AMI_PROXY_RESULT_SUCCESS"
  shows "\<exists>s1. cmd_complete E a (response_bytes (answer_of cid m)) s =
      raise_proxy_event E a AMC_PROXY_EVENT_RESPONSE_COMPLETE p s1 \<and>
    amc_proxy_get_response_sensor (Some p) s1 = Some (0, None) \<and> errno_of (mb_xResult m) < 0"
proof -
  have "answer_payload m = Some (Some (AMI_PROXY_STATS_SENSOR_MBOX_PEND, 0, 0))"
    using assms(2) by (simp add: answer_payload_def)
  moreover have "errno_of (mb_xResult m) < 0" using assms(3) by (cases "mb_xResult m") simp_all
  ultimately show ?thesis
    using complete_reads [OF assms(1), of m _ _ _ E] assms(2) by (fastforce simp: host_reads_result_def)
qed

section \<open>A response before its command is listed\<close>

lemma add_request_lists:
  assumes "entries s a = Some e" and "p \<notin> set (submitted_cmds e)"
  shows "\<exists>s'. add_request p (ret, Some a, s) = Some (ret, s') \<and> cmds s' = cmds s \<and>
    entries s' = (entries s)(a \<mapsto> e\<lparr>submitted_cmds := submitted_cmds e @ [p]\<rparr>)"
  using assms by (simp add: add_request_def list_add_tail_def upd_entry_def)


section \<open>Closing\<close>

text \<open>The callback returns and leaves the commands' timeouts, and these have all passed.\<close>

definition all_expired :: "'w proxy_env \<Rightarrow> nat list \<Rightarrow> cmd_store \<Rightarrow> bool" where
  "all_expired E ps m \<longleftrightarrow> (\<forall>p \<in> set ps. \<exists>c. m p = Some c \<and> (\<forall>w. time_before (cmd_timeout_jiffies c) (fst (jiffies E w))))"

definition callback_ok :: "'w proxy_env \<Rightarrow> bool" where
  "callback_ok E \<longleftrightarrow> (\<forall>cb i ev p m w. okay (proxy_callback E cb i ev p (m, w))
     (\<lambda>(m', w'). \<forall>q. map_option cmd_timeout_jiffies (m' q) = map_option cmd_timeout_jiffies (m q)))"

lemma all_expired_same:
  assumes "all_expired E ps m" and "\<And>q. map_option cmd_timeout_jiffies (m' q) = map_option cmd_timeout_jiffies (m q)"
  shows "all_expired E ps m'"
  unfolding all_expired_def
proof
  fix p assume "p \<in> set ps"
  then obtain c where "m p = Some c" "\<forall>w. time_before (cmd_timeout_jiffies c) (fst (jiffies E w))"
    using assms(1) by (auto simp: all_expired_def)
  with assms(2) [of p] show "\<exists>c. m' p = Some c \<and> (\<forall>w. time_before (cmd_timeout_jiffies c) (fst (jiffies E w)))" by auto
qed

lemma raise_keeps_entries:
  assumes "callback_ok E" and "entries s a = Some e"
  shows "okay (raise_proxy_event E a ev p s) (\<lambda>s'. entries s' = entries s \<and> amc_proxy_list s' = amc_proxy_list s \<and>
    (\<forall>q. map_option cmd_timeout_jiffies (cmds s' q) = map_option cmd_timeout_jiffies (cmds s q)))"
proof (cases "event_cb e")
  case (Some cb)
  have "okay (proxy_callback E cb (proxy_id e) ev p (cmds s, proxy_world s))
     (\<lambda>(m', w'). \<forall>q. map_option cmd_timeout_jiffies (m' q) = map_option cmd_timeout_jiffies (cmds s q))"
    using assms(1) unfolding callback_ok_def by blast
  then show ?thesis using assms(2) Some by (auto simp: raise_proxy_event_def okay_iff)
qed (simp add: raise_proxy_event_def assms(2))

lemma expire_head:
  assumes cb: "callback_ok E" and "entries s a = Some e" and "submitted_cmds e = p # ps" and "all_expired E (p # ps) (cmds s)"
  shows "okay (expire_cmd E True a p s) (\<lambda>s'. entries s' a = Some (e\<lparr>submitted_cmds := ps\<rparr>) \<and> all_expired E ps (cmds s') \<and>
    amc_proxy_list s' = amc_proxy_list s)"
proof -
  obtain c where c: "cmds s p = Some c" "time_before (cmd_timeout_jiffies c) (fst (jiffies E (proxy_world s)))"
    using assms(4) by (auto simp: all_expired_def)
  obtain now w where j: "jiffies E (proxy_world s) = (now, w)" by fastforce
  let ?s1 = "s\<lparr>proxy_world := w, entries := (entries s)(a \<mapsto> e\<lparr>submitted_cmds := ps\<rparr>),
    cmds := (cmds s)(p \<mapsto> c\<lparr>cmd_rcode := - ETIME\<rparr>)\<rparr>"
  have x: "all_expired E ps (cmds ?s1)"
    by (rule all_expired_same [where m = "cmds s"]) (use assms(4) c(1) in \<open>auto simp: all_expired_def\<close>)
  have "entries ?s1 a = Some (e\<lparr>submitted_cmds := ps\<rparr>)" by simp
  from raise_keeps_entries [OF cb this] have
    "okay (raise_proxy_event E a AMC_PROXY_EVENT_RESPONSE_TIMEOUT p ?s1) (\<lambda>s'. entries s' a = Some (e\<lparr>submitted_cmds := ps\<rparr>) \<and>
       all_expired E ps (cmds s') \<and> amc_proxy_list s' = amc_proxy_list s)"
    by (rule okay_weaken) (use all_expired_same [OF x] in auto)
  with c j assms(2,3) show ?thesis by (simp add: expire_cmd_def list_del_def upd_entry_def upd_cmd_def)
qed

lemma drain_all:
  assumes "callback_ok E" and "entries s a = Some e" and "submitted_cmds e = ps" and "all_expired E ps (cmds s)"
  shows "okay (for_each (expire_cmd E True a) ps s) (\<lambda>s'. entries s' a = Some (e\<lparr>submitted_cmds := []\<rparr>) \<and>
    amc_proxy_list s' = amc_proxy_list s)"
  using assms(2-4)
proof (induction ps arbitrary: s e)
  case (Cons p ps)
  from expire_head [OF assms(1) Cons.prems] obtain s1 where
    s1: "expire_cmd E True a p s = Some s1" "entries s1 a = Some (e\<lparr>submitted_cmds := ps\<rparr>)" "all_expired E ps (cmds s1)"
    "amc_proxy_list s1 = amc_proxy_list s"
    by (auto simp: okay_iff)
  from Cons.IH [OF s1(2) _ s1(3)] s1 show ?case by simp
qed simp

lemma drained:
  assumes "callback_ok E" and "entries s a = Some e" and "all_expired E (submitted_cmds e) (cmds s)"
  shows "okay (wait_drained E a s) (\<lambda>s'. entries s' a = Some (e\<lparr>submitted_cmds := []\<rparr>) \<and> amc_proxy_list s' = amc_proxy_list s)"
proof (cases "submitted_cmds e = []")
  case True
  then show ?thesis using assms(2) by (simp add: wait_drained.simps [of E a s] submitted_cmds_empty_def)
next
  case False
  let ?s0 = "s\<lparr>proxy_world := host_msleep E AMC_PROXY_MSLEEP_1S (proxy_world s)\<rparr>"
  from drain_all [OF assms(1), of ?s0 a e "submitted_cmds e"] assms(2,3) obtain s1 where
    "submitted_cmds_drain E a ?s0 = Some s1" "entries s1 a = Some (e\<lparr>submitted_cmds := []\<rparr>)" "amc_proxy_list s1 = amc_proxy_list s"
    by (auto simp: submitted_cmds_drain_def okay_iff)
  then show ?thesis
    using assms(2) False by (simp add: wait_drained.simps [of E a s] wait_drained.simps [of E a s1] submitted_cmds_empty_def)
qed

lemma close_in_first:
  "find_entry (entries s) g as = Some (Some a) \<Longrightarrow> entries s a = Some e \<Longrightarrow> initialised e \<Longrightarrow>
   close_in E g as s = close_entry E a (- EPERM) s"
  by (induction as) (auto split: bind_splits if_splits)

text \<open>
  C40: Closing the proxy returns once the submitted commands have expired, and frees its entry
  and takes it off the list.
\<close>

theorem close_returns:
  assumes "callback_ok E" and "find_matching_gcq_proxy_instance g s = Some (Some a)" and "entries s a = Some e"
    and "initialised e" and "all_expired E (submitted_cmds e) (cmds s)"
  shows "okay (amc_proxy_close E g s) (\<lambda>(ret, s'). entries s' a = None \<and> amc_proxy_list s' = remove1 a (amc_proxy_list s))"
proof -
  from drained [OF assms(1,3,5)] obtain s1 where
    s1: "wait_drained E a s = Some s1" "entries s1 a = Some (e\<lparr>submitted_cmds := []\<rparr>)" "amc_proxy_list s1 = amc_proxy_list s"
    by (auto simp: okay_iff)
  have "amc_proxy_close E g s = close_entry E a (- EPERM) s"
    using close_in_first assms(2-4) unfolding amc_proxy_close_def find_matching_gcq_proxy_instance_def by blast
  with s1 show ?thesis by (auto simp: close_entry_def Let_def split: prod.split)
qed

section \<open>A concrete proxy\<close>

text \<open>Two commands are submitted; every call of the kernel and the queue succeeds, the clock stands at 1000.\<close>

definition sample_proxy_env :: "unit proxy_env" where
  "sample_proxy_env = \<lparr>host_gcq_open = (\<lambda>g w. (0, w)), host_gcq_close = (\<lambda>g w. (0, w)),
     host_gcq_write = (\<lambda>g b w. (0, w)), host_gcq_read = (\<lambda>g w. (1, [], w)), host_kzalloc = (\<lambda>w. (Some 1, w)),
     kthread_create = (\<lambda>w. (0, w)), kthread_stop = (\<lambda>w. (0, w)), wake_up_process = (\<lambda>w. w),
     proxy_callback = (\<lambda>cb i ev p m. Some m), jiffies = (\<lambda>w. (1000, w)), host_msleep = (\<lambda>n w. w)\<rparr>"

definition sample_cmd :: "u16 \<Rightarrow> amc_proxy_cmd_struct" where
  "sample_cmd cid = \<lparr>cmd_complete_count = 0, cmd_complete_heartbeat = 0, cmd_timeout_jiffies = 500, cmd_rcode = 0,
     cmd_cid = cid, cmd_response = replicate 8 0, cmd_response_code = 0, cmd_gcq_cfg = 9, cmd_suppress_dbg = False,
     cmd_opcode = 0, timed_out = False\<rparr>"

definition sample_proxy :: "unit proxy_st" where
  "sample_proxy = \<lparr>amc_proxy_list = [1],
     entries = [1 \<mapsto> \<lparr>gcq_handle = 9, proxy_id = 0, event_cb = Some 1, response_thread_created = True,
       submitted_cmds = [10, 11], initialised = True\<rparr>],
     cmds = [10 \<mapsto> sample_cmd 4, 11 \<mapsto> sample_cmd 5, 12 \<mapsto> sample_cmd 6], proxy_world = ()\<rparr>"

definition sample_answer :: "AMI_MSG_TYPES \<Rightarrow> AMIMboxPayload \<Rightarrow> AMIProxyMboxMsg" where
  "sample_answer ty p = \<lparr>mb_eMsgType = ty, mb_ucRxDataIndex = 0, mb_xResult = AMI_PROXY_RESULT_FAILURE, mb_payload = p\<rparr>"

lemma sample_first: "first_of_cid 1 5 11 [10] [] sample_proxy"
  by (simp add: first_of_cid_def sample_proxy_def sample_cmd_def cmd_entry_def find_matching_gcq_proxy_instance_def)

lemma result_reaches_host_witness:
  "\<exists>s1. cmd_complete sample_proxy_env 1 (response_bytes (answer_of 5 (sample_answer AMI_MSG_TYPE_HEARTBEAT_COMPLETE (MboxHeartbeat 3)))) sample_proxy =
      raise_proxy_event sample_proxy_env 1 AMC_PROXY_EVENT_RESPONSE_COMPLETE 11 s1 \<and>
    map_option submitted_cmds (entries s1 1) = Some [10] \<and>
    amc_proxy_get_response_heartbeat (Some 11) s1 = Some (- EIO, Some 3)"
proof -
  have "answer_payload (sample_answer AMI_MSG_TYPE_HEARTBEAT_COMPLETE (MboxHeartbeat 3)) =
      Some (Some (AMI_PROXY_STATS_HEARTBEAT_MBOX_PEND, 3, 0))"
    by (simp add: answer_payload_def sample_answer_def)
  from result_reaches_host [OF sample_first this, of sample_proxy_env] show ?thesis
    by (auto simp: host_reads_result_def sample_answer_def)
qed

lemma sensor_failure_masked_witness:
  "\<exists>s1. cmd_complete sample_proxy_env 1 (response_bytes (answer_of 5 (sample_answer AMI_MSG_TYPE_SENSOR_COMPLETE NoPayload))) sample_proxy =
      raise_proxy_event sample_proxy_env 1 AMC_PROXY_EVENT_RESPONSE_COMPLETE 11 s1 \<and>
    amc_proxy_get_response_sensor (Some 11) s1 = Some (0, None)"
  using sensor_failure_masked [OF sample_first, of "sample_answer AMI_MSG_TYPE_SENSOR_COMPLETE NoPayload" sample_proxy_env]
  by (auto simp: sample_answer_def)


lemma close_returns_witness:
  "okay (amc_proxy_close sample_proxy_env 9 sample_proxy) (\<lambda>(ret, s'). entries s' 1 = None \<and> amc_proxy_list s' = [])"
proof -
  have cb: "callback_ok sample_proxy_env" by (simp add: callback_ok_def sample_proxy_env_def)
  have m: "find_matching_gcq_proxy_instance 9 sample_proxy = Some (Some 1)"
    by (simp add: find_matching_gcq_proxy_instance_def sample_proxy_def)
  have "all_expired sample_proxy_env [10, 11] (cmds sample_proxy)"
    by (simp add: all_expired_def sample_proxy_def sample_proxy_env_def sample_cmd_def time_before_def)
  with close_returns [OF cb m, of "\<lparr>gcq_handle = 9, proxy_id = 0, event_cb = Some 1, response_thread_created = True,
       submitted_cmds = [10, 11], initialised = True\<rparr>"]
  show ?thesis by (simp add: sample_proxy_def)
qed

end
