(* ===== verification/Spec2Isabelle.thy ===== *)
theory Spec2Isabelle
  imports GCQ_Instances EVL SMBus_Interrupt BMC_Types BMC_Reading MCTP_Packets ASDM_Power ASDM_Values
    Host_Readings Host_Discovery Host_Answers
begin

text \<open>
  A verification library for the AMC firmware of the Alveo management runtime
  (\<open>src/fw/AMC/src\<close>; the paths below are relative to it).

  \<^bold>\<open>The program.\<close>  The firmware runs on the management controller of an accelerator card.  It
  talks to the host through command queues in shared memory (the sGCQ driver below the AMI
  proxy), to the board controller through SMBus (the SMBus driver below the BMC proxy, which
  speaks MCTP and PLDM), and reads sensors and records over I2C.  The modules are bound to
  each other by events: each owns an event record of the event library, and raises events to
  the callbacks bound to it.  This library models five of its parts and how they fit together.

  \<^bold>\<open>Which theory models what.\<close>
  \<^item> \<open>AMR_Prelude\<close>: word abbreviations, \<open>post\<close> and \<open>okay\<close> (partial and total correctness of an
    option-valued operation), bounded C arrays, little-endian words; \<open>Byte_Buffer\<close>: checked
    access to packed structures inside byte buffers; \<open>Bounded_Fifo\<close>: the locale of a bounded
    first-in first-out queue, with the refinement and conservation theorems proved once.
  \<^item> SMBus driver (\<open>device_drivers/smbus_driver/src\<close>): \<open>SMBus_EventBuffer\<close>
    (\<open>smbus_event_buffer.c\<close>), \<open>SMBus_Types\<close> (\<open>smbus.h\<close>, \<open>smbus_internal.h\<close>), \<open>SMBus_Log\<close>
    (\<open>smbus_circular_log.c\<close>), \<open>SMBus_HW\<close> (\<open>smbus_hw_access.c\<close>), \<open>SMBus_Event\<close> (\<open>smbus_event.c\<close>),
    \<open>SMBus_Action\<close> (\<open>smbus_action.c\<close>), \<open>SMBus_State\<close>, \<open>SMBus_Target\<close>, \<open>SMBus_Transfer\<close>,
    \<open>SMBus_Controller\<close> and \<open>SMBus_FSM\<close> (\<open>smbus_state.c\<close>), \<open>SMBus_Driver\<close>, \<open>SMBus_Devices\<close> and
    \<open>SMBus_Commands\<close> (\<open>smbus_driver.c\<close>), \<open>SMBus_Interrupt\<close> (\<open>smbus_interrupt_handler.c\<close>).
  \<^item> sGCQ driver (\<open>device_drivers/gcq_driver/src\<close>): \<open>GCQ_Ring\<close> (\<open>gcq_ring.h\<close>) and \<open>GCQ_Driver\<close>
    (\<open>gcq_driver.c\<close>).
  \<^item> Event library (\<open>common/core_libs/evl\<close>): \<open>EVL\<close>.
  \<^item> BMC proxy (\<open>proxy_drivers/bmc\<close>): \<open>BMC_State\<close>, \<open>BMC_Sensors\<close> and \<open>BMC_Proxy\<close>
    (\<open>bmc_proxy_driver.c\<close>), \<open>BMC_Repository\<close> (the descriptor repository, with \<open>pldm_pdr.c\<close>);
    its PLDM: \<open>PLDM_Crc\<close> (the checksums), \<open>PLDM_Commands\<close> (\<open>pldm_commands.c\<close>), \<open>PLDM_Processor\<close>
    (\<open>pldm_processor.c\<close>, \<open>pldm_parser.c\<close>); its MCTP: \<open>MCTP\<close> (\<open>mctp_commands.c\<close>, \<open>mctp_parser.c\<close>,
    \<open>mctp_interpreter.c\<close>).

  \<^bold>\<open>How the code is translated.\<close>  An integer of a fixed width is a word, so it wraps as in C.  A
  structure is a record with the code's member names, an enumeration a datatype, or a byte
  where the code compares it with bytes.  Static variables are a record passed from operation
  to operation.  A fixed array is a function with checked access, a packed structure or a message
  buffer a list of bytes with checked access; an access outside is \<open>None\<close>, which stands for
  undefined behaviour everywhere.  A pointer that may be null is an option.  Error codes are
  ordinary results.  A function pointer of a table is a constructor.  Loops over hardware
  that need not end are \<open>partial_function (option)\<close>, so that \<open>None\<close> also covers not returning.
  Logging to the console is left out; whatever it counts or stores is not.

  \<^bold>\<open>Parameters.\<close>  Registers, shared memory, the operating system, callbacks and the transports are
  records of functions on a world of type \<open>'w\<close> (\<open>smbus_env\<close>, \<open>evl_env\<close>, \<open>bmc_env\<close>, the input
  and output of a GCQ instance).  What a theorem needs of them is a named hypothesis:
  \<open>plain_regs\<close> (registers that store what is written), \<open>drained\<close> (reading a receive FIFO takes an
  element out), \<open>gcq_view\<close> (what the shared memory holds), \<open>quiet_os\<close> (mutexes are granted),
  \<open>logs_writes\<close> (writes succeed and are recorded), \<open>env_wf\<close> (callbacks keep the buffers' sizes).

  \<^bold>\<open>What the lemmas show.\<close>
  \<^item> \<open>SMBus_EventBuffer\<close> and \<open>GCQ_Channel\<close> interpret \<open>Bounded_Fifo\<close>: the event buffer, and two
    driver instances joined by a ring, refine a bounded queue and lose, duplicate and invent
    nothing.  \<open>GCQ_Instances\<close>: the instance table, the slots' places inside the ring, the size
    allocation chooses, and when it does not return.
  \<^item> \<open>EVL\<close>: what the event log holds, who is called and in which order.
  \<^item> \<open>SMBus_Log\<close>, \<open>SMBus_Registers\<close>: the log's contents, the round trip of the control registers.
  \<^item> \<open>SMBus_FSM_Transitions\<close>, \<open>SMBus_Frames\<close>, \<open>SMBus_FSM_Runs\<close>, \<open>SMBus_Recovery\<close>: the transition table
    of the state machine, what an event of one instance leaves alone of the others, the
    invariants of every run, and the return to the initial state after an error.
  \<^item> \<open>SMBus_Arbitration\<close>: which instance answers Get UDID, and where the code reads too far.
  \<^item> \<open>SMBus_Table\<close>, \<open>SMBus_Queues\<close>, \<open>SMBus_Interrupt\<close>: the instance table through every sequence of
    calls, what the queue handler and the interrupt handler leave behind.
  \<^item> \<open>PLDM_Crc\<close>: the tables compute the checksums defined bit by bit.  \<open>BMC_Records\<close>: the built
    repository.  \<open>PLDM_Transfer\<close>: fetching a record part by part; the fuel of \<open>fetch_pdr\<close> is a
    bound on the number of requests, and one more than the record's bytes is enough.
  \<^item> \<open>MCTP_Packets\<close>: responses cut into packets, requests assembled from packets; \<open>BMC_Reading\<close>: a
    sensor reading from the request to the application and back; \<open>BMC_Types\<close>: the sizes of all
    buffers through a turn of the task.

  \<^bold>\<open>Not modelled.\<close>  The operating system abstraction and the I2C, OSPI and eMMC drivers wrap
  FreeRTOS and the vendor's drivers, which are not in the repository.  The endless loops of
  tasks are modelled by one turn.  Console output and debug menus are left out.  The host side
  (\<open>src/sw\<close>) and the remaining applications and proxies of the firmware are not modelled yet:
  next are the sensor repository (\<open>apps/asdm\<close>) and the AMI proxy, then the telemetry between
  them.
\<close>

end
